(* ===== verification/Prelude.thy ===== *)
theory Prelude
  imports Main "HOL-Library.Multiset" "HOL-Library.Product_Lexorder" "HOL-Library.List_Lexorder"
begin

text \<open>
  Shared types and lemmas of the development: Python strings as lists of code points,
  timestamps, exceptions, the slices and clamps the services use, association lists for
  dictionaries whose order matters, and the storage interface (a keyed table whose rows are
  read, changed and written back) that the components share.
\<close>

section \<open>Collections of facts\<close>

named_theorems py_defs "definitions of the small Python helpers"
named_theorems frame "what an operation leaves unchanged"
named_theorems inv_intros "preservation of a component's invariant by its operations"

section \<open>Strings\<close>

text \<open>
  A Python \<open>str\<close> is a sequence of code points, so slicing (\<open>text[:500]\<close>) counts code
  points, not bytes. \<open>u\<close> turns an ASCII literal into one; messages that are not ASCII are
  written out as code points in the theory Messages.
\<close>

type_synonym ustr = "int list"

definition u :: "string \<Rightarrow> ustr" where
  "u s = map of_char s"

lemma inj_of_char_int: "inj (of_char :: char \<Rightarrow> int)"
  by (rule injI) (simp add: of_char_eq_iff)

lemma u_eq_iff [simp]: "u s = u t \<longleftrightarrow> s = t"
  by (simp add: u_def inj_map_eq_map [OF inj_of_char_int])

lemma u_Nil_iff [simp]: "u s = [] \<longleftrightarrow> s = []" "[] = u s \<longleftrightarrow> s = []"
  by (auto simp: u_def)

lemma length_u [simp]: "length (u s) = length s"
  by (simp add: u_def)

lemma u_append: "u (s @ t) = u s @ u t"
  by (simp add: u_def)

text \<open>\<open>str.isspace\<close> on one code point, and \<open>str.strip()\<close>.\<close>

definition is_space :: "int \<Rightarrow> bool" where
  "is_space c \<longleftrightarrow>
     (9 \<le> c \<and> c \<le> 13) \<or> (28 \<le> c \<and> c \<le> 32) \<or> c = 133 \<or> c = 160 \<or> c = 5760 \<or>
     (8192 \<le> c \<and> c \<le> 8202) \<or> c = 8232 \<or> c = 8233 \<or> c = 8239 \<or> c = 8287 \<or> c = 12288"

definition strip :: "ustr \<Rightarrow> ustr" where
  "strip s = rev (dropWhile is_space (rev (dropWhile is_space s)))"

text \<open>
  \<open>str.lower()\<close> on the ASCII letters; identifiers and statuses are ASCII, and no other
  code point lower-cases to a hexadecimal digit.
\<close>

definition lower_char :: "int \<Rightarrow> int" where
  "lower_char c = (if 65 \<le> c \<and> c \<le> 90 then c + 32 else c)"

definition lower :: "ustr \<Rightarrow> ustr" where
  "lower s = map lower_char s"

definition is_hex_char :: "int \<Rightarrow> bool" where
  "is_hex_char c \<longleftrightarrow> (48 \<le> c \<and> c \<le> 57) \<or> (97 \<le> c \<and> c \<le> 102)"

lemma strip_Nil [simp]: "strip [] = []"
  by (simp add: strip_def)

lemma lower_Nil [simp]: "lower [] = []"
  by (simp add: lower_def)

lemma lower_char_idem [simp]: "lower_char (lower_char c) = lower_char c"
  by (simp add: lower_char_def)

lemma lower_idem [simp]: "lower (lower s) = lower s"
  by (simp add: lower_def)

lemma length_strip_le: "length (strip s) \<le> length s"
  by (metis length_dropWhile_le length_rev le_trans strip_def)

lemma dropWhile_idem [simp]: "dropWhile P (dropWhile P xs) = dropWhile P xs"
  by (induction xs) auto

text \<open>Letters and digits: of the characters beyond ASCII the CJK ideographs count as letters, and no
  others as digits.\<close>

definition is_digit :: "int \<Rightarrow> bool" where
  "is_digit c \<longleftrightarrow> 48 \<le> c \<and> c \<le> 57"

definition is_alnum :: "int \<Rightarrow> bool" where
  "is_alnum c \<longleftrightarrow> is_digit c \<or> (65 \<le> c \<and> c \<le> 90) \<or> (97 \<le> c \<and> c \<le> 122) \<or> (19968 \<le> c \<and> c \<le> 40959)"

lemma is_space_lower_char [simp]: "is_space (lower_char c) = is_space c"
  by (auto simp: is_space_def lower_char_def)

lemma strip_lower: "strip (lower s) = lower (strip s)"
  by (simp add: strip_def lower_def dropWhile_map comp_def rev_map)

lemma strip_ends:
  assumes "strip s \<noteq> []"
  shows "\<not> is_space (hd (strip s)) \<and> \<not> is_space (last (strip s))"
proof -
  let ?d = "dropWhile is_space s"
  have ne: "?d \<noteq> []"
  proof
    assume "?d = []"
    then have "strip s = []" by (simp only: strip_def) simp
    with assms show False by simp
  qed
  obtain k where k: "?d = strip s @ k"
    using takeWhile_dropWhile_id [of is_space "rev ?d"] by (metis rev_append rev_rev_ident strip_def)
  have "\<not> is_space (hd ?d)" using hd_dropWhile ne by blast
  with assms k have "\<not> is_space (hd (strip s))" by (metis hd_append2)
  moreover have "\<not> is_space (hd (dropWhile is_space (rev ?d)))"
    using assms hd_dropWhile [of is_space "rev ?d"] by (simp add: strip_def)
  then have "\<not> is_space (last (strip s))" by (simp add: strip_def last_rev)
  ultimately show ?thesis by blast
qed

lemma strip_idem [simp]: "strip (strip s) = strip s"
proof (cases "strip s = []")
  case False
  from strip_ends [OF False] have "dropWhile is_space (strip s) = strip s"
    using False by (cases "strip s") auto
  moreover from strip_ends [OF False] have "dropWhile is_space (rev (strip s)) = rev (strip s)"
    using False by (cases "strip s" rule: rev_cases) auto
  ultimately show ?thesis by (subst strip_def) simp
qed simp

text \<open>\<open>a or b\<close> on strings: the first non-empty one.\<close>

definition str_or :: "ustr \<Rightarrow> ustr \<Rightarrow> ustr" where
  "str_or a b = (if a = [] then b else a)"

lemma str_or_simps [simp]: "str_or [] b = b" "a \<noteq> [] \<Longrightarrow> str_or a b = a" "str_or a [] = a"
  by (auto simp: str_or_def)

section \<open>Texts\<close>

text \<open>\<open>str(n)\<close>, \<open>s.split(sep, 1)\<close> with its two parts when \<open>sep\<close> occurs, and \<open>str.splitlines()\<close>,
  whose lines may also be empty where the program skips empty lines.\<close>

fun nat_text :: "nat \<Rightarrow> ustr" where
  "nat_text n = (if n < 10 then [48 + int n] else nat_text (n div 10) @ [48 + int (n mod 10)])"

declare nat_text.simps [simp del]

definition int_text :: "int \<Rightarrow> ustr" where
  "int_text n = (if n < 0 then 45 # nat_text (nat (- n)) else nat_text (nat n))"

fun split_once :: "ustr \<Rightarrow> ustr \<Rightarrow> (ustr \<times> ustr) option" where
  "split_once sep [] = (if sep = [] then Some ([], []) else None)"
| "split_once sep (c # cs) =
     (if take (length sep) (c # cs) = sep then Some ([], drop (length sep) (c # cs))
      else map_option (apfst (Cons c)) (split_once sep cs))"

lemma split_once_Some: "split_once sep s = Some (a, b) \<Longrightarrow> s = a @ sep @ b"
proof (induction s arbitrary: a b)
  case (Cons c cs)
  show ?case
  proof (cases "take (length sep) (c # cs) = sep")
    case True
    with Cons.prems have "a = []" "b = drop (length sep) (c # cs)" by simp_all
    with True append_take_drop_id [of "length sep" "c # cs"] show ?thesis by simp
  qed (use Cons in \<open>auto split: option.splits\<close>)
qed (simp split: if_splits)

text \<open>\<open>int(text)\<close>: spaces around, a sign, and digits between which single underscores may stand.\<close>

fun digits_value :: "int \<Rightarrow> bool \<Rightarrow> ustr \<Rightarrow> int option" where
  "digits_value acc after_digit [] = (if after_digit then Some acc else None)"
| "digits_value acc after_digit (c # cs) =
     (if 48 \<le> c \<and> c \<le> 57 then digits_value (10 * acc + (c - 48)) True cs
      else if c = 95 \<and> after_digit then digits_value acc False cs
      else None)"

definition py_int :: "ustr \<Rightarrow> int option" where
  "py_int s = (case strip s of
     [] \<Rightarrow> None
   | c # cs \<Rightarrow> if c = 45 then map_option uminus (digits_value 0 False cs)
       else if c = 43 then digits_value 0 False cs else digits_value 0 False (c # cs))"

definition is_line_break :: "int \<Rightarrow> bool" where
  "is_line_break c \<longleftrightarrow> c \<in> {10, 11, 12, 13, 28, 29, 30, 133, 8232, 8233}"

fun cut_lines :: "ustr \<Rightarrow> ustr \<Rightarrow> ustr list" where
  "cut_lines line [] = [rev line]"
| "cut_lines line (c # cs) = (if is_line_break c then rev line # cut_lines [] cs else cut_lines (c # line) cs)"

definition splitlines :: "ustr \<Rightarrow> ustr list" where
  "splitlines s = cut_lines [] s"

fun join_texts :: "ustr \<Rightarrow> ustr list \<Rightarrow> ustr" where
  "join_texts sep [] = []"
| "join_texts sep [p] = p"
| "join_texts sep (p # q # ps) = p @ sep @ join_texts sep (q # ps)"

section \<open>Timestamps\<close>

text \<open>
  A timestamp field holds the empty string or an ISO text written by \<open>isoformat()\<close> in UTC;
  the model keeps microseconds since the epoch. The library's texts compare like the
  instants they denote, and the empty string is below all of them, which is the order here.
\<close>

datatype stamp = Unset | At int

fun stamp_time :: "stamp \<Rightarrow> int option" where
  "stamp_time Unset = None"
| "stamp_time (At t) = Some t"

definition stamp_or :: "stamp \<Rightarrow> stamp \<Rightarrow> stamp" where
  "stamp_or a b = (if a = Unset then b else a)"

lemma stamp_or_simps [simp]: "stamp_or Unset b = b" "stamp_or (At t) b = At t"
  by (simp_all add: stamp_or_def)

lemma stamp_time_None [simp]: "stamp_time s = None \<longleftrightarrow> s = Unset"
  by (cases s) auto

instantiation stamp :: linorder
begin

fun less_eq_stamp :: "stamp \<Rightarrow> stamp \<Rightarrow> bool" where
  "less_eq_stamp Unset _ = True"
| "less_eq_stamp (At _) Unset = False"
| "less_eq_stamp (At a) (At b) = (a \<le> b)"

definition less_stamp :: "stamp \<Rightarrow> stamp \<Rightarrow> bool" where
  "less_stamp a b \<longleftrightarrow> a \<le> b \<and> \<not> b \<le> a"

instance
proof
  fix a b c :: stamp
  show "(a < b) = (a \<le> b \<and> \<not> b \<le> a)"
    by (simp add: less_stamp_def)
  show "a \<le> a"
    by (cases a) auto
  show "a \<le> b \<Longrightarrow> b \<le> c \<Longrightarrow> a \<le> c"
    by (cases a; cases b; cases c) auto
  show "a \<le> b \<Longrightarrow> b \<le> a \<Longrightarrow> a = b"
    by (cases a; cases b) auto
  show "a \<le> b \<or> b \<le> a"
    by (cases a; cases b) auto
qed

end

lemma stamp_less_simps [simp]: "Unset < At t" "\<not> s < Unset" "At a < At b \<longleftrightarrow> a < b"
  by (cases s) (auto simp: less_stamp_def)

text \<open>\<open>timedelta(seconds=n)\<close>, \<open>minutes\<close>, \<open>hours\<close> and \<open>days\<close> in microseconds.\<close>

definition secs :: "int \<Rightarrow> int" where "secs n = n * 1000000"
definition mins :: "int \<Rightarrow> int" where "mins n = secs (60 * n)"
definition hours :: "int \<Rightarrow> int" where "hours n = secs (3600 * n)"
definition days :: "int \<Rightarrow> int" where "days n = secs (86400 * n)"

lemma secs_mono [simp]: "secs a \<le> secs b \<longleftrightarrow> a \<le> b" "secs a < secs b \<longleftrightarrow> a < b"
  by (simp_all add: secs_def)

lemma secs_pos [simp]: "0 < secs n \<longleftrightarrow> 0 < n" "0 \<le> secs n \<longleftrightarrow> 0 \<le> n"
  by (simp_all add: secs_def)

section \<open>Exceptions\<close>

text \<open>\<open>OutOfDraws\<close> is none of Python's: it marks a run of the model for which the random draws listed
  did not suffice, where the program would draw again.\<close>

datatype py_error =
    FileNotFoundError
  | KeyError
  | PermissionError
  | ValueError ustr
  | RuntimeError ustr
  | QuotaExceeded ustr
  | InvalidOperation
  | HTTPException int ustr
  | OpenAIAPIError int ustr
  | OverflowError
  | TypeError
  | OutOfDraws

type_synonym 'a result = "py_error + 'a"

text \<open>A list comprehension whose body can raise.\<close>

fun map_result :: "('a \<Rightarrow> 'b result) \<Rightarrow> 'a list \<Rightarrow> 'b list result" where
  "map_result f [] = Inr []"
| "map_result f (x # xs) = (case f x of
     Inl e \<Rightarrow> Inl e
   | Inr y \<Rightarrow> map_sum id (\<lambda>ys. y # ys) (map_result f xs))"

section \<open>Numbers and slices\<close>

text \<open>\<open>max(lo, min(hi, x))\<close> and \<open>x or d\<close> on integers.\<close>

definition clamp :: "int \<Rightarrow> int \<Rightarrow> int \<Rightarrow> int" where
  "clamp lo hi x = max lo (min hi x)"

definition int_or :: "int \<Rightarrow> int \<Rightarrow> int" where
  "int_or x d = (if x = 0 then d else x)"

lemma clamp_bounds: "lo \<le> hi \<Longrightarrow> lo \<le> clamp lo hi x \<and> clamp lo hi x \<le> hi"
  by (auto simp: clamp_def)

lemma clamp_id: "lo \<le> x \<Longrightarrow> x \<le> hi \<Longrightarrow> clamp lo hi x = x"
  by (simp add: clamp_def)

text \<open>\<open>xs[-n:]\<close> for a positive \<open>n\<close>.\<close>

definition last_n :: "nat \<Rightarrow> 'a list \<Rightarrow> 'a list" where
  "last_n n xs = drop (length xs - n) xs"

lemma length_last_n [simp]: "length (last_n n xs) = min n (length xs)"
  by (simp add: last_n_def)

lemma set_last_n: "set (last_n n xs) \<subseteq> set xs"
  by (simp add: last_n_def set_drop_subset)

lemma last_n_all [simp]: "length xs \<le> n \<Longrightarrow> last_n n xs = xs"
  by (simp add: last_n_def)

lemma last_n_snoc_in: "0 < n \<Longrightarrow> x \<in> set (last_n n (xs @ [x]))"
  by (auto simp: last_n_def Suc_diff_le)

lemma last_last_n: "0 < n \<Longrightarrow> xs \<noteq> [] \<Longrightarrow> last (last_n n xs) = last xs"
  by (simp add: last_n_def)

lemma distinct_last_n: "distinct xs \<Longrightarrow> distinct (last_n n xs)"
  by (simp add: last_n_def)

text \<open>\<open>next((x for x in xs if p(x)), None)\<close> is \<open>find\<close>; the first match updated in place.\<close>

fun update_first :: "('a \<Rightarrow> bool) \<Rightarrow> ('a \<Rightarrow> 'a) \<Rightarrow> 'a list \<Rightarrow> 'a list" where
  "update_first p f [] = []"
| "update_first p f (x # xs) = (if p x then f x # xs else x # update_first p f xs)"

lemma length_update_first [simp]: "length (update_first p f xs) = length xs"
  by (induction xs) auto

lemma update_first_none: "find p xs = None \<Longrightarrow> update_first p f xs = xs"
  by (induction xs) (auto split: if_splits)

lemma update_first_split:
  "find p xs = Some x \<Longrightarrow>
     \<exists>as bs. xs = as @ x # bs \<and> p x \<and> (\<forall>a \<in> set as. \<not> p a) \<and> update_first p f xs = as @ f x # bs"
proof (induction xs)
  case Nil
  then show ?case by simp
next
  case (Cons y ys)
  show ?case
  proof (cases "p y")
    case True
    with Cons.prems have "y # ys = [] @ x # ys" "p x" "update_first p f (y # ys) = [] @ f x # ys"
      by auto
    then show ?thesis by fastforce
  next
    case False
    with Cons obtain as bs where "ys = as @ x # bs" "p x" "\<forall>a \<in> set as. \<not> p a"
      "update_first p f ys = as @ f x # bs" by auto
    with False have "y # ys = (y # as) @ x # bs" "p x" "\<forall>a \<in> set (y # as). \<not> p a"
      "update_first p f (y # ys) = (y # as) @ f x # bs" by auto
    then show ?thesis by blast
  qed
qed

lemma find_Some_in: "find p xs = Some x \<Longrightarrow> x \<in> set xs \<and> p x"
  by (induction xs) (auto split: if_splits)

lemma map_update_first:
  "(\<And>x. p x \<Longrightarrow> g (f x) = g x) \<Longrightarrow> map g (update_first p f xs) = map g xs"
  by (induction xs) auto

lemma set_update_first: "set (update_first p f xs) \<subseteq> set xs \<union> f ` {x \<in> set xs. p x}"
  by (induction xs) auto

text \<open>
  \<open>sort(key=...)\<close> and \<open>sort(key=..., reverse=True)\<close>: both are stable, the second too
  keeps equal elements in their order.
\<close>

definition sort_desc :: "('a \<Rightarrow> 'k::linorder) \<Rightarrow> 'a list \<Rightarrow> 'a list" where
  "sort_desc k xs = rev (sort_key k (rev xs))"

lemma set_sort_desc [simp]: "set (sort_desc k xs) = set xs"
  by (simp add: sort_desc_def)

lemma mset_sort_desc [simp]: "mset (sort_desc k xs) = mset xs"
  by (simp add: sort_desc_def)

lemma length_sort_desc [simp]: "length (sort_desc k xs) = length xs"
  by (simp add: sort_desc_def)

lemma sorted_sort_desc: "sorted_wrt (\<lambda>a b. k b \<le> k a) (sort_desc k xs)"
  using sorted_sort_key [of k "rev xs"] by (simp add: sort_desc_def sorted_wrt_rev sorted_map)

lemma distinct_sort_desc [simp]: "distinct (map f (sort_desc k xs)) = distinct (map f xs)"
  by (metis distinct_map distinct_rev mset_sort_desc rev_map set_sort_desc sort_desc_def distinct_sort)

text \<open>Pages of a listing: \<open>page\<close> is brought into range and the slice is taken.\<close>

definition page_count :: "int \<Rightarrow> int \<Rightarrow> int" where
  "page_count n m = max 1 ((n + m - 1) div m)"

definition page_of :: "int \<Rightarrow> int \<Rightarrow> int \<Rightarrow> int" where
  "page_of n m page = min (max 1 page) (page_count n m)"

definition page_slice :: "int \<Rightarrow> int \<Rightarrow> 'a list \<Rightarrow> 'a list" where
  "page_slice m page xs = take (nat m) (drop (nat ((page - 1) * m)) xs)"

lemma page_of_bounds: "1 \<le> page_of t s p" "page_of t s p \<le> page_count t s"
  by (auto simp: page_of_def page_count_def)

lemma length_page_slice: "0 \<le> m \<Longrightarrow> int (length (page_slice m p xs)) \<le> m"
  by (simp add: page_slice_def)

text \<open>The pages put together are the listing: no row is lost and none is shown twice.\<close>

lemma concat_slices:
  "concat (map (\<lambda>i. take n (drop (i * n) xs)) [0..<k]) = take (k * n) xs"
proof (induction k)
  case (Suc k)
  have "take (Suc k * n) xs = take (k * n) xs @ take n (drop (k * n) xs)"
    using take_add [of "k * n" n xs] by (simp add: add.commute)
  with Suc show ?case by simp
qed simp

lemma pages_cover:
  assumes "0 < m"
  shows "concat (map (\<lambda>i. page_slice m (int i + 1) xs) [0..<nat (page_count (int (length xs)) m)]) = xs"
proof -
  let ?l = "int (length xs)" and ?k = "nat (page_count (int (length xs)) m)"
  have "?l \<le> (?l + m - 1) div m * m"
  proof -
    have "(?l + m - 1) div m * m + (?l + m - 1) mod m = ?l + m - 1" by simp
    moreover have "(?l + m - 1) mod m < m" using assms by simp
    ultimately show ?thesis by linarith
  qed
  also have "\<dots> \<le> page_count ?l m * m"
    using assms by (simp add: page_count_def)
  also have "\<dots> = int (?k * nat m)"
    using assms by (simp add: page_count_def)
  finally have "length xs \<le> ?k * nat m" by linarith
  then have "take (?k * nat m) xs = xs" by simp
  moreover have "page_slice m (int i + 1) xs = take (nat m) (drop (i * nat m) xs)" for i
    using assms by (simp add: page_slice_def nat_mult_distrib)
  ultimately show ?thesis by (simp add: concat_slices)
qed

section \<open>Results\<close>

lemma map_sum_Inr: "map_sum id f r = Inr y \<longleftrightarrow> (\<exists>x. r = Inr x \<and> y = f x)"
  by (cases r) auto

lemma map_result_Inr: "map_result f xs = Inr ys \<Longrightarrow> map f xs = map Inr ys"
  by (induction xs arbitrary: ys) (auto split: sum.splits simp: map_sum_Inr)

lemma map_sum_Inl: "map_sum id f r = Inl e \<longleftrightarrow> r = Inl e"
  by (cases r) auto

end
