(* ===== verification/Messages.thy ===== *)
theory Messages
  imports Prelude
begin

text \<open>
  The texts of the program that are not ASCII, as the code points of the source's literals;
  each has its meaning and its file beside it.
\<close>

text \<open>Points format invalid (billing.py)\<close>
definition msg_points_format :: ustr where
  "msg_points_format =
   [31215, 20998, 26684, 24335, 26080, 25928]"

text \<open>Points must be positive and a multiple of 0.1 (billing.py)\<close>
definition msg_points_positive :: ustr where
  "msg_points_positive =
   [31215, 20998, 24517, 39035, 20026, 27491, 25968, 19988, 31934, 30830, 21040, 48, 46, 49]"

text \<open>Points must be non-negative and a multiple of 0.1 (billing.py)\<close>
definition msg_points_nonnegative :: ustr where
  "msg_points_nonnegative =
   [31215, 20998, 24517, 39035, 22823, 20110, 31561, 20110, 32, 48, 32, 19988, 31934, 30830,
     21040, 32, 48, 46, 49]"

text \<open>Billing priority invalid (temp_access.py)\<close>
definition msg_priority_invalid :: ustr where
  "msg_priority_invalid =
   [25187, 36153, 20248, 20808, 32423, 26080, 25928]"

text \<open>Not enough points (temp_access.py)\<close>
definition msg_points_insufficient :: ustr where
  "msg_points_insufficient =
   [29992, 25143, 31215, 20998, 19981, 36275]"

text \<open>Video quota must be a multiple of 0.1 (temp_access.py)\<close>
definition msg_quota_format :: ustr where
  "msg_quota_format =
   [35270, 39057, 39069, 24230, 24517, 39035, 31934, 30830, 21040, 32, 48, 46, 49]"

text \<open>Video quota change must not be 0 (temp_access.py)\<close>
definition msg_quota_zero :: ustr where
  "msg_quota_zero =
   [35270, 39057, 39069, 24230, 25968, 37327, 19981, 33021, 20026, 32, 48]"

text \<open>Not enough video quota (temp_access.py)\<close>
definition msg_quota_insufficient :: ustr where
  "msg_quota_insufficient =
   [29992, 25143, 35270, 39057, 39069, 24230, 19981, 36275]"

text \<open>Points must be above 0 (temp_access.py)\<close>
definition msg_credit_positive :: ustr where
  "msg_credit_positive =
   [31215, 20998, 24517, 39035, 22823, 20110, 48]"

text \<open>The number to generate is 1-200 (point_cards.py, invitation_codes.py)\<close>
definition msg_count_range :: ustr where
  "msg_count_range =
   [29983, 25104, 25968, 37327, 38656, 20026, 32, 49, 45, 50, 48, 48]"

text \<open>Card status invalid (point_cards.py)\<close>
definition msg_card_status :: ustr where
  "msg_card_status =
   [21345, 23494, 29366, 24577, 26080, 25928]"

text \<open>Choose the cards to delete (point_cards.py)\<close>
definition msg_card_select :: ustr where
  "msg_card_select =
   [35831, 36873, 25321, 35201, 21024, 38500, 30340, 21345, 23494]"

text \<open>Card format invalid (point_cards.py)\<close>
definition msg_card_format :: ustr where
  "msg_card_format =
   [21345, 23494, 26684, 24335, 26080, 25928]"

text \<open>Card already used (point_cards.py)\<close>
definition msg_card_used :: ustr where
  "msg_card_used =
   [21345, 23494, 24050, 34987, 20351, 29992]"

text \<open>An invitation code has 4-32 characters (invitation_codes.py)\<close>
definition msg_code_length :: ustr where
  "msg_code_length =
   [36992, 35831, 30721, 38271, 24230, 38656, 20026, 32, 52, 45, 51, 50]"

text \<open>Invitation code invalid (invitation_codes.py)\<close>
definition msg_code_invalid :: ustr where
  "msg_code_invalid =
   [36992, 35831, 30721, 26080, 25928]"

text \<open>One code must be kept while codes are required (invitation_codes.py)\<close>
definition msg_code_keep_one :: ustr where
  "msg_code_keep_one =
   [21551, 29992, 36992, 35831, 30721, 27880, 20876, 26102, 33267, 23569, 38656, 35201, 20445,
     30041, 19968, 20010, 36992, 35831, 30721]"

text \<open>Usage filter invalid (invitation_codes.py)\<close>
definition msg_usage_filter :: ustr where
  "msg_usage_filter =
   [36992, 35831, 30721, 20351, 29992, 29366, 24577, 31579, 36873, 26080, 25928]"

text \<open>Retrying, please wait (store.py)\<close>
definition msg_retrying :: ustr where
  "msg_retrying =
   [27491, 22312, 37325, 35797, 20013, 65292, 35831, 31245, 31561, 65281]"

text \<open>Retry ran for more than 30 minutes (store.py)\<close>
definition msg_retry_expired :: ustr where
  "msg_retry_expired =
   [37325, 35797, 36229, 36807, 51, 48, 20998, 38047, 65292, 29983, 25104, 22833, 36133]"

text \<open>Generation timed out (store.py)\<close>
definition msg_task_expired :: ustr where
  "msg_task_expired =
   [36229, 26102, 29983, 25104, 22833, 36133]"

text \<open>Task did not enter the queue (store.py)\<close>
definition msg_not_queued :: ustr where
  "msg_not_queued =
   [20219, 21153, 26410, 25104, 21151, 36827, 20837, 38431, 21015, 65292, 35831, 37325, 26032,
     25552, 20132]"

text \<open>Failed without detail, phase prefix (store.py)\<close>
definition msg_failed_without_detail :: ustr where
  "msg_failed_without_detail =
   [20219, 21153, 25191, 34892, 22833, 36133, 20294, 26410, 36820, 22238, 38169, 35823, 35814,
     24773, 65288, 38454, 27573, 65306]"

text \<open>The closing bracket of the message before (store.py)\<close>
definition msg_failed_without_detail_end :: ustr where
  "msg_failed_without_detail_end =
   [65289]"

text \<open>Retry queued, waiting (store.py)\<close>
definition msg_retry_verified :: ustr where
  "msg_retry_verified =
   [37325, 35797, 24050, 20837, 38431, 65292, 31561, 24453, 25191, 34892]"

text \<open>Assigning resources (store.py)\<close>
definition msg_assigning :: ustr where
  "msg_assigning =
   [27491, 22312, 20998, 37197, 29983, 25104, 36164, 28304]"

text \<open>Queueing again (store.py)\<close>
definition msg_requeueing :: ustr where
  "msg_requeueing =
   [27491, 22312, 37325, 26032, 25490, 38431]"

text \<open>Task is queued (store.py)\<close>
definition msg_queueing :: ustr where
  "msg_queueing =
   [20219, 21153, 25490, 38431, 20013]"

text \<open>The user canceled (store.py, batch_jobs.py)\<close>
definition msg_user_cancel :: ustr where
  "msg_user_cancel =
   [29992, 25143, 21462, 28040, 29983, 25104]"

text \<open>Publishing paused by the administrator (store.py)\<close>
definition msg_publish_paused :: ustr where
  "msg_publish_paused =
   [31649, 29702, 21592, 26242, 20572, 20219, 21153, 21457, 24067]"

text \<open>Generation failed, try again (store.py)\<close>
definition msg_generation_failed_retry :: ustr where
  "msg_generation_failed_retry =
   [29983, 25104, 22833, 36133, 65292, 35831, 37325, 35797, 65281]"

text \<open>Browser timeout (store.py)\<close>
definition msg_browser_timeout :: ustr where
  "msg_browser_timeout =
   [27983, 35272, 22120, 36229, 26102]"

text \<open>Region not available (store.py)\<close>
definition msg_region_restricted :: ustr where
  "msg_region_restricted =
   [68, 111, 108, 97, 32, 24403, 21069, 22320, 21306, 19981, 21487, 29992]"

text \<open>The nodes failed repeatedly (store.py)\<close>
definition msg_nodes_failed :: ustr where
  "msg_nodes_failed =
   [21487, 29992, 33410, 28857, 36830, 32493, 36830, 25509, 22833, 36133, 65292, 35831, 31245,
     21518, 37325, 26032, 25552, 20132]"

text \<open>Connection fault, recovering (store.py)\<close>
definition msg_service_recovering :: ustr where
  "msg_service_recovering =
   [26381, 21153, 36830, 25509, 24322, 24120, 65292, 27491, 22312, 24674, 22797]"

text \<open>Refreshing the proxy, task queued (store.py)\<close>
definition msg_refreshing_proxy :: ustr where
  "msg_refreshing_proxy =
   [27491, 22312, 21047, 26032, 65, 80, 73, 20195, 29702, 65292, 20219, 21153, 24050, 33258,
     21160, 25490, 38431]"

text \<open>Submission unconfirmed, retrying (store.py)\<close>
definition msg_safe_retry :: ustr where
  "msg_safe_retry =
   [25552, 20132, 29366, 24577, 26410, 30830, 35748, 65292, 27491, 22312, 23433, 20840, 37325,
     35797]"

text \<open>The task was not executed in time (store.py)\<close>
definition msg_execution_timeout :: ustr where
  "msg_execution_timeout =
   [20219, 21153, 36229, 26102, 26410, 25191, 34892]"

text \<open>Waiting for the result (store.py)\<close>
definition msg_waiting_result :: ustr where
  "msg_waiting_result =
   [31561, 24453, 29983, 25104, 32467, 26524]"

text \<open>Submitted, waiting for the result (store.py)\<close>
definition msg_submitted_waiting :: ustr where
  "msg_submitted_waiting =
   [29983, 25104, 35831, 27714, 24050, 25552, 20132, 65292, 27491, 22312, 31561, 24453, 32467,
     26524]"

text \<open>Video generated (store.py)\<close>
definition msg_video_ready :: ustr where
  "msg_video_ready =
   [35270, 39057, 29983, 25104, 25104, 21151]"

text \<open>Generation failed (batch_jobs.py)\<close>
definition msg_generation_failed :: ustr where
  "msg_generation_failed =
   [29983, 25104, 22833, 36133]"

text \<open>The user stopped the batch (batch_jobs.py)\<close>
definition msg_batch_stopped :: ustr where
  "msg_batch_stopped =
   [29992, 25143, 20572, 27490, 25209, 37327, 29983, 25104]"

text \<open>The default membership name (users.py)\<close>
definition msg_member :: ustr where
  "msg_member =
   [20250, 21592]"

text \<open>A package is bought once while it is valid (users.py)\<close>
definition msg_member_once :: ustr where
  "msg_member_once =
   [24403, 21069, 20250, 21592, 26377, 25928, 26399, 20869, 65292, 35813, 20250, 21592, 22871,
     39184, 21482, 33021, 36141, 20080, 19968, 27425]"

text \<open>No other package while the highest one is valid (users.py)\<close>
definition msg_member_highest :: ustr where
  "msg_member_highest =
   [26368, 39640, 32423, 20250, 21592, 26377, 25928, 26399, 20869, 19981, 33021, 36141, 20080,
     20854, 20182, 20250, 21592, 22871, 39184]"

text \<open>The administrator (store.py)\<close>
definition msg_admin :: ustr where
  "msg_admin =
   [31649, 29702, 21592]"

text \<open>Points changed (point_transactions.py)\<close>
definition msg_points_change :: ustr where
  "msg_points_change =
   [31215, 20998, 21464, 21160]"

text \<open>Video quota refund (temp_access.py)\<close>
definition msg_quota_refund :: ustr where
  "msg_quota_refund =
   [35270, 39057, 39069, 24230, 20219, 21153, 36864, 27454]"

text \<open>Task refund (temp_access.py)\<close>
definition msg_task_refund :: ustr where
  "msg_task_refund =
   [20219, 21153, 36864, 27454]"

text \<open>Task id prefix (temp_access.py)\<close>
definition msg_task_id_prefix :: ustr where
  "msg_task_id_prefix =
   [20219, 21153, 32, 73, 68, 65306]"

text \<open>A model name (billing.py)\<close>
definition model_wanxiang_27 :: ustr where
  "model_wanxiang_27 =
   [19975, 30456, 32, 50, 46, 55]"

text \<open>A model name (billing.py)\<close>
definition model_wanxiang_26 :: ustr where
  "model_wanxiang_26 =
   [19975, 30456, 32, 50, 46, 54]"

text \<open>A membership package needs a name (membership_catalog.py)\<close>
definition msg_member_name :: ustr where
  "msg_member_name =
   [20250, 21592, 22871, 39184, 21517, 31216, 19981, 33021, 20026, 31354]"

text \<open>Membership price or duration invalid (membership_catalog.py)\<close>
definition msg_member_duration :: ustr where
  "msg_member_duration =
   [20250, 21592, 31215, 20998, 25110, 26377, 25928, 26399, 26080, 25928]"

text \<open>Membership concurrency is 1-100 (membership_catalog.py)\<close>
definition msg_member_concurrency :: ustr where
  "msg_member_concurrency =
   [20250, 21592, 24182, 21457, 25968, 37327, 38656, 20026, 32, 49, 45, 49, 48, 48]"

text \<open>Bonus quota is 0-1000000 (membership_catalog.py)\<close>
definition msg_member_bonus :: ustr where
  "msg_member_bonus =
   [36192, 36865, 35270, 39057, 39069, 24230, 38656, 20026, 32, 48, 45, 49, 48, 48, 48, 48, 48,
     48]"

text \<open>User name format (users.py)\<close>
definition msg_username_format :: ustr where
  "msg_username_format =
   [29992, 25143, 21517, 38656, 20026, 51, 45, 50, 52, 20301, 20013, 25991, 12289, 23383, 27597,
     12289, 25968, 23383, 25110, 19979, 21010, 32447]"

text \<open>A password has 8-128 characters (users.py)\<close>
definition msg_password_length :: ustr where
  "msg_password_length =
   [23494, 30721, 38271, 24230, 38656, 20026, 56, 45, 49, 50, 56, 20301]"

text \<open>User name taken (users.py)\<close>
definition msg_username_taken :: ustr where
  "msg_username_taken =
   [29992, 25143, 21517, 24050, 23384, 22312]"

text \<open>Email taken (users.py)\<close>
definition msg_email_taken :: ustr where
  "msg_email_taken =
   [37038, 31665, 24050, 27880, 20876]"

text \<open>Current password wrong (users.py)\<close>
definition msg_password_wrong :: ustr where
  "msg_password_wrong =
   [24403, 21069, 23494, 30721, 38169, 35823]"

text \<open>The new password must differ (users.py)\<close>
definition msg_password_same :: ustr where
  "msg_password_same =
   [26032, 23494, 30721, 19981, 33021, 19982, 24403, 21069, 23494, 30721, 30456, 21516]"

text \<open>Email bound to another account (users.py)\<close>
definition msg_email_bound :: ustr where
  "msg_email_bound =
   [37038, 31665, 24050, 34987, 20854, 20182, 36134, 21495, 32465, 23450]"

text \<open>User account unavailable (main.py)\<close>
definition msg_user_unavailable :: ustr where
  "msg_user_unavailable =
   [29992, 25143, 36134, 21495, 19981, 21487, 29992]"

text \<open>Batch submission stopped (main.py)\<close>
definition msg_batch_halted :: ustr where
  "msg_batch_halted =
   [25209, 37327, 25552, 20132, 24050, 20572, 27490]"

text \<open>Batch task parameters invalid (main.py)\<close>
definition msg_batch_params :: ustr where
  "msg_batch_params =
   [25209, 37327, 20219, 21153, 21442, 25968, 26080, 25928]"

text \<open>Number of shared reference images invalid (main.py)\<close>
definition msg_batch_refs :: ustr where
  "msg_batch_refs =
   [25209, 37327, 20849, 29992, 21442, 32771, 22270, 25968, 37327, 26080, 25928, 65292, 35831,
     37325, 26032, 19978, 20256]"

text \<open>Reference images incomplete (main.py)\<close>
definition msg_batch_images :: ustr where
  "msg_batch_images =
   [25209, 37327, 20219, 21153, 21442, 32771, 22270, 19981, 23436, 25972, 65292, 35831, 37325,
     26032, 19978, 20256]"

text \<open>At most 9 reference images per task (main.py)\<close>
definition msg_batch_too_many :: ustr where
  "msg_batch_too_many =
   [27599, 26465, 20219, 21153, 26368, 22810, 28155, 21152, 32, 57, 32, 24352, 21442, 32771,
     22270]"

text \<open>Video quota spent on a task (main.py)\<close>
definition msg_quota_consumed :: ustr where
  "msg_quota_consumed =
   [35270, 39057, 39069, 24230, 20219, 21153, 28040, 36153]"

text \<open>Points spent on a task (main.py)\<close>
definition msg_points_consumed :: ustr where
  "msg_points_consumed =
   [35270, 39057, 20219, 21153, 28040, 36153]"

text \<open>Task id label (main.py)\<close>
definition msg_task_id_label :: ustr where
  "msg_task_id_label =
   [20219, 21153, 32, 73, 68, 65306]"

text \<open>Task creation is busy (main.py)\<close>
definition msg_create_busy :: ustr where
  "msg_create_busy =
   [20219, 21153, 21019, 24314, 26242, 26102, 32321, 24537, 65292, 35831, 31245, 21518, 37325,
     35797]"

text \<open>The platform label of doubao (platforms.py)\<close>
definition msg_doubao :: ustr where
  "msg_doubao =
   [35910, 21253]"

text \<open>The platform label of qianwen (platforms.py)\<close>
definition msg_qianwen :: ustr where
  "msg_qianwen =
   [21315, 38382]"

text \<open>Task submission paused (main.py)\<close>
definition msg_submission_paused :: ustr where
  "msg_submission_paused =
   [20219, 21153, 21457, 24067, 24050, 26242, 20572]"

text \<open>Task queue unavailable (main.py)\<close>
definition msg_queue_down :: ustr where
  "msg_queue_down =
   [20219, 21153, 38431, 21015, 26242, 19981, 21487, 29992]"

text \<open>Task queue busy (main.py)\<close>
definition msg_queue_busy :: ustr where
  "msg_queue_busy =
   [20219, 21153, 38431, 21015, 32321, 24537, 65292, 35831, 31245, 21518, 37325, 35797]"

text \<open>No model enabled for the platform (main.py)\<close>
definition msg_no_model :: ustr where
  "msg_no_model =
   [35813, 24179, 21488, 26242, 26080, 24050, 21551, 29992, 27169, 22411]"

text \<open>No duration enabled for the model (main.py)\<close>
definition msg_no_duration :: ustr where
  "msg_no_duration =
   [35813, 27169, 22411, 26242, 26080, 24050, 21551, 29992, 26102, 38271]"

text \<open>Duration not enabled, prefix (main.py)\<close>
definition msg_duration_prefix :: ustr where
  "msg_duration_prefix =
   [35813, 27169, 22411, 26410, 24320, 21551, 32]"

text \<open>Duration not enabled, suffix (main.py)\<close>
definition msg_duration_suffix :: ustr where
  "msg_duration_suffix =
   [32, 31186, 26102, 38271]"

text \<open>The platform's accounts are isolated (main.py)\<close>
definition msg_platform_isolated :: ustr where
  "msg_platform_isolated =
   [35813, 24179, 21488, 21495, 27744, 24050, 38548, 31163, 65292, 32593, 39029, 33258, 21160,
     21270, 25509, 20837, 23436, 25104, 21518, 25165, 33021, 29983, 25104]"

text \<open>Shared reference images expired (main.py)\<close>
definition msg_batch_ref_expired :: ustr where
  "msg_batch_ref_expired =
   [25209, 37327, 20849, 29992, 21442, 32771, 22270, 24050, 22833, 25928, 65292, 35831, 37325,
     26032, 25552, 20132]"

text \<open>Shared reference images unusable (main.py)\<close>
definition msg_batch_ref_unusable :: ustr where
  "msg_batch_ref_unusable =
   [25209, 37327, 20849, 29992, 21442, 32771, 22270, 19981, 21487, 29992, 65292, 35831, 37325,
     26032, 25552, 20132]"

text \<open>Parameters of the shared reference images invalid (main.py)\<close>
definition msg_batch_ref_params :: ustr where
  "msg_batch_ref_params =
   [25209, 37327, 20849, 29992, 21442, 32771, 22270, 21442, 25968, 26080, 25928]"

text \<open>Qianwen makes only videos (main.py)\<close>
definition msg_qianwen_video_only :: ustr where
  "msg_qianwen_video_only =
   [21315, 38382, 24403, 21069, 20165, 25903, 25345, 35270, 39057, 20219, 21153]"

text \<open>Qianwen needs an image, prefix (main.py)\<close>
definition msg_qianwen_prefix :: ustr where
  "msg_qianwen_prefix =
   [21315, 38382, 32]"

text \<open>Qianwen needs an image, suffix (main.py)\<close>
definition msg_qianwen_needs_image :: ustr where
  "msg_qianwen_needs_image =
   [32, 38656, 35201, 19978, 20256, 21442, 32771, 22270]"

text \<open>Too many requests (main.py)\<close>
definition msg_rate_limited :: ustr where
  "msg_rate_limited =
   [35831, 27714, 36807, 20110, 39057, 32321, 65292, 35831, 31245, 21518, 37325, 35797]"

text \<open>The owner of the task is gone (main.py)\<close>
definition msg_owner_gone :: ustr where
  "msg_owner_gone =
   [20219, 21153, 25152, 23646, 29992, 25143, 24050, 22833, 25928]"

text \<open>Only finished tasks can be made again (main.py)\<close>
definition msg_only_finished_retry :: ustr where
  "msg_only_finished_retry =
   [20165, 25104, 21151, 25110, 22833, 36133, 20219, 21153, 21487, 20197, 37325, 26032, 29983,
     25104]"

text \<open>Already submitted, cannot be canceled (main.py)\<close>
definition msg_already_submitted :: ustr where
  "msg_already_submitted =
   [24050, 25552, 20132, 29983, 25104, 65292, 26080, 27861, 21462, 28040]"

text \<open>Being submitted, cannot be canceled (main.py)\<close>
definition msg_being_submitted :: ustr where
  "msg_being_submitted =
   [20219, 21153, 27491, 22312, 25552, 20132, 24179, 21488, 65292, 26080, 27861, 21462, 28040]"

text \<open>The administrator canceled (main.py)\<close>
definition msg_admin_cancel :: ustr where
  "msg_admin_cancel =
   [31649, 29702, 21592, 21462, 28040, 29983, 25104]"

text \<open>Retry task id label (main.py)\<close>
definition msg_retry_label :: ustr where
  "msg_retry_label =
   [37325, 35797, 20219, 21153, 32, 73, 68, 65306]"

text \<open>Original task id label (main.py)\<close>
definition msg_original_label :: ustr where
  "msg_original_label =
   [21407, 20219, 21153, 32, 73, 68, 65306]"

text \<open>Bulk retries queue in order (main.py)\<close>
definition msg_bulk_pacing :: ustr where
  "msg_bulk_pacing =
   [25209, 37327, 37325, 35797, 20219, 21153, 25353, 39034, 24207, 25490, 38431]"

text \<open>Waiting for the submission interval (main.py)\<close>
definition msg_wait_interval :: ustr where
  "msg_wait_interval =
   [31561, 24453, 25353, 25552, 20132, 38388, 38548, 25191, 34892]"

text \<open>Only failed tasks are retried in bulk (main.py)\<close>
definition msg_only_failed_bulk :: ustr where
  "msg_only_failed_bulk =
   [20165, 22833, 36133, 20219, 21153, 21487, 20197, 25209, 37327, 37325, 35797]"

text \<open>Choose the failed tasks to retry (main.py)\<close>
definition msg_bulk_choose :: ustr where
  "msg_bulk_choose =
   [35831, 36873, 25321, 35201, 37325, 35797, 30340, 22833, 36133, 20219, 21153]"

text \<open>At most 1000 tasks are retried at once (main.py)\<close>
definition msg_bulk_limit :: ustr where
  "msg_bulk_limit =
   [21333, 27425, 26368, 22810, 37325, 35797, 32, 49, 48, 48, 48, 32, 20010, 20219, 21153]"

text \<open>The task does not exist (main.py)\<close>
definition msg_task_missing :: ustr where
  "msg_task_missing =
   [20219, 21153, 19981, 23384, 22312]"

text \<open>The name of a reference image without one (main.py)\<close>
definition msg_reference_prefix :: ustr where
  "msg_reference_prefix =
   [21442, 32771, 22270, 45]"

text \<open>A package needs an id (package_catalog.py)\<close>
definition msg_package_id :: ustr where
  "msg_package_id =
   [22871, 39184, 32, 73, 68, 32, 19981, 33021, 20026, 31354]"

text \<open>A package needs a name (package_catalog.py)\<close>
definition msg_package_name :: ustr where
  "msg_package_name =
   [22871, 39184, 21517, 31216, 19981, 33021, 20026, 31354]"

text \<open>Bonus uses are 0-1000000 (package_catalog.py)\<close>
definition msg_package_bonus :: ustr where
  "msg_package_bonus =
   [36192, 36865, 27425, 25968, 38656, 20026, 32, 48, 45, 49, 48, 48, 48, 48, 48, 48]"

text \<open>The payment link must be http or https (package_catalog.py)\<close>
definition msg_package_url :: ustr where
  "msg_package_url =
   [36141, 20080, 38142, 25509, 24517, 39035, 26159, 26377, 25928, 30340, 32, 72, 84, 84, 80,
     32, 25110, 32, 72, 84, 84, 80, 83, 32, 22320, 22336]"

text \<open>Package id taken (package_catalog.py)\<close>
definition msg_package_taken :: ustr where
  "msg_package_taken =
   [22871, 39184, 32, 73, 68, 32, 24050, 23384, 22312]"

text \<open>No field to update (package_catalog.py)\<close>
definition msg_package_nothing :: ustr where
  "msg_package_nothing =
   [27809, 26377, 21487, 26356, 26032, 30340, 22871, 39184, 23383, 27573]"

text \<open>Points, suffix (package_catalog.py)\<close>
definition msg_points_suffix :: ustr where
  "msg_points_suffix =
   [32, 31215, 20998]"

text \<open>Enter a valid address (email_verification.py)\<close>
definition msg_email_invalid :: ustr where
  "msg_email_invalid =
   [35831, 36755, 20837, 26377, 25928, 30340, 37038, 31665, 22320, 22336]"

text \<open>Invalid domain, prefix (email_verification.py)\<close>
definition msg_domain_invalid :: ustr where
  "msg_domain_invalid =
   [26080, 25928, 37038, 31665, 21518, 32512, 65306, 64]"

text \<open>At least one domain is needed (email_verification.py)\<close>
definition msg_domain_none :: ustr where
  "msg_domain_none =
   [33267, 23569, 37197, 32622, 19968, 20010, 20801, 35768, 27880, 20876, 30340, 37038, 31665,
     21518, 32512]"

text \<open>The domain may not register (email_verification.py)\<close>
definition msg_domain_refused :: ustr where
  "msg_domain_refused =
   [35813, 37038, 31665, 21518, 32512, 26242, 19981, 25903, 25345, 27880, 20876]"

text \<open>SMTP is not configured (email_verification.py)\<close>
definition msg_smtp_missing :: ustr where
  "msg_smtp_missing =
   [81, 81, 32, 37038, 31665, 32, 83, 77, 84, 80, 32, 23578, 26410, 37197, 32622]"

text \<open>Verification by mail is off (email_verification.py)\<close>
definition msg_email_disabled :: ustr where
  "msg_email_disabled =
   [37038, 31665, 27880, 20876, 39564, 35777, 26410, 21551, 29992]"

text \<open>Wrong verification code (email_verification.py)\<close>
definition msg_email_code_wrong :: ustr where
  "msg_email_code_wrong =
   [37038, 31665, 39564, 35777, 30721, 38169, 35823]"

text \<open>The verification code has expired (email_verification.py)\<close>
definition msg_email_code_expired :: ustr where
  "msg_email_code_expired =
   [37038, 31665, 39564, 35777, 30721, 24050, 22833, 25928, 65292, 35831, 37325, 26032, 33719,
     21462]"

text \<open>Too many tries of a verification code (email_verification.py)\<close>
definition msg_email_code_tries :: ustr where
  "msg_email_code_tries =
   [39564, 35777, 30721, 23581, 35797, 27425, 25968, 36807, 22810, 65292, 35831, 37325, 26032,
     33719, 21462]"

text \<open>Generate an access key first (account_access.py)\<close>
definition msg_key_missing :: ustr where
  "msg_key_missing =
   [35831, 20808, 29983, 25104, 35775, 38382, 23494, 38053]"

text \<open>An administrator's name has 3 to 64 characters (admin_auth.py)\<close>
definition msg_admin_name_length :: ustr where
  "msg_admin_name_length =
   [31649, 29702, 21592, 36134, 21495, 38271, 24230, 24517, 39035, 20026, 32, 51, 32, 21040, 32,
     54, 52, 32, 20010, 23383, 31526]"

text \<open>An administrator's name has no spaces (admin_auth.py)\<close>
definition msg_admin_name_chars :: ustr where
  "msg_admin_name_chars =
   [31649, 29702, 21592, 36134, 21495, 19981, 33021, 21253, 21547, 31354, 30333, 25110, 25511,
     21046, 23383, 31526]"

text \<open>An administrator's password has 8 to 256 characters (admin_auth.py)\<close>
definition msg_admin_password_length :: ustr where
  "msg_admin_password_length =
   [31649, 29702, 21592, 23494, 30721, 38271, 24230, 24517, 39035, 20026, 32, 56, 32, 21040, 32,
     50, 53, 54, 32, 20010, 23383, 31526]"

text \<open>Registration is blocked for a while (main.py)\<close>
definition msg_registration_blocked :: ustr where
  "msg_registration_blocked =
   [36830, 32493, 24322, 24120, 27880, 20876, 27425, 25968, 36807, 22810, 65292, 24050, 26242,
     26102, 25318, 25130, 65292, 35831, 31245, 21518, 37325, 35797]"

text \<open>The two passwords differ (main.py)\<close>
definition msg_password_confirm :: ustr where
  "msg_password_confirm =
   [20004, 27425, 36755, 20837, 30340, 23494, 30721, 19981, 19968, 33268]"

text \<open>An invitation code is needed (main.py)\<close>
definition msg_invitation_needed :: ustr where
  "msg_invitation_needed =
   [35831, 36755, 20837, 36992, 35831, 30721]"

text \<open>The video quota given at registration (main.py)\<close>
definition msg_registration_gift :: ustr where
  "msg_registration_gift =
   [27880, 20876, 36192, 36865, 35270, 39057, 39069, 24230]"

text \<open>The card does not exist (main.py)\<close>
definition msg_card_missing :: ustr where
  "msg_card_missing =
   [21345, 23494, 19981, 23384, 22312]"

text \<open>Points bought with a card (main.py)\<close>
definition msg_card_credit :: ustr where
  "msg_card_credit =
   [31215, 20998, 20805, 20540]"

text \<open>Wrong user name or password (main.py)\<close>
definition msg_login_wrong :: ustr where
  "msg_login_wrong =
   [29992, 25143, 21517, 25110, 23494, 30721, 38169, 35823]"

text \<open>Wrong administrator or password (main.py)\<close>
definition msg_admin_login_wrong :: ustr where
  "msg_admin_login_wrong =
   [31649, 29702, 21592, 36134, 21495, 25110, 23494, 30721, 38169, 35823]"

text \<open>The two new passwords differ (main.py)\<close>
definition msg_new_password_confirm :: ustr where
  "msg_new_password_confirm =
   [20004, 27425, 36755, 20837, 30340, 26032, 23494, 30721, 19981, 19968, 33268]"

text \<open>The mail could not be sent (main.py)\<close>
definition msg_send_failed :: ustr where
  "msg_send_failed =
   [39564, 35777, 30721, 21457, 36865, 22833, 36133, 65292, 35831, 31245, 21518, 37325, 35797]"

text \<open>The mail could not be sent at registration (main.py)\<close>
definition msg_send_failed_admin :: ustr where
  "msg_send_failed_admin =
   [39564, 35777, 30721, 21457, 36865, 22833, 36133, 65292, 35831, 32852, 31995, 31649, 29702,
     21592, 26816, 26597, 37038, 31665, 37197, 32622]"

text \<open>Wrong code or account not usable (main.py)\<close>
definition msg_reset_wrong :: ustr where
  "msg_reset_wrong =
   [37038, 31665, 39564, 35777, 30721, 38169, 35823, 25110, 36134, 21495, 19981, 21487, 29992]"

text \<open>The user does not exist or is disabled (main.py)\<close>
definition msg_user_missing :: ustr where
  "msg_user_missing =
   [29992, 25143, 19981, 23384, 22312, 25110, 24050, 20572, 29992]"

text \<open>The access key is invalid or off (main.py)\<close>
definition msg_access_key_wrong :: ustr where
  "msg_access_key_wrong =
   [35775, 38382, 23494, 38053, 26080, 25928, 25110, 24050, 20572, 29992]"

text \<open>Account (accounts.py)\<close>
definition msg_account :: ustr where
  "msg_account =
   [36134, 21495]"

text \<open>The account exists already (accounts.py)\<close>
definition msg_account_exists :: ustr where
  "msg_account_exists =
   [36134, 21495, 24050, 23384, 22312, 65292, 35831, 21247, 37325, 22797, 23548, 20837]"

text \<open>An account name has 1-120 characters (accounts.py)\<close>
definition msg_account_name_length :: ustr where
  "msg_account_name_length =
   [36134, 21495, 21517, 31216, 38271, 24230, 38656, 20026, 32, 49, 45, 49, 50, 48, 32, 20010,
     23383, 31526]"

text \<open>Invalid character in an account name (accounts.py)\<close>
definition msg_account_name_chars :: ustr where
  "msg_account_name_chars =
   [36134, 21495, 21517, 31216, 21253, 21547, 26080, 25928, 23383, 31526]"

text \<open>An account limit is 0-1000000 (accounts.py)\<close>
definition msg_account_quota_range :: ustr where
  "msg_account_quota_range =
   [36134, 21495, 39069, 24230, 19978, 38480, 38656, 20026, 32, 48, 45, 49, 48, 48, 48, 48, 48,
     48]"

text \<open>A name or a limit is needed (accounts.py)\<close>
definition msg_account_nothing :: ustr where
  "msg_account_nothing =
   [33267, 23569, 38656, 35201, 25552, 20379, 36134, 21495, 21517, 31216, 25110, 39069, 24230,
     19978, 38480]"

text \<open>The account answers with text (accounts.py)\<close>
definition msg_account_text_only :: ustr where
  "msg_account_text_only =
   [20986, 25991, 26412]"

text \<open>Region restricted, log in first (accounts.py)\<close>
definition msg_account_region :: ustr where
  "msg_account_region =
   [21463, 21306, 22495, 38480, 21046, 65292, 35831, 20808, 30331, 24405, 20877, 20351, 29992,
     35910, 21253]"

text \<open>Slider verification, restored at 23:00 (accounts.py)\<close>
definition msg_slider_restore :: ustr where
  "msg_slider_restore =
   [36339, 39564, 35777, 65288, 24403, 26085, 32, 50, 51, 58, 48, 48, 32, 33258, 21160, 24674,
     22797, 65289]"

text \<open>Slider verification, deleted at 23:00 (accounts.py)\<close>
definition msg_slider_delete :: ustr where
  "msg_slider_delete =
   [36339, 39564, 35777, 65288, 24403, 26085, 32, 50, 51, 58, 48, 48, 32, 33258, 21160, 21024,
     38500, 65289]"

text \<open>The nodes cool down, the task waits (worker.py)\<close>
definition msg_node_cooling :: ustr where
  "msg_node_cooling =
   [29983, 25104, 33410, 28857, 20919, 21364, 20013, 65292, 20219, 21153, 24050, 33258, 21160,
     25490, 38431]"

text \<open>The Qianwen account has no quota left, taking another (worker.py)\<close>
definition msg_qianwen_switching :: ustr where
  "msg_qianwen_switching =
   [21315, 38382, 36134, 21495, 39069, 24230, 19981, 36275, 65292, 27491, 22312, 26356, 25442,
     36134, 21495]"

text \<open>The login is no longer valid, after a label (worker.py)\<close>
definition msg_login_lost :: ustr where
  "msg_login_lost =
   [32, 30331, 24405, 29366, 24577, 22833, 25928]"

text \<open>Waits to be submitted again (worker.py)\<close>
definition msg_wait_resubmit :: ustr where
  "msg_wait_resubmit =
   [31561, 24453, 37325, 26032, 25552, 20132]"

text \<open>The resources are back, waits to be submitted again (worker.py)\<close>
definition msg_resources_back :: ustr where
  "msg_resources_back =
   [31995, 32479, 36164, 28304, 24050, 24674, 22797, 65292, 31561, 24453, 37325, 26032, 25552,
     20132]"

text \<open>Qianwen took over 20 minutes, trying with another account (worker.py)\<close>
definition msg_qianwen_timed_out :: ustr where
  "msg_qianwen_timed_out =
   [21315, 38382, 29983, 25104, 36229, 36807, 50, 48, 20998, 38047, 65292, 24050, 26356, 25442,
     36134, 21495, 37325, 35797]"

text \<open>No result after 30 minutes (worker.py)\<close>
definition msg_doubao_timed_out :: ustr where
  "msg_doubao_timed_out =
   [29983, 25104, 36229, 36807, 51, 48, 20998, 38047, 65292, 20173, 26410, 36820, 22238, 32467,
     26524]"

text \<open>No result after 20 minutes (worker.py)\<close>
definition msg_dola_timed_out :: ustr where
  "msg_dola_timed_out =
   [29983, 25104, 36229, 36807, 50, 48, 20998, 38047, 65292, 20173, 26410, 36820, 22238, 32467,
     26524]"

text \<open>Refunded and watched further, before a label (worker.py)\<close>
definition msg_refunded_watching :: ustr where
  "msg_refunded_watching =
   [24050, 36864, 27454, 65292, 21518, 21488, 32487, 32493, 35266, 23519]"

text \<open>The result, after a label (worker.py)\<close>
definition msg_result_word :: ustr where
  "msg_result_word =
   [32467, 26524]"

text \<open>The generation takes long, after a label (worker.py)\<close>
definition msg_takes_long :: ustr where
  "msg_takes_long =
   [29983, 25104, 26102, 38388, 36739, 38271, 65292, 32487, 32493, 26597, 35810, 32467, 26524]"

text \<open>Dola is slow, the account is released (worker.py)\<close>
definition msg_dola_slow :: ustr where
  "msg_dola_slow =
   [68, 111, 108, 97, 29983, 25104, 36739, 24930, 65292, 24050, 37322, 25918, 36134, 21495,
     24182, 32487, 32493, 20302, 39057, 35266, 23519]"

text \<open>Waited too long for an account (worker.py)\<close>
definition msg_account_wait_over :: ustr where
  "msg_account_wait_over =
   [37325, 35797, 31561, 24453, 21487, 29992, 36134, 21495, 36229, 26102, 65292, 35831, 37325,
     26032, 25552, 20132]"

text \<open>Waits for an available, before a platform (worker.py)\<close>
definition msg_wait_available :: ustr where
  "msg_wait_available =
   [31561, 24453, 21487, 29992]"

text \<open>Waits for an upload slot (worker.py)\<close>
definition msg_wait_upload_slot :: ustr where
  "msg_wait_upload_slot =
   [31561, 24453, 21442, 32771, 22270, 19978, 20256, 26102, 27573]"

text \<open>Waits for a browser (worker.py)\<close>
definition msg_wait_browser :: ustr where
  "msg_wait_browser =
   [31561, 24453, 27983, 35272, 22120, 20219, 21153, 36164, 28304]"

text \<open>Waits for a browser of Doubao (worker.py)\<close>
definition msg_wait_doubao_browser :: ustr where
  "msg_wait_doubao_browser =
   [35910, 21253, 20219, 21153, 31561, 24453, 29420, 31435, 27983, 35272, 22120, 36164, 28304]"

text \<open>Waits for a browser of Qianwen (worker.py)\<close>
definition msg_wait_qianwen_browser :: ustr where
  "msg_wait_qianwen_browser =
   [21315, 38382, 21442, 32771, 22270, 20219, 21153, 31561, 24453, 27983, 35272, 22120, 36164,
     28304]"

text \<open>Waits for a page to prepare the images (worker.py)\<close>
definition msg_wait_preparation :: ustr where
  "msg_wait_preparation =
   [21442, 32771, 22270, 20219, 21153, 31561, 24453, 39029, 38754, 20934, 22791, 36890, 36947]"

text \<open>The user's limit of remote tasks is reached (worker.py)\<close>
definition msg_remote_limit :: ustr where
  "msg_remote_limit =
   [24403, 21069, 29992, 25143, 36828, 31471, 29983, 25104, 20219, 21153, 24050, 36798, 19978,
     38480, 65292, 32487, 32493, 25490, 38431]"

text \<open>The current model (worker.py)\<close>
definition msg_current_model :: ustr where
  "msg_current_model =
   [24403, 21069, 27169, 22411]"

text \<open>Needs a reference image, after a model (worker.py)\<close>
definition msg_needs_reference :: ustr where
  "msg_needs_reference =
   [32, 38656, 35201, 19978, 20256, 21442, 32771, 22270]"

text \<open>The platform is not automated (worker.py)\<close>
definition msg_platform_missing :: ustr where
  "msg_platform_missing =
   [35813, 24179, 21488, 32593, 39029, 33258, 21160, 21270, 26242, 26410, 25509, 20837]"

text \<open>Waits until it can be submitted (worker.py)\<close>
definition msg_wait_submit_time :: ustr where
  "msg_wait_submit_time =
   [31561, 24453, 25509, 36817, 25552, 20132, 26102, 27573]"

text \<open>Prepares the generation (worker.py)\<close>
definition msg_preparing :: ustr where
  "msg_preparing =
   [27491, 22312, 20934, 22791, 29983, 25104, 36164, 28304]"

text \<open>Waits for its account (worker.py)\<close>
definition msg_wait_same_account :: ustr where
  "msg_wait_same_account =
   [31561, 24453, 21407, 36134, 21495, 26356, 25442, 20195, 29702, 37325, 35797]"

text \<open>The platform is busy, the task waits (worker.py)\<close>
definition msg_platform_busy :: ustr where
  "msg_platform_busy =
   [24179, 21488, 26381, 21153, 32321, 24537, 65292, 20219, 21153, 24050, 33258, 21160, 25490,
     38431]"

text \<open>The request is being submitted (worker.py)\<close>
definition msg_submitting :: ustr where
  "msg_submitting =
   [27491, 22312, 25552, 20132, 29983, 25104, 35831, 27714]"

text \<open>The result is not ready (store.py)\<close>
definition msg_result_unfinished :: ustr where
  "msg_result_unfinished =
   [29983, 25104, 32467, 26524, 26410, 23436, 25104]"

text \<open>The platform refuses the video (automation.py)\<close>
definition FINAL_FAILURE_TEXT :: ustr where
  "FINAL_FAILURE_TEXT =
   [26080, 27861, 29983, 25104, 35813, 35270, 39057, 65292, 35831, 23581, 35797, 38477, 20302,
     37197, 32622, 21518, 37325, 35797, 12290]"

text \<open>The title of a notification (notifications.py)\<close>
definition msg_notice_title :: ustr where
  "msg_notice_title =
   [36890, 30693, 26631, 39064, 38656, 20026, 32, 49, 45, 49, 50, 48, 32, 20010, 23383, 31526]"

text \<open>The content of a notification (notifications.py)\<close>
definition msg_notice_content :: ustr where
  "msg_notice_content =
   [36890, 30693, 20869, 23481, 38656, 20026, 32, 49, 45, 53, 48, 48, 48, 32, 20010, 23383,
     31526]"

text \<open>No recipient (notifications.py)\<close>
definition msg_notice_nobody :: ustr where
  "msg_notice_nobody =
   [35831, 33267, 23569, 36873, 25321, 19968, 20301, 29992, 25143]"

text \<open>The title of an announcement (notifications.py)\<close>
definition msg_announcement_title :: ustr where
  "msg_announcement_title =
   [20844, 21578, 26631, 39064, 38656, 20026, 32, 49, 45, 49, 50, 48, 32, 20010, 23383, 31526]"

text \<open>The content of an announcement (notifications.py)\<close>
definition msg_announcement_content :: ustr where
  "msg_announcement_content =
   [20844, 21578, 20869, 23481, 38656, 20026, 32, 49, 45, 53, 48, 48, 48, 32, 20010, 23383,
     31526]"

text \<open>The level of an announcement (notifications.py)\<close>
definition msg_announcement_level :: ustr where
  "msg_announcement_level =
   [20844, 21578, 31867, 22411, 24517, 39035, 20026, 32, 115, 109, 97, 108, 108, 12289, 108, 97,
     114, 103, 101, 32, 25110, 32, 101, 109, 101, 114, 103, 101, 110, 99, 121]"

text \<open>A suggestion (feedback.py)\<close>
definition msg_suggestion :: ustr where
  "msg_suggestion =
   [20307, 39564, 24314, 35758]"

text \<open>A problem (feedback.py)\<close>
definition msg_problem :: ustr where
  "msg_problem =
   [38382, 39064, 21453, 39304]"

text \<open>Something else (feedback.py)\<close>
definition msg_other_feedback :: ustr where
  "msg_other_feedback =
   [20854, 20182]"

text \<open>The category of feedback is unknown (feedback.py)\<close>
definition msg_feedback_category :: ustr where
  "msg_feedback_category =
   [21453, 39304, 31867, 22411, 26080, 25928]"

text \<open>The content of feedback (feedback.py)\<close>
definition msg_feedback_length :: ustr where
  "msg_feedback_length =
   [21453, 39304, 20869, 23481, 38656, 20026, 50, 45, 53, 48, 48, 48, 23383]"

text \<open>The status of feedback is unknown (feedback.py)\<close>
definition msg_feedback_status :: ustr where
  "msg_feedback_status =
   [21453, 39304, 29366, 24577, 26080, 25928]"

text \<open>An operation of a user (user_activity.py)\<close>
definition msg_user_operation :: ustr where
  "msg_user_operation =
   [29992, 25143, 25805, 20316]"

text \<open>An operation of an administrator (admin_audit.py)\<close>
definition msg_admin_operation :: ustr where
  "msg_admin_operation =
   [31649, 29702, 25805, 20316]"

text \<open>Points, after a number (package_catalog.py)\<close>
definition msg_package_points :: ustr where
  "msg_package_points =
   [32, 31215, 20998]"

text \<open>The selection has an unknown or disabled proxy (account_proxies.py)\<close>
definition msg_proxy_unknown_selected :: ustr where
  "msg_proxy_unknown_selected =
   [36873, 25321, 20013, 21253, 21547, 19981, 23384, 22312, 25110, 24050, 31105, 29992, 30340,
     36134, 23494, 20195, 29702]"

text \<open>No proxy is selected (account_proxies.py)\<close>
definition msg_proxy_none :: ustr where
  "msg_proxy_none =
   [35831, 36873, 25321, 36134, 23494, 20195, 29702]"

text \<open>Some proxies do not exist (account_proxies.py)\<close>
definition msg_proxy_missing :: ustr where
  "msg_proxy_missing =
   [37096, 20998, 36134, 23494, 20195, 29702, 19981, 23384, 22312]"

text \<open>An unknown country (account_proxies.py)\<close>
definition msg_proxy_country :: ustr where
  "msg_proxy_country =
   [26410, 30693]"

text \<open>The line is no proxy (account_proxies.py)\<close>
definition msg_proxy_invalid :: ustr where
  "msg_proxy_invalid =
   [20195, 29702, 26684, 24335, 26080, 25928]"

text \<open>The format of a proxy (account_proxies.py)\<close>
definition msg_proxy_format :: ustr where
  "msg_proxy_format =
   [20195, 29702, 26684, 24335, 24212, 20026, 32, 21327, 35758, 58, 47, 47, 29992, 25143, 21517,
     58, 23494, 30721, 64, 20027, 26426, 58, 31471, 21475]"

text \<open>The port is no number (account_proxies.py)\<close>
definition msg_proxy_port_bad :: ustr where
  "msg_proxy_port_bad =
   [20195, 29702, 31471, 21475, 26080, 25928]"

text \<open>The address of a proxy (account_proxies.py)\<close>
definition msg_proxy_address :: ustr where
  "msg_proxy_address =
   [20195, 29702, 22320, 22336, 25110, 31471, 21475, 26080, 25928]"

text \<open>A proxy with a path (account_proxies.py)\<close>
definition msg_proxy_path :: ustr where
  "msg_proxy_path =
   [20195, 29702, 22320, 22336, 19981, 33021, 21253, 21547, 36335, 24452, 12289, 26597, 35810,
     21442, 25968, 25110, 29255, 27573]"

text \<open>The range of ports (account_proxies.py)\<close>
definition msg_proxy_port_range :: ustr where
  "msg_proxy_port_range =
   [20195, 29702, 31471, 21475, 24517, 39035, 22312, 32, 49, 45, 54, 53, 53, 51, 53, 32, 20043,
     38388]"

text \<open>No user or password (account_proxies.py)\<close>
definition msg_proxy_credentials :: ustr where
  "msg_proxy_credentials =
   [20195, 29702, 29992, 25143, 21517, 21644, 23494, 30721, 19981, 33021, 20026, 31354]"

text \<open>User or password are too long (account_proxies.py)\<close>
definition msg_proxy_long :: ustr where
  "msg_proxy_long =
   [20195, 29702, 29992, 25143, 21517, 25110, 23494, 30721, 36807, 38271]"

text \<open>The import is too large (account_proxies.py)\<close>
definition msg_proxy_size :: ustr where
  "msg_proxy_size =
   [23548, 20837, 20869, 23481, 19981, 33021, 36229, 36807, 32, 50, 53, 54, 75, 66]"

text \<open>No line to import (account_proxies.py)\<close>
definition msg_proxy_paste :: ustr where
  "msg_proxy_paste =
   [35831, 31896, 36148, 33267, 23569, 19968, 26465, 20195, 29702]"

text \<open>Too many lines (account_proxies.py)\<close>
definition msg_proxy_batch :: ustr where
  "msg_proxy_batch =
   [21333, 27425, 26368, 22810, 23548, 20837, 32, 51, 48, 48, 32, 26465, 20195, 29702]"

text \<open>The list is full (account_proxies.py)\<close>
definition msg_proxy_full :: ustr where
  "msg_proxy_full =
   [36134, 23494, 20195, 29702, 21015, 34920, 26368, 22810, 20445, 23384, 32, 51, 48, 48, 32,
     26465]"

text \<open>The first part of a line number (account_proxies.py)\<close>
definition msg_line_first :: ustr where
  "msg_line_first =
   [31532]"

text \<open>The second part of a line number (account_proxies.py)\<close>
definition msg_line_second :: ustr where
  "msg_line_second =
   [34892, 65306]"

text \<open>A semicolon (account_proxies.py)\<close>
definition msg_semicolon :: ustr where
  "msg_semicolon =
   [65307]"

text \<open>The name of the sender of mails (config.py)\<close>
definition msg_mail_sender :: ustr where
  "msg_mail_sender =
   [35270, 39057, 29983, 25104, 26381, 21153]"

text \<open>A model without a name (main.py)\<close>
definition msg_model_word :: ustr where
  "msg_model_word =
   [27169, 22411]"

text \<open>The durations of a model are no list (main.py)\<close>
definition msg_duration_invalid :: ustr where
  "msg_duration_invalid =
   [58, 32, 26102, 38271, 37197, 32622, 26080, 25928]"

text \<open>A duration the platform does not have (main.py)\<close>
definition msg_duration_unsupported :: ustr where
  "msg_duration_unsupported =
   [58, 32, 21253, 21547, 19981, 25903, 25345, 30340, 26102, 38271]"

text \<open>Seconds, after a number (main.py)\<close>
definition msg_seconds :: ustr where
  "msg_seconds =
   [32, 31186]"

text \<open>The video quota of a duration (main.py)\<close>
definition msg_seconds_quota :: ustr where
  "msg_seconds_quota =
   [32, 31186, 35270, 39057, 39069, 24230]"

text \<open>The models of Qianwen could not be read (main.py)\<close>
definition msg_sync_qianwen_failed :: ustr where
  "msg_sync_qianwen_failed =
   [21315, 38382, 27169, 22411, 33719, 21462, 22833, 36133, 65306]"

text \<open>Qianwen shows no model (main.py)\<close>
definition msg_sync_qianwen_none :: ustr where
  "msg_sync_qianwen_none =
   [26410, 33719, 21462, 21040, 21315, 38382, 21487, 29992, 35270, 39057, 27169, 22411]"

text \<open>The models of a platform could not be read (main.py)\<close>
definition msg_sync_failed :: ustr where
  "msg_sync_failed =
   [32, 27169, 22411, 33719, 21462, 22833, 36133, 65306]"

text \<open>No model of a platform, first part (main.py)\<close>
definition msg_sync_none_first :: ustr where
  "msg_sync_none_first =
   [26410, 33719, 21462, 21040, 32]"

text \<open>No model of a platform, second part (main.py)\<close>
definition msg_sync_none_second :: ustr where
  "msg_sync_none_second =
   [32, 21487, 29992, 35270, 39057, 27169, 22411]"

text \<open>An unknown mode of selection (main.py)\<close>
definition msg_selection_invalid :: ustr where
  "msg_selection_invalid =
   [36134, 21495, 20998, 37197, 27169, 24335, 26080, 25928]"

text \<open>Accounts of the interface first (main.py)\<close>
definition msg_api_first :: ustr where
  "msg_api_first =
   [65, 80, 73, 32, 36134, 21495, 20248, 20808]"

text \<open>Ordinary accounts first (main.py)\<close>
definition msg_admin_first :: ustr where
  "msg_admin_first =
   [26222, 36890, 36134, 21495, 20248, 20808]"

text \<open>Accounts at random (main.py)\<close>
definition msg_random :: ustr where
  "msg_random =
   [38543, 26426, 20998, 37197]"

text \<open>The mode of selection is changed (main.py)\<close>
definition msg_selection_changed :: ustr where
  "msg_selection_changed =
   [35843, 25972, 36134, 21495, 20998, 37197, 27169, 24335]"

text \<open>The range of a default quota (main.py)\<close>
definition msg_quota_default_range :: ustr where
  "msg_quota_default_range =
   [32, 40664, 35748, 39069, 24230, 38656, 20026, 32, 48, 45, 49, 48, 48, 48, 48, 48, 48]"

text \<open>The quota costs are no object (main.py)\<close>
definition msg_quota_costs_invalid :: ustr where
  "msg_quota_costs_invalid =
   [32, 39069, 24230, 28040, 32791, 37197, 32622, 26080, 25928]"

text \<open>The range of a quota cost (main.py)\<close>
definition msg_quota_cost_range :: ustr where
  "msg_quota_cost_range =
   [31186, 28040, 32791, 39069, 24230, 38656, 20026, 32, 49, 45, 49, 48, 48, 48]"

text \<open>The studio of Qianwen (main.py)\<close>
definition msg_studio :: ustr where
  "msg_studio =
   [21315, 38382, 32, 65, 73, 32, 83, 116, 117, 100, 105, 111]"

text \<open>The quota rules are changed (main.py)\<close>
definition msg_quota_rules :: ustr where
  "msg_quota_rules =
   [20462, 25913, 36134, 21495, 39069, 24230, 35268, 21017]"

text \<open>The default quota, in a sentence (main.py)\<close>
definition msg_quota_default_word :: ustr where
  "msg_quota_default_word =
   [32, 40664, 35748, 32]"

text \<open>Synchronised, in a sentence (main.py)\<close>
definition msg_quota_synced :: ustr where
  "msg_quota_synced =
   [65292, 21516, 27493, 32]"

text \<open>Accounts, after a number (main.py)\<close>
definition msg_accounts_word :: ustr where
  "msg_accounts_word =
   [32, 20010, 36134, 21495]"

text \<open>The quota given to a user an administrator creates (main.py)\<close>
definition msg_created_gift :: ustr where
  "msg_created_gift =
   [31649, 29702, 21592, 21019, 24314, 29992, 25143, 36192, 36865, 35270, 39057, 39069, 24230]"

text \<open>An administrator creates a user (main.py)\<close>
definition msg_admin_creates_user :: ustr where
  "msg_admin_creates_user =
   [31649, 29702, 21592, 21019, 24314, 29992, 25143]"

text \<open>No mail address (main.py)\<close>
definition msg_no_mail :: ustr where
  "msg_no_mail =
   [26410, 32465, 23450, 37038, 31665]"

text \<open>The user does not exist (main.py)\<close>
definition msg_user_unknown :: ustr where
  "msg_user_unknown =
   [29992, 25143, 19981, 23384, 22312]"

text \<open>The discounts are no object (main.py)\<close>
definition msg_discount_format :: ustr where
  "msg_discount_format =
   [27169, 22411, 20943, 20813, 37197, 32622, 26684, 24335, 26080, 25928]"

text \<open>The quota discounts are no object (main.py)\<close>
definition msg_quota_discount_format :: ustr where
  "msg_quota_discount_format =
   [27169, 22411, 35270, 39057, 39069, 24230, 20943, 20813, 37197, 32622, 26684, 24335, 26080,
     25928]"

text \<open>A discount of an unknown platform (main.py)\<close>
definition msg_discount_platform :: ustr where
  "msg_discount_platform =
   [27169, 22411, 20943, 20813, 24179, 21488, 26080, 25928]"

text \<open>A quota discount of an unknown platform (main.py)\<close>
definition msg_quota_discount_platform :: ustr where
  "msg_quota_discount_platform =
   [27169, 22411, 35270, 39057, 39069, 24230, 20943, 20813, 24179, 21488, 26080, 25928]"

text \<open>A model that does not exist (main.py)\<close>
definition msg_model_unknown :: ustr where
  "msg_model_unknown =
   [32, 27169, 22411, 19981, 23384, 22312]"

text \<open>An administrator changes the discounts (main.py)\<close>
definition msg_discounts_changed :: ustr where
  "msg_discounts_changed =
   [31649, 29702, 21592, 35843, 25972, 21333, 27169, 22411, 35745, 36153, 20943, 20813]"

text \<open>Discounts set, first part (main.py)\<close>
definition msg_discounts_first :: ustr where
  "msg_discounts_first =
   [24050, 35774, 32622, 32]"

text \<open>Discounts set, second part (main.py)\<close>
definition msg_discounts_second :: ustr where
  "msg_discounts_second =
   [32, 20010, 27169, 22411, 31215, 20998, 20943, 20813, 12289]"

text \<open>Discounts set, third part (main.py)\<close>
definition msg_discounts_third :: ustr where
  "msg_discounts_third =
   [32, 20010, 27169, 22411, 35270, 39057, 39069, 24230, 20943, 20813]"

text \<open>An unknown kind of credit (main.py)\<close>
definition msg_credit_kind :: ustr where
  "msg_credit_kind =
   [20805, 20540, 31867, 22411, 26080, 25928]"

text \<open>An administrator credits quota (main.py)\<close>
definition msg_credit_quota :: ustr where
  "msg_credit_quota =
   [31649, 29702, 21592, 20805, 20540, 35270, 39057, 39069, 24230]"

text \<open>Increased by (main.py)\<close>
definition msg_add_word :: ustr where
  "msg_add_word =
   [22686, 21152, 32]"

text \<open>Times of video quota (main.py)\<close>
definition msg_times_quota :: ustr where
  "msg_times_quota =
   [32, 27425, 35270, 39057, 39069, 24230]"

text \<open>An administrator credits points (main.py)\<close>
definition msg_credit_admin :: ustr where
  "msg_credit_admin =
   [31649, 29702, 21592, 20805, 20540]"

text \<open>An administrator credits points, as an activity (main.py)\<close>
definition msg_credit_points :: ustr where
  "msg_credit_points =
   [31649, 29702, 21592, 20805, 20540, 31215, 20998]"

text \<open>An unknown kind of deduction (main.py)\<close>
definition msg_deduct_kind :: ustr where
  "msg_deduct_kind =
   [25187, 38500, 31867, 22411, 26080, 25928]"

text \<open>An administrator deducts quota (main.py)\<close>
definition msg_deduct_quota :: ustr where
  "msg_deduct_quota =
   [31649, 29702, 21592, 25187, 38500, 35270, 39057, 39069, 24230]"

text \<open>Deducted by (main.py)\<close>
definition msg_deduct_word :: ustr where
  "msg_deduct_word =
   [25187, 38500, 32]"

text \<open>The user sees it (main.py)\<close>
definition msg_shown :: ustr where
  "msg_shown =
   [29992, 25143, 31471, 26174, 31034]"

text \<open>The user does not see it (main.py)\<close>
definition msg_hidden :: ustr where
  "msg_hidden =
   [29992, 25143, 31471, 38544, 34255]"

text \<open>An administrator deducts points (main.py)\<close>
definition msg_deduct_admin :: ustr where
  "msg_deduct_admin =
   [31649, 29702, 21592, 25187, 38500]"

text \<open>An administrator deducts points, as an activity (main.py)\<close>
definition msg_deduct_points :: ustr where
  "msg_deduct_points =
   [31649, 29702, 21592, 25187, 38500, 31215, 20998]"

text \<open>The range of the concurrency (main.py)\<close>
definition msg_concurrency_range :: ustr where
  "msg_concurrency_range =
   [24182, 21457, 25968, 37327, 38656, 20026, 49, 45, 49, 48, 48]"

text \<open>The range of the remote limit (main.py)\<close>
definition msg_remote_range :: ustr where
  "msg_remote_range =
   [21333, 29992, 25143, 36828, 31471, 19978, 38480, 38656, 20026, 49, 45, 57, 57, 57]"

text \<open>An administrator changes the concurrency (main.py)\<close>
definition msg_concurrency_changed :: ustr where
  "msg_concurrency_changed =
   [31649, 29702, 21592, 35843, 25972, 24182, 21457]"

text \<open>The concurrency becomes (main.py)\<close>
definition msg_concurrency_to :: ustr where
  "msg_concurrency_to =
   [24182, 21457, 35843, 25972, 20026, 32]"

text \<open>An administrator changes the status (main.py)\<close>
definition msg_status_changed :: ustr where
  "msg_status_changed =
   [31649, 29702, 21592, 35843, 25972, 36134, 21495, 29366, 24577]"

text \<open>Enabled (main.py)\<close>
definition msg_enabled :: ustr where
  "msg_enabled =
   [21551, 29992]"

text \<open>Disabled (main.py)\<close>
definition msg_disabled :: ustr where
  "msg_disabled =
   [20572, 29992]"

text \<open>An administrator changes the remote limit (main.py)\<close>
definition msg_remote_changed :: ustr where
  "msg_remote_changed =
   [31649, 29702, 21592, 35843, 25972, 36828, 31471, 19978, 38480]"

text \<open>The remote limit becomes (main.py)\<close>
definition msg_remote_to :: ustr where
  "msg_remote_to =
   [36828, 31471, 29983, 25104, 19978, 38480, 35843, 25972, 20026, 32]"

text \<open>The notification does not exist (main.py)\<close>
definition msg_notice_missing :: ustr where
  "msg_notice_missing =
   [36890, 30693, 19981, 23384, 22312]"

text \<open>The announcement does not exist (main.py)\<close>
definition msg_announcement_missing :: ustr where
  "msg_announcement_missing =
   [20844, 21578, 19981, 23384, 22312]"

text \<open>The feedback does not exist (main.py)\<close>
definition msg_feedback_missing :: ustr where
  "msg_feedback_missing =
   [21453, 39304, 19981, 23384, 22312]"

text \<open>An exempt user does not exist (main.py)\<close>
definition msg_exempt_invalid :: ustr where
  "msg_exempt_invalid =
   [25351, 23450, 35299, 38145, 29992, 25143, 20013, 21253, 21547, 26080, 25928, 36134, 21495]"

text \<open>A recipient does not exist (main.py)\<close>
definition msg_recipients_invalid :: ustr where
  "msg_recipients_invalid =
   [25152, 36873, 29992, 25143, 21253, 21547, 26080, 25928, 36134, 21495]"

text \<open>The package does not exist (main.py)\<close>
definition msg_package_missing :: ustr where
  "msg_package_missing =
   [22871, 39184, 19981, 23384, 22312]"

text \<open>The membership or the user does not exist (main.py)\<close>
definition msg_membership_missing :: ustr where
  "msg_membership_missing =
   [20250, 21592, 22871, 39184, 25110, 29992, 25143, 19981, 23384, 22312]"

text \<open>The membership does not exist (main.py)\<close>
definition msg_member_package_missing :: ustr where
  "msg_member_package_missing =
   [20250, 21592, 22871, 39184, 19981, 23384, 22312]"

text \<open>A membership is bought (main.py)\<close>
definition msg_bought :: ustr where
  "msg_bought =
   [36141, 20080, 20250, 21592, 65306]"

text \<open>The days of a membership (main.py)\<close>
definition msg_bought_days :: ustr where
  "msg_bought_days =
   [26377, 25928, 26399, 32]"

text \<open>The concurrency of a membership (main.py)\<close>
definition msg_bought_concurrency :: ustr where
  "msg_bought_concurrency =
   [32, 22825, 32, 47, 32, 24182, 21457, 32]"

text \<open>The bonus of a membership (main.py)\<close>
definition msg_bought_bonus :: ustr where
  "msg_bought_bonus =
   [32, 47, 32, 36192, 36865, 35270, 39057, 39069, 24230, 32]"

text \<open>A membership is bought, as an activity (main.py)\<close>
definition msg_bought_activity :: ustr where
  "msg_bought_activity =
   [36141, 20080, 20250, 21592, 22871, 39184]"

text \<open>The billing priority is changed (main.py)\<close>
definition msg_priority_changed :: ustr where
  "msg_priority_changed =
   [20462, 25913, 20248, 20808, 25187, 38500, 35774, 32622]"

text \<open>The token does not exist (main.py)\<close>
definition msg_token_missing :: ustr where
  "msg_token_missing =
   [29992, 25143, 32, 84, 111, 107, 101, 110, 32, 19981, 23384, 22312]"

text \<open>Submission is paused (main.py)\<close>
definition msg_pause :: ustr where
  "msg_pause =
   [26242, 20572, 20219, 21153, 21457, 24067]"

text \<open>Submission is resumed (main.py)\<close>
definition msg_resume :: ustr where
  "msg_resume =
   [24674, 22797, 20219, 21153, 21457, 24067]"

text \<open>Tasks canceled, first part (main.py)\<close>
definition msg_pause_first :: ustr where
  "msg_pause_first =
   [21462, 28040, 25490, 38431, 20219, 21153, 32]"

text \<open>Tasks canceled, second part (main.py)\<close>
definition msg_pause_second :: ustr where
  "msg_pause_second =
   [32, 26465]"

text \<open>Submission goes on (main.py)\<close>
definition msg_resumed :: ustr where
  "msg_resumed =
   [24050, 24674, 22797, 25509, 25910, 21644, 21457, 24067, 20219, 21153]"

text \<open>The settings of a batch (main.py)\<close>
definition msg_batch_settings :: ustr where
  "msg_batch_settings =
   [25209, 37327, 29983, 25104, 35774, 32622, 26080, 25928]"

text \<open>The number of prompts (main.py)\<close>
definition msg_batch_rows :: ustr where
  "msg_batch_rows =
   [27599, 20010, 25209, 27425, 38656, 21253, 21547, 32, 49, 32, 33267, 32, 50, 48, 48, 48, 32,
     26465, 25552, 31034, 35789]"

text \<open>The concurrency of a batch (main.py)\<close>
definition msg_batch_concurrency :: ustr where
  "msg_batch_concurrency =
   [29983, 25104, 24182, 21457, 26080, 25928]"

text \<open>A row of a batch (main.py)\<close>
definition msg_batch_prompt :: ustr where
  "msg_batch_prompt =
   [25209, 37327, 25552, 31034, 35789, 26684, 24335, 26080, 25928]"

text \<open>The number of a row, first part (main.py)\<close>
definition msg_batch_nth :: ustr where
  "msg_batch_nth =
   [31532, 32]"

text \<open>An empty prompt (main.py)\<close>
definition msg_batch_empty :: ustr where
  "msg_batch_empty =
   [32, 26465, 25552, 31034, 35789, 20026, 31354]"

text \<open>The most images, first part (main.py)\<close>
definition msg_batch_most :: ustr where
  "msg_batch_most =
   [32, 26465, 20219, 21153, 26368, 22810, 28155, 21152, 32]"

text \<open>Images that are to come later (main.py)\<close>
definition msg_batch_lazy :: ustr where
  "msg_batch_lazy =
   [25353, 20219, 21153, 19978, 20256, 21442, 32771, 22270, 26102, 19981, 33021, 39044, 20256,
     25972, 25209, 22270, 29255]"

text \<open>Two ways to upload (main.py)\<close>
definition msg_batch_both :: ustr where
  "msg_batch_both =
   [25209, 37327, 21442, 32771, 22270, 19981, 33021, 21516, 26102, 20351, 29992, 20998, 29255,
     21644, 30452, 25509, 19978, 20256]"

text \<open>The images are not complete (main.py)\<close>
definition msg_batch_incomplete :: ustr where
  "msg_batch_incomplete =
   [25209, 37327, 20219, 21153, 21442, 32771, 22270, 19978, 20256, 19981, 23436, 25972, 65292,
     35831, 37325, 26032, 25552, 20132]"

text \<open>The batch does not exist (main.py)\<close>
definition msg_batch_missing :: ustr where
  "msg_batch_missing =
   [25209, 27425, 19981, 23384, 22312]"

text \<open>The row does not wait for images (main.py)\<close>
definition msg_row_not_waiting :: ustr where
  "msg_row_not_waiting =
   [35813, 20219, 21153, 24403, 21069, 19981, 38656, 35201, 19978, 20256, 21442, 32771, 22270]"

text \<open>The images of the row (main.py)\<close>
definition msg_row_incomplete :: ustr where
  "msg_row_incomplete =
   [24403, 21069, 20219, 21153, 21442, 32771, 22270, 25968, 37327, 19981, 23436, 25972]"

text \<open>The row changed (main.py)\<close>
definition msg_row_changed :: ustr where
  "msg_row_changed =
   [35813, 20219, 21153, 21442, 32771, 22270, 29366, 24577, 24050, 21464, 21270, 65292, 35831,
     21047, 26032, 21518, 37325, 35797]"

text \<open>No prompt (main.py)\<close>
definition msg_parse_empty :: ustr where
  "msg_parse_empty =
   [27809, 26377, 35782, 21035, 21040, 20219, 20309, 26377, 25928, 25552, 31034, 35789]"

text \<open>The most images, second part (main.py)\<close>
definition msg_batch_pictures :: ustr where
  "msg_batch_pictures =
   [32, 24352, 21442, 32771, 22270]"

text \<open>Too many tasks (main.py)\<close>
definition msg_status_many :: ustr where
  "msg_status_many =
   [19968, 27425, 26368, 22810, 21047, 26032, 32, 50, 48, 48, 48, 32, 26465, 20219, 21153]"

text \<open>A batch without an id (main.py)\<close>
definition msg_batch_no_id :: ustr where
  "msg_batch_no_id =
   [25209, 27425, 32, 73, 68, 32, 19981, 33021, 20026, 31354]"

text \<open>No shared image (main.py)\<close>
definition msg_batch_choose :: ustr where
  "msg_batch_choose =
   [35831, 36873, 25321, 20849, 29992, 21442, 32771, 22270]"

end
