(* ===== verification/Billing.thy ===== *)
theory Billing
  imports Messages
begin

text \<open>
  The arithmetic of points (app/billing.py). A point has ten units. Amounts arrive as decimal
  texts; the model takes the parsed \<open>Decimal\<close>, or \<open>None\<close> where the text is no number.
  \<open>Fin c e\<close> is \<open>c * 10 ^ e\<close>; a product is rounded to the 28 digits of the default
  context, half to even, as \<open>Decimal\<close> does.
\<close>

section \<open>Decimal\<close>

datatype decimal = Fin int int | Infty bool | NaN

type_synonym amount = "decimal option"

fun num_digits :: "nat \<Rightarrow> nat" where
  "num_digits n = (if n < 10 then 1 else Suc (num_digits (n div 10)))"

declare num_digits.simps [simp del]

definition round_half_even :: "int \<Rightarrow> int \<Rightarrow> int" where
  "round_half_even m d =
     (let q = m div d; r = m mod d
      in if 2 * r < d \<or> (2 * r = d \<and> even q) then q else q + 1)"

text \<open>\<open>points * POINT_SCALE\<close>.\<close>

definition POINT_SCALE :: int where "POINT_SCALE = 10"

fun dec_scale :: "decimal \<Rightarrow> decimal" where
  "dec_scale (Fin c e) =
     (let m = c * POINT_SCALE; k = num_digits (nat \<bar>m\<bar>) - 28
      in if k = 0 then Fin m e
         else Fin (sgn m * round_half_even \<bar>m\<bar> (10 ^ k)) (e + int k))"
| "dec_scale (Infty neg) = Infty neg"
| "dec_scale NaN = NaN"

text \<open>\<open>d == d.to_integral_value()\<close>; a NaN is unequal to everything, an infinity is integral.\<close>

fun dec_integral :: "decimal \<Rightarrow> bool" where
  "dec_integral (Fin c e) \<longleftrightarrow> 0 \<le> e \<or> 10 ^ nat (- e) dvd c"
| "dec_integral (Infty _) \<longleftrightarrow> True"
| "dec_integral NaN \<longleftrightarrow> False"

text \<open>\<open>int(d)\<close> raises OverflowError on an infinity and ValueError on a NaN.\<close>

fun dec_int :: "decimal \<Rightarrow> int result" where
  "dec_int (Fin c e) =
     Inr (if 0 \<le> e then c * 10 ^ nat e else sgn c * (\<bar>c\<bar> div 10 ^ nat (- e)))"
| "dec_int (Infty _) = Inl OverflowError"
| "dec_int NaN = Inl (ValueError [])"

text \<open>\<open>d < 0\<close> and \<open>d <= 0\<close>; an ordering with a NaN raises InvalidOperation.\<close>

fun dec_sign :: "decimal \<Rightarrow> int result" where
  "dec_sign (Fin c e) = Inr (sgn c)"
| "dec_sign (Infty neg) = Inr (if neg then - 1 else 1)"
| "dec_sign NaN = Inl InvalidOperation"

section \<open>Points and units\<close>

definition points_to_units :: "amount \<Rightarrow> int result" where
  "points_to_units value = (case value of
     None \<Rightarrow> Inl (ValueError msg_points_format)
   | Some points \<Rightarrow>
      (let units = dec_scale points in case dec_sign points of
         Inl e \<Rightarrow> Inl e
       | Inr s \<Rightarrow>
          if s \<le> 0 \<or> \<not> dec_integral units then Inl (ValueError msg_points_positive)
          else dec_int units))"

definition nonnegative_points_to_units :: "amount \<Rightarrow> int result" where
  "nonnegative_points_to_units value = (case value of
     None \<Rightarrow> Inl (ValueError msg_points_format)
   | Some points \<Rightarrow>
      (let units = dec_scale points in case dec_sign points of
         Inl e \<Rightarrow> Inl e
       | Inr s \<Rightarrow>
          if s < 0 \<or> \<not> dec_integral units then Inl (ValueError msg_points_nonnegative)
          else dec_int units))"

text \<open>
  The result is an int when the units are whole points and otherwise the float that prints
  with one decimal place; either way it is read back through \<open>Decimal(str(...))\<close>.
\<close>

definition units_to_points :: "int \<Rightarrow> decimal" where
  "units_to_points units =
     (let value = max 0 units
      in if value mod POINT_SCALE = 0 then Fin (value div POINT_SCALE) 0 else Fin value (- 1))"

section \<open>Prices\<close>

definition DEFAULT_MODEL_COST_UNITS :: int where "DEFAULT_MODEL_COST_UNITS = 10"

definition MODEL_COST_UNITS :: "(ustr \<times> int) list" where
  "MODEL_COST_UNITS =
     [(u ''seedance 2.0'', 10), (model_wanxiang_27, 8), (model_wanxiang_26, 5),
      (u ''happyhorse 1.0'', 8), (u ''happyhorse 1.1'', 8)]"

text \<open>The part of the settings the prices read: dictionaries in insertion order.\<close>

record price_settings =
  model_duration_costs :: "(ustr \<times> (ustr \<times> (int \<times> decimal) list) list) list"
  model_duration_quota_costs :: "(ustr \<times> (ustr \<times> (int \<times> decimal) list) list) list"
  model_durations :: "(ustr \<times> (ustr \<times> int list) list) list"
  model_costs :: "(ustr \<times> (ustr \<times> decimal) list) list"
  video_duration :: int

text \<open>\<open>d.get(k, default)\<close>.\<close>

definition dict_get :: "('k \<times> 'v) list \<Rightarrow> 'k \<Rightarrow> 'v \<Rightarrow> 'v" where
  "dict_get d k v = (case map_of d k of None \<Rightarrow> v | Some x \<Rightarrow> x)"

definition select_duration :: "price_settings \<Rightarrow> ustr \<Rightarrow> ustr \<Rightarrow> int \<Rightarrow> int" where
  "select_duration s platform model duration =
     (if duration \<noteq> 0 then duration
      else let enabled = dict_get (dict_get (model_durations s) platform []) model [];
               preferred = (if platform = u ''dola'' then video_duration s else 10)
           in if preferred \<in> set enabled then preferred
              else case enabled of [] \<Rightarrow> preferred | d # _ \<Rightarrow> d)"

text \<open>The loop over the configured models that have a price per duration.\<close>

fun duration_cost ::
    "price_settings \<Rightarrow> ustr \<Rightarrow> ustr \<Rightarrow> int \<Rightarrow> (ustr \<times> (int \<times> decimal) list) list \<Rightarrow> int result option"
where
  "duration_cost s platform model duration [] = None"
| "duration_cost s platform model duration ((m, costs) # rest) =
     (if lower m \<noteq> model then duration_cost s platform model duration rest
      else case map_of costs (select_duration s platform m duration) of
        Some d \<Rightarrow> Some (points_to_units (Some d))
      | None \<Rightarrow> duration_cost s platform model duration rest)"

definition model_cost_units :: "price_settings \<Rightarrow> ustr \<Rightarrow> ustr \<Rightarrow> int \<Rightarrow> int result" where
  "model_cost_units s platform model duration =
     (let p = lower (strip platform); m = lower (strip model)
      in case duration_cost s p m duration (dict_get (model_duration_costs s) p []) of
           Some r \<Rightarrow> r
         | None \<Rightarrow>
            (case find (\<lambda>(c, _). lower c = m) (dict_get (model_costs s) p []) of
               Some (_, d) \<Rightarrow> points_to_units (Some d)
             | None \<Rightarrow> Inr (dict_get MODEL_COST_UNITS m DEFAULT_MODEL_COST_UNITS)))"

definition model_cost_points :: "price_settings \<Rightarrow> ustr \<Rightarrow> ustr \<Rightarrow> int \<Rightarrow> decimal result" where
  "model_cost_points s platform model duration =
     map_sum id units_to_points (model_cost_units s platform model duration)"

definition model_video_quota_cost_units ::
    "price_settings \<Rightarrow> ustr \<Rightarrow> ustr \<Rightarrow> int \<Rightarrow> int result" where
  "model_video_quota_cost_units s platform model duration =
     (let p = lower (strip platform); m = lower (strip model)
      in case find (\<lambda>(c, _). lower c = m) (dict_get (model_duration_quota_costs s) p []) of
           Some (c, costs) \<Rightarrow>
             points_to_units (Some (dict_get costs (select_duration s p c duration) (Fin 1 0)))
         | None \<Rightarrow> Inr POINT_SCALE)"

definition model_video_quota_cost :: "price_settings \<Rightarrow> ustr \<Rightarrow> ustr \<Rightarrow> int \<Rightarrow> decimal result" where
  "model_video_quota_cost s platform model duration =
     map_sum id units_to_points (model_video_quota_cost_units s platform model duration)"

definition package_bonus_free_uses :: "amount \<Rightarrow> int result" where
  "package_bonus_free_uses points = (case points_to_units points of
     Inl e \<Rightarrow> Inl e
   | Inr units \<Rightarrow> Inr (if units < 300 then 0 else (units * 2 + 50) div 100))"

section \<open>Facts about decimals\<close>

declare dec_scale.simps [simp del]

lemma num_digits_le: "0 < k \<Longrightarrow> n < 10 ^ k \<Longrightarrow> num_digits n \<le> k"
proof (induction n arbitrary: k rule: num_digits.induct)
  case (1 n)
  show ?case
  proof (cases "n < 10")
    case True
    with "1.prems" show ?thesis by (subst num_digits.simps) simp
  next
    case False
    with "1.prems" have "1 < k" by (cases k; cases "k = 1") auto
    then obtain j where k: "k = Suc j" and "0 < j" by (cases k) auto
    from "1.prems" k have "n div 10 < 10 ^ j" by auto
    with "1.IH" [OF False \<open>0 < j\<close>] have "num_digits (n div 10) \<le> j" by simp
    with False k show ?thesis by (subst num_digits.simps) simp
  qed
qed

text \<open>Up to 27 digits the product with the scale is exact.\<close>

lemma dec_scale_exact: "\<bar>c\<bar> < 10 ^ 27 \<Longrightarrow> dec_scale (Fin c e) = Fin (10 * c) e"
proof -
  assume "\<bar>c\<bar> < 10 ^ 27"
  then have "nat \<bar>c * 10\<bar> < 10 ^ 28" by (simp add: abs_mult nat_less_iff)
  then have "num_digits (nat \<bar>c * 10\<bar>) \<le> 28" by (intro num_digits_le) auto
  then show ?thesis by (simp add: dec_scale.simps POINT_SCALE_def mult.commute)
qed

lemma round_half_even_ge: "0 < d \<Longrightarrow> m div d \<le> round_half_even m d"
  by (simp add: round_half_even_def Let_def)

text \<open>Rounding keeps a positive amount positive.\<close>

lemma dec_scale_pos:
  assumes c: "0 < c"
  obtains m f where "dec_scale (Fin c e) = Fin m f" "0 < m"
proof -
  define k where "k = num_digits (nat \<bar>c * 10\<bar>) - 28"
  have eq: "dec_scale (Fin c e) =
      (if k = 0 then Fin (c * 10) e else Fin (round_half_even (c * 10) (10 ^ k)) (e + int k))"
    using c by (simp add: dec_scale.simps k_def POINT_SCALE_def Let_def sgn_if)
  have "0 < round_half_even (c * 10) (10 ^ k)" if "k \<noteq> 0"
  proof -
    have "10 ^ k \<le> c * 10"
    proof (rule ccontr)
      assume "\<not> 10 ^ k \<le> c * 10"
      then have "nat \<bar>c * 10\<bar> < 10 ^ k" using c by (simp add: nat_less_iff)
      with that have "num_digits (nat \<bar>c * 10\<bar>) \<le> k" by (intro num_digits_le) auto
      with that show False by (simp add: k_def)
    qed
    then have "0 < c * 10 div 10 ^ k" by (simp add: pos_imp_zdiv_pos_iff)
    then show ?thesis using round_half_even_ge [of "10 ^ k" "c * 10"] by simp
  qed
  with c eq that show ?thesis by (cases "k = 0") auto
qed

lemma dec_int_pos:
  assumes "0 < m" "dec_integral (Fin m f)" "dec_int (Fin m f) = Inr n"
  shows "0 < n"
proof (cases "0 \<le> f")
  case True
  with assms show ?thesis by auto
next
  case False
  with assms have "10 ^ nat (- f) dvd m" by simp
  with \<open>0 < m\<close> have "0 < m div 10 ^ nat (- f)" by (auto elim!: dvdE simp: zero_less_mult_iff)
  with False assms show ?thesis by auto
qed

lemma points_to_units_pos: "points_to_units v = Inr n \<Longrightarrow> 0 < n"
proof -
  assume ok: "points_to_units v = Inr n"
  then obtain d where v: "v = Some d" by (auto simp: points_to_units_def split: option.splits)
  show ?thesis
  proof (cases d)
    case (Fin c e)
    with ok v have c: "0 < c" and i: "dec_integral (dec_scale (Fin c e))"
      and n: "dec_int (dec_scale (Fin c e)) = Inr n"
      by (auto simp: points_to_units_def Let_def sgn_if split: if_splits)
    obtain m f where "dec_scale (Fin c e) = Fin m f" "0 < m" using dec_scale_pos [OF c] .
    with i n show ?thesis by (metis dec_int_pos)
  qed (use ok v in \<open>auto simp: points_to_units_def dec_scale.simps split: if_splits\<close>)
qed

text \<open>
  An amount written with at most 27 digits is accepted exactly when it is positive and a
  whole number of tenths, and the units returned are exactly ten times it.
\<close>

theorem points_to_units_exact:
  assumes "\<bar>c\<bar> < 10 ^ 27"
  shows "points_to_units (Some (Fin c e)) =
    (if 0 < c \<and> 0 \<le> e then Inr (10 * c * 10 ^ nat e)
     else if 0 < c \<and> 10 ^ nat (- e) dvd 10 * c then Inr (10 * c div 10 ^ nat (- e))
     else Inl (ValueError msg_points_positive))"
  using dec_scale_exact [OF assms, of e]
  by (auto simp: points_to_units_def Let_def sgn_if)

theorem points_to_units_exact_witness:
  "points_to_units (Some (Fin 25 (- 1))) = Inr 25 \<and>
   points_to_units (Some (Fin 25 (- 2))) = Inl (ValueError msg_points_positive)"
  using points_to_units_exact [of 25 "- 1"] points_to_units_exact [of 25 "- 2"] by simp

text \<open>
  points shown to a user and read back give the same units, up to 26 digits.
\<close>

theorem points_units_roundtrip:
  assumes "0 < n" "n < 10 ^ 26"
  shows "points_to_units (Some (units_to_points n)) = Inr n \<and>
    nonnegative_points_to_units (Some (units_to_points n)) = Inr n"
proof -
  have a: "\<bar>n div 10\<bar> < 10 ^ 27" "\<bar>n\<bar> < 10 ^ 27"
    using assms by (auto simp: abs_if)
  from assms have p: "n mod 10 = 0 \<Longrightarrow> 0 < n div 10" "n mod 10 = 0 \<Longrightarrow> 10 * (n div 10) = n"
    by auto
  show ?thesis
    using assms a p
    by (cases "n mod 10 = 0")
      (simp_all add: units_to_points_def Let_def POINT_SCALE_def points_to_units_def
        nonnegative_points_to_units_def dec_scale_exact sgn_if)
qed

theorem points_units_roundtrip_witness:
  "points_to_units (Some (units_to_points 37)) = Inr 37"
  using points_units_roundtrip [of 37] by simp

lemma nonnegative_points_of_units:
  assumes "0 \<le> n" "n < 10 ^ 26"
  shows "nonnegative_points_to_units (Some (units_to_points n)) = Inr n"
proof (cases "n = 0")
  case True
  then show ?thesis
    by (simp add: units_to_points_def POINT_SCALE_def nonnegative_points_to_units_def dec_scale_exact)
next
  case False
  with assms have a: "\<bar>n div 10\<bar> < 10 ^ 27" "\<bar>n\<bar> < 10 ^ 27" "0 < n" by auto
  then have p: "n mod 10 = 0 \<Longrightarrow> 0 < n div 10" "n mod 10 = 0 \<Longrightarrow> 10 * (n div 10) = n" by auto
  show ?thesis
    using a p
    by (cases "n mod 10 = 0")
      (simp_all add: units_to_points_def Let_def POINT_SCALE_def nonnegative_points_to_units_def
        dec_scale_exact sgn_if)
qed

section \<open>Facts about prices\<close>

lemma default_costs_pos: "0 < dict_get MODEL_COST_UNITS m DEFAULT_MODEL_COST_UNITS"
  by (simp add: dict_get_def MODEL_COST_UNITS_def DEFAULT_MODEL_COST_UNITS_def)

lemma duration_cost_pos: "duration_cost s p m d costs = Some (Inr n) \<Longrightarrow> 0 < n"
  by (induction s p m d costs rule: duration_cost.induct)
    (auto split: if_splits option.splits dest: points_to_units_pos)

text \<open>
  Whatever the administrator configured, a price that is computed is at least one unit;
  a task is never free because of the price table.
\<close>

theorem model_cost_units_pos:
  assumes "model_cost_units s platform model duration = Inr n"
  shows "0 < n"
  using assms default_costs_pos
  by (auto simp: model_cost_units_def Let_def split: option.splits
      dest: duration_cost_pos points_to_units_pos)

theorem model_cost_units_pos_witness:
  "0 < (8 :: int) \<and>
   model_cost_units \<lparr>model_duration_costs = [], model_duration_quota_costs = [],
     model_durations = [], model_costs = [(u ''qianwen'', [(u ''Wan'', Fin 8 (- 1))])],
     video_duration = 10\<rparr> (u ''qianwen'') (u ''wan'') 0 = Inr 8"
proof -
  let ?s = "\<lparr>model_duration_costs = [], model_duration_quota_costs = [],
     model_durations = [], model_costs = [(u ''qianwen'', [(u ''Wan'', Fin 8 (- 1))])],
     video_duration = 10\<rparr>"
  have "model_cost_units ?s (u ''qianwen'') (u ''wan'') 0 = Inr 8"
    by code_simp
  with model_cost_units_pos [OF this] show ?thesis by simp
qed

text \<open>
  The free uses of a package are none below 30 points and otherwise a fifth of the points,
  rounded to the nearest whole use.
\<close>

theorem package_bonus_rounding:
  assumes "points_to_units v = Inr units" "package_bonus_free_uses v = Inr b"
  shows "(units < 300 \<longrightarrow> b = 0) \<and> (300 \<le> units \<longrightarrow> \<bar>50 * b - units\<bar> \<le> 25 \<and> 6 \<le> b)"
  using assms by (auto simp: package_bonus_free_uses_def)

theorem package_bonus_rounding_witness:
  "points_to_units (Some (Fin 100 0)) = Inr 1000 \<and> \<bar>50 * (20::int) - 1000\<bar> \<le> 25"
proof -
  have a: "points_to_units (Some (Fin 100 0)) = Inr 1000"
    and b: "package_bonus_free_uses (Some (Fin 100 0)) = Inr 20"
    by code_simp+
  with package_bonus_rounding [OF a b] show ?thesis by simp
qed

end
