(* ===== verification/Storage.thy ===== *)
theory Storage
  imports Prelude "HOL-Library.AList"
begin

text \<open>
  How the services keep their rows. A table (or a JSON document's dictionary) is an association
  list in insertion order, which is Python's dictionary order; \<open>AList.update\<close> keeps the place
  of a key that is there and appends one that is not, and \<open>AList.delete\<close> is \<open>pop\<close>.

  Every service has two backends. With PostgreSQL a row is selected \<open>FOR UPDATE\<close>, a mutator
  changes it, the row is written when it changed, and an exception rolls the transaction back.
  With local files the whole document is read, changed in memory and written back, unless the
  code returns or raises before the write. A mutator therefore returns the row, its result and
  whether the local branch reaches its write.
\<close>

datatype backend = Postgres | LocalFile

type_synonym ('k, 'v) table = "('k \<times> 'v) list"

type_synonym ('v, 'r) mutator = "'v \<Rightarrow> ('v \<times> 'r \<times> bool) result"

text \<open>\<open>postgres.mutate_temp_token\<close>, \<open>mutate_batch_job\<close>, \<open>mutate_task_part\<close>: one row under lock.\<close>

definition pg_mutate :: "py_error \<Rightarrow> ('k, 'v) table \<Rightarrow> 'k \<Rightarrow> ('v, 'r) mutator \<Rightarrow> (('k, 'v) table \<times> 'r) result" where
  "pg_mutate missing rows k f = (case map_of rows k of
     None \<Rightarrow> Inl missing
   | Some v \<Rightarrow> (case f v of
       Inl e \<Rightarrow> Inl e
     | Inr (v', r, _) \<Rightarrow> Inr (AList.update k v' rows, r)))"

text \<open>The local branch: read, mutate in memory, write where the code reaches the write.\<close>

definition file_mutate :: "py_error \<Rightarrow> ('k, 'v) table \<Rightarrow> 'k \<Rightarrow> ('v, 'r) mutator \<Rightarrow> (('k, 'v) table \<times> 'r) result" where
  "file_mutate missing rows k f = (case map_of rows k of
     None \<Rightarrow> Inl missing
   | Some v \<Rightarrow> (case f v of
       Inl e \<Rightarrow> Inl e
     | Inr (v', r, written) \<Rightarrow> Inr (if written then AList.update k v' rows else rows, r)))"

definition run_row :: "backend \<Rightarrow> py_error \<Rightarrow> ('k, 'v) table \<Rightarrow> 'k \<Rightarrow> ('v, 'r) mutator \<Rightarrow> (('k, 'v) table \<times> 'r) result" where
  "run_row b = (case b of Postgres \<Rightarrow> pg_mutate | LocalFile \<Rightarrow> file_mutate)"

text \<open>
  What the services rely on: a run finds the row or reports that it is missing, changes no
  other row, and leaves in the row what the mutator returned or, if nothing was written, what
  was there.
\<close>

locale row_store =
  fixes run :: "py_error \<Rightarrow> ('k, 'v) table \<Rightarrow> 'k \<Rightarrow> ('v, 'r) mutator \<Rightarrow> (('k, 'v) table \<times> 'r) result"
  assumes run_missing: "map_of rows k = None \<Longrightarrow> run e rows k f = Inl e"
    and run_error: "map_of rows k = Some v \<Longrightarrow> f v = Inl x \<Longrightarrow> run e rows k f = Inl x"
    and run_ok: "map_of rows k = Some v \<Longrightarrow> f v = Inr (v', r, w) \<Longrightarrow>
      \<exists>rows'. run e rows k f = Inr (rows', r) \<and>
        (map_of rows' = (map_of rows)(k \<mapsto> v') \<or> (\<not> w \<and> rows' = rows))"
    and run_written: "map_of rows k = Some v \<Longrightarrow> f v = Inr (v', r, True) \<Longrightarrow>
      run e rows k f = Inr (AList.update k v' rows, r)"
begin

lemma run_Inr:
  assumes "run e rows k f = Inr (rows', r)"
  obtains v v' w where "map_of rows k = Some v" "f v = Inr (v', r, w)"
    "map_of rows' = (map_of rows)(k \<mapsto> v') \<or> (\<not> w \<and> rows' = rows)"
proof (cases "map_of rows k")
  case None
  with assms show ?thesis by (simp add: run_missing)
next
  case (Some v)
  show ?thesis
  proof (cases "f v")
    case (Inl x)
    with Some assms show ?thesis by (simp add: run_error)
  next
    case (Inr p)
    obtain v' r' w where p: "p = (v', r', w)" by (cases p)
    from run_ok [where e = e and k = k and f = f and rows = rows and v = v and v' = v' and r = r' and w = w]
      Some Inr p assms
    have "r' = r" "map_of rows' = (map_of rows)(k \<mapsto> v') \<or> (\<not> w \<and> rows' = rows)" by auto
    with that Some Inr p show ?thesis by blast
  qed
qed

lemma run_Inl:
  assumes "run e rows k f = Inl x"
  shows "(map_of rows k = None \<and> x = e) \<or> (\<exists>v. map_of rows k = Some v \<and> f v = Inl x)"
proof (cases "map_of rows k")
  case None
  with assms show ?thesis by (simp add: run_missing)
next
  case (Some v)
  show ?thesis
  proof (cases "f v")
    case (Inl y)
    with Some assms show ?thesis by (simp add: run_error)
  next
    case (Inr p)
    obtain v' r' w where "p = (v', r', w)" by (cases p)
    with run_ok [where e = e and k = k and f = f and rows = rows and v = v and v' = v' and r = r' and w = w]
      Some Inr assms show ?thesis by auto
  qed
qed

text \<open>Other rows keep their values.\<close>

lemma run_frame: "run e rows k f = Inr (rows', r) \<Longrightarrow> k' \<noteq> k \<Longrightarrow> map_of rows' k' = map_of rows k'"
  by (erule run_Inr) auto

text \<open>A property of every row is kept when the mutator keeps it.\<close>

lemma run_invariant:
  assumes "run e rows k f = Inr (rows', r)"
    and "\<And>k v. map_of rows k = Some v \<Longrightarrow> P v"
    and "\<And>v v' w. map_of rows k = Some v \<Longrightarrow> P v \<Longrightarrow> f v = Inr (v', r, w) \<Longrightarrow> P v'"
    and "map_of rows' k' = Some v"
  shows "P v"
  using assms(1)
proof (rule run_Inr)
  fix v0 v1 w
  assume v0: "map_of rows k = Some v0" and f: "f v0 = Inr (v1, r, w)"
    and alt: "map_of rows' = (map_of rows)(k \<mapsto> v1) \<or> (\<not> w \<and> rows' = rows)"
  from assms(3) [OF v0 assms(2) [OF v0] f] have "P v1" .
  with alt assms(2,4) show ?thesis by (auto split: if_splits)
qed

text \<open>The domain does not change: a mutator never creates or removes a row.\<close>

lemma run_dom: "run e rows k f = Inr (rows', r) \<Longrightarrow> dom (map_of rows') = dom (map_of rows)"
  by (erule run_Inr) (auto split: if_splits)

end

interpretation pg_rows: row_store pg_mutate
  by unfold_locales (auto simp: pg_mutate_def update_conv')

interpretation file_rows: row_store file_mutate
  by unfold_locales (auto simp: file_mutate_def update_conv')

interpretation any_rows: row_store "run_row b" for b
  by (unfold_locales; cases b)
    (auto simp: run_row_def pg_mutate_def file_mutate_def update_conv')

text \<open>When the mutator's early returns are not taken, the backends do the same.\<close>

text \<open>The keys and their order are kept.\<close>

lemma run_row_keys:
  assumes "run_row b e rows k f = Inr (rows', r)"
  shows "map fst rows' = map fst rows"
proof -
  have "map fst (AList.update k v rows) = map fst rows" if "map_of rows k = Some v'" for v v'
    using that by (induction rows) (auto split: if_splits)
  with assms show ?thesis
    by (cases b) (auto simp: run_row_def pg_mutate_def file_mutate_def split: option.splits sum.splits if_splits)
qed

lemma backends_agree:
  assumes "\<And>v v' r w. map_of rows k = Some v \<Longrightarrow> f v = Inr (v', r, w) \<Longrightarrow> w \<or> v' = v"
  shows "map_sum id (\<lambda>(t, r). (map_of t, r)) (run_row Postgres e rows k f)
       = map_sum id (\<lambda>(t, r). (map_of t, r)) (run_row LocalFile e rows k f)"
proof (cases "map_of rows k")
  case None
  then show ?thesis by (simp add: run_row_def pg_mutate_def file_mutate_def)
next
  case (Some v)
  show ?thesis
  proof (cases "f v")
    case (Inl x)
    with Some show ?thesis by (simp add: run_row_def pg_mutate_def file_mutate_def)
  next
    case (Inr p)
    obtain v' r w where p: "p = (v', r, w)" by (cases p)
    with Inr Some assms have "w \<or> v' = v" by blast
    with Inr Some p show ?thesis
      by (auto simp: run_row_def pg_mutate_def file_mutate_def update_conv' fun_upd_idem)
  qed
qed

section \<open>Association lists\<close>

lemma update_new: "map_of xs k = None \<Longrightarrow> AList.update k v xs = xs @ [(k, v)]"
  by (induction xs) (auto split: if_splits)

lemma sum_update:
  fixes g :: "'k \<times> 'v \<Rightarrow> int"
  shows "map_of xs k = Some v \<Longrightarrow>
    sum_list (map g (AList.update k v' xs)) = sum_list (map g xs) - g (k, v) + g (k, v')"
  by (induction xs) (auto split: if_splits)

lemma set_update_distinct:
  "distinct (map fst xs) \<Longrightarrow> set (AList.update k v xs) = {p \<in> set xs. fst p \<noteq> k} \<union> {(k, v)}"
  by (induction xs) (auto simp: image_iff split: if_splits)

lemma in_set_map_of: "distinct (map fst xs) \<Longrightarrow> (k, v) \<in> set xs \<longleftrightarrow> map_of xs k = Some v"
  by simp

end
