(* ===== verification/Transactions.thy ===== *)
theory Transactions
  imports Billing Storage
begin

text \<open>
  The ledger of point movements (app/point_transactions.py): recording an entry in either
  backend and the paged listing of a user's entries. The document is the list of entries in
  the order they were recorded.
\<close>

section \<open>Entries\<close>

record transaction =
  tx_id :: ustr
  tx_user_id :: ustr
  tx_kind :: ustr
  tx_amount_units :: int
  tx_amount :: decimal
  tx_balance_units :: "int option"
  tx_balance :: "decimal option"
  tx_video_quota_change :: decimal
  tx_video_quota_balance :: "decimal option"
  tx_title :: ustr
  tx_detail :: ustr
  tx_reference_id :: ustr
  tx_visible_to_client :: bool
  tx_created_at :: stamp

text \<open>What a caller passes to \<open>record_transaction\<close>.\<close>

record transaction_args =
  ta_user_id :: ustr
  ta_kind :: ustr
  ta_amount_units :: int
  ta_title :: ustr
  ta_balance_units :: "int option"
  ta_reference_id :: ustr
  ta_detail :: ustr
  ta_video_quota_change :: decimal
  ta_video_quota_balance :: "decimal option"
  ta_transaction_id :: ustr
  ta_visible_to_client :: bool

text \<open>\<open>_points\<close>: like \<open>units_to_points\<close> but of either sign.\<close>

definition signed_points :: "int \<Rightarrow> decimal" where
  "signed_points value =
     (if value mod POINT_SCALE = 0 then Fin (value div POINT_SCALE) 0 else Fin value (- 1))"

fun dec_neg :: "decimal \<Rightarrow> decimal" where
  "dec_neg (Fin c e) = Fin (- c) e"
| "dec_neg (Infty neg) = Infty (\<not> neg)"
| "dec_neg NaN = NaN"

fun dec_abs :: "decimal \<Rightarrow> decimal" where
  "dec_abs (Fin c e) = Fin \<bar>c\<bar> e"
| "dec_abs (Infty neg) = Infty False"
| "dec_abs NaN = NaN"

text \<open>The stored change of the video quota: tenths, with the sign of the argument.\<close>

definition quota_change_points :: "decimal \<Rightarrow> decimal result" where
  "quota_change_points d =
     (case dec_sign d of
        Inr s \<Rightarrow>
          if 0 \<le> s then map_sum id units_to_points (nonnegative_points_to_units (Some d))
          else map_sum id (dec_neg \<circ> units_to_points) (nonnegative_points_to_units (Some (dec_abs d)))
      | Inl _ \<Rightarrow> map_sum id (dec_neg \<circ> units_to_points) (nonnegative_points_to_units (Some (dec_abs d))))"

definition quota_balance_points :: "decimal option \<Rightarrow> decimal option result" where
  "quota_balance_points b = (case b of
     None \<Rightarrow> Inr None
   | Some d \<Rightarrow> map_sum id (Some \<circ> units_to_points) (nonnegative_points_to_units (Some d)))"

text \<open>The entry; \<open>rand\<close> is the fresh identifier of \<open>secrets.token_hex(12)\<close>.\<close>

definition transaction_entry :: "int \<Rightarrow> ustr \<Rightarrow> transaction_args \<Rightarrow> transaction result" where
  "transaction_entry now rand a =
     (case quota_change_points (ta_video_quota_change a) of
        Inl e \<Rightarrow> Inl e
      | Inr change \<Rightarrow>
         (case quota_balance_points (ta_video_quota_balance a) of
            Inl e \<Rightarrow> Inl e
          | Inr quota_balance \<Rightarrow>
             Inr \<lparr>tx_id = str_or (take 32 (strip (ta_transaction_id a))) rand,
                  tx_user_id = strip (ta_user_id a),
                  tx_kind = take 40 (str_or (ta_kind a) (u ''adjustment'')),
                  tx_amount_units = ta_amount_units a,
                  tx_amount = signed_points (ta_amount_units a),
                  tx_balance_units = ta_balance_units a,
                  tx_balance = map_option signed_points (ta_balance_units a),
                  tx_video_quota_change = change,
                  tx_video_quota_balance = quota_balance,
                  tx_title = take 120 (strip (str_or (ta_title a) msg_points_change)),
                  tx_detail = take 500 (strip (ta_detail a)),
                  tx_reference_id = take 120 (strip (ta_reference_id a)),
                  tx_visible_to_client = ta_visible_to_client a,
                  tx_created_at = At now\<rparr>))"

text \<open>\<open>postgres.insert_point_transaction\<close>: an id that is there is left alone.\<close>

definition insert_point_transaction :: "transaction \<Rightarrow> transaction list \<Rightarrow> transaction list" where
  "insert_point_transaction entry rows =
     (if \<exists>t \<in> set rows. tx_id t = tx_id entry then rows else rows @ [entry])"

text \<open>\<open>None\<close> is the empty dictionary returned for an empty user.\<close>

definition record_transaction ::
    "backend \<Rightarrow> int \<Rightarrow> ustr \<Rightarrow> transaction list \<Rightarrow> transaction_args \<Rightarrow>
     (transaction list \<times> transaction option) result" where
  "record_transaction b now rand rows a =
     (if strip (ta_user_id a) = [] then Inr (rows, None)
      else case transaction_entry now rand a of
        Inl e \<Rightarrow> Inl e
      | Inr entry \<Rightarrow>
         (case b of
            Postgres \<Rightarrow> Inr (insert_point_transaction entry rows, Some entry)
          | LocalFile \<Rightarrow>
             (case find (\<lambda>t. tx_id t = tx_id entry) rows of
                Some existing \<Rightarrow> Inr (rows, Some existing)
              | None \<Rightarrow> Inr (last_n 10000 (rows @ [entry]), Some entry))))"

section \<open>Listing\<close>

record 'a page =
  pg_items :: "'a list"
  pg_total :: int
  pg_page :: int
  pg_page_size :: int
  pg_total_pages :: int

definition make_page :: "int \<Rightarrow> int \<Rightarrow> 'a list \<Rightarrow> 'a page" where
  "make_page p m rows =
     (let total_rows = int (length rows); q = page_of total_rows m p
      in \<lparr>pg_items = page_slice m q rows, pg_total = total_rows, pg_page = q, pg_page_size = m,
          pg_total_pages = page_count total_rows m\<rparr>)"

definition visible_transactions :: "ustr \<Rightarrow> bool \<Rightarrow> transaction list \<Rightarrow> transaction list" where
  "visible_transactions user_id include_hidden rows =
     filter (\<lambda>t. tx_user_id t = user_id \<and> (include_hidden \<or> tx_visible_to_client t)) rows"

text \<open>
  The local backend sorts by time, newest first, and keeps the recorded order of equal times;
  \<open>postgres.query_point_transactions\<close> orders by time and identifier, both descending.
\<close>

definition list_transactions ::
    "backend \<Rightarrow> transaction list \<Rightarrow> ustr \<Rightarrow> int \<Rightarrow> int \<Rightarrow> bool \<Rightarrow> transaction page" where
  "list_transactions b rows user_id p page_size include_hidden =
     (let m = clamp 1 100 page_size; found = visible_transactions user_id include_hidden rows
      in make_page p m
           (case b of LocalFile \<Rightarrow> sort_desc tx_created_at found
                    | Postgres \<Rightarrow> sort_desc (\<lambda>t. (tx_created_at t, tx_id t)) found))"

section \<open>Lemmas\<close>

lemma record_transaction_rows:
  assumes "record_transaction b now rand rows a = Inr (rows', r)" "t \<in> set rows'"
  shows "t \<in> set rows \<or> r = Some t"
  using assms set_last_n [of 10000 "rows @ [the r]"]
  by (auto simp: record_transaction_def insert_point_transaction_def
      split: sum.splits backend.splits option.splits if_splits)

lemma distinct_ids_snoc:
  "distinct (map tx_id rows) \<Longrightarrow> \<forall>t \<in> set rows. tx_id t \<noteq> tx_id e \<Longrightarrow> distinct (map tx_id (rows @ [e]))"
  by auto

lemma distinct_map_last_n: "distinct (map f xs) \<Longrightarrow> distinct (map f (last_n n xs))"
  by (metis distinct_drop drop_map last_n_def)

text \<open>
  an entry is recorded at most once per identifier, whichever backend runs: identifiers
  stay distinct, and recording the same identifier again leaves the ledger as it was.
\<close>

theorem transactions_recorded_once:
  assumes "distinct (map tx_id rows)"
    and "record_transaction b now rand rows a = Inr (rows', Some t)"
  shows "distinct (map tx_id rows') \<and>
    (\<exists>s \<in> set rows'. tx_id s = tx_id t) \<and>
    (\<forall>now2 a2 rows'' t2. record_transaction b now2 rand rows' a2 = Inr (rows'', Some t2) \<longrightarrow>
       tx_id t2 = tx_id t \<longrightarrow> rows'' = rows')"
proof -
  have fresh: "distinct (map tx_id (last_n 10000 (rows @ [e])))"
    if "find (\<lambda>t. tx_id t = tx_id e) rows = None" for e
    using assms(1) that by (intro distinct_map_last_n distinct_ids_snoc) (auto simp: find_None_iff)
  have "distinct (map tx_id rows')" and there: "\<exists>s \<in> set rows'. tx_id s = tx_id t"
    using assms fresh last_n_snoc_in [of 10000 t rows]
    by (auto simp: record_transaction_def insert_point_transaction_def image_iff
        split: sum.splits backend.splits option.splits if_splits dest: find_Some_in) metis+
  moreover have "rows'' = rows'"
    if r: "record_transaction b now2 rand rows' a2 = Inr (rows'', Some t2)" and i: "tx_id t2 = tx_id t"
    for now2 a2 rows'' t2
  proof -
    have "find (\<lambda>s. tx_id s = tx_id t) rows' \<noteq> None"
      using there by (auto simp: find_None_iff)
    with r i there show ?thesis
      by (auto simp: record_transaction_def insert_point_transaction_def
          split: sum.splits backend.splits option.splits if_splits)
  qed
  ultimately show ?thesis by blast
qed

definition example_args :: transaction_args where
  "example_args = \<lparr>ta_user_id = u ''u1'', ta_kind = u ''refund'', ta_amount_units = 25,
     ta_title = [], ta_balance_units = Some 30, ta_reference_id = [], ta_detail = [],
     ta_video_quota_change = Fin 0 0, ta_video_quota_balance = None,
     ta_transaction_id = u ''t1'', ta_visible_to_client = True\<rparr>"

theorem transactions_recorded_once_witness:
  "\<exists>rows t. record_transaction LocalFile 5 (u ''r'') [] example_args = Inr (rows, Some t) \<and>
     distinct (map tx_id rows) \<and> tx_id t = u ''t1''"
proof -
  obtain rows t where r: "record_transaction LocalFile 5 (u ''r'') [] example_args = Inr (rows, Some t)"
    and i: "tx_id t = u ''t1''"
    by (simp add: record_transaction_def example_args_def transaction_entry_def strip_def u_def
        is_space_def quota_change_points_def quota_balance_points_def nonnegative_points_to_units_def
        dec_scale_exact last_n_def)
  have d: "distinct (map tx_id ([] :: transaction list))" by simp
  from transactions_recorded_once [OF d r] r i show ?thesis by blast
qed

text \<open>All pages of a user's ledger, put together.\<close>

definition all_pages :: "backend \<Rightarrow> transaction list \<Rightarrow> ustr \<Rightarrow> int \<Rightarrow> bool \<Rightarrow> transaction list" where
  "all_pages b rows user_id page_size include_hidden =
     concat (map (\<lambda>i. pg_items (list_transactions b rows user_id (int i + 1) page_size include_hidden))
       [0..<nat (pg_total_pages (list_transactions b rows user_id 1 page_size include_hidden))])"

lemma all_pages_sorted:
  "all_pages b rows user_id page_size include_hidden =
     (let found = visible_transactions user_id include_hidden rows
      in case b of LocalFile \<Rightarrow> sort_desc tx_created_at found
                 | Postgres \<Rightarrow> sort_desc (\<lambda>t. (tx_created_at t, tx_id t)) found)"
proof -
  define m where "m = clamp 1 100 page_size"
  define sorted_rows where "sorted_rows =
    (let found = visible_transactions user_id include_hidden rows
     in case b of LocalFile \<Rightarrow> sort_desc tx_created_at found
                | Postgres \<Rightarrow> sort_desc (\<lambda>t. (tx_created_at t, tx_id t)) found)"
  have m: "0 < m" using clamp_bounds [of 1 100 page_size] by (simp add: m_def)
  have pg: "list_transactions b rows user_id p page_size include_hidden = make_page p m sorted_rows" for p
    by (simp add: list_transactions_def Let_def m_def sorted_rows_def)
  have "all_pages b rows user_id page_size include_hidden =
      concat (map (\<lambda>i. page_slice m (int i + 1) sorted_rows)
        [0..<nat (page_count (int (length sorted_rows)) m)])"
    by (auto simp: all_pages_def pg make_page_def Let_def page_of_def
        intro!: arg_cong [where f = concat])
  also have "\<dots> = sorted_rows" by (rule pages_cover [OF m])
  finally show ?thesis by (simp add: sorted_rows_def)
qed

text \<open>
  Paging a user's ledger through all its pages shows every entry of the user that may be
  shown, each as often as it was recorded, newest first, and no page is over its size.
\<close>

theorem list_transactions_complete:
  "mset (all_pages b rows user_id page_size include_hidden)
     = mset (visible_transactions user_id include_hidden rows)
   \<and> sorted_wrt (\<lambda>s t. tx_created_at t \<le> tx_created_at s)
       (all_pages b rows user_id page_size include_hidden)
   \<and> int (length (pg_items (list_transactions b rows user_id p page_size include_hidden)))
       \<le> pg_page_size (list_transactions b rows user_id p page_size include_hidden)"
proof (intro conjI)
  show "mset (all_pages b rows user_id page_size include_hidden)
     = mset (visible_transactions user_id include_hidden rows)"
    by (simp add: all_pages_sorted Let_def split: backend.splits)
  have "sorted_wrt (\<lambda>s t. tx_created_at t \<le> tx_created_at s)
      (sort_desc (\<lambda>t. (tx_created_at t, tx_id t)) found)" for found
    using sorted_sort_desc [of "\<lambda>t. (tx_created_at t, tx_id t)" found]
    by (rule sorted_wrt_mono_rel [rotated]) auto
  then show "sorted_wrt (\<lambda>s t. tx_created_at t \<le> tx_created_at s)
      (all_pages b rows user_id page_size include_hidden)"
    using sorted_sort_desc [of tx_created_at]
    by (auto simp: all_pages_sorted Let_def split: backend.splits)
  show "int (length (pg_items (list_transactions b rows user_id p page_size include_hidden)))
       \<le> pg_page_size (list_transactions b rows user_id p page_size include_hidden)"
    using clamp_bounds [of 1 100 page_size]
    by (simp add: list_transactions_def make_page_def Let_def length_page_slice)
qed

end
