(* ===== verification/Temp_Access.thy ===== *)
theory Temp_Access
  imports Transactions
begin

text \<open>
  Access tokens and their balances (app/temp_access.py). A token owns a video quota and a
  credit balance, both in tenths; a task reserves its price from one of the two when it is
  created and gets it back at most once. Operations are stated for both backends where they
  differ, on the table from token hash to entry.
\<close>

section \<open>Data\<close>

definition TEMP_TOKEN_LIMIT :: int where "TEMP_TOKEN_LIMIT = 100"
definition TEMP_TOKEN_CONCURRENCY :: int where "TEMP_TOKEN_CONCURRENCY = 1"
definition MAX_TEMP_TOKEN_CONCURRENCY :: int where "MAX_TEMP_TOKEN_CONCURRENCY = 100"
definition MAX_REMOTE_GENERATION_LIMIT :: int where "MAX_REMOTE_GENERATION_LIMIT = 999"
definition DEFAULT_TASK_RETENTION_DAYS :: int where "DEFAULT_TASK_RETENTION_DAYS = 7"
definition MIN_TASK_RETENTION_DAYS :: int where "MIN_TASK_RETENTION_DAYS = 1"
definition MAX_TASK_RETENTION_DAYS :: int where "MAX_TASK_RETENTION_DAYS = 15"

datatype billing_priority = VideoFirst | PointsFirst

datatype reservation_status = Reserved | Refunded

record reservation =
  rs_status :: reservation_status
  rs_free :: bool
  rs_units :: int
  rs_video_units :: int
  rs_user_id :: ustr
  rs_created_at :: stamp
  rs_refunded_at :: stamp

text \<open>
  The stored entry. A number or text that may be missing is 0 or the empty string, as the code
  reads it (\<open>entry.get(k) or default\<close>); \<open>video_quota_units\<close> and the priority distinguish
  missing. A stored number of points is finite, so reading it raises at most ValueError.
\<close>

record token_entry =
  te_token :: ustr
  te_remark :: ustr
  te_note :: ustr
  te_limit :: int
  te_used :: int
  te_concurrency :: int
  te_remote_generation_limit :: int
  te_task_retention_days :: int
  te_free_remaining :: decimal
  te_video_quota_units :: "int option"
  te_credit_units :: int
  te_billing_version :: int
  te_billing_priority :: "billing_priority option"
  te_reservations :: "(ustr, reservation) table"
  te_quota_refund_ids :: "ustr list"
  te_created_at :: stamp
  te_updated_at :: stamp

type_synonym token_table = "(ustr, token_entry) table"

record access_context =
  ac_token_hash :: ustr
  ac_is_admin :: bool
  ac_is_temp :: bool
  ac_limit :: int
  ac_used :: int
  ac_remaining :: int
  ac_concurrency :: int
  ac_remote_generation_limit :: int
  ac_task_retention_days :: int
  ac_free_remaining :: decimal
  ac_video_quota_units :: int
  ac_credit_units :: int
  ac_billing_priority :: billing_priority

record public_token =
  pt_id :: ustr
  pt_token :: ustr
  pt_remark :: ustr
  pt_limit :: int
  pt_used :: int
  pt_remaining :: int
  pt_free_remaining :: decimal
  pt_video_quota_units :: int
  pt_credit_units :: int
  pt_points :: decimal
  pt_billing_priority :: billing_priority
  pt_concurrency :: int
  pt_remote_generation_limit :: int
  pt_task_retention_days :: int
  pt_created_at :: stamp
  pt_updated_at :: stamp

section \<open>Normalisation\<close>

definition normalize_billing_priority :: "ustr \<Rightarrow> billing_priority result" where
  "normalize_billing_priority value =
     (let priority = lower (strip (str_or value (u ''video_first'')))
      in if priority = u ''video_first'' then Inr VideoFirst
         else if priority = u ''points_first'' then Inr PointsFirst
         else Inl (ValueError msg_priority_invalid))"

text \<open>The priority of an entry: a stored one was normalised before it was stored.\<close>

definition entry_priority :: "token_entry \<Rightarrow> billing_priority" where
  "entry_priority entry = (case te_billing_priority entry of None \<Rightarrow> VideoFirst | Some p \<Rightarrow> p)"

definition normalize_retention_days :: "int \<Rightarrow> int" where
  "normalize_retention_days value =
     clamp MIN_TASK_RETENTION_DAYS MAX_TASK_RETENTION_DAYS (int_or value DEFAULT_TASK_RETENTION_DAYS)"

definition entry_concurrency :: "token_entry \<Rightarrow> int" where
  "entry_concurrency entry =
     clamp 1 MAX_TEMP_TOKEN_CONCURRENCY (int_or (te_concurrency entry) TEMP_TOKEN_CONCURRENCY)"

definition normalize_remote_generation_limit :: "token_entry \<Rightarrow> int" where
  "normalize_remote_generation_limit entry =
     (if te_remote_generation_limit entry = 0 then entry_concurrency entry
      else clamp 1 MAX_REMOTE_GENERATION_LIMIT (te_remote_generation_limit entry))"

text \<open>The video quota in tenths; an entry of an earlier version keeps it in points.\<close>

definition entry_video_quota_units :: "token_entry \<Rightarrow> int" where
  "entry_video_quota_units entry = (case te_video_quota_units entry of
     Some n \<Rightarrow> max 0 n
   | None \<Rightarrow> (case nonnegative_points_to_units (Some (te_free_remaining entry)) of
       Inr n \<Rightarrow> n | Inl _ \<Rightarrow> 0))"

definition set_entry_video_quota_units :: "token_entry \<Rightarrow> int \<Rightarrow> token_entry" where
  "set_entry_video_quota_units entry units =
     entry\<lparr>te_video_quota_units := Some (max 0 units),
           te_free_remaining := units_to_points (max 0 units)\<rparr>"

definition public_token :: "ustr \<Rightarrow> token_entry \<Rightarrow> public_token" where
  "public_token token_hash entry =
     (let limit = max 0 (int_or (te_limit entry) TEMP_TOKEN_LIMIT);
          used = max 0 (te_used entry);
          video_quota_units = entry_video_quota_units entry;
          credit_units = max 0 (te_credit_units entry)
      in \<lparr>pt_id = token_hash,
          pt_token = te_token entry,
          pt_remark = take 100 (str_or (te_remark entry) (te_note entry)),
          pt_limit = limit,
          pt_used = used,
          pt_remaining = max 0 (limit - used),
          pt_free_remaining = units_to_points video_quota_units,
          pt_video_quota_units = video_quota_units,
          pt_credit_units = credit_units,
          pt_points = units_to_points credit_units,
          pt_billing_priority = entry_priority entry,
          pt_concurrency = entry_concurrency entry,
          pt_remote_generation_limit = normalize_remote_generation_limit entry,
          pt_task_retention_days = normalize_retention_days (te_task_retention_days entry),
          pt_created_at = te_created_at entry,
          pt_updated_at = te_updated_at entry\<rparr>)"

text \<open>\<open>(video_quota_units + credit_units + POINT_SCALE - 1) // POINT_SCALE\<close>.\<close>

definition combined_limit :: "int \<Rightarrow> int \<Rightarrow> int" where
  "combined_limit video_quota_units credit_units =
     (video_quota_units + credit_units + POINT_SCALE - 1) div POINT_SCALE"

definition sync_legacy_fields :: "token_entry \<Rightarrow> token_entry" where
  "sync_legacy_fields entry =
     (let video_quota_units = entry_video_quota_units entry;
          entry = set_entry_video_quota_units entry video_quota_units
      in entry\<lparr>te_limit := combined_limit video_quota_units (max 0 (te_credit_units entry)),
              te_used := 0\<rparr>)"

text \<open>Entries of version 1 and 2 are brought to version 3; the flag says whether anything changed.\<close>

definition migrate_entry :: "token_entry \<Rightarrow> int \<Rightarrow> (token_entry \<times> bool) result" where
  "migrate_entry entry free_limit =
     (let version = te_billing_version entry;
          normalized_limit = max 0 free_limit;
          limit = max normalized_limit (int_or (te_limit entry) normalized_limit);
          used = max 0 (te_used entry);
          entry2 = (if version < 2
            then entry\<lparr>te_free_remaining := Fin (max 0 (normalized_limit - used)) 0,
                       te_credit_units := max 0 (limit - max used normalized_limit) * POINT_SCALE,
                       te_reservations := []\<rparr>
            else entry)
      in if version < 3
         then (case nonnegative_points_to_units (Some (te_free_remaining entry2)) of
             Inl e \<Rightarrow> Inl e
           | Inr n \<Rightarrow>
              Inr (sync_legacy_fields ((set_entry_video_quota_units entry2 n)\<lparr>te_billing_version := 3\<rparr>), True))
         else Inr (entry, False))"

text \<open>
  Closed reservations beyond the newest \<open>max_closed\<close> are dropped, open ones are all kept.
\<close>

definition closed_at :: "reservation \<Rightarrow> stamp" where
  "closed_at r = stamp_or (rs_refunded_at r) (rs_created_at r)"

definition prune_reservations :: "nat \<Rightarrow> token_entry \<Rightarrow> token_entry" where
  "prune_reservations max_closed entry =
     (let reservations = te_reservations entry
      in if length reservations \<le> max_closed then entry
         else let active = filter (\<lambda>(_, r). rs_status r = Reserved) reservations;
                  closed = filter (\<lambda>(_, r). rs_status r \<noteq> Reserved) reservations
              in entry\<lparr>te_reservations := active @ take max_closed (sort_desc (closed_at \<circ> snd) closed)\<rparr>)"

definition get_temp_context_from_entry :: "ustr \<Rightarrow> token_entry \<Rightarrow> access_context" where
  "get_temp_context_from_entry token_hash entry =
     (let video_quota_units = entry_video_quota_units entry;
          credit_units = max 0 (te_credit_units entry);
          combined = combined_limit video_quota_units credit_units
      in \<lparr>ac_token_hash = token_hash, ac_is_admin = False, ac_is_temp = True,
          ac_limit = combined, ac_used = 0, ac_remaining = combined,
          ac_concurrency = entry_concurrency entry,
          ac_remote_generation_limit = normalize_remote_generation_limit entry,
          ac_task_retention_days = normalize_retention_days (te_task_retention_days entry),
          ac_free_remaining = units_to_points video_quota_units,
          ac_video_quota_units = video_quota_units,
          ac_credit_units = credit_units,
          ac_billing_priority = entry_priority entry\<rparr>)"

end
