(* ===== verification/Temp_Ops.thy ===== *)
theory Temp_Ops
  imports Temp_Access
begin

text \<open>
  The administrative operations on tokens (app/temp_access.py): creating, changing, rotating
  and deleting them, moving points and quota, reading contexts. \<open>now\<close> is the clock read by
  the operation, \<open>hash\<close> is \<open>hash_token\<close> (SHA-256, not under src/) and \<open>draws\<close> are the
  successive results of \<open>secrets.token_urlsafe\<close>.
\<close>

section \<open>Reading\<close>

definition normalized_hash :: "ustr \<Rightarrow> ustr" where
  "normalized_hash token_hash = lower (strip token_hash)"

definition list_temp_tokens :: "token_table \<Rightarrow> public_token list" where
  "list_temp_tokens tokens =
     sort_key pt_created_at (map (\<lambda>(h, e). public_token h e) tokens)"

definition temp_token_remarks :: "token_table \<Rightarrow> (ustr \<times> ustr) list" where
  "temp_token_remarks tokens =
     map (\<lambda>(h, e). (h, take 100 (str_or (te_remark e) (te_note e)))) tokens"

definition temp_token_retention_days :: "token_table \<Rightarrow> (ustr \<times> int) list" where
  "temp_token_retention_days tokens =
     map (\<lambda>(h, e). (h, normalize_retention_days (te_task_retention_days e))) tokens"

definition temp_token_concurrency_limits :: "token_table \<Rightarrow> (ustr \<times> int) list" where
  "temp_token_concurrency_limits tokens = map (\<lambda>(h, e). (h, entry_concurrency e)) tokens"

definition temp_token_remote_generation_limits :: "token_table \<Rightarrow> (ustr \<times> int) list" where
  "temp_token_remote_generation_limits tokens =
     map (\<lambda>(h, e). (h, normalize_remote_generation_limit e)) tokens"

definition read_token_entry :: "token_table \<Rightarrow> ustr \<Rightarrow> token_entry option" where
  "read_token_entry tokens token_hash =
     (let h = normalized_hash token_hash in if h = [] then None else map_of tokens h)"

definition get_temp_context :: "(ustr \<Rightarrow> ustr) \<Rightarrow> token_table \<Rightarrow> ustr \<Rightarrow> access_context option" where
  "get_temp_context hash tokens token =
     (if token = [] then None
      else case read_token_entry tokens (hash token) of
        None \<Rightarrow> None
      | Some entry \<Rightarrow>
         (let limit = max 0 (int_or (te_limit entry) TEMP_TOKEN_LIMIT); used = max 0 (te_used entry)
          in Some \<lparr>ac_token_hash = hash token, ac_is_admin = False, ac_is_temp = True,
               ac_limit = limit, ac_used = used, ac_remaining = max 0 (limit - used),
               ac_concurrency = entry_concurrency entry,
               ac_remote_generation_limit = normalize_remote_generation_limit entry,
               ac_task_retention_days = normalize_retention_days (te_task_retention_days entry),
               ac_free_remaining = units_to_points (entry_video_quota_units entry),
               ac_video_quota_units = entry_video_quota_units entry,
               ac_credit_units = max 0 (te_credit_units entry),
               ac_billing_priority = entry_priority entry\<rparr>))"

definition get_temp_context_by_hash :: "token_table \<Rightarrow> ustr \<Rightarrow> access_context option" where
  "get_temp_context_by_hash tokens token_hash =
     map_option (get_temp_context_from_entry (normalized_hash token_hash))
       (read_token_entry tokens (normalized_hash token_hash))"

definition get_temp_reservation :: "token_table \<Rightarrow> ustr \<Rightarrow> ustr \<Rightarrow> reservation option" where
  "get_temp_reservation tokens token_hash task_id =
     (case read_token_entry tokens token_hash of
        None \<Rightarrow> None | Some entry \<Rightarrow> map_of (te_reservations entry) task_id)"

section \<open>Creating\<close>

definition new_entry :: "int \<Rightarrow> ustr \<Rightarrow> int \<Rightarrow> int \<Rightarrow> int \<Rightarrow> ustr \<Rightarrow> token_entry" where
  "new_entry now token limit concurrency retention remark =
     \<lparr>te_token = token, te_remark = remark, te_note = [], te_limit = limit, te_used = 0,
      te_concurrency = concurrency, te_remote_generation_limit = 0,
      te_task_retention_days = retention, te_free_remaining = Fin limit 0,
      te_video_quota_units = Some (limit * POINT_SCALE), te_credit_units = 0,
      te_billing_version = 3, te_billing_priority = None, te_reservations = [],
      te_quota_refund_ids = [], te_created_at = At now, te_updated_at = Unset\<rparr>"

text \<open>
  The loop \<open>while len(created) < count\<close>: a draw whose hash is taken is skipped. \<open>None\<close>
  means that the draws listed did not suffice.
\<close>

fun create_loop ::
    "(ustr \<Rightarrow> ustr) \<Rightarrow> (ustr \<Rightarrow> token_entry) \<Rightarrow> nat \<Rightarrow> ustr list \<Rightarrow> token_table \<Rightarrow>
     public_token list \<Rightarrow> (token_table \<times> public_token list) option"
where
  "create_loop hash mk 0 draws tokens created = Some (tokens, created)"
| "create_loop hash mk (Suc n) [] tokens created = None"
| "create_loop hash mk (Suc n) (d # draws) tokens created =
     (let token = u ''tmp_'' @ d; h = hash token
      in if map_of tokens h \<noteq> None then create_loop hash mk (Suc n) draws tokens created
         else create_loop hash mk n draws (AList.update h (mk token) tokens)
                (created @ [public_token h (mk token)]))"

definition create_temp_tokens ::
    "(ustr \<Rightarrow> ustr) \<Rightarrow> int \<Rightarrow> ustr list \<Rightarrow> token_table \<Rightarrow> int \<Rightarrow> int \<Rightarrow> int \<Rightarrow> ustr \<Rightarrow> int \<Rightarrow>
     (token_table \<times> public_token list) option"
where
  "create_temp_tokens hash now draws tokens n limit concurrency remark retention =
     create_loop hash
       (\<lambda>token. new_entry now token (clamp 1 100000 limit)
          (clamp 1 MAX_TEMP_TOKEN_CONCURRENCY concurrency) (normalize_retention_days retention)
          (take 100 remark))
       (nat (clamp 1 200 n)) draws tokens []"

text \<open>The tokens in the order of creation, topped up to \<open>count\<close> first.\<close>

definition ordered_tokens :: "token_table \<Rightarrow> ustr list" where
  "ordered_tokens tokens =
     filter (\<lambda>t. t \<noteq> []) (map te_token (sort_key te_created_at (map snd tokens)))"

definition ensure_temp_tokens ::
    "(ustr \<Rightarrow> ustr) \<Rightarrow> int \<Rightarrow> ustr list \<Rightarrow> token_table \<Rightarrow> int \<Rightarrow> int \<Rightarrow> (token_table \<times> ustr list) option"
where
  "ensure_temp_tokens hash now draws tokens n limit =
     (let current = int (length tokens)
      in if current < n
         then map_option (\<lambda>(t, _). (t, ordered_tokens t))
           (create_temp_tokens hash now draws tokens (n - current) limit
              TEMP_TOKEN_CONCURRENCY [] DEFAULT_TASK_RETENTION_DAYS)
         else Some (tokens, ordered_tokens tokens))"

section \<open>Changing\<close>

record token_update =
  tu_limit :: "int option"
  tu_concurrency :: "int option"
  tu_remote_generation_limit :: "int option"
  tu_remark :: "ustr option"
  tu_task_retention_days :: "int option"
  tu_billing_priority :: "ustr option"

definition no_update :: token_update where
  "no_update = \<lparr>tu_limit = None, tu_concurrency = None, tu_remote_generation_limit = None,
     tu_remark = None, tu_task_retention_days = None, tu_billing_priority = None\<rparr>"

definition set_if :: "'a option \<Rightarrow> ('a \<Rightarrow> 'b \<Rightarrow> 'b) \<Rightarrow> 'b \<Rightarrow> 'b" where
  "set_if x f b = (case x of None \<Rightarrow> b | Some a \<Rightarrow> f a b)"

definition apply_update :: "token_update \<Rightarrow> token_entry \<Rightarrow> token_entry result" where
  "apply_update v entry =
     (let entry1 = set_if (tu_limit v) (\<lambda>n. te_limit_update (\<lambda>_. clamp 1 100000 n)) entry;
          entry2 = set_if (tu_concurrency v)
            (\<lambda>n. te_concurrency_update (\<lambda>_. clamp 1 MAX_TEMP_TOKEN_CONCURRENCY n)) entry1;
          entry3 = set_if (tu_remote_generation_limit v)
            (\<lambda>n. te_remote_generation_limit_update (\<lambda>_. clamp 1 MAX_REMOTE_GENERATION_LIMIT n)) entry2;
          entry4 = set_if (tu_task_retention_days v)
            (\<lambda>n. te_task_retention_days_update (\<lambda>_. normalize_retention_days n)) entry3;
          entry5 = set_if (tu_remark v) (\<lambda>s. te_remark_update (\<lambda>_. take 100 s)) entry4
      in case tu_billing_priority v of
           None \<Rightarrow> Inr entry5
         | Some p \<Rightarrow> map_sum id (\<lambda>q. entry5\<lparr>te_billing_priority := Some q\<rparr>) (normalize_billing_priority p))"

definition update_temp_token ::
    "backend \<Rightarrow> int \<Rightarrow> token_table \<Rightarrow> ustr \<Rightarrow> token_update \<Rightarrow> (token_table \<times> public_token) result" where
  "update_temp_token b now tokens token_hash v =
     (let h = normalized_hash token_hash
      in run_row b KeyError tokens h (\<lambda>entry.
           map_sum id (\<lambda>e. let e' = e\<lparr>te_updated_at := At now\<rparr> in (e', public_token h e', True))
             (apply_update v entry)))"

definition set_temp_billing_priority ::
    "backend \<Rightarrow> int \<Rightarrow> token_table \<Rightarrow> ustr \<Rightarrow> ustr \<Rightarrow> (token_table \<times> public_token) result" where
  "set_temp_billing_priority b now tokens token_hash priority =
     (case normalize_billing_priority priority of
        Inl e \<Rightarrow> Inl e
      | Inr p \<Rightarrow> update_temp_token b now tokens token_hash
          (no_update\<lparr>tu_billing_priority :=
             Some (case p of VideoFirst \<Rightarrow> u ''video_first'' | PointsFirst \<Rightarrow> u ''points_first'')\<rparr>))"

text \<open>A change of the balances: migrate, change, refresh the legacy fields, stamp.\<close>

definition balance_mutator ::
    "int \<Rightarrow> ustr \<Rightarrow> int \<Rightarrow> (token_entry \<Rightarrow> token_entry result) \<Rightarrow> (token_entry, public_token) mutator" where
  "balance_mutator now h free_limit change entry =
     (case migrate_entry entry free_limit of
        Inl e \<Rightarrow> Inl e
      | Inr (entry1, _) \<Rightarrow>
         (case change entry1 of
            Inl e \<Rightarrow> Inl e
          | Inr entry2 \<Rightarrow>
             (let entry3 = (sync_legacy_fields entry2)\<lparr>te_updated_at := At now\<rparr>
              in Inr (entry3, public_token h entry3, True))))"

definition deduct_temp_points ::
    "backend \<Rightarrow> int \<Rightarrow> token_table \<Rightarrow> ustr \<Rightarrow> int \<Rightarrow> amount \<Rightarrow> (token_table \<times> public_token) result" where
  "deduct_temp_points b now tokens token_hash free_limit amt =
     (let h = normalized_hash token_hash in
      case points_to_units amt of
        Inl e \<Rightarrow> Inl e
      | Inr units \<Rightarrow> run_row b KeyError tokens h (balance_mutator now h free_limit (\<lambda>entry.
          if te_credit_units entry < units then Inl (ValueError msg_points_insufficient)
          else Inr (entry\<lparr>te_credit_units := te_credit_units entry - units\<rparr>))))"

text \<open>The amount of a quota change: finite, in tenths, not zero; booleans are refused upstream.\<close>

definition quota_change_units :: "amount \<Rightarrow> int result" where
  "quota_change_units amt = (case amt of
     Some (Fin c e) \<Rightarrow>
       (let units = dec_scale (Fin c e)
        in if \<not> dec_integral units then Inl (ValueError msg_quota_format)
           else case dec_int units of
             Inl _ \<Rightarrow> Inl (ValueError msg_quota_format)
           | Inr n \<Rightarrow> if n = 0 then Inl (ValueError msg_quota_zero) else Inr n)
   | _ \<Rightarrow> Inl (ValueError msg_quota_format))"

definition adjust_temp_video_quota ::
    "backend \<Rightarrow> int \<Rightarrow> token_table \<Rightarrow> ustr \<Rightarrow> int \<Rightarrow> amount \<Rightarrow> (token_table \<times> public_token) result" where
  "adjust_temp_video_quota b now tokens token_hash free_limit amt =
     (let h = normalized_hash token_hash in
      case quota_change_units amt of
        Inl e \<Rightarrow> Inl e
      | Inr change \<Rightarrow> run_row b KeyError tokens h (balance_mutator now h free_limit (\<lambda>entry.
          let current = entry_video_quota_units entry
          in if current + change < 0 then Inl (ValueError msg_quota_insufficient)
             else Inr (set_entry_video_quota_units entry (current + change)))))"

definition purchase_temp_membership ::
    "backend \<Rightarrow> int \<Rightarrow> token_table \<Rightarrow> ustr \<Rightarrow> int \<Rightarrow> amount \<Rightarrow> int \<Rightarrow> int \<Rightarrow>
     (token_table \<times> public_token) result" where
  "purchase_temp_membership b now tokens token_hash free_limit points_cost bonus_free_uses concurrency =
     (let h = normalized_hash token_hash; bonus = max 0 bonus_free_uses in
      case points_to_units points_cost of
        Inl e \<Rightarrow> Inl e
      | Inr units \<Rightarrow> run_row b KeyError tokens h (balance_mutator now h free_limit (\<lambda>entry.
          if te_credit_units entry < units then Inl (ValueError msg_points_insufficient)
          else let paid = entry\<lparr>te_credit_units := te_credit_units entry - units\<rparr>
               in Inr ((set_entry_video_quota_units paid (entry_video_quota_units paid + bonus * POINT_SCALE))
                    \<lparr>te_concurrency := clamp 1 MAX_TEMP_TOKEN_CONCURRENCY concurrency\<rparr>))))"

definition add_temp_credit_units ::
    "backend \<Rightarrow> int \<Rightarrow> token_table \<Rightarrow> ustr \<Rightarrow> int \<Rightarrow> (token_table \<times> public_token) result" where
  "add_temp_credit_units b now tokens token_hash units =
     (if units \<le> 0 then Inl (ValueError msg_credit_positive)
      else let h = normalized_hash token_hash
           in run_row b KeyError tokens h (balance_mutator now h 0 (\<lambda>entry.
                Inr (entry\<lparr>te_credit_units := te_credit_units entry + units\<rparr>))))"

text \<open>
  Migration alone. The local branch reads a missing row as False, as the other one does
  after catching KeyError; the row is written when it changed.
\<close>

definition migrate_temp_token ::
    "backend \<Rightarrow> int \<Rightarrow> token_table \<Rightarrow> ustr \<Rightarrow> int \<Rightarrow> (token_table \<times> bool) result" where
  "migrate_temp_token b now tokens token_hash free_limit =
     (case run_row b KeyError tokens (normalized_hash token_hash) (\<lambda>entry.
        map_sum id (\<lambda>(e, changed).
          (if changed then e\<lparr>te_updated_at := At now\<rparr> else e, changed, changed))
          (migrate_entry entry free_limit)) of
       Inl KeyError \<Rightarrow> Inr (tokens, False)
     | r \<Rightarrow> r)"

section \<open>Deleting and rotating\<close>

definition delete_temp_token :: "token_table \<Rightarrow> ustr \<Rightarrow> token_table \<times> bool" where
  "delete_temp_token tokens token_hash =
     (let h = normalized_hash token_hash in (AList.delete h tokens, map_of tokens h \<noteq> None))"

text \<open>
  A new token takes the entry over under its own hash; draws whose hash is taken are skipped
  (\<open>ON CONFLICT DO NOTHING\<close> in one backend, the loop over the document in the other). The
  outer \<open>None\<close> means that the draws listed did not suffice.
\<close>

fun fresh_token :: "(ustr \<Rightarrow> ustr) \<Rightarrow> token_table \<Rightarrow> ustr list \<Rightarrow> ustr option" where
  "fresh_token hash tokens [] = None"
| "fresh_token hash tokens (d # draws) =
     (if map_of tokens (hash (u ''tmp_'' @ d)) = None then Some (u ''tmp_'' @ d)
      else fresh_token hash tokens draws)"

definition rotate_temp_token ::
    "(ustr \<Rightarrow> ustr) \<Rightarrow> int \<Rightarrow> ustr list \<Rightarrow> token_table \<Rightarrow> ustr \<Rightarrow> (token_table \<times> public_token) result option" where
  "rotate_temp_token hash now draws tokens token_hash =
     (let h = normalized_hash token_hash in
      case map_of tokens h of
        None \<Rightarrow> Some (Inl KeyError)
      | Some entry \<Rightarrow>
         (case fresh_token hash tokens draws of
            None \<Rightarrow> None
          | Some token \<Rightarrow>
             (let new_hash = hash token;
                  replacement = entry\<lparr>te_token := token, te_updated_at := At now\<rparr>
              in Some (Inr (AList.delete h (AList.update new_hash replacement tokens),
                            public_token new_hash replacement)))))"

end
