(* ===== verification/Ledger.thy ===== *)
theory Ledger
  imports Prelude
begin

text \<open>
  The contract of a ledger of charges, shared by the token balances and the account quotas: a
  charge is opened under an identifier, and an open charge can be refunded once. What the
  services promise about runs of such operations is proved here from the contract.
\<close>

datatype ('a, 'b, 'i) ledger_event = Charge 'a 'i | Refund 'b 'i

text \<open>
  A run: an operation that is refused (\<open>None\<close>) leaves the state, and the result lists the
  refunds that were paid.
\<close>

fun run_ledger ::
    "('a \<Rightarrow> 'i \<Rightarrow> 's \<Rightarrow> 's option) \<Rightarrow> ('b \<Rightarrow> 'i \<Rightarrow> 's \<Rightarrow> 's option) \<Rightarrow> ('a, 'b, 'i) ledger_event list \<Rightarrow> 's \<Rightarrow> 's \<times> 'i list"
where
  "run_ledger charge refund [] s = (s, [])"
| "run_ledger charge refund (Charge a i # es) s =
     (case charge a i s of
        None \<Rightarrow> run_ledger charge refund es s
      | Some s' \<Rightarrow> run_ledger charge refund es s')"
| "run_ledger charge refund (Refund b i # es) s =
     (case refund b i s of
        None \<Rightarrow> run_ledger charge refund es s
      | Some s' \<Rightarrow> (let (t, paid) = run_ledger charge refund es s' in (t, i # paid)))"

fun charges_of :: "'i \<Rightarrow> ('a, 'b, 'i) ledger_event list \<Rightarrow> nat" where
  "charges_of i [] = 0"
| "charges_of i (Charge a j # es) = (if i = j then Suc (charges_of i es) else charges_of i es)"
| "charges_of i (Refund b j # es) = charges_of i es"

locale charge_ledger =
  fixes inv :: "'s \<Rightarrow> bool"
    and opened :: "'s \<Rightarrow> 'i \<Rightarrow> bool"
    and holdings :: "'s \<Rightarrow> int"
    and charge :: "'a \<Rightarrow> 'i \<Rightarrow> 's \<Rightarrow> 's option"
    and refund :: "'b \<Rightarrow> 'i \<Rightarrow> 's \<Rightarrow> 's option"
  assumes charge_inv: "inv s \<Longrightarrow> charge a i s = Some s' \<Longrightarrow> inv s'"
    and refund_inv: "inv s \<Longrightarrow> refund b i s = Some s' \<Longrightarrow> inv s'"
    and charge_holdings: "inv s \<Longrightarrow> charge a i s = Some s' \<Longrightarrow> holdings s' = holdings s"
    and refund_holdings: "inv s \<Longrightarrow> refund b i s = Some s' \<Longrightarrow> holdings s' = holdings s"
    and charge_opens: "inv s \<Longrightarrow> charge a i s = Some s' \<Longrightarrow> opened s' = (opened s)(i := True)"
    and refund_closes: "inv s \<Longrightarrow> refund b i s = Some s' \<Longrightarrow> opened s' = (opened s)(i := False)"
    and refund_needs_open: "inv s \<Longrightarrow> refund b i s = Some s' \<Longrightarrow> opened s i"
    and refund_pays: "inv s \<Longrightarrow> opened s i \<Longrightarrow> \<exists>s'. refund b i s = Some s'"
begin

text \<open>A run keeps the invariant and the total of what is held and what is out.\<close>

lemma run_conserves:
  "inv s \<Longrightarrow> run_ledger charge refund es s = (t, paid) \<Longrightarrow> inv t \<and> holdings t = holdings s"
proof (induction es arbitrary: s t paid)
  case Nil
  then show ?case by simp
next
  case (Cons e es)
  show ?case
  proof (cases e)
    case (Charge a i)
    show ?thesis
    proof (cases "charge a i s")
      case None
      with Cons.IH [of s t paid] Cons.prems Charge show ?thesis by simp
    next
      case (Some s')
      with Cons.prems Charge have run: "run_ledger charge refund es s' = (t, paid)" by simp
      from Cons.IH [OF charge_inv [OF Cons.prems(1) Some] run]
        charge_holdings [OF Cons.prems(1) Some] show ?thesis by simp
    qed
  next
    case (Refund b i)
    show ?thesis
    proof (cases "refund b i s")
      case None
      with Cons.IH [of s t paid] Cons.prems Refund show ?thesis by simp
    next
      case (Some s')
      with Cons.prems Refund obtain paid' where run: "run_ledger charge refund es s' = (t, paid')"
        by (auto split: prod.splits)
      from Cons.IH [OF refund_inv [OF Cons.prems(1) Some] run]
        refund_holdings [OF Cons.prems(1) Some] show ?thesis by simp
    qed
  qed
qed

text \<open>An identifier is refunded at most as often as it was charged, and at most once if it was charged once.\<close>

lemma refunds_bounded:
  "inv s \<Longrightarrow> run_ledger charge refund es s = (t, paid) \<Longrightarrow>
     count_list paid i + (if opened t i then 1 else 0) \<le> charges_of i es + (if opened s i then 1 else 0)"
proof (induction es arbitrary: s t paid)
  case Nil
  then show ?case by simp
next
  case (Cons e es)
  show ?case
  proof (cases e)
    case (Charge a j)
    show ?thesis
    proof (cases "charge a j s")
      case None
      with Cons.IH [of s t paid] Cons.prems Charge show ?thesis by auto
    next
      case (Some s')
      with Cons.prems Charge have run: "run_ledger charge refund es s' = (t, paid)" by simp
      from Cons.IH [OF charge_inv [OF Cons.prems(1) Some] run] charge_opens [OF Cons.prems(1) Some]
      show ?thesis by (auto simp: Charge split: if_splits)
    qed
  next
    case (Refund b j)
    show ?thesis
    proof (cases "refund b j s")
      case None
      with Cons.IH [of s t paid] Cons.prems Refund show ?thesis by auto
    next
      case (Some s')
      with Cons.prems Refund obtain paid' where run: "run_ledger charge refund es s' = (t, paid')"
        and paid: "paid = j # paid'" by (auto split: prod.splits)
      from Cons.IH [OF refund_inv [OF Cons.prems(1) Some] run]
        refund_closes [OF Cons.prems(1) Some] refund_needs_open [OF Cons.prems(1) Some] paid
      show ?thesis by (auto simp: Refund split: if_splits)
    qed
  qed
qed

text \<open>Refunding right after charging is accepted; refunding again is refused.\<close>

lemma refund_after_charge:
  assumes "inv s" "charge a i s = Some s'"
  obtains s'' where "refund b i s' = Some s''" "refund b i s'' = None" "holdings s'' = holdings s"
proof -
  have i: "inv s'" by (rule charge_inv [OF assms])
  have "opened s' i" by (simp add: charge_opens [OF assms])
  with i obtain s'' where r: "refund b i s' = Some s''" using refund_pays by blast
  have "inv s''" by (rule refund_inv [OF i r])
  moreover have "\<not> opened s'' i" by (simp add: refund_closes [OF i r])
  ultimately have "refund b i s'' = None" using refund_needs_open by fastforce
  with r that show ?thesis by (simp add: refund_holdings [OF i r] charge_holdings [OF assms])
qed

end

end
