(* ===== verification/Temp_Quota.thy ===== *)
theory Temp_Quota
  imports Temp_Ops Ledger
begin

text \<open>
  Reserving the price of a task and refunding it (app/temp_access.py,
  \<open>reserve_temp_quota\<close> and \<open>refund_temp_quota_hash\<close>), and what the balances promise: nothing
  is charged twice or refunded twice, and quota, credit and open reservations add up.
\<close>

section \<open>Reserving\<close>

text \<open>\<open>int(free_limit)\<close> of a number of points.\<close>

definition int_of_points :: "decimal \<Rightarrow> int" where
  "int_of_points d = (case dec_int d of Inr n \<Rightarrow> n | Inl _ \<Rightarrow> 0)"

definition new_reservation :: "int \<Rightarrow> bool \<Rightarrow> int \<Rightarrow> int \<Rightarrow> ustr \<Rightarrow> reservation" where
  "new_reservation now free units video_units user_id =
     \<lparr>rs_status = Reserved, rs_free = free, rs_units = units, rs_video_units = video_units,
      rs_user_id = user_id, rs_created_at = At now, rs_refunded_at = Unset\<rparr>"

definition take_quota :: "int \<Rightarrow> ustr \<Rightarrow> int \<Rightarrow> ustr \<Rightarrow> int \<Rightarrow> token_entry \<Rightarrow> token_entry result" where
  "take_quota now task_id cost_units user_id video_cost_units entry =
     (let required_units = max 1 cost_units;
          required_video_units = max 1 video_cost_units;
          points_available = required_units \<le> te_credit_units entry;
          free_used = required_video_units \<le> entry_video_quota_units entry \<and>
            \<not> (entry_priority entry = PointsFirst \<and> points_available);
          charged_units = (if free_used then 0 else required_units)
      in if \<not> free_used \<and> te_credit_units entry < charged_units
         then Inl (QuotaExceeded (u ''temporary token quota exhausted''))
         else let entry1 = (if free_used
                 then set_entry_video_quota_units entry (entry_video_quota_units entry - required_video_units)
                 else entry\<lparr>te_credit_units := te_credit_units entry - charged_units\<rparr>);
               entry2 = (if task_id = [] then entry1
                 else entry1\<lparr>te_reservations := AList.update task_id
                   (new_reservation now free_used charged_units
                      (if free_used then required_video_units else 0) user_id) (te_reservations entry1)\<rparr>)
              in Inr ((sync_legacy_fields (prune_reservations 1000 entry2))\<lparr>te_updated_at := At now\<rparr>))"

text \<open>
  A task that already holds an open reservation gets its context back and is not charged; the
  local branch then returns before its write.
\<close>

definition reserve_entry ::
    "int \<Rightarrow> access_context \<Rightarrow> ustr \<Rightarrow> int \<Rightarrow> ustr \<Rightarrow> int \<Rightarrow> (token_entry, access_context) mutator" where
  "reserve_entry now access task_id cost_units user_id video_cost_units entry =
     (case migrate_entry entry (int_of_points (ac_free_remaining access)) of
        Inl e \<Rightarrow> Inl e
      | Inr (entry1, _) \<Rightarrow>
         (case (if task_id = [] then None else map_of (te_reservations entry1) task_id) of
            Some r \<Rightarrow>
              if rs_status r = Reserved
              then Inr (entry1, get_temp_context_from_entry (ac_token_hash access) entry1, False)
              else Inl (QuotaExceeded (u ''task quota reservation is closed''))
          | None \<Rightarrow>
             map_sum id
               (\<lambda>entry2. (entry2, get_temp_context_from_entry (ac_token_hash access) entry2, True))
               (take_quota now task_id cost_units user_id video_cost_units entry1)))"

definition reserve_temp_quota ::
    "backend \<Rightarrow> int \<Rightarrow> token_table \<Rightarrow> access_context \<Rightarrow> ustr \<Rightarrow> int \<Rightarrow> ustr \<Rightarrow> int \<Rightarrow>
     (token_table \<times> access_context) result" where
  "reserve_temp_quota b now tokens access task_id cost_units user_id video_cost_units =
     (if \<not> ac_is_temp access then Inr (tokens, access)
      else case run_row b KeyError tokens (ac_token_hash access)
             (reserve_entry now access task_id cost_units user_id video_cost_units) of
        Inl KeyError \<Rightarrow> Inl (QuotaExceeded (u ''temporary token is invalid''))
      | r \<Rightarrow> r)"

section \<open>Refunding\<close>

record refund_info =
  ri_user_id :: ustr
  ri_units :: int
  ri_balance_units :: int
  ri_video_quota_change :: decimal
  ri_video_quota_balance :: decimal

text \<open>The reservation goes back to the balance it came from and is closed.\<close>

definition give_back :: "int \<Rightarrow> ustr \<Rightarrow> reservation \<Rightarrow> token_entry \<Rightarrow> token_entry \<times> refund_info" where
  "give_back now refund_id r entry =
     (let video_units = max 1 (int_or (rs_video_units r) POINT_SCALE);
          entry1 = (if rs_free r
            then set_entry_video_quota_units entry (entry_video_quota_units entry + video_units)
            else entry\<lparr>te_credit_units := te_credit_units entry + rs_units r\<rparr>);
          info = \<lparr>ri_user_id = rs_user_id r,
                  ri_units = (if rs_free r then 0 else rs_units r),
                  ri_balance_units = te_credit_units entry1,
                  ri_video_quota_change = (if rs_free r then units_to_points video_units else Fin 0 0),
                  ri_video_quota_balance = units_to_points (entry_video_quota_units entry1)\<rparr>;
          closed = r\<lparr>rs_status := Refunded, rs_refunded_at := At now\<rparr>;
          entry2 = entry1\<lparr>te_reservations := AList.update refund_id closed (te_reservations entry1)\<rparr>
      in ((sync_legacy_fields (prune_reservations 1000 entry2))\<lparr>te_updated_at := At now\<rparr>, info))"

definition refund_entry :: "int \<Rightarrow> ustr \<Rightarrow> (token_entry, bool \<times> refund_info option) mutator" where
  "refund_entry now refund_id entry =
     (if 2 \<le> te_billing_version entry \<and> refund_id \<noteq> []
      then (case map_of (te_reservations entry) refund_id of
          None \<Rightarrow> Inr (entry, (False, None), False)
        | Some r \<Rightarrow>
            if rs_status r \<noteq> Reserved then Inr (entry, (False, None), False)
            else let (entry', info) = give_back now refund_id r entry
                 in Inr (entry', (True, Some info), True))
      else let refunded = filter (\<lambda>i. i \<noteq> []) (te_quota_refund_ids entry)
           in if refund_id \<noteq> [] \<and> refund_id \<in> set refunded then Inr (entry, (False, None), False)
              else let entry1 = entry\<lparr>te_used := max 0 (te_used entry - 1)\<rparr>;
                       entry2 = (if refund_id = [] then entry1
                         else entry1\<lparr>te_quota_refund_ids := last_n 1000 (refunded @ [refund_id])\<rparr>)
                   in Inr (entry2\<lparr>te_updated_at := At now\<rparr>, (True, None), True))"

definition dec_zero :: "decimal \<Rightarrow> bool" where
  "dec_zero d = (case d of Fin c _ \<Rightarrow> c = 0 | _ \<Rightarrow> False)"

definition record_reservation_refund ::
    "backend \<Rightarrow> int \<Rightarrow> ustr \<Rightarrow> transaction list \<Rightarrow> refund_info option \<Rightarrow> ustr \<Rightarrow> transaction list result" where
  "record_reservation_refund b now rand rows info refund_id = (case info of
     None \<Rightarrow> Inr rows
   | Some i \<Rightarrow>
      (let quota = \<not> dec_zero (ri_video_quota_change i)
       in if ri_user_id i = [] \<or> (ri_units i \<le> 0 \<and> \<not> quota) then Inr rows
          else map_sum id fst (record_transaction b now rand rows
            \<lparr>ta_user_id = ri_user_id i,
             ta_kind = (if quota then u ''video_quota_refund'' else u ''refund''),
             ta_amount_units = ri_units i,
             ta_title = (if quota then msg_quota_refund else msg_task_refund),
             ta_balance_units = Some (ri_balance_units i),
             ta_reference_id = refund_id,
             ta_detail = (if refund_id = [] then [] else msg_task_id_prefix @ refund_id),
             ta_video_quota_change = ri_video_quota_change i,
             ta_video_quota_balance = Some (ri_video_quota_balance i),
             ta_transaction_id = [],
             ta_visible_to_client = True\<rparr>)))"

text \<open>
  The refund is stored before its transaction is recorded, so an exception of the recording
  leaves the refund in place: the state is returned beside the result.
\<close>

definition refund_temp_quota_hash ::
    "backend \<Rightarrow> int \<Rightarrow> ustr \<Rightarrow> token_table \<Rightarrow> transaction list \<Rightarrow> ustr \<Rightarrow> ustr \<Rightarrow>
     (token_table \<times> transaction list) \<times> bool result" where
  "refund_temp_quota_hash b now rand tokens rows token_hash refund_id =
     (let h = normalized_hash token_hash in
      if h = [] then ((tokens, rows), Inr False)
      else case run_row b KeyError tokens h (refund_entry now refund_id) of
        Inl _ \<Rightarrow> ((tokens, rows), Inr False)
      | Inr (tokens', (False, _)) \<Rightarrow> ((tokens', rows), Inr False)
      | Inr (tokens', (True, info)) \<Rightarrow>
         (case record_reservation_refund b now rand rows info refund_id of
            Inl e \<Rightarrow> ((tokens', rows), Inl e)
          | Inr rows' \<Rightarrow> ((tokens', rows'), Inr True)))"

definition refund_temp_quota ::
    "backend \<Rightarrow> int \<Rightarrow> ustr \<Rightarrow> token_table \<Rightarrow> transaction list \<Rightarrow> access_context \<Rightarrow>
     (token_table \<times> transaction list) \<times> unit result" where
  "refund_temp_quota b now rand tokens rows access =
     (if \<not> ac_is_temp access then ((tokens, rows), Inr ())
      else apsnd (map_sum id (\<lambda>_. ()))
        (refund_temp_quota_hash b now rand tokens rows (ac_token_hash access) []))"

section \<open>The entry's accounting\<close>

text \<open>
  A well-formed entry: version 3, balances not negative, one reservation per task, and an open
  reservation holds at least one unit of the balance it came from.
\<close>

definition entry_ok :: "token_entry \<Rightarrow> bool" where
  "entry_ok e \<longleftrightarrow> 3 \<le> te_billing_version e \<and> 0 \<le> te_credit_units e \<and>
     (case te_video_quota_units e of None \<Rightarrow> False | Some n \<Rightarrow> 0 \<le> n) \<and>
     distinct (map fst (te_reservations e)) \<and>
     (\<forall>(i, r) \<in> set (te_reservations e). rs_status r = Reserved \<longrightarrow>
        (if rs_free r then 1 \<le> rs_video_units r else 1 \<le> rs_units r))"

definition held :: "reservation \<Rightarrow> int" where
  "held r = (if rs_status r = Reserved then (if rs_free r then rs_video_units r else rs_units r) else 0)"

definition holdings :: "token_entry \<Rightarrow> int" where
  "holdings e = entry_video_quota_units e + te_credit_units e +
     sum_list (map (held \<circ> snd) (te_reservations e))"

definition open_reservation :: "token_entry \<Rightarrow> ustr \<Rightarrow> bool" where
  "open_reservation e i \<longleftrightarrow> (\<exists>r. (i, r) \<in> set (te_reservations e) \<and> rs_status r = Reserved)"

lemma evq_set [simp]: "entry_video_quota_units (set_entry_video_quota_units e n) = max 0 n"
  by (simp add: entry_video_quota_units_def set_entry_video_quota_units_def)

lemma set_evq_fields [simp]:
  "te_credit_units (set_entry_video_quota_units e n) = te_credit_units e"
  "te_reservations (set_entry_video_quota_units e n) = te_reservations e"
  "te_billing_version (set_entry_video_quota_units e n) = te_billing_version e"
  "te_video_quota_units (set_entry_video_quota_units e n) = Some (max 0 n)"
  by (simp_all add: set_entry_video_quota_units_def)

lemma evq_update [simp]:
  "entry_video_quota_units (e\<lparr>te_credit_units := c\<rparr>) = entry_video_quota_units e"
  "entry_video_quota_units (e\<lparr>te_reservations := rs\<rparr>) = entry_video_quota_units e"
  "entry_video_quota_units (e\<lparr>te_updated_at := t\<rparr>) = entry_video_quota_units e"
  "entry_video_quota_units (e\<lparr>te_limit := l\<rparr>) = entry_video_quota_units e"
  "entry_video_quota_units (e\<lparr>te_used := l\<rparr>) = entry_video_quota_units e"
  by (simp_all add: entry_video_quota_units_def split: option.split)

lemma sync_fields [simp]:
  "te_credit_units (sync_legacy_fields e) = te_credit_units e"
  "te_reservations (sync_legacy_fields e) = te_reservations e"
  "te_billing_version (sync_legacy_fields e) = te_billing_version e"
  by (simp_all add: sync_legacy_fields_def Let_def)

lemma sync_quota [simp]:
  "te_video_quota_units (sync_legacy_fields e) = Some (max 0 (entry_video_quota_units e))"
  "entry_video_quota_units (sync_legacy_fields e) = max 0 (entry_video_quota_units e)"
  by (simp_all add: sync_legacy_fields_def Let_def entry_video_quota_units_def
      set_entry_video_quota_units_def)

lemma evq_nonneg: "entry_ok e \<Longrightarrow> 0 \<le> entry_video_quota_units e"
  by (auto simp: entry_ok_def entry_video_quota_units_def split: option.splits)

lemma entry_ok_migrated: "entry_ok e \<Longrightarrow> migrate_entry e n = Inr (e, False)"
  by (simp add: entry_ok_def migrate_entry_def Let_def)

subsection \<open>Pruning\<close>

lemma prune_fields [simp]:
  "te_credit_units (prune_reservations n e) = te_credit_units e"
  "te_billing_version (prune_reservations n e) = te_billing_version e"
  "te_video_quota_units (prune_reservations n e) = te_video_quota_units e"
  "entry_video_quota_units (prune_reservations n e) = entry_video_quota_units e"
  by (simp_all add: prune_reservations_def Let_def)

lemma prune_subset: "set (te_reservations (prune_reservations n e)) \<subseteq> set (te_reservations e)"
  by (auto simp: prune_reservations_def Let_def dest: in_set_takeD)

lemma prune_open:
  "rs_status r = Reserved \<Longrightarrow>
     (i, r) \<in> set (te_reservations (prune_reservations n e)) \<longleftrightarrow> (i, r) \<in> set (te_reservations e)"
  by (auto simp: prune_reservations_def Let_def dest: in_set_takeD)

lemma sum_held_filter:
  "sum_list (map (held \<circ> snd) (filter (\<lambda>(_, r). rs_status r = Reserved) rs)) = sum_list (map (held \<circ> snd) rs)"
  by (induction rs) (auto simp: held_def)

lemma sum_held_closed:
  "\<forall>p \<in> set rs. rs_status (snd p) \<noteq> Reserved \<Longrightarrow> sum_list (map (held \<circ> snd) rs) = 0"
  by (induction rs) (auto simp: held_def)

lemma prune_held [simp]:
  "sum_list (map (held \<circ> snd) (te_reservations (prune_reservations n e))) =
   sum_list (map (held \<circ> snd) (te_reservations e))"
proof (cases "length (te_reservations e) \<le> n")
  case True
  then show ?thesis by (simp add: prune_reservations_def Let_def)
next
  case False
  have "sum_list (map (held \<circ> snd) (take n (sort_desc (closed_at \<circ> snd)
      (filter (\<lambda>(_, r). rs_status r \<noteq> Reserved) (te_reservations e))))) = 0"
    by (rule sum_held_closed) (auto dest: in_set_takeD)
  with False show ?thesis
    using sum_held_filter [of "te_reservations e"] by (simp add: prune_reservations_def Let_def)
qed

lemma prune_distinct:
  assumes "distinct (map fst (te_reservations e))"
  shows "distinct (map fst (te_reservations (prune_reservations n e)))"
proof -
  let ?rs = "te_reservations e"
  let ?closed = "sort_desc (closed_at \<circ> snd) (filter (\<lambda>(_, r). rs_status r \<noteq> Reserved) ?rs)"
  have "distinct (map fst (filter (\<lambda>(_, r). rs_status r = Reserved) ?rs))"
    using assms by (rule distinct_map_filter)
  moreover have "distinct (map fst (take n ?closed))"
    unfolding take_map [symmetric]
    by (rule distinct_take) (simp add: distinct_map_filter [OF assms])
  moreover have "fst ` set (filter (\<lambda>(_, r). rs_status r = Reserved) ?rs) \<inter> fst ` set (take n ?closed) = {}"
    by (fastforce dest!: in_set_takeD dest: eq_key_imp_eq_value [OF assms])
  ultimately have "distinct (map fst (filter (\<lambda>(_, r). rs_status r = Reserved) ?rs @ take n ?closed))"
    by simp
  with assms show ?thesis
    unfolding prune_reservations_def Let_def by (simp split: if_split)
qed

text \<open>Pruning keeps at most \<open>n\<close> closed reservations.\<close>

lemma prune_bounded:
  "length (filter (\<lambda>(_, r). rs_status r \<noteq> Reserved) (te_reservations (prune_reservations n e))) \<le> n"
proof (cases "length (te_reservations e) \<le> n")
  case True
  then show ?thesis
    using le_trans [OF length_filter_le True] by (simp add: prune_reservations_def Let_def)
next
  case False
  let ?c = "take n (sort_desc (closed_at \<circ> snd) (filter (\<lambda>(_, r). rs_status r \<noteq> Reserved) (te_reservations e)))"
  have "length (filter (\<lambda>(_, r). rs_status r \<noteq> Reserved) ?c) \<le> n"
    by (rule le_trans [OF length_filter_le]) simp
  with False show ?thesis by (simp add: prune_reservations_def Let_def case_prod_unfold)
qed

subsection \<open>The last step of both operations\<close>

text \<open>Pruning, refreshing the legacy fields and stamping change nothing that is accounted.\<close>

definition finish_entry :: "int \<Rightarrow> token_entry \<Rightarrow> token_entry" where
  "finish_entry now e = (sync_legacy_fields (prune_reservations 1000 e))\<lparr>te_updated_at := At now\<rparr>"

lemma finish_fields [simp]:
  "te_credit_units (finish_entry now e) = te_credit_units e"
  "entry_video_quota_units (finish_entry now e) = max 0 (entry_video_quota_units e)"
  by (simp_all add: finish_entry_def)

lemma finish_ok: "entry_ok e \<Longrightarrow> entry_ok (finish_entry now e)"
  using prune_subset [of 1000 e] prune_distinct [of e 1000]
  by (fastforce simp: entry_ok_def finish_entry_def split: option.splits)

lemma finish_holdings: "entry_ok e \<Longrightarrow> holdings (finish_entry now e) = holdings e"
  using evq_nonneg [of e] by (simp add: holdings_def finish_entry_def max_def)

lemma finish_open: "open_reservation (finish_entry now e) i = open_reservation e i"
  by (simp add: open_reservation_def finish_entry_def) (metis prune_open)

subsection \<open>Reserving keeps the accounting\<close>

text \<open>The entry before the last step: one balance is charged and, for a task, the charge is recorded.\<close>

definition with_reservation :: "ustr \<Rightarrow> reservation \<Rightarrow> token_entry \<Rightarrow> token_entry" where
  "with_reservation i r e =
     (if i = [] then e else e\<lparr>te_reservations := AList.update i r (te_reservations e)\<rparr>)"

lemma with_reservation_fields [simp]:
  "te_credit_units (with_reservation i r e) = te_credit_units e"
  "entry_video_quota_units (with_reservation i r e) = entry_video_quota_units e"
  "te_video_quota_units (with_reservation i r e) = te_video_quota_units e"
  "te_billing_version (with_reservation i r e) = te_billing_version e"
  by (simp_all add: with_reservation_def)

lemma take_quota_video:
  assumes "max 1 vcost \<le> entry_video_quota_units e \<and>
    \<not> (entry_priority e = PointsFirst \<and> max 1 cost \<le> te_credit_units e)"
  shows "take_quota now i cost user vcost e =
    Inr (finish_entry now (with_reservation i (new_reservation now True 0 (max 1 vcost) user)
        (set_entry_video_quota_units e (entry_video_quota_units e - max 1 vcost))))"
  unfolding take_quota_def Let_def finish_entry_def with_reservation_def
  by (simp only: eqTrueI [OF assms] if_True simp_thms if_False cong: if_cong)

lemma take_quota_points:
  assumes "\<not> (max 1 vcost \<le> entry_video_quota_units e \<and>
    \<not> (entry_priority e = PointsFirst \<and> max 1 cost \<le> te_credit_units e))"
  shows "take_quota now i cost user vcost e =
    (if te_credit_units e < max 1 cost then Inl (QuotaExceeded (u ''temporary token quota exhausted''))
     else Inr (finish_entry now (with_reservation i (new_reservation now False (max 1 cost) 0 user)
        (e\<lparr>te_credit_units := te_credit_units e - max 1 cost\<rparr>))))"
  unfolding take_quota_def Let_def finish_entry_def with_reservation_def
  by (simp only: eq_False [THEN iffD2, OF assms] if_True simp_thms if_False cong: if_cong)

lemma take_quota_cases:
  assumes "take_quota now i cost user vcost e = Inr e'"
  obtains
    (video) "max 1 vcost \<le> entry_video_quota_units e"
      "e' = finish_entry now (with_reservation i (new_reservation now True 0 (max 1 vcost) user)
        (set_entry_video_quota_units e (entry_video_quota_units e - max 1 vcost)))"
  | (points) "max 1 cost \<le> te_credit_units e"
      "e' = finish_entry now (with_reservation i (new_reservation now False (max 1 cost) 0 user)
        (e\<lparr>te_credit_units := te_credit_units e - max 1 cost\<rparr>))"
proof (cases "max 1 vcost \<le> entry_video_quota_units e \<and>
    \<not> (entry_priority e = PointsFirst \<and> max 1 cost \<le> te_credit_units e)")
  case True
  with assms video show ?thesis by (simp add: take_quota_video [OF True])
next
  case False
  with assms have "\<not> te_credit_units e < max 1 cost"
    "e' = finish_entry now (with_reservation i (new_reservation now False (max 1 cost) 0 user)
      (e\<lparr>te_credit_units := te_credit_units e - max 1 cost\<rparr>))"
    by (simp_all only: take_quota_points [OF False] split: if_splits) simp_all
  then show ?thesis by (intro points) (simp_all only: not_less)
qed

lemma with_reservation_ok:
  assumes "entry_ok e" "map_of (te_reservations e) i = None"
    "rs_status r = Reserved" "if rs_free r then 1 \<le> rs_video_units r else 1 \<le> rs_units r"
  shows "entry_ok (with_reservation i r e)"
  using assms by (auto simp: entry_ok_def with_reservation_def update_new map_of_eq_None_iff)

lemma with_reservation_holdings:
  "map_of (te_reservations e) i = None \<Longrightarrow> i \<noteq> [] \<Longrightarrow> rs_status r = Reserved \<Longrightarrow>
     holdings (with_reservation i r e) =
       holdings e + (if rs_free r then rs_video_units r else rs_units r)"
  by (simp add: holdings_def with_reservation_def update_new held_def)

lemma with_reservation_open:
  assumes "map_of (te_reservations e) i = None" "i \<noteq> []" "rs_status r = Reserved"
  shows "open_reservation (with_reservation i r e) = (open_reservation e)(i := True)"
  using assms by (auto simp: open_reservation_def with_reservation_def update_new fun_eq_iff)

lemma new_reservation_fields [simp]:
  "rs_status (new_reservation now f n v user) = Reserved"
  "rs_free (new_reservation now f n v user) = f"
  "rs_units (new_reservation now f n v user) = n"
  "rs_video_units (new_reservation now f n v user) = v"
  "rs_user_id (new_reservation now f n v user) = user"
  by (simp_all add: new_reservation_def)

lemma charge_video_ok:
  "entry_ok e \<Longrightarrow> n \<le> entry_video_quota_units e \<Longrightarrow>
     entry_ok (set_entry_video_quota_units e (entry_video_quota_units e - n))"
  by (simp add: entry_ok_def)

lemma charge_video_holdings:
  "n \<le> entry_video_quota_units e \<Longrightarrow>
     holdings (set_entry_video_quota_units e (entry_video_quota_units e - n)) = holdings e - n"
  by (simp add: holdings_def)

lemma charge_points_ok:
  "entry_ok e \<Longrightarrow> n \<le> te_credit_units e \<Longrightarrow> entry_ok (e\<lparr>te_credit_units := te_credit_units e - n\<rparr>)"
  by (simp add: entry_ok_def)

lemma charge_points_holdings:
  "holdings (e\<lparr>te_credit_units := te_credit_units e - n\<rparr>) = holdings e - n"
  by (simp add: holdings_def)

lemma open_fields [simp]:
  "open_reservation (set_entry_video_quota_units e n) = open_reservation e"
  "open_reservation (e\<lparr>te_credit_units := c\<rparr>) = open_reservation e"
  by (simp_all add: open_reservation_def fun_eq_iff)

text \<open>Charging a task that has no reservation.\<close>

lemma take_quota_accounts:
  assumes ok: "entry_ok e" and fresh: "map_of (te_reservations e) i = None"
    and take: "take_quota now i cost user vcost e = Inr e'"
  shows "entry_ok e'"
    and "i \<noteq> [] \<Longrightarrow> holdings e' = holdings e"
    and "i \<noteq> [] \<Longrightarrow> open_reservation e' = (open_reservation e)(i := True)"
proof -
  define charged where "charged r e0 = finish_entry now (with_reservation i r e0)" for r e0
  have main: "entry_ok (charged r e0) \<and>
      (i \<noteq> [] \<longrightarrow> holdings (charged r e0) = holdings e0 + (if rs_free r then rs_video_units r else rs_units r)) \<and>
      (i \<noteq> [] \<longrightarrow> open_reservation (charged r e0) = (open_reservation e0)(i := True))"
    if "entry_ok e0" "te_reservations e0 = te_reservations e" "rs_status r = Reserved"
      "if rs_free r then 1 \<le> rs_video_units r else 1 \<le> rs_units r" for r e0
  proof -
    have f: "map_of (te_reservations e0) i = None" using fresh that by simp
    have o: "entry_ok (with_reservation i r e0)" by (rule with_reservation_ok [OF that(1) f that(3,4)])
    show ?thesis
      using finish_ok [OF o] finish_holdings [OF o] with_reservation_holdings [OF f _ that(3)]
        with_reservation_open [OF f _ that(3)]
      by (auto simp: charged_def finish_open fun_eq_iff)
  qed
  from take have "entry_ok e' \<and> (i \<noteq> [] \<longrightarrow> holdings e' = holdings e) \<and>
      (i \<noteq> [] \<longrightarrow> open_reservation e' = (open_reservation e)(i := True))"
  proof (cases rule: take_quota_cases)
    case video
    from main [OF charge_video_ok [OF ok video(1)], of "new_reservation now True 0 (max 1 vcost) user"]
      charge_video_holdings [OF video(1)]
    show ?thesis unfolding video(2) charged_def by simp
  next
    case points
    from main [OF charge_points_ok [OF ok points(1)], of "new_reservation now False (max 1 cost) 0 user"]
      charge_points_holdings [of e "max 1 cost"]
    show ?thesis unfolding points(2) charged_def by simp
  qed
  then show "entry_ok e'" "i \<noteq> [] \<Longrightarrow> holdings e' = holdings e"
    "i \<noteq> [] \<Longrightarrow> open_reservation e' = (open_reservation e)(i := True)" by blast+
qed

subsection \<open>Refunding keeps the accounting\<close>

lemma give_back_accounts:
  assumes ok: "entry_ok e" and r: "map_of (te_reservations e) i = Some r" "rs_status r = Reserved"
    and gb: "give_back now i r e = (e', info)"
  shows "entry_ok e'" "holdings e' = holdings e" "open_reservation e' = (open_reservation e)(i := False)"
proof -
  let ?rs = "te_reservations e" and ?closed = "r\<lparr>rs_status := Refunded, rs_refunded_at := At now\<rparr>"
  define paid where "paid = (if rs_free r
    then set_entry_video_quota_units e (entry_video_quota_units e + rs_video_units r)
    else e\<lparr>te_credit_units := te_credit_units e + rs_units r\<rparr>)"
  define fin where "fin = paid\<lparr>te_reservations := AList.update i ?closed (te_reservations paid)\<rparr>"
  have d: "distinct (map fst ?rs)" using ok by (simp add: entry_ok_def)
  have mem: "(i, r) \<in> set ?rs" using r(1) by (rule map_of_SomeD)
  have units: "rs_free r \<Longrightarrow> 1 \<le> rs_video_units r" "\<not> rs_free r \<Longrightarrow> 1 \<le> rs_units r"
    using ok mem r(2) by (auto simp: entry_ok_def)
  have e': "e' = finish_entry now fin"
    using gb units by (auto simp: give_back_def Let_def finish_entry_def fin_def paid_def int_or_def)
  have rs: "te_reservations paid = ?rs" by (simp add: paid_def)
  have set_fin: "set (te_reservations fin) = {p \<in> set ?rs. fst p \<noteq> i} \<union> {(i, ?closed)}"
    by (simp add: fin_def rs set_update_distinct [OF d])
  have ok_fin: "entry_ok fin"
    using ok units evq_nonneg [OF ok] set_fin d
    by (auto simp: entry_ok_def fin_def paid_def distinct_update)
  have "sum_list (map (held \<circ> snd) (te_reservations fin)) =
      sum_list (map (held \<circ> snd) ?rs) - (if rs_free r then rs_video_units r else rs_units r)"
    using sum_update [OF r(1), of "held \<circ> snd" ?closed] r(2) by (simp add: fin_def rs held_def)
  then have "holdings fin = holdings e"
    using units evq_nonneg [OF ok]
    by (cases "rs_free r") (simp_all add: holdings_def fin_def paid_def)
  with ok_fin e' show "entry_ok e'" "holdings e' = holdings e"
    by (simp_all add: finish_ok finish_holdings)
  have "open_reservation fin = (open_reservation e)(i := False)"
    by (auto simp: open_reservation_def set_fin fun_eq_iff)
  then show "open_reservation e' = (open_reservation e)(i := False)"
    by (simp add: e' finish_open fun_eq_iff)
qed

subsection \<open>The balances as a ledger\<close>

text \<open>Reserving for a task and refunding it, as the ledger operations of one entry.\<close>

record charge_args =
  ca_now :: int
  ca_access :: access_context
  ca_cost :: int
  ca_user :: ustr
  ca_video_cost :: int

definition ledger_reserve :: "charge_args \<Rightarrow> ustr \<Rightarrow> token_entry \<Rightarrow> token_entry option" where
  "ledger_reserve a i e =
     (if i = [] then None
      else case reserve_entry (ca_now a) (ca_access a) i (ca_cost a) (ca_user a) (ca_video_cost a) e of
        Inl _ \<Rightarrow> None
      | Inr (e', _, _) \<Rightarrow> Some e')"

definition ledger_refund :: "int \<Rightarrow> ustr \<Rightarrow> token_entry \<Rightarrow> token_entry option" where
  "ledger_refund now i e =
     (if i = [] then None
      else case refund_entry now i e of
        Inr (e', (True, _), _) \<Rightarrow> Some e'
      | _ \<Rightarrow> None)"

lemma ledger_reserve_cases:
  assumes "entry_ok e" "ledger_reserve a i e = Some e'"
  obtains (again) "i \<noteq> []" "open_reservation e i" "e' = e"
  | (fresh) "i \<noteq> []" "map_of (te_reservations e) i = None"
      "take_quota (ca_now a) i (ca_cost a) (ca_user a) (ca_video_cost a) e = Inr e'"
proof -
  have i: "i \<noteq> []" using assms(2) by (auto simp: ledger_reserve_def split: if_splits)
  show ?thesis
  proof (cases "map_of (te_reservations e) i")
    case None
    with assms i fresh show ?thesis
      by (cases "take_quota (ca_now a) i (ca_cost a) (ca_user a) (ca_video_cost a) e")
        (auto simp: ledger_reserve_def reserve_entry_def entry_ok_migrated)
  next
    case (Some r)
    with assms i have "rs_status r = Reserved" "e' = e"
      by (auto simp: ledger_reserve_def reserve_entry_def entry_ok_migrated split: if_splits)
    with again i map_of_SomeD [OF Some] show ?thesis by (auto simp: open_reservation_def)
  qed
qed

lemma ledger_refund_cases:
  assumes "entry_ok e" "ledger_refund now i e = Some e'"
  obtains r info where "map_of (te_reservations e) i = Some r" "rs_status r = Reserved"
    "give_back now i r e = (e', info)"
  using assms
  by (auto simp: ledger_refund_def refund_entry_def entry_ok_def Let_def
      split: if_splits option.splits prod.splits)

lemma open_map_of:
  "entry_ok e \<Longrightarrow> open_reservation e i \<longleftrightarrow> (\<exists>r. map_of (te_reservations e) i = Some r \<and> rs_status r = Reserved)"
  by (auto simp: open_reservation_def entry_ok_def)

lemma ledger_refund_pays:
  assumes "entry_ok e" "i \<noteq> []" "open_reservation e i"
  shows "\<exists>e'. ledger_refund now i e = Some e'"
proof -
  from assms obtain r where "map_of (te_reservations e) i = Some r" "rs_status r = Reserved"
    by (auto simp: open_map_of)
  with assms show ?thesis
    by (auto simp: ledger_refund_def refund_entry_def entry_ok_def Let_def split: prod.splits)
qed

text \<open>Task identifiers are never empty, so the ledger opens on the others only.\<close>

definition ledger_open :: "token_entry \<Rightarrow> ustr \<Rightarrow> bool" where
  "ledger_open e i \<longleftrightarrow> i \<noteq> [] \<and> open_reservation e i"

interpretation temp_ledger: charge_ledger entry_ok ledger_open holdings ledger_reserve ledger_refund
proof
  fix e e' a now i
  assume ok: "entry_ok e"
  show "entry_ok e'" "holdings e' = holdings e" "ledger_open e' = (ledger_open e)(i := True)"
    if "ledger_reserve a i e = Some e'"
    using ok that
    by (cases rule: ledger_reserve_cases; auto simp: take_quota_accounts ledger_open_def fun_eq_iff)+
  show "entry_ok e'" "holdings e' = holdings e" "ledger_open e' = (ledger_open e)(i := False)" "ledger_open e i"
    if "ledger_refund now i e = Some e'"
  proof -
    have i: "i \<noteq> []" using that by (auto simp: ledger_refund_def split: if_splits)
    from ok that obtain r info where r: "map_of (te_reservations e) i = Some r" "rs_status r = Reserved"
      "give_back now i r e = (e', info)" by (rule ledger_refund_cases)
    from give_back_accounts [OF ok r]
    show "entry_ok e'" "holdings e' = holdings e" "ledger_open e' = (ledger_open e)(i := False)"
      by (auto simp: ledger_open_def fun_eq_iff)
    show "ledger_open e i" using i r(1,2) ok by (auto simp: ledger_open_def open_map_of)
  qed
  show "\<exists>e'. ledger_refund now i e = Some e'" if "ledger_open e i"
    using ledger_refund_pays [OF ok] that by (simp add: ledger_open_def)
qed

end
