(* ===== verification/Temp_Props.thy ===== *)
theory Temp_Props
  imports Temp_Quota
begin

text \<open>
  What the token balances promise to the rest of the service, on the operations of
  app/temp_access.py: accounting over runs, idempotent reservations, the choice of the balance,
  migration, balance changes, rotation, and how an exhausted token is reported.
\<close>

section \<open>Runs\<close>

text \<open>C1: Over any sequence of reservations and refunds on a well-formed token entry, whatever
  the clocks, costs and identifiers, the entry stays well-formed, quota + credit + open
  reservations keep their total, and no task is refunded more often than it was charged.\<close>

theorem temp_ledger_run:
  assumes "entry_ok e" "run_ledger ledger_reserve ledger_refund es e = (e', paid)"
  shows "entry_ok e' \<and> holdings e' = holdings e \<and>
    (\<forall>i. count_list paid i + (if ledger_open e' i then 1 else 0)
         \<le> charges_of i es + (if ledger_open e i then 1 else 0))"
  using temp_ledger.run_conserves [OF assms] temp_ledger.refunds_bounded [OF assms] by blast

definition sample_entry :: "int \<Rightarrow> int \<Rightarrow> token_entry" where
  "sample_entry video credit =
     (new_entry 0 (u ''tmp_x'') 1 1 5 [])\<lparr>te_video_quota_units := Some video, te_credit_units := credit\<rparr>"

lemma sample_entry_fields [simp]:
  "te_video_quota_units (sample_entry v c) = Some v"
  "te_credit_units (sample_entry v c) = c"
  "te_reservations (sample_entry v c) = []"
  "te_billing_version (sample_entry v c) = 3"
  "te_billing_priority (sample_entry v c) = None"
  by (simp_all add: sample_entry_def new_entry_def)

lemma sample_entry_evq [simp]: "entry_video_quota_units (sample_entry v c) = max 0 v"
  by (simp add: entry_video_quota_units_def)

lemma sample_entry_priority [simp]: "entry_priority (sample_entry v c) = VideoFirst"
  by (simp add: entry_priority_def)

lemma sample_entry_ok [simp]: "entry_ok (sample_entry v c) \<longleftrightarrow> 0 \<le> v \<and> 0 \<le> c"
  by (auto simp: entry_ok_def)

definition sample_access :: "ustr \<Rightarrow> access_context" where
  "sample_access h = get_temp_context_from_entry h (sample_entry 0 0)"

lemma sample_access_fields [simp]:
  "ac_is_temp (sample_access h)" "ac_token_hash (sample_access h) = h"
  by (simp_all add: sample_access_def get_temp_context_from_entry_def Let_def)

theorem temp_ledger_run_witness:
  "let (e', paid) = run_ledger ledger_reserve ledger_refund
       [Charge \<lparr>ca_now = 1, ca_access = sample_access (u ''h''), ca_cost = 10, ca_user = [], ca_video_cost = 10\<rparr> (u ''t''),
        Refund 2 (u ''t''), Refund 3 (u ''t'')] (sample_entry 20 5)
   in entry_ok e' \<and> holdings e' = 25 \<and> count_list paid (u ''t'') \<le> 1"
proof -
  obtain e' paid where run: "run_ledger ledger_reserve ledger_refund
       [Charge \<lparr>ca_now = 1, ca_access = sample_access (u ''h''), ca_cost = 10, ca_user = [], ca_video_cost = 10\<rparr> (u ''t''),
        Refund 2 (u ''t''), Refund 3 (u ''t'')] (sample_entry 20 5) = (e', paid)"
    by (metis surj_pair)
  have start: "holdings (sample_entry 20 5) = 25" "\<not> ledger_open (sample_entry 20 5) (u ''t'')"
    by (simp_all add: holdings_def ledger_open_def open_reservation_def)
  note all = temp_ledger_run [OF _ run, unfolded start if_False, simplified sample_entry_ok, simplified]
  then have "entry_ok e'" "holdings e' = 25" by simp_all
  moreover have "count_list paid (u ''t'') \<le> 1"
    using spec [of _ "u ''t''", OF conjunct2 [OF conjunct2 [OF all]]] start by simp
  ultimately show ?thesis by (simp only: run Let_def split simp_thms)
qed

section \<open>One reservation\<close>

text \<open>Whether the video quota pays.\<close>

definition video_pays :: "token_entry \<Rightarrow> int \<Rightarrow> int \<Rightarrow> bool" where
  "video_pays e cost vcost \<longleftrightarrow> max 1 vcost \<le> entry_video_quota_units e \<and>
     \<not> (entry_priority e = PointsFirst \<and> max 1 cost \<le> te_credit_units e)"

text \<open>C19: The decision of a reservation for a task without one: it is refused with the quota
  error, unchanged, exactly when neither balance covers its own price; otherwise the quota pays
  its whole price if it covers it and the token does not prefer (and can pay in) points, and the
  credit pays its whole price else; the other balance is untouched, so neither goes negative.\<close>

theorem reserve_decision:
  assumes "entry_ok e" "i = [] \<or> map_of (te_reservations e) i = None"
  shows "(reserve_entry now a i cost user vcost e = Inl (QuotaExceeded (u ''temporary token quota exhausted'')) \<longleftrightarrow>
           entry_video_quota_units e < max 1 vcost \<and> te_credit_units e < max 1 cost) \<and>
    (\<forall>e' ctx w. reserve_entry now a i cost user vcost e = Inr (e', ctx, w) \<longrightarrow>
       w \<and> entry_video_quota_units e' = entry_video_quota_units e - (if video_pays e cost vcost then max 1 vcost else 0) \<and>
       te_credit_units e' = te_credit_units e - (if video_pays e cost vcost then 0 else max 1 cost) \<and>
       0 \<le> entry_video_quota_units e' \<and> 0 \<le> te_credit_units e' \<and>
       ac_video_quota_units ctx = entry_video_quota_units e' \<and> ac_credit_units ctx = te_credit_units e')"
proof -
  have nn: "0 \<le> te_credit_units e" "0 \<le> entry_video_quota_units e"
    using assms(1) evq_nonneg by (auto simp: entry_ok_def)
  have eq: "reserve_entry now a i cost user vcost e =
    map_sum id (\<lambda>e2. (e2, get_temp_context_from_entry (ac_token_hash a) e2, True))
      (take_quota now i cost user vcost e)"
    using assms by (auto simp: reserve_entry_def entry_ok_migrated)
  have err: "take_quota now i cost user vcost e = Inl x \<longleftrightarrow>
      x = QuotaExceeded (u ''temporary token quota exhausted'') \<and>
      \<not> video_pays e cost vcost \<and> te_credit_units e < max 1 cost" for x
    by (auto simp: take_quota_def video_pays_def Let_def split: if_splits)
  have dec: "\<not> video_pays e cost vcost \<and> te_credit_units e < max 1 cost \<longleftrightarrow>
      entry_video_quota_units e < max 1 vcost \<and> te_credit_units e < max 1 cost"
    by (auto simp: video_pays_def)
  have ok: "entry_video_quota_units e' = entry_video_quota_units e - (if video_pays e cost vcost then max 1 vcost else 0) \<and>
       te_credit_units e' = te_credit_units e - (if video_pays e cost vcost then 0 else max 1 cost) \<and>
       0 \<le> entry_video_quota_units e' \<and> 0 \<le> te_credit_units e'"
    if "take_quota now i cost user vcost e = Inr e'" for e'
  proof (cases "video_pays e cost vcost")
    case True
    then have "e' = finish_entry now (with_reservation i (new_reservation now True 0 (max 1 vcost) user)
        (set_entry_video_quota_units e (entry_video_quota_units e - max 1 vcost)))"
      using that take_quota_video [of vcost e cost] by (auto simp: video_pays_def)
    with True nn show ?thesis by (simp add: video_pays_def)
  next
    case False
    with that have "max 1 cost \<le> te_credit_units e" "e' = finish_entry now
        (with_reservation i (new_reservation now False (max 1 cost) 0 user)
          (e\<lparr>te_credit_units := te_credit_units e - max 1 cost\<rparr>))"
      using take_quota_points [of vcost e cost] by (auto simp: video_pays_def split: if_splits)
    with False nn show ?thesis by simp
  qed
  have ctx: "ac_video_quota_units (get_temp_context_from_entry h x) = entry_video_quota_units x"
    "0 \<le> te_credit_units x \<Longrightarrow> ac_credit_units (get_temp_context_from_entry h x) = te_credit_units x" for h x
    by (simp_all add: get_temp_context_from_entry_def Let_def)
  show ?thesis
  proof (cases "take_quota now i cost user vcost e")
    case (Inl x)
    with err [of x] dec show ?thesis unfolding eq by simp
  next
    case (Inr e')
    with err dec have "\<not> (entry_video_quota_units e < max 1 vcost \<and> te_credit_units e < max 1 cost)"
      by (auto simp: take_quota_def video_pays_def Let_def split: if_splits)
    with Inr ok [OF Inr] ctx show ?thesis unfolding eq by simp
  qed
qed

theorem reserve_decision_witness:
  "(\<exists>e' ctx w. reserve_entry 1 (sample_access (u ''h'')) (u ''t'') 30 [] 10 (sample_entry 25 40) = Inr (e', ctx, w) \<and>
     entry_video_quota_units e' = 15 \<and> te_credit_units e' = 40) \<and>
   reserve_entry 1 (sample_access (u ''h'')) (u ''t'') 30 [] 10 (sample_entry 5 20)
     = Inl (QuotaExceeded (u ''temporary token quota exhausted''))"
proof -
  have pay: "video_pays (sample_entry 25 40) 30 10" by (simp add: video_pays_def)
  have ok: "entry_ok (sample_entry 25 40)" "entry_ok (sample_entry 5 20)" by simp_all
  have fresh: "u ''t'' = [] \<or> map_of (te_reservations (sample_entry v c)) (u ''t'') = None" for v c
    by simp
  note main = reserve_decision [OF ok(1) fresh, of 1 "sample_access (u ''h'')" 30 "[]" 10]
  note refused = reserve_decision [OF ok(2) fresh, of 1 "sample_access (u ''h'')" 30 "[]" 10]
  have "entry_video_quota_units (sample_entry 5 20) < max 1 10 \<and> te_credit_units (sample_entry 5 20) < max 1 30"
    by simp
  with conjunct1 [OF refused] have no: "reserve_entry 1 (sample_access (u ''h'')) (u ''t'') 30 [] 10 (sample_entry 5 20)
     = Inl (QuotaExceeded (u ''temporary token quota exhausted''))" by blast
  have "max 1 10 \<le> entry_video_quota_units (sample_entry 25 40) \<and>
    \<not> (entry_priority (sample_entry 25 40) = PointsFirst \<and> max 1 30 \<le> te_credit_units (sample_entry 25 40))"
    by simp
  then obtain e' ctx w where
    yes: "reserve_entry 1 (sample_access (u ''h'')) (u ''t'') 30 [] 10 (sample_entry 25 40) = Inr (e', ctx, w)"
    by (simp add: reserve_entry_def entry_ok_migrated take_quota_video)
  have "entry_video_quota_units e' = 15 \<and> te_credit_units e' = 40"
    using conjunct2 [OF main, rule_format, OF yes] by (simp add: pay)
  with yes no show ?thesis by blast
qed

lemma reserve_temp_run:
  assumes "ac_is_temp a"
  shows "reserve_temp_quota b now tokens a i cost user vcost = Inr p \<longleftrightarrow>
     run_row b KeyError tokens (ac_token_hash a) (reserve_entry now a i cost user vcost) = Inr p"
proof (cases "run_row b KeyError tokens (ac_token_hash a) (reserve_entry now a i cost user vcost)")
  case (Inl x)
  with assms show ?thesis by (cases x) (simp_all add: reserve_temp_quota_def)
qed (use assms in \<open>simp add: reserve_temp_quota_def\<close>)

lemma reserve_entry_fresh:
  assumes "entry_ok e" "map_of (te_reservations e) i = None"
    "reserve_entry now a i cost user vcost e = Inr (e1, ctx, w)"
  shows "take_quota now i cost user vcost e = Inr e1 \<and> w"
  using assms(3)
  by (cases "i = []"; cases "take_quota now i cost user vcost e")
    (simp_all add: reserve_entry_def entry_ok_migrated [OF assms(1)] assms(2))

lemma reserve_entry_unwritten:
  assumes "entry_ok e" "reserve_entry now a i cost user vcost e = Inr (e1, ctx, w)"
  shows "w \<or> e1 = e"
proof (cases "if i = [] then None else map_of (te_reservations e) i")
  case None
  with assms show ?thesis
    by (cases "take_quota now i cost user vcost e") (simp_all add: reserve_entry_def entry_ok_migrated)
next
  case (Some r)
  with assms show ?thesis
    by (cases "rs_status r = Reserved") (simp_all add: reserve_entry_def entry_ok_migrated)
qed

text \<open>Reserving again for the same task, at any later time and whatever the new prices, is
  answered with the entry's current balances and changes no row: a retried request is not
  charged twice.\<close>

theorem reserve_idempotent:
  assumes "map_of tokens (ac_token_hash a) = Some e" "entry_ok e" "ac_is_temp a" "i \<noteq> []"
    and "reserve_temp_quota b now tokens a i cost user vcost = Inr (tokens1, ctx1)"
  shows "\<exists>e1 tokens2. map_of tokens1 (ac_token_hash a) = Some e1 \<and> open_reservation e1 i \<and>
    reserve_temp_quota b' now' tokens1 a i cost' user' vcost' =
      Inr (tokens2, get_temp_context_from_entry (ac_token_hash a) e1) \<and>
    map_of tokens2 = map_of tokens1"
proof -
  let ?h = "ac_token_hash a"
  from assms(3,5) have run: "run_row b KeyError tokens ?h (reserve_entry now a i cost user vcost) = Inr (tokens1, ctx1)"
    by (simp add: reserve_temp_run)
  from any_rows.run_Inr [OF run] assms(1)
  obtain e1 w where e1: "reserve_entry now a i cost user vcost e = Inr (e1, ctx1, w)"
    "map_of tokens1 = (map_of tokens)(?h \<mapsto> e1) \<or> \<not> w \<and> tokens1 = tokens" by (metis option.inject)
  have led: "ledger_reserve \<lparr>ca_now = now, ca_access = a, ca_cost = cost, ca_user = user, ca_video_cost = vcost\<rparr> i e = Some e1"
    using e1(1) assms(4) by (simp add: ledger_reserve_def)
  have ok1: "entry_ok e1" by (rule temp_ledger.charge_inv [OF assms(2) led])
  have open1: "open_reservation e1 i"
    using fun_cong [OF temp_ledger.charge_opens [OF assms(2) led], of i] by (simp add: ledger_open_def)
  from reserve_entry_unwritten [OF assms(2) e1(1)] have row: "map_of tokens1 ?h = Some e1" using e1(2) assms(1) by auto
  from open1 ok1 obtain r where r: "map_of (te_reservations e1) i = Some r" "rs_status r = Reserved"
    by (auto simp: open_map_of)
  have again: "reserve_entry now' a i cost' user' vcost' e1 =
      Inr (e1, get_temp_context_from_entry ?h e1, False)"
    using r assms(4) ok1 by (simp add: reserve_entry_def entry_ok_migrated)
  from any_rows.run_ok [OF row, where f = "reserve_entry now' a i cost' user' vcost'", OF again,
      where e = KeyError and b = b'] obtain tokens2 where
    "run_row b' KeyError tokens1 ?h (reserve_entry now' a i cost' user' vcost') =
       Inr (tokens2, get_temp_context_from_entry ?h e1)"
    "map_of tokens2 = map_of tokens1" using row by (auto simp: fun_upd_idem)
  with row open1 assms(3) show ?thesis by (metis reserve_temp_run)
qed

theorem reserve_idempotent_witness:
  "\<exists>tokens1 ctx1. reserve_temp_quota Postgres 1 [(u ''h'', sample_entry 25 0)] (sample_access (u ''h'')) (u ''t'') 10 [] 10
     = Inr (tokens1, ctx1) \<and>
   (\<exists>e1 tokens2. map_of tokens1 (u ''h'') = Some e1 \<and> open_reservation e1 (u ''t'') \<and>
    reserve_temp_quota LocalFile 9 tokens1 (sample_access (u ''h'')) (u ''t'') 70 [] 70 =
      Inr (tokens2, get_temp_context_from_entry (u ''h'') e1) \<and> map_of tokens2 = map_of tokens1)"
proof -
  let ?a = "sample_access (u ''h'')" and ?t = "[(u ''h'', sample_entry 25 0)]"
  have "max 1 10 \<le> entry_video_quota_units (sample_entry 25 0) \<and>
    \<not> (entry_priority (sample_entry 25 0) = PointsFirst \<and> max 1 10 \<le> te_credit_units (sample_entry 25 0))"
    by simp
  note paid = take_quota_video [OF this]
  have "\<exists>tokens1 ctx1. reserve_temp_quota Postgres 1 ?t ?a (u ''t'') 10 [] 10 = Inr (tokens1, ctx1)"
    by (simp add: reserve_temp_quota_def run_row_def pg_mutate_def reserve_entry_def
        entry_ok_migrated paid)
  then obtain tokens1 ctx1 where run: "reserve_temp_quota Postgres 1 ?t ?a (u ''t'') 10 [] 10 = Inr (tokens1, ctx1)"
    by blast
  have row: "map_of ?t (ac_token_hash ?a) = Some (sample_entry 25 0)" by simp
  have "entry_ok (sample_entry 25 0)" "ac_is_temp ?a" "u ''t'' \<noteq> []" by simp_all
  from reserve_idempotent [OF row this run, of LocalFile 9 70 "[]" 70] run show ?thesis by simp
qed

lemma in_set_update: "(k, v) \<in> set (AList.update k v xs)"
  by (induction xs) auto

lemma take_quota_stored:
  assumes ok: "entry_ok e" and fresh: "map_of (te_reservations e) i = None" and i: "i \<noteq> []"
    and t: "take_quota now i cost user vcost e = Inr e1"
  obtains r where "map_of (te_reservations e1) i = Some r" "rs_status r = Reserved"
    "entry_video_quota_units e = entry_video_quota_units e1 + (if rs_free r then rs_video_units r else 0)"
    "te_credit_units e = te_credit_units e1 + (if rs_free r then 0 else rs_units r)"
proof -
  have ok1: "entry_ok e1" by (rule take_quota_accounts(1) [OF ok fresh t])
  then have d: "distinct (map fst (te_reservations e1))" by (simp add: entry_ok_def)
  have stored: "map_of (te_reservations e1) i = Some r"
    if "e1 = finish_entry now (with_reservation i r e0)" "rs_status r = Reserved" for r e0
    using that d i prune_open [of r i 1000 "with_reservation i r e0"]
    by (simp add: finish_entry_def with_reservation_def in_set_update)
  from t show ?thesis
  proof (cases rule: take_quota_cases)
    case video
    show ?thesis
      by (rule that [OF stored [OF video(2)]]) (use video in \<open>simp_all\<close>)
  next
    case points
    show ?thesis
      by (rule that [OF stored [OF points(2)]]) (use points evq_nonneg [OF ok] in \<open>simp_all\<close>)
  qed
qed

lemma give_back_balances:
  assumes "entry_ok e" "map_of (te_reservations e) i = Some r" "rs_status r = Reserved"
    "give_back now i r e = (e', info)"
  shows "entry_video_quota_units e' = entry_video_quota_units e + (if rs_free r then rs_video_units r else 0)"
    "te_credit_units e' = te_credit_units e + (if rs_free r then 0 else rs_units r)"
proof -
  have "rs_free r \<Longrightarrow> 1 \<le> rs_video_units r"
    using assms(1,3) map_of_SomeD [OF assms(2)] by (auto simp: entry_ok_def)
  with assms(4) evq_nonneg [OF assms(1)]
  show "entry_video_quota_units e' = entry_video_quota_units e + (if rs_free r then rs_video_units r else 0)"
    "te_credit_units e' = te_credit_units e + (if rs_free r then 0 else rs_units r)"
    by (auto simp: give_back_def Let_def int_or_def)
qed

lemma refund_refused:
  assumes "map_of tokens h = Some e" "entry_ok e" "\<not> open_reservation e i" "i \<noteq> []"
    "normalized_hash h = h"
  shows "snd (refund_temp_quota_hash b now rand tokens rows h i) = Inr False"
proof -
  have "\<not> (\<exists>r. map_of (te_reservations e) i = Some r \<and> rs_status r = Reserved)"
    using assms(2,3) by (simp add: open_map_of)
  then have "refund_entry now i e = Inr (e, (False, None), False)"
    using assms(2,4) by (auto simp: refund_entry_def entry_ok_def split: option.split)
  from any_rows.run_ok [OF assms(1), where f = "refund_entry now i", OF this, where e = KeyError and b = b] assms(5)
  show ?thesis by (auto simp: refund_temp_quota_hash_def Let_def)
qed

text \<open>C24: A reservation followed by the refund of its task restores both balances, on either
  backend, and a second refund pays nothing.\<close>

theorem reserve_then_refund:
  assumes "map_of tokens (ac_token_hash a) = Some e" "entry_ok e" "ac_is_temp a" "i \<noteq> []"
    and "normalized_hash (ac_token_hash a) = ac_token_hash a" "ac_token_hash a \<noteq> []"
    and "map_of (te_reservations e) i = None"
    and "reserve_temp_quota b now tokens a i cost user vcost = Inr (tokens1, ctx1)"
    and "refund_temp_quota_hash b now2 rand tokens1 rows (ac_token_hash a) i = ((tokens2, rows2), r2)"
  shows "\<exists>e2. map_of tokens2 = (map_of tokens)(ac_token_hash a \<mapsto> e2) \<and>
    entry_video_quota_units e2 = entry_video_quota_units e \<and> te_credit_units e2 = te_credit_units e \<and>
    \<not> open_reservation e2 i \<and>
    snd (refund_temp_quota_hash b now3 rand3 tokens2 rows2 (ac_token_hash a) i) = Inr False"
proof -
  let ?h = "ac_token_hash a"
  from assms(3,8) have run: "run_row b KeyError tokens ?h (reserve_entry now a i cost user vcost) = Inr (tokens1, ctx1)"
    by (simp add: reserve_temp_run)
  from any_rows.run_Inr [OF run] assms(1)
  obtain e1 w where e1: "reserve_entry now a i cost user vcost e = Inr (e1, ctx1, w)"
    "map_of tokens1 = (map_of tokens)(?h \<mapsto> e1) \<or> \<not> w \<and> tokens1 = tokens" by (metis option.inject)
  from reserve_entry_fresh [OF assms(2,7) e1(1)]
  have t: "take_quota now i cost user vcost e = Inr e1" and w by simp_all
  with e1(2) have m1: "map_of tokens1 = (map_of tokens)(?h \<mapsto> e1)" by simp
  have ok1: "entry_ok e1" by (rule take_quota_accounts(1) [OF assms(2,7) t])
  obtain r where r: "map_of (te_reservations e1) i = Some r" "rs_status r = Reserved"
    and bal: "entry_video_quota_units e = entry_video_quota_units e1 + (if rs_free r then rs_video_units r else 0)"
      "te_credit_units e = te_credit_units e1 + (if rs_free r then 0 else rs_units r)"
    by (rule take_quota_stored [OF assms(2,7,4) t])
  obtain e2 info where gb: "give_back now2 i r e1 = (e2, info)" by (cases "give_back now2 i r e1")
  have "refund_entry now2 i e1 = Inr (e2, (True, Some info), True)"
    using r ok1 assms(4) gb by (simp add: refund_entry_def entry_ok_def)
  then have "run_row b KeyError tokens1 ?h (refund_entry now2 i) =
      Inr (AList.update ?h e2 tokens1, (True, Some info))"
    by (intro any_rows.run_written) (simp add: m1)
  then have "tokens2 = AList.update ?h e2 tokens1"
    using assms(5,6,9) by (simp add: refund_temp_quota_hash_def Let_def split: sum.splits)
  then have m2: "map_of tokens2 = (map_of tokens)(?h \<mapsto> e2)" by (simp add: m1 update_conv')
  note ga = give_back_accounts [OF ok1 r gb]
  have closed: "\<not> open_reservation e2 i" by (simp add: ga(3))
  have "snd (refund_temp_quota_hash b now3 rand3 tokens2 rows2 ?h i) = Inr False"
    by (rule refund_refused [OF _ ga(1) closed assms(4,5)]) (simp add: m2)
  with m2 closed give_back_balances [OF ok1 r gb] bal show ?thesis by auto
qed

theorem reserve_then_refund_witness:
  "let t = [(u ''h'', sample_entry 25 0)]; a = sample_access (u ''h'') in
   \<exists>tokens1 ctx1 tokens2 rows2 r2 e2.
     reserve_temp_quota LocalFile 1 t a (u ''t'') 10 [] 10 = Inr (tokens1, ctx1) \<and>
     refund_temp_quota_hash LocalFile 2 [] tokens1 [] (u ''h'') (u ''t'') = ((tokens2, rows2), r2) \<and>
     map_of tokens2 (u ''h'') = Some e2 \<and> entry_video_quota_units e2 = 25"
proof -
  let ?a = "sample_access (u ''h'')" and ?t = "[(u ''h'', sample_entry 25 0)]"
  have "max 1 10 \<le> entry_video_quota_units (sample_entry 25 0) \<and>
    \<not> (entry_priority (sample_entry 25 0) = PointsFirst \<and> max 1 10 \<le> te_credit_units (sample_entry 25 0))"
    by simp
  note paid = take_quota_video [OF this]
  have "\<exists>tokens1 ctx1. reserve_temp_quota LocalFile 1 ?t ?a (u ''t'') 10 [] 10 = Inr (tokens1, ctx1)"
    by (simp add: reserve_temp_quota_def run_row_def file_mutate_def reserve_entry_def
        entry_ok_migrated paid)
  then obtain tokens1 ctx1 where run: "reserve_temp_quota LocalFile 1 ?t ?a (u ''t'') 10 [] 10 = Inr (tokens1, ctx1)"
    by blast
  obtain tokens2 rows2 r2 where ref: "refund_temp_quota_hash LocalFile 2 [] tokens1 [] (ac_token_hash ?a) (u ''t'') = ((tokens2, rows2), r2)"
    by (metis surj_pair)
  have row: "map_of ?t (ac_token_hash ?a) = Some (sample_entry 25 0)" by simp
  have h: "normalized_hash (ac_token_hash ?a) = ac_token_hash ?a" by simp code_simp
  have rest: "entry_ok (sample_entry 25 0)" "ac_is_temp ?a" "u ''t'' \<noteq> []" "ac_token_hash ?a \<noteq> []"
    "map_of (te_reservations (sample_entry 25 0)) (u ''t'') = None" by simp_all
  from reserve_then_refund [OF row rest(1-3) h rest(4,5) run ref, of 0 "[]"] run ref
  show ?thesis unfolding Let_def by (metis fun_upd_same sample_access_fields(2) sample_entry_evq zero_le_numeral max.absorb2)
qed

section \<open>Migration and changes of the balances\<close>

text \<open>Migrating an entry of version 0 or 1 keeps what its holder can still spend: the uses
  left, in tenths, are split into video quota and credit, and nothing is created or lost.\<close>

theorem migrate_keeps_remaining:
  assumes "te_billing_version e < 2" "0 \<le> free" "free < 10 ^ 25"
    and "migrate_entry e free = Inr (e', changed)"
  shows "changed \<and> te_billing_version e' = 3 \<and> te_reservations e' = [] \<and>
    entry_video_quota_units e' = 10 * max 0 (free - max 0 (te_used e)) \<and>
    entry_video_quota_units e' + te_credit_units e' =
      10 * max 0 (max free (int_or (te_limit e) free) - max 0 (te_used e))"
proof -
  let ?n = "max 0 (free - max 0 (te_used e))"
  have "\<bar>?n\<bar> < 10 ^ 27" using assms(2,3) by auto
  then have "nonnegative_points_to_units (Some (Fin ?n 0)) = Inr (10 * ?n)"
    by (simp add: nonnegative_points_to_units_def dec_scale_exact sgn_if)
  then have "e' = sync_legacy_fields ((set_entry_video_quota_units
      (e\<lparr>te_free_remaining := Fin ?n 0,
         te_credit_units := max 0 (max free (int_or (te_limit e) free) - max (max 0 (te_used e)) free) * POINT_SCALE,
         te_reservations := []\<rparr>) (10 * ?n))\<lparr>te_billing_version := 3\<rparr>)" and "changed"
    using assms by (simp_all add: migrate_entry_def Let_def)
  then show ?thesis
    using assms(2)
    by (auto simp: POINT_SCALE_def sync_legacy_fields_def Let_def set_entry_video_quota_units_def
        entry_video_quota_units_def max_def)
qed

theorem migrate_keeps_remaining_witness:
  "\<exists>e'. migrate_entry (sample_entry 0 0\<lparr>te_billing_version := 1, te_limit := 30, te_used := 4\<rparr>) 10 = Inr (e', True) \<and>
     entry_video_quota_units e' = 60 \<and> te_credit_units e' = 200"
proof -
  let ?e = "sample_entry 0 0\<lparr>te_billing_version := 1, te_limit := 30, te_used := 4\<rparr>"
  have "nonnegative_points_to_units (Some (Fin 6 0)) = Inr 60"
    by (simp add: nonnegative_points_to_units_def dec_scale_exact)
  then obtain e' c where m: "migrate_entry ?e 10 = Inr (e', c)"
    by (simp add: migrate_entry_def Let_def int_or_def)
  have v: "te_billing_version ?e < 2" "(0::int) \<le> 10" "(10::int) < 10 ^ 25" by simp_all
  from migrate_keeps_remaining [OF v m] m show ?thesis by (simp add: int_or_def)
qed

lemma balance_mutator_run:
  assumes "map_of tokens h = Some e" "entry_ok e"
    "run_row b KeyError tokens h (balance_mutator now h n f) = r"
  shows "case f e of Inl x \<Rightarrow> r = Inl x
    | Inr e2 \<Rightarrow> \<exists>e3 tokens' p. r = Inr (tokens', p) \<and> e3 = (sync_legacy_fields e2)\<lparr>te_updated_at := At now\<rparr> \<and>
        map_of tokens' = (map_of tokens)(h \<mapsto> e3) \<and> p = public_token h e3"
proof (cases "f e")
  case (Inl x)
  with assms(2) have "balance_mutator now h n f e = Inl x"
    by (simp add: balance_mutator_def entry_ok_migrated)
  from any_rows.run_error [OF assms(1), where f = "balance_mutator now h n f", OF this, where e = KeyError and b = b]
  show ?thesis using Inl assms(3) by simp
next
  case (Inr e2)
  let ?e3 = "(sync_legacy_fields e2)\<lparr>te_updated_at := At now\<rparr>"
  from Inr assms(2) have "balance_mutator now h n f e = Inr (?e3, public_token h ?e3, True)"
    by (simp add: balance_mutator_def entry_ok_migrated Let_def)
  from any_rows.run_written [OF assms(1), where f = "balance_mutator now h n f", OF this, where e = KeyError and b = b]
  show ?thesis using Inr assms(3) by (simp add: update_conv')
qed

text \<open>Buying a membership on a well-formed entry fails, with the table unchanged, exactly
  when the credit is below the price; otherwise the credit falls by the price, the quota grows
  by ten units per bonus use, the concurrency is the plan's within 1..100, open reservations
  stay, and the other tokens are untouched.\<close>

theorem purchase_temp_membership_effect:
  assumes "map_of tokens (normalized_hash h) = Some e" "entry_ok e" "points_to_units cost = Inr units"
    "1 \<le> units"
  shows "if te_credit_units e < units
    then purchase_temp_membership b now tokens h free cost bonus conc = Inl (ValueError msg_points_insufficient)
    else \<exists>e' tokens' p. purchase_temp_membership b now tokens h free cost bonus conc = Inr (tokens', p) \<and>
      map_of tokens' = (map_of tokens)(normalized_hash h \<mapsto> e') \<and> entry_ok e' \<and>
      te_credit_units e' = te_credit_units e - units \<and>
      entry_video_quota_units e' = entry_video_quota_units e + 10 * max 0 bonus \<and>
      te_concurrency e' = clamp 1 100 conc \<and> te_reservations e' = te_reservations e"
proof -
  let ?h = "normalized_hash h"
  let ?f = "\<lambda>entry. if te_credit_units entry < units then Inl (ValueError msg_points_insufficient)
          else let paid = entry\<lparr>te_credit_units := te_credit_units entry - units\<rparr>
               in Inr ((set_entry_video_quota_units paid (entry_video_quota_units paid + max 0 bonus * POINT_SCALE))
                    \<lparr>te_concurrency := clamp 1 MAX_TEMP_TOKEN_CONCURRENCY conc\<rparr>)"
  have run: "purchase_temp_membership b now tokens h free cost bonus conc =
      run_row b KeyError tokens ?h (balance_mutator now ?h free ?f)"
    by (simp add: purchase_temp_membership_def assms(3) Let_def)
  note res = balance_mutator_run [OF assms(1,2) run [symmetric]]
  show ?thesis
  proof (cases "te_credit_units e < units")
    case True
    with res show ?thesis by simp
  next
    case False
    let ?p = "e\<lparr>te_credit_units := te_credit_units e - units\<rparr>"
    let ?e2 = "(set_entry_video_quota_units ?p (entry_video_quota_units e + max 0 bonus * POINT_SCALE))
                    \<lparr>te_concurrency := clamp 1 MAX_TEMP_TOKEN_CONCURRENCY conc\<rparr>"
    let ?e3 = "(sync_legacy_fields ?e2)\<lparr>te_updated_at := At now\<rparr>"
    have evq: "entry_video_quota_units (x\<lparr>te_concurrency := c\<rparr>) = entry_video_quota_units x" for x c
      by (simp add: entry_video_quota_units_def split: option.split)
    have "?f e = Inr ?e2" using False by (simp add: Let_def)
    with res obtain tokens' p where r: "purchase_temp_membership b now tokens h free cost bonus conc = Inr (tokens', p)"
      "map_of tokens' = (map_of tokens)(?h \<mapsto> ?e3)" by auto
    have "te_concurrency ?e3 = clamp 1 100 conc"
      by (simp add: sync_legacy_fields_def Let_def set_entry_video_quota_units_def MAX_TEMP_TOKEN_CONCURRENCY_def)
    moreover have "entry_ok ?e3" "te_credit_units ?e3 = te_credit_units e - units"
      "entry_video_quota_units ?e3 = entry_video_quota_units e + 10 * max 0 bonus"
      "te_reservations ?e3 = te_reservations e"
      using assms(2) False evq_nonneg [OF assms(2)]
      by (auto simp: entry_ok_def evq POINT_SCALE_def)
    ultimately show ?thesis using False r by (simp only: if_False) blast
  qed
qed

theorem purchase_temp_membership_effect_witness:
  "\<exists>e' tokens' p. purchase_temp_membership Postgres 1 [(u ''h'', sample_entry 20 150)] (u ''H'') 0
      (Some (Fin 10 0)) 5 2 = Inr (tokens', p) \<and>
     map_of tokens' (u ''h'') = Some e' \<and> te_credit_units e' = 50 \<and> entry_video_quota_units e' = 70"
proof -
  have h: "normalized_hash (u ''H'') = u ''h''" by code_simp
  have row: "map_of [(u ''h'', sample_entry 20 150)] (normalized_hash (u ''H'')) = Some (sample_entry 20 150)"
    by (simp add: h)
  have cost: "points_to_units (Some (Fin 10 0)) = Inr 100"
    by (simp add: points_to_units_def dec_scale_exact)
  have ok: "entry_ok (sample_entry 20 150)" "(1::int) \<le> 100" by simp_all
  from purchase_temp_membership_effect [OF row ok(1) cost ok(2), of Postgres 1 0 5 2]
  show ?thesis by (auto simp: h)
qed

section \<open>Rotation\<close>

lemma fresh_token_unused: "fresh_token hash tokens draws = Some t \<Longrightarrow> map_of tokens (hash t) = None"
  by (induction draws) (auto split: if_splits)

text \<open>Rotating a token moves its entry, balances and reservations included, to the hash of a
  token no entry had, and removes the old hash; no other token changes.\<close>

theorem rotate_moves_entry:
  assumes "map_of tokens (normalized_hash h) = Some e" "distinct (map fst tokens)"
    and "rotate_temp_token hash now draws tokens h = Some (Inr (tokens', p))"
  shows "\<exists>t. map_of tokens (hash t) = None \<and>
    map_of tokens' = (map_of tokens)(normalized_hash h := None,
      hash t \<mapsto> e\<lparr>te_token := t, te_updated_at := At now\<rparr>) \<and>
    distinct (map fst tokens') \<and> length tokens' = length tokens"
proof -
  let ?h = "normalized_hash h"
  from assms(1,3) obtain t where t: "fresh_token hash tokens draws = Some t"
    and tok: "tokens' = AList.delete ?h (AList.update (hash t) (e\<lparr>te_token := t, te_updated_at := At now\<rparr>) tokens)"
    by (auto simp: rotate_temp_token_def Let_def split: option.splits)
  note free = fresh_token_unused [OF t]
  have ne: "hash t \<noteq> ?h" using free assms(1) by auto
  let ?new = "e\<lparr>te_token := t, te_updated_at := At now\<rparr>"
  have eq: "tokens' = AList.delete ?h (tokens @ [(hash t, ?new)])" by (simp add: tok update_new [OF free])
  have "length (AList.delete k xs) = length xs - 1" if "k \<in> fst ` set xs" "distinct (map fst xs)"
    for k :: ustr and xs :: token_table
    using that
  proof (induction xs)
    case (Cons x xs)
    show ?case
    proof (cases "fst x = k")
      case True
      with Cons.prems have "k \<notin> fst ` set xs" by auto
      then show ?thesis using True by (cases x) (simp add: delete_idem)
    next
      case False
      with Cons have "length (AList.delete k xs) = length xs - 1" "xs \<noteq> []" by auto
      with False show ?thesis by (cases x) (cases xs; simp)
    qed
  qed simp
  moreover have "distinct (map fst (tokens @ [(hash t, ?new)]))"
    using free assms(2) by (simp add: map_of_eq_None_iff)
  moreover have "?h \<in> fst ` set (tokens @ [(hash t, ?new)])"
    using assms(1) by (force dest: map_of_SomeD)
  ultimately have "length tokens' = length tokens" unfolding eq by simp
  moreover have "distinct (map fst tokens')"
    unfolding tok using assms(2) by (intro distinct_delete distinct_update)
  moreover have "map_of tokens' = (map_of tokens)(?h := None, hash t \<mapsto> ?new)"
    unfolding tok using ne by (auto simp: delete_conv' update_conv' fun_eq_iff)
  ultimately show ?thesis using free by blast
qed

theorem rotate_moves_entry_witness:
  "\<exists>tokens' p t. rotate_temp_token (\<lambda>t. t) 5 [u ''a''] [(u ''h'', sample_entry 20 5)] (u ''h'') = Some (Inr (tokens', p)) \<and>
     map_of tokens' (u ''h'') = None \<and> map_of tokens' t \<noteq> None \<and> length tokens' = 1"
proof -
  have h: "normalized_hash (u ''h'') = u ''h''" by code_simp
  have row: "map_of [(u ''h'', sample_entry 20 5)] (normalized_hash (u ''h'')) = Some (sample_entry 20 5)"
    by (simp add: h)
  have "map_of [(u ''h'', sample_entry 20 5)] (u ''tmp_'' @ u ''a'') = None" by (simp add: u_def)
  then obtain tokens' p where rot: "rotate_temp_token (\<lambda>t. t) 5 [u ''a''] [(u ''h'', sample_entry 20 5)] (u ''h'') = Some (Inr (tokens', p))"
    by (simp add: rotate_temp_token_def Let_def h)
  from rotate_moves_entry [OF row _ rot] obtain t where
    "map_of [(u ''h'', sample_entry 20 5)] t = None" "map_of tokens' = (map_of [(u ''h'', sample_entry 20 5)])
      (u ''h'' := None, t \<mapsto> sample_entry 20 5\<lparr>te_token := t, te_updated_at := At 5\<rparr>)"
    "length tokens' = 1" by (auto simp: h)
  with rot show ?thesis by (intro exI [of _ tokens'] exI [of _ p] exI [of _ t]) (auto split: if_splits)
qed

section \<open>How an exhausted token is reported\<close>

text \<open>When a reservation uses up both balances, the context it returns says that nothing
  remains, but the token's public view and the context read at the next request report a limit
  and a remainder of 100: the refreshed limit is 0, which both read as missing.\<close>

theorem exhausted_token_reported_full:
  assumes "entry_ok e" "reserve_entry now a i cost user vcost e = Inr (e', ctx, True)"
    "entry_video_quota_units e' = 0" "te_credit_units e' = 0"
    and "token \<noteq> []" "normalized_hash (hash token) = hash token" "hash token \<noteq> []"
  shows "ac_remaining ctx = 0 \<and> te_limit e' = 0 \<and>
    pt_limit (public_token h e') = 100 \<and> pt_remaining (public_token h e') = 100 \<and>
    (\<exists>c. get_temp_context hash [(hash token, e')] token = Some c \<and> ac_remaining c = 100)"
proof -
  from assms(2) obtain e1 where ctx: "ctx = get_temp_context_from_entry (ac_token_hash a) e'"
    and t: "take_quota now i cost user vcost e = Inr e'"
    by (cases "if i = [] then None else map_of (te_reservations e) i";
        cases "take_quota now i cost user vcost e")
      (auto simp: reserve_entry_def entry_ok_migrated [OF assms(1)] split: if_splits)
  from t obtain e0 where e0: "e' = finish_entry now e0" "0 \<le> entry_video_quota_units e0"
    by (cases rule: take_quota_cases) (auto simp: evq_nonneg [OF assms(1)])
  with assms(3,4) have "te_limit e' = 0" "te_used e' = 0"
    by (simp_all add: finish_entry_def sync_legacy_fields_def Let_def combined_limit_def POINT_SCALE_def)
  with assms ctx show ?thesis
    by (simp add: public_token_def get_temp_context_def get_temp_context_from_entry_def Let_def
        read_token_entry_def int_or_def TEMP_TOKEN_LIMIT_def combined_limit_def POINT_SCALE_def)
qed

theorem exhausted_token_reported_full_witness:
  "\<exists>e' ctx. reserve_entry 1 (sample_access (u ''h'')) (u ''t'') 10 [] 10 (sample_entry 10 0) = Inr (e', ctx, True) \<and>
     ac_remaining ctx = 0 \<and> pt_remaining (public_token (u ''h'') e') = 100"
proof -
  let ?e = "sample_entry 10 0"
  have "max 1 10 \<le> entry_video_quota_units ?e \<and>
    \<not> (entry_priority ?e = PointsFirst \<and> max 1 10 \<le> te_credit_units ?e)"
    by simp
  note paid = take_quota_video [OF this]
  then obtain e' ctx where res: "reserve_entry 1 (sample_access (u ''h'')) (u ''t'') 10 [] 10 ?e = Inr (e', ctx, True)"
    and e': "e' = finish_entry 1 (with_reservation (u ''t'') (new_reservation 1 True 0 10 [])
        (set_entry_video_quota_units ?e 0))"
    by (simp add: reserve_entry_def entry_ok_migrated)
  have z: "entry_ok ?e" "entry_video_quota_units e' = 0" "te_credit_units e' = 0"
    by (simp_all add: e')
  have h: "u ''h'' \<noteq> []" "normalized_hash ((\<lambda>_. u ''h'') (u ''tok'')) = (\<lambda>_. u ''h'') (u ''tok'')"
    "(\<lambda>_. u ''h'') (u ''tok'') \<noteq> []" "u ''tok'' \<noteq> []"
    by simp_all code_simp
  from exhausted_token_reported_full [OF z(1) res z(2,3) h(4,2,3)] res show ?thesis by blast
qed

section \<open>The two backends\<close>

text \<open>On a well-formed entry a reservation has the same outcome on PostgreSQL and on local
  files: the same error, or the same context and the same rows.\<close>

theorem reserve_backends_agree:
  assumes "\<And>e. map_of tokens (ac_token_hash a) = Some e \<Longrightarrow> entry_ok e"
  shows "map_sum id (\<lambda>(t, ctx). (map_of t, ctx)) (reserve_temp_quota Postgres now tokens a i cost user vcost) =
    map_sum id (\<lambda>(t, ctx). (map_of t, ctx)) (reserve_temp_quota LocalFile now tokens a i cost user vcost)"
proof -
  let ?run = "\<lambda>b. run_row b KeyError tokens (ac_token_hash a) (reserve_entry now a i cost user vcost)"
  have agree: "map_sum id (\<lambda>(t, r). (map_of t, r)) (?run Postgres) = map_sum id (\<lambda>(t, r). (map_of t, r)) (?run LocalFile)"
    by (rule backends_agree) (use assms reserve_entry_unwritten in blast)
  show ?thesis
  proof (cases "ac_is_temp a")
    case True
    show ?thesis
    proof (cases "?run Postgres")
      case (Inl x)
      with agree have "?run LocalFile = Inl x" by (cases "?run LocalFile") auto
      with Inl show ?thesis by (simp add: reserve_temp_quota_def)
    next
      case (Inr p)
      with agree obtain q where "?run LocalFile = Inr q" "map_of (fst q) = map_of (fst p)" "snd q = snd p"
        by (cases p; cases "?run LocalFile") auto
      with Inr show ?thesis using True by (simp add: reserve_temp_quota_def case_prod_beta)
    qed
  qed (simp add: reserve_temp_quota_def)
qed

theorem reserve_backends_agree_witness:
  "map_sum id (\<lambda>(t, ctx). (map_of t, ctx))
     (reserve_temp_quota Postgres 1 [(u ''h'', sample_entry 10 0)] (sample_access (u ''h'')) (u ''t'') 10 [] 10) =
   map_sum id (\<lambda>(t, ctx). (map_of t, ctx))
     (reserve_temp_quota LocalFile 1 [(u ''h'', sample_entry 10 0)] (sample_access (u ''h'')) (u ''t'') 10 [] 10)"
  by (rule reserve_backends_agree) simp

end
