(* ===== verification/Resilience.thy ===== *)
theory Resilience
  imports Complex_Main Storage "HOL-Library.List_Lexorder"
begin

text \<open>
  Load control (app/resilience.py): the fair split of the worker capacity between token owners,
  the circuit breaker and the token bucket of a platform on both backends, the number of workers
  under memory pressure, and the admission of new tasks. Times are seconds and ratios numbers as
  rationals; Python's floats differ from them by rounding only.
\<close>

section \<open>The policy\<close>

text \<open>
  An environment variable: absent or empty (\<open>None\<close>), not a number (\<open>Some None\<close>), or a number.
\<close>

type_synonym 'a env_value = "'a option option"

definition env_number :: "'a::linorder env_value \<Rightarrow> 'a \<Rightarrow> 'a \<Rightarrow> 'a" where
  "env_number raw dflt minimum = (case raw of
     None \<Rightarrow> max minimum dflt
   | Some None \<Rightarrow> dflt
   | Some (Some x) \<Rightarrow> max minimum x)"

record resilience_policy =
  platform_rate_per_minute :: int
  platform_burst :: int
  circuit_failure_threshold :: int
  circuit_recovery_seconds :: int
  queue_high_watermark :: int
  memory_high_ratio :: rat
  memory_critical_ratio :: rat
  minimum_workers :: int

record policy_env =
  env_rate :: "int env_value"
  env_burst :: "int env_value"
  env_threshold :: "int env_value"
  env_recovery :: "int env_value"
  env_watermark :: "int env_value"
  env_high :: "rat env_value"
  env_critical :: "rat env_value"
  env_workers :: "int env_value"

definition load_policy :: "policy_env \<Rightarrow> resilience_policy" where
  "load_policy env =
     (let high = min (98 / 100) (env_number (env_high env) (81 / 100) 0);
          critical = min (99 / 100) (max (high + 1 / 100) (env_number (env_critical env) (90 / 100) 0))
      in \<lparr>platform_rate_per_minute = env_number (env_rate env) 30 1,
          platform_burst = env_number (env_burst env) 5 1,
          circuit_failure_threshold = env_number (env_threshold env) 5 1,
          circuit_recovery_seconds = env_number (env_recovery env) 60 1,
          queue_high_watermark = env_number (env_watermark env) 1000 1,
          memory_high_ratio = high,
          memory_critical_ratio = critical,
          minimum_workers = env_number (env_workers env) 1 1\<rparr>)"

definition default_env :: policy_env where
  "default_env = \<lparr>env_rate = None, env_burst = None, env_threshold = None, env_recovery = None,
     env_watermark = None, env_high = None, env_critical = None, env_workers = None\<rparr>"

definition policy_ok :: "resilience_policy \<Rightarrow> bool" where
  "policy_ok p \<longleftrightarrow> 1 \<le> platform_rate_per_minute p \<and> 1 \<le> platform_burst p \<and>
     1 \<le> circuit_failure_threshold p \<and> 1 \<le> circuit_recovery_seconds p \<and>
     1 \<le> queue_high_watermark p \<and> 1 \<le> minimum_workers p \<and>
     memory_high_ratio p + 1 / 100 \<le> memory_critical_ratio p"

lemma env_number_ge: "minimum \<le> dflt \<Longrightarrow> minimum \<le> env_number raw dflt minimum"
  by (auto simp: env_number_def split: option.split)

lemma policy_ok_load [simp]: "policy_ok (load_policy env)"
  by (auto simp: policy_ok_def load_policy_def Let_def intro: env_number_ge)

section \<open>Admissions\<close>

record admission =
  ad_allowed :: bool
  ad_reason :: ustr
  ad_retry_after :: int

definition admission :: "bool \<Rightarrow> ustr \<Rightarrow> int \<Rightarrow> admission" where
  "admission ok reason wait = \<lparr>ad_allowed = ok, ad_reason = reason, ad_retry_after = wait\<rparr>"

definition allowed_admission :: admission where
  "allowed_admission = admission True [] 0"

lemma admission_fields [simp]:
  "ad_allowed (admission ok r w) = ok" "ad_reason (admission ok r w) = r"
  "ad_retry_after (admission ok r w) = w" "ad_allowed allowed_admission" "ad_reason allowed_admission = []"
  by (simp_all add: admission_def allowed_admission_def)

section \<open>The fair split of the capacity\<close>

text \<open>One pass of the \<open>for\<close> loop; it stops early when nothing remains.\<close>

fun fair_pass ::
    "(ustr, int) table \<Rightarrow> ustr list \<Rightarrow> (ustr, int) table \<Rightarrow> int \<Rightarrow> bool \<Rightarrow> (ustr, int) table \<times> int \<times> bool"
where
  "fair_pass requested [] limits remaining progressed = (limits, remaining, progressed)"
| "fair_pass requested (owner # owners) limits remaining progressed =
     (if the (map_of requested owner) \<le> the (map_of limits owner)
      then fair_pass requested owners limits remaining progressed
      else let limits' = AList.update owner (the (map_of limits owner) + 1) limits
           in if remaining - 1 \<le> 0 then (limits', remaining - 1, True)
              else fair_pass requested owners limits' (remaining - 1) True)"

lemma fair_pass_remaining:
  "fair_pass requested owners limits remaining progressed = (limits', remaining', progressed') \<Longrightarrow>
     remaining' \<le> remaining \<and> (progressed' \<and> \<not> progressed \<longrightarrow> remaining' < remaining)"
proof (induction owners arbitrary: limits remaining progressed)
  case (Cons owner owners)
  show ?case
  proof (cases "the (map_of requested owner) \<le> the (map_of limits owner)")
    case True
    with Cons.IH [of limits remaining progressed] Cons.prems show ?thesis by simp
  next
    case False
    show ?thesis
    proof (cases "remaining - 1 \<le> 0")
      case True
      with False Cons.prems show ?thesis by (auto simp: Let_def)
    next
      case more: False
      with False Cons.prems Cons.IH [of "AList.update owner (the (map_of limits owner) + 1) limits" "remaining - 1" True]
      show ?thesis by (simp add: Let_def)
    qed
  qed
qed simp

function fair_loop :: "(ustr, int) table \<Rightarrow> ustr list \<Rightarrow> (ustr, int) table \<Rightarrow> int \<Rightarrow> (ustr, int) table" where
  "fair_loop requested owners limits remaining =
     (if remaining \<le> 0 then limits
      else case fair_pass requested owners limits remaining False of
        (limits', remaining', progressed) \<Rightarrow>
          if progressed then fair_loop requested owners limits' remaining' else limits')"
  by pat_completeness auto
termination
  by (relation "measure (\<lambda>(_, _, _, r). nat r)") (auto dest: fair_pass_remaining [OF sym])

declare fair_loop.simps [simp del]

definition fair_owner_capacity_limits :: "(ustr, int) table \<Rightarrow> int \<Rightarrow> (ustr, int) table" where
  "fair_owner_capacity_limits requested_limits capacity =
     (let requested = map (\<lambda>(o', l). (o', max 1 l)) (filter (\<lambda>(o', _). o' \<noteq> []) requested_limits)
      in if requested = [] then []
         else let owners = sort (map fst requested);
                  limits = map (\<lambda>o'. (o', 1)) owners;
                  remaining = max 0 (capacity - int (length owners))
              in fair_loop requested owners limits remaining)"

section \<open>The circuit breaker\<close>

text \<open>The local state of a platform; 0 is the code's unset time.\<close>

record circuit =
  ci_failures :: int
  ci_opened :: rat
  ci_probe :: rat

type_synonym circuits = "(ustr, circuit) table"

definition local_record_failure :: "resilience_policy \<Rightarrow> rat \<Rightarrow> ustr \<Rightarrow> circuits \<Rightarrow> circuits" where
  "local_record_failure policy now platform circuits =
     (let state = (case map_of circuits platform of
            None \<Rightarrow> \<lparr>ci_failures = 0, ci_opened = 0, ci_probe = 0\<rparr> | Some s \<Rightarrow> s);
          state1 = state\<lparr>ci_failures := ci_failures state + 1, ci_probe := 0\<rparr>;
          state2 = (if circuit_failure_threshold policy \<le> ci_failures state1
            then state1\<lparr>ci_opened := now\<rparr> else state1)
      in AList.update platform state2 circuits)"

definition local_record_success :: "ustr \<Rightarrow> circuits \<Rightarrow> circuits" where
  "local_record_success platform circuits = AList.delete platform circuits"

definition local_admit_circuit :: "resilience_policy \<Rightarrow> rat \<Rightarrow> ustr \<Rightarrow> circuits \<Rightarrow> circuits \<times> admission" where
  "local_admit_circuit policy now platform circuits = (case map_of circuits platform of
     None \<Rightarrow> (circuits, allowed_admission)
   | Some state \<Rightarrow>
      if ci_opened state = 0 then (circuits, allowed_admission)
      else let elapsed = now - ci_opened state; recovery = circuit_recovery_seconds policy
           in if elapsed < of_int recovery
              then (circuits, admission False (u ''circuit_open'') \<lceil>of_int recovery - elapsed\<rceil>)
              else if ci_probe state \<noteq> 0 then (circuits, admission False (u ''circuit_open'') recovery)
              else (AList.update platform (state\<lparr>ci_probe := now\<rparr>) circuits,
                    admission True (u ''half_open'') recovery))"

definition local_release_probe :: "ustr \<Rightarrow> circuits \<Rightarrow> circuits" where
  "local_release_probe platform circuits = (case map_of circuits platform of
     None \<Rightarrow> circuits
   | Some state \<Rightarrow> AList.update platform (state\<lparr>ci_probe := 0\<rparr>) circuits)"

text \<open>
  With Redis the three values are keys of their own, each with the time at which it expires.
\<close>

record redis_circuit =
  rc_failures :: "(int \<times> rat) option"
  rc_opened :: "(rat \<times> rat) option"
  rc_probe :: "(rat \<times> rat) option"

definition live :: "rat \<Rightarrow> ('a \<times> rat) option \<Rightarrow> 'a option" where
  "live now key = (case key of None \<Rightarrow> None | Some (v, expires) \<Rightarrow> if now < expires then Some v else None)"

definition redis_record_failure :: "resilience_policy \<Rightarrow> rat \<Rightarrow> redis_circuit \<Rightarrow> redis_circuit" where
  "redis_record_failure policy now c =
     (let failures = (case live now (rc_failures c) of None \<Rightarrow> 1 | Some n \<Rightarrow> n + 1);
          expires = now + 2 * of_int (circuit_recovery_seconds policy);
          c1 = c\<lparr>rc_failures := Some (failures, expires)\<rparr>
      in if circuit_failure_threshold policy \<le> failures
         then c1\<lparr>rc_opened := Some (now, expires), rc_probe := None\<rparr> else c1)"

definition redis_record_success :: "redis_circuit \<Rightarrow> redis_circuit" where
  "redis_record_success c = c\<lparr>rc_failures := None, rc_opened := None, rc_probe := None\<rparr>"

definition redis_admit_circuit :: "resilience_policy \<Rightarrow> rat \<Rightarrow> redis_circuit \<Rightarrow> redis_circuit \<times> admission" where
  "redis_admit_circuit policy now c = (case live now (rc_opened c) of
     None \<Rightarrow> (c, allowed_admission)
   | Some opened \<Rightarrow>
      (let elapsed = now - opened; recovery = circuit_recovery_seconds policy
       in if elapsed < of_int recovery
          then (c, admission False (u ''circuit_open'') \<lceil>of_int recovery - elapsed\<rceil>)
          else case live now (rc_probe c) of
            Some _ \<Rightarrow> (c, admission False (u ''circuit_open'') recovery)
          | None \<Rightarrow> (c\<lparr>rc_probe := Some (now, now + of_int recovery)\<rparr>, admission True (u ''half_open'') recovery)))"

definition redis_release_probe :: "redis_circuit \<Rightarrow> redis_circuit" where
  "redis_release_probe c = c\<lparr>rc_probe := None\<rparr>"

section \<open>The token bucket\<close>

type_synonym buckets = "(ustr, rat \<times> rat) table"

definition refill_rate :: "resilience_policy \<Rightarrow> rat" where
  "refill_rate policy = of_int (platform_rate_per_minute policy) / 60"

text \<open>The tokens of a bucket last written as \<open>(tokens, updated)\<close>, at \<open>now\<close>.\<close>

definition refilled :: "resilience_policy \<Rightarrow> rat \<Rightarrow> rat \<times> rat \<Rightarrow> rat" where
  "refilled policy now b = (case b of (tokens, updated) \<Rightarrow>
     min (of_int (platform_burst policy)) (tokens + max 0 (now - updated) * refill_rate policy))"

definition rate_limited :: "resilience_policy \<Rightarrow> rat \<Rightarrow> admission" where
  "rate_limited policy tokens =
     admission False (u ''rate_limited'') (max 1 \<lceil>(1 - tokens) / refill_rate policy\<rceil>)"

definition local_take_token :: "resilience_policy \<Rightarrow> rat \<Rightarrow> ustr \<Rightarrow> buckets \<Rightarrow> buckets \<times> admission" where
  "local_take_token policy now platform buckets =
     (let b = (case map_of buckets platform of
            None \<Rightarrow> (of_int (platform_burst policy), now) | Some b \<Rightarrow> b);
          tokens = refilled policy now b
      in if 1 \<le> tokens then (AList.update platform (tokens - 1, now) buckets, allowed_admission)
         else (AList.update platform (tokens, now) buckets, rate_limited policy tokens))"

definition redis_take_token ::
    "resilience_policy \<Rightarrow> rat \<Rightarrow> ((rat \<times> rat) \<times> rat) option \<Rightarrow> ((rat \<times> rat) \<times> rat) option \<times> admission" where
  "redis_take_token policy now bucket =
     (let b = (case live now bucket of
            None \<Rightarrow> (of_int (platform_burst policy), now) | Some b \<Rightarrow> b);
          tokens = refilled policy now b;
          left = (if 1 \<le> tokens then tokens - 1 else tokens)
      in (Some ((left, now), now + 120),
          if 1 \<le> tokens then allowed_admission else rate_limited policy left))"

section \<open>Admitting a request\<close>

record guard_state =
  gs_circuits :: circuits
  gs_buckets :: buckets

definition local_admit :: "resilience_policy \<Rightarrow> rat \<Rightarrow> ustr \<Rightarrow> bool \<Rightarrow> guard_state \<Rightarrow> guard_state \<times> admission" where
  "local_admit policy now platform rate_limit g =
     (let (circuits, circuit) = local_admit_circuit policy now platform (gs_circuits g);
          g1 = g\<lparr>gs_circuits := circuits\<rparr>
      in if \<not> ad_allowed circuit \<or> \<not> rate_limit then (g1, circuit)
         else let (buckets, limited) = local_take_token policy now platform (gs_buckets g1);
                  g2 = g1\<lparr>gs_buckets := buckets\<rparr>
              in (if \<not> ad_allowed limited \<and> ad_reason circuit = u ''half_open''
                  then g2\<lparr>gs_circuits := local_release_probe platform (gs_circuits g2)\<rparr> else g2, limited))"

definition local_snapshot :: "resilience_policy \<Rightarrow> rat \<Rightarrow> ustr \<Rightarrow> circuits \<Rightarrow> bool \<times> int \<times> int" where
  "local_snapshot policy now platform circuits =
     (let (failures, opened) = (case map_of circuits platform of
            None \<Rightarrow> (0, 0) | Some s \<Rightarrow> (ci_failures s, ci_opened s));
          retry_after = (if opened = 0 then 0
            else max 0 \<lceil>of_int (circuit_recovery_seconds policy) - (now - opened)\<rceil>)
      in (retry_after \<noteq> 0, failures, retry_after))"

section \<open>Workers and new tasks\<close>

definition adaptive_worker_limit :: "resilience_policy \<Rightarrow> rat \<Rightarrow> int \<Rightarrow> int \<Rightarrow> int" where
  "adaptive_worker_limit policy ratio configured capacity =
     (let capped = min configured capacity;
          minimum = min capped (minimum_workers policy)
      in if memory_critical_ratio policy \<le> ratio then minimum
         else if memory_high_ratio policy \<le> ratio
         then let span = memory_critical_ratio policy - memory_high_ratio policy;
                  remaining = max 0 ((memory_critical_ratio policy - ratio) / span)
              in max minimum \<lfloor>of_int capped * max (1 / 4) remaining\<rfloor>
         else capped)"

text \<open>The capacity: the argument within 1..999, or the environment's with default 48.\<close>

definition effective_capacity :: "int option \<Rightarrow> int env_value \<Rightarrow> int" where
  "effective_capacity capacity_limit env = (case capacity_limit of
     Some n \<Rightarrow> max 1 (min 999 n) | None \<Rightarrow> env_number env 48 1)"

definition queue_admission :: "resilience_policy \<Rightarrow> int \<Rightarrow> int \<Rightarrow> int \<Rightarrow> admission" where
  "queue_admission policy ready processing delayed =
     (if queue_high_watermark policy \<le> max 0 ready + max 0 processing + max 0 delayed
      then admission False (u ''queue_overloaded'') 10 else allowed_admission)"

section \<open>The split is fair\<close>

text \<open>The limit of an owner after the pass at level \<open>k\<close>.\<close>

abbreviation level :: "(ustr, int) table \<Rightarrow> int \<Rightarrow> ustr \<Rightarrow> int" where
  "level requested k owner \<equiv> min (the (map_of requested owner)) k"

abbreviation given :: "(ustr, int) table \<Rightarrow> ustr \<Rightarrow> int" where
  "given limits owner \<equiv> the (map_of limits owner)"

text \<open>
  After a pass: the owners before the place where it stopped are one level up, and it stopped
  early only because nothing remained; a pass without progress finds every request met.
\<close>

definition split_at :: "(ustr, int) table \<Rightarrow> int \<Rightarrow> ustr list \<Rightarrow> (ustr, int) table \<Rightarrow> int \<Rightarrow> bool" where
  "split_at requested k os limits remaining \<longleftrightarrow> (\<exists>pre post. os = pre @ post \<and>
     (\<forall>x \<in> set pre. given limits x = level requested (k + 1) x) \<and>
     (\<forall>x \<in> set post. given limits x = level requested k x) \<and> (post = [] \<or> remaining = 0))"

lemma split_at_Nil [simp]: "split_at requested k [] limits remaining"
  by (simp add: split_at_def)

lemma split_at_Cons:
  "split_at requested k os limits remaining \<Longrightarrow> given limits x = level requested (k + 1) x \<Longrightarrow>
     split_at requested k (x # os) limits remaining"
  unfolding split_at_def by (elim exE conjE) (rule_tac x = "x # pre" in exI, rule_tac x = post in exI, simp)

lemma split_at_stop:
  "given limits x = level requested (k + 1) x \<Longrightarrow> \<forall>y \<in> set os. given limits y = level requested k y \<Longrightarrow>
     split_at requested k (x # os) limits 0"
  unfolding split_at_def by (rule exI [of _ "[x]"], rule exI [of _ os]) simp

lemma fair_pass_level:
  "fair_pass requested os limits remaining progressed = (limits', remaining', progressed') \<Longrightarrow>
    distinct os \<Longrightarrow> 0 < remaining \<Longrightarrow> \<forall>x \<in> set os. given limits x = level requested k x \<Longrightarrow>
    split_at requested k os limits' remaining' \<and> 0 \<le> remaining' \<and>
    (\<forall>x. x \<notin> set os \<longrightarrow> map_of limits' x = map_of limits x) \<and>
    sum_list (map (given limits') os) + remaining' = sum_list (map (given limits) os) + remaining \<and>
    (progressed' \<or> \<not> progressed \<and> (\<forall>x \<in> set os. given limits' x = given requested x))"
proof (induction os arbitrary: limits remaining progressed)
  case (Cons x os)
  have x: "x \<notin> set os" and d: "distinct os" using Cons.prems(2) by auto
  show ?case
  proof (cases "the (map_of requested x) \<le> given limits x")
    case True
    with Cons.prems have run: "fair_pass requested os limits remaining progressed = (limits', remaining', progressed')"
      by simp
    have pre: "\<forall>y \<in> set os. given limits y = level requested k y" using Cons.prems(4) by simp
    note IH = Cons.IH [OF run d Cons.prems(3) pre]
    have same: "given limits' x = given limits x" using IH x by simp
    with True Cons.prems(4) have l: "given limits' x = level requested (k + 1) x" "given limits' x = given requested x"
      by auto
    with same IH x split_at_Cons [OF conjunct1 [OF IH] l(1)] show ?thesis by simp
  next
    case False
    let ?l = "AList.update x (given limits x + 1) limits"
    have lx: "given ?l x = level requested (k + 1) x" using False Cons.prems(4) by (simp add: update_conv')
    have eq: "given ?l y = given limits y" if "y \<in> set os" for y using that x by (auto simp: update_conv')
    have meq: "map (given ?l) os = map (given limits) os" using eq by simp
    have pre: "\<forall>y \<in> set os. given ?l y = level requested k y" using Cons.prems(4) eq by simp
    show ?thesis
    proof (cases "remaining - 1 \<le> 0")
      case True
      with False Cons.prems(1,3) have res: "limits' = ?l" "remaining' = 0" "progressed'" "remaining = 1"
        by (auto simp: Let_def)
      have "split_at requested k (x # os) limits' remaining'"
        unfolding res(1,2) by (rule split_at_stop [OF lx pre])
      moreover have "\<forall>y. y \<notin> set (x # os) \<longrightarrow> map_of limits' y = map_of limits y"
        by (simp add: res(1) update_conv')
      moreover have up: "given limits' x = given limits x + 1" by (simp add: res(1) update_conv')
      have "sum_list (map (given limits') os) = sum_list (map (given limits) os)"
        unfolding res(1) meq by (rule refl)
      with up res have "sum_list (map (given limits') (x # os)) + remaining' = sum_list (map (given limits) (x # os)) + remaining"
        by simp
      ultimately show ?thesis using res(3) by (simp only: simp_thms) (simp add: res(2))
    next
      case more: False
      with False Cons.prems have run: "fair_pass requested os ?l (remaining - 1) True = (limits', remaining', progressed')"
        by (simp add: Let_def)
      from more have "0 < remaining - 1" by simp
      note IH = Cons.IH [OF run d this pre]
      have lx': "given limits' x = level requested (k + 1) x" "given limits' x = given limits x + 1"
        using IH x lx by (simp_all add: update_conv')
      have "\<forall>y. y \<notin> set (x # os) \<longrightarrow> map_of limits' y = map_of limits y"
        using IH by (simp add: update_conv')
      with IH lx' meq split_at_Cons [OF conjunct1 [OF IH] lx'(1)] show ?thesis by simp
    qed
  qed
qed simp

lemma fair_loop_level:
  assumes "distinct os" "\<forall>x \<in> set os. given limits x = level requested k x" "0 \<le> remaining"
  shows "let l = fair_loop requested os limits remaining in
    (\<exists>k' \<ge> k. split_at requested k' os l 0) \<and>
    (\<forall>x. x \<notin> set os \<longrightarrow> map_of l x = map_of limits x) \<and>
    sum_list (map (given l) os) \<le> sum_list (map (given limits) os) + remaining \<and>
    (sum_list (map (given l) os) = sum_list (map (given limits) os) + remaining \<or>
     (\<forall>x \<in> set os. given l x = given requested x))"
  using assms
proof (induction requested os limits remaining arbitrary: k rule: fair_loop.induct)
  case (1 requested os limits remaining)
  show ?case
  proof (cases "remaining \<le> 0")
    case True
    with 1(4) have z: "remaining = 0" by simp
    have "split_at requested k os limits 0"
      unfolding split_at_def using 1(3) by (intro exI [of _ "[]"] exI [of _ os]) simp
    then show ?thesis by (auto simp: z fair_loop.simps [of _ _ _ 0] Let_def)
  next
    case False
    obtain limits' remaining' progressed where pass: "fair_pass requested os limits remaining False = (limits', remaining', progressed)"
      by (cases "fair_pass requested os limits remaining False")
    from False have pos: "0 < remaining" by simp
    note lv = fair_pass_level [OF pass 1(2) pos 1(3)]
    have loop: "fair_loop requested os limits remaining =
        (if progressed then fair_loop requested os limits' remaining' else limits')"
      using False pass by (simp add: fair_loop.simps [of requested os limits remaining])
    show ?thesis
    proof (cases "progressed \<and> remaining' \<noteq> 0")
      case True
      with lv have all: "\<forall>x \<in> set os. given limits' x = level requested (k + 1) x"
        unfolding split_at_def by force
      have "0 \<le> remaining'" using lv by simp
      from 1(1) [OF False pass [symmetric] refl _ 1(2) all this] True
      have IH: "let l = fair_loop requested os limits' remaining' in
        (\<exists>k' \<ge> k + 1. split_at requested k' os l 0) \<and>
        (\<forall>x. x \<notin> set os \<longrightarrow> map_of l x = map_of limits' x) \<and>
        sum_list (map (given l) os) \<le> sum_list (map (given limits') os) + remaining' \<and>
        (sum_list (map (given l) os) = sum_list (map (given limits') os) + remaining' \<or>
         (\<forall>x \<in> set os. given l x = given requested x))" by blast
      then obtain k' where "k + 1 \<le> k'" "split_at requested k' os (fair_loop requested os limits' remaining') 0"
        unfolding Let_def by blast
      then have "\<exists>k' \<ge> k. split_at requested k' os (fair_loop requested os limits' remaining') 0"
        by (intro exI [of _ k']) simp
      with IH lv True show ?thesis unfolding loop Let_def by simp
    next
      case stop: False
      have l: "fair_loop requested os limits remaining = limits'"
        using stop by (auto simp: loop fair_loop.simps [of _ _ _ 0])
      have "split_at requested k os limits' 0" using lv unfolding split_at_def by blast
      moreover have "sum_list (map (given limits') os) = sum_list (map (given limits) os) + remaining \<or>
         (\<forall>x \<in> set os. given limits' x = given requested x)"
        using stop lv by auto
      ultimately show ?thesis unfolding l Let_def using lv by auto
    qed
  qed
qed

lemma fair_pass_keeps:
  "fair_pass requested os limits remaining progressed = (limits', remaining', progressed') \<Longrightarrow>
     map_of limits x \<noteq> None \<Longrightarrow> map_of limits' x \<noteq> None"
  by (induction os arbitrary: limits remaining progressed)
    (auto simp: Let_def update_conv' split: if_splits)

lemma fair_loop_keeps:
  "map_of limits x \<noteq> None \<Longrightarrow> map_of (fair_loop requested os limits remaining) x \<noteq> None"
proof (induction requested os limits remaining rule: fair_loop.induct)
  case (1 requested os limits remaining)
  obtain limits' remaining' progressed where pass: "fair_pass requested os limits remaining False = (limits', remaining', progressed)"
    by (cases "fair_pass requested os limits remaining False")
  show ?case
  proof (cases "remaining \<le> 0")
    case False
    from fair_pass_keeps [OF pass 1(2)] 1(1) [OF False pass [symmetric] refl] False pass
    show ?thesis by (cases progressed) (simp_all add: fair_loop.simps [of requested os limits remaining])
  qed (use 1(2) in \<open>simp add: fair_loop.simps [of requested os limits remaining]\<close>)
qed

lemma given_ones: "x \<in> set os \<Longrightarrow> given (map (\<lambda>o'. (o', 1)) os) x = 1"
  by (induction os) auto

text \<open>The split of a capacity between owners that asked for workers: each of them, and nobody
  else, gets between one and what it asked; together they get no more than the capacity (or one
  each, if that is more), and all of it unless everybody is satisfied; and an owner that gets
  at least two fewer than another got all it asked for.\<close>

theorem fair_limits_fair:
  assumes "distinct (map fst requested_limits)"
    and "owners = filter (\<lambda>o'. o' \<noteq> []) (map fst requested_limits)"
    and "limits = fair_owner_capacity_limits requested_limits capacity"
    and "\<And>x. asked x = max 1 (given requested_limits x)"
  shows "(\<forall>x. (map_of limits x \<noteq> None) = (x \<in> set owners)) \<and>
    (\<forall>x \<in> set owners. 1 \<le> given limits x \<and> given limits x \<le> asked x) \<and>
    sum_list (map (given limits) owners) \<le> max capacity (int (length owners)) \<and>
    (sum_list (map (given limits) owners) = max capacity (int (length owners)) \<or>
     (\<forall>x \<in> set owners. given limits x = asked x)) \<and>
    (\<forall>x \<in> set owners. \<forall>y \<in> set owners. given limits x + 1 < given limits y \<longrightarrow> given limits x = asked x)"
proof -
  define requested where "requested = map (\<lambda>(o', l). (o', max 1 l)) (filter (\<lambda>(o', _). o' \<noteq> []) requested_limits)"
  have fst_req: "map fst requested = owners"
    unfolding requested_def assms(2) by (induction requested_limits) auto
  have d: "distinct owners" using assms(1,2) by simp
  have req: "given requested x = asked x" if "x \<in> set owners" for x
    using that unfolding requested_def assms(2,4)
    by (induction requested_limits) (auto split: if_splits)
  show ?thesis
  proof (cases "requested = []")
    case True
    with fst_req have "owners = []" by simp
    with True assms(3) show ?thesis by (simp add: fair_owner_capacity_limits_def requested_def)
  next
    case False
    let ?os = "sort owners" and ?ones = "map (\<lambda>o'. (o', 1::int)) (sort owners)"
    let ?rem = "max 0 (capacity - int (length owners))"
    have "fair_owner_capacity_limits requested_limits capacity =
      fair_loop requested (sort (map fst requested)) (map (\<lambda>o'. (o', 1)) (sort (map fst requested)))
        (max 0 (capacity - int (length (sort (map fst requested)))))"
      unfolding fair_owner_capacity_limits_def requested_def [symmetric] Let_def using False by simp
    then have lim: "limits = fair_loop requested ?os ?ones ?rem" by (simp add: assms(3) fst_req)
    have start: "\<forall>x \<in> set ?os. given ?ones x = level requested 1 x"
      using req assms(4) by (auto simp: given_ones)
    from fair_loop_level [of ?os ?ones requested 1 ?rem, OF _ start] d
    have lv: "\<exists>k' \<ge> 1. split_at requested k' ?os limits 0"
      and out: "\<forall>x. x \<notin> set ?os \<longrightarrow> map_of limits x = map_of ?ones x"
      and bound: "sum_list (map (given limits) ?os) \<le> sum_list (map (given ?ones) ?os) + ?rem"
      and full: "sum_list (map (given limits) ?os) = sum_list (map (given ?ones) ?os) + ?rem \<or>
        (\<forall>x \<in> set ?os. given limits x = given requested x)"
      unfolding lim Let_def by auto
    have inside: "map_of limits x \<noteq> None" if "x \<in> set ?os" for x
      unfolding lim by (rule fair_loop_keeps) (use that in \<open>simp add: map_of_eq_None_iff image_image\<close>)
    have outside: "map_of limits x = None" if "x \<notin> set ?os" for x
      using out that by (simp add: map_of_eq_None_iff image_image)
    have "map (given ?ones) ?os = map (\<lambda>_. 1) ?os" by (rule map_cong [OF refl]) (rule given_ones)
    then have ones: "sum_list (map (given ?ones) ?os) = int (length owners)"
      by (simp only: sum_list_triv) simp
    have sorted_sum: "sum_list (map f (sort owners)) = sum_list (map f owners)" for f :: "ustr \<Rightarrow> int"
      by (metis mset_map mset_sort sum_mset_sum_list)
    from lv obtain k' where k': "1 \<le> k'" "split_at requested k' ?os limits 0" by blast
    have lev: "given limits x = min (asked x) (k' + 1) \<or> given limits x = min (asked x) k'" if "x \<in> set owners" for x
      using k'(2) that req [OF that] unfolding split_at_def by (metis Un_iff set_append set_sort)
    have asked1: "1 \<le> asked x" for x by (simp add: assms(4))
    have range: "1 \<le> given limits x \<and> given limits x \<le> asked x" if "x \<in> set owners" for x
      using lev [OF that] k'(1) asked1 [of x] by linarith
    have fair: "given limits x = asked x"
      if "x \<in> set owners" "y \<in> set owners" "given limits x + 1 < given limits y" for x y
      using lev [OF that(1)] lev [OF that(2)] that(3) by linarith
    have mx: "int (length owners) + ?rem = max capacity (int (length owners))" by simp
    have "sum_list (map (given limits) owners) \<le> max capacity (int (length owners))"
      using bound ones sorted_sum [of "given limits"] by linarith
    moreover have "sum_list (map (given limits) owners) = max capacity (int (length owners)) \<or>
      (\<forall>x \<in> set owners. given limits x = asked x)"
      using full mx unfolding ones sorted_sum by (simp add: req)
    moreover have "\<forall>x. (map_of limits x \<noteq> None) = (x \<in> set owners)"
      using inside outside by (metis set_sort)
    ultimately show ?thesis using range fair by blast
  qed
qed

theorem fair_limits_fair_witness:
  "let limits = fair_owner_capacity_limits [(u ''a'', 5), (u ''b'', 1), ([], 4)] 4 in
     map_of limits (u ''a'') \<noteq> None \<and> given limits (u ''a'') + given limits (u ''b'') \<le> 4 \<and> 1 \<le> given limits (u ''b'')"
proof -
  have own: "[u ''a'', u ''b''] = filter (\<lambda>o'. o' \<noteq> []) (map fst [(u ''a'', 5::int), (u ''b'', 1), ([], 4)])"
    and d: "distinct (map fst [(u ''a'', 5::int), (u ''b'', 1), ([], 4)])" by code_simp+
  from fair_limits_fair [OF d own refl refl, of 4] show ?thesis unfolding Let_def by simp
qed

section \<open>The circuit breaker isolates a failing platform\<close>

lemma local_failures:
  "map_of (fold (\<lambda>t. local_record_failure policy t p) ts circuits) p =
     (if ts = [] then map_of circuits p
      else let n = (case map_of circuits p of None \<Rightarrow> 0 | Some s \<Rightarrow> ci_failures s) + int (length ts)
           in Some \<lparr>ci_failures = n,
                ci_opened = (if circuit_failure_threshold policy \<le> n then last ts
                  else (case map_of circuits p of None \<Rightarrow> 0 | Some s \<Rightarrow> ci_opened s)),
                ci_probe = 0\<rparr>)"
proof (induction ts rule: rev_induct)
  case (snoc t ts)
  then show ?case
    by (cases "ts = []"; cases "map_of circuits p")
      (auto simp: local_record_failure_def Let_def update_conv')
qed simp

text \<open>Once a platform has failed as often in a row as the threshold, every request to it is
  refused until the recovery time has passed since the last failure, and is told to wait just
  as long; other platforms are not affected.\<close>

theorem circuit_opens:
  assumes "circuit_failure_threshold policy \<le> int (length ts)" "ts \<noteq> []" "last ts \<noteq> 0"
    and "\<And>s. map_of circuits p = Some s \<Longrightarrow> 0 \<le> ci_failures s"
    and "now - last ts < of_int (circuit_recovery_seconds policy)"
    and "circuits' = fold (\<lambda>t. local_record_failure policy t p) ts circuits"
  shows "local_admit_circuit policy now p circuits' =
      (circuits', admission False (u ''circuit_open'') \<lceil>of_int (circuit_recovery_seconds policy) - (now - last ts)\<rceil>) \<and>
    (\<forall>q. q \<noteq> p \<longrightarrow> map_of circuits' q = map_of circuits q)"
proof -
  have "map_of (fold (\<lambda>t. local_record_failure policy t p) ts circuits) q = map_of circuits q" if "q \<noteq> p" for q
    using that by (induction ts arbitrary: circuits) (simp_all add: local_record_failure_def Let_def update_conv')
  moreover have "\<exists>s. map_of circuits' p = Some s \<and> ci_opened s = last ts"
    using assms(1,2,4) unfolding assms(6) local_failures by (auto simp: Let_def split: option.splits)
  ultimately show ?thesis
    using assms(3,5,6) by (auto simp: local_admit_circuit_def Let_def)
qed

theorem circuit_opens_witness:
  "let circuits = fold (\<lambda>t. local_record_failure (load_policy default_env) t (u ''dola'')) [1, 2, 3, 4, 5] []
   in local_admit_circuit (load_policy default_env) 20 (u ''dola'') circuits =
     (circuits, admission False (u ''circuit_open'') 45)"
proof -
  have p: "circuit_failure_threshold (load_policy default_env) = 5"
    "circuit_recovery_seconds (load_policy default_env) = 60"
    by (simp_all add: load_policy_def default_env_def env_number_def)
  show ?thesis
    using circuit_opens [of "load_policy default_env" "[1, 2, 3, 4, 5]" "[]" "u ''dola''" 20, OF _ _ _ _ _ refl]
    by (simp add: p)
qed

text \<open>While a circuit is open, at most one request is let through as a probe: after one was,
  the next is refused as long as no result is recorded, on local state for ever and on Redis
  until the probe's key expires with the recovery time; and no probe is let through before the
  recovery time.\<close>

theorem circuit_single_probe:
  assumes "map_of circuits p = Some s" "ci_opened s \<noteq> 0" "now \<noteq> 0"
    and "local_admit_circuit policy now p circuits = (circuits', a)"
    and "live now (rc_opened c) = Some opened" "now \<le> now'"
    and "redis_admit_circuit policy now c = (c', ra)"
  shows "(ad_allowed a \<longrightarrow> of_int (circuit_recovery_seconds policy) \<le> now - ci_opened s \<and> ci_probe s = 0 \<and>
      \<not> ad_allowed (snd (local_admit_circuit policy now' p circuits'))) \<and>
    (ad_allowed ra \<longrightarrow> of_int (circuit_recovery_seconds policy) \<le> now - opened \<and> live now (rc_probe c) = None \<and>
      (live now' (rc_opened c) \<noteq> None \<longrightarrow> now' < now + of_int (circuit_recovery_seconds policy) \<longrightarrow>
        \<not> ad_allowed (snd (redis_admit_circuit policy now' c'))))"
proof -
  have local: "of_int (circuit_recovery_seconds policy) \<le> now - ci_opened s \<and> ci_probe s = 0 \<and>
      \<not> ad_allowed (snd (local_admit_circuit policy now' p circuits'))" if "ad_allowed a"
  proof -
    from assms(1,2,4) that have pr: "of_int (circuit_recovery_seconds policy) \<le> now - ci_opened s" "ci_probe s = 0"
      and c': "circuits' = AList.update p (s\<lparr>ci_probe := now\<rparr>) circuits"
      by (auto simp: local_admit_circuit_def Let_def split: if_splits)
    have "\<not> ad_allowed (snd (local_admit_circuit policy now' p circuits'))"
      using assms(2,3) unfolding c' by (simp add: local_admit_circuit_def Let_def update_conv')
    with pr show ?thesis by simp
  qed
  have redis: "of_int (circuit_recovery_seconds policy) \<le> now - opened \<and> live now (rc_probe c) = None \<and>
      (live now' (rc_opened c) \<noteq> None \<longrightarrow> now' < now + of_int (circuit_recovery_seconds policy) \<longrightarrow>
        \<not> ad_allowed (snd (redis_admit_circuit policy now' c')))" if "ad_allowed ra"
  proof -
    from assms(5,7) that have pr: "of_int (circuit_recovery_seconds policy) \<le> now - opened" "live now (rc_probe c) = None"
      and c': "c' = c\<lparr>rc_probe := Some (now, now + of_int (circuit_recovery_seconds policy))\<rparr>"
      by (auto simp: redis_admit_circuit_def Let_def split: if_splits option.splits)
    have "\<not> ad_allowed (snd (redis_admit_circuit policy now' c'))"
      if still: "live now' (rc_opened c) \<noteq> None" "now' < now + of_int (circuit_recovery_seconds policy)"
    proof -
      have "live now' (rc_probe c') = Some now" using still(2) by (simp add: c' live_def)
      moreover obtain y where "live now' (rc_opened c') = Some y" using still(1) by (auto simp: c')
      ultimately show ?thesis by (simp add: redis_admit_circuit_def Let_def)
    qed
    with pr show ?thesis by blast
  qed
  from local redis show ?thesis by blast
qed

theorem circuit_single_probe_witness:
  "let policy = load_policy default_env;
       circuits = [(u ''dola'', \<lparr>ci_failures = 5, ci_opened = 100, ci_probe = 0\<rparr>)];
       (circuits', a) = local_admit_circuit policy 170 (u ''dola'') circuits
   in ad_allowed a \<and> \<not> ad_allowed (snd (local_admit_circuit policy 500 (u ''dola'') circuits'))"
proof -
  let ?policy = "load_policy default_env" and ?s = "\<lparr>ci_failures = 5, ci_opened = 100, ci_probe = 0\<rparr>"
  let ?c = "\<lparr>rc_failures = None, rc_opened = Some (100, 220), rc_probe = None\<rparr>"
  have p: "circuit_recovery_seconds ?policy = 60"
    by (simp add: load_policy_def default_env_def env_number_def)
  obtain circuits' a where run: "local_admit_circuit ?policy 170 (u ''dola'') [(u ''dola'', ?s)] = (circuits', a)"
    by (metis surj_pair)
  obtain c' ra where rrun: "redis_admit_circuit ?policy 170 ?c = (c', ra)" by (metis surj_pair)
  have a: "ad_allowed a" using run by (auto simp: local_admit_circuit_def p)
  have "live 170 (rc_opened ?c) = Some 100" by (simp add: live_def)
  from circuit_single_probe [OF _ _ _ run this _ rrun, of ?s 500] a run show ?thesis by simp
qed

section \<open>The bucket bounds the rate\<close>

fun take_run :: "resilience_policy \<Rightarrow> ustr \<Rightarrow> rat list \<Rightarrow> buckets \<Rightarrow> nat" where
  "take_run policy p [] buckets = 0"
| "take_run policy p (t # ts) buckets =
     (let (buckets', a) = local_take_token policy t p buckets
      in (if ad_allowed a then 1 else 0) + take_run policy p ts buckets')"

lemma refill_rate_pos: "policy_ok policy \<Longrightarrow> 0 < refill_rate policy"
  by (simp add: refill_rate_def policy_ok_def)

lemma take_run_bound:
  assumes "policy_ok policy"
  shows "map_of buckets p = Some (tokens, updated) \<Longrightarrow> sorted (updated # ts) \<Longrightarrow>
    of_nat (take_run policy p ts buckets) \<le> max 0 tokens + (last (updated # ts) - updated) * refill_rate policy"
proof (induction ts arbitrary: buckets tokens updated)
  case (Cons t ts)
  define now_tokens where "now_tokens = refilled policy t (tokens, updated)"
  have le: "now_tokens \<le> tokens + (t - updated) * refill_rate policy"
    using Cons.prems(2) by (simp add: now_tokens_def refilled_def)
  have srt: "sorted (t # ts)" using Cons.prems(2) by simp
  have gap: "0 \<le> (t - updated) * refill_rate policy"
    using Cons.prems(2) refill_rate_pos [OF assms] by simp
  have split: "(last (updated # t # ts) - updated) * refill_rate policy =
      (t - updated) * refill_rate policy + (last (t # ts) - t) * refill_rate policy"
    by (simp add: algebra_simps)
  show ?case
  proof (cases "1 \<le> now_tokens")
    case True
    then have step: "local_take_token policy t p buckets = (AList.update p (now_tokens - 1, t) buckets, allowed_admission)"
      by (simp add: local_take_token_def Cons.prems(1) now_tokens_def Let_def)
    have "of_nat (take_run policy p ts (AList.update p (now_tokens - 1, t) buckets))
        \<le> max 0 (now_tokens - 1) + (last (t # ts) - t) * refill_rate policy"
      by (rule Cons.IH [OF _ srt]) (simp add: update_conv')
    then show ?thesis unfolding split using step le True by (simp add: max_def)
  next
    case False
    then have step: "local_take_token policy t p buckets = (AList.update p (now_tokens, t) buckets, rate_limited policy now_tokens)"
      by (simp add: local_take_token_def Cons.prems(1) now_tokens_def Let_def)
    have "of_nat (take_run policy p ts (AList.update p (now_tokens, t) buckets))
        \<le> max 0 now_tokens + (last (t # ts) - t) * refill_rate policy"
      by (rule Cons.IH [OF _ srt]) (simp add: update_conv')
    moreover have "take_run policy p (t # ts) buckets = take_run policy p ts (AList.update p (now_tokens, t) buckets)"
      by (simp add: step rate_limited_def)
    moreover have "max 0 now_tokens \<le> max 0 tokens + (t - updated) * refill_rate policy"
      using le gap by linarith
    ultimately show ?thesis unfolding split by linarith
  qed
qed simp



text \<open>The waiting time a refused request is told is enough: the first request of the
  platform at or after it is let through by the bucket, on either backend.\<close>

theorem bucket_retry_after:
  assumes "policy_ok policy" "local_take_token policy now p buckets = (buckets', a)" "\<not> ad_allowed a"
    and "redis_take_token policy now b = (b', ra)" "\<not> ad_allowed ra"
    and "now + of_int (ad_retry_after a) \<le> later" "now + of_int (ad_retry_after ra) \<le> later'"
  shows "ad_allowed (snd (local_take_token policy later p buckets')) \<and>
    ad_allowed (snd (redis_take_token policy later' b'))"
proof -
  have burst: "(1::rat) \<le> of_int (platform_burst policy)" using assms(1) by (simp add: policy_ok_def)
  have enough: "1 \<le> refilled policy l (tokens, now)"
    if w: "now + of_int (ad_retry_after (rate_limited policy tokens)) \<le> l" for tokens l
  proof -
    have pos: "0 < refill_rate policy" by (rule refill_rate_pos [OF assms(1)])
    have "(1 - tokens) / refill_rate policy \<le> of_int (ad_retry_after (rate_limited policy tokens))"
      by (simp add: rate_limited_def le_of_int_ceiling max.coboundedI2 of_int_max)
    also have "\<dots> \<le> max 0 (l - now)" using w by simp
    finally have "1 - tokens \<le> max 0 (l - now) * refill_rate policy" using pos by (simp add: pos_divide_le_eq)
    with burst show ?thesis by (simp add: refilled_def)
  qed
  from assms(2,3) obtain tokens where "buckets' = AList.update p (tokens, now) buckets" "a = rate_limited policy tokens"
    by (auto simp: local_take_token_def Let_def split: if_splits)
  with enough [of tokens later] assms(6) have local: "ad_allowed (snd (local_take_token policy later p buckets'))"
    by (simp add: local_take_token_def update_conv' Let_def)
  from assms(4,5) obtain rtokens where "b' = Some ((rtokens, now), now + 120)" "ra = rate_limited policy rtokens"
    by (auto simp: redis_take_token_def Let_def split: if_splits)
  with enough [of rtokens later'] assms(7) burst have "ad_allowed (snd (redis_take_token policy later' b'))"
    by (simp add: redis_take_token_def Let_def live_def refilled_def)
  with local show ?thesis by blast
qed

section \<open>Workers under memory pressure\<close>

text \<open>The number of workers stays between the smaller of the minimum and the cap, and the
  cap, and never grows when the memory ratio does.\<close>

theorem adaptive_limit_bounds:
  assumes "policy_ok policy" "0 \<le> configured" "0 \<le> capacity" "ratio \<le> ratio'"
  shows "let n = adaptive_worker_limit policy ratio configured capacity;
             n' = adaptive_worker_limit policy ratio' configured capacity
    in min (min configured capacity) (minimum_workers policy) \<le> n \<and> n \<le> min configured capacity \<and> n' \<le> n"
proof -
  let ?c = "min configured capacity"
  define span where "span = memory_critical_ratio policy - memory_high_ratio policy"
  define f where "f r = (\<lfloor>of_int ?c * max (1 / 4) (max 0 ((memory_critical_ratio policy - r) / span))\<rfloor> :: int)" for r
  have span: "0 < span" using assms(1) by (simp add: policy_ok_def span_def)
  have c0: "0 \<le> ?c" using assms(2,3) by simp
  have anti: "f s \<le> f r" if "r \<le> s" for r s
  proof -
    have "(memory_critical_ratio policy - s) / span \<le> (memory_critical_ratio policy - r) / span"
      using that span by (simp add: divide_right_mono)
    then have "of_int ?c * max (1 / 4) (max 0 ((memory_critical_ratio policy - s) / span)) \<le>
      of_int ?c * max (1 / 4) (max 0 ((memory_critical_ratio policy - r) / span))"
      using c0 by (intro mult_left_mono max.mono order_refl) auto
    then show ?thesis unfolding f_def by (rule floor_mono)
  qed
  have top: "f r \<le> ?c" if "memory_high_ratio policy \<le> r" for r
  proof -
    have "(memory_critical_ratio policy - r) / span \<le> 1"
      using that span by (simp add: span_def)
    then have "of_int ?c * max (1 / 4) (max 0 ((memory_critical_ratio policy - r) / span)) \<le> of_int ?c * 1"
      using c0 by (intro mult_left_mono) (auto simp: max_def)
    then have "f r \<le> \<lfloor>of_int ?c * (1 :: rat)\<rfloor>" unfolding f_def by (rule floor_mono)
    then show ?thesis by simp
  qed
  have eq: "adaptive_worker_limit policy r configured capacity =
      (if memory_critical_ratio policy \<le> r then min ?c (minimum_workers policy)
       else if memory_high_ratio policy \<le> r then max (min ?c (minimum_workers policy)) (f r) else ?c)" for r
    by (simp add: adaptive_worker_limit_def Let_def f_def span_def)
  have hc: "memory_high_ratio policy < memory_critical_ratio policy" using span by (simp add: span_def)
  have lo: "min ?c (minimum_workers policy) \<le> adaptive_worker_limit policy ratio configured capacity"
    unfolding eq by auto
  have hi: "adaptive_worker_limit policy r configured capacity \<le> ?c" for r
    unfolding eq using top [of r] by auto
  have "adaptive_worker_limit policy ratio' configured capacity \<le> adaptive_worker_limit policy ratio configured capacity"
  proof (cases "memory_high_ratio policy \<le> ratio")
    case True
    with assms(4) anti [OF assms(4)] show ?thesis unfolding eq by (auto simp: max_def)
  next
    case False
    with hi [of ratio'] hc show ?thesis unfolding eq [of ratio] by simp
  qed
  with lo hi show ?thesis by (simp add: Let_def)
qed

theorem bucket_retry_after_witness:
  "let policy = load_policy default_env;
       (buckets', a) = local_take_token policy 10 (u ''dola'') [(u ''dola'', (1 / 2, 10))]
   in \<not> ad_allowed a \<and> ad_allowed (snd (local_take_token policy 11 (u ''dola'') buckets'))"
proof -
  let ?policy = "load_policy default_env" and ?b = "[(u ''dola'', (1 / 2 :: rat, 10 :: rat))]"
  have p: "platform_burst ?policy = 5" "platform_rate_per_minute ?policy = 30"
    by (simp_all add: load_policy_def default_env_def env_number_def)
  have low: "refilled ?policy 10 (1 / 2, 10) = 1 / 2" by (simp add: refilled_def p)
  have lr: "local_take_token ?policy 10 (u ''dola'') ?b =
      (AList.update (u ''dola'') (1 / 2, 10) ?b, rate_limited ?policy (1 / 2))"
    by (simp add: local_take_token_def Let_def low)
  have rr: "redis_take_token ?policy 10 (Some ((1 / 2, 10), 130)) = (Some ((1 / 2, 10), 130), rate_limited ?policy (1 / 2))"
    by (simp add: redis_take_token_def live_def Let_def low)
  have w: "ad_retry_after (rate_limited ?policy (1 / 2)) = 1" "\<not> ad_allowed (rate_limited ?policy (1 / 2))"
    by (simp_all add: rate_limited_def refill_rate_def p)
  from bucket_retry_after [OF policy_ok_load lr w(2) rr w(2), of 11 11] w lr show ?thesis
    by (simp add: Let_def)
qed

theorem adaptive_limit_bounds_witness:
  "adaptive_worker_limit (load_policy default_env) (85 / 100) 8 48 \<le>
     adaptive_worker_limit (load_policy default_env) (82 / 100) 8 48"
  using adaptive_limit_bounds [OF policy_ok_load, of 8 48 "82 / 100" "85 / 100" default_env]
  by (simp add: Let_def)

end
