(* ===== verification/Task_Meta.thy ===== *)
theory Task_Meta
  imports Storage Messages
begin

text \<open>
  The data of the task store (app/store.py): a task's meta part as a record with the fields the
  modelled code reads or writes, its result part as a JSON dictionary, and the generic
  operations that read and change one part of one task. A field the code reads with
  \<open>or ""\<close>, \<open>or 0\<close> or \<open>or []\<close> has that value when it is missing; the two fields set by
  \<open>setdefault\<close> are options.
\<close>

section \<open>Statuses and constants\<close>

datatype task_status = Initializing | Pending | Running | Submitted | Success | Failed | Canceled

definition TASK_TIMEOUT_HOURS :: int where "TASK_TIMEOUT_HOURS = 3"
definition TASK_RETRY_TIMEOUT_MINUTES :: int where "TASK_RETRY_TIMEOUT_MINUTES = 30"
definition MAX_TASK_RETRIES :: int where "MAX_TASK_RETRIES = 10"
definition DEFAULT_TASK_RETRY_LIMIT :: int where "DEFAULT_TASK_RETRY_LIMIT = 2"
definition MAX_INFRASTRUCTURE_RETRIES :: int where "MAX_INFRASTRUCTURE_RETRIES = 6"
definition MAX_ATTEMPT_HISTORY :: nat where "MAX_ATTEMPT_HISTORY = 20"
definition INITIAL_CLAIM_BURST :: int where "INITIAL_CLAIM_BURST = 3"

text \<open>The configured limit (\<open>None\<close> when it cannot be read), within 0..10.\<close>

definition task_retry_limit :: "int option \<Rightarrow> int" where
  "task_retry_limit configured = (case configured of
     None \<Rightarrow> DEFAULT_TASK_RETRY_LIMIT | Some n \<Rightarrow> max 0 (min MAX_TASK_RETRIES n))"

definition terminal :: "task_status list" where
  "terminal = [Success, Failed, Canceled]"

definition is_active_status :: "task_status \<Rightarrow> bool" where
  "is_active_status s \<longleftrightarrow> s \<in> set [Pending, Running, Submitted, Success]"

section \<open>The meta part\<close>

record attempt_entry =
  ah_at :: stamp
  ah_kind :: ustr
  ah_reason :: ustr
  ah_phase :: ustr
  ah_worker :: ustr
  ah_retry_count :: int
  ah_infrastructure_retry_count :: int

text \<open>What was asked for; fixed when the task is created (but for the owner).\<close>

record task_request =
  rq_id :: ustr
  rq_prompt :: ustr
  rq_ratio :: ustr
  rq_platform :: ustr
  rq_model :: ustr
  rq_image_task :: bool
  rq_duration :: int
  rq_batch_id :: ustr
  rq_batch_index :: int
  rq_batch_row :: int
  rq_idempotency_hash :: ustr
  rq_request_fingerprint :: ustr
  rq_request_route :: ustr
  rq_retry_of_task_id :: ustr

record task_meta =
  tm_request :: task_request
  tm_owner :: ustr
  tm_status :: task_status
  tm_image_count :: int
  tm_reference_image_names :: "ustr list"
  tm_created_at :: stamp
  tm_queued_at :: stamp
  tm_queue_priority_at :: stamp
  tm_claimed_at :: stamp
  tm_started_at :: stamp
  tm_updated_at :: stamp
  tm_finished_at :: stamp
  tm_submitted_at :: stamp
  tm_next_attempt_at :: stamp
  tm_next_result_poll_at :: stamp
  tm_phase_updated_at :: stamp
  tm_submit_started_at :: stamp
  tm_retry_attempt_started_at :: stamp
  tm_retry_queue_verified_at :: stamp
  tm_retry_queued_at :: stamp
  tm_last_attempt_at :: stamp
  tm_late_result_watch_until :: stamp
  tm_late_result_refunded_at :: stamp
  tm_long_result_wait_marked_at :: stamp
  tm_late_account_released_at :: stamp
  tm_retry_started_at :: "stamp option"
  tm_infrastructure_retry_started_at :: "stamp option"
  tm_attempt :: int
  tm_retry_count :: int
  tm_infrastructure_retry_count :: int
  tm_result_timeout_retry_count :: int
  tm_ambiguous_proxy_retry_count :: int
  tm_execution_miss_count :: int
  tm_result_watch_miss_count :: int
  tm_worker_id :: ustr
  tm_error :: ustr
  tm_infrastructure_error :: ustr
  tm_queue_reason :: ustr
  tm_queue_category :: ustr
  tm_execution_phase :: ustr
  tm_status_reason :: ustr
  tm_submit_phase :: ustr
  tm_last_attempt_error :: ustr
  tm_last_attempt_kind :: ustr
  tm_preferred_account_id :: ustr
  tm_proxy_retry_avoid_node_id :: ustr
  tm_ambiguous_proxy_avoid_node_ids :: "ustr list"
  tm_failed_account_ids :: "ustr list"
  tm_attempt_history :: "attempt_entry list"
  tm_cancel_requested :: bool
  tm_video_hidden_for_admin :: bool
  tm_video_hidden_for_client :: bool
  tm_task_hidden_for_admin :: bool
  tm_task_hidden_for_client :: bool
  tm_real_person :: bool
  tm_queued_for_concurrency :: bool
  tm_qianwen_timeout_retry :: bool

section \<open>The result part\<close>

datatype json =
    JNull
  | JBool bool
  | JInt int
  | JStr ustr
  | JList "json list"
  | JDict "(ustr \<times> json) list"

fun truthy :: "json \<Rightarrow> bool" where
  "truthy JNull = False"
| "truthy (JBool b) = b"
| "truthy (JInt n) = (n \<noteq> 0)"
| "truthy (JStr s) = (s \<noteq> [])"
| "truthy (JList xs) = (xs \<noteq> [])"
| "truthy (JDict xs) = (xs \<noteq> [])"

type_synonym result_doc = "(ustr, json) table"

definition has_value :: "result_doc \<Rightarrow> ustr \<Rightarrow> bool" where
  "has_value data key = (case map_of data key of None \<Rightarrow> False | Some v \<Rightarrow> truthy v)"

definition str_value :: "result_doc \<Rightarrow> ustr \<Rightarrow> ustr" where
  "str_value data key = (case map_of data key of Some (JStr s) \<Rightarrow> s | _ \<Rightarrow> [])"

record task_row =
  tr_meta :: task_meta
  tr_result :: result_doc

type_synonym task_store = "(ustr, task_row) table"

section \<open>Reading and changing one task\<close>

definition is_task_id :: "ustr \<Rightarrow> bool" where
  "is_task_id t \<longleftrightarrow> length t = 32 \<and> (\<forall>c \<in> set t. is_hex_char c)"

definition validate_task_id :: "ustr \<Rightarrow> ustr result" where
  "validate_task_id task_id =
     (let t = lower (strip task_id)
      in if is_task_id t then Inr t else Inl (ValueError (u ''invalid task id'')))"

text \<open>
  \<open>task_lock\<close> refuses an identifier that is not valid; the file paths are built from the
  normalised identifier, the SQL statements from the one that was given.
\<close>

definition locked :: "backend \<Rightarrow> ustr \<Rightarrow> (ustr \<Rightarrow> 'a result) \<Rightarrow> 'a result" where
  "locked b task_id k = (case validate_task_id task_id of
     Inl e \<Rightarrow> Inl e
   | Inr t \<Rightarrow> k (case b of Postgres \<Rightarrow> task_id | LocalFile \<Rightarrow> t))"

definition on_meta :: "(task_meta, 'r) mutator \<Rightarrow> (task_row, 'r) mutator" where
  "on_meta f row = map_sum id (\<lambda>(m, r, w). (row\<lparr>tr_meta := m\<rparr>, r, w)) (f (tr_meta row))"

definition on_result :: "(result_doc, 'r) mutator \<Rightarrow> (task_row, 'r) mutator" where
  "on_result f row = map_sum id (\<lambda>(d, r, w). (row\<lparr>tr_result := d\<rparr>, r, w)) (f (tr_result row))"

definition mutate_meta :: "backend \<Rightarrow> task_store \<Rightarrow> ustr \<Rightarrow> (task_meta, 'r) mutator \<Rightarrow> (task_store \<times> 'r) result" where
  "mutate_meta b store task_id f = locked b task_id (\<lambda>t. run_row b FileNotFoundError store t (on_meta f))"

definition mutate_result :: "backend \<Rightarrow> task_store \<Rightarrow> ustr \<Rightarrow> (result_doc, 'r) mutator \<Rightarrow> (task_store \<times> 'r) result" where
  "mutate_result b store task_id f = locked b task_id (\<lambda>t. run_row b FileNotFoundError store t (on_result f))"

definition get_meta :: "backend \<Rightarrow> task_store \<Rightarrow> ustr \<Rightarrow> task_meta result" where
  "get_meta b store task_id = locked b task_id (\<lambda>t. case map_of store t of
     None \<Rightarrow> Inl FileNotFoundError | Some row \<Rightarrow> Inr (tr_meta row))"

definition load_result :: "backend \<Rightarrow> task_store \<Rightarrow> ustr \<Rightarrow> result_doc result" where
  "load_result b store task_id = locked b task_id (\<lambda>t. case map_of store t of
     None \<Rightarrow> Inr [] | Some row \<Rightarrow> Inr (tr_result row))"

definition task_exists :: "task_store \<Rightarrow> ustr \<Rightarrow> bool" where
  "task_exists store task_id = (case validate_task_id task_id of
     Inl _ \<Rightarrow> False | Inr t \<Rightarrow> map_of store t \<noteq> None)"

definition task_has_video :: "backend \<Rightarrow> task_store \<Rightarrow> ustr \<Rightarrow> bool result" where
  "task_has_video b store task_id =
     map_sum id (\<lambda>d. has_value d (u ''decoded_main_url'')) (load_result b store task_id)"

text \<open>\<open>update_meta\<close> and \<open>update_meta_if\<close>: the updates are a change of the record.\<close>

definition update_meta_mut :: "int \<Rightarrow> (task_meta \<Rightarrow> task_meta) \<Rightarrow> (task_meta, task_meta) mutator" where
  "update_meta_mut now updates m = (let m' = (updates m)\<lparr>tm_updated_at := At now\<rparr> in Inr (m', m', True))"

definition update_meta :: "backend \<Rightarrow> task_store \<Rightarrow> ustr \<Rightarrow> int \<Rightarrow> (task_meta \<Rightarrow> task_meta) \<Rightarrow> (task_store \<times> task_meta) result" where
  "update_meta b store task_id now updates = mutate_meta b store task_id (update_meta_mut now updates)"

definition update_meta_if_mut ::
    "int \<Rightarrow> task_status list \<Rightarrow> (task_meta \<Rightarrow> task_meta) \<Rightarrow> (task_meta, task_meta option) mutator" where
  "update_meta_if_mut now expected updates m =
     (if tm_status m \<notin> set expected then Inr (m, None, False)
      else let m' = (updates m)\<lparr>tm_updated_at := At now\<rparr> in Inr (m', Some m', True))"

definition update_meta_if ::
    "backend \<Rightarrow> task_store \<Rightarrow> ustr \<Rightarrow> int \<Rightarrow> task_status list \<Rightarrow> (task_meta \<Rightarrow> task_meta) \<Rightarrow>
     (task_store \<times> task_meta option) result" where
  "update_meta_if b store task_id now expected updates =
     mutate_meta b store task_id (update_meta_if_mut now expected updates)"

section \<open>Failure bookkeeping\<close>

definition append_attempt_history :: "int \<Rightarrow> task_meta \<Rightarrow> ustr \<Rightarrow> ustr \<Rightarrow> task_meta" where
  "append_attempt_history now m reason kind =
     (let normalized = take 1000 (strip reason)
      in if normalized = [] then m
         else let entry = \<lparr>ah_at = At now,
                    ah_kind = take 40 (str_or kind (u ''failure'')),
                    ah_reason = normalized,
                    ah_phase = take 80 (str_or (tm_execution_phase m) (tm_submit_phase m)),
                    ah_worker = take 120 (tm_worker_id m),
                    ah_retry_count = max 0 (tm_retry_count m),
                    ah_infrastructure_retry_count = max 0 (tm_infrastructure_retry_count m)\<rparr>
              in m\<lparr>tm_attempt_history := last_n MAX_ATTEMPT_HISTORY (tm_attempt_history m @ [entry]),
                   tm_last_attempt_error := normalized,
                   tm_last_attempt_kind := ah_kind entry,
                   tm_last_attempt_at := At now\<rparr>)"

definition normalized_failure_reason :: "task_meta \<Rightarrow> ustr \<Rightarrow> ustr" where
  "normalized_failure_reason m reason =
     (let normalized = take 500 (strip reason)
      in if normalized \<noteq> [] then normalized
         else let phase = str_or (take 80 (strip (str_or (tm_execution_phase m)
                 (str_or (tm_submit_phase m) (u ''unknown''))))) (u ''unknown'')
              in msg_failed_without_detail @ phase @ msg_failed_without_detail_end)"

definition set_retry_terminal :: "int \<Rightarrow> ustr \<Rightarrow> task_meta \<Rightarrow> task_meta" where
  "set_retry_terminal now reason m =
     (let terminal_reason = take 500 (str_or reason (str_or (tm_error m) msg_generation_failed_retry))
      in m\<lparr>tm_status := Failed, tm_finished_at := At now, tm_error := terminal_reason,
           tm_execution_phase := u ''failed'', tm_status_reason := terminal_reason,
           tm_phase_updated_at := At now, tm_queue_reason := [], tm_queue_category := []\<rparr>)"

text \<open>\<open>meta.setdefault(key, now)\<close>.\<close>

definition set_default :: "int \<Rightarrow> stamp option \<Rightarrow> stamp option" where
  "set_default now x = (case x of None \<Rightarrow> Some (At now) | Some s \<Rightarrow> Some s)"

section \<open>Timeouts\<close>

definition is_task_expired :: "int \<Rightarrow> task_meta \<Rightarrow> bool" where
  "is_task_expired now m =
     (if tm_status m \<in> set terminal then False
      else if 0 < max 0 (tm_retry_count m) \<and> tm_status m \<in> set [Running, Submitted]
      then (let started = stamp_or (tm_retry_attempt_started_at m)
                  (stamp_or (tm_claimed_at m) (case tm_retry_started_at m of None \<Rightarrow> Unset | Some s \<Rightarrow> s));
                origin = stamp_or started (tm_created_at m)
            in case origin of
                 Unset \<Rightarrow> False
               | At t \<Rightarrow> mins TASK_RETRY_TIMEOUT_MINUTES \<le> now - t)
      else case tm_created_at m of
             Unset \<Rightarrow> False
           | At t \<Rightarrow> hours TASK_TIMEOUT_HOURS \<le> now - t)"

end
