(* ===== verification/Task_Store.thy ===== *)
theory Task_Store
  imports Task_Meta
begin

text \<open>
  The operations on a task (app/store.py): its creation, every change of its status, the
  retries, and the changes of its result part. Each is one mutator of the meta or the result
  part, run on the task's row; \<open>now\<close> is the clock read by the operation and \<open>limit\<close> is the
  retry limit \<open>task_retry_limit()\<close>.
\<close>

section \<open>Creation\<close>

definition new_meta :: "int \<Rightarrow> task_request \<Rightarrow> ustr \<Rightarrow> task_status \<Rightarrow> task_meta" where
  "new_meta now rq owner status =
     \<lparr>tm_request = rq, tm_owner = owner, tm_status = status, tm_image_count = 0,
      tm_reference_image_names = [], tm_created_at = At now, tm_queued_at = At now,
      tm_queue_priority_at = At now, tm_claimed_at = Unset, tm_started_at = Unset,
      tm_updated_at = At now, tm_finished_at = Unset, tm_submitted_at = Unset,
      tm_next_attempt_at = Unset, tm_next_result_poll_at = Unset, tm_phase_updated_at = Unset,
      tm_submit_started_at = Unset, tm_retry_attempt_started_at = Unset,
      tm_retry_queue_verified_at = Unset, tm_retry_queued_at = Unset, tm_last_attempt_at = Unset,
      tm_late_result_watch_until = Unset, tm_late_result_refunded_at = Unset, tm_long_result_wait_marked_at = Unset,
      tm_late_account_released_at = Unset, tm_retry_started_at = None,
      tm_infrastructure_retry_started_at = None, tm_attempt = 0, tm_retry_count = 0,
      tm_infrastructure_retry_count = 0, tm_result_timeout_retry_count = 0,
      tm_ambiguous_proxy_retry_count = 0, tm_execution_miss_count = 0,
      tm_result_watch_miss_count = 0, tm_worker_id = [], tm_error = [],
      tm_infrastructure_error = [], tm_queue_reason = [], tm_queue_category = [],
      tm_execution_phase = [], tm_status_reason = [], tm_submit_phase = [],
      tm_last_attempt_error = [], tm_last_attempt_kind = [], tm_preferred_account_id = [],
      tm_proxy_retry_avoid_node_id = [], tm_ambiguous_proxy_avoid_node_ids = [],
      tm_failed_account_ids = [], tm_attempt_history = [], tm_cancel_requested = False,
      tm_video_hidden_for_admin = False, tm_video_hidden_for_client = False,
      tm_task_hidden_for_admin = False, tm_task_hidden_for_client = False,
      tm_real_person = False, tm_queued_for_concurrency = False, tm_qianwen_timeout_retry = False\<rparr>"

text \<open>What a caller asks for, before it is normalised.\<close>

record task_args =
  targ_prompt :: ustr
  targ_ratio :: ustr
  targ_platform :: ustr
  targ_model :: ustr
  targ_task_type :: ustr
  targ_duration :: int
  targ_batch_id :: ustr
  targ_batch_index :: int
  targ_batch_row :: int

definition normalize_platform :: "ustr \<Rightarrow> ustr result" where
  "normalize_platform value =
     (let platform = lower (strip (str_or value (u ''dola'')))
      in if platform \<in> set [u ''dola'', u ''doubao'', u ''qianwen''] then Inr platform
         else Inl (ValueError (u ''invalid platform'')))"

definition normalize_model :: "ustr \<Rightarrow> ustr" where
  "normalize_model value = take 80 (strip value)"

definition task_request_of :: "task_args \<Rightarrow> ustr \<Rightarrow> ustr \<Rightarrow> ustr \<Rightarrow> ustr \<Rightarrow> ustr \<Rightarrow> task_request" where
  "task_request_of a task_id platform idempotency_hash fingerprint route =
     \<lparr>rq_id = task_id, rq_prompt = targ_prompt a, rq_ratio = targ_ratio a, rq_platform = platform,
      rq_model = normalize_model (targ_model a), rq_image_task = (targ_task_type a = u ''image''),
      rq_duration = targ_duration a, rq_batch_id = targ_batch_id a,
      rq_batch_index = max 0 (targ_batch_index a), rq_batch_row = max 0 (targ_batch_row a),
      rq_idempotency_hash = idempotency_hash, rq_request_fingerprint = fingerprint,
      rq_request_route = route, rq_retry_of_task_id = []\<rparr>"

text \<open>
  At most 20 draws of \<open>secrets.token_hex(16)\<close>; a draw that is taken is skipped. The queue's
  \<open>enqueue\<close> is the argument \<open>enq\<close>, called on the stored task when \<open>enqueue\<close> is set.
\<close>

fun create_draws :: "ustr list \<Rightarrow> task_store \<Rightarrow> ustr option" where
  "create_draws [] store = None"
| "create_draws (d # draws) store =
     (if map_of store d = None then Some d else create_draws draws store)"

definition create_task ::
    "(task_store \<Rightarrow> int \<Rightarrow> ustr \<Rightarrow> stamp \<Rightarrow> 'q \<Rightarrow> 'q) \<Rightarrow> int \<Rightarrow> ustr list \<Rightarrow> task_store \<times> 'q \<Rightarrow> task_args \<Rightarrow>
     ustr \<Rightarrow> bool \<Rightarrow> ustr \<Rightarrow> ustr \<Rightarrow> ustr \<Rightarrow> ((task_store \<times> 'q) \<times> task_meta) result" where
  "create_task enq now draws sq a owner enqueue idempotency_hash fingerprint route =
     (case normalize_platform (targ_platform a) of
        Inl e \<Rightarrow> Inl e
      | Inr platform \<Rightarrow>
         (case create_draws (take 20 draws) (fst sq) of
            None \<Rightarrow> Inl (RuntimeError (u ''could not allocate task id''))
          | Some task_id \<Rightarrow>
             (let m = new_meta now (task_request_of a task_id platform idempotency_hash fingerprint route) owner
                    (if enqueue then Pending else Initializing);
                  store = AList.update task_id \<lparr>tr_meta = m, tr_result = []\<rparr> (fst sq)
              in Inr ((store, if enqueue then enq store now task_id Unset (snd sq) else snd sq), m))))"

definition finalize_task_creation ::
    "(task_store \<Rightarrow> int \<Rightarrow> ustr \<Rightarrow> stamp \<Rightarrow> 'q \<Rightarrow> 'q) \<Rightarrow> backend \<Rightarrow> int \<Rightarrow> task_store \<times> 'q \<Rightarrow> ustr \<Rightarrow>
     ((task_store \<times> 'q) \<times> task_meta) result" where
  "finalize_task_creation enq b now sq task_id =
     map_sum id (\<lambda>(store, m). ((store, enq store now task_id (tm_next_attempt_at m) (snd sq)), m))
       (mutate_meta b (fst sq) task_id (\<lambda>m.
          if tm_status m \<noteq> Initializing then Inl (RuntimeError (u ''task is not initializing''))
          else let m' = m\<lparr>tm_status := Pending, tm_queued_at := At now, tm_updated_at := At now\<rparr>
               in Inr (m', m', True)))"

fun fail_initializing_loop ::
    "backend \<Rightarrow> int \<Rightarrow> ustr \<Rightarrow> ustr list \<Rightarrow> task_store \<Rightarrow> task_meta list \<Rightarrow> (task_store \<times> task_meta list) result" where
  "fail_initializing_loop b now reason [] store failed = Inr (store, failed)"
| "fail_initializing_loop b now reason (t # ts) store failed =
     (case update_meta_if b store t now [Initializing]
        (\<lambda>m. m\<lparr>tm_status := Failed, tm_worker_id := [], tm_finished_at := At now, tm_error := reason\<rparr>) of
        Inl e \<Rightarrow> Inl e
      | Inr (store', None) \<Rightarrow> fail_initializing_loop b now reason ts store' failed
      | Inr (store', Some m) \<Rightarrow> fail_initializing_loop b now reason ts store' (failed @ [m]))"

definition set_task_images_mut :: "int \<Rightarrow> int \<Rightarrow> ustr list \<Rightarrow> (task_meta, unit) mutator" where
  "set_task_images_mut now image_count names m =
     Inr (m\<lparr>tm_image_count := image_count,
            tm_reference_image_names := take (nat image_count) (map (\<lambda>n. take 180 (strip n)) names),
            tm_updated_at := At now\<rparr>, (), True)"

section \<open>Execution\<close>

definition set_execution_phase_mut :: "int \<Rightarrow> ustr \<Rightarrow> ustr \<Rightarrow> (task_meta, task_meta option) mutator" where
  "set_execution_phase_mut now phase status_reason =
     update_meta_if_mut now [Running] (\<lambda>m. m\<lparr>tm_execution_phase := take 80 phase,
       tm_status_reason := take 200 status_reason, tm_phase_updated_at := At now\<rparr>)"

definition mark_retry_queue_verified_mut :: "int \<Rightarrow> (task_meta, task_meta option) mutator" where
  "mark_retry_queue_verified_mut now =
     update_meta_if_mut now [Pending] (\<lambda>m. m\<lparr>tm_execution_phase := u ''retry_queued'',
       tm_status_reason := msg_retry_verified, tm_retry_queue_verified_at := At now,
       tm_phase_updated_at := At now\<rparr>)"

text \<open>Running tasks of an owner, the count of \<open>claim_task\<close>.\<close>

definition running_of :: "ustr \<Rightarrow> task_store \<Rightarrow> int" where
  "running_of owner store =
     int (length (filter (\<lambda>(_, row). tm_owner (tr_meta row) = owner \<and> tm_status (tr_meta row) = Running) store))"

definition start_run :: "int \<Rightarrow> ustr \<Rightarrow> task_meta \<Rightarrow> task_meta" where
  "start_run now worker_id m =
     m\<lparr>tm_status := Running, tm_worker_id := worker_id, tm_started_at := At now,
       tm_claimed_at := At now, tm_attempt := max 0 (tm_attempt m) + 1, tm_error := [],
       tm_queue_reason := [], tm_queue_category := [], tm_execution_miss_count := 0,
       tm_execution_phase := u ''waiting_account'', tm_status_reason := msg_assigning,
       tm_phase_updated_at := At now, tm_retry_queue_verified_at := Unset,
       tm_submit_phase := [], tm_submit_started_at := Unset,
       tm_retry_attempt_started_at := (if 0 < max 0 (tm_retry_count m) then At now else Unset),
       tm_updated_at := At now\<rparr>"

text \<open>
  \<open>mark_running\<close>: with PostgreSQL the owner's running tasks are counted under a lock; the
  local branch leaves the limit to \<open>claim_next_pending\<close>.
\<close>

definition mark_running ::
    "backend \<Rightarrow> int \<Rightarrow> bool \<Rightarrow> task_store \<Rightarrow> ustr \<Rightarrow> ustr \<Rightarrow> (ustr \<Rightarrow> int option) \<Rightarrow> (task_store \<times> bool) result" where
  "mark_running b now paused store task_id worker_id limits =
     (if paused then Inr (store, False)
      else mutate_meta b store task_id (\<lambda>m.
        if tm_status m \<noteq> Pending \<or> tm_cancel_requested m then Inr (m, False, False)
        else case (if b = Postgres \<and> tm_owner m \<noteq> [] then limits (tm_owner m) else None) of
               Some l \<Rightarrow> if max 1 l \<le> running_of (tm_owner m) store then Inr (m, False, False)
                 else Inr (start_run now worker_id m, True, True)
             | None \<Rightarrow> Inr (start_run now worker_id m, True, True)))"

definition mark_pending_mut :: "int \<Rightarrow> ustr \<Rightarrow> (task_meta, task_meta option) mutator" where
  "mark_pending_mut now reason =
     update_meta_if_mut now [Pending, Running] (\<lambda>m. m\<lparr>tm_status := Pending, tm_worker_id := [],
       tm_queued_at := At now, tm_error := reason, tm_execution_phase := u ''queued'',
       tm_status_reason := msg_requeueing, tm_phase_updated_at := At now\<rparr>)"

definition defer_task_mut :: "int \<Rightarrow> ustr \<Rightarrow> ustr \<Rightarrow> int \<Rightarrow> (task_meta, task_meta option) mutator" where
  "defer_task_mut now reason category delay_seconds =
     update_meta_if_mut now [Pending, Running] (\<lambda>m. m\<lparr>tm_status := Pending, tm_worker_id := [],
       tm_error := [], tm_queue_reason := take 200 (str_or reason msg_queueing),
       tm_queue_category := take 40 (str_or category (u ''queue'')),
       tm_next_attempt_at := At (now + secs (max 1 delay_seconds))\<rparr>)"

definition mark_failed_mut :: "int \<Rightarrow> ustr \<Rightarrow> (task_meta, bool) mutator" where
  "mark_failed_mut now reason m =
     (if tm_status m \<notin> set [Initializing, Pending, Running, Submitted, Failed] then Inr (m, False, False)
      else let normalized = normalized_failure_reason m reason;
               m1 = append_attempt_history now m normalized (u ''terminal'')
           in Inr (m1\<lparr>tm_status := Failed, tm_worker_id := [], tm_finished_at := At now,
                tm_error := normalized, tm_execution_phase := u ''failed'',
                tm_status_reason := normalized, tm_phase_updated_at := At now,
                tm_updated_at := At now\<rparr>, True, True))"

definition mark_canceled_mut :: "int \<Rightarrow> ustr \<Rightarrow> (task_meta, task_meta option) mutator" where
  "mark_canceled_mut now reason =
     update_meta_if_mut now [Pending, Running] (\<lambda>m. m\<lparr>tm_status := Canceled, tm_worker_id := [],
       tm_finished_at := At now, tm_error := reason\<rparr>)"

definition mark_cancel_requested_mut :: "int \<Rightarrow> ustr \<Rightarrow> (task_meta, task_meta) mutator" where
  "mark_cancel_requested_mut now reason =
     update_meta_mut now (\<lambda>m. m\<lparr>tm_cancel_requested := True, tm_error := reason\<rparr>)"

definition can_run_task :: "backend \<Rightarrow> task_store \<Rightarrow> ustr \<Rightarrow> ustr \<Rightarrow> bool result" where
  "can_run_task b store task_id worker_id =
     map_sum id (\<lambda>m. tm_status m = Running \<and> tm_worker_id m = worker_id \<and> \<not> tm_cancel_requested m)
       (get_meta b store task_id)"

definition begin_task_submission_mut :: "int \<Rightarrow> (task_meta, bool) mutator" where
  "begin_task_submission_mut now m =
     (if tm_status m \<noteq> Running \<or> tm_cancel_requested m \<or> tm_submit_phase m = u ''committing''
      then Inr (m, False, False)
      else Inr (m\<lparr>tm_submit_phase := u ''committing'', tm_submit_started_at := At now,
                  tm_updated_at := At now\<rparr>, True, True))"

definition release_task_submission_mut :: "int \<Rightarrow> (task_meta, task_meta option) mutator" where
  "release_task_submission_mut now =
     update_meta_if_mut now [Running] (\<lambda>m. m\<lparr>tm_submit_phase := [], tm_submit_started_at := Unset\<rparr>)"

definition request_task_cancel_mut :: "int \<Rightarrow> ustr \<Rightarrow> bool \<Rightarrow> (task_meta, bool \<times> task_meta) mutator" where
  "request_task_cancel_mut now reason allow_submitted m =
     (if tm_status m \<notin> set (Pending # Running # (if allow_submitted then [Submitted] else [])) \<or>
         (\<not> allow_submitted \<and> tm_submit_phase m = u ''committing'')
      then Inr (m, (False, m), False)
      else let m' = m\<lparr>tm_status := Canceled, tm_worker_id := [], tm_finished_at := At now,
                 tm_error := reason, tm_cancel_requested := True,
                 tm_execution_phase := u ''canceled'', tm_status_reason := reason,
                 tm_phase_updated_at := At now, tm_updated_at := At now\<rparr>
           in Inr (m', (True, m'), True))"

fun cancel_loop ::
    "backend \<Rightarrow> int \<Rightarrow> ustr \<Rightarrow> ustr list \<Rightarrow> task_store \<Rightarrow> task_meta list \<Rightarrow> (task_store \<times> task_meta list) result" where
  "cancel_loop b now reason [] store canceled = Inr (store, canceled)"
| "cancel_loop b now reason (t # ts) store canceled =
     (case mutate_meta b store t (request_task_cancel_mut now reason False) of
        Inl e \<Rightarrow> Inl e
      | Inr (store', applied, m) \<Rightarrow>
          cancel_loop b now reason ts store' (if applied then canceled @ [m] else canceled))"

definition record_failed_account_mut :: "int \<Rightarrow> ustr \<Rightarrow> (task_meta, unit) mutator" where
  "record_failed_account_mut now account_id m =
     (let failed = filter (\<lambda>i. i \<noteq> []) (tm_failed_account_ids m)
      in Inr (m\<lparr>tm_failed_account_ids := (if account_id \<in> set failed then failed else failed @ [account_id]),
                tm_updated_at := At now\<rparr>, (), True))"

definition record_failed_account ::
    "backend \<Rightarrow> int \<Rightarrow> task_store \<Rightarrow> ustr \<Rightarrow> ustr \<Rightarrow> (task_store \<times> unit) result" where
  "record_failed_account b now store task_id account_id =
     (if account_id = [] then Inr (store, ())
      else mutate_meta b store task_id (record_failed_account_mut now account_id))"

section \<open>Success and submission\<close>

definition succeed :: "int \<Rightarrow> task_meta \<Rightarrow> task_meta" where
  "succeed now m = m\<lparr>tm_status := Success, tm_worker_id := [], tm_finished_at := At now,
     tm_error := [], tm_execution_phase := u ''completed'', tm_status_reason := msg_video_ready,
     tm_phase_updated_at := At now\<rparr>"

definition mark_success :: "backend \<Rightarrow> int \<Rightarrow> task_store \<Rightarrow> ustr \<Rightarrow> (task_store \<times> task_meta option) result" where
  "mark_success b now store task_id = (case task_has_video b store task_id of
     Inl e \<Rightarrow> Inl e
   | Inr False \<Rightarrow> Inr (store, None)
   | Inr True \<Rightarrow> update_meta_if b store task_id now [Running, Submitted] (succeed now))"

definition mark_late_result_success :: "backend \<Rightarrow> int \<Rightarrow> task_store \<Rightarrow> ustr \<Rightarrow> (task_store \<times> task_meta option) result" where
  "mark_late_result_success b now store task_id = (case task_has_video b store task_id of
     Inl e \<Rightarrow> Inl e
   | Inr False \<Rightarrow> Inr (store, None)
   | Inr True \<Rightarrow> update_meta_if b store task_id now [Failed]
       (\<lambda>m. (succeed now m)\<lparr>tm_late_result_watch_until := Unset\<rparr>))"

definition mark_submitted_mut :: "int \<Rightarrow> int \<Rightarrow> (task_meta, task_meta option) mutator" where
  "mark_submitted_mut now delay =
     update_meta_if_mut now [Running] (\<lambda>m. m\<lparr>tm_status := Submitted, tm_worker_id := [],
       tm_submitted_at := At now,
       tm_next_result_poll_at := At (now + secs (max 5 (min 120 (int_or delay 45)))),
       tm_finished_at := Unset, tm_error := msg_waiting_result, tm_result_watch_miss_count := 0,
       tm_submit_phase := u ''submitted'', tm_execution_phase := u ''waiting_result'',
       tm_status_reason := msg_submitted_waiting, tm_phase_updated_at := At now\<rparr>)"

end
