(* ===== verification/Task_Retry.thy ===== *)
theory Task_Retry
  imports Task_Store
begin

text \<open>
  Retries (app/store.py) and the changes of a task's result part. A retry that is refused by its
  guard returns the stored count and changes nothing. Where a retry puts the task back into the
  queue, the queue's \<open>requeue\<close> is the argument \<open>rq\<close> on the queue state.
\<close>

section \<open>Retries of an execution\<close>

definition over :: "task_status list" where
  "over = [Success, Submitted, Failed, Canceled]"

text \<open>\<open>10 * 3 ** (count - 1)\<close> seconds.\<close>

definition retry_backoff :: "int \<Rightarrow> int" where
  "retry_backoff n = 10 * 3 ^ nat (n - 1)"

definition retry_reason :: "task_meta \<Rightarrow> ustr \<Rightarrow> ustr" where
  "retry_reason m reason =
     (if reason = u ''browser timeout'' then msg_browser_timeout
      else if reason = u ''region restricted'' then msg_region_restricted
      else normalized_failure_reason m reason)"

definition record_retry_mut :: "int \<Rightarrow> int \<Rightarrow> ustr \<Rightarrow> (task_meta, int) mutator" where
  "record_retry_mut now limit reason m =
     (if tm_status m \<in> set over then Inr (m, max 0 (tm_retry_count m), False)
      else let n = max 0 (tm_retry_count m) + 1;
               normalized = retry_reason m reason;
               m1 = append_attempt_history now m normalized (u ''execution_retry'');
               m2 = m1\<lparr>tm_retry_count := n, tm_worker_id := [], tm_error := normalized,
                 tm_execution_phase := u ''retry_queued'', tm_status_reason := msg_retrying,
                 tm_phase_updated_at := At now,
                 tm_retry_started_at := set_default now (tm_retry_started_at m1)\<rparr>;
               m3 = (if limit < n then set_retry_terminal now normalized m2
                 else m2\<lparr>tm_status := Pending, tm_finished_at := Unset,
                   tm_next_attempt_at := At (now + secs (retry_backoff n))\<rparr>)
           in Inr (m3\<lparr>tm_updated_at := At now\<rparr>, n, True))"

definition record_infrastructure_retry_mut :: "int \<Rightarrow> ustr \<Rightarrow> (task_meta, int) mutator" where
  "record_infrastructure_retry_mut now reason m =
     (if tm_status m \<in> set over then Inr (m, max 0 (tm_infrastructure_retry_count m), True)
      else let n = max 0 (tm_infrastructure_retry_count m) + 1;
               normalized = normalized_failure_reason m reason;
               m1 = append_attempt_history now m normalized (u ''infrastructure_retry'');
               m2 = m1\<lparr>tm_infrastructure_retry_count := n, tm_infrastructure_error := normalized,
                 tm_worker_id := [], tm_error := [], tm_execution_phase := u ''retry_queued'',
                 tm_status_reason := msg_retrying, tm_phase_updated_at := At now,
                 tm_updated_at := At now,
                 tm_infrastructure_retry_started_at := set_default now (tm_infrastructure_retry_started_at m1)\<rparr>
           in Inr (if MAX_INFRASTRUCTURE_RETRIES < n then set_retry_terminal now msg_nodes_failed m2
                   else m2\<lparr>tm_status := Pending, tm_finished_at := Unset,
                     tm_queue_reason := msg_service_recovering, tm_queue_category := u ''infrastructure'',
                     tm_next_attempt_at := At (now + secs (min 120 (10 * 2 ^ nat (n - 1))))\<rparr>, n, True))"

text \<open>
  The two backends differ in \<open>setdefault\<close> and \<open>or\<close>: an empty \<open>retry_started_at\<close> stays
  empty with PostgreSQL. There is no guard on the status.
\<close>

definition record_execution_miss_mut :: "backend \<Rightarrow> int \<Rightarrow> int \<Rightarrow> ustr \<Rightarrow> (task_meta, int) mutator" where
  "record_execution_miss_mut b now limit reason m =
     (let miss = max 0 (tm_execution_miss_count m) + 1;
          n = max 0 (tm_retry_count m) + 1;
          started = (case b of
              Postgres \<Rightarrow> set_default now (tm_retry_started_at m)
            | LocalFile \<Rightarrow> (case tm_retry_started_at m of
                Some (At t) \<Rightarrow> Some (At t) | _ \<Rightarrow> Some (At now)));
          m1 = m\<lparr>tm_retry_started_at := started, tm_retry_count := n,
                 tm_execution_miss_count := miss, tm_worker_id := []\<rparr>;
          m2 = (if limit < n then set_retry_terminal now msg_execution_timeout m1
            else m1\<lparr>tm_error := reason, tm_status := Pending\<rparr>)
      in Inr (m2\<lparr>tm_updated_at := At now\<rparr>, n, True))"

definition record_result_watch_miss_mut :: "int \<Rightarrow> ustr \<Rightarrow> (task_meta, int) mutator" where
  "record_result_watch_miss_mut now reason m =
     (let n = max 0 (tm_result_watch_miss_count m) + 1;
          m1 = m\<lparr>tm_result_watch_miss_count := n, tm_updated_at := At now\<rparr>
      in Inr (if tm_status m \<in> set terminal then m1 else m1\<lparr>tm_error := reason\<rparr>, n, True))"

section \<open>Retries of a submitted task\<close>

definition effective_retries :: "int \<Rightarrow> int option \<Rightarrow> int" where
  "effective_retries limit max_retries = (case max_retries of
     None \<Rightarrow> limit | Some n \<Rightarrow> max 0 (min limit n))"

text \<open>The results pair the count with whether the guard let the retry through.\<close>

definition retry_submitted_mut :: "int \<Rightarrow> int \<Rightarrow> ustr \<Rightarrow> int \<Rightarrow> (task_meta, int \<times> bool) mutator" where
  "retry_submitted_mut now max_retries reason delay m =
     (if tm_status m \<noteq> Submitted then Inr (m, (max 0 (tm_retry_count m), False), False)
      else let n = max 0 (tm_retry_count m) + 1;
               m1 = append_attempt_history now m reason (u ''result_retry'');
               m2 = m1\<lparr>tm_retry_count := n, tm_worker_id := [], tm_error := reason,
                 tm_result_watch_miss_count := 0, tm_execution_phase := u ''retry_queued'',
                 tm_status_reason := msg_retrying, tm_phase_updated_at := At now,
                 tm_retry_started_at := set_default now (tm_retry_started_at m1)\<rparr>;
               m3 = (if max_retries < n then set_retry_terminal now reason m2
                 else m2\<lparr>tm_status := Pending, tm_finished_at := Unset,
                   tm_next_attempt_at := At (now + secs (delay * n))\<rparr>)
           in Inr (m3\<lparr>tm_updated_at := At now\<rparr>, (n, True), True))"

definition retry_ambiguous_proxy_mut :: "int \<Rightarrow> ustr \<Rightarrow> ustr \<Rightarrow> ustr \<Rightarrow> int \<Rightarrow> (task_meta, int \<times> bool) mutator" where
  "retry_ambiguous_proxy_mut now reason account_id node delay m =
     (if tm_status m \<noteq> Submitted then Inr (m, (max 0 (tm_ambiguous_proxy_retry_count m), False), True)
      else let n = max 0 (tm_ambiguous_proxy_retry_count m) + 1;
               old = filter (\<lambda>i. i \<noteq> []) (tm_ambiguous_proxy_avoid_node_ids m);
               avoided = (if node \<noteq> [] \<and> node \<notin> set old then old @ [node] else old);
               m1 = append_attempt_history now m reason (u ''proxy_refresh'')
           in Inr (m1\<lparr>tm_status := Pending, tm_worker_id := [], tm_finished_at := Unset, tm_error := [],
                tm_submit_phase := [], tm_submit_started_at := Unset, tm_result_watch_miss_count := 0,
                tm_execution_phase := u ''retry_queued'', tm_status_reason := msg_refreshing_proxy,
                tm_queue_reason := msg_refreshing_proxy, tm_queue_category := u ''proxy_refresh'',
                tm_next_attempt_at := At (now + secs (max 1 delay)),
                tm_preferred_account_id := account_id, tm_ambiguous_proxy_retry_count := n,
                tm_ambiguous_proxy_avoid_node_ids := last_n 12 avoided,
                tm_proxy_retry_avoid_node_id := node, tm_phase_updated_at := At now,
                tm_updated_at := At now\<rparr>, (n, True), True))"

definition retry_ambiguous_submitted_mut :: "int \<Rightarrow> int \<Rightarrow> ustr \<Rightarrow> int \<Rightarrow> (task_meta, int \<times> bool) mutator" where
  "retry_ambiguous_submitted_mut now max_retries reason delay m =
     (if tm_status m \<noteq> Submitted then Inr (m, (max 0 (tm_infrastructure_retry_count m), False), True)
      else let n = max 0 (tm_infrastructure_retry_count m) + 1;
               m1 = append_attempt_history now m reason (u ''infrastructure_retry'');
               m2 = m1\<lparr>tm_infrastructure_retry_count := n, tm_infrastructure_error := take 500 reason,
                 tm_worker_id := [], tm_submit_phase := [], tm_submit_started_at := Unset,
                 tm_result_watch_miss_count := 0, tm_execution_phase := u ''retry_queued'',
                 tm_status_reason := msg_retrying, tm_preferred_account_id := [],
                 tm_ambiguous_proxy_retry_count := 0, tm_ambiguous_proxy_avoid_node_ids := [],
                 tm_phase_updated_at := At now, tm_updated_at := At now,
                 tm_infrastructure_retry_started_at := set_default now (tm_infrastructure_retry_started_at m1)\<rparr>
           in Inr (if max_retries < n then set_retry_terminal now msg_generation_failed_retry m2
                   else m2\<lparr>tm_status := Pending, tm_finished_at := Unset, tm_error := [],
                     tm_queue_reason := msg_safe_retry, tm_queue_category := u ''infrastructure'',
                     tm_next_attempt_at := At (now + secs (max 1 delay * n))\<rparr>, (n, True), True))"

definition retry_timed_out_mut :: "int \<Rightarrow> int \<Rightarrow> ustr \<Rightarrow> int \<Rightarrow> (task_meta, int \<times> bool) mutator" where
  "retry_timed_out_mut now max_retries reason delay m =
     (if tm_status m \<noteq> Submitted \<or> tm_cancel_requested m
      then Inr (m, (max 0 (tm_result_timeout_retry_count m), False), False)
      else let previous = max 0 (tm_result_timeout_retry_count m);
               n = max (max 0 (tm_retry_count m)) previous + 1;
               m1 = append_attempt_history now m reason (u ''result_timeout'');
               m2 = m1\<lparr>tm_retry_count := n, tm_result_timeout_retry_count := previous + 1,
                 tm_retry_queued_at := At now, tm_worker_id := [], tm_error := reason,
                 tm_result_watch_miss_count := 0, tm_execution_phase := u ''retry_queued'',
                 tm_status_reason := msg_retrying, tm_phase_updated_at := At now,
                 tm_retry_started_at := set_default now (tm_retry_started_at m1)\<rparr>;
               m3 = (if max_retries < n then set_retry_terminal now reason m2
                 else m2\<lparr>tm_status := Pending, tm_finished_at := Unset,
                   tm_next_attempt_at := At (now + secs (delay * n))\<rparr>)
           in Inr (m3\<lparr>tm_updated_at := At now\<rparr>, (n, True), True))"

section \<open>Back into the queue\<close>

type_synonym 'q requeuer = "task_store \<Rightarrow> int \<Rightarrow> ustr \<Rightarrow> stamp \<Rightarrow> 'q \<Rightarrow> 'q \<times> bool"

definition requeue_pending_task ::
    "'q requeuer \<Rightarrow> backend \<Rightarrow> int \<Rightarrow> task_store \<times> 'q \<Rightarrow> ustr \<Rightarrow> (task_store \<times> 'q) \<times> bool result" where
  "requeue_pending_task rq b now sq task_id = (case get_meta b (fst sq) task_id of
     Inl e \<Rightarrow> (sq, Inl e)
   | Inr m \<Rightarrow>
      (if tm_status m \<noteq> Pending \<or> tm_cancel_requested m then (sq, Inr False)
       else let (q', queued) = rq (fst sq) now task_id (tm_next_attempt_at m) (snd sq)
            in if \<not> queued then ((fst sq, q'), Inr False)
               else case mutate_meta b (fst sq) task_id (mark_retry_queue_verified_mut now) of
                 Inl e \<Rightarrow> ((fst sq, q'), Inl e)
               | Inr (store', _) \<Rightarrow> ((store', q'), Inr True)))"

text \<open>
  After a retry the task is queued again when retries are left. With PostgreSQL that is asked
  even when the guard refused the retry; the local branch of two of the operations returned
  before (\<open>early\<close>).
\<close>

definition run_retry ::
    "'q requeuer \<Rightarrow> backend \<Rightarrow> int \<Rightarrow> bool \<Rightarrow> (int \<Rightarrow> bool) \<Rightarrow> (task_meta, int \<times> bool) mutator \<Rightarrow>
     task_store \<times> 'q \<Rightarrow> ustr \<Rightarrow> (task_store \<times> 'q) \<times> int result" where
  "run_retry rq b now early again f sq task_id = (case mutate_meta b (fst sq) task_id f of
     Inl e \<Rightarrow> (sq, Inl e)
   | Inr (store', n, applied) \<Rightarrow>
      (if \<not> again n \<or> (early \<and> b = LocalFile \<and> \<not> applied) then ((store', snd sq), Inr n)
       else case requeue_pending_task rq b now (store', snd sq) task_id of
              (sq', Inl e) \<Rightarrow> (sq', Inl e)
            | (sq', Inr _) \<Rightarrow> (sq', Inr n)))"

definition retry_submitted_task where
  "retry_submitted_task rq b now limit sq task_id reason max_retries delay =
     (let k = effective_retries limit max_retries
      in run_retry rq b now True (\<lambda>n. n \<le> k) (retry_submitted_mut now k reason delay) sq task_id)"

definition retry_ambiguous_proxy_task where
  "retry_ambiguous_proxy_task rq b now sq task_id reason account_id node delay =
     run_retry rq b now False (\<lambda>_. True)
       (retry_ambiguous_proxy_mut now reason (lower (strip account_id)) (strip node) delay) sq task_id"

definition retry_ambiguous_submitted_task where
  "retry_ambiguous_submitted_task rq b now limit sq task_id reason max_retries delay =
     (let k = effective_retries limit max_retries
      in run_retry rq b now False (\<lambda>n. n \<le> k) (retry_ambiguous_submitted_mut now k reason delay) sq task_id)"

definition retry_timed_out_submitted_task where
  "retry_timed_out_submitted_task rq b now limit sq task_id reason max_retries delay =
     (let k = effective_retries limit max_retries
      in run_retry rq b now True (\<lambda>n. n \<le> k) (retry_timed_out_mut now k reason delay) sq task_id)"

section \<open>The result part\<close>

definition put_nonempty :: "ustr \<Rightarrow> ustr \<Rightarrow> result_doc \<Rightarrow> result_doc" where
  "put_nonempty key s data = (if s = [] then data else AList.update key (JStr s) data)"

fun put_all :: "(ustr \<times> json) list \<Rightarrow> result_doc \<Rightarrow> result_doc" where
  "put_all [] data = data"
| "put_all ((k, v) # kvs) data = put_all kvs (AList.update k v data)"

fun pop_all :: "ustr list \<Rightarrow> result_doc \<Rightarrow> result_doc" where
  "pop_all [] data = data"
| "pop_all (k # ks) data = pop_all ks (AList.delete k data)"

text \<open>\<open>stamp\<close> is the printed clock.\<close>

definition save_result_mut ::
    "ustr \<Rightarrow> ustr \<Rightarrow> ustr \<Rightarrow> json list option \<Rightarrow> (ustr \<times> json) list \<Rightarrow> ustr list \<Rightarrow> (result_doc, unit) mutator" where
  "save_result_mut stamp conversation_id cookie_string cookies extra remove data =
     (let d1 = put_nonempty (u ''conversation_id'') conversation_id data;
          d2 = put_nonempty (u ''cookie_string'') cookie_string d1;
          d3 = (case cookies of None \<Rightarrow> d2 | Some cs \<Rightarrow> AList.update (u ''cookies'') (JList cs) d2);
          d4 = pop_all remove (put_all extra d3)
      in Inr (AList.update (u ''updated_at'') (JStr stamp) d4, (), True))"

definition mark_result_once_mut :: "ustr \<Rightarrow> ustr \<Rightarrow> json \<Rightarrow> (result_doc, bool) mutator" where
  "mark_result_once_mut stamp key v data =
     (if has_value data key then Inr (data, False, False)
      else Inr (AList.update (u ''updated_at'') (JStr stamp) (AList.update key v data), True, True))"

definition str_items :: "result_doc \<Rightarrow> ustr \<Rightarrow> ustr list" where
  "str_items data key = (case map_of data key of
     Some (JList xs) \<Rightarrow> concat (map (\<lambda>x. case x of JStr s \<Rightarrow> if s = [] then [] else [s] | _ \<Rightarrow> []) xs)
   | _ \<Rightarrow> [])"

definition mark_account_refund_once_mut :: "ustr \<Rightarrow> ustr \<Rightarrow> (result_doc, bool) mutator" where
  "mark_account_refund_once_mut stamp account_id data =
     (let refunded = str_items data (u ''account_quota_refunded_ids'')
      in if account_id \<in> set refunded then Inr (data, False, False)
         else Inr (AList.update (u ''updated_at'') (JStr stamp)
           (AList.update (u ''account_quota_refunded'') (JBool True)
             (AList.update (u ''account_quota_refunded_ids'')
               (JList (map JStr (refunded @ [account_id]))) data)), True, True))"

text \<open>A missing task: the backends agree where the code catches the error.\<close>

definition quietly :: "task_store \<Rightarrow> 'r \<Rightarrow> (task_store \<times> 'r) result \<Rightarrow> (task_store \<times> 'r) result" where
  "quietly store r res = (case res of Inl FileNotFoundError \<Rightarrow> Inr (store, r) | _ \<Rightarrow> res)"

definition save_result where
  "save_result b stamp store task_id conversation_id cookie_string cookies extra remove =
     quietly store () (mutate_result b store task_id
       (save_result_mut stamp conversation_id cookie_string cookies extra remove))"

definition mark_result_once where
  "mark_result_once b stamp store task_id key v =
     (let res = mutate_result b store task_id (mark_result_once_mut stamp key v)
      in case b of Postgres \<Rightarrow> res | LocalFile \<Rightarrow> quietly store False res)"

definition mark_account_refund_once where
  "mark_account_refund_once b stamp store task_id account_id =
     (if account_id = [] then Inr (store, False)
      else quietly store False (mutate_result b store task_id (mark_account_refund_once_mut stamp account_id)))"

definition TRANSIENT_RESULT_FIELDS :: "ustr list" where
  "TRANSIENT_RESULT_FIELDS = map u
     [''chat_status'', ''chat_content_type'', ''chat_response_bytes'', ''chat_response_preview'',
      ''sse_response_text'', ''sse_timed_out'', ''submit_error_category'', ''submit_phase'',
      ''submission_response_preview'', ''submission_ambiguous'', ''submission_ambiguous_at'',
      ''submit_confirmation_state'', ''conversation_recovery_error'',
      ''conversation_recovery_error_category'', ''ambiguous_submission_diagnostic'',
      ''conversation_id'', ''cookie_string'', ''cookies'', ''main_url'', ''decoded_main_url'',
      ''doubao_selected_video_key'', ''doubao_video_url_score'', ''doubao_video_candidate_count'',
      ''doubao_watermark_status'', ''doubao_single_chain_error'',
      ''doubao_rejected_fallback_source'', ''doubao_rejected_fallback_key'',
      ''doubao_rejected_fallback_score'', ''last_query_error'', ''last_query_error_category'',
      ''proxy_source'', ''proxy_server'', ''proxy_raw'', ''account_id'', ''account_name'',
      ''account_quota_charge_id'', ''account_quota_refunded'']"

definition clear_transient_result_mut :: "ustr \<Rightarrow> (result_doc, unit) mutator" where
  "clear_transient_result_mut stamp data =
     (let d = filter (\<lambda>(k, _). k \<notin> set TRANSIENT_RESULT_FIELDS) data
      in if d = data then Inr (data, (), False)
         else Inr (AList.update (u ''updated_at'') (JStr stamp) d, (), True))"

definition clear_transient_result where
  "clear_transient_result b stamp store task_id =
     quietly store () (mutate_result b store task_id (clear_transient_result_mut stamp))"

text \<open>Whether a result says that the request reached the platform (\<open>reset_running_tasks\<close>, \<open>recover\<close>).\<close>

definition reached_platform :: "result_doc \<Rightarrow> bool" where
  "reached_platform data \<longleftrightarrow>
     has_value data (u ''conversation_id'') \<or> has_value data (u ''submission_ambiguous'') \<or>
     str_value data (u ''submit_confirmation_state'') = u ''awaiting_conversation'' \<or>
     has_value data (u ''doubao_submit_confirmed'') \<or> has_value data (u ''qianwen_submit_confirmed'') \<or>
     has_value data (u ''qianwen_remote_task_ids'')"

end
