(* ===== verification/Task_Lists.thy ===== *)
theory Task_Lists
  imports Task_Retry
begin

text \<open>
  The operations over all tasks (app/store.py): failing the expired ones, listing, claiming the
  next pending task from local files, cleaning up, restarting, and the runtime document. The
  account and token services an expiry calls are the record \<open>services\<close> on their state \<open>'w\<close>.
\<close>

section \<open>Expiry\<close>

record 'w services =
  sv_exhaust :: "ustr \<Rightarrow> ustr \<Rightarrow> 'w \<Rightarrow> 'w"
  sv_clear :: "ustr \<Rightarrow> ustr \<Rightarrow> 'w \<Rightarrow> 'w"
  sv_refund :: "ustr \<Rightarrow> ustr \<Rightarrow> 'w \<Rightarrow> 'w \<times> bool"

definition fail_task :: "backend \<Rightarrow> int \<Rightarrow> task_store \<Rightarrow> ustr \<Rightarrow> ustr \<Rightarrow> task_store result" where
  "fail_task b now store task_id reason =
     map_sum id fst (mutate_meta b store task_id (mark_failed_mut now reason))"

definition expire_task_if_timeout ::
    "'w services \<Rightarrow> backend \<Rightarrow> int \<Rightarrow> ustr \<Rightarrow> task_store \<times> 'w \<Rightarrow> ustr \<Rightarrow> ((task_store \<times> 'w) \<times> bool) result" where
  "expire_task_if_timeout sv b now stamp sw task_id = (case get_meta b (fst sw) task_id of
     Inl e \<Rightarrow> Inl e
   | Inr m \<Rightarrow>
      (if \<not> is_task_expired now m then Inr (sw, False)
       else case load_result b (fst sw) task_id of
         Inl e \<Rightarrow> Inl e
       | Inr d \<Rightarrow>
          (if has_value d (u ''decoded_main_url'') then Inr (sw, False)
           else let account = str_value d (u ''account_id'');
                    w1 = (if account = [] then snd sw
                      else sv_clear sv account task_id
                        (sv_exhaust sv account (str_value d (u ''account_quota_charge_id'')) (snd sw)));
                    retry_expired = 0 < max 0 (tm_retry_count m) \<and> tm_status m \<in> set [Running, Submitted]
                in case fail_task b now (fst sw) task_id
                     (if retry_expired then msg_retry_expired else msg_task_expired) of
                  Inl e \<Rightarrow> Inl e
                | Inr store1 \<Rightarrow>
                   (if tm_owner m = [] then Inr ((store1, w1), True)
                    else let (w2, refunded) = sv_refund sv (tm_owner m) task_id w1
                         in if \<not> refunded then Inr ((store1, w2), True)
                            else map_sum id (\<lambda>(store2, _). ((store2, w2), True))
                              (mark_result_once b stamp store1 task_id (u ''temp_quota_refunded'') (JBool True))))))"

section \<open>Listing\<close>

text \<open>
  One pass over the identifiers: an expired task is failed and read again, tasks that are gone
  are skipped, and those of other owners are left out. An item is the task with its meta part.
\<close>

fun list_loop ::
    "'w services \<Rightarrow> backend \<Rightarrow> int \<Rightarrow> ustr \<Rightarrow> ustr option \<Rightarrow> ustr list \<Rightarrow> task_store \<times> 'w \<Rightarrow>
     (ustr \<times> task_meta) list \<Rightarrow> ((task_store \<times> 'w) \<times> (ustr \<times> task_meta) list) result"
where
  "list_loop sv b now stamp owner [] sw items = Inr (sw, items)"
| "list_loop sv b now stamp owner (t # ts) sw items =
     (if \<not> is_task_id t then list_loop sv b now stamp owner ts sw items
      else case map_of (fst sw) t of
        None \<Rightarrow> list_loop sv b now stamp owner ts sw items
      | Some row \<Rightarrow>
         (case (if is_task_expired now (tr_meta row)
                then map_sum id fst (expire_task_if_timeout sv b now stamp sw t) else Inr sw) of
            Inl e \<Rightarrow> Inl e
          | Inr sw1 \<Rightarrow>
             (case get_meta b (fst sw1) t of
                Inl e \<Rightarrow> Inl e
              | Inr m \<Rightarrow>
                 list_loop sv b now stamp owner ts sw1
                   (if owner \<noteq> None \<and> owner \<noteq> Some (tm_owner m) then items else items @ [(t, m)]))))"

definition list_tasks ::
    "'w services \<Rightarrow> backend \<Rightarrow> int \<Rightarrow> ustr \<Rightarrow> ustr option \<Rightarrow> task_store \<times> 'w \<Rightarrow>
     ((task_store \<times> 'w) \<times> (ustr \<times> task_meta) list) result" where
  "list_tasks sv b now stamp owner sw =
     map_sum id (\<lambda>(sw', items). (sw', sort_desc (\<lambda>(i, m). (tm_created_at m, i)) items))
       (list_loop sv b now stamp owner
          (map fst (filter (\<lambda>(_, row). b = LocalFile \<or> owner = None \<or> owner = Some (tm_owner (tr_meta row))) (fst sw)))
          sw [])"

text \<open>
  Idempotent creation: the task of the same owner, route and key hash is returned if its request
  has the same fingerprint, and refused if not. PostgreSQL looks the task up; the local branch
  lists the owner's tasks newest first, all tasks when the owner is empty (\<open>owner or None\<close>).
\<close>

definition same_request :: "ustr \<Rightarrow> ustr \<Rightarrow> task_meta \<Rightarrow> bool" where
  "same_request route key_hash m \<longleftrightarrow>
     rq_request_route (tm_request m) = route \<and> rq_idempotency_hash (tm_request m) = key_hash"

definition reuse_or_create ::
    "int \<Rightarrow> ustr list \<Rightarrow> task_store \<Rightarrow> task_args \<Rightarrow> ustr \<Rightarrow> ustr \<Rightarrow> ustr \<Rightarrow> ustr \<Rightarrow> task_meta option \<Rightarrow>
     (task_store \<times> task_meta \<times> bool) result" where
  "reuse_or_create now draws store a owner key_hash fingerprint route existing = (case existing of
     Some m \<Rightarrow>
       if rq_request_fingerprint (tm_request m) \<noteq> fingerprint
       then Inl (ValueError (u ''idempotency key conflicts with a different request''))
       else Inr (store, m, False)
   | None \<Rightarrow>
       map_sum id (\<lambda>((store', _), m). (store', m, True))
         (create_task (\<lambda>_ _ _ _ q. q) now draws (store, ()) a owner False key_hash fingerprint route))"

definition find_or_create_task ::
    "(ustr \<Rightarrow> ustr) \<Rightarrow> 'w services \<Rightarrow> backend \<Rightarrow> int \<Rightarrow> ustr \<Rightarrow> ustr list \<Rightarrow> task_store \<times> 'w \<Rightarrow> task_args \<Rightarrow>
     ustr \<Rightarrow> ustr \<Rightarrow> ustr \<Rightarrow> ustr \<Rightarrow> ((task_store \<times> 'w) \<times> task_meta \<times> bool) result" where
  "find_or_create_task sha sv b now stamp draws sw a owner key fingerprint route =
     (case b of
        Postgres \<Rightarrow>
          (case normalize_platform (targ_platform a) of
             Inl e \<Rightarrow> Inl e
           | Inr _ \<Rightarrow> map_sum id (\<lambda>(store, r). ((store, snd sw), r))
               (reuse_or_create now (take 1 draws) (fst sw) a owner (sha key) fingerprint route
                 (map_option (tr_meta \<circ> snd) (find (\<lambda>(_, row). tm_owner (tr_meta row) = owner \<and>
                    same_request route (sha key) (tr_meta row)) (fst sw)))))
      | LocalFile \<Rightarrow>
          (case list_tasks sv b now stamp (if owner = [] then None else Some owner) sw of
             Inl e \<Rightarrow> Inl e
           | Inr ((store, w), items) \<Rightarrow> map_sum id (\<lambda>(store', r). ((store', w), r))
               (reuse_or_create now draws store a owner (sha key) fingerprint route
                 (map_option snd (find (\<lambda>(_, m). same_request route (sha key) m) items)))))"

definition fail_initializing_tasks ::
    "'w services \<Rightarrow> backend \<Rightarrow> int \<Rightarrow> ustr \<Rightarrow> ustr \<Rightarrow> task_store \<times> 'w \<Rightarrow> ((task_store \<times> 'w) \<times> task_meta list) result" where
  "fail_initializing_tasks sv b now stamp reason sw = (case list_tasks sv b now stamp None sw of
     Inl e \<Rightarrow> Inl e
   | Inr ((store, w), items) \<Rightarrow>
      map_sum id (\<lambda>(store', ms). ((store', w), ms))
        (fail_initializing_loop b now reason
          (map fst (filter (\<lambda>(_, m). tm_status m = Initializing) items)) store []))"

text \<open>\<open>is_local_today\<close>, in the zone UTC+8.\<close>

definition local_day :: "int \<Rightarrow> int" where
  "local_day t = (t + hours 8) div days 1"

definition is_local_today :: "int \<Rightarrow> stamp \<Rightarrow> bool" where
  "is_local_today now s = (case s of Unset \<Rightarrow> False | At t \<Rightarrow> local_day t = local_day now)"

definition task_status_filter_values :: "ustr \<Rightarrow> task_status list option" where
  "task_status_filter_values status =
     (let s = lower (strip status)
      in if s = [] \<or> s = u ''all'' then None
         else if s = u ''generating'' then Some [Pending, Running, Submitted]
         else if s = u ''running'' then Some [Running, Submitted]
         else if s = u ''failed'' then Some [Failed]
         else if s = u ''canceled'' then Some [Canceled]
         else if s = u ''success'' then Some [Success]
         else if s = u ''pending'' then Some [Pending]
         else if s = u ''submitted'' then Some [Submitted]
         else if s = u ''initializing'' then Some [Initializing]
         else Some [])"

record task_stats =
  ts_total :: int
  ts_pending :: int
  ts_running :: int
  ts_success :: int
  ts_failed :: int
  ts_completed_today :: int
  ts_today_success :: int
  ts_today_failed :: int

definition count_if :: "('a \<Rightarrow> bool) \<Rightarrow> 'a list \<Rightarrow> int" where
  "count_if p xs = int (length (filter p xs))"

definition stats_of :: "int \<Rightarrow> task_meta list \<Rightarrow> task_stats" where
  "stats_of now ms =
     \<lparr>ts_total = int (length ms),
      ts_pending = count_if (\<lambda>m. tm_status m = Pending) ms,
      ts_running = count_if (\<lambda>m. tm_status m \<in> set [Running, Submitted]) ms,
      ts_success = count_if (\<lambda>m. tm_status m = Success) ms,
      ts_failed = count_if (\<lambda>m. tm_status m \<in> set [Failed, Canceled]) ms,
      ts_completed_today = count_if (\<lambda>m. is_local_today now (tm_finished_at m)) ms,
      ts_today_success = count_if (\<lambda>m. tm_status m = Success \<and> is_local_today now (tm_finished_at m)) ms,
      ts_today_failed = count_if (\<lambda>m. tm_status m = Failed \<and> is_local_today now (tm_finished_at m)) ms\<rparr>"

record task_page =
  tp_items :: "(ustr \<times> task_meta) list"
  tp_total :: int
  tp_page :: int
  tp_total_pages :: int
  tp_stats :: task_stats

text \<open>
  The page of the local branch. \<open>matches\<close> is the keyword test on an item's texts, already
  applied to the normalised keyword.
\<close>

definition list_tasks_page ::
    "'w services \<Rightarrow> int \<Rightarrow> ustr \<Rightarrow> ustr option \<Rightarrow> bool \<Rightarrow> int \<Rightarrow> int \<Rightarrow> ustr \<Rightarrow> ustr \<Rightarrow> (ustr \<times> task_meta \<Rightarrow> bool) \<Rightarrow>
     task_store \<times> 'w \<Rightarrow> ((task_store \<times> 'w) \<times> task_page) result" where
  "list_tasks_page sv now stamp owner for_admin page page_size status platform matches sw =
     map_sum id (\<lambda>(sw', all).
        let tasks = filter (\<lambda>(_, m). \<not> (if for_admin then tm_task_hidden_for_admin m else tm_task_hidden_for_client m)) all;
            p = lower (strip platform);
            filtered = filter (\<lambda>(i, m).
                (case task_status_filter_values status of None \<Rightarrow> True | Some ss \<Rightarrow> tm_status m \<in> set ss) \<and>
                (p = [] \<or> p = u ''all'' \<or> lower (rq_platform (tm_request m)) = p) \<and> matches (i, m)) tasks;
            n = int (length filtered); current = page_of n page_size page
        in (sw', \<lparr>tp_items = page_slice page_size current filtered, tp_total = n, tp_page = current,
                  tp_total_pages = page_count n page_size, tp_stats = stats_of now (map snd tasks)\<rparr>))
       (list_tasks sv LocalFile now stamp owner sw)"

definition count_pending_tasks :: "task_store \<Rightarrow> int" where
  "count_pending_tasks store = count_if (\<lambda>(_, row). tm_status (tr_meta row) = Pending) store"

text \<open>
  The tasks of an owner that count against its limit. The backends disagree on a successful
  task that has only its encoded address: it is active for local files alone.
\<close>

definition counts_as_active :: "backend \<Rightarrow> task_row \<Rightarrow> bool" where
  "counts_as_active b row \<longleftrightarrow>
     tm_status (tr_meta row) \<in> set [Pending, Running, Submitted] \<or>
     (tm_status (tr_meta row) = Success \<and> \<not> has_value (tr_result row) (u ''decoded_main_url'') \<and>
      (b = Postgres \<longrightarrow> \<not> has_value (tr_result row) (u ''main_url'')))"

definition active_task_count_for_owner :: "backend \<Rightarrow> task_store \<Rightarrow> ustr \<Rightarrow> int" where
  "active_task_count_for_owner b store owner =
     (if owner = [] then 0
      else count_if (\<lambda>(_, row). tm_owner (tr_meta row) = owner \<and> counts_as_active b row) store)"

section \<open>Claiming from local files\<close>

definition is_retry :: "task_meta \<Rightarrow> bool" where
  "is_retry m \<longleftrightarrow> max 0 (tm_retry_count m) \<noteq> 0 \<or> max 0 (tm_infrastructure_retry_count m) \<noteq> 0 \<or>
     rq_retry_of_task_id (tm_request m) \<noteq> []"

definition claim_key :: "ustr \<times> task_meta \<Rightarrow> stamp \<times> stamp \<times> ustr" where
  "claim_key = (\<lambda>(i, m). (stamp_or (tm_queue_priority_at m) (stamp_or (tm_created_at m) (tm_queued_at m)),
     tm_created_at m, i))"

text \<open>After a burst of first attempts the waiting retries come first, else they come last.\<close>

definition claim_order :: "int \<Rightarrow> (ustr \<times> task_meta) list \<Rightarrow> (ustr \<times> task_meta) list" where
  "claim_order streak candidates =
     (let cs = sort_key claim_key candidates;
          initial = filter (\<lambda>(_, m). \<not> is_retry m) cs;
          retries = filter (\<lambda>(_, m). is_retry m) cs
      in if INITIAL_CLAIM_BURST \<le> streak \<and> retries \<noteq> [] then retries @ initial else initial @ retries)"

definition due :: "int \<Rightarrow> task_meta \<Rightarrow> bool" where
  "due now m = (case tm_next_attempt_at m of Unset \<Rightarrow> True | At t \<Rightarrow> t \<le> now)"

definition running_count :: "ustr \<Rightarrow> (ustr \<times> task_meta) list \<Rightarrow> int" where
  "running_count owner items = count_if (\<lambda>(_, m). tm_status m = Running \<and> tm_owner m = owner) items"

definition below_limit :: "(ustr \<Rightarrow> int option) \<Rightarrow> (ustr \<Rightarrow> int) \<Rightarrow> ustr \<Rightarrow> bool" where
  "below_limit limits active owner \<longleftrightarrow>
     owner = [] \<or> (case limits owner of None \<Rightarrow> True | Some l \<Rightarrow> active owner < l)"

fun claim_loop ::
    "'w services \<Rightarrow> int \<Rightarrow> ustr \<Rightarrow> ustr \<Rightarrow> (ustr \<Rightarrow> int option) \<Rightarrow> (ustr \<Rightarrow> int) \<Rightarrow> (ustr \<times> task_meta) list \<Rightarrow>
     task_store \<times> 'w \<Rightarrow> ((task_store \<times> 'w) \<times> (ustr \<times> task_meta) option) result"
where
  "claim_loop sv now stamp worker limits active [] sw = Inr (sw, None)"
| "claim_loop sv now stamp worker limits active ((t, m) # cs) sw =
     (if \<not> due now m then claim_loop sv now stamp worker limits active cs sw
      else if is_task_expired now m
      then (case expire_task_if_timeout sv LocalFile now stamp sw t of
          Inl e \<Rightarrow> Inl e
        | Inr (sw', _) \<Rightarrow> claim_loop sv now stamp worker limits active cs sw')
      else if \<not> below_limit limits active (tm_owner m) \<or> tm_cancel_requested m
      then claim_loop sv now stamp worker limits active cs sw
      else case mark_running LocalFile now False (fst sw) t worker limits of
          Inl e \<Rightarrow> Inl e
        | Inr (store', True) \<Rightarrow> Inr ((store', snd sw), Some (t, m))
        | Inr (store', False) \<Rightarrow> claim_loop sv now stamp worker limits active cs (store', snd sw))"

record 'w claim_state =
  cs_world :: "task_store \<times> 'w"
  cs_streak :: int

text \<open>
  The claim lock (a directory) serialises the callers; here a call is one step. \<open>claimed\<close> are
  the tasks the worker already holds and \<open>supplied\<close> its count of active tasks per owner.
\<close>

definition claim_next_pending ::
    "'w services \<Rightarrow> int \<Rightarrow> ustr \<Rightarrow> bool \<Rightarrow> ustr \<Rightarrow> ustr list \<Rightarrow> (ustr \<Rightarrow> int) \<Rightarrow> (ustr \<Rightarrow> int option) \<Rightarrow>
     'w claim_state \<Rightarrow> ('w claim_state \<times> ustr option) result" where
  "claim_next_pending sv now stamp paused worker claimed supplied limits s =
     (if paused then Inr (s, None)
      else case list_tasks sv LocalFile now stamp None (cs_world s) of
        Inl e \<Rightarrow> Inl e
      | Inr (sw, items) \<Rightarrow>
         (let candidates = filter (\<lambda>(t, m). t \<notin> set claimed \<and> tm_status m = Pending) items;
              active = (\<lambda>owner. max (max 0 (supplied owner)) (running_count owner items))
          in case claim_loop sv now stamp worker limits active (claim_order (cs_streak s) candidates) sw of
               Inl e \<Rightarrow> Inl e
             | Inr (sw', None) \<Rightarrow> Inr (s\<lparr>cs_world := sw'\<rparr>, None)
             | Inr (sw', Some (t, m)) \<Rightarrow>
                 Inr (\<lparr>cs_world = sw', cs_streak = (if is_retry m then 0 else cs_streak s + 1)\<rparr>, Some t)))"

section \<open>Cleaning up and restarting\<close>

definition delete_task :: "backend \<Rightarrow> task_store \<Rightarrow> ustr \<Rightarrow> task_store result" where
  "delete_task b store task_id = locked b task_id (\<lambda>_. map_sum id (\<lambda>t. AList.delete t store) (validate_task_id task_id))"

definition keep_unfinished :: "task_row \<Rightarrow> bool" where
  "keep_unfinished row \<longleftrightarrow> tm_status (tr_meta row) \<in> set [Pending, Running, Submitted] \<or>
     (tm_status (tr_meta row) = Success \<and> \<not> has_value (tr_result row) (u ''decoded_main_url''))"

text \<open>A sweep over listed tasks: each is kept and reported, kept, or deleted.\<close>

datatype verdict = Skip | Keep | Remove

fun sweep :: "(ustr \<Rightarrow> task_row \<Rightarrow> verdict) \<Rightarrow> ustr list \<Rightarrow> task_store \<Rightarrow> int \<Rightarrow> ustr list \<Rightarrow> task_store \<times> int \<times> ustr list" where
  "sweep judge [] store deleted skipped = (store, deleted, skipped)"
| "sweep judge (t # ts) store deleted skipped = (case map_of store t of
     None \<Rightarrow> sweep judge ts store deleted skipped
   | Some row \<Rightarrow> (case judge t row of
       Skip \<Rightarrow> sweep judge ts store deleted (skipped @ [t])
     | Keep \<Rightarrow> sweep judge ts store deleted skipped
     | Remove \<Rightarrow> sweep judge ts (AList.delete t store) (deleted + 1) skipped))"

definition delete_inactive_tasks ::
    "'w services \<Rightarrow> backend \<Rightarrow> int \<Rightarrow> ustr \<Rightarrow> ustr list \<Rightarrow> ustr option \<Rightarrow> task_store \<times> 'w \<Rightarrow>
     ((task_store \<times> 'w) \<times> int \<times> ustr list) result" where
  "delete_inactive_tasks sv b now stamp active owner sw =
     map_sum id (\<lambda>((store, w), items).
        let (store', n, skipped) = sweep
              (\<lambda>t row. if t \<in> set active \<or> keep_unfinished row then Skip else Remove) (map fst items) store 0 []
        in ((store', w), n, skipped))
       (list_tasks sv b now stamp owner sw)"

text \<open>The days a task is kept: its owner's, else the general number, at least one.\<close>

definition kept_days :: "(ustr \<Rightarrow> int option) \<Rightarrow> int \<Rightarrow> ustr \<Rightarrow> int" where
  "kept_days owner_days general owner =
     (let d = (if owner = [] then general else case owner_days owner of Some n \<Rightarrow> n | None \<Rightarrow> general)
      in max 1 (int_or d (int_or general 7)))"

definition reference_time :: "task_meta \<Rightarrow> stamp" where
  "reference_time m = stamp_or (tm_finished_at m) (stamp_or (tm_updated_at m) (tm_created_at m))"

definition cleanup_expired_task_cache ::
    "'w services \<Rightarrow> backend \<Rightarrow> int \<Rightarrow> ustr \<Rightarrow> int \<Rightarrow> ustr list \<Rightarrow> (ustr \<Rightarrow> int option) \<Rightarrow> task_store \<times> 'w \<Rightarrow>
     ((task_store \<times> 'w) \<times> int \<times> ustr list) result" where
  "cleanup_expired_task_cache sv b now stamp retention active owner_days sw =
     map_sum id (\<lambda>((store, w), items).
        let (store', n, skipped) = sweep (\<lambda>t row.
              if t \<in> set active \<or> keep_unfinished row then Skip
              else case reference_time (tr_meta row) of
                Unset \<Rightarrow> Keep
              | At r \<Rightarrow> if now - days (kept_days owner_days retention (tm_owner (tr_meta row))) < r
                  then Keep else Remove) (map fst items) store 0 []
        in ((store', w), n, skipped))
       (list_tasks sv b now stamp None sw)"

text \<open>The start of the first local day that is kept (UTC+8).\<close>

definition local_cutoff :: "int \<Rightarrow> int \<Rightarrow> int" where
  "local_cutoff now keep_days = (local_day now - max 1 keep_days) * days 1 - hours 8"

record cleanup_counts =
  cc_deleted :: int
  cc_active :: int
  cc_recent :: int
  cc_incomplete :: int

fun terminal_loop ::
    "ustr list \<Rightarrow> int \<Rightarrow> (ustr \<times> task_row) list \<Rightarrow> task_store \<Rightarrow> cleanup_counts \<Rightarrow> task_store \<times> cleanup_counts"
where
  "terminal_loop active cutoff [] store c = (store, c)"
| "terminal_loop active cutoff ((t, row) # rows) store c =
     (if t = [] then terminal_loop active cutoff rows store c
      else if t \<in> set active \<or> tm_status (tr_meta row) \<notin> set terminal
      then terminal_loop active cutoff rows store (c\<lparr>cc_active := cc_active c + 1\<rparr>)
      else if (case tm_created_at (tr_meta row) of Unset \<Rightarrow> True | At s \<Rightarrow> cutoff \<le> s)
      then terminal_loop active cutoff rows store (c\<lparr>cc_recent := cc_recent c + 1\<rparr>)
      else if tm_status (tr_meta row) = Success \<and> \<not> has_value (tr_result row) (u ''decoded_main_url'')
      then terminal_loop active cutoff rows store (c\<lparr>cc_incomplete := cc_incomplete c + 1\<rparr>)
      else terminal_loop active cutoff rows (AList.delete t store) (c\<lparr>cc_deleted := cc_deleted c + 1\<rparr>))"

definition cleanup_terminal_tasks_before_local_day ::
    "int \<Rightarrow> int \<Rightarrow> ustr list \<Rightarrow> task_store \<Rightarrow> task_store \<times> cleanup_counts" where
  "cleanup_terminal_tasks_before_local_day now keep_local_days active store =
     terminal_loop active (local_cutoff now keep_local_days) store store
       \<lparr>cc_deleted = 0, cc_active = 0, cc_recent = 0, cc_incomplete = 0\<rparr>"

text \<open>After a restart a running task is submitted if its request reached the platform, else pending.\<close>

fun reset_loop :: "backend \<Rightarrow> int \<Rightarrow> ustr list \<Rightarrow> task_store \<Rightarrow> task_store result" where
  "reset_loop b now [] store = Inr store"
| "reset_loop b now (t # ts) store = (case map_of store t of
     None \<Rightarrow> reset_loop b now ts store
   | Some row \<Rightarrow>
      (if tm_status (tr_meta row) \<noteq> Running then reset_loop b now ts store
       else case (if reached_platform (tr_result row)
            then update_meta_if b store t now [Running] (\<lambda>m. m\<lparr>tm_status := Submitted, tm_worker_id := [],
              tm_submitted_at := stamp_or (tm_submitted_at (tr_meta row)) (At now),
              tm_next_result_poll_at := At (now + secs 15), tm_finished_at := Unset,
              tm_error := msg_waiting_result\<rparr>)
            else mutate_meta b store t (mark_pending_mut now (u ''service restarted''))) of
           Inl e \<Rightarrow> Inl e
         | Inr (store', _) \<Rightarrow> reset_loop b now ts store'))"

definition reset_running_tasks ::
    "'w services \<Rightarrow> backend \<Rightarrow> int \<Rightarrow> ustr \<Rightarrow> task_store \<times> 'w \<Rightarrow> (task_store \<times> 'w) result" where
  "reset_running_tasks sv b now stamp sw = (case list_tasks sv b now stamp None sw of
     Inl e \<Rightarrow> Inl e
   | Inr ((store, w), items) \<Rightarrow> map_sum id (\<lambda>store'. (store', w)) (reset_loop b now (map fst items) store))"

text \<open>The pending tasks are queried with PostgreSQL and listed, expired ones failed, from files.\<close>

definition cancel_pending_tasks ::
    "'w services \<Rightarrow> backend \<Rightarrow> int \<Rightarrow> ustr \<Rightarrow> ustr \<Rightarrow> task_store \<times> 'w \<Rightarrow> ((task_store \<times> 'w) \<times> task_meta list) result" where
  "cancel_pending_tasks sv b now stamp reason sw =
     (case (if b = Postgres then Inr (sw, map (\<lambda>(t, row). (t, tr_meta row)) (fst sw))
            else list_tasks sv b now stamp None sw) of
        Inl e \<Rightarrow> Inl e
      | Inr ((store, w), items) \<Rightarrow>
         map_sum id (\<lambda>(store', ms). ((store', w), ms))
           (cancel_loop b now reason (map fst (filter (\<lambda>(_, m). tm_status m = Pending) items)) store []))"

fun migrate_loop :: "backend \<Rightarrow> int \<Rightarrow> ustr \<Rightarrow> ustr list \<Rightarrow> task_store \<Rightarrow> task_store result" where
  "migrate_loop b now new [] store = Inr store"
| "migrate_loop b now new (t # ts) store =
     (case update_meta b store t now (\<lambda>m. m\<lparr>tm_owner := new\<rparr>) of
        Inl e \<Rightarrow> Inl e | Inr (store', _) \<Rightarrow> migrate_loop b now new ts store')"

definition migrate_task_owner ::
    "'w services \<Rightarrow> backend \<Rightarrow> int \<Rightarrow> ustr \<Rightarrow> ustr \<Rightarrow> ustr \<Rightarrow> task_store \<times> 'w \<Rightarrow> ((task_store \<times> 'w) \<times> int) result" where
  "migrate_task_owner sv b now stamp old new sw = (case list_tasks sv b now stamp (Some old) sw of
     Inl e \<Rightarrow> Inl e
   | Inr ((store, w), items) \<Rightarrow>
      map_sum id (\<lambda>store'. ((store', w), int (length items))) (migrate_loop b now new (map fst items) store))"

section \<open>The runtime document\<close>

record runtime =
  rt_active_task_ids :: "ustr list"
  rt_paused :: bool
  rt_paused_at :: stamp

definition default_runtime :: runtime where
  "default_runtime = \<lparr>rt_active_task_ids = [], rt_paused = False, rt_paused_at = Unset\<rparr>"

definition normalize_runtime :: "runtime \<Rightarrow> runtime" where
  "normalize_runtime r = \<lparr>rt_active_task_ids = sort (remdups (rt_active_task_ids r)),
     rt_paused = rt_paused r, rt_paused_at = (if rt_paused r then rt_paused_at r else Unset)\<rparr>"

definition set_active_tasks :: "ustr list \<Rightarrow> runtime \<Rightarrow> runtime" where
  "set_active_tasks task_ids r = r\<lparr>rt_active_task_ids := sort (remdups task_ids)\<rparr>"

definition set_task_submission_paused :: "int \<Rightarrow> bool \<Rightarrow> runtime \<Rightarrow> runtime" where
  "set_task_submission_paused now paused r =
     normalize_runtime (r\<lparr>rt_paused := paused, rt_paused_at := (if paused then At now else Unset)\<rparr>)"

definition task_submission_paused :: "runtime \<Rightarrow> bool" where
  "task_submission_paused r = rt_paused (normalize_runtime r)"

end
