(* ===== verification/Task_Queue.thy ===== *)
theory Task_Queue
  imports Task_Lists
begin

text \<open>
  The Redis task queue (app/task_queue.py): two ready lists, the list of tasks being processed,
  two sets of delayed tasks with their times, the leases with their ends, the owner of every
  lease, the set of known tasks, and the count of first attempts in a row. A list is written
  with its left end first. A Lua script or a transaction is one step; times are microseconds.
\<close>

section \<open>The state\<close>

type_synonym zset = "(ustr, int) table"

record redis_queue =
  rq_ready :: "ustr list"
  rq_retry_ready :: "ustr list"
  rq_processing :: "ustr list"
  rq_delayed :: zset
  rq_retry_delayed :: zset
  rq_leases :: zset
  rq_owners :: "(ustr, ustr) table"
  rq_known :: "ustr list"
  rq_streak :: int

definition empty_queue :: redis_queue where
  "empty_queue = \<lparr>rq_ready = [], rq_retry_ready = [], rq_processing = [], rq_delayed = [],
     rq_retry_delayed = [], rq_leases = [], rq_owners = [], rq_known = [], rq_streak = 0\<rparr>"

definition lrem :: "ustr \<Rightarrow> ustr list \<Rightarrow> ustr list" where
  "lrem t xs = filter (\<lambda>x. x \<noteq> t) xs"

definition sadd :: "ustr \<Rightarrow> ustr list \<Rightarrow> ustr list" where
  "sadd t xs = (if t \<in> set xs then xs else t # xs)"

text \<open>\<open>ZRANGEBYSCORE -inf now LIMIT 0 100\<close>: by score, then by member.\<close>

definition zrange :: "int \<Rightarrow> zset \<Rightarrow> ustr list" where
  "zrange now z = take 100 (map fst (sort_key (\<lambda>(m, s). (s, m)) (filter (\<lambda>(_, s). s \<le> now) z)))"

definition score_of :: "stamp \<Rightarrow> int" where
  "score_of available_at = (case available_at of Unset \<Rightarrow> 0 | At t \<Rightarrow> t)"

text \<open>\<open>LPUSH\<close> or \<open>ZADD\<close> on the lists of first attempts or of retries.\<close>

definition push_ready :: "bool \<Rightarrow> ustr \<Rightarrow> redis_queue \<Rightarrow> redis_queue" where
  "push_ready retrying t q = (if retrying then q\<lparr>rq_retry_ready := t # rq_retry_ready q\<rparr>
     else q\<lparr>rq_ready := t # rq_ready q\<rparr>)"

definition add_delayed :: "bool \<Rightarrow> ustr \<Rightarrow> int \<Rightarrow> redis_queue \<Rightarrow> redis_queue" where
  "add_delayed retrying t score q =
     (if retrying then q\<lparr>rq_retry_delayed := AList.update t score (rq_retry_delayed q)\<rparr>
      else q\<lparr>rq_delayed := AList.update t score (rq_delayed q)\<rparr>)"

definition schedule :: "int \<Rightarrow> bool \<Rightarrow> ustr \<Rightarrow> int \<Rightarrow> redis_queue \<Rightarrow> redis_queue" where
  "schedule now retrying t score q =
     (if now < score then add_delayed retrying t score q else push_ready retrying t q)"

section \<open>Putting tasks in\<close>

definition enqueue :: "int \<Rightarrow> bool \<Rightarrow> ustr \<Rightarrow> stamp \<Rightarrow> redis_queue \<Rightarrow> redis_queue \<times> bool" where
  "enqueue now retrying t available_at q =
     (if t \<in> set (rq_known q) then (q, False)
      else (schedule now retrying t (score_of available_at) (q\<lparr>rq_known := sadd t (rq_known q)\<rparr>), True))"

definition remove_all :: "ustr \<Rightarrow> redis_queue \<Rightarrow> redis_queue" where
  "remove_all t q = q\<lparr>rq_ready := lrem t (rq_ready q), rq_retry_ready := lrem t (rq_retry_ready q),
     rq_processing := lrem t (rq_processing q), rq_delayed := AList.delete t (rq_delayed q),
     rq_retry_delayed := AList.delete t (rq_retry_delayed q), rq_leases := AList.delete t (rq_leases q),
     rq_owners := AList.delete t (rq_owners q)\<rparr>"

definition requeue :: "int \<Rightarrow> bool \<Rightarrow> ustr \<Rightarrow> stamp \<Rightarrow> redis_queue \<Rightarrow> redis_queue" where
  "requeue now retrying t available_at q =
     schedule now retrying t (score_of available_at)
       ((remove_all t q)\<lparr>rq_known := sadd t (rq_known q)\<rparr>)"

text \<open>A task whose meta part cannot be read counts as a first attempt.\<close>

definition is_retry_task :: "backend \<Rightarrow> task_store \<Rightarrow> ustr \<Rightarrow> bool" where
  "is_retry_task b store t = (case get_meta b store t of Inl _ \<Rightarrow> False | Inr m \<Rightarrow> is_retry m)"

section \<open>Taking tasks out\<close>

definition ack :: "ustr \<Rightarrow> redis_queue \<Rightarrow> redis_queue" where
  "ack t q = (remove_all t q)\<lparr>rq_known := lrem t (rq_known q)\<rparr>"

definition delay_claimed :: "bool \<Rightarrow> ustr \<Rightarrow> int \<Rightarrow> redis_queue \<Rightarrow> redis_queue" where
  "delay_claimed retrying t score q =
     (let q1 = add_delayed retrying t score (q\<lparr>rq_processing := lrem t (rq_processing q)\<rparr>);
          q2 = (if retrying then q1\<lparr>rq_delayed := AList.delete t (rq_delayed q1)\<rparr>
            else q1\<lparr>rq_retry_delayed := AList.delete t (rq_retry_delayed q1)\<rparr>)
      in q2\<lparr>rq_leases := AList.delete t (rq_leases q2), rq_owners := AList.delete t (rq_owners q2)\<rparr>)"

text \<open>Promotion: the due tasks go to the right end of the list, the earliest rightmost.\<close>

definition promote_queue :: "int \<Rightarrow> redis_queue \<Rightarrow> redis_queue" where
  "promote_queue now q = (let ts = zrange now (rq_delayed q)
     in q\<lparr>rq_delayed := filter (\<lambda>(m, _). m \<notin> set ts) (rq_delayed q), rq_ready := rq_ready q @ rev ts\<rparr>)"

definition promote_retry_queue :: "int \<Rightarrow> redis_queue \<Rightarrow> redis_queue" where
  "promote_retry_queue now q = (let ts = zrange now (rq_retry_delayed q)
     in q\<lparr>rq_retry_delayed := filter (\<lambda>(m, _). m \<notin> set ts) (rq_retry_delayed q),
          rq_retry_ready := rq_retry_ready q @ rev ts\<rparr>)"

definition promote :: "int \<Rightarrow> redis_queue \<Rightarrow> redis_queue" where
  "promote now q = promote_retry_queue now (promote_queue now q)"

text \<open>\<open>LMOVE source processing RIGHT LEFT\<close>.\<close>

definition move_ready :: "redis_queue \<Rightarrow> (ustr \<times> redis_queue) option" where
  "move_ready q = (if rq_ready q = [] then None
     else Some (last (rq_ready q), q\<lparr>rq_ready := butlast (rq_ready q),
       rq_processing := last (rq_ready q) # rq_processing q\<rparr>))"

definition move_retry :: "redis_queue \<Rightarrow> (ustr \<times> redis_queue) option" where
  "move_retry q = (if rq_retry_ready q = [] then None
     else Some (last (rq_retry_ready q), q\<lparr>rq_retry_ready := butlast (rq_retry_ready q),
       rq_processing := last (rq_retry_ready q) # rq_processing q\<rparr>))"

text \<open>After a burst of three first attempts a retry is taken first; the flag says whether one was.\<close>

definition take_next :: "redis_queue \<Rightarrow> (ustr \<times> bool \<times> redis_queue) option" where
  "take_next q =
     (let prefer_retry = 3 \<le> rq_streak q;
          first = (if prefer_retry then move_retry q else move_ready q);
          second = (if prefer_retry then move_ready q else move_retry q)
      in case first of
           Some (t, q') \<Rightarrow> Some (t, prefer_retry, q')
         | None \<Rightarrow> (case second of
             Some (t, q') \<Rightarrow> Some (t, \<not> prefer_retry, q')
           | None \<Rightarrow> None))"

text \<open>\<open>None\<close> when the variable is unset or empty.\<close>

definition visibility_timeout :: "int option \<Rightarrow> int" where
  "visibility_timeout configured = max 30 (case configured of None \<Rightarrow> 180 | Some n \<Rightarrow> n)"

section \<open>Leases\<close>

definition lease_mut :: "ustr \<Rightarrow> ustr \<Rightarrow> int \<Rightarrow> redis_queue \<Rightarrow> redis_queue" where
  "lease_mut t worker until q = q\<lparr>rq_owners := AList.update t worker (rq_owners q),
     rq_leases := AList.update t until (rq_leases q)\<rparr>"

text \<open>One entry of a heartbeat: the owner extends its lease.\<close>

definition heartbeat_one :: "int \<Rightarrow> int \<Rightarrow> ustr \<Rightarrow> ustr \<Rightarrow> redis_queue \<Rightarrow> redis_queue" where
  "heartbeat_one now visibility t worker q =
     (if map_of (rq_owners q) t \<noteq> Some worker \<or> map_of (rq_leases q) t = None then q
      else q\<lparr>rq_leases := AList.update t (now + secs visibility) (rq_leases q)\<rparr>)"

definition heartbeat :: "int \<Rightarrow> int \<Rightarrow> (ustr \<times> ustr) list \<Rightarrow> redis_queue \<Rightarrow> redis_queue" where
  "heartbeat now visibility tasks q = fold (\<lambda>(t, w). heartbeat_one now visibility t w) tasks q"

definition delay_owned :: "bool \<Rightarrow> ustr \<Rightarrow> ustr \<Rightarrow> int \<Rightarrow> redis_queue \<Rightarrow> redis_queue" where
  "delay_owned retrying t worker score q =
     (if map_of (rq_owners q) t \<noteq> Some worker then q
      else (let q1 = add_delayed retrying t score (q\<lparr>rq_processing := lrem t (rq_processing q)\<rparr>)
            in q1\<lparr>rq_leases := AList.delete t (rq_leases q1), rq_owners := AList.delete t (rq_owners q1)\<rparr>))"

text \<open>The two last removals of \<open>_ack_owned\<close> are outside the fenced script.\<close>

definition ack_owned :: "ustr \<Rightarrow> ustr \<Rightarrow> redis_queue \<Rightarrow> redis_queue" where
  "ack_owned t worker q =
     (let q1 = (if map_of (rq_owners q) t \<noteq> Some worker then q
        else q\<lparr>rq_processing := lrem t (rq_processing q), rq_leases := AList.delete t (rq_leases q),
               rq_delayed := AList.delete t (rq_delayed q), rq_owners := AList.delete t (rq_owners q),
               rq_known := lrem t (rq_known q)\<rparr>)
      in q1\<lparr>rq_retry_ready := lrem t (rq_retry_ready q1), rq_retry_delayed := AList.delete t (rq_retry_delayed q1)\<rparr>)"

definition release :: "backend \<Rightarrow> int \<Rightarrow> task_store \<Rightarrow> ustr \<Rightarrow> ustr \<Rightarrow> redis_queue \<Rightarrow> redis_queue result" where
  "release b now store t worker q = (case get_meta b store t of
     Inl FileNotFoundError \<Rightarrow> Inr (if worker = [] then ack t q else ack_owned t worker q)
   | Inl e \<Rightarrow> Inl e
   | Inr m \<Rightarrow>
      (if tm_status m = Pending \<and> \<not> tm_cancel_requested m
       then let score = score_of (stamp_or (tm_next_attempt_at m) (At now))
            in Inr (if worker = [] then delay_claimed (is_retry m) t score q
                    else delay_owned (is_retry m) t worker score q)
       else Inr (if worker = [] then ack t q else ack_owned t worker q)))"

section \<open>Recovering expired leases\<close>

text \<open>The script: the lease is checked again and removed with its owner and the processing entry.\<close>

definition expire_lease :: "int \<Rightarrow> ustr \<Rightarrow> redis_queue \<Rightarrow> redis_queue \<times> bool" where
  "expire_lease now t q = (case map_of (rq_leases q) t of
     None \<Rightarrow> (q, False)
   | Some score \<Rightarrow>
      (if now < score then (q, False)
       else (q\<lparr>rq_leases := AList.delete t (rq_leases q), rq_owners := AList.delete t (rq_owners q),
               rq_processing := lrem t (rq_processing q)\<rparr>, True)))"

text \<open>Inside the \<open>try\<close>; a task that is gone is forgotten.\<close>

definition recover_meta :: "backend \<Rightarrow> int \<Rightarrow> ustr \<Rightarrow> task_store \<times> redis_queue \<Rightarrow> task_meta \<Rightarrow>
    (task_store \<times> redis_queue) result" where
  "recover_meta b now t sq m =
     (if tm_status m = Running
      then (case load_result b (fst sq) t of
              Inl e \<Rightarrow> Inl e
            | Inr d \<Rightarrow>
               if reached_platform d
               then map_sum id (\<lambda>(store, _). (store, snd sq)) (mutate_meta b (fst sq) t (mark_submitted_mut now 45))
               else map_sum id (\<lambda>(store, _). (store, push_ready (is_retry_task b store t) t (snd sq)))
                      (mutate_meta b (fst sq) t (mark_pending_mut now (u ''worker lease expired''))))
      else if tm_status m = Pending
      then Inr (fst sq, push_ready (is_retry_task b (fst sq) t) t (snd sq))
      else Inr (fst sq, (snd sq)\<lparr>rq_known := lrem t (rq_known (snd sq))\<rparr>))"

definition recover_task :: "backend \<Rightarrow> int \<Rightarrow> ustr \<Rightarrow> task_store \<times> redis_queue \<Rightarrow> (task_store \<times> redis_queue) result" where
  "recover_task b now t sq =
     (case (case get_meta b (fst sq) t of Inl e \<Rightarrow> Inl e | Inr m \<Rightarrow> recover_meta b now t sq m) of
        Inl FileNotFoundError \<Rightarrow> Inr (fst sq, (snd sq)\<lparr>rq_known := lrem t (rq_known (snd sq))\<rparr>)
      | Inl e \<Rightarrow> Inl e
      | Inr sq' \<Rightarrow> Inr sq')"

fun recover_loop ::
    "backend \<Rightarrow> int \<Rightarrow> ustr list \<Rightarrow> task_store \<times> redis_queue \<Rightarrow> int \<Rightarrow> ((task_store \<times> redis_queue) \<times> int) result"
where
  "recover_loop b now [] sq n = Inr (sq, n)"
| "recover_loop b now (t # ts) sq n = (case expire_lease now t (snd sq) of
     (_, False) \<Rightarrow> recover_loop b now ts sq n
   | (q, True) \<Rightarrow> (case recover_task b now t (fst sq, q) of
       Inl e \<Rightarrow> Inl e
     | Inr sq' \<Rightarrow> recover_loop b now ts sq' (n + 1)))"

definition recover :: "backend \<Rightarrow> int \<Rightarrow> task_store \<times> redis_queue \<Rightarrow> ((task_store \<times> redis_queue) \<times> int) result" where
  "recover b now sq = recover_loop b now (zrange now (rq_leases (snd sq))) sq 0"

section \<open>Claiming\<close>

definition claim_attempt ::
    "backend \<Rightarrow> int \<Rightarrow> bool \<Rightarrow> int \<Rightarrow> ustr \<Rightarrow> (ustr \<Rightarrow> int option) \<Rightarrow> ustr \<Rightarrow> bool \<Rightarrow> task_store \<times> redis_queue \<Rightarrow>
     ((task_store \<times> redis_queue) \<times> bool) result" where
  "claim_attempt b now paused visibility worker limits t from_retry sq = (case get_meta b (fst sq) t of
     Inl _ \<Rightarrow> Inr ((fst sq, ack t (snd sq)), False)
   | Inr m \<Rightarrow>
      (if tm_status m \<noteq> Pending \<or> tm_cancel_requested m then Inr ((fst sq, ack t (snd sq)), False)
       else if \<not> due now m
       then Inr ((fst sq, delay_claimed (is_retry m) t (score_of (tm_next_attempt_at m)) (snd sq)), False)
       else case mark_running b now paused (fst sq) t worker limits of
         Inl e \<Rightarrow> Inl e
       | Inr (store, False) \<Rightarrow>
           Inr ((store, if tm_owner m \<noteq> [] \<and> limits (tm_owner m) \<noteq> None
                        then delay_claimed (is_retry m) t (now + secs 2) (snd sq)
                        else ack t (snd sq)), False)
       | Inr (store, True) \<Rightarrow>
           (let q = lease_mut t worker (now + secs visibility) (snd sq)
            in Inr ((store, q\<lparr>rq_streak := (if from_retry then 0 else rq_streak q + 1)\<rparr>), True))))"

fun claim_tries ::
    "nat \<Rightarrow> backend \<Rightarrow> int \<Rightarrow> bool \<Rightarrow> int \<Rightarrow> ustr \<Rightarrow> (ustr \<Rightarrow> int option) \<Rightarrow> task_store \<times> redis_queue \<Rightarrow>
     ((task_store \<times> redis_queue) \<times> ustr option) result"
where
  "claim_tries 0 b now paused visibility worker limits sq = Inr (sq, None)"
| "claim_tries (Suc n) b now paused visibility worker limits sq = (case take_next (snd sq) of
     None \<Rightarrow> Inr (sq, None)
   | Some (t, from_retry, q) \<Rightarrow>
      (case claim_attempt b now paused visibility worker limits t from_retry (fst sq, q) of
         Inl e \<Rightarrow> Inl e
       | Inr (sq', True) \<Rightarrow> Inr (sq', Some t)
       | Inr (sq', False) \<Rightarrow> claim_tries n b now paused visibility worker limits sq'))"

definition claim ::
    "backend \<Rightarrow> int \<Rightarrow> bool \<Rightarrow> int \<Rightarrow> ustr \<Rightarrow> (ustr \<Rightarrow> int option) \<Rightarrow> task_store \<times> redis_queue \<Rightarrow>
     ((task_store \<times> redis_queue) \<times> ustr option) result" where
  "claim b now paused visibility worker limits sq = (case recover b now sq of
     Inl e \<Rightarrow> Inl e
   | Inr ((store, q), _) \<Rightarrow> claim_tries 100 b now paused visibility worker limits (store, promote now q))"

section \<open>Reconciling with the store\<close>

text \<open>All pending tasks, in the claim order, are queued again.\<close>

definition reconcile :: "int \<Rightarrow> (ustr \<times> task_meta) list \<Rightarrow> redis_queue \<Rightarrow> redis_queue \<times> int" where
  "reconcile now pending q =
     (fold (\<lambda>(t, m). requeue now (is_retry m) t (tm_next_attempt_at m)) (sort_key claim_key pending) q,
      int (length pending))"

record queue_health =
  qh_ready :: int
  qh_processing :: int
  qh_delayed :: int
  qh_initial_ready :: int
  qh_retry_ready :: int
  qh_initial_delayed :: int
  qh_retry_delayed :: int

definition health :: "redis_queue \<Rightarrow> queue_health" where
  "health q = \<lparr>qh_ready = int (length (rq_ready q)) + int (length (rq_retry_ready q)),
     qh_processing = int (length (rq_processing q)),
     qh_delayed = int (length (rq_delayed q)) + int (length (rq_retry_delayed q)),
     qh_initial_ready = int (length (rq_ready q)), qh_retry_ready = int (length (rq_retry_ready q)),
     qh_initial_delayed = int (length (rq_delayed q)), qh_retry_delayed = int (length (rq_retry_delayed q))\<rparr>"

text \<open>The queue's operations as the store calls them: the redis queue, and the files.\<close>

definition redis_requeue :: "backend \<Rightarrow> redis_queue requeuer" where
  "redis_requeue b store now t available_at q = (requeue now (is_retry_task b store t) t available_at q, True)"

definition file_requeue :: "unit requeuer" where
  "file_requeue store now t available_at q = (q, True)"

end
