(* ===== verification/Task_Props.thy ===== *)
theory Task_Props
  imports Task_Lists
begin

text \<open>
  The life of one task under the operations of the store: which changes of status exist, that
  finished tasks stay finished, that retries are bounded, and that a request is committed by one
  caller at a time. The operations are the constructors of \<open>task_op\<close>; \<open>apply_op\<close> runs the
  mutator of the operation on the task's meta part.
\<close>

section \<open>The operations on a task\<close>

datatype task_op =
    Finalize int
  | FailInitializing int ustr
  | SetImages int int "ustr list"
  | SetPhase int ustr ustr
  | QueueVerified int
  | Start int ustr
  | MarkPending int ustr
  | Defer int ustr ustr int
  | MarkFailed int ustr
  | MarkCanceled int ustr
  | CancelRequested int ustr
  | BeginSubmission int
  | ReleaseSubmission int
  | RequestCancel int ustr bool
  | FailedAccount int ustr
  | Succeed int
  | LateSucceed int
  | MarkSubmitted int int
  | ResetSubmitted int
  | RecordRetry int int ustr
  | InfrastructureRetry int ustr
  | RetrySubmitted int int ustr int
  | RetryProxy int ustr ustr ustr int
  | RetryAmbiguous int int ustr int
  | RetryTimedOut int int ustr int
  | WatchMiss int ustr
  | ExecutionMiss backend int int ustr

definition after :: "(task_meta, 'r) mutator \<Rightarrow> task_meta \<Rightarrow> task_meta" where
  "after f m = (case f m of Inl _ \<Rightarrow> m | Inr (m', _) \<Rightarrow> m')"

text \<open>A start is \<open>mark_running\<close> below the owner's limit; \<open>Succeed\<close> needs the result's video.\<close>

fun apply_op :: "task_op \<Rightarrow> task_meta \<Rightarrow> task_meta" where
  "apply_op (Finalize now) m = (if tm_status m \<noteq> Initializing then m
     else m\<lparr>tm_status := Pending, tm_queued_at := At now, tm_updated_at := At now\<rparr>)"
| "apply_op (FailInitializing now reason) m = after (update_meta_if_mut now [Initializing]
     (\<lambda>m. m\<lparr>tm_status := Failed, tm_worker_id := [], tm_finished_at := At now, tm_error := reason\<rparr>)) m"
| "apply_op (SetImages now n names) m = after (set_task_images_mut now n names) m"
| "apply_op (SetPhase now phase reason) m = after (set_execution_phase_mut now phase reason) m"
| "apply_op (QueueVerified now) m = after (mark_retry_queue_verified_mut now) m"
| "apply_op (Start now worker) m =
     (if tm_status m \<noteq> Pending \<or> tm_cancel_requested m then m else start_run now worker m)"
| "apply_op (MarkPending now reason) m = after (mark_pending_mut now reason) m"
| "apply_op (Defer now reason category delay) m = after (defer_task_mut now reason category delay) m"
| "apply_op (MarkFailed now reason) m = after (mark_failed_mut now reason) m"
| "apply_op (MarkCanceled now reason) m = after (mark_canceled_mut now reason) m"
| "apply_op (CancelRequested now reason) m = after (mark_cancel_requested_mut now reason) m"
| "apply_op (BeginSubmission now) m = after (begin_task_submission_mut now) m"
| "apply_op (ReleaseSubmission now) m = after (release_task_submission_mut now) m"
| "apply_op (RequestCancel now reason allow) m = after (request_task_cancel_mut now reason allow) m"
| "apply_op (FailedAccount now account) m = after (record_failed_account_mut now account) m"
| "apply_op (Succeed now) m = after (update_meta_if_mut now [Running, Submitted] (succeed now)) m"
| "apply_op (LateSucceed now) m = after (update_meta_if_mut now [Failed]
     (\<lambda>m. (succeed now m)\<lparr>tm_late_result_watch_until := Unset\<rparr>)) m"
| "apply_op (MarkSubmitted now delay) m = after (mark_submitted_mut now delay) m"
| "apply_op (ResetSubmitted now) m = after (update_meta_if_mut now [Running] (\<lambda>m. m\<lparr>tm_status := Submitted,
     tm_worker_id := [], tm_submitted_at := stamp_or (tm_submitted_at m) (At now),
     tm_next_result_poll_at := At (now + secs 15), tm_finished_at := Unset, tm_error := msg_waiting_result\<rparr>)) m"
| "apply_op (RecordRetry now limit reason) m = after (record_retry_mut now limit reason) m"
| "apply_op (InfrastructureRetry now reason) m = after (record_infrastructure_retry_mut now reason) m"
| "apply_op (RetrySubmitted now k reason delay) m = after (retry_submitted_mut now k reason delay) m"
| "apply_op (RetryProxy now reason account node delay) m = after (retry_ambiguous_proxy_mut now reason account node delay) m"
| "apply_op (RetryAmbiguous now k reason delay) m = after (retry_ambiguous_submitted_mut now k reason delay) m"
| "apply_op (RetryTimedOut now k reason delay) m = after (retry_timed_out_mut now k reason delay) m"
| "apply_op (WatchMiss now reason) m = after (record_result_watch_miss_mut now reason) m"
| "apply_op (ExecutionMiss b now limit reason) m = after (record_execution_miss_mut b now limit reason) m"

lemmas task_muts = after_def update_meta_if_mut_def update_meta_mut_def set_task_images_mut_def
  set_execution_phase_mut_def mark_retry_queue_verified_mut_def mark_pending_mut_def
  defer_task_mut_def mark_failed_mut_def mark_canceled_mut_def mark_cancel_requested_mut_def
  begin_task_submission_mut_def release_task_submission_mut_def request_task_cancel_mut_def
  record_failed_account_mut_def mark_submitted_mut_def record_retry_mut_def
  record_infrastructure_retry_mut_def retry_submitted_mut_def retry_ambiguous_proxy_mut_def
  retry_ambiguous_submitted_mut_def retry_timed_out_mut_def record_result_watch_miss_mut_def
  record_execution_miss_mut_def start_run_def succeed_def

lemma history_frame [simp]:
  "tm_status (append_attempt_history now m r k) = tm_status m"
  "tm_retry_count (append_attempt_history now m r k) = tm_retry_count m"
  "tm_infrastructure_retry_count (append_attempt_history now m r k) = tm_infrastructure_retry_count m"
  "tm_submit_phase (append_attempt_history now m r k) = tm_submit_phase m"
  "tm_retry_started_at (append_attempt_history now m r k) = tm_retry_started_at m"
  "tm_infrastructure_retry_started_at (append_attempt_history now m r k) = tm_infrastructure_retry_started_at m"
  "tm_cancel_requested (append_attempt_history now m r k) = tm_cancel_requested m"
  by (simp_all add: append_attempt_history_def Let_def)

lemma terminal_frame [simp]:
  "tm_status (set_retry_terminal now r m) = Failed"
  "tm_retry_count (set_retry_terminal now r m) = tm_retry_count m"
  "tm_infrastructure_retry_count (set_retry_terminal now r m) = tm_infrastructure_retry_count m"
  "tm_submit_phase (set_retry_terminal now r m) = tm_submit_phase m"
  by (simp_all add: set_retry_terminal_def Let_def)

section \<open>Changes of status\<close>

inductive transition :: "task_status \<Rightarrow> task_status \<Rightarrow> bool" where
  stays: "transition s s"
| queued: "transition Initializing Pending"
| started: "transition Pending Running"
| requeued: "s \<in> {Running, Submitted} \<Longrightarrow> transition s Pending"
| sent: "transition Running Submitted"
| finished: "s \<in> {Running, Submitted} \<Longrightarrow> transition s Success"
| gave_up: "s \<in> {Initializing, Pending, Running, Submitted} \<Longrightarrow> transition s Failed"
| canceled: "s \<in> {Pending, Running, Submitted} \<Longrightarrow> transition s Canceled"
| late: "transition Failed Success"

inductive_cases transition_from_success: "transition Success s"
inductive_cases transition_from_canceled: "transition Canceled s"
inductive_cases transition_from_failed: "transition Failed s"
inductive_cases transition_to_initializing: "transition s Initializing"

definition guarded :: "task_op \<Rightarrow> bool" where
  "guarded op \<longleftrightarrow> (case op of ExecutionMiss _ _ _ _ \<Rightarrow> False | _ \<Rightarrow> True)"

lemma apply_op_transition:
  assumes "guarded op"
  shows "transition (tm_status m) (tm_status (apply_op op m))"
  using assms
  by (cases op; cases "tm_status m")
    (auto simp: task_muts over_def terminal_def guarded_def Let_def intro: transition.intros)

text \<open>What a run of transitions can do.\<close>

definition life :: "task_status \<Rightarrow> task_status \<Rightarrow> bool" where
  "life s t \<longleftrightarrow> (s \<in> {Success, Canceled} \<longrightarrow> t = s) \<and> (s = Failed \<longrightarrow> t \<in> {Failed, Success}) \<and>
     (s \<noteq> Initializing \<longrightarrow> t \<noteq> Initializing)"

lemma life_refl [simp]: "life s s"
  by (simp add: life_def)

lemma life_trans: "life s t \<Longrightarrow> life t r \<Longrightarrow> life s r"
  by (auto simp: life_def)

lemma transition_life: "transition s t \<Longrightarrow> life s t"
  by (induction rule: transition.induct) (auto simp: life_def)

lemma run_life: "\<forall>op \<in> set ops. guarded op \<Longrightarrow> life (tm_status m) (tm_status (fold apply_op ops m))"
proof (induction ops arbitrary: m)
  case (Cons op ops)
  from Cons.prems have g: "guarded op" "\<forall>op \<in> set ops. guarded op" by simp_all
  from life_trans [OF transition_life [OF apply_op_transition [OF g(1)]] Cons.IH [OF g(2)]]
  show ?case by (simp del: apply_op.simps)
qed simp


definition sample_request :: "ustr \<Rightarrow> task_request" where
  "sample_request i = \<lparr>rq_id = i, rq_prompt = [], rq_ratio = [], rq_platform = u ''dola'', rq_model = [],
     rq_image_task = False, rq_duration = 0, rq_batch_id = [], rq_batch_index = 0, rq_batch_row = 0,
     rq_idempotency_hash = [], rq_request_fingerprint = [], rq_request_route = [], rq_retry_of_task_id = []\<rparr>"

definition sample_meta :: "task_status \<Rightarrow> task_meta" where
  "sample_meta status = new_meta 0 (sample_request (u ''t'')) (u ''o'') status"

lemma sample_meta_fields [simp]:
  "tm_status (sample_meta s) = s" "tm_retry_count (sample_meta s) = 0"
  "tm_infrastructure_retry_count (sample_meta s) = 0" "\<not> tm_cancel_requested (sample_meta s)"
  "tm_submit_phase (sample_meta s) = []" "tm_owner (sample_meta s) = u ''o''"
  "tm_execution_phase (sample_meta s) = []" "tm_result_timeout_retry_count (sample_meta s) = 0"
  by (simp_all add: sample_meta_def new_meta_def)


section \<open>Retries are bounded\<close>

text \<open>The guarded operations, run with a retry limit that is at most \<open>limit\<close>.\<close>

definition within_limit :: "int \<Rightarrow> task_op \<Rightarrow> bool" where
  "within_limit limit op \<longleftrightarrow> (case op of
     RecordRetry _ k _ \<Rightarrow> k \<le> limit | RetrySubmitted _ k _ _ \<Rightarrow> k \<le> limit
   | RetryAmbiguous _ k _ _ \<Rightarrow> k \<le> limit | RetryTimedOut _ k _ _ \<Rightarrow> k \<le> limit
   | ExecutionMiss _ _ _ _ \<Rightarrow> False | _ \<Rightarrow> True)"

definition retries_ok :: "int \<Rightarrow> task_meta \<Rightarrow> bool" where
  "retries_ok limit m \<longleftrightarrow> tm_status m \<in> {Initializing, Pending, Running, Submitted} \<longrightarrow>
     tm_retry_count m \<le> limit \<and> tm_infrastructure_retry_count m \<le> max limit MAX_INFRASTRUCTURE_RETRIES"

lemma apply_op_retries:
  "within_limit limit op \<Longrightarrow> retries_ok limit m \<Longrightarrow> retries_ok limit (apply_op op m)"
  by (cases op; cases "tm_status m")
    (auto simp: task_muts over_def terminal_def within_limit_def retries_ok_def Let_def
      MAX_INFRASTRUCTURE_RETRIES_def split: if_splits)

text \<open>C27: A task that is not finished has used at most the limit of retries, and at most six (or
  the limit, if that is more) after connection faults: the retry beyond either bound fails the
  task instead of queueing it again.\<close>

theorem retries_bounded:
  assumes "\<forall>op \<in> set ops. within_limit limit op" "0 \<le> limit"
    and "tm_retry_count m = 0" "tm_infrastructure_retry_count m = 0"
    and "m' = fold apply_op ops m" "tm_status m' \<in> {Initializing, Pending, Running, Submitted}"
  shows "tm_retry_count m' \<le> limit \<and> tm_infrastructure_retry_count m' \<le> max limit 6"
proof -
  have start: "retries_ok limit m"
    using assms(2-4) by (simp add: retries_ok_def MAX_INFRASTRUCTURE_RETRIES_def le_max_iff_disj)
  have "retries_ok limit (fold apply_op ops m)"
    using assms(1) start by (induction ops arbitrary: m) (simp_all add: apply_op_retries del: apply_op.simps)
  with assms(5,6) show ?thesis by (simp add: retries_ok_def MAX_INFRASTRUCTURE_RETRIES_def)
qed

theorem retries_bounded_witness:
  "let m' = fold apply_op [Start 1 (u ''w''), RecordRetry 2 1 (u ''x''), Start 3 (u ''w'')] (sample_meta Pending)
   in tm_status m' = Running \<and> tm_retry_count m' \<le> 1"
proof -
  let ?ops = "[Start 1 (u ''w''), RecordRetry 2 1 (u ''x''), Start 3 (u ''w'')]"
  have "\<forall>op \<in> set ?ops. within_limit 1 op" by (simp add: within_limit_def)
  note main = retries_bounded [OF this _ _ _ refl, of "sample_meta Pending"]
  have run: "tm_status (fold apply_op ?ops (sample_meta Pending)) = Running"
    by (simp add: start_run_def record_retry_mut_def after_def over_def Let_def)
  with main show ?thesis by (simp del: apply_op.simps add: Let_def)
qed

section \<open>One submission at a time\<close>

text \<open>The operations that end a commitment: they start a new run or say that it is over.\<close>

definition keeps_commitment :: "task_op \<Rightarrow> bool" where
  "keeps_commitment op \<longleftrightarrow> (case op of
     Start _ _ \<Rightarrow> False | ReleaseSubmission _ \<Rightarrow> False | MarkSubmitted _ _ \<Rightarrow> False
   | RetryProxy _ _ _ _ _ \<Rightarrow> False | RetryAmbiguous _ _ _ _ \<Rightarrow> False | _ \<Rightarrow> True)"

lemma apply_op_commitment:
  "keeps_commitment op \<Longrightarrow> tm_submit_phase m = u ''committing'' \<Longrightarrow>
     tm_submit_phase (apply_op op m) = u ''committing''"
  by (cases op) (auto simp: task_muts keeps_commitment_def Let_def split: if_splits)

text \<open>Once a caller was told to submit, nobody else is told so and no user can cancel the task
  until the commitment is released, the request is marked submitted or a new run starts,
  whatever other operations happen in between.\<close>

theorem submission_exclusive:
  assumes "begin_task_submission_mut now m = Inr (m1, True, w)"
    and "\<forall>op \<in> set ops. keeps_commitment op" "m' = fold apply_op ops m1"
  shows "begin_task_submission_mut now' m' = Inr (m', False, False) \<and>
    request_task_cancel_mut now' reason False m' = Inr (m', (False, m'), False)"
proof -
  from assms(1) have "tm_submit_phase m1 = u ''committing''"
    by (auto simp: begin_task_submission_mut_def split: if_splits)
  then have "tm_submit_phase (fold apply_op ops m1) = u ''committing''"
    using assms(2) by (induction ops arbitrary: m1) (simp_all add: apply_op_commitment del: apply_op.simps)
  then show ?thesis
    by (simp add: assms(3) begin_task_submission_mut_def request_task_cancel_mut_def)
qed

theorem submission_exclusive_witness:
  "\<exists>m1. begin_task_submission_mut 1 (sample_meta Running) = Inr (m1, True, True) \<and>
     begin_task_submission_mut 9 (fold apply_op [SetPhase 2 [] [], WatchMiss 3 []] m1) =
       Inr (fold apply_op [SetPhase 2 [] [], WatchMiss 3 []] m1, False, False)"
proof -
  obtain m1 where b: "begin_task_submission_mut 1 (sample_meta Running) = Inr (m1, True, True)"
    by (simp add: begin_task_submission_mut_def)
  have "\<forall>op \<in> set [SetPhase 2 [] [], WatchMiss 3 []]. keeps_commitment op" by (simp add: keeps_commitment_def)
  from submission_exclusive [OF b this refl, of 9 "[]"] b show ?thesis by blast
qed

end
