(* ===== verification/Task_Lists_Props.thy ===== *)
theory Task_Lists_Props
  imports Task_Props
begin

text \<open>
  The store as a whole: claiming within the owners' limits and in the queue's order, idempotent
  creation, cleaning up, and restarting.
\<close>

section \<open>Running on one row\<close>

lemma dropWhile_none: "\<forall>c \<in> set s. \<not> P c \<Longrightarrow> dropWhile P s = s"
  by (cases s) simp_all

lemma strip_id: "\<forall>c \<in> set s. \<not> is_space c \<Longrightarrow> strip s = s"
  by (simp add: strip_def dropWhile_none)

lemma hex_char: "is_hex_char c \<Longrightarrow> \<not> is_space c \<and> lower_char c = c"
  by (auto simp: is_hex_char_def is_space_def lower_char_def)

lemma validate_ok [simp]: "is_task_id t \<Longrightarrow> validate_task_id t = Inr t"
proof -
  assume t: "is_task_id t"
  then have "strip t = t" by (intro strip_id) (auto simp: is_task_id_def hex_char)
  moreover have "lower t = t" using t unfolding lower_def is_task_id_def
    by (intro map_idI) (auto simp: hex_char)
  ultimately show ?thesis using t by (simp add: validate_task_id_def)
qed

lemma locked_ok [simp]: "is_task_id t \<Longrightarrow> locked b t k = k t"
  by (simp add: locked_def split: backend.split)

lemma get_meta_ok: "is_task_id t \<Longrightarrow> get_meta b store t = Inr m \<longleftrightarrow>
    (\<exists>row. map_of store t = Some row \<and> tr_meta row = m)"
  by (simp add: get_meta_def split: option.split)

lemma mutate_meta_cases:
  assumes "is_task_id t" "mutate_meta b store t f = Inr (store', r)"
  obtains row m' w where "map_of store t = Some row" "f (tr_meta row) = Inr (m', r, w)"
    "map_of store' = (map_of store)(t \<mapsto> row\<lparr>tr_meta := m'\<rparr>) \<or> (\<not> w \<and> store' = store)"
proof -
  from assms have "run_row b FileNotFoundError store t (on_meta f) = Inr (store', r)"
    by (simp add: mutate_meta_def)
  then show ?thesis
  proof (rule any_rows.run_Inr)
    fix row row' w
    assume a: "map_of store t = Some row" "on_meta f row = Inr (row', r, w)"
      "map_of store' = (map_of store)(t \<mapsto> row') \<or> (\<not> w \<and> store' = store)"
    then obtain m' where "f (tr_meta row) = Inr (m', r, w)" "row' = row\<lparr>tr_meta := m'\<rparr>"
      by (cases "f (tr_meta row)") (auto simp: on_meta_def)
    with a that show ?thesis by blast
  qed
qed

text \<open>A change of one row: the other rows and the keys stay.\<close>

definition touches_only :: "ustr \<Rightarrow> task_store \<Rightarrow> task_store \<Rightarrow> bool" where
  "touches_only t store store' \<longleftrightarrow>
     (\<forall>t'. t' \<noteq> t \<longrightarrow> map_of store' t' = map_of store t') \<and> map fst store' = map fst store"

lemma touches_refl [simp]: "touches_only t store store"
  by (simp add: touches_only_def)

lemma touches_trans: "touches_only t s1 s2 \<Longrightarrow> touches_only t s2 s3 \<Longrightarrow> touches_only t s1 s3"
  by (simp add: touches_only_def)

lemma run_row_touches:
  assumes "run_row b e store t f = Inr (store', r)"
  shows "touches_only t store store'"
  using any_rows.run_frame [OF assms] run_row_keys [OF assms] by (simp add: touches_only_def)

lemma mutate_meta_touches:
  "is_task_id t \<Longrightarrow> mutate_meta b store t f = Inr (store', r) \<Longrightarrow> touches_only t store store'"
  by (simp add: mutate_meta_def run_row_touches)

lemma mutate_result_touches:
  "is_task_id t \<Longrightarrow> mutate_result b store t f = Inr (store', r) \<Longrightarrow> touches_only t store store'"
  by (simp add: mutate_result_def run_row_touches)

section \<open>Starting a task\<close>

lemma running_of_start:
  assumes "map_of store t = Some row" "tm_status (tr_meta row) \<noteq> Running" "tm_owner m' = tm_owner (tr_meta row)"
    "tm_status m' = Running"
  shows "running_of owner (AList.update t (row\<lparr>tr_meta := m'\<rparr>) store) =
    running_of owner store + (if owner = tm_owner (tr_meta row) then 1 else 0)"
proof -
  let ?g = "\<lambda>p :: ustr \<times> task_row. if tm_owner (tr_meta (snd p)) = owner \<and> tm_status (tr_meta (snd p)) = Running
    then 1 else (0 :: int)"
  have as_sum: "running_of owner st = sum_list (map ?g st)" for st
    unfolding running_of_def by (induction st) auto
  show ?thesis unfolding as_sum sum_update [OF assms(1), of ?g] using assms(2-4) by simp
qed

lemma start_run_fields [simp]:
  "tm_status (start_run now worker m) = Running" "tm_owner (start_run now worker m) = tm_owner m"
  "tm_worker_id (start_run now worker m) = worker" "tm_attempt (start_run now worker m) = max 0 (tm_attempt m) + 1"
  by (simp_all add: start_run_def)

lemma mark_running_True:
  assumes "is_task_id t" "mark_running b now paused store t worker limits = Inr (store', True)"
  obtains row where "map_of store t = Some row" "tm_status (tr_meta row) = Pending"
    "\<not> tm_cancel_requested (tr_meta row)" "\<not> paused"
    "store' = AList.update t (row\<lparr>tr_meta := start_run now worker (tr_meta row)\<rparr>) store"
    "\<And>l. b = Postgres \<Longrightarrow> tm_owner (tr_meta row) \<noteq> [] \<Longrightarrow> limits (tm_owner (tr_meta row)) = Some l \<Longrightarrow>
       running_of (tm_owner (tr_meta row)) store < max 1 l"
proof -
  define f :: "task_meta \<Rightarrow> (task_meta \<times> bool \<times> bool) result" where "f m = (if tm_status m \<noteq> Pending \<or> tm_cancel_requested m then Inr (m, False, False)
        else case (if b = Postgres \<and> tm_owner m \<noteq> [] then limits (tm_owner m) else None) of
               Some l \<Rightarrow> if max 1 l \<le> running_of (tm_owner m) store then Inr (m, False, False)
                 else Inr (start_run now worker m, True, True)
             | None \<Rightarrow> Inr (start_run now worker m, True, True))" for m
  from assms have p: "\<not> paused" and run: "run_row b FileNotFoundError store t (on_meta f) = Inr (store', True)"
    by (auto simp: mark_running_def mutate_meta_def f_def [abs_def] split: if_splits)
  from any_rows.run_Inr [OF run] obtain row row' w where row: "map_of store t = Some row"
    and fr: "on_meta f row = Inr (row', True, w)" by metis
  let ?m = "tr_meta row"
  from fr have st: "tm_status ?m = Pending" "\<not> tm_cancel_requested ?m"
    by (auto simp: on_meta_def f_def split: if_splits)
  have lim: "running_of (tm_owner ?m) store < max 1 l"
    if "b = Postgres" "tm_owner ?m \<noteq> []" "limits (tm_owner ?m) = Some l" for l
    using fr st that by (auto simp: on_meta_def f_def split: if_splits)
  have "on_meta f row = Inr (row\<lparr>tr_meta := start_run now worker ?m\<rparr>, True, True)"
    using fr st by (auto simp: on_meta_def f_def split: if_splits option.splits)
  from any_rows.run_written [OF row, where f = "on_meta f", OF this, where e = FileNotFoundError and b = b] run
  have "store' = AList.update t (row\<lparr>tr_meta := start_run now worker ?m\<rparr>) store" by simp
  with that row st p lim show ?thesis by blast
qed

text \<open>A worker that is given a task to run is the only one: the task was pending and not
  canceled, is running under that worker with one more attempt, no other task changed, every
  further attempt to start it is refused, and with PostgreSQL the owner never has more running
  tasks than its limit (at least one).\<close>

theorem mark_running_exclusive:
  assumes "is_task_id t" "mark_running b now paused store t worker limits = Inr (store', True)"
  shows "\<exists>row. map_of store t = Some row \<and> tm_status (tr_meta row) = Pending \<and> \<not> tm_cancel_requested (tr_meta row) \<and>
    map_of store' = (map_of store)(t \<mapsto> row\<lparr>tr_meta := start_run now worker (tr_meta row)\<rparr>) \<and>
    (\<forall>l. b = Postgres \<and> tm_owner (tr_meta row) \<noteq> [] \<and> limits (tm_owner (tr_meta row)) = Some l \<longrightarrow>
       running_of (tm_owner (tr_meta row)) store' \<le> max 1 l) \<and>
    (\<forall>b' now' paused' worker' limits' store'' r.
       mark_running b' now' paused' store' t worker' limits' = Inr (store'', r) \<longrightarrow> \<not> r)"
proof -
  obtain row where row: "map_of store t = Some row" "tm_status (tr_meta row) = Pending"
    "\<not> tm_cancel_requested (tr_meta row)"
    and store': "store' = AList.update t (row\<lparr>tr_meta := start_run now worker (tr_meta row)\<rparr>) store"
    and lim: "\<And>l. b = Postgres \<Longrightarrow> tm_owner (tr_meta row) \<noteq> [] \<Longrightarrow> limits (tm_owner (tr_meta row)) = Some l \<Longrightarrow>
       running_of (tm_owner (tr_meta row)) store < max 1 l"
    by (rule mark_running_True [OF assms]) blast
  have n: "running_of (tm_owner (tr_meta row)) store' = running_of (tm_owner (tr_meta row)) store + 1"
    unfolding store' by (subst running_of_start [OF row(1)]) (use row(2) in simp_all)
  have again: "\<not> r" if "mark_running b' now' paused' store' t worker' limits' = Inr (store'', r)"
    for b' now' paused' worker' limits' store'' r
  proof
    assume r
    with that have "mark_running b' now' paused' store' t worker' limits' = Inr (store'', True)" by simp
    then show False
      by (rule mark_running_True [OF assms(1)]) (simp add: store' update_conv')
  qed
  have bound: "running_of (tm_owner (tr_meta row)) store' \<le> max 1 l"
    if "b = Postgres" "tm_owner (tr_meta row) \<noteq> []" "limits (tm_owner (tr_meta row)) = Some l" for l
    using lim [OF that] n by simp
  have "map_of store' = (map_of store)(t \<mapsto> row\<lparr>tr_meta := start_run now worker (tr_meta row)\<rparr>)"
    by (simp add: store' update_conv')
  with row bound again show ?thesis by blast
qed

definition sample_id :: ustr where
  "sample_id = u ''00000000000000000000000000000001''"

lemma sample_id_ok [simp]: "is_task_id sample_id"
  by (simp add: is_task_id_def sample_id_def u_def is_hex_char_def)

theorem mark_running_exclusive_witness:
  "\<exists>store'. mark_running Postgres 5 False [(sample_id, \<lparr>tr_meta = sample_meta Pending, tr_result = []\<rparr>)]
       sample_id (u ''w'') (\<lambda>_. Some 1) = Inr (store', True) \<and>
     (\<exists>row. map_of store' sample_id = Some row \<and> tm_worker_id (tr_meta row) = u ''w'')"
proof -
  let ?store = "[(sample_id, \<lparr>tr_meta = sample_meta Pending, tr_result = []\<rparr>)]"
  have "running_of (u ''o'') ?store = 0" by (simp add: running_of_def)
  then obtain store' where run: "mark_running Postgres 5 False ?store sample_id (u ''w'') (\<lambda>_. Some 1) = Inr (store', True)"
    by (simp add: mark_running_def mutate_meta_def run_row_def pg_mutate_def on_meta_def)
  from mark_running_exclusive [OF sample_id_ok run] obtain row where
    "map_of store' = (map_of ?store)(sample_id \<mapsto> row\<lparr>tr_meta := start_run 5 (u ''w'') (tr_meta row)\<rparr>)" by blast
  with run show ?thesis by simp
qed

section \<open>Listing changes only what expired\<close>

lemma fail_task_touches:
  "is_task_id t \<Longrightarrow> fail_task b now store t reason = Inr store' \<Longrightarrow> touches_only t store store'"
  unfolding fail_task_def map_sum_Inr by (elim exE conjE) (case_tac x, simp add: mutate_meta_touches)

lemma quietly_Inr:
  assumes "quietly store r0 res = Inr (store', r)"
  shows "res = Inr (store', r) \<or> store' = store"
proof (cases res)
  case (Inl e)
  with assms show ?thesis by (cases e) (simp_all add: quietly_def)
qed (use assms in \<open>simp add: quietly_def\<close>)

lemma mark_result_once_touches:
  assumes "is_task_id t" "mark_result_once b stamp store t key v = Inr (store', r)"
  shows "touches_only t store store'"
proof -
  let ?res = "mutate_result b store t (mark_result_once_mut stamp key v)"
  have "?res = Inr (store', r) \<or> store' = store"
    using assms(2) quietly_Inr [of store False ?res store' r] by (cases b) (simp_all add: mark_result_once_def Let_def)
  with mutate_result_touches [OF assms(1)] show ?thesis by auto
qed

lemma expire_touches:
  assumes "is_task_id t" "expire_task_if_timeout sv b now stamp sw t = Inr (sw', r)"
  shows "touches_only t (fst sw) (fst sw')"
proof -
  obtain m where m: "get_meta b (fst sw) t = Inr m"
    using assms(2) by (cases "get_meta b (fst sw) t") (simp_all add: expire_task_if_timeout_def)
  obtain d where d: "load_result b (fst sw) t = Inr d"
    using assms(1) by (cases "map_of (fst sw) t") (simp_all add: load_result_def)
  let ?reason = "if 0 < max 0 (tm_retry_count m) \<and> tm_status m \<in> set [Running, Submitted]
    then msg_retry_expired else msg_task_expired"
  show ?thesis
  proof (cases "is_task_expired now m \<and> \<not> has_value d (u ''decoded_main_url'')")
    case False
    then have "sw' = sw" using assms(2) m d by (cases "is_task_expired now m") (simp_all add: expire_task_if_timeout_def)
    then show ?thesis by simp
  next
    case True
    then obtain store1 where s1: "fail_task b now (fst sw) t ?reason = Inr store1"
      using assms(2) m d
      by (cases "fail_task b now (fst sw) t ?reason") (simp_all add: expire_task_if_timeout_def Let_def)
    note t1 = fail_task_touches [OF assms(1) s1]
    have e: "is_task_expired now m = True" "has_value d (u ''decoded_main_url'') = False" using True by simp_all
    define w1 where "w1 = (if str_value d (u ''account_id'') = [] then snd sw
                      else sv_clear sv (str_value d (u ''account_id'')) t
                        (sv_exhaust sv (str_value d (u ''account_id'')) (str_value d (u ''account_quota_charge_id'')) (snd sw)))"
    have res: "Inr (sw', r) = (if tm_owner m = [] then Inr ((store1, w1), True)
                    else let (w2, refunded) = sv_refund sv (tm_owner m) t w1
                         in if \<not> refunded then Inr ((store1, w2), True)
                            else map_sum id (\<lambda>(store2, _). ((store2, w2), True))
                              (mark_result_once b stamp store1 t (u ''temp_quota_refunded'') (JBool True)))"
      using assms(2)
      by (simp only: expire_task_if_timeout_def m d s1 sum.case e if_False not_True_eq_False Let_def w1_def
          [symmetric] simp_thms)
    obtain w2 refunded where ref: "sv_refund sv (tm_owner m) t w1 = (w2, refunded)" by (metis surj_pair)
    show ?thesis
    proof (cases "tm_owner m = [] \<or> \<not> refunded")
      case True
      with res ref have "fst sw' = store1" by (auto split: if_splits)
      with t1 show ?thesis by simp
    next
      case False
      with res ref have "map_sum id (\<lambda>(store2, _). ((store2, w2), True))
          (mark_result_once b stamp store1 t (u ''temp_quota_refunded'') (JBool True)) = Inr (sw', r)" by simp
      then obtain x where "mark_result_once b stamp store1 t (u ''temp_quota_refunded'') (JBool True) = Inr (fst sw', x)"
        unfolding map_sum_Inr by (auto split: prod.splits)
      from touches_trans [OF t1 mark_result_once_touches [OF assms(1) this]] show ?thesis .
    qed
  qed
qed

text \<open>What a listing returns: current meta parts, one item per task, in the order of the identifiers.\<close>

definition listed :: "task_store \<Rightarrow> (ustr \<times> task_meta) list \<Rightarrow> bool" where
  "listed store items \<longleftrightarrow> distinct (map fst items) \<and>
     (\<forall>(t, m) \<in> set items. is_task_id t \<and> (\<exists>row. map_of store t = Some row \<and> tr_meta row = m))"

lemma listed_frame:
  assumes "listed store items" "t \<notin> set (map fst items)" "touches_only t store store'"
  shows "listed store' items"
  unfolding listed_def split_beta
proof (intro conjI ballI)
  show "distinct (map fst items)" using assms(1) by (simp add: listed_def)
  fix p assume p: "p \<in> set items"
  with assms(2) have "fst p \<noteq> t" by auto
  with assms(3) have "map_of store' (fst p) = map_of store (fst p)" by (simp add: touches_only_def)
  with assms(1) p show "is_task_id (fst p)" "\<exists>row. map_of store' (fst p) = Some row \<and> tr_meta row = snd p"
    by (auto simp: listed_def)
qed

lemma list_loop_listed:
  "list_loop sv b now stamp owner ts sw items = Inr (sw', items') \<Longrightarrow> distinct ts \<Longrightarrow>
    set ts \<inter> set (map fst items) = {} \<Longrightarrow> listed (fst sw) items \<Longrightarrow>
    listed (fst sw') items' \<and> map fst (fst sw') = map fst (fst sw)"
proof (induction ts arbitrary: sw items)
  case (Cons t ts)
  have dt: "distinct ts" "t \<notin> set ts" "t \<notin> set (map fst items)" "set ts \<inter> set (map fst items) = {}"
    using Cons.prems(2,3) by auto
  show ?case
  proof (cases "is_task_id t \<and> map_of (fst sw) t \<noteq> None")
    case False
    with Cons.prems(1) have "list_loop sv b now stamp owner ts sw items = Inr (sw', items')"
      by (cases "is_task_id t"; cases "map_of (fst sw) t") simp_all
    from Cons.IH [OF this dt(1,4) Cons.prems(4)] show ?thesis .
  next
    case True
    then obtain row where row: "is_task_id t" "map_of (fst sw) t = Some row" by auto
    define step where "step = (if is_task_expired now (tr_meta row)
      then map_sum id fst (expire_task_if_timeout sv b now stamp sw t) else Inr sw)"
    have unfold: "list_loop sv b now stamp owner (t # ts) sw items = (case step of Inl e \<Rightarrow> Inl e
       | Inr sw1 \<Rightarrow> (case get_meta b (fst sw1) t of Inl e \<Rightarrow> Inl e
          | Inr m \<Rightarrow> list_loop sv b now stamp owner ts sw1
             (if owner \<noteq> None \<and> owner \<noteq> Some (tm_owner m) then items else items @ [(t, m)])))"
      by (simp add: row step_def)
    obtain sw1 where sw1: "step = Inr sw1" using Cons.prems(1) unfolding unfold by (cases step) simp_all
    obtain m where m: "get_meta b (fst sw1) t = Inr m"
      using Cons.prems(1) unfolding unfold sw1 by (cases "get_meta b (fst sw1) t") simp_all
    have rest: "list_loop sv b now stamp owner ts sw1
        (if owner \<noteq> None \<and> owner \<noteq> Some (tm_owner m) then items else items @ [(t, m)]) = Inr (sw', items')"
      using Cons.prems(1) unfolding unfold sw1 by (simp add: m)
    have f: "touches_only t (fst sw) (fst sw1)"
    proof (cases "is_task_expired now (tr_meta row)")
      case True
      with sw1 have "map_sum id fst (expire_task_if_timeout sv b now stamp sw t) = Inr sw1" by (simp add: step_def)
      then obtain r where "expire_task_if_timeout sv b now stamp sw t = Inr (sw1, r)"
        unfolding map_sum_Inr by auto
      from expire_touches [OF row(1) this] show ?thesis .
    next
      case False
      with sw1 show ?thesis by (simp add: step_def)
    qed
    then have keys: "map fst (fst sw1) = map fst (fst sw)" by (simp add: touches_only_def)
    have l: "listed (fst sw1) items" by (rule listed_frame [OF Cons.prems(4) dt(3) f])
    have "\<exists>r. map_of (fst sw1) t = Some r \<and> tr_meta r = m" using m row(1) by (simp add: get_meta_ok)
    then have l2: "listed (fst sw1) (items @ [(t, m)])"
      using l dt(3) row(1) by (auto simp: listed_def)
    have d2: "set ts \<inter> set (map fst (items @ [(t, m)])) = {}" using dt by auto
    show ?thesis
    proof (cases "owner \<noteq> None \<and> owner \<noteq> Some (tm_owner m)")
      case True
      with rest have "list_loop sv b now stamp owner ts sw1 items = Inr (sw', items')" by simp
      from Cons.IH [OF this dt(1,4) l] keys show ?thesis by simp
    next
      case False
      with rest have "list_loop sv b now stamp owner ts sw1 (items @ [(t, m)]) = Inr (sw', items')"
        by (simp only: if_False)
      from Cons.IH [OF this dt(1) d2 l2] keys show ?thesis by simp
    qed
  qed
qed simp

lemma list_tasks_listed:
  assumes "list_tasks sv b now stamp owner sw = Inr (sw', items)" "distinct (map fst (fst sw))"
  shows "listed (fst sw') items" "map fst (fst sw') = map fst (fst sw)"
proof -
  let ?ts = "map fst (filter (\<lambda>(_, row). b = LocalFile \<or> owner = None \<or> owner = Some (tm_owner (tr_meta row))) (fst sw))"
  from assms(1) obtain x where "list_loop sv b now stamp owner ?ts sw [] = Inr x"
    "(sw', items) = (\<lambda>(sw', items). (sw', sort_desc (\<lambda>(i, m). (tm_created_at m, i)) items)) x"
    unfolding list_tasks_def map_sum_Inr by blast
  then obtain items0 where loop: "list_loop sv b now stamp owner ?ts sw [] = Inr (sw', items0)"
    and items: "items = sort_desc (\<lambda>(i, m). (tm_created_at m, i)) items0" by (cases x) simp
  have "distinct ?ts" using assms(2) by (rule distinct_map_filter)
  from list_loop_listed [OF loop this] have l: "listed (fst sw') items0" "map fst (fst sw') = map fst (fst sw)"
    by (simp_all add: listed_def)
  have "mset (map fst items) = mset (map fst items0)" by (simp add: items sort_desc_def)
  then have "distinct (map fst items)" using l(1) mset_eq_imp_distinct_iff unfolding listed_def by blast
  with l(1) show "listed (fst sw') items" by (simp add: listed_def items)
  show "map fst (fst sw') = map fst (fst sw)" by (rule l(2))
qed

section \<open>Claiming from local files\<close>

definition claimable :: "int \<Rightarrow> (ustr \<Rightarrow> int option) \<Rightarrow> (ustr \<Rightarrow> int) \<Rightarrow> task_meta \<Rightarrow> bool" where
  "claimable now limits active m \<longleftrightarrow> due now m \<and> \<not> is_task_expired now m \<and>
     below_limit limits active (tm_owner m) \<and> \<not> tm_cancel_requested m"

lemma mark_running_file:
  assumes "is_task_id t" "map_of store t = Some row" "tm_status (tr_meta row) = Pending" "\<not> tm_cancel_requested (tr_meta row)"
  shows "mark_running LocalFile now False store t worker limits =
    Inr (AList.update t (row\<lparr>tr_meta := start_run now worker (tr_meta row)\<rparr>) store, True)"
  using assms by (simp add: mark_running_def mutate_meta_def run_row_def file_mutate_def on_meta_def)

lemma listed_tl: "listed store ((t, m) # cs) \<Longrightarrow> listed store cs \<and> t \<notin> set (map fst cs)"
  by (auto simp: listed_def)

lemma claim_loop_first:
  "claim_loop sv now stamp worker limits active cs sw = Inr (sw', r) \<Longrightarrow> listed (fst sw) cs \<Longrightarrow>
    (\<forall>(t, m) \<in> set cs. tm_status m = Pending) \<Longrightarrow>
    (case r of
       None \<Rightarrow> \<forall>(t, m) \<in> set cs. \<not> claimable now limits active m
     | Some (t, m) \<Rightarrow> claimable now limits active m \<and>
         (\<exists>pre post. cs = pre @ (t, m) # post \<and> (\<forall>(t', m') \<in> set pre. \<not> claimable now limits active m')) \<and>
         (\<exists>row. map_of (fst sw') t = Some row \<and> tr_meta row = start_run now worker m))"
proof (induction cs arbitrary: sw)
  case (Cons p cs)
  obtain t m where p: "p = (t, m)" by (cases p)
  note tl = listed_tl [OF Cons.prems(2) [unfolded p]]
  have pend: "\<forall>(t, m) \<in> set cs. tm_status m = Pending" using Cons.prems(3) by simp
  have skip: ?case if no: "\<not> claimable now limits active m"
    and run: "claim_loop sv now stamp worker limits active cs sw1 = Inr (sw', r)" and l: "listed (fst sw1) cs" for sw1
  proof (cases r)
    case None
    with Cons.IH [OF run l pend] no show ?thesis by (simp add: p)
  next
    case (Some q)
    obtain t1 m1 where q: "q = (t1, m1)" by (cases q)
    from Cons.IH [OF run l pend] Some q obtain pre post where
      "claimable now limits active m1" "cs = pre @ (t1, m1) # post"
      "\<forall>(t', m') \<in> set pre. \<not> claimable now limits active m'"
      "\<exists>row. map_of (fst sw') t1 = Some row \<and> tr_meta row = start_run now worker m1" by auto
    then show ?thesis using no Some q p
      by (simp, intro exI [of _ "(t, m) # pre"] exI [of _ post]) simp
  qed
  show ?case
  proof (cases "due now m")
    case False
    with Cons.prems(1) p have "claim_loop sv now stamp worker limits active cs sw = Inr (sw', r)" by simp
    from skip [OF _ this] tl False show ?thesis by (simp add: claimable_def)
  next
    case d: True
    show ?thesis
    proof (cases "is_task_expired now m")
      case True
      with Cons.prems(1) p d obtain sw1 x where e: "expire_task_if_timeout sv LocalFile now stamp sw t = Inr (sw1, x)"
        and run: "claim_loop sv now stamp worker limits active cs sw1 = Inr (sw', r)"
        by (cases "expire_task_if_timeout sv LocalFile now stamp sw t") auto
      have "is_task_id t" using Cons.prems(2) p by (simp add: listed_def)
      from listed_frame [OF conjunct1 [OF tl] conjunct2 [OF tl] expire_touches [OF this e]]
      have "listed (fst sw1) cs" .
      with skip [OF _ run] True show ?thesis by (simp add: claimable_def)
    next
      case e: False
      show ?thesis
      proof (cases "below_limit limits active (tm_owner m) \<and> \<not> tm_cancel_requested m")
        case False
        with Cons.prems(1) p d e have "claim_loop sv now stamp worker limits active cs sw = Inr (sw', r)" by simp
        from skip [OF _ this] tl False show ?thesis by (auto simp: claimable_def)
      next
        case True
        from Cons.prems(2,3) p obtain row where row: "is_task_id t" "map_of (fst sw) t = Some row" "tr_meta row = m"
          "tm_status m = Pending" by (auto simp: listed_def)
        have mr: "mark_running LocalFile now False (fst sw) t worker limits =
            Inr (AList.update t (row\<lparr>tr_meta := start_run now worker m\<rparr>) (fst sw), True)"
          using mark_running_file [OF row(1,2)] row(3,4) True by simp
        have "r = Some (t, m)" "fst sw' = AList.update t (row\<lparr>tr_meta := start_run now worker m\<rparr>) (fst sw)"
          using Cons.prems(1) p d e True mr by auto
        with p d e True show ?thesis
          by (simp add: claimable_def update_conv') (rule exI [of _ "[]"], simp)
      qed
    qed
  qed
qed simp

lemma set_claim_order [simp]: "set (claim_order streak cs) = set cs"
  by (auto simp: claim_order_def Let_def)

lemma listed_same: "listed store cs \<Longrightarrow> mset ds = mset cs \<Longrightarrow> listed store ds"
  by (metis (no_types, lifting) listed_def mset_eq_imp_distinct_iff mset_eq_setD mset_map)

lemma listed_filter: "listed store cs \<Longrightarrow> listed store (filter P cs)"
  by (auto simp: listed_def distinct_map_filter)

lemma mset_claim_order: "mset (claim_order streak cs) = mset cs"
proof -
  have "mset (filter (\<lambda>(_, m). is_retry m) xs) + mset (filter (\<lambda>(_, m). \<not> is_retry m) xs) = mset xs" for xs :: "(ustr \<times> task_meta) list"
    by (induction xs) auto
  from this [of "sort_key claim_key cs"] show ?thesis
    by (auto simp: claim_order_def Let_def add.commute)
qed

lemma front_subset: "r @ i = pre @ x # post \<Longrightarrow> x \<notin> set r \<Longrightarrow> set r \<subseteq> set pre"
proof (induction r arbitrary: pre)
  case (Cons y r)
  show ?case
  proof (cases pre)
    case Nil
    with Cons.prems show ?thesis by auto
  next
    case (Cons z pre')
    with Cons.prems Cons.IH [of pre'] show ?thesis by auto
  qed
qed simp

text \<open>After a burst the retries come first.\<close>

lemma claim_order_retries:
  assumes "claim_order streak cs = pre @ (t, m) # post" "INITIAL_CLAIM_BURST \<le> streak" "\<not> is_retry m"
    "(t', m') \<in> set cs" "is_retry m'"
  shows "(t', m') \<in> set pre"
proof -
  let ?s = "sort_key claim_key cs"
  let ?r = "filter (\<lambda>(_, m). is_retry m) ?s" and ?i = "filter (\<lambda>(_, m). \<not> is_retry m) ?s"
  have mem: "(t', m') \<in> set ?r" using assms(4,5) by simp
  then have "?r \<noteq> []" by (metis empty_iff list.set(1))
  with assms(1,2) have split: "?r @ ?i = pre @ (t, m) # post" by (simp add: claim_order_def Let_def)
  have "(t, m) \<notin> set ?r" using assms(3) by simp
  from front_subset [OF split this] mem show ?thesis by blast
qed

text \<open>A claim from local files takes the first task, in the claim order, that is pending, due,
  not expired, not canceled and whose owner is below its limit, and starts it; it finds nothing
  only when there is no such task; and after three first attempts in a row it takes a retry
  whenever one of those tasks is a retry.\<close>

theorem claim_takes_first:
  assumes "distinct (map fst (fst (cs_world s)))"
    and "list_tasks sv LocalFile now stamp None (cs_world s) = Inr (sw, items)"
    and "claim_next_pending sv now stamp False worker claimed supplied limits s = Inr (s', r)"
    and "active = (\<lambda>owner. max (max 0 (supplied owner)) (running_count owner items))"
    and "order = claim_order (cs_streak s) (filter (\<lambda>(t, m). t \<notin> set claimed \<and> tm_status m = Pending) items)"
  shows "case r of
      None \<Rightarrow> \<forall>(t, m) \<in> set order. \<not> claimable now limits active m
    | Some t \<Rightarrow> \<exists>m pre post row. order = pre @ (t, m) # post \<and> claimable now limits active m \<and>
        (\<forall>(t', m') \<in> set pre. \<not> claimable now limits active m') \<and>
        map_of (fst (cs_world s')) t = Some row \<and> tr_meta row = start_run now worker m \<and>
        cs_streak s' = (if is_retry m then 0 else cs_streak s + 1) \<and>
        (3 \<le> cs_streak s \<and> (\<exists>(t', m') \<in> set order. is_retry m' \<and> claimable now limits active m') \<longrightarrow> is_retry m)"
proof -
  let ?cands = "filter (\<lambda>(t, m). t \<notin> set claimed \<and> tm_status m = Pending) items"
  have l: "listed (fst sw) order"
    unfolding assms(5)
    by (rule listed_same [OF listed_filter [OF list_tasks_listed(1) [OF assms(2,1)]] mset_claim_order])
  have pend: "\<forall>(t, m) \<in> set order. tm_status m = Pending" by (auto simp: assms(5))
  obtain x where "claim_loop sv now stamp worker limits active order sw = Inr x"
    using assms(2,3,4,5)
    by (cases "claim_loop sv now stamp worker limits active order sw") (simp_all add: claim_next_pending_def Let_def)
  then obtain sw' q where loop: "claim_loop sv now stamp worker limits active order sw = Inr (sw', q)"
    by (cases x) simp
  note first = claim_loop_first [OF loop l pend]
  show ?thesis
  proof (cases q)
    case None
    with assms(2-5) loop have "r = None" by (simp add: claim_next_pending_def Let_def)
    with first None show ?thesis by simp
  next
    case (Some tm)
    obtain t m where tm: "tm = (t, m)" by (cases tm)
    from assms(2-5) loop Some tm have r: "r = Some t"
      "s' = \<lparr>cs_world = sw', cs_streak = (if is_retry m then 0 else cs_streak s + 1)\<rparr>"
      by (simp_all add: claim_next_pending_def Let_def)
    from first Some tm obtain pre post row where
      f: "claimable now limits active m" "order = pre @ (t, m) # post"
      "\<forall>(t', m') \<in> set pre. \<not> claimable now limits active m'"
      "map_of (fst sw') t = Some row" "tr_meta row = start_run now worker m" by auto
    have "is_retry m" if burst: "3 \<le> cs_streak s" and ex: "(t', m') \<in> set order" "is_retry m'" "claimable now limits active m'" for t' m'
    proof (rule ccontr)
      assume no: "\<not> is_retry m"
      have "(t', m') \<in> set ?cands" using ex(1) by (simp add: assms(5))
      from claim_order_retries [OF f(2) [unfolded assms(5)] _ no this ex(2)] burst
      have "(t', m') \<in> set pre" by (simp add: INITIAL_CLAIM_BURST_def)
      with f(3) ex(3) show False by auto
    qed
    then have imp: "3 \<le> cs_streak s \<and> (\<exists>(t', m') \<in> set order. is_retry m' \<and> claimable now limits active m') \<longrightarrow> is_retry m"
      by auto
    have st: "map_of (fst (cs_world s')) t = Some row" "cs_streak s' = (if is_retry m then 0 else cs_streak s + 1)"
      using f(4) r(2) by simp_all
    show ?thesis unfolding r(1) option.case using f(1-3,5) imp st by blast
  qed
qed

definition no_services :: "unit services" where
  "no_services = \<lparr>sv_exhaust = \<lambda>_ _ w. w, sv_clear = \<lambda>_ _ w. w, sv_refund = \<lambda>_ _ w. (w, False)\<rparr>"

definition sample_store :: "task_status \<Rightarrow> task_store" where
  "sample_store status = [(sample_id, \<lparr>tr_meta = sample_meta status, tr_result = []\<rparr>)]"

lemma sample_listed:
  "list_tasks no_services LocalFile 5 [] None (sample_store status, ()) = Inr ((sample_store status, ()), [(sample_id, sample_meta status)])"
proof -
  have young: "\<not> is_task_expired 5 (sample_meta status)"
    by (cases status) (simp_all add: is_task_expired_def sample_meta_def new_meta_def terminal_def
        TASK_TIMEOUT_HOURS_def hours_def secs_def)
  have "get_meta LocalFile (sample_store status) sample_id = Inr (sample_meta status)"
    by (simp add: get_meta_ok sample_store_def)
  with young show ?thesis
    by (simp add: list_tasks_def sample_store_def sort_desc_def)
qed

theorem claim_takes_first_witness:
  "\<exists>s' row. claim_next_pending no_services 5 [] False (u ''w'') [] (\<lambda>_. 0) (\<lambda>_. Some 2)
       \<lparr>cs_world = (sample_store Pending, ()), cs_streak = 0\<rparr> = Inr (s', Some sample_id) \<and>
     map_of (fst (cs_world s')) sample_id = Some row \<and> tm_worker_id (tr_meta row) = u ''w''"
proof -
  let ?s = "\<lparr>cs_world = (sample_store Pending, ()), cs_streak = 0\<rparr>" and ?m = "sample_meta Pending"
  let ?items = "[(sample_id, ?m)]"
  have order: "claim_order (cs_streak ?s) (filter (\<lambda>(t, m). t \<notin> set [] \<and> tm_status m = Pending) ?items) = ?items"
    by (simp add: claim_order_def Let_def INITIAL_CLAIM_BURST_def)
  have run0: "running_count owner ?items = 0" for owner by (simp add: running_count_def count_if_def)
  have young: "\<not> is_task_expired 5 ?m"
    by (simp add: is_task_expired_def sample_meta_def new_meta_def terminal_def TASK_TIMEOUT_HOURS_def hours_def secs_def)
  have due: "due 5 ?m" by (simp add: due_def sample_meta_def new_meta_def)
  have mr: "mark_running LocalFile 5 False (sample_store Pending) sample_id (u ''w'') (\<lambda>_. Some 2) =
      Inr (AList.update sample_id (\<lparr>tr_meta = start_run 5 (u ''w'') ?m, tr_result = []\<rparr>) (sample_store Pending), True)"
    using mark_running_file [of sample_id "sample_store Pending" "\<lparr>tr_meta = ?m, tr_result = []\<rparr>" 5 "u ''w''" "\<lambda>_. Some 2"]
    by (simp add: sample_store_def)
  obtain s' where run: "claim_next_pending no_services 5 [] False (u ''w'') [] (\<lambda>_. 0) (\<lambda>_. Some 2) ?s = Inr (s', Some sample_id)"
    by (simp add: claim_next_pending_def sample_listed order [simplified] due young below_limit_def run0 mr)
  have listing: "list_tasks no_services LocalFile 5 [] None (cs_world ?s) = Inr ((sample_store Pending, ()), ?items)"
    by (simp add: sample_listed)
  have d: "distinct (map fst (fst (cs_world ?s)))" by (simp add: sample_store_def)
  from claim_takes_first [OF d listing run refl refl, unfolded option.case]
  obtain m row where "map_of (fst (cs_world s')) sample_id = Some row" "tr_meta row = start_run 5 (u ''w'') m" by blast
  with run show ?thesis by auto
qed

section \<open>Idempotent creation\<close>

lemma create_draws_fresh: "create_draws ds store = Some t \<Longrightarrow> map_of store t = None \<and> t \<in> set ds"
  by (induction ds) (auto split: if_splits)

lemma find_append_None: "find P xs = None \<Longrightarrow> find P (xs @ ys) = find P ys"
  by (induction xs) (auto split: if_splits)

text \<open>Asking again for the creation of a task with the same owner, route, key and request
  returns the task of the first call and creates nothing; with another request the key is
  refused. (PostgreSQL backend.)\<close>

theorem creation_idempotent:
  assumes "find_or_create_task sha sv Postgres now stamp draws sw a owner key fp route = Inr (sw1, m, created)"
  shows "rq_request_fingerprint (tm_request m) = fp \<and>
    (created \<longrightarrow> tm_status m = Initializing \<and> map_of (fst sw) (rq_id (tm_request m)) = None) \<and>
    (\<not> created \<longrightarrow> sw1 = sw) \<and>
    (\<forall>now' stamp' draws' a' r. normalize_platform (targ_platform a') = Inr r \<longrightarrow>
       find_or_create_task sha sv Postgres now' stamp' draws' sw1 a' owner key fp route = Inr (sw1, m, False) \<and>
       (\<forall>fp'. fp' \<noteq> fp \<longrightarrow>
          find_or_create_task sha sv Postgres now' stamp' draws' sw1 a' owner key fp' route =
            Inl (ValueError (u ''idempotency key conflicts with a different request''))))"
proof -
  let ?P = "\<lambda>(t :: ustr, row). tm_owner (tr_meta row) = owner \<and> same_request route (sha key) (tr_meta row)"
  obtain platform where pl: "normalize_platform (targ_platform a) = Inr platform"
    using assms by (cases "normalize_platform (targ_platform a)") (simp_all add: find_or_create_task_def)
  have eq: "find_or_create_task sha sv Postgres n st ds w b owner key f route =
      map_sum id (\<lambda>(store, r). ((store, snd w), r))
        (reuse_or_create n (take 1 ds) (fst w) b owner (sha key) f route (map_option (tr_meta \<circ> snd) (find ?P (fst w))))"
    if "normalize_platform (targ_platform b) = Inr x" for n st ds w b f x
    using that by (simp add: find_or_create_task_def)
  have stored: "find ?P (fst sw1) \<noteq> None \<and> tr_meta (snd (the (find ?P (fst sw1)))) = m \<and>
      rq_request_fingerprint (tm_request m) = fp \<and>
      (created \<longrightarrow> tm_status m = Initializing \<and> map_of (fst sw) (rq_id (tm_request m)) = None) \<and>
      (\<not> created \<longrightarrow> sw1 = sw)"
  proof (cases "find ?P (fst sw)")
    case (Some q)
    with assms eq [OF pl] show ?thesis
      by (cases sw) (auto simp: reuse_or_create_def split: if_splits)
  next
    case None
    obtain t where t: "create_draws (take 20 (take 1 draws)) (fst sw) = Some t"
      using assms eq [OF pl] None pl
      by (cases "create_draws (take 20 (take 1 draws)) (fst sw)") (simp_all add: reuse_or_create_def create_task_def)
    let ?m = "new_meta now (task_request_of a t platform (sha key) fp route) owner Initializing"
    have free: "map_of (fst sw) t = None" using create_draws_fresh [OF t] by simp
    have res: "m = ?m" "created" "fst sw1 = fst sw @ [(t, \<lparr>tr_meta = ?m, tr_result = []\<rparr>)]"
      using assms eq [OF pl] None pl t by (auto simp: reuse_or_create_def create_task_def update_new [OF free] Let_def)
    have P: "?P (t, \<lparr>tr_meta = ?m, tr_result = []\<rparr>)"
      by (simp add: same_request_def new_meta_def task_request_of_def)
    have "find ?P (fst sw1) = Some (t, \<lparr>tr_meta = ?m, tr_result = []\<rparr>)"
      using None P unfolding res(3) by (simp add: find_append_None)
    with res free show ?thesis by (simp add: new_meta_def task_request_of_def)
  qed
  then obtain q where q: "find ?P (fst sw1) = Some q" "tr_meta (snd q) = m" by auto
  have again: "find_or_create_task sha sv Postgres n st ds sw1 b owner key f route =
      (if rq_request_fingerprint (tm_request m) \<noteq> f
       then Inl (ValueError (u ''idempotency key conflicts with a different request'')) else Inr (sw1, m, False))"
    if "normalize_platform (targ_platform b) = Inr x" for n st ds b f x
    using q by (simp add: eq [OF that] reuse_or_create_def)
  show ?thesis using stored by (auto simp: again)
qed

definition sample_args :: task_args where
  "sample_args = \<lparr>targ_prompt = u ''p'', targ_ratio = [], targ_platform = u ''dola'', targ_model = [],
     targ_task_type = [], targ_duration = 0, targ_batch_id = [], targ_batch_index = 0, targ_batch_row = 0\<rparr>"

theorem creation_idempotent_witness:
  "\<exists>sw1 m. find_or_create_task id no_services Postgres 1 [] [sample_id] ([], ()) sample_args (u ''o'') (u ''k'') (u ''f'') (u ''r'')
       = Inr (sw1, m, True) \<and>
     find_or_create_task id no_services Postgres 9 [] [] sw1 sample_args (u ''o'') (u ''k'') (u ''f'') (u ''r'')
       = Inr (sw1, m, False)"
proof -
  have pl: "normalize_platform (targ_platform sample_args) = Inr (u ''dola'')"
    unfolding sample_args_def by (simp add: normalize_platform_def) code_simp
  then obtain sw1 m where c: "find_or_create_task id no_services Postgres 1 [] [sample_id] ([], ()) sample_args (u ''o'') (u ''k'') (u ''f'') (u ''r'')
       = Inr (sw1, m, True)"
    by (simp add: find_or_create_task_def reuse_or_create_def create_task_def Let_def)
  from creation_idempotent [OF c] pl c show ?thesis by blast
qed

section \<open>Cleaning up\<close>

lemma sweep_result:
  "sweep judge ts store n skipped = (store', n', skipped') \<Longrightarrow>
     map_of store' t = map_of store t \<or>
     (map_of store' t = None \<and> t \<in> set ts \<and> (\<exists>row. map_of store t = Some row \<and> judge t row = Remove))"
proof (induction ts arbitrary: store n skipped)
  case (Cons x ts)
  show ?case
  proof (cases "map_of store x")
    case None
    with Cons.prems Cons.IH [of store n skipped] show ?thesis by auto
  next
    case (Some row)
    show ?thesis
    proof (cases "judge x row")
      case Skip
      with Some Cons.prems Cons.IH [of store n "skipped @ [x]"] show ?thesis by auto
    next
      case Keep
      with Some Cons.prems Cons.IH [of store n skipped] show ?thesis by auto
    next
      case Remove
      with Some Cons.prems have "sweep judge ts (AList.delete x store) (n + 1) skipped = (store', n', skipped')" by simp
      from Cons.IH [OF this] Some Remove show ?thesis by (cases "t = x") (auto simp: delete_conv')
    qed
  qed
qed simp

text \<open>The retention sweep only ever deletes: a task it removes was not handed in as active, was
  neither waiting, running nor submitted nor a success without its video, and had been finished
  (or last changed, or created) for its owner's retention or longer.\<close>

theorem cleanup_removes_only_old:
  assumes "cleanup_expired_task_cache sv b now stamp retention active owner_days sw = Inr ((store', w'), n, skipped)"
    and "list_tasks sv b now stamp None sw = Inr ((store, w), items)"
  shows "\<forall>t. map_of store' t = map_of store t \<or> map_of store' t = None \<and>
    (\<exists>row r. map_of store t = Some row \<and> t \<notin> set active \<and>
       tm_status (tr_meta row) \<notin> {Pending, Running, Submitted} \<and>
       (tm_status (tr_meta row) = Success \<longrightarrow> has_value (tr_result row) (u ''decoded_main_url'')) \<and>
       reference_time (tr_meta row) = At r \<and>
       r \<le> now - days (kept_days owner_days retention (tm_owner (tr_meta row))) \<and>
       days 1 \<le> now - r)"
proof
  fix t
  define judge where "judge = (\<lambda>t row. if t \<in> set active \<or> keep_unfinished row then Skip
      else case reference_time (tr_meta row) of
        Unset \<Rightarrow> Keep
      | At r \<Rightarrow> if now - days (kept_days owner_days retention (tm_owner (tr_meta row))) < r then Keep else Remove)"
  have run: "sweep judge (map fst items) store 0 [] = (store', n, skipped)"
    using assms by (simp add: cleanup_expired_task_cache_def judge_def split: prod.splits)
  have one: "days 1 \<le> days (kept_days owner_days retention owner)" for owner
    by (simp add: kept_days_def Let_def days_def secs_def)
  have removed: "t \<notin> set active \<and> tm_status (tr_meta row) \<notin> {Pending, Running, Submitted} \<and>
      (tm_status (tr_meta row) = Success \<longrightarrow> has_value (tr_result row) (u ''decoded_main_url'')) \<and>
      (\<exists>r. reference_time (tr_meta row) = At r \<and> r \<le> now - days (kept_days owner_days retention (tm_owner (tr_meta row))) \<and>
         days 1 \<le> now - r)" if j: "judge t row = Remove" for row
  proof (cases "reference_time (tr_meta row)")
    case Unset
    with j show ?thesis by (simp add: judge_def split: if_splits)
  next
    case (At r)
    with j have "\<not> (t \<in> set active \<or> keep_unfinished row)"
      "r \<le> now - days (kept_days owner_days retention (tm_owner (tr_meta row)))"
      by (auto simp: judge_def split: if_splits)
    with At one [of "tm_owner (tr_meta row)"] show ?thesis by (auto simp: keep_unfinished_def)
  qed
  from sweep_result [OF run, of t] removed
  show "map_of store' t = map_of store t \<or> map_of store' t = None \<and>
    (\<exists>row r. map_of store t = Some row \<and> t \<notin> set active \<and>
       tm_status (tr_meta row) \<notin> {Pending, Running, Submitted} \<and>
       (tm_status (tr_meta row) = Success \<longrightarrow> has_value (tr_result row) (u ''decoded_main_url'')) \<and>
       reference_time (tr_meta row) = At r \<and>
       r \<le> now - days (kept_days owner_days retention (tm_owner (tr_meta row))) \<and>
       days 1 \<le> now - r)" by blast
qed

theorem cleanup_removes_only_old_witness:
  "\<exists>store' w' n skipped. cleanup_expired_task_cache no_services LocalFile 5 [] 7 [] (\<lambda>_. None) (sample_store Running, ())
       = Inr ((store', w'), n, skipped) \<and> map_of store' sample_id = map_of (sample_store Running) sample_id"
proof -
  obtain x where "cleanup_expired_task_cache no_services LocalFile 5 [] 7 [] (\<lambda>_. None) (sample_store Running, ()) = Inr x"
    by (simp add: cleanup_expired_task_cache_def sample_listed del: sweep.simps)
  then obtain store' n skipped where run: "cleanup_expired_task_cache no_services LocalFile 5 [] 7 [] (\<lambda>_. None) (sample_store Running, ())
       = Inr ((store', ()), n, skipped)"
    by (cases x) auto
  from cleanup_removes_only_old [OF run sample_listed]
  have "map_of store' sample_id = map_of (sample_store Running) sample_id \<or>
    (\<exists>row. map_of (sample_store Running) sample_id = Some row \<and> tm_status (tr_meta row) \<notin> {Pending, Running, Submitted})" by blast
  with run show ?thesis by (auto simp: sample_store_def)
qed

section \<open>Restarting\<close>

lemma reset_loop_result:
  "reset_loop b now ts store = Inr store' \<Longrightarrow> (\<forall>t \<in> set ts. is_task_id t) \<Longrightarrow> map_of store t = Some row \<Longrightarrow>
   distinct ts \<Longrightarrow>
   \<exists>m. map_of store' t = Some (row\<lparr>tr_meta := m\<rparr>) \<and>
     (if t \<in> set ts \<and> tm_status (tr_meta row) = Running
      then tm_status m = (if reached_platform (tr_result row) then Submitted else Pending) \<and> tm_worker_id m = []
      else m = tr_meta row)"
proof (induction ts arbitrary: store row)
  case (Cons x ts)
  have x: "is_task_id x" and ts: "\<forall>t \<in> set ts. is_task_id t" "distinct ts" "x \<notin> set ts" using Cons.prems by auto
  show ?case
  proof (cases "\<exists>r. map_of store x = Some r \<and> tm_status (tr_meta r) = Running")
    case False
    with Cons.prems(1) have "reset_loop b now ts store = Inr store'"
      by (cases "map_of store x") (auto split: if_splits)
    from Cons.IH [OF this ts(1) Cons.prems(3) ts(2)] obtain m where m: "map_of store' t = Some (row\<lparr>tr_meta := m\<rparr>)"
      "if t \<in> set ts \<and> tm_status (tr_meta row) = Running
       then tm_status m = (if reached_platform (tr_result row) then Submitted else Pending) \<and> tm_worker_id m = []
       else m = tr_meta row" by blast
    have "t = x \<Longrightarrow> tm_status (tr_meta row) \<noteq> Running" using False Cons.prems(3) by auto
    with m show ?thesis by (intro exI [of _ m]) (auto split: if_splits)
  next
    case True
    then obtain r where r: "map_of store x = Some r" "tm_status (tr_meta r) = Running" by blast
    define f where "f = (if reached_platform (tr_result r)
            then update_meta_if_mut now [Running] (\<lambda>m. m\<lparr>tm_status := Submitted, tm_worker_id := [],
              tm_submitted_at := stamp_or (tm_submitted_at (tr_meta r)) (At now),
              tm_next_result_poll_at := At (now + secs 15), tm_finished_at := Unset,
              tm_error := msg_waiting_result\<rparr>)
            else mark_pending_mut now (u ''service restarted''))"
    obtain m' where fm: "f (tr_meta r) = Inr (m', Some m', True)"
      "tm_status m' = (if reached_platform (tr_result r) then Submitted else Pending)" "tm_worker_id m' = []"
      using r(2) by (cases "reached_platform (tr_result r)")
        (simp_all add: f_def update_meta_if_mut_def mark_pending_mut_def Let_def)
    have om: "on_meta f r = Inr (r\<lparr>tr_meta := m'\<rparr>, Some m', True)" by (simp add: on_meta_def fm)
    have "mutate_meta b store x f = Inr (AList.update x (r\<lparr>tr_meta := m'\<rparr>) store, Some m')"
      using any_rows.run_written [OF r(1), where f = "on_meta f", OF om, where e = FileNotFoundError and b = b] x
      by (simp add: mutate_meta_def)
    then have rest: "reset_loop b now ts (AList.update x (r\<lparr>tr_meta := m'\<rparr>) store) = Inr store'"
      using Cons.prems(1) r by (simp add: f_def update_meta_if_def split: if_splits)
    show ?thesis
    proof (cases "t = x")
      case True
      with Cons.prems(3) r have row: "row = r" by simp
      have "map_of (AList.update x (r\<lparr>tr_meta := m'\<rparr>) store) t = Some (r\<lparr>tr_meta := m'\<rparr>)"
        by (simp add: True update_conv')
      from Cons.IH [OF rest ts(1) this ts(2)] True ts(3) fm r row show ?thesis by auto
    next
      case False
      then have "map_of (AList.update x (r\<lparr>tr_meta := m'\<rparr>) store) t = Some row"
        using Cons.prems(3) by (simp add: update_conv')
      from Cons.IH [OF rest ts(1) this ts(2)] False show ?thesis by simp
    qed
  qed
qed auto

text \<open>After a restart no listed task is left running: a task whose request reached the platform
  waits for its result and is not sent again, any other running task is pending, no worker holds
  it, and every task that was not running is as it was.\<close>

theorem restart_leaves_nothing_running:
  assumes "reset_running_tasks sv b now stamp sw = Inr sw'" "distinct (map fst (fst sw))"
    and "list_tasks sv b now stamp None sw = Inr ((store, w), items)" "map_of store t = Some row"
  shows "\<exists>m. map_of (fst sw') t = Some (row\<lparr>tr_meta := m\<rparr>) \<and>
    (if t \<in> fst ` set items \<and> tm_status (tr_meta row) = Running
     then tm_status m = (if reached_platform (tr_result row) then Submitted else Pending) \<and> tm_worker_id m = []
     else m = tr_meta row)"
proof -
  have l: "listed store items" using list_tasks_listed(1) [OF assms(3,2)] by simp
  have "map_sum id (\<lambda>store'. (store', w)) (reset_loop b now (map fst items) store) = Inr sw'"
    using assms(1,3) by (simp add: reset_running_tasks_def)
  then obtain store' where s: "reset_loop b now (map fst items) store = Inr store'" "fst sw' = store'"
    unfolding map_sum_Inr by auto
  have "\<forall>t \<in> set (map fst items). is_task_id t" "distinct (map fst items)" using l by (auto simp: listed_def)
  from reset_loop_result [OF s(1) this(1) assms(4) this(2)] s(2) show ?thesis by simp
qed

theorem restart_leaves_nothing_running_witness:
  "\<exists>sw' row. reset_running_tasks no_services LocalFile 5 [] (sample_store Running, ()) = Inr sw' \<and>
     map_of (fst sw') sample_id = Some row \<and> tm_status (tr_meta row) = Pending"
proof -
  let ?row = "\<lparr>tr_meta = sample_meta Running, tr_result = []\<rparr>"
  obtain sw' where run: "reset_running_tasks no_services LocalFile 5 [] (sample_store Running, ()) = Inr sw'"
    by (simp add: reset_running_tasks_def sample_listed)
      (simp add: sample_store_def reached_platform_def has_value_def str_value_def mark_pending_mut_def
        update_meta_if_mut_def mutate_meta_def run_row_def file_mutate_def on_meta_def Let_def)
  have "distinct (map fst (fst (sample_store Running, ())))" "map_of (sample_store Running) sample_id = Some ?row"
    by (simp_all add: sample_store_def)
  from restart_leaves_nothing_running [OF run this(1) sample_listed this(2)] run show ?thesis
    by (auto simp: reached_platform_def has_value_def str_value_def)
qed

end
