(* ===== verification/Task_Queue_Props.thy ===== *)
theory Task_Queue_Props
  imports Task_Queue Task_Lists_Props
begin

text \<open>
  The Redis task queue: its representation invariant under every operation of the queue, the
  fencing of workers that lost a task, the fairness between first attempts and retries, the
  recovery of expired leases, what a claim returns, and the contract of a requeue that the
  store's retries rely on, as a locale interpreted on both queues.
\<close>

section \<open>The invariant\<close>

text \<open>A task waits, is delayed or is being processed, in one place and once.\<close>

definition queued_ids :: "redis_queue \<Rightarrow> ustr list" where
  "queued_ids q = rq_ready q @ rq_retry_ready q @ rq_processing q @
     map fst (rq_delayed q) @ map fst (rq_retry_delayed q)"

definition queue_ok :: "redis_queue \<Rightarrow> bool" where
  "queue_ok q \<longleftrightarrow> distinct (queued_ids q) \<and> set (queued_ids q) \<subseteq> set (rq_known q) \<and> distinct (rq_known q) \<and>
     distinct (map fst (rq_leases q)) \<and> fst ` set (rq_leases q) \<subseteq> set (rq_processing q) \<and>
     distinct (map fst (rq_owners q)) \<and> fst ` set (rq_owners q) \<subseteq> set (rq_processing q)"

definition is_waiting :: "redis_queue \<Rightarrow> ustr \<Rightarrow> bool" where
  "is_waiting q t \<longleftrightarrow> t \<in> set (rq_ready q) \<or> t \<in> set (rq_retry_ready q) \<or>
     t \<in> fst ` set (rq_delayed q) \<or> t \<in> fst ` set (rq_retry_delayed q)"

lemma set_lrem [simp]: "set (lrem t xs) = set xs - {t}"
  by (auto simp: lrem_def)

lemma distinct_lrem [simp]: "distinct xs \<Longrightarrow> distinct (lrem t xs)"
  by (simp add: lrem_def)

lemma lrem_absent [simp]: "t \<notin> set xs \<Longrightarrow> lrem t xs = xs"
  by (auto simp: lrem_def filter_id_conv)

lemma set_sadd [simp]: "set (sadd t xs) = insert t (set xs)"
  by (auto simp: sadd_def)

lemma distinct_sadd [simp]: "distinct (sadd t xs) = distinct xs"
  by (auto simp: sadd_def)

lemma keys_update [simp]: "fst ` set (AList.update k v xs) = insert k (fst ` set xs)"
  by (simp add: dom_update)

lemma keys_delete [simp]: "fst ` set (AList.delete k xs) = fst ` set xs - {k}"
  by (auto simp: AList.delete_eq image_iff)

lemma distinct_update_keys [simp]: "distinct (map fst (AList.update k v xs)) = distinct (map fst xs)"
proof
  show "distinct (map fst (AList.update k v xs)) \<Longrightarrow> distinct (map fst xs)"
    by (auto simp: update_keys split: if_splits)
qed (rule distinct_update)

lemma distinct_delete_keys [simp]: "distinct (map fst xs) \<Longrightarrow> distinct (map fst (AList.delete k xs))"
  by (rule distinct_delete)

lemma distinct_filter_keys [simp]: "distinct (map fst xs) \<Longrightarrow> distinct (map fst (filter P xs))"
  by (rule distinct_map_filter)

lemma keys_filter: "fst ` set (filter (\<lambda>(m, s). P m) xs) = {k \<in> fst ` set xs. P k}"
  by force

lemmas queue_sets = queue_ok_def queued_ids_def

lemma zrange_keys: "set (zrange now z) \<subseteq> fst ` set z"
  by (auto simp: zrange_def dest!: in_set_takeD)

lemma zrange_due: "distinct (map fst z) \<Longrightarrow> t \<in> set (zrange now z) \<Longrightarrow> \<exists>s. map_of z t = Some s \<and> s \<le> now"
  by (force simp: zrange_def dest!: in_set_takeD)

lemma zrange_distinct:
  assumes "distinct (map fst z)"
  shows "distinct (zrange now z)"
proof -
  let ?s = "sort_key (\<lambda>(m, s). (s, m)) (filter (\<lambda>(_, s). s \<le> now) z)"
  have "mset (map fst ?s) = mset (map fst (filter (\<lambda>(_, s). s \<le> now) z))" by simp
  from mset_eq_imp_distinct_iff [OF this] have "distinct (map fst ?s)"
    using distinct_map_filter [OF assms] by blast
  then show ?thesis unfolding zrange_def by (rule distinct_take)
qed

section \<open>Every operation keeps it\<close>

lemma schedule_ok:
  assumes "queue_ok q" "t \<notin> set (queued_ids q)" "t \<in> set (rq_known q)"
  shows "queue_ok (schedule now retrying t score q)"
  using assms
  by (cases retrying; cases "now < score") (auto simp: queue_sets schedule_def add_delayed_def push_ready_def update_keys)

lemma schedule_waiting: "is_waiting (schedule now retrying t score q) t"
  by (cases retrying; cases "now < score") (auto simp: is_waiting_def schedule_def add_delayed_def push_ready_def)

lemma remove_all_ids [simp]: "set (queued_ids (remove_all t q)) = set (queued_ids q) - {t}"
  by (auto simp: queued_ids_def remove_all_def)

lemma remove_all_known [simp]: "rq_known (remove_all t q) = rq_known q"
  by (simp add: remove_all_def)

lemma remove_all_ok: "queue_ok q \<Longrightarrow> queue_ok (remove_all t q)"
  by (auto simp: queue_sets remove_all_def)

lemma known_ok: "queue_ok q \<Longrightarrow> distinct ks \<Longrightarrow> set (queued_ids q) \<subseteq> set ks \<Longrightarrow> queue_ok (q\<lparr>rq_known := ks\<rparr>)"
  by (simp add: queue_sets)

lemma queued_ids_known [simp]: "queued_ids (q\<lparr>rq_known := ks\<rparr>) = queued_ids q"
  by (simp add: queued_ids_def)

lemma ids_known: "queue_ok q \<Longrightarrow> x \<in> set (queued_ids q) \<Longrightarrow> x \<in> set (rq_known q)"
  by (auto simp: queue_ok_def)

lemma known_distinct: "queue_ok q \<Longrightarrow> distinct (rq_known q)"
  by (simp add: queue_ok_def)

lemma enqueue_ok: "queue_ok q \<Longrightarrow> queue_ok (fst (enqueue now retrying t at q))"
  by (auto simp: enqueue_def known_distinct dest: ids_known intro!: schedule_ok known_ok)

lemma requeue_ok: "queue_ok q \<Longrightarrow> queue_ok (requeue now retrying t at q)"
  by (auto simp: requeue_def known_distinct dest: ids_known intro!: schedule_ok known_ok remove_all_ok)

lemma requeue_waiting: "is_waiting (requeue now retrying t at q) t"
  by (simp add: requeue_def schedule_waiting)

lemma ack_ok: "queue_ok q \<Longrightarrow> queue_ok (ack t q)"
  by (auto simp: ack_def known_distinct dest: ids_known intro!: known_ok remove_all_ok)

text \<open>A processed task that is put back is in no other place.\<close>

lemma processing_only:
  "queue_ok q \<Longrightarrow> t \<in> set (rq_processing q) \<Longrightarrow> \<not> is_waiting q t \<and> t \<in> set (rq_known q)"
  by (auto simp: queue_sets is_waiting_def)

lemma delay_claimed_ok:
  assumes q: "queue_ok q" and t: "t \<in> set (rq_processing q)"
  shows "queue_ok (delay_claimed retrying t score q)"
  using q processing_only [OF q t]
  by (cases retrying) (auto simp: queue_sets is_waiting_def delay_claimed_def add_delayed_def update_keys Let_def)

lemma delay_owned_ok:
  assumes q: "queue_ok q"
  shows "queue_ok (delay_owned retrying t w score q)"
proof (cases "map_of (rq_owners q) t = Some w")
  case True
  then have "t \<in> fst ` set (rq_owners q)" by (force dest: map_of_SomeD)
  with q have t: "t \<in> set (rq_processing q)" by (auto simp: queue_ok_def)
  show ?thesis using True q processing_only [OF q t]
    by (cases retrying) (auto simp: queue_sets is_waiting_def delay_owned_def add_delayed_def update_keys Let_def)
qed (simp add: delay_owned_def q)

lemma ack_owned_ok:
  assumes q: "queue_ok q"
  shows "queue_ok (ack_owned t w q)"
proof (cases "map_of (rq_owners q) t = Some w")
  case True
  then have "t \<in> fst ` set (rq_owners q)" by (force dest: map_of_SomeD)
  with q have t: "t \<in> set (rq_processing q)" by (auto simp: queue_ok_def)
  show ?thesis using True q processing_only [OF q t]
    by (auto simp: queue_sets is_waiting_def ack_owned_def Let_def)
next
  case False
  with q show ?thesis by (auto simp: queue_sets ack_owned_def Let_def)
qed

text \<open>Moving tasks between the places keeps it.\<close>

lemma moved_ok:
  assumes "queue_ok q" "mset (queued_ids q') = mset (queued_ids q)" "rq_known q' = rq_known q"
    "rq_leases q' = rq_leases q" "rq_owners q' = rq_owners q" "set (rq_processing q) \<subseteq> set (rq_processing q')"
  shows "queue_ok q'"
  using assms(1,3-6) mset_eq_imp_distinct_iff [OF assms(2)] mset_eq_setD [OF assms(2)]
  by (simp only: queue_ok_def) blast

lemma mset_promoted:
  assumes "distinct (map fst z)"
  shows "mset (rev (zrange now z)) + mset (map fst (filter (\<lambda>(m, _). m \<notin> set (zrange now z)) z)) = mset (map fst z)"
proof -
  let ?ts = "zrange now z"
  have "map fst (filter (\<lambda>(m, _). m \<notin> set ?ts) z) = filter (\<lambda>m. m \<notin> set ?ts) (map fst z)"
    by (simp add: filter_map comp_def case_prod_unfold)
  moreover have "mset (?ts @ filter (\<lambda>m. m \<notin> set ?ts) (map fst z)) = mset (map fst z)"
  proof (rule iffD1 [OF set_eq_iff_mset_eq_distinct])
    show "distinct (?ts @ filter (\<lambda>m. m \<notin> set ?ts) (map fst z))"
      using zrange_distinct [OF assms] assms by auto
    show "distinct (map fst z)" by (rule assms)
    show "set (?ts @ filter (\<lambda>m. m \<notin> set ?ts) (map fst z)) = set (map fst z)"
      using zrange_keys [of now z] by auto
  qed
  ultimately show ?thesis by simp
qed

lemma promote_queue_ok:
  assumes q: "queue_ok q"
  shows "queue_ok (promote_queue now q)"
proof (rule moved_ok [OF q])
  have "distinct (map fst (rq_delayed q))" using q by (simp add: queue_sets)
  from mset_promoted [OF this, of now]
  show "mset (queued_ids (promote_queue now q)) = mset (queued_ids q)"
    by (simp add: queued_ids_def promote_queue_def Let_def)
qed (simp_all add: promote_queue_def Let_def)

lemma promote_retry_queue_ok:
  assumes q: "queue_ok q"
  shows "queue_ok (promote_retry_queue now q)"
proof (rule moved_ok [OF q])
  have "distinct (map fst (rq_retry_delayed q))" using q by (simp add: queue_sets)
  from mset_promoted [OF this, of now]
  show "mset (queued_ids (promote_retry_queue now q)) = mset (queued_ids q)"
    by (simp add: queued_ids_def promote_retry_queue_def Let_def)
qed (simp_all add: promote_retry_queue_def Let_def)

lemma promote_ok: "queue_ok q \<Longrightarrow> queue_ok (promote now q)"
  by (simp only: promote_def promote_queue_ok promote_retry_queue_ok)

lemma mset_butlast: "xs \<noteq> [] \<Longrightarrow> add_mset (last xs) (mset (butlast xs)) = mset xs"
  by (metis append_butlast_last_id mset_append mset.simps union_mset_add_mset_right add.right_neutral)

lemma move_ready_ok:
  assumes "queue_ok q" "move_ready q = Some (t, q')"
  shows "queue_ok q' \<and> t \<in> set (rq_processing q')"
proof -
  from assms(2) have ne: "rq_ready q \<noteq> []" and t: "t = last (rq_ready q)"
    and q': "q' = q\<lparr>rq_ready := butlast (rq_ready q), rq_processing := last (rq_ready q) # rq_processing q\<rparr>"
    by (auto simp: move_ready_def split: if_splits)
  have "mset (queued_ids q') = mset (queued_ids q)"
    using mset_butlast [OF ne] by (simp add: q' queued_ids_def flip: union_mset_add_mset_left)
  from moved_ok [OF assms(1) this] show ?thesis by (simp add: q' t subset_insertI)
qed

lemma move_retry_ok:
  assumes "queue_ok q" "move_retry q = Some (t, q')"
  shows "queue_ok q' \<and> t \<in> set (rq_processing q')"
proof -
  from assms(2) have ne: "rq_retry_ready q \<noteq> []" and t: "t = last (rq_retry_ready q)"
    and q': "q' = q\<lparr>rq_retry_ready := butlast (rq_retry_ready q),
      rq_processing := last (rq_retry_ready q) # rq_processing q\<rparr>"
    by (auto simp: move_retry_def split: if_splits)
  have "mset (queued_ids q') = mset (queued_ids q)"
    using mset_butlast [OF ne] by (simp add: q' queued_ids_def flip: union_mset_add_mset_left)
  from moved_ok [OF assms(1) this] show ?thesis by (simp add: q' t subset_insertI)
qed

lemma take_next_cases:
  assumes "take_next q = Some (t, r, q')"
  obtains "move_ready q = Some (t, q')" "\<not> r" | "move_retry q = Some (t, q')" r
  using assms
  by (cases "3 \<le> rq_streak q"; cases "move_ready q"; cases "move_retry q")
    (simp_all add: take_next_def Let_def split: prod.splits)

lemma take_next_ok:
  "queue_ok q \<Longrightarrow> take_next q = Some (t, r, q') \<Longrightarrow> queue_ok q' \<and> t \<in> set (rq_processing q')"
  by (erule take_next_cases) (erule (1) move_ready_ok move_retry_ok)+

lemma lease_ok: "queue_ok q \<Longrightarrow> t \<in> set (rq_processing q) \<Longrightarrow> queue_ok (lease_mut t w until q)"
  by (simp add: queue_sets lease_mut_def)

lemma streak_ok [simp]: "queue_ok (q\<lparr>rq_streak := n\<rparr>) = queue_ok q"
  by (simp add: queue_sets)

lemma heartbeat_one_ok:
  assumes q: "queue_ok q"
  shows "queue_ok (heartbeat_one now visibility t w q)"
proof (cases "map_of (rq_owners q) t \<noteq> Some w \<or> map_of (rq_leases q) t = None")
  case False
  then have "t \<in> fst ` set (rq_leases q)" by (force dest: map_of_SomeD)
  then have "fst ` set (rq_leases (heartbeat_one now visibility t w q)) = fst ` set (rq_leases q)"
    by (simp add: heartbeat_one_def insert_absorb)
  with q show ?thesis by (simp add: queue_sets heartbeat_one_def)
qed (use q in \<open>simp add: heartbeat_one_def\<close>)

lemma heartbeat_ok: "queue_ok q \<Longrightarrow> queue_ok (heartbeat now visibility tasks q)"
  unfolding heartbeat_def by (induction tasks arbitrary: q) (auto simp: heartbeat_one_ok)

text \<open>A recovered task is known and in no place until it is put back.\<close>

lemma expire_lease_True:
  assumes "expire_lease now t q = (q', True)"
  obtains s where "map_of (rq_leases q) t = Some s" "s \<le> now"
    "q' = q\<lparr>rq_leases := AList.delete t (rq_leases q), rq_owners := AList.delete t (rq_owners q),
            rq_processing := lrem t (rq_processing q)\<rparr>"
  using assms by (cases "map_of (rq_leases q) t") (simp_all add: expire_lease_def split: if_splits)

lemma leased_processing: "queue_ok q \<Longrightarrow> map_of (rq_leases q) t = Some s \<Longrightarrow> t \<in> set (rq_processing q)"
  by (auto simp: queue_ok_def dest!: map_of_SomeD)

lemma expire_lease_ok:
  assumes "queue_ok q" "expire_lease now t q = (q', True)"
  shows "queue_ok q' \<and> t \<notin> set (queued_ids q') \<and> t \<in> set (rq_known q') \<and> map_of (rq_leases q') t = None"
proof -
  from assms(2) obtain s where s: "map_of (rq_leases q) t = Some s"
    and q': "q' = q\<lparr>rq_leases := AList.delete t (rq_leases q), rq_owners := AList.delete t (rq_owners q),
            rq_processing := lrem t (rq_processing q)\<rparr>" by (rule expire_lease_True)
  note t = leased_processing [OF assms(1) s]
  have "queue_ok q'" using assms(1) by (auto simp: queue_sets q')
  then show ?thesis using processing_only [OF assms(1) t]
    by (simp add: q' queued_ids_def is_waiting_def delete_conv')
qed

lemma expire_lease_False: "expire_lease now t q = (q', False) \<Longrightarrow> q' = q"
  by (auto simp: expire_lease_def split: option.splits if_splits)

lemma push_ready_ok:
  "queue_ok q \<Longrightarrow> t \<notin> set (queued_ids q) \<Longrightarrow> t \<in> set (rq_known q) \<Longrightarrow> queue_ok (push_ready r t q)"
  by (cases r) (auto simp: queue_sets push_ready_def)

lemma forget_ok: "queue_ok q \<Longrightarrow> t \<notin> set (queued_ids q) \<Longrightarrow> queue_ok (q\<lparr>rq_known := lrem t (rq_known q)\<rparr>)"
  by (auto simp: known_distinct dest: ids_known intro!: known_ok)

lemma recover_task_ok:
  assumes q: "queue_ok q" "t \<notin> set (queued_ids q)" "t \<in> set (rq_known q)"
    and r: "recover_task b now t (store, q) = Inr (store', q')"
  shows "queue_ok q'"
proof -
  note ok = push_ready_ok [OF q] forget_ok [OF q(1,2)] q(1)
  have meta: "queue_ok q1" if "recover_meta b now t (store, q) m = Inr (store1, q1)" for m store1 q1
    using that ok by (auto simp: recover_meta_def map_sum_Inr split: if_splits sum.splits)
  show ?thesis
  proof (cases "get_meta b store t")
    case (Inl e)
    with r ok show ?thesis by (cases e) (auto simp: recover_task_def)
  next
    case (Inr m)
    show ?thesis
    proof (cases "recover_meta b now t (store, q) m")
      case (Inl e)
      with Inr r ok show ?thesis by (cases e) (auto simp: recover_task_def)
    next
      case (Inr sq)
      with \<open>get_meta b store t = Inr m\<close> r have "sq = (store', q')" by (simp add: recover_task_def)
      with Inr meta show ?thesis by blast
    qed
  qed
qed

lemma recover_loop_ok:
  "recover_loop b now ts (store, q) n = Inr ((store', q'), n') \<Longrightarrow> queue_ok q \<Longrightarrow> queue_ok q'"
proof (induction ts arbitrary: store q n)
  case (Cons t ts)
  obtain q1 taken where e: "expire_lease now t q = (q1, taken)" by force
  show ?case
  proof (cases taken)
    case False
    with e Cons show ?thesis by auto
  next
    case True
    with e have "expire_lease now t q = (q1, True)" by simp
    from expire_lease_ok [OF Cons.prems(2) this]
    have q1: "queue_ok q1" "t \<notin> set (queued_ids q1)" "t \<in> set (rq_known q1)" by auto
    from Cons.prems(1) e True obtain store2 q2 where r: "recover_task b now t (store, q1) = Inr (store2, q2)"
      and l: "recover_loop b now ts (store2, q2) (n + 1) = Inr ((store', q'), n')"
      by (cases "recover_task b now t (store, q1)") auto
    from Cons.IH [OF l recover_task_ok [OF q1 r]] show ?thesis .
  qed
qed simp

lemma recover_ok: "recover b now (store, q) = Inr ((store', q'), n) \<Longrightarrow> queue_ok q \<Longrightarrow> queue_ok q'"
  unfolding recover_def by (rule recover_loop_ok)

lemma claim_attempt_ok:
  assumes q: "queue_ok q" "t \<in> set (rq_processing q)"
    and c: "claim_attempt b now paused visibility worker limits t r (store, q) = Inr ((store', q'), claimed)"
  shows "queue_ok q'"
proof -
  note ok = ack_ok [OF q(1)] delay_claimed_ok [OF q] lease_ok [OF q]
  show ?thesis
  proof (cases "get_meta b store t")
    case (Inl e)
    with c ok show ?thesis by (auto simp: claim_attempt_def)
  next
    case (Inr m)
    show ?thesis
    proof (cases "(tm_status m \<noteq> Pending \<or> tm_cancel_requested m) \<or> \<not> due now m")
      case True
      with Inr c ok show ?thesis by (auto simp: claim_attempt_def split: if_splits)
    next
      case False
      with Inr c ok show ?thesis
        by (cases "mark_running b now paused store t worker limits")
          (auto simp: claim_attempt_def Let_def split: bool.splits if_splits)
    qed
  qed
qed

lemma claim_tries_ok:
  "claim_tries n b now paused visibility worker limits (store, q) = Inr ((store', q'), got) \<Longrightarrow> queue_ok q \<Longrightarrow> queue_ok q'"
proof (induction n arbitrary: store q)
  case (Suc n)
  show ?case
  proof (cases "take_next q")
    case None
    with Suc show ?thesis by simp
  next
    case (Some p)
    obtain t r q1 where p: "take_next q = Some (t, r, q1)" using Some by (cases p) auto
    from take_next_ok [OF Suc.prems(2) p] have q1: "queue_ok q1" "t \<in> set (rq_processing q1)" by auto
    from Suc.prems(1) p obtain store2 q2 claimed
      where c: "claim_attempt b now paused visibility worker limits t r (store, q1) = Inr ((store2, q2), claimed)"
      by (cases "claim_attempt b now paused visibility worker limits t r (store, q1)") auto
    note q2 = claim_attempt_ok [OF q1 c]
    show ?thesis
    proof (cases claimed)
      case True
      with p c q2 Suc.prems(1) show ?thesis by simp
    next
      case False
      with p c Suc.prems(1) have "claim_tries n b now paused visibility worker limits (store2, q2) = Inr ((store', q'), got)"
        by simp
      from Suc.IH [OF this q2] show ?thesis .
    qed
  qed
qed simp

lemma claim_ok:
  assumes c: "claim b now paused visibility worker limits (store, q) = Inr ((store', q'), got)" and q: "queue_ok q"
  shows "queue_ok q'"
proof -
  from c obtain store1 q1 n where r: "recover b now (store, q) = Inr ((store1, q1), n)"
    and t: "claim_tries 100 b now paused visibility worker limits (store1, promote now q1) = Inr ((store', q'), got)"
    by (cases "recover b now (store, q)") (auto simp: claim_def)
  from claim_tries_ok [OF t promote_ok [OF recover_ok [OF r q]]] show ?thesis .
qed

lemma release_ok:
  assumes "release b now store t worker q = Inr q'" "queue_ok q" "worker \<noteq> [] \<or> t \<in> set (rq_processing q)"
  shows "queue_ok q'"
proof (cases "get_meta b store t")
  case (Inl e)
  with assms ack_ok [OF assms(2)] ack_owned_ok [OF assms(2)] show ?thesis
    by (cases e) (auto simp: release_def split: if_splits)
next
  case (Inr m)
  note r = assms(1) [unfolded release_def Inr]
  show ?thesis
  proof (cases "tm_status m = Pending \<and> \<not> tm_cancel_requested m")
    case True
    with r assms(3) delay_claimed_ok [OF assms(2)] delay_owned_ok [OF assms(2)] show ?thesis
      by (cases "worker = []") (auto simp: Let_def)
  next
    case False
    with r ack_ok [OF assms(2)] ack_owned_ok [OF assms(2)] show ?thesis
      by (cases "worker = []") (auto simp: Let_def)
  qed
qed

lemma reconcile_ok: "queue_ok q \<Longrightarrow> queue_ok (fst (reconcile now pending q))"
proof -
  have "queue_ok (fold (\<lambda>(t, m). requeue now (is_retry m) t (tm_next_attempt_at m)) rows q)" if "queue_ok q" for rows q
    using that by (induction rows arbitrary: q) (auto intro: requeue_ok)
  then show "queue_ok q \<Longrightarrow> ?thesis" by (simp add: reconcile_def)
qed

section \<open>The queue as a state machine\<close>

text \<open>
  One step of the queue beside the store; the store may change on its own between two steps, and
  a worker may die between any two steps.
\<close>

inductive queue_step :: "backend \<Rightarrow> task_store \<times> redis_queue \<Rightarrow> task_store \<times> redis_queue \<Rightarrow> bool" for b where
  enqueued: "queue_step b (s, q) (s, fst (enqueue now (is_retry_task b s t) t at q))"
| requeued: "queue_step b (s, q) (s, requeue now retrying t at q)"
| promoted: "queue_step b (s, q) (s, promote now q)"
| claimed: "claim b now paused visibility worker limits (s, q) = Inr ((s', q'), got) \<Longrightarrow> queue_step b (s, q) (s', q')"
| moved: "take_next q = Some (t, r, q') \<Longrightarrow> queue_step b (s, q) (s, q')"
| released: "release b now s t worker q = Inr q' \<Longrightarrow> worker \<noteq> [] \<Longrightarrow> queue_step b (s, q) (s, q')"
| beat: "queue_step b (s, q) (s, heartbeat now visibility tasks q)"
| recovered: "recover b now (s, q) = Inr ((s', q'), n) \<Longrightarrow> queue_step b (s, q) (s', q')"
| reconciled: "queue_step b (s, q) (s, fst (reconcile now pending q))"
| store_changed: "queue_step b (s, q) (s', q)"

inductive queue_reachable :: "backend \<Rightarrow> task_store \<times> redis_queue \<Rightarrow> bool" for b where
  initial: "queue_reachable b (s, empty_queue)"
| step: "queue_reachable b sq \<Longrightarrow> queue_step b sq sq' \<Longrightarrow> queue_reachable b sq'"

inductive_cases queue_stepE: "queue_step b sq sq'"

lemma queue_step_ok: "queue_step b sq sq' \<Longrightarrow> queue_ok (snd sq) \<Longrightarrow> queue_ok (snd sq')"
proof (induction rule: queue_step.induct)
  case (claimed now paused visibility worker limits s q s' q' got)
  from claim_ok [OF claimed(1)] claimed(2) show ?case by simp
next
  case (moved q t r q' s)
  from take_next_ok [OF _ moved(1)] moved(2) show ?case by simp
next
  case (released now s t worker q q')
  from release_ok [OF released(1)] released(2,3) show ?case by simp
next
  case (recovered now s q s' q' n)
  from recover_ok [OF recovered(1)] recovered(2) show ?case by simp
qed (simp_all add: enqueue_ok requeue_ok promote_ok heartbeat_ok reconcile_ok)

lemma reachable_ok: "queue_reachable b sq \<Longrightarrow> queue_ok (snd sq)"
proof (induction rule: queue_reachable.induct)
  case (initial s)
  show ?case by (simp add: queue_sets empty_queue_def)
next
  case (step sq sq')
  from queue_step_ok [OF step(2)] step(3) show ?case by blast
qed



section \<open>Workers that lost their task\<close>

text \<open>A worker that no longer owns a task (its lease expired and the task was recovered or given
  to another worker) can neither extend the lease nor take the task out of processing: its heartbeat
  changes nothing, and its release leaves the processing list, the leases, the owners, the first
  attempts that wait and the known tasks as they are.\<close>

theorem stale_worker_fenced:
  assumes "map_of (rq_owners q) t \<noteq> Some w" "w \<noteq> []" "release b now store t w q = Inr q'"
  shows "heartbeat now visibility [(t, w)] q = q \<and> rq_processing q' = rq_processing q \<and> rq_leases q' = rq_leases q \<and>
    rq_owners q' = rq_owners q \<and> rq_ready q' = rq_ready q \<and> rq_delayed q' = rq_delayed q \<and> rq_known q' = rq_known q"
proof -
  have d: "delay_owned retrying t w score q = q" for retrying score
    using assms(1) by (simp add: delay_owned_def)
  have a: "ack_owned t w q = q\<lparr>rq_retry_ready := lrem t (rq_retry_ready q), rq_retry_delayed := AList.delete t (rq_retry_delayed q)\<rparr>"
    using assms(1) by (simp add: ack_owned_def)
  have h: "heartbeat now visibility [(t, w)] q = q"
    using assms(1) by (simp add: heartbeat_def heartbeat_one_def)
  have "q' = q \<or> q' = ack_owned t w q"
  proof (cases "get_meta b store t")
    case (Inl e)
    with assms(2,3) show ?thesis by (cases e) (auto simp: release_def)
  next
    case (Inr m)
    with assms(2,3) d show ?thesis by (auto simp: release_def Let_def split: if_splits)
  qed
  with h show ?thesis by (auto simp: a)
qed

theorem stale_worker_fenced_witness:
  "\<exists>q'. release Postgres 9 (sample_store Running) sample_id (u ''old'')
      (lease_mut sample_id (u ''new'') 99 (empty_queue\<lparr>rq_processing := [sample_id]\<rparr>)) = Inr q' \<and>
     rq_processing q' = [sample_id] \<and> map_of (rq_owners q') sample_id = Some (u ''new'')"
proof -
  let ?q = "lease_mut sample_id (u ''new'') 99 (empty_queue\<lparr>rq_processing := [sample_id]\<rparr>)"
  have o: "map_of (rq_owners ?q) sample_id = Some (u ''new'')" "rq_processing ?q = [sample_id]"
    by (simp_all add: lease_mut_def empty_queue_def)
  have "get_meta Postgres (sample_store Running) sample_id = Inr (sample_meta Running)"
    by (simp add: get_meta_ok sample_store_def)
  then obtain q' where r: "release Postgres 9 (sample_store Running) sample_id (u ''old'') ?q = Inr q'"
    by (simp add: release_def)
  have "map_of (rq_owners ?q) sample_id \<noteq> Some (u ''old'')" "u ''old'' \<noteq> []" by (simp_all add: o)
  from stale_worker_fenced [OF this r, of 0] o r show ?thesis by simp
qed

section \<open>First attempts and retries take turns\<close>

text \<open>Tasks taken one after the other, each of them claimed.\<close>

fun serve :: "nat \<Rightarrow> redis_queue \<Rightarrow> (ustr \<times> bool) list" where
  "serve 0 q = []"
| "serve (Suc n) q = (case take_next q of
     None \<Rightarrow> []
   | Some (t, r, q') \<Rightarrow> (t, r) # serve n (q'\<lparr>rq_streak := (if r then 0 else rq_streak q' + 1)\<rparr>))"

text \<open>Three of the first list, one of the second.\<close>

fun three_to_one :: "'a list \<Rightarrow> 'a list \<Rightarrow> ('a \<times> bool) list" where
  "three_to_one (a # b # c # xs) (z # zs) = (a, False) # (b, False) # (c, False) # (z, True) # three_to_one xs zs"
| "three_to_one xs zs = []"

lemma take_first:
  assumes "rq_ready q = rev (t # ts)" "rq_streak q < 3"
  shows "take_next q = Some (t, False, q\<lparr>rq_ready := rev ts, rq_processing := t # rq_processing q\<rparr>)"
  using assms by (simp add: take_next_def move_ready_def)

lemma take_retry:
  assumes "rq_retry_ready q = rev (t # ts)" "3 \<le> rq_streak q"
  shows "take_next q = Some (t, True, q\<lparr>rq_retry_ready := rev ts, rq_processing := t # rq_processing q\<rparr>)"
  using assms by (simp add: take_next_def move_retry_def)

text \<open>While both kinds of tasks wait, the queue serves the oldest three first attempts and then
  the oldest retry, over and over, each list in the order in which the tasks entered it: retries
  get every fourth place and are never starved.\<close>

theorem three_initial_to_one_retry:
  assumes "rq_streak q = 0" "length xs = 3 * k" "length zs = k"
    and "rq_ready q = rev (xs @ later)" "rq_retry_ready q = rev (zs @ others)"
  shows "serve (4 * k) q = three_to_one xs zs \<and> length (filter snd (serve (4 * k) q)) = k"
  using assms
proof (induction k arbitrary: q xs zs)
  case (Suc k)
  from Suc.prems(2) obtain a b c xs' where xs: "xs = a # b # c # xs'" "length xs' = 3 * k"
    by (cases xs; cases "tl xs"; cases "tl (tl xs)") auto
  from Suc.prems(3) obtain z zs' where zs: "zs = z # zs'" "length zs' = k" by (cases zs) auto
  let ?q1 = "q\<lparr>rq_ready := rev (b # c # xs' @ later), rq_processing := a # rq_processing q, rq_streak := 1\<rparr>"
  let ?q2 = "?q1\<lparr>rq_ready := rev (c # xs' @ later), rq_processing := b # a # rq_processing q, rq_streak := 2\<rparr>"
  let ?q3 = "?q2\<lparr>rq_ready := rev (xs' @ later), rq_processing := c # b # a # rq_processing q, rq_streak := 3\<rparr>"
  let ?q4 = "?q3\<lparr>rq_retry_ready := rev (zs' @ others), rq_processing := z # c # b # a # rq_processing q, rq_streak := 0\<rparr>"
  have 1: "serve (Suc n) q = (a, False) # serve n ?q1" for n
    using take_first [of q a "b # c # xs' @ later"] Suc.prems(1,4) by (simp add: xs)
  have 2: "serve (Suc n) ?q1 = (b, False) # serve n ?q2" for n
    using take_first [of ?q1 b "c # xs' @ later"] by simp
  have 3: "serve (Suc n) ?q2 = (c, False) # serve n ?q3" for n
    using take_first [of ?q2 c "xs' @ later"] by simp
  have 4: "serve (Suc n) ?q3 = (z, True) # serve n ?q4" for n
    using take_retry [of ?q3 z "zs' @ others"] Suc.prems(5) by (simp add: zs)
  have s: "serve (4 * Suc k) q = (a, False) # (b, False) # (c, False) # (z, True) # serve (4 * k) ?q4"
  proof -
    have "4 * Suc k = Suc (Suc (Suc (Suc (4 * k))))" by simp
    then show ?thesis by (simp only: 1 2 3 4)
  qed
  have ih: "serve (4 * k) ?q4 = three_to_one xs' zs' \<and> length (filter snd (serve (4 * k) ?q4)) = k"
    by (rule Suc.IH) (use xs(2) zs(2) in simp_all)
  then have len: "length (filter snd (three_to_one xs' zs')) = k" by metis
  from conjunct1 [OF ih] s have "serve (4 * Suc k) q = three_to_one xs zs" by (simp add: xs zs del: serve.simps)
  with len show ?case by (simp add: xs zs del: serve.simps)
qed simp

theorem three_initial_to_one_retry_witness:
  "serve 4 (empty_queue\<lparr>rq_ready := [u ''d'', u ''c'', u ''b'', u ''a''], rq_retry_ready := [u ''z'']\<rparr>)
     = [(u ''a'', False), (u ''b'', False), (u ''c'', False), (u ''z'', True)]"
  using three_initial_to_one_retry [of "empty_queue\<lparr>rq_ready := [u ''d'', u ''c'', u ''b'', u ''a''], rq_retry_ready := [u ''z'']\<rparr>"
      "[u ''a'', u ''b'', u ''c'']" 1 "[u ''z'']" "[u ''d'']" "[]"]
  by (simp add: empty_queue_def del: serve.simps)

section \<open>What a claim returns\<close>

lemma claim_attempt_got:
  assumes q: "queue_ok q" "t \<in> set (rq_processing q)" and t: "is_task_id t"
    and c: "claim_attempt b now paused visibility worker limits t r (store, q) = Inr ((store', q'), True)"
  shows "map_of (rq_owners q') t = Some worker \<and> map_of (rq_leases q') t = Some (now + secs visibility) \<and>
    t \<in> set (rq_processing q') \<and> \<not> paused \<and>
    (\<exists>row. map_of store' t = Some row \<and> tm_status (tr_meta row) = Running \<and> tm_worker_id (tr_meta row) = worker)"
proof -
  obtain m where m: "get_meta b store t = Inr m" using c by (cases "get_meta b store t") (auto simp: claim_attempt_def)
  have g: "\<not> (tm_status m \<noteq> Pending \<or> tm_cancel_requested m)" "due now m"
    using c m by (auto simp: claim_attempt_def split: if_splits)
  obtain store1 where r: "mark_running b now paused store t worker limits = Inr (store1, True)"
    and s: "store' = store1" "q' = (lease_mut t worker (now + secs visibility) q)\<lparr>rq_streak := (if r then 0 else rq_streak q + 1)\<rparr>"
    using c m g by (cases "mark_running b now paused store t worker limits")
      (auto simp: claim_attempt_def Let_def lease_mut_def split: bool.splits if_splits)
  from mark_running_True [OF t r] obtain row where "\<not> paused"
    "store1 = AList.update t (row\<lparr>tr_meta := start_run now worker (tr_meta row)\<rparr>) store" by metis
  with s q(2) show ?thesis by (simp add: lease_mut_def update_conv')
qed

lemma claim_tries_got:
  "claim_tries n b now paused visibility worker limits (store, q) = Inr ((store', q'), Some t) \<Longrightarrow> queue_ok q \<Longrightarrow>
   is_task_id t \<Longrightarrow> map_of (rq_owners q') t = Some worker \<and> map_of (rq_leases q') t = Some (now + secs visibility) \<and>
    t \<in> set (rq_processing q') \<and> \<not> paused \<and>
    (\<exists>row. map_of store' t = Some row \<and> tm_status (tr_meta row) = Running \<and> tm_worker_id (tr_meta row) = worker)"
proof (induction n arbitrary: store q)
  case (Suc n)
  obtain x r q1 where p: "take_next q = Some (x, r, q1)" using Suc.prems(1) by (cases "take_next q") auto
  from take_next_ok [OF Suc.prems(2) p] have q1: "queue_ok q1" "x \<in> set (rq_processing q1)" by auto
  from Suc.prems(1) p obtain store2 q2 claimed
    where c: "claim_attempt b now paused visibility worker limits x r (store, q1) = Inr ((store2, q2), claimed)"
    by (cases "claim_attempt b now paused visibility worker limits x r (store, q1)") auto
  note q2 = claim_attempt_ok [OF q1 c]
  show ?case
  proof (cases claimed)
    case True
    with p c Suc.prems(1) have same: "store2 = store'" "q2 = q'" "x = t" by auto
    from claim_attempt_got [OF q1, of b now paused visibility worker limits r store store' q'] c True Suc.prems(3) same
    show ?thesis by simp
  next
    case False
    with p c Suc.prems(1) have "claim_tries n b now paused visibility worker limits (store2, q2) = Inr ((store', q'), Some t)"
      by simp
    from Suc.IH [OF this q2 Suc.prems(3)] show ?thesis .
  qed
qed simp

text \<open>C29: A claim that returns a task has started it: the task is running in the store under the
  worker, the worker owns it in the queue with a lease that ends one visibility timeout from now,
  it waits nowhere any more, and submission was not paused.\<close>

theorem claim_returns_owned:
  assumes "claim b now paused visibility worker limits (store, q) = Inr ((store', q'), Some t)"
    and "queue_reachable b (store, q)" and "is_task_id t"
  shows "map_of (rq_owners q') t = Some worker \<and> map_of (rq_leases q') t = Some (now + secs visibility) \<and>
    \<not> is_waiting q' t \<and> \<not> paused \<and>
    (\<exists>row. map_of store' t = Some row \<and> tm_status (tr_meta row) = Running \<and> tm_worker_id (tr_meta row) = worker)"
proof -
  have q: "queue_ok q" using reachable_ok [OF assms(2)] by simp
  from assms(1) obtain store1 q1 n where r: "recover b now (store, q) = Inr ((store1, q1), n)"
    and t: "claim_tries 100 b now paused visibility worker limits (store1, promote now q1) = Inr ((store', q'), Some t)"
    by (cases "recover b now (store, q)") (auto simp: claim_def)
  note q1 = promote_ok [OF recover_ok [OF r q]]
  from claim_tries_got [OF t q1 assms(3)] processing_only [OF claim_tries_ok [OF t q1]] show ?thesis by blast
qed

text \<open>A queue that holds one first attempt, and nothing else.\<close>

definition one_queued :: "ustr \<Rightarrow> redis_queue" where
  "one_queued t = empty_queue\<lparr>rq_ready := [t], rq_known := [t]\<rparr>"

lemma is_first_sample: "is_retry_task b (sample_store s) sample_id = False"
  by (simp add: is_retry_task_def get_meta_def sample_store_def is_retry_def sample_meta_def new_meta_def sample_request_def)

lemma one_queued_reachable: "queue_reachable b (sample_store s, one_queued sample_id)"
proof -
  have "fst (enqueue 5 (is_retry_task b (sample_store s) sample_id) sample_id Unset empty_queue) = one_queued sample_id"
    by (simp add: is_first_sample enqueue_def empty_queue_def one_queued_def schedule_def push_ready_def score_of_def sadd_def)
  with queue_reachable.step [OF queue_reachable.initial queue_step.enqueued [of b "sample_store s" empty_queue 5 sample_id Unset]]
  show ?thesis by simp
qed

lemma claim_one:
  "claim b now paused visibility worker limits (store, one_queued t) =
   (case claim_attempt b now paused visibility worker limits t False (store, empty_queue\<lparr>rq_processing := [t], rq_known := [t]\<rparr>) of
         Inl e \<Rightarrow> Inl e
       | Inr (sq', True) \<Rightarrow> Inr (sq', Some t)
       | Inr (sq', False) \<Rightarrow> claim_tries 99 b now paused visibility worker limits sq')"
proof -
  have "recover b now (store, one_queued t) = Inr ((store, one_queued t), 0)"
    by (simp add: recover_def one_queued_def empty_queue_def zrange_def)
  moreover have "promote now (one_queued t) = one_queued t"
    by (simp add: promote_def promote_queue_def promote_retry_queue_def one_queued_def empty_queue_def zrange_def)
  moreover have "take_next (one_queued t) = Some (t, False, empty_queue\<lparr>rq_processing := [t], rq_known := [t]\<rparr>)"
    by (simp add: take_next_def move_ready_def one_queued_def empty_queue_def)
  moreover have "(100 :: nat) = Suc 99" by simp
  ultimately show ?thesis by (simp only: claim_def sum.case prod.case claim_tries.simps option.case fst_conv snd_conv)
qed

lemma sample_started:
  "mark_running LocalFile 7 False (sample_store Pending) sample_id w limits
     = Inr (AList.update sample_id \<lparr>tr_meta = start_run 7 w (sample_meta Pending), tr_result = []\<rparr> (sample_store Pending), True)"
  by (simp add: mark_running_def mutate_meta_def run_row_def file_mutate_def on_meta_def sample_store_def)

theorem claim_returns_owned_witness:
  "\<exists>sq'. claim LocalFile 7 False 180 (u ''w'') (\<lambda>_. None) (sample_store Pending, one_queued sample_id) = Inr (sq', Some sample_id) \<and>
     map_of (rq_owners (snd sq')) sample_id = Some (u ''w'')"
proof -
  have g: "get_meta LocalFile (sample_store Pending) sample_id = Inr (sample_meta Pending)"
    by (simp add: get_meta_ok sample_store_def)
  have d: "due 7 (sample_meta Pending)" by (simp add: due_def sample_meta_def new_meta_def)
  obtain s' q' where c: "claim LocalFile 7 False 180 (u ''w'') (\<lambda>_. None) (sample_store Pending, one_queued sample_id)
      = Inr ((s', q'), Some sample_id)"
    by (simp add: claim_one claim_attempt_def g d sample_started Let_def)
  from claim_returns_owned [OF c one_queued_reachable sample_id_ok] c show ?thesis by simp
qed

section \<open>A claim while submission is paused\<close>

text \<open>C31: While the administrator has paused submission a claim does not merely find nothing: a
  pending task that is due and whose owner has no concurrency limit is acknowledged, that is,
  removed from every place of the queue and from the known tasks, while the store keeps it
  pending; no later claim can return it until something enqueues it again.\<close>

theorem paused_claim_drops_task:
  assumes "get_meta b store t = Inr m" "tm_status m = Pending" "\<not> tm_cancel_requested m" "due now m"
    and "tm_owner m = [] \<or> limits (tm_owner m) = None"
  shows "claim_attempt b now True visibility worker limits t r (store, q) = Inr ((store, ack t q), False) \<and>
    t \<notin> set (queued_ids (ack t q)) \<and> t \<notin> set (rq_known (ack t q)) \<and> get_meta b store t = Inr m"
proof -
  have "t \<notin> set (queued_ids (ack t q))" "t \<notin> set (rq_known (ack t q))" by (simp_all add: ack_def)
  moreover have "claim_attempt b now True visibility worker limits t r (store, q) = Inr ((store, ack t q), False)"
    using assms by (auto simp: claim_attempt_def mark_running_def)
  ultimately show ?thesis using assms(1) by blast
qed

theorem paused_claim_drops_task_witness:
  "claim LocalFile 7 True 180 (u ''w'') (\<lambda>_. None) (sample_store Pending, one_queued sample_id)
     = Inr ((sample_store Pending, empty_queue), None)"
proof -
  have g: "get_meta LocalFile (sample_store Pending) sample_id = Inr (sample_meta Pending)"
    by (simp add: get_meta_ok sample_store_def)
  have m: "tm_status (sample_meta Pending) = Pending" "\<not> tm_cancel_requested (sample_meta Pending)"
    "due 7 (sample_meta Pending)" "tm_owner (sample_meta Pending) = [] \<or> (None :: int option) = None"
    by (simp_all add: due_def sample_meta_def new_meta_def)
  have e: "ack sample_id (empty_queue\<lparr>rq_processing := [sample_id], rq_known := [sample_id]\<rparr>) = empty_queue"
    by (simp add: ack_def remove_all_def empty_queue_def lrem_def)
  have n: "claim_tries 99 b now p v w l (s, empty_queue) = Inr ((s, empty_queue), None)" for b now p v w l s
    by (simp add: numeral_eq_Suc take_next_def move_ready_def move_retry_def empty_queue_def)
  from paused_claim_drops_task [OF g m(1-3), where limits = "\<lambda>_. None" and worker = "u ''w''"] show ?thesis
    by (simp add: claim_one e n)
qed

section \<open>Recovery of expired leases\<close>

lemma recover_task_touches:
  assumes t: "is_task_id t" and r: "recover_task b now t (store, q) = Inr (store', q')"
  shows "touches_only t store store' \<and> rq_leases q' = rq_leases q \<and>
    (\<forall>x. x \<noteq> t \<longrightarrow> (x \<in> set (rq_ready q' @ rq_retry_ready q') \<longleftrightarrow> x \<in> set (rq_ready q @ rq_retry_ready q)))"
proof -
  have meta: "touches_only t store store1 \<and> rq_leases q1 = rq_leases q \<and>
    (\<forall>x. x \<noteq> t \<longrightarrow> (x \<in> set (rq_ready q1 @ rq_retry_ready q1) \<longleftrightarrow> x \<in> set (rq_ready q @ rq_retry_ready q)))"
    if "recover_meta b now t (store, q) m = Inr (store1, q1)" for m store1 q1
    using that mutate_meta_touches [OF t]
    by (auto simp: recover_meta_def map_sum_Inr push_ready_def split: if_splits sum.splits)
  show ?thesis
  proof (cases "get_meta b store t")
    case (Inl e)
    with r show ?thesis by (cases e) (auto simp: recover_task_def)
  next
    case (Inr m)
    show ?thesis
    proof (cases "recover_meta b now t (store, q) m")
      case (Inl e)
      with Inr r show ?thesis by (cases e) (auto simp: recover_task_def \<open>get_meta b store t = Inr m\<close>)
    next
      case (Inr sq)
      with \<open>get_meta b store t = Inr m\<close> r have "sq = (store', q')" by (simp add: recover_task_def)
      with Inr meta show ?thesis by blast
    qed
  qed
qed

text \<open>What becomes of one recovered task.\<close>

definition recovered_as :: "task_store \<Rightarrow> redis_queue \<Rightarrow> ustr \<Rightarrow> task_row \<Rightarrow> bool" where
  "recovered_as store q t row \<longleftrightarrow> (\<exists>m. map_of store t = Some (row\<lparr>tr_meta := m\<rparr>) \<and>
     (if tm_status (tr_meta row) = Running
      then tm_status m = (if reached_platform (tr_result row) then Submitted else Pending) \<and> tm_worker_id m = []
      else m = tr_meta row) \<and>
     (t \<in> set (rq_ready q @ rq_retry_ready q) \<longleftrightarrow> tm_status m = Pending))"

lemma recover_task_result:
  assumes t: "is_task_id t" and row: "map_of store t = Some row"
    and q: "t \<notin> set (rq_ready q @ rq_retry_ready q)"
    and r: "recover_task b now t (store, q) = Inr (store', q')"
  shows "recovered_as store' q' t row"
proof -
  have g: "get_meta b store t = Inr (tr_meta row)" by (simp add: get_meta_ok t row)
  have d: "load_result b store t = Inr (tr_result row)" by (simp add: load_result_def t row)
  show ?thesis
  proof (cases "tm_status (tr_meta row) = Running")
    case True
    define f where "f = (if reached_platform (tr_result row) then mark_submitted_mut now 45
      else mark_pending_mut now (u ''worker lease expired''))"
    obtain m where m: "f (tr_meta row) = Inr (m, Some m, True)" "tm_worker_id m = []"
      "tm_status m = (if reached_platform (tr_result row) then Submitted else Pending)"
      using True by (cases "reached_platform (tr_result row)")
        (simp_all add: f_def mark_submitted_mut_def mark_pending_mut_def update_meta_if_mut_def Let_def)
    let ?s = "AList.update t (row\<lparr>tr_meta := m\<rparr>) store"
    have om: "on_meta f row = Inr (row\<lparr>tr_meta := m\<rparr>, Some m, True)" by (simp add: on_meta_def m)
    have "mutate_meta b store t f = Inr (?s, Some m)"
      using any_rows.run_written [OF row, where f = "on_meta f", OF om, where e = FileNotFoundError and b = b] t
      by (simp add: mutate_meta_def)
    then have "store' = ?s \<and> q' = (if reached_platform (tr_result row) then q else push_ready (is_retry_task b ?s t) t q)"
      using r True by (auto simp: recover_task_def g recover_meta_def d f_def split: if_splits)
    with q m True show ?thesis
      by (cases "reached_platform (tr_result row)") (auto simp: recovered_as_def update_conv' push_ready_def)
  next
    case False
    with r have "store' = store \<and> (q' = (if tm_status (tr_meta row) = Pending then push_ready (is_retry_task b store t) t q
        else q\<lparr>rq_known := lrem t (rq_known q)\<rparr>))"
      by (auto simp: recover_task_def g recover_meta_def split: if_splits)
    with q row False show ?thesis
      by (cases "tm_status (tr_meta row) = Pending") (auto simp: recovered_as_def push_ready_def intro!: exI [of _ "tr_meta row"])
  qed
qed

lemma recover_task_total:
  assumes t: "is_task_id t" and row: "map_of store t = Some row"
  shows "\<exists>sq'. recover_task b now t (store, q) = Inr sq'"
proof -
  have g: "get_meta b store t = Inr (tr_meta row)" by (simp add: get_meta_ok t row)
  have d: "load_result b store t = Inr (tr_result row)" by (simp add: load_result_def t row)
  have "\<exists>sr. mutate_meta b store t (update_meta_if_mut now ss h) = Inr sr" for ss h
    by (cases b) (simp_all add: mutate_meta_def t run_row_def pg_mutate_def file_mutate_def row on_meta_def
        update_meta_if_mut_def Let_def)
  then have "\<exists>sr. mutate_meta b store t (mark_submitted_mut now 45) = Inr sr"
    "\<exists>sr. mutate_meta b store t (mark_pending_mut now (u ''worker lease expired'')) = Inr sr"
    by (simp_all only: mark_submitted_mut_def mark_pending_mut_def)
  then show ?thesis by (auto simp: recover_task_def g d recover_meta_def)
qed

lemma recovered_as_frame:
  "recovered_as store q t row \<Longrightarrow> map_of store' t = map_of store t \<Longrightarrow>
   (t \<in> set (rq_ready q' @ rq_retry_ready q') \<longleftrightarrow> t \<in> set (rq_ready q @ rq_retry_ready q)) \<Longrightarrow> recovered_as store' q' t row"
  by (simp add: recovered_as_def)

lemma recover_loop_frame:
  "recover_loop b now ts (store, q) n = Inr ((store', q'), n') \<Longrightarrow> \<forall>t \<in> set ts. is_task_id t \<Longrightarrow> x \<notin> set ts \<Longrightarrow>
   map_of store' x = map_of store x \<and> map_of (rq_leases q') x = map_of (rq_leases q) x \<and>
   (x \<in> set (rq_ready q' @ rq_retry_ready q') \<longleftrightarrow> x \<in> set (rq_ready q @ rq_retry_ready q))"
proof (induction ts arbitrary: store q n)
  case (Cons t ts)
  obtain q1 taken where e: "expire_lease now t q = (q1, taken)" by force
  have t: "is_task_id t" "\<forall>t \<in> set ts. is_task_id t" "x \<noteq> t" "x \<notin> set ts" using Cons.prems by auto
  show ?case
  proof (cases taken)
    case False
    with e Cons.prems(1) have "recover_loop b now ts (store, q) n = Inr ((store', q'), n')" by simp
    from Cons.IH [OF this t(2,4)] show ?thesis .
  next
    case True
    with e have "expire_lease now t q = (q1, True)" by simp
    then have q1: "q1 = q\<lparr>rq_leases := AList.delete t (rq_leases q), rq_owners := AList.delete t (rq_owners q),
            rq_processing := lrem t (rq_processing q)\<rparr>" by (rule expire_lease_True)
    from Cons.prems(1) e True obtain store2 q2 where r: "recover_task b now t (store, q1) = Inr (store2, q2)"
      and l: "recover_loop b now ts (store2, q2) (n + 1) = Inr ((store', q'), n')"
      by (cases "recover_task b now t (store, q1)") auto
    from Cons.IH [OF l t(2,4)] recover_task_touches [OF t(1) r] t(3) show ?thesis
      by (simp add: touches_only_def q1)
  qed
qed simp

lemma recover_loop_result:
  "recover_loop b now ts (store, q) n = Inr ((store', q'), n') \<Longrightarrow> \<forall>t \<in> set ts. is_task_id t \<Longrightarrow> distinct ts \<Longrightarrow>
   queue_ok q \<Longrightarrow> x \<in> set ts \<Longrightarrow> map_of (rq_leases q) x = Some s \<Longrightarrow> s \<le> now \<Longrightarrow> map_of store x = Some row \<Longrightarrow>
   map_of (rq_leases q') x = None \<and> recovered_as store' q' x row"
proof (induction ts arbitrary: store q n)
  case (Cons t ts)
  obtain q1 taken where e: "expire_lease now t q = (q1, taken)" by force
  have t: "is_task_id t" "\<forall>t \<in> set ts. is_task_id t" "t \<notin> set ts" "distinct ts" using Cons.prems by auto
  show ?case
  proof (cases taken)
    case False
    with e Cons.prems(6,7) have "x \<noteq> t" by (auto simp: expire_lease_def)
    with False e Cons.prems have "recover_loop b now ts (store, q) n = Inr ((store', q'), n')" "x \<in> set ts" by auto
    from Cons.IH [OF this(1) t(2,4) Cons.prems(4) this(2) Cons.prems(6-8)] show ?thesis .
  next
    case True
    with e have e': "expire_lease now t q = (q1, True)" by simp
    then have q1: "q1 = q\<lparr>rq_leases := AList.delete t (rq_leases q), rq_owners := AList.delete t (rq_owners q),
            rq_processing := lrem t (rq_processing q)\<rparr>" by (rule expire_lease_True)
    from expire_lease_ok [OF Cons.prems(4) e']
    have ok: "queue_ok q1" "t \<notin> set (queued_ids q1)" "t \<in> set (rq_known q1)" "map_of (rq_leases q1) t = None" by auto
    from Cons.prems(1) e True obtain store2 q2 where r: "recover_task b now t (store, q1) = Inr (store2, q2)"
      and l: "recover_loop b now ts (store2, q2) (n + 1) = Inr ((store', q'), n')"
      by (cases "recover_task b now t (store, q1)") auto
    note tt = recover_task_touches [OF t(1) r]
    show ?thesis
    proof (cases "x = t")
      case True
      have "t \<notin> set (rq_ready q1 @ rq_retry_ready q1)" using ok(2) by (simp add: queued_ids_def)
      from recover_task_result [OF t(1) _ this r] Cons.prems(8) True have "recovered_as store2 q2 t row" by simp
      with recover_loop_frame [OF l t(2,3)] tt ok(4) True show ?thesis
        by (auto intro: recovered_as_frame)
    next
      case False
      then have x: "x \<in> set ts" "map_of (rq_leases q2) x = Some s" "map_of store2 x = Some row"
        using Cons.prems(5,6,8) tt by (auto simp: q1 touches_only_def)
      from Cons.IH [OF l t(2,4) recover_task_ok [OF ok(1-3) r] x(1,2) Cons.prems(7) x(3)] show ?thesis .
    qed
  qed
qed simp

text \<open>Recovery takes every expired lease (the first hundred) away from its worker: a task that
  was running is submitted and not queued when its request had reached the platform, so that it is
  never sent twice, and otherwise pending and back in a ready list; a task that was not running
  keeps its record and is queued exactly when it is pending; all other tasks stay as they are.\<close>

theorem expired_leases_recovered:
  assumes "recover b now (store, q) = Inr ((store', q'), n)" "queue_reachable b (store, q)"
    and "\<forall>t \<in> fst ` set (rq_leases q). is_task_id t" "map_of store t = Some row"
  shows "if t \<in> set (zrange now (rq_leases q))
    then map_of (rq_leases q') t = None \<and> (\<exists>m. map_of store' t = Some (row\<lparr>tr_meta := m\<rparr>) \<and>
      (if tm_status (tr_meta row) = Running
       then tm_status m = (if reached_platform (tr_result row) then Submitted else Pending) \<and> tm_worker_id m = []
       else m = tr_meta row) \<and>
      (t \<in> set (rq_ready q' @ rq_retry_ready q') \<longleftrightarrow> tm_status m = Pending))
    else map_of store' t = Some row \<and> map_of (rq_leases q') t = map_of (rq_leases q) t"
proof -
  have q: "queue_ok q" using reachable_ok [OF assms(2)] by simp
  then have dl: "distinct (map fst (rq_leases q))" by (simp add: queue_ok_def)
  note l = assms(1) [unfolded recover_def fst_conv snd_conv]
  have ids: "\<forall>t \<in> set (zrange now (rq_leases q)). is_task_id t" using assms(3) zrange_keys by blast
  show ?thesis
  proof (cases "t \<in> set (zrange now (rq_leases q))")
    case True
    then obtain s where s: "map_of (rq_leases q) t = Some s" "s \<le> now" using zrange_due [OF dl] by blast
    from recover_loop_result [OF l ids zrange_distinct [OF dl] q True s assms(4)] True show ?thesis
      by (simp only: recovered_as_def if_True)
  next
    case False
    from recover_loop_frame [OF l ids False] assms(4) False show ?thesis by simp
  qed
qed

theorem expired_leases_recovered_witness:
  "\<exists>store q store' q' row. queue_reachable LocalFile (store, q) \<and>
     recover LocalFile (secs 300) (store, q) = Inr ((store', q'), 1) \<and>
     map_of store' sample_id = Some row \<and> tm_status (tr_meta row) = Pending \<and> rq_leases q' = []"
proof -
  let ?row = "\<lparr>tr_meta = start_run 7 (u ''w'') (sample_meta Pending), tr_result = []\<rparr>"
  let ?s = "AList.update sample_id ?row (sample_store Pending)"
  let ?q = "(lease_mut sample_id (u ''w'') (7 + secs 180) (empty_queue\<lparr>rq_processing := [sample_id], rq_known := [sample_id]\<rparr>))\<lparr>rq_streak := 1\<rparr>"
  have g: "get_meta LocalFile (sample_store Pending) sample_id = Inr (sample_meta Pending)"
    by (simp add: get_meta_ok sample_store_def)
  have d: "due 7 (sample_meta Pending)" by (simp add: due_def sample_meta_def new_meta_def)
  have "claim LocalFile 7 False 180 (u ''w'') (\<lambda>_. None) (sample_store Pending, one_queued sample_id) = Inr ((?s, ?q), Some sample_id)"
    by (simp add: claim_one claim_attempt_def g d sample_started Let_def) (simp add: lease_mut_def empty_queue_def)
  then have r: "queue_reachable LocalFile (?s, ?q)"
    by (rule queue_reachable.step [OF one_queued_reachable queue_step.claimed])
  have leases: "rq_leases ?q = [(sample_id, 7 + secs 180)]" by (simp add: lease_mut_def empty_queue_def)
  have z: "zrange (secs 300) (rq_leases ?q) = [sample_id]" unfolding leases by (simp add: zrange_def secs_def)
  have row: "map_of ?s sample_id = Some ?row" by (simp add: update_conv')
  have e: "expire_lease (secs 300) sample_id ?q = (?q\<lparr>rq_leases := AList.delete sample_id (rq_leases ?q),
      rq_owners := AList.delete sample_id (rq_owners ?q), rq_processing := lrem sample_id (rq_processing ?q)\<rparr>, True)"
    unfolding expire_lease_def leases by (simp add: secs_def)
  obtain store' q' where t: "recover_task LocalFile (secs 300) sample_id (?s, fst (expire_lease (secs 300) sample_id ?q))
      = Inr (store', q')"
    using recover_task_total [OF sample_id_ok row] by (metis surj_pair)
  from recover_task_touches [OF sample_id_ok t] have l: "rq_leases q' = []" unfolding e leases by simp
  have rec: "recover LocalFile (secs 300) (?s, ?q) = Inr ((store', q'), 1)"
    using t unfolding recover_def fst_conv snd_conv z e by (simp add: e)
  have ids: "\<forall>t \<in> fst ` set (rq_leases ?q). is_task_id t" by (simp add: leases)
  have "sample_id \<in> set (zrange (secs 300) (rq_leases ?q))" unfolding z by simp
  from expired_leases_recovered [OF rec r ids row, unfolded if_P [OF this]]
  obtain m where "map_of store' sample_id = Some (?row\<lparr>tr_meta := m\<rparr>)" "tm_status m = Pending"
    by (auto simp: reached_platform_def has_value_def str_value_def)
  with r rec l show ?thesis by (intro exI conjI) (assumption | simp)+
qed

section \<open>The contract of a requeue\<close>

text \<open>What the store's retries rely on: a requeue keeps the queue's invariant, says that it queued
  the task, and leaves the task where a claim can find it.\<close>

locale task_requeue =
  fixes rq :: "'q requeuer" and inv :: "'q \<Rightarrow> bool" and waits :: "'q \<Rightarrow> ustr \<Rightarrow> bool"
  assumes requeue_accepts: "rq store now t available_at q = (q', queued) \<Longrightarrow> queued"
    and requeue_keeps: "inv q \<Longrightarrow> rq store now t available_at q = (q', queued) \<Longrightarrow> inv q'"
    and requeue_waits: "rq store now t available_at q = (q', queued) \<Longrightarrow> waits q' t"
begin

lemma requeue_pending_kept:
  "requeue_pending_task rq b now (store, q) t = ((store', q'), r) \<Longrightarrow> inv q \<Longrightarrow> inv q'"
  by (auto simp: requeue_pending_task_def dest: requeue_keeps split: sum.splits if_splits prod.splits)

lemma requeue_pending_waits:
  assumes "is_task_id t" "map_of store t = Some row" "tm_status (tr_meta row) = Pending"
    "\<not> tm_cancel_requested (tr_meta row)" "requeue_pending_task rq b now (store, q) t = ((store', q'), r)"
  shows "waits q' t"
proof -
  have g: "get_meta b store t = Inr (tr_meta row)" by (simp add: get_meta_ok assms(1,2))
  obtain q1 queued where r: "rq store now t (tm_next_attempt_at (tr_meta row)) q = (q1, queued)" by force
  from requeue_accepts [OF r] have queued .
  with r assms(3-5) g have "q' = q1"
    by (auto simp: requeue_pending_task_def split: sum.splits)
  with requeue_waits [OF r] show ?thesis by simp
qed

lemma run_retry_kept:
  assumes "run_retry rq b now early again f (store, q) t = ((store', q'), r)" "inv q"
  shows "inv q'"
proof (cases "mutate_meta b store t f")
  case (Inl e)
  with assms show ?thesis by (auto simp: run_retry_def)
next
  case (Inr x)
  obtain s1 n applied where x: "x = (s1, n, applied)" by (cases x)
  obtain s2 q2 z where p: "requeue_pending_task rq b now (s1, q) t = ((s2, q2), z)"
    by (cases "requeue_pending_task rq b now (s1, q) t") auto
  from requeue_pending_kept [OF p assms(2)] assms Inr x p show ?thesis
    by (auto simp: run_retry_def split: if_splits sum.splits)
qed

lemma run_retry_waits:
  assumes t: "is_task_id t" and f: "mutate_meta b store t f = Inr (s1, n, True)" and again: "again n"
    and row: "map_of s1 t = Some row" "tm_status (tr_meta row) = Pending" "\<not> tm_cancel_requested (tr_meta row)"
    and r: "run_retry rq b now early again f (store, q) t = ((store', q'), r)"
  shows "waits q' t"
proof -
  obtain s2 q2 z where p: "requeue_pending_task rq b now (s1, q) t = ((s2, q2), z)"
    by (cases "requeue_pending_task rq b now (s1, q) t") auto
  have "q' = q2" using r f again p by (auto simp: run_retry_def split: sum.splits)
  with requeue_pending_waits [OF t row p] show ?thesis by simp
qed

end

interpretation redis_rq: task_requeue "redis_requeue b" queue_ok is_waiting for b
  by unfold_locales (auto simp: redis_requeue_def requeue_ok requeue_waiting)

text \<open>Without Redis the pending tasks on disk are the queue.\<close>

interpretation file_rq: task_requeue file_requeue "\<lambda>_. True" "\<lambda>_ _. True"
  by unfold_locales (auto simp: file_requeue_def)

text \<open>C30: A retry of a submitted task that its guard lets through, with retries left, puts the task
  back where a claim finds it: in a ready or a delayed place of the queue, whose invariant is kept.\<close>

theorem retried_task_waits:
  assumes "is_task_id t" "map_of store t = Some row" "tm_status (tr_meta row) = Submitted"
    and "\<not> tm_cancel_requested (tr_meta row)" "0 \<le> tm_retry_count (tr_meta row)"
    and "tm_retry_count (tr_meta row) < effective_retries limit max_retries" "queue_reachable b (store, q)"
    and "retry_submitted_task (redis_requeue b) b now limit (store, q) t reason max_retries delay = ((store', q'), r)"
  shows "is_waiting q' t \<and> queue_ok q'"
proof -
  let ?k = "effective_retries limit max_retries" and ?m = "tr_meta row"
  have run: "run_retry (redis_requeue b) b now True (\<lambda>n. n \<le> ?k) (retry_submitted_mut now ?k reason delay) (store, q) t
      = ((store', q'), r)"
    using assms(8) by (simp add: retry_submitted_task_def Let_def)
  obtain m where f: "retry_submitted_mut now ?k reason delay ?m = Inr (m, (tm_retry_count ?m + 1, True), True)"
    and m: "tm_status m = Pending" "\<not> tm_cancel_requested m"
    using assms(3-6) by (simp add: retry_submitted_mut_def Let_def)
  have om: "on_meta (retry_submitted_mut now ?k reason delay) row
      = Inr (row\<lparr>tr_meta := m\<rparr>, (tm_retry_count ?m + 1, True), True)" by (simp add: on_meta_def f)
  let ?s = "AList.update t (row\<lparr>tr_meta := m\<rparr>) store"
  have mm: "mutate_meta b store t (retry_submitted_mut now ?k reason delay) = Inr (?s, tm_retry_count ?m + 1, True)"
    using any_rows.run_written [OF assms(2), where f = "on_meta (retry_submitted_mut now ?k reason delay)", OF om,
      where e = FileNotFoundError and b = b] assms(1) by (simp add: mutate_meta_def)
  have row: "map_of ?s t = Some (row\<lparr>tr_meta := m\<rparr>)" by (simp add: update_conv')
  have q: "queue_ok q" using reachable_ok [OF assms(7)] by simp
  have "is_waiting q' t"
    by (rule redis_rq.run_retry_waits [OF assms(1) mm _ row _ _ run]) (use assms(6) m in simp_all)
  with redis_rq.run_retry_kept [OF run q] show ?thesis by blast
qed

theorem retried_task_waits_witness:
  "is_waiting (snd (fst (retry_submitted_task (redis_requeue Postgres) Postgres 9 2 (sample_store Submitted, empty_queue)
     sample_id [] None 10))) sample_id"
proof -
  let ?row = "\<lparr>tr_meta = sample_meta Submitted, tr_result = []\<rparr>"
  obtain store' q' r where r: "retry_submitted_task (redis_requeue Postgres) Postgres 9 2 (sample_store Submitted, empty_queue)
     sample_id [] None 10 = ((store', q'), r)" by (metis surj_pair)
  have "map_of (sample_store Submitted) sample_id = Some ?row" by (simp add: sample_store_def)
  from retried_task_waits [OF sample_id_ok this _ _ _ _ queue_reachable.initial r] r show ?thesis
    by (simp add: effective_retries_def)
qed

end
