(* ===== verification/Account_Quota.thy ===== *)
theory Account_Quota
  imports Task_Store Ledger
begin

text \<open>
  The platform accounts and their quota ledgers (app/accounts.py): an account has a daily quota
  and, on qianwen, a second one for the AI studio, each with a ledger of charges. Every operation
  here is one mutator of an account's row; \<open>now\<close> is the clock and \<open>local_today\<close> its day in the
  time zone UTC+8. A date that is missing or empty is \<open>None\<close>, and so is a limit that is missing.
\<close>

section \<open>Days\<close>

definition local_today :: "int \<Rightarrow> int" where
  "local_today now = (now + hours 8) div hours 24"

section \<open>Charges\<close>

datatype charge_status = Charged | Settled | Refunded

record charge =
  ch_id :: ustr
  ch_task :: ustr
  ch_units :: int
  ch_status :: charge_status
  ch_charged_at :: stamp
  ch_settled_at :: stamp
  ch_refunded_at :: stamp
  ch_settle_reason :: ustr
  ch_refund_reason :: ustr

text \<open>Units that are missing are 0 here, a status that is missing is \<open>Charged\<close>.\<close>

definition charge_units :: "charge \<Rightarrow> int" where
  "charge_units c = max 1 (int_or (ch_units c) 1)"

definition is_active_charge :: "charge \<Rightarrow> bool" where
  "is_active_charge c \<longleftrightarrow> ch_status c \<in> set [Charged, Settled]"

definition active_units :: "charge list \<Rightarrow> int" where
  "active_units cs = sum_list (map charge_units (filter is_active_charge cs))"

record quota_ledger =
  ql_limit :: "int option"
  ql_used :: int
  ql_base :: int
  ql_initialized :: bool
  ql_charges :: "charge list"
  ql_exhausted :: "int option"
  ql_reset_date :: "int option"

text \<open>\<open>_quota_charges\<close> and \<open>_studio_quota_charges\<close>, and the uses they account for.\<close>

definition valid_charges :: "quota_ledger \<Rightarrow> charge list" where
  "valid_charges l = filter (\<lambda>c. ch_id c \<noteq> []) (ql_charges l)"

definition reconciled_used :: "quota_ledger \<Rightarrow> int" where
  "reconciled_used l = max 0 (ql_base l) + active_units (valid_charges l)"

definition initialize_ledger :: "quota_ledger \<Rightarrow> quota_ledger" where
  "initialize_ledger l =
     (let l1 = (if ql_initialized l then l else l\<lparr>ql_base := max 0 (ql_used l), ql_initialized := True\<rparr>)
      in l1\<lparr>ql_charges := valid_charges l1\<rparr>)"

definition reconcile_ledger :: "quota_ledger \<Rightarrow> quota_ledger \<times> bool" where
  "reconcile_ledger l =
     (if \<not> ql_initialized l then (l, False)
      else (l\<lparr>ql_charges := valid_charges l, ql_used := reconciled_used l\<rparr>,
            ql_charges l \<noteq> valid_charges l \<or> max 0 (ql_used l) \<noteq> reconciled_used l))"

definition reset_ledger :: "quota_ledger \<Rightarrow> quota_ledger" where
  "reset_ledger l = l\<lparr>ql_used := 0, ql_base := 0, ql_charges := [], ql_initialized := True, ql_exhausted := None\<rparr>"

definition new_charge :: "int \<Rightarrow> ustr \<Rightarrow> ustr \<Rightarrow> int \<Rightarrow> charge" where
  "new_charge now charge_id task units = \<lparr>ch_id = charge_id, ch_task = task, ch_units = units, ch_status = Charged,
     ch_charged_at = At now, ch_settled_at = Unset, ch_refunded_at = Unset, ch_settle_reason = [],
     ch_refund_reason = []\<rparr>"

text \<open>A claim opens a charge.\<close>

definition open_charge :: "int \<Rightarrow> ustr \<Rightarrow> ustr \<Rightarrow> int \<Rightarrow> quota_ledger \<Rightarrow> quota_ledger" where
  "open_charge now charge_id task units l =
     (let l1 = initialize_ledger l;
          l2 = l1\<lparr>ql_charges := ql_charges l1 @ [new_charge now charge_id task units]\<rparr>
      in l2\<lparr>ql_used := reconciled_used l2\<rparr>)"

definition is_open :: "ustr \<Rightarrow> charge \<Rightarrow> bool" where
  "is_open charge_id c \<longleftrightarrow> ch_id c \<noteq> [] \<and> ch_id c = charge_id \<and> ch_status c = Charged"

text \<open>The first open charge with the identifier is refunded or settled.\<close>

definition refund_charge :: "int \<Rightarrow> ustr \<Rightarrow> quota_ledger \<Rightarrow> quota_ledger option" where
  "refund_charge now charge_id l = (case find (is_open charge_id) (ql_charges l) of
     None \<Rightarrow> None
   | Some _ \<Rightarrow> (let l1 = l\<lparr>ql_charges := update_first (is_open charge_id)
         (\<lambda>c. c\<lparr>ch_status := Refunded, ch_refunded_at := At now\<rparr>) (ql_charges l)\<rparr>
       in Some (l1\<lparr>ql_used := reconciled_used l1\<rparr>)))"

definition settle_charge :: "int \<Rightarrow> ustr \<Rightarrow> quota_ledger \<Rightarrow> quota_ledger option" where
  "settle_charge now charge_id l = (case find (is_open charge_id) (ql_charges l) of
     None \<Rightarrow> None
   | Some _ \<Rightarrow> (let l1 = l\<lparr>ql_charges := update_first (is_open charge_id)
         (\<lambda>c. c\<lparr>ch_status := Settled, ch_settled_at := At now\<rparr>) (ql_charges l)\<rparr>
       in Some (l1\<lparr>ql_used := reconciled_used l1\<rparr>)))"

text \<open>
  A timed-out generation stays charged, also when it had been refunded; a charge that is not in
  the ledger is added to it as settled.
\<close>

definition settle_timed_out :: "int \<Rightarrow> charge \<Rightarrow> charge" where
  "settle_timed_out now c = c\<lparr>ch_status := Settled, ch_settled_at := At now, ch_settle_reason := u ''result_timeout'',
     ch_refunded_at := Unset, ch_refund_reason := []\<rparr>"

definition time_out_charge :: "int \<Rightarrow> ustr \<Rightarrow> quota_ledger \<Rightarrow> quota_ledger" where
  "time_out_charge now charge_id l =
     (let l1 = initialize_ledger l;
          p = (\<lambda>c. ch_id c = charge_id);
          cs = (case find p (ql_charges l1) of
              None \<Rightarrow> ql_charges l1 @ [settle_timed_out now ((new_charge now charge_id [] 0)\<lparr>ch_charged_at := Unset\<rparr>)]
            | Some _ \<Rightarrow> update_first p (settle_timed_out now) (ql_charges l1));
          l2 = l1\<lparr>ql_charges := cs\<rparr>
      in l2\<lparr>ql_used := reconciled_used l2\<rparr>)"

text \<open>
  The platform reported that nothing is left: the open charge is returned and the base takes up
  what is missing to the limit.
\<close>

definition refund_insufficient :: "int \<Rightarrow> charge \<Rightarrow> charge" where
  "refund_insufficient now c = c\<lparr>ch_status := Refunded, ch_refunded_at := At now,
     ch_refund_reason := u ''quota_insufficient''\<rparr>"

definition exhaust_ledger :: "int \<Rightarrow> ustr \<Rightarrow> quota_ledger \<Rightarrow> quota_ledger" where
  "exhaust_ledger now charge_id l =
     (let limit = max 1 (int_or (case ql_limit l of None \<Rightarrow> 0 | Some n \<Rightarrow> n) 1);
          l1 = (if charge_id \<noteq> [] \<and> ql_initialized l
            then (let l2 = l\<lparr>ql_charges := update_first (is_open charge_id) (refund_insufficient now) (ql_charges l)\<rparr>;
                      l3 = l2\<lparr>ql_base := max 0 (limit - active_units (valid_charges l2))\<rparr>
                  in l3\<lparr>ql_used := max limit (reconciled_used l3)\<rparr>)
            else l\<lparr>ql_used := max limit (ql_used l)\<rparr>)
      in l1\<lparr>ql_limit := Some limit, ql_exhausted := Some (local_today now)\<rparr>)"

definition DEFAULT_STUDIO_LIMIT :: int where "DEFAULT_STUDIO_LIMIT = 60"

definition exhaust_studio_ledger :: "int \<Rightarrow> bool \<Rightarrow> ustr \<Rightarrow> quota_ledger \<Rightarrow> quota_ledger" where
  "exhaust_studio_ledger now timed_out charge_id l =
     (let limit = max 1 (int_or (case ql_limit l of None \<Rightarrow> DEFAULT_STUDIO_LIMIT | Some n \<Rightarrow> n) 1);
          l1 = initialize_ledger l;
          p = (\<lambda>c. ch_id c = charge_id);
          added = (new_charge now charge_id [] 0)\<lparr>ch_charged_at := Unset, ch_status := (if timed_out then Settled else Refunded)\<rparr>;
          cs1 = (if charge_id \<noteq> [] \<and> find p (ql_charges l1) = None then ql_charges l1 @ [added] else ql_charges l1);
          cs2 = (if charge_id = [] then cs1
            else update_first p (\<lambda>c. if timed_out then settle_timed_out now c
              else if ch_status c = Charged then refund_insufficient now c else c) cs1);
          l2 = l1\<lparr>ql_charges := cs2, ql_limit := Some limit\<rparr>;
          l3 = (if timed_out then l2 else l2\<lparr>ql_base := max 0 (limit - active_units cs2)\<rparr>)
      in l3\<lparr>ql_used := max (if timed_out then 1 else limit) (reconciled_used l3),
            ql_exhausted := Some (local_today now)\<rparr>)"

section \<open>Accounts\<close>

record cookie =
  ck_name :: ustr
  ck_value :: ustr
  ck_domain :: ustr
  ck_path :: ustr
  ck_expires :: "int option"
  ck_same_site :: ustr
  ck_http_only :: "bool option"
  ck_secure :: "bool option"

text \<open>The date of the slider verification is a day, as the other dates; a field that was popped is
  unset, empty or zero.\<close>

record account =
  ac_platform :: ustr
  ac_source :: ustr
  ac_name :: ustr
  ac_enabled :: bool
  ac_status :: ustr
  ac_ten_second_only :: bool
  ac_status_reason :: ustr
  ac_disabled_reason :: ustr
  ac_status_marked_at :: stamp
  ac_slider_date :: "int option"
  ac_slider_streak :: int
  ac_ten_second_marked_at :: stamp
  ac_cookies :: "cookie list"
  ac_cookie_header :: ustr
  ac_cookie_fingerprint :: ustr
  ac_cookies_refreshed_at :: stamp
  ac_created_at :: stamp
  ac_cooldown_until :: stamp
  ac_cooldown_reason :: ustr
  ac_pinned_node :: ustr
  ac_current_task :: ustr
  ac_current_worker :: ustr
  ac_current_started :: stamp
  ac_current_charge :: ustr
  ac_last_used_worker :: ustr
  ac_last_used_at :: stamp
  ac_main :: quota_ledger
  ac_studio :: quota_ledger
  ac_refund_ids :: "ustr list"
  ac_sync_date :: "int option"
  ac_synced_at :: stamp
  ac_available_at_sync :: int
  ac_used_at_sync :: int
  ac_sign_in :: int
  ac_updated_at :: stamp

type_synonym account_store = "(ustr, account) table"

definition account_platform :: "account \<Rightarrow> ustr" where
  "account_platform ac = str_or (ac_platform ac) (u ''dola'')"

definition is_studio_charge :: "ustr \<Rightarrow> bool" where
  "is_studio_charge charge_id \<longleftrightarrow> take 7 charge_id = u ''studio:''"

definition ledger_of :: "bool \<Rightarrow> account \<Rightarrow> quota_ledger" where
  "ledger_of studio ac = (if studio then ac_studio ac else ac_main ac)"

definition put_ledger :: "bool \<Rightarrow> quota_ledger \<Rightarrow> account \<Rightarrow> account" where
  "put_ledger studio l ac = (if studio then ac\<lparr>ac_studio := l\<rparr> else ac\<lparr>ac_main := l\<rparr>)"

text \<open>The missing account of \<open>mutate_account\<close> is caught: the result is \<open>False\<close>.\<close>

definition account_row ::
    "backend \<Rightarrow> account_store \<Rightarrow> ustr \<Rightarrow> (account, bool) mutator \<Rightarrow> account_store \<times> bool" where
  "account_row b store i f = (case run_row b KeyError store i f of
     Inl _ \<Rightarrow> (store, False) | Inr sr \<Rightarrow> sr)"

text \<open>Apply a change of the ledger that may be refused.\<close>

definition charge_mut ::
    "int \<Rightarrow> bool \<Rightarrow> (quota_ledger \<Rightarrow> quota_ledger option) \<Rightarrow> (account, bool) mutator" where
  "charge_mut now studio f ac = (case f (ledger_of studio ac) of
     None \<Rightarrow> Inr (ac, False, False)
   | Some l \<Rightarrow> Inr ((put_ledger studio l ac)\<lparr>ac_updated_at := At now\<rparr>, True, True))"

definition refund_mut :: "int \<Rightarrow> ustr \<Rightarrow> (account, bool) mutator" where
  "refund_mut now refund_id ac =
     (if is_studio_charge refund_id \<or> ql_initialized (ac_main ac)
      then charge_mut now (is_studio_charge refund_id)
        (\<lambda>l. if ql_initialized l then refund_charge now refund_id l else None) ac
      else let refunded = filter (\<lambda>i. i \<noteq> []) (ac_refund_ids ac)
           in if refund_id \<noteq> [] \<and> refund_id \<in> set refunded then Inr (ac, False, False)
              else Inr (ac\<lparr>ac_main := (ac_main ac)\<lparr>ql_used := max 0 (ql_used (ac_main ac) - 1)\<rparr>,
                          ac_refund_ids := (if refund_id \<noteq> [] then last_n 1000 (refunded @ [refund_id]) else ac_refund_ids ac),
                          ac_updated_at := At now\<rparr>, True, True))"

definition refund_account_quota :: "backend \<Rightarrow> int \<Rightarrow> account_store \<Rightarrow> ustr \<Rightarrow> ustr \<Rightarrow> account_store \<times> bool" where
  "refund_account_quota b now store account_id refund_id =
     (if account_id = [] then (store, False) else account_row b store account_id (refund_mut now refund_id))"

definition settle_account_quota :: "backend \<Rightarrow> int \<Rightarrow> account_store \<Rightarrow> ustr \<Rightarrow> ustr \<Rightarrow> account_store \<times> bool" where
  "settle_account_quota b now store account_id charge_id =
     (if account_id = [] \<or> charge_id = [] then (store, False)
      else account_row b store account_id (charge_mut now (is_studio_charge charge_id) (settle_charge now charge_id)))"

definition exhaust_studio_account_quota ::
    "backend \<Rightarrow> int \<Rightarrow> account_store \<Rightarrow> ustr \<Rightarrow> ustr \<Rightarrow> bool \<Rightarrow> account_store \<times> bool" where
  "exhaust_studio_account_quota b now store account_id charge_id timed_out =
     account_row b store account_id (charge_mut now True (\<lambda>l. Some (exhaust_studio_ledger now timed_out charge_id l)))"

definition time_out_ledger :: "int \<Rightarrow> ustr \<Rightarrow> quota_ledger \<Rightarrow> quota_ledger" where
  "time_out_ledger now charge_id l =
     (let l1 = (if charge_id \<noteq> [] then time_out_charge now charge_id l else l\<lparr>ql_used := max 1 (ql_used l)\<rparr>)
      in l1\<lparr>ql_exhausted := Some (local_today now)\<rparr>)"

definition exhaust_timed_out_account :: "backend \<Rightarrow> int \<Rightarrow> account_store \<Rightarrow> ustr \<Rightarrow> ustr \<Rightarrow> account_store \<times> bool" where
  "exhaust_timed_out_account b now store account_id charge_id =
     (if account_id = [] then (store, False)
      else if is_studio_charge charge_id then exhaust_studio_account_quota b now store account_id charge_id True
      else account_row b store account_id (charge_mut now False (\<lambda>l. Some (time_out_ledger now charge_id l))))"

definition exhaust_account_quota :: "backend \<Rightarrow> int \<Rightarrow> account_store \<Rightarrow> ustr \<Rightarrow> ustr \<Rightarrow> account_store \<times> bool" where
  "exhaust_account_quota b now store account_id charge_id =
     (if account_id = [] then (store, False)
      else if is_studio_charge charge_id then exhaust_studio_account_quota b now store account_id charge_id False
      else account_row b store account_id (charge_mut now False (\<lambda>l. Some (exhaust_ledger now charge_id l))))"

section \<open>The task an account works on\<close>

definition clear_current_mut :: "int \<Rightarrow> ustr \<Rightarrow> (account, bool) mutator" where
  "clear_current_mut now task_id ac =
     (if task_id \<noteq> [] \<and> ac_current_task ac \<noteq> task_id then Inr (ac, False, False)
      else Inr (ac\<lparr>ac_current_task := [], ac_current_worker := [], ac_current_started := Unset,
                   ac_current_charge := [], ac_updated_at := At now\<rparr>, True, True))"

definition clear_account_current_task :: "backend \<Rightarrow> int \<Rightarrow> account_store \<Rightarrow> ustr \<Rightarrow> ustr \<Rightarrow> account_store" where
  "clear_account_current_task b now store account_id task_id =
     (if account_id = [] then store else fst (account_row b store account_id (clear_current_mut now task_id)))"

definition restore_current_mut :: "int \<Rightarrow> ustr \<Rightarrow> ustr \<Rightarrow> ustr \<Rightarrow> (account, bool) mutator" where
  "restore_current_mut now task_id worker_id charge_id ac =
     (if ac_current_task ac \<noteq> [] \<and> ac_current_task ac \<noteq> task_id then Inr (ac, False, False)
      else Inr (ac\<lparr>ac_current_task := task_id, ac_current_worker := str_or worker_id (u ''result-watch''),
                   ac_current_started := stamp_or (ac_current_started ac) (At now),
                   ac_current_charge := str_or charge_id (ac_current_charge ac), ac_updated_at := At now\<rparr>, True, True))"

definition restore_account_current_task ::
    "backend \<Rightarrow> int \<Rightarrow> account_store \<Rightarrow> ustr \<Rightarrow> ustr \<Rightarrow> ustr \<Rightarrow> ustr \<Rightarrow> account_store \<times> bool" where
  "restore_account_current_task b now store account_id task_id worker_id charge_id =
     (let i = lower (strip account_id); t = lower (strip task_id)
      in if i = [] \<or> t = [] then (store, False)
         else account_row b store i (restore_current_mut now t worker_id charge_id))"

definition account_for_current_task :: "account_store \<Rightarrow> ustr \<Rightarrow> (ustr \<times> account) option" where
  "account_for_current_task store task_id =
     (if task_id = [] then None else find (\<lambda>(_, ac). ac_current_task ac = task_id) store)"

definition mark_account_used :: "backend \<Rightarrow> int \<Rightarrow> account_store \<Rightarrow> ustr \<Rightarrow> ustr \<Rightarrow> ustr \<Rightarrow> account_store" where
  "mark_account_used b now store account_id worker_id task_id =
     (if account_id = [] then store
      else fst (account_row b store account_id (\<lambda>ac. Inr (ac\<lparr>ac_last_used_worker := worker_id, ac_last_used_at := At now,
        ac_current_task := task_id, ac_current_worker := worker_id, ac_current_started := At now,
        ac_main := (ac_main ac)\<lparr>ql_used := max 0 (ql_used (ac_main ac)) + 1\<rparr>, ac_updated_at := At now\<rparr>, True, True))))"

definition set_account_cooldown :: "backend \<Rightarrow> int \<Rightarrow> account_store \<Rightarrow> ustr \<Rightarrow> int \<Rightarrow> ustr \<Rightarrow> account_store" where
  "set_account_cooldown b now store account_id seconds reason =
     fst (account_row b store (lower (strip account_id)) (\<lambda>ac. Inr (ac\<lparr>ac_cooldown_until := At (now + secs (max 1 seconds)),
       ac_cooldown_reason := take 200 reason, ac_updated_at := At now\<rparr>, True, True)))"

definition set_account_pinned_proxy_node :: "backend \<Rightarrow> int \<Rightarrow> account_store \<Rightarrow> ustr \<Rightarrow> ustr \<Rightarrow> account_store" where
  "set_account_pinned_proxy_node b now store account_id node_id =
     (let i = lower (strip account_id); n = strip node_id
      in if i = [] \<or> n = [] then store
         else fst (account_row b store i (\<lambda>ac. Inr (ac\<lparr>ac_pinned_node := n, ac_updated_at := At now\<rparr>, True, True))))"

definition clear_account_pinned_proxy_node :: "backend \<Rightarrow> int \<Rightarrow> account_store \<Rightarrow> ustr \<Rightarrow> ustr \<Rightarrow> account_store" where
  "clear_account_pinned_proxy_node b now store account_id expected_node_id =
     (let i = lower (strip account_id); expected = strip expected_node_id
      in if i = [] then store
         else fst (account_row b store i (\<lambda>ac. let current = strip (ac_pinned_node ac)
           in if (expected \<noteq> [] \<and> current \<noteq> expected) \<or> current = [] then Inr (ac, False, False)
              else Inr (ac\<lparr>ac_pinned_node := [], ac_updated_at := At now\<rparr>, True, True))))"

section \<open>Limits, synchronisation and the daily reset\<close>

definition reset_quota_mut :: "int \<Rightarrow> (account, unit) mutator" where
  "reset_quota_mut now ac =
     (let ac1 = ac\<lparr>ac_main := reset_ledger (ac_main ac), ac_updated_at := At now\<rparr>
      in Inr (if account_platform ac = u ''qianwen'' then ac1\<lparr>ac_studio := reset_ledger (ac_studio ac1)\<rparr> else ac1, (), True))"

definition reset_account_quota :: "backend \<Rightarrow> int \<Rightarrow> account_store \<Rightarrow> ustr \<Rightarrow> (account_store \<times> unit) result" where
  "reset_account_quota b now store account_id =
     run_row b KeyError store (lower (strip account_id)) (reset_quota_mut now)"

definition update_quota_mut :: "int \<Rightarrow> int option \<Rightarrow> int option \<Rightarrow> (account, unit) mutator" where
  "update_quota_mut now limit studio_limit ac =
     (let ac1 = (case limit of None \<Rightarrow> ac | Some n \<Rightarrow> ac\<lparr>ac_main := (ac_main ac)\<lparr>ql_limit := Some (max 0 n)\<rparr>\<rparr>);
          ac2 = (case studio_limit of
              None \<Rightarrow> ac1
            | Some n \<Rightarrow> if account_platform ac = u ''qianwen''
                then ac1\<lparr>ac_studio := (ac_studio ac1)\<lparr>ql_limit := Some (max 0 n)\<rparr>\<rparr> else ac1)
      in Inr (ac2\<lparr>ac_updated_at := At now\<rparr>, (), True))"

definition update_account_quota ::
    "backend \<Rightarrow> int \<Rightarrow> account_store \<Rightarrow> ustr \<Rightarrow> int option \<Rightarrow> int option \<Rightarrow> (account_store \<times> unit) result" where
  "update_account_quota b now store account_id limit studio_limit =
     run_row b KeyError store (lower (strip account_id)) (update_quota_mut now limit studio_limit)"

definition sync_credit_mut :: "int \<Rightarrow> int \<Rightarrow> int \<Rightarrow> ustr \<Rightarrow> (account, unit) mutator" where
  "sync_credit_mut now available sign_in pending_charge_id ac =
     (if account_platform ac \<noteq> u ''qianwen''
      then Inl (ValueError (u ''AI Studio credit is only available for qianwen accounts''))
      else let l = initialize_ledger (ac_studio ac);
               used = reconciled_used l;
               pending = (case find (\<lambda>c. ch_id c = pending_charge_id) (ql_charges l) of
                   None \<Rightarrow> 0 | Some c \<Rightarrow> if ch_status c = Charged then charge_units c else 0);
               before = max 0 (used - pending)
           in Inr (ac\<lparr>ac_studio := l\<lparr>ql_limit := Some (before + available), ql_used := used,
                        ql_exhausted := (if pending \<le> available then None else ql_exhausted l)\<rparr>,
                      ac_sync_date := Some (local_today now), ac_synced_at := At now,
                      ac_available_at_sync := available, ac_used_at_sync := before,
                      ac_sign_in := sign_in, ac_updated_at := At now\<rparr>, (), True))"

definition sync_qianwen_ai_studio_credit ::
    "backend \<Rightarrow> int \<Rightarrow> account_store \<Rightarrow> ustr \<Rightarrow> int \<Rightarrow> int \<Rightarrow> ustr \<Rightarrow> (account_store \<times> unit) result" where
  "sync_qianwen_ai_studio_credit b now store account_id total_amount sign_in_amount pending_charge_id =
     run_row b KeyError store (lower (strip account_id))
       (sync_credit_mut now (max 0 total_amount) (max 0 sign_in_amount) pending_charge_id)"

text \<open>\<open>_reconcile_account(a) or _reconcile_studio_quota(a)\<close>: the second is skipped after a repair.\<close>

definition reconcile_account :: "int \<Rightarrow> account \<Rightarrow> account \<times> bool" where
  "reconcile_account now ac =
     (case reconcile_ledger (ac_main ac) of
        (l, True) \<Rightarrow> (ac\<lparr>ac_main := l, ac_updated_at := At now\<rparr>, True)
      | (l, False) \<Rightarrow>
         (let ac1 = ac\<lparr>ac_main := l\<rparr>
          in if account_platform ac \<noteq> u ''qianwen'' then (ac1, False)
             else case reconcile_ledger (ac_studio ac1) of
               (s, True) \<Rightarrow> (ac1\<lparr>ac_studio := s, ac_updated_at := At now\<rparr>, True)
             | (s, False) \<Rightarrow> (ac1\<lparr>ac_studio := s\<rparr>, False)))"

definition reset_day :: "int \<Rightarrow> account \<Rightarrow> account \<times> bool" where
  "reset_day now ac =
     (let today = Some (local_today now)
      in if ql_reset_date (ac_main ac) = today then reconcile_account now ac
         else let ac1 = ac\<lparr>ac_main := (reset_ledger (ac_main ac))\<lparr>ql_reset_date := today\<rparr>, ac_updated_at := At now\<rparr>
              in (if account_platform ac = u ''qianwen''
                  then ac1\<lparr>ac_studio := (reset_ledger (ac_studio ac))\<lparr>ql_reset_date := today\<rparr>\<rparr> else ac1, True))"

text \<open>All accounts; PostgreSQL writes the rows that differ, the file is written when one changed.\<close>

definition all_accounts :: "backend \<Rightarrow> (account \<Rightarrow> account \<times> bool) \<Rightarrow> account_store \<Rightarrow> account_store \<times> int" where
  "all_accounts b f store =
     (let n = length (filter (\<lambda>(_, ac). snd (f ac)) store)
      in (if b = LocalFile \<and> n = 0 then store else map (\<lambda>(i, ac). (i, fst (f ac))) store, int n))"

definition reset_daily_account_quotas_if_needed :: "backend \<Rightarrow> int \<Rightarrow> account_store \<Rightarrow> account_store \<times> bool" where
  "reset_daily_account_quotas_if_needed b now store =
     (let (store', n) = all_accounts b (reset_day now) store in (store', 0 < n))"

definition reconcile_account_quotas :: "backend \<Rightarrow> int \<Rightarrow> account_store \<Rightarrow> account_store \<times> int \<times> int" where
  "reconcile_account_quotas b now store =
     (let (store', repaired) = all_accounts b (reconcile_account now) store
      in (store', int (length store), repaired))"

definition sync_default_quota :: "int \<Rightarrow> (ustr \<Rightarrow> int option) \<Rightarrow> account \<Rightarrow> account \<times> bool" where
  "sync_default_quota now defaults ac =
     (case defaults (account_platform ac) of
        None \<Rightarrow> (ac, False)
      | Some n \<Rightarrow>
         (if (case ql_limit (ac_main ac) of None \<Rightarrow> 0 | Some x \<Rightarrow> x) = n then (ac, False)
          else (ac\<lparr>ac_main := (ac_main ac)\<lparr>ql_limit := Some n\<rparr>, ac_updated_at := At now\<rparr>, True)))"

definition sync_studio_default :: "int \<Rightarrow> int \<Rightarrow> account \<Rightarrow> account \<times> bool" where
  "sync_studio_default now default_limit ac =
     (let limit = max 0 (min 1000000 default_limit)
      in if account_platform ac \<noteq> u ''qianwen'' \<or>
            (case ql_limit (ac_studio ac) of None \<Rightarrow> DEFAULT_STUDIO_LIMIT | Some x \<Rightarrow> x) = limit then (ac, False)
         else (ac\<lparr>ac_studio := (ac_studio ac)\<lparr>ql_limit := Some limit\<rparr>, ac_updated_at := At now\<rparr>, True))"

fun normalize_defaults :: "(ustr \<times> int) list \<Rightarrow> (ustr, int) table \<Rightarrow> (ustr, int) table result" where
  "normalize_defaults [] acc = Inr acc"
| "normalize_defaults ((p, n) # ps) acc = (case normalize_platform p of
     Inl e \<Rightarrow> Inl e
   | Inr q \<Rightarrow> normalize_defaults ps (AList.update q (max 0 (min 1000000 n)) acc))"

definition sync_account_default_quotas ::
    "backend \<Rightarrow> int \<Rightarrow> (ustr \<times> int) list \<Rightarrow> account_store \<Rightarrow> (account_store \<times> (ustr, int) table) result" where
  "sync_account_default_quotas b now defaults store =
     map_sum id (\<lambda>ds. let f = sync_default_quota now (map_of ds)
       in (fst (all_accounts b f store),
           map (\<lambda>(p, _). (p, int (length (filter (\<lambda>(_, ac). account_platform ac = p \<and> snd (f ac)) store)))) ds))
     (normalize_defaults defaults [])"

definition sync_qianwen_ai_studio_default_quota :: "backend \<Rightarrow> int \<Rightarrow> int \<Rightarrow> account_store \<Rightarrow> account_store \<times> int" where
  "sync_qianwen_ai_studio_default_quota b now default_limit store = all_accounts b (sync_studio_default now default_limit) store"

end
