(* ===== verification/Account_Select.thy ===== *)
theory Account_Select
  imports Account_Quota "HOL-Library.Product_Lexorder"
begin

text \<open>
  Choosing and claiming an account (app/accounts.py and the query of app/postgres.py): which
  accounts are available for a task, the order among them, and the claim that takes one and
  charges its ledger. With PostgreSQL the row is found by a query, rows locked by other
  transactions are skipped, and the selection in Python is repeated on that row.
\<close>

section \<open>What is asked for\<close>

record account_request =
  arq_excluded :: "ustr list"
  arq_platform :: ustr
  arq_preferred :: ustr
  arq_cost :: int
  arq_duration :: int
  arq_mode :: ustr
  arq_bucket :: ustr

definition request_cost :: "account_request \<Rightarrow> int" where
  "request_cost rq = max 1 (int_or (arq_cost rq) 1)"

definition studio_quota :: "account_request \<Rightarrow> bool" where
  "studio_quota rq \<longleftrightarrow> arq_platform rq = u ''qianwen'' \<and> arq_bucket rq = u ''qianwen_ai_studio''"

definition request_mode :: "account_request \<Rightarrow> ustr" where
  "request_mode rq = lower (strip (str_or (arq_mode rq) (u ''api_first'')))"

section \<open>Available accounts\<close>

definition account_supports_duration :: "account \<Rightarrow> ustr \<Rightarrow> int \<Rightarrow> bool" where
  "account_supports_duration ac platform duration \<longleftrightarrow>
     \<not> (platform = u ''dola'' \<and> ac_ten_second_only ac \<and> (duration \<le> 0 \<or> 10 < duration))"

text \<open>The name's backslash before an underscore is dropped.\<close>

fun unescape_name :: "ustr \<Rightarrow> ustr" where
  "unescape_name (a # b # cs) = (if a = 92 \<and> b = 95 then 95 # unescape_name cs else a # unescape_name (b # cs))"
| "unescape_name cs = cs"

definition has_studio_ticket :: "account \<Rightarrow> bool" where
  "has_studio_ticket ac \<longleftrightarrow>
     (\<exists>c \<in> set (ac_cookies ac). unescape_name (ck_name c) = u ''tongyi_sso_ticket'' \<and> strip (ck_value c) \<noteq> [])"

text \<open>What is left of the credit reported today.\<close>

definition synced_remaining :: "int \<Rightarrow> account \<Rightarrow> int option" where
  "synced_remaining now ac =
     (if ac_sync_date ac \<noteq> Some (local_today now) then None
      else Some (max 0 (max 0 (ac_available_at_sync ac)
        - max 0 (reconciled_used (ac_studio ac) - max 0 (ac_used_at_sync ac)))))"

definition quota_limit :: "bool \<Rightarrow> account \<Rightarrow> int" where
  "quota_limit studio ac = (case ql_limit (ledger_of studio ac) of
     None \<Rightarrow> if studio then DEFAULT_STUDIO_LIMIT else 0 | Some n \<Rightarrow> n)"

definition quota_available :: "int \<Rightarrow> account_request \<Rightarrow> account \<Rightarrow> bool" where
  "quota_available now rq ac =
     (case (if studio_quota rq then synced_remaining now ac else None) of
        Some r \<Rightarrow> request_cost rq \<le> r
      | None \<Rightarrow> quota_limit (studio_quota rq) ac = 0 \<or>
          ql_used (ledger_of (studio_quota rq) ac) + request_cost rq \<le> quota_limit (studio_quota rq) ac)"

definition cooled_down :: "int \<Rightarrow> account \<Rightarrow> bool" where
  "cooled_down now ac = (case ac_cooldown_until ac of Unset \<Rightarrow> True | At t \<Rightarrow> t \<le> now)"

definition account_available :: "int \<Rightarrow> account_request \<Rightarrow> ustr \<times> account \<Rightarrow> bool" where
  "account_available now rq = (\<lambda>(i, ac).
     ac_enabled ac \<and> str_or (ac_status ac) (u ''normal'') = u ''normal'' \<and>
     account_platform ac = arq_platform rq \<and> account_supports_duration ac (arq_platform rq) (arq_duration rq) \<and>
     i \<notin> set (arq_excluded rq) \<and> (arq_preferred rq = [] \<or> i = arq_preferred rq) \<and>
     ac_current_task ac = [] \<and> ac_cookies ac \<noteq> [] \<and> (studio_quota rq \<longrightarrow> has_studio_ticket ac) \<and>
     cooled_down now ac \<and> ql_exhausted (ledger_of (studio_quota rq) ac) \<noteq> Some (local_today now) \<and>
     quota_available now rq ac)"

section \<open>The order\<close>

definition preferred_source :: "account_request \<Rightarrow> ustr" where
  "preferred_source rq = (if request_mode rq = u ''admin_first'' then u ''admin'' else u ''api'')"

definition select_priority :: "int \<Rightarrow> account_request \<Rightarrow> ustr \<times> account \<Rightarrow> int \<times> int \<times> int \<times> stamp" where
  "select_priority now rq = (\<lambda>(i, ac).
     let limit = max 0 (quota_limit (studio_quota rq) ac);
         used = max 0 (ql_used (ledger_of (studio_quota rq) ac));
         remaining = (case (if studio_quota rq then synced_remaining now ac else None) of
             Some r \<Rightarrow> r | None \<Rightarrow> if limit \<noteq> 0 then max 0 (limit - used) else 1000000)
     in (if lower (str_or (ac_source ac) (u ''admin'')) = preferred_source rq then 0 else 1, - remaining, used,
         ac_last_used_at ac))"

text \<open>\<open>draw\<close> is the random choice of \<open>secrets.choice\<close>.\<close>

definition select_account :: "int \<Rightarrow> nat \<Rightarrow> account_request \<Rightarrow> account_store \<Rightarrow> (ustr \<times> account) option" where
  "select_account now draw rq accounts =
     (let enabled = filter (account_available now rq) accounts
      in if enabled = [] then None
         else if request_mode rq = u ''random'' then Some (enabled ! (draw mod length enabled))
         else Some (hd (sort_key (select_priority now rq) enabled)))"

section \<open>The query\<close>

text \<open>A number in the row that is not written with digits alone reads as the default.\<close>

definition sql_number :: "int option \<Rightarrow> int \<Rightarrow> int" where
  "sql_number n d = (case n of None \<Rightarrow> d | Some k \<Rightarrow> if k < 0 then d else k)"

definition sql_limit :: "bool \<Rightarrow> account \<Rightarrow> int" where
  "sql_limit studio ac = sql_number (ql_limit (ledger_of studio ac)) (if studio then 60 else 0)"

definition sql_used :: "bool \<Rightarrow> account \<Rightarrow> int" where
  "sql_used studio ac = sql_number (Some (ql_used (ledger_of studio ac))) 0"

definition sql_synced_remaining :: "account \<Rightarrow> int" where
  "sql_synced_remaining ac = max 0 (sql_number (Some (ac_available_at_sync ac)) 0
     - max 0 (sql_used True ac - sql_number (Some (ac_used_at_sync ac)) 0))"

definition sql_quota_available :: "int \<Rightarrow> account_request \<Rightarrow> account \<Rightarrow> bool" where
  "sql_quota_available now rq ac =
     (let studio = studio_quota rq;
          fits = (sql_limit studio ac = 0 \<or> sql_used studio ac + request_cost rq \<le> sql_limit studio ac)
      in if studio
         then (ac_sync_date ac \<noteq> Some (local_today now) \<and> fits) \<or>
              (ac_sync_date ac = Some (local_today now) \<and> request_cost rq \<le> sql_synced_remaining ac)
         else fits)"

definition sql_available :: "int \<Rightarrow> account_request \<Rightarrow> ustr \<times> account \<Rightarrow> bool" where
  "sql_available now rq = (\<lambda>(i, ac).
     ac_enabled ac \<and> str_or (ac_status ac) (u ''normal'') = u ''normal'' \<and>
     account_platform ac = arq_platform rq \<and> ac_current_task ac = [] \<and> ac_cookies ac \<noteq> [] \<and>
     ql_exhausted (ledger_of (studio_quota rq) ac) \<noteq> Some (local_today now) \<and>
     sql_quota_available now rq ac \<and> cooled_down now ac \<and>
     (arq_platform rq = u ''dola'' \<and> (arq_duration rq \<le> 0 \<or> 10 < arq_duration rq) \<longrightarrow> \<not> ac_ten_second_only ac) \<and>
     (studio_quota rq \<longrightarrow> has_studio_ticket ac) \<and> i \<notin> set (filter (\<lambda>x. x \<noteq> []) (arq_excluded rq)) \<and>
     (arq_preferred rq \<noteq> [] \<longrightarrow> i = arq_preferred rq))"

definition sql_order :: "int \<Rightarrow> account_request \<Rightarrow> ustr \<times> account \<Rightarrow> int \<times> int \<times> int \<times> stamp \<times> ustr" where
  "sql_order now rq = (\<lambda>(i, ac).
     let studio = studio_quota rq;
         remaining = (if studio \<and> ac_sync_date ac = Some (local_today now) then sql_synced_remaining ac
           else if sql_limit studio ac = 0 then 1000000 else sql_limit studio ac - sql_used studio ac)
     in (if str_or (ac_source ac) (u ''admin'') = preferred_source rq then 0 else 1, - remaining, sql_used studio ac,
         ac_last_used_at ac, i))"

definition sql_select :: "int \<Rightarrow> nat \<Rightarrow> ustr list \<Rightarrow> account_request \<Rightarrow> account_store \<Rightarrow> (ustr \<times> account) option" where
  "sql_select now draw locked_rows rq accounts =
     (let rows = filter (\<lambda>r. sql_available now rq r \<and> fst r \<notin> set locked_rows) accounts
      in if rows = [] then None
         else if request_mode rq = u ''random'' then Some (rows ! (draw mod length rows))
         else Some (hd (sort_key (sql_order now rq) rows)))"

section \<open>Claiming\<close>

definition charge_id_of :: "account_request \<Rightarrow> ustr \<Rightarrow> ustr \<Rightarrow> ustr" where
  "charge_id_of rq task_id hex = (if studio_quota rq then u ''studio:'' else []) @ task_id @ u '':'' @ hex"

definition take_account :: "int \<Rightarrow> account_request \<Rightarrow> ustr \<Rightarrow> ustr \<Rightarrow> ustr \<Rightarrow> account \<Rightarrow> account" where
  "take_account now rq worker_id task_id charge_id ac =
     (put_ledger (studio_quota rq)
        (open_charge now charge_id task_id (request_cost rq) (ledger_of (studio_quota rq) ac)) ac)
      \<lparr>ac_last_used_worker := worker_id, ac_last_used_at := At now, ac_current_task := task_id,
       ac_current_worker := worker_id, ac_current_started := At now, ac_current_charge := charge_id,
       ac_updated_at := At now\<rparr>"

record selected_account =
  sa_id :: ustr
  sa_platform :: ustr
  sa_source :: ustr
  sa_name :: ustr
  sa_cookies :: "cookie list"
  sa_pinned_node :: ustr
  sa_bucket :: ustr
  sa_sync_date :: "int option"
  sa_synced_at :: stamp
  sa_actual_remaining :: "int option"
  sa_charge_id :: ustr
  sa_cost :: int

definition selected_view :: "int \<Rightarrow> account_request \<Rightarrow> ustr \<times> account \<Rightarrow> ustr \<Rightarrow> selected_account" where
  "selected_view now rq = (\<lambda>(i, ac) charge_id.
     \<lparr>sa_id = i, sa_platform = account_platform ac,
      sa_source = (if lower (ac_source ac) = u ''api'' then u ''api'' else u ''admin''), sa_name = ac_name ac,
      sa_cookies = ac_cookies ac, sa_pinned_node = ac_pinned_node ac,
      sa_bucket = (if studio_quota rq then u ''qianwen_ai_studio'' else u ''default''),
      sa_sync_date = ac_sync_date ac, sa_synced_at = ac_synced_at ac,
      sa_actual_remaining = synced_remaining now ac, sa_charge_id = charge_id, sa_cost = request_cost rq\<rparr>)"

definition normalize_request :: "account_request \<Rightarrow> account_request result" where
  "normalize_request rq = map_sum id (\<lambda>p. rq\<lparr>arq_platform := p, arq_preferred := lower (strip (arq_preferred rq))\<rparr>)
     (normalize_platform (arq_platform rq))"

definition claim_account_for_worker ::
    "backend \<Rightarrow> int \<Rightarrow> nat \<Rightarrow> ustr \<Rightarrow> ustr list \<Rightarrow> account_store \<Rightarrow> ustr \<Rightarrow> ustr \<Rightarrow> account_request \<Rightarrow>
     (account_store \<times> selected_account option) result" where
  "claim_account_for_worker b now draw hex locked_rows store worker_id task_id raw =
     (case normalize_request raw of
        Inl e \<Rightarrow> Inl e
      | Inr rq \<Rightarrow>
         (let charge_id = charge_id_of rq task_id hex;
              row = (case b of Postgres \<Rightarrow> sql_select now draw locked_rows rq store
                | LocalFile \<Rightarrow> select_account now draw rq store)
          in case row of
               None \<Rightarrow> Inr (store, None)
             | Some (i, ac) \<Rightarrow>
                 if b = Postgres \<and> select_account now draw (rq\<lparr>arq_excluded := []\<rparr>) [(i, ac)] = None
                 then Inl (RuntimeError (u ''selected account became unavailable''))
                 else Inr (AList.update i (take_account now rq worker_id task_id charge_id ac) store,
                           Some (selected_view now rq (i, ac) charge_id))))"

text \<open>A maintenance claim charges nothing; it has no duration, mode or bucket.\<close>

definition claim_account_for_maintenance ::
    "int \<Rightarrow> nat \<Rightarrow> account_store \<Rightarrow> ustr \<Rightarrow> account_request \<Rightarrow> (account_store \<times> selected_account option) result" where
  "claim_account_for_maintenance now draw store worker_id raw =
     map_sum id (\<lambda>rq. case select_account now draw rq store of
         None \<Rightarrow> (store, None)
       | Some (i, ac) \<Rightarrow>
           (AList.update i (ac\<lparr>ac_current_task := u ''maintenance:'' @ worker_id, ac_current_worker := worker_id,
              ac_current_started := At now, ac_updated_at := At now\<rparr>) store,
            Some (selected_view now rq (i, ac) [])))
     (normalize_request (raw\<lparr>arq_cost := 1, arq_duration := 0, arq_mode := [], arq_bucket := u ''default''\<rparr>))"

end
