(* ===== verification/Account_Props.thy ===== *)
theory Account_Props
  imports Account_Select
begin

text \<open>
  The account quotas: the ledger of an account as an instance of the ledger contract, what a
  claim takes and what it leaves, and the agreement of the two backends on which accounts a
  task may use.
\<close>

section \<open>The ledger of an account\<close>

definition ledger_ok :: "quota_ledger \<Rightarrow> bool" where
  "ledger_ok l \<longleftrightarrow> ql_initialized l \<and> 0 \<le> ql_base l \<and> (\<forall>c \<in> set (ql_charges l). ch_id c \<noteq> []) \<and>
     distinct (map ch_id (ql_charges l)) \<and> ql_used l = ql_base l + active_units (ql_charges l)"

definition charge_open :: "quota_ledger \<Rightarrow> ustr \<Rightarrow> bool" where
  "charge_open l i \<longleftrightarrow> (\<exists>c \<in> set (ql_charges l). ch_id c = i \<and> ch_status c = Charged)"

lemma active_units_append [simp]: "active_units (xs @ ys) = active_units xs + active_units ys"
  by (simp add: active_units_def)

lemma active_units_Cons [simp]: "active_units (c # cs) = (if is_active_charge c then charge_units c else 0) + active_units cs"
  by (simp add: active_units_def)

lemma active_units_Nil [simp]: "active_units [] = 0"
  by (simp add: active_units_def)

lemma charge_units_pos: "1 \<le> charge_units c"
  by (simp add: charge_units_def)

lemma active_units_nonneg: "0 \<le> active_units cs"
  using charge_units_pos by (induction cs) (auto intro: add_nonneg_nonneg simp: order_trans [OF zero_le_one])

lemma valid_all: "\<forall>c \<in> set (ql_charges l). ch_id c \<noteq> [] \<Longrightarrow> valid_charges l = ql_charges l"
  by (simp add: valid_charges_def filter_id_conv)

lemma initialize_ok: "ledger_ok l \<Longrightarrow> initialize_ledger l = l"
  by (simp add: ledger_ok_def initialize_ledger_def valid_all)

text \<open>The first open charge, changed by a function that keeps the identifier and the units.\<close>

lemma update_open:
  assumes "find (is_open i) cs = Some c" "\<And>x. ch_id (f x) = ch_id x"
  shows "active_units (update_first (is_open i) f cs) =
      active_units cs - charge_units c + (if is_active_charge (f c) then charge_units (f c) else 0)"
    and "map ch_id (update_first (is_open i) f cs) = map ch_id cs"
    and "ch_id c = i" "ch_status c = Charged" "c \<in> set cs"
proof -
  from update_first_split [OF assms(1), of f] obtain as bs where s: "cs = as @ c # bs" "is_open i c"
    "update_first (is_open i) f cs = as @ f c # bs" by blast
  then show "ch_id c = i" "ch_status c = Charged" "c \<in> set cs" by (auto simp: is_open_def)
  then have "is_active_charge c" by (simp add: is_active_charge_def)
  with s show "active_units (update_first (is_open i) f cs) =
      active_units cs - charge_units c + (if is_active_charge (f c) then charge_units (f c) else 0)" by simp
  show "map ch_id (update_first (is_open i) f cs) = map ch_id cs" by (rule map_update_first) (rule assms(2))
qed

lemma ids_nonempty:
  fixes cs ds :: "charge list"
  assumes "map ch_id cs = map ch_id ds"
  shows "(\<forall>c \<in> set cs. ch_id c \<noteq> []) = (\<forall>c \<in> set ds. ch_id c \<noteq> [])"
proof -
  from assms have "ch_id ` set cs = ch_id ` set ds" by (metis list.set_map)
  then have "[] \<in> ch_id ` set cs \<longleftrightarrow> [] \<in> ch_id ` set ds" by simp
  then show ?thesis unfolding image_iff by metis
qed

lemma find_some_iff: "(find P xs \<noteq> None) = (\<exists>x \<in> set xs. P x)"
  by (induction xs) auto

lemma find_open: "ledger_ok l \<Longrightarrow> (find (is_open i) (ql_charges l) \<noteq> None) = charge_open l i"
  unfolding find_some_iff charge_open_def ledger_ok_def is_open_def by blast

lemma one_per_id:
  assumes "distinct (map ch_id cs)" "c \<in> set cs" "d \<in> set cs" "ch_id c = ch_id d"
  shows "c = d"
  using assms by (metis (no_types, lifting) distinct_map inj_onD)

lemma refund_charge_effect:
  assumes ok: "ledger_ok l" and r: "refund_charge now i l = Some l'"
  shows "ledger_ok l' \<and> ql_base l' = ql_base l \<and> charge_open l i \<and> charge_open l' = (charge_open l)(i := False)"
proof -
  let ?f = "\<lambda>c. c\<lparr>ch_status := Refunded, ch_refunded_at := At now\<rparr>" and ?cs = "ql_charges l"
  from r obtain c where c: "find (is_open i) ?cs = Some c" by (auto simp: refund_charge_def split: option.splits)
  let ?l1 = "l\<lparr>ql_charges := update_first (is_open i) ?f ?cs\<rparr>"
  have l': "l' = ?l1\<lparr>ql_used := reconciled_used ?l1\<rparr>" using r c by (simp add: refund_charge_def Let_def)
  note u = update_open [OF c, of ?f, simplified]
  have d: "distinct (map ch_id ?cs)" and ne: "\<forall>c \<in> set ?cs. ch_id c \<noteq> []" using ok by (auto simp: ledger_ok_def)
  have ne': "\<forall>c \<in> set (update_first (is_open i) ?f ?cs). ch_id c \<noteq> []" using ids_nonempty [OF u(2)] ne by blast
  have ok': "ledger_ok l'" using ok ne' u(2) by (simp add: l' ledger_ok_def reconciled_used_def valid_all)
  obtain as bs where s: "?cs = as @ c # bs" "update_first (is_open i) ?f ?cs = as @ ?f c # bs"
    using update_first_split [OF c, of ?f] by blast
  have cs': "ql_charges l' = as @ ?f c # bs" by (simp add: l' s(2))
  have alone: "\<forall>x \<in> set as \<union> set bs. ch_id x \<noteq> i" using d u(3) by (auto simp: s image_iff)
  have "charge_open l' = (charge_open l)(i := False)"
    unfolding fun_eq_iff charge_open_def cs' s(1) using alone u(3) by auto
  moreover have "charge_open l i" using u(3-5) by (auto simp: charge_open_def)
  ultimately show ?thesis using ok' by (simp add: l')
qed

lemma open_charge_effect:
  assumes ok: "ledger_ok l" and i: "i \<noteq> []" "i \<notin> set (map ch_id (ql_charges l))" and n: "1 \<le> units"
  shows "ledger_ok (open_charge now i task units l) \<and> ql_base (open_charge now i task units l) = ql_base l \<and>
    charge_open (open_charge now i task units l) = (charge_open l)(i := True) \<and>
    ql_used (open_charge now i task units l) = ql_used l + units \<and>
    ql_limit (open_charge now i task units l) = ql_limit l \<and> ql_exhausted (open_charge now i task units l) = ql_exhausted l"
proof -
  let ?c = "new_charge now i task units"
  have c: "ch_id ?c = i" "ch_status ?c = Charged" "is_active_charge ?c" "charge_units ?c = units"
    using n by (simp_all add: new_charge_def is_active_charge_def charge_units_def int_or_def)
  have o: "open_charge now i task units l = l\<lparr>ql_charges := ql_charges l @ [?c], ql_used := ql_used l + units\<rparr>"
    using ok i(1) by (simp add: open_charge_def initialize_ok Let_def reconciled_used_def valid_charges_def c)
      (simp add: ledger_ok_def filter_id_conv)
  have "charge_open (open_charge now i task units l) = (charge_open l)(i := True)"
    using c by (auto simp: fun_eq_iff charge_open_def o)
  with ok i c show ?thesis by (auto simp: o ledger_ok_def)
qed

text \<open>The two operations as a ledger of charges: a charge has a fresh identifier.\<close>

definition ledger_charge :: "int \<times> ustr \<times> int \<Rightarrow> ustr \<Rightarrow> quota_ledger \<Rightarrow> quota_ledger option" where
  "ledger_charge = (\<lambda>(now, task, cost) i l.
     if i = [] \<or> i \<in> set (map ch_id (ql_charges l)) then None else Some (open_charge now i task (max 1 cost) l))"

interpretation account_ledger: charge_ledger ledger_ok charge_open ql_base ledger_charge refund_charge
proof
  fix l l' a i now
  assume ok: "ledger_ok l"
  show "ledger_ok l'" "ql_base l' = ql_base l" "charge_open l' = (charge_open l)(i := True)"
    if "ledger_charge a i l = Some l'"
    using that open_charge_effect [OF ok, of i "max 1 (snd (snd a))" "fst a" "fst (snd a)"]
    by (cases a; simp add: ledger_charge_def split: if_splits; blast)+
  show "ledger_ok l'" "ql_base l' = ql_base l" "charge_open l' = (charge_open l)(i := False)" "charge_open l i"
    if "refund_charge now i l = Some l'"
    using refund_charge_effect [OF ok that] by blast+
  show "\<exists>l'. refund_charge now i l = Some l'" if "charge_open l i"
    using that find_open [OF ok, of i] by (cases "find (is_open i) (ql_charges l)") (simp_all add: refund_charge_def Let_def)
qed

text \<open>C32: Over any run of claims and refunds an account's used quota is the base of its ledger plus
  the units of its charged and settled charges, the base never changes, charge identifiers stay
  unique, and a charge is refunded at most once for every time it was made.\<close>

theorem account_ledger_run:
  assumes "ledger_ok l" "run_ledger ledger_charge refund_charge es l = (l', paid)"
  shows "ql_used l' = ql_base l + active_units (ql_charges l') \<and> distinct (map ch_id (ql_charges l')) \<and>
    count_list paid i \<le> charges_of i es + (if charge_open l i then 1 else 0)"
proof -
  from account_ledger.run_conserves [OF assms] have "ledger_ok l'" "ql_base l' = ql_base l" by auto
  moreover have "count_list paid i \<le> charges_of i es + (if charge_open l i then 1 else 0)"
    using account_ledger.refunds_bounded [OF assms, of i] by simp
  ultimately show ?thesis by (auto simp: ledger_ok_def)
qed

definition fresh_ledger :: "int \<Rightarrow> quota_ledger" where
  "fresh_ledger limit = \<lparr>ql_limit = Some limit, ql_used = 0, ql_base = 0, ql_initialized = True, ql_charges = [],
     ql_exhausted = None, ql_reset_date = None\<rparr>"

lemma fresh_ok [simp]: "ledger_ok (fresh_ledger n)"
  by (simp add: ledger_ok_def fresh_ledger_def)

theorem account_ledger_run_witness:
  "\<exists>l' paid. run_ledger ledger_charge refund_charge
       [Charge (1, u ''t'', 3) (u ''a''), Refund 2 (u ''a''), Refund 3 (u ''a''), Charge (4, u ''t'', 2) (u ''b'')]
       (fresh_ledger 9) = (l', paid) \<and> ql_used l' = active_units (ql_charges l') \<and> count_list paid (u ''a'') \<le> 1"
proof -
  obtain l' paid where r: "run_ledger ledger_charge refund_charge
       [Charge (1, u ''t'', 3) (u ''a''), Refund 2 (u ''a''), Refund 3 (u ''a''), Charge (4, u ''t'', 2) (u ''b'')]
       (fresh_ledger 9) = (l', paid)" by force
  from account_ledger_run [OF fresh_ok r, of "u ''a''"] r show ?thesis
    by (simp add: fresh_ledger_def charge_open_def)
qed

section \<open>Which accounts are available\<close>

text \<open>The numbers of the row are not negative and the studio ledger has been reconciled.\<close>

definition account_well :: "account \<Rightarrow> bool" where
  "account_well ac \<longleftrightarrow> 0 \<le> ql_used (ac_main ac) \<and> 0 \<le> ql_used (ac_studio ac) \<and>
     (case ql_limit (ac_main ac) of None \<Rightarrow> True | Some n \<Rightarrow> 0 \<le> n) \<and>
     (case ql_limit (ac_studio ac) of None \<Rightarrow> True | Some n \<Rightarrow> 0 \<le> n) \<and>
     0 \<le> ac_available_at_sync ac \<and> 0 \<le> ac_used_at_sync ac \<and>
     ql_used (ac_studio ac) = reconciled_used (ac_studio ac)"

definition store_well :: "account_store \<Rightarrow> bool" where
  "store_well store \<longleftrightarrow> (\<forall>r \<in> set store. fst r \<noteq> [] \<and> account_well (snd r))"

lemma sql_limit_eq: "account_well ac \<Longrightarrow> sql_limit studio ac = quota_limit studio ac"
  by (cases studio) (auto simp: sql_limit_def quota_limit_def sql_number_def account_well_def ledger_of_def
      DEFAULT_STUDIO_LIMIT_def split: option.splits)

lemma sql_used_eq: "account_well ac \<Longrightarrow> sql_used studio ac = ql_used (ledger_of studio ac)"
  by (cases studio) (auto simp: sql_used_def sql_number_def account_well_def ledger_of_def)

lemma sql_synced_eq:
  "account_well ac \<Longrightarrow> ac_sync_date ac = Some (local_today now) \<Longrightarrow> synced_remaining now ac = Some (sql_synced_remaining ac)"
  by (simp add: synced_remaining_def sql_synced_remaining_def sql_used_eq ledger_of_def)
    (simp add: account_well_def sql_number_def)

lemma not_synced: "ac_sync_date ac \<noteq> Some (local_today now) \<Longrightarrow> synced_remaining now ac = None"
  by (simp add: synced_remaining_def)

lemma sql_quota_eq: "account_well ac \<Longrightarrow> sql_quota_available now rq ac = quota_available now rq ac"
  by (cases "ac_sync_date ac = Some (local_today now)"; cases "studio_quota rq")
    (simp_all add: sql_quota_available_def quota_available_def sql_limit_eq sql_used_eq sql_synced_eq
      not_synced Let_def)

lemma sql_available_eq:
  assumes "i \<noteq> []" "account_well ac"
  shows "sql_available now rq (i, ac) = account_available now rq (i, ac)"
  using assms(1)
  by (auto simp: sql_available_def account_available_def sql_quota_eq [OF assms(2)] account_supports_duration_def)

lemma available_without_exclusions:
  "account_available now rq r \<Longrightarrow> account_available now (rq\<lparr>arq_excluded := []\<rparr>) r"
proof -
  have same: "studio_quota (rq\<lparr>arq_excluded := []\<rparr>) = studio_quota rq"
    "quota_available now (rq\<lparr>arq_excluded := []\<rparr>) = quota_available now rq"
    by (auto simp: studio_quota_def quota_available_def request_cost_def fun_eq_iff split: option.splits)
  show "account_available now rq r \<Longrightarrow> ?thesis"
    by (cases r) (simp only: account_available_def prod.case same, simp)
qed

text \<open>A selection finds an available row of the list, and finds one when there is one.\<close>

lemma hd_sort_in: "xs \<noteq> [] \<Longrightarrow> hd (sort_key k xs) \<in> set xs"
  by (metis hd_in_set set_sort length_0_conv length_sort)

lemma select_account_in: "select_account now draw rq store = Some r \<Longrightarrow> r \<in> set store \<and> account_available now rq r"
proof -
  let ?e = "filter (account_available now rq) store"
  assume s: "select_account now draw rq store = Some r"
  then have ne: "?e \<noteq> []" by (auto simp: select_account_def)
  have "r \<in> set ?e"
  proof (cases "request_mode rq = u ''random''")
    case True
    with s ne have "r = ?e ! (draw mod length ?e)" by (simp add: select_account_def Let_def)
    moreover have "?e ! (draw mod length ?e) \<in> set ?e" by (rule nth_mem) (use ne in simp)
    ultimately show ?thesis by (simp only:)
  next
    case False
    with s ne have "r = hd (sort_key (select_priority now rq) ?e)" by (simp add: select_account_def Let_def)
    moreover note hd_sort_in [OF ne, of "select_priority now rq"]
    ultimately show ?thesis by (simp only:)
  qed
  then show ?thesis by simp
qed

lemma select_account_none: "select_account now draw rq store = None \<longleftrightarrow> filter (account_available now rq) store = []"
  by (simp add: select_account_def Let_def)

lemma sql_select_in:
  "sql_select now draw locked_rows rq store = Some r \<Longrightarrow> r \<in> set store \<and> sql_available now rq r \<and> fst r \<notin> set locked_rows"
proof -
  let ?e = "filter (\<lambda>r. sql_available now rq r \<and> fst r \<notin> set locked_rows) store"
  assume s: "sql_select now draw locked_rows rq store = Some r"
  then have ne: "?e \<noteq> []" by (auto simp: sql_select_def)
  have "r \<in> set ?e"
  proof (cases "request_mode rq = u ''random''")
    case True
    with s ne have "r = ?e ! (draw mod length ?e)" by (simp add: sql_select_def Let_def)
    moreover have "?e ! (draw mod length ?e) \<in> set ?e" by (rule nth_mem) (use ne in simp)
    ultimately show ?thesis by (simp only:)
  next
    case False
    with s ne have "r = hd (sort_key (sql_order now rq) ?e)" by (simp add: sql_select_def Let_def)
    moreover note hd_sort_in [OF ne, of "sql_order now rq"]
    ultimately show ?thesis by (simp only:)
  qed
  then show ?thesis by simp
qed

lemma sql_select_none:
  "sql_select now draw [] rq store = None \<longleftrightarrow> filter (sql_available now rq) store = []"
  by (simp add: sql_select_def Let_def)

lemma filters_agree: "store_well store \<Longrightarrow> filter (sql_available now rq) store = filter (account_available now rq) store"
  by (rule filter_cong [OF refl]) (auto simp: store_well_def sql_available_eq)

text \<open>C34: The PostgreSQL query and the selection in Python agree on which accounts a task may use: they
  keep the same rows of a well-formed store, the repeated check of the claimed row never fails, and
  with no row locked both backends claim an account or neither does.\<close>

theorem claim_backends_agree:
  assumes "store_well store"
  shows "filter (sql_available now rq) store = filter (account_available now rq) store \<and>
    claim_account_for_worker Postgres now draw hex locked_rows store worker task raw
      \<noteq> Inl (RuntimeError (u ''selected account became unavailable'')) \<and>
    (claim_account_for_worker Postgres now draw hex [] store worker task raw = Inr (store, None)) =
    (claim_account_for_worker LocalFile now draw hex [] store worker task raw = Inr (store, None))"
proof (intro conjI)
  show "filter (sql_available now rq) store = filter (account_available now rq) store" by (rule filters_agree [OF assms])
  have recheck: "select_account now draw (q\<lparr>arq_excluded := []\<rparr>) [r] \<noteq> None"
    if s: "sql_select now draw ls q store = Some r" for ls q r
  proof -
    from sql_select_in [OF s] assms have "account_available now q r" by (cases r) (auto simp: store_well_def sql_available_eq)
    from available_without_exclusions [OF this] show ?thesis unfolding select_account_none by simp
  qed
  show "claim_account_for_worker Postgres now draw hex locked_rows store worker task raw
      \<noteq> Inl (RuntimeError (u ''selected account became unavailable''))"
  proof (cases "normalize_request raw")
    case (Inl e)
    then show ?thesis
      by (auto simp: claim_account_for_worker_def normalize_request_def map_sum_Inl normalize_platform_def Let_def split: if_splits)
  next
    case (Inr q)
    then show ?thesis using recheck [of locked_rows q]
      by (cases "sql_select now draw locked_rows q store") (auto simp: claim_account_for_worker_def Let_def)
  qed
  show "(claim_account_for_worker Postgres now draw hex [] store worker task raw = Inr (store, None)) =
    (claim_account_for_worker LocalFile now draw hex [] store worker task raw = Inr (store, None))"
  proof (cases "normalize_request raw")
    case (Inl e)
    then show ?thesis by (simp add: claim_account_for_worker_def)
  next
    case (Inr q)
    have "(sql_select now draw [] q store = None) = (select_account now draw q store = None)"
      by (simp only: sql_select_none select_account_none filters_agree [OF assms])
    then show ?thesis using recheck [of "[]" q] Inr
      by (cases "sql_select now draw [] q store"; cases "select_account now draw q store")
        (auto simp: claim_account_for_worker_def Let_def)
  qed
qed

section \<open>What a claim takes\<close>

lemma normalize_request_cost [simp]: "normalize_request raw = Inr rq \<Longrightarrow> request_cost rq = request_cost raw"
  by (auto simp: normalize_request_def map_sum_Inr request_cost_def)

lemma claim_some:
  assumes w: "store_well store" and n: "normalize_request raw = Inr rq"
    and c: "claim_account_for_worker b now draw hex locked_rows store worker task raw = Inr (store', Some sa)"
  obtains i ac where "(i, ac) \<in> set store" "account_available now rq (i, ac)"
    "store' = AList.update i (take_account now rq worker task (charge_id_of rq task hex) ac) store"
    "sa = selected_view now rq (i, ac) (charge_id_of rq task hex)"
proof (cases b)
  case Postgres
  from c n Postgres obtain r where r: "sql_select now draw locked_rows rq store = Some r"
    by (cases "sql_select now draw locked_rows rq store") (simp_all add: claim_account_for_worker_def Let_def)
  obtain i ac where ri: "r = (i, ac)" by (cases r)
  from sql_select_in [OF r] w ri have "account_available now rq (i, ac)" "(i, ac) \<in> set store"
    by (auto simp: store_well_def sql_available_eq)
  moreover from c n Postgres r ri have
    "store' = AList.update i (take_account now rq worker task (charge_id_of rq task hex) ac) store"
    "sa = selected_view now rq (i, ac) (charge_id_of rq task hex)"
    by (auto simp: claim_account_for_worker_def Let_def split: if_splits)
  ultimately show ?thesis using that by blast
next
  case LocalFile
  from c n LocalFile obtain r where r: "select_account now draw rq store = Some r"
    by (cases "select_account now draw rq store") (simp_all add: claim_account_for_worker_def Let_def)
  obtain i ac where ri: "r = (i, ac)" by (cases r)
  from select_account_in [OF r] ri have "account_available now rq (i, ac)" "(i, ac) \<in> set store" by auto
  moreover from c n LocalFile r ri have
    "store' = AList.update i (take_account now rq worker task (charge_id_of rq task hex) ac) store"
    "sa = selected_view now rq (i, ac) (charge_id_of rq task hex)"
    by (auto simp: claim_account_for_worker_def Let_def)
  ultimately show ?thesis using that by blast
qed

lemma charge_id_nonempty: "charge_id_of rq task hex \<noteq> []"
  by (simp add: charge_id_of_def)

lemma take_account_fields [simp]:
  "ac_current_task (take_account now rq worker task cid ac) = task"
  "ledger_of (studio_quota rq) (take_account now rq worker task cid ac) =
     open_charge now cid task (request_cost rq) (ledger_of (studio_quota rq) ac)"
  "ledger_of (\<not> studio_quota rq) (take_account now rq worker task cid ac) = ledger_of (\<not> studio_quota rq) ac"
  by (simp_all add: take_account_def put_ledger_def ledger_of_def)


definition sample_cookie :: cookie where
  "sample_cookie = \<lparr>ck_name = u ''k'', ck_value = u ''v'', ck_domain = u ''.dola.com'', ck_path = u ''/'', ck_expires = None,
     ck_same_site = [], ck_http_only = None, ck_secure = None\<rparr>"

definition sample_account :: account where
  "sample_account = \<lparr>ac_platform = u ''dola'', ac_source = u ''admin'', ac_name = [], ac_enabled = True,
     ac_status = u ''normal'', ac_ten_second_only = False, ac_status_reason = [],
     ac_disabled_reason = [], ac_status_marked_at = Unset, ac_slider_date = None, ac_slider_streak = 0,
     ac_ten_second_marked_at = Unset, ac_cookies = [sample_cookie], ac_cookie_header = u ''k=v'',
     ac_cookie_fingerprint = [], ac_cookies_refreshed_at = Unset, ac_created_at = Unset,
     ac_cooldown_until = Unset, ac_cooldown_reason = [], ac_pinned_node = [], ac_current_task = [],
     ac_current_worker = [], ac_current_started = Unset, ac_current_charge = [], ac_last_used_worker = [],
     ac_last_used_at = Unset, ac_main = fresh_ledger 3, ac_studio = fresh_ledger 60, ac_refund_ids = [],
     ac_sync_date = None, ac_synced_at = Unset, ac_available_at_sync = 0, ac_used_at_sync = 0,
     ac_sign_in = 0, ac_updated_at = Unset\<rparr>"

definition sample_account_request :: "int \<Rightarrow> account_request" where
  "sample_account_request cost = \<lparr>arq_excluded = [], arq_platform = u ''dola'', arq_preferred = [], arq_cost = cost,
     arq_duration = 5, arq_mode = [], arq_bucket = u ''default''\<rparr>"

lemma sample_well: "store_well [(u ''x'', sample_account)]"
  by (simp add: store_well_def account_well_def sample_account_def fresh_ledger_def reconciled_used_def valid_charges_def)

lemma sample_normalized: "normalize_request (sample_account_request n) = Inr (sample_account_request n)"
proof -
  have "normalize_platform (u ''dola'') = Inr (u ''dola'')" by (simp add: normalize_platform_def) code_simp
  then show ?thesis by (simp add: normalize_request_def sample_account_request_def)
qed

lemma sample_not_studio: "\<not> studio_quota (sample_account_request n)"
  by (simp add: studio_quota_def sample_account_request_def)

lemma sample_claim:
  "claim_account_for_worker LocalFile 5 0 (u ''h'') [] [(u ''x'', sample_account)] (u ''w'') (u ''t'') (sample_account_request 2)
     = Inr ([(u ''x'', take_account 5 (sample_account_request 2) (u ''w'') (u ''t'') (charge_id_of (sample_account_request 2) (u ''t'') (u ''h'')) sample_account)],
            Some (selected_view 5 (sample_account_request 2) (u ''x'', sample_account) (charge_id_of (sample_account_request 2) (u ''t'') (u ''h''))))"
proof -
  have "account_available 5 (sample_account_request 2) (u ''x'', sample_account)"
    using sample_not_studio [of 2]
    by (simp add: account_available_def quota_available_def quota_limit_def ledger_of_def request_cost_def
        account_platform_def account_supports_duration_def cooled_down_def)
      (simp add: sample_account_def sample_account_request_def fresh_ledger_def int_or_def)
  then have "select_account 5 0 (sample_account_request 2) [(u ''x'', sample_account)] = Some (u ''x'', sample_account)"
    by (simp add: select_account_def Let_def)
  then show ?thesis by (simp add: claim_account_for_worker_def sample_normalized Let_def)
qed

theorem claim_backends_agree_witness:
  "claim_account_for_worker Postgres 5 0 (u ''h'') [] [(u ''x'', sample_account)] (u ''w'') (u ''t'') (sample_account_request 2)
     \<noteq> Inr ([(u ''x'', sample_account)], None)"
proof -
  have "claim_account_for_worker LocalFile 5 0 (u ''h'') [] [(u ''x'', sample_account)] (u ''w'') (u ''t'') (sample_account_request 2)
     \<noteq> Inr ([(u ''x'', sample_account)], None)" unfolding sample_claim by simp
  with claim_backends_agree [OF sample_well] show ?thesis by blast
qed


end
