(* ===== verification/Batch_Jobs.thy ===== *)
theory Batch_Jobs
  imports Task_Meta
begin

text \<open>
  Batch jobs (app/batch_jobs.py): a spreadsheet's rows, each to become a task, with the job's
  revision counter that lets a client ask for what changed since a revision. A job is a row of
  the table \<open>dola_batch_jobs\<close> (or of batch_jobs.json); its columns \<open>created_at\<close> and
  \<open>updated_at\<close> are written with the payload's fields of the same name. An operation changes one
  job through \<open>_mutate_job\<close>; here each is a mutator, and \<open>mutate_job\<close> adds the revision.
\<close>

section \<open>Rows and jobs\<close>

datatype row_status = RQueued | RAwaiting | RCreating | RRunning | RCompleted | RFailed | RCanceled

datatype job_status = JQueued | JRunning | JCanceling | JCompleted | JCanceled

definition ACTIVE_JOB_STATUSES :: "job_status list" where
  "ACTIVE_JOB_STATUSES = [JQueued, JRunning, JCanceling]"

definition TERMINAL_ROW_STATUSES :: "row_status list" where
  "TERMINAL_ROW_STATUSES = [RCompleted, RFailed, RCanceled]"

definition TERMINAL_JOB_STATUSES :: "job_status list" where
  "TERMINAL_JOB_STATUSES = [JCompleted, JCanceled]"

record batch_row =
  br_index :: int
  br_client_index :: int
  br_sheet_row :: int
  br_prompt :: ustr
  br_image_files :: "ustr list"
  br_image_names :: "ustr list"
  br_image_count :: int
  br_assets_ready :: bool
  br_status :: row_status
  br_task_id :: ustr
  br_source_task_id :: ustr
  br_error :: ustr
  br_video_url :: ustr
  br_created_at :: stamp
  br_finished_at :: stamp
  br_claimed_at :: stamp
  br_next_attempt_at :: stamp
  br_asset_requested_at :: stamp
  br_assets_uploaded_at :: stamp
  br_create_attempts :: int
  br_revision :: int
  br_updated_at :: stamp

record batch_job =
  bj_id :: ustr
  bj_owner :: ustr
  bj_status :: job_status
  bj_ratio :: ustr
  bj_duration :: int
  bj_platform :: ustr
  bj_model :: ustr
  bj_concurrency :: int
  bj_reference_id :: ustr
  bj_reference_count :: int
  bj_reference_batch_id :: ustr
  bj_real_person :: bool
  bj_retry_of :: ustr
  bj_rows :: "batch_row list"
  bj_revision :: int
  bj_created_at :: stamp
  bj_updated_at :: stamp
  bj_canceled_at :: stamp
  bj_finished_at :: stamp

type_synonym job_table = "(ustr, batch_job) table"

section \<open>Creating jobs\<close>

record row_input =
  in_client_index :: int
  in_sheet_row :: int
  in_prompt :: ustr
  in_image_files :: "ustr list"
  in_image_names :: "ustr list"
  in_image_count :: int

record job_args =
  ja_ratio :: ustr
  ja_concurrency :: int
  ja_platform :: ustr
  ja_model :: ustr
  ja_duration :: int
  ja_reference_id :: ustr
  ja_reference_count :: int
  ja_reference_batch_id :: ustr
  ja_real_person :: bool

definition clean_names :: "ustr list \<Rightarrow> ustr list" where
  "clean_names names = map (\<lambda>n. take 180 (strip n)) (filter (\<lambda>n. strip n \<noteq> []) names)"

definition new_row :: "int \<Rightarrow> int \<Rightarrow> row_input \<Rightarrow> batch_row" where
  "new_row now index row =
     \<lparr>br_index = index,
      br_client_index = max 0 (int_or (in_client_index row) (index - 1)),
      br_sheet_row = max 1 (int_or (in_sheet_row row) index),
      br_prompt = take 4000 (strip (in_prompt row)),
      br_image_files = filter (\<lambda>n. n \<noteq> []) (in_image_files row),
      br_image_names = clean_names (in_image_names row),
      br_image_count = max 0 (in_image_count row),
      br_assets_ready = (in_image_files row \<noteq> [] \<or> max 0 (in_image_count row) = 0),
      br_status = RQueued, br_task_id = [], br_source_task_id = [], br_error = [],
      br_video_url = [], br_created_at = Unset, br_finished_at = Unset, br_claimed_at = Unset,
      br_next_attempt_at = Unset, br_asset_requested_at = Unset, br_assets_uploaded_at = Unset,
      br_create_attempts = 0, br_revision = 1, br_updated_at = At now\<rparr>"

text \<open>\<open>enumerate(rows, start=1)\<close>.\<close>

definition enumerate1 :: "'a list \<Rightarrow> (int \<times> 'a) list" where
  "enumerate1 xs = zip (map int [1..<Suc (length xs)]) xs"

definition new_job :: "int \<Rightarrow> ustr \<Rightarrow> ustr \<Rightarrow> row_input list \<Rightarrow> job_args \<Rightarrow> batch_job" where
  "new_job now job_id owner rows a =
     \<lparr>bj_id = job_id, bj_owner = owner, bj_status = JQueued, bj_ratio = ja_ratio a,
      bj_duration = max 1 (ja_duration a), bj_platform = ja_platform a, bj_model = ja_model a,
      bj_concurrency = max 1 (ja_concurrency a), bj_reference_id = ja_reference_id a,
      bj_reference_count = max 0 (ja_reference_count a),
      bj_reference_batch_id = take 100 (ja_reference_batch_id a),
      bj_real_person = ja_real_person a, bj_retry_of = [],
      bj_rows = map (\<lambda>(i, r). new_row now i r) (enumerate1 rows), bj_revision = 1,
      bj_created_at = At now, bj_updated_at = At now, bj_canceled_at = Unset,
      bj_finished_at = Unset\<rparr>"

text \<open>
  PostgreSQL refuses an identifier that is taken; the file branch replaces the job. The owner
  is registered with the coordinator afterwards (theory Batch_Sched).
\<close>

definition insert_job :: "backend \<Rightarrow> ustr \<Rightarrow> job_table \<Rightarrow> batch_job \<Rightarrow> (job_table \<times> batch_job) result" where
  "insert_job b refused jobs job =
     (if b = Postgres \<and> map_of jobs (bj_id job) \<noteq> None then Inl (RuntimeError refused)
      else Inr (AList.update (bj_id job) job jobs, job))"

definition create_job ::
    "backend \<Rightarrow> int \<Rightarrow> ustr \<Rightarrow> job_table \<Rightarrow> ustr \<Rightarrow> row_input list \<Rightarrow> job_args \<Rightarrow> ustr \<Rightarrow>
     (job_table \<times> batch_job) result" where
  "create_job b now draw jobs owner rows a job_id =
     (let job_id = str_or (lower (strip job_id)) draw
      in if length job_id \<noteq> 32 \<or> \<not> (\<forall>c \<in> set job_id. is_hex_char c)
         then Inl (ValueError (u ''invalid batch job id''))
         else insert_job b (u ''could not allocate batch job id'') jobs (new_job now job_id owner rows a))"

record retry_item =
  rt_retry_id :: ustr
  rt_client_index :: int
  rt_sheet_row :: int
  rt_prompt :: ustr
  rt_image_names :: "ustr list"
  rt_image_count :: int
  rt_task_id :: ustr

definition retry_row :: "int \<Rightarrow> int \<Rightarrow> retry_item \<Rightarrow> batch_row" where
  "retry_row now index item =
     \<lparr>br_index = index,
      br_client_index = max 0 (int_or (rt_client_index item) (index - 1)),
      br_sheet_row = max 1 (int_or (rt_sheet_row item) index),
      br_prompt = take 4000 (strip (rt_prompt item)),
      br_image_files = [], br_image_names = clean_names (rt_image_names item),
      br_image_count = max 0 (rt_image_count item), br_assets_ready = False,
      br_status = RRunning, br_task_id = rt_retry_id item, br_source_task_id = rt_task_id item,
      br_error = [], br_video_url = [], br_created_at = At now, br_finished_at = Unset,
      br_claimed_at = Unset, br_next_attempt_at = Unset, br_asset_requested_at = Unset,
      br_assets_uploaded_at = Unset, br_create_attempts = 0, br_revision = 1,
      br_updated_at = At now\<rparr>"

record retry_source =
  rj_id :: ustr
  rj_ratio :: ustr
  rj_duration :: int
  rj_platform :: ustr
  rj_model :: ustr
  rj_concurrency :: int
  rj_real_person :: bool

definition create_retry_job ::
    "backend \<Rightarrow> int \<Rightarrow> ustr \<Rightarrow> job_table \<Rightarrow> ustr \<Rightarrow> retry_source \<Rightarrow> retry_item list \<Rightarrow>
     (job_table \<times> batch_job) result" where
  "create_retry_job b now draw jobs owner source retries =
     (let rows = map (\<lambda>(i, r). retry_row now i r)
            (filter (\<lambda>(i, r). rt_retry_id r \<noteq> []) (enumerate1 retries))
      in if rows = [] then Inl (ValueError (u ''retry batch has no tasks''))
         else insert_job b (u ''could not allocate retry batch job id'') jobs
           \<lparr>bj_id = draw, bj_owner = owner, bj_status = JRunning,
            bj_ratio = str_or (rj_ratio source) (u ''9:16''),
            bj_duration = int_or (rj_duration source) 15,
            bj_platform = str_or (rj_platform source) (u ''dola''),
            bj_model = str_or (rj_model source) (u ''Seedance 2.0''),
            bj_concurrency = max 1 (int_or (rj_concurrency source) 1),
            bj_reference_id = [], bj_reference_count = 0, bj_reference_batch_id = [],
            bj_real_person = rj_real_person source, bj_retry_of = rj_id source, bj_rows = rows,
            bj_revision = 1, bj_created_at = At now, bj_updated_at = At now,
            bj_canceled_at = Unset, bj_finished_at = Unset\<rparr>)"

section \<open>Reading jobs\<close>

definition get_job :: "job_table \<Rightarrow> ustr \<Rightarrow> ustr \<Rightarrow> batch_job option" where
  "get_job jobs job_id owner = (case map_of jobs job_id of
     None \<Rightarrow> None
   | Some job \<Rightarrow> if owner \<noteq> [] \<and> bj_owner job \<noteq> owner then None else Some job)"

definition list_jobs :: "job_table \<Rightarrow> ustr option \<Rightarrow> bool \<Rightarrow> int \<Rightarrow> batch_job list" where
  "list_jobs jobs owner active_only limit =
     take (nat (clamp 1 1000 limit))
       (sort_desc (\<lambda>j. (bj_created_at j, bj_id j))
         (filter (\<lambda>j. (owner = None \<or> owner = Some (bj_owner j)) \<and>
             (active_only \<longrightarrow> bj_status j \<in> set ACTIVE_JOB_STATUSES)) (map snd jobs)))"

text \<open>
  The time a finished job is kept from: the column \<open>updated_at\<close>, or in the file the first of
  three fields that is there. PostgreSQL returns the removed rows in no particular order.
\<close>

definition job_age :: "backend \<Rightarrow> batch_job \<Rightarrow> stamp" where
  "job_age b j = (case b of
     Postgres \<Rightarrow> bj_updated_at j
   | LocalFile \<Rightarrow> stamp_or (stamp_or (bj_updated_at j) (bj_finished_at j)) (bj_created_at j))"

definition cleanup_history ::
    "backend \<Rightarrow> int \<Rightarrow> job_table \<Rightarrow> int \<Rightarrow> int \<Rightarrow> job_table \<times> batch_job list" where
  "cleanup_history b now jobs retention_days limit =
     (let cutoff = now - days (clamp 7 30 retention_days);
          candidates = filter (\<lambda>(k, j). bj_status j \<in> set TERMINAL_JOB_STATUSES \<and>
            job_age b j \<noteq> Unset \<and> job_age b j < At cutoff) jobs;
          removed = take (nat (clamp 1 5000 limit)) (sort_key (\<lambda>(k, j). (job_age b j, k)) candidates)
      in (filter (\<lambda>(k, j). k \<notin> fst ` set removed) jobs, map snd removed))"

text \<open>What a client sees; \<open>since\<close> asks for the rows changed after that revision.\<close>

record public_row =
  pr_index :: int
  pr_client_index :: int
  pr_sheet_row :: int
  pr_prompt :: ustr
  pr_status :: row_status
  pr_task_id :: ustr
  pr_error :: ustr
  pr_video_url :: ustr
  pr_image_count :: int
  pr_assets_required :: bool
  pr_assets_ready :: bool
  pr_revision :: int

record public_job =
  pj_id :: ustr
  pj_status :: job_status
  pj_ratio :: ustr
  pj_duration :: int
  pj_platform :: ustr
  pj_model :: ustr
  pj_concurrency :: int
  pj_real_person :: bool
  pj_created_at :: stamp
  pj_updated_at :: stamp
  pj_revision :: int
  pj_delta :: bool
  pj_total :: int
  pj_counts :: "(row_status \<times> int) list"
  pj_rows :: "public_row list"

definition row_view :: "batch_row \<Rightarrow> public_row" where
  "row_view r =
     \<lparr>pr_index = br_index r, pr_client_index = br_client_index r, pr_sheet_row = br_sheet_row r,
      pr_prompt = br_prompt r, pr_status = br_status r, pr_task_id = br_task_id r,
      pr_error = br_error r, pr_video_url = br_video_url r, pr_image_count = br_image_count r,
      pr_assets_required = (br_status r = RAwaiting \<and> \<not> (br_assets_ready r \<or> br_image_files r \<noteq> [])),
      pr_assets_ready = (br_assets_ready r \<or> br_image_files r \<noteq> [] \<or> br_image_count r = 0),
      pr_revision = max 0 (br_revision r)\<rparr>"

definition row_counts :: "batch_row list \<Rightarrow> (row_status \<times> int) list" where
  "row_counts rows = map (\<lambda>s. (s, int (length (filter (\<lambda>r. br_status r = s) rows))))
     [RQueued, RAwaiting, RCreating, RRunning, RCompleted, RFailed, RCanceled]"

definition public_job :: "batch_job \<Rightarrow> int option \<Rightarrow> public_job" where
  "public_job job since =
     (let revision = max 0 (bj_revision job);
          full = (case since of None \<Rightarrow> True | Some s \<Rightarrow> s > revision);
          counts = row_counts (bj_rows job)
      in \<lparr>pj_id = bj_id job, pj_status = bj_status job,
          pj_ratio = str_or (bj_ratio job) (u ''9:16''), pj_duration = int_or (bj_duration job) 15,
          pj_platform = str_or (bj_platform job) (u ''dola''),
          pj_model = str_or (bj_model job) (u ''Seedance 2.0''),
          pj_concurrency = int_or (bj_concurrency job) 1, pj_real_person = bj_real_person job,
          pj_created_at = bj_created_at job, pj_updated_at = bj_updated_at job,
          pj_revision = revision, pj_delta = (\<not> full), pj_total = sum_list (map snd counts),
          pj_counts = counts,
          pj_rows = map row_view (filter (\<lambda>r. full \<or> br_revision r > the since) (bj_rows job))\<rparr>)"

section \<open>Changing a job\<close>

type_synonym 'r job_mutator = "batch_job \<Rightarrow> (batch_job \<times> 'r) result"

definition row_payload :: "batch_row \<Rightarrow> batch_row" where
  "row_payload r = r\<lparr>br_revision := 0, br_updated_at := Unset\<rparr>"

definition job_payload :: "batch_job \<Rightarrow> batch_job" where
  "job_payload j = j\<lparr>bj_rows := [], bj_revision := 0, bj_updated_at := Unset\<rparr>"

text \<open>The dictionary of the rows before, by index: the last of two rows with an index wins.\<close>

definition row_before :: "batch_job \<Rightarrow> int \<Rightarrow> batch_row option" where
  "row_before before i = map_of (rev (map (\<lambda>r. (br_index r, r)) (bj_rows before))) i"

definition row_changed :: "batch_job \<Rightarrow> batch_row \<Rightarrow> bool" where
  "row_changed before r \<longleftrightarrow> map_option row_payload (row_before before (br_index r)) \<noteq> Some (row_payload r)"

definition bump :: "int \<Rightarrow> batch_job \<Rightarrow> batch_job \<Rightarrow> batch_job" where
  "bump now before job =
     (if (\<exists>r \<in> set (bj_rows job). row_changed before r) \<or> job_payload job \<noteq> job_payload before
      then (let revision = max 0 (bj_revision before) + 1
            in job\<lparr>bj_revision := revision, bj_updated_at := At now,
                 bj_rows := map (\<lambda>r. if row_changed before r
                   then r\<lparr>br_revision := revision, br_updated_at := At now\<rparr> else r) (bj_rows job)\<rparr>)
      else job)"

definition revise :: "int \<Rightarrow> 'r job_mutator \<Rightarrow> 'r job_mutator" where
  "revise now f before = map_sum id (\<lambda>(job, r). (bump now before job, r)) (f before)"

text \<open>Both branches write only a job that changed; the result holds the job as it is left.\<close>

definition mutate_job ::
    "backend \<Rightarrow> int \<Rightarrow> job_table \<Rightarrow> ustr \<Rightarrow> 'r job_mutator \<Rightarrow> (job_table \<times> batch_job \<times> 'r) result" where
  "mutate_job b now jobs job_id f =
     run_row b KeyError jobs job_id
       (\<lambda>before. map_sum id (\<lambda>(job, r). (job, (job, r), job \<noteq> before)) (revise now f before))"

text \<open>\<open>_finish_job_if_terminal\<close>.\<close>

definition is_terminal_row :: "batch_row \<Rightarrow> bool" where
  "is_terminal_row r \<longleftrightarrow> br_status r \<in> set TERMINAL_ROW_STATUSES"

definition finish_job_if_terminal :: "int \<Rightarrow> batch_job \<Rightarrow> batch_job" where
  "finish_job_if_terminal now job =
     (if bj_rows job \<noteq> [] \<and> (\<forall>r \<in> set (bj_rows job). is_terminal_row r)
      then job\<lparr>bj_status := (if bj_canceled_at job \<noteq> Unset \<and> (\<forall>r \<in> set (bj_rows job). br_status r = RCanceled)
                 then JCanceled else JCompleted), bj_finished_at := At now\<rparr>
      else if \<exists>r \<in> set (bj_rows job). br_status r \<in> {RCreating, RRunning} then job\<lparr>bj_status := JRunning\<rparr>
      else job\<lparr>bj_status := JQueued\<rparr>)"

subsection \<open>Canceling\<close>

definition cancel_row :: "int \<Rightarrow> ustr \<Rightarrow> batch_row \<Rightarrow> batch_row" where
  "cancel_row now reason r =
     (if br_status r \<in> {RQueued, RAwaiting, RCreating} \<and> br_task_id r = []
      then r\<lparr>br_status := RCanceled, br_error := take 500 (str_or reason msg_batch_stopped),
             br_finished_at := At now\<rparr>
      else r)"

definition cancel_mut :: "int \<Rightarrow> ustr \<Rightarrow> ustr \<Rightarrow> unit job_mutator" where
  "cancel_mut now owner reason job =
     (if bj_owner job \<noteq> owner then Inl PermissionError
      else let rows = map (cancel_row now reason) (bj_rows job)
           in Inr (job\<lparr>bj_canceled_at := At now, bj_rows := rows,
                bj_status := (if \<exists>r \<in> set rows. br_status r = RRunning then JCanceling else JCanceled)\<rparr>, ()))"

definition cancel_job :: "backend \<Rightarrow> int \<Rightarrow> job_table \<Rightarrow> ustr \<Rightarrow> ustr \<Rightarrow> ustr \<Rightarrow> (job_table \<times> batch_job) result" where
  "cancel_job b now jobs job_id owner reason =
     map_sum id (\<lambda>(jobs', job, _). (jobs', job)) (mutate_job b now jobs job_id (cancel_mut now owner reason))"

subsection \<open>Rows left in creation\<close>

definition is_stale_creating :: "int \<Rightarrow> batch_row \<Rightarrow> bool" where
  "is_stale_creating cutoff r \<longleftrightarrow> br_status r = RCreating \<and> br_task_id r = [] \<and> br_claimed_at r \<le> At cutoff"

definition recover_row :: "int \<Rightarrow> batch_row \<Rightarrow> batch_row" where
  "recover_row cutoff r =
     (if is_stale_creating cutoff r then r\<lparr>br_status := RQueued, br_claimed_at := Unset, br_error := []\<rparr> else r)"

definition recover_mut :: "int \<Rightarrow> int job_mutator" where
  "recover_mut cutoff job =
     Inr (job\<lparr>bj_rows := map (recover_row cutoff) (bj_rows job)\<rparr>,
          int (length (filter (is_stale_creating cutoff) (bj_rows job))))"

fun batch_recover_loop :: "backend \<Rightarrow> int \<Rightarrow> int \<Rightarrow> batch_job list \<Rightarrow> job_table \<Rightarrow> (job_table \<times> int) result" where
  "batch_recover_loop b now cutoff [] jobs = Inr (jobs, 0)"
| "batch_recover_loop b now cutoff (j # js) jobs =
     (if \<not> (\<exists>r \<in> set (bj_rows j). br_status r = RCreating) then batch_recover_loop b now cutoff js jobs
      else case mutate_job b now jobs (bj_id j) (recover_mut cutoff) of
             Inl e \<Rightarrow> Inl e
           | Inr (jobs', _, n) \<Rightarrow> map_sum id (\<lambda>(t, m). (t, n + m)) (batch_recover_loop b now cutoff js jobs'))"

definition recover_stale_creating_rows :: "backend \<Rightarrow> int \<Rightarrow> int \<Rightarrow> job_table \<Rightarrow> (job_table \<times> int) result" where
  "recover_stale_creating_rows b now max_age_seconds jobs =
     batch_recover_loop b now (now - secs (max 10 max_age_seconds)) (list_jobs jobs None True 1000) jobs"

subsection \<open>Claiming the next row\<close>

definition is_due :: "int \<Rightarrow> batch_row \<Rightarrow> bool" where
  "is_due now r \<longleftrightarrow> br_status r = RQueued \<and> br_next_attempt_at r \<le> At now"

definition lacks_assets :: "batch_row \<Rightarrow> bool" where
  "lacks_assets r \<longleftrightarrow> max 0 (br_image_count r) > 0 \<and> \<not> (br_assets_ready r \<or> br_image_files r \<noteq> [])"

definition is_ready :: "int \<Rightarrow> batch_row \<Rightarrow> bool" where
  "is_ready now r \<longleftrightarrow> is_due now r \<and> \<not> lacks_assets r"

definition wants_assets :: "int \<Rightarrow> batch_row \<Rightarrow> bool" where
  "wants_assets now r \<longleftrightarrow> is_due now r \<and> lacks_assets r"

definition start_creating :: "int \<Rightarrow> batch_row \<Rightarrow> batch_row" where
  "start_creating now r = r\<lparr>br_status := RCreating, br_claimed_at := At now, br_next_attempt_at := Unset, br_error := []\<rparr>"

definition request_assets :: "int \<Rightarrow> batch_row \<Rightarrow> batch_row" where
  "request_assets now r = r\<lparr>br_status := RAwaiting, br_asset_requested_at := At now, br_claimed_at := Unset, br_error := []\<rparr>"

record row_claim =
  rc_job :: batch_job
  rc_row :: batch_row
  rc_awaiting_assets :: bool

text \<open>The first due row whose images are there; without one, the first due row asks for them.\<close>

definition claim_mut :: "int \<Rightarrow> row_claim option job_mutator" where
  "claim_mut now job =
     (if bj_status job \<notin> {JQueued, JRunning} \<or> bj_canceled_at job \<noteq> Unset then Inr (job, None)
      else case find (is_ready now) (bj_rows job) of
        Some r \<Rightarrow>
          (let job' = job\<lparr>bj_rows := update_first (is_ready now) (start_creating now) (bj_rows job), bj_status := JRunning\<rparr>
           in Inr (job', Some \<lparr>rc_job = job', rc_row = start_creating now r, rc_awaiting_assets = False\<rparr>))
      | None \<Rightarrow> (case find (wants_assets now) (bj_rows job) of
          Some r \<Rightarrow>
            (let job' = job\<lparr>bj_rows := update_first (wants_assets now) (request_assets now) (bj_rows job), bj_status := JRunning\<rparr>
             in Inr (job', Some \<lparr>rc_job = job', rc_row = request_assets now r, rc_awaiting_assets = True\<rparr>))
        | None \<Rightarrow> Inr (job, None)))"

fun batch_claim_loop :: "backend \<Rightarrow> int \<Rightarrow> batch_job list \<Rightarrow> job_table \<Rightarrow> (job_table \<times> row_claim option) result" where
  "batch_claim_loop b now [] jobs = Inr (jobs, None)"
| "batch_claim_loop b now (j # js) jobs = (case mutate_job b now jobs (bj_id j) (claim_mut now) of
     Inl e \<Rightarrow> Inl e
   | Inr (jobs', _, Some c) \<Rightarrow> Inr (jobs', Some c)
   | Inr (jobs', _, None) \<Rightarrow> batch_claim_loop b now js jobs')"

definition claim_next_row :: "backend \<Rightarrow> int \<Rightarrow> job_table \<Rightarrow> ustr \<Rightarrow> (job_table \<times> row_claim option) result" where
  "claim_next_row b now jobs owner =
     batch_claim_loop b now (filter (\<lambda>j. bj_status j \<in> {JQueued, JRunning}) (rev (list_jobs jobs (Some owner) True 100))) jobs"

subsection \<open>Images, creation and failure of a row\<close>

definition mark_assets_mut ::
    "int \<Rightarrow> ustr \<Rightarrow> int \<Rightarrow> ustr list \<Rightarrow> ustr list \<Rightarrow> batch_row job_mutator" where
  "mark_assets_mut now owner row_index image_files image_names job =
     (if bj_owner job \<noteq> owner then Inl PermissionError
      else if bj_canceled_at job \<noteq> Unset then Inl (RuntimeError (u ''batch job is canceled''))
      else case find (\<lambda>r. br_index r = row_index) (bj_rows job) of
        None \<Rightarrow> Inl KeyError
      | Some r \<Rightarrow>
         (if br_task_id r \<noteq> [] then Inl KeyError
          else let expected = max 0 (br_image_count r)
               in if expected \<le> 0 \<or> int (length image_files) \<noteq> expected \<or> int (length image_names) \<noteq> expected
                  then Inl (ValueError (u ''batch row reference image count mismatch''))
                  else let fill = (\<lambda>r. r\<lparr>br_status := RQueued, br_image_files := image_files,
                             br_image_names := map (\<lambda>n. take 180 (strip n)) image_names,
                             br_assets_ready := True, br_asset_requested_at := Unset,
                             br_assets_uploaded_at := At now, br_error := []\<rparr>)
                       in Inr (job\<lparr>bj_rows := update_first (\<lambda>r. br_index r = row_index) fill (bj_rows job),
                                   bj_status := JRunning\<rparr>, fill r)))"

definition mark_row_assets_ready ::
    "backend \<Rightarrow> int \<Rightarrow> job_table \<Rightarrow> ustr \<Rightarrow> ustr \<Rightarrow> int \<Rightarrow> ustr list \<Rightarrow> ustr list \<Rightarrow> (job_table \<times> batch_row) result" where
  "mark_row_assets_ready b now jobs job_id owner row_index image_files image_names =
     map_sum id (\<lambda>(jobs', _, r). (jobs', r))
       (mutate_job b now jobs job_id (mark_assets_mut now owner row_index image_files image_names))"

definition start_running :: "int \<Rightarrow> ustr \<Rightarrow> batch_row \<Rightarrow> batch_row" where
  "start_running now task_id r = r\<lparr>br_status := RRunning, br_task_id := task_id, br_created_at := At now,
     br_claimed_at := Unset, br_error := []\<rparr>"

definition finish_creation_mut :: "int \<Rightarrow> int \<Rightarrow> ustr \<Rightarrow> unit job_mutator" where
  "finish_creation_mut now row_index task_id job =
     (case find (\<lambda>r. br_index r = row_index) (bj_rows job) of
        None \<Rightarrow> Inl KeyError
      | Some r \<Rightarrow> Inr (job\<lparr>bj_rows := update_first (\<lambda>r. br_index r = row_index) (start_running now task_id) (bj_rows job),
          bj_status := (if bj_canceled_at job \<noteq> Unset then JCanceling else JRunning)\<rparr>, ()))"

definition finish_row_creation :: "backend \<Rightarrow> int \<Rightarrow> job_table \<Rightarrow> ustr \<Rightarrow> int \<Rightarrow> ustr \<Rightarrow> job_table result" where
  "finish_row_creation b now jobs job_id row_index task_id =
     map_sum id fst (mutate_job b now jobs job_id (finish_creation_mut now row_index task_id))"

text \<open>The fifth failed attempt, or one that must not be repeated, is final.\<close>

definition retry_delay :: "int \<Rightarrow> int" where
  "retry_delay attempts = secs (min 30 (2 ^ nat attempts))"

definition fail_row :: "int \<Rightarrow> ustr \<Rightarrow> bool \<Rightarrow> bool \<Rightarrow> batch_row \<Rightarrow> batch_row" where
  "fail_row now error retry canceled r =
     (let attempts = max 0 (br_create_attempts r) + 1;
          r = r\<lparr>br_create_attempts := attempts, br_task_id := [], br_claimed_at := Unset, br_error := take 500 error\<rparr>
      in if retry \<and> attempts < 5 \<and> \<not> canceled
         then r\<lparr>br_status := RQueued, br_next_attempt_at := At (now + retry_delay attempts)\<rparr>
         else r\<lparr>br_status := RFailed, br_finished_at := At now\<rparr>)"

definition fail_mut :: "int \<Rightarrow> int \<Rightarrow> ustr \<Rightarrow> bool \<Rightarrow> unit job_mutator" where
  "fail_mut now row_index error retry job =
     (case find (\<lambda>r. br_index r = row_index) (bj_rows job) of
        None \<Rightarrow> Inr (job, ())
      | Some r \<Rightarrow> (if is_terminal_row r then Inr (job, ())
         else Inr (finish_job_if_terminal now (job\<lparr>bj_rows :=
                update_first (\<lambda>r. br_index r = row_index) (fail_row now error retry (bj_canceled_at job \<noteq> Unset))
                  (bj_rows job)\<rparr>), ())))"

definition fail_or_requeue_row :: "backend \<Rightarrow> int \<Rightarrow> job_table \<Rightarrow> ustr \<Rightarrow> int \<Rightarrow> ustr \<Rightarrow> bool \<Rightarrow> job_table result" where
  "fail_or_requeue_row b now jobs job_id row_index error retry =
     map_sum id fst (mutate_job b now jobs job_id (fail_mut now row_index error retry))"

subsection \<open>Reconciling with the tasks\<close>

record task_payload =
  tp_status :: task_status
  tp_error :: ustr
  tp_video_url :: ustr

definition reconcile_row :: "int \<Rightarrow> (ustr, task_payload) table \<Rightarrow> batch_row \<Rightarrow> batch_row" where
  "reconcile_row now payloads r =
     (if br_task_id r = [] \<or> is_terminal_row r then r
      else case map_of payloads (br_task_id r) of
        None \<Rightarrow> r
      | Some t \<Rightarrow>
         (if tp_video_url t \<noteq> []
          then r\<lparr>br_status := RCompleted, br_video_url := tp_video_url t, br_error := [], br_finished_at := At now\<rparr>
          else if tp_status t \<in> {Failed, Canceled}
          then r\<lparr>br_status := (if tp_status t = Failed then RFailed else RCanceled),
                 br_error := take 500 (str_or (tp_error t)
                   (if tp_status t = Canceled then msg_user_cancel else msg_generation_failed)),
                 br_finished_at := At now\<rparr>
          else r\<lparr>br_status := RRunning\<rparr>))"

definition reconcile_mut :: "int \<Rightarrow> (ustr, task_payload) table \<Rightarrow> unit job_mutator" where
  "reconcile_mut now payloads job =
     Inr (finish_job_if_terminal now (job\<lparr>bj_rows := map (reconcile_row now payloads) (bj_rows job)\<rparr>), ())"

definition reconcile_job ::
    "backend \<Rightarrow> int \<Rightarrow> job_table \<Rightarrow> ustr \<Rightarrow> (ustr, task_payload) table \<Rightarrow> (job_table \<times> batch_job) result" where
  "reconcile_job b now jobs job_id payloads =
     map_sum id (\<lambda>(jobs', job, _). (jobs', job)) (mutate_job b now jobs job_id (reconcile_mut now payloads))"

end
