(* ===== verification/Batch_Revisions.thy ===== *)
theory Batch_Revisions
  imports Batch_Jobs
begin

text \<open>
  What the revision counter of a batch job promises (app/batch_jobs.py, \<open>_mutate_job\<close> and
  \<open>public_job\<close>). The contract of a mutator is a locale: it keeps the rows' indexes and leaves
  every revision to \<open>_mutate_job\<close>. It is interpreted on each operation of the component, and
  gives that a row either is as before or carries the job's new revision.
\<close>

section \<open>Well-formed jobs\<close>

definition job_ok :: "batch_job \<Rightarrow> bool" where
  "job_ok j \<longleftrightarrow> distinct (map br_index (bj_rows j)) \<and> 0 \<le> bj_revision j \<and>
     (\<forall>r \<in> set (bj_rows j). 0 \<le> br_revision r \<and> br_revision r \<le> bj_revision j)"

definition row_stamp :: "batch_row \<Rightarrow> int \<times> int \<times> stamp" where
  "row_stamp r = (br_index r, br_revision r, br_updated_at r)"

definition job_stamp :: "batch_job \<Rightarrow> (ustr \<times> ustr) \<times> int \<times> stamp" where
  "job_stamp j = ((bj_id j, bj_owner j), bj_revision j, bj_updated_at j)"

lemma row_stamp_indexes:
  "map row_stamp xs = map row_stamp ys \<Longrightarrow> map br_index xs = map br_index ys"
proof -
  have "map br_index zs = map fst (map row_stamp zs)" for zs
    by (simp add: row_stamp_def comp_def)
  then show "map row_stamp xs = map row_stamp ys \<Longrightarrow> ?thesis" by metis
qed

lemma enumerate1_fst [simp]: "map fst (enumerate1 xs) = map int [1..<Suc (length xs)]"
  by (simp add: enumerate1_def map_fst_zip)

lemma map_filter_fst:
  "distinct (map fst xs) \<Longrightarrow> distinct (map fst (filter P xs))"
  by (simp add: distinct_map_filter)

lemma new_job_ok: "job_ok (new_job now job_id owner rows a)"
proof -
  have "map br_index (bj_rows (new_job now job_id owner rows a)) = map fst (enumerate1 rows)"
    by (simp add: new_job_def new_row_def comp_def case_prod_unfold)
  then have "distinct (map br_index (bj_rows (new_job now job_id owner rows a)))"
    by (simp only: enumerate1_fst) (simp add: distinct_map inj_on_def)
  then show ?thesis
    by (auto simp: job_ok_def new_job_def new_row_def)
qed

lemma create_job_ok:
  "create_job b now draw jobs owner rows a job_id = Inr (jobs', j) \<Longrightarrow> job_ok j"
  by (auto simp: create_job_def insert_job_def Let_def new_job_ok split: if_splits)

lemma create_retry_job_ok:
  assumes "create_retry_job b now draw jobs owner source retries = Inr (jobs', j)"
  shows "job_ok j"
proof -
  let ?es = "filter (\<lambda>(i, r). rt_retry_id r \<noteq> []) (enumerate1 retries)"
  have rows: "bj_rows j = map (\<lambda>(i, r). retry_row now i r) ?es" and "bj_revision j = 1"
    using assms by (auto simp: create_retry_job_def insert_job_def Let_def split: if_splits)
  moreover have "distinct (map fst (enumerate1 retries))"
    by (simp only: enumerate1_fst) (simp add: distinct_map inj_on_def)
  then have "distinct (map fst ?es)" by (rule map_filter_fst)
  then have "distinct (map br_index (map (\<lambda>(i, r). retry_row now i r) ?es))"
    by (simp add: retry_row_def comp_def case_prod_unfold)
  ultimately show ?thesis
    by (auto simp: job_ok_def retry_row_def)
qed

section \<open>The contract of a mutator\<close>

lemma row_eqI:
  fixes r r' :: batch_row
  assumes "row_payload r' = row_payload r" "row_stamp r' = row_stamp r"
  shows "r' = r"
  using assms by (cases r; cases r') (simp add: row_payload_def row_stamp_def)

lemma revise_InrE:
  assumes "revise now f j = Inr (j', r)"
  obtains k where "f j = Inr (k, r)" "j' = bump now j k"
  using assms by (cases "f j"; cases "projr (f j)") (simp_all add: revise_def)

lemma row_before_nth:
  assumes "distinct (map br_index (bj_rows j))" "i < length (bj_rows j)"
  shows "row_before j (br_index (bj_rows j ! i)) = Some (bj_rows j ! i)"
proof -
  let ?ps = "rev (map (\<lambda>r. (br_index r, r)) (bj_rows j))"
  have "distinct (map fst ?ps)"
    using assms(1) by (simp add: rev_map [symmetric] comp_def)
  moreover have "(br_index (bj_rows j ! i), bj_rows j ! i) \<in> set ?ps"
    using assms(2) by (auto intro!: image_eqI [of _ _ "bj_rows j ! i"])
  ultimately show ?thesis
    by (simp add: row_before_def)
qed

text \<open>What one run of \<open>_mutate_job\<close> does to a job, seen by revisions.\<close>

definition revised :: "batch_job \<Rightarrow> batch_job \<Rightarrow> bool" where
  "revised j j' \<longleftrightarrow>
     list_all2 (\<lambda>x x'. br_index x' = br_index x \<and>
         (x' = x \<or> (br_revision x' = bj_revision j' \<and> bj_revision j < bj_revision j')))
       (bj_rows j) (bj_rows j') \<and>
     bj_revision j \<le> bj_revision j' \<and> job_ok j' \<and> bj_id j' = bj_id j \<and> bj_owner j' = bj_owner j \<and>
     (bj_canceled_at j \<noteq> Unset \<longrightarrow> bj_canceled_at j' \<noteq> Unset)"

text \<open>The table: one job per identifier, each well-formed.\<close>

definition jobs_ok :: "job_table \<Rightarrow> bool" where
  "jobs_ok jobs \<longleftrightarrow> distinct (map fst jobs) \<and> (\<forall>k \<in> set (map fst jobs).
     case map_of jobs k of Some j \<Rightarrow> job_ok j \<and> bj_id j = k | None \<Rightarrow> True)"

lemma jobs_okD:
  assumes "jobs_ok jobs" "map_of jobs k = Some j"
  shows "job_ok j" "bj_id j = k"
proof -
  from assms(2) have "k \<in> set (map fst jobs)" by (force dest: map_of_SomeD)
  with assms have "case map_of jobs k of Some j \<Rightarrow> job_ok j \<and> bj_id j = k | None \<Rightarrow> True"
    unfolding jobs_ok_def by blast
  with assms(2) show "job_ok j" "bj_id j = k" by simp_all
qed

lemma jobs_okI:
  assumes "distinct (map fst jobs)" "\<And>k j. map_of jobs k = Some j \<Longrightarrow> job_ok j \<and> bj_id j = k"
  shows "jobs_ok jobs"
  using assms by (simp add: jobs_ok_def split: option.split)

locale job_mutator =
  fixes f :: "'r job_mutator"
  assumes keeps_rows: "f j = Inr (j', r) \<Longrightarrow> map row_stamp (bj_rows j') = map row_stamp (bj_rows j)"
    and keeps_job: "f j = Inr (j', r) \<Longrightarrow> job_stamp j' = job_stamp j"
    and keeps_canceled: "f j = Inr (j', r) \<Longrightarrow> bj_canceled_at j \<noteq> Unset \<Longrightarrow> bj_canceled_at j' \<noteq> Unset"
begin

text \<open>A row is as it was, or it carries the new revision.\<close>

lemma revise_rows:
  assumes ok: "job_ok j" and run: "revise now f j = Inr (j', r)"
  shows "list_all2 (\<lambda>x x'. br_index x' = br_index x \<and>
           (x' = x \<or> (br_revision x' = bj_revision j' \<and> bj_revision j < bj_revision j')))
         (bj_rows j) (bj_rows j')"
    and "bj_revision j \<le> bj_revision j'" and "job_ok j'"
    and "bj_id j' = bj_id j" and "bj_owner j' = bj_owner j"
    and "bj_canceled_at j \<noteq> Unset \<longrightarrow> bj_canceled_at j' \<noteq> Unset"
proof -
  obtain k where f: "f j = Inr (k, r)" and j': "j' = bump now j k"
    by (rule revise_InrE [OF run])
  note rows = keeps_rows [OF f] and job = keeps_job [OF f]
  have len: "length (bj_rows k) = length (bj_rows j)"
    using arg_cong [OF rows, of length] by simp
  have stamp: "row_stamp (bj_rows k ! i) = row_stamp (bj_rows j ! i)" if "i < length (bj_rows j)" for i
    using arg_cong [OF rows, of "\<lambda>xs. xs ! i"] that len by simp
  have dist: "distinct (map br_index (bj_rows j))" using ok by (simp add: job_ok_def)
  have same: "bj_rows k ! i = bj_rows j ! i"
    if i: "i < length (bj_rows j)" and "\<not> row_changed j (bj_rows k ! i)" for i
  proof -
    have "br_index (bj_rows k ! i) = br_index (bj_rows j ! i)"
      using stamp [OF i] by (simp add: row_stamp_def)
    with that(2) row_before_nth [OF dist i] have "row_payload (bj_rows k ! i) = row_payload (bj_rows j ! i)"
      by (simp add: row_changed_def)
    from row_eqI [OF this stamp [OF i]] show ?thesis .
  qed
  have idx: "br_index (bj_rows k ! i) = br_index (bj_rows j ! i)" if "i < length (bj_rows j)" for i
    using stamp [OF that] by (simp add: row_stamp_def)
  have rev: "bj_revision k = bj_revision j" and ids: "bj_id k = bj_id j" "bj_owner k = bj_owner j"
    using job by (simp_all add: job_stamp_def)
  have pos: "0 \<le> bj_revision j" using ok by (simp add: job_ok_def)
  show all2: "list_all2 (\<lambda>x x'. br_index x' = br_index x \<and>
           (x' = x \<or> (br_revision x' = bj_revision j' \<and> bj_revision j < bj_revision j')))
         (bj_rows j) (bj_rows j')"
  proof (cases "(\<exists>r \<in> set (bj_rows k). row_changed j r) \<or> job_payload k \<noteq> job_payload j")
    case True
    let ?mark = "\<lambda>r. if row_changed j r then r\<lparr>br_revision := bj_revision j + 1, br_updated_at := At now\<rparr> else r"
    from True have "j' = k\<lparr>bj_revision := max 0 (bj_revision j) + 1, bj_updated_at := At now,
        bj_rows := map (\<lambda>r. if row_changed j r
          then r\<lparr>br_revision := max 0 (bj_revision j) + 1, br_updated_at := At now\<rparr> else r) (bj_rows k)\<rparr>"
      by (simp only: j' bump_def Let_def if_True)
    with pos have rows': "bj_rows j' = map ?mark (bj_rows k)" and rev': "bj_revision j' = bj_revision j + 1"
      by simp_all
    show ?thesis
      unfolding rev' rows'
    proof (rule list_all2_all_nthI)
      show "length (bj_rows j) = length (map ?mark (bj_rows k))" using len by simp
    next
      fix i assume i: "i < length (bj_rows j)"
      with len have "map ?mark (bj_rows k) ! i = ?mark (bj_rows k ! i)" by simp
      with idx [OF i] same [OF i]
      show "br_index (map ?mark (bj_rows k) ! i) = br_index (bj_rows j ! i) \<and>
          (map ?mark (bj_rows k) ! i = bj_rows j ! i \<or>
           br_revision (map ?mark (bj_rows k) ! i) = bj_revision j + 1 \<and> bj_revision j < bj_revision j + 1)"
        by (cases "row_changed j (bj_rows k ! i)") simp_all
    qed
  next
    case False
    then have eq: "bj_rows j' = bj_rows k" by (simp add: j' bump_def)
    have "bj_rows k ! i = bj_rows j ! i" if "i < length (bj_rows j)" for i
      using same [OF that] False that len nth_mem [of i "bj_rows k"] by simp
    with len eq show ?thesis by (simp add: list_all2_conv_all_nth)
  qed
  show mono: "bj_revision j \<le> bj_revision j'"
    using rev pos by (simp add: j' bump_def Let_def)
  show "bj_id j' = bj_id j" "bj_owner j' = bj_owner j"
    using ids by (simp_all add: j' bump_def Let_def)
  show "bj_canceled_at j \<noteq> Unset \<longrightarrow> bj_canceled_at j' \<noteq> Unset"
    using keeps_canceled [OF f] by (simp add: j' bump_def Let_def)
  have "map br_index (bj_rows j') = map br_index (bj_rows j)"
    using all2 by (auto simp: list_all2_conv_all_nth list_eq_iff_nth_eq)
  moreover have "0 \<le> br_revision x' \<and> br_revision x' \<le> bj_revision j'" if "x' \<in> set (bj_rows j')" for x'
  proof -
    from that obtain i where i: "i < length (bj_rows j')" "x' = bj_rows j' ! i"
      by (auto simp: in_set_conv_nth)
    with all2 have i': "i < length (bj_rows j)" by (simp add: list_all2_conv_all_nth)
    with ok have "0 \<le> br_revision (bj_rows j ! i) \<and> br_revision (bj_rows j ! i) \<le> bj_revision j"
      by (simp add: job_ok_def)
    moreover from all2 i i' have "x' = bj_rows j ! i \<or> (br_revision x' = bj_revision j' \<and> bj_revision j < bj_revision j')"
      by (simp add: list_all2_conv_all_nth)
    ultimately show ?thesis using mono pos by auto
  qed
  ultimately show "job_ok j'" using ok mono by (simp add: job_ok_def)
qed

lemma revise_revised:
  assumes "job_ok j" "revise now f j = Inr (j', r)"
  shows "revised j j'"
  unfolding revised_def by (intro conjI revise_rows [OF assms])

text \<open>A run that leaves the job leaves its revision too.\<close>

lemma revise_unchanged:
  assumes "job_ok j" "f j = Inr (j, r)"
  shows "revise now f j = Inr (j, r)"
proof -
  have "\<not> row_changed j x" if "x \<in> set (bj_rows j)" for x
  proof -
    from that obtain i where "i < length (bj_rows j)" "x = bj_rows j ! i" by (auto simp: in_set_conv_nth)
    with row_before_nth [of j i] assms(1) show ?thesis by (simp add: row_changed_def job_ok_def)
  qed
  then show ?thesis using assms(2) by (simp add: revise_def bump_def)
qed

lemma mutate_job_Inr:
  assumes jobs: "jobs_ok jobs" and run: "mutate_job b now jobs k f = Inr (jobs', j', r)"
  obtains j where "map_of jobs k = Some j" "revise now f j = Inr (j', r)"
    "map_of jobs' = (map_of jobs)(k \<mapsto> j')" "jobs_ok jobs'" "revised j j'"
proof -
  let ?g = "\<lambda>before. map_sum id (\<lambda>(job, r). (job, (job, r), job \<noteq> before)) (revise now f before)"
  from run have run: "run_row b KeyError jobs k ?g = Inr (jobs', j', r)" by (simp add: mutate_job_def)
  then show ?thesis
  proof (rule any_rows.run_Inr)
    fix j v w
    assume j: "map_of jobs k = Some j" and g: "?g j = Inr (v, (j', r), w)"
      and alt: "map_of jobs' = (map_of jobs)(k \<mapsto> v) \<or> (\<not> w \<and> jobs' = jobs)"
    from g have rv: "revise now f j = Inr (j', r)" and v: "v = j'" "w = (j' \<noteq> j)"
      by (cases "revise now f j"; cases "projr (revise now f j)"; simp)+
    from jobs_okD [OF jobs j] have ok: "job_ok j" "bj_id j = k" .
    have rd: "revised j j'" by (rule revise_revised [OF ok(1) rv])
    have upd: "map_of jobs' = (map_of jobs)(k \<mapsto> j')"
      using alt v j by (cases "j' = j") (auto simp: fun_upd_idem)
    have "jobs_ok jobs'"
    proof (rule jobs_okI)
      show "distinct (map fst jobs')" using run_row_keys [OF run] jobs by (simp add: jobs_ok_def)
      fix k' i assume "map_of jobs' k' = Some i"
      with upd rd ok jobs_okD [OF jobs, of k' i] show "job_ok i \<and> bj_id i = k'"
        by (cases "k' = k") (simp_all add: revised_def)
    qed
    with j rv upd rd that show ?thesis by blast
  qed
qed

end

section \<open>Every operation meets it\<close>

lemma map_row_stamp:
  "(\<And>r. row_stamp (g r) = row_stamp r) \<Longrightarrow> map row_stamp (map g xs) = map row_stamp xs"
  by simp

lemma update_row_stamp:
  "(\<And>r. row_stamp (g r) = row_stamp r) \<Longrightarrow> map row_stamp (update_first p g xs) = map row_stamp xs"
  by (rule map_update_first)

lemma finish_keeps [simp]:
  "bj_rows (finish_job_if_terminal now j) = bj_rows j"
  "job_stamp (finish_job_if_terminal now j) = job_stamp j"
  "bj_canceled_at (finish_job_if_terminal now j) = bj_canceled_at j"
  by (simp_all add: finish_job_if_terminal_def job_stamp_def)

lemma row_steps_stamp [simp]:
  "row_stamp (cancel_row now reason r) = row_stamp r"
  "row_stamp (recover_row cutoff r) = row_stamp r"
  "row_stamp (start_creating now r) = row_stamp r"
  "row_stamp (request_assets now r) = row_stamp r"
  "row_stamp (start_running now task_id r) = row_stamp r"
  "row_stamp (fail_row now error retry canceled r) = row_stamp r"
  "row_stamp (reconcile_row now payloads r) = row_stamp r"
  by (simp_all add: row_stamp_def cancel_row_def recover_row_def start_creating_def request_assets_def
      start_running_def fail_row_def reconcile_row_def Let_def split: option.split)

lemma job_stamp_frame [simp]:
  "job_stamp (j\<lparr>bj_rows := rows\<rparr>) = job_stamp j"
  "job_stamp (j\<lparr>bj_status := s\<rparr>) = job_stamp j"
  "job_stamp (j\<lparr>bj_canceled_at := c\<rparr>) = job_stamp j"
  by (simp_all add: job_stamp_def)

interpretation cancel: job_mutator "cancel_mut now owner reason" for now owner reason
  by unfold_locales (auto simp: cancel_mut_def Let_def job_stamp_def split: if_splits)

interpretation recover: job_mutator "recover_mut cutoff" for cutoff
  by unfold_locales (auto simp: recover_mut_def job_stamp_def)

interpretation claim_row: job_mutator "claim_mut now" for now
  by unfold_locales
    (auto simp: claim_mut_def Let_def job_stamp_def update_row_stamp split: if_splits option.splits)

interpretation mark_assets: job_mutator "mark_assets_mut now owner row_index files names" for now owner row_index files names
  by unfold_locales
    (auto simp: mark_assets_mut_def Let_def job_stamp_def row_stamp_def intro!: map_update_first
      split: if_splits option.splits)

interpretation finish_creation: job_mutator "finish_creation_mut now row_index task_id" for now row_index task_id
  by unfold_locales
    (auto simp: finish_creation_mut_def job_stamp_def update_row_stamp split: option.splits)

interpretation fail: job_mutator "fail_mut now row_index error retry" for now row_index error retry
  by unfold_locales (auto simp: fail_mut_def update_row_stamp job_stamp_frame split: if_splits option.splits)

interpretation reconcile_rows: job_mutator "reconcile_mut now payloads" for now payloads
  by unfold_locales (auto simp: reconcile_mut_def job_stamp_frame)

end
