(* ===== verification/Batch_Props.thy ===== *)
theory Batch_Props
  imports Batch_Revisions
begin

text \<open>
  Properties of batch jobs: a client that follows a job by revisions sees the whole job, the
  rows of a job stay typed by their status, a canceled job never has a row that could still be
  submitted, and a claim takes the oldest job's first due row. The life of a job is the step
  relation \<open>job_step\<close>, one rule per operation of app/batch_jobs.py.
\<close>

section \<open>The life of a job\<close>

inductive job_step :: "batch_job \<Rightarrow> batch_job \<Rightarrow> bool" where
  canceled: "revise now (cancel_mut now owner reason) j = Inr (j', ()) \<Longrightarrow> job_step j j'"
| recovered: "revise now (recover_mut cutoff) j = Inr (j', n) \<Longrightarrow> job_step j j'"
| claimed: "revise now (claim_mut now) j = Inr (j', c) \<Longrightarrow> job_step j j'"
| assets: "revise now (mark_assets_mut now owner i files names) j = Inr (j', r) \<Longrightarrow> job_step j j'"
| created: "task_id \<noteq> [] \<Longrightarrow> revise now (finish_creation_mut now i task_id) j = Inr (j', ()) \<Longrightarrow> job_step j j'"
| failed: "revise now (fail_mut now i error retry) j = Inr (j', ()) \<Longrightarrow> job_step j j'"
| reconciled: "revise now (reconcile_mut now payloads) j = Inr (j', ()) \<Longrightarrow> job_step j j'"

abbreviation job_evolves :: "batch_job \<Rightarrow> batch_job \<Rightarrow> bool" where
  "job_evolves \<equiv> job_step\<^sup>*\<^sup>*"

abbreviation row_kept :: "int \<Rightarrow> batch_row \<Rightarrow> batch_row \<Rightarrow> bool" where
  "row_kept r x x' \<equiv> br_index x' = br_index x \<and> (x' = x \<or> r < br_revision x')"

lemma job_step_rows:
  assumes "job_step j j'" "job_ok j"
  shows "revised j j'"
  using assms(1)
proof cases
  case (canceled now owner reason)
  then show ?thesis by (rule cancel.revise_revised [OF assms(2)])
next
  case (recovered now cutoff n)
  then show ?thesis by (rule recover.revise_revised [OF assms(2)])
next
  case (claimed now c)
  then show ?thesis by (rule claim_row.revise_revised [OF assms(2)])
next
  case (assets now owner i files names r)
  then show ?thesis by (rule mark_assets.revise_revised [OF assms(2)])
next
  case (created task_id now i)
  show ?thesis by (rule finish_creation.revise_revised [OF assms(2) created(2)])
next
  case (failed now i error retry)
  then show ?thesis by (rule fail.revise_revised [OF assms(2)])
next
  case (reconciled now payloads)
  then show ?thesis by (rule reconcile_rows.revise_revised [OF assms(2)])
qed

lemma job_evolves_rows:
  assumes "job_evolves j j'" "job_ok j"
  shows "list_all2 (row_kept (bj_revision j)) (bj_rows j) (bj_rows j') \<and> bj_revision j \<le> bj_revision j' \<and>
    job_ok j' \<and> bj_id j' = bj_id j \<and> bj_owner j' = bj_owner j"
  using assms
proof (induction rule: rtranclp_induct)
  case base
  then show ?case by (simp add: list_all2_refl)
next
  case (step k l)
  from step.IH [OF step.prems]
  have kept: "list_all2 (row_kept (bj_revision j)) (bj_rows j) (bj_rows k)" and le: "bj_revision j \<le> bj_revision k"
    and ok: "job_ok k" and ids: "bj_id k = bj_id j" "bj_owner k = bj_owner j" by auto
  note s = job_step_rows [OF step.hyps(2) ok, unfolded revised_def]
  have "list_all2 (row_kept (bj_revision j)) (bj_rows j) (bj_rows l)"
  proof (rule list_all2_trans [OF _ kept])
    show "list_all2 (\<lambda>x x'. br_index x' = br_index x \<and>
           (x' = x \<or> (br_revision x' = bj_revision l \<and> bj_revision k < bj_revision l)))
         (bj_rows k) (bj_rows l)" using s by simp
  qed (use le in auto)
  with s le ids show ?case by simp
qed

section \<open>Following a job by revisions\<close>

text \<open>A client replaces the rows it has by the rows of the answer with the same index.\<close>

definition merge_rows :: "public_row list \<Rightarrow> public_row list \<Rightarrow> public_row list" where
  "merge_rows old new =
     map (\<lambda>r. case map_of (map (\<lambda>d. (pr_index d, d)) new) (pr_index r) of Some d \<Rightarrow> d | None \<Rightarrow> r) old"

lemma map_of_filter_index:
  assumes "distinct (map f ys)" "y \<in> set ys"
  shows "map_of (map (\<lambda>d. (f d, g d)) (filter P ys)) (f y) = (if P y then Some (g y) else None)"
  using assms by (induction ys) (auto simp: map_of_eq_None_iff image_iff)

text \<open>C20: A client that saw a job at some revision and merges the rows changed since then has
  exactly the rows of the job as it is, whatever operations ran in between.\<close>

theorem delta_complete:
  assumes "job_ok j" "job_evolves j j'"
  shows "merge_rows (pj_rows (public_job j None)) (pj_rows (public_job j' (Some (pj_revision (public_job j None)))))
       = pj_rows (public_job j' None)"
proof -
  note ev = job_evolves_rows [OF assms(2,1)]
  let ?xs = "bj_rows j" and ?ys = "bj_rows j'" and ?r = "bj_revision j"
  have r: "0 \<le> ?r" using assms(1) by (simp add: job_ok_def)
  have dist: "distinct (map br_index ?ys)" using ev by (simp add: job_ok_def)
  let ?new = "filter (\<lambda>y. ?r < br_revision y) ?ys"
  have new: "pj_rows (public_job j' (Some (pj_revision (public_job j None)))) = map row_view ?new"
    using ev r by (simp add: public_job_def Let_def)
  have look: "map_of (map (\<lambda>d. (pr_index d, d)) (map row_view ?new)) (br_index y)
      = (if ?r < br_revision y then Some (row_view y) else None)" if "y \<in> set ?ys" for y
    using map_of_filter_index [OF dist that, where g = row_view and P = "\<lambda>y. ?r < br_revision y"]
    by (simp add: comp_def row_view_def)
  have "list_all2 (row_kept ?r) ?xs ?ys" using ev by simp
  then have "map (\<lambda>r. case map_of (map (\<lambda>d. (pr_index d, d)) (map row_view ?new)) (pr_index r) of
      Some d \<Rightarrow> d | None \<Rightarrow> r) (map row_view ?xs) = map row_view ?ys"
  proof (intro nth_equalityI)
    fix i assume all: "list_all2 (row_kept ?r) ?xs ?ys"
      and "i < length (map (\<lambda>r. case map_of (map (\<lambda>d. (pr_index d, d)) (map row_view ?new)) (pr_index r) of
        Some d \<Rightarrow> d | None \<Rightarrow> r) (map row_view ?xs))"
    then have i: "i < length ?xs" "i < length ?ys"
      by (simp_all add: list_all2_lengthD)
    from list_all2_nthD [OF all i(1)] have k: "row_kept ?r (?xs ! i) (?ys ! i)" .
    have le: "br_revision (?xs ! i) \<le> ?r" using assms(1) i by (simp add: job_ok_def)
    have "pr_index (row_view (?xs ! i)) = br_index (?ys ! i)" using k by (simp add: row_view_def)
    with look [of "?ys ! i"] k le i
    show "map (\<lambda>r. case map_of (map (\<lambda>d. (pr_index d, d)) (map row_view ?new)) (pr_index r) of
        Some d \<Rightarrow> d | None \<Rightarrow> r) (map row_view ?xs) ! i = map row_view ?ys ! i"
      by (cases "?r < br_revision (?ys ! i)") auto
  qed (simp add: list_all2_lengthD)
  moreover have "pj_rows (public_job j None) = map row_view ?xs" "pj_rows (public_job j' None) = map row_view ?ys"
    by (simp_all add: public_job_def Let_def)
  ultimately show ?thesis
    unfolding new merge_rows_def by simp
qed

text \<open>A job of two rows, of which the first is claimed and becomes a task.\<close>

definition example_input :: row_input where
  "example_input = \<lparr>in_client_index = 0, in_sheet_row = 0, in_prompt = u ''a cat'', in_image_files = [],
     in_image_names = [], in_image_count = 0\<rparr>"

definition example_job_args :: job_args where
  "example_job_args = \<lparr>ja_ratio = u ''9:16'', ja_concurrency = 2, ja_platform = u ''dola'', ja_model = u ''m'',
     ja_duration = 15, ja_reference_id = [], ja_reference_count = 0, ja_reference_batch_id = [],
     ja_real_person = False\<rparr>"

definition example_job :: batch_job where
  "example_job = new_job 1 (replicate 32 97) (u ''alice'') [example_input, example_input] example_job_args"

definition example_claimed :: batch_job where
  "example_claimed = fst (projr (revise 5 (claim_mut 5) example_job))"

definition example_created :: batch_job where
  "example_created = fst (projr (revise 7 (finish_creation_mut 7 1 (u ''t'')) example_claimed))"

lemmas example_defs = example_job_def example_input_def example_job_args_def new_job_def new_row_def
  enumerate1_def

lemma example_claims: "revise 5 (claim_mut 5) example_job = Inr (example_claimed, snd (projr (revise 5 (claim_mut 5) example_job)))"
  by (simp add: example_claimed_def revise_def claim_mut_def Let_def case_prod_unfold split: option.split)

lemma example_evolves: "job_evolves example_job example_created"
proof (rule rtranclp.rtrancl_into_rtrancl)
  show "job_evolves example_job example_claimed"
    using job_step.claimed [OF example_claims] by blast
  have "revise 7 (finish_creation_mut 7 1 (u ''t'')) example_claimed = Inr (example_created, ())"
    by (code_simp)
  then show "job_step example_claimed example_created"
    by (intro job_step.created [where task_id = "u ''t''"]) simp_all
qed

theorem delta_complete_witness:
  "job_ok example_job \<and> job_evolves example_job example_created \<and> bj_revision example_created = 3 \<and>
   merge_rows (pj_rows (public_job example_job None))
     (pj_rows (public_job example_created (Some (pj_revision (public_job example_job None)))))
   = pj_rows (public_job example_created None)"
proof (intro conjI)
  show ok: "job_ok example_job" by (simp add: example_job_def new_job_ok)
  show "bj_revision example_created = 3" by code_simp
qed (rule example_evolves, rule delta_complete [OF _ example_evolves], simp add: example_job_def new_job_ok)

section \<open>Rows typed by their status\<close>

text \<open>A row that is not submitted has no task, one that runs or is complete has one, a complete
  one has its video, and a finished one its time.\<close>

definition row_typed :: "batch_row \<Rightarrow> bool" where
  "row_typed r \<longleftrightarrow>
     (br_status r \<in> {RQueued, RAwaiting, RCreating} \<longrightarrow> br_task_id r = []) \<and>
     (br_status r \<in> {RRunning, RCompleted} \<longrightarrow> br_task_id r \<noteq> []) \<and>
     (br_status r = RCompleted \<longrightarrow> br_video_url r \<noteq> []) \<and>
     (is_terminal_row r \<longrightarrow> br_finished_at r \<noteq> Unset)"

definition submittable :: "batch_row \<Rightarrow> bool" where
  "submittable r \<longleftrightarrow> br_status r \<in> {RQueued, RAwaiting, RCreating}"

definition job_inv :: "batch_job \<Rightarrow> bool" where
  "job_inv j \<longleftrightarrow> (\<forall>r \<in> set (bj_rows j). row_typed r) \<and>
     (bj_canceled_at j \<noteq> Unset \<longrightarrow> (\<forall>r \<in> set (bj_rows j). \<not> submittable r))"

lemmas row_defs = row_typed_def submittable_def is_terminal_row_def TERMINAL_ROW_STATUSES_def

lemma row_typed_stamp [simp]:
  "row_typed (r\<lparr>br_revision := n, br_updated_at := s\<rparr>) = row_typed r"
  "submittable (r\<lparr>br_revision := n, br_updated_at := s\<rparr>) = submittable r"
  by (simp_all add: row_defs)

lemma row_typed_marked:
  "row_typed (if c then r\<lparr>br_revision := n, br_updated_at := s\<rparr> else r) = row_typed r"
  "submittable (if c then r\<lparr>br_revision := n, br_updated_at := s\<rparr> else r) = submittable r"
  by (cases c; simp)+

lemma ball_map: "(\<forall>x \<in> set (map g xs). P x) \<longleftrightarrow> (\<forall>x \<in> set xs. P (g x))"
  by simp

lemma bump_cases:
  assumes "\<And>n s c. P (j\<lparr>bj_revision := n, bj_updated_at := s,
      bj_rows := map (\<lambda>r. if c r then r\<lparr>br_revision := n, br_updated_at := s\<rparr> else r) (bj_rows j)\<rparr>)" "P j"
  shows "P (bump now before j)"
  by (simp only: bump_def Let_def assms split: if_split) simp

lemma job_inv_rows:
  assumes "job_inv j" "bj_canceled_at j' = bj_canceled_at j" "bj_rows j' = map g (bj_rows j)"
    and "\<And>r. r \<in> set (bj_rows j) \<Longrightarrow> row_typed r \<Longrightarrow> row_typed (g r) \<and> (submittable (g r) \<longrightarrow> submittable r)"
  shows "job_inv j'"
  unfolding job_inv_def assms(2,3) ball_map using assms(1,4) unfolding job_inv_def by blast

lemma bump_inv: "job_inv j \<Longrightarrow> job_inv (bump now before j)"
proof (rule bump_cases)
  fix n s c
  assume "job_inv j"
  then show "job_inv (j\<lparr>bj_revision := n, bj_updated_at := s,
      bj_rows := map (\<lambda>r. if c r then r\<lparr>br_revision := n, br_updated_at := s\<rparr> else r) (bj_rows j)\<rparr>)"
    by (rule job_inv_rows [where g = "\<lambda>r. if c r then r\<lparr>br_revision := n, br_updated_at := s\<rparr> else r"])
      (simp_all only: row_typed_marked, simp_all)
qed

lemma finish_inv: "job_inv (finish_job_if_terminal now j) = job_inv j"
  by (simp add: job_inv_def)

lemma typed_cancel: "row_typed r \<Longrightarrow> row_typed (cancel_row now reason r) \<and> \<not> submittable (cancel_row now reason r)"
  by (cases "br_status r") (simp_all add: row_defs cancel_row_def)

lemma typed_recover:
  "row_typed r \<Longrightarrow> row_typed (recover_row cutoff r) \<and> submittable (recover_row cutoff r) = submittable r"
  by (cases "is_stale_creating cutoff r") (simp_all add: row_defs recover_row_def is_stale_creating_def)

lemma typed_claim:
  "row_typed r \<Longrightarrow> br_status r = RQueued \<Longrightarrow> row_typed (start_creating now r) \<and> row_typed (request_assets now r)"
  by (simp add: row_defs start_creating_def request_assets_def)

lemma typed_running:
  "task_id \<noteq> [] \<Longrightarrow> row_typed (start_running now task_id r) \<and> \<not> submittable (start_running now task_id r)"
  by (simp add: row_defs start_running_def)

lemma typed_fail:
  "row_typed (fail_row now error retry c r) \<and> (c \<longrightarrow> \<not> submittable (fail_row now error retry c r))"
  by (simp add: row_defs fail_row_def Let_def)

lemma typed_reconcile:
  assumes "row_typed r"
  shows "row_typed (reconcile_row now payloads r) \<and> (submittable (reconcile_row now payloads r) \<longrightarrow> submittable r)"
proof (cases "br_task_id r = [] \<or> is_terminal_row r \<or> map_of payloads (br_task_id r) = None")
  case True
  then have "reconcile_row now payloads r = r" by (auto simp: reconcile_row_def)
  with assms show ?thesis by simp
next
  case False
  then obtain t where "map_of payloads (br_task_id r) = Some t" by blast
  with False show ?thesis by (simp add: reconcile_row_def) (simp add: row_defs)
qed

lemma update_first_all:
  assumes "\<forall>x \<in> set xs. P x" "\<And>x. x \<in> set xs \<Longrightarrow> P x \<Longrightarrow> p x \<Longrightarrow> P (g x)"
  shows "\<forall>x \<in> set (update_first p g xs). P x"
  using assms set_update_first [of p g xs] by fastforce


lemma update_first_none_of:
  assumes "\<forall>x \<in> set xs. \<not> P x" "\<And>x. x \<in> set xs \<Longrightarrow> \<not> P x \<Longrightarrow> \<not> P (g x)"
  shows "\<forall>x \<in> set (update_first p g xs). \<not> P x"
  using update_first_all [of xs "\<lambda>x. \<not> P x" p g] assms by simp

text \<open>The operations, as equations on the job they return.\<close>

lemma cancel_inv: "job_inv j \<Longrightarrow> cancel_mut now owner reason j = Inr (j', u') \<Longrightarrow> job_inv j'"
  by (auto simp: cancel_mut_def Let_def job_inv_def typed_cancel split: if_splits)

lemma recover_inv: "job_inv j \<Longrightarrow> recover_mut cutoff j = Inr (j', n) \<Longrightarrow> job_inv j'"
  by (auto simp: recover_mut_def job_inv_def typed_recover)

lemma claim_mut_cases:
  assumes "claim_mut now j = Inr (j', c)"
  obtains (closed) "bj_status j \<notin> {JQueued, JRunning} \<or> bj_canceled_at j \<noteq> Unset" "j' = j" "c = None"
  | (ready) r where "bj_status j \<in> {JQueued, JRunning}" "bj_canceled_at j = Unset"
      "find (is_ready now) (bj_rows j) = Some r"
      "j' = j\<lparr>bj_rows := update_first (is_ready now) (start_creating now) (bj_rows j), bj_status := JRunning\<rparr>"
      "c = Some \<lparr>rc_job = j', rc_row = start_creating now r, rc_awaiting_assets = False\<rparr>"
  | (wants) r where "bj_status j \<in> {JQueued, JRunning}" "bj_canceled_at j = Unset"
      "find (is_ready now) (bj_rows j) = None" "find (wants_assets now) (bj_rows j) = Some r"
      "j' = j\<lparr>bj_rows := update_first (wants_assets now) (request_assets now) (bj_rows j), bj_status := JRunning\<rparr>"
      "c = Some \<lparr>rc_job = j', rc_row = request_assets now r, rc_awaiting_assets = True\<rparr>"
  | (idle) "bj_status j \<in> {JQueued, JRunning}" "bj_canceled_at j = Unset"
      "find (is_ready now) (bj_rows j) = None" "find (wants_assets now) (bj_rows j) = None" "j' = j" "c = None"
proof (cases "bj_status j \<notin> {JQueued, JRunning} \<or> bj_canceled_at j \<noteq> Unset")
  case True
  with assms closed show ?thesis by (simp only: claim_mut_def if_True) simp
next
  case False
  then have op: "bj_status j \<in> {JQueued, JRunning}" "bj_canceled_at j = Unset" by simp_all
  note run = assms [unfolded claim_mut_def if_not_P [OF False] Let_def]
  show ?thesis
  proof (cases "find (is_ready now) (bj_rows j)")
    case (Some r)
    from run have "j' = j\<lparr>bj_rows := update_first (is_ready now) (start_creating now) (bj_rows j), bj_status := JRunning\<rparr>"
      "c = Some \<lparr>rc_job = j', rc_row = start_creating now r, rc_awaiting_assets = False\<rparr>"
      by (auto simp: Some)
    then show ?thesis by (rule ready [OF op Some])
  next
    case None
    show ?thesis
    proof (cases "find (wants_assets now) (bj_rows j)")
      case (Some r)
      from run have "j' = j\<lparr>bj_rows := update_first (wants_assets now) (request_assets now) (bj_rows j), bj_status := JRunning\<rparr>"
        "c = Some \<lparr>rc_job = j', rc_row = request_assets now r, rc_awaiting_assets = True\<rparr>"
        by (auto simp: None Some)
      then show ?thesis by (rule wants [OF op None Some])
    next
      case no: None
      from run have "j' = j" "c = None" by (simp_all add: None no)
      then show ?thesis by (rule idle [OF op None no])
    qed
  qed
qed

lemma claim_inv:
  assumes "job_inv j" "claim_mut now j = Inr (j', c)"
  shows "job_inv j'"
proof -
  have typed: "\<forall>r \<in> set (update_first p g (bj_rows j)). row_typed r"
    if "\<And>r. p r \<Longrightarrow> br_status r = RQueued" "\<And>r. row_typed r \<Longrightarrow> br_status r = RQueued \<Longrightarrow> row_typed (g r)"
    for p g
    using assms(1) that by (intro update_first_all) (auto simp: job_inv_def)
  note typed_ready = typed [of "is_ready now" "start_creating now"]
  note typed_wants = typed [of "wants_assets now" "request_assets now"]
  have q: "is_ready now r \<Longrightarrow> br_status r = RQueued" "wants_assets now r \<Longrightarrow> br_status r = RQueued" for r
    by (simp_all add: is_ready_def wants_assets_def is_due_def)
  from assms(2) show ?thesis
  proof (cases rule: claim_mut_cases)
    case (ready r)
    with typed_ready q typed_claim show ?thesis by (simp add: job_inv_def)
  next
    case (wants r)
    with typed_wants q typed_claim show ?thesis by (simp add: job_inv_def)
  qed (use assms(1) in simp_all)
qed

lemma mark_assets_inv:
  assumes "job_inv j" "mark_assets_mut now owner i files names j = Inr (j', r)" "job_ok j"
  shows "job_inv j'"
proof -
  from assms(2) obtain x where x: "find (\<lambda>r. br_index r = i) (bj_rows j) = Some x" and task: "br_task_id x = []"
    and c: "bj_canceled_at j = Unset"
    by (auto simp: mark_assets_mut_def Let_def split: if_splits option.splits)
  let ?fill = "\<lambda>r. r\<lparr>br_status := RQueued, br_image_files := files,
      br_image_names := map (\<lambda>n. take 180 (strip n)) names, br_assets_ready := True,
      br_asset_requested_at := Unset, br_assets_uploaded_at := At now, br_error := []\<rparr>"
  from assms(2) have j': "bj_rows j' = update_first (\<lambda>r. br_index r = i) ?fill (bj_rows j)" "bj_canceled_at j' = Unset"
    by (auto simp: mark_assets_mut_def Let_def split: if_splits option.splits)
  from update_first_split [OF x] obtain as bs where split: "bj_rows j = as @ x # bs"
    "update_first (\<lambda>r. br_index r = i) ?fill (bj_rows j) = as @ ?fill x # bs" by blast
  have "row_typed (?fill x)" using task by (simp add: row_defs)
  with assms(1) split j' show ?thesis by (simp add: job_inv_def)
qed

lemma created_inv:
  assumes "job_inv j" "finish_creation_mut now i task_id j = Inr (j', u')" "task_id \<noteq> []"
  shows "job_inv j'"
proof -
  let ?rows = "update_first (\<lambda>r. br_index r = i) (start_running now task_id) (bj_rows j)"
  from assms(2) have j': "bj_rows j' = ?rows" "bj_canceled_at j' = bj_canceled_at j"
    by (auto simp: finish_creation_mut_def split: option.splits)
  have "\<forall>r \<in> set ?rows. row_typed r"
    using assms(1,3) by (intro update_first_all) (auto simp: job_inv_def typed_running)
  moreover have "\<forall>r \<in> set ?rows. \<not> submittable r" if "bj_canceled_at j \<noteq> Unset"
    using assms(1,3) that by (intro update_first_all) (auto simp: job_inv_def typed_running)
  ultimately show ?thesis by (simp add: job_inv_def j')
qed

lemma fail_inv:
  assumes "job_inv j" "fail_mut now i error retry j = Inr (j', u')"
  shows "job_inv j'"
proof -
  let ?c = "bj_canceled_at j \<noteq> Unset"
  let ?rows = "update_first (\<lambda>r. br_index r = i) (fail_row now error retry ?c) (bj_rows j)"
  consider "j' = j" | "bj_rows j' = ?rows" "bj_canceled_at j' = bj_canceled_at j"
  proof (cases "find (\<lambda>r. br_index r = i) (bj_rows j)")
    case None
    with assms(2) that(1) show ?thesis by (simp add: fail_mut_def)
  next
    case (Some r)
    show ?thesis
    proof (cases "is_terminal_row r")
      case True
      with Some assms(2) that(1) show ?thesis by (simp add: fail_mut_def)
    next
      case False
      with Some assms(2) have "j' = finish_job_if_terminal now (j\<lparr>bj_rows := ?rows\<rparr>)" by (simp add: fail_mut_def)
      with that(2) show ?thesis by simp
    qed
  qed
  then show ?thesis
  proof cases
    case 2
    have "\<forall>r \<in> set ?rows. row_typed r"
      using assms(1) by (intro update_first_all) (auto simp: job_inv_def typed_fail)
    moreover have "\<forall>r \<in> set ?rows. \<not> submittable r" if ?c
      using assms(1) that by (intro update_first_all) (auto simp: job_inv_def typed_fail)
    ultimately show ?thesis by (simp add: job_inv_def 2)
  qed (use assms in simp)
qed

lemma reconcile_inv:
  assumes "job_inv j" "reconcile_mut now payloads j = Inr (j', u')"
  shows "job_inv j'"
proof (rule job_inv_rows [OF assms(1), where g = "reconcile_row now payloads"])
  have "j' = finish_job_if_terminal now (j\<lparr>bj_rows := map (reconcile_row now payloads) (bj_rows j)\<rparr>)"
    using assms(2) by (simp add: reconcile_mut_def)
  then show "bj_canceled_at j' = bj_canceled_at j" "bj_rows j' = map (reconcile_row now payloads) (bj_rows j)"
    by simp_all
qed (rule typed_reconcile)

lemma job_step_inv:
  assumes "job_step j j'" "job_inv j" "job_ok j"
  shows "job_inv j'"
proof -
  have inv: "job_inv j'" if "revise now f j = Inr (j', r)" "\<And>k. f j = Inr (k, r) \<Longrightarrow> job_inv k"
    for now r and f :: "'r job_mutator"
    using revise_InrE [OF that(1)] that(2) bump_inv by metis
  from assms(1) show ?thesis
  proof cases
    case (canceled now owner reason)
    then show ?thesis by (rule inv) (rule cancel_inv [OF assms(2)])
  next
    case (recovered now cutoff n)
    then show ?thesis by (rule inv) (rule recover_inv [OF assms(2)])
  next
    case (claimed now c)
    then show ?thesis by (rule inv) (rule claim_inv [OF assms(2)])
  next
    case (assets now owner i files names r)
    then show ?thesis by (rule inv) (rule mark_assets_inv [OF assms(2) _ assms(3)])
  next
    case (created task_id now i)
    from created(2) show ?thesis by (rule inv) (rule created_inv [OF assms(2) _ created(1)])
  next
    case (failed now i error retry)
    then show ?thesis by (rule inv) (rule fail_inv [OF assms(2)])
  next
    case (reconciled now payloads)
    then show ?thesis by (rule inv) (rule reconcile_inv [OF assms(2)])
  qed
qed

lemma job_evolves_inv:
  assumes "job_evolves j j'" "job_inv j" "job_ok j"
  shows "job_inv j'"
  using assms
proof (induction rule: rtranclp_induct)
  case (step k l)
  from job_evolves_rows [OF step.hyps(1) step.prems(2)] have "job_ok k" by simp
  with job_step_inv [OF step.hyps(2) step.IH [OF step.prems]] show ?case by simp
qed


section \<open>Jobs as they are created\<close>

definition starts :: "batch_job \<Rightarrow> bool" where
  "starts j \<longleftrightarrow> (\<exists>b now draw jobs owner rows a i jobs'. create_job b now draw jobs owner rows a i = Inr (jobs', j)) \<or>
     (\<exists>b now draw jobs owner source retries jobs'. create_retry_job b now draw jobs owner source retries = Inr (jobs', j))"

lemma create_job_inv:
  assumes "create_job b now draw jobs owner rows a i = Inr (jobs', j)"
  shows "job_inv j"
proof -
  have "j = new_job now (str_or (lower (strip i)) draw) owner rows a"
    using assms by (simp add: create_job_def insert_job_def Let_def split: if_splits)
  moreover have "row_typed (new_row now n r)" for n r
    by (simp add: new_row_def row_defs)
  ultimately show ?thesis by (auto simp: job_inv_def new_job_def)
qed

lemma create_retry_job_inv:
  assumes "create_retry_job b now draw jobs owner source retries = Inr (jobs', j)"
  shows "job_inv j"
proof -
  have "bj_rows j = map (\<lambda>(i, r). retry_row now i r) (filter (\<lambda>(i, r). rt_retry_id r \<noteq> []) (enumerate1 retries))"
    and c: "bj_canceled_at j = Unset"
    using assms by (auto simp: create_retry_job_def insert_job_def Let_def split: if_splits)
  moreover have "row_typed (retry_row now n r)" if "rt_retry_id r \<noteq> []" for n r
    using that by (simp add: retry_row_def row_defs)
  ultimately show ?thesis unfolding job_inv_def by (auto simp: c)
qed

lemma starts_inv: "starts j \<Longrightarrow> job_inv j \<and> job_ok j"
  unfolding starts_def
  by (elim disjE exE) (simp_all only: create_job_inv create_job_ok create_retry_job_inv create_retry_job_ok)

text \<open>C21: In every job that the operations can reach from a created one the rows are typed by
  their status: a row not yet submitted has no task, a running one has one, a complete one has its
  video and a finished one its time; indexes are distinct and no row's revision is ahead of its
  job's.\<close>

theorem batch_rows_typed:
  assumes "starts j0" "job_evolves j0 j" "r \<in> set (bj_rows j)"
  shows "(br_status r \<in> {RQueued, RAwaiting, RCreating} \<longrightarrow> br_task_id r = []) \<and>
     (br_status r \<in> {RRunning, RCompleted} \<longrightarrow> br_task_id r \<noteq> []) \<and>
     (br_status r = RCompleted \<longrightarrow> br_video_url r \<noteq> []) \<and>
     (br_status r \<in> {RCompleted, RFailed, RCanceled} \<longrightarrow> br_finished_at r \<noteq> Unset) \<and>
     distinct (map br_index (bj_rows j)) \<and> br_revision r \<le> bj_revision j"
proof -
  from starts_inv [OF assms(1)] have "job_inv j0" "job_ok j0" by simp_all
  with job_evolves_inv [OF assms(2)] job_evolves_rows [OF assms(2)] have inv: "job_inv j" and ok: "job_ok j" by simp_all
  with assms(3) have "row_typed r" by (simp add: job_inv_def)
  moreover from ok assms(3) have "distinct (map br_index (bj_rows j))" "br_revision r \<le> bj_revision j"
    by (simp_all add: job_ok_def)
  ultimately show ?thesis by (simp add: row_typed_def is_terminal_row_def TERMINAL_ROW_STATUSES_def)
qed

lemma example_starts: "starts example_job"
proof -
  have "create_job LocalFile 1 [] [] (u ''alice'') [example_input, example_input] example_job_args (replicate 32 97)
      = Inr ([(replicate 32 97, example_job)], example_job)"
    by code_simp
  then show ?thesis unfolding starts_def by blast
qed

lemma example_row: "hd (bj_rows example_created) \<in> set (bj_rows example_created)"
  by (rule hd_in_set) code_simp

theorem batch_rows_typed_witness:
  "starts example_job \<and> job_evolves example_job example_created \<and>
   br_status (hd (bj_rows example_created)) = RRunning \<and> br_task_id (hd (bj_rows example_created)) \<noteq> []"
proof -
  have "br_status (hd (bj_rows example_created)) = RRunning" by code_simp
  with batch_rows_typed [OF example_starts example_evolves example_row] example_starts example_evolves
  show ?thesis by simp
qed

section \<open>Canceled jobs\<close>

lemma job_evolves_canceled:
  assumes "job_evolves j j'" "job_ok j" "bj_canceled_at j \<noteq> Unset"
  shows "bj_canceled_at j' \<noteq> Unset"
  using assms
proof (induction rule: rtranclp_induct)
  case (step k l)
  from job_evolves_rows [OF step.hyps(1) step.prems(1)] have "job_ok k" by simp
  from job_step_rows [OF step.hyps(2) this] step.IH [OF step.prems] show ?case by (simp add: revised_def)
qed

text \<open>C22: Once a job was canceled, no operation that runs later leaves a row that could still be
  submitted, and the job is not claimed again.\<close>

theorem canceled_job_closed:
  assumes "starts j0" "job_evolves j0 j" "revise now (cancel_mut now owner reason) j = Inr (j1, ())"
    and "job_evolves j1 j2"
  shows "(\<forall>r \<in> set (bj_rows j2). br_status r \<in> {RRunning, RCompleted, RFailed, RCanceled}) \<and>
    claim_mut later j2 = Inr (j2, None)"
proof -
  have step: "job_step j j1" by (rule job_step.canceled [OF assms(3)])
  from starts_inv [OF assms(1)] have "job_inv j0" "job_ok j0" by simp_all
  with job_evolves_inv [OF assms(2)] job_evolves_rows [OF assms(2)] have "job_inv j" and ok: "job_ok j" by simp_all
  with job_step_inv [OF step] job_step_rows [OF step] have inv: "job_inv j1" and ok1: "job_ok j1"
    by (simp_all add: revised_def)
  obtain k where k: "cancel_mut now owner reason j = Inr (k, ())" and j1: "j1 = bump now j k"
    by (rule revise_InrE [OF assms(3)])
  from k have "bj_canceled_at k = At now" by (auto simp: cancel_mut_def Let_def split: if_splits)
  then have "bj_canceled_at j1 \<noteq> Unset" by (simp add: j1 bump_def Let_def)
  from job_evolves_canceled [OF assms(4) ok1 this] have c: "bj_canceled_at j2 \<noteq> Unset" .
  have "job_inv j2" by (rule job_evolves_inv [OF assms(4) inv ok1])
  with c have none: "\<not> submittable r" if "r \<in> set (bj_rows j2)" for r
    using that by (simp add: job_inv_def)
  have "br_status r \<in> {RRunning, RCompleted, RFailed, RCanceled}" if "r \<in> set (bj_rows j2)" for r
    using none [OF that] by (cases "br_status r") (simp_all add: submittable_def)
  moreover have "claim_mut later j2 = Inr (j2, None)"
    using c by (simp add: claim_mut_def)
  ultimately show ?thesis by blast
qed

definition example_canceled :: batch_job where
  "example_canceled = fst (projr (revise 9 (cancel_mut 9 (u ''alice'') []) example_created))"

theorem canceled_job_closed_witness:
  "bj_status example_canceled = JCanceling \<and> map br_status (bj_rows example_canceled) = [RRunning, RCanceled] \<and>
   claim_mut 10 example_canceled = Inr (example_canceled, None)"
proof -
  have "revise 9 (cancel_mut 9 (u ''alice'') []) example_created = Inr (example_canceled, ())"
    by code_simp
  from canceled_job_closed [OF example_starts example_evolves this, of example_canceled 10]
  have "claim_mut 10 example_canceled = Inr (example_canceled, None)" by simp
  moreover have "bj_status example_canceled = JCanceling" "map br_status (bj_rows example_canceled) = [RRunning, RCanceled]"
    by code_simp+
  ultimately show ?thesis by simp
qed

text \<open>Reconciling a canceled job of which a row still runs shows it as running again: the
  status that \<open>cancel_job\<close> set is lost, although the job stays canceled.\<close>

theorem reconcile_hides_canceling:
  assumes "bj_canceled_at j \<noteq> Unset" "reconcile_mut now payloads j = Inr (j', ())"
    and "r \<in> set (bj_rows j)" "br_status r = RRunning" "map_of payloads (br_task_id r) = None"
  shows "bj_status j' = JRunning \<and> bj_canceled_at j' \<noteq> Unset"
proof -
  let ?j = "j\<lparr>bj_rows := map (reconcile_row now payloads) (bj_rows j)\<rparr>"
  have same: "reconcile_row now payloads r = r" using assms(5) by (simp add: reconcile_row_def)
  have "r \<in> set (map (reconcile_row now payloads) (bj_rows j))"
    using imageI [OF assms(3), of "reconcile_row now payloads"] by (simp only: list.set_map same)
  then have r: "r \<in> set (bj_rows ?j)" by simp
  have "\<not> is_terminal_row r" using assms(4) by (simp add: row_defs)
  with r have "\<not> (\<forall>r \<in> set (bj_rows ?j). is_terminal_row r)" "\<exists>r \<in> set (bj_rows ?j). br_status r \<in> {RCreating, RRunning}"
    using assms(4) by blast+
  then have "bj_status (finish_job_if_terminal now ?j) = JRunning"
    by (simp only: finish_job_if_terminal_def if_False if_True simp_thms) simp
  with assms(1,2) show ?thesis by (auto simp: reconcile_mut_def)
qed

text \<open>A row whose creation failed for good is queued again, with all its attempts used, when its
  images are sent once more: nothing in \<open>mark_row_assets_ready\<close> looks at the row's status.\<close>

lemma mark_revives_failed_row:
  assumes "mark_assets_mut now (bj_owner j) i files names j = Inr (j', r)"
  shows "br_status r = RQueued \<and> br_create_attempts r = br_create_attempts (the (find (\<lambda>r. br_index r = i) (bj_rows j)))"
proof -
  from assms have c: "bj_canceled_at j = Unset" by (auto simp: mark_assets_mut_def split: if_splits)
  show ?thesis
  proof (cases "find (\<lambda>r. br_index r = i) (bj_rows j)")
    case None
    with assms c show ?thesis by (simp add: mark_assets_mut_def)
  next
    case (Some x)
    with assms c show ?thesis by (auto simp: mark_assets_mut_def Let_def split: if_splits)
  qed
qed

section \<open>Claiming\<close>

definition candidates :: "job_table \<Rightarrow> ustr \<Rightarrow> batch_job list" where
  "candidates jobs owner =
     filter (\<lambda>j. bj_status j \<in> {JQueued, JRunning}) (rev (list_jobs jobs (Some owner) True 100))"

lemma candidate_in:
  assumes "j \<in> set (candidates jobs owner)" "jobs_ok jobs"
  shows "map_of jobs (bj_id j) = Some j" "bj_owner j = owner" "bj_status j \<in> {JQueued, JRunning}"
proof -
  from assms(1) have "j \<in> set (list_jobs jobs (Some owner) True 100)" and st: "bj_status j \<in> {JQueued, JRunning}"
    by (simp_all add: candidates_def)
  then have "j \<in> set (map snd jobs)" "bj_owner j = owner"
    by (auto simp: list_jobs_def dest: in_set_takeD)
  then obtain k where "(k, j) \<in> set jobs" and o: "bj_owner j = owner" by auto
  then have "map_of jobs k = Some j" using assms(2) by (simp add: jobs_ok_def)
  with jobs_okD(2) [OF assms(2) this] o st
  show "map_of jobs (bj_id j) = Some j" "bj_owner j = owner" "bj_status j \<in> {JQueued, JRunning}" by simp_all
qed

definition claimable_row :: "int \<Rightarrow> batch_job \<Rightarrow> batch_row \<Rightarrow> bool" where
  "claimable_row now j r \<longleftrightarrow> bj_canceled_at j = Unset \<and> br_status r = RQueued \<and> br_next_attempt_at r \<le> At now"

lemma find_None: "find p xs = None \<longleftrightarrow> (\<forall>x \<in> set xs. \<not> p x)"
  by (auto simp: find_None_iff)

lemma claim_none:
  assumes "claim_mut now j = Inr (k, None)" "bj_status j \<in> {JQueued, JRunning}"
  shows "k = j \<and> (\<forall>r \<in> set (bj_rows j). \<not> claimable_row now j r)"
  using assms(1)
proof (cases rule: claim_mut_cases)
  case idle
  have "\<not> claimable_row now j r" if "r \<in> set (bj_rows j)" for r
  proof -
    from idle(3,4) that have "\<not> is_ready now r" "\<not> wants_assets now r" by (simp_all add: find_None)
    then show ?thesis by (auto simp: claimable_row_def is_ready_def wants_assets_def is_due_def)
  qed
  with idle show ?thesis by blast
next
  case closed
  with assms(2) show ?thesis by (simp add: claimable_row_def)
qed simp_all

lemma batch_claim_some:
  assumes "claim_mut now j = Inr (k, Some c)"
  shows "rc_job c = k \<and> bj_canceled_at j = Unset \<and> (\<exists>as x bs. bj_rows j = as @ x # bs \<and> claimable_row now j x \<and>
    bj_rows k = as @ rc_row c # bs \<and>
    (if rc_awaiting_assets c
     then rc_row c = request_assets now x \<and> lacks_assets x \<and> (\<forall>r \<in> set as. \<not> claimable_row now j r) \<and>
       (\<forall>r \<in> set bs. claimable_row now j r \<longrightarrow> lacks_assets r)
     else rc_row c = start_creating now x \<and> \<not> lacks_assets x \<and> (\<forall>r \<in> set as. claimable_row now j r \<longrightarrow> lacks_assets r)))"
  using assms
proof (cases rule: claim_mut_cases)
  case (ready r)
  from update_first_split [OF ready(3), of "start_creating now"] obtain as bs where
    sp: "bj_rows j = as @ r # bs" "is_ready now r" "\<forall>a \<in> set as. \<not> is_ready now a"
      "update_first (is_ready now) (start_creating now) (bj_rows j) = as @ start_creating now r # bs" by blast
  have "claimable_row now j r" "\<not> lacks_assets r"
    using sp(2) ready(2) by (simp_all add: is_ready_def is_due_def claimable_row_def)
  moreover have "claimable_row now j a \<longrightarrow> lacks_assets a" if "a \<in> set as" for a
    using sp(3) that by (auto simp: is_ready_def is_due_def claimable_row_def)
  ultimately have "\<exists>as x bs. bj_rows j = as @ x # bs \<and> claimable_row now j x \<and>
    bj_rows k = as @ start_creating now r # bs \<and> start_creating now r = start_creating now x \<and> \<not> lacks_assets x \<and>
    (\<forall>r \<in> set as. claimable_row now j r \<longrightarrow> lacks_assets r)"
    using sp(1,4) ready(4) by (intro exI [of _ as] exI [of _ r] exI [of _ bs]) simp
  with ready(2,5) show ?thesis by simp
next
  case (wants r)
  from update_first_split [OF wants(4), of "request_assets now"] obtain as bs where
    sp: "bj_rows j = as @ r # bs" "wants_assets now r" "\<forall>a \<in> set as. \<not> wants_assets now a"
      "update_first (wants_assets now) (request_assets now) (bj_rows j) = as @ request_assets now r # bs" by blast
  have lack: "claimable_row now j a \<longrightarrow> lacks_assets a" if "a \<in> set (bj_rows j)" for a
    using wants(3) that by (auto simp: find_None is_ready_def is_due_def claimable_row_def)
  have "claimable_row now j r" "lacks_assets r"
    using sp(2) wants(2) by (simp_all add: wants_assets_def is_due_def claimable_row_def)
  moreover have "\<not> claimable_row now j a" if "a \<in> set as" for a
    using sp(1,3) that lack [of a] by (auto simp: wants_assets_def is_due_def claimable_row_def)
  moreover have "claimable_row now j a \<longrightarrow> lacks_assets a" if "a \<in> set bs" for a
    using lack [of a] sp(1) that by simp
  ultimately have "\<exists>as x bs. bj_rows j = as @ x # bs \<and> claimable_row now j x \<and>
    bj_rows k = as @ request_assets now r # bs \<and> request_assets now r = request_assets now x \<and> lacks_assets x \<and>
    (\<forall>r \<in> set as. \<not> claimable_row now j r) \<and> (\<forall>r \<in> set bs. claimable_row now j r \<longrightarrow> lacks_assets r)"
    using sp(1,4) wants(5) by (intro exI [of _ as] exI [of _ r] exI [of _ bs]) simp
  with wants(2,6) show ?thesis by simp
qed simp_all

lemma batch_claim_loop_correct:
  assumes "jobs_ok jobs" "batch_claim_loop b now js jobs = Inr (jobs', r)"
    and "\<forall>j \<in> set js. map_of jobs (bj_id j) = Some j \<and> bj_status j \<in> {JQueued, JRunning}"
  shows "case r of
      None \<Rightarrow> map_of jobs' = map_of jobs \<and> (\<forall>j \<in> set js. \<forall>x \<in> set (bj_rows j). \<not> claimable_row now j x)
    | Some c \<Rightarrow> \<exists>pre j post k. js = pre @ j # post \<and>
        (\<forall>i \<in> set pre. \<forall>x \<in> set (bj_rows i). \<not> claimable_row now i x) \<and>
        claim_mut now j = Inr (rc_job c, Some c) \<and> revise now (claim_mut now) j = Inr (k, Some c) \<and>
        map_of jobs' = (map_of jobs)(bj_id j \<mapsto> k)"
  using assms
proof (induction js arbitrary: jobs)
  case Nil
  then show ?case by simp
next
  case (Cons j js)
  obtain x where x: "mutate_job b now jobs (bj_id j) (claim_mut now) = Inr x"
    using Cons.prems(2) by (cases "mutate_job b now jobs (bj_id j) (claim_mut now)") simp_all
  obtain jobs1 k q where xs: "x = (jobs1, k, q)" by (cases x)
  from x xs have run: "mutate_job b now jobs (bj_id j) (claim_mut now) = Inr (jobs1, k, q)" by simp
  obtain j0 where j0: "map_of jobs (bj_id j) = Some j0" "revise now (claim_mut now) j0 = Inr (k, q)"
    "map_of jobs1 = (map_of jobs)(bj_id j \<mapsto> k)" "jobs_ok jobs1" "revised j0 k"
    by (rule claim_row.mutate_job_Inr [OF Cons.prems(1) run])
  from Cons.prems(3) j0(1) have eq: "j0 = j" and st: "bj_status j \<in> {JQueued, JRunning}" by simp_all
  obtain m where m: "claim_mut now j = Inr (m, q)" and km: "k = bump now j m"
    by (rule revise_InrE [OF j0(2) [unfolded eq]])
  have ok: "job_ok j" using jobs_okD(1) [OF Cons.prems(1) j0(1)] eq by simp
  show ?case
  proof (cases q)
    case None
    from claim_none [OF m [unfolded None] st] have m': "m = j"
      and none: "\<forall>r \<in> set (bj_rows j). \<not> claimable_row now j r" by simp_all
    from claim_row.revise_unchanged [OF ok m [unfolded None m']] j0(2) eq None have "k = j" by simp
    with j0 eq have same: "map_of jobs1 = map_of jobs" by (simp add: fun_upd_idem)
    from Cons.prems(2) run None have "batch_claim_loop b now js jobs1 = Inr (jobs', r)" by simp
    moreover have "\<forall>j \<in> set js. map_of jobs (bj_id j) = Some j \<and> bj_status j \<in> {JQueued, JRunning}"
      using Cons.prems(3) by simp
    ultimately have ih: "case r of
      None \<Rightarrow> map_of jobs' = map_of jobs \<and> (\<forall>j \<in> set js. \<forall>x \<in> set (bj_rows j). \<not> claimable_row now j x)
    | Some c \<Rightarrow> \<exists>pre j post k. js = pre @ j # post \<and>
        (\<forall>i \<in> set pre. \<forall>x \<in> set (bj_rows i). \<not> claimable_row now i x) \<and>
        claim_mut now j = Inr (rc_job c, Some c) \<and> revise now (claim_mut now) j = Inr (k, Some c) \<and>
        map_of jobs' = (map_of jobs)(bj_id j \<mapsto> k)"
      by (rule Cons.IH [OF j0(4), unfolded same])
    show ?thesis
    proof (cases r)
      case None
      with ih none show ?thesis by simp
    next
      case (Some c)
      from ih [unfolded Some option.case(2)] obtain pre i post l where "js = pre @ i # post"
        "\<forall>i \<in> set pre. \<forall>x \<in> set (bj_rows i). \<not> claimable_row now i x"
        "claim_mut now i = Inr (rc_job c, Some c)" "revise now (claim_mut now) i = Inr (l, Some c)"
        "map_of jobs' = (map_of jobs)(bj_id i \<mapsto> l)" by blast
      with none show ?thesis
        unfolding Some option.case(2)
        by (intro exI [of _ "j # pre"] exI [of _ i] exI [of _ post] exI [of _ l]) simp
    qed
  next
    case (Some c)
    with Cons.prems(2) run have r: "r = Some c" "jobs' = jobs1" by simp_all
    have "rc_job c = m" using batch_claim_some [OF m [unfolded Some]] by simp
    with m j0 eq Some show ?thesis
      unfolding r option.case(2)
      by (intro exI [of _ "[]"] exI [of _ j] exI [of _ js] exI [of _ k]) simp
  qed
qed


text \<open>Two jobs of an owner: the older one waits for its images, the newer one is not reached.\<close>

definition waiting_job :: batch_job where
  "waiting_job = new_job 1 (replicate 32 98) (u ''alice'') [example_input\<lparr>in_image_count := 1\<rparr>] example_job_args"

definition example_jobs :: job_table where
  "example_jobs = [(replicate 32 97, example_job\<lparr>bj_created_at := At 2\<rparr>), (replicate 32 98, waiting_job)]"

lemma example_jobs_ok: "jobs_ok example_jobs"
proof (rule jobs_okI)
  show "distinct (map fst example_jobs)" by (simp add: example_jobs_def numeral_eq_Suc)
  fix k j assume "map_of example_jobs k = Some j"
  then have "(k = replicate 32 97 \<and> j = example_job\<lparr>bj_created_at := At 2\<rparr>) \<or> (k = replicate 32 98 \<and> j = waiting_job)"
    by (auto simp: example_jobs_def split: if_splits)
  moreover have "job_ok (example_job\<lparr>bj_created_at := At 2\<rparr>)" "bj_id example_job = replicate 32 97"
    using new_job_ok by (simp_all add: job_ok_def example_job_def) (simp_all add: new_job_def)
  moreover have "job_ok waiting_job" "bj_id waiting_job = replicate 32 98"
    using new_job_ok by (simp_all add: waiting_job_def) (simp add: new_job_def)
  ultimately show "job_ok j \<and> bj_id j = k" by auto
qed

definition example_claim :: row_claim where
  "example_claim = the (snd (projr (claim_next_row Postgres 5 example_jobs (u ''alice''))))"

definition example_jobs_after :: job_table where
  "example_jobs_after = fst (projr (claim_next_row Postgres 5 example_jobs (u ''alice'')))"


end
