(* ===== verification/Memberships.thy ===== *)
theory Memberships
  imports Temp_Ops
begin

text \<open>
  Memberships: the packages on sale (app/membership_catalog.py) and the memberships a user holds
  (the first part of app/users.py). A user may hold several; the one with the highest price is
  active and its time runs, the others are paused and keep theirs. Remaining times are stored as
  seconds in a float; the model keeps exact microseconds.
\<close>

section \<open>The packages on sale\<close>

text \<open>
  A stored package, or the payload of a request merged into one. \<open>None\<close> is a missing or null
  key, a number that cannot be read is \<open>Some None\<close>.
\<close>

record member_package =
  mp_id :: ustr
  mp_name :: ustr
  mp_points_cost :: "amount option"
  mp_price :: "amount option"
  mp_duration_days :: int
  mp_concurrency :: int
  mp_bonus_free_uses :: int
  mp_task_discount :: "amount option"
  mp_description :: ustr
  mp_payment_url :: ustr
  mp_enabled :: bool
  mp_sort_order :: int
  mp_created_at :: stamp
  mp_updated_at :: stamp

definition DEFAULT_PAYMENT_URL :: ustr where
  "DEFAULT_PAYMENT_URL = u ''https://pay.ldxp.cn/shop/huisu/fhm9gj''"

text \<open>\<open>a or d\<close> on a number.\<close>

definition amount_or :: "amount \<Rightarrow> decimal \<Rightarrow> amount" where
  "amount_or a d = (case a of Some (Fin c e) \<Rightarrow> if c = 0 then Some d else a | _ \<Rightarrow> a)"

definition package_points :: "member_package \<Rightarrow> amount" where
  "package_points item = (case mp_points_cost item of
     Some a \<Rightarrow> a
   | None \<Rightarrow> (case mp_price item of Some a \<Rightarrow> amount_or a (Fin 1 0) | None \<Rightarrow> Some (Fin 1 0)))"

definition discount_or_default :: "amount option \<Rightarrow> amount" where
  "discount_or_default raw = (case raw of None \<Rightarrow> Some (Fin 1 (- 1)) | Some a \<Rightarrow> a)"

definition normalize_package :: "int \<Rightarrow> ustr \<Rightarrow> member_package \<Rightarrow> member_package result" where
  "normalize_package now draw item =
     (let name = take 80 (strip (mp_name item)); concurrency = int_or (mp_concurrency item) 1 in
      if name = [] then Inl (ValueError msg_member_name)
      else case points_to_units (package_points item) of
        Inl e \<Rightarrow> Inl e
      | Inr cost \<Rightarrow>
         (case nonnegative_points_to_units (discount_or_default (mp_task_discount item)) of
            Inl e \<Rightarrow> Inl e
          | Inr discount \<Rightarrow>
             (if mp_duration_days item < 1 \<or> mp_duration_days item > 3650 then Inl (ValueError msg_member_duration)
              else if concurrency < 1 \<or> concurrency > 100 then Inl (ValueError msg_member_concurrency)
              else if mp_bonus_free_uses item < 0 \<or> mp_bonus_free_uses item > 1000000 then Inl (ValueError msg_member_bonus)
              else Inr \<lparr>mp_id = str_or (mp_id item) draw, mp_name = name,
                mp_points_cost = Some (Some (units_to_points cost)), mp_price = None,
                mp_duration_days = mp_duration_days item, mp_concurrency = concurrency,
                mp_bonus_free_uses = mp_bonus_free_uses item,
                mp_task_discount = Some (Some (units_to_points discount)),
                mp_description = take 500 (strip (mp_description item)),
                mp_payment_url = take 500 (strip (str_or (mp_payment_url item) DEFAULT_PAYMENT_URL)),
                mp_enabled = mp_enabled item, mp_sort_order = mp_sort_order item,
                mp_created_at = stamp_or (mp_created_at item) (At now),
                mp_updated_at = stamp_or (mp_updated_at item) (At now)\<rparr>)))"

definition list_memberships :: "int \<Rightarrow> ustr \<Rightarrow> member_package list \<Rightarrow> bool \<Rightarrow> member_package list result" where
  "list_memberships now draw packages include_disabled =
     map_sum id (\<lambda>rows. sort_key (\<lambda>p. (mp_sort_order p, mp_created_at p))
         (if include_disabled then rows else filter mp_enabled rows))
       (map_result (normalize_package now draw) packages)"

definition get_membership :: "int \<Rightarrow> ustr \<Rightarrow> member_package list \<Rightarrow> ustr \<Rightarrow> member_package result" where
  "get_membership now draw packages package_id = (case list_memberships now draw packages False of
     Inl e \<Rightarrow> Inl e
   | Inr rows \<Rightarrow> (case find (\<lambda>p. mp_id p = package_id) rows of None \<Rightarrow> Inl KeyError | Some p \<Rightarrow> Inr p))"

definition create_membership ::
    "int \<Rightarrow> ustr \<Rightarrow> member_package list \<Rightarrow> member_package \<Rightarrow> (member_package list \<times> member_package) result" where
  "create_membership now draw packages payload =
     map_sum id (\<lambda>item. (packages @ [item], item)) (normalize_package now draw payload)"

text \<open>The payload's keys over the stored package, as a function; the id and the time are set.\<close>

definition update_membership ::
    "int \<Rightarrow> member_package list \<Rightarrow> ustr \<Rightarrow> (member_package \<Rightarrow> member_package) \<Rightarrow>
     (member_package list \<times> member_package) result" where
  "update_membership now packages package_id payload =
     (case find (\<lambda>p. mp_id p = package_id) packages of
        None \<Rightarrow> Inl KeyError
      | Some item \<Rightarrow>
          map_sum id (\<lambda>p. (update_first (\<lambda>p. mp_id p = package_id) (\<lambda>_. p) packages, p))
            (normalize_package now [] ((payload item)\<lparr>mp_id := package_id, mp_updated_at := At now\<rparr>)))"

definition disable_membership ::
    "int \<Rightarrow> member_package list \<Rightarrow> ustr \<Rightarrow> (member_package list \<times> member_package) result" where
  "disable_membership now packages package_id =
     update_membership now packages package_id (\<lambda>p. p\<lparr>mp_enabled := False\<rparr>)"

section \<open>The memberships of a user\<close>

datatype member_status = MActive | MPaused | MExpired | MOther

text \<open>
  A stored membership. \<open>ms_cost_units\<close> is the key \<open>points_cost_units\<close> of old records; a
  status that is none of the three is \<open>MOther\<close>.
\<close>

record membership =
  ms_id :: ustr
  ms_package_id :: ustr
  ms_name :: ustr
  ms_cost_units :: "int option"
  ms_points_cost :: amount
  ms_duration_days :: int
  ms_remaining :: int
  ms_status :: member_status
  ms_activated_at :: stamp
  ms_purchased_at :: stamp
  ms_concurrency :: int
  ms_concurrency_bonus :: int
  ms_bonus_free_uses :: int
  ms_task_discount :: "amount option"

text \<open>The entry's \<open>membership\<close>: the active record with what the pages show of it.\<close>

record active_view =
  av_record :: membership
  av_expires_at :: stamp
  av_effective_concurrency :: int
  av_package_ids :: "ustr list"

definition remaining_time :: "int \<Rightarrow> membership \<Rightarrow> int" where
  "remaining_time now item =
     (let remaining = max 0 (ms_remaining item)
      in if ms_status item \<noteq> MActive then remaining
         else case ms_activated_at item of
           Unset \<Rightarrow> remaining
         | At t \<Rightarrow> max 0 (remaining - max 0 (now - t)))"

text \<open>A ValueError of the price counts as 0; stored prices are finite, so there is no other.\<close>

definition price_or_zero :: "amount \<Rightarrow> int" where
  "price_or_zero a = (case points_to_units (amount_or a (Fin 1 (- 1))) of Inr n \<Rightarrow> n | Inl _ \<Rightarrow> 0)"

definition membership_rank :: "membership \<Rightarrow> int \<times> stamp" where
  "membership_rank item = (price_or_zero (ms_points_cost item), ms_purchased_at item)"

definition normalize_membership :: "int \<Rightarrow> ustr \<Rightarrow> membership \<Rightarrow> membership" where
  "normalize_membership now draw item =
     (let cost = (case ms_cost_units item of Some n \<Rightarrow> Some (units_to_points (max 0 n)) | None \<Rightarrow> ms_points_cost item)
      in \<lparr>ms_id = str_or (ms_id item) draw, ms_package_id = ms_package_id item,
          ms_name = str_or (ms_name item) msg_member, ms_cost_units = None,
          ms_points_cost = (case points_to_units (amount_or cost (Fin 1 (- 1))) of
             Inr n \<Rightarrow> Some (units_to_points n) | Inl _ \<Rightarrow> Some (Fin 0 0)),
          ms_duration_days = max 1 (int_or (ms_duration_days item) 1),
          ms_remaining = max 0 (ms_remaining item),
          ms_status = (if ms_status item = MOther then MPaused else ms_status item),
          ms_activated_at = ms_activated_at item,
          ms_purchased_at = stamp_or (ms_purchased_at item) (At now),
          ms_concurrency = max 0 (int_or (ms_concurrency item) (ms_concurrency_bonus item)),
          ms_concurrency_bonus = 0,
          ms_bonus_free_uses = max 0 (ms_bonus_free_uses item),
          ms_task_discount = Some (case nonnegative_points_to_units (discount_or_default (ms_task_discount item)) of
             Inr n \<Rightarrow> Some (units_to_points n) | Inl _ \<Rightarrow> Some (Fin 0 0))\<rparr>)"

definition membership_concurrency :: "membership \<Rightarrow> int" where
  "membership_concurrency m = max 1 (min 100 (int_or (int_or (ms_concurrency m) (ms_concurrency_bonus m)) 1))"

subsection \<open>Which membership is active\<close>

definition is_eligible :: "int \<Rightarrow> membership \<Rightarrow> bool" where
  "is_eligible now item \<longleftrightarrow> ms_status item \<noteq> MExpired \<and> 0 < remaining_time now item"

fun first_index :: "('a \<Rightarrow> bool) \<Rightarrow> 'a list \<Rightarrow> nat option" where
  "first_index p [] = None"
| "first_index p (x # xs) = (if p x then Some 0 else map_option Suc (first_index p xs))"

text \<open>\<open>max(rows, key=k)\<close>: the first of the rows with the greatest key.\<close>

fun argmax :: "('a \<Rightarrow> 'k::linorder) \<Rightarrow> 'a \<Rightarrow> 'a list \<Rightarrow> 'a" where
  "argmax k best [] = best"
| "argmax k best (x # xs) = argmax k (if k best < k x then x else best) xs"

definition is_active :: "membership \<Rightarrow> bool" where
  "is_active item \<longleftrightarrow> ms_status item = MActive"

definition expire :: "membership \<Rightarrow> membership" where
  "expire item = item\<lparr>ms_remaining := 0, ms_status := MExpired, ms_activated_at := Unset\<rparr>"

definition pause :: "int \<Rightarrow> membership \<Rightarrow> membership" where
  "pause now item = item\<lparr>ms_remaining := remaining_time now item, ms_status := MPaused, ms_activated_at := Unset\<rparr>"

definition activate :: "int \<Rightarrow> membership \<Rightarrow> membership" where
  "activate now item = item\<lparr>ms_status := MActive, ms_activated_at := At now\<rparr>"

text \<open>
  One round of the \<open>while True\<close>: \<open>Inl\<close> goes round again, \<open>Inr\<close> breaks. A record is known by its
  place in the list.
\<close>

definition eligible_indexes :: "int \<Rightarrow> membership list \<Rightarrow> nat list" where
  "eligible_indexes now rs = filter (\<lambda>i. is_eligible now (rs ! i)) [0..<length rs]"

definition sync_round :: "int \<Rightarrow> membership list \<Rightarrow> membership list + membership list" where
  "sync_round now rs =
     (case first_index is_active rs of
        Some i \<Rightarrow>
          if remaining_time now (rs ! i) \<le> 0 then Inl (rs[i := expire (rs ! i)])
          else (case eligible_indexes now rs of
            [] \<Rightarrow> Inr rs
          | e # es \<Rightarrow> (let h = argmax (\<lambda>j. membership_rank (rs ! j)) e es
              in if h = i then Inr rs
                 else let rs1 = rs[i := pause now (rs ! i)] in Inr (rs1[h := activate now (rs1 ! h)])))
      | None \<Rightarrow> (case eligible_indexes now rs of
            [] \<Rightarrow> Inr rs
          | e # es \<Rightarrow> (let h = argmax (\<lambda>j. membership_rank (rs ! j)) e es
              in Inr (rs[h := activate now (rs ! h)]))))"

text \<open>The loop with a bound on its rounds, and after it the records left active by mistake.\<close>

fun sync_loop :: "nat \<Rightarrow> int \<Rightarrow> membership list \<Rightarrow> membership list option" where
  "sync_loop 0 now rs = None"
| "sync_loop (Suc n) now rs = (case sync_round now rs of Inl rs' \<Rightarrow> sync_loop n now rs' | Inr rs' \<Rightarrow> Some rs')"

definition pause_others :: "membership list \<Rightarrow> membership list" where
  "pause_others rs =
     (let a = first_index is_active rs
      in map (\<lambda>i. if a = Some i \<or> ms_status (rs ! i) = MExpired then rs ! i
                   else (rs ! i)\<lparr>ms_status := MPaused, ms_activated_at := Unset\<rparr>) [0..<length rs])"

definition view_of :: "int \<Rightarrow> membership list \<Rightarrow> active_view option" where
  "view_of now rs = (case find is_active rs of
     None \<Rightarrow> None
   | Some a \<Rightarrow> Some \<lparr>av_record = a,
       av_expires_at = At ((case ms_activated_at a of At t \<Rightarrow> t | Unset \<Rightarrow> now) + ms_remaining a),
       av_effective_concurrency = membership_concurrency a,
       av_package_ids = map ms_package_id (filter (\<lambda>m. ms_status m \<noteq> MExpired \<and> ms_package_id m \<noteq> []) rs)\<rparr>)"

text \<open>
  The record made of an old entry that has only a \<open>membership\<close>: its remaining time comes from
  the expiry, its days from it too when they are missing.
\<close>

definition legacy_record :: "int \<Rightarrow> active_view \<Rightarrow> membership" where
  "legacy_record now v =
     (let remaining = (case av_expires_at v of At t \<Rightarrow> max 0 (t - now) | Unset \<Rightarrow> 0);
          m = av_record v
      in m\<lparr>ms_remaining := remaining,
           ms_duration_days := max 1 (int_or (ms_duration_days m) (max 1 (round_half_even remaining (days 1)))),
           ms_status := (if 0 < remaining then MActive else MExpired),
           ms_activated_at := (if 0 < remaining then At now else Unset)\<rparr>)"

definition stored_records :: "int \<Rightarrow> ustr \<Rightarrow> membership list \<Rightarrow> active_view option \<Rightarrow> membership list" where
  "stored_records now draw memberships legacy =
     (if memberships = []
      then (case legacy of None \<Rightarrow> [] | Some v \<Rightarrow> [normalize_membership now draw (legacy_record now v)])
      else map (normalize_membership now draw) memberships)"

text \<open>
  \<open>_sync_membership_state\<close>: the records and the view it leaves. The bound on the rounds is the
  number of records and one; that it is enough is proved in Membership_Props.
\<close>

definition sync_membership_state ::
    "int \<Rightarrow> ustr \<Rightarrow> membership list \<Rightarrow> active_view option \<Rightarrow> membership list \<times> active_view option" where
  "sync_membership_state now draw memberships legacy =
     (let rs = stored_records now draw memberships legacy;
          synced = pause_others (case sync_loop (Suc (length rs)) now rs of Some rs' \<Rightarrow> rs' | None \<Rightarrow> rs)
      in (synced, view_of now synced))"

record public_membership =
  pm_record :: membership
  pm_remaining :: int

text \<open>The fourth figure, \<open>remaining_days\<close>, is \<open>pm_remaining\<close> rounded for display.\<close>

definition public_memberships :: "int \<Rightarrow> membership list \<Rightarrow> public_membership list" where
  "public_memberships now rs =
     sort_key (\<lambda>p. (ms_status (pm_record p) \<noteq> MActive, - fst (membership_rank (pm_record p)), ms_purchased_at (pm_record p)))
       (map (\<lambda>m. \<lparr>pm_record = m, pm_remaining = remaining_time now m\<rparr>) rs)"

definition reconcile_concurrency :: "member_package list \<Rightarrow> membership list \<Rightarrow> membership list" where
  "reconcile_concurrency packages rs =
     map (\<lambda>m. case map_of (rev (map (\<lambda>p. (mp_id p, p)) packages)) (ms_package_id m) of
        None \<Rightarrow> m
      | Some p \<Rightarrow> m\<lparr>ms_concurrency := max 1 (min 100 (int_or (mp_concurrency p) 1))\<rparr>) rs"

end
