(* ===== verification/Users.thy ===== *)
theory Users
  imports Memberships
begin

text \<open>
  User accounts (app/users.py, and the row operations of \<open>dola_users\<close> in app/postgres.py): their
  registration, passwords, addresses and tokens. A user owns a temporary token, whose entry holds
  the balances, so an operation works on both tables. \<open>kdf\<close> is PBKDF2 on a password and a salt in
  hexadecimal, \<open>hash\<close> is SHA-256 of a token. A loop that draws until an unused token is found
  returns \<open>None\<close> when the draws listed do not suffice. User names are ASCII letters, digits,
  underscores and ideographs, so \<open>casefold\<close> is \<open>lower\<close> on them.
\<close>

type_synonym discount_table = "(ustr, (ustr, amount) table) table"

record user_entry =
  ue_id :: ustr
  ue_username :: ustr
  ue_email :: ustr
  ue_email_verified_at :: stamp
  ue_invitation_code :: ustr
  ue_password_salt :: ustr
  ue_password_hash :: ustr
  ue_token_hash :: ustr
  ue_token :: ustr
  ue_points_purchased :: decimal
  ue_points_purchased_units :: int
  ue_free_limit :: int
  ue_base_concurrency :: int
  ue_effective_concurrency :: int
  ue_created_at :: stamp
  ue_last_login_at :: stamp
  ue_last_seen_at :: stamp
  ue_updated_at :: stamp
  ue_enabled :: bool
  ue_memberships :: "membership list"
  ue_membership :: "active_view option"
  ue_concurrency_reconciled :: bool
  ue_model_discounts :: discount_table
  ue_quota_discounts :: discount_table

type_synonym user_table = "(ustr, user_entry) table"
type_synonym user_world = "user_table \<times> token_table"

datatype user_field = ByName | ByEmail | ById | ByTokenHash

section \<open>Reading and changing a row\<close>

definition is_user :: "user_field \<Rightarrow> ustr \<Rightarrow> ustr \<times> user_entry \<Rightarrow> bool" where
  "is_user field value row = (case field of
     ByName \<Rightarrow> lower (fst row) = lower value
   | ByEmail \<Rightarrow> lower (ue_email (snd row)) = lower value
   | ById \<Rightarrow> ue_id (snd row) = value
   | ByTokenHash \<Rightarrow> ue_token_hash (snd row) = value)"

definition read_user :: "user_table \<Rightarrow> user_field \<Rightarrow> ustr \<Rightarrow> (ustr \<times> user_entry) option" where
  "read_user users field value = find (is_user field value) users"

text \<open>The mutator also changes the tokens; it says whether the file branch writes.\<close>

type_synonym 'r user_mutator = "token_table \<Rightarrow> user_entry \<Rightarrow> (user_entry \<times> (token_table \<times> 'r) \<times> bool) result"

definition mutate_user ::
    "backend \<Rightarrow> user_field \<Rightarrow> ustr \<Rightarrow> 'r user_mutator \<Rightarrow> user_world \<Rightarrow> (user_world \<times> 'r) result" where
  "mutate_user b field value f w = (case read_user (fst w) field value of
     None \<Rightarrow> Inl KeyError
   | Some (k, _) \<Rightarrow> map_sum id (\<lambda>(users, tokens, r). ((users, tokens), r))
       (run_row b KeyError (fst w) k (f (snd w))))"

section \<open>Registration\<close>

definition is_username_char :: "int \<Rightarrow> bool" where
  "is_username_char c \<longleftrightarrow> (65 \<le> c \<and> c \<le> 90) \<or> (97 \<le> c \<and> c \<le> 122) \<or> (48 \<le> c \<and> c \<le> 57) \<or> c = 95 \<or>
     (19968 \<le> c \<and> c \<le> 40959)"

definition is_username :: "ustr \<Rightarrow> bool" where
  "is_username s \<longleftrightarrow> 3 \<le> length s \<and> length s \<le> 24 \<and> (\<forall>c \<in> set s. is_username_char c)"

definition upper_char :: "int \<Rightarrow> int" where
  "upper_char c = (if 97 \<le> c \<and> c \<le> 122 then c - 32 else c)"

text \<open>\<open>str.upper()\<close> on ASCII letters, which invitation codes consist of.\<close>

definition upper :: "ustr \<Rightarrow> ustr" where
  "upper s = map upper_char s"

record registration =
  rg_username :: ustr
  rg_password :: ustr
  rg_email :: ustr
  rg_invitation_code :: ustr

record login_info =
  li_username :: ustr
  li_token :: ustr

definition new_user ::
    "(ustr \<Rightarrow> ustr \<Rightarrow> ustr) \<Rightarrow> int \<Rightarrow> ustr \<Rightarrow> ustr \<Rightarrow> registration \<Rightarrow> public_token \<Rightarrow> user_entry" where
  "new_user kdf now draw_id salt r t =
     (let email = lower (strip (rg_email r))
      in \<lparr>ue_id = draw_id, ue_username = strip (rg_username r), ue_email = email,
          ue_email_verified_at = (if email \<noteq> [] then At now else Unset),
          ue_invitation_code = take 80 (upper (strip (rg_invitation_code r))),
          ue_password_salt = salt, ue_password_hash = kdf (rg_password r) salt,
          ue_token_hash = pt_id t, ue_token = pt_token t, ue_points_purchased = Fin 0 0,
          ue_points_purchased_units = 0, ue_free_limit = 1, ue_base_concurrency = 1,
          ue_effective_concurrency = 1, ue_created_at = At now, ue_last_login_at = At now,
          ue_last_seen_at = At now, ue_updated_at = Unset, ue_enabled = True, ue_memberships = [],
          ue_membership = None, ue_concurrency_reconciled = False, ue_model_discounts = [],
          ue_quota_discounts = []\<rparr>)"

definition email_used :: "user_table \<Rightarrow> ustr \<Rightarrow> bool" where
  "email_used users email \<longleftrightarrow> (\<exists>row \<in> set users. lower (ue_email (snd row)) = lower email)"

text \<open>
  The row is inserted in a transaction of its own: \<open>users_then\<close> is the table at that moment, when
  another process may have registered the name or the address since the check; then the token is
  deleted again. The file branch holds its lock throughout and writes what it read.
\<close>

definition insert_user :: "user_table \<Rightarrow> ustr \<Rightarrow> user_entry \<Rightarrow> user_table result" where
  "insert_user users key entry =
     (if ue_email entry \<noteq> [] \<and> email_used users (ue_email entry) then Inl (ValueError msg_email_taken)
      else if map_of users key \<noteq> None then Inl (ValueError msg_username_taken)
      else Inr (AList.update key entry users))"

definition register_user ::
    "(ustr \<Rightarrow> ustr) \<Rightarrow> (ustr \<Rightarrow> ustr \<Rightarrow> ustr) \<Rightarrow> backend \<Rightarrow> int \<Rightarrow> ustr list \<Rightarrow> ustr \<Rightarrow> ustr \<Rightarrow> user_table \<Rightarrow>
     user_world \<Rightarrow> registration \<Rightarrow> (user_world \<times> login_info result) option" where
  "register_user hash kdf b now draws draw_id salt users_then w r =
     (let username = strip (rg_username r); key = lower username; email = lower (strip (rg_email r)); (users, tokens) = w in
      if \<not> is_username username then Some (w, Inl (ValueError msg_username_format))
      else if length (rg_password r) < 8 \<or> length (rg_password r) > 128 then Some (w, Inl (ValueError msg_password_length))
      else if (case b of Postgres \<Rightarrow> read_user users ByName key \<noteq> None | LocalFile \<Rightarrow> map_of users key \<noteq> None)
      then Some (w, Inl (ValueError msg_username_taken))
      else if email \<noteq> [] \<and> email_used users email then Some (w, Inl (ValueError msg_email_taken))
      else case create_temp_tokens hash now draws tokens 1 1 1 username 7 of
        None \<Rightarrow> None
      | Some (tokens', created) \<Rightarrow>
         (let t = hd created; entry = new_user kdf now draw_id salt r t in
          case b of
            LocalFile \<Rightarrow> Some ((AList.update key entry users, tokens'), Inr \<lparr>li_username = username, li_token = ue_token entry\<rparr>)
          | Postgres \<Rightarrow> (case insert_user users_then key entry of
              Inl e \<Rightarrow> Some ((users_then, fst (delete_temp_token tokens' (pt_id t))), Inl e)
            | Inr users' \<Rightarrow> Some ((users', tokens'), Inr \<lparr>li_username = username, li_token = ue_token entry\<rparr>))))"

section \<open>Logging in\<close>

definition is_hex_digit :: "int \<Rightarrow> bool" where
  "is_hex_digit c \<longleftrightarrow> is_hex_char (lower_char c)"

definition from_hex :: "ustr \<Rightarrow> bool" where
  "from_hex s \<longleftrightarrow> even (length s) \<and> (\<forall>c \<in> set s. is_hex_digit c)"

definition find_login :: "user_table \<Rightarrow> ustr \<Rightarrow> (ustr \<times> user_entry) option" where
  "find_login users value =
     (if value = [] then None
      else case read_user users ByName value of Some row \<Rightarrow> Some row | None \<Rightarrow> read_user users ByEmail value)"

definition login_mut :: "int \<Rightarrow> ustr \<Rightarrow> ustr \<Rightarrow> (user_entry, login_info option) mutator" where
  "login_mut now salt expected entry =
     (if \<not> ue_enabled entry \<or> ue_password_salt entry \<noteq> salt \<or> ue_password_hash entry \<noteq> expected
      then Inr (entry, None, False)
      else Inr (entry\<lparr>ue_last_login_at := At now, ue_last_seen_at := At now\<rparr>,
                Some \<lparr>li_username = ue_username entry, li_token = ue_token entry\<rparr>, True))"

text \<open>
  The password is hashed without the lock; \<open>users_then\<close> is the table when the lock is taken again.
  A user who was deleted meanwhile is KeyError with PostgreSQL and a failed login with files.
\<close>

definition login_user ::
    "(ustr \<Rightarrow> ustr \<Rightarrow> ustr) \<Rightarrow> backend \<Rightarrow> int \<Rightarrow> user_table \<Rightarrow> user_table \<Rightarrow> ustr \<Rightarrow> ustr \<Rightarrow>
     (user_table \<times> login_info option) result" where
  "login_user kdf b now users users_then identifier password =
     (case find_login users (lower (strip identifier)) of
        None \<Rightarrow> Inr (users_then, None)
      | Some (key, entry) \<Rightarrow>
         (if \<not> ue_enabled entry \<or> \<not> from_hex (ue_password_salt entry) \<or>
              kdf password (ue_password_salt entry) \<noteq> ue_password_hash entry
          then Inr (users_then, None)
          else case b of
            Postgres \<Rightarrow> run_row b KeyError users_then key (login_mut now (ue_password_salt entry) (ue_password_hash entry))
          | LocalFile \<Rightarrow> (if map_of users_then key = None then Inr (users_then, None)
              else run_row b KeyError users_then key (login_mut now (ue_password_salt entry) (ue_password_hash entry)))))"

definition has_verified_enabled_email :: "backend \<Rightarrow> user_table \<Rightarrow> ustr \<Rightarrow> bool" where
  "has_verified_enabled_email b users email =
     (let email = lower (strip email) in
      case b of
        Postgres \<Rightarrow> (case read_user users ByEmail email of
          None \<Rightarrow> False | Some (_, e) \<Rightarrow> ue_email_verified_at e \<noteq> Unset \<and> ue_enabled e)
      | LocalFile \<Rightarrow> (\<exists>row \<in> set users. lower (strip (ue_email (snd row))) = email \<and>
          ue_email_verified_at (snd row) \<noteq> Unset \<and> ue_enabled (snd row)))"

section \<open>Passwords and tokens\<close>

text \<open>Rotating the user's token: the entry gets the new token and its hash.\<close>

definition rotate_for ::
    "(ustr \<Rightarrow> ustr) \<Rightarrow> int \<Rightarrow> ustr list \<Rightarrow> user_world \<Rightarrow> ustr \<Rightarrow> ustr \<Rightarrow> user_entry \<Rightarrow>
     (user_world \<times> login_info) result option" where
  "rotate_for hash now draws w key token_hash entry =
     map_option (map_sum id (\<lambda>(tokens', t).
         let entry' = entry\<lparr>ue_token_hash := pt_id t, ue_token := pt_token t\<rparr>
         in ((AList.update key entry' (fst w), tokens'), \<lparr>li_username = ue_username entry, li_token = pt_token t\<rparr>)))
       (rotate_temp_token hash now draws (snd w) token_hash)"

definition set_password :: "(ustr \<Rightarrow> ustr \<Rightarrow> ustr) \<Rightarrow> int \<Rightarrow> ustr \<Rightarrow> ustr \<Rightarrow> user_entry \<Rightarrow> user_entry" where
  "set_password kdf now salt password entry =
     entry\<lparr>ue_password_salt := salt, ue_password_hash := kdf password salt,
           ue_last_seen_at := At now, ue_updated_at := At now\<rparr>"

text \<open>The file branch looks for a verified address, PostgreSQL takes the row and then checks.\<close>

definition find_reset :: "backend \<Rightarrow> user_table \<Rightarrow> ustr \<Rightarrow> (ustr \<times> user_entry) option" where
  "find_reset b users email = (case b of
     Postgres \<Rightarrow> (case read_user users ByEmail email of
       Some (k, e) \<Rightarrow> if ue_email_verified_at e = Unset then None else Some (k, e) | None \<Rightarrow> None)
   | LocalFile \<Rightarrow> find (\<lambda>row. lower (strip (ue_email (snd row))) = email \<and> ue_email_verified_at (snd row) \<noteq> Unset) users)"

definition reset_user_password_by_email ::
    "(ustr \<Rightarrow> ustr) \<Rightarrow> (ustr \<Rightarrow> ustr \<Rightarrow> ustr) \<Rightarrow> backend \<Rightarrow> int \<Rightarrow> ustr list \<Rightarrow> ustr \<Rightarrow> user_world \<Rightarrow> ustr \<Rightarrow> ustr \<Rightarrow>
     (user_world \<times> login_info \<times> ustr) result option" where
  "reset_user_password_by_email hash kdf b now draws salt w email new_password =
     (if length new_password < 8 \<or> length new_password > 128 then Some (Inl (ValueError msg_password_length))
      else case find_reset b (fst w) (lower (strip email)) of
        None \<Rightarrow> Some (Inl KeyError)
      | Some (key, entry) \<Rightarrow>
         (if \<not> ue_enabled entry then Some (Inl KeyError)
          else map_option (map_sum id (\<lambda>(w', li). (w', li, ue_token_hash entry)))
            (rotate_for hash now draws w key (ue_token_hash entry) (set_password kdf now salt new_password entry))))"

definition change_user_password_by_token_hash ::
    "(ustr \<Rightarrow> ustr) \<Rightarrow> (ustr \<Rightarrow> ustr \<Rightarrow> ustr) \<Rightarrow> int \<Rightarrow> ustr list \<Rightarrow> ustr \<Rightarrow> user_world \<Rightarrow> ustr \<Rightarrow> ustr \<Rightarrow> ustr \<Rightarrow>
     (user_world \<times> login_info) result option" where
  "change_user_password_by_token_hash hash kdf now draws salt w token_hash current_password new_password =
     (if length new_password < 8 \<or> length new_password > 128 then Some (Inl (ValueError msg_password_length))
      else case read_user (fst w) ByTokenHash token_hash of
        None \<Rightarrow> Some (Inl KeyError)
      | Some (key, entry) \<Rightarrow>
         (if \<not> ue_enabled entry then Some (Inl KeyError)
          else if \<not> from_hex (ue_password_salt entry) then Some (Inl (ValueError (u ''non-hexadecimal number found in fromhex() arg'')))
          else if kdf current_password (ue_password_salt entry) \<noteq> ue_password_hash entry then Some (Inl (ValueError msg_password_wrong))
          else if current_password = new_password then Some (Inl (ValueError msg_password_same))
          else rotate_for hash now draws w key token_hash (set_password kdf now salt new_password entry)))"

text \<open>The file branch does not set \<open>updated_at\<close>.\<close>

definition rotate_user_token_by_hash ::
    "(ustr \<Rightarrow> ustr) \<Rightarrow> backend \<Rightarrow> int \<Rightarrow> ustr list \<Rightarrow> user_world \<Rightarrow> ustr \<Rightarrow> (user_world \<times> login_info) result option" where
  "rotate_user_token_by_hash hash b now draws w token_hash =
     (case read_user (fst w) ByTokenHash token_hash of
        None \<Rightarrow> Some (Inl KeyError)
      | Some (key, entry) \<Rightarrow>
         (if \<not> ue_enabled entry then Some (Inl KeyError)
          else rotate_for hash now draws w key token_hash
            (let seen = entry\<lparr>ue_last_seen_at := At now\<rparr> in if b = Postgres then seen\<lparr>ue_updated_at := At now\<rparr> else seen)))"

section \<open>The rest of the account\<close>

record user_identity =
  ui_id :: ustr
  ui_username :: ustr
  ui_email :: ustr

definition user_identity_by_token_hash :: "user_table \<Rightarrow> ustr \<Rightarrow> user_identity result" where
  "user_identity_by_token_hash users token_hash = (case read_user users ByTokenHash token_hash of
     None \<Rightarrow> Inl KeyError
   | Some (_, e) \<Rightarrow> if \<not> ue_enabled e then Inl KeyError
       else Inr \<lparr>ui_id = ue_id e, ui_username = ue_username e, ui_email = ue_email e\<rparr>)"

text \<open>
  Another user's address is refused. With PostgreSQL an empty address is not compared and the
  first row with the address decides; the file branch compares it with every other row, an empty
  one too.
\<close>

definition change_user_email_by_token_hash ::
    "backend \<Rightarrow> int \<Rightarrow> user_world \<Rightarrow> ustr \<Rightarrow> ustr \<Rightarrow> (user_world \<times> ustr) result" where
  "change_user_email_by_token_hash b now w token_hash email =
     (let email = lower (strip email);
          set_email = (\<lambda>tokens e. if \<not> ue_enabled e then Inl KeyError
            else Inr (e\<lparr>ue_email := email, ue_email_verified_at := At now, ue_updated_at := At now\<rparr>, (tokens, email), True))
      in case b of
        Postgres \<Rightarrow>
          (if email \<noteq> [] \<and> (case read_user (fst w) ByEmail email of
                None \<Rightarrow> False | Some (_, e) \<Rightarrow> ue_token_hash e \<noteq> token_hash)
           then Inl (ValueError msg_email_bound) else mutate_user b ByTokenHash token_hash set_email w)
      | LocalFile \<Rightarrow>
          (case read_user (fst w) ByTokenHash token_hash of
             None \<Rightarrow> Inl KeyError
           | Some (key, entry) \<Rightarrow>
              (if \<not> ue_enabled entry then Inl KeyError
               else if \<exists>row \<in> set (fst w). fst row \<noteq> key \<and> lower (ue_email (snd row)) = lower email
               then Inl (ValueError msg_email_bound) else mutate_user b ByTokenHash token_hash set_email w)))"

text \<open>A visit within a minute of the last one is not written.\<close>

definition touch_user_by_token_hash :: "backend \<Rightarrow> int \<Rightarrow> user_world \<Rightarrow> ustr \<Rightarrow> user_world" where
  "touch_user_by_token_hash b now w token_hash =
     (case mutate_user b ByTokenHash token_hash (\<lambda>tokens e.
          if (case ue_last_seen_at e of At t \<Rightarrow> now - t < secs 60 | Unset \<Rightarrow> False) then Inr (e, (tokens, ()), False)
          else Inr (e\<lparr>ue_last_seen_at := At now\<rparr>, (tokens, ()), True)) w of
        Inl _ \<Rightarrow> w
      | Inr (w', _) \<Rightarrow> w')"

definition user_token_is_enabled :: "user_table \<Rightarrow> ustr \<Rightarrow> bool" where
  "user_token_is_enabled users token_hash = (case read_user users ByTokenHash token_hash of
     None \<Rightarrow> True | Some (_, e) \<Rightarrow> ue_enabled e)"

definition set_user_enabled :: "backend \<Rightarrow> int \<Rightarrow> user_world \<Rightarrow> ustr \<Rightarrow> bool \<Rightarrow> (user_world \<times> unit) result" where
  "set_user_enabled b now w user_id enabled =
     mutate_user b ById user_id (\<lambda>tokens e. Inr (e\<lparr>ue_enabled := enabled, ue_updated_at := At now\<rparr>, (tokens, ()), True)) w"

definition delete_user :: "user_world \<Rightarrow> ustr \<Rightarrow> user_world result" where
  "delete_user w user_id = (case read_user (fst w) ById user_id of
     None \<Rightarrow> Inl KeyError
   | Some (key, entry) \<Rightarrow> Inr (AList.delete key (fst w), fst (delete_temp_token (snd w) (ue_token_hash entry))))"

end
