(* ===== verification/User_Billing.thy ===== *)
theory User_Billing
  imports Users
begin

text \<open>
  What a user pays and is granted (the second part of app/users.py): points and video quota,
  memberships and the number of tasks they allow at once, discounts, and the listing of users.
  The balances are in the user's token entry (theories Temp_Ops and Temp_Quota).
\<close>

section \<open>Points and quota\<close>

definition purchased_so_far :: "user_entry \<Rightarrow> int" where
  "purchased_so_far e = int_or (ue_points_purchased_units e)
     ((case dec_int (ue_points_purchased e) of Inr n \<Rightarrow> n | Inl _ \<Rightarrow> 0) * 10)"

definition add_user_points :: "backend \<Rightarrow> int \<Rightarrow> user_world \<Rightarrow> ustr \<Rightarrow> amount \<Rightarrow> (user_world \<times> decimal) result" where
  "add_user_points b now w user_id amt =
     (case points_to_units amt of
        Inl e \<Rightarrow> Inl e
      | Inr units \<Rightarrow>
         mutate_user b ById user_id (\<lambda>tokens e. case add_temp_credit_units b now tokens (ue_token_hash e) units of
             Inl x \<Rightarrow> Inl x
           | Inr (tokens', _) \<Rightarrow>
              (let total = purchased_so_far e + units;
                   e1 = e\<lparr>ue_points_purchased_units := total, ue_points_purchased := units_to_points total\<rparr>
               in Inr (if b = Postgres then e1\<lparr>ue_updated_at := At now\<rparr> else e1, (tokens', units_to_points units), True))) w)"

definition free_limit_of :: "user_entry \<Rightarrow> int" where
  "free_limit_of e = max 1 (int_or (ue_free_limit e) 1)"

definition deduct_user_points :: "backend \<Rightarrow> int \<Rightarrow> user_world \<Rightarrow> ustr \<Rightarrow> amount \<Rightarrow> user_world result" where
  "deduct_user_points b now w user_id amt =
     (case points_to_units amt of
        Inl e \<Rightarrow> Inl e
      | Inr _ \<Rightarrow> (case read_user (fst w) ById user_id of
          None \<Rightarrow> Inl KeyError
        | Some (_, e) \<Rightarrow> map_sum id (\<lambda>(tokens', _). (fst w, tokens'))
            (deduct_temp_points b now (snd w) (ue_token_hash e) (free_limit_of e) amt)))"

definition signed_change :: "int \<Rightarrow> decimal" where
  "signed_change units = (if 0 \<le> units then units_to_points units else dec_neg (units_to_points \<bar>units\<bar>))"

definition adjust_user_video_quota ::
    "backend \<Rightarrow> int \<Rightarrow> user_world \<Rightarrow> ustr \<Rightarrow> amount \<Rightarrow> (user_world \<times> decimal \<times> decimal) result" where
  "adjust_user_video_quota b now w user_id amt =
     (case quota_change_units amt of
        Inl e \<Rightarrow> Inl e
      | Inr units \<Rightarrow> (case read_user (fst w) ById user_id of
          None \<Rightarrow> Inl KeyError
        | Some (_, e) \<Rightarrow> map_sum id (\<lambda>(tokens', t). ((fst w, tokens'), signed_change units, pt_free_remaining t))
            (adjust_temp_video_quota b now (snd w) (ue_token_hash e) (free_limit_of e) (Some (signed_change units)))))"

text \<open>
  The balance shown: the token's figures, or for a user without a token the free uses of the
  account (and no points).
\<close>

definition shown_balance :: "user_entry option \<Rightarrow> public_token option \<Rightarrow> decimal \<times> decimal" where
  "shown_balance e q =
     (let free_limit = max 1 (int_or (case e of None \<Rightarrow> 0 | Some e \<Rightarrow> ue_free_limit e) 3) in
      case q of
        None \<Rightarrow> (Fin free_limit 0, Fin 0 0)
      | Some t \<Rightarrow>
         (units_to_points (max 0 (int_or (pt_video_quota_units t)
            (case nonnegative_points_to_units (Some (pt_free_remaining t)) of Inr n \<Rightarrow> n | Inl _ \<Rightarrow> 0))),
          units_to_points (pt_credit_units t)))"

definition token_by_id :: "public_token list \<Rightarrow> ustr \<Rightarrow> public_token option" where
  "token_by_id ts h = map_of (rev (map (\<lambda>t. (pt_id t, t)) ts)) h"

text \<open>With PostgreSQL the token's own row is read when it is there.\<close>

definition user_balance_by_token_hash ::
    "backend \<Rightarrow> user_world \<Rightarrow> ustr \<Rightarrow> public_token list option \<Rightarrow> decimal \<times> decimal" where
  "user_balance_by_token_hash b w token_hash temp_entries =
     (let given = (case temp_entries of
            Some ts \<Rightarrow> ts
          | None \<Rightarrow> (case b of Postgres \<Rightarrow> [] | LocalFile \<Rightarrow> list_temp_tokens (snd w)));
          listed = token_by_id given token_hash;
          q = (case b of
            LocalFile \<Rightarrow> listed
          | Postgres \<Rightarrow> (case read_token_entry (snd w) (normalized_hash token_hash) of
              None \<Rightarrow> listed | Some e \<Rightarrow> Some (public_token (normalized_hash token_hash) e)))
      in shown_balance (map_option snd (read_user (fst w) ByTokenHash token_hash)) q)"

section \<open>Memberships\<close>

definition sync_entry :: "int \<Rightarrow> ustr \<Rightarrow> user_entry \<Rightarrow> user_entry" where
  "sync_entry now draw e =
     (case sync_membership_state now draw (ue_memberships e) (ue_membership e) of
        (rs, v) \<Rightarrow> e\<lparr>ue_memberships := rs, ue_membership := v\<rparr>)"

definition reconcile_entry :: "member_package list \<Rightarrow> user_entry \<Rightarrow> user_entry" where
  "reconcile_entry packages e =
     (if ue_concurrency_reconciled e then e
      else e\<lparr>ue_memberships := reconcile_concurrency packages (ue_memberships e), ue_concurrency_reconciled := True\<rparr>)"

text \<open>\<open>token.concurrency\<close>, or 1 without the token.\<close>

definition token_concurrency :: "token_table \<Rightarrow> ustr \<Rightarrow> int" where
  "token_concurrency tokens token_hash = (case get_temp_context_by_hash tokens token_hash of
     None \<Rightarrow> 1 | Some c \<Rightarrow> max 1 (ac_concurrency c))"

definition base_concurrency_of :: "user_entry \<Rightarrow> int \<Rightarrow> int" where
  "base_concurrency_of e token_conc = max 1 (int_or (ue_base_concurrency e) token_conc)"

definition effective_of :: "user_entry \<Rightarrow> int \<Rightarrow> int" where
  "effective_of e base = (case ue_membership e of None \<Rightarrow> base | Some v \<Rightarrow> membership_concurrency (av_record v))"

definition set_token_concurrency ::
    "backend \<Rightarrow> int \<Rightarrow> token_table \<Rightarrow> ustr \<Rightarrow> int \<Rightarrow> (token_table \<times> public_token) result" where
  "set_token_concurrency b now tokens token_hash n =
     update_temp_token b now tokens token_hash (no_update\<lparr>tu_concurrency := Some n\<rparr>)"

record profile =
  pf_username :: ustr
  pf_email :: ustr
  pf_email_verified_at :: stamp
  pf_membership :: "active_view option"
  pf_memberships :: "public_membership list"

definition user_profile_by_token_hash ::
    "backend \<Rightarrow> int \<Rightarrow> ustr \<Rightarrow> user_world \<Rightarrow> ustr \<Rightarrow> (user_world \<times> profile) result" where
  "user_profile_by_token_hash b now draw w token_hash =
     mutate_user b ByTokenHash token_hash (\<lambda>tokens e.
       if \<not> ue_enabled e then Inl KeyError
       else let e' = sync_entry now draw e
            in Inr (e', (tokens, \<lparr>pf_username = ue_username e, pf_email = ue_email e,
                 pf_email_verified_at = ue_email_verified_at e, pf_membership = ue_membership e',
                 pf_memberships = public_memberships now (ue_memberships e')\<rparr>), e' \<noteq> e)) w"

record purchase =
  pu_membership :: "active_view option"
  pu_memberships :: "public_membership list"
  pu_balance :: public_token

definition running_records :: "int \<Rightarrow> user_entry \<Rightarrow> membership list" where
  "running_records now e = filter (is_eligible now) (ue_memberships e)"

definition bought_record :: "int \<Rightarrow> ustr \<Rightarrow> member_package \<Rightarrow> membership" where
  "bought_record now new_id p =
     \<lparr>ms_id = new_id, ms_package_id = mp_id p, ms_name = str_or (mp_name p) msg_member, ms_cost_units = None,
      ms_points_cost = package_points p, ms_duration_days = int_or (mp_duration_days p) 1,
      ms_remaining = days (int_or (mp_duration_days p) 1), ms_status = MPaused, ms_activated_at = Unset,
      ms_purchased_at = At now, ms_concurrency = max 1 (min 100 (int_or (mp_concurrency p) 1)),
      ms_concurrency_bonus = 0, ms_bonus_free_uses = mp_bonus_free_uses p, ms_task_discount = mp_task_discount p\<rparr>"

text \<open>
  \<open>purchase_user_membership\<close> on the entry: every package of the catalog is read before, and the
  price of the dearest on sale decides whether another may be bought on top.
\<close>

definition purchase_mut ::
    "backend \<Rightarrow> int \<Rightarrow> ustr \<Rightarrow> ustr \<Rightarrow> member_package list \<Rightarrow> member_package \<Rightarrow> purchase user_mutator" where
  "purchase_mut b now draw new_id stored p tokens e =
     (let base = base_concurrency_of e (token_concurrency tokens (ue_token_hash e)) in
      case (if ue_concurrency_reconciled e then Inr [] else list_memberships now draw stored True) of
        Inl x \<Rightarrow> Inl x
      | Inr packages \<Rightarrow>
         (let e1 = sync_entry now draw (reconcile_entry packages e); running = running_records now e1 in
          if \<exists>m \<in> set running. ms_package_id m = mp_id p then Inl (ValueError msg_member_once)
          else case list_memberships now draw stored False of
            Inl x \<Rightarrow> Inl x
          | Inr catalog \<Rightarrow>
             (case map_result (\<lambda>q. points_to_units (package_points q)) catalog of
                Inl x \<Rightarrow> Inl x
              | Inr prices \<Rightarrow>
                 (let highest = foldr max prices 0; best = foldr max (map (fst \<circ> membership_rank) running) 0;
                      concurrency = max 1 (min 100 (int_or (mp_concurrency p) 1)) in
                  if running \<noteq> [] \<and> highest \<le> best \<and> 0 < highest then Inl (ValueError msg_member_highest)
                  else case purchase_temp_membership b now tokens (ue_token_hash e) (free_limit_of e)
                      (package_points p) (mp_bonus_free_uses p) concurrency of
                    Inl x \<Rightarrow> Inl x
                  | Inr (tokens1, balance) \<Rightarrow>
                     (let e2 = sync_entry now draw (e1\<lparr>ue_memberships := ue_memberships e1 @ [bought_record now new_id p],
                            ue_concurrency_reconciled := True, ue_base_concurrency := base\<rparr>);
                          effective = int_or (case ue_membership e2 of None \<Rightarrow> 0 | Some v \<Rightarrow> av_effective_concurrency v) base
                      in case set_token_concurrency b now tokens1 (ue_token_hash e) effective of
                        Inl x \<Rightarrow> Inl x
                      | Inr (tokens2, _) \<Rightarrow>
                          Inr (e2\<lparr>ue_effective_concurrency := effective, ue_updated_at := At now\<rparr>,
                            (tokens2, \<lparr>pu_membership = ue_membership e2,
                               pu_memberships = public_memberships now (ue_memberships e2),
                               pu_balance = balance\<lparr>pt_concurrency := effective\<rparr>\<rparr>), True))))))"

definition purchase_user_membership ::
    "backend \<Rightarrow> int \<Rightarrow> ustr \<Rightarrow> ustr \<Rightarrow> member_package list \<Rightarrow> user_world \<Rightarrow> ustr \<Rightarrow> member_package \<Rightarrow>
     (user_world \<times> purchase) result" where
  "purchase_user_membership b now draw new_id stored w user_id p =
     mutate_user b ById user_id (purchase_mut b now draw new_id stored p) w"

text \<open>
  Bringing the user's entry and the token's concurrency up to date. With PostgreSQL the token is
  written after the user's row was committed; the file branch writes the token first.
\<close>

definition sync_member_entry ::
    "int \<Rightarrow> ustr \<Rightarrow> member_package list \<Rightarrow> int \<Rightarrow> user_entry \<Rightarrow> user_entry \<times> int \<times> bool" where
  "sync_member_entry now draw packages token_conc e =
     (let e1 = sync_entry now draw (reconcile_entry packages e);
          base = base_concurrency_of e1 token_conc; effective = effective_of e1 base
      in if ue_concurrency_reconciled e \<and> ue_memberships e1 = ue_memberships e \<and> ue_membership e1 = ue_membership e \<and>
            ue_effective_concurrency e1 = effective \<and> token_conc = effective \<and> ue_base_concurrency e1 \<noteq> 0
         then (e1, effective, False)
         else (e1\<lparr>ue_effective_concurrency := effective, ue_base_concurrency := base, ue_updated_at := At now\<rparr>,
               effective, True))"

definition sync_user_membership_by_token_hash ::
    "backend \<Rightarrow> int \<Rightarrow> ustr \<Rightarrow> member_package list result \<Rightarrow> user_world \<Rightarrow> ustr \<Rightarrow> user_world \<times> bool result" where
  "sync_user_membership_by_token_hash b now draw catalog w token_hash =
     (let token_conc = token_concurrency (snd w) token_hash in
      case read_user (fst w) ByTokenHash token_hash of
        None \<Rightarrow> (w, Inr False)
      | Some (key, e) \<Rightarrow>
         (case (if ue_concurrency_reconciled e then Inr [] else catalog) of
            Inl x \<Rightarrow> (w, Inl x)
          | Inr packages \<Rightarrow>
             (case sync_member_entry now draw packages token_conc e of (e', effective, changed) \<Rightarrow>
               if \<not> changed then (w, Inr False)
               else let users' = AList.update key e' (fst w) in
                 case b of
                   Postgres \<Rightarrow>
                     (if token_conc = effective then ((users', snd w), Inr True)
                      else case set_token_concurrency b now (snd w) token_hash effective of
                        Inl x \<Rightarrow> ((users', snd w), Inl x)
                      | Inr (tokens', _) \<Rightarrow> ((users', tokens'), Inr True))
                 | LocalFile \<Rightarrow>
                     (case set_token_concurrency b now (snd w) token_hash effective of
                        Inl x \<Rightarrow> (w, Inl x)
                      | Inr (tokens', _) \<Rightarrow> ((users', tokens'), Inr True)))))"

subsection \<open>The number of tasks at once\<close>

definition set_effective_concurrency :: "backend \<Rightarrow> int \<Rightarrow> ustr \<Rightarrow> int \<Rightarrow> int user_mutator" where
  "set_effective_concurrency b now draw concurrency tokens e =
     (let requested = clamp 1 100 concurrency;
          e1 = sync_entry now draw e;
          (e2, effective) = (case ue_membership e1 of
              None \<Rightarrow> (e1\<lparr>ue_base_concurrency := requested\<rparr>, requested)
            | Some v \<Rightarrow>
               (let e' = sync_entry now draw (e1\<lparr>ue_memberships := update_first (\<lambda>m. ms_id m = ms_id (av_record v))
                      (\<lambda>m. m\<lparr>ms_concurrency := requested\<rparr>) (ue_memberships e1)\<rparr>)
                in (e', case ue_membership e' of None \<Rightarrow> 1 | Some v' \<Rightarrow> membership_concurrency (av_record v'))))
      in case set_token_concurrency b now tokens (ue_token_hash e) effective of
           Inl x \<Rightarrow> Inl x
         | Inr (tokens', _) \<Rightarrow>
             Inr (e2\<lparr>ue_effective_concurrency := effective, ue_updated_at := At now\<rparr>, (tokens', effective), True))"

definition set_user_concurrency :: "backend \<Rightarrow> int \<Rightarrow> ustr \<Rightarrow> user_world \<Rightarrow> ustr \<Rightarrow> int \<Rightarrow> user_world result" where
  "set_user_concurrency b now draw w user_id concurrency =
     map_sum id fst (mutate_user b ById user_id (set_effective_concurrency b now draw concurrency) w)"

text \<open>With PostgreSQL a KeyError of the token too is answered with None.\<close>

definition set_user_concurrency_by_token_hash ::
    "backend \<Rightarrow> int \<Rightarrow> ustr \<Rightarrow> user_world \<Rightarrow> ustr \<Rightarrow> int \<Rightarrow> (user_world \<times> int option) result" where
  "set_user_concurrency_by_token_hash b now draw w token_hash concurrency =
     (case mutate_user b ByTokenHash token_hash (set_effective_concurrency b now draw concurrency) w of
        Inr (w', n) \<Rightarrow> Inr (w', Some n)
      | Inl e \<Rightarrow> (if e = KeyError \<and> (b = Postgres \<or> read_user (fst w) ByTokenHash token_hash = None)
          then Inr (w, None) else Inl e))"

definition set_user_remote_generation_limit ::
    "backend \<Rightarrow> int \<Rightarrow> user_world \<Rightarrow> ustr \<Rightarrow> int \<Rightarrow> (user_world \<times> int) result" where
  "set_user_remote_generation_limit b now w user_id limit =
     (let requested = clamp 1 999 limit in
      case read_user (fst w) ById user_id of
        None \<Rightarrow> Inl KeyError
      | Some (_, e) \<Rightarrow> map_sum id (\<lambda>(tokens', _). ((fst w, tokens'), requested))
          (update_temp_token b now (snd w) (ue_token_hash e) (no_update\<lparr>tu_remote_generation_limit := Some requested\<rparr>)))"

section \<open>Discounts\<close>

text \<open>A discount that cannot be read is left out; other exceptions are passed on.\<close>

definition discount_units :: "amount \<Rightarrow> int option result" where
  "discount_units a = (case nonnegative_points_to_units a of
     Inr n \<Rightarrow> Inr (if 0 < n then Some n else None)
   | Inl (ValueError _) \<Rightarrow> Inr None
   | Inl e \<Rightarrow> Inl e)"

fun normalized_models :: "(ustr \<times> amount) list \<Rightarrow> (ustr, amount) table \<Rightarrow> (ustr, amount) table result" where
  "normalized_models [] acc = Inr acc"
| "normalized_models ((raw_model, raw) # rest) acc =
     (let model = strip raw_model in
      if model = [] then normalized_models rest acc
      else case discount_units raw of
        Inl e \<Rightarrow> Inl e
      | Inr None \<Rightarrow> normalized_models rest acc
      | Inr (Some n) \<Rightarrow> normalized_models rest (AList.update model (Some (units_to_points n)) acc))"

fun normalized_platforms :: "discount_table \<Rightarrow> discount_table \<Rightarrow> discount_table result" where
  "normalized_platforms [] acc = Inr acc"
| "normalized_platforms ((raw_platform, raw_models) # rest) acc =
     (let platform = lower (strip raw_platform) in
      if platform = [] then normalized_platforms rest acc
      else case normalized_models raw_models [] of
        Inl e \<Rightarrow> Inl e
      | Inr models \<Rightarrow> normalized_platforms rest (if models = [] then acc else AList.update platform models acc))"

definition normalized_model_discounts :: "discount_table \<Rightarrow> discount_table result" where
  "normalized_model_discounts value = normalized_platforms value []"

definition units_or_zero :: "amount \<Rightarrow> int result" where
  "units_or_zero a = (case nonnegative_points_to_units a of
     Inl (ValueError _) \<Rightarrow> Inr 0 | r \<Rightarrow> r)"

text \<open>The first configured model whose name agrees, ignoring case.\<close>

definition configured_discount :: "discount_table \<Rightarrow> ustr \<Rightarrow> ustr \<Rightarrow> int result" where
  "configured_discount discounts platform model =
     (case find (\<lambda>(m, _). lower m = lower (strip model))
         (case map_of discounts (lower (strip platform)) of None \<Rightarrow> [] | Some ms \<Rightarrow> ms) of
        None \<Rightarrow> Inr 0
      | Some (_, a) \<Rightarrow> units_or_zero a)"

definition user_discounts :: "(user_entry \<Rightarrow> discount_table) \<Rightarrow> user_table \<Rightarrow> ustr \<Rightarrow> discount_table result" where
  "user_discounts kind users token_hash = (case read_user users ByTokenHash token_hash of
     None \<Rightarrow> Inr [] | Some (_, e) \<Rightarrow> normalized_model_discounts (kind e))"

definition user_model_discount_units_by_token_hash :: "user_table \<Rightarrow> ustr \<Rightarrow> ustr \<Rightarrow> ustr \<Rightarrow> int result" where
  "user_model_discount_units_by_token_hash users token_hash platform model =
     (case user_discounts ue_model_discounts users token_hash of
        Inl e \<Rightarrow> Inl e | Inr ds \<Rightarrow> configured_discount ds platform model)"

definition task_video_quota_discount_units_by_token_hash :: "user_table \<Rightarrow> ustr \<Rightarrow> ustr \<Rightarrow> ustr \<Rightarrow> int result" where
  "task_video_quota_discount_units_by_token_hash users token_hash platform model =
     (case user_discounts ue_quota_discounts users token_hash of
        Inl e \<Rightarrow> Inl e | Inr ds \<Rightarrow> configured_discount ds platform model)"

text \<open>The file branch keeps the memberships it brought up to date.\<close>

definition membership_task_discount_units_by_token_hash ::
    "backend \<Rightarrow> int \<Rightarrow> ustr \<Rightarrow> user_table \<Rightarrow> ustr \<Rightarrow> user_table \<times> int result" where
  "membership_task_discount_units_by_token_hash b now draw users token_hash =
     (case read_user users ByTokenHash token_hash of
        None \<Rightarrow> (users, Inr 0)
      | Some (key, e) \<Rightarrow>
         (let e' = sync_entry now draw e in
          (if b = LocalFile \<and> e' \<noteq> e then AList.update key e' users else users,
           case ue_membership e' of
             None \<Rightarrow> Inr 0
           | Some v \<Rightarrow> units_or_zero (discount_or_default (ms_task_discount (av_record v))))))"

definition task_discount_units_by_token_hash ::
    "backend \<Rightarrow> int \<Rightarrow> ustr \<Rightarrow> user_table \<Rightarrow> ustr \<Rightarrow> ustr \<Rightarrow> ustr \<Rightarrow> user_table \<times> int result" where
  "task_discount_units_by_token_hash b now draw users token_hash platform model =
     (case membership_task_discount_units_by_token_hash b now draw users token_hash of
        (users', Inl e) \<Rightarrow> (users', Inl e)
      | (users', Inr n) \<Rightarrow>
          (users', map_sum id (\<lambda>m. n + m) (user_model_discount_units_by_token_hash users' token_hash platform model)))"

definition set_user_discounts ::
    "((discount_table \<Rightarrow> discount_table) \<Rightarrow> user_entry \<Rightarrow> user_entry) \<Rightarrow> backend \<Rightarrow> int \<Rightarrow> user_world \<Rightarrow> ustr \<Rightarrow>
     discount_table \<Rightarrow> (user_world \<times> discount_table) result" where
  "set_user_discounts upd b now w user_id discounts =
     (case normalized_model_discounts discounts of
        Inl e \<Rightarrow> Inl e
      | Inr ds \<Rightarrow> mutate_user b ById user_id
          (\<lambda>tokens e. Inr ((upd (\<lambda>_. ds) e)\<lparr>ue_updated_at := At now\<rparr>, (tokens, ds), True)) w)"

definition set_user_model_discounts :: "backend \<Rightarrow> int \<Rightarrow> user_world \<Rightarrow> ustr \<Rightarrow> discount_table \<Rightarrow> (user_world \<times> discount_table) result" where
  "set_user_model_discounts = set_user_discounts ue_model_discounts_update"

definition set_user_model_quota_discounts :: "backend \<Rightarrow> int \<Rightarrow> user_world \<Rightarrow> ustr \<Rightarrow> discount_table \<Rightarrow> (user_world \<times> discount_table) result" where
  "set_user_model_quota_discounts = set_user_discounts ue_quota_discounts_update"

section \<open>Listing and repairing\<close>

record user_row =
  ur_id :: ustr
  ur_username :: ustr
  ur_created_at :: stamp
  ur_email :: ustr
  ur_email_verified_at :: stamp
  ur_invitation_code :: ustr
  ur_last_login_at :: stamp
  ur_last_seen_at :: stamp
  ur_online :: bool
  ur_free_remaining :: decimal
  ur_points :: decimal
  ur_used :: int
  ur_enabled :: bool
  ur_token :: ustr
  ur_concurrency :: int
  ur_remote_generation_limit :: int
  ur_base_concurrency :: int
  ur_membership :: "active_view option"

definition user_row :: "int \<Rightarrow> public_token list \<Rightarrow> user_entry \<Rightarrow> user_row" where
  "user_row now temp_entries e =
     (let q = token_by_id temp_entries (ue_token_hash e);
          concurrency = (case q of None \<Rightarrow> 0 | Some t \<Rightarrow> pt_concurrency t);
          remote = (case q of None \<Rightarrow> 0 | Some t \<Rightarrow> pt_remote_generation_limit t);
          seen = stamp_or (ue_last_seen_at e) (ue_created_at e)
      in \<lparr>ur_id = ue_id e, ur_username = ue_username e, ur_created_at = ue_created_at e, ur_email = ue_email e,
          ur_email_verified_at = ue_email_verified_at e, ur_invitation_code = ue_invitation_code e,
          ur_last_login_at = ue_last_login_at e, ur_last_seen_at = ue_last_seen_at e,
          ur_online = (case seen of At t \<Rightarrow> now - t \<le> secs 75 | Unset \<Rightarrow> False),
          ur_free_remaining = fst (shown_balance (Some e) q), ur_points = snd (shown_balance (Some e) q),
          ur_used = (case q of None \<Rightarrow> 0 | Some t \<Rightarrow> max 0 (pt_used t)), ur_enabled = ue_enabled e,
          ur_token = str_or (case q of None \<Rightarrow> [] | Some t \<Rightarrow> pt_token t) (ue_token e),
          ur_concurrency = max 1 (int_or concurrency 1),
          ur_remote_generation_limit = clamp 1 999 (int_or (int_or remote concurrency) 1),
          ur_base_concurrency = max 1 (int_or (int_or (ue_base_concurrency e) concurrency) 1),
          ur_membership = ue_membership e\<rparr>)"

text \<open>
  The whole table is written back when a membership changed. With PostgreSQL nothing holds the
  table between the reading and the writing: \<open>users_then\<close> is the table when it is written.
\<close>

definition list_users ::
    "backend \<Rightarrow> int \<Rightarrow> ustr \<Rightarrow> user_table \<Rightarrow> user_table \<Rightarrow> public_token list \<Rightarrow> user_table \<times> user_row list" where
  "list_users b now draw users users_then temp_entries =
     (let synced = map (\<lambda>(k, e). (k, sync_entry now draw e)) users
      in (if synced = users then users_then else synced,
          sort_desc ur_created_at (map (\<lambda>(_, e). user_row now temp_entries e) synced)))"

fun repair_loop ::
    "(ustr \<Rightarrow> ustr) \<Rightarrow> backend \<Rightarrow> int \<Rightarrow> (ustr \<Rightarrow> ustr list) \<Rightarrow> token_table \<Rightarrow> (ustr \<times> user_entry) list \<Rightarrow> token_table \<Rightarrow>
     ((ustr \<times> user_entry) list \<times> token_table \<times> int) result option"
where
  "repair_loop hash b now draws listed [] tokens = Some (Inr ([], tokens, 0))"
| "repair_loop hash b now draws listed ((k, e) # rest) tokens =
     (let free_limit = max 1 (int_or (ue_free_limit e) 3) in
      if map_of listed (ue_token_hash e) \<noteq> None
      then (case migrate_temp_token b now tokens (ue_token_hash e) free_limit of
          Inl x \<Rightarrow> Some (Inl x)
        | Inr (tokens', migrated) \<Rightarrow> map_option (map_sum id (\<lambda>(es, ts, n). ((k, e) # es, ts, (if migrated then 1 else 0) + n)))
            (repair_loop hash b now draws listed rest tokens'))
      else (case create_temp_tokens hash now (draws k) tokens 1 free_limit 1 (ue_username e) 7 of
          None \<Rightarrow> None
        | Some (tokens', created) \<Rightarrow> map_option (map_sum id (\<lambda>(es, ts, n).
              ((k, e\<lparr>ue_token_hash := pt_id (hd created), ue_token := pt_token (hd created)\<rparr>) # es, ts, 1 + n)))
            (repair_loop hash b now draws listed rest tokens')))"

definition repair_registered_user_tokens ::
    "(ustr \<Rightarrow> ustr) \<Rightarrow> backend \<Rightarrow> int \<Rightarrow> (ustr \<Rightarrow> ustr list) \<Rightarrow> user_table \<Rightarrow> user_world \<Rightarrow> (user_world \<times> int) result option" where
  "repair_registered_user_tokens hash b now draws users_then w =
     map_option (map_sum id (\<lambda>(users', tokens', n). ((if n = 0 then users_then else users', tokens'), n)))
       (repair_loop hash b now draws (snd w) (fst w) (snd w))"

end
