(* ===== verification/Membership_Props.thy ===== *)
theory Membership_Props
  imports Memberships
begin

text \<open>
  Properties of memberships: the loop that picks the active one ends, it neither loses nor makes
  time, and it leaves the best of the memberships that still run as the only active one.
\<close>

section \<open>Searching\<close>

lemma first_index_None: "first_index p xs = None \<longleftrightarrow> (\<forall>i < length xs. \<not> p (xs ! i))"
  by (induction xs) (auto simp: less_Suc_eq_0_disj)

lemma first_index_Some:
  "first_index p xs = Some i \<Longrightarrow> i < length xs \<and> p (xs ! i) \<and> (\<forall>j < i. \<not> p (xs ! j))"
proof (induction xs arbitrary: i)
  case (Cons x xs)
  then show ?case by (cases i) (auto simp: less_Suc_eq_0_disj split: if_splits)
qed simp

lemma argmax_best: "argmax k b xs \<in> set (b # xs) \<and> (\<forall>x \<in> set (b # xs). k x \<le> k (argmax k b xs))"
proof (induction xs arbitrary: b)
  case (Cons x xs)
  from Cons [of "if k b < k x then x else b"] show ?case by (auto split: if_splits)
qed simp

lemma find_first_index: "find p xs = map_option ((!) xs) (first_index p xs)"
  by (induction xs) (auto simp: option.map_comp comp_def)

lemma filter_none: "(\<And>i. i < length xs \<Longrightarrow> \<not> p (xs ! i)) \<Longrightarrow> filter p xs = []"
  by (metis filter_False in_set_conv_nth)

section \<open>The steps on one record\<close>

lemma remaining_time_nonneg [simp]: "0 \<le> remaining_time now m"
  by (simp add: remaining_time_def Let_def split: stamp.split)

lemma remaining_time_steps [simp]:
  "remaining_time now (pause now m) = remaining_time now m"
  "ms_status m \<noteq> MActive \<Longrightarrow> remaining_time now (activate now m) = remaining_time now m"
  "remaining_time now (expire m) = 0"
  using remaining_time_nonneg [of now m]
  by (simp_all add: pause_def activate_def expire_def remaining_time_def Let_def)

lemma rank_steps [simp]:
  "membership_rank (pause now m) = membership_rank m"
  "membership_rank (activate now m) = membership_rank m"
  "membership_rank (expire m) = membership_rank m"
  "membership_rank (m\<lparr>ms_status := s, ms_activated_at := a\<rparr>) = membership_rank m"
  by (simp_all add: pause_def activate_def expire_def membership_rank_def)

lemma active_steps [simp]:
  "\<not> is_active (pause now m)" "is_active (activate now m)" "\<not> is_active (expire m)"
  by (simp_all add: pause_def activate_def expire_def is_active_def)

lemma status_steps [simp]:
  "ms_status (pause now m) = MPaused" "ms_status (activate now m) = MActive" "ms_status (expire m) = MExpired"
  by (simp_all add: pause_def activate_def expire_def)

lemma eligible_steps [simp]:
  "ms_status m \<noteq> MExpired \<Longrightarrow> is_eligible now (pause now m) = is_eligible now m"
  "ms_status m \<noteq> MExpired \<Longrightarrow> ms_status m \<noteq> MActive \<Longrightarrow> is_eligible now (activate now m) = is_eligible now m"
  by (simp_all add: is_eligible_def)

lemma normalize_membership_same [simp]:
  "remaining_time now (normalize_membership now draw m) = remaining_time now m"
  "is_active (normalize_membership now draw m) = is_active m"
  by (simp_all add: normalize_membership_def remaining_time_def is_active_def Let_def split: stamp.split)

section \<open>Rounds\<close>

definition one_active :: "membership list \<Rightarrow> bool" where
  "one_active rs \<longleftrightarrow> (\<forall>i < length rs. \<forall>j < length rs. is_active (rs ! i) \<longrightarrow> is_active (rs ! j) \<longrightarrow> i = j)"

definition same_times :: "int \<Rightarrow> membership list \<Rightarrow> membership list \<Rightarrow> bool" where
  "same_times now rs rs' \<longleftrightarrow> length rs' = length rs \<and>
     (\<forall>i < length rs. remaining_time now (rs' ! i) = remaining_time now (rs ! i))"

text \<open>The best running membership is the active one, and without one nothing is left to run.\<close>

definition best_active :: "int \<Rightarrow> membership list \<Rightarrow> bool" where
  "best_active now rs \<longleftrightarrow> (case first_index is_active rs of
     None \<Rightarrow> \<forall>i < length rs. \<not> is_eligible now (rs ! i)
   | Some a \<Rightarrow> is_eligible now (rs ! a) \<and>
       (\<forall>i < length rs. is_eligible now (rs ! i) \<longrightarrow> membership_rank (rs ! i) \<le> membership_rank (rs ! a)))"

definition active_count :: "membership list \<Rightarrow> nat" where
  "active_count rs = length (filter is_active rs)"

lemma one_active_first:
  "one_active rs \<Longrightarrow> first_index is_active rs = Some i \<Longrightarrow> j < length rs \<Longrightarrow> is_active (rs ! j) \<longleftrightarrow> j = i"
  using first_index_Some [of is_active rs i] by (auto simp: one_active_def)

lemma active_first_index:
  assumes "one_active rs" "a < length rs" "is_active (rs ! a)"
  shows "first_index is_active rs = Some a"
proof (cases "first_index is_active rs")
  case None
  with assms(2,3) show ?thesis by (simp add: first_index_None)
next
  case (Some i)
  with one_active_first [OF assms(1) Some assms(2)] assms(3) show ?thesis by simp
qed

lemma eligible_indexes_set: "set (eligible_indexes now rs) = {i. i < length rs \<and> is_eligible now (rs ! i)}"
  by (auto simp: eligible_indexes_def)

text \<open>A round that goes on expires the active record, so there is one active record less.\<close>

lemma round_again:
  assumes "sync_round now rs = Inl rs'"
  obtains i where "first_index is_active rs = Some i" "remaining_time now (rs ! i) = 0" "rs' = rs[i := expire (rs ! i)]"
proof (cases "first_index is_active rs")
  case None
  with assms show ?thesis by (simp add: sync_round_def Let_def split: list.splits)
next
  case (Some i)
  show ?thesis
  proof (cases "remaining_time now (rs ! i) \<le> 0")
    case True
    with Some assms have "rs' = rs[i := expire (rs ! i)]" by (simp add: sync_round_def)
    moreover have "remaining_time now (rs ! i) = 0" using True remaining_time_nonneg [of now "rs ! i"] by linarith
    ultimately show ?thesis using that Some by blast
  next
    case False
    with Some assms show ?thesis by (simp add: sync_round_def Let_def split: list.splits if_splits)
  qed
qed

lemma filter_update_less:
  "i < length xs \<Longrightarrow> p (xs ! i) \<Longrightarrow> \<not> p y \<Longrightarrow> Suc (length (filter p (xs[i := y]))) = length (filter p xs)"
proof (induction xs arbitrary: i)
  case (Cons x xs)
  then show ?case by (cases i) auto
qed simp

lemma round_again_less:
  assumes "sync_round now rs = Inl rs'"
  shows "Suc (active_count rs') = active_count rs"
proof (rule round_again [OF assms])
  fix i assume "first_index is_active rs = Some i" "rs' = rs[i := expire (rs ! i)]"
  with first_index_Some [of is_active rs i] filter_update_less [of i rs is_active "expire (rs ! i)"]
  show ?thesis by (simp add: active_count_def)
qed

lemma sync_loop_enough: "\<exists>rs'. \<forall>n > active_count rs. sync_loop n now rs = Some rs'"
proof (induction "active_count rs" arbitrary: rs rule: less_induct)
  case less
  show ?case
  proof (cases "sync_round now rs")
    case (Inr rs')
    then have "sync_loop n now rs = Some rs'" if "n > active_count rs" for n
      using that by (cases n) simp_all
    then show ?thesis by blast
  next
    case (Inl rs1)
    note less1 = round_again_less [OF Inl]
    from less.hyps [of rs1] less1 obtain rs' where rs': "\<forall>n > active_count rs1. sync_loop n now rs1 = Some rs'" by auto
    have "sync_loop n now rs = Some rs'" if "n > active_count rs" for n
      using that rs' less1 Inl by (cases n) simp_all
    then show ?thesis by blast
  qed
qed

lemma sync_loop_exists: "active_count rs < n \<Longrightarrow> \<exists>rs'. sync_loop n now rs = Some rs'"
  using sync_loop_enough [of rs now] by blast

text \<open>C38: The loop that picks the active membership ends: it goes round at most once more than
  there are active records, and allowing it more rounds changes nothing.\<close>

theorem sync_loop_terminates:
  assumes "active_count rs < n"
  shows "\<exists>rs'. sync_loop n now rs = Some rs' \<and> sync_loop (Suc (length rs)) now rs = Some rs'"
proof -
  have "active_count rs < Suc (length rs)" by (simp add: active_count_def le_imp_less_Suc)
  with sync_loop_enough [of rs now] assms show ?thesis by blast
qed

section \<open>What a round keeps\<close>

lemma round_again_keeps:
  assumes "sync_round now rs = Inl rs'" "one_active rs"
  shows "same_times now rs rs' \<and> one_active rs'"
proof (rule round_again [OF assms(1)])
  fix i assume i: "first_index is_active rs = Some i" "remaining_time now (rs ! i) = 0" and rs': "rs' = rs[i := expire (rs ! i)]"
  have "i < length rs" using first_index_Some [OF i(1)] by simp
  have none: "\<not> is_active (rs' ! j)" if "j < length rs" for j
    using that one_active_first [OF assms(2) i(1) that] by (cases "j = i") (simp_all add: rs')
  have "remaining_time now (rs' ! j) = remaining_time now (rs ! j)" if "j < length rs" for j
    using that i(2) by (cases "j = i") (simp_all add: rs')
  with none show ?thesis by (simp add: same_times_def one_active_def rs')
qed

lemma best_of:
  assumes "eligible_indexes now rs = e # es" "h = argmax (\<lambda>j. membership_rank (rs ! j)) e es"
  shows "h < length rs \<and> is_eligible now (rs ! h) \<and>
    (\<forall>i < length rs. is_eligible now (rs ! i) \<longrightarrow> membership_rank (rs ! i) \<le> membership_rank (rs ! h))"
  using argmax_best [of "\<lambda>j. membership_rank (rs ! j)" e es] eligible_indexes_set [of now rs]
  unfolding assms(1) assms(2) [symmetric] by blast

text \<open>Activating the best record, when no record is active any more.\<close>

lemma activate_best:
  assumes none: "\<forall>i < length rs. \<not> is_active (rs ! i)"
    and h: "h < length rs" "is_eligible now (rs ! h)"
    and best: "\<forall>i < length rs. is_eligible now (rs ! i) \<longrightarrow> membership_rank (rs ! i) \<le> membership_rank (rs ! h)"
  shows "same_times now rs (rs[h := activate now (rs ! h)]) \<and> one_active (rs[h := activate now (rs ! h)]) \<and>
    best_active now (rs[h := activate now (rs ! h)])"
proof -
  let ?rs = "rs[h := activate now (rs ! h)]"
  have st: "ms_status (rs ! h) \<noteq> MActive" "ms_status (rs ! h) \<noteq> MExpired"
    using none h by (auto simp: is_active_def is_eligible_def)
  have act: "is_active (?rs ! i) \<longleftrightarrow> i = h" if "i < length rs" for i
    using that none h by (cases "i = h") simp_all
  have el: "is_eligible now (?rs ! i) = is_eligible now (rs ! i)"
    "membership_rank (?rs ! i) = membership_rank (rs ! i)"
    "remaining_time now (?rs ! i) = remaining_time now (rs ! i)" if "i < length rs" for i
    using that st by (cases "i = h"; simp)+
  have one: "one_active ?rs" using act by (simp add: one_active_def)
  have "first_index is_active ?rs = Some h"
    by (rule active_first_index [OF one]) (use h act in simp_all)
  moreover have "is_eligible now (?rs ! h)" unfolding el(1) [OF h(1)] by (rule h(2))
  moreover have "membership_rank (?rs ! i) \<le> membership_rank (?rs ! h)"
    if "i < length ?rs" "is_eligible now (?rs ! i)" for i
  proof -
    from that(1) have i: "i < length rs" by simp
    from that(2) best i show ?thesis unfolding el(1) [OF i] el(2) [OF i] el(2) [OF h(1)] by blast
  qed
  ultimately have "best_active now ?rs" unfolding best_active_def by simp
  with one el show ?thesis by (simp add: same_times_def)
qed

lemma round_stop_keeps:
  assumes "sync_round now rs = Inr rs'" "one_active rs"
  shows "same_times now rs rs' \<and> one_active rs' \<and> best_active now rs'"
proof (cases "first_index is_active rs")
  case None
  then have none: "\<forall>i < length rs. \<not> is_active (rs ! i)" by (simp add: first_index_None)
  show ?thesis
  proof (cases "eligible_indexes now rs")
    case Nil
    with assms(1) None have rs': "rs' = rs" by (simp add: sync_round_def)
    have "\<forall>i < length rs. \<not> is_eligible now (rs ! i)" using eligible_indexes_set [of now rs] Nil by auto
    with None assms(2) rs' show ?thesis by (simp add: best_active_def same_times_def)
  next
    case (Cons e es)
    let ?h = "argmax (\<lambda>j. membership_rank (rs ! j)) e es"
    from assms(1) None Cons have rs': "rs' = rs[?h := activate now (rs ! ?h)]" by (simp add: sync_round_def Let_def)
    from best_of [OF Cons refl] activate_best [OF none, of ?h now] show ?thesis unfolding rs' by blast
  qed
next
  case (Some i)
  have i: "i < length rs" "is_active (rs ! i)" using first_index_Some [OF Some] by simp_all
  have pos: "0 < remaining_time now (rs ! i)" using assms(1) Some by (simp add: sync_round_def split: if_splits)
  with i have "is_eligible now (rs ! i)" by (simp add: is_eligible_def is_active_def)
  with i have "i \<in> set (eligible_indexes now rs)" by (simp add: eligible_indexes_set)
  then obtain e es where el: "eligible_indexes now rs = e # es" by (cases "eligible_indexes now rs") auto
  obtain h where hdef: "h = argmax (\<lambda>j. membership_rank (rs ! j)) e es" by blast
  note h = best_of [OF el hdef]
  let ?rs = "rs[i := pause now (rs ! i)]"
  have le: "\<not> remaining_time now (rs ! i) \<le> 0" using pos by simp
  note round = assms(1) [unfolded sync_round_def Some option.case(2) if_not_P [OF le] el list.case(2) Let_def hdef [symmetric]]
  show ?thesis
  proof (cases "h = i")
    case True
    from round [unfolded if_P [OF True]] have "rs' = rs" by simp
    moreover have "best_active now rs" unfolding best_active_def Some option.case(2) using h True by blast
    ultimately show ?thesis using assms(2) by (simp add: same_times_def)
  next
    case False
    from round [unfolded if_not_P [OF False]] have rs': "rs' = ?rs[h := activate now (?rs ! h)]"
      by (simp only: sum.inject)
    have st: "ms_status (rs ! i) \<noteq> MExpired" using i by (simp add: is_active_def)
    have none: "\<forall>j < length ?rs. \<not> is_active (?rs ! j)"
    proof (intro allI impI)
      fix j assume "j < length ?rs"
      then show "\<not> is_active (?rs ! j)"
        using one_active_first [OF assms(2) Some, of j] by (cases "j = i") simp_all
    qed
    have same: "is_eligible now (?rs ! j) = is_eligible now (rs ! j)"
      "membership_rank (?rs ! j) = membership_rank (rs ! j)"
      "remaining_time now (?rs ! j) = remaining_time now (rs ! j)" if "j < length rs" for j
      using that st by (cases "j = i"; simp)+
    have "same_times now ?rs rs' \<and> one_active rs' \<and> best_active now rs'"
      unfolding rs'
    proof (rule activate_best [OF none])
      show "h < length ?rs" using h by simp
      show "is_eligible now (?rs ! h)" using same(1) [of h] h by blast
      show "\<forall>j < length ?rs. is_eligible now (?rs ! j) \<longrightarrow> membership_rank (?rs ! j) \<le> membership_rank (?rs ! h)"
        using same(1,2) h by (metis length_list_update)
    qed
    moreover have "same_times now rs ?rs" using same(3) by (simp add: same_times_def)
    ultimately show ?thesis by (simp add: same_times_def)
  qed
qed

lemma loop_keeps:
  assumes "sync_loop n now rs = Some rs'" "one_active rs"
  shows "same_times now rs rs' \<and> one_active rs' \<and> best_active now rs'"
  using assms
proof (induction n arbitrary: rs)
  case (Suc n)
  show ?case
  proof (cases "sync_round now rs")
    case (Inr r)
    with Suc.prems round_stop_keeps [OF Inr] show ?thesis by simp
  next
    case (Inl r)
    note k = round_again_keeps [OF Inl Suc.prems(2)]
    from Suc.prems(1) Inl have "sync_loop n now r = Some rs'" by simp
    from Suc.IH [OF this] k show ?thesis by (simp add: same_times_def)
  qed
qed simp

lemma pause_others_keeps:
  assumes "one_active rs" "best_active now rs"
  shows "same_times now rs (pause_others rs) \<and> one_active (pause_others rs) \<and> best_active now (pause_others rs)"
proof -
  have nth: "pause_others rs ! i = (if first_index is_active rs = Some i \<or> ms_status (rs ! i) = MExpired then rs ! i
      else (rs ! i)\<lparr>ms_status := MPaused, ms_activated_at := Unset\<rparr>)" if "i < length rs" for i
    using that by (simp add: pause_others_def Let_def)
  have len: "length (pause_others rs) = length rs" by (simp add: pause_others_def Let_def)
  have same: "remaining_time now (pause_others rs ! i) = remaining_time now (rs ! i) \<and>
      is_active (pause_others rs ! i) = is_active (rs ! i) \<and>
      is_eligible now (pause_others rs ! i) = is_eligible now (rs ! i) \<and>
      membership_rank (pause_others rs ! i) = membership_rank (rs ! i)" if "i < length rs" for i
  proof (cases "first_index is_active rs = Some i \<or> ms_status (rs ! i) = MExpired")
    case True
    with nth [OF that] show ?thesis by simp
  next
    case False
    have "\<not> is_active (rs ! i)" using False active_first_index [OF assms(1) that] by blast
    with nth [OF that] False show ?thesis
      by (simp add: is_active_def is_eligible_def remaining_time_def Let_def)
  qed
  have one: "one_active (pause_others rs)" using assms(1) same by (simp add: one_active_def len)
  have "first_index is_active (pause_others rs) = first_index is_active rs"
  proof (cases "first_index is_active rs")
    case None
    then have "first_index is_active (pause_others rs) = None"
      using same unfolding first_index_None len by blast
    with None show ?thesis by simp
  next
    case (Some a)
    then show ?thesis using first_index_Some [OF Some] same active_first_index [OF one, of a] by (simp add: len)
  qed
  then have "best_active now (pause_others rs)"
    using assms(2) same first_index_Some [of is_active rs] by (auto simp: best_active_def len split: option.splits)
  with one same show ?thesis by (simp add: same_times_def len)
qed

lemma sync_state_keeps:
  assumes "one_active (stored_records now draw ms legacy)"
    and "sync_membership_state now draw ms legacy = (rs, v)"
  shows "same_times now (stored_records now draw ms legacy) rs" "one_active rs" "best_active now rs" "v = view_of now rs"
proof -
  let ?s = "stored_records now draw ms legacy"
  have "active_count ?s < Suc (length ?s)" by (simp add: active_count_def le_imp_less_Suc)
  from sync_loop_exists [OF this, of now] obtain rs0 where l: "sync_loop (Suc (length ?s)) now ?s = Some rs0" by blast
  note k = loop_keeps [OF l assms(1)]
  have "(pause_others rs0, view_of now (pause_others rs0)) = (rs, v)"
    using assms(2) unfolding sync_membership_state_def Let_def l option.case(2) .
  then have rs: "rs = pause_others rs0" and v: "v = view_of now rs" by auto
  have "one_active rs0" "best_active now rs0" using k by simp_all
  from pause_others_keeps [OF this] k
  show "same_times now ?s rs" "one_active rs" "best_active now rs" "v = view_of now rs"
    by (simp_all add: rs v same_times_def)
qed

text \<open>C37: Bringing a user's memberships up to date keeps the time every one of them has left, leaves
  at most one active, and that is the one of highest price among those with time left; without an
  active one, none has time left.\<close>

theorem membership_sync_keeps_time:
  assumes "ms \<noteq> []" "one_active ms" "sync_membership_state now draw ms legacy = (rs, v)"
  shows "map (remaining_time now) rs = map (remaining_time now) ms \<and>
    (case v of
      None \<Rightarrow> filter is_active rs = [] \<and> (\<forall>i < length rs. \<not> is_eligible now (rs ! i))
    | Some a \<Rightarrow> filter is_active rs = [av_record a] \<and> 0 < remaining_time now (av_record a) \<and>
        av_effective_concurrency a = membership_concurrency (av_record a) \<and>
        (\<forall>i < length rs. is_eligible now (rs ! i) \<longrightarrow> membership_rank (rs ! i) \<le> membership_rank (av_record a)))"
proof -
  have st: "stored_records now draw ms legacy = map (normalize_membership now draw) ms"
    using assms(1) by (simp add: stored_records_def)
  have "one_active (stored_records now draw ms legacy)"
    using assms(2) by (simp add: st one_active_def)
  note k = sync_state_keeps [OF this assms(3)]
  have "map (remaining_time now) rs = map (remaining_time now) ms"
    using k(1) by (simp add: same_times_def st list_eq_iff_nth_eq)
  moreover have "case v of
      None \<Rightarrow> filter is_active rs = [] \<and> (\<forall>i < length rs. \<not> is_eligible now (rs ! i))
    | Some a \<Rightarrow> filter is_active rs = [av_record a] \<and> 0 < remaining_time now (av_record a) \<and>
        av_effective_concurrency a = membership_concurrency (av_record a) \<and>
        (\<forall>i < length rs. is_eligible now (rs ! i) \<longrightarrow> membership_rank (rs ! i) \<le> membership_rank (av_record a))"
  proof (cases "first_index is_active rs")
    case None
    then have v: "v = None" by (simp add: k(4) view_of_def find_first_index)
    have "filter is_active rs = []"
      by (rule filter_none) (use None in \<open>simp add: first_index_None\<close>)
    moreover have "\<forall>i < length rs. \<not> is_eligible now (rs ! i)"
      using k(3) unfolding best_active_def None option.case(1) .
    ultimately show ?thesis unfolding v option.case(1) by blast
  next
    case (Some i)
    note i = first_index_Some [OF Some]
    from Some obtain a where v: "v = Some a" and a: "av_record a = rs ! i"
      "av_effective_concurrency a = membership_concurrency (rs ! i)"
      by (simp add: k(4) view_of_def find_first_index)
    have el: "is_eligible now (rs ! i)" and best: "\<forall>j < length rs. is_eligible now (rs ! j) \<longrightarrow>
        membership_rank (rs ! j) \<le> membership_rank (rs ! i)"
      using k(3) unfolding best_active_def Some option.case(2) by blast+
    have "filter is_active rs = [rs ! i]"
    proof -
      have "rs = take i rs @ rs ! i # drop (Suc i) rs" using i by (simp add: id_take_nth_drop)
      moreover have "filter is_active (take i rs) = []"
        by (rule filter_none) (use i in simp)
      moreover have "filter is_active (drop (Suc i) rs) = []"
        by (rule filter_none) (use one_active_first [OF k(2) Some] in simp)
      ultimately show ?thesis using i by (metis append_Nil filter.simps(2) filter_append)
    qed
    moreover have "0 < remaining_time now (rs ! i)" using el by (simp add: is_eligible_def)
    ultimately show ?thesis unfolding v option.case(2) a using best by blast
  qed
  ultimately show ?thesis by blast
qed

text \<open>A running membership and a dearer one just bought, and one that has run out.\<close>

definition example_member :: "ustr \<Rightarrow> int \<Rightarrow> member_status \<Rightarrow> int \<Rightarrow> membership" where
  "example_member i price status left = \<lparr>ms_id = i, ms_package_id = i, ms_name = i, ms_cost_units = None,
     ms_points_cost = Some (Fin price 0), ms_duration_days = 10, ms_remaining = left, ms_status = status,
     ms_activated_at = (if status = MActive then At 0 else Unset), ms_purchased_at = At 0, ms_concurrency = price,
     ms_concurrency_bonus = 0, ms_bonus_free_uses = 0, ms_task_discount = None\<rparr>"

definition example_members :: "membership list" where
  "example_members = [example_member (u ''basic'') 1 MActive (days 10), example_member (u ''gold'') 3 MPaused (days 5)]"

definition example_ended :: "membership list" where
  "example_ended = [example_member (u ''basic'') 1 MActive (days 1), example_member (u ''gold'') 3 MPaused (days 5)]"

theorem sync_loop_terminates_witness:
  "active_count example_ended < 2 \<and> sync_loop 1 (days 2) example_ended = None \<and>
   (\<exists>rs. sync_loop 2 (days 2) example_ended = Some rs \<and> map ms_status rs = [MExpired, MActive])"
proof -
  have a: "active_count example_ended < 2" "sync_loop 1 (days 2) example_ended = None"
    "map ms_status (the (sync_loop 2 (days 2) example_ended)) = [MExpired, MActive]" by code_simp+
  from sync_loop_terminates [OF a(1), of "days 2"] obtain rs where "sync_loop 2 (days 2) example_ended = Some rs" by blast
  with a show ?thesis by (simp del: sync_loop.simps)
qed

theorem membership_sync_keeps_time_witness:
  "one_active example_members \<and>
   (\<exists>rs a. sync_membership_state (days 2) [] example_members None = (rs, Some a) \<and>
     map (remaining_time (days 2)) rs = [days 8, days 5] \<and> ms_id (av_record a) = u ''gold'' \<and>
     filter is_active rs = [av_record a])"
proof -
  have one: "one_active example_members"
    by (auto simp: one_active_def example_members_def example_member_def is_active_def less_Suc_eq)
  obtain rs v where sync: "sync_membership_state (days 2) [] example_members None = (rs, v)" by fastforce
  have ne: "example_members \<noteq> []" by (simp add: example_members_def)
  note k = membership_sync_keeps_time [OF ne one sync]
  have "map_option (\<lambda>a. ms_id (av_record a)) (snd (sync_membership_state (days 2) [] example_members None)) = Some (u ''gold'')"
    by code_simp
  then obtain a where v: "v = Some a" and a: "ms_id (av_record a) = u ''gold''" by (auto simp: sync)
  have "map (remaining_time (days 2)) example_members = [days 8, days 5]" by code_simp
  with k v have "map (remaining_time (days 2)) rs = [days 8, days 5]" "filter is_active rs = [av_record a]" by simp_all
  with one sync [unfolded v] a show ?thesis by (intro conjI exI [of _ rs] exI [of _ a])
qed

end
