(* ===== verification/User_Props.thy ===== *)
theory User_Props
  imports User_Billing Membership_Props
begin

text \<open>
  Properties of user accounts: names and addresses stay unique through registration, changes and
  deletion, a login needs the stored password of an enabled user, changing it moves the balances
  to a new token and retires the old one, memberships set the number of tasks at once, and
  discounts are kept in a normal form.
\<close>

section \<open>Unique names and addresses\<close>

definition emails :: "user_table \<Rightarrow> ustr list" where
  "emails users = filter (\<lambda>e. e \<noteq> []) (map (\<lambda>row. lower (ue_email (snd row))) users)"

definition users_ok :: "user_table \<Rightarrow> bool" where
  "users_ok users \<longleftrightarrow> distinct (map fst users) \<and> (\<forall>k \<in> set (map fst users). lower k = k) \<and> distinct (emails users)"

lemma lower_Nil_iff [simp]: "lower s = [] \<longleftrightarrow> s = []"
  by (simp add: lower_def)

lemma emails_append [simp]: "emails (as @ bs) = emails as @ emails bs"
  by (simp add: emails_def)

lemma emails_Cons [simp]:
  "emails ((k, e) # bs) = (if ue_email e = [] then emails bs else lower (ue_email e) # emails bs)"
  by (simp add: emails_def)

lemma emails_Nil [simp]: "emails [] = []"
  by (simp add: emails_def)

lemma in_emails: "lower x \<in> set (emails users) \<longleftrightarrow> x \<noteq> [] \<and> (\<exists>row \<in> set users. lower (ue_email (snd row)) = lower x)"
  by (simp add: emails_def image_iff eq_commute [of "lower x"]) blast

lemma users_ok_insert:
  assumes ok: "users_ok users" and new: "map_of users k = None" and low: "lower k = k"
    and email: "ue_email e \<noteq> [] \<Longrightarrow> \<not> email_used users (ue_email e)"
  shows "users_ok (AList.update k e users)"
proof -
  have "k \<notin> set (map fst users)" using new by (simp add: map_of_eq_None_iff)
  moreover have "lower (ue_email e) \<notin> set (emails users)" if "ue_email e \<noteq> []"
    using email [OF that] by (simp add: in_emails email_used_def)
  ultimately show ?thesis
    using ok low unfolding users_ok_def update_new [OF new] by (auto split: if_splits)
qed

text \<open>Changing a row without touching its key, when the address stays or is not used elsewhere.\<close>

lemma update_split:
  assumes "map_of users k = Some e" "distinct (map fst users)"
  obtains as bs where "users = as @ (k, e) # bs" "k \<notin> set (map fst as)" "k \<notin> set (map fst bs)"
    "\<And>e'. AList.update k e' users = as @ (k, e') # bs"
proof -
  have "(k, e) \<in> set users" using assms(1) by (rule map_of_SomeD)
  then obtain as bs where sp: "users = as @ (k, e) # bs" by (auto simp: in_set_conv_decomp)
  with assms(2) have k: "k \<notin> set (map fst as)" "k \<notin> set (map fst bs)" by auto
  have "AList.update k e' (as @ (k, e) # bs) = as @ (k, e') # bs" for e'
    using k(1) by (induction as) auto
  with sp k that show ?thesis by blast
qed

lemma users_ok_change:
  assumes ok: "users_ok users" and row: "map_of users k = Some e"
    and email: "lower (ue_email e') = lower (ue_email e) \<or>
      (\<forall>row \<in> set users. fst row \<noteq> k \<longrightarrow> ue_email e' \<noteq> [] \<longrightarrow> lower (ue_email (snd row)) \<noteq> lower (ue_email e'))"
  shows "users_ok (AList.update k e' users)"
proof -
  have "distinct (map fst users)" using ok by (simp add: users_ok_def)
  from update_split [OF row this] obtain as bs where sp: "users = as @ (k, e) # bs"
    and k: "k \<notin> set (map fst as)" "k \<notin> set (map fst bs)" and upd: "AList.update k e' users = as @ (k, e') # bs" by metis
  have ok': "users_ok (as @ (k, e) # bs)" using ok sp by simp
  have new: "lower (ue_email e') \<notin> set (emails as) \<union> set (emails bs)" if "ue_email e' \<noteq> []"
  proof (cases "lower (ue_email e') = lower (ue_email e)")
    case True
    with that have "ue_email e \<noteq> []" by (metis lower_Nil_iff)
    with ok' show ?thesis unfolding True users_ok_def by auto
  next
    case False
    with email that have all: "\<forall>row \<in> set users. fst row \<noteq> k \<longrightarrow> lower (ue_email (snd row)) \<noteq> lower (ue_email e')" by blast
    have "lower (ue_email (snd row)) \<noteq> lower (ue_email e')" if "row \<in> set as \<or> row \<in> set bs" for row
    proof -
      from that k have "fst row \<noteq> k" by (metis image_eqI set_map)
      moreover have "row \<in> set users" using that sp by auto
      ultimately show ?thesis using all by blast
    qed
    then show ?thesis by (auto simp: in_emails)
  qed
  have "distinct (emails as @ emails bs)" using ok' by (auto simp: users_ok_def split: if_splits)
  with new have "distinct (emails (as @ (k, e') # bs))" by (cases "ue_email e' = []") auto
  with ok' have "users_ok (as @ (k, e') # bs)" by (simp add: users_ok_def)
  with upd show ?thesis by simp
qed

lemma users_ok_delete: "users_ok users \<Longrightarrow> users_ok (AList.delete k users)"
proof (induction users)
  case (Cons row users)
  obtain i e where row: "row = (i, e)" by (cases row)
  have sub: "set (emails (AList.delete k us)) \<subseteq> set (emails us)" for us
    by (auto simp: emails_def AList.delete_eq)
  have keys: "fst ` set (AList.delete k users) \<subseteq> fst ` set users"
    by (auto simp: AList.delete_eq)
  from Cons have ih: "users_ok (AList.delete k users)" and ok: "users_ok ((i, e) # users)"
    by (auto simp: row users_ok_def split: if_splits)
  have low: "\<forall>x \<in> fst ` set (AList.delete k users). lower x = x" using ih by (simp add: users_ok_def)
  have "users_ok ((i, e) # AList.delete k users)"
    using ih ok keys sub [of users] low unfolding users_ok_def by (auto split: if_splits)
  with ih show ?case by (simp add: row)
qed (simp add: users_ok_def)

section \<open>Registration\<close>

lemma create_one:
  assumes "create_loop hash mk 1 draws tokens [] = Some (tokens', created)"
  shows "\<exists>t. map_of tokens (hash t) = None \<and> tokens' = AList.update (hash t) (mk t) tokens \<and>
    created = [public_token (hash t) (mk t)]"
  using assms
proof (induction draws)
  case (Cons d draws)
  show ?case
  proof (cases "map_of tokens (hash (u ''tmp_'' @ d)) = None")
    case True
    with Cons.prems show ?thesis by (intro exI [of _ "u ''tmp_'' @ d"]) (simp add: Let_def)
  next
    case False
    with Cons.prems have "create_loop hash mk 1 draws tokens [] = Some (tokens', created)" by (simp add: Let_def)
    then show ?thesis by (rule Cons.IH)
  qed
qed simp

lemma create_temp_token:
  assumes "create_temp_tokens hash now draws tokens 1 limit concurrency remark retention = Some (tokens', created)"
  obtains t e where "map_of tokens (hash t) = None" "tokens' = AList.update (hash t) e tokens"
    "created = [public_token (hash t) e]" "te_token e = t"
proof -
  let ?mk = "\<lambda>token. new_entry now token (clamp 1 100000 limit) (clamp 1 MAX_TEMP_TOKEN_CONCURRENCY concurrency)
      (normalize_retention_days retention) (take 100 remark)"
  have "create_loop hash ?mk 1 draws tokens [] = Some (tokens', created)"
    using assms by (simp add: create_temp_tokens_def clamp_def)
  from create_one [OF this] obtain t where t: "map_of tokens (hash t) = None" "tokens' = AList.update (hash t) (?mk t) tokens"
    "created = [public_token (hash t) (?mk t)]" by blast
  have "te_token (?mk t) = t" by (simp add: new_entry_def)
  with t that show ?thesis by blast
qed

lemma create_deleted:
  assumes "map_of tokens k = None" "normalized_hash k = k"
  shows "map_of (fst (delete_temp_token (AList.update k e tokens) k)) = map_of tokens"
  using assms by (simp add: delete_temp_token_def Let_def delete_conv' update_conv' fun_eq_iff)


text \<open>A registration that another process overtakes: the token it had made is deleted again.\<close>

definition example_hash :: "ustr \<Rightarrow> ustr" where
  "example_hash t = lower (strip t)"

definition example_kdf :: "ustr \<Rightarrow> ustr \<Rightarrow> ustr" where
  "example_kdf password salt = password @ salt"

definition example_registration :: registration where
  "example_registration = \<lparr>rg_username = u ''Alice'', rg_password = u ''secret-1'', rg_email = u ''a@b.c'',
     rg_invitation_code = []\<rparr>"

definition example_user :: user_entry where
  "example_user = new_user example_kdf 1 (u ''id1'') (u ''00'') example_registration
     (public_token (u ''tmp_x'') (new_entry 1 (u ''tmp_x'') 1 1 7 (u ''Alice'')))"

lemma example_hash_normal: "\<forall>x. normalized_hash (example_hash x) = example_hash x"
  by (simp add: normalized_hash_def example_hash_def strip_lower)


section \<open>Logging in and changing the password\<close>

lemma run_login_mut:
  assumes "run_row b x users key (login_mut now salt expected) = Inr (users', Some li)"
  obtains e where "map_of users key = Some e" "ue_enabled e" "ue_password_salt e = salt" "ue_password_hash e = expected"
    "li = \<lparr>li_username = ue_username e, li_token = ue_token e\<rparr>"
    "users' = AList.update key (e\<lparr>ue_last_login_at := At now, ue_last_seen_at := At now\<rparr>) users"
proof (cases "map_of users key")
  case None
  with assms show ?thesis by (simp add: any_rows.run_missing)
next
  case (Some e)
  note run = assms [unfolded run_row_def pg_mutate_def file_mutate_def]
  show ?thesis
  proof (cases "\<not> ue_enabled e \<or> ue_password_salt e \<noteq> salt \<or> ue_password_hash e \<noteq> expected")
    case True
    then have "login_mut now salt expected e = Inr (e, None, False)" by (simp add: login_mut_def)
    with run Some show ?thesis by (cases b) simp_all
  next
    case False
    then have "login_mut now salt expected e = Inr (e\<lparr>ue_last_login_at := At now, ue_last_seen_at := At now\<rparr>,
        Some \<lparr>li_username = ue_username e, li_token = ue_token e\<rparr>, True)" by (simp add: login_mut_def)
    with run Some have "users' = AList.update key (e\<lparr>ue_last_login_at := At now, ue_last_seen_at := At now\<rparr>) users"
      "li = \<lparr>li_username = ue_username e, li_token = ue_token e\<rparr>" by (cases b; simp)+
    with False Some that show ?thesis by simp
  qed
qed

text \<open>C40: A login that succeeds names a user who, when the visit is written, is enabled and has a
  password hash that the given password matches; it returns that user's token and changes nothing
  but the times of the visit.\<close>

theorem login_safe:
  assumes "login_user kdf b now users users_then identifier password = Inr (users', Some li)"
  shows "\<exists>key e. map_of users_then key = Some e \<and> ue_enabled e \<and>
    kdf password (ue_password_salt e) = ue_password_hash e \<and>
    (\<exists>e0. find_login users (lower (strip identifier)) = Some (key, e0) \<and> ue_enabled e0) \<and>
    li = \<lparr>li_username = ue_username e, li_token = ue_token e\<rparr> \<and>
    users' = AList.update key (e\<lparr>ue_last_login_at := At now, ue_last_seen_at := At now\<rparr>) users_then"
proof (cases "find_login users (lower (strip identifier))")
  case None
  with assms show ?thesis by (simp add: login_user_def)
next
  case (Some row)
  obtain key e0 where row: "row = (key, e0)" by (cases row)
  show ?thesis
  proof (cases "\<not> ue_enabled e0 \<or> \<not> from_hex (ue_password_salt e0) \<or> kdf password (ue_password_salt e0) \<noteq> ue_password_hash e0")
    case True
    have "login_user kdf b now users users_then identifier password = Inr (users_then, None)"
      unfolding login_user_def Some row option.case(2) prod.case if_P [OF True] by (rule refl)
    with assms show ?thesis by simp
  next
    case False
    then have kdf: "kdf password (ue_password_salt e0) = ue_password_hash e0" and en: "ue_enabled e0" by simp_all
    have "\<exists>b. run_row b KeyError users_then key (login_mut now (ue_password_salt e0) (ue_password_hash e0)) = Inr (users', Some li)"
      using assms unfolding login_user_def Some row option.case(2) prod.case if_not_P [OF False]
      by (cases b) (auto split: if_splits)
    then obtain b' where run: "run_row b' KeyError users_then key (login_mut now (ue_password_salt e0) (ue_password_hash e0)) = Inr (users', Some li)"
      by blast
    obtain e where e: "map_of users_then key = Some e" "ue_enabled e" "ue_password_salt e = ue_password_salt e0"
      "ue_password_hash e = ue_password_hash e0" "li = \<lparr>li_username = ue_username e, li_token = ue_token e\<rparr>"
      "users' = AList.update key (e\<lparr>ue_last_login_at := At now, ue_last_seen_at := At now\<rparr>) users_then"
      by (rule run_login_mut [OF run])
    have "\<exists>e0. find_login users (lower (strip identifier)) = Some (key, e0) \<and> ue_enabled e0"
      using Some row en by blast
    with e kdf show ?thesis by (intro exI [of _ key] exI [of _ e]) simp
  qed
qed

text \<open>The user changed the password while the old one was being checked: the login fails.\<close>

theorem login_safe_witness:
  "login_user example_kdf Postgres 2 [(u ''alice'', example_user)] [(u ''alice'', example_user)] (u ''A@b.c'') (u ''secret-1'')
     = Inr ([(u ''alice'', example_user\<lparr>ue_last_login_at := At 2, ue_last_seen_at := At 2\<rparr>)],
         Some \<lparr>li_username = u ''Alice'', li_token = u ''tmp_x''\<rparr>) \<and>
   (\<exists>key e. map_of [(u ''alice'', example_user)] key = Some e \<and>
     example_kdf (u ''secret-1'') (ue_password_salt e) = ue_password_hash e) \<and>
   login_user example_kdf Postgres 2 [(u ''alice'', example_user)] [(u ''alice'', example_user\<lparr>ue_password_hash := []\<rparr>)]
     (u ''alice'') (u ''secret-1'') = Inr ([(u ''alice'', example_user\<lparr>ue_password_hash := []\<rparr>)], None)"
proof -
  have run: "login_user example_kdf Postgres 2 [(u ''alice'', example_user)] [(u ''alice'', example_user)] (u ''A@b.c'') (u ''secret-1'')
     = Inr ([(u ''alice'', example_user\<lparr>ue_last_login_at := At 2, ue_last_seen_at := At 2\<rparr>)],
         Some \<lparr>li_username = u ''Alice'', li_token = u ''tmp_x''\<rparr>)" by code_simp
  moreover have "login_user example_kdf Postgres 2 [(u ''alice'', example_user)] [(u ''alice'', example_user\<lparr>ue_password_hash := []\<rparr>)]
     (u ''alice'') (u ''secret-1'') = Inr ([(u ''alice'', example_user\<lparr>ue_password_hash := []\<rparr>)], None)" by code_simp
  moreover from login_safe [OF run] have "\<exists>key e. map_of [(u ''alice'', example_user)] key = Some e \<and>
     example_kdf (u ''secret-1'') (ue_password_salt e) = ue_password_hash e" by blast
  ultimately show ?thesis by blast
qed

lemma rotate_for_Inr:
  assumes "rotate_for hash now draws (users, tokens) key token_hash entry = Some (Inr ((users', tokens'), li))"
  obtains t new where "map_of tokens (normalized_hash token_hash) = Some t" "map_of tokens (hash new) = None"
    "users' = AList.update key (entry\<lparr>ue_token_hash := hash new, ue_token := new\<rparr>) users"
    "tokens' = AList.delete (normalized_hash token_hash) (AList.update (hash new) (t\<lparr>te_token := new, te_updated_at := At now\<rparr>) tokens)"
    "li = \<lparr>li_username = ue_username entry, li_token = new\<rparr>"
proof -
  have fresh: "fresh_token hash tokens draws = Some new \<Longrightarrow> map_of tokens (hash new) = None" for new
    by (induction draws) (auto split: if_splits)
  show ?thesis
  proof (cases "map_of tokens (normalized_hash token_hash)")
    case None
    with assms show ?thesis by (simp add: rotate_for_def rotate_temp_token_def)
  next
    case (Some t)
    show ?thesis
    proof (cases "fresh_token hash tokens draws")
      case None
      with Some assms show ?thesis by (simp add: rotate_for_def rotate_temp_token_def)
    next
      case new: (Some new)
      from assms have
        "users' = AList.update key (entry\<lparr>ue_token_hash := hash new, ue_token := new\<rparr>) users"
        "tokens' = AList.delete (normalized_hash token_hash) (AList.update (hash new) (t\<lparr>te_token := new, te_updated_at := At now\<rparr>) tokens)"
        "li = \<lparr>li_username = ue_username entry, li_token = new\<rparr>"
        by (auto simp: rotate_for_def rotate_temp_token_def Some new Let_def public_token_def)
      with that [OF Some fresh [OF new]] show ?thesis by blast
    qed
  qed
qed

text \<open>Changing the password needs the current one of an enabled user; afterwards the stored hash
  is that of the new password, the token's entry with its balances and open reservations is under
  a new token, and the old token is gone.\<close>

theorem password_change_effect:
  assumes "change_user_password_by_token_hash hash kdf now draws salt (users, tokens) token_hash current new_password
      = Some (Inr ((users', tokens'), li))"
  shows "\<exists>key e e' t t'. read_user users ByTokenHash token_hash = Some (key, e) \<and> ue_enabled e \<and>
    kdf current (ue_password_salt e) = ue_password_hash e \<and> new_password \<noteq> current \<and>
    8 \<le> length new_password \<and> length new_password \<le> 128 \<and>
    users' = AList.update key e' users \<and> kdf new_password (ue_password_salt e') = ue_password_hash e' \<and>
    ue_token e' = li_token li \<and> ue_token_hash e' = hash (li_token li) \<and>
    map_of tokens (normalized_hash token_hash) = Some t \<and>
    map_of tokens' = (map_of tokens)(ue_token_hash e' \<mapsto> t', normalized_hash token_hash := None) \<and>
    ue_token_hash e' \<noteq> normalized_hash token_hash \<and>
    t' = t\<lparr>te_token := li_token li, te_updated_at := At now\<rparr>"
proof -
  note run = assms [unfolded change_user_password_by_token_hash_def fst_conv]
  have len: "\<not> (length new_password < 8 \<or> length new_password > 128)" using run by (auto split: if_splits)
  note run = run [unfolded if_not_P [OF len]]
  obtain key e where row: "read_user users ByTokenHash token_hash = Some (key, e)"
    using run by (cases "read_user users ByTokenHash token_hash") auto
  note run = run [unfolded row option.case(2) prod.case]
  from run have ok: "ue_enabled e" "kdf current (ue_password_salt e) = ue_password_hash e" "new_password \<noteq> current"
    and rot: "rotate_for hash now draws (users, tokens) key token_hash (set_password kdf now salt new_password e)
      = Some (Inr ((users', tokens'), li))"
    by (auto split: if_splits)
  obtain t new where t: "map_of tokens (normalized_hash token_hash) = Some t" "map_of tokens (hash new) = None"
    "users' = AList.update key ((set_password kdf now salt new_password e)\<lparr>ue_token_hash := hash new, ue_token := new\<rparr>) users"
    "tokens' = AList.delete (normalized_hash token_hash) (AList.update (hash new) (t\<lparr>te_token := new, te_updated_at := At now\<rparr>) tokens)"
    "li = \<lparr>li_username = ue_username (set_password kdf now salt new_password e), li_token = new\<rparr>"
    by (rule rotate_for_Inr [OF rot])
  let ?e = "(set_password kdf now salt new_password e)\<lparr>ue_token_hash := hash new, ue_token := new\<rparr>"
  have li: "li_token li = new" by (simp add: t(5))
  have "map_of tokens' = (map_of tokens)(hash new \<mapsto> t\<lparr>te_token := new, te_updated_at := At now\<rparr>, normalized_hash token_hash := None)"
    by (simp add: t(4) delete_conv' update_conv' fun_eq_iff)
  moreover have "hash new \<noteq> normalized_hash token_hash" using t(1,2) by auto
  moreover have "kdf new_password (ue_password_salt ?e) = ue_password_hash ?e" by (simp add: set_password_def)
  moreover have "8 \<le> length new_password" "length new_password \<le> 128" using len by simp_all
  ultimately show ?thesis
    using row ok t(1,3)
    by (intro exI [of _ key] exI [of _ e] exI [of _ ?e] exI [of _ t] exI [of _ "t\<lparr>te_token := new, te_updated_at := At now\<rparr>"] conjI)
      (simp_all add: li)
qed

definition example_token :: token_entry where
  "example_token = (new_entry 1 (u ''tmp_x'') 1 1 7 (u ''Alice''))\<lparr>te_credit_units := 50\<rparr>"

theorem password_change_effect_witness:
  "\<exists>users' tokens' li t'. change_user_password_by_token_hash example_hash example_kdf 9 [u ''y''] (u ''11'')
      ([(u ''alice'', example_user)], [(u ''tmp_x'', example_token)]) (u ''tmp_x'') (u ''secret-1'') (u ''secret-2'')
     = Some (Inr ((users', tokens'), li)) \<and>
   map_of tokens' (u ''tmp_x'') = None \<and> map_of tokens' (u ''tmp_y'') = Some t' \<and> te_credit_units t' = 50"
proof -
  let ?run = "change_user_password_by_token_hash example_hash example_kdf 9 [u ''y''] (u ''11'')
      ([(u ''alice'', example_user)], [(u ''tmp_x'', example_token)]) (u ''tmp_x'') (u ''secret-1'') (u ''secret-2'')"
  have s: "map_option (map_sum (\<lambda>_. 0 :: nat) (\<lambda>((us, ts), li). li_token li)) ?run = Some (Inr (u ''tmp_y''))"
    by code_simp
  then obtain x where x: "?run = Some x" "map_sum (\<lambda>_. 0 :: nat) (\<lambda>((us, ts), li). li_token li) x = Inr (u ''tmp_y'')"
    by (cases ?run) auto
  then obtain users' tokens' li where run: "?run = Some (Inr ((users', tokens'), li))" and li: "li_token li = u ''tmp_y''"
    by (cases x) auto
  have n: "normalized_hash (u ''tmp_x'') = u ''tmp_x''" "example_hash (u ''tmp_y'') = u ''tmp_y''" by code_simp+
  have c: "te_credit_units example_token = 50" by (simp add: example_token_def)
  from password_change_effect [OF run] n li obtain e' :: user_entry and t t' where
    "map_of [(u ''tmp_x'', example_token)] (u ''tmp_x'') = Some t" "ue_token_hash e' = u ''tmp_y''"
    "map_of tokens' = (map_of [(u ''tmp_x'', example_token)])(ue_token_hash e' \<mapsto> t', u ''tmp_x'' := None)"
    "t' = t\<lparr>te_token := li_token li, te_updated_at := At 9\<rparr>"
    by auto
  with c have "map_of tokens' (u ''tmp_x'') = None" "map_of tokens' (u ''tmp_y'') = Some t'" "te_credit_units t' = 50"
    by auto
  with run show ?thesis by blast
qed

section \<open>Memberships and the number of tasks at once\<close>

lemma normalized_hash_idem [simp]: "normalized_hash (normalized_hash h) = normalized_hash h"
  by (simp add: normalized_hash_def strip_lower)

lemma token_concurrency_entry:
  assumes "map_of tokens (normalized_hash h) = Some t" "normalized_hash h \<noteq> []"
  shows "token_concurrency tokens h = entry_concurrency t"
  using assms
  by (simp add: token_concurrency_def get_temp_context_by_hash_def read_token_entry_def Let_def
      get_temp_context_from_entry_def entry_concurrency_def clamp_def MAX_TEMP_TOKEN_CONCURRENCY_def)

lemma set_token_concurrency_Inr:
  assumes "map_of tokens (normalized_hash h) = Some t"
  shows "\<exists>p. set_token_concurrency b now tokens h n =
    Inr (AList.update (normalized_hash h) (t\<lparr>te_concurrency := clamp 1 100 n, te_updated_at := At now\<rparr>) tokens, p)"
proof -
  have "apply_update (no_update\<lparr>tu_concurrency := Some n\<rparr>) t = Inr (t\<lparr>te_concurrency := clamp 1 100 n\<rparr>)"
    by (simp add: apply_update_def no_update_def set_if_def MAX_TEMP_TOKEN_CONCURRENCY_def)
  with assms show ?thesis
    by (cases b) (simp_all add: set_token_concurrency_def update_temp_token_def run_row_def pg_mutate_def file_mutate_def Let_def)
qed

lemma entry_concurrency_set: "entry_concurrency (t\<lparr>te_concurrency := clamp 1 100 n, te_updated_at := s\<rparr>) = clamp 1 100 n"
  by (auto simp: entry_concurrency_def clamp_def int_or_def MAX_TEMP_TOKEN_CONCURRENCY_def)

text \<open>Bringing a user's membership up to date makes the token allow exactly as many tasks at once
  as the active membership grants, or the user's own number without one, and stores that number and
  the memberships with the user.\<close>

theorem member_concurrency_synced:
  assumes "distinct (map fst users)" "read_user users ByTokenHash h = Some (key, e)"
    and "map_of tokens (normalized_hash h) = Some t" "normalized_hash h \<noteq> []"
    and "catalog = Inr packages"
    and "sync_membership_state now draw (ue_memberships (reconcile_entry packages e)) (ue_membership e) = (rs, v)"
    and "sync_user_membership_by_token_hash b now draw catalog (users, tokens) h = ((users', tokens'), res)"
  shows "\<exists>e' changed. res = Inr changed \<and> map_of users' key = Some e' \<and>
    ue_memberships e' = rs \<and> ue_membership e' = v \<and>
    token_concurrency tokens' h = clamp 1 100 (ue_effective_concurrency e') \<and>
    ue_effective_concurrency e' = (case v of
      None \<Rightarrow> base_concurrency_of e (token_concurrency tokens h)
    | Some a \<Rightarrow> membership_concurrency (av_record a))"
proof -
  have key: "map_of users key = Some e"
    using assms(1,2) find_Some_in [of "is_user ByTokenHash h" users "(key, e)"] by (simp add: read_user_def)
  let ?c = "token_concurrency tokens h"
  have c: "clamp 1 100 ?c = ?c"
    unfolding token_concurrency_entry [OF assms(3,4)]
    by (simp add: entry_concurrency_def clamp_def MAX_TEMP_TOKEN_CONCURRENCY_def)
  let ?e1 = "sync_entry now draw (reconcile_entry packages e)"
  have unused: "reconcile_entry packages e = reconcile_entry [] e" if "ue_concurrency_reconciled e"
    using that by (simp add: reconcile_entry_def)
  have same: "ue_membership (reconcile_entry packages e) = ue_membership e"
    "ue_base_concurrency (reconcile_entry packages e) = ue_base_concurrency e"
    "ue_effective_concurrency (reconcile_entry packages e) = ue_effective_concurrency e"
    by (simp_all add: reconcile_entry_def)
  have e1: "ue_memberships ?e1 = rs" "ue_membership ?e1 = v" "ue_base_concurrency ?e1 = ue_base_concurrency e"
    "ue_effective_concurrency ?e1 = ue_effective_concurrency e"
    using assms(6) same by (simp_all add: sync_entry_def)
  let ?base = "base_concurrency_of e ?c"
  let ?eff = "case v of None \<Rightarrow> ?base | Some a \<Rightarrow> membership_concurrency (av_record a)"
  have eff: "effective_of ?e1 ?base = ?eff" by (simp add: effective_of_def e1)
  let ?e2 = "?e1\<lparr>ue_effective_concurrency := ?eff, ue_base_concurrency := ?base, ue_updated_at := At now\<rparr>"
  let ?still = "ue_concurrency_reconciled e \<and> rs = ue_memberships e \<and> v = ue_membership e \<and>
    ue_effective_concurrency e = ?eff \<and> ?c = ?eff \<and> ue_base_concurrency e \<noteq> 0"
  have base: "base_concurrency_of ?e1 ?c = ?base" by (simp add: base_concurrency_of_def e1)
  have member: "sync_member_entry now draw packages ?c e = (if ?still then (?e1, ?eff, False) else (?e2, ?eff, True))"
    unfolding sync_member_entry_def Let_def base eff e1 by (rule refl)
  have used: "(if ue_concurrency_reconciled e then Inr [] else catalog) = Inr (if ue_concurrency_reconciled e then [] else packages)"
    by (simp add: assms(5))
  have member': "sync_member_entry now draw (if ue_concurrency_reconciled e then [] else packages) ?c e
      = (if ?still then (?e1, ?eff, False) else (?e2, ?eff, True))"
  proof (cases "ue_concurrency_reconciled e")
    case True
    then have "sync_member_entry now draw [] ?c e = sync_member_entry now draw packages ?c e"
      using unused by (simp add: sync_member_entry_def)
    with True member show ?thesis by (simp only: if_True)
  qed (use member in \<open>simp only: if_False\<close>)
  note run = assms(7) [unfolded sync_user_membership_by_token_hash_def Let_def fst_conv snd_conv assms(2)
      option.case(2) prod.case used sum.case(2) member']
  show ?thesis
  proof (cases ?still)
    case True
    from run [unfolded if_P [OF True] prod.case] have "users' = users" "tokens' = tokens" "res = Inr False" by simp_all
    moreover from True have fields: "ue_memberships e = rs" "ue_membership e = v" "ue_effective_concurrency e = ?eff" by blast+
    moreover from True have "ue_effective_concurrency e = ?c" by argo
    then have "?c = clamp 1 100 (ue_effective_concurrency e)" by (simp only: c)
    ultimately show ?thesis using key by (intro exI [of _ e] exI [of _ False]) blast
  next
    case False
    note run = run [unfolded if_not_P [OF False] prod.case not_True_eq_False if_False]
    obtain p where set: "set_token_concurrency b now tokens h ?eff =
      Inr (AList.update (normalized_hash h) (t\<lparr>te_concurrency := clamp 1 100 ?eff, te_updated_at := At now\<rparr>) tokens, p)"
      using set_token_concurrency_Inr [OF assms(3)] by blast
    let ?ts = "AList.update (normalized_hash h) (t\<lparr>te_concurrency := clamp 1 100 ?eff, te_updated_at := At now\<rparr>) tokens"
    have ts: "token_concurrency ?ts h = clamp 1 100 ?eff"
      using token_concurrency_entry [of ?ts h] assms(4) entry_concurrency_set by (simp add: update_conv')
    have res: "users' = AList.update key ?e2 users \<and> res = Inr True \<and> token_concurrency tokens' h = clamp 1 100 ?eff"
    proof (cases b)
      case LocalFile
      from run [unfolded LocalFile backend.case set [unfolded LocalFile] sum.case prod.case]
      have "users' = AList.update key ?e2 users" "tokens' = ?ts" "res = Inr True" by blast+
      then show ?thesis using ts by blast
    next
      case Postgres
      note run = run [unfolded Postgres backend.case]
      show ?thesis
      proof (cases "?c = ?eff")
        case True
        from run [unfolded if_P [OF True]] have "users' = AList.update key ?e2 users" "tokens' = tokens" "res = Inr True" by blast+
        moreover from True c have "?c = clamp 1 100 ?eff" by argo
        ultimately show ?thesis by blast
      next
        case False
        from run [unfolded if_not_P [OF False] set [unfolded Postgres] sum.case prod.case]
        have "users' = AList.update key ?e2 users" "tokens' = ?ts" "res = Inr True" by blast+
        then show ?thesis using ts by blast
      qed
    qed
    then have "map_of users' key = Some ?e2" by (simp add: update_conv')
    with res e1 show ?thesis by (intro exI [of _ ?e2] exI [of _ True]) simp
  qed
qed

text \<open>The example user's first membership has just been bought: two tasks at once instead of one.\<close>

definition example_buyer :: user_entry where
  "example_buyer = example_user\<lparr>ue_memberships := [example_member (u ''duo'') 2 MPaused (days 5)], ue_concurrency_reconciled := True\<rparr>"

theorem member_concurrency_synced_witness:
  "\<exists>users' tokens'. sync_user_membership_by_token_hash Postgres 9 [] (Inr []) ([(u ''alice'', example_buyer)], [(u ''tmp_x'', example_token)])
      (u ''tmp_x'') = ((users', tokens'), Inr True) \<and>
   token_concurrency [(u ''tmp_x'', example_token)] (u ''tmp_x'') = 1 \<and> token_concurrency tokens' (u ''tmp_x'') = 2"
proof -
  let ?w = "([(u ''alice'', example_buyer)], [(u ''tmp_x'', example_token)])"
  let ?run = "sync_user_membership_by_token_hash Postgres 9 [] (Inr []) ?w (u ''tmp_x'')"
  obtain users' tokens' res where run: "?run = ((users', tokens'), res)" by (metis surj_pair)
  have "map_sum (\<lambda>_. 0 :: nat) id (snd ?run) = Inr True" by code_simp
  then have res: "res = Inr True" by (cases res) (simp_all add: run)
  obtain rs v where sync: "sync_membership_state 9 [] (ue_memberships (reconcile_entry [] example_buyer)) (ue_membership example_buyer) = (rs, v)"
    by fastforce
  have "map_option (\<lambda>a. membership_concurrency (av_record a))
      (snd (sync_membership_state 9 [] (ue_memberships (reconcile_entry [] example_buyer)) (ue_membership example_buyer))) = Some 2"
    by code_simp
  then obtain a where v: "v = Some a" "membership_concurrency (av_record a) = 2" by (auto simp: sync)
  have row: "distinct (map fst [(u ''alice'', example_buyer)])"
    "read_user [(u ''alice'', example_buyer)] ByTokenHash (u ''tmp_x'') = Some (u ''alice'', example_buyer)"
    "map_of [(u ''tmp_x'', example_token)] (normalized_hash (u ''tmp_x'')) = Some example_token" "normalized_hash (u ''tmp_x'') \<noteq> []"
    by (simp, code_simp, code_simp, code_simp)
  have one: "token_concurrency [(u ''tmp_x'', example_token)] (u ''tmp_x'') = 1" by code_simp
  from member_concurrency_synced [OF row refl sync run] v obtain e' :: user_entry where
    "token_concurrency tokens' (u ''tmp_x'') = clamp 1 100 (ue_effective_concurrency e')" "ue_effective_concurrency e' = 2"
    by auto
  then have "token_concurrency tokens' (u ''tmp_x'') = 2" by (simp add: clamp_def)
  with run one res show ?thesis by (intro exI [of _ users'] exI [of _ tokens']) simp
qed

text \<open>The listing writes the table it read, whatever was written in between.\<close>

lemma list_users_overwrites:
  assumes "map (\<lambda>(k, e). (k, sync_entry now draw e)) users \<noteq> users"
  shows "fst (list_users Postgres now draw users users_then temp_entries) = map (\<lambda>(k, e). (k, sync_entry now draw e)) users"
  using assms by (simp add: list_users_def Let_def)

section \<open>Discounts\<close>

definition models_normal :: "(ustr, amount) table \<Rightarrow> bool" where
  "models_normal ms \<longleftrightarrow> distinct (map fst ms) \<and>
     (\<forall>p \<in> set ms. fst p \<noteq> [] \<and> strip (fst p) = fst p \<and> (\<exists>n>0. snd p = Some (units_to_points n)))"

definition discounts_normal :: "discount_table \<Rightarrow> bool" where
  "discounts_normal ds \<longleftrightarrow> distinct (map fst ds) \<and>
     (\<forall>p \<in> set ds. fst p \<noteq> [] \<and> lower (strip (fst p)) = fst p \<and> snd p \<noteq> [] \<and> models_normal (snd p))"

lemma update_all:
  assumes "\<forall>p \<in> set xs. P p" "P (k, v)" "distinct (map fst xs)"
  shows "\<forall>p \<in> set (AList.update k v xs). P p"
  using assms by (simp add: set_update_distinct)

lemma normalized_models_normal:
  "models_normal acc \<Longrightarrow> normalized_models raw acc = Inr ms \<Longrightarrow> models_normal ms"
proof (induction raw acc rule: normalized_models.induct)
  case (2 raw_model raw rest acc)
  show ?case
  proof (cases "strip raw_model = []")
    case True
    with 2 show ?thesis by simp
  next
    case False
    show ?thesis
    proof (cases "discount_units raw")
      case (Inl e)
      with False 2(5) show ?thesis by simp
    next
      case (Inr d)
      show ?thesis
      proof (cases d)
        case None
        with Inr False 2 show ?thesis by simp
      next
        case (Some n)
        with Inr have n: "0 < n" by (auto simp: discount_units_def split: sum.splits py_error.splits if_splits)
        have "models_normal (AList.update (strip raw_model) (Some (units_to_points n)) acc)"
          unfolding models_normal_def
        proof
          show "distinct (map fst (AList.update (strip raw_model) (Some (units_to_points n)) acc))"
            using 2(4) by (simp add: models_normal_def distinct_update)
        qed (rule update_all, use 2(4) False n in \<open>auto simp: models_normal_def\<close>)
        from 2(3) [OF refl False Inr Some this] 2(5) False Inr Some show ?thesis by simp
      qed
    qed
  qed
qed simp

lemma normalized_platforms_normal:
  "discounts_normal acc \<Longrightarrow> normalized_platforms raw acc = Inr ds \<Longrightarrow> discounts_normal ds"
proof (induction raw acc rule: normalized_platforms.induct)
  case (2 raw_platform raw_models rest acc)
  show ?case
  proof (cases "strip raw_platform = []")
    case True
    with 2 show ?thesis by simp
  next
    case False
    show ?thesis
    proof (cases "normalized_models raw_models []")
      case (Inl e)
      with False 2(4) show ?thesis by simp
    next
      case (Inr ms)
      have ms: "models_normal ms" by (rule normalized_models_normal [OF _ Inr]) (simp add: models_normal_def)
      let ?acc = "if ms = [] then acc else AList.update (lower (strip raw_platform)) ms acc"
      have "discounts_normal ?acc"
      proof (cases "ms = []")
        case nonempty: False
        have "discounts_normal (AList.update (lower (strip raw_platform)) ms acc)"
          unfolding discounts_normal_def
        proof
          show "distinct (map fst (AList.update (lower (strip raw_platform)) ms acc))"
            using 2(3) by (simp add: discounts_normal_def distinct_update)
        qed (rule update_all, use 2(3) False ms nonempty in \<open>auto simp: discounts_normal_def strip_lower\<close>)
        with nonempty show ?thesis by simp
      qed (use 2(3) in simp)
      from 2(2) [OF refl _ Inr this] 2(4) False Inr show ?thesis by simp
    qed
  qed
qed simp

definition small_discounts :: "discount_table \<Rightarrow> bool" where
  "small_discounts ds \<longleftrightarrow> (\<forall>p \<in> set ds. \<forall>q \<in> set (snd p). \<forall>n. snd q = Some (units_to_points n) \<longrightarrow> n < 10 ^ 26)"

lemma normalized_models_id:
  assumes "models_normal ms" "\<forall>q \<in> set ms. \<forall>n. snd q = Some (units_to_points n) \<longrightarrow> n < 10 ^ 26"
    and "set (map fst acc) \<inter> set (map fst ms) = {}"
  shows "normalized_models ms acc = Inr (acc @ ms)"
  using assms
proof (induction ms arbitrary: acc)
  case (Cons p ms)
  obtain m a where p: "p = (m, a)" by (cases p)
  from Cons.prems(1) obtain n where n: "0 < n" "a = Some (units_to_points n)" and m: "m \<noteq> []" "strip m = m"
    by (auto simp: models_normal_def p)
  from Cons.prems(2) n have "n < 10 ^ 26" by (simp add: p)
  with n have d: "discount_units a = Inr (Some n)"
    using nonnegative_points_of_units [of n] by (simp add: discount_units_def)
  have new: "AList.update m a acc = acc @ [(m, a)]"
    using Cons.prems(3) by (intro update_new) (auto simp: p map_of_eq_None_iff)
  have "normalized_models ms (acc @ [(m, a)]) = Inr ((acc @ [(m, a)]) @ ms)"
    by (rule Cons.IH) (use Cons.prems p in \<open>auto simp: models_normal_def\<close>)
  with m d n new show ?case by (simp add: p)
qed simp

lemma normalized_platforms_id:
  assumes "discounts_normal ds" "small_discounts ds" "set (map fst acc) \<inter> set (map fst ds) = {}"
  shows "normalized_platforms ds acc = Inr (acc @ ds)"
  using assms
proof (induction ds arbitrary: acc)
  case (Cons p ds)
  obtain k ms where p: "p = (k, ms)" by (cases p)
  from Cons.prems(1) have ms: "models_normal ms" "ms \<noteq> []" and k: "k \<noteq> []" "lower (strip k) = k"
    by (auto simp: discounts_normal_def p)
  from Cons.prems(2) have small: "\<forall>q \<in> set ms. \<forall>n. snd q = Some (units_to_points n) \<longrightarrow> n < 10 ^ 26"
    by (simp add: small_discounts_def p)
  have norm: "normalized_models ms [] = Inr ms" using normalized_models_id [OF ms(1) small, of "[]"] by simp
  have new: "AList.update k ms acc = acc @ [(k, ms)]"
    using Cons.prems(3) by (intro update_new) (auto simp: p map_of_eq_None_iff)
  have ih: "normalized_platforms ds (acc @ [(k, ms)]) = Inr ((acc @ [(k, ms)]) @ ds)"
    by (rule Cons.IH) (use Cons.prems p in \<open>auto simp: discounts_normal_def small_discounts_def\<close>)
  have "strip k \<noteq> []" using k by (metis lower_Nil)
  with k ms norm new ih show ?case by (simp add: p)
qed simp

text \<open>A stored table of discounts has a normal form: platforms and models trimmed, lower case where
  they are compared so, each once and with at least one entry, every discount a positive number of
  tenths; and normalising it again (discounts below ten to the 25 points) changes nothing.\<close>

theorem discounts_normal_form:
  assumes "normalized_model_discounts value = Inr ds"
  shows "distinct (map fst ds) \<and>
    (\<forall>p \<in> set ds. fst p \<noteq> [] \<and> lower (strip (fst p)) = fst p \<and> snd p \<noteq> [] \<and> distinct (map fst (snd p)) \<and>
      (\<forall>q \<in> set (snd p). fst q \<noteq> [] \<and> strip (fst q) = fst q \<and> (\<exists>n>0. snd q = Some (units_to_points n)))) \<and>
    (small_discounts ds \<longrightarrow> normalized_model_discounts ds = Inr ds)"
proof -
  have normal: "discounts_normal ds"
    by (rule normalized_platforms_normal [of "[]"])
      (use assms in \<open>simp_all add: normalized_model_discounts_def discounts_normal_def\<close>)
  have "normalized_model_discounts ds = Inr ds" if "small_discounts ds"
    using normalized_platforms_id [OF normal that, of "[]"] by (simp add: normalized_model_discounts_def)
  with normal show ?thesis by (simp add: discounts_normal_def models_normal_def)
qed

theorem discounts_normal_form_witness:
  "\<exists>ds. normalized_model_discounts [(u '' Dola '', [(u ''m1'', Some (Fin 5 (- 1))), (u ''m2'', Some (Fin 0 0))]), (u ''x'', [])] = Inr ds \<and>
    ds = [(u ''dola'', [(u ''m1'', Some (Fin 5 (- 1)))])] \<and> distinct (map fst ds)"
proof -
  have run: "normalized_model_discounts [(u '' Dola '', [(u ''m1'', Some (Fin 5 (- 1))), (u ''m2'', Some (Fin 0 0))]), (u ''x'', [])]
      = Inr [(u ''dola'', [(u ''m1'', Some (Fin 5 (- 1)))])]" by code_simp
  from discounts_normal_form [OF run] have "distinct (map fst [(u ''dola'', [(u ''m1'', Some (Fin 5 (- 1)))])])" by blast
  with run show ?thesis by blast
qed

end
