(* ===== verification/Action.thy ===== *)
theory Action
  imports Prelude
begin

text \<open>
  The request handlers (app/main.py) call several services in turn, change several tables and undo
  their steps when a later one raises. A handler is an action: from a state to the state it leaves
  and its result or exception. An exception keeps what was changed before it, as in Python. The
  triples \<open>triple P m Q E\<close> say that from a state in \<open>P\<close> an action that returns ends in \<open>Q\<close> and one
  that raises ends in \<open>E\<close>; an action always ends, so nothing is left open.
\<close>

section \<open>Actions\<close>

type_synonym ('s, 'a) action = "'s \<Rightarrow> 's \<times> 'a result"

definition give :: "'a \<Rightarrow> ('s, 'a) action" where
  "give x s = (s, Inr x)"

definition raise :: "py_error \<Rightarrow> ('s, 'a) action" where
  "raise e s = (s, Inl e)"

definition seq :: "('s, 'a) action \<Rightarrow> ('a \<Rightarrow> ('s, 'b) action) \<Rightarrow> ('s, 'b) action" where
  "seq m f s = (case m s of (s', Inl e) \<Rightarrow> (s', Inl e) | (s', Inr x) \<Rightarrow> f x s')"

text \<open>\<open>try ... except\<close>: the handler sees the exception and the state it left.\<close>

definition catch :: "('s, 'a) action \<Rightarrow> (py_error \<Rightarrow> ('s, 'a) action) \<Rightarrow> ('s, 'a) action" where
  "catch m h s = (case m s of (s', Inl e) \<Rightarrow> h e s' | (s', Inr x) \<Rightarrow> (s', Inr x))"

definition need :: "bool \<Rightarrow> py_error \<Rightarrow> ('s, unit) action" where
  "need b e = (if b then give () else raise e)"

definition of_result :: "'a result \<Rightarrow> ('s, 'a) action" where
  "of_result r s = (s, r)"

definition reads :: "('s \<Rightarrow> 'a) \<Rightarrow> ('s, 'a) action" where
  "reads f s = (s, Inr (f s))"

definition changes :: "('s \<Rightarrow> 's) \<Rightarrow> ('s, unit) action" where
  "changes f s = (f s, Inr ())"

text \<open>
  An operation of a service on its part of the state. \<open>on_part\<close> is for one that rolls back when it
  raises, \<open>on_part_keeping\<close> for one that may leave a change behind.
\<close>

definition on_part ::
    "('s \<Rightarrow> 'p) \<Rightarrow> ('p \<Rightarrow> 's \<Rightarrow> 's) \<Rightarrow> ('p \<Rightarrow> ('p \<times> 'a) result) \<Rightarrow> ('s, 'a) action" where
  "on_part get put f s = (case f (get s) of Inl e \<Rightarrow> (s, Inl e) | Inr (p, x) \<Rightarrow> (put p s, Inr x))"

definition on_part_keeping ::
    "('s \<Rightarrow> 'p) \<Rightarrow> ('p \<Rightarrow> 's \<Rightarrow> 's) \<Rightarrow> ('p \<Rightarrow> 'p \<times> 'a result) \<Rightarrow> ('s, 'a) action" where
  "on_part_keeping get put f s = (case f (get s) of (p, r) \<Rightarrow> (put p s, r))"

fun for_each :: "('x \<Rightarrow> ('s, unit) action) \<Rightarrow> 'x list \<Rightarrow> ('s, unit) action" where
  "for_each f [] = give ()"
| "for_each f (x # xs) = seq (f x) (\<lambda>_. for_each f xs)"

section \<open>Triples\<close>

definition triple ::
    "('s \<Rightarrow> bool) \<Rightarrow> ('s, 'a) action \<Rightarrow> ('a \<Rightarrow> 's \<Rightarrow> bool) \<Rightarrow> (py_error \<Rightarrow> 's \<Rightarrow> bool) \<Rightarrow> bool" where
  "triple P m Q E \<longleftrightarrow>
     (\<forall>s. P s \<longrightarrow> (case m s of (s', Inl e) \<Rightarrow> E e s' | (s', Inr x) \<Rightarrow> Q x s'))"

named_theorems triples "rules for actions, applied backwards"

lemma tripleI:
  assumes "\<And>s s' x. P s \<Longrightarrow> m s = (s', Inr x) \<Longrightarrow> Q x s'"
    and "\<And>s s' e. P s \<Longrightarrow> m s = (s', Inl e) \<Longrightarrow> E e s'"
  shows "triple P m Q E"
  unfolding triple_def
proof (intro allI impI)
  fix s
  assume P: "P s"
  obtain s' r where m: "m s = (s', r)" by (cases "m s")
  show "case m s of (s', Inl e) \<Rightarrow> E e s' | (s', Inr x) \<Rightarrow> Q x s'"
    using assms(1) [OF P, of s'] assms(2) [OF P, of s'] m by (cases r) simp_all
qed

lemma triple_Inr: "triple P m Q E \<Longrightarrow> P s \<Longrightarrow> m s = (s', Inr x) \<Longrightarrow> Q x s'"
  by (auto simp: triple_def dest: spec [of _ s])

lemma triple_Inl: "triple P m Q E \<Longrightarrow> P s \<Longrightarrow> m s = (s', Inl e) \<Longrightarrow> E e s'"
  by (auto simp: triple_def dest: spec [of _ s])

lemma triple_conseq:
  assumes "triple P' m Q' E'"
    and "\<And>s. P s \<Longrightarrow> P' s" "\<And>x s. Q' x s \<Longrightarrow> Q x s" "\<And>e s. E' e s \<Longrightarrow> E e s"
  shows "triple P m Q E"
proof (rule tripleI)
  fix s s' x
  assume "P s" "m s = (s', Inr x)"
  from triple_Inr [OF assms(1) assms(2) [OF this(1)] this(2)] show "Q x s'" by (rule assms(3))
next
  fix s s' e
  assume "P s" "m s = (s', Inl e)"
  from triple_Inl [OF assms(1) assms(2) [OF this(1)] this(2)] show "E e s'" by (rule assms(4))
qed

lemma triple_pre: "triple P' m Q E \<Longrightarrow> (\<And>s. P s \<Longrightarrow> P' s) \<Longrightarrow> triple P m Q E"
  by (rule triple_conseq)

lemma triple_seq [triples]:
  assumes "triple P m R E" "\<And>x. triple (R x) (f x) Q E"
  shows "triple P (seq m f) Q E"
proof (rule tripleI)
  fix s s' x
  assume P: "P s" and run: "seq m f s = (s', Inr x)"
  obtain s1 r where m: "m s = (s1, r)" by (cases "m s")
  with run obtain y where y: "r = Inr y" "f y s1 = (s', Inr x)" by (cases r) (simp_all add: seq_def)
  from triple_Inr [OF assms(1) P] m y(1) have "R y s1" by simp
  from triple_Inr [OF assms(2) this y(2)] show "Q x s'" .
next
  fix s s' e
  assume P: "P s" and run: "seq m f s = (s', Inl e)"
  obtain s1 r where m: "m s = (s1, r)" by (cases "m s")
  show "E e s'"
  proof (cases r)
    case (Inl e1)
    with run m have "e1 = e" "s1 = s'" by (simp_all add: seq_def)
    with triple_Inl [OF assms(1) P] m Inl show ?thesis by simp
  next
    case (Inr y)
    with run m have f: "f y s1 = (s', Inl e)" by (simp add: seq_def)
    from triple_Inr [OF assms(1) P] m Inr have "R y s1" by simp
    from triple_Inl [OF assms(2) this f] show ?thesis .
  qed
qed

lemma triple_catch [triples]:
  assumes "triple P m Q R" "\<And>e. triple (R e) (h e) Q E"
  shows "triple P (catch m h) Q E"
proof (rule tripleI)
  fix s s' x
  assume P: "P s" and run: "catch m h s = (s', Inr x)"
  obtain s1 r where m: "m s = (s1, r)" by (cases "m s")
  show "Q x s'"
  proof (cases r)
    case (Inl e)
    with run m have h: "h e s1 = (s', Inr x)" by (simp add: catch_def)
    from triple_Inl [OF assms(1) P] m Inl have "R e s1" by simp
    from triple_Inr [OF assms(2) this h] show ?thesis .
  next
    case (Inr y)
    with run m have "y = x" "s1 = s'" by (simp_all add: catch_def)
    with triple_Inr [OF assms(1) P] m Inr show ?thesis by simp
  qed
next
  fix s s' e
  assume P: "P s" and run: "catch m h s = (s', Inl e)"
  obtain s1 r where m: "m s = (s1, r)" by (cases "m s")
  with run obtain e1 where r: "r = Inl e1" "h e1 s1 = (s', Inl e)" by (cases r) (simp_all add: catch_def)
  from triple_Inl [OF assms(1) P] m r(1) have "R e1 s1" by simp
  from triple_Inl [OF assms(2) this r(2)] show "E e s'" .
qed

lemma triple_give [triples]: "(\<And>s. P s \<Longrightarrow> Q x s) \<Longrightarrow> triple P (give x) Q E"
  by (rule tripleI) (simp_all add: give_def)

lemma triple_raise [triples]: "(\<And>s. P s \<Longrightarrow> E e s) \<Longrightarrow> triple P (raise e) Q E"
  by (rule tripleI) (simp_all add: raise_def)

lemma triple_need [triples]:
  "(\<And>s. P s \<Longrightarrow> b \<Longrightarrow> Q () s) \<Longrightarrow> (\<And>s. P s \<Longrightarrow> \<not> b \<Longrightarrow> E e s) \<Longrightarrow> triple P (need b e) Q E"
  by (rule tripleI) (simp_all add: need_def give_def raise_def split: if_splits)

lemma triple_of_result [triples]:
  "(\<And>s x. P s \<Longrightarrow> r = Inr x \<Longrightarrow> Q x s) \<Longrightarrow> (\<And>s e. P s \<Longrightarrow> r = Inl e \<Longrightarrow> E e s) \<Longrightarrow> triple P (of_result r) Q E"
  by (rule tripleI) (simp_all add: of_result_def)

lemma triple_reads [triples]: "(\<And>s. P s \<Longrightarrow> Q (f s) s) \<Longrightarrow> triple P (reads f) Q E"
  by (rule tripleI) (simp_all add: reads_def)

lemma triple_changes [triples]: "(\<And>s. P s \<Longrightarrow> Q () (f s)) \<Longrightarrow> triple P (changes f) Q E"
  by (rule tripleI) (auto simp: changes_def)

lemma triple_if [triples]:
  "(b \<Longrightarrow> triple P m Q E) \<Longrightarrow> (\<not> b \<Longrightarrow> triple P n Q E) \<Longrightarrow> triple P (if b then m else n) Q E"
  by simp

lemma triple_let [triples]: "triple P (f x) Q E \<Longrightarrow> triple P (let y = x in f y) Q E"
  by simp

lemma triple_option [triples]:
  "(x = None \<Longrightarrow> triple P m Q E) \<Longrightarrow> (\<And>y. x = Some y \<Longrightarrow> triple P (f y) Q E) \<Longrightarrow>
   triple P (case x of None \<Rightarrow> m | Some y \<Rightarrow> f y) Q E"
  by (cases x) simp_all

lemma triple_prod [triples]:
  "(\<And>a b. x = (a, b) \<Longrightarrow> triple P (f a b) Q E) \<Longrightarrow> triple P (case x of (a, b) \<Rightarrow> f a b) Q E"
  by (cases x) simp

lemma triple_on_part:
  assumes "\<And>s p x. P s \<Longrightarrow> f (get s) = Inr (p, x) \<Longrightarrow> Q x (put p s)"
    and "\<And>s e. P s \<Longrightarrow> f (get s) = Inl e \<Longrightarrow> E e s"
  shows "triple P (on_part get put f) Q E"
proof (rule tripleI)
  fix s s' x
  assume P: "P s" and run: "on_part get put f s = (s', Inr x)"
  then obtain p where "f (get s) = Inr (p, x)" "s' = put p s"
    by (cases "f (get s)") (auto simp: on_part_def)
  with assms(1) [OF P] show "Q x s'" by simp
next
  fix s s' e
  assume P: "P s" and run: "on_part get put f s = (s', Inl e)"
  then have "f (get s) = Inl e" "s' = s" by (cases "f (get s)"; auto simp: on_part_def)+
  with assms(2) [OF P] show "E e s'" by simp
qed

lemma triple_on_part_keeping:
  assumes "\<And>s p x. P s \<Longrightarrow> f (get s) = (p, Inr x) \<Longrightarrow> Q x (put p s)"
    and "\<And>s p e. P s \<Longrightarrow> f (get s) = (p, Inl e) \<Longrightarrow> E e (put p s)"
  shows "triple P (on_part_keeping get put f) Q E"
proof (rule tripleI)
  fix s s' x
  assume "P s" "on_part_keeping get put f s = (s', Inr x)"
  with assms(1) show "Q x s'" by (cases "f (get s)") (auto simp: on_part_keeping_def)
next
  fix s s' e
  assume "P s" "on_part_keeping get put f s = (s', Inl e)"
  with assms(2) show "E e s'" by (cases "f (get s)") (auto simp: on_part_keeping_def)
qed

lemma triple_for_each:
  assumes "\<And>x. x \<in> set xs \<Longrightarrow> triple P (f x) (\<lambda>_. P) E"
  shows "triple P (for_each f xs) (\<lambda>_. P) E"
  using assms by (induction xs) (auto intro!: triple_give intro: triple_seq)

text \<open>What both parts show holds together.\<close>

lemma triple_conj:
  "triple P m Q E \<Longrightarrow> triple P' m Q' E' \<Longrightarrow>
   triple (\<lambda>s. P s \<and> P' s) m (\<lambda>x s. Q x s \<and> Q' x s) (\<lambda>e s. E e s \<and> E' e s)"
  by (rule tripleI) (auto dest: triple_Inr triple_Inl)

section \<open>What an action keeps\<close>

definition keeps :: "('s \<Rightarrow> bool) \<Rightarrow> ('s, 'a) action \<Rightarrow> bool" where
  "keeps I m \<longleftrightarrow> triple I m (\<lambda>_. I) (\<lambda>_. I)"

named_theorems keeping "what the combinators keep"

lemma keeps_seq [keeping]: "keeps I m \<Longrightarrow> (\<And>x. keeps I (f x)) \<Longrightarrow> keeps I (seq m f)"
  unfolding keeps_def by (rule triple_seq)

lemma keeps_catch [keeping]: "keeps I m \<Longrightarrow> (\<And>e. keeps I (h e)) \<Longrightarrow> keeps I (catch m h)"
  unfolding keeps_def by (rule triple_catch)

lemma keeps_steps [keeping]:
  "keeps I (give x)" "keeps I (raise e)" "keeps I (need b e)" "keeps I (of_result r)" "keeps I (reads f)"
  unfolding keeps_def
  by (rule triple_give triple_raise triple_need triple_of_result triple_reads; assumption)+

lemma keeps_if [keeping]: "(b \<Longrightarrow> keeps I m) \<Longrightarrow> (\<not> b \<Longrightarrow> keeps I n) \<Longrightarrow> keeps I (if b then m else n)"
  by simp

lemma keeps_option [keeping]:
  "(x = None \<Longrightarrow> keeps I m) \<Longrightarrow> (\<And>y. x = Some y \<Longrightarrow> keeps I (f y)) \<Longrightarrow>
   keeps I (case x of None \<Rightarrow> m | Some y \<Rightarrow> f y)"
  by (cases x) simp_all

lemma keeps_prod [keeping]:
  "(\<And>a b. x = (a, b) \<Longrightarrow> keeps I (f a b)) \<Longrightarrow> keeps I (case x of (a, b) \<Rightarrow> f a b)"
  by (cases x) simp

lemma keeps_let [keeping]: "keeps I (f x) \<Longrightarrow> keeps I (let y = x in f y)"
  by simp

lemma keeps_on_part:
  "(\<And>s p. I s \<Longrightarrow> I (put p s)) \<Longrightarrow> keeps I (on_part get put f)"
  "(\<And>s p. I s \<Longrightarrow> I (put p s)) \<Longrightarrow> keeps I (on_part_keeping get put g)"
  unfolding keeps_def by (rule triple_on_part triple_on_part_keeping; simp)+

lemma keeps_changes: "(\<And>s. I s \<Longrightarrow> I (f s)) \<Longrightarrow> keeps I (changes f)"
  unfolding keeps_def by (rule triple_changes)

lemma keeps_triple: "keeps I m \<Longrightarrow> triple I m (\<lambda>_. I) (\<lambda>_. I)"
  by (simp add: keeps_def)

lemma keeps_weaken: "keeps I m \<Longrightarrow> (\<And>s. I s \<Longrightarrow> J s) \<Longrightarrow> triple I m (\<lambda>_. I) (\<lambda>_. J)"
  unfolding keeps_def by (rule triple_conseq)

text \<open>A step that keeps the assertion, before one that uses it; its result is not looked at.\<close>

lemma triple_after:
  assumes "keeps P m" "\<And>x. triple P (f x) Q E" "\<And>e s. P s \<Longrightarrow> E e s"
  shows "triple P (seq m f) Q E"
  by (rule triple_seq [OF triple_conseq [OF keeps_triple [OF assms(1)]] assms(2)]) (use assms(3) in auto)

text \<open>Only the result is turned into another.\<close>

lemma triple_then_give:
  assumes "triple P m (\<lambda>_. Q) E"
  shows "triple P (seq m (\<lambda>x. give (g x))) (\<lambda>_. Q) E"
  by (rule triple_seq [OF assms triple_give])

text \<open>A value read from the state, of which something is known whatever the state.\<close>

lemma triple_reads_fact:
  assumes "\<And>s. P s \<Longrightarrow> B (f s)" "\<And>x. B x \<Longrightarrow> triple P (g x) Q E"
  shows "triple P (seq (reads f) g) Q E"
proof (rule tripleI)
  fix s s' x
  assume P: "P s" and "seq (reads f) g s = (s', Inr x)"
  then have "g (f s) s = (s', Inr x)" by (simp add: seq_def reads_def)
  with triple_Inr [OF assms(2) [OF assms(1) [OF P]] P] show "Q x s'" .
next
  fix s s' e
  assume P: "P s" and "seq (reads f) g s = (s', Inl e)"
  then have "g (f s) s = (s', Inl e)" by (simp add: seq_def reads_def)
  with triple_Inl [OF assms(2) [OF assms(1) [OF P]] P] show "E e s'" .
qed

lemma triple_fact: "(b \<Longrightarrow> triple P m Q E) \<Longrightarrow> triple (\<lambda>s. P s \<and> b) m Q E"
  by (cases b) (auto simp: triple_def)

end
