(* ===== verification/Requests.thy ===== *)
theory Requests
  imports Task_Queue Resilience Temp_Access
begin

text \<open>
  What the request handlers of app/main.py check before they act: the models and durations the
  administrator enabled, whether a task may be created now, the idempotency key, the names of
  reference images, the batches that were stopped, and the rate limits. Also the two helpers of
  app/platforms.py that were not needed before.
\<close>

section \<open>Texts\<close>

text \<open>\<open>str(n)\<close> of an integer, and \<open>f"{n:06d}"\<close>.\<close>

fun show_digits :: "nat \<Rightarrow> ustr" where
  "show_digits n = (if n < 10 then [48 + int n] else show_digits (n div 10) @ [48 + int (n mod 10)])"

declare show_digits.simps [simp del]

definition show_int :: "int \<Rightarrow> ustr" where
  "show_int n = (if n < 0 then 45 # show_digits (nat (- n)) else show_digits (nat n))"

definition show_padded :: "nat \<Rightarrow> int \<Rightarrow> ustr" where
  "show_padded w n = (let s = show_int n in replicate (w - length s) 48 @ s)"

text \<open>The text after the last slash: \<open>rsplit("/", 1)[-1]\<close>.\<close>

definition after_slash :: "ustr \<Rightarrow> ustr" where
  "after_slash s = rev (takeWhile (\<lambda>c. c \<noteq> 47) (rev s))"

text \<open>\<open>Path(name).suffix\<close> of a name without slashes: from the last dot, unless that is the first
  character or the last one.\<close>

definition path_suffix :: "ustr \<Rightarrow> ustr" where
  "path_suffix s =
     (let tail = rev (takeWhile (\<lambda>c. c \<noteq> 46) (rev s))
      in if length tail + 1 < length s \<and> tail \<noteq> [] then 46 # tail else [])"

definition ALLOWED_IMAGE_SUFFIXES :: "ustr list" where
  "ALLOWED_IMAGE_SUFFIXES = map u [''.jpg'', ''.jpeg'', ''.png'', ''.webp'']"

text \<open>The first bytes of an image of each kind.\<close>

definition IMAGE_MAGIC :: "(ustr \<times> int list) list" where
  "IMAGE_MAGIC = [(u ''.jpg'', [255, 216, 255]), (u ''.jpeg'', [255, 216, 255]),
     (u ''.png'', [137, 80, 78, 71, 13, 10, 26, 10]), (u ''.webp'', u ''RIFF'')]"

definition is_image :: "ustr \<Rightarrow> int list \<Rightarrow> bool" where
  "is_image suffix data = (case map_of IMAGE_MAGIC suffix of
     None \<Rightarrow> False | Some magic \<Rightarrow> take (length magic) data = magic)"

definition MAX_UPLOAD_BYTES :: int where "MAX_UPLOAD_BYTES = 20 * 1024 * 1024"

text \<open>\<open>_save_uploaded_image\<close> and \<open>_save_image_bytes\<close>, but for the writing of the file.\<close>

definition check_uploaded_image :: "ustr \<Rightarrow> int list \<Rightarrow> unit result" where
  "check_uploaded_image suffix data =
     (if suffix \<notin> set ALLOWED_IMAGE_SUFFIXES then Inl (HTTPException 400 (u ''unsupported image type''))
      else if MAX_UPLOAD_BYTES < int (length data) then Inl (HTTPException 413 (u ''image is too large''))
      else if \<not> is_image suffix (take 16 data) then Inl (HTTPException 400 (u ''invalid image content''))
      else Inr ())"

definition check_image_bytes :: "ustr \<Rightarrow> int list \<Rightarrow> unit result" where
  "check_image_bytes filename data =
     (let suffix = lower (path_suffix filename)
      in if suffix \<notin> set ALLOWED_IMAGE_SUFFIXES then Inl (HTTPException 400 (u ''unsupported image type''))
         else if data = [] then Inl (HTTPException 400 (u ''image is empty''))
         else if MAX_UPLOAD_BYTES < int (length data) then Inl (HTTPException 413 (u ''image is too large''))
         else if \<not> is_image suffix data then Inl (HTTPException 400 (u ''invalid image content''))
         else Inr ())"

text \<open>\<open>_reference_image_name\<close>: the last part of the name without control characters, within 180
  characters; an extension of at most 16 characters survives the cut.\<close>

definition MAX_REFERENCE_IMAGE_NAME_LENGTH :: nat where "MAX_REFERENCE_IMAGE_NAME_LENGTH = 180"

definition reference_image_name :: "ustr \<Rightarrow> int \<Rightarrow> ustr \<Rightarrow> ustr" where
  "reference_image_name value index suffix =
     (let raw = after_slash (map (\<lambda>c. if c = 92 then 47 else c) value);
          cleaned = strip (filter (\<lambda>c. 32 \<le> c \<and> c \<noteq> 127) raw);
          fallback = (if lower suffix \<in> set ALLOWED_IMAGE_SUFFIXES then lower suffix else [])
      in if cleaned = [] then msg_reference_prefix @ show_int (max 1 index) @ fallback
         else if length cleaned \<le> MAX_REFERENCE_IMAGE_NAME_LENGTH then cleaned
         else let extension = take 16 (path_suffix cleaned);
                  stem_limit = max 1 (MAX_REFERENCE_IMAGE_NAME_LENGTH - length extension)
              in if extension = [] then take MAX_REFERENCE_IMAGE_NAME_LENGTH cleaned
                 else take stem_limit (take (length cleaned - length extension) cleaned) @ extension)"

text \<open>\<open>[_reference_image_name(names[i] if i < len(names) else "", i + 1, paths[i].suffix) ...]\<close>.\<close>

definition reference_names :: "ustr list \<Rightarrow> ustr list \<Rightarrow> ustr list" where
  "reference_names names paths =
     map (\<lambda>i. reference_image_name (if i < length names then names ! i else []) (int i + 1) (path_suffix (paths ! i)))
       [0..<length paths]"

text \<open>\<open>len(text.encode("utf-8"))\<close>.\<close>

definition utf8_length :: "ustr \<Rightarrow> int" where
  "utf8_length s = sum_list (map (\<lambda>c. if c < 128 then 1 else if c < 2048 then 2 else if c < 65536 then 3 else 4) s)"

text \<open>\<open>text.partition(":")\<close>; \<open>None\<close> without a colon.\<close>

fun partition_colon :: "ustr \<Rightarrow> (ustr \<times> ustr) option" where
  "partition_colon [] = None"
| "partition_colon (c # cs) = (if c = 58 then Some ([], cs) else map_option (apfst ((#) c)) (partition_colon cs))"

definition idempotency_key :: "ustr \<Rightarrow> ustr result" where
  "idempotency_key value =
     (let key = strip value
      in if key \<noteq> [] \<and> (128 < length key \<or> (\<exists>c \<in> set key. c < 33 \<or> 126 < c))
         then Inl (HTTPException 400 (u ''invalid Idempotency-Key'')) else Inr key)"

definition PLATFORM_LABELS :: "(ustr \<times> ustr) list" where
  "PLATFORM_LABELS = [(u ''dola'', u ''Dola''), (u ''doubao'', msg_doubao), (u ''qianwen'', msg_qianwen)]"

definition VALID_RATIOS :: "ustr list" where
  "VALID_RATIOS = map u [''1:1'', ''3:4'', ''4:3'', ''9:16'', ''16:9'', ''21:9'']"

definition DEFAULT_RATIO :: ustr where "DEFAULT_RATIO = u ''9:16''"

section \<open>Models and durations\<close>

text \<open>The settings of \<open>load_settings()\<close> that the handlers read.\<close>

record model_settings =
  st_default_platform :: ustr
  st_platform_models :: "(ustr, ustr list) table"
  st_model_states :: "(ustr, (ustr, bool) table) table"
  st_max_image_count :: int
  st_prices :: price_settings

definition enabled_models :: "model_settings \<Rightarrow> ustr \<Rightarrow> ustr list" where
  "enabled_models st platform =
     filter (\<lambda>m. dict_get (dict_get (st_model_states st) platform []) m True) (dict_get (st_platform_models st) platform [])"

definition validate_task_platform_model :: "model_settings \<Rightarrow> ustr \<Rightarrow> ustr \<Rightarrow> (ustr \<times> ustr) result" where
  "validate_task_platform_model st platform_value model_value =
     (case normalize_platform (str_or platform_value (st_default_platform st)) of
        Inl e \<Rightarrow> Inl e
      | Inr platform \<Rightarrow>
         (let allowed = enabled_models st platform in
          if allowed = [] then Inl (HTTPException 400 msg_no_model)
          else let m = str_or (normalize_model model_value) (hd allowed)
               in if m \<noteq> [] \<and> m \<notin> set allowed
                  then Inl (HTTPException 400 (u ''model is not allowed for platform''))
                  else if platform \<notin> set (map u [''dola'', ''doubao'', ''qianwen''])
                  then Inl (HTTPException 400 msg_platform_isolated)
                  else if platform = u ''doubao'' \<and> m = [] then Inr (platform, u ''Seedance 2.0 Mini'')
                  else if platform = u ''qianwen'' \<and> m = [] then Inr (platform, model_wanxiang_27)
                  else Inr (platform, m)))"

definition enabled_durations :: "model_settings \<Rightarrow> ustr \<Rightarrow> ustr \<Rightarrow> int list" where
  "enabled_durations st platform model = dict_get (dict_get (model_durations (st_prices st)) platform []) model []"

definition validate_task_duration :: "model_settings \<Rightarrow> ustr \<Rightarrow> ustr \<Rightarrow> int option \<Rightarrow> int result" where
  "validate_task_duration st platform model duration_value =
     (let enabled = enabled_durations st platform model in
      if enabled = [] then Inl (HTTPException 400 msg_no_duration)
      else case duration_value of
        None \<Rightarrow>
          (let preferred = (if platform = u ''dola'' then video_duration (st_prices st) else 10)
           in Inr (if preferred \<in> set enabled then preferred else hd enabled))
      | Some d \<Rightarrow>
          if d \<notin> set enabled then Inl (HTTPException 400 (msg_duration_prefix @ show_int d @ msg_duration_suffix))
          else Inr d)"

section \<open>Admission\<close>

text \<open>
  \<open>_admit_task_creation\<close>. The health of the file queue has no figures, so its depth is 0;
  \<open>reachable\<close> is the \<open>ok\<close> of the health, true unless redis does not answer.
\<close>

definition admit_task_creation :: "resilience_policy \<Rightarrow> bool \<Rightarrow> bool \<Rightarrow> runtime \<Rightarrow> redis_queue \<Rightarrow> unit result" where
  "admit_task_creation policy redis reachable rt q =
     (if task_submission_paused rt then Inl (HTTPException 503 msg_submission_paused)
      else if \<not> reachable then Inl (HTTPException 503 msg_queue_down)
      else let h = health q;
               a = (if redis then queue_admission policy (qh_ready h) (qh_processing h) (qh_delayed h)
                    else queue_admission policy 0 0 0)
           in if ad_allowed a then Inr () else Inl (HTTPException 503 msg_queue_busy))"

section \<open>Stopped batches\<close>

text \<open>The batches a user stopped, kept in memory for a day, by owner and batch.\<close>

type_synonym canceled_batches = "(ustr \<times> ustr, int) table"

definition MAX_BATCH_REFERENCE_AGE_SECONDS :: int where "MAX_BATCH_REFERENCE_AGE_SECONDS = 24 * 60 * 60"

definition batch_owner :: "access_context \<Rightarrow> ustr" where
  "batch_owner access = (if ac_is_temp access then ac_token_hash access else u ''admin'')"

definition set_batch_canceled :: "int \<Rightarrow> access_context \<Rightarrow> ustr \<Rightarrow> canceled_batches \<Rightarrow> canceled_batches" where
  "set_batch_canceled now access batch_id cs =
     (let normalized = take 100 (strip batch_id)
      in if normalized = [] then cs
         else AList.update (batch_owner access, normalized) now
           (filter (\<lambda>(_, t). now - t \<le> secs MAX_BATCH_REFERENCE_AGE_SECONDS) cs))"

definition batch_is_canceled :: "access_context \<Rightarrow> ustr \<Rightarrow> canceled_batches \<Rightarrow> bool" where
  "batch_is_canceled access batch_id cs =
     (let normalized = take 100 (strip batch_id)
      in normalized \<noteq> [] \<and> map_of cs (batch_owner access, normalized) \<noteq> None)"

definition ensure_batch_active :: "access_context \<Rightarrow> ustr \<Rightarrow> canceled_batches \<Rightarrow> unit result" where
  "ensure_batch_active access batch_id cs =
     (if batch_id \<noteq> [] \<and> batch_is_canceled access batch_id cs then Inl (HTTPException 409 msg_batch_halted)
      else Inr ())"

section \<open>Rate limits\<close>

text \<open>
  A sliding window of the times of the requests let through, per key. In memory the clock is
  monotonic; a key not used for the window of the request that finds the table full is dropped,
  then the oldest keys. \<open>int(...)\<close> of the positive remainder rounds down to seconds.
\<close>

type_synonym rate_buckets = "(ustr, int list) table"

definition RATE_BUCKET_LIMIT :: nat where "RATE_BUCKET_LIMIT = 10000"

definition evict_buckets :: "int \<Rightarrow> int \<Rightarrow> rate_buckets \<Rightarrow> rate_buckets" where
  "evict_buckets now window bs =
     (if length bs \<le> RATE_BUCKET_LIMIT then bs
      else let kept = filter (\<lambda>(_, stamps). stamps \<noteq> [] \<and> now - last stamps < secs window) bs
           in drop (length kept - RATE_BUCKET_LIMIT) kept)"

definition memory_rate_limit :: "int \<Rightarrow> ustr \<Rightarrow> nat \<Rightarrow> int \<Rightarrow> rate_buckets \<Rightarrow> rate_buckets \<times> bool \<times> int" where
  "memory_rate_limit now key limit window bs =
     (let recent = filter (\<lambda>stamp. now - stamp < secs window) (dict_get bs key [])
      in if limit \<le> length recent
         then (bs, False, max 1 ((secs window - (now - hd recent)) div secs 1))
         else (evict_buckets now window (AList.update key (recent @ [now]) bs), True, 0))"

text \<open>
  The script on redis: the members of a key are its times in milliseconds, lowest first, each with
  a random suffix that makes it unique. The key expires with its window, which changes nothing that
  the script reads later.
\<close>

type_synonym redis_windows = "ustr \<Rightarrow> int list"

definition redis_rate_limit :: "int \<Rightarrow> ustr \<Rightarrow> nat \<Rightarrow> int \<Rightarrow> redis_windows \<Rightarrow> redis_windows \<times> bool \<times> int" where
  "redis_rate_limit now_ms key limit window ws =
     (let members = filter (\<lambda>t. now_ms - window * 1000 < t) (ws key)
      in if limit \<le> length members
         then (ws(key := members), False,
               (case members of [] \<Rightarrow> 1 | oldest # _ \<Rightarrow> max 1 (- ((now_ms - (oldest + window * 1000)) div 1000))))
         else (ws(key := insort now_ms members), True, 0))"

text \<open>\<open>_rate_limit\<close>: redis where there is one, else memory.\<close>

definition rate_limit :: "bool \<times> int \<Rightarrow> unit result" where
  "rate_limit answer = (if fst answer then Inr () else Inl (HTTPException 429 msg_rate_limited))"

section \<open>Sizes\<close>

text \<open>\<open>_video_ratio_from_size\<close>: the ratio nearest to width by height, the first of two as near.\<close>

definition SIZE_RATIOS :: "(ustr \<times> rat) list" where
  "SIZE_RATIOS = [(u ''9:16'', 9 / 16), (u ''16:9'', 16 / 9), (u ''1:1'', 1), (u ''3:4'', 3 / 4),
     (u ''4:3'', 4 / 3), (u ''21:9'', 21 / 9)]"

fun nearest :: "('a \<Rightarrow> rat) \<Rightarrow> 'a \<Rightarrow> 'a list \<Rightarrow> 'a" where
  "nearest k best [] = best"
| "nearest k best (x # xs) = nearest k (if k x < k best then x else best) xs"

text \<open>The size is already split and read: \<open>None\<close> when it has no \<open>x\<close> or a part is not a number.\<close>

definition video_ratio_from_size :: "(int \<times> int) option \<Rightarrow> ustr" where
  "video_ratio_from_size dimensions = (case dimensions of
     None \<Rightarrow> []
   | Some (width, height) \<Rightarrow>
       if width \<le> 0 \<or> height \<le> 0 then []
       else let actual = rat_of_int width / rat_of_int height
            in fst (nearest (\<lambda>(_, r). \<bar>r - actual\<bar>) (hd SIZE_RATIOS) (tl SIZE_RATIOS)))"

end
