(* ===== verification/Service.thy ===== *)
theory Service
  imports Action Requests Temp_Quota User_Billing Account_Select Batch_Jobs
begin

text \<open>
  The state that the request handlers and the scheduler of app/main.py work on, made of the tables
  of the services, and the steps that their creations of a task share: the price, the reservation,
  the entry in the ledger, and what undoes them. A handler runs under the semaphore of its owner;
  the batches another request stops meanwhile are applied where the handler looks again
  (\<open>en_others\<close>). Saving images is file work: its outcome is an argument, and so are the hashes.
  The record of the user's activity written at the end is left out.
\<close>

section \<open>The world\<close>

record world =
  wd_tasks :: task_store
  wd_queue :: redis_queue
  wd_runtime :: runtime
  wd_users :: user_table
  wd_tokens :: token_table
  wd_accounts :: account_store
  wd_ledger :: "transaction list"
  wd_jobs :: job_table
  wd_canceled :: canceled_batches

text \<open>
  What a request is served with: the backend, the clock, the settings, the random draws for the
  identifiers it makes, SHA-256 of a text and of a JSON value, and the repair of mangled texts.
\<close>

record env =
  en_backend :: backend
  en_redis :: bool
  en_reachable :: bool
  en_now :: int
  en_stamp :: ustr
  en_sha :: "ustr \<Rightarrow> ustr"
  en_digest :: "json \<Rightarrow> ustr"
  en_repair :: "ustr \<Rightarrow> ustr"
  en_draws :: "ustr list"
  en_rand :: ustr
  en_member_draw :: ustr
  en_packages :: "member_package list result"
  en_settings :: model_settings
  en_policy :: resilience_policy
  en_others :: "nat \<Rightarrow> job_table \<times> canceled_batches \<Rightarrow> job_table \<times> canceled_batches"

text \<open>\<open>_storage_call\<close> tries again after a fault of the connection. None of the services' own
  exceptions is one, and the rollback of a failed try leaves the state as it was.\<close>

fun storage_call :: "(py_error \<Rightarrow> bool) \<Rightarrow> nat \<Rightarrow> ('s, 'a) action \<Rightarrow> ('s, 'a) action" where
  "storage_call transient 0 m = m"
| "storage_call transient (Suc n) m =
     (if n = 0 then m else catch m (\<lambda>e. if transient e then storage_call transient n m else raise e))"

section \<open>The services as actions\<close>

definition on_tasks :: "(task_store \<Rightarrow> (task_store \<times> 'a) result) \<Rightarrow> (world, 'a) action" where
  "on_tasks = on_part wd_tasks (\<lambda>t w. w\<lparr>wd_tasks := t\<rparr>)"

definition on_tokens :: "(token_table \<Rightarrow> (token_table \<times> 'a) result) \<Rightarrow> (world, 'a) action" where
  "on_tokens = on_part wd_tokens (\<lambda>t w. w\<lparr>wd_tokens := t\<rparr>)"

definition on_ledger :: "(transaction list \<Rightarrow> (transaction list \<times> 'a) result) \<Rightarrow> (world, 'a) action" where
  "on_ledger = on_part wd_ledger (\<lambda>t w. w\<lparr>wd_ledger := t\<rparr>)"

definition on_jobs :: "(job_table \<Rightarrow> (job_table \<times> 'a) result) \<Rightarrow> (world, 'a) action" where
  "on_jobs = on_part wd_jobs (\<lambda>t w. w\<lparr>wd_jobs := t\<rparr>)"

definition on_accounts :: "(account_store \<Rightarrow> account_store \<times> 'a) \<Rightarrow> (world, 'a) action" where
  "on_accounts f = on_part_keeping wd_accounts (\<lambda>t w. w\<lparr>wd_accounts := t\<rparr>) (\<lambda>t. apsnd Inr (f t))"

text \<open>A row operation without a result of its own.\<close>

definition no_value :: "'t result \<Rightarrow> ('t \<times> unit) result" where
  "no_value r = map_sum id (\<lambda>t. (t, ())) r"

text \<open>\<open>get_task_queue().enqueue\<close>, which does nothing with the file queue.\<close>

definition enqueue_task :: "env \<Rightarrow> task_store \<Rightarrow> int \<Rightarrow> ustr \<Rightarrow> stamp \<Rightarrow> redis_queue \<Rightarrow> redis_queue" where
  "enqueue_task env store now t available_at q =
     (if en_redis env then fst (enqueue now (is_retry_task (en_backend env) store t) t available_at q) else q)"

text \<open>The services an expiring task calls, on the accounts, the tokens and the ledger.\<close>

definition world_services :: "env \<Rightarrow> (account_store \<times> token_table \<times> transaction list) services" where
  "world_services env =
     \<lparr>sv_exhaust = (\<lambda>i charge (a, k, l). (fst (exhaust_account_quota (en_backend env) (en_now env) a i charge), k, l)),
      sv_clear = (\<lambda>i t (a, k, l). (clear_account_current_task (en_backend env) (en_now env) a i t, k, l)),
      sv_refund = (\<lambda>owner t (a, k, l).
        case refund_temp_quota_hash (en_backend env) (en_now env) (en_rand env) k l owner t of
          ((k', l'), r) \<Rightarrow> ((a, k', l'), r = Inr True))\<rparr>"

definition create :: "env \<Rightarrow> task_args \<Rightarrow> ustr \<Rightarrow> (world, task_meta) action" where
  "create env a owner = on_tasks (\<lambda>store. map_sum id (\<lambda>((store', _), m). (store', m))
     (create_task (\<lambda>_ _ _ _ q. q) (en_now env) (en_draws env) (store, ()) a owner False [] [] []))"

definition find_or_create :: "env \<Rightarrow> task_args \<Rightarrow> ustr \<Rightarrow> ustr \<Rightarrow> ustr \<Rightarrow> ustr \<Rightarrow> (world, task_meta \<times> bool) action" where
  "find_or_create env a owner key fingerprint route =
     on_part (\<lambda>w. (wd_tasks w, wd_accounts w, wd_tokens w, wd_ledger w))
       (\<lambda>(t, a, k, l) w. w\<lparr>wd_tasks := t, wd_accounts := a, wd_tokens := k, wd_ledger := l\<rparr>)
       (\<lambda>sw. find_or_create_task (en_sha env) (world_services env) (en_backend env) (en_now env) (en_stamp env)
          (en_draws env) sw a owner key fingerprint route)"

definition finalize :: "env \<Rightarrow> ustr \<Rightarrow> (world, task_meta) action" where
  "finalize env t =
     on_part (\<lambda>w. (wd_tasks w, wd_queue w)) (\<lambda>(s, q) w. w\<lparr>wd_tasks := s, wd_queue := q\<rparr>)
       (\<lambda>sq. finalize_task_creation (enqueue_task env) (en_backend env) (en_now env) sq t)"

definition remove :: "env \<Rightarrow> ustr \<Rightarrow> (world, unit) action" where
  "remove env t = on_tasks (\<lambda>store. no_value (delete_task (en_backend env) store t))"

definition refund_task :: "env \<Rightarrow> ustr \<Rightarrow> ustr \<Rightarrow> (world, bool) action" where
  "refund_task env token_hash t =
     on_part_keeping (\<lambda>w. (wd_tokens w, wd_ledger w)) (\<lambda>(k, l) w. w\<lparr>wd_tokens := k, wd_ledger := l\<rparr>)
       (\<lambda>(k, l). refund_temp_quota_hash (en_backend env) (en_now env) (en_rand env) k l token_hash t)"

definition sync_membership :: "env \<Rightarrow> ustr \<Rightarrow> (world, bool) action" where
  "sync_membership env token_hash =
     on_part_keeping (\<lambda>w. (wd_users w, wd_tokens w)) (\<lambda>(us, k) w. w\<lparr>wd_users := us, wd_tokens := k\<rparr>)
       (\<lambda>uw. sync_user_membership_by_token_hash (en_backend env) (en_now env) (en_member_draw env) (en_packages env) uw token_hash)"

definition meanwhile :: "env \<Rightarrow> nat \<Rightarrow> (world, unit) action" where
  "meanwhile env n = changes (\<lambda>w. case en_others env n (wd_jobs w, wd_canceled w) of
     (jobs, cs) \<Rightarrow> w\<lparr>wd_jobs := jobs, wd_canceled := cs\<rparr>)"

definition job_is_active :: "job_table \<Rightarrow> ustr \<Rightarrow> ustr \<Rightarrow> bool" where
  "job_is_active jobs job_id owner = (case get_job jobs job_id owner of
     None \<Rightarrow> False
   | Some job \<Rightarrow> bj_status job \<in> {JQueued, JRunning} \<and> bj_canceled_at job = Unset)"

definition require_job_active :: "env \<Rightarrow> nat \<Rightarrow> ustr \<Rightarrow> ustr \<Rightarrow> (world, unit) action" where
  "require_job_active env n job_id owner =
     seq (meanwhile env n) (\<lambda>_. seq (reads (\<lambda>w. job_is_active (wd_jobs w) job_id owner)) (\<lambda>active.
       need active (HTTPException 409 msg_batch_halted)))"

definition require_batch_active :: "env \<Rightarrow> nat \<Rightarrow> access_context \<Rightarrow> ustr \<Rightarrow> (world, unit) action" where
  "require_batch_active env n access batch_id =
     seq (meanwhile env n) (\<lambda>_. seq (reads (\<lambda>w. ensure_batch_active access batch_id (wd_canceled w))) of_result)"

definition admit :: "env \<Rightarrow> (world, unit) action" where
  "admit env = seq (reads (\<lambda>w. admit_task_creation (en_policy env) (en_redis env) (en_reachable env)
     (wd_runtime w) (wd_queue w))) of_result"

section \<open>Charging a task\<close>

definition transaction_user_id :: "access_context \<Rightarrow> user_table \<Rightarrow> ustr" where
  "transaction_user_id access users =
     (if \<not> ac_is_temp access then []
      else case user_identity_by_token_hash users (ac_token_hash access) of
        Inl _ \<Rightarrow> [] | Inr i \<Rightarrow> ui_id i)"

text \<open>The price in points and in video quota after the user's discounts; an administrator has none.\<close>

definition price_task :: "env \<Rightarrow> access_context \<Rightarrow> ustr \<Rightarrow> ustr \<Rightarrow> int \<Rightarrow> (world, int \<times> int) action" where
  "price_task env access platform model duration =
     seq (of_result (model_cost_units (st_prices (en_settings env)) platform model duration)) (\<lambda>base.
     seq (if ac_is_temp access
          then on_part_keeping wd_users (\<lambda>t w. w\<lparr>wd_users := t\<rparr>)
            (\<lambda>users. task_discount_units_by_token_hash (en_backend env) (en_now env) (en_member_draw env) users
               (ac_token_hash access) platform model)
          else give 0) (\<lambda>discount.
     seq (if ac_is_temp access
          then seq (reads (\<lambda>w. task_video_quota_discount_units_by_token_hash (wd_users w) (ac_token_hash access) platform model)) of_result
          else give 0) (\<lambda>video_discount.
     seq (of_result (model_video_quota_cost_units (st_prices (en_settings env)) platform model duration)) (\<lambda>video_base.
     give (max 1 (base - discount), max 1 (video_base - video_discount))))))"

definition reserve :: "env \<Rightarrow> access_context \<Rightarrow> ustr \<Rightarrow> int \<Rightarrow> ustr \<Rightarrow> int \<Rightarrow> (world, access_context) action" where
  "reserve env access t cost user_id video_cost =
     on_tokens (\<lambda>k. reserve_temp_quota (en_backend env) (en_now env) k access t cost user_id video_cost)"

definition consumption :: "ustr \<Rightarrow> reservation \<Rightarrow> access_context \<Rightarrow> ustr \<Rightarrow> ustr \<Rightarrow> ustr \<Rightarrow> transaction_args" where
  "consumption user_id r ctx t detail transaction_id =
     \<lparr>ta_user_id = user_id,
      ta_kind = (if rs_free r then u ''video_quota_consume'' else u ''consume''),
      ta_amount_units = (if rs_free r then 0 else - rs_units r),
      ta_title = (if rs_free r then msg_quota_consumed else msg_points_consumed),
      ta_balance_units = Some (ac_credit_units ctx),
      ta_reference_id = t,
      ta_detail = detail,
      ta_video_quota_change = (if rs_free r then dec_neg (units_to_points (rs_video_units r)) else Fin 0 0),
      ta_video_quota_balance = Some (ac_free_remaining ctx),
      ta_transaction_id = transaction_id,
      ta_visible_to_client = True\<rparr>"

text \<open>Once the quota is reserved: \<open>check\<close> is the handler's own look at the batch, then the reservation
  is read back and entered in the ledger of the user it belongs to.\<close>

definition record_consumption ::
    "env \<Rightarrow> (world, unit) action \<Rightarrow> access_context \<Rightarrow> ustr \<Rightarrow> access_context \<Rightarrow> ustr \<Rightarrow> ustr \<Rightarrow> ustr \<Rightarrow>
     (world, reservation option) action" where
  "record_consumption env check access user_id ctx t detail transaction_id =
     seq check (\<lambda>_.
     seq (reads (\<lambda>w. if ac_is_temp access then get_temp_reservation (wd_tokens w) (ac_token_hash access) t else None)) (\<lambda>found.
     case found of
       None \<Rightarrow> give None
     | Some r \<Rightarrow>
         if user_id = [] then give (Some r)
         else seq (on_ledger (\<lambda>l. record_transaction (en_backend env) (en_now env) (en_rand env) l
             (consumption user_id r ctx t detail transaction_id))) (\<lambda>_. give (Some r))))"

definition task_detail :: "ustr \<Rightarrow> ustr \<Rightarrow> ustr \<Rightarrow> ustr" where
  "task_detail t platform model =
     msg_task_id_label @ t @ [10] @ dict_get PLATFORM_LABELS platform platform @ u '' / '' @ model"

record task_charge =
  cg_context :: access_context
  cg_user_id :: ustr
  cg_reservation :: "reservation option"

definition charge_task ::
    "env \<Rightarrow> (world, unit) action \<Rightarrow> access_context \<Rightarrow> ustr \<Rightarrow> ustr \<Rightarrow> ustr \<Rightarrow> int \<Rightarrow> (world, task_charge) action" where
  "charge_task env check access t platform model duration =
     seq (price_task env access platform model duration) (\<lambda>(cost, video_cost).
     seq (reads (\<lambda>w. transaction_user_id access (wd_users w))) (\<lambda>user_id.
     seq (reserve env access t cost user_id video_cost) (\<lambda>ctx.
     seq (record_consumption env check access user_id ctx t (task_detail t platform model) (u ''task-'' @ take 27 t)) (\<lambda>found.
     give \<lparr>cg_context = ctx, cg_user_id = user_id, cg_reservation = found\<rparr>))))"

text \<open>What a failed creation does before it passes the exception on.\<close>

definition undo :: "env \<Rightarrow> ustr \<Rightarrow> ustr \<Rightarrow> (world, unit) action" where
  "undo env token_hash t = seq (refund_task env token_hash t) (\<lambda>_. remove env t)"

text \<open>The images saved for the task and the last step, that makes it pending and queues it.\<close>

definition task_id_of :: "task_meta \<Rightarrow> ustr" where
  "task_id_of m = rq_id (tm_request m)"

definition store_images :: "env \<Rightarrow> ustr \<Rightarrow> unit result \<Rightarrow> ustr list \<Rightarrow> (world, unit) action" where
  "store_images env t saved names =
     seq (of_result saved) (\<lambda>_.
     on_tasks (\<lambda>store. mutate_meta (en_backend env) store t (set_task_images_mut (en_now env) (int (length names)) names)))"

definition change_meta :: "env \<Rightarrow> ustr \<Rightarrow> (task_meta \<Rightarrow> task_meta) \<Rightarrow> (world, task_meta) action" where
  "change_meta env t f = on_tasks (\<lambda>store. update_meta (en_backend env) store t (en_now env) f)"

end
