(* ===== verification/Charge_Rules.thy ===== *)
theory Charge_Rules
  imports Service Temp_Props Task_Lists_Props User_Props
begin

text \<open>
  Rules for the shared steps of a creation, with PostgreSQL. \<open>worth t e\<close> is what the entry's two
  balances would be without the open reservation of the task \<open>t\<close>: reserving for \<open>t\<close> and refunding
  it keep it, so it tells whether a failed creation costs its owner anything.
\<close>

section \<open>What an entry is worth without a task\<close>

lemma member_le_sum_list_int: "x \<in> set xs \<Longrightarrow> (\<And>y. y \<in> set xs \<Longrightarrow> 0 \<le> y) \<Longrightarrow> x \<le> sum_list (xs :: int list)"
proof (induction xs)
  case (Cons a xs)
  then have "0 \<le> a" "0 \<le> sum_list xs" by (auto intro: sum_list_nonneg)
  with Cons show ?case by fastforce
qed simp

definition worth :: "ustr \<Rightarrow> token_entry \<Rightarrow> int \<times> int" where
  "worth t e = (case map_of (te_reservations e) t of
     None \<Rightarrow> (entry_video_quota_units e, te_credit_units e)
   | Some r \<Rightarrow>
       if rs_status r \<noteq> Reserved then (entry_video_quota_units e, te_credit_units e)
       else (entry_video_quota_units e + (if rs_free r then rs_video_units r else 0),
             te_credit_units e + (if rs_free r then 0 else rs_units r)))"

lemma worth_closed:
  assumes "entry_ok e" "\<not> open_reservation e t"
  shows "worth t e = (entry_video_quota_units e, te_credit_units e)"
  using assms by (auto simp: worth_def open_map_of split: option.split)

lemma worth_open:
  "map_of (te_reservations e) t = Some r \<Longrightarrow> rs_status r = Reserved \<Longrightarrow>
   worth t e = (entry_video_quota_units e + (if rs_free r then rs_video_units r else 0),
                te_credit_units e + (if rs_free r then 0 else rs_units r))"
  by (simp add: worth_def)

lemma worth_fields:
  "entry_video_quota_units e' = entry_video_quota_units e \<Longrightarrow> te_credit_units e' = te_credit_units e \<Longrightarrow>
   te_reservations e' = te_reservations e \<Longrightarrow> worth t e' = worth t e"
  by (simp add: worth_def split: option.split)

lemma worth_bounds:
  assumes "entry_ok e"
  shows "entry_video_quota_units e \<le> fst (worth t e)" "fst (worth t e) \<le> holdings e" "0 \<le> entry_video_quota_units e"
proof -
  show nn: "0 \<le> entry_video_quota_units e" by (rule evq_nonneg [OF assms])
  have held_nn: "0 \<le> held r" if "(i, r) \<in> set (te_reservations e)" for i r
    using that assms by (auto simp: held_def entry_ok_def split: if_splits)
  have cr: "0 \<le> te_credit_units e" using assms by (simp add: entry_ok_def)
  have sum_nn: "0 \<le> sum_list (map (held \<circ> snd) (te_reservations e))"
    by (rule sum_list_nonneg) (use held_nn in auto)
  show "entry_video_quota_units e \<le> fst (worth t e)" "fst (worth t e) \<le> holdings e"
  proof (atomize (full), cases "map_of (te_reservations e) t")
    case None
    with cr sum_nn show "entry_video_quota_units e \<le> fst (worth t e) \<and> fst (worth t e) \<le> holdings e"
      by (simp add: worth_def holdings_def)
  next
    case (Some r)
    then have mem: "(t, r) \<in> set (te_reservations e)" by (rule map_of_SomeD)
    then have "held r \<in> set (map (held \<circ> snd) (te_reservations e))" by force
    then have le: "held r \<le> sum_list (map (held \<circ> snd) (te_reservations e))"
      by (rule member_le_sum_list_int) (use held_nn in auto)
    with Some cr held_nn [OF mem] sum_nn
    show "entry_video_quota_units e \<le> fst (worth t e) \<and> fst (worth t e) \<le> holdings e"
      by (auto simp: worth_def holdings_def held_def)
  qed
qed

section \<open>Stages of a creation\<close>

text \<open>
  The store's tasks satisfy \<open>F\<close> and the owner's entry is well-formed, worth \<open>q\<close> without \<open>t\<close>, and
  satisfies \<open>P\<close>.
\<close>

definition stage :: "ustr \<Rightarrow> ((ustr \<Rightarrow> task_row option) \<Rightarrow> bool) \<Rightarrow> int \<times> int \<Rightarrow> ustr \<Rightarrow> (token_entry \<Rightarrow> bool) \<Rightarrow> world \<Rightarrow> bool" where
  "stage h F q t P w \<longleftrightarrow> F (map_of (wd_tasks w)) \<and>
     (\<exists>e. map_of (wd_tokens w) h = Some e \<and> entry_ok e \<and> worth t e = q \<and> P e)"

abbreviation any_entry :: "token_entry \<Rightarrow> bool" where
  "any_entry \<equiv> \<lambda>_. True"

abbreviation holds :: "ustr \<Rightarrow> token_entry \<Rightarrow> bool" where
  "holds t \<equiv> \<lambda>e. open_reservation e t"

abbreviation free_of :: "ustr \<Rightarrow> token_entry \<Rightarrow> bool" where
  "free_of t \<equiv> \<lambda>e. \<not> open_reservation e t"

lemma stageI:
  "F (map_of (wd_tasks w)) \<Longrightarrow> map_of (wd_tokens w) h = Some e \<Longrightarrow> entry_ok e \<Longrightarrow> worth t e = q \<Longrightarrow> P e \<Longrightarrow>
   stage h F q t P w"
  by (auto simp: stage_def)

lemma stageE:
  assumes "stage h F q t P w"
  obtains e where "F (map_of (wd_tasks w))" "map_of (wd_tokens w) h = Some e" "entry_ok e" "worth t e = q" "P e"
  using assms by (auto simp: stage_def)

lemma stage_same:
  "wd_tasks w' = wd_tasks w \<Longrightarrow> wd_tokens w' = wd_tokens w \<Longrightarrow> stage h F q t P w' = stage h F q t P w"
  by (simp add: stage_def)

lemma stage_weaken: "stage h F q t P w \<Longrightarrow> stage h F q t any_entry w"
  by (auto simp: stage_def)

lemma reserve_stage:
  assumes "ac_is_temp access" "ac_token_hash access = h" "t \<noteq> []"
  shows "triple (stage h F q t any_entry) (reserve env access t cost user_id video_cost)
    (\<lambda>_. stage h F q t (holds t)) (\<lambda>_. stage h F q t any_entry)"
  unfolding reserve_def on_tokens_def
proof (rule triple_on_part)
  fix w tokens ctx
  assume st: "stage h F q t any_entry w"
    and run: "reserve_temp_quota (en_backend env) (en_now env) (wd_tokens w) access t cost user_id video_cost = Inr (tokens, ctx)"
  from st obtain e where F: "F (map_of (wd_tasks w))" and e: "map_of (wd_tokens w) h = Some e" "entry_ok e" "worth t e = q"
    by (rule stageE)
  from run assms have "run_row (en_backend env) KeyError (wd_tokens w) h
      (reserve_entry (en_now env) access t cost user_id video_cost) = Inr (tokens, ctx)"
    by (simp add: reserve_temp_run)
  from any_rows.run_Inr [OF this] e(1) obtain e1 v where
    r: "reserve_entry (en_now env) access t cost user_id video_cost e = Inr (e1, ctx, v)"
    and m: "map_of tokens = (map_of (wd_tokens w))(h \<mapsto> e1) \<or> (\<not> v \<and> tokens = wd_tokens w)"
    by (metis option.inject)
  from reserve_entry_unwritten [OF e(2) r] m e(1) have row: "map_of tokens h = Some e1" by auto
  show "stage h F q t (holds t) (w\<lparr>wd_tokens := tokens\<rparr>)"
  proof (rule stageI)
    show "F (map_of (wd_tasks (w\<lparr>wd_tokens := tokens\<rparr>)))" using F by simp
    show "map_of (wd_tokens (w\<lparr>wd_tokens := tokens\<rparr>)) h = Some e1" using row by simp
    have "entry_ok e1 \<and> worth t e1 = worth t e \<and> open_reservation e1 t"
    proof (cases "map_of (te_reservations e) t")
      case None
      from reserve_entry_fresh [OF e(2) None r]
      have take: "take_quota (en_now env) t cost user_id video_cost e = Inr e1" by simp
      from take_quota_stored [OF e(2) None assms(3) take] obtain rs where
        rs: "map_of (te_reservations e1) t = Some rs" "rs_status rs = Reserved"
          "entry_video_quota_units e = entry_video_quota_units e1 + (if rs_free rs then rs_video_units rs else 0)"
          "te_credit_units e = te_credit_units e1 + (if rs_free rs then 0 else rs_units rs)" .
      from take_quota_accounts [OF e(2) None take] assms(3) rs None show ?thesis
        by (simp add: worth_open worth_def)
    next
      case (Some rs)
      with r e(2) assms(3) have "rs_status rs = Reserved" "e1 = e"
        by (auto simp: reserve_entry_def entry_ok_migrated split: if_splits)
      with e(2) Some show ?thesis by (auto simp: open_map_of)
    qed
    with e(3) show "entry_ok e1" "worth t e1 = q" "open_reservation e1 t" by simp_all
  qed
qed

lemma stage_puts [simp]:
  "stage h F q t P (w\<lparr>wd_users := us\<rparr>) = stage h F q t P w"
  "stage h F q t P (w\<lparr>wd_ledger := l\<rparr>) = stage h F q t P w"
  "stage h F q t P (w\<lparr>wd_jobs := js\<rparr>) = stage h F q t P w"
  "stage h F q t P (w\<lparr>wd_canceled := cs\<rparr>) = stage h F q t P w"
  "stage h F q t P (w\<lparr>wd_accounts := as\<rparr>) = stage h F q t P w"
  by (simp_all add: stage_def)

lemma price_keeps: "keeps (stage h F q t P) (price_task env access platform model duration)"
  unfolding price_task_def by (intro keeping keeps_on_part) simp_all

lemma record_keeps:
  assumes "keeps (stage h F q t P) check"
  shows "keeps (stage h F q t P) (record_consumption env check access user_id ctx i detail tx)"
  unfolding record_consumption_def on_ledger_def by (intro assms keeping keeps_on_part) simp_all

lemma charge_stage:
  assumes "ac_is_temp access" "ac_token_hash access = h" "t \<noteq> []"
    and "keeps (stage h F q t (holds t)) check"
  shows "triple (stage h F q t any_entry) (charge_task env check access t platform model duration)
    (\<lambda>_. stage h F q t (holds t)) (\<lambda>_. stage h F q t any_entry)"
  unfolding charge_task_def
proof (rule triple_after [OF price_keeps], rule triple_prod, rule triple_after [OF keeps_steps(5)],
    rule triple_seq [OF reserve_stage [OF assms(1-3)]], rule triple_then_give)
  fix costs cost video_cost user_id ctx
  show "triple (stage h F q t (holds t))
      (record_consumption env check access user_id ctx t (task_detail t platform model) (u ''task-'' @ take 27 t))
      (\<lambda>_. stage h F q t (holds t)) (\<lambda>_. stage h F q t any_entry)"
    by (rule keeps_weaken [OF record_keeps [OF assms(4)]]) (erule stage_weaken)
qed simp_all

section \<open>Undoing\<close>

text \<open>Amounts below ten to the 26 tenths are written exactly, so entering a refund in the ledger
  cannot fail.\<close>

lemma units_to_points_zero: "units_to_points 0 = Fin 0 0"
  by (simp add: units_to_points_def)

lemma dec_sign_points: "0 \<le> n \<Longrightarrow> \<exists>s. dec_sign (units_to_points n) = Inr s \<and> 0 \<le> s"
  by (auto simp: units_to_points_def Let_def sgn_if POINT_SCALE_def)

lemma refund_recorded:
  assumes "ri_video_quota_change i = units_to_points n" "0 \<le> n" "n < 10 ^ 26"
    and "ri_video_quota_balance i = units_to_points k" "0 \<le> k" "k < 10 ^ 26"
  shows "\<exists>rows'. record_reservation_refund b now rand rows (Some i) t = Inr rows'"
proof -
  obtain s where s: "dec_sign (units_to_points n) = Inr s" "0 \<le> s" using dec_sign_points [OF assms(2)] by blast
  have "quota_change_points (units_to_points n) = Inr (units_to_points n)"
    using s nonnegative_points_of_units [OF assms(2,3)] by (simp add: quota_change_points_def)
  moreover have "quota_balance_points (Some (units_to_points k)) = Inr (Some (units_to_points k))"
    using nonnegative_points_of_units [OF assms(5,6)] by (simp add: quota_balance_points_def)
  ultimately have entry: "\<exists>x. transaction_entry now rand a = Inr x"
    if "ta_video_quota_change a = units_to_points n" "ta_video_quota_balance a = Some (units_to_points k)" for a
    using that by (simp add: transaction_entry_def)
  have rec: "\<exists>p. record_transaction b now rand rows a = Inr p"
    if "ta_video_quota_change a = units_to_points n" "ta_video_quota_balance a = Some (units_to_points k)" for a
    using entry [OF that] by (cases b) (auto simp: record_transaction_def split: option.split)
  show ?thesis
    unfolding record_reservation_refund_def option.case Let_def
    using rec [of "\<lparr>ta_user_id = ri_user_id i,
             ta_kind = (if \<not> dec_zero (ri_video_quota_change i) then u ''video_quota_refund'' else u ''refund''),
             ta_amount_units = ri_units i,
             ta_title = (if \<not> dec_zero (ri_video_quota_change i) then msg_quota_refund else msg_task_refund),
             ta_balance_units = Some (ri_balance_units i), ta_reference_id = t,
             ta_detail = (if t = [] then [] else msg_task_id_prefix @ t),
             ta_video_quota_change = ri_video_quota_change i, ta_video_quota_balance = Some (ri_video_quota_balance i),
             ta_transaction_id = [], ta_visible_to_client = True\<rparr>"] assms(1,4)
    by auto
qed

lemma refund_stage:
  assumes h: "normalized_hash h = h" "h \<noteq> []" and t: "t \<noteq> []" and q: "fst q < 10 ^ 26"
  shows "triple (stage h F q t P) (refund_task env h t) (\<lambda>_. stage h F q t (free_of t)) (\<lambda>_ _. False)"
proof -
  have main: "\<exists>k l r. refund_temp_quota_hash (en_backend env) (en_now env) (en_rand env) (wd_tokens w) (wd_ledger w) h t = ((k, l), Inr r) \<and>
      stage h F q t (free_of t) (w\<lparr>wd_tokens := k, wd_ledger := l\<rparr>)" if st: "stage h F q t P w" for w
  proof -
    let ?b = "en_backend env" and ?now = "en_now env" and ?rows = "wd_tokens w"
    from st obtain e where F: "F (map_of (wd_tasks w))" and e: "map_of ?rows h = Some e" "entry_ok e" "worth t e = q"
      by (rule stageE)
    show ?thesis
    proof (cases "open_reservation e t")
      case False
      have none: "\<not> (\<exists>r. map_of (te_reservations e) t = Some r \<and> rs_status r = Reserved)"
        using e(2) False by (simp add: open_map_of)
      have "refund_entry ?now t e = Inr (e, (False, None), False)"
        using none e(2) t by (auto simp: refund_entry_def entry_ok_def split: option.split)
      from any_rows.run_ok [OF e(1), where f = "refund_entry ?now t", OF this, where e = KeyError and b = ?b]
      obtain k where run: "run_row ?b KeyError ?rows h (refund_entry ?now t) = Inr (k, (False, None))"
        and k: "map_of k = (map_of ?rows)(h \<mapsto> e) \<or> k = ?rows" by auto
      from k e(1) have k': "map_of k h = Some e" by auto
      have "refund_temp_quota_hash ?b ?now (en_rand env) ?rows (wd_ledger w) h t = ((k, wd_ledger w), Inr False)"
        using run h by (simp add: refund_temp_quota_hash_def)
      moreover have "stage h F q t (free_of t) (w\<lparr>wd_tokens := k, wd_ledger := wd_ledger w\<rparr>)"
        by (rule stageI [where e = e]) (simp_all add: F k' e False)
      ultimately show ?thesis by blast
    next
      case True
      then obtain r where r: "map_of (te_reservations e) t = Some r" "rs_status r = Reserved"
        using e(2) by (auto simp: open_map_of)
      obtain e2 info where gb: "give_back ?now t r e = (e2, info)" by (cases "give_back ?now t r e")
      have "refund_entry ?now t e = Inr (e2, (True, Some info), True)"
        using r e(2) t gb by (simp add: refund_entry_def entry_ok_def)
      then have run: "run_row ?b KeyError ?rows h (refund_entry ?now t) = Inr (AList.update h e2 ?rows, (True, Some info))"
        by (intro any_rows.run_written) (simp_all add: e(1))
      note acc = give_back_accounts [OF e(2) r gb] and bal = give_back_balances [OF e(2) r gb]
      have closed: "\<not> open_reservation e2 t" by (simp add: acc(3))
      have worth2: "worth t e2 = q" using worth_closed [OF acc(1) closed] worth_open [OF r] bal e(3) by simp
      have units: "rs_free r \<Longrightarrow> 1 \<le> rs_video_units r"
        using e(2) r map_of_SomeD [OF r(1)] by (auto simp: entry_ok_def)
      have "ri_video_quota_change info = (if rs_free r then units_to_points (max 1 (int_or (rs_video_units r) POINT_SCALE)) else Fin 0 0)"
        using gb by (auto simp: give_back_def Let_def)
      then have change: "ri_video_quota_change info = units_to_points (if rs_free r then rs_video_units r else 0)"
        using units by (auto simp: units_to_points_zero int_or_def)
      have balance: "ri_video_quota_balance info = units_to_points (entry_video_quota_units e2)"
      proof -
        have "ri_video_quota_balance info = units_to_points (entry_video_quota_units
           (if rs_free r then set_entry_video_quota_units e (entry_video_quota_units e + max 1 (int_or (rs_video_units r) POINT_SCALE))
            else e\<lparr>te_credit_units := te_credit_units e + rs_units r\<rparr>))"
          using gb by (auto simp: give_back_def Let_def)
        moreover have "max 1 (int_or (rs_video_units r) POINT_SCALE) = rs_video_units r" if "rs_free r"
          using units [OF that] by (simp add: int_or_def)
        ultimately show ?thesis using bal(1) evq_nonneg [OF e(2)] units by auto
      qed
      have e2q: "entry_video_quota_units e2 = fst q" using worth_closed [OF acc(1) closed] worth2 by (metis fst_conv)
      have nn: "0 \<le> (if rs_free r then rs_video_units r else 0)" "(if rs_free r then rs_video_units r else 0) < 10 ^ 26"
        using units bal(1) e2q q evq_nonneg [OF e(2)] by auto
      have nn2: "0 \<le> entry_video_quota_units e2" "entry_video_quota_units e2 < 10 ^ 26"
        using e2q q evq_nonneg [OF acc(1)] by auto
      obtain l where "record_reservation_refund ?b ?now (en_rand env) (wd_ledger w) (Some info) t = Inr l"
        using refund_recorded [OF change nn balance nn2] by blast
      with run h have "refund_temp_quota_hash ?b ?now (en_rand env) ?rows (wd_ledger w) h t = ((AList.update h e2 ?rows, l), Inr True)"
        by (simp add: refund_temp_quota_hash_def)
      moreover have "stage h F q t (free_of t) (w\<lparr>wd_tokens := AList.update h e2 ?rows, wd_ledger := l\<rparr>)"
        by (rule stageI [where e = e2]) (simp_all add: F update_conv' acc(1) worth2 closed)
      ultimately show ?thesis by blast
    qed
  qed
  show ?thesis
    unfolding refund_task_def
  proof (rule triple_on_part_keeping)
    fix w p x
    assume "stage h F q t P w"
      and run: "(case (wd_tokens w, wd_ledger w) of (k, l) \<Rightarrow>
        refund_temp_quota_hash (en_backend env) (en_now env) (en_rand env) k l h t) = (p, Inr x)"
    from main [OF this(1)] run show "stage h F q t (free_of t) ((\<lambda>(k, l) w. w\<lparr>wd_tokens := k, wd_ledger := l\<rparr>) p w)" by auto
  next
    fix w p x
    assume "stage h F q t P w"
      and run: "(case (wd_tokens w, wd_ledger w) of (k, l) \<Rightarrow>
        refund_temp_quota_hash (en_backend env) (en_now env) (en_rand env) k l h t) = (p, Inl x)"
    from main [OF this(1)] run show False by auto
  qed
qed

text \<open>A task that is being created, on top of the tasks \<open>T\<close>.\<close>

definition creating :: "(ustr \<Rightarrow> task_row option) \<Rightarrow> ustr \<Rightarrow> (ustr \<Rightarrow> task_row option) \<Rightarrow> bool" where
  "creating T t M \<longleftrightarrow> (\<exists>row. M = T(t \<mapsto> row) \<and> tm_status (tr_meta row) = Initializing)"

definition waiting :: "(ustr \<Rightarrow> task_row option) \<Rightarrow> ustr \<Rightarrow> (ustr \<Rightarrow> task_row option) \<Rightarrow> bool" where
  "waiting T t M \<longleftrightarrow> (\<exists>row. M = T(t \<mapsto> row) \<and> tm_status (tr_meta row) = Pending)"

definition without :: "(ustr \<Rightarrow> task_row option) \<Rightarrow> ustr \<Rightarrow> (ustr \<Rightarrow> task_row option) \<Rightarrow> bool" where
  "without T t M \<longleftrightarrow> M = T(t := None)"

lemma remove_stage:
  assumes "is_task_id t"
  shows "triple (stage h (creating T t) q t P) (remove env t) (\<lambda>_. stage h (without T t) q t P) (\<lambda>_ _. False)"
  unfolding remove_def on_tasks_def
proof (rule triple_on_part)
  fix w store x
  assume st: "stage h (creating T t) q t P w"
    and run: "no_value (delete_task (en_backend env) (wd_tasks w) t) = Inr (store, x)"
  from run assms have store: "store = AList.delete t (wd_tasks w)" by (simp add: no_value_def delete_task_def)
  from st obtain e where M: "creating T t (map_of (wd_tasks w))"
    and e: "map_of (wd_tokens w) h = Some e" "entry_ok e" "worth t e = q" "P e" by (rule stageE)
  show "stage h (without T t) q t P (w\<lparr>wd_tasks := store\<rparr>)"
    by (rule stageI [where e = e]) (use M e in \<open>auto simp: store delete_conv' creating_def without_def\<close>)
next
  fix w x
  assume "no_value (delete_task (en_backend env) (wd_tasks w) t) = Inl x"
  with assms show False by (simp add: no_value_def delete_task_def)
qed

lemma undo_stage:
  assumes "normalized_hash h = h" "h \<noteq> []" "is_task_id t" "fst q < 10 ^ 26"
  shows "triple (stage h (creating T t) q t P) (undo env h t) (\<lambda>_. stage h (without T t) q t (free_of t)) (\<lambda>_ _. False)"
proof -
  have t: "t \<noteq> []" using assms(3) by (auto simp: is_task_id_def)
  show ?thesis unfolding undo_def
    by (rule triple_seq [OF refund_stage [OF assms(1,2) t assms(4)] remove_stage [OF assms(3)]])
qed

text \<open>An exception after which everything is undone and passed on.\<close>

lemma undone:
  assumes "normalized_hash h = h" "h \<noteq> []" "is_task_id t" "fst q < 10 ^ 26"
    and "triple P m Q (\<lambda>_. stage h (creating T t) q t any_entry)"
  shows "triple P (catch m (\<lambda>e. seq (undo env h t) (\<lambda>_. raise e))) Q (\<lambda>_. stage h (without T t) q t (free_of t))"
proof (rule triple_catch [OF assms(5)])
  fix e
  show "triple (stage h (creating T t) q t any_entry) (seq (undo env h t) (\<lambda>_. raise e)) Q
     (\<lambda>_. stage h (without T t) q t (free_of t))"
    by (rule triple_seq [OF triple_conseq [OF undo_stage [OF assms(1-4)]]], assumption, assumption, simp)
      (rule triple_raise)
qed

section \<open>The last steps\<close>

lemma mutated_row:
  assumes "is_task_id t" "mutate_meta b store t f = Inr (store', x)" "map_of store = T(t \<mapsto> row)"
  obtains m' v where "f (tr_meta row) = Inr (m', x, v)"
    "map_of store' = T(t \<mapsto> row\<lparr>tr_meta := m'\<rparr>) \<or> (\<not> v \<and> store' = store)"
  using assms(1,2)
proof (rule mutate_meta_cases)
  fix row0 m' v
  assume "map_of store t = Some row0" "f (tr_meta row0) = Inr (m', x, v)"
    "map_of store' = (map_of store)(t \<mapsto> row0\<lparr>tr_meta := m'\<rparr>) \<or> (\<not> v \<and> store' = store)"
  moreover from this(1) assms(3) have "row0 = row" by simp
  ultimately have "f (tr_meta row) = Inr (m', x, v)"
    "map_of store' = T(t \<mapsto> row\<lparr>tr_meta := m'\<rparr>) \<or> (\<not> v \<and> store' = store)"
    by (simp_all add: assms(3))
  then show thesis by (rule that)
qed

lemma meta_step_stage:
  assumes "is_task_id t" "\<And>m m' r v. f m = Inr (m', r, v) \<Longrightarrow> tm_status m' = tm_status m"
  shows "keeps (stage h (creating T t) q t P) (on_tasks (\<lambda>store. mutate_meta (en_backend env) store t f))"
  unfolding on_tasks_def keeps_def
proof (rule triple_on_part)
  fix w store x
  assume st: "stage h (creating T t) q t P w" and run: "mutate_meta (en_backend env) (wd_tasks w) t f = Inr (store, x)"
  from st obtain e where M: "creating T t (map_of (wd_tasks w))"
    and e: "map_of (wd_tokens w) h = Some e" "entry_ok e" "worth t e = q" "P e" by (rule stageE)
  from M obtain row where row: "map_of (wd_tasks w) = T(t \<mapsto> row)" "tm_status (tr_meta row) = Initializing"
    by (auto simp: creating_def)
  obtain m' v where m': "f (tr_meta row) = Inr (m', x, v)"
    and alt: "map_of store = T(t \<mapsto> row\<lparr>tr_meta := m'\<rparr>) \<or> (\<not> v \<and> store = wd_tasks w)"
    using mutated_row [OF assms(1) run row(1)] by blast
  have new: "creating T t (map_of store)"
  proof (cases "store = wd_tasks w")
    case False
    with alt have "map_of store = T(t \<mapsto> row\<lparr>tr_meta := m'\<rparr>)" by simp
    with assms(2) [OF m'] row(2) show ?thesis by (auto simp: creating_def)
  qed (use M in simp)
  show "stage h (creating T t) q t P (w\<lparr>wd_tasks := store\<rparr>)"
    by (rule stageI [where e = e]) (use new e in simp_all)
qed

lemma images_keeps:
  assumes "is_task_id t"
  shows "keeps (stage h (creating T t) q t P) (store_images env t saved names)"
  unfolding store_images_def
  by (intro keeping meta_step_stage assms) (auto simp: set_task_images_mut_def)

lemma change_keeps:
  assumes "is_task_id t" "\<And>m. tm_status (f m) = tm_status m"
  shows "keeps (stage h (creating T t) q t P) (change_meta env t f)"
  unfolding change_meta_def update_meta_def
  by (intro meta_step_stage assms) (auto simp: update_meta_mut_def Let_def assms(2))

lemma check_keeps:
  "keeps (stage h F q t P) (require_job_active env n job_id owner)"
  "keeps (stage h F q t P) (require_batch_active env n access batch_id)"
  "keeps (stage h F q t P) (admit env)"
  unfolding require_job_active_def require_batch_active_def meanwhile_def admit_def
  by (intro keeping keeps_changes; simp split: prod.split)+

lemma enqueue_known: "t \<in> set (rq_known (fst (enqueue now retrying t a q)))"
  by (simp add: enqueue_def schedule_def add_delayed_def push_ready_def sadd_def)

text \<open>The queue knows the task once it is pending.\<close>

definition queued :: "env \<Rightarrow> ustr \<Rightarrow> world \<Rightarrow> bool" where
  "queued env t w \<longleftrightarrow> (en_redis env \<longrightarrow> t \<in> set (rq_known (wd_queue w)))"

lemma finalize_stage:
  assumes "is_task_id t"
  shows "triple (stage h (creating T t) q t P) (finalize env t)
    (\<lambda>_ w. stage h (waiting T t) q t P w \<and> queued env t w) (\<lambda>_ _. False)"
  unfolding finalize_def
proof (rule triple_on_part)
  let ?f = "\<lambda>m. if tm_status m \<noteq> Initializing then Inl (RuntimeError (u ''task is not initializing''))
          else let m' = m\<lparr>tm_status := Pending, tm_queued_at := At (en_now env), tm_updated_at := At (en_now env)\<rparr>
               in Inr (m', m', True)"
  fix w p x
  assume st: "stage h (creating T t) q t P w"
    and run: "finalize_task_creation (enqueue_task env) (en_backend env) (en_now env) (wd_tasks w, wd_queue w) t = Inr (p, x)"
  from st obtain e where M: "creating T t (map_of (wd_tasks w))"
    and e: "map_of (wd_tokens w) h = Some e" "entry_ok e" "worth t e = q" "P e" by (rule stageE)
  from M obtain row where row: "map_of (wd_tasks w) = T(t \<mapsto> row)" "tm_status (tr_meta row) = Initializing"
    by (auto simp: creating_def)
  from run obtain store where mut: "mutate_meta (en_backend env) (wd_tasks w) t ?f = Inr (store, x)"
    and p: "p = (store, enqueue_task env store (en_now env) t (tm_next_attempt_at x) (wd_queue w))"
    by (cases "mutate_meta (en_backend env) (wd_tasks w) t ?f") (auto simp: finalize_task_creation_def)
  obtain m' v where m': "?f (tr_meta row) = Inr (m', x, v)"
    and alt: "map_of store = T(t \<mapsto> row\<lparr>tr_meta := m'\<rparr>) \<or> (\<not> v \<and> store = wd_tasks w)"
    using mutated_row [OF assms mut row(1)] by blast
  from m' row(2) have "v" "tm_status m' = Pending" by (auto simp: Let_def)
  with alt have "waiting T t (map_of store)" by (auto simp: waiting_def)
  then have "stage h (waiting T t) q t P (w\<lparr>wd_tasks := store, wd_queue := snd p\<rparr>)"
    by (intro stageI [where e = e]) (use e in simp_all)
  moreover have "queued env t (w\<lparr>wd_tasks := store, wd_queue := snd p\<rparr>)"
    by (simp add: queued_def p enqueue_task_def enqueue_known)
  ultimately show "stage h (waiting T t) q t P ((\<lambda>(s, q) w. w\<lparr>wd_tasks := s, wd_queue := q\<rparr>) p w) \<and>
      queued env t ((\<lambda>(s, q) w. w\<lparr>wd_tasks := s, wd_queue := q\<rparr>) p w)"
    by (simp add: p)
next
  let ?f = "\<lambda>m. if tm_status m \<noteq> Initializing then Inl (RuntimeError (u ''task is not initializing''))
          else let m' = m\<lparr>tm_status := Pending, tm_queued_at := At (en_now env), tm_updated_at := At (en_now env)\<rparr>
               in Inr (m', m', True)"
  fix w x
  assume st: "stage h (creating T t) q t P w"
    and run: "finalize_task_creation (enqueue_task env) (en_backend env) (en_now env) (wd_tasks w, wd_queue w) t = Inl x"
  from st obtain row where row: "map_of (wd_tasks w) = T(t \<mapsto> row)" "tm_status (tr_meta row) = Initializing"
    by (auto simp: stage_def creating_def)
  obtain m r v where "?f (tr_meta row) = Inr (m, r, v)" using row(2) by (simp add: Let_def)
  then have f: "on_meta ?f row = Inr (row\<lparr>tr_meta := m\<rparr>, r, v)" by (simp add: on_meta_def)
  have some: "map_of (wd_tasks w) t = Some row" using row(1) by simp
  from any_rows.run_ok [where f = "on_meta ?f", OF some f, where e = FileNotFoundError and b = "en_backend env"] run assms
  show False by (auto simp: finalize_task_creation_def mutate_meta_def)
qed

section \<open>The first steps\<close>

text \<open>A well-formed store, and the state before the task is created: the entry has the balances and
  reservations of \<open>e0\<close>.\<close>

definition store_ok :: "task_store \<Rightarrow> bool" where
  "store_ok store \<longleftrightarrow> distinct (map fst store) \<and>
     (\<forall>(t, row) \<in> set store. is_task_id t \<and> task_id_of (tr_meta row) = t)"

definition same_money :: "token_entry \<Rightarrow> token_entry \<Rightarrow> bool" where
  "same_money e e' \<longleftrightarrow> entry_video_quota_units e' = entry_video_quota_units e \<and>
     te_credit_units e' = te_credit_units e \<and> te_reservations e' = te_reservations e"

definition at_start :: "ustr \<Rightarrow> task_store \<Rightarrow> token_entry \<Rightarrow> world \<Rightarrow> bool" where
  "at_start h store e0 w \<longleftrightarrow> wd_tasks w = store \<and>
     (\<exists>e. map_of (wd_tokens w) h = Some e \<and> entry_ok e \<and> same_money e0 e)"

lemma at_start_stage: "at_start h store e0 w \<Longrightarrow> F (map_of store) \<Longrightarrow> stage h F (worth t e0) t any_entry w"
  by (auto simp: at_start_def stage_def same_money_def intro: worth_fields)

lemma at_start_puts [simp]:
  "at_start h store e0 (w\<lparr>wd_users := us\<rparr>) = at_start h store e0 w"
  "at_start h store e0 (w\<lparr>wd_jobs := js\<rparr>) = at_start h store e0 w"
  "at_start h store e0 (w\<lparr>wd_canceled := cs\<rparr>) = at_start h store e0 w"
  by (simp_all add: at_start_def)

lemma start_checks_keep:
  "keeps (at_start h store e0) (require_job_active env n job_id owner)"
  "keeps (at_start h store e0) (require_batch_active env n access batch_id)"
  "keeps (at_start h store e0) (admit env)"
  unfolding require_job_active_def require_batch_active_def meanwhile_def admit_def
  by (intro keeping keeps_changes; simp split: prod.split)+

text \<open>Bringing a membership up to date changes only how many tasks the token allows at once.\<close>

lemma sync_member_tokens:
  assumes "sync_user_membership_by_token_hash b now draw packages (users, tokens) h = ((users', tokens'), r)"
    and "map_of tokens (normalized_hash h) = Some e"
  shows "tokens' = tokens \<or> (\<exists>n. tokens' = AList.update (normalized_hash h)
     (e\<lparr>te_concurrency := n, te_updated_at := At now\<rparr>) tokens)"
proof -
  let ?new = "\<lambda>k. k = tokens \<or> (\<exists>n. k = AList.update (normalized_hash h)
     (e\<lparr>te_concurrency := n, te_updated_at := At now\<rparr>) tokens)"
  have set: "?new k" if "set_token_concurrency b now tokens h n = Inr (k, p)" for n k p
    using set_token_concurrency_Inr [OF assms(2), of b now n] that by auto
  show ?thesis
  proof (cases "read_user users ByTokenHash h")
    case None
    with assms(1) show ?thesis by (simp add: sync_user_membership_by_token_hash_def)
  next
    case (Some ke)
    obtain key u where ke: "ke = (key, u)" by (cases ke)
    show ?thesis
    proof (cases "if ue_concurrency_reconciled u then Inr [] else packages")
      case (Inl x)
      with assms(1) Some ke show ?thesis by (simp add: sync_user_membership_by_token_hash_def)
    next
      case (Inr pk)
      obtain u' n changed where m: "sync_member_entry now draw pk (token_concurrency tokens h) u = (u', n, changed)"
        by (cases "sync_member_entry now draw pk (token_concurrency tokens h) u") auto
      show ?thesis
        using assms(1) Some ke Inr m set [of n]
        by (cases changed; cases b; cases "set_token_concurrency b now tokens h n")
          (auto simp: sync_user_membership_by_token_hash_def Let_def split: if_splits)
    qed
  qed
qed

lemma entry_ok_concurrency [simp]:
  "entry_ok (e\<lparr>te_concurrency := n, te_updated_at := s\<rparr>) = entry_ok e"
  "same_money e0 (e\<lparr>te_concurrency := n, te_updated_at := s\<rparr>) = same_money e0 e"
  by (simp_all add: entry_ok_def same_money_def entry_video_quota_units_def split: option.split)

lemma sync_keeps:
  assumes "normalized_hash h = h"
  shows "keeps (at_start h store e0) (sync_membership env h)"
proof -
  let ?sync = "sync_user_membership_by_token_hash (en_backend env) (en_now env) (en_member_draw env) (en_packages env)"
  have main: "at_start h store e0 ((\<lambda>(us, k) w. w\<lparr>wd_users := us, wd_tokens := k\<rparr>) p w)"
    if st: "at_start h store e0 w" and run: "?sync (wd_users w, wd_tokens w) h = (p, r)" for w p r
  proof -
    obtain us k where p: "p = (us, k)" by (cases p)
    from st obtain e where e: "wd_tasks w = store" "map_of (wd_tokens w) h = Some e" "entry_ok e" "same_money e0 e"
      by (auto simp: at_start_def)
    from run p have run': "?sync (wd_users w, wd_tokens w) h = ((us, k), r)" by simp
    have row: "map_of (wd_tokens w) (normalized_hash h) = Some e" using e(2) assms by simp
    from sync_member_tokens [OF run' row] assms
    have "k = wd_tokens w \<or> (\<exists>n. k = AList.update h (e\<lparr>te_concurrency := n, te_updated_at := At (en_now env)\<rparr>) (wd_tokens w))"
      by simp
    then have "\<exists>e'. map_of k h = Some e' \<and> entry_ok e' \<and> same_money e0 e'"
    proof
      assume "k = wd_tokens w"
      with e show ?thesis by blast
    next
      assume "\<exists>n. k = AList.update h (e\<lparr>te_concurrency := n, te_updated_at := At (en_now env)\<rparr>) (wd_tokens w)"
      then obtain n where "map_of k h = Some (e\<lparr>te_concurrency := n, te_updated_at := At (en_now env)\<rparr>)"
        by (auto simp: update_conv')
      with e(3,4) show ?thesis by (intro exI [of _ "e\<lparr>te_concurrency := n, te_updated_at := At (en_now env)\<rparr>"]) simp
    qed
    then show ?thesis by (simp add: p at_start_def e(1))
  qed
  show ?thesis
    unfolding sync_membership_def keeps_def by (rule triple_on_part_keeping; erule (1) main)
qed

text \<open>
  What a look-up or creation with PostgreSQL leaves: a task past its creation and nothing changed, or
  one that is being created and was not there before, or not past its creation.
\<close>

definition found_or_new :: "ustr \<Rightarrow> task_store \<Rightarrow> token_entry \<Rightarrow> task_meta \<times> bool \<Rightarrow> world \<Rightarrow> bool" where
  "found_or_new h store e0 p w \<longleftrightarrow>
     (let t = task_id_of (fst p) in
      is_task_id t \<and>
      (if \<not> snd p \<and> tm_status (fst p) \<noteq> Initializing
       then at_start h store e0 w \<and> (\<exists>row. map_of store t = Some row \<and> tr_meta row = fst p)
       else stage h (creating (map_of store) t) (worth t e0) t any_entry w \<and>
         (\<forall>row. map_of store t = Some row \<longrightarrow> tm_status (tr_meta row) = Initializing)))"

lemma new_task_stage:
  assumes st: "at_start h store e0 w" and d: "create_draws ds store = Some t" "\<forall>d \<in> set ds. is_task_id d"
    and m: "tm_status m = Initializing" "task_id_of m = t"
  shows "found_or_new h store e0 (m, True) (w\<lparr>wd_tasks := AList.update t \<lparr>tr_meta = m, tr_result = r\<rparr> store\<rparr>)"
proof -
  from create_draws_fresh [OF d(1)] d(2) have t: "map_of store t = None" "is_task_id t" by auto
  from st obtain e where e: "map_of (wd_tokens w) h = Some e" "entry_ok e" "same_money e0 e"
    by (auto simp: at_start_def)
  have "stage h (creating (map_of store) t) (worth t e0) t any_entry
      (w\<lparr>wd_tasks := AList.update t \<lparr>tr_meta = m, tr_result = r\<rparr> store\<rparr>)"
    by (rule stageI [where e = e])
      (use e m in \<open>auto simp: creating_def update_conv' same_money_def intro: worth_fields\<close>)
  with t m show ?thesis by (simp add: found_or_new_def)
qed

lemma find_or_create_stage:
  assumes "en_backend env = Postgres" "store_ok store" "\<forall>d \<in> set (en_draws env). is_task_id d"
  shows "triple (at_start h store e0) (find_or_create env a owner key fp route) (found_or_new h store e0) (\<lambda>_. at_start h store e0)"
  unfolding find_or_create_def
proof (rule triple_on_part)
  let ?P = "\<lambda>(_ :: ustr, row). tm_owner (tr_meta row) = owner \<and> same_request route (en_sha env key) (tr_meta row)"
  fix w p x
  assume st: "at_start h store e0 w"
    and "find_or_create_task (en_sha env) (world_services env) (en_backend env) (en_now env) (en_stamp env) (en_draws env)
      (wd_tasks w, wd_accounts w, wd_tokens w, wd_ledger w) a owner key fp route = Inr (p, x)"
  moreover have tasks: "wd_tasks w = store" using st by (simp add: at_start_def)
  ultimately have run: "find_or_create_task (en_sha env) (world_services env) Postgres (en_now env) (en_stamp env) (en_draws env)
      (store, wd_accounts w, wd_tokens w, wd_ledger w) a owner key fp route = Inr (p, x)"
    using assms(1) by simp
  obtain platform where pl: "normalize_platform (targ_platform a) = Inr platform"
    using run by (cases "normalize_platform (targ_platform a)") (simp_all add: find_or_create_task_def)
  have same: "(\<lambda>(t, a, k, l) w. w\<lparr>wd_tasks := t, wd_accounts := a, wd_tokens := k, wd_ledger := l\<rparr>)
      (t, wd_accounts w, wd_tokens w, wd_ledger w) w = w\<lparr>wd_tasks := t\<rparr>" for t by simp
  show "found_or_new h store e0 x
      ((\<lambda>(t, a, k, l) w. w\<lparr>wd_tasks := t, wd_accounts := a, wd_tokens := k, wd_ledger := l\<rparr>) p w)"
  proof (cases "find ?P store")
    case (Some tr)
    with run pl have p: "p = (store, wd_accounts w, wd_tokens w, wd_ledger w)" "x = (tr_meta (snd tr), False)"
      by (auto simp: find_or_create_task_def reuse_or_create_def split: if_splits)
    from Some have "tr \<in> set store" by (auto dest: find_Some_in)
    then have row: "map_of store (fst tr) = Some (snd tr)" "is_task_id (fst tr)" "task_id_of (tr_meta (snd tr)) = fst tr"
      using assms(2) by (auto simp: store_ok_def)
    have "w\<lparr>wd_tasks := store\<rparr> = w" using tasks by simp
    moreover have "found_or_new h store e0 x w"
    proof (cases "tm_status (tr_meta (snd tr)) = Initializing")
      case False
      with row st show ?thesis by (simp add: found_or_new_def p)
    next
      case True
      have "map_of store = (map_of store)(fst tr \<mapsto> snd tr)" using row(1) by (simp add: fun_upd_idem)
      with True have "creating (map_of store) (fst tr) (map_of store)" unfolding creating_def by blast
      from at_start_stage [where F = "creating (map_of store) (fst tr)", OF st this] True row show ?thesis by (simp add: found_or_new_def p)
    qed
    ultimately show ?thesis by (simp only: p same)
  next
    case None
    obtain t where t: "create_draws (take 1 (en_draws env)) store = Some t"
      and p: "p = (AList.update t \<lparr>tr_meta = fst x, tr_result = []\<rparr> store, wd_accounts w, wd_tokens w, wd_ledger w)"
      and x: "snd x" "tm_status (fst x) = Initializing" "task_id_of (fst x) = t"
      using run pl None
      by (cases "create_draws (take 1 (en_draws env)) store")
        (auto simp: find_or_create_task_def reuse_or_create_def create_task_def Let_def new_meta_def
          task_request_of_def task_id_of_def min_def)
    have "\<forall>d \<in> set (take 1 (en_draws env)). is_task_id d" using assms(3) by (auto dest: in_set_takeD)
    from new_task_stage [OF st t this x(2,3)] x(1)
    show ?thesis unfolding p same by (cases x) simp
  qed
qed

end
