(* ===== verification/Task_Creation.thy ===== *)
theory Task_Creation
  imports Service
begin

text \<open>
  The handlers of app/main.py that create, retry and remove tasks. Each creates the task in the
  status Initializing, charges its owner, saves the images, and makes it pending; what fails on the
  way undoes the charge and deletes the task. An HTTP status and its text are the exception
  \<open>HTTPException\<close>, for the compatible interface \<open>OpenAIAPIError\<close>; their headers are left out.
\<close>

section \<open>A row of a batch job\<close>

text \<open>
  The files the handler finds: the shared bundle (the file and the name of each image), the images
  uploaded for the row, and whether the copies succeed.
\<close>

record batch_files =
  bf_bundle :: "(ustr \<times> ustr) list result"
  bf_present :: "ustr \<Rightarrow> bool"
  bf_saved :: "unit result"

definition shared_references :: "batch_files \<Rightarrow> batch_job \<Rightarrow> (ustr \<times> ustr) list result" where
  "shared_references files job =
     (if bj_reference_id job = [] then Inr []
      else case bf_bundle files of
        Inl e \<Rightarrow> Inl e
      | Inr images \<Rightarrow>
         (let count = max 0 (bj_reference_count job) in
          if count \<le> 0 \<or> int (length images) < count then Inl (ValueError msg_batch_refs)
          else Inr (take (nat count) images)))"

definition row_references :: "batch_files \<Rightarrow> batch_row \<Rightarrow> ustr list result" where
  "row_references files row =
     (let paths = map after_slash (br_image_files row)
      in if \<exists>p \<in> set paths. \<not> bf_present files p then Inl (ValueError msg_batch_images) else Inr paths)"

record batch_plan =
  bp_access :: access_context
  bp_args :: task_args
  bp_paths :: "ustr list"
  bp_names :: "ustr list"

text \<open>\<open>max(1, int(row.get("index") or 0))\<close>.\<close>

definition row_number :: "batch_row \<Rightarrow> int" where
  "row_number row = max 1 (br_index row)"

text \<open>The checks before the task is created.\<close>

definition plan_batch_task :: "env \<Rightarrow> batch_files \<Rightarrow> row_claim \<Rightarrow> (world, batch_plan) action" where
  "plan_batch_task env files cl =
     (let job = rc_job cl; row = rc_row cl; owner = bj_owner job in
      seq (reads (\<lambda>w. (get_temp_context_by_hash (wd_tokens w) owner, user_token_is_enabled (wd_users w) owner))) (\<lambda>(found, enabled).
      seq (need (found \<noteq> None \<and> enabled) (ValueError msg_user_unavailable)) (\<lambda>_.
      seq (sync_membership env owner) (\<lambda>changed.
      seq (if changed then reads (\<lambda>w. get_temp_context_by_hash (wd_tokens w) owner) else give found) (\<lambda>again.
      case again of
        None \<Rightarrow> raise (HTTPException 409 msg_batch_halted)
      | Some access \<Rightarrow>
          seq (require_job_active env 0 (bj_id job) owner) (\<lambda>_.
          let prompt = en_repair env (strip (br_prompt row)); ratio = strip (str_or (bj_ratio job) DEFAULT_RATIO) in
          seq (of_result (validate_task_platform_model (en_settings env) (str_or (bj_platform job) (u ''dola''))
                 (str_or (bj_model job) (u ''Seedance 2.0'')))) (\<lambda>(platform, model).
          seq (of_result (validate_task_duration (en_settings env) platform model
                 (if bj_duration job = 0 then None else Some (bj_duration job)))) (\<lambda>duration.
          seq (need (prompt \<noteq> [] \<and> ratio \<in> set VALID_RATIOS) (ValueError msg_batch_params)) (\<lambda>_.
          seq (of_result (shared_references files job)) (\<lambda>shared.
          seq (of_result (row_references files row)) (\<lambda>paths.
          seq (need (int (length shared) + int (length paths) \<le> st_max_image_count (en_settings env)) (ValueError msg_batch_too_many)) (\<lambda>_.
          give \<lparr>bp_access = access,
                bp_args = \<lparr>targ_prompt = prompt, targ_ratio = ratio, targ_platform = platform, targ_model = model,
                  targ_task_type = u ''video'', targ_duration = duration, targ_batch_id = bj_id job,
                  targ_batch_index = row_number row, targ_batch_row = br_sheet_row row\<rparr>,
                bp_paths = paths,
                bp_names = map snd shared @ reference_names (br_image_names row) paths\<rparr>))))))))))))"

text \<open>The key and the fingerprint that make the creation of a row idempotent.\<close>

definition batch_key :: "ustr \<Rightarrow> int \<Rightarrow> ustr" where
  "batch_key job_id n = u ''batch-job-'' @ job_id @ u ''-'' @ show_padded 6 n"

definition fingerprint_of :: "env \<Rightarrow> ustr \<Rightarrow> ustr \<Rightarrow> (ustr \<times> json) list \<Rightarrow> ustr" where
  "fingerprint_of env route owner payload =
     en_digest env (JDict [(u ''route'', JStr route), (u ''owner'', JStr owner), (u ''payload'', JDict payload)])"

definition batch_fingerprint :: "env \<Rightarrow> batch_job \<Rightarrow> batch_plan \<Rightarrow> ustr" where
  "batch_fingerprint env job p =
     (let a = bp_args p in
      fingerprint_of env (u ''batch-jobs'') (bj_owner job)
        [(u ''job_id'', JStr (bj_id job)), (u ''row_index'', JInt (targ_batch_index a)),
         (u ''prompt'', JStr (targ_prompt a)), (u ''ratio'', JStr (targ_ratio a)), (u ''duration'', JInt (targ_duration a)),
         (u ''platform'', JStr (targ_platform a)), (u ''model'', JStr (targ_model a)),
         (u ''reference_is_real_person'', JBool (bj_real_person job)),
         (u ''images'', JList (map JStr (bp_paths p)))])"

text \<open>The first \<open>try\<close>: \<open>None\<close> when the task was there already and is past its creation.\<close>

definition charge_batch_task ::
    "env \<Rightarrow> batch_job \<Rightarrow> batch_plan \<Rightarrow> task_meta \<times> bool \<Rightarrow> (world, task_charge option) action" where
  "charge_batch_task env job p = (\<lambda>(m, created).
     if \<not> created \<and> tm_status m \<noteq> Initializing then give None
     else catch
       (seq (charge_task env (require_job_active env 1 (bj_id job) (bj_owner job)) (bp_access p) (task_id_of m)
              (targ_platform (bp_args p)) (targ_model (bp_args p)) (targ_duration (bp_args p))) (\<lambda>c. give (Some c)))
       (\<lambda>e. seq (undo env (bj_owner job) (task_id_of m)) (\<lambda>_. raise e)))"

text \<open>The second \<open>try\<close>: images, flag, a last look at the job, and the task becomes pending.\<close>

definition finish_batch_task :: "env \<Rightarrow> batch_files \<Rightarrow> batch_job \<Rightarrow> batch_plan \<Rightarrow> ustr \<Rightarrow> (world, unit) action" where
  "finish_batch_task env files job p t =
     catch
       (seq (store_images env t (bf_saved files) (bp_names p)) (\<lambda>_.
        seq (change_meta env t (\<lambda>m. m\<lparr>tm_real_person := bj_real_person job\<rparr>)) (\<lambda>_.
        seq (require_job_active env 2 (bj_id job) (bj_owner job)) (\<lambda>_.
        seq (finalize env t) (\<lambda>_. give ())))))
       (\<lambda>e. seq (undo env (bj_owner job) t) (\<lambda>_. raise e))"

definition create_scheduled_batch_task :: "env \<Rightarrow> batch_files \<Rightarrow> row_claim \<Rightarrow> (world, ustr) action" where
  "create_scheduled_batch_task env files cl =
     (let job = rc_job cl in
      seq (plan_batch_task env files cl) (\<lambda>p.
      seq (admit env) (\<lambda>_.
      seq (find_or_create env (bp_args p) (bj_owner job) (batch_key (bj_id job) (targ_batch_index (bp_args p)))
             (batch_fingerprint env job p) (u ''batch-jobs'')) (\<lambda>(m, created).
      seq (charge_batch_task env job p (m, created)) (\<lambda>charged.
      case charged of
        None \<Rightarrow> give (task_id_of m)
      | Some c \<Rightarrow> seq (finish_batch_task env files job p (task_id_of m)) (\<lambda>_. give (task_id_of m)))))))"

end
