(* ===== verification/Creation_Props.thy ===== *)
theory Creation_Props
  imports Charge_Rules Task_Creation
begin

text \<open>
  Creating a task is all or nothing, over the tables it touches: a creation that returns leaves one
  pending task in the store and the queue with its price reserved, and one that raises leaves neither
  task nor charge, wherever it failed.
\<close>

section \<open>A row of a batch\<close>

definition own_access :: "ustr \<Rightarrow> access_context \<Rightarrow> bool" where
  "own_access h access \<longleftrightarrow> ac_is_temp access \<and> ac_token_hash access = h"

definition own_context :: "ustr \<Rightarrow> access_context option \<Rightarrow> bool" where
  "own_context h c \<longleftrightarrow> (\<forall>a. c = Some a \<longrightarrow> own_access h a)"

lemma own_context_by_hash: "normalized_hash h = h \<Longrightarrow> own_context h (get_temp_context_by_hash tokens h)"
  by (auto simp: own_context_def own_access_def get_temp_context_by_hash_def get_temp_context_from_entry_def Let_def)

lemma plan_stage:
  assumes h: "normalized_hash (bj_owner (rc_job cl)) = bj_owner (rc_job cl)"
  shows "triple (at_start (bj_owner (rc_job cl)) store e0) (plan_batch_task env files cl)
    (\<lambda>p w. at_start (bj_owner (rc_job cl)) store e0 w \<and> own_access (bj_owner (rc_job cl)) (bp_access p))
    (\<lambda>_. at_start (bj_owner (rc_job cl)) store e0)"
proof -
  let ?h = "bj_owner (rc_job cl)" and ?I = "at_start (bj_owner (rc_job cl)) store e0"
  note own = own_context_by_hash [OF h]
  have again: "triple ?I (if changed then reads (\<lambda>w. get_temp_context_by_hash (wd_tokens w) ?h) else give found)
        (\<lambda>c s. ?I s \<and> own_context ?h c) (\<lambda>_. ?I)" if "own_context ?h found" for changed found
    by (rule triple_if; rule triple_reads triple_give) (use that own in auto)
  show ?thesis
    unfolding plan_batch_task_def Let_def
    by (rule triple_reads_fact [where B = "\<lambda>x. own_context ?h (fst x)"], simp add: own,
        rule triple_prod, rule triple_after [OF keeps_steps(3)], rule triple_after [OF sync_keeps [OF h]],
        rule triple_seq [OF again], simp, rule triple_fact, rule triple_option, rule triple_raise, assumption,
        rule triple_after [OF start_checks_keep(1)], rule triple_after [OF keeps_steps(4)], rule triple_prod,
        rule triple_after [OF keeps_steps(4)], rule triple_after [OF keeps_steps(3)],
        rule triple_after [OF keeps_steps(4)], rule triple_after [OF keeps_steps(4)],
        rule triple_after [OF keeps_steps(3)], rule triple_give)
      (simp_all add: own_context_def)
qed

text \<open>
  What a creation leaves. \<open>settled\<close>: nothing of a task \<open>t\<close> is left, and the owner has what the entry
  was worth without it.
\<close>

definition settled :: "ustr \<Rightarrow> task_store \<Rightarrow> token_entry \<Rightarrow> world \<Rightarrow> bool" where
  "settled h store e0 w \<longleftrightarrow>
     at_start h store e0 w \<or>
     (\<exists>t. stage h (without (map_of store) t) (worth t e0) t (free_of t) w \<and> is_task_id t \<and>
        (\<forall>row. map_of store t = Some row \<longrightarrow> tm_status (tr_meta row) = Initializing))"

definition was_there :: "ustr \<Rightarrow> task_store \<Rightarrow> token_entry \<Rightarrow> ustr \<Rightarrow> world \<Rightarrow> bool" where
  "was_there h store e0 t w \<longleftrightarrow> at_start h store e0 w \<and>
     (\<exists>row. map_of store t = Some row \<and> tm_status (tr_meta row) \<noteq> Initializing)"

definition made :: "env \<Rightarrow> ustr \<Rightarrow> task_store \<Rightarrow> token_entry \<Rightarrow> ustr \<Rightarrow> world \<Rightarrow> bool" where
  "made env h store e0 t w \<longleftrightarrow>
     stage h (waiting (map_of store) t) (worth t e0) t (holds t) w \<and> queued env t w \<and>
     (\<forall>row. map_of store t = Some row \<longrightarrow> tm_status (tr_meta row) = Initializing)"

lemma batch_creation_triple:
  assumes h: "normalized_hash (bj_owner (rc_job cl)) = bj_owner (rc_job cl)" "bj_owner (rc_job cl) \<noteq> []"
    and b: "en_backend env = Postgres" and ok: "store_ok store" "\<forall>d \<in> set (en_draws env). is_task_id d"
    and bound: "\<And>t. fst (worth t e0) < 10 ^ 26"
  shows "triple (at_start (bj_owner (rc_job cl)) store e0) (create_scheduled_batch_task env files cl)
    (\<lambda>t w. was_there (bj_owner (rc_job cl)) store e0 t w \<or> made env (bj_owner (rc_job cl)) store e0 t w)
    (\<lambda>_. settled (bj_owner (rc_job cl)) store e0)"
proof -
  let ?h = "bj_owner (rc_job cl)"
  have settledI: "at_start ?h store e0 w \<Longrightarrow> settled ?h store e0 w" for w by (simp add: settled_def)
  have rest: "triple (found_or_new ?h store e0 (m, created))
      (seq (charge_batch_task env (rc_job cl) p (m, created)) (\<lambda>charged. case charged of
         None \<Rightarrow> give (task_id_of m)
       | Some c \<Rightarrow> seq (finish_batch_task env files (rc_job cl) p (task_id_of m)) (\<lambda>_. give (task_id_of m))))
      (\<lambda>t w. was_there ?h store e0 t w \<or> made env ?h store e0 t w) (\<lambda>_. settled ?h store e0)"
    if access: "own_access ?h (bp_access p)" for p m created
  proof (cases "\<not> created \<and> tm_status m \<noteq> Initializing")
    case True
    then show ?thesis
      by (intro tripleI) (auto simp: charge_batch_task_def seq_def give_def found_or_new_def was_there_def Let_def)
  next
    case False
    let ?t = "task_id_of m"
    let ?init = "\<forall>row. map_of store ?t = Some row \<longrightarrow> tm_status (tr_meta row) = Initializing"
    let ?P = "stage ?h (creating (map_of store) ?t) (worth ?t e0) ?t"
    have pre: "found_or_new ?h store e0 (m, created) = (\<lambda>w. ?P any_entry w \<and> is_task_id ?t \<and> ?init)"
      using False by (auto simp: found_or_new_def fun_eq_iff Let_def)
    have main: "triple (?P any_entry)
      (seq (charge_batch_task env (rc_job cl) p (m, created)) (\<lambda>charged. case charged of
         None \<Rightarrow> give (task_id_of m)
       | Some c \<Rightarrow> seq (finish_batch_task env files (rc_job cl) p (task_id_of m)) (\<lambda>_. give (task_id_of m))))
      (\<lambda>t w. was_there ?h store e0 t w \<or> made env ?h store e0 t w) (\<lambda>_. settled ?h store e0)"
      if t: "is_task_id ?t" and init: "?init"
    proof -
      have nt: "?t \<noteq> []" using t by (auto simp: is_task_id_def)
      note undone = undone [OF h(1,2) t bound]
      have left: "settled ?h store e0 w"
        if "stage ?h (without (map_of store) ?t) (worth ?t e0) ?t (free_of ?t) w" for w
        using that t init by (auto simp: settled_def)
      have check: "keeps (?P (holds ?t)) (require_job_active env n i ow)" for n i ow by (rule check_keeps)
      have charge: "triple (?P any_entry) (charge_batch_task env (rc_job cl) p (m, created))
          (\<lambda>c w. ?P (holds ?t) w \<and> c \<noteq> None) (\<lambda>_. settled ?h store e0)"
        unfolding charge_batch_task_def prod.case if_not_P [OF False]
        by (rule triple_conseq [OF undone [OF triple_seq [OF charge_stage [OF _ _ nt check] triple_give]]])
          (use access left in \<open>auto simp: own_access_def\<close>)
      have finish: "triple (?P (holds ?t)) (finish_batch_task env files (rc_job cl) p ?t)
          (\<lambda>_. made env ?h store e0 ?t) (\<lambda>_. settled ?h store e0)"
        unfolding finish_batch_task_def
        by (rule triple_conseq [OF undone [OF triple_after [OF images_keeps [OF t] triple_after [OF change_keeps [OF t]
              triple_after [OF check triple_then_give [OF triple_conseq [OF finalize_stage [OF t]]]]]]]])
          (auto simp: made_def init left intro: stage_weaken)
      show ?thesis
        by (rule triple_seq [OF charge], rule triple_fact, rule triple_option, simp,
            rule triple_seq [OF finish], rule triple_give) simp
    qed
    then show ?thesis unfolding pre
      by (intro tripleI) (auto dest: triple_Inr triple_Inl)
  qed
  show ?thesis
    unfolding create_scheduled_batch_task_def Let_def
    by (rule triple_seq [OF triple_conseq [OF plan_stage [OF h(1)]]], assumption, assumption, erule settledI,
        rule triple_fact, rule triple_after [OF start_checks_keep(3)],
        rule triple_seq [OF triple_conseq [OF find_or_create_stage [OF b ok]]], assumption, assumption, erule settledI,
        rule triple_prod, hypsubst, erule rest, erule settledI)
qed

text \<open>The state that a creation starts from.\<close>

definition creation_ready :: "env \<Rightarrow> ustr \<Rightarrow> token_entry \<Rightarrow> world \<Rightarrow> bool" where
  "creation_ready env h e w \<longleftrightarrow>
     en_backend env = Postgres \<and> store_ok (wd_tasks w) \<and> (\<forall>d \<in> set (en_draws env). is_task_id d) \<and>
     normalized_hash h = h \<and> h \<noteq> [] \<and>
     map_of (wd_tokens w) h = Some e \<and> entry_ok e \<and> holdings e < 10 ^ 26"

definition past_creation :: "task_store \<Rightarrow> ustr \<Rightarrow> bool" where
  "past_creation store t \<longleftrightarrow> (\<exists>row. map_of store t = Some row \<and> tm_status (tr_meta row) \<noteq> Initializing)"

definition balances :: "token_entry \<Rightarrow> int \<times> int" where
  "balances e = (entry_video_quota_units e, te_credit_units e)"

lemma ready_start: "creation_ready env h e w \<Longrightarrow> at_start h (wd_tasks w) e w"
  by (auto simp: creation_ready_def at_start_def same_money_def)

lemma ready_bound: "creation_ready env h e w \<Longrightarrow> fst (worth t e) < 10 ^ 26"
  using worth_bounds(2) [of e t] by (auto simp: creation_ready_def)

text \<open>What a failed and a successful creation leave, in plain terms.\<close>

definition nothing_left :: "ustr \<Rightarrow> token_entry \<Rightarrow> world \<Rightarrow> world \<Rightarrow> bool" where
  "nothing_left h e w w' \<longleftrightarrow> (\<exists>e'. map_of (wd_tokens w') h = Some e' \<and> entry_ok e' \<and>
     (wd_tasks w' = wd_tasks w \<and> same_money e e' \<or>
      (\<exists>t. \<not> past_creation (wd_tasks w) t \<and> map_of (wd_tasks w') = (map_of (wd_tasks w))(t := None) \<and>
         \<not> open_reservation e' t \<and> balances e' = worth t e)))"

definition task_made :: "env \<Rightarrow> ustr \<Rightarrow> token_entry \<Rightarrow> world \<Rightarrow> world \<Rightarrow> ustr \<Rightarrow> bool" where
  "task_made env h e w w' t \<longleftrightarrow> \<not> past_creation (wd_tasks w) t \<and>
     (\<exists>row. tm_status (tr_meta row) = Pending \<and> map_of (wd_tasks w') = (map_of (wd_tasks w))(t \<mapsto> row)) \<and>
     queued env t w' \<and>
     (\<exists>e'. map_of (wd_tokens w') h = Some e' \<and> entry_ok e' \<and> open_reservation e' t \<and> worth t e' = worth t e)"

definition task_known :: "ustr \<Rightarrow> token_entry \<Rightarrow> world \<Rightarrow> world \<Rightarrow> ustr \<Rightarrow> bool" where
  "task_known h e w w' t \<longleftrightarrow> past_creation (wd_tasks w) t \<and> wd_tasks w' = wd_tasks w \<and>
     (\<exists>e'. map_of (wd_tokens w') h = Some e' \<and> entry_ok e' \<and> same_money e e')"

lemma settled_nothing_left:
  assumes "settled h (wd_tasks w) e w'"
  shows "nothing_left h e w w'"
  using assms unfolding settled_def
proof
  assume "at_start h (wd_tasks w) e w'"
  then show ?thesis by (auto simp: at_start_def nothing_left_def)
next
  assume "\<exists>t. stage h (without (map_of (wd_tasks w)) t) (worth t e) t (free_of t) w' \<and> is_task_id t \<and>
        (\<forall>row. map_of (wd_tasks w) t = Some row \<longrightarrow> tm_status (tr_meta row) = Initializing)"
  then obtain t where st: "stage h (without (map_of (wd_tasks w)) t) (worth t e) t (free_of t) w'"
    and init: "\<not> past_creation (wd_tasks w) t" by (auto simp: past_creation_def)
  from st obtain e' where e': "map_of (wd_tasks w') = (map_of (wd_tasks w))(t := None)" "map_of (wd_tokens w') h = Some e'"
    "entry_ok e'" "worth t e' = worth t e" "\<not> open_reservation e' t"
    by (auto simp: stage_def without_def)
  from worth_closed [OF e'(3,5)] e'(4) have "balances e' = worth t e" by (simp add: balances_def)
  with e' init show ?thesis by (auto simp: nothing_left_def)
qed

lemma made_task_made: "made env h (wd_tasks w) e t w' \<Longrightarrow> task_made env h e w w' t"
  by (auto simp: made_def task_made_def stage_def waiting_def past_creation_def)

lemma was_there_known: "was_there h (wd_tasks w) e t w' \<Longrightarrow> task_known h e w w' t"
  by (auto simp: was_there_def task_known_def at_start_def past_creation_def)

text \<open>C2: with PostgreSQL, the creation of the task of a claimed batch row is all or nothing. If it
  raises, whatever step failed, no task of the row is left beside those that were there, and the owner's
  points and video quota are what they were before, with no reservation open for it. If it returns a
  task, then either that task had been created before and nothing is charged or changed, or it is now
  the only change to the stored tasks, pending and known to the queue, and its price is held by one
  open reservation of the owner, no more and no less having been taken from the balances.\<close>

theorem batch_creation_all_or_nothing:
  assumes "creation_ready env (bj_owner (rc_job cl)) e w"
    and "create_scheduled_batch_task env files cl w = (w', r)"
  shows "case r of
      Inl _ \<Rightarrow> nothing_left (bj_owner (rc_job cl)) e w w'
    | Inr t \<Rightarrow> task_known (bj_owner (rc_job cl)) e w w' t \<or> task_made env (bj_owner (rc_job cl)) e w w' t"
proof -
  let ?h = "bj_owner (rc_job cl)"
  from assms(1) have h: "normalized_hash ?h = ?h" "?h \<noteq> []" and b: "en_backend env = Postgres"
    and ok: "store_ok (wd_tasks w)" "\<forall>d \<in> set (en_draws env). is_task_id d"
    by (simp_all add: creation_ready_def)
  note run = batch_creation_triple [OF h b ok ready_bound [OF assms(1)], where files = files]
  show ?thesis
  proof (cases r)
    case (Inl x)
    with triple_Inl [OF run ready_start [OF assms(1)]] assms(2) show ?thesis
      by (simp add: settled_nothing_left)
  next
    case (Inr t)
    with triple_Inr [OF run ready_start [OF assms(1)]] assms(2) show ?thesis
      by (auto intro: was_there_known made_task_made)
  qed
qed

text \<open>A service with one model, and a user with 50 tenths of points and a batch of one row.\<close>

definition example_settings :: model_settings where
  "example_settings = \<lparr>st_default_platform = u ''dola'', st_platform_models = [(u ''dola'', [u ''Seedance 2.0''])],
     st_model_states = [], st_max_image_count = 4,
     st_prices = \<lparr>model_duration_costs = [(u ''dola'', [(u ''Seedance 2.0'', [(15, Fin 3 0)])])],
       model_duration_quota_costs = [(u ''dola'', [(u ''Seedance 2.0'', [(15, Fin 1 0)])])],
       model_durations = [(u ''dola'', [(u ''Seedance 2.0'', [15])])], model_costs = [], video_duration = 15\<rparr>\<rparr>"

definition example_env :: env where
  "example_env = \<lparr>en_backend = Postgres, en_redis = True, en_reachable = True, en_now = 9, en_stamp = u ''9'',
     en_sha = id, en_digest = (\<lambda>_. u ''d''), en_repair = id, en_draws = [sample_id], en_rand = u ''tx'',
     en_member_draw = [], en_packages = Inr [], en_settings = example_settings,
     en_policy = load_policy default_env, en_others = (\<lambda>_ p. p)\<rparr>"

definition example_batch :: batch_job where
  "example_batch = new_job 1 (replicate 32 97) (u ''tmp_x'')
     [\<lparr>in_client_index = 0, in_sheet_row = 0, in_prompt = u ''a cat'', in_image_files = [], in_image_names = [], in_image_count = 0\<rparr>]
     \<lparr>ja_ratio = u ''9:16'', ja_concurrency = 2, ja_platform = u ''dola'', ja_model = u ''Seedance 2.0'',
       ja_duration = 15, ja_reference_id = [], ja_reference_count = 0, ja_reference_batch_id = [], ja_real_person = False\<rparr>"

definition example_row_claim :: row_claim where
  "example_row_claim = \<lparr>rc_job = example_batch, rc_row = hd (bj_rows example_batch), rc_awaiting_assets = False\<rparr>"

definition example_world :: world where
  "example_world = \<lparr>wd_tasks = [], wd_queue = empty_queue, wd_runtime = default_runtime,
     wd_users = [(u ''alice'', example_user)], wd_tokens = [(u ''tmp_x'', example_token)], wd_accounts = [],
     wd_ledger = [], wd_jobs = [(replicate 32 97, example_batch)], wd_canceled = []\<rparr>"

definition example_files :: batch_files where
  "example_files = \<lparr>bf_bundle = Inr [], bf_present = (\<lambda>_. True), bf_saved = Inr ()\<rparr>"

lemma example_ready: "creation_ready example_env (u ''tmp_x'') example_token example_world"
  unfolding creation_ready_def
proof (intro conjI)
  show "normalized_hash (u ''tmp_x'') = u ''tmp_x''" by code_simp
  show "entry_ok example_token" by (simp add: example_token_def new_entry_def entry_ok_def POINT_SCALE_def)
  show "holdings example_token < 10 ^ 26"
    by (simp add: example_token_def new_entry_def holdings_def entry_video_quota_units_def POINT_SCALE_def)
qed (simp_all add: example_env_def example_world_def store_ok_def u_def)

theorem batch_creation_all_or_nothing_witness:
  "\<exists>w' e'. create_scheduled_batch_task example_env example_files example_row_claim example_world = (w', Inr sample_id) \<and>
     creation_ready example_env (u ''tmp_x'') example_token example_world \<and>
     task_made example_env (u ''tmp_x'') example_token example_world w' sample_id \<and>
     map_of (wd_tokens w') (u ''tmp_x'') = Some e' \<and> open_reservation e' sample_id \<and>
     te_credit_units example_token = 50"
proof -
  obtain w' r where run: "create_scheduled_batch_task example_env example_files example_row_claim example_world = (w', r)"
    by (cases "create_scheduled_batch_task example_env example_files example_row_claim example_world")
  have "snd (create_scheduled_batch_task example_env example_files example_row_claim example_world) = Inr sample_id"
    by code_simp
  with run have r: "r = Inr sample_id" by simp
  have h: "bj_owner (rc_job example_row_claim) = u ''tmp_x''" by (simp add: example_row_claim_def example_batch_def new_job_def)
  from batch_creation_all_or_nothing [OF _ run, unfolded h r sum.case, OF example_ready]
  have "task_made example_env (u ''tmp_x'') example_token example_world w' sample_id"
    by (auto simp: task_known_def past_creation_def example_world_def)
  moreover from this obtain e' where "map_of (wd_tokens w') (u ''tmp_x'') = Some e'" "open_reservation e' sample_id"
    by (auto simp: task_made_def)
  moreover have "te_credit_units example_token = 50" by (simp add: example_token_def)
  ultimately show ?thesis using run r example_ready by blast
qed

end
