(* ===== verification/Task_Submission.thy ===== *)
theory Task_Submission
  imports Task_Creation "HOL-Library.Product_Lexorder" "HOL-Library.List_Lexorder"
begin

text \<open>
  The creations a client asks for (\<open>submit_task\<close>, \<open>_create_compatible_video_task\<close>), the retry of a
  finished task as a new one, and the removal of a task, from app/main.py. Parsing a request and the
  figures of the answer beside the task are left out.
\<close>

section \<open>Submitting a task\<close>

record submission =
  sm_prompt :: ustr
  sm_ratio :: ustr
  sm_platform :: ustr
  sm_model :: ustr
  sm_task_type :: ustr
  sm_duration :: "int option"
  sm_batch :: bool
  sm_batch_id :: ustr
  sm_batch_index :: int
  sm_batch_row :: int
  sm_reference_task_id :: ustr
  sm_reference_id :: ustr
  sm_reference_count :: int
  sm_real_person :: bool
  sm_preferred_account :: ustr
  sm_uploads :: "ustr list"
  sm_key :: ustr

text \<open>
  What the handler finds outside the tables: the bundle of shared images, the images of a task, the
  accounts an administrator may choose, the models that need no image, the answer of the rate limit,
  and whether the images are saved.
\<close>

record surroundings =
  su_bundle :: "(ustr \<times> ustr) list result"
  su_task_images :: "ustr \<Rightarrow> ustr list"
  su_selectable :: "ustr list"
  su_studio_model :: "ustr \<Rightarrow> bool"
  su_rate :: "unit result"
  su_saved :: "unit result"

record submission_plan =
  sp_args :: task_args
  sp_shared :: "(ustr \<times> ustr) list"
  sp_preferred :: ustr
  sp_key :: ustr
  sp_fingerprint :: ustr

definition bad :: "int \<Rightarrow> ustr \<Rightarrow> py_error" where
  "bad code detail = HTTPException code detail"

text \<open>The images shared by the tasks of a batch: a bundle, or those of an earlier task of it.\<close>

definition task_references ::
    "backend \<Rightarrow> surroundings \<Rightarrow> access_context \<Rightarrow> ustr \<Rightarrow> int \<Rightarrow> ustr \<Rightarrow> task_store \<Rightarrow> (ustr \<times> ustr) list result" where
  "task_references b su access batch_id wanted t store =
     (case get_meta b store t of
        Inl _ \<Rightarrow> Inl (bad 400 msg_batch_ref_expired)
      | Inr m \<Rightarrow>
         (let paths = su_task_images su t in
          if \<not> ac_is_temp access \<or> tm_owner m \<noteq> ac_token_hash access \<or> rq_batch_id (tm_request m) \<noteq> batch_id \<or>
             wanted \<le> 0 \<or> int (length paths) < wanted
          then Inl (bad 400 msg_batch_ref_unusable)
          else let used = take (nat wanted) paths
               in Inr (zip used (reference_names (tm_reference_image_names m) used))))"

definition submitted_references ::
    "env \<Rightarrow> surroundings \<Rightarrow> access_context \<Rightarrow> submission \<Rightarrow> ustr \<Rightarrow> int \<Rightarrow> task_store \<Rightarrow> (ustr \<times> ustr) list result" where
  "submitted_references env su access s batch_id wanted store =
     (let reference_id = (if sm_batch s then strip (sm_reference_id s) else []);
          reference_task = (if sm_batch s then strip (sm_reference_task_id s) else [])
      in if reference_id \<noteq> [] then
           (case su_bundle su of
              Inl e \<Rightarrow> Inl e
            | Inr images \<Rightarrow>
                if wanted \<le> 0 \<or> int (length images) < wanted then Inl (bad 400 msg_batch_refs)
                else Inr (take (nat wanted) images))
         else if reference_task \<noteq> [] then task_references (en_backend env) su access batch_id wanted reference_task store
         else if wanted \<noteq> 0 then Inl (bad 400 msg_batch_ref_params)
         else Inr [])"

definition submission_fingerprint :: "env \<Rightarrow> access_context \<Rightarrow> submission \<Rightarrow> task_args \<Rightarrow> int \<Rightarrow> ustr \<Rightarrow> ustr" where
  "submission_fingerprint env access s a wanted preferred =
     fingerprint_of env (u ''tasks'') (ac_token_hash access)
       [(u ''prompt'', JStr (targ_prompt a)), (u ''ratio'', JStr (targ_ratio a)), (u ''duration'', JInt (targ_duration a)),
        (u ''platform'', JStr (targ_platform a)), (u ''model'', JStr (targ_model a)), (u ''task_type'', JStr (targ_task_type a)),
        (u ''batch_id'', JStr (targ_batch_id a)), (u ''batch_index'', JInt (targ_batch_index a)),
        (u ''batch_row'', JInt (targ_batch_row a)),
        (u ''batch_reference_id'', JStr (if sm_batch s then strip (sm_reference_id s) else [])),
        (u ''batch_reference_task_id'', JStr (if sm_batch s then strip (sm_reference_task_id s) else [])),
        (u ''batch_reference_image_count'', JInt wanted),
        (u ''reference_is_real_person'', JBool (sm_real_person s)), (u ''preferred_account_id'', JStr preferred),
        (u ''images'', JList (map (\<lambda>n. JStr (after_slash n)) (sm_uploads s)))]"

definition plan_submission :: "env \<Rightarrow> surroundings \<Rightarrow> access_context \<Rightarrow> submission \<Rightarrow> (world, submission_plan) action" where
  "plan_submission env su access s =
     (let prompt = en_repair env (strip (sm_prompt s)); ratio = strip (str_or (sm_ratio s) DEFAULT_RATIO);
          batch_id = (if sm_batch s then take 100 (strip (sm_batch_id s)) else []);
          batch_index = (if sm_batch s then clamp 0 1000 (sm_batch_index s) else 0);
          batch_row = (if sm_batch s then clamp 0 1000000 (sm_batch_row s) else 0);
          wanted = (if sm_batch s then clamp 0 (st_max_image_count (en_settings env)) (sm_reference_count s) else 0);
          preferred = take 64 (lower (strip (sm_preferred_account s))) in
      seq (admit env) (\<lambda>_.
      seq (need (prompt \<noteq> []) (bad 400 (u ''prompt is required''))) (\<lambda>_.
      seq (need (ratio \<in> set VALID_RATIOS) (bad 400 (u ''invalid ratio''))) (\<lambda>_.
      seq (require_batch_active env 0 access batch_id) (\<lambda>_.
      seq (of_result (validate_task_platform_model (en_settings env) (sm_platform s) (sm_model s))) (\<lambda>(platform, model).
      seq (of_result (validate_task_duration (en_settings env) platform model (sm_duration s))) (\<lambda>duration.
      seq (need (preferred = [] \<or> ac_is_admin access) (bad 403 (u ''only administrators can select a generation account''))) (\<lambda>_.
      seq (need (preferred = [] \<or> preferred \<in> set (su_selectable su)) (bad 409 (u ''selected account is no longer available''))) (\<lambda>_.
      seq (need (platform \<noteq> u ''qianwen'' \<or> sm_task_type s = u ''video'') (bad 400 msg_qianwen_video_only)) (\<lambda>_.
      seq (need (int (length (sm_uploads s)) + wanted \<le> st_max_image_count (en_settings env)) (bad 400 (u ''too many images''))) (\<lambda>_.
      seq (reads (\<lambda>w. submitted_references env su access s batch_id wanted (wd_tasks w))) (\<lambda>references.
      seq (of_result references) (\<lambda>shared.
      seq (need (\<not> (platform = u ''qianwen'' \<and> sm_task_type s = u ''video'' \<and> sm_uploads s = [] \<and> shared = [] \<and>
             \<not> su_studio_model su model)) (bad 400 (msg_qianwen_prefix @ model @ msg_qianwen_needs_image))) (\<lambda>_.
      seq (of_result (su_rate su)) (\<lambda>_.
      seq (of_result (idempotency_key (sm_key s))) (\<lambda>key.
      let a = \<lparr>targ_prompt = prompt, targ_ratio = ratio, targ_platform = platform, targ_model = model,
            targ_task_type = sm_task_type s, targ_duration = duration, targ_batch_id = batch_id,
            targ_batch_index = batch_index, targ_batch_row = batch_row\<rparr>
      in give \<lparr>sp_args = a, sp_shared = shared, sp_preferred = preferred, sp_key = key,
           sp_fingerprint = submission_fingerprint env access s a wanted preferred\<rparr>))))))))))))))))"

definition task_owner :: "access_context \<Rightarrow> ustr" where
  "task_owner access = (if ac_is_temp access then ac_token_hash access else [])"

definition find_or_make :: "env \<Rightarrow> access_context \<Rightarrow> task_args \<Rightarrow> ustr \<Rightarrow> ustr \<Rightarrow> ustr \<Rightarrow> (world, task_meta \<times> bool) action" where
  "find_or_make env access a key fingerprint route =
     (if key \<noteq> [] then find_or_create env a (task_owner access) key fingerprint route
      else seq (create env a (task_owner access)) (\<lambda>m. give (m, True)))"

text \<open>The exceptions of the first \<open>try\<close> of \<open>submit_task\<close>, without a task and with one.\<close>

definition refused :: "py_error \<Rightarrow> py_error" where
  "refused e = (case e of
     HTTPException code detail \<Rightarrow> HTTPException code detail
   | ValueError detail \<Rightarrow> HTTPException 409 detail
   | QuotaExceeded detail \<Rightarrow> HTTPException 429 detail
   | _ \<Rightarrow> HTTPException 503 msg_create_busy)"

definition abandon :: "env \<Rightarrow> ustr \<Rightarrow> ustr \<Rightarrow> py_error \<Rightarrow> (world, 'a) action" where
  "abandon env token_hash t e = (case e of
     ValueError _ \<Rightarrow> raise (refused e)
   | QuotaExceeded _ \<Rightarrow> seq (remove env t) (\<lambda>_. raise (refused e))
   | _ \<Rightarrow> seq (undo env token_hash t) (\<lambda>_. raise (refused e)))"

text \<open>The exceptions of the second \<open>try\<close>; the price is reserved by then.\<close>

definition abandon_images :: "env \<Rightarrow> ustr \<Rightarrow> ustr \<Rightarrow> py_error \<Rightarrow> (world, 'a) action" where
  "abandon_images env token_hash t e =
     seq (undo env token_hash t) (\<lambda>_. raise (case e of
       HTTPException code detail \<Rightarrow> HTTPException code detail | _ \<Rightarrow> HTTPException 503 msg_create_busy))"

text \<open>The names under which the images are shown: the shared ones first, then the uploads.\<close>

definition upload_suffix :: "ustr \<Rightarrow> ustr" where
  "upload_suffix filename = str_or (lower (path_suffix (after_slash filename))) (u ''.png'')"

definition saved_names :: "(ustr \<times> ustr) list \<Rightarrow> ustr list \<Rightarrow> ustr list" where
  "saved_names shared uploads =
     map (\<lambda>i. reference_image_name (snd (shared ! i)) (int i + 1) (path_suffix (fst (shared ! i)))) [0..<length shared] @
     map (\<lambda>i. reference_image_name (uploads ! i) (int (length shared + i) + 1) (upload_suffix (uploads ! i))) [0..<length uploads]"

record submitted =
  sb_task :: ustr
  sb_replayed :: bool
  sb_queued :: bool
  sb_charge :: "task_charge option"

definition submit_charge ::
    "env \<Rightarrow> access_context \<Rightarrow> task_args \<Rightarrow> ustr \<Rightarrow> (world, bool \<times> task_charge) action" where
  "submit_charge env access a t =
     catch
       (seq (reads (\<lambda>w. ac_is_temp access \<and>
              ac_concurrency access \<le> active_task_count_for_owner (en_backend env) (wd_tasks w) (ac_token_hash access))) (\<lambda>busy.
        seq (charge_task env (require_batch_active env 1 access (targ_batch_id a)) access t
              (targ_platform a) (targ_model a) (targ_duration a)) (\<lambda>c.
        give (busy, c))))
       (abandon env (ac_token_hash access) t)"

definition submit_images ::
    "env \<Rightarrow> surroundings \<Rightarrow> access_context \<Rightarrow> submission \<Rightarrow> submission_plan \<Rightarrow> ustr \<Rightarrow> (world, unit) action" where
  "submit_images env su access s p t =
     catch
       (seq (store_images env t (su_saved su) (saved_names (sp_shared p) (sm_uploads s))) (\<lambda>_.
        seq (change_meta env t (\<lambda>m. m\<lparr>tm_real_person := sm_real_person s, tm_preferred_account_id := sp_preferred p\<rparr>)) (\<lambda>_.
        seq (require_batch_active env 2 access (targ_batch_id (sp_args p))) (\<lambda>_.
        seq (finalize env t) (\<lambda>_. give ())))))
       (abandon_images env (ac_token_hash access) t)"

definition submit_task :: "env \<Rightarrow> surroundings \<Rightarrow> access_context \<Rightarrow> submission \<Rightarrow> (world, submitted) action" where
  "submit_task env su access s =
     seq (plan_submission env su access s) (\<lambda>p.
     seq (catch (find_or_make env access (sp_args p) (sp_key p) (sp_fingerprint p) (u ''tasks'')) (\<lambda>e. raise (refused e))) (\<lambda>(m, created).
     let t = task_id_of m in
     if \<not> created \<and> tm_status m \<noteq> Initializing
     then give \<lparr>sb_task = t, sb_replayed = True, sb_queued = False, sb_charge = None\<rparr>
     else seq (submit_charge env access (sp_args p) t) (\<lambda>(busy, c).
          seq (submit_images env su access s p t) (\<lambda>_.
          give \<lparr>sb_task = t, sb_replayed = \<not> created, sb_queued = busy, sb_charge = Some c\<rparr>))))"

section \<open>The compatible interface\<close>

record compatible_request =
  cr_prompt :: ustr
  cr_model :: ustr
  cr_ratio :: ustr
  cr_duration :: "int option"
  cr_real_person :: bool
  cr_images :: "(ustr \<times> int list) list"
  cr_key :: ustr

definition api_error :: "int \<Rightarrow> ustr \<Rightarrow> py_error" where
  "api_error code detail = OpenAIAPIError code detail"

text \<open>An HTTP error of a check, as the interface reports it.\<close>

definition as_api_error :: "(ustr \<Rightarrow> ustr) \<Rightarrow> 'a result \<Rightarrow> 'a result" where
  "as_api_error f r = (case r of Inl (HTTPException code detail) \<Rightarrow> Inl (api_error code (f detail)) | _ \<Rightarrow> r)"

definition no_such_model :: "ustr \<Rightarrow> ustr \<Rightarrow> py_error" where
  "no_such_model model_id why = api_error 404 (u ''The model '' @ [39] @ model_id @ [39] @ u '' does not exist'' @ why)"

definition compatible_model :: "model_settings \<Rightarrow> ustr \<Rightarrow> (ustr \<times> ustr) result" where
  "compatible_model st model_id = (case partition_colon model_id of
     None \<Rightarrow> Inl (no_such_model model_id [])
   | Some (platform, model) \<Rightarrow>
      (case validate_task_platform_model st platform model of
         Inl (ValueError _) \<Rightarrow> Inl (no_such_model model_id (u '' or is disabled''))
       | Inl (HTTPException _ _) \<Rightarrow> Inl (no_such_model model_id (u '' or is disabled''))
       | r \<Rightarrow> r))"

definition compatible_image_ok :: "ustr \<times> int list \<Rightarrow> bool" where
  "compatible_image_ok im \<longleftrightarrow>
     (let suffix = lower (path_suffix (fst im)) in suffix \<in> set ALLOWED_IMAGE_SUFFIXES \<and> is_image suffix (snd im))"

record compatible_plan =
  cp_args :: task_args
  cp_key :: ustr
  cp_fingerprint :: ustr

definition compatible_fingerprint :: "env \<Rightarrow> access_context \<Rightarrow> compatible_request \<Rightarrow> task_args \<Rightarrow> ustr" where
  "compatible_fingerprint env access r a =
     fingerprint_of env (u ''openai-video'') (ac_token_hash access)
       [(u ''prompt'', JStr (targ_prompt a)), (u ''ratio'', JStr (targ_ratio a)), (u ''duration'', JInt (targ_duration a)),
        (u ''platform'', JStr (targ_platform a)), (u ''model'', JStr (targ_model a)),
        (u ''reference_is_real_person'', JBool (cr_real_person r)),
        (u ''images'', JList (map (\<lambda>(n, data). JDict [(u ''name'', JStr n), (u ''sha256'', JStr (en_sha env data))]) (cr_images r)))]"

definition plan_compatible :: "env \<Rightarrow> unit result \<Rightarrow> access_context \<Rightarrow> compatible_request \<Rightarrow> (world, compatible_plan) action" where
  "plan_compatible env rate access r =
     (let prompt = strip (cr_prompt r); model_id = strip (cr_model r); ratio = strip (str_or (cr_ratio r) DEFAULT_RATIO) in
      seq (reads (\<lambda>w. admit_task_creation (en_policy env) (en_redis env) (en_reachable env) (wd_runtime w) (wd_queue w))) (\<lambda>admitted.
      seq (of_result (as_api_error (\<lambda>_. u ''Service temporarily overloaded'') admitted)) (\<lambda>_.
      seq (need (prompt \<noteq> []) (api_error 400 (u ''A non-empty prompt is required''))) (\<lambda>_.
      seq (need (utf8_length prompt \<le> 8192) (api_error 400 (u ''Prompt is too long''))) (\<lambda>_.
      seq (of_result (compatible_model (en_settings env) model_id)) (\<lambda>(platform, model).
      seq (need (ratio \<in> set VALID_RATIOS) (api_error 400 (u ''Invalid ratio''))) (\<lambda>_.
      seq (of_result (case validate_task_duration (en_settings env) platform model (cr_duration r) of
             Inl (HTTPException _ detail) \<Rightarrow> Inl (api_error 400 detail) | d \<Rightarrow> d)) (\<lambda>duration.
      seq (need (int (length (cr_images r)) \<le> st_max_image_count (en_settings env)) (api_error 400 (u ''Too many reference images''))) (\<lambda>_.
      seq (need (\<forall>im \<in> set (cr_images r). compatible_image_ok im) (api_error 400 (u ''Invalid reference image''))) (\<lambda>_.
      seq (of_result (as_api_error id rate)) (\<lambda>_.
      seq (of_result (as_api_error id (idempotency_key (cr_key r)))) (\<lambda>key.
      let a = \<lparr>targ_prompt = prompt, targ_ratio = ratio, targ_platform = platform, targ_model = model,
            targ_task_type = u ''video'', targ_duration = duration, targ_batch_id = [], targ_batch_index = 0, targ_batch_row = 0\<rparr>
      in give \<lparr>cp_args = a, cp_key = key, cp_fingerprint = compatible_fingerprint env access r a\<rparr>))))))))))))"

text \<open>The exceptions of the one \<open>try\<close>: a conflict of the key leaves what is there.\<close>

definition api_refused :: "py_error \<Rightarrow> py_error" where
  "api_refused e = (case e of
     ValueError detail \<Rightarrow> api_error 409 detail
   | OpenAIAPIError code detail \<Rightarrow> OpenAIAPIError code detail
   | QuotaExceeded _ \<Rightarrow> api_error 429 (u ''You exceeded your current quota'')
   | HTTPException code detail \<Rightarrow> api_error code detail
   | _ \<Rightarrow> api_error 500 (u ''Failed to create video task''))"

definition api_abandon :: "env \<Rightarrow> ustr \<Rightarrow> ustr \<Rightarrow> py_error \<Rightarrow> (world, 'a) action" where
  "api_abandon env token_hash t e = (case e of
     ValueError _ \<Rightarrow> raise (api_refused e)
   | QuotaExceeded _ \<Rightarrow> seq (remove env t) (\<lambda>_. raise (api_refused e))
   | _ \<Rightarrow> seq (undo env token_hash t) (\<lambda>_. raise (api_refused e)))"

definition compatible_steps ::
    "env \<Rightarrow> unit result \<Rightarrow> access_context \<Rightarrow> compatible_request \<Rightarrow> task_args \<Rightarrow> ustr \<Rightarrow> (world, task_meta) action" where
  "compatible_steps env saved access r a t =
     catch
       (seq (reads (\<lambda>w. ac_is_temp access \<and>
              ac_concurrency access \<le> active_task_count_for_owner (en_backend env) (wd_tasks w) (ac_token_hash access))) (\<lambda>busy.
        seq (charge_task env (give ()) access t (targ_platform a) (targ_model a) (targ_duration a)) (\<lambda>_.
        seq (store_images env t saved
              (map (\<lambda>i. reference_image_name (fst (cr_images r ! i)) (int i + 1) (lower (path_suffix (fst (cr_images r ! i)))))
                [0..<length (cr_images r)])) (\<lambda>_.
        seq (change_meta env t (\<lambda>m. m\<lparr>tm_real_person := cr_real_person r, tm_queued_for_concurrency := busy\<rparr>)) (\<lambda>_.
        finalize env t)))))
       (api_abandon env (ac_token_hash access) t)"

definition create_compatible_video_task ::
    "env \<Rightarrow> unit result \<Rightarrow> unit result \<Rightarrow> access_context \<Rightarrow> compatible_request \<Rightarrow> (world, task_meta \<times> bool) action" where
  "create_compatible_video_task env rate saved access r =
     seq (plan_compatible env rate access r) (\<lambda>p.
     seq (catch (find_or_make env access (cp_args p) (cp_key p) (cp_fingerprint p) (u ''openai-video''))
            (\<lambda>e. raise (api_refused e))) (\<lambda>(m, created).
     if \<not> created \<and> tm_status m \<noteq> Initializing then give (m, False)
     else seq (compatible_steps env saved access r (cp_args p) (task_id_of m)) (\<lambda>m'. give (m', True))))"

section \<open>Retrying a finished task\<close>

text \<open>\<open>_retry_access_for_owner\<close>.\<close>

definition retry_access_for_owner :: "token_table \<Rightarrow> ustr \<Rightarrow> access_context \<Rightarrow> access_context result" where
  "retry_access_for_owner tokens owner fallback =
     (if owner = [] then Inr fallback
      else case get_temp_context_by_hash tokens owner of
        None \<Rightarrow> Inl (HTTPException 409 msg_owner_gone) | Some a \<Rightarrow> Inr a)"

text \<open>The charge of a retry: the same steps, but an administrator's retry of a task without an owner is
  free, nothing is looked at in between, and the ledger entry names both tasks.\<close>

definition retry_detail :: "ustr \<Rightarrow> ustr \<Rightarrow> ustr" where
  "retry_detail t original = msg_retry_label @ t @ [10] @ msg_original_label @ original"

definition retry_args :: "task_meta \<Rightarrow> ustr \<Rightarrow> ustr \<Rightarrow> int \<Rightarrow> task_args" where
  "retry_args original platform model duration =
     \<lparr>targ_prompt = strip (rq_prompt (tm_request original)), targ_ratio = str_or (rq_ratio (tm_request original)) DEFAULT_RATIO,
      targ_platform = platform, targ_model = model,
      targ_task_type = (if rq_image_task (tm_request original) then u ''image'' else u ''video''),
      targ_duration = duration, targ_batch_id = [], targ_batch_index = 0, targ_batch_row = 0\<rparr>"

definition retry_updates :: "ustr \<Rightarrow> task_meta \<Rightarrow> stamp \<Rightarrow> task_meta \<Rightarrow> task_meta" where
  "retry_updates task_id original available_at m =
     (let m1 = m\<lparr>tm_request := (tm_request m)\<lparr>rq_retry_of_task_id := task_id\<rparr>,
            tm_real_person := tm_real_person original,
            tm_queue_priority_at := stamp_or (tm_queue_priority_at original) (stamp_or (tm_created_at original) (tm_created_at m))\<rparr>
      in if available_at = Unset then m1
         else m1\<lparr>tm_next_attempt_at := available_at, tm_queue_reason := msg_bulk_pacing,
                tm_queue_category := u ''bulk_retry_pacing'', tm_status_reason := msg_wait_interval\<rparr>)"

text \<open>What follows the reservation; \<open>images\<close> are the files of the original, copied as \<open>saved\<close> says.\<close>

definition retry_steps ::
    "env \<Rightarrow> ustr list \<Rightarrow> unit result \<Rightarrow> ustr \<Rightarrow> task_meta \<Rightarrow> stamp \<Rightarrow> ustr \<Rightarrow> (world, unit) action" where
  "retry_steps env images saved task_id original available_at t =
     seq (store_images env t saved (reference_names (tm_reference_image_names original) images)) (\<lambda>_.
     seq (change_meta env t (retry_updates task_id original available_at)) (\<lambda>_.
     seq (finalize env t) (\<lambda>_.
     if tm_status original = Failed then remove env task_id else give ())))"

definition retry_abandon :: "env \<Rightarrow> bool \<Rightarrow> ustr \<Rightarrow> ustr \<Rightarrow> py_error \<Rightarrow> (world, 'a) action" where
  "retry_abandon env charged owner t e = (case e of
     QuotaExceeded detail \<Rightarrow> seq (remove env t) (\<lambda>_. raise (HTTPException 429 detail))
   | _ \<Rightarrow> seq (if charged then undo env owner t else remove env t) (\<lambda>_. raise e))"

definition create_manual_retry_task ::
    "env \<Rightarrow> ustr list \<Rightarrow> unit result \<Rightarrow> access_context \<Rightarrow> ustr \<Rightarrow> task_meta \<Rightarrow> stamp \<Rightarrow> (world, ustr \<times> reservation option) action" where
  "create_manual_retry_task env images saved access task_id original available_at =
     (let owner = tm_owner original in
      seq (of_result (validate_task_platform_model (en_settings env) (str_or (rq_platform (tm_request original)) (u ''dola''))
             (rq_model (tm_request original)))) (\<lambda>(platform, model).
      seq (of_result (validate_task_duration (en_settings env) platform model
             (if rq_duration (tm_request original) = 0 then None else Some (rq_duration (tm_request original))))) (\<lambda>duration.
      seq (create env (retry_args original platform model duration) owner) (\<lambda>m.
      let t = task_id_of m in
      if \<not> ac_is_temp access
      then seq (catch (retry_steps env images saved task_id original available_at t) (retry_abandon env False owner t))
             (\<lambda>_. give (t, None))
      else seq (catch
             (seq (price_task env access platform model duration) (\<lambda>(cost, video_cost).
              seq (reads (\<lambda>w. transaction_user_id access (wd_users w))) (\<lambda>user_id.
              seq (reserve env access t cost user_id video_cost) (\<lambda>ctx. give (user_id, ctx)))))
             (retry_abandon env False owner t)) (\<lambda>(user_id, ctx).
           catch
             (seq (record_consumption env (give ()) access user_id ctx t (retry_detail t task_id) []) (\<lambda>found.
              seq (retry_steps env images saved task_id original available_at t) (\<lambda>_. give (t, found))))
             (retry_abandon env True owner t))))))"

definition retry_completed_task ::
    "env \<Rightarrow> (ustr \<Rightarrow> ustr list) \<Rightarrow> unit result \<Rightarrow> unit result \<Rightarrow> access_context \<Rightarrow> ustr \<Rightarrow>
     (world, ustr \<times> reservation option) action" where
  "retry_completed_task env images saved rate access task_id =
     seq (reads (\<lambda>w. get_meta (en_backend env) (wd_tasks w) task_id)) (\<lambda>found.
     case found of
       Inl _ \<Rightarrow> raise (HTTPException 404 (u ''task not found''))
     | Inr original \<Rightarrow>
         seq (need (\<not> (ac_is_temp access \<and> tm_owner original \<noteq> ac_token_hash access)) (HTTPException 404 (u ''task not found''))) (\<lambda>_.
         seq (need (\<not> (if ac_is_temp access then tm_task_hidden_for_client original else tm_task_hidden_for_admin original))
                (HTTPException 404 (u ''task not found''))) (\<lambda>_.
         seq (need (tm_status original \<in> {Success, Failed}) (HTTPException 409 msg_only_finished_retry)) (\<lambda>_.
         seq (of_result rate) (\<lambda>_.
         seq (reads (\<lambda>w. retry_access_for_owner (wd_tokens w) (tm_owner original) access)) (\<lambda>access'.
         seq (of_result access') (\<lambda>retry_access.
         create_manual_retry_task env (images task_id) saved retry_access task_id original Unset)))))))"

text \<open>
  Retrying many failed tasks, in the order in which they were queued; each is released an interval
  after the one before. A task that cannot be read, or whose retry fails, is reported and the others
  go on. \<open>interval\<close> is in microseconds, within one and five seconds.
\<close>

datatype bulk_item =
    BulkCreated ustr ustr stamp
  | BulkSkipped ustr ustr
  | BulkFailed ustr ustr

definition manual_retry_priority :: "backend \<Rightarrow> task_store \<Rightarrow> ustr \<Rightarrow> bool \<times> stamp \<times> stamp \<times> ustr" where
  "manual_retry_priority b store task_id = (case get_meta b store task_id of
     Inl _ \<Rightarrow> (True, Unset, Unset, task_id)
   | Inr m \<Rightarrow> (False, stamp_or (tm_queue_priority_at m) (stamp_or (tm_created_at m) (tm_queued_at m)), tm_created_at m, task_id))"

definition bulk_task_ids :: "ustr list \<Rightarrow> ustr list" where
  "bulk_task_ids ids = filter (\<lambda>i. i \<noteq> []) (rev (remdups (rev (map strip ids))))"

definition failure_text :: "py_error \<Rightarrow> ustr" where
  "failure_text e = (case e of
     ValueError _ \<Rightarrow> msg_task_missing
   | FileNotFoundError \<Rightarrow> msg_task_missing
   | HTTPException _ detail \<Rightarrow> detail
   | RuntimeError detail \<Rightarrow> u ''RuntimeError: '' @ detail
   | QuotaExceeded detail \<Rightarrow> u ''QuotaExceeded: '' @ detail
   | _ \<Rightarrow> u ''Exception'')"

text \<open>One task; the flag says whether it took the next slot of the release.\<close>

definition bulk_retry_one ::
    "env \<Rightarrow> (ustr \<Rightarrow> ustr list) \<Rightarrow> unit result \<Rightarrow> access_context \<Rightarrow> stamp \<Rightarrow> ustr \<Rightarrow> (world, bulk_item \<times> bool) action" where
  "bulk_retry_one env images saved fallback release_at task_id =
     seq (reads (\<lambda>w. get_meta (en_backend env) (wd_tasks w) task_id)) (\<lambda>found.
     case found of
       Inl e \<Rightarrow> give (BulkFailed task_id (failure_text e), False)
     | Inr original \<Rightarrow>
         if tm_task_hidden_for_admin original then give (BulkFailed task_id (u ''task not found''), False)
         else if tm_status original \<noteq> Failed then give (BulkSkipped task_id msg_only_failed_bulk, False)
         else seq (reads (\<lambda>w. retry_access_for_owner (wd_tokens w) (tm_owner original) fallback)) (\<lambda>access'.
         case access' of
           Inl e \<Rightarrow> give (BulkFailed task_id (failure_text e), False)
         | Inr access \<Rightarrow>
             catch (seq (create_manual_retry_task env (images task_id) saved access task_id original release_at) (\<lambda>(t, _).
                      give (BulkCreated task_id t release_at, True)))
                   (\<lambda>e. give (BulkFailed task_id (failure_text e), True))))"

fun bulk_retry_loop ::
    "env \<Rightarrow> (ustr \<Rightarrow> ustr list) \<Rightarrow> unit result \<Rightarrow> access_context \<Rightarrow> int \<Rightarrow> int \<Rightarrow> ustr list \<Rightarrow> bulk_item list \<Rightarrow>
     (world, bulk_item list) action" where
  "bulk_retry_loop env images saved fallback interval slot [] items = give items"
| "bulk_retry_loop env images saved fallback interval slot (t # ts) items =
     seq (bulk_retry_one env images saved fallback (At (en_now env + slot * interval)) t) (\<lambda>(item, used).
     bulk_retry_loop env images saved fallback interval (if used then slot + 1 else slot) ts (items @ [item]))"

definition bulk_retry_failed_tasks ::
    "env \<Rightarrow> (ustr \<Rightarrow> ustr list) \<Rightarrow> unit result \<Rightarrow> access_context \<Rightarrow> int \<Rightarrow> ustr list \<Rightarrow> (world, bulk_item list) action" where
  "bulk_retry_failed_tasks env images saved fallback interval ids =
     (let chosen = bulk_task_ids ids in
      seq (need (chosen \<noteq> []) (HTTPException 400 msg_bulk_choose)) (\<lambda>_.
      seq (need (length chosen \<le> 1000) (HTTPException 400 msg_bulk_limit)) (\<lambda>_.
      seq (reads (\<lambda>w. sort_key (manual_retry_priority (en_backend env) (wd_tasks w)) chosen)) (\<lambda>ordered.
      bulk_retry_loop env images saved fallback interval 0 ordered []))))"

section \<open>Removing a task\<close>

text \<open>\<open>refund_account_quota_once\<close>, \<open>refund_temp_quota_once\<close> (app/worker.py) and \<open>_refund_canceled_task\<close>.\<close>

definition refund_account_once :: "env \<Rightarrow> ustr \<Rightarrow> ustr \<Rightarrow> ustr \<Rightarrow> (world, unit) action" where
  "refund_account_once env task_id account_id charge_id =
     (if account_id = [] then give ()
      else seq (on_accounts (\<lambda>s. refund_account_quota (en_backend env) (en_now env) s account_id (str_or charge_id task_id))) (\<lambda>paid.
        if paid then seq (on_tasks (\<lambda>store. mark_account_refund_once (en_backend env) (en_stamp env) store task_id account_id)) (\<lambda>_. give ())
        else give ()))"

definition refund_token_once :: "env \<Rightarrow> ustr \<Rightarrow> ustr \<Rightarrow> (world, unit) action" where
  "refund_token_once env task_id owner =
     (if owner = [] then give ()
      else seq (refund_task env owner task_id) (\<lambda>paid.
        if paid then seq (on_tasks (\<lambda>store. mark_result_once (en_backend env) (en_stamp env) store task_id
               (u ''temp_quota_refunded'') (JBool True))) (\<lambda>_. give ())
        else give ()))"

definition refund_canceled_task :: "env \<Rightarrow> task_meta \<Rightarrow> (world, unit) action" where
  "refund_canceled_task env m =
     (let t = task_id_of m in
      if t = [] then give ()
      else seq (reads (\<lambda>w. load_result (en_backend env) (wd_tasks w) t)) (\<lambda>loaded.
           seq (of_result loaded) (\<lambda>d.
           seq (reads (\<lambda>w. account_for_current_task (wd_accounts w) t)) (\<lambda>account.
           let account_id = str_or (str_value d (u ''account_id'')) (case account of None \<Rightarrow> [] | Some (i, _) \<Rightarrow> i);
               charge_id = str_or (str_value d (u ''account_quota_charge_id''))
                 (case account of None \<Rightarrow> [] | Some (_, ac) \<Rightarrow> ac_current_charge ac)
           in seq (if account_id = [] then give ()
                   else seq (on_accounts (\<lambda>s. (clear_account_current_task (en_backend env) (en_now env) s account_id t, ()))) (\<lambda>_.
                        refund_account_once env t account_id charge_id)) (\<lambda>_.
              refund_token_once env t (tm_owner m))))))"

datatype removal = NotCancelable ustr | CanceledTask | HiddenTask

definition hide_from :: "access_context \<Rightarrow> task_meta \<Rightarrow> task_meta" where
  "hide_from access m = (if ac_is_temp access then m\<lparr>tm_task_hidden_for_client := True\<rparr>
     else m\<lparr>tm_task_hidden_for_admin := True\<rparr>)"

definition remove_task :: "env \<Rightarrow> access_context \<Rightarrow> ustr \<Rightarrow> (world, removal) action" where
  "remove_task env access task_id =
     seq (reads (\<lambda>w. get_meta (en_backend env) (wd_tasks w) task_id)) (\<lambda>found.
     case found of
       Inl _ \<Rightarrow> raise (HTTPException 404 (u ''task not found''))
     | Inr m \<Rightarrow>
         if ac_is_temp access \<and> tm_owner m \<noteq> ac_token_hash access then raise (HTTPException 404 (u ''task not found''))
         else if \<not> ac_is_admin access \<and> (tm_status m = Submitted \<or> tm_submit_phase m \<in> {u ''committing'', u ''submitted''})
         then give (NotCancelable msg_already_submitted)
         else if tm_status m \<in> {Pending, Running, Submitted}
         then seq (on_tasks (\<lambda>store. mutate_meta (en_backend env) store task_id
                (request_task_cancel_mut (en_now env) (if ac_is_admin access then msg_admin_cancel else msg_user_cancel)
                  (ac_is_admin access)))) (\<lambda>(canceled, m').
              if \<not> canceled then give (NotCancelable msg_being_submitted)
              else seq (refund_canceled_task env m') (\<lambda>_. give CanceledTask))
         else seq (change_meta env task_id (hide_from access)) (\<lambda>_. give HiddenTask))"

end
