(* ===== verification/Submission_Props.thy ===== *)
theory Submission_Props
  imports Creation_Props Task_Submission
begin

text \<open>
  A task that a client submits (\<open>submit_task\<close>, \<open>_create_compatible_video_task\<close>): what a returned and a
  failed submission leave in the store, the queue and the owner's balances. Their handlers treat an
  exhausted quota apart: they delete the task without a refund, so it matters that only the reservation
  itself reports one. A \<open>ValueError\<close> after the task was created is passed on as a conflict of the key;
  then the task stays where it is.
\<close>

section \<open>Steps that never report an exhausted quota\<close>

definition is_quota :: "py_error \<Rightarrow> bool" where
  "is_quota e \<longleftrightarrow> (\<exists>d. e = QuotaExceeded d)"

lemma is_quota_simps [simp]:
  "is_quota (QuotaExceeded d)" "\<not> is_quota KeyError" "\<not> is_quota FileNotFoundError" "\<not> is_quota PermissionError"
  "\<not> is_quota (ValueError d)" "\<not> is_quota (RuntimeError d)" "\<not> is_quota InvalidOperation"
  "\<not> is_quota (HTTPException n d)" "\<not> is_quota (OpenAIAPIError n d)" "\<not> is_quota OverflowError"
  "\<not> is_quota TypeError" "\<not> is_quota OutOfDraws"
  by (simp_all add: is_quota_def)

definition calm_result :: "'a result \<Rightarrow> bool" where
  "calm_result r \<longleftrightarrow> (\<forall>e. r = Inl e \<longrightarrow> \<not> is_quota e)"

lemma calm_result_simps [simp]:
  "calm_result (Inr x)" "calm_result (Inl e) \<longleftrightarrow> \<not> is_quota e" "calm_result (map_sum id f r) = calm_result r"
  by (cases r; simp add: calm_result_def)+

definition calm :: "('s, 'a) action \<Rightarrow> bool" where
  "calm m \<longleftrightarrow> triple (\<lambda>_. True) m (\<lambda>_ _. True) (\<lambda>e _. \<not> is_quota e)"

named_theorems calming "actions that never report an exhausted quota"

lemma calm_seq [calming]: "calm m \<Longrightarrow> (\<And>x. calm (f x)) \<Longrightarrow> calm (seq m f)"
  unfolding calm_def by (rule triple_seq)

lemma calm_steps [calming]:
  "calm (give x)" "calm (reads f)" "calm (changes g)" "\<not> is_quota e \<Longrightarrow> calm (need b e)"
  "\<not> is_quota e \<Longrightarrow> calm (raise e)" "calm_result r \<Longrightarrow> calm (of_result r)"
  unfolding calm_def calm_result_def
  by (rule triple_give triple_reads triple_changes triple_need triple_raise triple_of_result; simp)+

lemma calm_reads [calming]:
  "(\<And>s. calm_result (f s)) \<Longrightarrow> calm (seq (reads f) of_result)"
  unfolding calm_def calm_result_def
  by (rule tripleI) (auto simp: seq_def reads_def of_result_def)

lemma calm_if [calming]: "calm m \<Longrightarrow> calm n \<Longrightarrow> calm (if b then m else n)"
  by simp

lemma calm_option [calming]: "calm m \<Longrightarrow> (\<And>y. calm (f y)) \<Longrightarrow> calm (case x of None \<Rightarrow> m | Some y \<Rightarrow> f y)"
  by (cases x) simp_all

lemma calm_prod [calming]: "(\<And>a b. calm (f a b)) \<Longrightarrow> calm (case x of (a, b) \<Rightarrow> f a b)"
  by (cases x) simp

lemma calm_on_part [calming]:
  "(\<And>p. calm_result (f p)) \<Longrightarrow> calm (on_part get put f)"
  "(\<And>p. calm_result (snd (g p))) \<Longrightarrow> calm (on_part_keeping get put g)"
  unfolding calm_def calm_result_def
  by (rule triple_on_part triple_on_part_keeping; (simp; fail | metis snd_conv))+

lemma calm_points:
  "calm_result (points_to_units a)" "calm_result (nonnegative_points_to_units a)"
proof -
  have "calm_result (dec_int d)" "calm_result (dec_sign d)" for d by (cases d; simp)+
  then show "calm_result (points_to_units a)" "calm_result (nonnegative_points_to_units a)"
    by (auto simp: points_to_units_def nonnegative_points_to_units_def Let_def calm_result_def split: option.splits sum.splits if_splits)
qed

lemma calm_duration_cost: "duration_cost s p m d costs = Some r \<Longrightarrow> calm_result r"
  by (induction s p m d costs rule: duration_cost.induct) (auto simp: calm_points split: if_splits option.splits)

lemma calm_model_cost: "calm_result (model_cost_units s p m d)" "calm_result (model_video_quota_cost_units s p m d)"
  by (auto simp: model_cost_units_def model_video_quota_cost_units_def Let_def calm_points
      split: option.split dest: calm_duration_cost)

lemma calm_discounts: "calm_result (normalized_model_discounts ds)"
proof -
  have models: "calm_result (normalized_models ms acc)" for ms acc
  proof (induction ms acc rule: normalized_models.induct)
    case (2 raw_model raw rest acc)
    then show ?case using calm_points(2) [of raw]
      by (auto simp: Let_def discount_units_def calm_result_def split: sum.splits py_error.splits if_splits option.splits)
  qed simp
  have "calm_result (normalized_platforms ds acc)" for acc
    by (induction ds acc rule: normalized_platforms.induct)
      (use models in \<open>auto simp: Let_def calm_result_def split: sum.splits\<close>)
  then show ?thesis by (simp add: normalized_model_discounts_def)
qed

lemma calm_units_or_zero: "calm_result (units_or_zero a)"
  using calm_points(2) [of a] by (auto simp: units_or_zero_def calm_result_def split: sum.splits py_error.splits)

lemma calm_configured: "calm_result (configured_discount ds p m)"
  by (auto simp: configured_discount_def calm_units_or_zero split: option.split)

lemma calm_user_discounts: "calm_result (user_discounts kind users h)"
  by (auto simp: user_discounts_def calm_discounts split: option.split)

lemma calm_user_model:
  "calm_result (user_model_discount_units_by_token_hash users h p m)"
  "calm_result (task_video_quota_discount_units_by_token_hash users h p m)"
  using calm_user_discounts [of ue_model_discounts users h] calm_user_discounts [of ue_quota_discounts users h]
    calm_configured [of _ p m]
  by (auto simp: user_model_discount_units_by_token_hash_def task_video_quota_discount_units_by_token_hash_def
      calm_result_def split: sum.splits)

lemma calm_task_discount: "calm_result (snd (task_discount_units_by_token_hash b now draw users h p m))"
proof -
  have "calm_result (snd (membership_task_discount_units_by_token_hash b now draw users h))"
    by (auto simp: membership_task_discount_units_by_token_hash_def Let_def calm_units_or_zero split: option.split)
  then show ?thesis
    by (auto simp: task_discount_units_by_token_hash_def calm_result_def split: prod.splits sum.splits)
      (metis (no_types) calm_result_def calm_result_simps(3) calm_user_model(1))
qed

lemma calm_record: "calm_result (record_transaction b now rand rows a)"
proof -
  have "calm_result (quota_change_points d)" for d
  proof -
    have "calm_result (dec_sign d)" by (cases d; simp)
    then show ?thesis
      by (auto simp: quota_change_points_def calm_points split: sum.splits)
  qed
  moreover have "calm_result (quota_balance_points d)" for d
    by (auto simp: quota_balance_points_def calm_points split: option.split)
  ultimately have "calm_result (transaction_entry now rand a)"
    by (auto simp: transaction_entry_def calm_result_def split: sum.splits)
  then show ?thesis
    by (auto simp: record_transaction_def calm_result_def split: sum.splits backend.splits option.splits if_splits)
qed

lemma calm_checks:
  "calm (require_job_active env n job_id owner)" "calm (require_batch_active env n access batch_id)"
  unfolding require_job_active_def require_batch_active_def meanwhile_def
  by (intro calming; simp add: ensure_batch_active_def)+

lemma calm_price: "calm (price_task env access p m d)"
  unfolding price_task_def
  by (intro calming calm_model_cost calm_task_discount calm_user_model)

lemma calm_consumption:
  assumes "calm check"
  shows "calm (record_consumption env check access user_id ctx i detail tx)"
  unfolding record_consumption_def on_ledger_def
  by (intro assms calming calm_record)

section \<open>Charging a submission\<close>

text \<open>A reservation that is refused leaves none open.\<close>

lemma reserve_refused:
  assumes "ac_is_temp access" "ac_token_hash access = h" "t \<noteq> []"
    and e: "map_of tokens h = Some e" "entry_ok e"
    and run: "reserve_temp_quota b now tokens access t cost user_id video_cost = Inl x"
  shows "\<not> open_reservation e t"
proof
  assume "open_reservation e t"
  then obtain r where r: "map_of (te_reservations e) t = Some r" "rs_status r = Reserved"
    using e(2) by (auto simp: open_map_of)
  then have "reserve_entry now access t cost user_id video_cost e =
      Inr (e, get_temp_context_from_entry (ac_token_hash access) e, False)"
    using e(2) assms(3) by (simp add: reserve_entry_def entry_ok_migrated)
  from any_rows.run_ok [where f = "reserve_entry now access t cost user_id video_cost", OF e(1) this, where e = KeyError and b = b]
  obtain k where "run_row b KeyError tokens h (reserve_entry now access t cost user_id video_cost) =
     Inr (k, get_temp_context_from_entry (ac_token_hash access) e)" by blast
  with run assms(1,2) show False by (simp add: reserve_temp_quota_def)
qed

lemma reserve_or_free:
  assumes "ac_is_temp access" "ac_token_hash access = h" "t \<noteq> []"
  shows "triple (stage h F q t any_entry) (reserve env access t cost user_id video_cost)
    (\<lambda>_. stage h F q t (holds t)) (\<lambda>_. stage h F q t (free_of t))"
proof (rule tripleI)
  fix w w' x
  assume "stage h F q t any_entry w" "reserve env access t cost user_id video_cost w = (w', Inr x)"
  with triple_Inr [OF reserve_stage [OF assms]] show "stage h F q t (holds t) w'" by blast
next
  fix w w' x
  assume st: "stage h F q t any_entry w" and run: "reserve env access t cost user_id video_cost w = (w', Inl x)"
  then have "w' = w"
    and run': "reserve_temp_quota (en_backend env) (en_now env) (wd_tokens w) access t cost user_id video_cost = Inl x"
    by (auto simp: reserve_def on_tokens_def on_part_def split: sum.splits)
  from st obtain e where "F (map_of (wd_tasks w))" "map_of (wd_tokens w) h = Some e" "entry_ok e" "worth t e = q"
    by (rule stageE)
  with reserve_refused [OF assms _ _ run'] \<open>w' = w\<close> show "stage h F q t (free_of t) w'"
    by (auto intro: stageI)
qed

text \<open>What a failed step leaves; only the reservation reports an exhausted quota, and then nothing is held.\<close>

definition charged_not :: "ustr \<Rightarrow> ((ustr \<Rightarrow> task_row option) \<Rightarrow> bool) \<Rightarrow> int \<times> int \<Rightarrow> ustr \<Rightarrow> py_error \<Rightarrow> world \<Rightarrow> bool" where
  "charged_not h F q t e w \<longleftrightarrow> stage h F q t any_entry w \<and> (is_quota e \<longrightarrow> stage h F q t (free_of t) w)"

lemma calm_keeps:
  assumes "keeps (stage h F q t P) m" "calm m"
  shows "triple (stage h F q t P) m (\<lambda>_. stage h F q t P) (charged_not h F q t)"
  using triple_conj [OF keeps_triple [OF assms(1)] assms(2) [unfolded calm_def]]
  by (rule triple_conseq) (auto simp: charged_not_def intro: stage_weaken)

lemma charge_or_free:
  assumes "ac_is_temp access" "ac_token_hash access = h" "t \<noteq> []"
    and check: "keeps (stage h F q t (holds t)) check" "calm check"
  shows "triple (stage h F q t any_entry) (charge_task env check access t platform model duration)
    (\<lambda>_. stage h F q t (holds t)) (charged_not h F q t)"
  unfolding charge_task_def
proof (rule triple_seq [OF calm_keeps [OF price_keeps calm_price]], rule triple_prod,
    rule triple_reads_fact [where B = "\<lambda>_. True"], rule TrueI)
  fix costs cost video_cost user_id
  show "triple (stage h F q t any_entry)
     (seq (reserve env access t cost user_id video_cost) (\<lambda>ctx.
      seq (record_consumption env check access user_id ctx t (task_detail t platform model) (u ''task-'' @ take 27 t)) (\<lambda>found.
      give \<lparr>cg_context = ctx, cg_user_id = user_id, cg_reservation = found\<rparr>)))
     (\<lambda>_. stage h F q t (holds t)) (charged_not h F q t)"
    by (rule triple_seq [OF triple_conseq [OF reserve_or_free [OF assms(1-3)]]], assumption, assumption,
        simp add: charged_not_def, fast intro: stage_weaken,
        rule triple_then_give, rule calm_keeps, rule record_keeps [OF check(1)], rule calm_consumption [OF check(2)])
qed

section \<open>What a failed submission leaves\<close>

text \<open>A task that a \<open>ValueError\<close> left behind: still being created, and its owner's means unchanged.\<close>

definition left_over :: "ustr \<Rightarrow> task_store \<Rightarrow> token_entry \<Rightarrow> world \<Rightarrow> bool" where
  "left_over h store e0 w \<longleftrightarrow> (\<exists>t. is_task_id t \<and> stage h (creating (map_of store) t) (worth t e0) t any_entry w \<and>
     (\<forall>row. map_of store t = Some row \<longrightarrow> tm_status (tr_meta row) = Initializing))"

definition submit_failed :: "(ustr \<Rightarrow> py_error) \<Rightarrow> ustr \<Rightarrow> task_store \<Rightarrow> token_entry \<Rightarrow> py_error \<Rightarrow> world \<Rightarrow> bool" where
  "submit_failed conflict h store e0 e w \<longleftrightarrow> settled h store e0 w \<or> (\<exists>d. e = conflict d) \<and> left_over h store e0 w"

lemma submit_failed_start [simp]: "at_start h store e0 w \<Longrightarrow> submit_failed conflict h store e0 e w"
  by (simp add: submit_failed_def settled_def)

text \<open>The three ways in which both handlers treat an exception.\<close>

lemma abandon_shape:
  assumes h: "normalized_hash h = h" "h \<noteq> []" and t: "is_task_id t" and q: "fst (worth t e0) < 10 ^ 26"
    and init: "\<forall>row. map_of store t = Some row \<longrightarrow> tm_status (tr_meta row) = Initializing"
    and conflict: "\<And>d. refuse (ValueError d) = conflict d"
  shows "triple (charged_not h (creating (map_of store) t) (worth t e0) t x)
    (case x of
       ValueError _ \<Rightarrow> raise (refuse x)
     | QuotaExceeded _ \<Rightarrow> seq (remove env t) (\<lambda>_. raise (refuse x))
     | _ \<Rightarrow> seq (undo env h t) (\<lambda>_. raise (refuse x)))
    Q (submit_failed conflict h store e0)"
proof -
  let ?C = "creating (map_of store) t" let ?q = "worth t e0"
  have gone: "submit_failed conflict h store e0 e w"
    if "stage h (without (map_of store) t) ?q t (free_of t) w" for e w
    using that t init by (auto simp: submit_failed_def settled_def)
  have undo: "triple (charged_not h ?C ?q t x) (seq (undo env h t) (\<lambda>_. raise (refuse x))) Q (submit_failed conflict h store e0)"
    by (rule triple_seq [OF triple_conseq [OF undo_stage [OF h t q, where T = "map_of store" and P = any_entry]]],
        simp add: charged_not_def, assumption, simp)
      (rule triple_raise, erule gone)
  show ?thesis
  proof (cases x)
    case (ValueError d)
    with t init show ?thesis
      by (auto intro!: triple_raise simp: conflict charged_not_def submit_failed_def left_over_def)
  next
    case (QuotaExceeded d)
    have "triple (charged_not h ?C ?q t x) (seq (remove env t) (\<lambda>_. raise (refuse x))) Q (submit_failed conflict h store e0)"
      by (rule triple_seq [OF triple_conseq [OF remove_stage [OF t, where P = "free_of t" and h = h and T = "map_of store" and q = ?q]]],
          simp add: charged_not_def QuotaExceeded, assumption, simp)
        (rule triple_raise, erule gone)
    with QuotaExceeded show ?thesis by simp
  qed (use undo in simp_all)
qed

lemma plan_keeps: "keeps (at_start h store e0) (plan_submission env su access s)"
  unfolding plan_submission_def Let_def by (intro keeping start_checks_keep)

lemma compatible_plan_keeps: "keeps (at_start h store e0) (plan_compatible env rate access r)"
  unfolding plan_compatible_def Let_def by (intro keeping)

lemma create_stage:
  assumes "\<forall>d \<in> set (en_draws env). is_task_id d"
  shows "triple (at_start h store e0) (create env a owner) (\<lambda>m. found_or_new h store e0 (m, True)) (\<lambda>_. at_start h store e0)"
  unfolding create_def on_tasks_def
proof (rule triple_on_part)
  fix w k m
  assume st: "at_start h store e0 w"
    and run: "map_sum id (\<lambda>((store', _), m). (store', m))
      (create_task (\<lambda>_ _ _ _ q. q) (en_now env) (en_draws env) (wd_tasks w, ()) a owner False [] [] []) = Inr (k, m)"
  have tasks: "wd_tasks w = store" using st by (simp add: at_start_def)
  obtain platform where pl: "normalize_platform (targ_platform a) = Inr platform"
    using run by (cases "normalize_platform (targ_platform a)") (simp_all add: create_task_def)
  obtain t where t: "create_draws (take 20 (en_draws env)) store = Some t"
    and k: "k = AList.update t \<lparr>tr_meta = m, tr_result = []\<rparr> store" "tm_status m = Initializing" "task_id_of m = t"
    using run pl tasks
    by (cases "create_draws (take 20 (en_draws env)) store")
      (auto simp: create_task_def Let_def new_meta_def task_request_of_def task_id_of_def)
  have "\<forall>d \<in> set (take 20 (en_draws env)). is_task_id d" using assms by (auto dest: in_set_takeD)
  from new_task_stage [OF st t this k(2,3)] show "found_or_new h store e0 (m, True) (w\<lparr>wd_tasks := k\<rparr>)"
    by (simp add: k(1))
qed

lemma find_or_make_stage:
  assumes "en_backend env = Postgres" "store_ok store" "\<forall>d \<in> set (en_draws env). is_task_id d"
  shows "triple (at_start h store e0) (find_or_make env access a key fp route) (found_or_new h store e0) (\<lambda>_. at_start h store e0)"
  unfolding find_or_make_def
  by (rule triple_if, rule find_or_create_stage [OF assms], rule triple_seq [OF create_stage [OF assms(3)]], rule triple_give)

section \<open>Submissions\<close>

lemma finish_stage:
  assumes "is_task_id t" "\<forall>row. map_of store t = Some row \<longrightarrow> tm_status (tr_meta row) = Initializing"
  shows "triple (stage h (creating (map_of store) t) (worth t e0) t (holds t)) (finalize env t)
    (\<lambda>_. made env h store e0 t) (\<lambda>_ _. False)"
  by (rule triple_conseq [OF finalize_stage [OF assms(1)]]) (use assms in \<open>auto simp: made_def\<close>)

lemma submit_task_triple:
  assumes h: "normalized_hash h = h" "h \<noteq> []" and access: "own_access h access"
    and b: "en_backend env = Postgres" and ok: "store_ok store" "\<forall>d \<in> set (en_draws env). is_task_id d"
    and bound: "\<And>t. fst (worth t e0) < 10 ^ 26"
  shows "triple (at_start h store e0) (submit_task env su access s)
    (\<lambda>x w. was_there h store e0 (sb_task x) w \<or> made env h store e0 (sb_task x) w)
    (submit_failed (HTTPException 409) h store e0)"
proof -
  let ?E = "submit_failed (HTTPException 409) h store e0"
  from access have ac: "ac_is_temp access" "ac_token_hash access = h" by (simp_all add: own_access_def)
  have rest: "triple (found_or_new h store e0 (m, created))
      (let t = task_id_of m in
       if \<not> created \<and> tm_status m \<noteq> Initializing
       then give \<lparr>sb_task = t, sb_replayed = True, sb_queued = False, sb_charge = None\<rparr>
       else seq (submit_charge env access (sp_args p) t) (\<lambda>(busy, c).
            seq (submit_images env su access s p t) (\<lambda>_.
            give \<lparr>sb_task = t, sb_replayed = \<not> created, sb_queued = busy, sb_charge = Some c\<rparr>)))
      (\<lambda>x w. was_there h store e0 (sb_task x) w \<or> made env h store e0 (sb_task x) w) ?E" for p m created
  proof (cases "\<not> created \<and> tm_status m \<noteq> Initializing")
    case True
    then show ?thesis
      by (intro tripleI) (auto simp: give_def found_or_new_def was_there_def Let_def)
  next
    case False
    let ?t = "task_id_of m"
    let ?init = "\<forall>row. map_of store ?t = Some row \<longrightarrow> tm_status (tr_meta row) = Initializing"
    let ?P = "stage h (creating (map_of store) ?t) (worth ?t e0) ?t"
    have pre: "found_or_new h store e0 (m, created) = (\<lambda>w. ?P any_entry w \<and> is_task_id ?t \<and> ?init)"
      using False by (auto simp: found_or_new_def fun_eq_iff Let_def)
    show ?thesis unfolding pre Let_def if_not_P [OF False]
    proof (rule triple_fact, elim conjE)
      assume t: "is_task_id ?t" and init: ?init
      have nt: "?t \<noteq> []" using t by (auto simp: is_task_id_def)
      have left: "?E e w" if "stage h (without (map_of store) ?t) (worth ?t e0) ?t (free_of ?t) w" for e w
        using that t init by (auto simp: submit_failed_def settled_def)
      have charge: "triple (?P any_entry) (submit_charge env access (sp_args p) ?t) (\<lambda>_. ?P (holds ?t)) ?E"
        unfolding submit_charge_def abandon_def ac(2)
        by (rule triple_catch [OF triple_reads_fact [where B = "\<lambda>_. True", OF TrueI
              triple_then_give [OF charge_or_free [OF ac nt check_keeps(2) calm_checks(2)]]]],
            rule abandon_shape [OF h t bound init]) (simp add: refused_def)
      have images: "triple (?P (holds ?t)) (submit_images env su access s p ?t) (\<lambda>_. made env h store e0 ?t) ?E"
        unfolding submit_images_def abandon_images_def ac(2)
      proof (rule triple_catch)
        show "triple (?P (holds ?t))
          (seq (store_images env ?t (su_saved su) (saved_names (sp_shared p) (sm_uploads s))) (\<lambda>_.
           seq (change_meta env ?t (\<lambda>m. m\<lparr>tm_real_person := sm_real_person s, tm_preferred_account_id := sp_preferred p\<rparr>)) (\<lambda>_.
           seq (require_batch_active env 2 access (targ_batch_id (sp_args p))) (\<lambda>_.
           seq (finalize env ?t) (\<lambda>_. give ())))))
          (\<lambda>_. made env h store e0 ?t) (\<lambda>_. ?P any_entry)"
          by (rule triple_conseq [OF triple_after [OF images_keeps [OF t] triple_after [OF change_keeps [OF t]
              triple_after [OF check_keeps(2) triple_then_give [OF triple_conseq [OF finish_stage [OF t init]]]]]]])
            (auto intro: stage_weaken)
      next
        fix e
        show "triple (?P any_entry) (seq (undo env h ?t) (\<lambda>_. raise (case e of
             HTTPException code detail \<Rightarrow> HTTPException code detail | _ \<Rightarrow> HTTPException 503 msg_create_busy)))
          (\<lambda>_. made env h store e0 ?t) ?E"
          by (rule triple_seq [OF triple_conseq [OF undo_stage [OF h t bound]]], assumption, assumption, simp)
            (rule triple_raise, erule left)
      qed
      show "triple (?P any_entry)
         (seq (submit_charge env access (sp_args p) ?t) (\<lambda>(busy, c).
            seq (submit_images env su access s p ?t) (\<lambda>_.
            give \<lparr>sb_task = ?t, sb_replayed = \<not> created, sb_queued = busy, sb_charge = Some c\<rparr>)))
         (\<lambda>x w. was_there h store e0 (sb_task x) w \<or> made env h store e0 (sb_task x) w) ?E"
        by (rule triple_seq [OF charge], rule triple_prod, rule triple_seq [OF images], rule triple_give) simp
    qed
  qed
  show ?thesis
    unfolding submit_task_def
    by (rule triple_after [OF plan_keeps], rule triple_seq [OF triple_catch [OF find_or_make_stage [OF b ok] triple_raise]],
        erule submit_failed_start, rule triple_prod, hypsubst, rule rest) simp
qed

section \<open>The compatible interface\<close>

lemma calm_mutate:
  assumes "\<And>m. calm_result (f m)"
  shows "calm_result (mutate_meta b store t f)"
proof -
  have "calm_result (on_meta f row)" for row using assms by (simp add: on_meta_def)
  then have "calm_result (run_row b FileNotFoundError store t' (on_meta f))" for t'
    unfolding calm_result_def by (auto dest!: any_rows.run_Inl)
  moreover have "calm_result (validate_task_id t)" by (simp add: validate_task_id_def Let_def)
  ultimately show ?thesis by (auto simp: mutate_meta_def locked_def calm_result_def split: sum.splits)
qed

lemma calm_last_steps:
  "calm_result saved \<Longrightarrow> calm (store_images env t saved names)" "calm (change_meta env t f)" "calm (finalize env t)"
proof -
  show "calm_result saved \<Longrightarrow> calm (store_images env t saved names)"
    unfolding store_images_def on_tasks_def
    by (intro calming calm_mutate) (simp_all add: set_task_images_mut_def)
  show "calm (change_meta env t f)"
    unfolding change_meta_def on_tasks_def update_meta_def
    by (intro calming calm_mutate) (simp add: update_meta_mut_def Let_def)
  have "calm_result (finalize_task_creation enq b now sq t)" for enq b now and sq :: "task_store \<times> redis_queue"
    unfolding finalize_task_creation_def calm_result_simps by (rule calm_mutate) (simp add: Let_def)
  then show "calm (finalize env t)" unfolding finalize_def by (intro calming)
qed

lemma compatible_triple:
  assumes h: "normalized_hash h = h" "h \<noteq> []" and access: "own_access h access"
    and b: "en_backend env = Postgres" and ok: "store_ok store" "\<forall>d \<in> set (en_draws env). is_task_id d"
    and bound: "\<And>t. fst (worth t e0) < 10 ^ 26" and saved: "calm_result saved"
  shows "triple (at_start h store e0) (create_compatible_video_task env rate saved access r)
    (\<lambda>x w. was_there h store e0 (task_id_of (fst x)) w \<and> \<not> snd x \<or> (\<exists>t. made env h store e0 t w) \<and> snd x)
    (submit_failed (OpenAIAPIError 409) h store e0)"
proof -
  let ?E = "submit_failed (OpenAIAPIError 409) h store e0"
  let ?Q = "\<lambda>x w. was_there h store e0 (task_id_of (fst x)) w \<and> \<not> snd x \<or> (\<exists>t. made env h store e0 t w) \<and> snd x"
  from access have ac: "ac_is_temp access" "ac_token_hash access = h" by (simp_all add: own_access_def)
  have rest: "triple (found_or_new h store e0 (m, created))
      (if \<not> created \<and> tm_status m \<noteq> Initializing then give (m, False)
       else seq (compatible_steps env saved access r (cp_args p) (task_id_of m)) (\<lambda>m'. give (m', True))) ?Q ?E" for p m created
  proof (cases "\<not> created \<and> tm_status m \<noteq> Initializing")
    case True
    then show ?thesis
      by (intro tripleI) (auto simp: give_def found_or_new_def was_there_def Let_def)
  next
    case False
    let ?t = "task_id_of m"
    let ?init = "\<forall>row. map_of store ?t = Some row \<longrightarrow> tm_status (tr_meta row) = Initializing"
    let ?F = "creating (map_of store) ?t" and ?q = "worth ?t e0"
    let ?P = "stage h ?F ?q ?t"
    have pre: "found_or_new h store e0 (m, created) = (\<lambda>w. ?P any_entry w \<and> is_task_id ?t \<and> ?init)"
      using False by (auto simp: found_or_new_def fun_eq_iff Let_def)
    show ?thesis unfolding pre if_not_P [OF False]
    proof (rule triple_fact, elim conjE)
      assume t: "is_task_id ?t" and init: ?init
      have nt: "?t \<noteq> []" using t by (auto simp: is_task_id_def)
      have end_step: "triple (?P (holds ?t)) (finalize env ?t) (\<lambda>_. made env h store e0 ?t) (charged_not h ?F ?q ?t)"
        by (rule triple_conseq [OF finish_stage [OF t init]]) simp_all
      have steps: "triple (?P any_entry) (compatible_steps env saved access r (cp_args p) ?t) (\<lambda>_. made env h store e0 ?t) ?E"
        unfolding compatible_steps_def api_abandon_def ac(2)
        by (rule triple_catch, rule triple_reads_fact [where B = "\<lambda>_. True", OF TrueI],
            rule triple_seq [OF charge_or_free [OF ac nt keeps_steps(1) calm_steps(1)]],
            rule triple_seq [OF calm_keeps [OF images_keeps [OF t] calm_last_steps(1) [OF saved]]],
            rule triple_seq [OF calm_keeps [OF change_keeps [OF t] calm_last_steps(2)]], simp, rule end_step,
            rule abandon_shape [OF h t bound init]) (simp add: api_refused_def api_error_def)
      show "triple (?P any_entry) (seq (compatible_steps env saved access r (cp_args p) ?t) (\<lambda>m'. give (m', True))) ?Q ?E"
        by (rule triple_seq [OF steps], rule triple_give) auto
    qed
  qed
  show ?thesis
    unfolding create_compatible_video_task_def
    by (rule triple_after [OF compatible_plan_keeps], rule triple_seq [OF triple_catch [OF find_or_make_stage [OF b ok] triple_raise]],
        erule submit_failed_start, rule triple_prod, hypsubst, rule rest) simp
qed

section \<open>The requests\<close>

definition still_creating :: "ustr \<Rightarrow> token_entry \<Rightarrow> world \<Rightarrow> world \<Rightarrow> bool" where
  "still_creating h e w w' \<longleftrightarrow> (\<exists>t row e'. \<not> past_creation (wd_tasks w) t \<and>
     tm_status (tr_meta row) = Initializing \<and> map_of (wd_tasks w') = (map_of (wd_tasks w))(t \<mapsto> row) \<and>
     map_of (wd_tokens w') h = Some e' \<and> entry_ok e' \<and> worth t e' = worth t e)"

lemma left_over_creating: "left_over h (wd_tasks w) e w' \<Longrightarrow> still_creating h e w w'"
  unfolding left_over_def still_creating_def stage_def creating_def past_creation_def by fastforce


text \<open>A submission without a key, and one with a price that is not a whole number of tenths.\<close>

definition example_submission :: submission where
  "example_submission = \<lparr>sm_prompt = u ''a cat'', sm_ratio = [], sm_platform = u ''dola'', sm_model = u ''Seedance 2.0'',
     sm_task_type = u ''video'', sm_duration = None, sm_batch = False, sm_batch_id = [], sm_batch_index = 0, sm_batch_row = 0,
     sm_reference_task_id = [], sm_reference_id = [], sm_reference_count = 0, sm_real_person = False,
     sm_preferred_account = [], sm_uploads = [], sm_key = []\<rparr>"

definition example_surroundings :: surroundings where
  "example_surroundings = \<lparr>su_bundle = Inr [], su_task_images = (\<lambda>_. []), su_selectable = [],
     su_studio_model = (\<lambda>_. False), su_rate = Inr (), su_saved = Inr ()\<rparr>"

definition example_access :: access_context where
  "example_access = get_temp_context_from_entry (u ''tmp_x'') example_token"

definition odd_price_env :: env where
  "odd_price_env = example_env\<lparr>en_settings := example_settings\<lparr>st_prices := (st_prices example_settings)\<lparr>
     model_duration_costs := [(u ''dola'', [(u ''Seedance 2.0'', [(15, Fin 25 (- 2))])])]\<rparr>\<rparr>\<rparr>"

lemma example_access_own: "own_access (u ''tmp_x'') example_access"
  by (simp add: own_access_def example_access_def get_temp_context_from_entry_def Let_def)


text \<open>With such a price the submission is refused as a conflict, and its task stays where it was created.\<close>

theorem odd_price_leaves_task:
  "\<exists>w' d. submit_task odd_price_env example_surroundings example_access example_submission example_world
       = (w', Inl (HTTPException 409 d)) \<and>
     map (\<lambda>(t, row). (t, tm_status (tr_meta row))) (wd_tasks w') = [(sample_id, Initializing)]"
proof -
  let ?run = "submit_task odd_price_env example_surroundings example_access example_submission example_world"
  have "snd ?run = Inl (HTTPException 409 msg_points_positive)" by code_simp
  moreover have "map (\<lambda>(t, row). (t, tm_status (tr_meta row))) (wd_tasks (fst ?run)) = [(sample_id, Initializing)]" by code_simp
  ultimately show ?thesis by (cases ?run) auto
qed

end
