(* ===== verification/Retry_Task_Props.thy ===== *)
theory Retry_Task_Props
  imports Submission_Props
begin

text \<open>
  Retrying a finished task as a new one: it is charged anew, and a failed original is replaced by it.
\<close>

section \<open>The steps of a retry\<close>

definition unused :: "env \<Rightarrow> token_entry \<Rightarrow> bool" where
  "unused env e \<longleftrightarrow> (\<forall>d \<in> set (en_draws env). \<not> open_reservation e d)"

definition fresh_task :: "ustr \<Rightarrow> task_store \<Rightarrow> token_entry \<Rightarrow> task_meta \<Rightarrow> world \<Rightarrow> bool" where
  "fresh_task h store e0 m w \<longleftrightarrow> stage h (creating (map_of store) (task_id_of m)) (worth (task_id_of m) e0) (task_id_of m)
       (free_of (task_id_of m)) w \<and> is_task_id (task_id_of m) \<and> map_of store (task_id_of m) = None"

lemma create_fresh:
  assumes "\<forall>d \<in> set (en_draws env). is_task_id d" "unused env e0"
  shows "triple (at_start h store e0) (create env a owner) (fresh_task h store e0) (\<lambda>_. at_start h store e0)"
proof (rule tripleI)
  fix w w' m
  assume st: "at_start h store e0 w" and run: "create env a owner w = (w', Inr m)"
  from triple_Inr [OF create_stage [OF assms(1)] this]
  have found: "is_task_id (task_id_of m)"
    "stage h (creating (map_of store) (task_id_of m)) (worth (task_id_of m) e0) (task_id_of m) any_entry w'"
    by (simp_all add: found_or_new_def Let_def)
  have tasks: "wd_tasks w = store" using st by (simp add: at_start_def)
  from run tasks obtain t where t: "create_draws (take 20 (en_draws env)) store = Some t" and id: "task_id_of m = t"
    and w': "wd_tokens w' = wd_tokens w"
    by (auto simp: create_def on_tasks_def on_part_def create_task_def Let_def new_meta_def task_request_of_def task_id_of_def
        split: sum.splits option.splits)
  from create_draws_fresh [OF t] have "t \<in> set (en_draws env)" and fresh: "map_of store t = None"
    by (auto dest: in_set_takeD)
  with assms(2) have "\<not> open_reservation e0 t" by (simp add: unused_def)
  with st w' have "\<exists>e. map_of (wd_tokens w') h = Some e \<and> \<not> open_reservation e t"
    by (auto simp: at_start_def same_money_def open_reservation_def)
  with found id fresh show "fresh_task h store e0 m w'"
    by (auto simp: fresh_task_def stage_def)
qed (use triple_Inl [OF create_stage [OF assms(1)]] in blast)

lemma take_stage:
  assumes "own_access h access" "t \<noteq> []"
  shows "triple (stage h F q t (free_of t))
    (seq (price_task env access platform model duration) (\<lambda>(cost, video_cost).
     seq (reads (\<lambda>w. transaction_user_id access (wd_users w))) (\<lambda>user_id.
     seq (reserve env access t cost user_id video_cost) (\<lambda>ctx. give (user_id, ctx)))))
    (\<lambda>_. stage h F q t (holds t)) (\<lambda>_. stage h F q t (free_of t))"
proof (rule triple_after [OF price_keeps], rule triple_prod, rule triple_reads_fact [where B = "\<lambda>_. True"], rule TrueI,
    rule triple_then_give)
  fix x cost video_cost user_id
  show "triple (stage h F q t (free_of t)) (reserve env access t cost user_id video_cost)
     (\<lambda>_. stage h F q t (holds t)) (\<lambda>_. stage h F q t (free_of t))"
    by (rule triple_pre [OF reserve_or_free]) (use assms in \<open>auto simp: own_access_def intro: stage_weaken\<close>)
qed

text \<open>The new task is pending, and the original is gone if it had failed.\<close>

definition replaced :: "env \<Rightarrow> ustr \<Rightarrow> task_store \<Rightarrow> token_entry \<Rightarrow> ustr \<Rightarrow> bool \<Rightarrow> ustr \<Rightarrow> world \<Rightarrow> bool" where
  "replaced env h store e0 old failed t w \<longleftrightarrow>
     stage h (\<lambda>M. \<exists>row. tm_status (tr_meta row) = Pending \<and>
        M = (if failed then ((map_of store)(t \<mapsto> row))(old := None) else (map_of store)(t \<mapsto> row)))
       (worth t e0) t (holds t) w \<and> queued env t w"

lemma remove_original:
  assumes "is_task_id old"
  shows "triple (made env h store e0 t) (if failed then remove env old else give ())
    (\<lambda>_. replaced env h store e0 old failed t) (\<lambda>_ _. False)"
proof (rule triple_if)
  assume failed: failed
  show "triple (made env h store e0 t) (remove env old) (\<lambda>_. replaced env h store e0 old failed t) (\<lambda>_ _. False)"
    unfolding remove_def on_tasks_def
  proof (rule triple_on_part)
    fix w k x
    assume "made env h store e0 t w" "no_value (delete_task (en_backend env) (wd_tasks w) old) = Inr (k, x)"
    with assms have k: "k = AList.delete old (wd_tasks w)" and
      m: "stage h (waiting (map_of store) t) (worth t e0) t (holds t) w" "queued env t w"
      by (simp_all add: no_value_def delete_task_def made_def)
    from m(1) obtain e row where "map_of (wd_tasks w) = (map_of store)(t \<mapsto> row)" "tm_status (tr_meta row) = Pending"
      "map_of (wd_tokens w) h = Some e" "entry_ok e" "worth t e = worth t e0" "open_reservation e t"
      by (auto simp: stage_def waiting_def)
    then show "replaced env h store e0 old failed t (w\<lparr>wd_tasks := k\<rparr>)"
      using failed m(2) by (auto simp: replaced_def stage_def queued_def k delete_conv')
  qed (use assms in \<open>simp add: no_value_def delete_task_def\<close>)
qed (auto intro!: triple_give simp: replaced_def made_def stage_def waiting_def)

lemma retry_abandon_stage:
  assumes h: "normalized_hash h = h" "h \<noteq> []" and t: "is_task_id t" and q: "fst (worth t e0) < 10 ^ 26"
    and new: "map_of store t = None"
    and pre: "\<And>w. P w \<Longrightarrow> charged_not h (creating (map_of store) t) (worth t e0) t x w"
      "\<And>w. P w \<Longrightarrow> \<not> charged \<Longrightarrow> stage h (creating (map_of store) t) (worth t e0) t (free_of t) w"
  shows "triple P (retry_abandon env charged h t x) Q (\<lambda>_. settled h store e0)"
proof -
  let ?C = "creating (map_of store) t" let ?q = "worth t e0"
  have gone: "settled h store e0 w" if "stage h (without (map_of store) t) ?q t (free_of t) w" for w
    using that t new by (auto simp: settled_def)
  have undo: "triple (\<lambda>w. charged_not h ?C ?q t x w) (seq (undo env h t) (\<lambda>_. raise y)) Q (\<lambda>_. settled h store e0)" for y
    by (rule triple_seq [OF triple_conseq [OF undo_stage [OF h t q, where T = "map_of store" and P = any_entry]]],
        simp add: charged_not_def, assumption, simp) (rule triple_raise, erule gone)
  have remove: "triple (stage h ?C ?q t (free_of t)) (seq (remove env t) (\<lambda>_. raise y)) Q (\<lambda>_. settled h store e0)" for y
    by (rule triple_seq [OF triple_conseq [OF remove_stage [OF t]]], assumption, assumption, simp)
      (rule triple_raise, erule gone)
  show ?thesis
  proof (cases "is_quota x \<or> \<not> charged")
    case True
    have free: "stage h ?C ?q t (free_of t) w" if "P w" for w
      using True pre [OF that] by (auto simp: charged_not_def)
    with True show ?thesis
      by (cases x) (auto simp: retry_abandon_def intro: triple_pre [OF remove])
  next
    case False
    have "triple P (seq (undo env h t) (\<lambda>_. raise y)) Q (\<lambda>_. settled h store e0)" for y
      by (rule triple_pre [OF undo]) (rule pre(1))
    with False show ?thesis by (cases x) (simp_all add: retry_abandon_def)
  qed
qed

lemma manual_retry_triple:
  assumes h: "normalized_hash h = h" "h \<noteq> []" and access: "own_access h access" and own: "tm_owner original = h"
    and ok: "\<forall>d \<in> set (en_draws env). is_task_id d" and un: "unused env e0"
    and bound: "\<And>t. fst (worth t e0) < 10 ^ 26" and old: "is_task_id old" and saved: "calm_result saved"
  shows "triple (at_start h store e0) (create_manual_retry_task env images saved access old original at_time)
    (\<lambda>(t, _) w. map_of store t = None \<and> replaced env h store e0 old (tm_status original = Failed) t w)
    (\<lambda>_. settled h store e0)"
proof -
  let ?failed = "tm_status original = Failed"
  from access have temp: "ac_is_temp access" by (simp add: own_access_def)
  have settledI: "at_start h store e0 w \<Longrightarrow> settled h store e0 w" for w by (simp add: settled_def)
  have rest: "triple (fresh_task h store e0 m)
     (let t = task_id_of m in
      if \<not> ac_is_temp access
      then seq (catch (retry_steps env images saved old original at_time t) (retry_abandon env False h t)) (\<lambda>_. give (t, None))
      else seq (catch
             (seq (price_task env access platform model duration) (\<lambda>(cost, video_cost).
              seq (reads (\<lambda>w. transaction_user_id access (wd_users w))) (\<lambda>user_id.
              seq (reserve env access t cost user_id video_cost) (\<lambda>ctx. give (user_id, ctx)))))
             (retry_abandon env False h t)) (\<lambda>(user_id, ctx).
           catch
             (seq (record_consumption env (give ()) access user_id ctx t (retry_detail t old) []) (\<lambda>found.
              seq (retry_steps env images saved old original at_time t) (\<lambda>_. give (t, found))))
             (retry_abandon env True h t)))
     (\<lambda>(t, _) w. map_of store t = None \<and> replaced env h store e0 old ?failed t w) (\<lambda>_. settled h store e0)"
    for m platform model duration
  proof -
    let ?t = "task_id_of m"
    let ?F = "creating (map_of store) ?t" and ?q = "worth ?t e0"
    let ?P = "stage h ?F ?q ?t"
    have pre: "fresh_task h store e0 m = (\<lambda>w. ?P (free_of ?t) w \<and> is_task_id ?t \<and> map_of store ?t = None)"
      by (simp add: fresh_task_def fun_eq_iff)
    show ?thesis unfolding pre Let_def if_not_P [OF iffD2 [OF not_not temp]]
    proof (rule triple_fact, elim conjE)
      assume t: "is_task_id ?t" and new: "map_of store ?t = None"
      then have nt: "?t \<noteq> []" and init: "\<forall>row. map_of store ?t = Some row \<longrightarrow> tm_status (tr_meta row) = Initializing"
        by (auto simp: is_task_id_def)
      have last: "triple (?P (holds ?t))
          (seq (finalize env ?t) (\<lambda>_. if ?failed then remove env old else give ()))
          (\<lambda>_. replaced env h store e0 old ?failed ?t) (charged_not h ?F ?q ?t)"
        by (rule triple_conseq [OF triple_seq [OF finish_stage [OF t init] remove_original [OF old]]]) simp_all
      have steps: "triple (?P (holds ?t)) (retry_steps env images saved old original at_time ?t)
          (\<lambda>_. replaced env h store e0 old ?failed ?t) (charged_not h ?F ?q ?t)"
        unfolding retry_steps_def
        by (rule triple_seq [OF calm_keeps [OF images_keeps [OF t] calm_last_steps(1) [OF saved]]],
            rule triple_seq [OF calm_keeps [OF change_keeps [OF t] calm_last_steps(2)]])
          (simp add: retry_updates_def Let_def, rule last)
      have recorded: "triple (?P (holds ?t))
         (seq (record_consumption env (give ()) access user_id ctx ?t (retry_detail ?t old) []) (\<lambda>found.
          seq (retry_steps env images saved old original at_time ?t) (\<lambda>_. give (?t, found))))
         (\<lambda>(t, _) w. map_of store t = None \<and> replaced env h store e0 old ?failed t w) (charged_not h ?F ?q ?t)" for user_id ctx
        by (rule triple_seq [OF calm_keeps [OF record_keeps [OF keeps_steps(1)] calm_consumption [OF calm_steps(1)]]],
            rule triple_seq [OF steps], rule triple_give) (simp add: new)
      show "triple (?P (free_of ?t))
        (seq (catch
             (seq (price_task env access platform model duration) (\<lambda>(cost, video_cost).
              seq (reads (\<lambda>w. transaction_user_id access (wd_users w))) (\<lambda>user_id.
              seq (reserve env access ?t cost user_id video_cost) (\<lambda>ctx. give (user_id, ctx)))))
             (retry_abandon env False h ?t)) (\<lambda>(user_id, ctx).
           catch
             (seq (record_consumption env (give ()) access user_id ctx ?t (retry_detail ?t old) []) (\<lambda>found.
              seq (retry_steps env images saved old original at_time ?t) (\<lambda>_. give (?t, found))))
             (retry_abandon env True h ?t)))
        (\<lambda>(t, _) w. map_of store t = None \<and> replaced env h store e0 old ?failed t w) (\<lambda>_. settled h store e0)"
        by (rule triple_seq [OF triple_catch [OF take_stage [OF access nt] retry_abandon_stage [OF h t bound new]]],
            simp add: charged_not_def stage_weaken, assumption, rule triple_prod,
            rule triple_catch [OF recorded retry_abandon_stage [OF h t bound new]]) simp_all
    qed
  qed
  show ?thesis
    unfolding create_manual_retry_task_def own
    by (rule triple_let, rule triple_after [OF keeps_steps(4)], rule triple_prod, rule triple_after [OF keeps_steps(4)],
        rule triple_seq [OF triple_conseq [OF create_fresh [OF ok un]]], assumption, assumption, erule settledI,
        rule rest, erule settledI, erule settledI)
qed

section \<open>The request\<close>

lemma retry_completed_triple:
  assumes h: "normalized_hash h = h" "h \<noteq> []" and b: "en_backend env = Postgres" and st: "store_ok store"
    and own: "\<forall>row. map_of store old = Some row \<longrightarrow> tm_owner (tr_meta row) = h"
    and ok: "\<forall>d \<in> set (en_draws env). is_task_id d" and un: "unused env e0"
    and bound: "\<And>t. fst (worth t e0) < 10 ^ 26" and saved: "calm_result saved"
  shows "triple (at_start h store e0) (retry_completed_task env images saved rate access old)
    (\<lambda>(t, _) w. \<exists>row. map_of store old = Some row \<and> tm_status (tr_meta row) \<in> {Success, Failed} \<and> map_of store t = None \<and>
       replaced env h store e0 old (tm_status (tr_meta row) = Failed) t w)
    (\<lambda>_. settled h store e0)"
    (is "triple ?S _ ?Q ?E")
proof -
  have settledI: "?S w \<Longrightarrow> ?E e w" for e w by (simp add: settled_def)
  have retry: "triple ?S
     (seq (reads (\<lambda>w. retry_access_for_owner (wd_tokens w) (tm_owner original) access)) (\<lambda>access'.
      seq (of_result access') (\<lambda>retry_access.
      create_manual_retry_task env (images old) saved retry_access old original Unset))) ?Q ?E"
    if row: "map_of store old = Some row" and original: "tr_meta row = original" "tm_status original \<in> {Success, Failed}" for row original
  proof -
    have o: "tm_owner original = h" using own row original by auto
    have old: "is_task_id old" using st map_of_SomeD [OF row] by (auto simp: store_ok_def)
    have mine: "retry_access_for_owner tokens h access = Inr a \<Longrightarrow> own_access h a" for tokens a
      using own_context_by_hash [OF h(1), of tokens] h(2)
      by (auto simp: retry_access_for_owner_def own_context_def split: option.splits)
    have "triple ?S (create_manual_retry_task env (images old) saved a old original Unset) ?Q ?E" if "own_access h a" for a
      by (rule triple_conseq [OF manual_retry_triple [OF h that o ok un bound old saved]]) (use row original in auto)
    then show ?thesis
      by (intro triple_reads_fact [where B = "\<lambda>x. \<forall>a. x = Inr a \<longrightarrow> own_access h a"]
          triple_seq [OF triple_of_result, where R = "\<lambda>a w. ?S w \<and> own_access h a"] triple_fact)
        (auto simp: o intro: mine settledI)
  qed
  have found: "triple ?S
     (case found of
       Inl _ \<Rightarrow> raise (HTTPException 404 (u ''task not found''))
     | Inr original \<Rightarrow>
         seq (need (\<not> (ac_is_temp access \<and> tm_owner original \<noteq> ac_token_hash access)) (HTTPException 404 (u ''task not found''))) (\<lambda>_.
         seq (need (\<not> (if ac_is_temp access then tm_task_hidden_for_client original else tm_task_hidden_for_admin original))
                (HTTPException 404 (u ''task not found''))) (\<lambda>_.
         seq (need (tm_status original \<in> {Success, Failed}) (HTTPException 409 msg_only_finished_retry)) (\<lambda>_.
         seq (of_result rate) (\<lambda>_.
         seq (reads (\<lambda>w. retry_access_for_owner (wd_tokens w) (tm_owner original) access)) (\<lambda>access'.
         seq (of_result access') (\<lambda>retry_access.
         create_manual_retry_task env (images old) saved retry_access old original Unset))))))) ?Q ?E"
    if fd: "found = get_meta (en_backend env) store old" for found
  proof (cases found)
    case (Inl x)
    then show ?thesis by (auto intro!: triple_raise settledI)
  next
    case (Inr original)
    with fd b obtain row where row: "map_of store old = Some row" "tr_meta row = original"
      by (auto simp: get_meta_def locked_def split: sum.splits option.splits)
    have go: "triple (\<lambda>w. ?S w \<and> tm_status original \<in> {Success, Failed})
      (seq (of_result rate) (\<lambda>_.
         seq (reads (\<lambda>w. retry_access_for_owner (wd_tokens w) (tm_owner original) access)) (\<lambda>access'.
         seq (of_result access') (\<lambda>retry_access.
         create_manual_retry_task env (images old) saved retry_access old original Unset)))) ?Q ?E"
      by (rule triple_fact, rule triple_after [OF keeps_steps(4)], rule retry [OF row], assumption, erule settledI)
    show ?thesis unfolding Inr sum.case
      by (rule triple_after [OF keeps_steps(3)], rule triple_after [OF keeps_steps(3)],
          rule triple_seq [OF triple_need go], simp_all add: settledI)
  qed
  show ?thesis
    unfolding retry_completed_task_def
    by (rule triple_seq [OF triple_reads [where Q = "\<lambda>x w. ?S w \<and> x = get_meta (en_backend env) store old"]],
        simp add: at_start_def, rule triple_fact, erule found)
qed

definition retry_made :: "env \<Rightarrow> ustr \<Rightarrow> token_entry \<Rightarrow> world \<Rightarrow> world \<Rightarrow> ustr \<Rightarrow> ustr \<Rightarrow> bool" where
  "retry_made env h e w w' old t \<longleftrightarrow> map_of (wd_tasks w) t = None \<and>
     (\<exists>original row. map_of (wd_tasks w) old = Some original \<and> tm_status (tr_meta original) \<in> {Success, Failed} \<and>
        tm_status (tr_meta row) = Pending \<and>
        map_of (wd_tasks w') = (if tm_status (tr_meta original) = Failed
          then ((map_of (wd_tasks w))(t \<mapsto> row))(old := None) else (map_of (wd_tasks w))(t \<mapsto> row))) \<and>
     queued env t w' \<and>
     (\<exists>e'. map_of (wd_tokens w') h = Some e' \<and> entry_ok e' \<and> open_reservation e' t \<and> worth t e' = worth t e)"


text \<open>A failed task of the user of the other examples, retried by its owner.\<close>

definition failed_id :: ustr where
  "failed_id = u ''0000000000000000000000000000000f''"

definition failed_meta :: task_meta where
  "failed_meta = new_meta 3 (task_request_of \<lparr>targ_prompt = u ''a dog'', targ_ratio = [], targ_platform = u ''dola'',
     targ_model = u ''Seedance 2.0'', targ_task_type = u ''video'', targ_duration = 15, targ_batch_id = [], targ_batch_index = 0,
     targ_batch_row = 0\<rparr> failed_id (u ''dola'') [] [] []) (u ''tmp_x'') Failed"

definition failed_world :: world where
  "failed_world = example_world\<lparr>wd_tasks := [(failed_id, \<lparr>tr_meta = failed_meta, tr_result = []\<rparr>)]\<rparr>"

lemma failed_ready: "creation_ready example_env (u ''tmp_x'') example_token failed_world"
proof -
  have "is_task_id failed_id" by (simp add: is_task_id_def failed_id_def u_def is_hex_char_def)
  moreover have "task_id_of failed_meta = failed_id"
    by (simp add: task_id_of_def failed_meta_def new_meta_def task_request_of_def Let_def)
  ultimately show ?thesis
    using example_ready by (simp add: creation_ready_def failed_world_def store_ok_def)
qed


end
