(* ===== verification/Batch_Sched.thy ===== *)
theory Batch_Sched
  imports Task_Creation
begin

text \<open>
  The scheduler of the batch jobs: the coordinator of app/batch_jobs.py, which serves the owners in
  turn, and one tick of the loop of app/main.py, which takes one row of one owner and creates its task.
  What a tick does between two looks at the store is atomic here, but for the creation of the task
  (theory Task_Creation). Removing the images of a row or job that is done is file work and left out.
\<close>

section \<open>The coordinator\<close>

text \<open>
  \<open>co_owners\<close> and \<open>co_known\<close> are the list and the set on redis, \<open>co_cursor\<close> is what one process has
  without redis, \<open>co_lock\<close> the token of the scheduler's lease and the time it lapses.
\<close>

record coordinator =
  co_redis :: bool
  co_owners :: "ustr list"
  co_known :: "ustr list"
  co_cursor :: nat
  co_lock :: "(ustr \<times> int) option"

definition register_owner :: "ustr \<Rightarrow> coordinator \<Rightarrow> coordinator" where
  "register_owner owner co =
     (if owner = [] \<or> \<not> co_redis co \<or> owner \<in> set (co_known co) then co
      else co\<lparr>co_known := owner # co_known co, co_owners := co_owners co @ [owner]\<rparr>)"

text \<open>The loop over LMOVE from the left to the right end; an empty list yields the empty text.\<close>

fun rotate_owners :: "nat \<Rightarrow> ustr list \<Rightarrow> ustr list \<Rightarrow> ustr list \<times> ustr option" where
  "rotate_owners 0 eligible ring = (ring, None)"
| "rotate_owners (Suc n) eligible [] = (if [] \<in> set eligible then ([], Some []) else rotate_owners n eligible [])"
| "rotate_owners (Suc n) eligible (owner # ring) =
     (if owner \<in> set eligible then (ring @ [owner], Some owner) else rotate_owners n eligible (ring @ [owner]))"

definition normalized_owners :: "ustr list \<Rightarrow> ustr list" where
  "normalized_owners eligible = sort (remdups (filter (\<lambda>o'. o' \<noteq> []) eligible))"

definition next_owner :: "ustr list \<Rightarrow> coordinator \<Rightarrow> coordinator \<times> ustr" where
  "next_owner eligible co =
     (let normalized = normalized_owners eligible in
      if normalized = [] then (co, [])
      else if \<not> co_redis co
      then (co\<lparr>co_cursor := (co_cursor co + 1) mod max 1 (length normalized)\<rparr>,
            normalized ! (co_cursor co mod length normalized))
      else let co' = fold register_owner normalized co;
               attempts = max (length normalized) (length (co_owners co'))
           in case rotate_owners (max 1 attempts) eligible (co_owners co') of
                (ring, found) \<Rightarrow> (co'\<lparr>co_owners := ring\<rparr>, case found of None \<Rightarrow> hd normalized | Some o' \<Rightarrow> o'))"

text \<open>The lease: \<open>SET ... NX EX\<close>, and the deletion of the key only while it holds the same token. Without
  redis it is a lock of the process, which does not lapse.\<close>

definition lease_acquire :: "int \<Rightarrow> ustr \<Rightarrow> int \<Rightarrow> coordinator \<Rightarrow> coordinator \<times> bool" where
  "lease_acquire now token seconds co =
     (case co_lock co of
        Some (_, lapses) \<Rightarrow>
          if \<not> co_redis co \<or> now < lapses then (co, False)
          else (co\<lparr>co_lock := Some (token, now + secs (max 3 seconds))\<rparr>, True)
      | None \<Rightarrow> (co\<lparr>co_lock := Some (token, now + secs (max 3 seconds))\<rparr>, True))"

definition lease_release :: "int \<Rightarrow> ustr \<Rightarrow> coordinator \<Rightarrow> coordinator" where
  "lease_release now token co =
     (case co_lock co of
        None \<Rightarrow> co
      | Some (t, lapses) \<Rightarrow> if \<not> co_redis co \<or> t = token \<and> now < lapses then co\<lparr>co_lock := None\<rparr> else co)"

section \<open>Reconciling the jobs with their tasks\<close>

text \<open>\<open>_task_video_url\<close>: a video of the platform Doubao counts only when it is known to be unwatermarked.\<close>

definition UNWATERMARKED_SOURCES :: "ustr list" where
  "UNWATERMARKED_SOURCES = map u [''fallback_unwatermarked'', ''single_chain_explicit_unwatermarked'',
     ''network_explicit_unwatermarked'']"

definition task_video_url :: "task_meta \<Rightarrow> result_doc \<Rightarrow> ustr" where
  "task_video_url m d =
     (let url = strip (str_value d (u ''decoded_main_url''))
      in if url = [] \<or> lower (strip (str_or (rq_platform (tm_request m)) (u ''dola''))) \<noteq> u ''doubao'' then url
         else let source = lower (strip (str_or (str_value d (u ''doubao_result_source'')) (str_value d (u ''doubao_video_detection_source''))));
                  watermark = lower (strip (str_value d (u ''doubao_watermark_status'')))
              in if source \<in> set UNWATERMARKED_SOURCES \<and> watermark = u ''original'' then url else [])"

definition open_task_ids :: "batch_job \<Rightarrow> ustr list" where
  "open_task_ids job = map br_task_id (filter (\<lambda>r. br_task_id r \<noteq> [] \<and> \<not> is_terminal_row r) (bj_rows job))"

text \<open>\<open>task_states\<close> for the tasks of the jobs, as the payloads by task.\<close>

definition task_payloads :: "task_store \<Rightarrow> ustr list \<Rightarrow> (ustr, task_payload) table" where
  "task_payloads store ids =
     concat (map (\<lambda>t. case map_of store t of
         None \<Rightarrow> []
       | Some row \<Rightarrow> [(t, \<lparr>tp_status = tm_status (tr_meta row), tp_error = tm_error (tr_meta row),
            tp_video_url = task_video_url (tr_meta row) (tr_result row)\<rparr>)])
       (filter is_task_id (remdups ids)))"

definition needs_update :: "(ustr, task_payload) table \<Rightarrow> bool" where
  "needs_update payloads \<longleftrightarrow> (\<exists>(t, p) \<in> set payloads. tp_video_url p \<noteq> [] \<or> tp_status p \<in> {Failed, Canceled})"

definition reconcile_one :: "env \<Rightarrow> (ustr, task_payload) table \<Rightarrow> batch_job \<Rightarrow> (world, unit) action" where
  "reconcile_one env all_payloads job =
     (let payloads = filter (\<lambda>(t, _). t \<in> set (open_task_ids job)) all_payloads
      in if open_task_ids job = [] \<or> \<not> needs_update payloads then give ()
         else seq (on_jobs (\<lambda>jobs. reconcile_job (en_backend env) (en_now env) jobs (bj_id job) payloads)) (\<lambda>_. give ()))"

definition reconcile_batch_jobs :: "env \<Rightarrow> batch_job list \<Rightarrow> (world, unit) action" where
  "reconcile_batch_jobs env jobs =
     seq (reads (\<lambda>w. task_payloads (wd_tasks w) (concat (map open_task_ids jobs)))) (\<lambda>payloads.
     for_each (reconcile_one env payloads) jobs)"

section \<open>A tick of the scheduler\<close>

record sched =
  sd_world :: world
  sd_coord :: coordinator
  sd_recover_at :: int
  sd_reconcile_at :: int

definition on_world :: "(world, 'a) action \<Rightarrow> (sched, 'a) action" where
  "on_world m s = (case m (sd_world s) of (w, r) \<Rightarrow> (s\<lparr>sd_world := w\<rparr>, r))"

text \<open>The tasks that occupy the browsers. Listing the local files fails the tasks that have expired.\<close>

definition count_active_rows :: "env \<Rightarrow> (world, int) action" where
  "count_active_rows env =
     (case en_backend env of
        Postgres \<Rightarrow> reads (\<lambda>w. count_if (\<lambda>(_, row). tm_status (tr_meta row) \<in> {Pending, Running, Submitted}) (wd_tasks w))
      | LocalFile \<Rightarrow>
          seq (on_part (\<lambda>w. (wd_tasks w, wd_accounts w, wd_tokens w, wd_ledger w))
            (\<lambda>(t, a, k, l) w. w\<lparr>wd_tasks := t, wd_accounts := a, wd_tokens := k, wd_ledger := l\<rparr>)
            (list_tasks (world_services env) LocalFile (en_now env) (en_stamp env) None)) (\<lambda>items.
          give (count_if (\<lambda>(_, m). tm_status m \<in> {Pending, Running, Submitted}) items)))"

text \<open>How many tasks each owner with a waiting row asks for: the largest of its jobs' limits.\<close>

definition job_limit :: "batch_job \<Rightarrow> access_context \<Rightarrow> int" where
  "job_limit job access = min (max 1 (int_or (bj_concurrency job) 1)) (max 1 (int_or (ac_concurrency access) 1))"

fun owner_limits :: "token_table \<Rightarrow> user_table \<Rightarrow> batch_job list \<Rightarrow> (ustr, int) table \<Rightarrow> (ustr, int) table" where
  "owner_limits tokens users [] acc = acc"
| "owner_limits tokens users (job # jobs) acc =
     (if \<forall>r \<in> set (bj_rows job). br_status r \<noteq> RQueued then owner_limits tokens users jobs acc
      else case get_temp_context_by_hash tokens (bj_owner job) of
        None \<Rightarrow> owner_limits tokens users jobs acc
      | Some access \<Rightarrow>
          if \<not> user_token_is_enabled users (bj_owner job) then owner_limits tokens users jobs acc
          else owner_limits tokens users jobs
            (AList.update (bj_owner job) (max (dict_get acc (bj_owner job) 0) (job_limit job access)) acc))"

definition eligible_owners :: "env \<Rightarrow> int \<Rightarrow> batch_job list \<Rightarrow> world \<Rightarrow> ustr list" where
  "eligible_owners env capacity jobs w =
     map fst (filter (\<lambda>(owner, limit). active_task_count_for_owner (en_backend env) (wd_tasks w) owner < limit)
       (fair_owner_capacity_limits (owner_limits (wd_tokens w) (wd_users w) jobs []) capacity))"

text \<open>What a failure of the creation does to the row: its text, and whether the row is tried again.\<close>

definition after_failure :: "py_error \<Rightarrow> ustr \<times> bool" where
  "after_failure e = (case e of
     QuotaExceeded detail \<Rightarrow> (detail, False)
   | ValueError detail \<Rightarrow> (detail, False)
   | HTTPException code detail \<Rightarrow> (detail, 500 \<le> code)
   | _ \<Rightarrow> (msg_create_busy, True))"

definition serve_claim :: "env \<Rightarrow> (row_claim \<Rightarrow> batch_files) \<Rightarrow> row_claim \<Rightarrow> (world, unit) action" where
  "serve_claim env files cl =
     (let job_id = bj_id (rc_job cl); row_index = br_index (rc_row cl) in
      catch
        (seq (create_scheduled_batch_task env (files cl) cl) (\<lambda>task_id.
         on_jobs (\<lambda>jobs. no_value (finish_row_creation (en_backend env) (en_now env) jobs job_id row_index task_id))))
        (\<lambda>e. case after_failure e of (detail, retry) \<Rightarrow>
         on_jobs (\<lambda>jobs. no_value (fail_or_requeue_row (en_backend env) (en_now env) jobs job_id row_index detail retry))))"

definition serve_owner :: "env \<Rightarrow> (row_claim \<Rightarrow> batch_files) \<Rightarrow> ustr \<Rightarrow> (world, bool) action" where
  "serve_owner env files owner =
     seq (on_jobs (\<lambda>jobs. claim_next_row (en_backend env) (en_now env) jobs owner)) (\<lambda>claimed.
     case claimed of
       None \<Rightarrow> give False
     | Some cl \<Rightarrow> if rc_awaiting_assets cl then give True else seq (serve_claim env files cl) (\<lambda>_. give True))"

definition active_jobs :: "world \<Rightarrow> batch_job list" where
  "active_jobs w = list_jobs (wd_jobs w) None True 1000"

text \<open>The last part of a tick, once the jobs are up to date.\<close>

definition schedule_rows ::
    "env \<Rightarrow> (row_claim \<Rightarrow> batch_files) \<Rightarrow> int \<Rightarrow> batch_job list \<Rightarrow> (sched, bool) action" where
  "schedule_rows env files capacity jobs =
     seq (on_world (count_active_rows env)) (\<lambda>active.
     if capacity \<le> active then give False
     else seq (reads (\<lambda>s. eligible_owners env capacity jobs (sd_world s))) (\<lambda>eligible.
     seq (on_part sd_coord (\<lambda>co s. s\<lparr>sd_coord := co\<rparr>) (\<lambda>co. Inr (next_owner eligible co))) (\<lambda>owner.
     if owner = [] then give False else on_world (serve_owner env files owner))))"

definition batch_scheduler_tick ::
    "env \<Rightarrow> (row_claim \<Rightarrow> batch_files) \<Rightarrow> int \<Rightarrow> int \<Rightarrow> bool \<Rightarrow> (sched, bool) action" where
  "batch_scheduler_tick env files capacity clock acquired =
     (if \<not> acquired then give False
      else seq (reads (\<lambda>s. sd_recover_at s \<le> clock)) (\<lambda>due.
      seq (if due
           then seq (on_world (on_jobs (recover_stale_creating_rows (en_backend env) (en_now env) 60))) (\<lambda>_.
             changes (\<lambda>s. s\<lparr>sd_recover_at := clock + secs 30\<rparr>))
           else give ()) (\<lambda>_.
      seq (reads (\<lambda>s. active_jobs (sd_world s))) (\<lambda>jobs.
      if jobs = [] then give False
      else seq (reads (\<lambda>s. sd_reconcile_at s \<le> clock)) (\<lambda>due.
      seq (if due
           then seq (on_world (reconcile_batch_jobs env jobs)) (\<lambda>_.
             seq (changes (\<lambda>s. s\<lparr>sd_reconcile_at := clock + secs 1\<rparr>)) (\<lambda>_.
             reads (\<lambda>s. active_jobs (sd_world s))))
           else give jobs) (\<lambda>jobs.
      schedule_rows env files capacity jobs))))))"

end
