(* ===== verification/Sched_Props.thy ===== *)
theory Sched_Props
  imports Batch_Sched Creation_Props Batch_Props
begin

text \<open>
  The scheduler of the batch jobs: with redis every owner that stays eligible gets its turn within one
  round of the ring, and a tick starts a row only for an owner below its share, charging it all or
  nothing and recording the outcome on that row.
\<close>

section \<open>Turns\<close>

text \<open>The owners picked in a sequence of ticks, each with the owners eligible then.\<close>

fun turns :: "ustr list list \<Rightarrow> coordinator \<Rightarrow> ustr list" where
  "turns [] co = []"
| "turns (e # es) co = (case next_owner e co of (co', owner) \<Rightarrow> owner # turns es co')"

lemma turns_step: "turns (e # es) co = snd (next_owner e co) # turns es (fst (next_owner e co))"
  by (simp add: case_prod_beta)

declare turns.simps(2) [simp del] turns_step [simp]

definition ring_ok :: "coordinator \<Rightarrow> bool" where
  "ring_ok co \<longleftrightarrow> co_redis co \<and> distinct (co_owners co) \<and> set (co_known co) = set (co_owners co)"

lemma rotate_to:
  "x \<in> set el \<Longrightarrow> set pre \<inter> set el = {} \<Longrightarrow> length pre < n \<Longrightarrow>
   rotate_owners n el (pre @ x # post) = (post @ pre @ [x], Some x)"
proof (induction pre arbitrary: n post)
  case Nil
  then show ?case by (cases n) simp_all
next
  case (Cons y pre)
  then obtain m where n: "n = Suc m" "length pre < m" by (cases n) auto
  from Cons.IH [OF Cons.prems(1) _ n(2), of "post @ [y]"] Cons.prems n(1) show ?case by simp
qed

lemma register_ring: "ring_ok co \<Longrightarrow> ring_ok (register_owner x co)"
  by (auto simp: ring_ok_def register_owner_def)

lemma register_appends:
  obtains new where "co_owners (register_owner x co) = co_owners co @ new" "set new \<subseteq> {x}"
proof (cases "x = [] \<or> \<not> co_redis co \<or> x \<in> set (co_known co)")
  case True
  then show ?thesis by (intro that [of "[]"]) (simp_all add: register_owner_def)
next
  case False
  then show ?thesis by (intro that [of "[x]"]) (simp_all add: register_owner_def)
qed

lemma register_in: "ring_ok co \<Longrightarrow> x \<noteq> [] \<Longrightarrow> x \<in> set (co_owners (register_owner x co))"
  by (auto simp: ring_ok_def register_owner_def)

lemma register_all_ring: "ring_ok co \<Longrightarrow> ring_ok (fold register_owner xs co)"
  by (induction xs arbitrary: co) (simp_all add: register_ring)

lemma register_all_appends:
  "\<exists>new. co_owners (fold register_owner xs co) = co_owners co @ new \<and> set new \<subseteq> set xs"
proof (induction xs arbitrary: co)
  case (Cons x xs)
  obtain new where new: "co_owners (register_owner x co) = co_owners co @ new" "set new \<subseteq> {x}"
    by (rule register_appends)
  obtain new' where new': "co_owners (fold register_owner xs (register_owner x co)) = co_owners (register_owner x co) @ new'"
    "set new' \<subseteq> set xs" using Cons.IH by blast
  from new new' show ?case by (intro exI [of _ "new @ new'"]) auto
qed simp

lemma register_all_in: "ring_ok co \<Longrightarrow> y \<in> set xs \<Longrightarrow> y \<noteq> [] \<Longrightarrow> y \<in> set (co_owners (fold register_owner xs co))"
proof (induction xs arbitrary: co)
  case (Cons x xs)
  show ?case
  proof (cases "y \<in> set xs")
    case True
    with Cons.IH [OF register_ring [OF Cons.prems(1)]] Cons.prems(3) show ?thesis by simp
  next
    case False
    with Cons.prems have "y \<in> set (co_owners (register_owner x co))" by (simp add: register_in)
    then show ?thesis using register_all_appends [of xs "register_owner x co"] by auto
  qed
qed simp

lemma normalized_set: "set (normalized_owners el) = set el - {[]}"
  by (auto simp: normalized_owners_def)

text \<open>One turn moves the owners before the one picked, and that one, to the end of the ring.\<close>

lemma next_owner_ring:
  assumes "ring_ok co" "o' \<in> set el" "o' \<noteq> []" "[] \<notin> set el"
  obtains pre x mid new where
    "fst (next_owner el co) = (fold register_owner (normalized_owners el) co)\<lparr>co_owners := mid @ pre @ [x]\<rparr>"
    "co_owners (fold register_owner (normalized_owners el) co) = pre @ x # mid"
    "pre @ x # mid = co_owners co @ new" "set new \<subseteq> set el"
    "snd (next_owner el co) = x" "x \<in> set el" "set pre \<inter> set el = {}" "ring_ok (fst (next_owner el co))"
proof -
  let ?co = "fold register_owner (normalized_owners el) co"
  have r: "ring_ok ?co" "\<forall>x \<in> set (normalized_owners el). x \<noteq> [] \<longrightarrow> x \<in> set (co_owners ?co)"
    using register_all_ring [OF assms(1)] register_all_in [OF assms(1)] by blast+
  obtain new where new: "co_owners ?co = co_owners co @ new" "set new \<subseteq> set (normalized_owners el)"
    using register_all_appends by blast
  have "o' \<in> set (normalized_owners el)" using assms(2,3) by (simp add: normalized_set)
  with r(2) assms(3) have "o' \<in> set (co_owners ?co)" by blast
  with assms(2) have "\<exists>x \<in> set (co_owners ?co). x \<in> set el" by blast
  then obtain pre x mid where sp: "co_owners ?co = pre @ x # mid" "x \<in> set el" "\<forall>y \<in> set pre. y \<notin> set el"
    using split_list_first_prop [of "co_owners ?co" "\<lambda>x. x \<in> set el"] by blast
  then have dis: "set pre \<inter> set el = {}" by blast
  let ?n = "max 1 (max (length (normalized_owners el)) (length (co_owners ?co)))"
  have "length pre < ?n" using sp(1) by simp
  from rotate_to [OF sp(2) dis this, of mid]
  have rot: "rotate_owners ?n el (co_owners ?co) = (mid @ pre @ [x], Some x)" by (simp add: sp(1))
  have ne: "normalized_owners el \<noteq> []" using \<open>o' \<in> set (normalized_owners el)\<close> by auto
  have rd: "co_redis co" using assms(1) by (simp add: ring_ok_def)
  have nx: "next_owner el co = (?co\<lparr>co_owners := mid @ pre @ [x]\<rparr>, x)"
    using rot ne rd by (simp add: next_owner_def Let_def)
  have ok': "ring_ok (?co\<lparr>co_owners := mid @ pre @ [x]\<rparr>)"
    using r(1) sp(1) by (auto simp: ring_ok_def)
  show thesis
    by (rule that [of mid pre x new]) (use nx sp dis r new ok' in \<open>auto simp: normalized_set\<close>)
qed

lemma turn_comes:
  assumes "ring_ok co" "\<forall>e \<in> set es. o' \<in> set e \<and> [] \<notin> set e" "o' \<noteq> []"
    and "co_owners co = before @ o' # rest" "length before < length es"
  shows "o' \<in> set (turns es co)"
  using assms
proof (induction es arbitrary: co before rest)
  case (Cons e es)
  from Cons.prems(2) have e: "o' \<in> set e" "[] \<notin> set e" by simp_all
  from next_owner_ring [OF Cons.prems(1) e(1) Cons.prems(3) e(2)] obtain pre x mid new where
    nx: "fst (next_owner e co) = (fold register_owner (normalized_owners e) co)\<lparr>co_owners := mid @ pre @ [x]\<rparr>"
      "pre @ x # mid = co_owners co @ new" "snd (next_owner e co) = x" "x \<in> set e" "set pre \<inter> set e = {}"
      "ring_ok (fst (next_owner e co))" by metis
  show ?case
  proof (cases "x = o'")
    case True
    with nx(3) show ?thesis by simp
  next
    case False
    have eq: "pre @ x # mid = before @ o' # rest @ new" using nx(2) Cons.prems(4) by simp
    have "o' \<notin> set pre" using nx(5) e(1) by blast
    then obtain b where b: "before = pre @ x # b" "mid = b @ o' # rest @ new"
      using eq False by (auto simp: append_eq_append_conv2 append_eq_Cons_conv Cons_eq_append_conv)
    have own: "co_owners (fst (next_owner e co)) = b @ o' # (rest @ new @ pre @ [x])"
      by (simp add: nx(1) b(2))
    have "length b < length es" using Cons.prems(5) b(1) by simp
    from Cons.IH [OF nx(6) _ Cons.prems(3) own this] Cons.prems(2)
    have "o' \<in> set (turns es (fst (next_owner e co)))" by simp
    then show ?thesis by simp
  qed
qed simp

lemma register_known: "ring_ok co \<Longrightarrow> set xs \<subseteq> set (co_owners co) \<Longrightarrow> fold register_owner xs co = co"
  by (induction xs) (simp_all add: register_owner_def ring_ok_def)

lemma register_first:
  assumes "ring_ok co"
  shows "next_owner el (fold register_owner (normalized_owners el) co) = next_owner el co"
proof -
  have rd: "co_redis co" using assms by (simp add: ring_ok_def)
  have ok: "ring_ok (fold register_owner (normalized_owners el) co)" by (rule register_all_ring [OF assms])
  then have rd': "co_redis (fold register_owner (normalized_owners el) co)" by (simp add: ring_ok_def)
  have "fold register_owner (normalized_owners el) (fold register_owner (normalized_owners el) co) =
      fold register_owner (normalized_owners el) co"
    by (rule register_known [OF ok]) (use register_all_in [OF assms, of _ "normalized_owners el"] in \<open>fastforce simp: normalized_set\<close>)
  moreover have "fold register_owner (normalized_owners el) co = co" if "normalized_owners el = []" using that by simp
  ultimately show ?thesis using rd rd' by (simp add: next_owner_def Let_def)
qed

lemma turns_eligible:
  assumes "ring_ok co" "\<forall>e \<in> set es. o' \<in> set e \<and> [] \<notin> set e" "o' \<noteq> []" "i < length es"
  shows "turns es co ! i \<in> set (es ! i)"
  using assms
proof (induction es arbitrary: co i)
  case (Cons e es)
  from Cons.prems(2) have e: "o' \<in> set e" "[] \<notin> set e" by simp_all
  from next_owner_ring [OF Cons.prems(1) e(1) Cons.prems(3) e(2)]
  have nx: "snd (next_owner e co) \<in> set e" "ring_ok (fst (next_owner e co))" by metis+
  show ?case
  proof (cases i)
    case (Suc n)
    with Cons.IH [OF nx(2) _ Cons.prems(3), of n] Cons.prems(2,4) show ?thesis by simp
  qed (use nx(1) in simp)
qed simp

text \<open>C5: with redis the batch scheduler starves nobody. Each tick picks an owner that is eligible then,
  and an owner that stays eligible is picked within one round: within as many ticks as there are owners in
  the ring or eligible at the first of them, however the eligibility of the others changes meanwhile.\<close>

theorem owners_take_turns:
  assumes "ring_ok co" "\<forall>e \<in> set es. o' \<in> set e \<and> [] \<notin> set e" "o' \<noteq> []"
    and "es \<noteq> []" "card (set (co_owners co) \<union> set (hd es)) \<le> length es"
  shows "o' \<in> set (turns es co) \<and> (\<forall>i < length es. turns es co ! i \<in> set (es ! i))"
proof
  obtain e es' where es: "es = e # es'" using assms(4) by (cases es) auto
  let ?co = "fold register_owner (normalized_owners e) co"
  have ok: "ring_ok ?co" by (rule register_all_ring [OF assms(1)])
  have "o' \<in> set (normalized_owners e)" using assms(2,3) es by (simp add: normalized_set)
  with register_all_in [OF assms(1) this assms(3)] obtain before rest where sp: "co_owners ?co = before @ o' # rest"
    by (auto dest: split_list)
  obtain new where new: "co_owners ?co = co_owners co @ new" "set new \<subseteq> set (normalized_owners e)"
    using register_all_appends by blast
  have "length (co_owners ?co) = card (set (co_owners ?co))"
    using ok by (simp add: ring_ok_def distinct_card)
  also have "\<dots> \<le> card (set (co_owners co) \<union> set e)"
    by (rule card_mono) (use new in \<open>auto simp: normalized_set\<close>)
  finally have "length before < length es" using assms(5) es sp by simp
  from turn_comes [OF ok assms(2,3) sp this] have "o' \<in> set (turns es ?co)" .
  with register_first [OF assms(1), of e] show "o' \<in> set (turns es co)" by (simp add: es)
qed (use turns_eligible [OF assms(1-3)] in blast)

theorem owners_take_turns_witness:
  "u ''b'' \<in> set (turns [[u ''a'', u ''b''], [u ''c'', u ''b''], [u ''a'', u ''b'']]
     \<lparr>co_redis = True, co_owners = [u ''a''], co_known = [u ''a''], co_cursor = 0, co_lock = None\<rparr>) \<and>
   ring_ok \<lparr>co_redis = True, co_owners = [u ''a''], co_known = [u ''a''], co_cursor = 0, co_lock = None\<rparr>"
proof -
  let ?co = "\<lparr>co_redis = True, co_owners = [u ''a''], co_known = [u ''a''], co_cursor = 0, co_lock = None\<rparr>"
  have ok: "ring_ok ?co" by (simp add: ring_ok_def)
  have "card (set (co_owners ?co) \<union> {u ''a'', u ''b''}) \<le> card {u ''a'', u ''b''}"
    by (rule card_mono) auto
  also have "\<dots> \<le> 2" by (simp add: card_insert_if)
  finally have "card (set (co_owners ?co) \<union> {u ''a'', u ''b''}) \<le> 3" by simp
  with owners_take_turns [OF ok, of "[[u ''a'', u ''b''], [u ''c'', u ''b''], [u ''a'', u ''b'']]" "u ''b''"] ok
  show ?thesis by (simp add: u_def)
qed

text \<open>Without redis the position of the cursor is taken modulo the owners eligible at the moment. An
  owner can stay eligible for ever and never be picked.\<close>

theorem local_cursor_starves:
  assumes "\<not> co_redis co" "co_cursor co = 0"
  shows "u ''b'' \<notin> set (turns (concat (replicate n [[u ''a'', u ''b''], [u ''b'', u ''c'']])) co)"
  using assms
proof (induction n arbitrary: co)
  case (Suc n)
  have order: "normalized_owners [u ''a'', u ''b''] = [u ''a'', u ''b'']" "normalized_owners [u ''b'', u ''c''] = [u ''b'', u ''c'']"
    by code_simp+
  have "next_owner [u ''a'', u ''b''] co = (co\<lparr>co_cursor := 1\<rparr>, u ''a'')"
    using Suc.prems by (simp add: next_owner_def order)
  moreover have "next_owner [u ''b'', u ''c''] (co\<lparr>co_cursor := 1\<rparr>) = (co\<lparr>co_cursor := 0\<rparr>, u ''c'')"
    using Suc.prems by (simp add: next_owner_def order)
  moreover have "u ''b'' \<notin> set (turns (concat (replicate n [[u ''a'', u ''b''], [u ''b'', u ''c'']])) (co\<lparr>co_cursor := 0\<rparr>))"
    by (rule Suc.IH) (use Suc.prems in simp_all)
  ultimately show ?case by (simp add: u_def)
qed simp

section \<open>The outcome of a row\<close>

lemma mutate_job_total:
  assumes "map_of jobs k = Some j" "f j = Inr p"
  shows "\<exists>q. mutate_job b now jobs k f = Inr q"
proof -
  obtain job r where p: "revise now f j = Inr (job, r)" using assms(2) by (cases p) (simp add: revise_def)
  let ?g = "\<lambda>before. map_sum id (\<lambda>(job, r). (job, (job, r), job \<noteq> before)) (revise now f before)"
  have "?g j = Inr (job, (job, r), job \<noteq> j)" by (simp add: p)
  from any_rows.run_ok [where f = ?g, OF assms(1) this, where e = KeyError and b = b] show ?thesis
    by (auto simp: mutate_job_def)
qed

lemma claim_mut_total: "\<exists>p. claim_mut now j = Inr p"
  by (simp add: claim_mut_def Let_def split: option.split)

lemma claim_loop_total:
  assumes "jobs_ok jobs" "\<forall>j \<in> set js. map_of jobs (bj_id j) = Some j \<and> bj_status j \<in> {JQueued, JRunning}"
  shows "\<exists>p. batch_claim_loop b now js jobs = Inr p"
  using assms
proof (induction js arbitrary: jobs)
  case (Cons j js)
  have j: "map_of jobs (bj_id j) = Some j" "bj_status j \<in> {JQueued, JRunning}" using Cons.prems(2) by simp_all
  obtain p where "claim_mut now j = Inr p" using claim_mut_total by blast
  from mutate_job_total [where f = "claim_mut now", OF j(1) this] obtain jobs1 k q
    where run: "mutate_job b now jobs (bj_id j) (claim_mut now) = Inr (jobs1, k, q)" by (metis prod_cases3)
  show ?case
  proof (cases q)
    case None
    obtain j0 where j0: "map_of jobs (bj_id j) = Some j0" "revise now (claim_mut now) j0 = Inr (k, q)"
      "map_of jobs1 = (map_of jobs)(bj_id j \<mapsto> k)" "jobs_ok jobs1" "revised j0 k"
      by (rule claim_row.mutate_job_Inr [OF Cons.prems(1) run])
    with j have eq: "j0 = j" by simp
    obtain m where m: "claim_mut now j = Inr (m, q)" "k = bump now j m"
      by (rule revise_InrE [OF j0(2) [unfolded eq]])
    from claim_none [OF m(1) [unfolded None] j(2)] have "m = j" by simp
    with claim_row.revise_unchanged [OF jobs_okD(1) [OF Cons.prems(1) j(1)] m(1) [unfolded this]] j0(2) eq
    have "k = j" by simp
    with j0 eq have same: "map_of jobs1 = map_of jobs" by (simp add: fun_upd_idem)
    from Cons.IH [OF j0(4)] Cons.prems(2) same run None show ?thesis by simp
  qed (use run in simp)
qed simp

lemma claimed_row:
  assumes "jobs_ok jobs" "claim_next_row b now jobs owner = Inr (jobs1, Some c)"
  obtains k r where "map_of jobs1 (bj_id (rc_job c)) = Some k" "r \<in> set (bj_rows k)" "br_index r = br_index (rc_row c)"
    "bj_owner (rc_job c) = owner"
proof -
  have cs: "\<forall>j \<in> set (candidates jobs owner). map_of jobs (bj_id j) = Some j \<and> bj_status j \<in> {JQueued, JRunning}"
    using candidate_in(1,3) [OF _ assms(1)] by blast
  from batch_claim_loop_correct [OF assms(1) assms(2) [unfolded claim_next_row_def, folded candidates_def] cs, unfolded option.case(2)]
  obtain pre j post k where j: "candidates jobs owner = pre @ j # post" "claim_mut now j = Inr (rc_job c, Some c)"
    "revise now (claim_mut now) j = Inr (k, Some c)" "map_of jobs1 = (map_of jobs)(bj_id j \<mapsto> k)" by blast
  have jin: "j \<in> set (candidates jobs owner)" using j(1) by simp
  have same: "bj_id (rc_job c) = bj_id j" "bj_owner (rc_job c) = owner"
    using claim_row.keeps_job [OF j(2)] candidate_in(2) [OF jin assms(1)] by (simp_all add: job_stamp_def)
  from batch_claim_some [OF j(2)] have "rc_row c \<in> set (bj_rows (rc_job c))" by auto
  then have "br_index (rc_row c) \<in> set (map br_index (bj_rows (rc_job c)))" by simp
  then have idx: "br_index (rc_row c) \<in> set (map br_index (bj_rows j))"
    using row_stamp_indexes [OF claim_row.keeps_rows [OF j(2)]] by simp
  have "revised j k"
    by (rule claim_row.revise_revised [OF jobs_okD(1) [OF assms(1) candidate_in(1) [OF jin assms(1)]] j(3)])
  then have "list_all2 (\<lambda>x x'. br_index x' = br_index x) (bj_rows j) (bj_rows k)"
    unfolding revised_def by (elim conjE) (erule list_all2_mono, simp)
  then have "map br_index (bj_rows k) = map br_index (bj_rows j)"
    by (induction rule: list_all2_induct) simp_all
  with idx have "br_index (rc_row c) \<in> set (map br_index (bj_rows k))" by simp
  then obtain r where "r \<in> set (bj_rows k)" "br_index r = br_index (rc_row c)" by auto
  with that [of k r] j(4) same show thesis by simp
qed

lemma outcome_total:
  assumes "map_of jobs job_id = Some k" "r \<in> set (bj_rows k)" "br_index r = i"
  shows "\<exists>jobs'. finish_row_creation b now jobs job_id i task_id = Inr jobs'"
    "\<exists>jobs'. fail_or_requeue_row b now jobs job_id i error retry = Inr jobs'"
proof -
  from assms(2,3) obtain x where x: "find (\<lambda>r. br_index r = i) (bj_rows k) = Some x"
    by (cases "find (\<lambda>r. br_index r = i) (bj_rows k)") (auto simp: find_None_iff)
  have "\<exists>p. finish_creation_mut now i task_id k = Inr p" "\<exists>q. fail_mut now i error retry k = Inr q"
    by (simp_all add: finish_creation_mut_def fail_mut_def x)
  then obtain p q where pq: "finish_creation_mut now i task_id k = Inr p" "fail_mut now i error retry k = Inr q" by blast
  from mutate_job_total [where f = "finish_creation_mut now i task_id", OF assms(1) pq(1)]
    mutate_job_total [where f = "fail_mut now i error retry", OF assms(1) pq(2)] show
    "\<exists>jobs'. finish_row_creation b now jobs job_id i task_id = Inr jobs'"
    "\<exists>jobs'. fail_or_requeue_row b now jobs job_id i error retry = Inr jobs'"
    unfolding finish_row_creation_def fail_or_requeue_row_def by (metis map_sum.simps(2))+
qed

text \<open>Nothing else works on the jobs while a task is created.\<close>

definition undisturbed :: "env \<Rightarrow> bool" where
  "undisturbed env \<longleftrightarrow> (\<forall>n p. en_others env n p = p)"

lemma creation_keeps_jobs:
  assumes "undisturbed env"
  shows "keeps (\<lambda>w. wd_jobs w = J) (create_scheduled_batch_task env files cl)"
proof -
  let ?I = "\<lambda>w. wd_jobs w = J"
  have m: "keeps ?I (meanwhile env n)" for n
    unfolding meanwhile_def by (rule keeps_changes) (use assms in \<open>auto simp: undisturbed_def split: prod.split\<close>)
  have active: "keeps ?I (require_job_active env n i h)" for n i h
    unfolding require_job_active_def by (intro keeping m)
  have tasks: "keeps ?I (on_tasks f)" for f :: "task_store \<Rightarrow> (task_store \<times> 'a) result"
    unfolding on_tasks_def by (rule keeps_on_part) simp
  have undo: "keeps ?I (undo env h t)" for h t
    unfolding undo_def remove_def refund_task_def by (intro keeping keeps_on_part tasks) auto
  have plan: "keeps ?I (plan_batch_task env files cl)"
    unfolding plan_batch_task_def Let_def sync_membership_def by (intro keeping active keeps_on_part) auto
  have price: "keeps ?I (price_task env a p d n)" for a p d n
    unfolding price_task_def by (intro keeping keeps_on_part) auto
  have entry: "keeps ?I (record_consumption env (require_job_active env n i h) a us ctx t d tx)" for n i h a us ctx t d tx
    unfolding record_consumption_def on_ledger_def by (intro keeping active keeps_on_part) auto
  have charge: "keeps ?I (charge_batch_task env job p mc)" for job p mc
    unfolding charge_batch_task_def charge_task_def reserve_def on_tokens_def
    by (intro keeping price entry undo keeps_on_part) auto
  have finish: "keeps ?I (finish_batch_task env files job p t)" for job p t
    unfolding finish_batch_task_def store_images_def change_meta_def finalize_def
    by (intro keeping active undo tasks keeps_on_part) auto
  show ?thesis
    unfolding create_scheduled_batch_task_def Let_def admit_def find_or_create_def
    by (intro keeping plan charge finish keeps_on_part) auto
qed

section \<open>Who may be served\<close>

lemma fair_pass_keys:
  "fair_pass requested os limits n g = (limits', n', g') \<Longrightarrow> fst ` set limits' \<subseteq> fst ` set limits \<union> set os"
proof (induction os arbitrary: limits n g)
  case (Cons x os)
  have "fst ` set (AList.update x (the (map_of limits x) + 1) limits) \<subseteq> insert x (fst ` set limits)"
    using dom_update [of x "the (map_of limits x) + 1" limits] by (auto simp: dom_map_of_conv_image_fst)
  with Cons.prems Cons.IH [of limits n g] Cons.IH [of "AList.update x (the (map_of limits x) + 1) limits" "n - 1" True]
  show ?case by (auto simp: Let_def split: if_splits)
qed simp

lemma fair_loop_keys: "fst ` set (fair_loop requested os limits n) \<subseteq> fst ` set limits \<union> set os"
proof (induction requested os limits n rule: fair_loop.induct)
  case (1 requested os limits n)
  show ?case
  proof (cases "n \<le> 0")
    case True
    then show ?thesis by (simp add: fair_loop.simps [of requested os limits n])
  next
    case False
    obtain limits' n' g where pass: "fair_pass requested os limits n False = (limits', n', g)"
      by (cases "fair_pass requested os limits n False")
    have "fst ` set limits' \<subseteq> fst ` set limits \<union> set os" by (rule fair_pass_keys [OF pass])
    moreover have "fst ` set (fair_loop requested os limits' n') \<subseteq> fst ` set limits' \<union> set os" if g
      using 1(1) [OF False pass [symmetric] refl that] by simp
    ultimately show ?thesis
      using False pass by (auto simp: fair_loop.simps [of requested os limits n])
  qed
qed

lemma fair_limits_keys: "fst ` set (fair_owner_capacity_limits limits capacity) \<subseteq> fst ` set limits - {[]}"
proof -
  let ?req = "map (\<lambda>(o', l). (o', max 1 l)) (filter (\<lambda>(o', _). o' \<noteq> []) limits)"
  have keys: "fst ` set ?req \<subseteq> fst ` set limits - {[]}" by force
  show ?thesis
  proof (cases "?req = []")
    case True
    then show ?thesis by (simp only: fair_owner_capacity_limits_def Let_def if_True) simp
  next
    case False
    have "fst ` set (fair_owner_capacity_limits limits capacity) \<subseteq> fst ` set ?req"
      unfolding fair_owner_capacity_limits_def Let_def if_not_P [OF False]
      by (rule order_trans [OF fair_loop_keys]) (simp add: image_image)
    with keys show ?thesis by blast
  qed
qed

lemma owner_limits_keys:
  "h \<in> fst ` set (owner_limits tokens users jobs acc) \<Longrightarrow>
     h \<in> fst ` set acc \<or> (\<exists>j \<in> set jobs. bj_owner j = h \<and> get_temp_context_by_hash tokens h \<noteq> None)"
proof (induction jobs arbitrary: acc)
  case (Cons j jobs)
  have upd: "fst ` set (AList.update (bj_owner j) x acc) \<subseteq> insert (bj_owner j) (fst ` set acc)" for x
    using dom_update [of "bj_owner j" x acc] by (auto simp: dom_map_of_conv_image_fst)
  have weak: "h \<in> fst ` set acc \<or> (\<exists>j \<in> set (j # jobs). bj_owner j = h \<and> get_temp_context_by_hash tokens h \<noteq> None)"
    if "h \<in> fst ` set (owner_limits tokens users jobs acc)"
    using Cons.IH [OF that] by auto
  show ?case
  proof (cases "(\<forall>r \<in> set (bj_rows j). br_status r \<noteq> RQueued) \<or> get_temp_context_by_hash tokens (bj_owner j) = None \<or>
      \<not> user_token_is_enabled users (bj_owner j)")
    case True
    then have "owner_limits tokens users (j # jobs) acc = owner_limits tokens users jobs acc"
      by (auto split: option.split)
    with Cons.prems weak show ?thesis by simp
  next
    case False
    then obtain access where a: "get_temp_context_by_hash tokens (bj_owner j) = Some access" by auto
    let ?acc = "AList.update (bj_owner j) (max (dict_get acc (bj_owner j) 0) (job_limit j access)) acc"
    have "owner_limits tokens users (j # jobs) acc = owner_limits tokens users jobs ?acc"
      using False a by auto
    with Cons.prems Cons.IH have "h \<in> fst ` set ?acc \<or> (\<exists>j \<in> set jobs. bj_owner j = h \<and> get_temp_context_by_hash tokens h \<noteq> None)"
      by simp
    with upd [of "max (dict_get acc (bj_owner j) 0) (job_limit j access)"] a show ?thesis by auto
  qed
qed simp

lemma eligible_owner:
  assumes "h \<in> set (eligible_owners env capacity jobs w)"
  obtains limit j where "(h, limit) \<in> set (fair_owner_capacity_limits (owner_limits (wd_tokens w) (wd_users w) jobs []) capacity)"
    "active_task_count_for_owner (en_backend env) (wd_tasks w) h < limit" "h \<noteq> []" "j \<in> set jobs" "bj_owner j = h"
    "get_temp_context_by_hash (wd_tokens w) h \<noteq> None"
proof -
  from assms obtain limit where l: "(h, limit) \<in> set (fair_owner_capacity_limits (owner_limits (wd_tokens w) (wd_users w) jobs []) capacity)"
    "active_task_count_for_owner (en_backend env) (wd_tasks w) h < limit"
    by (auto simp: eligible_owners_def)
  from l(1) have "h \<in> fst ` set (fair_owner_capacity_limits (owner_limits (wd_tokens w) (wd_users w) jobs []) capacity)" by force
  with fair_limits_keys have "h \<in> fst ` set (owner_limits (wd_tokens w) (wd_users w) jobs [])" "h \<noteq> []" by blast+
  with owner_limits_keys [OF this(1)] that l show thesis by auto
qed

lemma rotate_in: "rotate_owners n el ring = (ring', Some x) \<Longrightarrow> x \<in> set el"
  by (induction n el ring rule: rotate_owners.induct) (auto split: if_splits)

lemma next_owner_in: "snd (next_owner el co) = [] \<or> snd (next_owner el co) \<in> set el"
proof (cases "normalized_owners el = []")
  case True
  then show ?thesis by (simp add: next_owner_def)
next
  case False
  have norm: "x \<in> set (normalized_owners el) \<Longrightarrow> x \<in> set el" for x by (simp add: normalized_set)
  show ?thesis
  proof (cases "co_redis co")
    case True
    obtain ring found where rot: "rotate_owners (max 1 (max (length (normalized_owners el)) (length (co_owners
        (fold register_owner (normalized_owners el) co))))) el (co_owners (fold register_owner (normalized_owners el) co)) = (ring, found)"
      by (metis surj_pair)
    then have "snd (next_owner el co) = (case found of None \<Rightarrow> hd (normalized_owners el) | Some x \<Rightarrow> x)"
      using True False by (simp add: next_owner_def Let_def)
    then show ?thesis using rotate_in rot norm [OF hd_in_set [OF False]] by (cases found) auto
  next
    case no: False
    have "co_cursor co mod length (normalized_owners el) < length (normalized_owners el)" using False by simp
    from norm [OF nth_mem [OF this]] show ?thesis using no False by (simp add: next_owner_def Let_def)
  qed
qed

section \<open>A tick\<close>

lemma puts_jobs [simp]:
  "creation_ready env h e (w\<lparr>wd_jobs := js\<rparr>) = creation_ready env h e w"
  "nothing_left h e (w\<lparr>wd_jobs := js\<rparr>) w' = nothing_left h e w w'"
  "nothing_left h e w (w'\<lparr>wd_jobs := js\<rparr>) = nothing_left h e w w'"
  "task_made env h e (w\<lparr>wd_jobs := js\<rparr>) w' t = task_made env h e w w' t"
  "task_made env h e w (w'\<lparr>wd_jobs := js\<rparr>) t = task_made env h e w w' t"
  "task_known h e (w\<lparr>wd_jobs := js\<rparr>) w' t = task_known h e w w' t"
  "task_known h e w (w'\<lparr>wd_jobs := js\<rparr>) t = task_known h e w w' t"
  by (simp_all add: creation_ready_def nothing_left_def task_made_def task_known_def queued_def)

text \<open>What serving a claim of an owner leaves on the tables; \<open>jobs1\<close> are the jobs once it is claimed.\<close>

definition row_served :: "env \<Rightarrow> token_entry \<Rightarrow> world \<Rightarrow> world \<Rightarrow> row_claim \<Rightarrow> job_table \<Rightarrow> bool" where
  "row_served env e w w' c jobs1 \<longleftrightarrow>
     (let h = bj_owner (rc_job c); job_id = bj_id (rc_job c); i = br_index (rc_row c) in
      if rc_awaiting_assets c then wd_tasks w' = wd_tasks w \<and> wd_tokens w' = wd_tokens w \<and> wd_jobs w' = jobs1
      else (\<exists>t. (task_known h e w w' t \<or> task_made env h e w w' t) \<and>
              finish_row_creation (en_backend env) (en_now env) jobs1 job_id i t = Inr (wd_jobs w')) \<or>
           (\<exists>error retry. nothing_left h e w w' \<and>
              fail_or_requeue_row (en_backend env) (en_now env) jobs1 job_id i error retry = Inr (wd_jobs w')))"

lemma serve_claim_outcome:
  assumes ready: "creation_ready env (bj_owner (rc_job c)) e w" and alone: "undisturbed env"
    and row: "map_of (wd_jobs w) (bj_id (rc_job c)) = Some k" "r \<in> set (bj_rows k)" "br_index r = br_index (rc_row c)"
    and run: "serve_claim env files c w = (w', x)"
  shows "x = Inr () \<and>
    ((\<exists>t. (task_known (bj_owner (rc_job c)) e w w' t \<or> task_made env (bj_owner (rc_job c)) e w w' t) \<and>
        finish_row_creation (en_backend env) (en_now env) (wd_jobs w) (bj_id (rc_job c)) (br_index (rc_row c)) t = Inr (wd_jobs w')) \<or>
     (\<exists>error retry. nothing_left (bj_owner (rc_job c)) e w w' \<and>
        fail_or_requeue_row (en_backend env) (en_now env) (wd_jobs w) (bj_id (rc_job c)) (br_index (rc_row c)) error retry = Inr (wd_jobs w')))"
proof -
  let ?h = "bj_owner (rc_job c)"
  obtain w1 y where create: "create_scheduled_batch_task env (files c) c w = (w1, y)"
    by (cases "create_scheduled_batch_task env (files c) c w")
  from ready have h: "normalized_hash ?h = ?h" "?h \<noteq> []" and b: "en_backend env = Postgres"
    and ok: "store_ok (wd_tasks w)" "\<forall>d \<in> set (en_draws env). is_task_id d"
    by (simp_all add: creation_ready_def)
  note money = batch_creation_triple [OF h b ok ready_bound [OF ready], where files = "files c"]
  have jobs: "wd_jobs w1 = wd_jobs w"
    using keeps_triple [OF creation_keeps_jobs [OF alone, of "wd_jobs w" "files c" c]] create
    by (cases y) (auto dest: triple_Inr triple_Inl)
  show ?thesis
  proof (cases y)
    case (Inr t)
    from outcome_total(1) [OF row] obtain js where
      js: "finish_row_creation (en_backend env) (en_now env) (wd_jobs w) (bj_id (rc_job c)) (br_index (rc_row c)) t = Inr js" by blast
    have "serve_claim env files c w = (w1\<lparr>wd_jobs := js\<rparr>, Inr ())"
      using create Inr js jobs
      by (simp add: serve_claim_def Let_def catch_def seq_def on_jobs_def on_part_def no_value_def)
    moreover have "task_known ?h e w w1 t \<or> task_made env ?h e w w1 t"
      using triple_Inr [OF money ready_start [OF ready]] create Inr by (auto intro: was_there_known made_task_made)
    ultimately show ?thesis using run js by auto
  next
    case (Inl z)
    obtain detail retry where d: "after_failure z = (detail, retry)" by (cases "after_failure z")
    from outcome_total(2) [OF row] obtain js where
      js: "fail_or_requeue_row (en_backend env) (en_now env) (wd_jobs w) (bj_id (rc_job c)) (br_index (rc_row c)) detail retry = Inr js" by blast
    have "serve_claim env files c w = (w1\<lparr>wd_jobs := js\<rparr>, Inr ())"
      using create Inl js jobs d
      by (simp add: serve_claim_def Let_def catch_def seq_def on_jobs_def on_part_def no_value_def)
    moreover have "nothing_left ?h e w w1"
      using triple_Inl [OF money ready_start [OF ready]] create Inl by (auto intro: settled_nothing_left)
    ultimately show ?thesis using run js by auto
  qed
qed

lemma serve_owner_outcome:
  assumes ready: "creation_ready env h e w" and alone: "undisturbed env" and jobs: "jobs_ok (wd_jobs w)"
    and run: "serve_owner env files h w = (w', x)"
  shows "\<exists>jobs1 found. claim_next_row (en_backend env) (en_now env) (wd_jobs w) h = Inr (jobs1, found) \<and>
    (case found of
       None \<Rightarrow> x = Inr False \<and> w' = w\<lparr>wd_jobs := jobs1\<rparr> \<and> map_of jobs1 = map_of (wd_jobs w)
     | Some c \<Rightarrow> x = Inr True \<and> bj_owner (rc_job c) = h \<and> row_served env e w w' c jobs1)"
proof -
  have cs: "\<forall>j \<in> set (candidates (wd_jobs w) h). map_of (wd_jobs w) (bj_id j) = Some j \<and> bj_status j \<in> {JQueued, JRunning}"
    using candidate_in(1,3) [OF _ jobs] by blast
  from claim_loop_total [OF jobs cs] obtain jobs1 found
    where claim: "claim_next_row (en_backend env) (en_now env) (wd_jobs w) h = Inr (jobs1, found)"
    by (metis candidates_def claim_next_row_def surj_pair)
  let ?w1 = "w\<lparr>wd_jobs := jobs1\<rparr>"
  show ?thesis
  proof (intro exI conjI)
    show "claim_next_row (en_backend env) (en_now env) (wd_jobs w) h = Inr (jobs1, found)" by (rule claim)
    show "case found of
       None \<Rightarrow> x = Inr False \<and> w' = w\<lparr>wd_jobs := jobs1\<rparr> \<and> map_of jobs1 = map_of (wd_jobs w)
     | Some c \<Rightarrow> x = Inr True \<and> bj_owner (rc_job c) = h \<and> row_served env e w w' c jobs1"
    proof (cases found)
      case None
      have "map_of jobs1 = map_of (wd_jobs w)"
        using batch_claim_loop_correct [OF jobs claim [unfolded claim_next_row_def, folded candidates_def] cs] None by simp
      with run claim None show ?thesis
        by (simp add: serve_owner_def seq_def on_jobs_def on_part_def give_def)
    next
      case (Some c)
      obtain k r where row: "map_of jobs1 (bj_id (rc_job c)) = Some k" "r \<in> set (bj_rows k)" "br_index r = br_index (rc_row c)"
        and own: "bj_owner (rc_job c) = h"
        by (rule claimed_row [OF jobs claim [unfolded Some]])
      show ?thesis
      proof (cases "rc_awaiting_assets c")
        case True
        with run claim Some own show ?thesis
          by (auto simp: serve_owner_def seq_def on_jobs_def on_part_def give_def row_served_def)
      next
        case False
        obtain w2 y where serve: "serve_claim env files c ?w1 = (w2, y)" by (cases "serve_claim env files c ?w1")
        have "creation_ready env (bj_owner (rc_job c)) e ?w1" using ready own by simp
        from serve_claim_outcome [OF this alone _ row(2,3) serve] row(1)
        have out: "y = Inr ()"
          "(\<exists>t. (task_known h e w w2 t \<or> task_made env h e w w2 t) \<and>
             finish_row_creation (en_backend env) (en_now env) jobs1 (bj_id (rc_job c)) (br_index (rc_row c)) t = Inr (wd_jobs w2)) \<or>
           (\<exists>error retry. nothing_left h e w w2 \<and>
             fail_or_requeue_row (en_backend env) (en_now env) jobs1 (bj_id (rc_job c)) (br_index (rc_row c)) error retry = Inr (wd_jobs w2))"
          by (simp_all add: own)
        from run claim Some False serve out(1) have "w' = w2" "x = Inr True"
          by (auto simp: serve_owner_def seq_def on_jobs_def on_part_def give_def)
        with out(2) Some own False show ?thesis by (simp add: row_served_def)
      qed
    qed
  qed
qed

definition world_ready :: "env \<Rightarrow> world \<Rightarrow> bool" where
  "world_ready env w \<longleftrightarrow> en_backend env = Postgres \<and> jobs_ok (wd_jobs w) \<and>
     (\<forall>h e. map_of (wd_tokens w) h = Some e \<longrightarrow> creation_ready env h e w)"

definition occupied :: "task_store \<Rightarrow> int" where
  "occupied store = count_if (\<lambda>(_, row). tm_status (tr_meta row) \<in> {Pending, Running, Submitted}) store"

definition fair_share :: "world \<Rightarrow> batch_job list \<Rightarrow> int \<Rightarrow> ustr \<Rightarrow> int \<Rightarrow> bool" where
  "fair_share w jobs capacity h limit \<longleftrightarrow>
     (h, limit) \<in> set (fair_owner_capacity_limits (owner_limits (wd_tokens w) (wd_users w) jobs []) capacity)"


definition example_sched :: sched where
  "example_sched = \<lparr>sd_world = example_world,
     sd_coord = \<lparr>co_redis = True, co_owners = [], co_known = [], co_cursor = 0, co_lock = None\<rparr>,
     sd_recover_at = 0, sd_reconcile_at = 0\<rparr>"


end
