(* ===== verification/Codes.thy ===== *)
theory Codes
  imports Users
begin

text \<open>
  Codes that a user enters: point cards (app/point_cards.py), which credit points once, and
  invitation codes (app/invitation_codes.py), which may be used again. \<open>hash\<close> is SHA-256 of a text,
  and the draws of \<open>secrets\<close> are arguments. The texts entered are of ASCII characters and ideographs,
  as user names are; on them \<open>upper()\<close> changes the ASCII letters only.
\<close>

section \<open>Point cards\<close>

datatype card_status = CardUnused | CardRedeeming | CardRedeemed

record point_card =
  pc_id :: ustr
  pc_code :: ustr
  pc_units :: int
  pc_status :: card_status
  pc_note :: ustr
  pc_created_at :: stamp
  pc_redeemed_at :: stamp
  pc_redeemed_by :: ustr
  pc_redeemed_username :: ustr

text \<open>The document \<open>point_cards\<close>: the cards by the hash of their code.\<close>

type_synonym card_table = "(ustr, point_card) table"

definition normalize_code :: "ustr \<Rightarrow> ustr" where
  "normalize_code code = filter is_alnum (upper code)"

definition is_ascii :: "ustr \<Rightarrow> bool" where
  "is_ascii s \<longleftrightarrow> (\<forall>c \<in> set s. c < 128)"

text \<open>A card's code is encoded in ASCII strictly: \<open>find_card\<close> below refuses any other.\<close>

definition code_digest :: "(ustr \<Rightarrow> ustr) \<Rightarrow> ustr \<Rightarrow> ustr" where
  "code_digest hash code = hash (normalize_code code)"

text \<open>\<open>raw\<close> is the result of sixteen draws from the alphabet.\<close>

definition new_card_code :: "ustr \<Rightarrow> ustr" where
  "new_card_code raw = u ''HS-'' @ take 4 raw @ [45] @ take 4 (drop 4 raw) @ [45] @ take 4 (drop 8 raw) @ [45] @ take 4 (drop 12 raw)"

definition code_hint :: "ustr \<Rightarrow> ustr" where
  "code_hint code = take 7 code @ u ''...'' @ last_n 4 code"

definition new_card :: "int \<Rightarrow> ustr \<Rightarrow> ustr \<Rightarrow> int \<Rightarrow> ustr \<Rightarrow> point_card" where
  "new_card now code draw_id units note =
     \<lparr>pc_id = draw_id, pc_code = code, pc_units = units, pc_status = CardUnused, pc_note = take 120 (strip note),
      pc_created_at = At now, pc_redeemed_at = Unset, pc_redeemed_by = [], pc_redeemed_username = []\<rparr>"

text \<open>One pair of draws, for the code and the identifier, per card.\<close>

fun add_cards ::
    "(ustr \<Rightarrow> ustr) \<Rightarrow> int \<Rightarrow> int \<Rightarrow> ustr \<Rightarrow> (ustr \<times> ustr) list \<Rightarrow> card_table \<Rightarrow> card_table \<times> point_card list" where
  "add_cards hash now units note [] cards = (cards, [])"
| "add_cards hash now units note ((raw, draw_id) # draws) cards =
     (let code = new_card_code raw; pc = new_card now code draw_id units note in
      apsnd ((#) pc) (add_cards hash now units note draws (AList.update (code_digest hash code) pc cards)))"

definition generate_cards ::
    "(ustr \<Rightarrow> ustr) \<Rightarrow> int \<Rightarrow> (ustr \<times> ustr) list \<Rightarrow> card_table \<Rightarrow> amount \<Rightarrow> int \<Rightarrow> ustr \<Rightarrow>
     (card_table \<times> point_card list) result" where
  "generate_cards hash now draws cards points n note = (case points_to_units points of
     Inl e \<Rightarrow> Inl e
   | Inr units \<Rightarrow> if n < 1 \<or> 200 < n then Inl (ValueError msg_count_range)
       else Inr (add_cards hash now units note (take (nat n) draws) cards))"

definition list_cards :: "card_table \<Rightarrow> int \<Rightarrow> point_card list" where
  "list_cards cards limit = take (nat (clamp 1 2000 limit)) (sort_desc pc_created_at (map snd cards))"

definition status_of_text :: "ustr \<Rightarrow> card_status option" where
  "status_of_text s = (if s = u ''unused'' then Some CardUnused else if s = u ''redeemed'' then Some CardRedeemed else None)"

definition delete_cards :: "card_table \<Rightarrow> ustr list \<Rightarrow> ustr \<Rightarrow> (card_table \<times> int) result" where
  "delete_cards cards card_ids status =
     (let selected = filter (\<lambda>i. i \<noteq> []) (map strip card_ids); wanted = lower (strip status) in
      if wanted \<noteq> [] \<and> status_of_text wanted = None then Inl (ValueError msg_card_status)
      else if selected = [] \<and> wanted = [] then Inl (ValueError msg_card_select)
      else let doomed = (\<lambda>(_, pc). pc_id pc \<in> set selected \<or> status_of_text wanted = Some (pc_status pc))
           in Inr (filter (\<lambda>p. \<not> doomed p) cards, int (length (filter doomed cards))))"

definition purge_legacy_cards :: "card_table \<Rightarrow> card_table \<times> int" where
  "purge_legacy_cards cards =
     (let legacy = (\<lambda>(_, pc). strip (pc_code pc) = [])
      in (filter (\<lambda>p. \<not> legacy p) cards, int (length (filter legacy cards))))"

subsection \<open>Redeeming\<close>

text \<open>The card is looked up and checked; what follows works on the document read here. A code that is
  not ASCII raises UnicodeEncodeError, a ValueError whose text also names the character.\<close>

definition find_card :: "(ustr \<Rightarrow> ustr) \<Rightarrow> card_table \<Rightarrow> ustr \<Rightarrow> (ustr \<times> point_card) result" where
  "find_card hash cards code =
     (let normalized = normalize_code code; digest = code_digest hash normalized in
      if length normalized < 12 then Inl (ValueError msg_card_format)
      else if \<not> is_ascii normalized then Inl (ValueError (u ''ordinal not in range(128)''))
      else case map_of cards digest of
        None \<Rightarrow> Inl KeyError
      | Some pc \<Rightarrow> if pc_status pc \<noteq> CardUnused then Inl (ValueError msg_card_used) else Inr (digest, pc))"

definition mark_redeeming :: "ustr \<Rightarrow> ustr \<Rightarrow> point_card \<Rightarrow> point_card" where
  "mark_redeeming user_id username pc =
     pc\<lparr>pc_status := CardRedeeming, pc_redeemed_by := user_id, pc_redeemed_username := take 80 (strip username)\<rparr>"

definition unmark :: "point_card \<Rightarrow> point_card" where
  "unmark pc = pc\<lparr>pc_status := CardUnused, pc_redeemed_by := [], pc_redeemed_username := []\<rparr>"

definition mark_redeemed :: "int \<Rightarrow> point_card \<Rightarrow> point_card" where
  "mark_redeemed now pc = pc\<lparr>pc_status := CardRedeemed, pc_redeemed_at := At now\<rparr>"

text \<open>
  \<open>redeem_card\<close> writes the document up to three times and credits the token in between. One process
  runs it under its lock, so nothing else of that process happens meanwhile; this is that run.
\<close>

definition redeem_card ::
    "(ustr \<Rightarrow> ustr) \<Rightarrow> backend \<Rightarrow> int \<Rightarrow> ustr \<Rightarrow> ustr \<Rightarrow> ustr \<Rightarrow> ustr \<Rightarrow> card_table \<times> token_table \<Rightarrow>
     (card_table \<times> token_table) \<times> (point_card \<times> public_token) result" where
  "redeem_card hash b now code user_id token_hash username w = (case w of (data, tokens) \<Rightarrow>
     (case find_card hash data code of
        Inl e \<Rightarrow> (w, Inl e)
      | Inr (digest, found) \<Rightarrow>
         (let pc = mark_redeeming user_id username found in
          case add_temp_credit_units b now tokens token_hash (pc_units pc) of
            Inl e \<Rightarrow> ((AList.update digest (unmark pc) data, tokens), Inl e)
          | Inr (tokens', credited) \<Rightarrow>
              ((AList.update digest (mark_redeemed now pc) data, tokens'), Inr (mark_redeemed now pc, credited)))))"

text \<open>
  With PostgreSQL several processes share the document, and each has a lock of its own. A thread that
  redeems has read the document and keeps that copy: it writes the whole of it back each time.
\<close>

datatype redemption =
    Idle
  | Chosen card_table ustr point_card
  | Marked card_table ustr point_card
  | Credited card_table ustr point_card

text \<open>\<open>sh_paid\<close> records the cards that were credited; the program does not look at it.\<close>

record shop =
  sh_cards :: card_table
  sh_tokens :: token_table
  sh_threads :: "nat \<Rightarrow> redemption"
  sh_paid :: "ustr list"

definition has_lock :: "(nat \<Rightarrow> nat) \<Rightarrow> shop \<Rightarrow> nat \<Rightarrow> bool" where
  "has_lock process s i \<longleftrightarrow> sh_threads s i = Idle \<and> (\<forall>j. process j = process i \<longrightarrow> sh_threads s j = Idle)"

definition to_phase :: "nat \<Rightarrow> redemption \<Rightarrow> shop \<Rightarrow> shop" where
  "to_phase i p s = s\<lparr>sh_threads := (sh_threads s)(i := p)\<rparr>"

inductive shop_step :: "(ustr \<Rightarrow> ustr) \<Rightarrow> backend \<Rightarrow> (nat \<Rightarrow> nat) \<Rightarrow> shop \<Rightarrow> shop \<Rightarrow> bool"
  for hash b process where
  choose: "has_lock process s i \<Longrightarrow> find_card hash (sh_cards s) code = Inr (digest, pc) \<Longrightarrow>
    shop_step hash b process s (to_phase i (Chosen (sh_cards s) digest pc) s)"
| mark: "sh_threads s i = Chosen data digest pc \<Longrightarrow> pc' = mark_redeeming user_id username pc \<Longrightarrow>
    shop_step hash b process s ((to_phase i (Marked data digest pc') s)\<lparr>sh_cards := AList.update digest pc' data\<rparr>)"
| credit: "sh_threads s i = Marked data digest pc \<Longrightarrow>
    add_temp_credit_units b now (sh_tokens s) token_hash (pc_units pc) = Inr (tokens', credited) \<Longrightarrow>
    shop_step hash b process s
      ((to_phase i (Credited data digest pc) s)\<lparr>sh_tokens := tokens', sh_paid := digest # sh_paid s\<rparr>)"
| refuse: "sh_threads s i = Marked data digest pc \<Longrightarrow>
    add_temp_credit_units b now (sh_tokens s) token_hash (pc_units pc) = Inl e \<Longrightarrow>
    shop_step hash b process s ((to_phase i Idle s)\<lparr>sh_cards := AList.update digest (unmark pc) data\<rparr>)"
| finish: "sh_threads s i = Credited data digest pc \<Longrightarrow>
    shop_step hash b process s ((to_phase i Idle s)\<lparr>sh_cards := AList.update digest (mark_redeemed now pc) data\<rparr>)"
| generate: "has_lock process s i \<Longrightarrow> generate_cards hash now draws (sh_cards s) points n note = Inr (cards', made) \<Longrightarrow>
    \<forall>pc \<in> set made. code_digest hash (pc_code pc) \<notin> set (sh_paid s) \<Longrightarrow>
    shop_step hash b process s (s\<lparr>sh_cards := cards'\<rparr>)"
| delete: "has_lock process s i \<Longrightarrow> delete_cards (sh_cards s) card_ids status = Inr (cards', n) \<Longrightarrow>
    shop_step hash b process s (s\<lparr>sh_cards := cards'\<rparr>)"
| purge: "has_lock process s i \<Longrightarrow> shop_step hash b process s (s\<lparr>sh_cards := fst (purge_legacy_cards (sh_cards s))\<rparr>)"
| tokens: "shop_step hash b process s (s\<lparr>sh_tokens := tokens'\<rparr>)"

inductive_cases shop_stepE: "shop_step hash b process s s'"

section \<open>Invitation codes\<close>

record code_use =
  cu_used_at :: stamp
  cu_user_id :: ustr
  cu_username :: ustr

record invitation =
  iv_id :: ustr
  iv_code :: ustr
  iv_created_at :: stamp
  iv_note :: ustr
  iv_use_count :: int
  iv_last_used_at :: stamp
  iv_last_used_by :: ustr
  iv_last_used_username :: ustr
  iv_uses :: "code_use list"

record invitations =
  is_required :: bool
  is_codes :: "(ustr, invitation) table"
  is_updated_at :: stamp

text \<open>An invitation code is encoded with \<open>errors="ignore"\<close>.\<close>

definition invitation_digest :: "(ustr \<Rightarrow> ustr) \<Rightarrow> ustr \<Rightarrow> ustr" where
  "invitation_digest hash code = hash (filter (\<lambda>c. c < 128) (normalize_code code))"

definition MAX_USE_HISTORY :: nat where "MAX_USE_HISTORY = 100"
definition MIN_CODE_LENGTH :: nat where "MIN_CODE_LENGTH = 4"
definition MAX_CODE_LENGTH :: nat where "MAX_CODE_LENGTH = 32"

text \<open>What \<open>_normalize_data\<close> does to the records of this version; it is done whenever they are read.
  Records of the earlier version, which could be used once, are not modelled.\<close>

definition normalize_invitation :: "invitation \<Rightarrow> invitation" where
  "normalize_invitation r =
     r\<lparr>iv_note := take 120 (strip (iv_note r)), iv_use_count := max 0 (iv_use_count r),
       iv_uses := last_n MAX_USE_HISTORY (iv_uses r)\<rparr>"

definition normalize_data :: "invitations \<Rightarrow> invitations" where
  "normalize_data d = d\<lparr>is_codes := map (apsnd normalize_invitation) (is_codes d)\<rparr>"

text \<open>\<open>_mutate\<close>: an exception leaves the document as it was, on either backend.\<close>

definition mutate_codes :: "(invitations \<Rightarrow> (invitations \<times> 'a) result) \<Rightarrow> invitations \<Rightarrow> invitations \<times> 'a result" where
  "mutate_codes f d = (case f (normalize_data d) of Inl e \<Rightarrow> (d, Inl e) | Inr (d', x) \<Rightarrow> (d', Inr x))"

definition set_registration_required :: "int \<Rightarrow> bool \<Rightarrow> invitations \<Rightarrow> invitations \<times> unit result" where
  "set_registration_required now required =
     mutate_codes (\<lambda>d. Inr (d\<lparr>is_required := required, is_updated_at := At now\<rparr>, ()))"

definition new_invitation :: "int \<Rightarrow> ustr \<Rightarrow> ustr \<Rightarrow> ustr \<Rightarrow> invitation" where
  "new_invitation now code draw_id note =
     \<lparr>iv_id = draw_id, iv_code = code, iv_created_at = At now, iv_note = note, iv_use_count = 0,
      iv_last_used_at = Unset, iv_last_used_by = [], iv_last_used_username = [], iv_uses = []\<rparr>"

text \<open>The loop draws again while the code is taken; \<open>None\<close> when the draws listed do not suffice.\<close>

fun add_codes ::
    "(ustr \<Rightarrow> ustr) \<Rightarrow> int \<Rightarrow> ustr \<Rightarrow> nat \<Rightarrow> (ustr \<times> ustr) list \<Rightarrow> (ustr, invitation) table \<Rightarrow>
     ((ustr, invitation) table \<times> invitation list) option" where
  "add_codes hash now note 0 draws codes = Some (codes, [])"
| "add_codes hash now note (Suc n) [] codes = None"
| "add_codes hash now note (Suc n) ((code, draw_id) # draws) codes =
     (if map_of codes (invitation_digest hash code) \<noteq> None then add_codes hash now note (Suc n) draws codes
      else let r = new_invitation now code draw_id note in
        map_option (apsnd ((#) r)) (add_codes hash now note n draws (AList.update (invitation_digest hash code) r codes)))"

definition generate_codes ::
    "(ustr \<Rightarrow> ustr) \<Rightarrow> int \<Rightarrow> (ustr \<times> ustr) list \<Rightarrow> int \<Rightarrow> int \<Rightarrow> ustr \<Rightarrow> invitations \<Rightarrow>
     (invitations \<times> invitation list result) option" where
  "generate_codes hash now draws n len note d =
     (if n < 1 \<or> 200 < n then Some (d, Inl (ValueError msg_count_range))
      else if len < int MIN_CODE_LENGTH \<or> int MAX_CODE_LENGTH < len then Some (d, Inl (ValueError msg_code_length))
      else let d1 = normalize_data d in
        map_option (\<lambda>(codes, made). (d1\<lparr>is_codes := codes, is_updated_at := At now\<rparr>, Inr made))
          (add_codes hash now (take 120 (strip note)) (nat n) draws (is_codes d1)))"

text \<open>A reservation locks nothing: it only checks that the code is known.\<close>

definition reserve_code :: "(ustr \<Rightarrow> ustr) \<Rightarrow> ustr \<Rightarrow> invitations \<Rightarrow> invitations \<times> (ustr \<times> ustr) result" where
  "reserve_code hash code d =
     (let normalized = normalize_code code; code_hash = invitation_digest hash normalized in
      if length normalized < MIN_CODE_LENGTH then (d, Inl (ValueError msg_code_invalid))
      else mutate_codes (\<lambda>d. case map_of (is_codes d) code_hash of
             None \<Rightarrow> Inl (ValueError msg_code_invalid)
           | Some r \<Rightarrow> Inr (d, code_hash, iv_code r)) d)"

definition use_invitation :: "int \<Rightarrow> ustr \<Rightarrow> ustr \<Rightarrow> invitation \<Rightarrow> invitation" where
  "use_invitation now user_id username r =
     (let use = \<lparr>cu_used_at = At now, cu_user_id = user_id, cu_username = take 80 username\<rparr>
      in r\<lparr>iv_use_count := max 0 (iv_use_count r) + 1, iv_last_used_at := At now, iv_last_used_by := user_id,
           iv_last_used_username := take 80 username, iv_uses := last_n MAX_USE_HISTORY (iv_uses r @ [use])\<rparr>)"

definition complete_reservation :: "int \<Rightarrow> ustr \<Rightarrow> ustr \<Rightarrow> ustr \<Rightarrow> invitations \<Rightarrow> invitations \<times> unit result" where
  "complete_reservation now code_hash user_id username =
     mutate_codes (\<lambda>d. case map_of (is_codes d) code_hash of
       None \<Rightarrow> Inr (d, ())
     | Some r \<Rightarrow> Inr (d\<lparr>is_codes := AList.update code_hash (use_invitation now user_id username r) (is_codes d),
          is_updated_at := At now\<rparr>, ()))"

definition delete_code :: "int \<Rightarrow> ustr \<Rightarrow> invitations \<Rightarrow> invitations \<times> invitation option result" where
  "delete_code now code_id d =
     (let wanted = strip code_id in
      if wanted = [] then (d, Inr None)
      else mutate_codes (\<lambda>d. case find (\<lambda>(_, r). iv_id r = wanted) (is_codes d) of
             None \<Rightarrow> Inr (d, None)
           | Some (code_hash, r) \<Rightarrow>
               if is_required d \<and> length (is_codes d) \<le> 1 then Inl (ValueError msg_code_keep_one)
               else Inr (d\<lparr>is_codes := AList.delete code_hash (is_codes d), is_updated_at := At now\<rparr>, Some r)) d)"

definition update_code_note :: "int \<Rightarrow> ustr \<Rightarrow> ustr \<Rightarrow> invitations \<Rightarrow> invitations \<times> invitation option result" where
  "update_code_note now code_id note d =
     (let wanted = strip code_id; note = take 120 (strip note) in
      if wanted = [] then (d, Inr None)
      else mutate_codes (\<lambda>d. case find (\<lambda>(_, r). iv_id r = wanted) (is_codes d) of
             None \<Rightarrow> Inr (d, None)
           | Some (_, r) \<Rightarrow>
               Inr (d\<lparr>is_codes := update_first (\<lambda>(_, r). iv_id r = wanted) (apsnd (iv_note_update (\<lambda>_. note))) (is_codes d),
                      is_updated_at := At now\<rparr>, Some (r\<lparr>iv_note := note\<rparr>))) d)"

text \<open>The listing of the administrator: \<open>query in text\<close> is being a part of it.\<close>

fun is_part :: "'a list \<Rightarrow> 'a list \<Rightarrow> bool" where
  "is_part xs [] \<longleftrightarrow> xs = []"
| "is_part xs (y # ys) \<longleftrightarrow> take (length xs) (y # ys) = xs \<or> is_part xs ys"

record invitation_page =
  ip_required :: bool
  ip_total :: int
  ip_uses :: int
  ip_codes :: "invitation list"
  ip_filtered_total :: int
  ip_page :: int
  ip_page_size :: int
  ip_total_pages :: int

definition matching_codes :: "ustr \<Rightarrow> ustr \<Rightarrow> invitation list \<Rightarrow> invitation list" where
  "matching_codes usage query rows =
     (let rows = filter (\<lambda>r. if usage = u ''unused'' then iv_use_count r = 0
            else if usage = u ''used'' then 0 < iv_use_count r else True) rows;
          q = normalize_code query
      in if q = [] then rows
         else filter (\<lambda>r. is_part q (normalize_code (iv_code r)) \<or> is_part q (normalize_code (iv_last_used_username r)) \<or>
                is_part q (normalize_code (iv_note r))) rows)"

definition invitation_state :: "invitations \<Rightarrow> int \<Rightarrow> int \<Rightarrow> ustr \<Rightarrow> ustr \<Rightarrow> invitation_page result" where
  "invitation_state d0 page page_size query usage_text =
     (let d = normalize_data d0; all_rows = map snd (is_codes d); usage = lower (strip (str_or usage_text (u ''all''))) in
      if usage \<notin> set (map u [''all'', ''unused'', ''used'']) then Inl (ValueError msg_usage_filter)
      else let rows = sort_desc iv_created_at (matching_codes usage query all_rows);
               m = clamp 10 100 page_size; n = int (length rows)
           in Inr \<lparr>ip_required = is_required d, ip_total = int (length all_rows),
                ip_uses = sum_list (map (\<lambda>r. max 0 (iv_use_count r)) all_rows),
                ip_codes = page_slice m (page_of n m page) rows, ip_filtered_total = n,
                ip_page = page_of n m page, ip_page_size = m, ip_total_pages = page_count n m\<rparr>)"

end
