(* ===== verification/Codes_Props.thy ===== *)
theory Codes_Props
  imports Codes Temp_Props
begin

text \<open>
  What redeeming promises: within one process a card is credited at most once, whatever the threads do
  and in whatever order, and with several processes on PostgreSQL it may be credited twice. Then what
  the invitation codes keep.
\<close>

section \<open>A card is credited once\<close>

text \<open>\<open>sold\<close>: none of the cards that were paid out can be chosen again.\<close>

definition sold :: "ustr list \<Rightarrow> card_table \<Rightarrow> bool" where
  "sold paid cards \<longleftrightarrow> distinct (map fst cards) \<and>
     (\<forall>d \<in> set paid. \<forall>c. map_of cards d = Some c \<longrightarrow> pc_status c \<noteq> CardUnused)"

fun phase_ok :: "ustr list \<Rightarrow> redemption \<Rightarrow> bool" where
  "phase_ok paid Idle \<longleftrightarrow> True"
| "phase_ok paid (Chosen data d c) \<longleftrightarrow> d \<notin> set paid \<and> sold paid data"
| "phase_ok paid (Marked data d c) \<longleftrightarrow> d \<notin> set paid \<and> sold paid data"
| "phase_ok paid (Credited data d c) \<longleftrightarrow> d \<in> set paid \<and> pc_status c \<noteq> CardUnused \<and> sold (removeAll d paid) data"

fun phase_marked :: "redemption \<Rightarrow> bool" where
  "phase_marked (Marked data d c) \<longleftrightarrow> pc_status c = CardRedeeming"
| "phase_marked _ \<longleftrightarrow> True"

definition shop_ok :: "shop \<Rightarrow> bool" where
  "shop_ok s \<longleftrightarrow> distinct (sh_paid s) \<and> (\<forall>i j. sh_threads s i \<noteq> Idle \<longrightarrow> sh_threads s j \<noteq> Idle \<longrightarrow> i = j) \<and>
     (\<forall>i. phase_ok (sh_paid s) (sh_threads s i) \<and> phase_marked (sh_threads s i)) \<and>
     ((\<forall>i. sh_threads s i = Idle) \<longrightarrow> sold (sh_paid s) (sh_cards s))"

lemma sold_update: "sold paid cards \<Longrightarrow> d \<notin> set paid \<or> pc_status c \<noteq> CardUnused \<Longrightarrow> sold paid (AList.update d c cards)"
  by (auto simp: sold_def update_conv' distinct_update)

lemma sold_update_paid: "sold (removeAll d paid) data \<Longrightarrow> pc_status c \<noteq> CardUnused \<Longrightarrow> sold paid (AList.update d c data)"
  by (auto simp: sold_def update_conv' distinct_update)

lemma map_of_filter_distinct: "distinct (map fst xs) \<Longrightarrow> map_of (filter p xs) k = Some v \<Longrightarrow> map_of xs k = Some v"
  by (metis distinct_map_filter filter_is_subset in_set_map_of subset_iff)

lemma sold_filter: "sold paid cards \<Longrightarrow> sold paid (filter p cards)"
  unfolding sold_def by (meson distinct_map_filter map_of_filter_distinct)

lemma sold_add_cards:
  "sold paid cards \<Longrightarrow> add_cards hash now units note draws cards = (cards', made) \<Longrightarrow>
   \<forall>c \<in> set made. code_digest hash (pc_code c) \<notin> set paid \<Longrightarrow> sold paid cards'"
proof (induction draws arbitrary: cards made)
  case (Cons x draws)
  obtain raw i where x: "x = (raw, i)" by (cases x)
  let ?c = "new_card now (new_card_code raw) i units note"
  obtain more where r: "add_cards hash now units note draws (AList.update (code_digest hash (new_card_code raw)) ?c cards) = (cards', more)"
    "made = ?c # more" using Cons.prems(2) by (cases "add_cards hash now units note draws (AList.update (code_digest hash (new_card_code raw)) ?c cards)") (simp add: x Let_def)
  have "code_digest hash (new_card_code raw) \<notin> set paid" using Cons.prems(3) r(2) by (simp add: new_card_def)
  with Cons.IH [OF sold_update [OF Cons.prems(1)] r(1)] Cons.prems(3) r(2) show ?case by simp
qed simp

text \<open>A thread of the only process that is not idle is the only one.\<close>

lemma alone: "shop_ok s \<Longrightarrow> sh_threads s i \<noteq> Idle \<Longrightarrow> j \<noteq> i \<Longrightarrow> sh_threads s j = Idle"
  unfolding shop_ok_def by blast

lemma shop_ok_idle:
  assumes "\<And>j. sh_threads s j = Idle" "distinct (sh_paid s)" "sold (sh_paid s) (sh_cards s)"
  shows "shop_ok s"
  using assms by (simp add: shop_ok_def)

text \<open>A thread that moves on while the others are idle.\<close>

lemma shop_ok_moves:
  assumes "\<And>j. j \<noteq> i \<Longrightarrow> sh_threads s j = Idle" "sh_threads s' = (sh_threads s)(i := p)"
    and "distinct (sh_paid s')" "p \<noteq> Idle" "phase_ok (sh_paid s') p" "phase_marked p"
  shows "shop_ok s'"
  using assms by (auto simp: shop_ok_def)

lemma shop_ok_ends:
  assumes "\<And>j. j \<noteq> i \<Longrightarrow> sh_threads s j = Idle" "sh_threads s' = (sh_threads s)(i := Idle)"
    and "distinct (sh_paid s')" "sold (sh_paid s') (sh_cards s')"
  shows "shop_ok s'"
  using assms by (auto simp: shop_ok_def)

lemma shop_ok_step:
  assumes "shop_step hash b process s s'" "shop_ok s" "\<And>i j. process i = process j"
  shows "shop_ok s'"
proof -
  from assms(2) have d: "distinct (sh_paid s)" and ph: "\<And>i. phase_ok (sh_paid s) (sh_threads s i)" "\<And>i. phase_marked (sh_threads s i)"
    by (auto simp: shop_ok_def)
  have idle: "sh_threads s j = Idle" if "has_lock process s i" for i j
    using that assms(3) by (simp add: has_lock_def)
  have sold: "sold (sh_paid s) (sh_cards s)" if "has_lock process s i" for i
    using idle [OF that] assms(2) by (simp add: shop_ok_def)
  from assms(1) show ?thesis
  proof (cases rule: shop_step.cases)
    case (choose i code digest c)
    have "map_of (sh_cards s) digest = Some c" "pc_status c = CardUnused"
      using choose(3) by (auto simp: find_card_def Let_def split: if_splits option.splits)
    with sold [OF choose(2)] have "digest \<notin> set (sh_paid s)" by (auto simp: sold_def)
    with choose sold [OF choose(2)] idle [OF choose(2)] d show ?thesis
      by (intro shop_ok_moves [where i = i and s = s and p = "Chosen (sh_cards s) digest c"]) (simp_all add: to_phase_def)
  next
    case (mark i data digest c c' user_id username)
    with ph(1) [of i] alone [OF assms(2), of i] d show ?thesis
      by (intro shop_ok_moves [where i = i and s = s and p = "Marked data digest c'"]) (simp_all add: to_phase_def mark_redeeming_def)
  next
    case (credit i data digest c now token_hash tokens' credited)
    with ph(1) [of i] ph(2) [of i] alone [OF assms(2), of i] d show ?thesis
      by (intro shop_ok_moves [where i = i and s = s and p = "Credited data digest c"]) (simp_all add: to_phase_def)
  next
    case (refuse i data digest c now token_hash e)
    with ph(1) [of i] alone [OF assms(2), of i] d show ?thesis
      by (intro shop_ok_ends [where i = i and s = s]) (simp_all add: to_phase_def sold_update)
  next
    case (finish i data digest c now)
    with ph(1) [of i] alone [OF assms(2), of i] d show ?thesis
      by (intro shop_ok_ends [where i = i and s = s]) (simp_all add: to_phase_def sold_update_paid mark_redeemed_def)
  next
    case (generate i now draws points n remark cards' made)
    from generate(3) obtain units where "add_cards hash now units remark (take (nat n) draws) (sh_cards s) = (cards', made)"
      by (auto simp: generate_cards_def split: sum.splits if_splits)
    from sold_add_cards [OF sold [OF generate(2)] this generate(4)] generate(1) idle [OF generate(2)] d
    show ?thesis by (simp add: shop_ok_idle)
  next
    case (delete i card_ids status cards' n)
    with sold [OF delete(2)] idle [OF delete(2)] d show ?thesis
      by (intro shop_ok_idle) (auto simp: delete_cards_def Let_def sold_filter split: if_splits)
  next
    case (purge i)
    with sold [OF purge(2)] idle [OF purge(2)] d show ?thesis
      by (intro shop_ok_idle) (auto simp: purge_legacy_cards_def Let_def sold_filter)
  next
    case (tokens tokens')
    with assms(2) show ?thesis by (simp add: shop_ok_def)
  qed
qed

lemma to_phase_cards [simp]: "sh_cards (to_phase i p s) = sh_cards s"
  by (simp add: to_phase_def)

text \<open>The function, run by one thread that holds the lock, is a run of these steps.\<close>

lemma redeem_card_runs:
  assumes "redeem_card hash b now code user_id token_hash username (sh_cards s, sh_tokens s) = ((cards', tokens'), Inr r)"
    and "has_lock process s i"
  shows "\<exists>d. map_of (sh_cards s) d \<noteq> None \<and>
    (shop_step hash b process)\<^sup>*\<^sup>* s (s\<lparr>sh_cards := cards', sh_tokens := tokens', sh_paid := d # sh_paid s\<rparr>)"
proof -
  let ?step = "shop_step hash b process"
  obtain d c where c: "find_card hash (sh_cards s) code = Inr (d, c)"
    using assms(1) by (cases "find_card hash (sh_cards s) code") (auto simp: redeem_card_def)
  let ?c = "mark_redeeming user_id username c"
  obtain p where p: "add_temp_credit_units b now (sh_tokens s) token_hash (pc_units ?c) = Inr (tokens', p)"
    and cards': "cards' = AList.update d (mark_redeemed now ?c) (sh_cards s)"
    using assms(1) c by (cases "add_temp_credit_units b now (sh_tokens s) token_hash (pc_units ?c)") (auto simp: redeem_card_def Let_def)
  let ?s1 = "to_phase i (Chosen (sh_cards s) d c) s"
  let ?s2 = "(to_phase i (Marked (sh_cards s) d ?c) ?s1)\<lparr>sh_cards := AList.update d ?c (sh_cards s)\<rparr>"
  let ?s3 = "(to_phase i (Credited (sh_cards s) d ?c) ?s2)\<lparr>sh_tokens := tokens', sh_paid := d # sh_paid ?s2\<rparr>"
  let ?s4 = "(to_phase i Idle ?s3)\<lparr>sh_cards := cards'\<rparr>"
  have "?step s ?s1" by (rule shop_step.choose [OF assms(2) c])
  moreover have "?step ?s1 ?s2" by (rule shop_step.mark [where pc = c]) (simp_all add: to_phase_def)
  moreover have "?step ?s2 ?s3"
    by (rule shop_step.credit [where data = "sh_cards s" and now = now and token_hash = token_hash and credited = p])
      (simp_all add: to_phase_def p)
  moreover have "?step ?s3 ?s4" unfolding cards' by (rule shop_step.finish) (simp add: to_phase_def)
  ultimately have "?step\<^sup>*\<^sup>* s ?s4" by (meson rtranclp.rtrancl_into_rtrancl rtranclp.rtrancl_refl)
  moreover have "(sh_threads s)(i := Idle) = sh_threads s" using assms(2) by (simp add: has_lock_def fun_upd_idem)
  then have "?s4 = s\<lparr>sh_cards := cards', sh_tokens := tokens', sh_paid := d # sh_paid s\<rparr>" by (simp add: to_phase_def)
  moreover have "map_of (sh_cards s) d \<noteq> None"
    using c by (auto simp: find_card_def Let_def split: if_splits option.splits)
  ultimately show ?thesis by auto
qed

text \<open>C8: in one process a point card is credited at most once. However the threads of the process
  redeem, generate and delete cards, and whatever else happens to the tokens, no card is paid out twice
  (its code not being drawn anew), and once all threads are done no card that was paid out is for sale.\<close>

theorem card_paid_once:
  assumes "(shop_step hash b process)\<^sup>*\<^sup>* s s'" "\<forall>i j. process i = process j"
    and "\<forall>i. sh_threads s i = Idle" "sh_paid s = []" "distinct (map fst (sh_cards s))"
  shows "distinct (sh_paid s') \<and>
    ((\<forall>i. sh_threads s' i = Idle) \<longrightarrow>
     (\<forall>d \<in> set (sh_paid s'). \<forall>c. map_of (sh_cards s') d = Some c \<longrightarrow> pc_status c \<noteq> CardUnused))"
proof -
  have "shop_ok s" using assms(3-5) by (intro shop_ok_idle) (auto simp: sold_def)
  with assms(1) have "shop_ok s'"
  proof (induction rule: rtranclp_induct)
    case (step y z)
    from shop_ok_step [OF step.hyps(2) step.IH [OF step.prems]] assms(2) show ?case by blast
  qed
  then show ?thesis by (simp add: shop_ok_def sold_def)
qed

definition example_card :: point_card where
  "example_card = new_card 1 (new_card_code (u ''AAAABBBBCCCCDDDD'')) (u ''c1'') 25 []"

definition example_shop :: shop where
  "example_shop = \<lparr>sh_cards = [(u ''HSAAAABBBBCCCCDDDD'', example_card)], sh_tokens = [(u ''h'', sample_entry 0 0)],
     sh_threads = (\<lambda>_. Idle), sh_paid = []\<rparr>"

lemma example_redeemed:
  "case redeem_card (\<lambda>x. x) Postgres 5 (u ''hs-aaaa-bbbb-cccc-dddd'') (u ''u1'') (u ''h'') (u ''ann'')
     (sh_cards example_shop, sh_tokens example_shop) of (_, Inl _) \<Rightarrow> False
   | ((cards, tokens), Inr r) \<Rightarrow>
     map_option pc_status (map_of cards (u ''HSAAAABBBBCCCCDDDD'')) = Some CardRedeemed \<and>
     map_option te_credit_units (map_of tokens (u ''h'')) = Some 25"
  by code_simp

theorem card_paid_once_witness:
  "\<exists>s. (shop_step (\<lambda>x. x) Postgres (\<lambda>_. 0))\<^sup>*\<^sup>* example_shop s \<and> length (sh_paid s) = 1 \<and> distinct (sh_paid s) \<and>
     (\<forall>d \<in> set (sh_paid s). \<forall>c. map_of (sh_cards s) d = Some c \<longrightarrow> pc_status c \<noteq> CardUnused)"
proof -
  obtain cards tokens r where r: "redeem_card (\<lambda>x. x) Postgres 5 (u ''hs-aaaa-bbbb-cccc-dddd'') (u ''u1'') (u ''h'') (u ''ann'')
     (sh_cards example_shop, sh_tokens example_shop) = ((cards, tokens), Inr r)"
    using example_redeemed by (auto split: prod.splits sum.splits)
  have "has_lock (\<lambda>_. 0) example_shop 0" by (simp add: has_lock_def example_shop_def)
  from redeem_card_runs [OF r this] obtain d where
    run: "(shop_step (\<lambda>x. x) Postgres (\<lambda>_. 0))\<^sup>*\<^sup>* example_shop
      (example_shop\<lparr>sh_cards := cards, sh_tokens := tokens, sh_paid := d # sh_paid example_shop\<rparr>)" by blast
  have start: "sh_paid example_shop = []" "\<forall>i. sh_threads example_shop i = Idle" "distinct (map fst (sh_cards example_shop))"
    by (simp_all add: example_shop_def)
  from card_paid_once [OF run _ start(2,1,3)] start run show ?thesis by auto
qed

section \<open>Two processes\<close>

text \<open>
  With PostgreSQL each process has its own lock, and the document is read and written without one in
  the database: when two processes read it before either writes, the same card is credited twice.
\<close>

theorem card_paid_twice:
  "\<exists>s d. (shop_step (\<lambda>x. x) Postgres (\<lambda>i. i))\<^sup>*\<^sup>* example_shop s \<and> sh_paid s = [d, d] \<and>
     map_option te_credit_units (map_of (sh_tokens s) (u ''h'')) = Some 50"
proof -
  let ?step = "shop_step (\<lambda>x. x) Postgres (\<lambda>i. i)" and ?d = "u ''HSAAAABBBBCCCCDDDD''"
  let ?cards = "sh_cards example_shop" and ?c = "mark_redeeming (u ''u1'') [] example_card"
  obtain t1 p1 t2 p2 where t: "add_temp_credit_units Postgres 5 (sh_tokens example_shop) (u ''h'') (pc_units ?c) = Inr (t1, p1)"
    "add_temp_credit_units Postgres 6 t1 (u ''h'') (pc_units ?c) = Inr (t2, p2)"
    "map_option te_credit_units (map_of t2 (u ''h'')) = Some 50"
  proof -
    have "case add_temp_credit_units Postgres 5 (sh_tokens example_shop) (u ''h'') (pc_units ?c) of Inl _ \<Rightarrow> False
      | Inr (t1, p1) \<Rightarrow> (case add_temp_credit_units Postgres 6 t1 (u ''h'') (pc_units ?c) of Inl _ \<Rightarrow> False
      | Inr (t2, p2) \<Rightarrow> map_option te_credit_units (map_of t2 (u ''h'')) = Some 50)" by code_simp
    with that show ?thesis by (auto split: sum.splits)
  qed
  have found: "find_card (\<lambda>x. x) ?cards (u ''hs-aaaa-bbbb-cccc-dddd'') = Inr (?d, example_card)" by code_simp
  let ?s1 = "to_phase 0 (Chosen ?cards ?d example_card) example_shop"
  let ?s2 = "to_phase 1 (Chosen ?cards ?d example_card) ?s1"
  let ?s3 = "(to_phase 0 (Marked ?cards ?d ?c) ?s2)\<lparr>sh_cards := AList.update ?d ?c ?cards\<rparr>"
  let ?s4 = "(to_phase 1 (Marked ?cards ?d ?c) ?s3)\<lparr>sh_cards := AList.update ?d ?c ?cards\<rparr>"
  let ?s5 = "(to_phase 0 (Credited ?cards ?d ?c) ?s4)\<lparr>sh_tokens := t1, sh_paid := ?d # sh_paid ?s4\<rparr>"
  let ?s6 = "(to_phase 1 (Credited ?cards ?d ?c) ?s5)\<lparr>sh_tokens := t2, sh_paid := ?d # sh_paid ?s5\<rparr>"
  have "?step example_shop ?s1"
    by (rule shop_step.choose [OF _ found]) (simp add: has_lock_def example_shop_def)
  moreover have "?step ?s1 ?s2"
  proof -
    have "has_lock (\<lambda>i. i) ?s1 1" by (simp add: has_lock_def to_phase_def example_shop_def)
    moreover have "find_card (\<lambda>x. x) (sh_cards ?s1) (u ''hs-aaaa-bbbb-cccc-dddd'') = Inr (?d, example_card)" by (simp add: found)
    ultimately have "?step ?s1 (to_phase 1 (Chosen (sh_cards ?s1) ?d example_card) ?s1)" by (rule shop_step.choose)
    then show ?thesis by simp
  qed
  moreover have "?step ?s2 ?s3" by (rule shop_step.mark [where pc = example_card]) (simp_all add: to_phase_def)
  moreover have "?step ?s3 ?s4" by (rule shop_step.mark [where pc = example_card]) (simp_all add: to_phase_def)
  moreover have "?step ?s4 ?s5"
    by (rule shop_step.credit [where data = ?cards and now = 5 and token_hash = "u ''h''" and credited = p1]) (simp_all add: to_phase_def t(1))
  moreover have "?step ?s5 ?s6"
    by (rule shop_step.credit [where data = ?cards and now = 6 and token_hash = "u ''h''" and credited = p2]) (simp_all add: to_phase_def t(2))
  ultimately have "?step\<^sup>*\<^sup>* example_shop ?s6" by (meson rtranclp.rtrancl_into_rtrancl rtranclp.rtrancl_refl)
  moreover have "sh_paid ?s6 = [?d, ?d]" by (simp add: example_shop_def to_phase_def)
  ultimately show ?thesis using t(3) by (intro exI [of _ ?s6] exI [of _ ?d]) simp
qed

end
