(* ===== verification/Verification.thy ===== *)
theory Verification
  imports Users Requests
begin

text \<open>
  What guards a registration: the codes sent by mail (app/email_verification.py) and the count of
  failed registrations of a client (app/registration_security.py). \<open>mac\<close> is HMAC-SHA-256 of a key
  and a text. Addresses and codes are ASCII as far as \<open>lower()\<close> and \<open>isdigit()\<close> are concerned.
\<close>

section \<open>Addresses\<close>

definition normalize_email :: "ustr \<Rightarrow> ustr result" where
  "normalize_email value =
     (let email = lower (strip value); local = takeWhile (\<lambda>c. c \<noteq> 64) email; domain = tl (dropWhile (\<lambda>c. c \<noteq> 64) email) in
      if 254 < length email \<or> count_list email 64 \<noteq> 1 then Inl (ValueError msg_email_invalid)
      else if local = [] \<or> 64 < length local \<or> domain = [] \<or> (\<exists>c \<in> set email. is_space c) then Inl (ValueError msg_email_invalid)
      else Inr email)"

definition email_domain :: "ustr \<Rightarrow> ustr" where
  "email_domain email = tl (dropWhile (\<lambda>c. c \<noteq> 64) email)"

text \<open>The domains an administrator enters, already split into a list.\<close>

definition is_domain_char :: "int \<Rightarrow> bool" where
  "is_domain_char c \<longleftrightarrow> is_alnum c \<or> c = 46 \<or> c = 45"

fun collect_domains :: "ustr list \<Rightarrow> ustr list \<Rightarrow> ustr list result" where
  "collect_domains [] acc = Inr acc"
| "collect_domains (item # items) acc =
     (let domain = dropWhile (\<lambda>c. c = 64) (lower (strip item)) in
      if domain = [] then collect_domains items acc
      else if 253 < length domain \<or> 46 \<notin> set domain \<or> (\<exists>c \<in> set domain. \<not> is_domain_char c)
      then Inl (ValueError (msg_domain_invalid @ domain))
      else collect_domains items (if domain \<in> set acc then acc else acc @ [domain]))"

definition normalize_domains :: "ustr list \<Rightarrow> ustr list result" where
  "normalize_domains items = (case collect_domains items [] of
     Inl e \<Rightarrow> Inl e
   | Inr domains \<Rightarrow> if domains = [] then Inl (ValueError msg_domain_none) else Inr (take 50 domains))"

section \<open>Verification codes\<close>

text \<open>What the functions read of the settings.\<close>

record mail_settings =
  mail_enabled :: bool
  mail_domains :: "ustr list"
  mail_ttl_minutes :: int
  mail_secret :: ustr
  mail_username :: ustr
  mail_authorization :: ustr

record mail_code =
  mc_digest :: ustr
  mc_expires_at :: int
  mc_attempts :: int
  mc_sent_at :: int

type_synonym mail_codes = "(ustr, mail_code) table"

definition validate_allowed_email :: "mail_settings \<Rightarrow> ustr \<Rightarrow> ustr result" where
  "validate_allowed_email st value = (case normalize_email value of
     Inl e \<Rightarrow> Inl e
   | Inr email \<Rightarrow> if email_domain email \<notin> set (mail_domains st) then Inl (ValueError msg_domain_refused) else Inr email)"

definition addressed :: "mail_settings \<Rightarrow> bool \<Rightarrow> ustr \<Rightarrow> ustr result" where
  "addressed st allow_unlisted value = (if allow_unlisted then normalize_email value else validate_allowed_email st value)"

definition storage_key :: "ustr \<Rightarrow> ustr \<Rightarrow> ustr \<Rightarrow> ustr" where
  "storage_key purpose scope email = purpose @ [58] @ scope @ [58] @ email"

definition mail_digest :: "(ustr \<Rightarrow> ustr \<Rightarrow> ustr) \<Rightarrow> mail_settings \<Rightarrow> ustr \<Rightarrow> ustr \<Rightarrow> ustr \<Rightarrow> ustr \<Rightarrow> ustr" where
  "mail_digest mac st purpose scope email code = mac (mail_secret st) (storage_key purpose scope email @ [58] @ code)"

text \<open>
  Sending: the code is stored, the mail is sent, and the code is taken back when that fails. \<open>draw\<close> is
  the random number below a million, \<open>sent\<close> what the mail server answers, and \<open>meanwhile\<close> what other
  requests do to the document while the mail is sent.
\<close>

definition new_mail_code ::
    "(ustr \<Rightarrow> ustr \<Rightarrow> ustr) \<Rightarrow> mail_settings \<Rightarrow> int \<Rightarrow> int \<Rightarrow> ustr \<Rightarrow> ustr \<Rightarrow> ustr \<Rightarrow> mail_code" where
  "new_mail_code mac st now draw purpose scope email =
     \<lparr>mc_digest = mail_digest mac st purpose scope email (show_padded 6 draw),
      mc_expires_at = now + mins (mail_ttl_minutes st), mc_attempts = 0, mc_sent_at = now\<rparr>"

definition send_qq_email :: "mail_settings \<Rightarrow> unit result \<Rightarrow> unit result" where
  "send_qq_email st sent =
     (if mail_username st = [] \<or> mail_authorization st = [] then Inl (RuntimeError msg_smtp_missing) else sent)"

definition send_registration_code ::
    "(ustr \<Rightarrow> ustr \<Rightarrow> ustr) \<Rightarrow> mail_settings \<Rightarrow> int \<Rightarrow> int \<Rightarrow> unit result \<Rightarrow> (mail_codes \<Rightarrow> mail_codes) \<Rightarrow>
     ustr \<Rightarrow> ustr \<Rightarrow> ustr \<Rightarrow> bool \<Rightarrow> mail_codes \<Rightarrow> mail_codes \<times> unit result" where
  "send_registration_code mac st now draw sent meanwhile email_value purpose scope allow_unlisted codes =
     (if \<not> mail_enabled st then (codes, Inl (ValueError msg_email_disabled))
      else case addressed st allow_unlisted email_value of
        Inl e \<Rightarrow> (codes, Inl e)
      | Inr email \<Rightarrow>
         (let key = storage_key purpose scope email;
              stored = meanwhile (AList.update key (new_mail_code mac st now draw purpose scope email) codes)
          in case send_qq_email st sent of
               Inl e \<Rightarrow> (AList.delete key stored, Inl e)
             | Inr _ \<Rightarrow> (stored, Inr ())))"

text \<open>The inner function \<open>consume\<close>: it changes the document also when it raises.\<close>

definition consume :: "int \<Rightarrow> ustr \<Rightarrow> ustr \<Rightarrow> ustr \<Rightarrow> mail_codes \<Rightarrow> mail_codes \<times> ustr result" where
  "consume now key digest email codes = (case map_of codes key of
     None \<Rightarrow> (codes, Inl (ValueError msg_email_code_expired))
   | Some entry \<Rightarrow>
       if mc_expires_at entry < now then (AList.delete key codes, Inl (ValueError msg_email_code_expired))
       else if 5 \<le> mc_attempts entry then (AList.delete key codes, Inl (ValueError msg_email_code_tries))
       else if mc_digest entry \<noteq> digest
       then (AList.update key (entry\<lparr>mc_attempts := mc_attempts entry + 1\<rparr>) codes, Inl (ValueError msg_email_code_wrong))
       else (AList.delete key codes, Inr email))"

text \<open>With files the document is written in any case; with PostgreSQL an exception rolls the
  transaction back, and with it the count of the attempts.\<close>

definition keep_document :: "backend \<Rightarrow> 's \<Rightarrow> 's \<times> 'a result \<Rightarrow> 's \<times> 'a result" where
  "keep_document b before after = (case after of
     (_, Inl e) \<Rightarrow> (case b of Postgres \<Rightarrow> (before, Inl e) | LocalFile \<Rightarrow> after)
   | _ \<Rightarrow> after)"

definition consume_registration_code ::
    "(ustr \<Rightarrow> ustr \<Rightarrow> ustr) \<Rightarrow> backend \<Rightarrow> mail_settings \<Rightarrow> int \<Rightarrow> ustr \<Rightarrow> ustr \<Rightarrow> ustr \<Rightarrow> ustr \<Rightarrow> bool \<Rightarrow>
     mail_codes \<Rightarrow> mail_codes \<times> ustr result" where
  "consume_registration_code mac b st now email_value code_value purpose scope allow_unlisted codes =
     (case addressed st allow_unlisted email_value of
        Inl e \<Rightarrow> (codes, Inl e)
      | Inr email \<Rightarrow>
         (let code = strip code_value in
          if length code \<noteq> 6 \<or> \<not> (\<forall>c \<in> set code. is_digit c) then (codes, Inl (ValueError msg_email_code_wrong))
          else keep_document b codes
            (consume now (storage_key purpose scope email) (mail_digest mac st purpose scope email code) email codes)))"

section \<open>Failed registrations\<close>

definition FAILURE_THRESHOLD :: int where "FAILURE_THRESHOLD = 5"
definition FAILURE_WINDOW_SECONDS :: int where "FAILURE_WINDOW_SECONDS = 10 * 60"
definition BLOCK_SECONDS :: int where "BLOCK_SECONDS = 15 * 60"
definition MAX_LOCAL_KEYS :: nat where "MAX_LOCAL_KEYS = 10000"

record failure_answer =
  fa_failures :: int
  fa_retry_after :: int
  fa_blocked_now :: bool

subsection \<open>In memory\<close>

text \<open>Times of the monotonic clock in microseconds, counted from its origin; 0 stands for never.\<close>

record failure_state =
  fs_failures :: int
  fs_last_failure :: int
  fs_blocked_until :: int

type_synonym failure_table = "(ustr, failure_state) table"

definition failures_of :: "ustr \<Rightarrow> int \<Rightarrow> failure_table \<Rightarrow> failure_state" where
  "failures_of key now fs =
     (let s = dict_get fs key \<lparr>fs_failures = 0, fs_last_failure = 0, fs_blocked_until = 0\<rparr>;
          s1 = (if fs_blocked_until s \<le> now then s\<lparr>fs_blocked_until := 0\<rparr> else s)
      in if secs FAILURE_WINDOW_SECONDS \<le> now - fs_last_failure s1 then s1\<lparr>fs_failures := 0\<rparr> else s1)"

text \<open>\<open>int(blocked_until - now + 0.999)\<close>.\<close>

definition local_retry :: "int \<Rightarrow> failure_state \<Rightarrow> int" where
  "local_retry now s = max 0 ((fs_blocked_until s - now + 999000) div 1000000)"

definition local_block_retry_after :: "ustr \<Rightarrow> int \<Rightarrow> failure_table \<Rightarrow> failure_table \<times> int" where
  "local_block_retry_after key now fs =
     (let s = failures_of key now fs in (AList.update key s fs, local_retry now s))"

definition evict_failures :: "int \<Rightarrow> failure_table \<Rightarrow> failure_table" where
  "evict_failures now fs =
     (if length fs \<le> MAX_LOCAL_KEYS then fs
      else let kept = filter (\<lambda>(_, s). \<not> (secs FAILURE_WINDOW_SECONDS \<le> now - fs_last_failure s \<and> fs_blocked_until s \<le> now)) fs
           in drop (length kept - MAX_LOCAL_KEYS) kept)"

definition local_add_failure :: "ustr \<Rightarrow> int \<Rightarrow> failure_table \<Rightarrow> failure_table \<times> failure_answer" where
  "local_add_failure key now fs =
     (let s = failures_of key now fs; retry = local_retry now s in
      if retry \<noteq> 0
      then (AList.update key s fs,
            \<lparr>fa_failures = int_or (fs_failures s) FAILURE_THRESHOLD, fa_retry_after = retry, fa_blocked_now = False\<rparr>)
      else let n = fs_failures s + 1; blocked = FAILURE_THRESHOLD \<le> n;
               s1 = s\<lparr>fs_failures := n, fs_last_failure := now\<rparr>;
               s2 = (if blocked then s1\<lparr>fs_blocked_until := now + secs BLOCK_SECONDS, fs_failures := 0\<rparr> else s1)
           in (evict_failures now (AList.update key s2 fs),
               \<lparr>fa_failures = (if blocked then FAILURE_THRESHOLD else n),
                fa_retry_after = (if blocked then BLOCK_SECONDS else 0), fa_blocked_now = blocked\<rparr>))"

definition local_reset_failures :: "ustr \<Rightarrow> failure_table \<Rightarrow> failure_table" where
  "local_reset_failures key fs = AList.delete key fs"

subsection \<open>On redis\<close>

text \<open>Per client a counter with the time it expires, and the time the block does. \<open>TTL\<close> rounds to
  the nearest second and is negative without the key.\<close>

record failure_keys =
  fk_count :: "(int \<times> int) option"
  fk_blocked :: "int option"

type_synonym failure_redis = "ustr \<Rightarrow> failure_keys"

definition redis_ttl :: "int \<Rightarrow> int option \<Rightarrow> int" where
  "redis_ttl now key = (case key of
     None \<Rightarrow> - 2
   | Some expires \<Rightarrow> if now < expires then (expires - now + 500000) div 1000000 else - 2)"

definition redis_block_retry :: "ustr \<Rightarrow> int \<Rightarrow> failure_redis \<Rightarrow> int" where
  "redis_block_retry key now r = max 0 (redis_ttl now (fk_blocked (r key)))"

definition redis_add_failure :: "ustr \<Rightarrow> int \<Rightarrow> failure_redis \<Rightarrow> failure_redis \<times> failure_answer" where
  "redis_add_failure key now r =
     (let k = r key; ttl = redis_ttl now (fk_blocked k) in
      if 0 < ttl then (r, \<lparr>fa_failures = FAILURE_THRESHOLD, fa_retry_after = ttl, fa_blocked_now = False\<rparr>)
      else let (n, expires) = (case fk_count k of
                 Some (n, expires) \<Rightarrow> if now < expires then (n + 1, expires) else (1, now + secs FAILURE_WINDOW_SECONDS)
               | None \<Rightarrow> (1, now + secs FAILURE_WINDOW_SECONDS))
           in if FAILURE_THRESHOLD \<le> n
              then (r(key := \<lparr>fk_count = None, fk_blocked = Some (now + secs BLOCK_SECONDS)\<rparr>),
                    \<lparr>fa_failures = n, fa_retry_after = BLOCK_SECONDS, fa_blocked_now = True\<rparr>)
              else (r(key := k\<lparr>fk_count := Some (n, expires)\<rparr>),
                    \<lparr>fa_failures = n, fa_retry_after = 0, fa_blocked_now = False\<rparr>))"

definition redis_reset_failures :: "ustr \<Rightarrow> failure_redis \<Rightarrow> failure_redis" where
  "redis_reset_failures key r = r(key := \<lparr>fk_count = None, fk_blocked = None\<rparr>)"

end
