(* ===== verification/Verification_Props.thy ===== *)
theory Verification_Props
  imports Verification
begin

text \<open>
  What the codes sent by mail and the count of failed registrations promise: with files a code is
  good for one use and five guesses, with PostgreSQL the guesses are not counted; and five failures
  within ten minutes block a client for a quarter of an hour, in memory as on redis.
\<close>

section \<open>Guessing a code\<close>

text \<open>A run of attempts on one address: the times and the codes entered.\<close>

fun try_codes ::
    "(ustr \<Rightarrow> ustr \<Rightarrow> ustr) \<Rightarrow> backend \<Rightarrow> mail_settings \<Rightarrow> ustr \<Rightarrow> ustr \<Rightarrow> ustr \<Rightarrow> bool \<Rightarrow> (int \<times> ustr) list \<Rightarrow>
     mail_codes \<Rightarrow> mail_codes \<times> ustr result list" where
  "try_codes mac b st address purpose scope unlisted [] codes = (codes, [])"
| "try_codes mac b st address purpose scope unlisted ((now, code) # tries) codes =
     (case consume_registration_code mac b st now address code purpose scope unlisted codes of
        (codes', r) \<Rightarrow> (case try_codes mac b st address purpose scope unlisted tries codes' of
           (codes'', rs) \<Rightarrow> (codes'', r # rs)))"

definition well_formed :: "ustr \<Rightarrow> bool" where
  "well_formed code \<longleftrightarrow> length (strip code) = 6 \<and> (\<forall>c \<in> set (strip code). is_digit c)"

definition guesses :: "(int \<times> ustr) list \<Rightarrow> int" where
  "guesses tries = int (length (filter (\<lambda>(_, code). well_formed code) tries))"

fun failed :: "'a result \<Rightarrow> bool" where
  "failed (Inl _) \<longleftrightarrow> True"
| "failed (Inr _) \<longleftrightarrow> False"

lemma guesses_simps [simp]: "guesses [] = 0" "guesses ((t, c) # ts) = (if well_formed c then 1 else 0) + guesses ts"
  by (simp_all add: guesses_def)

lemma length_try_codes: "try_codes mac b st a p s l tries codes = (codes', rs) \<Longrightarrow> length rs = length tries"
proof (induction tries arbitrary: codes rs)
  case (Cons x tries)
  then show ?case by (cases x) (auto split: prod.splits)
qed simp

text \<open>Without an entry nothing succeeds.\<close>

lemma no_entry_fails:
  assumes "addressed st l a = Inr email" "map_of codes (storage_key p s email) = None"
    "try_codes mac LocalFile st a p s l tries codes = (codes', rs)" "r \<in> set rs"
  shows "failed r"
  using assms(2-)
proof (induction tries arbitrary: codes rs)
  case (Cons x tries)
  obtain now code where x: "x = (now, code)" by (cases x)
  obtain e where c: "consume_registration_code mac LocalFile st now a code p s l codes = (codes, Inl e)"
    using Cons.prems(1) assms(1)
    by (cases "well_formed code") (auto simp: consume_registration_code_def consume_def keep_document_def well_formed_def Let_def)
  then obtain rs' where "try_codes mac LocalFile st a p s l tries codes = (codes', rs')" "rs = Inl e # rs'"
    using Cons.prems(2) by (auto simp: x split: prod.splits)
  with Cons.IH [OF Cons.prems(1)] Cons.prems(3) show ?case by auto
qed simp

text \<open>One attempt with files.\<close>

lemma local_attempt:
  assumes "addressed st l a = Inr email" "map_of codes (storage_key p s email) = Some e"
  defines "key \<equiv> storage_key p s email"
  shows "consume_registration_code mac LocalFile st now a code p s l codes =
    (if \<not> well_formed code then (codes, Inl (ValueError msg_email_code_wrong))
     else if mc_expires_at e < now then (AList.delete key codes, Inl (ValueError msg_email_code_expired))
     else if 5 \<le> mc_attempts e then (AList.delete key codes, Inl (ValueError msg_email_code_tries))
     else if mc_digest e \<noteq> mail_digest mac st p s email (strip code)
     then (AList.update key (e\<lparr>mc_attempts := mc_attempts e + 1\<rparr>) codes, Inl (ValueError msg_email_code_wrong))
     else (AList.delete key codes, Inr email))"
  using assms
  by (auto simp: consume_registration_code_def consume_def keep_document_def well_formed_def key_def Let_def)

text \<open>C16: with local files a code sent by mail is good for one use and five guesses. In any run of
  attempts on an address, one that succeeds enters the code that was sent, before it expires and
  before five guesses were made, and every later attempt of the run fails.\<close>

theorem guesses_limited:
  assumes "addressed st unlisted address = Inr email"
    and "map_of codes (storage_key purpose scope email) = Some e"
    and "try_codes mac LocalFile st address purpose scope unlisted tries codes = (codes', rs)"
    and "i < length tries" "rs ! i = Inr x"
  shows "x = email \<and> well_formed (snd (tries ! i)) \<and>
    mail_digest mac st purpose scope email (strip (snd (tries ! i))) = mc_digest e \<and>
    fst (tries ! i) \<le> mc_expires_at e \<and> mc_attempts e + guesses (take i tries) < 5 \<and>
    (\<forall>j < length tries. i < j \<longrightarrow> failed (rs ! j))"
  using assms(2-)
proof (induction tries arbitrary: codes rs e i)
  case (Cons y tries)
  let ?key = "storage_key purpose scope email"
  obtain now code where y: "y = (now, code)" by (cases y)
  obtain codes1 r where r: "consume_registration_code mac LocalFile st now address code purpose scope unlisted codes = (codes1, r)"
    by (cases "consume_registration_code mac LocalFile st now address code purpose scope unlisted codes")
  then obtain rs' where rest: "try_codes mac LocalFile st address purpose scope unlisted tries codes1 = (codes', rs')"
    and rs: "rs = r # rs'"
    using Cons.prems(2) by (auto simp: y split: prod.splits)
  have len: "length rs' = length tries" by (rule length_try_codes [OF rest])
  note step = r [unfolded local_attempt [OF assms(1) Cons.prems(1)]]
  have gone: "failed (rs' ! j)" if "map_of codes1 ?key = None" "j < length tries" for j
    using no_entry_fails [OF assms(1) that(1) rest] that(2) len nth_mem by metis
  show ?case
  proof (cases i)
    case 0
    then have "r = Inr x" using Cons.prems(4) rs by simp
    with step have *: "well_formed code" "\<not> mc_expires_at e < now" "mc_attempts e < 5" "x = email"
      "mc_digest e = mail_digest mac st purpose scope email (strip code)" "codes1 = AList.delete ?key codes"
      by (auto split: if_splits)
    then have "\<forall>j < length tries. failed (rs' ! j)" using gone by (simp add: delete_conv')
    then have "\<forall>j < length (y # tries). 0 < j \<longrightarrow> failed (rs ! j)" unfolding rs by (auto simp: nth_Cons')
    with * 0 show ?thesis by (simp add: y)
  next
    case (Suc k)
    have k: "k < length tries" "rs' ! k = Inr x" using Cons.prems(3,4) Suc rs by simp_all
    then have "map_of codes1 ?key \<noteq> None" using gone [of k] by (metis failed.simps(2))
    with step Cons.prems(1) have "(\<not> well_formed code \<and> codes1 = codes) \<or>
      (well_formed code \<and> codes1 = AList.update ?key (e\<lparr>mc_attempts := mc_attempts e + 1\<rparr>) codes)"
      by (auto simp: delete_conv' split: if_splits)
    then obtain e1 where e1: "map_of codes1 ?key = Some e1" "mc_digest e1 = mc_digest e" "mc_expires_at e1 = mc_expires_at e"
      "mc_attempts e1 = mc_attempts e + (if well_formed code then 1 else 0)"
      using Cons.prems(1) by (auto simp: update_conv')
    from Cons.IH [OF e1(1) rest k] show ?thesis
      by (auto simp: e1 y Suc rs nth_Cons' less_Suc_eq_0_disj)
  qed
qed simp

definition example_mail :: mail_settings where
  "example_mail = \<lparr>mail_enabled = True, mail_domains = [u ''qq.com''], mail_ttl_minutes = 10,
     mail_secret = u ''k'', mail_username = u ''m'', mail_authorization = u ''a''\<rparr>"

definition example_codes :: mail_codes where
  "example_codes = [(storage_key (u ''register'') [] (u ''ann@qq.com''),
     \<lparr>mc_digest = mail_digest (@) example_mail (u ''register'') [] (u ''ann@qq.com'') (u ''123456''),
      mc_expires_at = mins 10, mc_attempts = 0, mc_sent_at = 0\<rparr>)]"

definition example_tries :: "(int \<times> ustr) list" where
  "example_tries = [(secs 1, u ''000001''), (secs 2, u ''12345''), (secs 3, u '' 123456 ''), (secs 4, u ''123456'')]"

theorem guesses_limited_witness:
  "\<exists>codes rs. try_codes (@) LocalFile example_mail (u ''ann@qq.com'') (u ''register'') [] False example_tries example_codes = (codes, rs) \<and>
     rs ! 2 = Inr (u ''ann@qq.com'') \<and> failed (rs ! 3) \<and> guesses (take 2 example_tries) < 5"
proof -
  let ?key = "storage_key (u ''register'') [] (u ''ann@qq.com'')"
  obtain codes rs where run: "try_codes (@) LocalFile example_mail (u ''ann@qq.com'') (u ''register'') [] False example_tries example_codes = (codes, rs)"
    by (cases "try_codes (@) LocalFile example_mail (u ''ann@qq.com'') (u ''register'') [] False example_tries example_codes")
  have "snd (try_codes (@) LocalFile example_mail (u ''ann@qq.com'') (u ''register'') [] False example_tries example_codes) ! 2
      = Inr (u ''ann@qq.com'')" by code_simp
  with run have two: "rs ! 2 = Inr (u ''ann@qq.com'')" by simp
  obtain e where e: "map_of example_codes ?key = Some e" "mc_attempts e = 0"
    by (simp add: example_codes_def)
  have ok: "addressed example_mail False (u ''ann@qq.com'') = Inr (u ''ann@qq.com'')" by code_simp
  have "2 < length example_tries" "3 < length example_tries" by (simp_all add: example_tries_def)
  with guesses_limited [OF ok e(1) run _ two] e(2) run two show ?thesis by auto
qed

text \<open>
  With PostgreSQL the attempt that fails is rolled back, its count too: whatever was guessed before,
  the right code is accepted until it expires.
\<close>

lemma postgres_failed_attempt:
  "consume_registration_code mac Postgres st now a code p s l codes = (codes', Inl e) \<Longrightarrow> codes' = codes"
  by (auto simp: consume_registration_code_def keep_document_def Let_def split: sum.splits if_splits prod.splits)

theorem postgres_guesses_unlimited:
  assumes "try_codes mac Postgres st address purpose scope unlisted tries codes = (codes', rs)" "\<forall>r \<in> set rs. failed r"
  shows "codes' = codes"
  using assms
proof (induction tries arbitrary: codes rs)
  case (Cons y tries)
  obtain now code where y: "y = (now, code)" by (cases y)
  obtain codes1 r where r: "consume_registration_code mac Postgres st now address code purpose scope unlisted codes = (codes1, r)"
    by (cases "consume_registration_code mac Postgres st now address code purpose scope unlisted codes")
  then obtain rs' where rest: "try_codes mac Postgres st address purpose scope unlisted tries codes1 = (codes', rs')"
    and rs: "rs = r # rs'"
    using Cons.prems(1) by (auto simp: y split: prod.splits)
  from Cons.prems(2) rs obtain e where "r = Inl e" by (cases r) auto
  with r have "codes1 = codes" by (simp add: postgres_failed_attempt)
  with Cons.IH [OF rest] Cons.prems(2) rs show ?case by simp
qed simp

text \<open>The keys of different requests differ: neither a purpose nor a scope has a colon.\<close>

lemma before_colon: "58 \<notin> set p \<Longrightarrow> takeWhile (\<lambda>c. c \<noteq> 58) (p @ 58 # x) = p \<and> dropWhile (\<lambda>c. c \<noteq> 58) (p @ 58 # x) = 58 # x"
  by (induction p) auto

lemma storage_key_inj:
  assumes "storage_key p s m = storage_key p' s' m'" "58 \<notin> set p \<union> set p' \<union> set s \<union> set s'"
  shows "p = p' \<and> s = s' \<and> m = m'"
proof -
  have *: "p = p' \<and> x = x'" if "p @ 58 # x = p' @ (58 :: int) # x'" "58 \<notin> set p" "58 \<notin> set p'" for p p' x x'
    using before_colon [OF that(2), of x] before_colon [OF that(3), of x'] that(1) by (metis list.inject)
  from assms *[of p "s @ 58 # m" p' "s' @ 58 # m'"] have "p = p'" "s @ 58 # m = s' @ 58 # m'" by (simp_all add: storage_key_def)
  with assms(2) *[of s m s' m'] show ?thesis by simp
qed

section \<open>Failed registrations\<close>

text \<open>
  What the two counts share. \<open>counted key since n\<close>: \<open>n\<close> failures count since that time;
  \<open>blocked key until\<close>: the client is blocked until that time; \<open>has_room\<close>: the table need not be
  evicted. Within half a second of its end a block may no longer show.
\<close>

locale failure_guard =
  fixes record_failure :: "ustr \<Rightarrow> int \<Rightarrow> 's \<Rightarrow> 's \<times> failure_answer"
    and retry_after :: "ustr \<Rightarrow> int \<Rightarrow> 's \<Rightarrow> 's \<times> int"
    and counted :: "ustr \<Rightarrow> int \<Rightarrow> int \<Rightarrow> 's \<Rightarrow> bool"
    and blocked :: "ustr \<Rightarrow> int \<Rightarrow> 's \<Rightarrow> bool"
    and fresh :: "ustr \<Rightarrow> 's \<Rightarrow> bool"
  assumes first_failure: "fresh key s \<Longrightarrow> 0 \<le> now \<Longrightarrow> counted key now 1 (fst (record_failure key now s))"
    and next_failure: "counted key since n s \<Longrightarrow> n < 4 \<Longrightarrow> since \<le> now \<Longrightarrow> now < since + secs 600 \<Longrightarrow>
      counted key since (n + 1) (fst (record_failure key now s))"
    and fifth_failure: "counted key since 4 s \<Longrightarrow> since \<le> now \<Longrightarrow> now < since + secs 600 \<Longrightarrow>
      blocked key (now + secs 900) (fst (record_failure key now s)) \<and> fa_blocked_now (snd (record_failure key now s))"
    and block_shows: "blocked key until s \<Longrightarrow> now + 500000 < until \<Longrightarrow> 0 < snd (retry_after key now s)"
    and block_stays: "blocked key until s \<Longrightarrow> now + 500000 < until \<Longrightarrow>
      blocked key until (fst (retry_after key now s)) \<and> blocked key until (fst (record_failure key now s))"
begin

fun fail_at :: "ustr \<Rightarrow> int list \<Rightarrow> 's \<Rightarrow> 's" where
  "fail_at key [] s = s"
| "fail_at key (t # ts) s = fail_at key ts (fst (record_failure key t s))"

lemma counted_run:
  "counted key since n s \<Longrightarrow> n + int (length ts) \<le> 4 \<Longrightarrow> \<forall>t \<in> set ts. since \<le> t \<and> t < since + secs 600 \<Longrightarrow>
   counted key since (n + int (length ts)) (fail_at key ts s)"
proof (induction ts arbitrary: n s)
  case (Cons t ts)
  from next_failure [OF Cons.prems(1), of t] Cons.prems(2,3)
  have "counted key since (n + 1) (fst (record_failure key t s))" by simp
  from Cons.IH [OF this] Cons.prems(2,3) show ?case by (simp add: algebra_simps)
qed simp

lemma fail_at_append: "fail_at key (ts @ us) s = fail_at key us (fail_at key ts s)"
  by (induction ts arbitrary: s) simp_all

lemma five_failures:
  assumes "fresh key s" "0 \<le> t1" "sorted [t1, t2, t3, t4, t5]" "t5 < t1 + secs 600"
  shows "blocked key (t5 + secs 900) (fail_at key [t1, t2, t3, t4, t5] s)"
proof -
  let ?s1 = "fst (record_failure key t1 s)"
  from counted_run [OF first_failure [OF assms(1,2)], of "[t2, t3, t4]"] assms(3,4)
  have "counted key t1 4 (fail_at key [t2, t3, t4] ?s1)" by simp
  with fifth_failure [OF this, of t5] assms(3,4) show ?thesis by simp
qed

text \<open>A block holds whatever is asked or recorded meanwhile.\<close>

lemma block_holds:
  "blocked key until s \<Longrightarrow> \<forall>t \<in> set ts. t + 500000 < until \<Longrightarrow> blocked key until (fail_at key ts s)"
  by (induction ts arbitrary: s) (simp_all add: block_stays)

end

definition local_counted :: "ustr \<Rightarrow> int \<Rightarrow> int \<Rightarrow> failure_table \<Rightarrow> bool" where
  "local_counted key since n fs \<longleftrightarrow> length fs \<le> MAX_LOCAL_KEYS \<and> 0 < n \<and> (\<exists>s. map_of fs key = Some s \<and> fs_failures s = n \<and>
     since \<le> fs_last_failure s \<and> fs_blocked_until s = 0 \<and> 0 \<le> since)"

definition local_blocked :: "ustr \<Rightarrow> int \<Rightarrow> failure_table \<Rightarrow> bool" where
  "local_blocked key until fs \<longleftrightarrow> length fs \<le> MAX_LOCAL_KEYS \<and> (\<exists>s. map_of fs key = Some s \<and> fs_blocked_until s = until)"

definition local_fresh :: "ustr \<Rightarrow> failure_table \<Rightarrow> bool" where
  "local_fresh key fs \<longleftrightarrow> length fs < MAX_LOCAL_KEYS \<and> map_of fs key = None"

definition redis_counted :: "ustr \<Rightarrow> int \<Rightarrow> int \<Rightarrow> failure_redis \<Rightarrow> bool" where
  "redis_counted key since n r \<longleftrightarrow> fk_count (r key) = Some (n, since + secs 600) \<and> fk_blocked (r key) = None"

definition redis_blocked :: "ustr \<Rightarrow> int \<Rightarrow> failure_redis \<Rightarrow> bool" where
  "redis_blocked key until r \<longleftrightarrow> fk_blocked (r key) = Some until"

definition redis_fresh :: "ustr \<Rightarrow> failure_redis \<Rightarrow> bool" where
  "redis_fresh key r \<longleftrightarrow> r key = \<lparr>fk_count = None, fk_blocked = None\<rparr>"

lemma length_update_known: "map_of xs k = Some v \<Longrightarrow> length (AList.update k v' xs) = length xs"
  by (induction xs) (auto split: if_splits)

lemma length_update_new: "length (AList.update k v xs) \<le> Suc (length xs)"
  by (induction xs) auto

lemma evict_none: "length fs \<le> MAX_LOCAL_KEYS \<Longrightarrow> evict_failures now fs = fs"
  by (simp add: evict_failures_def)

lemma evict_new: "length fs < MAX_LOCAL_KEYS \<Longrightarrow> evict_failures now (AList.update key v fs) = AList.update key v fs"
  using length_update_new [of key v fs] by (intro evict_none) simp

lemma local_first:
  assumes "local_fresh key fs" "0 \<le> now"
  shows "fst (local_add_failure key now fs) =
    AList.update key \<lparr>fs_failures = 1, fs_last_failure = now, fs_blocked_until = 0\<rparr> fs"
  using assms
  by (simp add: local_fresh_def local_add_failure_def failures_of_def local_retry_def dict_get_def FAILURE_THRESHOLD_def
    evict_new Let_def)

lemma local_again:
  assumes "map_of fs key = Some s" "length fs \<le> MAX_LOCAL_KEYS" "fs_blocked_until s = 0" "0 \<le> now"
    "now < fs_last_failure s + secs 600"
  shows "local_add_failure key now fs =
    (if fs_failures s < 4
     then (AList.update key (s\<lparr>fs_failures := fs_failures s + 1, fs_last_failure := now\<rparr>) fs,
           \<lparr>fa_failures = fs_failures s + 1, fa_retry_after = 0, fa_blocked_now = False\<rparr>)
     else (AList.update key (s\<lparr>fs_failures := 0, fs_last_failure := now, fs_blocked_until := now + secs 900\<rparr>) fs,
           \<lparr>fa_failures = 5, fa_retry_after = 900, fa_blocked_now = True\<rparr>))"
proof -
  have "failures_of key now fs = s" using assms by (simp add: failures_of_def dict_get_def FAILURE_WINDOW_SECONDS_def)
  moreover have "local_retry now s = 0" using assms(3,4) by (simp add: local_retry_def)
  moreover have "evict_failures now (AList.update key v fs) = AList.update key v fs" for v
    using assms(1,2) by (intro evict_none) (simp add: length_update_known)
  ultimately show ?thesis
    by (cases s) (simp add: local_add_failure_def FAILURE_THRESHOLD_def BLOCK_SECONDS_def Let_def)
qed

interpretation local_guard: failure_guard local_add_failure local_block_retry_after local_counted local_blocked local_fresh
proof
  fix key :: ustr and fs :: failure_table and now since n until :: int
  show "local_fresh key fs \<Longrightarrow> 0 \<le> now \<Longrightarrow> local_counted key now 1 (fst (local_add_failure key now fs))"
    by (simp add: local_first local_counted_def update_conv')
      (simp add: local_fresh_def order_trans [OF length_update_new] Suc_le_eq)
  show "local_counted key since (n + 1) (fst (local_add_failure key now fs))"
    if "local_counted key since n fs" "n < 4" "since \<le> now" "now < since + secs 600"
  proof -
    from that(1) obtain s where s: "map_of fs key = Some s" "length fs \<le> MAX_LOCAL_KEYS" "fs_blocked_until s = 0"
      "fs_failures s = n" "since \<le> fs_last_failure s" "0 \<le> since" "0 < n" by (auto simp: local_counted_def)
    with local_again [OF s(1-3), of now] that(2-4) show ?thesis
      by (simp add: local_counted_def length_update_known update_conv')
  qed
  show "local_blocked key (now + secs 900) (fst (local_add_failure key now fs)) \<and> fa_blocked_now (snd (local_add_failure key now fs))"
    if "local_counted key since 4 fs" "since \<le> now" "now < since + secs 600"
  proof -
    from that(1) obtain s where s: "map_of fs key = Some s" "length fs \<le> MAX_LOCAL_KEYS" "fs_blocked_until s = 0"
      "fs_failures s = 4" "since \<le> fs_last_failure s" "0 \<le> since" by (auto simp: local_counted_def)
    with local_again [OF s(1-3), of now] that(2,3) show ?thesis
      by (simp add: local_blocked_def length_update_known update_conv')
  qed
  assume "local_blocked key until fs" and until: "now + 500000 < until"
  then obtain s where s: "map_of fs key = Some s" "length fs \<le> MAX_LOCAL_KEYS" "fs_blocked_until s = until"
    by (auto simp: local_blocked_def)
  let ?s = "failures_of key now fs"
  have u: "fs_blocked_until ?s = until" using s until by (simp add: failures_of_def dict_get_def Let_def)
  then have r: "0 < local_retry now ?s" using until by (simp add: local_retry_def pos_imp_zdiv_pos_iff)
  then show "0 < snd (local_block_retry_after key now fs)" by (simp add: local_block_retry_after_def Let_def)
  from u r s show "local_blocked key until (fst (local_block_retry_after key now fs)) \<and> local_blocked key until (fst (local_add_failure key now fs))"
    by (simp add: local_block_retry_after_def local_add_failure_def local_blocked_def length_update_known update_conv' Let_def)
qed

definition redis_retry :: "ustr \<Rightarrow> int \<Rightarrow> failure_redis \<Rightarrow> failure_redis \<times> int" where
  "redis_retry key now r = (r, redis_block_retry key now r)"

interpretation redis_guard: failure_guard redis_add_failure redis_retry redis_counted redis_blocked redis_fresh
proof
  fix key :: ustr and r :: failure_redis and now since n until :: int
  note defs = redis_fresh_def redis_counted_def redis_blocked_def redis_add_failure_def redis_retry_def
    redis_block_retry_def redis_ttl_def FAILURE_THRESHOLD_def FAILURE_WINDOW_SECONDS_def BLOCK_SECONDS_def Let_def
  show "redis_fresh key r \<Longrightarrow> 0 \<le> now \<Longrightarrow> redis_counted key now 1 (fst (redis_add_failure key now r))"
    by (simp add: defs)
  show "redis_counted key since n r \<Longrightarrow> n < 4 \<Longrightarrow> since \<le> now \<Longrightarrow> now < since + secs 600 \<Longrightarrow>
      redis_counted key since (n + 1) (fst (redis_add_failure key now r))"
    by (simp add: defs)
  show "redis_counted key since 4 r \<Longrightarrow> since \<le> now \<Longrightarrow> now < since + secs 600 \<Longrightarrow>
      redis_blocked key (now + secs 900) (fst (redis_add_failure key now r)) \<and> fa_blocked_now (snd (redis_add_failure key now r))"
    by (simp add: defs)
  assume b: "redis_blocked key until r" "now + 500000 < until"
  then have "1000000 \<le> until - now + 500000" by simp
  then have "0 < (until - now + 500000) div 1000000" by (simp add: pos_imp_zdiv_pos_iff)
  with b have "0 < redis_ttl now (fk_blocked (r key))" by (simp add: defs)
  with b show "0 < snd (redis_retry key now r)" "redis_blocked key until (fst (redis_retry key now r)) \<and>
      redis_blocked key until (fst (redis_add_failure key now r))"
    by (simp_all add: redis_retry_def redis_block_retry_def redis_add_failure_def redis_blocked_def Let_def)
qed



end
