(* ===== verification/Sessions.thy ===== *)
theory Sessions
  imports Users Requests
begin

text \<open>
  Who a request comes from: the sessions of administrators (app/admin_auth.py) and of users
  (app/client_auth.py), the administrator's password, and the key that reads the accounts
  (app/account_access.py). Times are microseconds. \<open>hash\<close> is SHA-256, \<open>kdf\<close> PBKDF2 of a password, a
  salt and a number of iterations; base64 is the pair \<open>enc\<close>, \<open>dec\<close>. Identifiers of sessions are draws
  of \<open>secrets\<close>.
\<close>

section \<open>The administrator's password\<close>

definition validate_username :: "ustr \<Rightarrow> ustr result" where
  "validate_username username =
     (let value = strip username in
      if length value < 3 \<or> 64 < length value then Inl (ValueError msg_admin_name_length)
      else if \<exists>c \<in> set value. is_space c \<or> c < 33 then Inl (ValueError msg_admin_name_chars)
      else Inr value)"

definition validate_password :: "ustr \<Rightarrow> ustr result" where
  "validate_password password =
     (if length password < 8 \<or> 256 < length password then Inl (ValueError msg_admin_password_length) else Inr password)"

definition PASSWORD_ITERATIONS :: int where "PASSWORD_ITERATIONS = 600000"

text \<open>Fields are joined and split at the dollar sign, 36; a split makes at most four parts.\<close>

definition dollar_join :: "ustr \<Rightarrow> ustr \<Rightarrow> ustr \<Rightarrow> ustr \<Rightarrow> ustr" where
  "dollar_join a b c d = a @ [36] @ b @ [36] @ c @ [36] @ d"

fun cut :: "int \<Rightarrow> ustr \<Rightarrow> (ustr \<times> ustr) option" where
  "cut sep [] = None"
| "cut sep (c # cs) = (if c = sep then Some ([], cs) else map_option (apfst ((#) c)) (cut sep cs))"

definition dollar_split :: "ustr \<Rightarrow> (ustr \<times> ustr \<times> ustr \<times> ustr) option" where
  "dollar_split s = (case cut 36 s of
     None \<Rightarrow> None
   | Some (a, s1) \<Rightarrow> (case cut 36 s1 of
       None \<Rightarrow> None
     | Some (b, s2) \<Rightarrow> map_option (\<lambda>(c, d). (a, b, c, d)) (cut 36 s2)))"

definition hash_password ::
    "(ustr \<Rightarrow> ustr \<Rightarrow> int \<Rightarrow> ustr) \<Rightarrow> (ustr \<Rightarrow> ustr) \<Rightarrow> ustr \<Rightarrow> int \<Rightarrow> ustr \<Rightarrow> ustr result" where
  "hash_password kdf enc salt iterations password = (case validate_password password of
     Inl e \<Rightarrow> Inl e
   | Inr value \<Rightarrow> Inr (dollar_join (u ''pbkdf2_sha256'') (show_int iterations) (enc salt) (enc (kdf value salt iterations))))"

definition verify_password ::
    "(ustr \<Rightarrow> ustr \<Rightarrow> int \<Rightarrow> ustr) \<Rightarrow> (ustr \<Rightarrow> ustr option) \<Rightarrow> ustr \<Rightarrow> ustr \<Rightarrow> bool" where
  "verify_password kdf dec password encoded = (case dollar_split encoded of
     None \<Rightarrow> False
   | Some (algorithm, iterations_text, salt_text, digest_text) \<Rightarrow>
       algorithm = u ''pbkdf2_sha256'' \<and>
       (case py_int iterations_text of
          None \<Rightarrow> False
        | Some iterations \<Rightarrow> 100000 \<le> iterations \<and> iterations \<le> 2000000 \<and>
            (case (dec salt_text, dec digest_text) of
               (Some salt, Some expected) \<Rightarrow> kdf password salt iterations = expected
             | _ \<Rightarrow> False)))"

section \<open>Sessions in memory\<close>

text \<open>Each session with the time it expires and whose it is, oldest first.\<close>

type_synonym session_table = "(ustr, int \<times> ustr) table"

definition SESSION_TTL_SECONDS :: int where "SESSION_TTL_SECONDS = 12 * 60 * 60"
definition SESSION_LIMIT :: nat where "SESSION_LIMIT = 50000"

text \<open>Administrators.\<close>

definition prune_admin :: "int \<Rightarrow> session_table \<Rightarrow> session_table" where
  "prune_admin now ss = filter (\<lambda>(_, expires_at, _). \<not> expires_at \<le> now) ss"

definition create_session :: "ustr \<Rightarrow> int \<Rightarrow> ustr \<Rightarrow> session_table \<Rightarrow> session_table" where
  "create_session session_id now username ss =
     AList.update session_id (now + secs SESSION_TTL_SECONDS, username) (prune_admin now ss)"

definition session_username :: "int \<Rightarrow> ustr \<Rightarrow> session_table \<Rightarrow> session_table \<times> ustr option" where
  "session_username now session_id ss =
     (if session_id = [] then (ss, None)
      else let ss1 = prune_admin now ss in
        case map_of ss1 session_id of
          None \<Rightarrow> (ss1, None)
        | Some (expires_at, username) \<Rightarrow>
            (AList.update session_id (now + secs SESSION_TTL_SECONDS, username) ss1,
             if now < expires_at then Some username else None))"

definition delete_session :: "ustr \<Rightarrow> session_table \<Rightarrow> session_table" where
  "delete_session session_id ss = (if session_id = [] then ss else AList.delete session_id ss)"

text \<open>\<open>hmac.compare_digest\<close> on texts refuses any that is not ASCII.\<close>

definition compare_digest :: "ustr \<Rightarrow> ustr \<Rightarrow> bool result" where
  "compare_digest a b = (if \<exists>c \<in> set (a @ b). 128 \<le> c then Inl TypeError else Inr (a = b))"

fun delete_sessions_of :: "ustr \<Rightarrow> ustr list \<Rightarrow> session_table \<Rightarrow> session_table \<times> unit result" where
  "delete_sessions_of username [] ss = (ss, Inr ())"
| "delete_sessions_of username (i # ids) ss = (case map_of ss i of
     None \<Rightarrow> delete_sessions_of username ids ss
   | Some (_, owner) \<Rightarrow> (case compare_digest owner username of
       Inl e \<Rightarrow> (ss, Inl e)
     | Inr same \<Rightarrow> delete_sessions_of username ids (if same then AList.delete i ss else ss)))"

definition delete_user_sessions :: "ustr \<Rightarrow> session_table \<Rightarrow> session_table \<times> unit result" where
  "delete_user_sessions username ss = delete_sessions_of username (map fst ss) ss"

section \<open>Sessions of users\<close>

definition prune_client :: "int \<Rightarrow> session_table \<Rightarrow> session_table" where
  "prune_client now ss = (let kept = prune_admin now ss in drop (length kept - SESSION_LIMIT) kept)"

definition local_create :: "ustr \<Rightarrow> int \<Rightarrow> ustr \<Rightarrow> session_table \<Rightarrow> session_table" where
  "local_create session_id now token_hash ss =
     AList.update session_id (now + secs SESSION_TTL_SECONDS, token_hash) (prune_client now ss)"

definition local_lookup :: "int \<Rightarrow> ustr \<Rightarrow> session_table \<Rightarrow> session_table \<times> ustr option" where
  "local_lookup now session_id ss =
     (let ss1 = prune_client now ss in
      case map_of ss1 session_id of
        None \<Rightarrow> (ss1, None)
      | Some (expires_at, token_hash) \<Rightarrow>
          if expires_at \<le> now then (ss1, None)
          else (AList.update session_id (now + secs SESSION_TTL_SECONDS, token_hash) ss1, Some token_hash))"

text \<open>On redis a key per session, by the hash of its identifier, with the time it expires.\<close>

type_synonym session_redis = "ustr \<Rightarrow> (int \<times> ustr) option"

definition redis_create :: "(ustr \<Rightarrow> ustr) \<Rightarrow> ustr \<Rightarrow> int \<Rightarrow> ustr \<Rightarrow> session_redis \<Rightarrow> session_redis" where
  "redis_create hash session_id now token_hash r = r(hash session_id \<mapsto> (now + secs SESSION_TTL_SECONDS, token_hash))"

definition redis_lookup :: "(ustr \<Rightarrow> ustr) \<Rightarrow> int \<Rightarrow> ustr \<Rightarrow> session_redis \<Rightarrow> session_redis \<times> ustr option" where
  "redis_lookup hash now session_id r = (case r (hash session_id) of
     None \<Rightarrow> (r, None)
   | Some (expires_at, value) \<Rightarrow>
       if expires_at \<le> now \<or> value = [] then (r, None)
       else (r(hash session_id \<mapsto> (now + secs SESSION_TTL_SECONDS, value)), Some value))"

text \<open>
  Redis when the queue has a client, memory when it has none or a command fails: \<open>link\<close> is what the
  client is worth at the time of the call.
\<close>

datatype redis_link = NoClient | Failing | Working

record client_sessions =
  cs_memory :: session_table
  cs_redis :: session_redis

definition create_client_session ::
    "(ustr \<Rightarrow> ustr) \<Rightarrow> redis_link \<Rightarrow> ustr \<Rightarrow> int \<Rightarrow> ustr \<Rightarrow> client_sessions \<Rightarrow> client_sessions" where
  "create_client_session hash link session_id now token_hash cs =
     (if link = Working then cs\<lparr>cs_redis := redis_create hash session_id now token_hash (cs_redis cs)\<rparr>
      else cs\<lparr>cs_memory := local_create session_id now token_hash (cs_memory cs)\<rparr>)"

definition client_session_token_hash ::
    "(ustr \<Rightarrow> ustr) \<Rightarrow> redis_link \<Rightarrow> int \<Rightarrow> ustr \<Rightarrow> client_sessions \<Rightarrow> client_sessions \<times> ustr option" where
  "client_session_token_hash hash link now session_id cs =
     (if session_id = [] then (cs, None)
      else if link = Working
      then (case redis_lookup hash now session_id (cs_redis cs) of (r, x) \<Rightarrow> (cs\<lparr>cs_redis := r\<rparr>, x))
      else (case local_lookup now session_id (cs_memory cs) of (m, x) \<Rightarrow> (cs\<lparr>cs_memory := m\<rparr>, x)))"

definition delete_client_session :: "(ustr \<Rightarrow> ustr) \<Rightarrow> redis_link \<Rightarrow> ustr \<Rightarrow> client_sessions \<Rightarrow> client_sessions" where
  "delete_client_session hash link session_id cs =
     (if session_id = [] then cs
      else let cs1 = cs\<lparr>cs_memory := AList.delete session_id (cs_memory cs)\<rparr>
           in if link = Working then cs1\<lparr>cs_redis := (cs_redis cs1)(hash session_id := None)\<rparr> else cs1)"

section \<open>The key to the accounts\<close>

record access_key =
  ak_hash :: ustr
  ak_hint :: ustr
  ak_enabled :: bool

definition KEY_PREFIX :: ustr where "KEY_PREFIX = u ''acct_''"

text \<open>\<open>draw\<close> is the result of \<open>token_urlsafe(32)\<close>; the text of the key is shown once.\<close>

definition generate_key :: "(ustr \<Rightarrow> ustr) \<Rightarrow> ustr \<Rightarrow> access_key \<times> ustr" where
  "generate_key hash draw =
     (let raw_key = KEY_PREFIX @ draw in
      (\<lparr>ak_hash = hash raw_key, ak_hint = take 9 raw_key @ u ''...'' @ last_n 4 raw_key, ak_enabled = True\<rparr>, raw_key))"

definition starts_with :: "ustr \<Rightarrow> ustr \<Rightarrow> bool" where
  "starts_with prefix s \<longleftrightarrow> take (length prefix) s = prefix"

definition verify_key :: "(ustr \<Rightarrow> ustr) \<Rightarrow> access_key \<Rightarrow> ustr \<Rightarrow> bool" where
  "verify_key hash k value =
     (let supplied = strip value
      in ak_enabled k \<and> starts_with KEY_PREFIX supplied \<and> ak_hash k \<noteq> [] \<and> hash supplied = ak_hash k)"

definition set_key_enabled :: "bool \<Rightarrow> access_key \<Rightarrow> access_key result" where
  "set_key_enabled enabled k =
     (if enabled \<and> ak_hash k = [] then Inl (ValueError msg_key_missing) else Inr (k\<lparr>ak_enabled := enabled\<rparr>))"

definition revoke_key :: access_key where
  "revoke_key = \<lparr>ak_hash = [], ak_hint = [], ak_enabled = False\<rparr>"

record key_status =
  ks_configured :: bool
  ks_enabled :: bool
  ks_hint :: ustr

definition key_status :: "access_key \<Rightarrow> key_status" where
  "key_status k = \<lparr>ks_configured = (ak_hash k \<noteq> []), ks_enabled = (ak_enabled k \<and> ak_hash k \<noteq> []), ks_hint = ak_hint k\<rparr>"

end
