(* ===== verification/Access.thy ===== *)
theory Access
  imports Task_Submission Codes Verification Sessions
begin

text \<open>
  Who may do what (app/main.py): how a request is admitted, by token, by the session of a user or by
  that of an administrator, and the routes on which users register, log in, change their passwords
  and redeem cards. Parsing a request, the cookies' attributes, the record of the user's activity and
  the figures of the answers are left out; so are the counts of the rate limits, whose answer is an
  argument here (their windows are in the theory Requests).
\<close>

section \<open>The site\<close>

record site_config =
  sc_api_token :: ustr
  sc_admin_username :: ustr
  sc_admin_password_hash :: ustr
  sc_abuse_detection :: bool
  sc_mail :: mail_settings
  sc_access_key :: access_key

record site =
  si_world :: world
  si_config :: site_config
  si_admins :: session_table
  si_clients :: client_sessions
  si_mail :: mail_codes
  si_invitations :: invitations
  si_cards :: card_table
  si_failures :: failure_table
  si_failure_keys :: failure_redis

text \<open>
  What a request is served with beyond the surroundings of a task: the state of redis, the key
  derivations and HMAC, the draws for a session, a salt, a user and a mail code, the answer of the
  mail server, the monotonic clock, the answers of the rate limits by their scope, and what other
  processes do to the users while a password is hashed.
\<close>

record auth_env =
  au_env :: env
  au_link :: redis_link
  au_kdf :: "ustr \<Rightarrow> ustr \<Rightarrow> ustr"
  au_admin_kdf :: "ustr \<Rightarrow> ustr \<Rightarrow> int \<Rightarrow> ustr"
  au_enc :: "ustr \<Rightarrow> ustr"
  au_dec :: "ustr \<Rightarrow> ustr option"
  au_mac :: "ustr \<Rightarrow> ustr \<Rightarrow> ustr"
  au_session :: ustr
  au_salt :: ustr
  au_user_id :: ustr
  au_mail_draw :: int
  au_sent :: "unit result"
  au_clock :: int
  au_rate :: "ustr \<Rightarrow> unit result"
  au_others :: "user_table \<Rightarrow> user_table"

record request =
  hr_api_token :: ustr
  hr_authorization :: ustr
  hr_method :: ustr
  hr_path :: ustr
  hr_portal :: ustr
  hr_fetch_site :: ustr
  hr_origin :: ustr
  hr_scheme :: ustr
  hr_forwarded_proto :: ustr
  hr_host :: ustr
  hr_netloc :: ustr
  hr_client_cookie :: ustr
  hr_admin_cookie :: ustr
  hr_client :: ustr

definition on_site :: "(world, 'a) action \<Rightarrow> (site, 'a) action" where
  "on_site m s = (case m (si_world s) of (w, r) \<Rightarrow> (s\<lparr>si_world := w\<rparr>, r))"

definition on_people :: "(user_world \<Rightarrow> (user_world \<times> 'a) result) \<Rightarrow> (world, 'a) action" where
  "on_people = on_part (\<lambda>w. (wd_users w, wd_tokens w)) (\<lambda>(us, k) w. w\<lparr>wd_users := us, wd_tokens := k\<rparr>)"

definition drawn :: "'a result option \<Rightarrow> 'a result" where
  "drawn r = (case r of None \<Rightarrow> Inl OutOfDraws | Some x \<Rightarrow> x)"

section \<open>Cookies\<close>

definition request_is_secure :: "request \<Rightarrow> bool" where
  "request_is_secure req \<longleftrightarrow> hr_scheme req = u ''https'' \<or>
     lower (strip (takeWhile (\<lambda>c. c \<noteq> 44) (hr_forwarded_proto req))) = u ''https''"

definition strip_slashes :: "ustr \<Rightarrow> ustr" where
  "strip_slashes s = rev (dropWhile (\<lambda>c. c = 47) (rev s))"

text \<open>A request that changes something and rests on a cookie must come from the site itself.\<close>

definition validate_cookie_request :: "request \<Rightarrow> unit result" where
  "validate_cookie_request req =
     (let origin = lower (strip_slashes (strip (hr_origin req)));
          scheme = (if request_is_secure req then u ''https'' else hr_scheme req);
          expected = lower (strip_slashes (scheme @ u ''://'' @ str_or (hr_host req) (hr_netloc req)))
      in if upper (hr_method req) \<in> set (map u [''GET'', ''HEAD'', ''OPTIONS'']) then Inr ()
         else if lower (strip (hr_fetch_site req)) = u ''cross-site'' then Inl (HTTPException 403 (u ''cross-site request rejected''))
         else if origin = [] then Inr ()
         else case compare_digest origin expected of
           Inl e \<Rightarrow> Inl e
         | Inr same \<Rightarrow> if same then Inr () else Inl (HTTPException 403 (u ''cross-site request rejected'')))"

definition create_client_cookie :: "auth_env \<Rightarrow> ustr \<Rightarrow> ustr \<Rightarrow> (site, ustr) action" where
  "create_client_cookie au token_hash previous =
     seq (changes (\<lambda>s. let cs = (if previous = [] then si_clients s
            else delete_client_session (en_sha (au_env au)) (au_link au) previous (si_clients s))
        in s\<lparr>si_clients := create_client_session (en_sha (au_env au)) (au_link au) (au_session au) (en_now (au_env au)) token_hash cs\<rparr>))
       (\<lambda>_. give (au_session au))"

section \<open>Admitting a request\<close>

definition bearer :: "ustr \<Rightarrow> bool" where
  "bearer authorization \<longleftrightarrow> starts_with (u ''bearer '') (lower authorization)"

definition supplied_token :: "request \<Rightarrow> ustr" where
  "supplied_token req = (if bearer (hr_authorization req) then strip (drop 7 (hr_authorization req)) else hr_api_token req)"

definition admin_context :: "env \<Rightarrow> ustr \<Rightarrow> access_context" where
  "admin_context env text =
     \<lparr>ac_token_hash = en_sha env text, ac_is_admin = True, ac_is_temp = False, ac_limit = 0, ac_used = 0, ac_remaining = 0,
      ac_concurrency = 0, ac_remote_generation_limit = 1, ac_task_retention_days = DEFAULT_TASK_RETENTION_DAYS,
      ac_free_remaining = Fin 0 0, ac_video_quota_units = 0, ac_credit_units = 0, ac_billing_priority = VideoFirst\<rparr>"

definition touch_user :: "env \<Rightarrow> ustr \<Rightarrow> (world, unit) action" where
  "touch_user env token_hash = changes (\<lambda>w. case touch_user_by_token_hash (en_backend env) (en_now env) (wd_users w, wd_tokens w) token_hash of
     (us, k) \<Rightarrow> w\<lparr>wd_users := us, wd_tokens := k\<rparr>)"

text \<open>\<open>resolve_temp_context\<close> and \<open>resolve_client_session\<close>: the token's context, its membership brought
  up to date first, if its user is enabled.\<close>

definition resolve_context :: "env \<Rightarrow> (token_table \<Rightarrow> access_context option) \<Rightarrow> (world, access_context option) action" where
  "resolve_context env look_up =
     seq (reads (\<lambda>w. look_up (wd_tokens w))) (\<lambda>found. case found of
       None \<Rightarrow> give None
     | Some context \<Rightarrow>
         seq (sync_membership env (ac_token_hash context)) (\<lambda>changed.
         seq (if changed then reads (\<lambda>w. look_up (wd_tokens w)) else give (Some context)) (\<lambda>again. case again of
           None \<Rightarrow> give None
         | Some context \<Rightarrow>
             seq (reads (\<lambda>w. user_token_is_enabled (wd_users w) (ac_token_hash context))) (\<lambda>enabled.
             if enabled then seq (touch_user env (ac_token_hash context)) (\<lambda>_. give (Some context)) else give None))))"

definition resolve_token :: "env \<Rightarrow> ustr \<Rightarrow> (world, access_context option) action" where
  "resolve_token env supplied = resolve_context env (\<lambda>tokens. get_temp_context (en_sha env) tokens supplied)"

definition resolve_client_cookie :: "auth_env \<Rightarrow> request \<Rightarrow> (site, access_context option) action" where
  "resolve_client_cookie au req =
     seq (on_part_keeping si_clients (\<lambda>c s. s\<lparr>si_clients := c\<rparr>)
       (\<lambda>c. apsnd Inr (client_session_token_hash (en_sha (au_env au)) (au_link au) (en_now (au_env au)) (hr_client_cookie req) c)))
       (\<lambda>token_hash. case token_hash of
          None \<Rightarrow> give None
        | Some h \<Rightarrow> if h = [] then give None
            else on_site (resolve_context (au_env au) (\<lambda>tokens. get_temp_context_by_hash tokens h)))"

definition resolve_admin_cookie :: "auth_env \<Rightarrow> request \<Rightarrow> (site, ustr option) action" where
  "resolve_admin_cookie au req =
     seq (on_part_keeping si_admins (\<lambda>a s. s\<lparr>si_admins := a\<rparr>)
       (\<lambda>a. apsnd Inr (session_username (en_now (au_env au)) (hr_admin_cookie req) a)))
       (\<lambda>owner. case owner of
          None \<Rightarrow> give None
        | Some name \<Rightarrow> if name = [] then give None
            else seq (reads (\<lambda>s. compare_digest name (sc_admin_username (si_config s)))) (\<lambda>answer.
                 seq (of_result answer) (\<lambda>same. give (if same then Some name else None))))"

definition prefers_client :: "request \<Rightarrow> bool" where
  "prefers_client req \<longleftrightarrow> lower (strip (hr_portal req)) = u ''client'' \<or>
     starts_with (u ''/auth/client'') (hr_path req) \<or> starts_with (u ''/auth/access-state'') (hr_path req)"

definition forbidden :: py_error where
  "forbidden = HTTPException 403 (u ''forbidden'')"

definition admit_client :: "auth_env \<Rightarrow> request \<Rightarrow> (site, access_context) action \<Rightarrow> (site, access_context) action" where
  "admit_client au req otherwise =
     seq (resolve_client_cookie au req) (\<lambda>context. case context of
       None \<Rightarrow> otherwise
     | Some access \<Rightarrow> seq (of_result (validate_cookie_request req)) (\<lambda>_. give access))"

definition admit_admin :: "auth_env \<Rightarrow> request \<Rightarrow> (site, access_context) action \<Rightarrow> (site, access_context) action" where
  "admit_admin au req otherwise =
     seq (resolve_admin_cookie au req) (\<lambda>owner. case owner of
       None \<Rightarrow> otherwise
     | Some name \<Rightarrow> seq (of_result (validate_cookie_request req)) (\<lambda>_. give (admin_context (au_env au) (u ''admin:'' @ name))))"

definition require_token :: "auth_env \<Rightarrow> request \<Rightarrow> (site, access_context) action" where
  "require_token au req =
     (let supplied = supplied_token req in
      seq (reads (\<lambda>s. sc_api_token (si_config s))) (\<lambda>configured.
      if configured \<noteq> [] \<and> supplied = configured then give (admin_context (au_env au) supplied)
      else seq (on_site (resolve_token (au_env au) supplied)) (\<lambda>context. case context of
        Some access \<Rightarrow> give access
      | None \<Rightarrow>
          if supplied \<noteq> [] then raise forbidden
          else if prefers_client req then admit_client au req (admit_admin au req (raise forbidden))
          else admit_admin au req (admit_client au req (raise forbidden)))))"

definition require_admin :: "access_context \<Rightarrow> access_context result" where
  "require_admin access = (if ac_is_admin access then Inr access else Inl forbidden)"

definition require_temp :: "access_context \<Rightarrow> access_context result" where
  "require_temp access = (if ac_is_temp access then Inr access else Inl forbidden)"

text \<open>The compatible interface knows tokens only.\<close>

definition require_openai_token :: "auth_env \<Rightarrow> request \<Rightarrow> (site, access_context) action" where
  "require_openai_token au req =
     (if \<not> bearer (hr_authorization req) then raise (OpenAIAPIError 401 (u ''Missing bearer token''))
      else let supplied = strip (drop 7 (hr_authorization req)) in
      seq (reads (\<lambda>s. sc_api_token (si_config s))) (\<lambda>configured.
      if configured \<noteq> [] \<and> supplied = configured then give (admin_context (au_env au) supplied)
      else seq (on_site (resolve_token (au_env au) supplied)) (\<lambda>context. case context of
        Some access \<Rightarrow> give access
      | None \<Rightarrow> raise (OpenAIAPIError 401 (u ''Invalid API key'')))))"

definition require_account_access :: "auth_env \<Rightarrow> ustr \<Rightarrow> ustr \<Rightarrow> (site, ustr) action" where
  "require_account_access au header authorization =
     (let supplied = (if bearer authorization then strip (drop 7 authorization) else strip header);
          identity = (if supplied = [] then u ''missing'' else take 16 (en_sha (au_env au) supplied)) in
      seq (reads (\<lambda>s. verify_key (en_sha (au_env au)) (sc_access_key (si_config s)) supplied)) (\<lambda>valid.
      if \<not> valid
      then seq (of_result (au_rate au (u ''account-access-auth''))) (\<lambda>_. raise (HTTPException 403 msg_access_key_wrong))
      else seq (of_result (au_rate au (u ''account-access''))) (\<lambda>_. give identity)))"

end
