(* ===== verification/Sign_In.thy ===== *)
theory Sign_In
  imports Access
begin

text \<open>
  The routes of app/main.py on which users register, log in and out, change their password, address
  and token, and redeem cards, and those of the administrator's session. \<open>failing f\<close> turns the
  exceptions a route catches into its answers.
\<close>

definition failing :: "(py_error \<Rightarrow> py_error) \<Rightarrow> ('s, 'a) action \<Rightarrow> ('s, 'a) action" where
  "failing f m = catch m (\<lambda>e. raise (f e))"

definition bad_request :: "py_error \<Rightarrow> py_error" where
  "bad_request e = (case e of ValueError detail \<Rightarrow> HTTPException 400 detail | _ \<Rightarrow> e)"

definition not_found :: "ustr \<Rightarrow> py_error \<Rightarrow> py_error" where
  "not_found detail e = (case e of KeyError \<Rightarrow> HTTPException 404 detail | _ \<Rightarrow> bad_request e)"

text \<open>The mail server's failures are RuntimeError here, as the one of missing settings is.\<close>

definition mail_failed :: "ustr \<Rightarrow> py_error \<Rightarrow> py_error" where
  "mail_failed detail e = (case e of RuntimeError _ \<Rightarrow> HTTPException 503 detail | _ \<Rightarrow> bad_request e)"

definition rated :: "auth_env \<Rightarrow> string \<Rightarrow> (site, unit) action" where
  "rated au scope = of_result (au_rate au (u scope))"

definition on_mail :: "(mail_codes \<Rightarrow> mail_codes \<times> 'a result) \<Rightarrow> (site, 'a) action" where
  "on_mail = on_part_keeping si_mail (\<lambda>m s. s\<lparr>si_mail := m\<rparr>)"

definition on_invitations :: "(invitations \<Rightarrow> invitations \<times> 'a result) \<Rightarrow> (site, 'a) action" where
  "on_invitations = on_part_keeping si_invitations (\<lambda>m s. s\<lparr>si_invitations := m\<rparr>)"

definition send_code :: "auth_env \<Rightarrow> ustr \<Rightarrow> ustr \<Rightarrow> ustr \<Rightarrow> bool \<Rightarrow> (site, unit) action" where
  "send_code au email purpose scope unlisted =
     seq (reads (\<lambda>s. sc_mail (si_config s))) (\<lambda>st.
     on_mail (send_registration_code (au_mac au) st (en_now (au_env au)) (au_mail_draw au) (au_sent au) (\<lambda>c. c) email purpose scope unlisted))"

definition consume_code :: "auth_env \<Rightarrow> ustr \<Rightarrow> ustr \<Rightarrow> ustr \<Rightarrow> ustr \<Rightarrow> bool \<Rightarrow> (site, ustr) action" where
  "consume_code au email code purpose scope unlisted =
     seq (reads (\<lambda>s. sc_mail (si_config s))) (\<lambda>st.
     on_mail (consume_registration_code (au_mac au) (en_backend (au_env au)) st (en_now (au_env au)) email code purpose scope unlisted))"

definition identity_of :: "ustr \<Rightarrow> (world, user_identity) action" where
  "identity_of token_hash = seq (reads (\<lambda>w. user_identity_by_token_hash (wd_users w) token_hash)) of_result"

definition migrate_tasks :: "env \<Rightarrow> ustr \<Rightarrow> ustr \<Rightarrow> (world, int) action" where
  "migrate_tasks env old new =
     on_part (\<lambda>w. (wd_tasks w, wd_accounts w, wd_tokens w, wd_ledger w))
       (\<lambda>(t, a, k, l) w. w\<lparr>wd_tasks := t, wd_accounts := a, wd_tokens := k, wd_ledger := l\<rparr>)
       (migrate_task_owner (world_services env) (en_backend env) (en_now env) (en_stamp env) old new)"

section \<open>Registration\<close>

record registration_form =
  fm_username :: ustr
  fm_password :: ustr
  fm_confirm :: ustr
  fm_email :: ustr
  fm_email_code :: ustr
  fm_invitation :: ustr

text \<open>How long a client must still wait, and one more failure of it: on redis, or in memory.\<close>

definition registration_wait :: "auth_env \<Rightarrow> ustr \<Rightarrow> (site, int) action" where
  "registration_wait au client = (\<lambda>s.
     if au_link au = Working then (s, Inr (redis_block_retry client (en_now (au_env au)) (si_failure_keys s)))
     else (case local_block_retry_after client (au_clock au) (si_failures s) of (fs, n) \<Rightarrow> (s\<lparr>si_failures := fs\<rparr>, Inr n)))"

definition registration_failed :: "auth_env \<Rightarrow> ustr \<Rightarrow> (site, failure_answer) action" where
  "registration_failed au client = (\<lambda>s.
     if au_link au = Working
     then (case redis_add_failure client (en_now (au_env au)) (si_failure_keys s) of (r, a) \<Rightarrow> (s\<lparr>si_failure_keys := r\<rparr>, Inr a))
     else (case local_add_failure client (au_clock au) (si_failures s) of (fs, a) \<Rightarrow> (s\<lparr>si_failures := fs\<rparr>, Inr a)))"

definition registration_done :: "auth_env \<Rightarrow> ustr \<Rightarrow> (site, unit) action" where
  "registration_done au client = changes (\<lambda>s.
     if au_link au = Working then s\<lparr>si_failure_keys := redis_reset_failures client (si_failure_keys s)\<rparr>
     else s\<lparr>si_failures := local_reset_failures client (si_failures s)\<rparr>)"

definition register :: "auth_env \<Rightarrow> registration \<Rightarrow> (world, login_info) action" where
  "register au r =
     on_part_keeping (\<lambda>w. (wd_users w, wd_tokens w)) (\<lambda>(us, k) w. w\<lparr>wd_users := us, wd_tokens := k\<rparr>)
       (\<lambda>w. case register_user (en_sha (au_env au)) (au_kdf au) (en_backend (au_env au)) (en_now (au_env au)) (en_draws (au_env au))
              (au_user_id au) (au_salt au) (au_others au (fst w)) w r of
          None \<Rightarrow> (w, Inl OutOfDraws) | Some (w', x) \<Rightarrow> (w', x))"

definition gift_args :: "ustr \<Rightarrow> transaction_args" where
  "gift_args user_id = \<lparr>ta_user_id = user_id, ta_kind = u ''video_quota_credit'', ta_amount_units = 0,
     ta_title = msg_registration_gift, ta_balance_units = Some 0, ta_reference_id = [], ta_detail = [],
     ta_video_quota_change = Fin 1 0, ta_video_quota_balance = Some (Fin 1 0), ta_transaction_id = [], ta_visible_to_client = True\<rparr>"

definition record_entry :: "env \<Rightarrow> transaction_args \<Rightarrow> (world, transaction option) action" where
  "record_entry env a = on_ledger (\<lambda>l. record_transaction (en_backend env) (en_now env) (en_rand env) l a)"

text \<open>What a registration needs before the user is made: the invitation, if one is required or given,
  and the code sent to the address.\<close>

definition invited :: "auth_env \<Rightarrow> registration_form \<Rightarrow> (site, (ustr \<times> ustr) option) action" where
  "invited au fm =
     (let code = strip (fm_invitation fm) in
      seq (reads (\<lambda>s. is_required (si_invitations s))) (\<lambda>required.
      if required \<and> code = [] then raise (ValueError msg_invitation_needed)
      else if code = [] then give None
      else seq (on_invitations (reserve_code (en_sha (au_env au)) code)) (\<lambda>r. give (Some r))))"

definition confirmed_email :: "auth_env \<Rightarrow> registration_form \<Rightarrow> (site, ustr) action" where
  "confirmed_email au fm =
     seq (reads (\<lambda>s. mail_enabled (sc_mail (si_config s)))) (\<lambda>enabled.
     if enabled then consume_code au (fm_email fm) (fm_email_code fm) (u ''register'') [] False else give [])"

definition complete_invitation :: "auth_env \<Rightarrow> (ustr \<times> ustr) option \<Rightarrow> user_identity \<Rightarrow> (site, unit) action" where
  "complete_invitation au invitation i = (case invitation of
     None \<Rightarrow> give ()
   | Some (code_hash, _) \<Rightarrow> on_invitations (complete_reservation (en_now (au_env au)) code_hash (ui_id i) (ui_username i)))"

definition registration_steps :: "auth_env \<Rightarrow> ustr \<Rightarrow> bool \<Rightarrow> registration_form \<Rightarrow> (site, login_info \<times> ustr) action" where
  "registration_steps au client guarded fm =
     (let env = au_env au in
      seq (need (fm_password fm = fm_confirm fm) (ValueError msg_password_confirm)) (\<lambda>_.
      seq (invited au fm) (\<lambda>invitation.
      seq (confirmed_email au fm) (\<lambda>email.
      seq (on_site (register au \<lparr>rg_username = fm_username fm, rg_password = fm_password fm, rg_email = email,
             rg_invitation_code = (case invitation of None \<Rightarrow> [] | Some (_, code) \<Rightarrow> code)\<rparr>)) (\<lambda>registered.
      let token_hash = en_sha env (li_token registered) in
      seq (on_site (identity_of token_hash)) (\<lambda>i.
      seq (complete_invitation au invitation i) (\<lambda>_.
      seq (on_site (record_entry env (gift_args (ui_id i)))) (\<lambda>_.
      seq (if guarded then registration_done au client else give ()) (\<lambda>_.
      seq (create_client_cookie au token_hash []) (\<lambda>session.
      give (registered, session)))))))))))"

definition registration_refused :: "auth_env \<Rightarrow> ustr \<Rightarrow> bool \<Rightarrow> py_error \<Rightarrow> (site, login_info \<times> ustr) action" where
  "registration_refused au client guarded e = (case e of
     ValueError detail \<Rightarrow>
       if \<not> guarded then raise (HTTPException 400 detail)
       else seq (registration_failed au client) (\<lambda>failure.
            raise (if 0 < fa_retry_after failure then HTTPException 429 msg_registration_blocked else HTTPException 400 detail))
   | _ \<Rightarrow> raise e)"

definition client_register :: "auth_env \<Rightarrow> request \<Rightarrow> registration_form \<Rightarrow> (site, login_info \<times> ustr) action" where
  "client_register au req fm =
     (let client = take 80 (hr_client req) in
      seq (reads (\<lambda>s. sc_abuse_detection (si_config s))) (\<lambda>guarded.
      seq (if guarded then registration_wait au client else give 0) (\<lambda>blocked_for.
      seq (need (blocked_for \<le> 0) (HTTPException 429 msg_registration_blocked)) (\<lambda>_.
      seq (rated au ''register'') (\<lambda>_.
      catch (registration_steps au client guarded fm) (registration_refused au client guarded))))))"

definition client_registration_email_code :: "auth_env \<Rightarrow> ustr \<Rightarrow> (site, unit) action" where
  "client_registration_email_code au email_value =
     failing (mail_failed msg_send_failed_admin)
       (seq (reads (\<lambda>s. validate_allowed_email (sc_mail (si_config s)) email_value)) (\<lambda>checked.
        seq (of_result checked) (\<lambda>email.
        seq (rated au ''registration-email-code-ip'') (\<lambda>_.
        seq (rated au ''registration-email-code-address'') (\<lambda>_.
        send_code au email (u ''register'') [] False)))))"

section \<open>Logging in and out\<close>

definition client_login :: "auth_env \<Rightarrow> request \<Rightarrow> ustr \<Rightarrow> ustr \<Rightarrow> (site, login_info \<times> ustr) action" where
  "client_login au req identifier password =
     (let env = au_env au in
      seq (rated au ''client-login-ip'') (\<lambda>_.
      seq (rated au ''client-login-identifier'') (\<lambda>_.
      seq (on_site (on_part wd_users (\<lambda>us w. w\<lparr>wd_users := us\<rparr>)
             (\<lambda>us. login_user (au_kdf au) (en_backend env) (en_now env) us (au_others au us) identifier password))) (\<lambda>result.
      case result of
        None \<Rightarrow> raise (HTTPException 401 msg_login_wrong)
      | Some info \<Rightarrow>
          seq (create_client_cookie au (en_sha env (li_token info)) (hr_client_cookie req)) (\<lambda>session.
          give (info, session))))))"

definition client_session_upgrade :: "auth_env \<Rightarrow> request \<Rightarrow> access_context \<Rightarrow> (site, ustr) action" where
  "client_session_upgrade au req access = create_client_cookie au (ac_token_hash access) (hr_client_cookie req)"

definition client_logout :: "auth_env \<Rightarrow> request \<Rightarrow> (site, unit) action" where
  "client_logout au req =
     seq (if hr_client_cookie req \<noteq> [] then of_result (validate_cookie_request req) else give ()) (\<lambda>_.
     changes (\<lambda>s. s\<lparr>si_clients := delete_client_session (en_sha (au_env au)) (au_link au) (hr_client_cookie req) (si_clients s)\<rparr>))"

section \<open>Passwords, tokens and addresses\<close>

definition client_forgot_password_code :: "auth_env \<Rightarrow> ustr \<Rightarrow> (site, unit) action" where
  "client_forgot_password_code au email_value =
     catch
       (seq (of_result (normalize_email (lower (strip email_value)))) (\<lambda>email.
        seq (rated au ''reset-password-code-ip'') (\<lambda>_.
        seq (rated au ''reset-password-code-address'') (\<lambda>_.
        seq (reads (\<lambda>s. has_verified_enabled_email (en_backend (au_env au)) (wd_users (si_world s)) email)) (\<lambda>known.
        if known then send_code au email (u ''reset_password'') [] True else give ())))))
       (\<lambda>e. case e of ValueError _ \<Rightarrow> give () | RuntimeError _ \<Rightarrow> raise (HTTPException 503 msg_send_failed) | _ \<Rightarrow> raise e)"

definition reset_errors :: "py_error \<Rightarrow> py_error" where
  "reset_errors e = (case e of KeyError \<Rightarrow> HTTPException 400 msg_reset_wrong | _ \<Rightarrow> bad_request e)"

definition client_reset_password :: "auth_env \<Rightarrow> ustr \<Rightarrow> ustr \<Rightarrow> ustr \<Rightarrow> ustr \<Rightarrow> (site, login_info) action" where
  "client_reset_password au email_value email_code new_password confirm =
     (let env = au_env au in
      if new_password \<noteq> confirm then raise (HTTPException 400 msg_new_password_confirm)
      else seq (failing reset_errors
             (seq (consume_code au (lower (strip email_value)) email_code (u ''reset_password'') [] True) (\<lambda>email.
              on_site (on_people (\<lambda>w. map_sum id (\<lambda>(w', info, old). (w', info, old))
                (drawn (reset_user_password_by_email (en_sha env) (au_kdf au) (en_backend env) (en_now env) (en_draws env)
                   (au_salt au) w email new_password)))))))
           (\<lambda>(info, old). seq (on_site (migrate_tasks env old (en_sha env (li_token info)))) (\<lambda>_. give info)))"

text \<open>The two routes that give a user a new token end alike: its tasks move, its cookie is renewed.\<close>

definition moved_to :: "auth_env \<Rightarrow> request \<Rightarrow> ustr \<Rightarrow> login_info \<Rightarrow> (site, login_info \<times> ustr) action" where
  "moved_to au req old info =
     (let env = au_env au; new = en_sha env (li_token info) in
      seq (on_site (migrate_tasks env old new)) (\<lambda>_.
      seq (create_client_cookie au new (hr_client_cookie req)) (\<lambda>session. give (info, session))))"

definition client_token_refresh :: "auth_env \<Rightarrow> request \<Rightarrow> access_context \<Rightarrow> (site, login_info \<times> ustr) action" where
  "client_token_refresh au req access =
     (let env = au_env au in
      seq (failing (\<lambda>e. case e of KeyError \<Rightarrow> HTTPException 404 msg_user_missing | _ \<Rightarrow> e)
            (on_site (on_people (\<lambda>w. drawn (rotate_user_token_by_hash (en_sha env) (en_backend env) (en_now env) (en_draws env) w (ac_token_hash access))))))
        (moved_to au req (ac_token_hash access)))"

definition client_change_password :: "auth_env \<Rightarrow> request \<Rightarrow> access_context \<Rightarrow> ustr \<Rightarrow> ustr \<Rightarrow> ustr \<Rightarrow> (site, login_info \<times> ustr) action" where
  "client_change_password au req access current_password new_password confirm =
     (let env = au_env au in
      if new_password \<noteq> confirm then raise (HTTPException 400 msg_new_password_confirm)
      else seq (failing (not_found msg_user_missing)
            (on_site (on_people (\<lambda>w. drawn (change_user_password_by_token_hash (en_sha env) (au_kdf au) (en_now env) (en_draws env)
               (au_salt au) w (ac_token_hash access) current_password new_password)))))
        (moved_to au req (ac_token_hash access)))"

definition client_email_code :: "auth_env \<Rightarrow> access_context \<Rightarrow> ustr \<Rightarrow> (site, unit) action" where
  "client_email_code au access email_value =
     failing (mail_failed msg_send_failed)
       (seq (reads (\<lambda>s. validate_allowed_email (sc_mail (si_config s)) email_value)) (\<lambda>checked.
        seq (of_result checked) (\<lambda>email.
        seq (rated au ''change-email-code'') (\<lambda>_.
        send_code au email (u ''change_email'') (ac_token_hash access) False))))"

definition client_change_email :: "auth_env \<Rightarrow> access_context \<Rightarrow> ustr \<Rightarrow> ustr \<Rightarrow> (site, ustr) action" where
  "client_change_email au access email_value email_code =
     (let env = au_env au in
      failing (not_found msg_user_missing)
        (seq (consume_code au email_value email_code (u ''change_email'') (ac_token_hash access) False) (\<lambda>email.
         seq (on_site (on_people (\<lambda>w. change_user_email_by_token_hash (en_backend env) (en_now env) w (ac_token_hash access) email))) (\<lambda>bound.
         seq (on_site (identity_of (ac_token_hash access))) (\<lambda>_. give bound)))))"

section \<open>Redeeming a card\<close>

definition redeem_args :: "ustr \<Rightarrow> point_card \<Rightarrow> public_token \<Rightarrow> transaction_args" where
  "redeem_args user_id c balance = \<lparr>ta_user_id = user_id, ta_kind = u ''redeem'', ta_amount_units = pc_units c,
     ta_title = msg_card_credit, ta_balance_units = Some (pt_credit_units balance), ta_reference_id = pc_id c, ta_detail = [],
     ta_video_quota_change = Fin 0 0, ta_video_quota_balance = Some (pt_free_remaining balance), ta_transaction_id = [],
     ta_visible_to_client = True\<rparr>"

definition redeem :: "env \<Rightarrow> ustr \<Rightarrow> user_identity \<Rightarrow> ustr \<Rightarrow> (site, point_card \<times> public_token) action" where
  "redeem env code i token_hash =
     on_part_keeping (\<lambda>s. (si_cards s, wd_tokens (si_world s)))
       (\<lambda>(c, k) s. s\<lparr>si_cards := c, si_world := (si_world s)\<lparr>wd_tokens := k\<rparr>\<rparr>)
       (redeem_card (en_sha env) (en_backend env) (en_now env) code (ui_id i) token_hash (ui_username i))"

definition points_redeem :: "auth_env \<Rightarrow> access_context \<Rightarrow> ustr \<Rightarrow> (site, int \<times> public_token) action" where
  "points_redeem au access code =
     (let env = au_env au in
      failing (not_found msg_card_missing)
        (seq (on_site (identity_of (ac_token_hash access))) (\<lambda>i.
         seq (redeem env code i (ac_token_hash access)) (\<lambda>(c, balance).
         seq (on_site (record_entry env (redeem_args (ui_id i) c balance))) (\<lambda>_.
         give (pc_units c, balance))))))"

section \<open>The administrator\<close>

definition admin_login :: "auth_env \<Rightarrow> ustr \<Rightarrow> ustr \<Rightarrow> (site, ustr) action" where
  "admin_login au username password =
     seq (rated au ''admin-login'') (\<lambda>_.
     seq (reads si_config) (\<lambda>config.
     seq (of_result (compare_digest (strip username) (sc_admin_username config))) (\<lambda>same.
     if \<not> same \<or> sc_admin_password_hash config = [] \<or>
        \<not> verify_password (au_admin_kdf au) (au_dec au) password (sc_admin_password_hash config)
     then raise (HTTPException 401 msg_admin_login_wrong)
     else seq (changes (\<lambda>s. s\<lparr>si_admins := create_session (au_session au) (en_now (au_env au)) (sc_admin_username config) (si_admins s)\<rparr>))
       (\<lambda>_. give (au_session au)))))"

definition admin_logout :: "auth_env \<Rightarrow> request \<Rightarrow> (site, unit) action" where
  "admin_logout au req =
     seq (if hr_admin_cookie req \<noteq> [] then of_result (validate_cookie_request req) else give ()) (\<lambda>_.
     changes (\<lambda>s. s\<lparr>si_admins := delete_session (hr_admin_cookie req) (si_admins s)\<rparr>))"

definition admin_change_password :: "auth_env \<Rightarrow> ustr \<Rightarrow> ustr \<Rightarrow> ustr \<Rightarrow> (site, unit) action" where
  "admin_change_password au current_password new_password confirm_password =
     seq (reads si_config) (\<lambda>config.
     if sc_admin_password_hash config = [] \<or>
        \<not> verify_password (au_admin_kdf au) (au_dec au) current_password (sc_admin_password_hash config)
     then raise (HTTPException 400 msg_password_wrong)
     else if new_password \<noteq> confirm_password then raise (HTTPException 400 msg_new_password_confirm)
     else seq (failing bad_request (of_result (validate_password new_password))) (\<lambda>_.
          seq (of_result (compare_digest current_password new_password)) (\<lambda>same.
          if same then raise (HTTPException 400 msg_password_same)
          else seq (of_result (hash_password (au_admin_kdf au) (au_enc au) (au_salt au) PASSWORD_ITERATIONS new_password)) (\<lambda>encoded.
               seq (changes (\<lambda>s. s\<lparr>si_config := (si_config s)\<lparr>sc_admin_password_hash := encoded\<rparr>\<rparr>)) (\<lambda>_.
               on_part_keeping si_admins (\<lambda>a s. s\<lparr>si_admins := a\<rparr>) (delete_user_sessions (sc_admin_username config)))))))"

end
