(* ===== verification/Access_Props.thy ===== *)
theory Access_Props
  imports Sign_In Charge_Rules User_Props Batch_Sched Creation_Props
begin

text \<open>
  What the admission of requests promises: administrators need the secret token or a live session of
  the administrator, users a token of an enabled user or a live session of it, and a new token locks
  out whoever has the old one.
\<close>

section \<open>What admission changes\<close>

text \<open>Admitting a user may change times and memberships, but neither whose a token is nor who is
  enabled.\<close>

definition person :: "ustr \<times> user_entry \<Rightarrow> ustr \<times> ustr \<times> bool" where
  "person row = (fst row, ue_token_hash (snd row), ue_enabled (snd row))"

definition same_people :: "user_table \<Rightarrow> user_table \<Rightarrow> bool" where
  "same_people users users' \<longleftrightarrow> map person users' = map person users"

lemma same_people_refl [simp]: "same_people users users"
  by (simp add: same_people_def)

lemma same_people_trans: "same_people a b \<Longrightarrow> same_people b c \<Longrightarrow> same_people a c"
  by (simp add: same_people_def)

lemma same_people_keys: "same_people users users' \<Longrightarrow> map fst users' = map fst users"
  unfolding same_people_def
  by (metis (no_types, lifting) comp_def fst_conv list.map_comp map_eq_conv person_def)

lemma enabled_person:
  "user_token_is_enabled users h = (case find (\<lambda>(_, h', _). h' = h) (map person users) of None \<Rightarrow> True | Some (_, _, en) \<Rightarrow> en)"
  by (induction users) (auto simp: user_token_is_enabled_def read_user_def is_user_def person_def)

lemma enabled_same: "same_people users users' \<Longrightarrow> user_token_is_enabled users' h = user_token_is_enabled users h"
  by (simp add: enabled_person same_people_def)

lemma same_people_update:
  assumes "map_of users k = Some e" "distinct (map fst users)" "ue_token_hash e' = ue_token_hash e" "ue_enabled e' = ue_enabled e"
  shows "same_people users (AList.update k e' users)"
  using assms(3,4) by (rule_tac update_split [OF assms(1,2)]) (simp add: same_people_def person_def)

lemma read_user_row: "read_user users f x = Some (k, e) \<Longrightarrow> distinct (map fst users) \<Longrightarrow> map_of users k = Some e"
  unfolding read_user_def by (drule find_Some_in) simp

lemma sync_entry_person [simp]:
  "ue_token_hash (sync_entry now draw e) = ue_token_hash e" "ue_enabled (sync_entry now draw e) = ue_enabled e"
  "ue_token_hash (reconcile_entry packages e) = ue_token_hash e" "ue_enabled (reconcile_entry packages e) = ue_enabled e"
  by (simp_all add: sync_entry_def reconcile_entry_def Let_def split: prod.split)

lemma sync_people:
  assumes "sync_user_membership_by_token_hash b now draw packages (users, tokens) h = ((users', tokens'), r)"
    and d: "distinct (map fst users)"
  shows "same_people users users' \<and> (r = Inr False \<longrightarrow> users' = users \<and> tokens' = tokens)"
proof (cases "read_user users ByTokenHash h")
  case None
  with assms(1) show ?thesis by (simp add: sync_user_membership_by_token_hash_def)
next
  case (Some ke)
  obtain key u where ke: "ke = (key, u)" by (cases ke)
  with Some have row: "map_of users key = Some u" using read_user_row [OF _ d] by simp
  show ?thesis
  proof (cases "if ue_concurrency_reconciled u then Inr [] else packages")
    case (Inl x)
    with assms(1) Some ke show ?thesis by (simp add: sync_user_membership_by_token_hash_def)
  next
    case (Inr pk)
    obtain u' n changed where m: "sync_member_entry now draw pk (token_concurrency tokens h) u = (u', n, changed)"
      by (cases "sync_member_entry now draw pk (token_concurrency tokens h) u") auto
    then have "ue_token_hash u' = ue_token_hash u" "ue_enabled u' = ue_enabled u"
      by (auto simp: sync_member_entry_def Let_def split: if_splits)
    with row d have "same_people users (AList.update key u' users)" by (intro same_people_update)
    then show ?thesis
      using assms(1) Some ke Inr m
      by (cases changed; cases b; cases "set_token_concurrency b now tokens h n")
        (auto simp: sync_user_membership_by_token_hash_def Let_def split: if_splits)
  qed
qed

lemma touch_people:
  assumes "touch_user_by_token_hash b now (users, tokens) h = (users', tokens')" "distinct (map fst users)"
  shows "same_people users users' \<and> tokens' = tokens"
proof (cases "read_user users ByTokenHash h")
  case None
  with assms(1) show ?thesis by (simp add: touch_user_by_token_hash_def mutate_user_def)
next
  case (Some ke)
  obtain key u where ke: "ke = (key, u)" by (cases ke)
  with Some have row: "map_of users key = Some u" using read_user_row [OF _ assms(2)] by simp
  have "same_people users (AList.update key (u\<lparr>ue_last_seen_at := At now\<rparr>) users)" "same_people users (AList.update key u users)"
    using row assms(2) by (auto intro: same_people_update)
  with assms(1) Some ke row show ?thesis
    by (cases b) (auto simp: touch_user_by_token_hash_def mutate_user_def run_row_def pg_mutate_def file_mutate_def split: if_splits stamp.splits)
qed

text \<open>A context that was found and admitted.\<close>

lemma resolve_context_cases:
  assumes "resolve_context env look_up w = (w', Inr (Some access))" "distinct (map fst (wd_users w))"
  shows "same_people (wd_users w) (wd_users w') \<and> look_up (wd_tokens w') = Some access \<and> look_up (wd_tokens w) \<noteq> None \<and>
    user_token_is_enabled (wd_users w') (ac_token_hash access)"
proof -
  obtain c where c: "look_up (wd_tokens w) = Some c"
    using assms(1) by (cases "look_up (wd_tokens w)") (auto simp: resolve_context_def seq_def reads_def give_def)
  obtain us k r where sy: "sync_user_membership_by_token_hash (en_backend env) (en_now env) (en_member_draw env) (en_packages env)
      (wd_users w, wd_tokens w) (ac_token_hash c) = ((us, k), r)"
    by (metis surj_pair)
  let ?w1 = "w\<lparr>wd_users := us, wd_tokens := k\<rparr>"
  from sync_people [OF sy assms(2)] have same: "same_people (wd_users w) us" "r = Inr False \<Longrightarrow> us = wd_users w \<and> k = wd_tokens w"
    by auto
  have d1: "distinct (map fst us)" using same_people_keys [OF same(1)] assms(2) by simp
  note run = assms(1) [unfolded resolve_context_def seq_def reads_def, unfolded c, simplified, unfolded sync_membership_def on_part_keeping_def sy, simplified]
  obtain changed where ch: "r = Inr changed" using run by (cases r) auto
  have a: "look_up k = Some access" and en: "user_token_is_enabled us (ac_token_hash access)"
    and fin: "touch_user env (ac_token_hash access) ?w1 = (w', Inr ())"
    using run same(2) c ch
    by (cases changed; auto simp: give_def touch_user_def changes_def split: option.splits if_splits prod.splits)+
  obtain us' k' where t: "touch_user_by_token_hash (en_backend env) (en_now env) (us, k) (ac_token_hash access) = (us', k')"
    by (metis surj_pair)
  with fin have w': "wd_users w' = us'" "wd_tokens w' = k'" by (auto simp: touch_user_def changes_def)
  from touch_people [OF t d1] same_people_trans [OF same(1)] a c en w' show ?thesis
    by (auto simp: enabled_same)
qed

lemma token_context:
  assumes "get_temp_context hash tokens t = Some access"
  shows "ac_token_hash access = hash t \<and> \<not> ac_is_admin access \<and> ac_is_temp access \<and> t \<noteq> [] \<and>
    map_of tokens (normalized_hash (hash t)) \<noteq> None"
  using assms by (auto simp: get_temp_context_def read_token_entry_def Let_def split: if_splits option.splits)

lemma hash_context:
  assumes "get_temp_context_by_hash tokens h = Some access"
  shows "ac_token_hash access = normalized_hash h \<and> \<not> ac_is_admin access \<and> ac_is_temp access \<and>
    map_of tokens (normalized_hash h) \<noteq> None"
  using assms
  by (auto simp: get_temp_context_by_hash_def read_token_entry_def get_temp_context_from_entry_def Let_def split: if_splits)

section \<open>Who is admitted\<close>

definition admin_session_live :: "auth_env \<Rightarrow> request \<Rightarrow> site \<Rightarrow> bool" where
  "admin_session_live au req s \<longleftrightarrow> hr_admin_cookie req \<noteq> [] \<and>
     (\<exists>expires. (hr_admin_cookie req, expires, sc_admin_username (si_config s)) \<in> set (si_admins s) \<and> en_now (au_env au) < expires)"

definition client_session_live :: "auth_env \<Rightarrow> request \<Rightarrow> site \<Rightarrow> ustr \<Rightarrow> bool" where
  "client_session_live au req s h \<longleftrightarrow> hr_client_cookie req \<noteq> [] \<and> h \<noteq> [] \<and>
     (\<exists>expires. en_now (au_env au) < expires \<and>
        (if au_link au = Working then cs_redis (si_clients s) (en_sha (au_env au) (hr_client_cookie req)) = Some (expires, h)
         else (hr_client_cookie req, expires, h) \<in> set (cs_memory (si_clients s))))"

definition user_admitted :: "site \<Rightarrow> site \<Rightarrow> access_context \<Rightarrow> bool" where
  "user_admitted s s' access \<longleftrightarrow> user_token_is_enabled (wd_users (si_world s')) (ac_token_hash access) \<and>
     map_of (wd_tokens (si_world s)) (normalized_hash (ac_token_hash access)) \<noteq> None"

lemma prune_admin_set: "p \<in> set (prune_admin now ss) \<Longrightarrow> p \<in> set ss \<and> now < fst (snd p)"
  by (auto simp: prune_admin_def)

lemma prune_client_set: "p \<in> set (prune_client now ss) \<Longrightarrow> p \<in> set ss \<and> now < fst (snd p)"
  by (auto simp: prune_client_def Let_def dest!: in_set_dropD prune_admin_set)

lemma resolve_admin_Some:
  assumes "resolve_admin_cookie au req s = (s', Inr (Some name))"
  shows "name = sc_admin_username (si_config s) \<and> admin_session_live au req s"
proof -
  obtain ss r where u: "session_username (en_now (au_env au)) (hr_admin_cookie req) (si_admins s) = (ss, r)" by (metis surj_pair)
  obtain e where r: "r = Some name" and name: "compare_digest name (sc_admin_username (si_config s)) = Inr True"
    using assms u by (cases r) (auto simp: resolve_admin_cookie_def seq_def on_part_keeping_def give_def reads_def of_result_def
      compare_digest_def split: if_splits)
  then have same: "name = sc_admin_username (si_config s)" by (simp add: compare_digest_def split: if_splits)
  from u r obtain expires where "map_of (prune_admin (en_now (au_env au)) (si_admins s)) (hr_admin_cookie req) = Some (expires, name)"
    "hr_admin_cookie req \<noteq> []"
    by (auto simp: session_username_def Let_def split: if_splits option.splits)
  with prune_admin_set [OF map_of_SomeD [OF this(1)]] same show ?thesis by (auto simp: admin_session_live_def)
qed

lemma resolve_admin_frame:
  "resolve_admin_cookie au req s = (s', r) \<Longrightarrow> \<exists>a. s' = s\<lparr>si_admins := a\<rparr>"
  by (auto simp: resolve_admin_cookie_def seq_def on_part_keeping_def give_def reads_def of_result_def
    split: prod.splits sum.splits option.splits if_splits)

lemma client_hash_live:
  assumes "client_session_token_hash (en_sha (au_env au)) (au_link au) (en_now (au_env au)) (hr_client_cookie req) (si_clients s) = (c, Some h)"
    and "h \<noteq> []"
  shows "client_session_live au req s h"
proof (cases "au_link au = Working")
  case True
  with assms show ?thesis
    by (auto simp: client_session_token_hash_def client_session_live_def redis_lookup_def split: if_splits option.splits prod.splits)
next
  case False
  with assms obtain expires where "map_of (prune_client (en_now (au_env au)) (cs_memory (si_clients s))) (hr_client_cookie req) = Some (expires, h)"
    "hr_client_cookie req \<noteq> []"
    by (auto simp: client_session_token_hash_def local_lookup_def Let_def split: if_splits option.splits prod.splits)
  with prune_client_set [OF map_of_SomeD [OF this(1)]] False assms(2) show ?thesis by (auto simp: client_session_live_def)
qed

lemma resolve_client_Some:
  assumes "resolve_client_cookie au req s = (s', Inr (Some access))" "distinct (map fst (wd_users (si_world s)))"
  shows "\<not> ac_is_admin access \<and> user_admitted s s' access \<and>
    (\<exists>h. client_session_live au req s h \<and> ac_token_hash access = normalized_hash h)"
proof -
  let ?look = "client_session_token_hash (en_sha (au_env au)) (au_link au) (en_now (au_env au)) (hr_client_cookie req) (si_clients s)"
  obtain c r where u: "?look = (c, r)" by (metis surj_pair)
  obtain h w' where h: "r = Some h" "h \<noteq> []"
    and run: "resolve_context (au_env au) (\<lambda>tokens. get_temp_context_by_hash tokens h) (si_world s) = (w', Inr (Some access))"
    and s': "si_world s' = w'"
    using assms(1) u by (cases r) (auto simp: resolve_client_cookie_def seq_def on_part_keeping_def give_def on_site_def split: if_splits prod.splits)
  from resolve_context_cases [OF run assms(2)] obtain first where
    "get_temp_context_by_hash (wd_tokens w') h = Some access" "user_token_is_enabled (wd_users w') (ac_token_hash access)"
    "get_temp_context_by_hash (wd_tokens (si_world s)) h = Some first" by auto
  with hash_context [OF this(1)] hash_context [OF this(3)] client_hash_live [OF u [unfolded h(1)] h(2)] s' show ?thesis
    by (auto simp: user_admitted_def)
qed

lemma resolve_client_frame:
  "resolve_client_cookie au req s = (s', r) \<Longrightarrow> si_config s' = si_config s \<and> si_admins s' = si_admins s"
  by (auto simp: resolve_client_cookie_def seq_def on_part_keeping_def give_def on_site_def
    split: prod.splits sum.splits option.splits if_splits)

definition by_admin_session :: "auth_env \<Rightarrow> request \<Rightarrow> site \<Rightarrow> access_context \<Rightarrow> bool" where
  "by_admin_session au req s access \<longleftrightarrow> ac_is_admin access \<and> validate_cookie_request req = Inr () \<and> admin_session_live au req s"

definition by_client_session :: "auth_env \<Rightarrow> request \<Rightarrow> site \<Rightarrow> site \<Rightarrow> access_context \<Rightarrow> bool" where
  "by_client_session au req s s' access \<longleftrightarrow> \<not> ac_is_admin access \<and> user_admitted s s' access \<and> validate_cookie_request req = Inr () \<and>
     (\<exists>h. client_session_live au req s h \<and> ac_token_hash access = normalized_hash h)"

lemma admit_admin_cases:
  assumes "admit_admin au req otherwise s = (s', Inr access)"
  shows "by_admin_session au req s access \<or> (\<exists>a. otherwise (s\<lparr>si_admins := a\<rparr>) = (s', Inr access))"
proof -
  obtain s1 r where u: "resolve_admin_cookie au req s = (s1, r)" by (metis surj_pair)
  obtain owner where r: "r = Inr owner" using assms u by (cases r) (auto simp: admit_admin_def seq_def)
  show ?thesis
  proof (cases owner)
    case None
    with assms u r resolve_admin_frame [OF u] show ?thesis by (auto simp: admit_admin_def seq_def)
  next
    case (Some name)
    with resolve_admin_Some [OF u [unfolded r Some]] assms u r show ?thesis
      by (cases "validate_cookie_request req")
        (auto simp: admit_admin_def seq_def of_result_def give_def by_admin_session_def admin_context_def)
  qed
qed

lemma admit_client_cases:
  assumes "admit_client au req otherwise s = (s', Inr access)" "distinct (map fst (wd_users (si_world s)))"
  shows "by_client_session au req s s' access \<or>
    (\<exists>s1. otherwise s1 = (s', Inr access) \<and> si_config s1 = si_config s \<and> si_admins s1 = si_admins s)"
proof -
  obtain s1 r where u: "resolve_client_cookie au req s = (s1, r)" by (metis surj_pair)
  obtain found where r: "r = Inr found" using assms u by (cases r) (auto simp: admit_client_def seq_def)
  show ?thesis
  proof (cases found)
    case None
    with assms u r resolve_client_frame [OF u] show ?thesis by (auto simp: admit_client_def seq_def)
  next
    case (Some a)
    have "s' = s1" "a = access" "validate_cookie_request req = Inr ()"
      using assms(1) u r Some by (cases "validate_cookie_request req"; auto simp: admit_client_def seq_def of_result_def give_def)+
    with resolve_client_Some [OF u [unfolded r Some] assms(2)] show ?thesis by (simp add: by_client_session_def)
  qed
qed

lemma not_forbidden: "raise forbidden s \<noteq> (s', Inr access)"
  by (simp add: raise_def)

lemma session_frames [simp]:
  "by_client_session au req (s\<lparr>si_admins := a\<rparr>) s' access = by_client_session au req s s' access"
  by (simp add: by_client_session_def client_session_live_def user_admitted_def)

lemma by_admin_frame:
  "si_config s1 = si_config s \<Longrightarrow> si_admins s1 = si_admins s \<Longrightarrow> by_admin_session au req s1 access = by_admin_session au req s access"
  by (simp add: by_admin_session_def admin_session_live_def)

definition by_token :: "auth_env \<Rightarrow> request \<Rightarrow> site \<Rightarrow> site \<Rightarrow> access_context \<Rightarrow> bool" where
  "by_token au req s s' access \<longleftrightarrow>
     (if ac_is_admin access then sc_api_token (si_config s) \<noteq> [] \<and> supplied_token req = sc_api_token (si_config s)
      else supplied_token req \<noteq> [] \<and> ac_token_hash access = en_sha (au_env au) (supplied_token req) \<and> user_admitted s s' access)"

lemma admission_cases:
  assumes "distinct (map fst (wd_users (si_world s)))" "require_token au req s = (s', Inr access)"
  shows "by_token au req s s' access \<or>
    (supplied_token req = [] \<and> (by_admin_session au req s access \<or> by_client_session au req s s' access))"
proof -
  let ?t = "supplied_token req" and ?c = "sc_api_token (si_config s)"
  show ?thesis
  proof (cases "?c \<noteq> [] \<and> ?t = ?c")
    case True
    with assms(2) have "ac_is_admin access" by (auto simp: require_token_def Let_def seq_def reads_def give_def admin_context_def)
    with True show ?thesis by (simp add: by_token_def)
  next
    case False
    obtain w1 r where u: "resolve_token (au_env au) ?t (si_world s) = (w1, r)" by (metis surj_pair)
    note run = assms(2) [unfolded require_token_def Let_def seq_def reads_def on_site_def prod.case sum.case, unfolded if_not_P [OF False] u, simplified]
    obtain found where r: "r = Inr found" using run by (cases r) auto
    show ?thesis
    proof (cases found)
      case (Some a)
      with run r have a: "access = a" "si_world s' = w1" by (auto simp: give_def)
      from resolve_context_cases [OF u [unfolded r Some resolve_token_def] assms(1)] a obtain first where
        "get_temp_context (en_sha (au_env au)) (wd_tokens (si_world s')) ?t = Some access"
        "user_token_is_enabled (wd_users (si_world s')) (ac_token_hash access)"
        "get_temp_context (en_sha (au_env au)) (wd_tokens (si_world s)) ?t = Some first" by auto
      with token_context [OF this(1)] token_context [OF this(3)] show ?thesis by (simp add: by_token_def user_admitted_def)
    next
      case None
      show ?thesis
      proof (cases "?t = []")
        case False
        with run r None show ?thesis by (simp add: raise_def)
      next
        case True
        from u True have "w1 = si_world s"
          by (simp add: resolve_token_def resolve_context_def get_temp_context_def seq_def reads_def give_def)
        then have s: "s\<lparr>si_world := w1\<rparr> = s" by simp
        show ?thesis
        proof (cases "prefers_client req")
          case True
          with run r None \<open>?t = []\<close> s have "admit_client au req (admit_admin au req (raise forbidden)) s = (s', Inr access)" by simp
          from admit_client_cases [OF this assms(1)] show ?thesis
          proof
            assume "\<exists>s1. admit_admin au req (raise forbidden) s1 = (s', Inr access) \<and> si_config s1 = si_config s \<and> si_admins s1 = si_admins s"
            then obtain s1 where s1: "admit_admin au req (raise forbidden) s1 = (s', Inr access)" "si_config s1 = si_config s" "si_admins s1 = si_admins s"
              by blast
            from admit_admin_cases [OF s1(1)] \<open>?t = []\<close> show ?thesis by (simp add: not_forbidden by_admin_frame [OF s1(2,3)])
          qed (simp add: \<open>?t = []\<close>)
        next
          case False
          with run r None \<open>?t = []\<close> s have "admit_admin au req (admit_client au req (raise forbidden)) s = (s', Inr access)" by simp
          from admit_admin_cases [OF this] show ?thesis
          proof
            assume "\<exists>a. admit_client au req (raise forbidden) (s\<lparr>si_admins := a\<rparr>) = (s', Inr access)"
            then obtain a where a: "admit_client au req (raise forbidden) (s\<lparr>si_admins := a\<rparr>) = (s', Inr access)" ..
            have "distinct (map fst (wd_users (si_world (s\<lparr>si_admins := a\<rparr>))))" using assms(1) by simp
            from admit_client_cases [OF a this] \<open>?t = []\<close> show ?thesis by (simp add: not_forbidden)
          qed (simp add: \<open>?t = []\<close>)
        qed
      qed
    qed
  qed
qed


definition example_auth :: auth_env where
  "example_auth = \<lparr>au_env = example_env, au_link = NoClient, au_kdf = (@), au_admin_kdf = (\<lambda>p s _. p @ s), au_enc = id, au_dec = Some,
     au_mac = (@), au_session = u ''session'', au_salt = u ''salt'', au_user_id = u ''u2'', au_mail_draw = 123456, au_sent = Inr (),
     au_clock = secs 1, au_rate = (\<lambda>_. Inr ()), au_others = id\<rparr>"

definition example_site :: site where
  "example_site = \<lparr>si_world = example_world\<lparr>wd_tokens := [(u ''tmp_x'', example_token), (u ''tmp_z'', example_token)]\<rparr>,
     si_config = \<lparr>sc_api_token = u ''secret'', sc_admin_username = u ''admin'', sc_admin_password_hash = [], sc_abuse_detection = True,
       sc_mail = \<lparr>mail_enabled = True, mail_domains = [u ''qq.com''], mail_ttl_minutes = 10, mail_secret = u ''k'',
         mail_username = u ''m'', mail_authorization = u ''a''\<rparr>,
       sc_access_key = revoke_key\<rparr>,
     si_admins = [], si_clients = \<lparr>cs_memory = [(u ''sid'', hours 1, u ''tmp_z'')], cs_redis = (\<lambda>_. None)\<rparr>, si_mail = [],
     si_invitations = \<lparr>is_required = False, is_codes = [], is_updated_at = Unset\<rparr>, si_cards = [], si_failures = [],
     si_failure_keys = (\<lambda>_. \<lparr>fk_count = None, fk_blocked = None\<rparr>)\<rparr>"

definition example_request :: request where
  "example_request = \<lparr>hr_api_token = [], hr_authorization = [], hr_method = u ''POST'', hr_path = u ''/auth/client'', hr_portal = [],
     hr_fetch_site = u ''same-origin'', hr_origin = u ''https://a.b/'', hr_scheme = u ''https'', hr_forwarded_proto = [], hr_host = u ''a.b'',
     hr_netloc = u ''a.b'', hr_client_cookie = u ''sid'', hr_admin_cookie = [], hr_client = u ''1.2.3.4''\<rparr>"

text \<open>The token \<open>tmp_z\<close> has no user, so nothing is brought up to date.\<close>

definition example_context :: access_context where
  "example_context = get_temp_context_from_entry (u ''tmp_z'') example_token"

lemma example_words:
  "supplied_token example_request = []" "prefers_client example_request" "validate_cookie_request example_request = Inr ()"
  "normalized_hash (u ''tmp_z'') = u ''tmp_z''" "normalized_hash (u ''tmp_x'') = u ''tmp_x''"
  "supplied_token (example_request\<lparr>hr_api_token := u ''tmp_z''\<rparr>) = u ''tmp_z''"
  by code_simp+

lemma example_token_found:
  "map_of tokens (u ''tmp_z'') = Some example_token \<Longrightarrow> get_temp_context_by_hash tokens (u ''tmp_z'') = Some example_context"
  by (simp add: get_temp_context_by_hash_def read_token_entry_def example_words example_context_def)

lemma example_context_simps: "ac_token_hash example_context = u ''tmp_z''" "\<not> ac_is_admin example_context"
  by (simp_all add: example_context_def get_temp_context_from_entry_def Let_def)

lemma example_resolved:
  assumes "look_up (wd_tokens w) = Some a" "ac_token_hash a = u ''tmp_z''" "read_user (wd_users w) ByTokenHash (u ''tmp_z'') = None"
  shows "resolve_context example_env look_up w = (w, Inr (Some a))"
  using assms
  by (simp add: resolve_context_def seq_def reads_def give_def sync_membership_def on_part_keeping_def
    sync_user_membership_by_token_hash_def user_token_is_enabled_def touch_user_def changes_def
    touch_user_by_token_hash_def mutate_user_def)

lemma example_admitted:
  "\<exists>s'. require_token example_auth example_request example_site = (s', Inr example_context)"
proof -
  let ?w = "si_world example_site"
  have t: "map_of (wd_tokens ?w) (u ''tmp_z'') = Some example_token" by (simp add: example_site_def)
  have r: "read_user (wd_users ?w) ByTokenHash (u ''tmp_z'') = None"
    by (simp add: example_site_def example_world_def example_user_def read_user_def is_user_def new_user_def Let_def public_token_def)
  have "hours 1 = 3600000000" "secs SESSION_TTL_SECONDS = 43200000000" by (simp_all add: hours_def secs_def SESSION_TTL_SECONDS_def)
  then obtain c where c: "client_session_token_hash id NoClient 9 (u ''sid'') (si_clients example_site) = (c, Some (u ''tmp_z''))"
    by (simp add: client_session_token_hash_def local_lookup_def prune_client_def prune_admin_def example_site_def SESSION_LIMIT_def Let_def)
  have "resolve_client_cookie example_auth example_request example_site = (example_site\<lparr>si_clients := c\<rparr>, Inr (Some example_context))"
    using c example_resolved [where look_up = "\<lambda>k. get_temp_context_by_hash k (u ''tmp_z'')", OF example_token_found [OF t] example_context_simps(1) r]
    by (simp add: resolve_client_cookie_def seq_def on_part_keeping_def give_def on_site_def example_auth_def example_request_def
      example_env_def)
  moreover have "resolve_token example_env [] ?w = (?w, Inr None)"
    by (simp add: resolve_token_def resolve_context_def get_temp_context_def seq_def reads_def give_def)
  ultimately show ?thesis
    by (simp add: require_token_def seq_def reads_def give_def example_words on_site_def admit_client_def of_result_def
      example_auth_def example_site_def)
qed

lemma example_people: "distinct (map fst (wd_users (si_world example_site)))"
  by (simp add: example_site_def example_world_def)


section \<open>A new token\<close>

lemma rotate_gone:
  assumes "rotate_for hash now draws w key token_hash entry = Some (Inr (w', info))"
  shows "map_of (snd w') (normalized_hash token_hash) = None"
proof -
  obtain users tokens users' tokens' where w: "w = (users, tokens)" "w' = (users', tokens')" by (cases w; cases w')
  from assms [unfolded w] obtain x where "tokens' = AList.delete (normalized_hash token_hash) x"
    by (rule rotate_for_Inr) blast
  with w show ?thesis by (simp add: delete_conv')
qed

lemma change_password_gone:
  "change_user_password_by_token_hash hash kdf now draws salt w h current new = Some (Inr (w', info)) \<Longrightarrow>
   map_of (snd w') (normalized_hash h) = None"
  by (auto simp: change_user_password_by_token_hash_def rotate_gone split: if_splits option.splits)

lemma refresh_gone:
  "rotate_user_token_by_hash hash b now draws w h = Some (Inr (w', info)) \<Longrightarrow> map_of (snd w') (normalized_hash h) = None"
  by (auto simp: rotate_user_token_by_hash_def rotate_gone split: if_splits option.splits)

text \<open>Listing tasks may expire some, which refunds their owners, but adds no token.\<close>

definition services_keep :: "('w \<Rightarrow> bool) \<Rightarrow> 'w services \<Rightarrow> bool" where
  "services_keep I sv \<longleftrightarrow> (\<forall>i c w. I w \<longrightarrow> I (sv_exhaust sv i c w) \<and> I (sv_clear sv i c w) \<and> I (fst (sv_refund sv i c w)))"

lemma expire_keeps:
  assumes "services_keep I sv" "expire_task_if_timeout sv b now stamp sw t = Inr (sw', x)" "I (snd sw)"
  shows "I (snd sw')"
proof -
  have k: "I w \<Longrightarrow> I (sv_exhaust sv i c w)" "I w \<Longrightarrow> I (sv_clear sv i c w)" "I w \<Longrightarrow> I (fst (sv_refund sv i c w))" for w i c
    using assms(1) by (auto simp: services_keep_def)
  show ?thesis
    using assms(2,3)
    by (auto simp: expire_task_if_timeout_def Let_def map_sum_Inr k prod.case_eq_if
      split: sum.splits if_splits)
qed

lemma list_loop_keeps:
  assumes "services_keep I sv"
  shows "list_loop sv b now stamp owner ts sw items = Inr (sw', items') \<Longrightarrow> I (snd sw) \<Longrightarrow> I (snd sw')"
proof (induction ts arbitrary: sw items)
  case (Cons t ts)
  show ?case
  proof (cases "is_task_id t \<and> map_of (fst sw) t \<noteq> None")
    case False
    with Cons show ?thesis by (auto split: if_splits option.splits)
  next
    case True
    then obtain row where row: "is_task_id t" "map_of (fst sw) t = Some row" by auto
    from Cons.prems(1) row obtain sw1 m more where
      sw1: "(if is_task_expired now (tr_meta row) then map_sum id fst (expire_task_if_timeout sv b now stamp sw t) else Inr sw) = Inr sw1"
      and rest: "list_loop sv b now stamp owner ts sw1 more = Inr (sw', items')"
      by (auto split: sum.splits)
    have "I (snd sw1)"
      using sw1 Cons.prems(2) expire_keeps [OF assms, where sw = sw] by (auto simp: map_sum_Inr split: if_splits)
    from Cons.IH [OF rest this] show ?thesis .
  qed
qed simp

lemma refund_keys:
  "refund_temp_quota_hash b now rand k l owner t = ((k', l'), r) \<Longrightarrow> map fst k' = map fst k"
  by (auto simp: refund_temp_quota_hash_def Let_def dest: run_row_keys split: if_splits sum.splits prod.splits option.splits bool.splits)

lemma refund_none:
  assumes "refund_temp_quota_hash b now rand k l owner t = ((k', l'), r)" "map_of k h = None"
  shows "map_of k' h = None"
proof -
  have "set (map fst k') = set (map fst k)" using refund_keys [OF assms(1)] by simp
  with assms(2) show ?thesis by (simp add: map_of_eq_None_iff)
qed

lemma migrate_tasks_frame:
  assumes "migrate_tasks env old new w = (w', r)" "map_of (wd_tokens w) h = None"
  shows "map_of (wd_tokens w') h = None \<and> wd_users w' = wd_users w \<and> wd_jobs w' = wd_jobs w"
proof -
  let ?I = "\<lambda>(a, k, l). map_of k h = None"
  have keep: "services_keep ?I (world_services env)"
    by (auto simp: services_keep_def world_services_def split: prod.split dest: refund_none)
  have tokens: "?I (snd sw')"
    if "migrate_task_owner (world_services env) b now stamp old new sw = Inr (sw', n)" "?I (snd sw)" for b now stamp sw sw' n
    using that list_loop_keeps [OF keep]
    by (cases sw) (auto simp: migrate_task_owner_def list_tasks_def map_sum_Inr split: sum.splits prod.splits)
  show ?thesis
    using assms tokens by (auto simp: migrate_tasks_def on_part_def split: sum.splits prod.splits)
qed

definition changes_token :: "auth_env \<Rightarrow> access_context \<Rightarrow> site \<Rightarrow> site \<Rightarrow> bool" where
  "changes_token au access s s' \<longleftrightarrow>
     (\<exists>req current new confirm r. client_change_password au req access current new confirm s = (s', Inr r)) \<or>
     (\<exists>req r. client_token_refresh au req access s = (s', Inr r))"

lemma on_people_Inr:
  assumes "on_site (on_people f) s = (s', Inr x)"
  obtains us k where "f (wd_users (si_world s), wd_tokens (si_world s)) = Inr ((us, k), x)"
    "s' = s\<lparr>si_world := (si_world s)\<lparr>wd_users := us, wd_tokens := k\<rparr>\<rparr>"
  using assms by (auto simp: on_site_def on_people_def on_part_def split: sum.splits prod.splits)

lemma moved_to_gone:
  assumes "moved_to au req old info s = (s', Inr r)" "map_of (wd_tokens (si_world s)) h = None"
  shows "map_of (wd_tokens (si_world s')) h = None \<and> wd_users (si_world s') = wd_users (si_world s) \<and>
    wd_jobs (si_world s') = wd_jobs (si_world s)"
proof -
  obtain w1 x where m: "migrate_tasks (au_env au) old (en_sha (au_env au) (li_token info)) (si_world s) = (w1, x)" by (metis surj_pair)
  with assms(1) have "si_world s' = w1"
    by (cases x) (auto simp: moved_to_def Let_def seq_def on_site_def create_client_cookie_def changes_def give_def)
  with migrate_tasks_frame [OF m assms(2)] show ?thesis by simp
qed

lemma failing_Inr: "failing f m s = (s', Inr x) \<longleftrightarrow> m s = (s', Inr x)"
  by (auto simp: failing_def catch_def raise_def split: prod.splits sum.splits)

lemma seq_returns: "seq m f s = (s', Inr x) \<longleftrightarrow> (\<exists>s1 y. m s = (s1, Inr y) \<and> f y s1 = (s', Inr x))"
  by (auto simp: seq_def split: prod.splits sum.splits)

lemma drawn_Inr: "drawn r = Inr x \<longleftrightarrow> r = Some (Inr x)"
  by (auto simp: drawn_def split: option.splits)

lemma changed_token:
  assumes "changes_token au access s s'"
  shows "map_of (wd_tokens (si_world s')) (normalized_hash (ac_token_hash access)) = None \<and> wd_jobs (si_world s') = wd_jobs (si_world s)"
proof -
  let ?h = "normalized_hash (ac_token_hash access)"
  have moved: "map_of (wd_tokens (si_world s')) ?h = None \<and> wd_jobs (si_world s') = wd_jobs (si_world s)"
    if "on_site (on_people f) s = (s1, Inr info)" "moved_to au req (ac_token_hash access) info s1 = (s', Inr r)"
      and "\<And>us k. f (wd_users (si_world s), wd_tokens (si_world s)) = Inr ((us, k), info) \<Longrightarrow> map_of k ?h = None"
    for f s1 info req r
    using that(1)
  proof (rule on_people_Inr)
    fix us k
    assume "f (wd_users (si_world s), wd_tokens (si_world s)) = Inr ((us, k), info)"
      and s1: "s1 = s\<lparr>si_world := (si_world s)\<lparr>wd_users := us, wd_tokens := k\<rparr>\<rparr>"
    from that(3) [OF this(1)] have "map_of (wd_tokens (si_world s1)) ?h = None" by (simp add: s1)
    from moved_to_gone [OF that(2) this] show ?thesis by (simp add: s1)
  qed
  from assms consider
      (password) req current new confirm r where "client_change_password au req access current new confirm s = (s', Inr r)"
    | (refresh) req r where "client_token_refresh au req access s = (s', Inr r)"
    unfolding changes_token_def by blast
  then show ?thesis
  proof cases
    case password
    then have "new = confirm" by (auto simp: client_change_password_def Let_def raise_def split: if_splits)
    with password obtain s1 info where
      "on_site (on_people (\<lambda>w. drawn (change_user_password_by_token_hash (en_sha (au_env au)) (au_kdf au) (en_now (au_env au))
         (en_draws (au_env au)) (au_salt au) w (ac_token_hash access) current new))) s = (s1, Inr info)"
      "moved_to au req (ac_token_hash access) info s1 = (s', Inr r)"
      by (auto simp: client_change_password_def Let_def seq_returns failing_Inr)
    then show ?thesis by (rule moved) (auto simp: drawn_Inr dest: change_password_gone)
  next
    case refresh
    then obtain s1 info where
      "on_site (on_people (\<lambda>w. drawn (rotate_user_token_by_hash (en_sha (au_env au)) (en_backend (au_env au)) (en_now (au_env au))
         (en_draws (au_env au)) w (ac_token_hash access)))) s = (s1, Inr info)"
      "moved_to au req (ac_token_hash access) info s1 = (s', Inr r)"
      by (auto simp: client_token_refresh_def Let_def seq_returns failing_Inr)
    then show ?thesis by (rule moved) (auto simp: drawn_Inr dest: refresh_gone)
  qed
qed

text \<open>C17: once a user changed the password or renewed the token, whoever still has the old token or a
  session of it is locked out: no later request is admitted under the old token.\<close>

theorem old_token_locked_out:
  assumes "changes_token au access s s'" "distinct (map fst (wd_users (si_world s')))"
    and "require_token au' req s' = (s'', Inr admitted)" "\<not> ac_is_admin admitted"
  shows "normalized_hash (ac_token_hash admitted) \<noteq> normalized_hash (ac_token_hash access)"
proof -
  from admission_cases [OF assms(2,3)] assms(4) have "user_admitted s' s'' admitted"
    by (auto simp: by_token_def by_admin_session_def by_client_session_def)
  with changed_token [OF assms(1)] show ?thesis by (auto simp: user_admitted_def)
qed

definition alice_access :: access_context where
  "alice_access = get_temp_context_from_entry (u ''tmp_x'') example_token"

lemma example_rotated:
  "\<exists>us k info. rotate_user_token_by_hash id Postgres 9 [sample_id] (wd_users (si_world example_site), wd_tokens (si_world example_site)) (u ''tmp_x'')
      = Some (Inr ((us, k), info)) \<and> map_of k (u ''tmp_z'') = Some example_token \<and> read_user us ByTokenHash (u ''tmp_z'') = None \<and>
     distinct (map fst us)"
  by (simp add: rotate_user_token_by_hash_def rotate_for_def rotate_temp_token_def example_site_def example_world_def read_user_def
    is_user_def example_user_def new_user_def Let_def public_token_def example_words sample_id_def example_token_def new_entry_def
    delete_conv' flip: u_append)

lemma token_admits:
  assumes "sc_api_token (si_config s) \<noteq> supplied_token req"
    and "resolve_token (au_env au) (supplied_token req) (si_world s) = (w, Inr (Some a))"
  shows "require_token au req s = (s\<lparr>si_world := w\<rparr>, Inr a)"
  using assms by (simp add: require_token_def Let_def seq_def reads_def give_def on_site_def)

lemma example_refreshed:
  obtains s' r a where "client_token_refresh example_auth example_request alice_access example_site = (s', Inr r)"
    "distinct (map fst (wd_users (si_world s')))"
    "require_token example_auth (example_request\<lparr>hr_api_token := u ''tmp_z''\<rparr>) s' = (s', Inr a)" "\<not> ac_is_admin a"
proof -
  obtain us k info where rot:
    "rotate_user_token_by_hash id Postgres 9 [sample_id] (wd_users (si_world example_site), wd_tokens (si_world example_site)) (u ''tmp_x'')
      = Some (Inr ((us, k), info))"
    and k: "map_of k (u ''tmp_z'') = Some example_token" and us: "read_user us ByTokenHash (u ''tmp_z'') = None"
    and d: "distinct (map fst us)"
    using example_rotated by blast
  let ?w = "(si_world example_site)\<lparr>wd_users := us, wd_tokens := k\<rparr>"
  have access: "ac_token_hash alice_access = u ''tmp_x''"
    by (simp add: alice_access_def get_temp_context_from_entry_def Let_def)
  have env: "au_env example_auth = example_env" "en_sha example_env = id" "en_backend example_env = Postgres" "en_now example_env = 9"
    "en_draws example_env = [sample_id]" by (simp_all add: example_auth_def example_env_def)
  have rotated: "on_site (on_people (\<lambda>w. drawn (rotate_user_token_by_hash (en_sha (au_env example_auth)) (en_backend (au_env example_auth))
        (en_now (au_env example_auth)) (en_draws (au_env example_auth)) w (ac_token_hash alice_access)))) example_site
      = (example_site\<lparr>si_world := ?w\<rparr>, Inr info)"
    using rot by (simp add: on_site_def on_people_def on_part_def drawn_def access env)
  have "wd_tasks ?w = []" by (simp add: example_site_def example_world_def)
  then have moved: "migrate_tasks example_env old new ?w = (?w, Inr 0)" for old new
    by (simp add: migrate_tasks_def on_part_def migrate_task_owner_def list_tasks_def sort_desc_def)
  have refreshed: "client_token_refresh example_auth example_request alice_access example_site
      = moved_to example_auth example_request (ac_token_hash alice_access) info (example_site\<lparr>si_world := ?w\<rparr>)"
    unfolding client_token_refresh_def Let_def seq_def failing_def catch_def rotated by simp
  obtain s' r where moves: "moved_to example_auth example_request (ac_token_hash alice_access) info (example_site\<lparr>si_world := ?w\<rparr>)
      = (s', Inr r)" and s': "si_world s' = ?w" "si_config s' = si_config example_site"
    using moved by (simp add: moved_to_def seq_def on_site_def create_client_cookie_def changes_def give_def env split_def Let_def)
  have r: "client_token_refresh example_auth example_request alice_access example_site = (s', Inr r)"
    by (simp only: refreshed moves)
  obtain a where "get_temp_context id k (u ''tmp_z'') = Some a" and a: "ac_token_hash a = u ''tmp_z''" "\<not> ac_is_admin a"
    using k by (simp add: get_temp_context_def read_token_entry_def example_words Let_def)
  then have "resolve_token example_env (u ''tmp_z'') ?w = (?w, Inr (Some a))"
    unfolding resolve_token_def by (intro example_resolved) (simp_all add: env us a)
  then have "require_token example_auth (example_request\<lparr>hr_api_token := u ''tmp_z''\<rparr>) s' = (s'\<lparr>si_world := ?w\<rparr>, Inr a)"
    using s' example_words(6) by (intro token_admits) (simp_all add: env example_words(6) example_site_def)
  moreover have "s'\<lparr>si_world := ?w\<rparr> = s'" by (simp add: s'(1) [symmetric])
  ultimately show ?thesis using that r d s' a by simp
qed

theorem old_token_locked_out_witness:
  "\<exists>s' s'' a. changes_token example_auth alice_access example_site s' \<and>
     require_token example_auth (example_request\<lparr>hr_api_token := u ''tmp_z''\<rparr>) s' = (s'', Inr a) \<and>
     normalized_hash (ac_token_hash a) \<noteq> normalized_hash (ac_token_hash alice_access)"
proof (rule example_refreshed)
  fix s' r a
  assume r: "client_token_refresh example_auth example_request alice_access example_site = (s', Inr r)"
    and d: "distinct (map fst (wd_users (si_world s')))"
    and a: "require_token example_auth (example_request\<lparr>hr_api_token := u ''tmp_z''\<rparr>) s' = (s', Inr a)" and n: "\<not> ac_is_admin a"
  from r have c: "changes_token example_auth alice_access example_site s'" unfolding changes_token_def by blast
  from old_token_locked_out [OF c d a n] a c show ?thesis by blast
qed

text \<open>
  The tasks of the user move to the new token, but not its batch jobs: they keep the old one as their
  owner, so the scheduler, which asks for the owner's token, serves their waiting rows no more.
\<close>

lemma owner_limits_known:
  "(h, n) \<in> set (owner_limits tokens users jobs acc) \<Longrightarrow> (\<exists>m. (h, m) \<in> set acc) \<or> map_of tokens (normalized_hash h) \<noteq> None"
proof (induction tokens users jobs acc rule: owner_limits.induct)
  case (2 tokens users job jobs acc)
  show ?case
  proof (cases "\<forall>r \<in> set (bj_rows job). br_status r \<noteq> RQueued")
    case True
    with 2 show ?thesis by simp
  next
    case False
    show ?thesis
    proof (cases "get_temp_context_by_hash tokens (bj_owner job)")
      case None
      with 2 False show ?thesis by simp
    next
      case (Some access)
      from hash_context [OF Some] have known: "map_of tokens (normalized_hash (bj_owner job)) \<noteq> None" by simp
      have upd: "(h, m) \<in> set (AList.update k v xs) \<Longrightarrow> (h, m) \<in> set xs \<or> h = k" for h m k v and xs :: "(ustr, int) table"
        by (induction xs) (auto split: if_splits)
      show ?thesis
      proof (cases "user_token_is_enabled users (bj_owner job)")
        case True
        with 2(4) [OF False Some] 2(5) False Some known show ?thesis by (auto dest!: upd)
      qed (use 2 False Some in simp)
    qed
  qed
qed auto

theorem token_change_orphans_jobs:
  assumes "changes_token au access s s'"
  shows "wd_jobs (si_world s') = wd_jobs (si_world s) \<and>
    (\<forall>users jobs n. (ac_token_hash access, n) \<notin> set (owner_limits (wd_tokens (si_world s')) users jobs []))"
  using changed_token [OF assms] by (auto dest: owner_limits_known)

end
