(* ===== verification/Account_Admin.thy ===== *)
theory Account_Admin
  imports Account_Select
begin

text \<open>
  Administering the accounts (app/accounts.py): their cookies and fingerprints, adding them one by
  one and in bulk, merging duplicates, the marks that take an account out of use, the daily cleanup
  of marked accounts with its history, and the repair of quota charges. Parsing JSON and the syntax
  of a cookie header are arguments (\<open>json.loads\<close>, \<open>SimpleCookie\<close>), and so are the digest of a JSON
  value and the random identifiers. With PostgreSQL an operation reads and locks every row and writes
  back those that changed, in a transaction; with files it writes the document where something
  changed. Both leave the same table, so that most operations need no backend here.
\<close>

section \<open>Cookies\<close>

text \<open>\<open>str(item.get(key) or "")\<close> of a JSON object's field that is no list or object.\<close>

definition field_text :: "(ustr, json) table \<Rightarrow> ustr \<Rightarrow> ustr" where
  "field_text item key = (case map_of item key of
     Some (JStr s) \<Rightarrow> s
   | Some (JInt n) \<Rightarrow> if n = 0 then [] else int_text n
   | Some (JBool True) \<Rightarrow> u ''True''
   | _ \<Rightarrow> [])"

definition field_bool :: "(ustr, json) table \<Rightarrow> ustr \<Rightarrow> bool option" where
  "field_bool item key = (case map_of item key of Some (JBool b) \<Rightarrow> Some b | _ \<Rightarrow> None)"

definition cookie_header_from_items :: "cookie list \<Rightarrow> ustr" where
  "cookie_header_from_items items =
     join_texts (u ''; '') (map (\<lambda>c. strip (ck_name c) @ u ''='' @ ck_value c) (filter (\<lambda>c. strip (ck_name c) \<noteq> []) items))"

definition default_cookie_domain :: "ustr \<Rightarrow> ustr" where
  "default_cookie_domain platform =
     (if platform = u ''doubao'' then u ''.doubao.com'' else if platform = u ''qianwen'' then u ''.tongyi.com'' else u ''.dola.com'')"

text \<open>An expiry is a number of whole seconds; \<open>True\<close> counts as the number one in Python.\<close>

definition normalize_cookie_item :: "ustr \<Rightarrow> (ustr, json) table \<Rightarrow> cookie option" where
  "normalize_cookie_item platform item =
     (let name = strip (field_text item (u ''name''));
          same_site = strip (str_or (field_text item (u ''sameSite'')) (field_text item (u ''same_site'')))
      in if name = [] then None
         else Some \<lparr>ck_name = name, ck_value = field_text item (u ''value''),
           ck_domain = str_or (strip (str_or (field_text item (u ''domain'')) (default_cookie_domain platform))) (default_cookie_domain platform),
           ck_path = str_or (strip (str_or (field_text item (u ''path'')) (u ''/''))) (u ''/''),
           ck_expires = (case map_of item (u ''expires'') of
               Some (JInt n) \<Rightarrow> if 0 < n then Some n else None
             | Some (JBool True) \<Rightarrow> Some 1
             | _ \<Rightarrow> None),
           ck_same_site = (if same_site \<in> set (map u [''Strict'', ''Lax'', ''None'']) then same_site else []),
           ck_http_only = field_bool item (u ''httpOnly''), ck_secure = field_bool item (u ''secure'')\<rparr>)"

text \<open>A cookie that is stored already, normalised again.\<close>

definition normalize_cookie :: "ustr \<Rightarrow> cookie \<Rightarrow> cookie option" where
  "normalize_cookie platform c =
     (if strip (ck_name c) = [] then None
      else Some (c\<lparr>ck_name := strip (ck_name c),
        ck_domain := str_or (strip (str_or (ck_domain c) (default_cookie_domain platform))) (default_cookie_domain platform),
        ck_path := str_or (strip (str_or (ck_path c) (u ''/''))) (u ''/''),
        ck_expires := (case ck_expires c of Some n \<Rightarrow> if 0 < n then Some n else None | None \<Rightarrow> None),
        ck_same_site := (if strip (ck_same_site c) \<in> set (map u [''Strict'', ''Lax'', ''None'']) then strip (ck_same_site c) else [])\<rparr>))"

definition header_cookie :: "ustr \<Rightarrow> ustr \<times> ustr \<Rightarrow> cookie" where
  "header_cookie platform = (\<lambda>(name, v). \<lparr>ck_name = name, ck_value = v, ck_domain = default_cookie_domain platform,
     ck_path = u ''/'', ck_expires = None, ck_same_site = [], ck_http_only = None, ck_secure = None\<rparr>)"

definition json_objects :: "json list \<Rightarrow> (ustr, json) table list" where
  "json_objects xs = List.map_filter (\<lambda>x. case x of JDict d \<Rightarrow> Some d | _ \<Rightarrow> None) xs"

definition parse_cookie_payload :: "(ustr \<Rightarrow> json option) \<Rightarrow> (ustr \<Rightarrow> (ustr \<times> ustr) list) \<Rightarrow> ustr \<Rightarrow> ustr \<Rightarrow> cookie list result" where
  "parse_cookie_payload loads header raw platform =
     (let text = strip raw in
      if text = [] then Inl (ValueError (u ''cookie data is required''))
      else case loads text of
        Some (JDict d) \<Rightarrow>
          Inr (List.map_filter (normalize_cookie_item platform) (json_objects
            (case map_of d (u ''cookies'') of
               Some (JList xs) \<Rightarrow> xs
             | _ \<Rightarrow> if map_of d (u ''name'') \<noteq> None \<and> map_of d (u ''value'') \<noteq> None then [JDict d] else [])))
      | Some (JList xs) \<Rightarrow> Inr (List.map_filter (normalize_cookie_item platform) (json_objects xs))
      | _ \<Rightarrow> (let items = map (header_cookie platform) (filter (\<lambda>(k, _). k \<noteq> []) (header text))
             in if items = [] then Inl (ValueError (u ''cookie data is invalid'')) else Inr items))"

section \<open>Fingerprints\<close>

definition cookie_key :: "cookie \<Rightarrow> ustr \<times> ustr \<times> ustr \<times> ustr" where
  "cookie_key c = (ck_name c, ck_value c, ck_domain c, str_or (ck_path c) (u ''/''))"

definition account_fingerprint :: "(json \<Rightarrow> ustr) \<Rightarrow> ustr \<Rightarrow> cookie list \<Rightarrow> ustr result" where
  "account_fingerprint digest platform cookies =
     map_sum id (\<lambda>p. digest (JList [JStr p,
         JList (map (\<lambda>(n, v, d, q). JList [JStr n, JStr v, JStr d, JStr q]) (sort (map cookie_key cookies)))]))
       (normalize_platform platform)"

text \<open>The stored fingerprint of an account, or the one of its cookies where none is stored.\<close>

definition stored_fingerprint :: "(json \<Rightarrow> ustr) \<Rightarrow> account \<Rightarrow> ustr result" where
  "stored_fingerprint digest ac =
     (if ac_cookie_fingerprint ac \<noteq> [] then Inr (ac_cookie_fingerprint ac)
      else account_fingerprint digest (account_platform ac) (ac_cookies ac))"

section \<open>Adding accounts\<close>

definition zero_ledger :: "int \<Rightarrow> int option \<Rightarrow> bool \<Rightarrow> quota_ledger" where
  "zero_ledger now limit initialized = \<lparr>ql_limit = limit, ql_used = 0, ql_base = 0, ql_initialized = initialized,
     ql_charges = [], ql_exhausted = None, ql_reset_date = Some (local_today now)\<rparr>"

text \<open>The fields that an account lacks at first read as empty. \<open>n\<close> accounts exist.\<close>

definition new_account ::
    "int \<Rightarrow> nat \<Rightarrow> ustr \<Rightarrow> ustr \<Rightarrow> cookie list \<Rightarrow> bool \<Rightarrow> int \<Rightarrow> ustr \<Rightarrow> ustr \<Rightarrow> account" where
  "new_account now n fingerprint name cookies enabled limit platform source =
     \<lparr>ac_platform = platform, ac_source = (if lower source = u ''api'' then u ''api'' else u ''admin''),
      ac_name = str_or (strip name) (msg_account @ u '' '' @ int_text (int n + 1)), ac_enabled = enabled,
      ac_status = [], ac_ten_second_only = False, ac_status_reason = [], ac_disabled_reason = [],
      ac_status_marked_at = Unset, ac_slider_date = None, ac_slider_streak = 0, ac_ten_second_marked_at = Unset,
      ac_cookies = cookies, ac_cookie_header = cookie_header_from_items cookies, ac_cookie_fingerprint = fingerprint,
      ac_cookies_refreshed_at = Unset, ac_created_at = At now, ac_cooldown_until = Unset, ac_cooldown_reason = [],
      ac_pinned_node = [], ac_current_task = [], ac_current_worker = [], ac_current_started = Unset,
      ac_current_charge = [], ac_last_used_worker = [], ac_last_used_at = Unset,
      ac_main = zero_ledger now (Some (max 0 limit)) False,
      ac_studio = (if platform = u ''qianwen'' then zero_ledger now (Some DEFAULT_STUDIO_LIMIT) True
        else (zero_ledger now None False)\<lparr>ql_reset_date := None\<rparr>),
      ac_refund_ids = [], ac_sync_date = None, ac_synced_at = Unset, ac_available_at_sync = 0, ac_used_at_sync = 0,
      ac_sign_in = 0, ac_updated_at = At now\<rparr>"

text \<open>\<open>any(\<dots>)\<close> over the accounts, each fingerprint computed anew; an unknown platform raises.\<close>

fun has_fingerprint :: "(json \<Rightarrow> ustr) \<Rightarrow> ustr \<Rightarrow> account list \<Rightarrow> bool result" where
  "has_fingerprint digest fp [] = Inr False"
| "has_fingerprint digest fp (ac # acs) = (case account_fingerprint digest (account_platform ac) (ac_cookies ac) of
     Inl e \<Rightarrow> Inl e
   | Inr f \<Rightarrow> if f = fp then Inr True else has_fingerprint digest fp acs)"

definition add_account ::
    "(json \<Rightarrow> ustr) \<Rightarrow> (ustr \<Rightarrow> json option) \<Rightarrow> (ustr \<Rightarrow> (ustr \<times> ustr) list) \<Rightarrow> int \<Rightarrow> ustr \<Rightarrow> account_store \<Rightarrow>
     ustr \<Rightarrow> ustr \<Rightarrow> bool \<Rightarrow> int \<Rightarrow> ustr \<Rightarrow> ustr \<Rightarrow> (account_store \<times> account) result" where
  "add_account digest loads header now new_id store name cookie_data enabled limit platform_value source =
     (case normalize_platform platform_value of
        Inl e \<Rightarrow> Inl e
      | Inr platform \<Rightarrow> (case parse_cookie_payload loads header cookie_data platform of
          Inl e \<Rightarrow> Inl e
        | Inr cookies \<Rightarrow>
           (if cookies = [] then Inl (ValueError (u ''cookie data is invalid''))
            else case account_fingerprint digest platform cookies of
              Inl e \<Rightarrow> Inl e
            | Inr fp \<Rightarrow> (case has_fingerprint digest fp (map snd store) of
                Inl e \<Rightarrow> Inl e
              | Inr True \<Rightarrow> Inl (ValueError msg_account_exists)
              | Inr False \<Rightarrow>
                 (let ac = new_account now (length store) fp name cookies enabled limit platform source
                  in Inr (AList.update new_id ac store, ac))))))"

text \<open>One line of a bulk import: a name and a cookie apart by dashes, a tab or bars, with or without a
  limit in between.\<close>

definition split_bars :: "ustr \<Rightarrow> ustr list" where
  "split_bars text = (case split_once (u ''|'') text of
     None \<Rightarrow> [strip text]
   | Some (a, rest) \<Rightarrow> (case split_once (u ''|'') rest of
       None \<Rightarrow> [strip a, strip rest]
     | Some (b, c) \<Rightarrow> [strip a, strip b, strip c]))"

definition split_bulk_line :: "ustr \<Rightarrow> ustr \<times> ustr \<times> int" where
  "split_bulk_line line =
     (let text = strip line in
      case split_once (u ''----'') text of
        Some (left, cookie) \<Rightarrow> (strip left, strip cookie, 0)
      | None \<Rightarrow> (case split_once [9] text of
          Some (left, cookie) \<Rightarrow> (strip left, strip cookie, 0)
        | None \<Rightarrow> (case split_bars text of
            [a, b, c] \<Rightarrow> if b \<noteq> [] \<and> (\<forall>d \<in> set b. is_digit d) then (a, c, (case py_int b of Some n \<Rightarrow> n | None \<Rightarrow> 0)) else ([], text, 0)
          | [a, b] \<Rightarrow> if 61 \<in> set b then (a, b, 0) else ([], text, 0)
          | _ \<Rightarrow> ([], text, 0))))"

record bulk_row =
  bk_name :: ustr
  bk_cookie_data :: ustr
  bk_quota_limit :: int

text \<open>\<open>dumps\<close> prints the cookies of an entry of a JSON list; a limit there is a whole number.\<close>

definition bulk_json_row :: "(json \<Rightarrow> ustr) \<Rightarrow> int \<Rightarrow> (ustr, json) table \<Rightarrow> bulk_row option" where
  "bulk_json_row dumps fallback item =
     (if map_of item (u ''cookie_data'') = None \<and> map_of item (u ''cookies'') = None then None
      else Some \<lparr>bk_name = strip (field_text item (u ''name'')),
        bk_cookie_data = (case map_of item (u ''cookies'') of Some c \<Rightarrow> dumps c | None \<Rightarrow> field_text item (u ''cookie_data'')),
        bk_quota_limit = max 0 (int_or (case map_of item (u ''quota_limit'') of Some (JInt n) \<Rightarrow> n | _ \<Rightarrow> 0) fallback)\<rparr>)"

definition bulk_line :: "int \<Rightarrow> ustr \<Rightarrow> bulk_row" where
  "bulk_line fallback line = (case split_bulk_line line of (name, cookie_data, limit) \<Rightarrow>
     \<lparr>bk_name = name, bk_cookie_data = cookie_data, bk_quota_limit = int_or limit (max 0 fallback)\<rparr>)"

definition parse_bulk_accounts :: "(ustr \<Rightarrow> json option) \<Rightarrow> (json \<Rightarrow> ustr) \<Rightarrow> ustr \<Rightarrow> int \<Rightarrow> bulk_row list result" where
  "parse_bulk_accounts loads dumps raw fallback =
     (let text = strip raw;
          listed = (case loads text of Some (JList xs) \<Rightarrow> List.map_filter (bulk_json_row dumps fallback) (json_objects xs) | _ \<Rightarrow> []);
          lines = map (bulk_line fallback) (filter (\<lambda>l. l \<noteq> []) (map strip (splitlines text)))
      in if text = [] then Inl (ValueError (u ''cookie data is required''))
         else if listed \<noteq> [] then Inr listed
         else if lines = [] then Inl (ValueError (u ''cookie data is invalid'')) else Inr lines)"

definition prepare_row ::
    "(json \<Rightarrow> ustr) \<Rightarrow> (ustr \<Rightarrow> json option) \<Rightarrow> (ustr \<Rightarrow> (ustr \<times> ustr) list) \<Rightarrow> ustr \<Rightarrow> bulk_row \<Rightarrow>
     (bulk_row \<times> cookie list \<times> ustr) result" where
  "prepare_row digest loads header platform row = (case parse_cookie_payload loads header (bk_cookie_data row) platform of
     Inl e \<Rightarrow> Inl e
   | Inr [] \<Rightarrow> Inl (ValueError (u ''cookie data is invalid''))
   | Inr cookies \<Rightarrow> map_sum id (\<lambda>fp. (row, cookies, fp)) (account_fingerprint digest platform cookies))"

text \<open>The rows whose fingerprint exists, or came before, are skipped. A row takes the next identifier.\<close>

fun add_prepared ::
    "int \<Rightarrow> bool \<Rightarrow> ustr \<Rightarrow> ustr \<Rightarrow> (bulk_row \<times> cookie list \<times> ustr) list \<Rightarrow> ustr list \<Rightarrow> ustr list \<Rightarrow> account_store \<Rightarrow>
     ustr list \<Rightarrow> account_store \<times> ustr list"
where
  "add_prepared now enabled platform source [] ids existing store created = (store, created)"
| "add_prepared now enabled platform source ((row, cookies, fp) # rows) ids existing store created =
     (if fp \<in> set existing then add_prepared now enabled platform source rows ids existing store created
      else add_prepared now enabled platform source rows (tl ids) (fp # existing)
        (AList.update (hd ids)
          (new_account now (length store) fp (bk_name row) cookies enabled (bk_quota_limit row) platform source) store)
        (created @ [hd ids]))"

record bulk_result =
  bu_accounts :: "ustr list"
  bu_created :: int
  bu_skipped :: int
  bu_received :: int

definition add_accounts_bulk_result ::
    "(json \<Rightarrow> ustr) \<Rightarrow> (ustr \<Rightarrow> json option) \<Rightarrow> (ustr \<Rightarrow> (ustr \<times> ustr) list) \<Rightarrow> (json \<Rightarrow> ustr) \<Rightarrow> int \<Rightarrow> ustr list \<Rightarrow>
     account_store \<Rightarrow> ustr \<Rightarrow> int \<Rightarrow> bool \<Rightarrow> ustr \<Rightarrow> ustr \<Rightarrow> (account_store \<times> bulk_result) result" where
  "add_accounts_bulk_result digest loads header dumps now ids store raw fallback enabled platform_value source =
     (case parse_bulk_accounts loads dumps raw fallback of
        Inl e \<Rightarrow> Inl e
      | Inr rows \<Rightarrow> (case normalize_platform platform_value of
          Inl e \<Rightarrow> Inl e
        | Inr platform \<Rightarrow> (case map_result (prepare_row digest loads header platform) rows of
            Inl e \<Rightarrow> Inl e
          | Inr prepared \<Rightarrow> (case map_result (stored_fingerprint digest) (map snd store) of
              Inl e \<Rightarrow> Inl e
            | Inr existing \<Rightarrow>
               (let (store', created) = add_prepared now enabled platform source prepared ids existing store []
                in Inr (store', \<lparr>bu_accounts = created, bu_created = int (length created),
                     bu_skipped = int (length prepared) - int (length created), bu_received = int (length prepared)\<rparr>))))))"

end
