(* ===== verification/Account_Upkeep.thy ===== *)
theory Account_Upkeep
  imports Account_Admin
begin

text \<open>
  Looking after the accounts (app/accounts.py): merging those with the same cookies, switching,
  renaming and deleting, refreshing cookies, the marks a failed task leaves on an account, the daily
  cleanup of marked accounts with its history, and the repair of charges after successes. The days of
  the history are numbers; each is a row of the document \<open>account_deletion_history\<close>.
\<close>

section \<open>Merging duplicates\<close>

definition duplicate_score :: "(ustr \<Rightarrow> int) \<Rightarrow> ustr \<times> account \<Rightarrow> int \<times> int \<times> int \<times> int \<times> stamp \<times> stamp" where
  "duplicate_score task_counts = (\<lambda>(i, ac).
     (max 0 (task_counts i), of_bool (ac_current_task ac \<noteq> []), int (length (valid_charges (ac_main ac))),
      max 0 (ql_used (ac_main ac)), stamp_or (ac_updated_at ac) (ac_last_used_at ac), ac_created_at ac))"

text \<open>\<open>max(xs, key=f)\<close>: the first of the greatest.\<close>

fun best_of :: "('a \<Rightarrow> 'k::linorder) \<Rightarrow> 'a \<Rightarrow> 'a list \<Rightarrow> 'a" where
  "best_of f x [] = x"
| "best_of f x (y # ys) = best_of f (if f x < f y then y else x) ys"

text \<open>The charges of the duplicates that the keeper lacks, each identifier once.\<close>

fun merge_charges :: "charge list \<Rightarrow> charge list \<Rightarrow> charge list" where
  "merge_charges [] merged = merged"
| "merge_charges (c # cs) merged =
     merge_charges cs (if ch_id c \<noteq> [] \<and> ch_id c \<notin> set (map ch_id merged) then merged @ [c] else merged)"

definition latest_update :: "account list \<Rightarrow> stamp" where
  "latest_update acs = Max (set (map ac_updated_at acs))"

definition merge_into :: "ustr \<Rightarrow> (ustr \<times> account) list \<Rightarrow> ustr \<times> account \<Rightarrow> account" where
  "merge_into fingerprint duplicates keeper =
     (let others = filter (\<lambda>(i, _). i \<noteq> fst keeper) duplicates;
          merged = merge_charges (concat (map (\<lambda>(_, ac). valid_charges (ac_main ac)) others)) (valid_charges (ac_main (snd keeper)));
          base = Max (set (map (\<lambda>(_, ac). max 0 (ql_base (ac_main ac))) duplicates));
          l = (ac_main (snd keeper))\<lparr>ql_charges := merged, ql_initialized := True, ql_base := base\<rparr>
      in (snd keeper)\<lparr>ac_cookie_fingerprint := fingerprint,
           ac_main := (if merged = [] then ac_main (snd keeper) else l\<lparr>ql_used := reconciled_used l\<rparr>),
           ac_updated_at := latest_update (map snd duplicates)\<rparr>)"

text \<open>The groups in the order in which their fingerprints come first.\<close>

fun group_rows :: "(ustr \<times> 'a) list \<Rightarrow> (ustr, 'a list) table \<Rightarrow> (ustr, 'a list) table" where
  "group_rows [] groups = groups"
| "group_rows ((k, x) # rows) groups =
     group_rows rows (AList.update k ((case map_of groups k of None \<Rightarrow> [] | Some xs \<Rightarrow> xs) @ [x]) groups)"

record merge_result =
  mr_before :: int
  mr_after :: int
  mr_removed_ids :: "ustr list"
  mr_kept_ids :: "ustr list"

text \<open>The keeper of a group, with what it becomes, and the identifiers that go.\<close>

definition keeper_of :: "(ustr \<Rightarrow> int) \<Rightarrow> (ustr \<times> account) list \<Rightarrow> ustr \<times> account" where
  "keeper_of task_counts duplicates = best_of (duplicate_score task_counts) (hd duplicates) (tl duplicates)"

definition merge_group :: "(ustr \<Rightarrow> int) \<Rightarrow> ustr \<times> (ustr \<times> account) list \<Rightarrow> (ustr \<times> account) \<times> ustr list" where
  "merge_group task_counts = (\<lambda>(fingerprint, duplicates).
     if length duplicates < 2
     then ((fst (hd duplicates), (snd (hd duplicates))\<lparr>ac_cookie_fingerprint := fingerprint\<rparr>), [])
     else let keeper = keeper_of task_counts duplicates
          in ((fst keeper, merge_into fingerprint duplicates keeper),
              filter (\<lambda>i. i \<noteq> fst keeper) (map fst duplicates)))"

definition print_row :: "(json \<Rightarrow> ustr) \<Rightarrow> ustr \<times> account \<Rightarrow> (ustr \<times> ustr \<times> account) result" where
  "print_row digest = (\<lambda>(i, ac). case stored_fingerprint digest ac of Inl e \<Rightarrow> Inl e | Inr fp \<Rightarrow> Inr (fp, i, ac))"

text \<open>The file is written only when an account goes; PostgreSQL keeps the fingerprints in any case.\<close>

definition merge_duplicate_accounts ::
    "backend \<Rightarrow> (json \<Rightarrow> ustr) \<Rightarrow> (ustr \<Rightarrow> int) \<Rightarrow> account_store \<Rightarrow> (account_store \<times> merge_result) result" where
  "merge_duplicate_accounts b digest task_counts store =
     (case map_result (print_row digest) store of
        Inl e \<Rightarrow> Inl e
      | Inr rows \<Rightarrow>
         (let groups = group_rows rows [];
              merged = map (merge_group task_counts) groups;
              removed = concat (map snd merged);
              store' = List.map_filter (\<lambda>(i, _). if i \<in> set removed then None
                else map_option (\<lambda>ac. (i, ac)) (map_of (map fst merged) i)) store
          in Inr (if b = LocalFile \<and> removed = [] then store else store', \<lparr>mr_before = int (length store), mr_after = int (length store'), mr_removed_ids = removed,
               mr_kept_ids = map (fst \<circ> fst) (filter (\<lambda>g. snd g \<noteq> []) merged)\<rparr>)))"

section \<open>One account\<close>

text \<open>\<open>[0-9a-f]{16}\<close>.\<close>

definition is_account_id :: "ustr \<Rightarrow> bool" where
  "is_account_id i \<longleftrightarrow> length i = 16 \<and> (\<forall>c \<in> set i. is_hex_char c)"

definition delete_account :: "account_store \<Rightarrow> ustr \<Rightarrow> account_store \<times> bool" where
  "delete_account store account_id =
     (let i = lower (strip account_id)
      in if is_account_id i \<and> map_of store i \<noteq> None then (AList.delete i store, True) else (store, False))"

text \<open>The first account of that identifier, changed; \<open>KeyError\<close> if there is none.\<close>

definition change_account :: "account_store \<Rightarrow> ustr \<Rightarrow> (account \<Rightarrow> account result) \<Rightarrow> (account_store \<times> account) result" where
  "change_account store account_id f =
     (let i = lower (strip account_id)
      in case map_of store i of
           None \<Rightarrow> Inl KeyError
         | Some ac \<Rightarrow> map_sum id (\<lambda>ac'. (AList.update i ac' store, ac')) (f ac))"

definition set_account_enabled :: "int \<Rightarrow> account_store \<Rightarrow> ustr \<Rightarrow> bool \<Rightarrow> (account_store \<times> account) result" where
  "set_account_enabled now store account_id enabled =
     change_account store account_id (\<lambda>ac. Inr (ac\<lparr>ac_enabled := enabled, ac_updated_at := At now\<rparr>))"

definition update_account_cookies ::
    "int \<Rightarrow> account_store \<Rightarrow> ustr \<Rightarrow> (ustr, json) table list \<Rightarrow> (account_store \<times> account) result" where
  "update_account_cookies now store account_id cookies = change_account store account_id (\<lambda>ac.
     let normalized = List.map_filter (normalize_cookie_item (account_platform ac)) cookies
     in if normalized = [] then Inl (ValueError (u ''cookie data is invalid''))
        else Inr (ac\<lparr>ac_cookies := normalized, ac_cookie_header := cookie_header_from_items normalized,
          ac_cookies_refreshed_at := At now, ac_enabled := True, ac_status := u ''normal'', ac_status_reason := [],
          ac_updated_at := At now, ac_status_marked_at := Unset, ac_disabled_reason := [], ac_slider_date := None,
          ac_slider_streak := 0, ac_ten_second_only := False, ac_ten_second_marked_at := Unset\<rparr>))"

text \<open>Cookies of the same name, domain and path replace each other, in the place of the first.\<close>

definition qianwen_domain :: "ustr \<Rightarrow> cookie \<Rightarrow> cookie" where
  "qianwen_domain platform c =
     (if platform = u ''qianwen'' \<and> dropWhile (\<lambda>x. x = 46) (lower (ck_domain c)) \<in> set (map u [''tongyi.com'', ''qianwen.com''])
      then c\<lparr>ck_domain := u ''.qianwen.com''\<rparr> else c)"

definition combine_cookies :: "ustr \<Rightarrow> cookie list \<Rightarrow> cookie list" where
  "combine_cookies platform cookies =
     map snd (fold (\<lambda>c. AList.update (ck_name c, lower (ck_domain c), str_or (ck_path c) (u ''/'')) c)
       (map (qianwen_domain platform) cookies) [])"

definition merge_account_cookies ::
    "int \<Rightarrow> account_store \<Rightarrow> ustr \<Rightarrow> (ustr, json) table list \<Rightarrow> (account_store \<times> account) result" where
  "merge_account_cookies now store account_id cookies = change_account store account_id (\<lambda>ac.
     let platform = account_platform ac;
         normalized = combine_cookies platform (List.map_filter (normalize_cookie platform) (ac_cookies ac) @
           List.map_filter (normalize_cookie_item platform) cookies)
     in if normalized = [] then Inl (ValueError (u ''cookie data is invalid''))
        else Inr (ac\<lparr>ac_cookies := normalized, ac_cookie_header := cookie_header_from_items normalized,
          ac_cookies_refreshed_at := At now, ac_updated_at := At now\<rparr>))"

record cookie_export =
  ce_account_id :: ustr
  ce_name :: ustr
  ce_platform :: ustr
  ce_cookie_data :: ustr

definition account_cookie_export :: "account_store \<Rightarrow> ustr \<Rightarrow> cookie_export result" where
  "account_cookie_export store account_id =
     (let i = lower (strip account_id)
      in case map_of store i of
           None \<Rightarrow> Inl KeyError
         | Some ac \<Rightarrow>
            (let cookie_data = str_or (strip (ac_cookie_header ac)) (cookie_header_from_items (ac_cookies ac))
             in if cookie_data = [] then Inl (ValueError (u ''account cookie is empty''))
                else Inr \<lparr>ce_account_id = i, ce_name = str_or (ac_name ac) i, ce_platform = account_platform ac,
                       ce_cookie_data = cookie_data\<rparr>))"

definition update_account_details ::
    "int \<Rightarrow> account_store \<Rightarrow> ustr \<Rightarrow> ustr option \<Rightarrow> int option \<Rightarrow> (account_store \<times> account) result" where
  "update_account_details now store account_id name limit =
     (let i = lower (strip account_id); name' = map_option strip name
      in if \<not> is_account_id i then Inl KeyError
         else if (case name' of Some n \<Rightarrow> n = [] \<or> 120 < length n | None \<Rightarrow> False) then Inl (ValueError msg_account_name_length)
         else if (case name' of Some n \<Rightarrow> \<exists>c \<in> set n. c < 32 \<or> c = 127 | None \<Rightarrow> False) then Inl (ValueError msg_account_name_chars)
         else if (case limit of Some q \<Rightarrow> q < 0 \<or> 1000000 < q | None \<Rightarrow> False) then Inl (ValueError msg_account_quota_range)
         else if name' = None \<and> limit = None then Inl (ValueError msg_account_nothing)
         else change_account store i (\<lambda>ac. Inr (ac\<lparr>ac_name := (case name' of Some n \<Rightarrow> n | None \<Rightarrow> ac_name ac),
           ac_main := (case limit of Some q \<Rightarrow> (ac_main ac)\<lparr>ql_limit := Some q\<rparr> | None \<Rightarrow> ac_main ac),
           ac_updated_at := At now\<rparr>)))"

section \<open>Marks\<close>

text \<open>The mark takes the account from its task, but leaves the charge it was claimed with.\<close>

definition mark_account :: "int \<Rightarrow> ustr \<Rightarrow> ustr \<Rightarrow> account \<Rightarrow> account" where
  "mark_account now status reason ac =
     ac\<lparr>ac_status := status, ac_status_reason := reason, ac_status_marked_at := At now, ac_current_task := [],
       ac_current_worker := [], ac_current_started := Unset, ac_updated_at := At now\<rparr>"

definition disable_account :: "int \<Rightarrow> ustr \<Rightarrow> ustr \<Rightarrow> account \<Rightarrow> account" where
  "disable_account now status reason ac = (mark_account now status reason ac)\<lparr>ac_enabled := False, ac_disabled_reason := reason\<rparr>"

definition disable_account_for_login :: "int \<Rightarrow> account_store \<Rightarrow> ustr \<Rightarrow> ustr \<Rightarrow> (account_store \<times> account) result" where
  "disable_account_for_login now store account_id reason =
     change_account store account_id (\<lambda>ac. Inr (disable_account now (u ''abnormal'') (take 200 (str_or reason (u ''login invalid''))) ac))"

definition mark_account_text_only :: "int \<Rightarrow> account_store \<Rightarrow> ustr \<Rightarrow> (account_store \<times> account) result" where
  "mark_account_text_only now store account_id =
     change_account store account_id (\<lambda>ac. Inr (disable_account now (u ''text_only'') msg_account_text_only ac))"

definition mark_account_region_restricted :: "int \<Rightarrow> account_store \<Rightarrow> ustr \<Rightarrow> (account_store \<times> account) result" where
  "mark_account_region_restricted now store account_id =
     change_account store account_id (\<lambda>ac. Inr (disable_account now (u ''region_restricted'') msg_account_region ac))"

definition mark_account_slider_verification :: "int \<Rightarrow> account_store \<Rightarrow> ustr \<Rightarrow> (account_store \<times> account) result" where
  "mark_account_slider_verification now store account_id = change_account store account_id (\<lambda>ac.
     Inr ((mark_account now (u ''slider_verification'')
         (if account_platform ac = u ''doubao'' then msg_slider_restore else msg_slider_delete) ac)
       \<lparr>ac_slider_date := Some (local_today now), ac_slider_streak := 1, ac_disabled_reason := []\<rparr>))"

definition mark_account_ten_second_limit :: "int \<Rightarrow> account_store \<Rightarrow> ustr \<Rightarrow> (account_store \<times> account) result" where
  "mark_account_ten_second_limit now store account_id = change_account store account_id (\<lambda>ac.
     Inr (ac\<lparr>ac_source := u ''api'', ac_ten_second_only := True, ac_ten_second_marked_at := At now, ac_updated_at := At now\<rparr>))"

definition needs_api_source :: "account \<Rightarrow> bool" where
  "needs_api_source ac \<longleftrightarrow> ac_ten_second_only ac \<and> lower (str_or (ac_source ac) (u ''admin'')) \<noteq> u ''api''"

definition migrate_ten_second_accounts_to_api :: "int \<Rightarrow> account_store \<Rightarrow> account_store \<times> int" where
  "migrate_ten_second_accounts_to_api now store =
     (map (\<lambda>(i, ac). (i, if needs_api_source ac then ac\<lparr>ac_source := u ''api'', ac_updated_at := At now\<rparr> else ac)) store,
      int (length (filter (\<lambda>(_, ac). needs_api_source ac) store)))"

text \<open>The day a mark was made.\<close>

definition account_status_marked_date :: "account \<Rightarrow> int option" where
  "account_status_marked_date ac = (case ac_slider_date ac of
     Some d \<Rightarrow> Some d
   | None \<Rightarrow> map_option local_today (stamp_time (ac_status_marked_at ac)))"

definition restore_account :: "int \<Rightarrow> account \<Rightarrow> account" where
  "restore_account now ac = ac\<lparr>ac_enabled := True, ac_status := u ''normal'', ac_status_reason := [], ac_current_task := [],
     ac_current_worker := [], ac_current_started := Unset, ac_updated_at := At now, ac_disabled_reason := [],
     ac_status_marked_at := Unset, ac_slider_date := None, ac_slider_streak := 0, ac_cooldown_until := Unset,
     ac_cooldown_reason := []\<rparr>"

definition reset_platform_accounts_marked_today :: "int \<Rightarrow> account_store \<Rightarrow> ustr \<Rightarrow> (account_store \<times> int) result" where
  "reset_platform_accounts_marked_today now store platform_value =
     map_sum id (\<lambda>platform.
        let hit = (\<lambda>ac. account_platform ac = platform \<and> account_status_marked_date ac = Some (local_today now))
        in (map (\<lambda>(i, ac). (i, if hit ac then restore_account now ac else ac)) store,
            int (length (filter (\<lambda>(_, ac). hit ac) store))))
       (normalize_platform platform_value)"

section \<open>The daily cleanup\<close>

definition AUTO_DELETE_ACCOUNT_STATUSES :: "ustr list" where
  "AUTO_DELETE_ACCOUNT_STATUSES = map u [''abnormal'', ''slider_verification'']"

definition DOUBAO_AUTO_DELETE_ACCOUNT_STATUSES :: "ustr list" where
  "DOUBAO_AUTO_DELETE_ACCOUNT_STATUSES = map u [''abnormal'', ''region_restricted'']"

definition DOUBAO_AUTO_RESET_ACCOUNT_STATUSES :: "ustr list" where
  "DOUBAO_AUTO_RESET_ACCOUNT_STATUSES = [u ''slider_verification'']"

definition local_hour :: "int \<Rightarrow> int" where
  "local_hour now = ((now + hours 8) mod hours 24) div hours 1"

definition cutoff_date :: "int \<Rightarrow> int" where
  "cutoff_date now = (if 23 \<le> local_hour now then local_today now else local_today now - 1)"

datatype cleanup_verdict = KeepAccount | SkipActive | RestoreAccount | RemoveAccount

definition cleanup_verdict :: "int \<Rightarrow> account \<Rightarrow> cleanup_verdict" where
  "cleanup_verdict now ac =
     (let status = str_or (ac_status ac) (u ''normal'');
          doubao = (account_platform ac = u ''doubao'');
          deletes = (if doubao then DOUBAO_AUTO_DELETE_ACCOUNT_STATUSES else AUTO_DELETE_ACCOUNT_STATUSES);
          resets = (if doubao then DOUBAO_AUTO_RESET_ACCOUNT_STATUSES else []);
          eligible = (case account_status_marked_date ac of
              Some d \<Rightarrow> d \<le> cutoff_date now | None \<Rightarrow> 23 \<le> local_hour now)
      in if status \<notin> set deletes \<and> status \<notin> set resets then KeepAccount
         else if \<not> eligible then KeepAccount
         else if ac_current_task ac \<noteq> [] then SkipActive
         else if status \<in> set resets then RestoreAccount else RemoveAccount)"

record deletion_day =
  dd_date :: int
  dd_total :: int
  dd_by_status :: "(ustr, int) table"
  dd_by_platform :: "(ustr, int) table"
  dd_runs :: int
  dd_skipped_active :: int
  dd_last_run_at :: stamp

definition tally :: "ustr list \<Rightarrow> ustr list \<Rightarrow> (ustr, int) table" where
  "tally start keys = fold (\<lambda>k t. AList.update k ((case map_of t k of None \<Rightarrow> 0 | Some n \<Rightarrow> n) + 1) t) keys (map (\<lambda>k. (k, 0)) start)"

definition add_tally :: "(ustr, int) table \<Rightarrow> (ustr, int) table \<Rightarrow> (ustr, int) table" where
  "add_tally old new = map (\<lambda>(k, n). (k, max 0 (case map_of old k of None \<Rightarrow> 0 | Some m \<Rightarrow> m) + n)) new"

definition platforms :: "ustr list" where
  "platforms = map u [''dola'', ''doubao'', ''qianwen'']"

definition record_account_deletion_history ::
    "int \<Rightarrow> int \<Rightarrow> account list \<Rightarrow> int \<Rightarrow> deletion_day list \<Rightarrow> deletion_day list \<times> deletion_day" where
  "record_account_deletion_history now cleanup_date removed skipped_active history =
     (let by_status = tally AUTO_DELETE_ACCOUNT_STATUSES (map (\<lambda>ac. str_or (ac_status ac) (u ''abnormal'')) removed);
          by_platform = tally platforms (map account_platform removed);
          fresh = \<lparr>dd_date = cleanup_date, dd_total = 0, dd_by_status = map (\<lambda>k. (k, 0)) AUTO_DELETE_ACCOUNT_STATUSES,
            dd_by_platform = map (\<lambda>k. (k, 0)) platforms, dd_runs = 0, dd_skipped_active = 0, dd_last_run_at = Unset\<rparr>;
          (listed, entry) = (case find (\<lambda>d. dd_date d = cleanup_date) history of
              Some d \<Rightarrow> (history, d) | None \<Rightarrow> (history @ [fresh], fresh));
          updated = entry\<lparr>dd_total := max 0 (dd_total entry) + int (length removed),
            dd_by_status := add_tally (dd_by_status entry) by_status,
            dd_by_platform := add_tally (dd_by_platform entry) by_platform,
            dd_runs := max 0 (dd_runs entry) + 1, dd_skipped_active := max 0 skipped_active, dd_last_run_at := At now\<rparr>
      in (take 180 (sort_desc dd_date (update_first (\<lambda>d. dd_date d = cleanup_date) (\<lambda>_. updated) listed)), updated))"

record cleanup_report =
  cr_date :: int
  cr_removed_ids :: "ustr list"
  cr_by_status :: "(ustr, int) table"
  cr_restored_ids :: "ustr list"
  cr_skipped_active :: int
  cr_history :: "deletion_day option"

definition with_verdict :: "int \<Rightarrow> cleanup_verdict \<Rightarrow> account_store \<Rightarrow> account_store" where
  "with_verdict now v store = filter (\<lambda>(_, ac). cleanup_verdict now ac = v) store"

definition cleanup_flagged_accounts ::
    "int \<Rightarrow> account_store \<times> deletion_day list \<Rightarrow> (account_store \<times> deletion_day list) \<times> cleanup_report" where
  "cleanup_flagged_accounts now = (\<lambda>(store, history).
     let removed = with_verdict now RemoveAccount store;
         restored = with_verdict now RestoreAccount store;
         skipped = int (length (with_verdict now SkipActive store));
         kept = map (\<lambda>(i, ac). (i, if cleanup_verdict now ac = RestoreAccount then restore_account now ac else ac))
           (filter (\<lambda>(_, ac). cleanup_verdict now ac \<noteq> RemoveAccount) store);
         record_it = (23 \<le> local_hour now \<or> removed \<noteq> []);
         (history', entry) = (if record_it
           then apsnd Some (record_account_deletion_history now (local_today now) (map snd removed) skipped history)
           else (history, None));
         statuses = AUTO_DELETE_ACCOUNT_STATUSES @ filter (\<lambda>s. s \<notin> set AUTO_DELETE_ACCOUNT_STATUSES)
           (sort (remdups (map (\<lambda>(_, ac). str_or (ac_status ac) (u ''abnormal'')) removed)))
     in ((kept, history'), \<lparr>cr_date = local_today now, cr_removed_ids = map fst removed,
           cr_by_status = map (\<lambda>s. (s, int (length (filter (\<lambda>(_, ac). ac_status ac = s) removed)))) (sort statuses),
           cr_restored_ids = map fst restored, cr_skipped_active = skipped, cr_history = entry\<rparr>))"

definition list_account_deletion_history :: "deletion_day list \<Rightarrow> int \<Rightarrow> deletion_day list" where
  "list_account_deletion_history history limit =
     take (nat (clamp 1 180 (int_or limit 90))) (sort_desc dd_date history)"

text \<open>The cookies of other platforms' accounts that carry the domain of dola. With files the header and
  the time of every account after the first change are rewritten too.\<close>

definition repair_cookie :: "account \<Rightarrow> cookie \<Rightarrow> cookie" where
  "repair_cookie ac c = (if ck_domain c = u ''.dola.com'' then c\<lparr>ck_domain := default_cookie_domain (account_platform ac)\<rparr> else c)"

definition wrong_cookies :: "account \<Rightarrow> int" where
  "wrong_cookies ac = (if account_platform ac = u ''dola'' then 0
     else int (length (filter (\<lambda>c. ck_domain c = u ''.dola.com'') (ac_cookies ac))))"

fun repair_domains :: "backend \<Rightarrow> int \<Rightarrow> account_store \<Rightarrow> int \<Rightarrow> account_store \<times> int" where
  "repair_domains b now [] changed = ([], changed)"
| "repair_domains b now ((i, ac) # rows) changed =
     (let n = changed + wrong_cookies ac;
          touched = (case b of Postgres \<Rightarrow> 0 < wrong_cookies ac | LocalFile \<Rightarrow> 0 < n);
          cookies = map (repair_cookie ac) (ac_cookies ac);
          ac' = (if account_platform ac = u ''dola'' then ac
            else if touched then ac\<lparr>ac_cookies := cookies, ac_cookie_header := cookie_header_from_items cookies, ac_updated_at := At now\<rparr>
            else ac);
          (rows', n') = repair_domains b now rows n
      in ((i, ac') # rows', n'))"

definition repair_account_cookie_domains :: "backend \<Rightarrow> int \<Rightarrow> account_store \<Rightarrow> account_store \<times> int" where
  "repair_account_cookie_domains b now store = repair_domains b now store 0"

section \<open>Charges of successful tasks\<close>

record success_record =
  su_task :: ustr
  su_account :: ustr
  su_charge :: ustr
  su_finished :: stamp

fun valid_records :: "success_record list \<Rightarrow> ustr list \<Rightarrow> success_record list" where
  "valid_records [] seen = []"
| "valid_records (r # rs) seen =
     (if su_task r = [] \<or> su_account r = [] \<or> su_charge r = [] \<or> su_charge r \<in> set seen then valid_records rs seen
      else r # valid_records rs (su_charge r # seen))"

text \<open>The charge added has no units, so it counts as one, and no settle reason but a source.\<close>

definition settled_charge :: "int \<Rightarrow> success_record \<Rightarrow> charge" where
  "settled_charge now r = (new_charge now (su_charge r) (su_task r) 0)\<lparr>ch_status := Settled,
     ch_charged_at := stamp_or (su_finished r) (At now), ch_settled_at := stamp_or (su_finished r) (At now)\<rparr>"

definition missing_records :: "success_record list \<Rightarrow> ustr \<Rightarrow> account \<Rightarrow> success_record list" where
  "missing_records rs i ac = filter (\<lambda>r. su_account r = i \<and> su_charge r \<notin> set (map ch_id (valid_charges (ac_main ac)))) rs"

definition add_success_charges :: "int \<Rightarrow> success_record list \<Rightarrow> account \<Rightarrow> account" where
  "add_success_charges now missing ac =
     (let l = ac_main ac;
          l1 = (if ql_initialized l then l
            else l\<lparr>ql_base := max 0 (max 0 (ql_used l) - int (length missing)), ql_initialized := True\<rparr>);
          l2 = l1\<lparr>ql_charges := valid_charges l @ map (settled_charge now) missing\<rparr>
      in ac\<lparr>ac_main := l2\<lparr>ql_used := reconciled_used l2\<rparr>, ac_updated_at := At now\<rparr>)"

record reconcile_report =
  re_valid :: int
  re_matched :: int
  re_added :: int
  re_already :: int
  re_repaired :: int
  re_missing_accounts :: "ustr list"

definition reconcile_success_quota_charges ::
    "int \<Rightarrow> account_store \<Rightarrow> success_record list \<Rightarrow> bool \<Rightarrow> account_store \<times> reconcile_report" where
  "reconcile_success_quota_charges now store records dry_run =
     (let rs = valid_records records [];
          unknown = filter (\<lambda>r. map_of store (su_account r) = None) rs;
          known = filter (\<lambda>r. map_of store (su_account r) \<noteq> None) rs;
          missing = (\<lambda>(i, ac). missing_records known i ac);
          added = sum_list (map (\<lambda>row. int (length (missing row))) store);
          store' = map (\<lambda>(i, ac). (i, if missing (i, ac) = [] then ac else add_success_charges now (missing (i, ac)) ac)) store
      in (if dry_run then store else store',
          \<lparr>re_valid = int (length rs), re_matched = int (length known), re_added = added,
           re_already = int (length known) - added,
           re_repaired = int (length (filter (\<lambda>row. missing row \<noteq> []) store)),
           re_missing_accounts = sort (remdups (map su_account unknown))\<rparr>))"

section \<open>Views\<close>

text \<open>The fields shown as they are stored are left out but for a few.\<close>

record public_account =
  pa_id :: ustr
  pa_platform :: ustr
  pa_source :: ustr
  pa_name :: ustr
  pa_enabled :: bool
  pa_status :: ustr
  pa_status_reason :: ustr
  pa_quota_limit :: int
  pa_quota_used :: int
  pa_quota_remaining :: "int option"
  pa_studio_limit :: int
  pa_studio_used :: int
  pa_studio_remaining :: "int option"
  pa_current_task :: ustr
  pa_cookie_count :: int
  pa_cookie_names :: "ustr list"

definition remaining_units :: "int \<Rightarrow> int \<Rightarrow> int option" where
  "remaining_units limit used = (if limit = 0 then None else Some (max 0 (limit - used)))"

definition public_account :: "int \<Rightarrow> ustr \<times> account \<Rightarrow> public_account" where
  "public_account now = (\<lambda>(i, ac).
     let names = filter (\<lambda>n. n \<noteq> []) (map ck_name (ac_cookies ac));
         limit = max 0 (case ql_limit (ac_main ac) of None \<Rightarrow> 0 | Some n \<Rightarrow> n);
         used = max 0 (ql_used (ac_main ac));
         studio_limit = max 0 (case ql_limit (ac_studio ac) of None \<Rightarrow> DEFAULT_STUDIO_LIMIT | Some n \<Rightarrow> n);
         studio_used = max 0 (ql_used (ac_studio ac))
     in \<lparr>pa_id = i, pa_platform = account_platform ac,
          pa_source = (if lower (ac_source ac) = u ''api'' then u ''api'' else u ''admin''), pa_name = ac_name ac,
          pa_enabled = ac_enabled ac, pa_status = str_or (ac_status ac) (u ''normal''),
          pa_status_reason = str_or (ac_disabled_reason ac) (ac_status_reason ac),
          pa_quota_limit = limit, pa_quota_used = used, pa_quota_remaining = remaining_units limit used,
          pa_studio_limit = studio_limit, pa_studio_used = studio_used,
          pa_studio_remaining = (case synced_remaining now ac of Some n \<Rightarrow> Some n | None \<Rightarrow> remaining_units studio_limit studio_used),
          pa_current_task = ac_current_task ac, pa_cookie_count = int (length names), pa_cookie_names = take 20 names\<rparr>)"

definition list_accounts :: "int \<Rightarrow> account_store \<Rightarrow> bool \<Rightarrow> ustr option \<Rightarrow> public_account list result" where
  "list_accounts now store include_disabled platform =
     map_sum id (\<lambda>target. map (public_account now) (filter (\<lambda>(_, ac).
          (case target of None \<Rightarrow> True | Some p \<Rightarrow> account_platform ac = p) \<and> (include_disabled \<or> ac_enabled ac)) store))
       (case platform of None \<Rightarrow> Inr None | Some p \<Rightarrow> map_sum id Some (normalize_platform p))"

definition list_account_credentials :: "account_store \<Rightarrow> ustr \<Rightarrow> account_store result" where
  "list_account_credentials store platform =
     map_sum id (\<lambda>p. filter (\<lambda>(_, ac). account_platform ac = p) store) (normalize_platform platform)"

end
