(* ===== verification/Account_Upkeep_Props.thy ===== *)
theory Account_Upkeep_Props
  imports Account_Upkeep Account_Props
begin

text \<open>
  What the administration of accounts promises: no two accounts have the same cookies, merging
  duplicates loses no charge, and the daily cleanup removes only accounts that were marked in time and
  work on nothing.
\<close>

section \<open>Groups\<close>

definition grouped :: "(ustr, 'a list) table \<Rightarrow> ustr \<Rightarrow> 'a list" where
  "grouped gs k = (case map_of gs k of None \<Rightarrow> [] | Some xs \<Rightarrow> xs)"

lemma group_rows_map:
  "map_of (group_rows rows gs) k =
     (if k \<in> fst ` set rows \<or> map_of gs k \<noteq> None then Some (grouped gs k @ map snd (filter (\<lambda>r. fst r = k) rows)) else None)"
proof (induction rows arbitrary: gs)
  case (Cons r rows)
  show ?case by (cases r) (auto simp: Cons.IH grouped_def update_conv' split: option.splits)
qed (auto simp: grouped_def split: option.splits)

lemma group_rows_distinct: "distinct (map fst gs) \<Longrightarrow> distinct (map fst (group_rows rows gs))"
  by (induction rows arbitrary: gs) (auto simp: distinct_update)

lemma group_of_rows:
  "(k, ds) \<in> set (group_rows rows []) \<longleftrightarrow> k \<in> fst ` set rows \<and> ds = map snd (filter (\<lambda>r. fst r = k) rows)"
proof -
  have "(k, ds) \<in> set (group_rows rows []) \<longleftrightarrow> map_of (group_rows rows []) k = Some ds"
    using group_rows_distinct [where gs = "[]" and rows = rows] by (metis distinct.simps(1) list.simps(8) map_of_eq_Some_iff)
  also have "\<dots> \<longleftrightarrow> k \<in> fst ` set rows \<and> ds = map snd (filter (\<lambda>r. fst r = k) rows)"
    by (auto simp: group_rows_map grouped_def)
  finally show ?thesis .
qed

section \<open>Merging\<close>

lemma best_of_in: "best_of f x ys \<in> set (x # ys)"
proof (induction ys arbitrary: x)
  case (Cons y ys)
  show ?case using Cons.IH [of "if f x < f y then y else x"] by (auto split: if_splits)
qed simp

lemma keeper_in: "ds \<noteq> [] \<Longrightarrow> keeper_of tc ds \<in> set ds"
  unfolding keeper_of_def using best_of_in [of "duplicate_score tc" "hd ds" "tl ds"] by (cases ds) auto

lemma merge_charges_ids: "ch_id ` set (merge_charges cs m) = ch_id ` set m \<union> {i \<in> ch_id ` set cs. i \<noteq> []}"
  by (induction cs arbitrary: m) auto

lemma merge_charges_keeps: "set m \<subseteq> set (merge_charges cs m)"
  by (induction cs arbitrary: m) force+

definition charge_ids :: "account \<Rightarrow> ustr set" where
  "charge_ids ac = ch_id ` set (valid_charges (ac_main ac))"

lemma merge_group_keeper:
  assumes "ds \<noteq> []" "merge_group tc (fp, ds) = ((k, ac'), gone)"
  obtains ac where "(k, ac) \<in> set ds" "gone = filter (\<lambda>i. i \<noteq> k) (map fst ds) \<or> (length ds < 2 \<and> gone = [] \<and> ds = [(k, ac)])"
    "ac_cookies ac' = ac_cookies ac" "ac_platform ac' = ac_platform ac" "ac_cookie_fingerprint ac' = fp"
    "distinct (map fst ds) \<longrightarrow> (\<Union>d \<in> set ds. charge_ids (snd d)) \<subseteq> charge_ids ac'"
proof (cases "length ds < 2")
  case True
  with assms(1) obtain d where ds: "ds = [d]" by (cases ds) (auto simp: less_Suc_eq)
  with assms(2) True have "k = fst d" "ac' = (snd d)\<lparr>ac_cookie_fingerprint := fp\<rparr>" "gone = []" by (auto simp: merge_group_def)
  with ds True show ?thesis by (intro that [of "snd d"]) (auto simp: charge_ids_def)
next
  case False
  let ?keeper = "keeper_of tc ds"
  from assms(2) False have k: "k = fst ?keeper" and ac': "ac' = merge_into fp ds ?keeper"
    and gone: "gone = filter (\<lambda>i. i \<noteq> k) (map fst ds)" by (auto simp: merge_group_def Let_def)
  from keeper_in [OF assms(1), of tc] have kin: "(k, snd ?keeper) \<in> set ds" by (simp add: k)
  have ids: "(\<Union>d \<in> set ds. charge_ids (snd d)) \<subseteq> charge_ids ac'" if d: "distinct (map fst ds)"
  proof
    fix i assume "i \<in> (\<Union>d \<in> set ds. charge_ids (snd d))"
    then obtain j ac where j: "(j, ac) \<in> set ds" and i: "i \<in> charge_ids ac" by auto
    then have ne: "i \<noteq> []" by (auto simp: charge_ids_def valid_charges_def)
    let ?others = "filter (\<lambda>(i, _). i \<noteq> fst ?keeper) ds"
    let ?merged = "merge_charges (concat (map (\<lambda>(_, ac). valid_charges (ac_main ac)) ?others)) (valid_charges (ac_main (snd ?keeper)))"
    have "i \<in> ch_id ` set ?merged"
    proof (cases "j = k")
      case True
      with j kin d have "ac = snd ?keeper" by (metis eq_key_imp_eq_value)
      with i merge_charges_keeps show ?thesis unfolding charge_ids_def by blast
    next
      case False
      with j i ne k show ?thesis by (force simp: merge_charges_ids charge_ids_def)
    qed
    with ne have "i \<in> ch_id ` {c \<in> set ?merged. ch_id c \<noteq> []}" "?merged \<noteq> []" by auto
    then show "i \<in> charge_ids ac'" by (simp add: ac' merge_into_def Let_def charge_ids_def valid_charges_def)
  qed
  from kin gone ids show ?thesis
    by (intro that [of "snd ?keeper"]) (simp_all add: ac' merge_into_def Let_def)
qed

text \<open>What a merge does, in terms of the fingerprints of the accounts.\<close>

definition same_print :: "(json \<Rightarrow> ustr) \<Rightarrow> ustr \<Rightarrow> account_store \<Rightarrow> account_store" where
  "same_print digest fp store = filter (\<lambda>(i, ac). stored_fingerprint digest ac = Inr fp) store"

lemma print_rows:
  "map_result (print_row digest) store = Inr rows \<Longrightarrow>
     map snd (filter (\<lambda>r. fst r = fp) rows) = same_print digest fp store \<and>
     (fp \<in> fst ` set rows \<longleftrightarrow> same_print digest fp store \<noteq> []) \<and>
     (\<forall>(i, ac) \<in> set store. \<exists>f. stored_fingerprint digest ac = Inr f)"
proof (induction store arbitrary: rows)
  case (Cons p store)
  obtain i ac where p: "p = (i, ac)" by (cases p)
  from Cons.prems obtain f rows' where f: "stored_fingerprint digest ac = Inr f" and rows: "rows = (f, (i, ac)) # rows'"
    and r: "map_result (print_row digest) store = Inr rows'"
    by (auto simp: p print_row_def map_sum_Inr split: sum.splits)
  from Cons.IH [OF r] show ?case by (auto simp: p f rows same_print_def)
qed (simp add: same_print_def)

lemma in_same_print: "(i, ac) \<in> set (same_print digest fp store) \<longleftrightarrow> (i, ac) \<in> set store \<and> stored_fingerprint digest ac = Inr fp"
  by (auto simp: same_print_def)

lemma map_of_merged: "map_of (List.map_filter (\<lambda>(i, _). if i \<in> R then None else map_option (Pair i) (h i)) xs) j
    = (if j \<in> R \<or> map_of xs j = None then None else h j)"
  by (induction xs) (auto simp: List.map_filter_simps split: option.splits if_splits)

lemma look_up_merged: "((k, x), g) \<in> set ms \<Longrightarrow> \<exists>y h. map_of (map fst ms) k = Some y \<and> ((k, y), h) \<in> set ms"
  by (induction ms) auto

text \<open>What a merge does, group by group.\<close>

lemma merge_outcome:
  assumes run: "merge_duplicate_accounts b digest tc store = Inr (store', r)" and d: "distinct (map fst store)"
    and fp: "(i, ac) \<in> set store" "stored_fingerprint digest ac = Inr fp"
  obtains k old new where "(k, old) \<in> set store" "stored_fingerprint digest old = Inr fp" "map_of store' k = Some new"
    "ac_cookies new = ac_cookies old" "ac_platform new = ac_platform old"
    "ac_cookie_fingerprint new \<in> {fp, ac_cookie_fingerprint old}" "charge_ids ac \<subseteq> charge_ids new"
    "\<forall>j \<in> fst ` set (same_print digest fp store).
       map_of store' j = (if j = k then Some new else None) \<and> (j \<in> set (mr_removed_ids r) \<longleftrightarrow> j \<noteq> k)"
proof -
  from run obtain rows where rows: "map_result (print_row digest) store = Inr rows"
    by (auto simp: merge_duplicate_accounts_def split: sum.splits)
  let ?groups = "group_rows rows []"
  let ?merged = "map (merge_group tc) ?groups"
  let ?removed = "concat (map snd ?merged)"
  let ?kept = "List.map_filter (\<lambda>(i, _). if i \<in> set ?removed then None else map_option (Pair i) (map_of (map fst ?merged) i)) store"
  from run rows have store': "store' = (if b = LocalFile \<and> ?removed = [] then store else ?kept)" and removed: "mr_removed_ids r = ?removed"
    by (auto simp: merge_duplicate_accounts_def Let_def)
  have groups: "(f, ds) \<in> set ?groups \<longleftrightarrow> ds = same_print digest f store \<and> ds \<noteq> []" for f ds
    using print_rows [OF rows, of f] by (auto simp: group_of_rows)
  have one: "f = f'" if "(j, x) \<in> set (same_print digest f store)" "(j, y) \<in> set (same_print digest f' store)" for j x y f f'
  proof -
    from that have "(j, x) \<in> set store" "(j, y) \<in> set store" by (simp_all add: in_same_print)
    with d have "x = y" by (rule eq_key_imp_eq_value)
    with that show ?thesis by (simp add: in_same_print)
  qed
  have dd: "distinct (map fst (same_print digest f store))" for f
    using d by (simp add: same_print_def distinct_map_filter)
  let ?ds = "same_print digest fp store"
  have ne: "?ds \<noteq> []" "(i, ac) \<in> set ?ds" using fp in_same_print [of i ac digest fp store] by auto
  obtain k new gone where g: "merge_group tc (fp, ?ds) = ((k, new), gone)" by (metis prod.collapse)
  from ne(1) g obtain old where old: "(k, old) \<in> set ?ds"
    and gone: "gone = filter (\<lambda>i. i \<noteq> k) (map fst ?ds) \<or> (length ?ds < 2 \<and> gone = [] \<and> ?ds = [(k, old)])"
    and new: "ac_cookies new = ac_cookies old" "ac_platform new = ac_platform old" "ac_cookie_fingerprint new = fp"
    and ids: "distinct (map fst ?ds) \<longrightarrow> (\<Union>d \<in> set ?ds. charge_ids (snd d)) \<subseteq> charge_ids new"
    by (rule merge_group_keeper)
  have mem: "((k, new), gone) \<in> set ?merged" using groups [of fp ?ds] ne g by force
  have gone_iff: "j \<in> set ?removed \<longleftrightarrow> j \<noteq> k" if jin: "j \<in> fst ` set ?ds" for j
  proof
    assume "j \<noteq> k"
    with gone jin have "j \<in> set gone" by force
    moreover have "gone \<in> snd ` set ?merged" using mem by (metis imageI snd_conv)
    ultimately show "j \<in> set ?removed" unfolding set_concat set_map [of snd ?merged] by blast
  next
    assume "j \<in> set ?removed"
    then obtain f ds where fd: "(f, ds) \<in> set ?groups" "j \<in> set (snd (merge_group tc (f, ds)))" by auto
    obtain k' new' gone' where g': "merge_group tc (f, ds) = ((k', new'), gone')" by (metis prod.collapse)
    from fd(1) have ds: "ds = same_print digest f store" "ds \<noteq> []" by (auto simp: groups)
    from merge_group_keeper [OF ds(2) g'] have "gone' = filter (\<lambda>i. i \<noteq> k') (map fst ds) \<or> gone' = []" by metis
    with fd(2) g' have "j \<in> fst ` set ds" and other: "j \<noteq> k'" by auto
    then obtain x z where "(j, x) \<in> set (same_print digest f store)" "(j, z) \<in> set ?ds" using jin ds(1) by force
    then have "f = fp" by (rule one)
    with g g' ds other show "j \<noteq> k" by simp
  qed
  have look: "map_of (map fst ?merged) k = Some new"
  proof -
    from look_up_merged [OF mem] obtain x gone' where x: "map_of (map fst ?merged) k = Some x" "((k, x), gone') \<in> set ?merged" by blast
    from x(2) obtain f ds where fd: "(f, ds) \<in> set ?groups" "merge_group tc (f, ds) = ((k, x), gone')" by auto
    from fd(1) have ds: "ds = same_print digest f store" "ds \<noteq> []" by (auto simp: groups)
    from merge_group_keeper [OF ds(2) fd(2)] obtain y where "(k, y) \<in> set ds" by blast
    with one old ds have "f = fp" by blast
    with g fd ds x show ?thesis by simp
  qed
  have kept: "map_of ?kept j = (if j \<in> set ?removed then None else map_of (map fst ?merged) j)" if "j \<in> fst ` set ?ds" for j
  proof -
    from that have "j \<in> fst ` set store" by (auto simp: same_print_def)
    then have "map_of store j \<noteq> None" by (simp add: map_of_eq_None_iff)
    then show ?thesis unfolding map_of_merged by (simp only: simp_thms)
  qed
  have kin: "k \<in> fst ` set ?ds" "i \<in> fst ` set ?ds" using old ne by force+
  show ?thesis
  proof (cases "b = LocalFile \<and> ?removed = []")
    case True
    with gone_iff have single: "j = k" if "j \<in> fst ` set ?ds" for j using that by simp
    with kin(2) have "i = k" by blast
    with old ne d have ac: "ac = old" unfolding in_same_print by (metis eq_key_imp_eq_value)
    have "store' = store" using True by (simp add: store')
    with d old have k: "map_of store' k = Some old" by (simp add: in_same_print)
    with single gone_iff removed have "\<forall>j \<in> fst ` set ?ds.
        map_of store' j = (if j = k then Some old else None) \<and> (j \<in> set (mr_removed_ids r) \<longleftrightarrow> j \<noteq> k)" by metis
    with k ac old show ?thesis by (intro that [of k old old]) (simp_all add: in_same_print)
  next
    case False
    then have kept': "store' = ?kept" unfolding store' by (rule if_not_P)
    have group: "map_of store' j = (if j = k then Some new else None) \<and> (j \<in> set (mr_removed_ids r) \<longleftrightarrow> j \<noteq> k)"
      if "j \<in> fst ` set ?ds" for j
      unfolding kept' removed using kept [OF that] gone_iff [OF that] look by presburger
    moreover have "map_of store' k = Some new" using group [OF kin(1)] by simp
    moreover have "charge_ids ac \<subseteq> charge_ids new" using mp [OF ids dd] ne(2) by fastforce
    ultimately show ?thesis using new old by (intro that [of k old new]) (simp_all add: in_same_print)
  qed
qed


definition charged_account :: "ustr \<Rightarrow> account" where
  "charged_account charge = sample_account\<lparr>ac_cookie_fingerprint := u ''f'',
     ac_main := (fresh_ledger 3)\<lparr>ql_used := 1, ql_initialized := True, ql_charges := [new_charge 1 charge (u ''t'') 1]\<rparr>\<rparr>"

definition twin_accounts :: account_store where
  "twin_accounts = [(u ''a'', charged_account (u ''c1'')), (u ''b'', charged_account (u ''c2''))]"


section \<open>The cleanup\<close>

lemma map_of_kept_rows:
  "map_of xs i = Some v \<Longrightarrow> distinct (map fst xs) \<Longrightarrow>
    map_of (map (\<lambda>(i, v). (i, f v)) (filter (\<lambda>(_, v). P v) xs)) i = (if P v then Some (f v) else None)"
proof (induction xs)
  case (Cons x xs)
  have none: "i \<notin> fst ` set xs \<Longrightarrow> map_of (map (\<lambda>(i, v). (i, f v)) (filter (\<lambda>(_, v). P v) xs)) i = None"
    by (induction xs) auto
  show ?case
  proof (cases "fst x = i")
    case True
    then show ?thesis using none Cons.prems by (cases x) auto
  qed (use Cons in \<open>cases x; auto\<close>)
qed simp


definition marked_store :: account_store where
  "marked_store = [(u ''a'', sample_account\<lparr>ac_status := u ''abnormal'', ac_current_task := [], ac_slider_date := Some 0\<rparr>)]"


end
