(* ===== verification/Worker.thy ===== *)
theory Worker
  imports Task_Submission Account_Upkeep Task_Queue Resilience
begin

text \<open>
  The workers (app/worker.py): what a manager keeps in memory, how it classifies a task, what it does
  with an account after a failed run, and how it handles the outcome of a run, the exceptions and
  the end of a run. The browser automation that runs a task is not modelled: it may change the tasks
  and their results, and hands back an outcome, raises or is cancelled. The times of the event
  loop and the seconds of the settings are rationals. The tests of texts on exceptions are those of
  app/automation.py, the quota costs those of app/config.py.
\<close>

section \<open>What a task needs\<close>

definition QIANWEN_AI_STUDIO_MODELS :: "ustr list" where
  "QIANWEN_AI_STUDIO_MODELS = [u ''HappyHorse 1.1'', model_wanxiang_27, model_wanxiang_26]"

text \<open>The name of the model in the studio.\<close>

definition qianwen_ai_studio_model :: "ustr \<Rightarrow> ustr option" where
  "qianwen_ai_studio_model model = find (\<lambda>name. lower name = lower (strip model)) QIANWEN_AI_STUDIO_MODELS"

definition task_platform :: "task_meta \<Rightarrow> ustr" where
  "task_platform m = str_or (rq_platform (tm_request m)) (u ''dola'')"

definition task_model :: "task_meta \<Rightarrow> ustr" where
  "task_model m = rq_model (tm_request m)"

definition is_qianwen_ai_studio_task :: "task_meta \<Rightarrow> bool" where
  "is_qianwen_ai_studio_task m \<longleftrightarrow> task_platform m = u ''qianwen'' \<and> \<not> rq_image_task (tm_request m) \<and>
     tm_image_count m = 0 \<and> qianwen_ai_studio_model (task_model m) \<noteq> None"

text \<open>Whether the task needs a browser, and whether it is one of Qianwen with reference images.\<close>

definition task_browser_resource_class :: "task_meta \<Rightarrow> bool \<times> bool" where
  "task_browser_resource_class m =
     (\<not> is_qianwen_ai_studio_task m, task_platform m = u ''qianwen'' \<and> 0 < tm_image_count m)"

record worker_settings =
  wt_account_costs :: "(ustr, (ustr, (int, int) table) table) table"
  wt_studio_costs :: "(ustr, (int, int) table) table"
  wt_selection_mode :: ustr
  wt_global_interval :: rat
  wt_submit_interval :: rat
  wt_qianwen_interval :: rat
  wt_task_timeout :: int
  wt_doubao_submit_retries :: int

definition account_quota_cost_units :: "ustr \<Rightarrow> ustr \<Rightarrow> int \<Rightarrow> worker_settings \<Rightarrow> int result" where
  "account_quota_cost_units platform model duration st =
     map_sum id (\<lambda>p. max 1 (min 1000
         (dict_get (dict_get (dict_get (wt_account_costs st) p []) model []) duration
            (if p = u ''dola'' \<and> duration = 15 then 2 else 1))))
       (normalize_platform platform)"

definition qianwen_ai_studio_quota_cost_units :: "ustr \<Rightarrow> int \<Rightarrow> worker_settings \<Rightarrow> int" where
  "qianwen_ai_studio_quota_cost_units model duration st =
     (case find (\<lambda>(m, _). lower m = lower (strip model)) (wt_studio_costs st) of
        None \<Rightarrow> 1 | Some (_, costs) \<Rightarrow> max 1 (min 1000 (dict_get costs duration 1)))"

section \<open>Reasons\<close>

definition INFRASTRUCTURE_ERROR_MARKERS :: "ustr list" where
  "INFRASTRUCTURE_ERROR_MARKERS = map u
     [''mihomo '', ''all connection attempts failed'', ''failed to fetch'', ''proxy connection'', ''proxy node'',
      ''proxy subscription'', ''connection refused'', ''connection reset'', ''connection closed'',
      ''server disconnected'', ''unexpected eof'', ''eof occurred in violation'', ''ssl:'', ''tlsv1_alert'',
      ''tls handshake'', ''net::err_proxy'', ''net::err_connection'', ''net::err_timed_out'',
      ''net::err_http2_protocol_error'', ''net::err_tunnel_connection_failed'',
      ''execution context was destroyed'', ''most likely because of a navigation'',
      ''cannot find context with specified id'', ''frame was detached'',
      ''target page, context or browser has been closed'', ''target page has been closed'', ''browser timeout'',
      ''submission transport timeout'', ''all configured proxy modes are unavailable'',
      ''all selected authenticated proxies are unavailable'', ''all eligible proxy nodes are unavailable'']"

definition is_final_generation_failure :: "ustr \<Rightarrow> bool" where
  "is_final_generation_failure text \<longleftrightarrow> split_once FINAL_FAILURE_TEXT text \<noteq> None"

definition is_infrastructure_failure :: "ustr \<Rightarrow> bool" where
  "is_infrastructure_failure text \<longleftrightarrow>
     (\<exists>marker \<in> set INFRASTRUCTURE_ERROR_MARKERS. split_once marker (lower (strip text)) \<noteq> None)"

text \<open>\<open>str(exc)\<close> and the name of its type, for the exceptions of the services.\<close>

fun error_text :: "py_error \<Rightarrow> ustr \<times> ustr" where
  "error_text FileNotFoundError = ([], u ''FileNotFoundError'')"
| "error_text KeyError = ([], u ''KeyError'')"
| "error_text PermissionError = ([], u ''PermissionError'')"
| "error_text (ValueError s) = (s, u ''ValueError'')"
| "error_text (RuntimeError s) = (s, u ''RuntimeError'')"
| "error_text (QuotaExceeded s) = (s, u ''QuotaExceeded'')"
| "error_text InvalidOperation = ([], u ''InvalidOperation'')"
| "error_text (HTTPException n s) = (s, u ''HTTPException'')"
| "error_text (OpenAIAPIError n s) = (s, u ''OpenAIAPIError'')"
| "error_text OverflowError = ([], u ''OverflowError'')"
| "error_text TypeError = ([], u ''TypeError'')"
| "error_text OutOfDraws = ([], u ''OutOfDraws'')"

definition exception_reason :: "py_error \<Rightarrow> ustr" where
  "exception_reason e = (case error_text e of (text, name) \<Rightarrow> if strip text \<noteq> [] then take 500 (strip text) else name)"

section \<open>The manager\<close>

record worker_limits =
  wl_browser :: int
  wl_doubao :: int
  wl_qianwen_reference :: int
  wl_preparation :: int
  wl_upload :: int
  wl_capacity :: int
  wl_poll_base :: int

text \<open>The limits come from the environment.\<close>

definition bounded_env_int :: "ustr option \<Rightarrow> int \<Rightarrow> int \<Rightarrow> int \<Rightarrow> int" where
  "bounded_env_int value dflt lo hi = (case value of
     None \<Rightarrow> max lo (min hi dflt)
   | Some s \<Rightarrow> if s = [] then max lo (min hi dflt) else (case py_int s of None \<Rightarrow> dflt | Some n \<Rightarrow> max lo (min hi n)))"

definition BROWSER_SUBMISSION_CONCURRENCY :: int where "BROWSER_SUBMISSION_CONCURRENCY = 20 * 1"

definition task_worker_concurrency :: "(ustr \<Rightarrow> ustr option) \<Rightarrow> int" where
  "task_worker_concurrency env =
     max BROWSER_SUBMISSION_CONCURRENCY (bounded_env_int (env (u ''DOLA_TASK_WORKER_CONCURRENCY'')) 24 1 64)"

definition worker_limits_of :: "(ustr \<Rightarrow> ustr option) \<Rightarrow> worker_limits" where
  "worker_limits_of env =
     (let browser = min (task_worker_concurrency env) (bounded_env_int (env (u ''DOLA_BROWSER_TASK_CONCURRENCY'')) 20 1 64)
      in \<lparr>wl_browser = browser,
          wl_doubao = min browser (bounded_env_int (env (u ''DOLA_DOUBAO_BROWSER_CONCURRENCY'')) 6 1 20),
          wl_qianwen_reference = min browser (bounded_env_int (env (u ''DOLA_QIANWEN_REFERENCE_CONCURRENCY'')) 16 1 64),
          wl_preparation = bounded_env_int (env (u ''DOLA_IMAGE_PREPARE_CONCURRENCY'')) 15 1 24,
          wl_upload = bounded_env_int (env (u ''DOLA_IMAGE_UPLOAD_CONCURRENCY'')) 10 1 16,
          wl_capacity = BROWSER_SUBMISSION_CONCURRENCY,
          wl_poll_base = bounded_env_int (env (u ''DOLA_RESULT_POLL_INTERVAL_SECONDS'')) 20 10 120\<rparr>)"

lemma bounded_env_int_range: "lo \<le> dflt \<Longrightarrow> dflt \<le> hi \<Longrightarrow> lo \<le> bounded_env_int v dflt lo hi \<and> bounded_env_int v dflt lo hi \<le> hi"
  by (auto simp: bounded_env_int_def split: option.splits)

text \<open>The circuit breaker and rate limiter, in memory or in redis.\<close>

datatype platform_guard =
    LocalGuard guard_state
  | RedisGuard "(ustr, redis_circuit) table" "(ustr, (rat \<times> rat) \<times> rat) table"

definition redis_circuit_of :: "(ustr, redis_circuit) table \<Rightarrow> ustr \<Rightarrow> redis_circuit" where
  "redis_circuit_of cs platform = (case map_of cs platform of
     None \<Rightarrow> \<lparr>rc_failures = None, rc_opened = None, rc_probe = None\<rparr> | Some c \<Rightarrow> c)"

fun guard_admit :: "resilience_policy \<Rightarrow> rat \<Rightarrow> ustr \<Rightarrow> platform_guard \<Rightarrow> platform_guard \<times> admission" where
  "guard_admit policy now platform (LocalGuard g) =
     (case local_admit policy now platform True g of (g', a) \<Rightarrow> (LocalGuard g', a))"
| "guard_admit policy now platform (RedisGuard cs bs) =
     (let (c, circuit) = redis_admit_circuit policy now (redis_circuit_of cs platform)
      in if \<not> ad_allowed circuit then (RedisGuard (AList.update platform c cs) bs, circuit)
         else let (b, limited) = redis_take_token policy now (map_of bs platform);
                  c' = (if \<not> ad_allowed limited \<and> ad_reason circuit = u ''half_open'' then redis_release_probe c else c)
              in (RedisGuard (AList.update platform c' cs)
                    (case b of None \<Rightarrow> AList.delete platform bs | Some x \<Rightarrow> AList.update platform x bs), limited))"

fun guard_success :: "ustr \<Rightarrow> platform_guard \<Rightarrow> platform_guard" where
  "guard_success platform (LocalGuard g) = LocalGuard (g\<lparr>gs_circuits := local_record_success platform (gs_circuits g)\<rparr>)"
| "guard_success platform (RedisGuard cs bs) =
     RedisGuard (AList.update platform (redis_record_success (redis_circuit_of cs platform)) cs) bs"

fun guard_failure :: "resilience_policy \<Rightarrow> rat \<Rightarrow> ustr \<Rightarrow> platform_guard \<Rightarrow> platform_guard" where
  "guard_failure policy now platform (LocalGuard g) =
     LocalGuard (g\<lparr>gs_circuits := local_record_failure policy now platform (gs_circuits g)\<rparr>)"
| "guard_failure policy now platform (RedisGuard cs bs) =
     RedisGuard (AList.update platform (redis_record_failure policy now (redis_circuit_of cs platform)) cs) bs"

text \<open>
  The sets and tables of \<open>WorkerManager\<close>: the claimed tasks with the resources reserved for them,
  the task of each worker, the live workers, and the limits that are kept for a second.
\<close>

record manager =
  mg_claimed :: "ustr list"
  mg_browser :: "ustr list"
  mg_doubao :: "ustr list"
  mg_qianwen_reference :: "ustr list"
  mg_preparations :: "(ustr, ustr) table"
  mg_remote :: "(ustr, ustr) table"
  mg_uploads :: "(ustr, ustr) table"
  mg_worker_tasks :: "(ustr, ustr) table"
  mg_workers :: "ustr list"
  mg_last_admitted :: rat
  mg_owner_limits :: "(ustr, int) table"
  mg_owner_limits_at :: rat
  mg_upload_limits :: "(ustr, int) table"
  mg_upload_limits_at :: rat
  mg_prepare_limits :: "(ustr, int) table"
  mg_prepare_limits_at :: rat
  mg_remote_counts :: "(ustr, int) table"
  mg_remote_limits :: "(ustr, int) table"
  mg_remote_at :: rat
  mg_reconciled_at :: rat
  mg_guard :: platform_guard
  mg_streak :: int
  mg_memory_critical :: bool
  mg_stopping :: bool

definition new_manager :: "platform_guard \<Rightarrow> manager" where
  "new_manager guard = \<lparr>mg_claimed = [], mg_browser = [], mg_doubao = [], mg_qianwen_reference = [], mg_preparations = [],
     mg_remote = [], mg_uploads = [], mg_worker_tasks = [], mg_workers = [], mg_last_admitted = 0, mg_owner_limits = [],
     mg_owner_limits_at = 0, mg_upload_limits = [], mg_upload_limits_at = 0, mg_prepare_limits = [], mg_prepare_limits_at = 0,
     mg_remote_counts = [], mg_remote_limits = [], mg_remote_at = 0, mg_reconciled_at = 0, mg_guard = guard, mg_streak = 0,
     mg_memory_critical = False, mg_stopping = False\<rparr>"

record engine =
  eg_world :: world
  eg_manager :: manager

text \<open>
  What a step of a worker is served with: the environment of the requests, the clock of the event
  loop, the settings, the limits, and the random draws it makes.
\<close>

record worker_env =
  wv_env :: env
  wv_clock :: rat
  wv_settings :: worker_settings
  wv_retry_limit :: int
  wv_limits :: worker_limits
  wv_visibility :: int
  wv_draw :: nat
  wv_hex :: ustr
  wv_locked_rows :: "ustr list"
  wv_jitter :: int

definition wall_clock :: "worker_env \<Rightarrow> rat" where
  "wall_clock wv = of_int (en_now (wv_env wv)) / 1000000"

definition on_world :: "(world, 'a) action \<Rightarrow> (engine, 'a) action" where
  "on_world = on_part_keeping eg_world (\<lambda>w e. e\<lparr>eg_world := w\<rparr>)"

definition on_manager :: "(manager \<Rightarrow> manager) \<Rightarrow> (engine, unit) action" where
  "on_manager f = changes (\<lambda>e. e\<lparr>eg_manager := f (eg_manager e)\<rparr>)"

text \<open>\<open>try ... finally\<close>.\<close>

definition ensure :: "('s, 'a) action \<Rightarrow> ('s, unit) action \<Rightarrow> ('s, 'a) action" where
  "ensure m f s = (case m s of (s1, r) \<Rightarrow> (case f s1 of (s2, Inl e) \<Rightarrow> (s2, Inl e) | (s2, Inr _) \<Rightarrow> (s2, r)))"

section \<open>Operations of the services\<close>

definition change_task :: "env \<Rightarrow> ustr \<Rightarrow> (task_meta, 'a) mutator \<Rightarrow> (world, 'a) action" where
  "change_task env t f = on_tasks (\<lambda>store. mutate_meta (en_backend env) store t f)"

definition read_task :: "env \<Rightarrow> ustr \<Rightarrow> (world, task_meta) action" where
  "read_task env t = seq (reads (\<lambda>w. get_meta (en_backend env) (wd_tasks w) t)) of_result"

definition set_meta :: "env \<Rightarrow> ustr \<Rightarrow> (task_meta \<Rightarrow> task_meta) \<Rightarrow> (world, unit) action" where
  "set_meta env t f = seq (change_meta env t f) (\<lambda>_. give ())"

definition defer_to :: "env \<Rightarrow> ustr \<Rightarrow> ustr \<Rightarrow> ustr \<Rightarrow> int \<Rightarrow> (world, unit) action" where
  "defer_to env t reason category delay =
     seq (change_task env t (defer_task_mut (en_now env) reason category delay)) (\<lambda>_. give ())"

definition fail_run :: "env \<Rightarrow> ustr \<Rightarrow> ustr \<Rightarrow> (world, unit) action" where
  "fail_run env t reason = seq (change_task env t (mark_failed_mut (en_now env) reason)) (\<lambda>_. give ())"

definition clear_account :: "env \<Rightarrow> ustr \<Rightarrow> ustr \<Rightarrow> (world, unit) action" where
  "clear_account env account_id t =
     on_accounts (\<lambda>s. (clear_account_current_task (en_backend env) (en_now env) s account_id t, ()))"

definition settle_account :: "env \<Rightarrow> ustr \<Rightarrow> ustr \<Rightarrow> (world, unit) action" where
  "settle_account env account_id charge_id =
     seq (on_accounts (\<lambda>s. settle_account_quota (en_backend env) (en_now env) s account_id charge_id)) (\<lambda>_. give ())"

definition blame_account :: "env \<Rightarrow> ustr \<Rightarrow> ustr \<Rightarrow> (world, unit) action" where
  "blame_account env t account_id = on_tasks (\<lambda>store. record_failed_account (en_backend env) (en_now env) store t account_id)"

text \<open>A mark that takes the account out of use.\<close>

definition mark_world_account :: "(account_store \<Rightarrow> (account_store \<times> account) result) \<Rightarrow> (world, unit) action" where
  "mark_world_account f = seq (on_part wd_accounts (\<lambda>t w. w\<lparr>wd_accounts := t\<rparr>) f) (\<lambda>_. give ())"

definition set_phase :: "env \<Rightarrow> ustr \<Rightarrow> ustr \<Rightarrow> ustr \<Rightarrow> (world, unit) action" where
  "set_phase env t phase reason = seq (change_task env t (set_execution_phase_mut (en_now env) phase reason)) (\<lambda>_. give ())"

section \<open>The account after a failed run\<close>

text \<open>What an automation hands back; a missing key is false, empty or zero.\<close>

record outcome =
  oc_success :: bool
  oc_submitted :: bool
  oc_retryable :: bool
  oc_infrastructure_fault :: bool
  oc_account_fault :: bool
  oc_switch_account :: bool
  oc_qianwen_text_only :: bool
  oc_login_invalid :: bool
  oc_slider :: bool
  oc_text_only :: bool
  oc_region_restricted :: bool
  oc_quota_insufficient :: bool
  oc_defer_only :: bool
  oc_confirmation_pending :: bool
  oc_keep_account :: bool
  oc_reason :: ustr
  oc_defer_reason :: ustr
  oc_defer_category :: ustr
  oc_retry_after :: int
  oc_cooldown :: int

definition consume_failed_account_quota :: "env \<Rightarrow> ustr \<Rightarrow> selected_account \<Rightarrow> ustr \<Rightarrow> (world, unit) action" where
  "consume_failed_account_quota env t account platform =
     (if sa_id account = [] then give ()
      else if platform = u ''dola'' then settle_account env (sa_id account) (sa_charge_id account)
      else refund_account_once env t (sa_id account) (sa_charge_id account))"

definition should_consume_retry_account_quota :: "outcome \<Rightarrow> bool" where
  "should_consume_retry_account_quota oc \<longleftrightarrow> oc_retryable oc \<and> \<not> oc_infrastructure_fault oc"

definition defer_non_counting_retry :: "env \<Rightarrow> ustr \<Rightarrow> outcome \<Rightarrow> (world, bool) action" where
  "defer_non_counting_retry env t oc =
     (if \<not> oc_defer_only oc then give False
      else seq (defer_to env t (str_or (oc_defer_reason oc) msg_node_cooling)
             (str_or (oc_defer_category oc) (u ''proxy_cooldown'')) (max 1 (int_or (oc_retry_after oc) 5)))
           (\<lambda>_. give True))"

definition normalize_qianwen_retry_outcome :: "ustr \<Rightarrow> outcome \<Rightarrow> outcome" where
  "normalize_qianwen_retry_outcome platform oc =
     (if platform \<noteq> u ''qianwen'' \<or> \<not> oc_quota_insufficient oc then oc
      else oc\<lparr>oc_defer_only := True, oc_defer_reason := msg_qianwen_switching,
        oc_defer_category := u ''account_quota'', oc_retry_after := 1\<rparr>)"

definition worker_label :: "ustr \<Rightarrow> ustr" where
  "worker_label platform = dict_get [(u ''dola'', u ''Dola''), (u ''doubao'', msg_doubao), (u ''qianwen'', msg_qianwen)] platform platform"

definition release_account_after_retryable_failure ::
    "env \<Rightarrow> ustr \<Rightarrow> selected_account \<Rightarrow> ustr \<Rightarrow> outcome \<Rightarrow> (world, unit) action" where
  "release_account_after_retryable_failure env t account platform oc =
     (let i = sa_id account; now = en_now env;
          refund = refund_account_once env t i (sa_charge_id account)
      in if i = [] then give ()
         else seq (clear_account env i t) (\<lambda>_.
              seq (if oc_switch_account oc
                   then seq (if oc_qianwen_text_only oc then give () else blame_account env t i) (\<lambda>_.
                        set_meta env t (\<lambda>m. m\<lparr>tm_preferred_account_id := []\<rparr>))
                   else give ()) (\<lambda>_.
              seq (if max 0 (oc_cooldown oc) = 0 then give ()
                   else on_accounts (\<lambda>s. (set_account_cooldown (en_backend env) now s i (max 0 (oc_cooldown oc))
                     (str_or (oc_reason oc) (u ''qianwen account cooldown'')), ()))) (\<lambda>_.
              if oc_login_invalid oc
              then seq (mark_world_account (\<lambda>s. disable_account_for_login now s i (worker_label platform @ msg_login_lost))) (\<lambda>_. refund)
              else if oc_slider oc then seq (mark_world_account (\<lambda>s. mark_account_slider_verification now s i)) (\<lambda>_. refund)
              else if oc_text_only oc then seq (mark_world_account (\<lambda>s. mark_account_text_only now s i)) (\<lambda>_. refund)
              else if oc_region_restricted oc then seq (mark_world_account (\<lambda>s. mark_account_region_restricted now s i)) (\<lambda>_. refund)
              else if oc_quota_insufficient oc
              then seq (on_accounts (\<lambda>s. exhaust_account_quota (en_backend env) now s i (sa_charge_id account))) (\<lambda>_. give ())
              else seq (if oc_infrastructure_fault oc then refund
                        else if oc_account_fault oc \<and> \<not> oc_qianwen_text_only oc then blame_account env t i
                        else give ()) (\<lambda>_.
                   if should_consume_retry_account_quota oc then consume_failed_account_quota env t account platform
                   else give ())))))"

section \<open>The end of a run\<close>

definition refund_owner :: "env \<Rightarrow> ustr \<Rightarrow> (world, unit) action" where
  "refund_owner env t = seq (read_task env t) (\<lambda>m. refund_token_once env t (tm_owner m))"

text \<open>A failure that may be tried again: its count, with the limit it is held against.\<close>

definition count_retry :: "worker_env \<Rightarrow> ustr \<Rightarrow> bool \<Rightarrow> ustr \<Rightarrow> (world, int \<times> int) action" where
  "count_retry wv t infrastructure reason =
     (let env = wv_env wv
      in if infrastructure
         then seq (change_task env t (record_infrastructure_retry_mut (en_now env) reason)) (\<lambda>n. give (n, MAX_INFRASTRUCTURE_RETRIES))
         else seq (change_task env t (record_retry_mut (en_now env) (wv_retry_limit wv) reason)) (\<lambda>n. give (n, wv_retry_limit wv)))"

definition retry_or_refund :: "worker_env \<Rightarrow> ustr \<Rightarrow> bool \<Rightarrow> ustr \<Rightarrow> (world, unit) action" where
  "retry_or_refund wv t infrastructure reason =
     seq (count_retry wv t infrastructure reason) (\<lambda>(n, limit).
       if limit < n then refund_owner (wv_env wv) t else give ())"

definition failed_reason :: "env \<Rightarrow> ustr \<Rightarrow> ustr \<Rightarrow> outcome \<Rightarrow> (world, ustr) action" where
  "failed_reason env t platform oc =
     (let reason = take 500 (strip (oc_reason oc))
      in if reason \<noteq> [] then give reason
         else seq (read_task env t) (\<lambda>m. give (platform @ u '' automation returned no failure detail (phase: '' @
                str_or (tm_execution_phase m) (u ''unknown'') @ u '')'')))"

text \<open>The outcome of a run without success that has not reached the platform.\<close>

definition finish_failure :: "worker_env \<Rightarrow> ustr \<Rightarrow> selected_account \<Rightarrow> ustr \<Rightarrow> outcome \<Rightarrow> (world, unit) action" where
  "finish_failure wv t account platform oc =
     (let env = wv_env wv
      in if oc_retryable oc
         then seq (release_account_after_retryable_failure env t account platform oc) (\<lambda>_.
              seq (failed_reason env t platform oc) (\<lambda>reason.
              seq (defer_non_counting_retry env t oc) (\<lambda>deferred.
              if deferred then give () else retry_or_refund wv t (oc_infrastructure_fault oc) reason)))
         else seq (clear_account env (sa_id account) t) (\<lambda>_.
              seq (fail_run env t (take 500 (oc_reason oc))) (\<lambda>_.
              seq (refund_owner env t) (\<lambda>_.
              consume_failed_account_quota env t account platform))))"

definition handle_outcome :: "worker_env \<Rightarrow> ustr \<Rightarrow> selected_account \<Rightarrow> ustr \<Rightarrow> outcome \<Rightarrow> (engine, unit) action" where
  "handle_outcome wv t account platform raw =
     (let env = wv_env wv; oc = normalize_qianwen_retry_outcome platform raw
      in seq (if platform = u ''dola'' then give ()
              else if oc_success oc then on_manager (\<lambda>g. g\<lparr>mg_guard := guard_success platform (mg_guard g)\<rparr>)
              else if oc_retryable oc \<and> \<not> oc_submitted oc \<and> \<not> oc_account_fault oc \<and> \<not> oc_infrastructure_fault oc
              then on_manager (\<lambda>g. g\<lparr>mg_guard := guard_failure (en_policy env) (wall_clock wv) platform (mg_guard g)\<rparr>)
              else give ()) (\<lambda>_.
         on_world (if oc_success oc
           then seq (if oc_confirmation_pending oc then give () else settle_account env (sa_id account) (sa_charge_id account)) (\<lambda>_.
                if oc_keep_account oc then give () else clear_account env (sa_id account) t)
           else if oc_submitted oc
           then seq (if oc_keep_account oc then give () else clear_account env (sa_id account) t) (\<lambda>_.
                seq (change_task env t (mark_submitted_mut (en_now env) 15)) (\<lambda>_. give ()))
           else finish_failure wv t account platform oc)))"

text \<open>
  The branches for exceptions. The account is missing when none was claimed yet; the platform is
  the local variable, unset or left from the task before when the fault came before it was read.
\<close>

definition suppress_missing :: "(world, unit) action \<Rightarrow> (world, unit) action" where
  "suppress_missing m = catch m (\<lambda>e. if e = FileNotFoundError then give () else raise e)"

definition handle_exception :: "worker_env \<Rightarrow> ustr \<Rightarrow> selected_account option \<Rightarrow> ustr option \<Rightarrow> ustr \<Rightarrow> (engine, unit) action" where
  "handle_exception wv t account platform reason =
     (let env = wv_env wv; infrastructure = is_infrastructure_failure reason
      in seq (case platform of
              Some p \<Rightarrow> if p \<noteq> u ''dola'' \<and> \<not> infrastructure
                then on_manager (\<lambda>g. g\<lparr>mg_guard := guard_failure (en_policy env) (wall_clock wv) p (mg_guard g)\<rparr>) else give ()
            | None \<Rightarrow> give ()) (\<lambda>_.
         on_world (seq (suppress_missing (retry_or_refund wv t infrastructure reason)) (\<lambda>_.
           case account of
             None \<Rightarrow> give ()
           | Some ac \<Rightarrow> seq (clear_account env (sa_id ac) t) (\<lambda>_.
               if infrastructure then refund_account_once env t (sa_id ac) (sa_charge_id ac)
               else if platform = Some (u ''dola'') \<or> \<not> is_final_generation_failure reason
               then seq (blame_account env t (sa_id ac)) (\<lambda>_.
                    consume_failed_account_quota env t ac (case platform of Some p \<Rightarrow> p | None \<Rightarrow> []))
               else give ())))))"

text \<open>The cancellation of the worker; it is raised again afterwards.\<close>

definition handle_cancel :: "worker_env \<Rightarrow> bool \<Rightarrow> ustr \<Rightarrow> selected_account option \<Rightarrow> (world, unit) action" where
  "handle_cancel wv stopping t account = (case account of
     None \<Rightarrow> give ()
   | Some ac \<Rightarrow>
      (let env = wv_env wv; refund = refund_account_once env t (sa_id ac) (sa_charge_id ac)
       in seq (clear_account env (sa_id ac) t) (\<lambda>_.
          suppress_missing (seq (read_task env t) (\<lambda>m.
            if tm_status m = Canceled then refund
            else if stopping then give ()
            else seq (change_task env t (mark_pending_mut (en_now env) (u ''worker canceled''))) (\<lambda>_. refund))))))"

definition discard :: "'a \<Rightarrow> 'a list \<Rightarrow> 'a list" where
  "discard x xs = filter (\<lambda>y. y \<noteq> x) xs"

definition forget_task :: "ustr \<Rightarrow> ustr \<Rightarrow> manager \<Rightarrow> manager" where
  "forget_task t worker g =
     g\<lparr>mg_claimed := discard t (mg_claimed g), mg_browser := discard t (mg_browser g),
       mg_doubao := discard t (mg_doubao g), mg_qianwen_reference := discard t (mg_qianwen_reference g),
       mg_preparations := AList.delete t (mg_preparations g), mg_remote := AList.delete t (mg_remote g),
       mg_remote_at := (case map_of (mg_remote g) t of None \<Rightarrow> mg_remote_at g
          | Some owner \<Rightarrow> if owner = [] then mg_remote_at g else 0),
       mg_worker_tasks := AList.delete worker (mg_worker_tasks g)\<rparr>"

definition release_queue :: "env \<Rightarrow> ustr \<Rightarrow> ustr \<Rightarrow> (world, unit) action" where
  "release_queue env t worker =
     (if \<not> en_redis env then give ()
      else seq (reads wd_tasks) (\<lambda>store. on_part wd_queue (\<lambda>q w. w\<lparr>wd_queue := q\<rparr>)
        (\<lambda>q. no_value (release (en_backend env) (en_now env) store t worker q))))"

definition publish_active :: "(engine, unit) action" where
  "publish_active = changes (\<lambda>e. e\<lparr>eg_world := (eg_world e)\<lparr>wd_runtime :=
     set_active_tasks (mg_claimed (eg_manager e)) (wd_runtime (eg_world e))\<rparr>\<rparr>)"

text \<open>The \<open>finally\<close> block; reclaiming memory is left out.\<close>

definition finish_task :: "worker_env \<Rightarrow> ustr \<Rightarrow> ustr \<Rightarrow> (engine, unit) action" where
  "finish_task wv t worker =
     seq (on_world (release_queue (wv_env wv) t worker)) (\<lambda>_.
     seq (on_manager (forget_task t worker)) (\<lambda>_. publish_active))"

text \<open>How the automation ended.\<close>

datatype run_end = Returned outcome | Raised py_error | Cancelled

definition after_run :: "worker_env \<Rightarrow> ustr \<Rightarrow> ustr \<Rightarrow> selected_account \<Rightarrow> ustr \<Rightarrow> run_end \<Rightarrow> (engine, unit) action" where
  "after_run wv worker t account platform r =
     (let handler = (\<lambda>e. if e = FileNotFoundError then give ()
            else handle_exception wv t (Some account) (Some platform) (exception_reason e))
      in ensure (case r of
             Returned oc \<Rightarrow> catch (handle_outcome wv t account platform oc) handler
           | Raised e \<Rightarrow> handler e
           | Cancelled \<Rightarrow> seq (reads (\<lambda>e. mg_stopping (eg_manager e))) (\<lambda>stopping.
               on_world (handle_cancel wv stopping t (Some account))))
         (finish_task wv t worker))"

end
