(* ===== verification/Worker_Claims.thy ===== *)
theory Worker_Claims
  imports Worker
begin

text \<open>
  How a worker takes a task (app/worker.py): the limits per owner that are computed once a second,
  the reservations, the twenty tries under the claim lock, and what it does up to the start of
  the automation. Between two \<open>await\<close>s nothing else runs, so each of these is one step.
\<close>

section \<open>Listing tasks by status\<close>

text \<open>
  With PostgreSQL a query, with files all tasks are listed, which fails those that expired.
\<close>

definition poll_time :: "task_meta \<Rightarrow> stamp" where
  "poll_time m = stamp_or (tm_next_result_poll_at m) (stamp_or (tm_submitted_at m) (tm_updated_at m))"

record task_query =
  tq_statuses :: "task_status list"
  tq_platform :: "ustr option"
  tq_due_before :: "int option"
  tq_phase :: "ustr option"
  tq_limit :: "int option"

definition query_of :: "task_status list \<Rightarrow> task_query" where
  "query_of ss = \<lparr>tq_statuses = ss, tq_platform = None, tq_due_before = None, tq_phase = None, tq_limit = None\<rparr>"

definition query_rows :: "task_query \<Rightarrow> (ustr \<times> task_meta) list \<Rightarrow> (ustr \<times> task_meta) list" where
  "query_rows q rows =
     (let hits = sort_key (\<lambda>(i, m). (poll_time m, i)) (filter (\<lambda>(_, m).
            tm_status m \<in> set (tq_statuses q) \<and>
            (case tq_platform q of None \<Rightarrow> True | Some p \<Rightarrow> task_platform m = p) \<and>
            (case tq_phase q of None \<Rightarrow> True | Some p \<Rightarrow> tm_execution_phase m = p) \<and>
            (case tq_due_before q of None \<Rightarrow> True | Some t \<Rightarrow> poll_time m \<le> At t)) rows)
      in case tq_limit q of None \<Rightarrow> hits | Some n \<Rightarrow> take (nat (max 1 n)) hits)"

definition on_expiry :: "(task_store \<times> account_store \<times> token_table \<times> transaction list \<Rightarrow>
    ((task_store \<times> account_store \<times> token_table \<times> transaction list) \<times> 'a) result) \<Rightarrow> (world, 'a) action" where
  "on_expiry = on_part (\<lambda>w. (wd_tasks w, wd_accounts w, wd_tokens w, wd_ledger w))
     (\<lambda>(t, a, k, l) w. w\<lparr>wd_tasks := t, wd_accounts := a, wd_tokens := k, wd_ledger := l\<rparr>)"

definition list_task_metas_by_statuses :: "env \<Rightarrow> task_query \<Rightarrow> (world, (ustr \<times> task_meta) list) action" where
  "list_task_metas_by_statuses env q =
     (case en_backend env of
        Postgres \<Rightarrow> reads (\<lambda>w. query_rows q (map (\<lambda>(i, row). (i, tr_meta row)) (wd_tasks w)))
      | LocalFile \<Rightarrow> seq (on_expiry (\<lambda>sw. list_tasks (world_services env) (en_backend env) (en_now env) (en_stamp env) None sw))
          (\<lambda>items. give (query_rows q items)))"

section \<open>Limits of the owners\<close>

definition owners_of :: "(ustr \<times> task_meta) list \<Rightarrow> ustr list" where
  "owners_of rows = filter (\<lambda>o'. o' \<noteq> []) (remdups (map (\<lambda>(_, m). tm_owner m) rows))"

text \<open>The limits that the tokens configure, or a fair split of the browsers among those who have tasks.\<close>

definition owner_concurrency_limits :: "worker_env \<Rightarrow> (engine, (ustr, int) table) action" where
  "owner_concurrency_limits wv =
     seq (reads eg_manager) (\<lambda>g.
       if wv_clock wv - mg_owner_limits_at g < 1 then give (mg_owner_limits g)
       else seq (reads (\<lambda>e. temp_token_concurrency_limits (wd_tokens (eg_world e)))) (\<lambda>configured.
         seq (catch
           (seq (on_world (list_task_metas_by_statuses (wv_env wv) (query_of [Pending, Running]))) (\<lambda>rows.
             let requested = List.map_filter (\<lambda>owner. map_option (Pair owner) (map_of configured owner)) (owners_of rows)
             in give (if requested = [] then configured
                      else fair_owner_capacity_limits requested (wl_capacity (wv_limits wv)))))
           (\<lambda>_. give configured)) (\<lambda>limits.
         seq (on_manager (\<lambda>g. g\<lparr>mg_owner_limits := limits, mg_owner_limits_at := wv_clock wv\<rparr>)) (\<lambda>_. give limits))))"

definition image_rows :: "(ustr \<times> task_meta) list \<Rightarrow> (ustr \<times> task_meta) list" where
  "image_rows rows = filter (\<lambda>(_, m). 0 < tm_image_count m) rows"

text \<open>The share of each owner in \<open>capacity\<close> slots, each asking for its own limit.\<close>

definition image_shares :: "(ustr, int) table \<Rightarrow> int \<Rightarrow> ustr list \<Rightarrow> (ustr, int) table" where
  "image_shares configured capacity owners = fair_owner_capacity_limits
     (map (\<lambda>owner. (owner, min capacity (max 1 (int_or (dict_get configured owner 0) capacity)))) owners) capacity"

definition share_of :: "(ustr, int) table \<Rightarrow> ustr \<Rightarrow> int" where
  "share_of limits owner = max 1 (int_or (dict_get limits owner 0) 1)"

definition platform_rows :: "env \<Rightarrow> ustr \<Rightarrow> (world, (ustr \<times> task_meta) list) action" where
  "platform_rows env platform = list_task_metas_by_statuses env ((query_of [Pending, Running])\<lparr>tq_platform := Some platform\<rparr>)"

definition image_owner_limit :: "worker_env \<Rightarrow> ustr \<Rightarrow> (engine, int) action" where
  "image_owner_limit wv owner =
     (let capacity = wl_upload (wv_limits wv)
      in if owner = [] then give capacity
         else seq (reads eg_manager) (\<lambda>g.
           if wv_clock wv - mg_upload_limits_at g < 1 \<and> map_of (mg_upload_limits g) owner \<noteq> None
           then give (share_of (mg_upload_limits g) owner)
           else seq (on_world (platform_rows (wv_env wv) (u ''dola''))) (\<lambda>dola.
             seq (on_world (platform_rows (wv_env wv) (u ''doubao''))) (\<lambda>doubao.
             seq (owner_concurrency_limits wv) (\<lambda>configured.
             let limits = image_shares configured capacity (remdups (owner # owners_of (image_rows (dola @ doubao))))
             in seq (on_manager (\<lambda>g. g\<lparr>mg_upload_limits := limits, mg_upload_limits_at := wv_clock wv\<rparr>)) (\<lambda>_.
                give (share_of limits owner)))))))"

definition image_prepare_owner_limit :: "worker_env \<Rightarrow> ustr \<Rightarrow> (engine, int) action" where
  "image_prepare_owner_limit wv owner =
     (let capacity = wl_preparation (wv_limits wv)
      in if owner = [] then give capacity
         else seq (reads eg_manager) (\<lambda>g.
           if wv_clock wv - mg_prepare_limits_at g < 1 \<and> map_of (mg_prepare_limits g) owner \<noteq> None
           then give (share_of (mg_prepare_limits g) owner)
           else seq (on_world (platform_rows (wv_env wv) (u ''dola''))) (\<lambda>dola.
             seq (owner_concurrency_limits wv) (\<lambda>configured.
             let limits = image_shares configured capacity (remdups (owner # owners_of (image_rows dola)))
             in seq (on_manager (\<lambda>g. g\<lparr>mg_prepare_limits := limits, mg_prepare_limits_at := wv_clock wv\<rparr>)) (\<lambda>_.
                give (share_of limits owner))))))"

section \<open>Slots\<close>

definition held_by :: "ustr \<Rightarrow> (ustr, ustr) table \<Rightarrow> int" where
  "held_by owner reservations = int (length (filter (\<lambda>(_, o'). o' = owner) reservations))"

text \<open>One round of waiting for a slot to upload images: it is taken, or the phase says that it waits.\<close>

definition try_upload_slot :: "worker_env \<Rightarrow> ustr \<Rightarrow> ustr \<Rightarrow> (engine, bool) action" where
  "try_upload_slot wv t owner =
     seq (image_owner_limit wv owner) (\<lambda>limit.
     seq (reads (\<lambda>e. mg_uploads (eg_manager e))) (\<lambda>uploads.
     if int (length uploads) < wl_upload (wv_limits wv) \<and> held_by owner uploads < limit
     then seq (on_manager (\<lambda>g. g\<lparr>mg_uploads := AList.update t owner uploads\<rparr>)) (\<lambda>_. give True)
     else seq (on_world (set_phase (wv_env wv) t (u ''waiting_image_upload_slot'') msg_wait_upload_slot)) (\<lambda>_. give False)))"

definition free_upload_slot :: "ustr \<Rightarrow> (engine, unit) action" where
  "free_upload_slot t = on_manager (\<lambda>g. g\<lparr>mg_uploads := AList.delete t (mg_uploads g)\<rparr>)"

definition release_image_preparation :: "ustr \<Rightarrow> (engine, unit) action" where
  "release_image_preparation t = on_manager (\<lambda>g. g\<lparr>mg_preparations := AList.delete t (mg_preparations g)\<rparr>)"

definition count_owners :: "(ustr \<times> task_meta) list \<Rightarrow> (ustr, int) table" where
  "count_owners rows = map (\<lambda>owner. (owner, count_if (\<lambda>(_, m). tm_owner m = owner) rows)) (owners_of rows)"

definition remote_generation_owner_state :: "worker_env \<Rightarrow> (engine, unit) action" where
  "remote_generation_owner_state wv =
     seq (reads eg_manager) (\<lambda>g.
       if wv_clock wv - mg_remote_at g < 1 then give ()
       else catch
         (seq (on_world (list_task_metas_by_statuses (wv_env wv) ((query_of [Submitted])\<lparr>tq_platform := Some (u ''dola'')\<rparr>))) (\<lambda>rows.
          changes (\<lambda>e. e\<lparr>eg_manager := (eg_manager e)\<lparr>mg_remote_counts := count_owners rows,
            mg_remote_limits := temp_token_remote_generation_limits (wd_tokens (eg_world e)), mg_remote_at := wv_clock wv\<rparr>\<rparr>)))
         (\<lambda>_. give ()))"

definition reserve_remote_generation_slot :: "worker_env \<Rightarrow> ustr \<Rightarrow> task_meta \<Rightarrow> (engine, bool) action" where
  "reserve_remote_generation_slot wv t m =
     (let owner = tm_owner m; take_it = on_manager (\<lambda>g. g\<lparr>mg_remote := AList.update t owner (mg_remote g)\<rparr>)
      in if owner = [] then seq take_it (\<lambda>_. give True)
         else seq (remote_generation_owner_state wv) (\<lambda>_.
              seq (reads eg_manager) (\<lambda>g.
              let limit = max 1 (min 999 (int_or (dict_get (mg_remote_limits g) owner 0) 1))
              in if limit \<le> dict_get (mg_remote_counts g) owner 0 + held_by owner (mg_remote g) then give False
                 else seq take_it (\<lambda>_. give True))))"

text \<open>The seconds until the next task of Dola may be prepared, or zero and the slot is taken.\<close>

definition admit_dola_preparation :: "worker_env \<Rightarrow> (engine, int) action" where
  "admit_dola_preparation wv =
     seq (reads (\<lambda>e. mg_last_admitted (eg_manager e))) (\<lambda>last.
       let delay = wt_global_interval (wv_settings wv) - (wv_clock wv - last)
       in if 0 < delay then give (max 1 \<lfloor>delay + 999 / 1000\<rfloor>)
          else seq (on_manager (\<lambda>g. g\<lparr>mg_last_admitted := wv_clock wv\<rparr>)) (\<lambda>_. give 0))"

section \<open>Claiming a task\<close>

definition is_image_submission :: "task_meta \<Rightarrow> bool" where
  "is_image_submission m \<longleftrightarrow> task_platform m \<in> {u ''dola'', u ''doubao''} \<and> 0 < tm_image_count m"

text \<open>The claimed tasks of each owner; those that are gone are left out.\<close>

definition active_counts :: "env \<Rightarrow> engine \<Rightarrow> ustr \<Rightarrow> int" where
  "active_counts env e owner = count_if (\<lambda>t. case get_meta (en_backend env) (wd_tasks (eg_world e)) t of
     Inl _ \<Rightarrow> False | Inr m \<Rightarrow> tm_owner m = owner \<and> owner \<noteq> []) (mg_claimed (eg_manager e))"

definition queue_claim :: "worker_env \<Rightarrow> ustr \<Rightarrow> (ustr \<Rightarrow> int) \<Rightarrow> (engine, ustr option) action" where
  "queue_claim wv worker active =
     (let env = wv_env wv in
      seq (owner_concurrency_limits wv) (\<lambda>limits.
      seq (reads id) (\<lambda>e.
      let paused = task_submission_paused (wd_runtime (eg_world e)) in
      if en_redis env
      then on_world (on_part (\<lambda>w. (wd_tasks w, wd_queue w)) (\<lambda>(s, q) w. w\<lparr>wd_tasks := s, wd_queue := q\<rparr>)
        (claim (en_backend env) (en_now env) paused (wv_visibility wv) worker (map_of limits)))
      else on_part (\<lambda>e. \<lparr>cs_world = (wd_tasks (eg_world e), wd_accounts (eg_world e), wd_tokens (eg_world e), wd_ledger (eg_world e)),
              cs_streak = mg_streak (eg_manager e)\<rparr>)
          (\<lambda>s e. case cs_world s of (t, a, k, l) \<Rightarrow>
             e\<lparr>eg_world := (eg_world e)\<lparr>wd_tasks := t, wd_accounts := a, wd_tokens := k, wd_ledger := l\<rparr>,
               eg_manager := (eg_manager e)\<lparr>mg_streak := cs_streak s\<rparr>\<rparr>)
          (claim_next_pending (world_services env) (en_now env) (en_stamp env) paused worker
             (mg_claimed (eg_manager e)) active (map_of limits)))))"

text \<open>Why a claimed task must wait for resources: the text, the category and the seconds.\<close>

definition resource_refusal :: "worker_limits \<Rightarrow> manager \<Rightarrow> task_meta \<Rightarrow> (ustr \<times> ustr \<times> int) option" where
  "resource_refusal l g m = (case task_browser_resource_class m of (browser, reference) \<Rightarrow>
     if browser \<and> wl_browser l \<le> int (length (mg_browser g)) then Some (msg_wait_browser, u ''browser_task_limit'', 5)
     else if task_platform m = u ''doubao'' \<and> wl_doubao l \<le> int (length (mg_doubao g))
     then Some (msg_wait_doubao_browser, u ''doubao_browser_limit'', 5)
     else if reference \<and> wl_qianwen_reference l \<le> int (length (mg_qianwen_reference g))
     then Some (msg_wait_qianwen_browser, u ''qianwen_reference_limit'', 5)
     else None)"

definition preparation_refusal :: "worker_env \<Rightarrow> task_meta \<Rightarrow> (engine, (ustr \<times> ustr \<times> int) option) action" where
  "preparation_refusal wv m =
     (if \<not> is_image_submission m then give None
      else seq (image_prepare_owner_limit wv (tm_owner m)) (\<lambda>limit.
           seq (reads (\<lambda>e. mg_preparations (eg_manager e))) (\<lambda>held.
           give (if wl_preparation (wv_limits wv) \<le> int (length held) \<or> limit \<le> held_by (tm_owner m) held
                 then Some (msg_wait_preparation, u ''image_prepare_limit'', 10) else None))))"

definition remote_refusal :: "worker_env \<Rightarrow> ustr \<Rightarrow> task_meta \<Rightarrow> (engine, (ustr \<times> ustr \<times> int) option) action" where
  "remote_refusal wv t m =
     (if task_platform m \<noteq> u ''dola'' then give None
      else seq (reserve_remote_generation_slot wv t m) (\<lambda>ok.
        give (if ok then None else Some (msg_remote_limit, u ''remote_limit'', 5))))"

definition refusal :: "worker_env \<Rightarrow> ustr \<Rightarrow> task_meta \<Rightarrow> (engine, (ustr \<times> ustr \<times> int) option) action" where
  "refusal wv t m =
     seq (reads (\<lambda>e. resource_refusal (wv_limits wv) (eg_manager e) m)) (\<lambda>r1.
       if r1 \<noteq> None then give r1
       else seq (preparation_refusal wv m) (\<lambda>r2. if r2 \<noteq> None then give r2 else remote_refusal wv t m))"

definition hold_task :: "ustr \<Rightarrow> task_meta \<Rightarrow> ustr \<Rightarrow> manager \<Rightarrow> manager" where
  "hold_task t m worker g = (case task_browser_resource_class m of (browser, reference) \<Rightarrow>
     g\<lparr>mg_claimed := sadd t (mg_claimed g),
       mg_browser := (if browser then sadd t (mg_browser g) else mg_browser g),
       mg_doubao := (if task_platform m = u ''doubao'' then sadd t (mg_doubao g) else mg_doubao g),
       mg_qianwen_reference := (if reference then sadd t (mg_qianwen_reference g) else mg_qianwen_reference g),
       mg_preparations := (if is_image_submission m then AList.update t (tm_owner m) (mg_preparations g) else mg_preparations g),
       mg_worker_tasks := AList.update worker t (mg_worker_tasks g)\<rparr>)"

fun claim_round :: "worker_env \<Rightarrow> ustr \<Rightarrow> (ustr \<Rightarrow> int) \<Rightarrow> nat \<Rightarrow> (engine, ustr option) action" where
  "claim_round wv worker active 0 = give None"
| "claim_round wv worker active (Suc n) =
     seq (queue_claim wv worker active) (\<lambda>c. case c of
       None \<Rightarrow> give None
     | Some t \<Rightarrow>
         seq (on_world (read_task (wv_env wv) t)) (\<lambda>m.
         seq (refusal wv t m) (\<lambda>r. case r of
           Some (reason, category, delay) \<Rightarrow>
             seq (on_world (defer_to (wv_env wv) t reason category delay)) (\<lambda>_.
             seq (on_world (release_queue (wv_env wv) t worker)) (\<lambda>_. claim_round wv worker active n))
         | None \<Rightarrow> seq (on_manager (hold_task t m worker)) (\<lambda>_. give (Some t)))))"

definition claim_block :: "worker_env \<Rightarrow> ustr \<Rightarrow> (engine, ustr option) action" where
  "claim_block wv worker =
     seq (reads (\<lambda>e. active_counts (wv_env wv) e)) (\<lambda>active.
     seq (claim_round wv worker active 20) (\<lambda>c. case c of
       None \<Rightarrow> give None
     | Some t \<Rightarrow> seq publish_active (\<lambda>_. give (Some t))))"

section \<open>Up to the start of the automation\<close>

definition RETRY_ACCOUNT_WAIT_MINUTES :: int where "RETRY_ACCOUNT_WAIT_MINUTES = 5"

definition retry_account_wait_expired :: "int \<Rightarrow> task_meta \<Rightarrow> bool" where
  "retry_account_wait_expired now m \<longleftrightarrow> 1 \<le> tm_result_timeout_retry_count m \<and>
     (case stamp_or (tm_retry_queued_at m) (tm_next_attempt_at m) of
        Unset \<Rightarrow> False | At t \<Rightarrow> secs (60 * RETRY_ACCOUNT_WAIT_MINUTES) \<le> now - t)"

definition handle_unavailable_account :: "worker_env \<Rightarrow> ustr \<Rightarrow> task_meta \<Rightarrow> ustr \<Rightarrow> (world, bool) action" where
  "handle_unavailable_account wv t m platform =
     (let env = wv_env wv
      in if retry_account_wait_expired (en_now env) m
         then seq (fail_run env t msg_account_wait_over) (\<lambda>_. seq (refund_token_once env t (tm_owner m)) (\<lambda>_. give True))
         else seq (defer_to env t (msg_wait_available @ platform @ msg_account) (u ''account_wait'') (5 + wv_jitter wv)) (\<lambda>_. give False))"

text \<open>Only the query of PostgreSQL looks at the platform of the account.\<close>

definition account_id_supports_duration :: "backend \<Rightarrow> account_store \<Rightarrow> ustr \<Rightarrow> ustr \<Rightarrow> int \<Rightarrow> bool" where
  "account_id_supports_duration b store account_id platform duration = (case map_of store (lower (strip account_id)) of
     None \<Rightarrow> False
   | Some ac \<Rightarrow> (b = Postgres \<longrightarrow> account_platform ac = platform) \<and> account_supports_duration ac platform duration)"

definition still_runs :: "env \<Rightarrow> ustr \<Rightarrow> ustr \<Rightarrow> (world, bool) action" where
  "still_runs env t worker = seq (reads (\<lambda>w. can_run_task (en_backend env) (wd_tasks w) t worker)) of_result"

definition is_task_canceled :: "env \<Rightarrow> ustr \<Rightarrow> (world, bool) action" where
  "is_task_canceled env t = seq (reads (\<lambda>w. get_meta (en_backend env) (wd_tasks w) t)) (\<lambda>r. case r of
     Inl FileNotFoundError \<Rightarrow> give True
   | Inl e \<Rightarrow> raise e
   | Inr m \<Rightarrow> give (tm_status m = Canceled \<or> tm_cancel_requested m))"

text \<open>The first steps: the task as it is, unless it is over.\<close>

definition open_task :: "worker_env \<Rightarrow> ustr \<Rightarrow> (world, task_meta option) action" where
  "open_task wv t = (let env = wv_env wv in
     seq (read_task env t) (\<lambda>m.
     seq (on_expiry (\<lambda>sw. expire_task_if_timeout (world_services env) (en_backend env) (en_now env) (en_stamp env) sw t)) (\<lambda>expired.
     if expired then give None
     else seq (is_task_canceled env t) (\<lambda>canceled. give (if canceled then None else Some m)))))"

definition run_request :: "worker_env \<Rightarrow> task_meta \<Rightarrow> ustr \<Rightarrow> account_request result" where
  "run_request wv m preferred =
     (let duration = int_or (rq_duration (tm_request m)) 10; studio = is_qianwen_ai_studio_task m; st = wv_settings wv
      in map_sum id (\<lambda>cost. \<lparr>arq_excluded = filter (\<lambda>i. i \<noteq> []) (tm_failed_account_ids m), arq_platform = task_platform m,
             arq_preferred = preferred, arq_cost = cost, arq_duration = duration, arq_mode = wt_selection_mode st,
             arq_bucket = (if studio then u ''qianwen_ai_studio'' else u ''default'')\<rparr>)
           (if studio then Inr (qianwen_ai_studio_quota_cost_units (task_model m) duration st)
            else account_quota_cost_units (task_platform m) (task_model m) duration st))"

definition claim_run_account :: "worker_env \<Rightarrow> ustr \<Rightarrow> ustr \<Rightarrow> account_request \<Rightarrow> (world, selected_account option) action" where
  "claim_run_account wv worker t rq =
     on_part wd_accounts (\<lambda>a w. w\<lparr>wd_accounts := a\<rparr>) (\<lambda>s. claim_account_for_worker (en_backend (wv_env wv))
       (en_now (wv_env wv)) (wv_draw wv) (wv_hex wv) (wv_locked_rows wv) s worker t rq)"

text \<open>The account for the task, if it may run now.\<close>

definition needs_reference :: "task_meta \<Rightarrow> bool" where
  "needs_reference m \<longleftrightarrow> task_platform m = u ''qianwen'' \<and> \<not> rq_image_task (tm_request m) \<and> tm_image_count m = 0 \<and>
     \<not> is_qianwen_ai_studio_task m"

definition find_account :: "worker_env \<Rightarrow> ustr \<Rightarrow> ustr \<Rightarrow> task_meta \<Rightarrow> ustr \<Rightarrow> (engine, selected_account option) action" where
  "find_account wv worker t m preferred = (let env = wv_env wv; platform = task_platform m in
     seq (if platform \<noteq> u ''dola'' then give 0 else admit_dola_preparation wv) (\<lambda>wait.
     if 0 < wait
     then seq (on_world (defer_to env t msg_wait_submit_time (u ''submit_admission'') wait)) (\<lambda>_. give None)
     else seq (on_world (if platform = u ''dola'' then set_phase env t (u ''preparing_submission_slot'') msg_preparing else give ())) (\<lambda>_.
          seq (of_result (run_request wv m preferred)) (\<lambda>rq.
          seq (on_world (claim_run_account wv worker t rq)) (\<lambda>account. case account of
            Some ac \<Rightarrow> give (Some ac)
          | None \<Rightarrow>
              seq (on_world (if preferred \<noteq> [] then defer_to env t msg_wait_same_account (u ''preferred_account'') 3
                   else seq (handle_unavailable_account wv t m platform) (\<lambda>_. give ()))) (\<lambda>_. give None))))))"

definition prepare_run :: "worker_env \<Rightarrow> ustr \<Rightarrow> ustr \<Rightarrow> task_meta \<Rightarrow> (engine, selected_account option) action" where
  "prepare_run wv worker t m = (let env = wv_env wv; platform = task_platform m in
     if needs_reference m
     then on_world (seq (fail_run env t (msg_qianwen_prefix @ str_or (task_model m) msg_current_model @ msg_needs_reference)) (\<lambda>_.
       seq (refund_token_once env t (tm_owner m)) (\<lambda>_. give None)))
     else let wanted = lower (strip (tm_preferred_account_id m)) in
       seq (reads (\<lambda>e. wanted = [] \<or> account_id_supports_duration (en_backend env) (wd_accounts (eg_world e)) wanted platform
              (int_or (rq_duration (tm_request m)) 10))) (\<lambda>fits.
       seq (on_world (if fits then give () else set_meta env t (\<lambda>m. m\<lparr>tm_preferred_account_id := [], tm_queue_reason := [],
              tm_queue_category := []\<rparr>))) (\<lambda>_.
       if platform \<notin> {u ''dola'', u ''doubao'', u ''qianwen''}
       then on_world (seq (fail_run env t msg_platform_missing) (\<lambda>_. give None))
       else seq (on_world (still_runs env t worker)) (\<lambda>runs.
            if runs then find_account wv worker t m (if fits then wanted else []) else give None))))"

text \<open>With the account: the platform must admit the task, and it must still run.\<close>

definition admit_run :: "worker_env \<Rightarrow> ustr \<Rightarrow> ustr \<Rightarrow> task_meta \<Rightarrow> selected_account \<Rightarrow> (engine, selected_account option) action" where
  "admit_run wv worker t m account =
     (let env = wv_env wv; platform = task_platform m;
          give_back = seq (clear_account env (sa_id account) t) (\<lambda>_. refund_account_once env t (sa_id account) (sa_charge_id account))
      in seq (on_world (if tm_retry_queued_at m = Unset then give () else set_meta env t (\<lambda>m. m\<lparr>tm_retry_queued_at := Unset\<rparr>))) (\<lambda>_.
         seq (if platform = u ''dola'' then give allowed_admission
              else on_part (\<lambda>e. mg_guard (eg_manager e)) (\<lambda>g e. e\<lparr>eg_manager := (eg_manager e)\<lparr>mg_guard := g\<rparr>\<rparr>)
                (\<lambda>g. Inr (guard_admit (en_policy env) (wall_clock wv) platform g))) (\<lambda>admitted.
         if \<not> ad_allowed admitted
         then on_world (seq give_back (\<lambda>_. seq (defer_to env t msg_platform_busy (u ''platform_guard'')
                (max 1 (ad_retry_after admitted))) (\<lambda>_. give None)))
         else seq (on_world (still_runs env t worker)) (\<lambda>runs.
              if \<not> runs then on_world (seq give_back (\<lambda>_. give None))
              else seq (on_world (if platform = u ''qianwen'' then set_phase env t (u ''submitting_request'') msg_submitting
                       else give ())) (\<lambda>_. give (Some account))))))"

definition run_guarded ::
    "worker_env \<Rightarrow> ustr \<Rightarrow> selected_account option \<Rightarrow> ustr option \<Rightarrow> (engine, 'a option) action \<Rightarrow> (engine, 'a option) action" where
  "run_guarded wv t account platform m = catch m (\<lambda>e.
     seq (if e = FileNotFoundError then give () else handle_exception wv t account platform (exception_reason e)) (\<lambda>_. give None))"

text \<open>
  \<open>previous\<close> is the platform of the worker's task before. A result means that the automation
  starts; without one the \<open>finally\<close> block has run.
\<close>

definition start_task ::
    "worker_env \<Rightarrow> ustr \<Rightarrow> ustr option \<Rightarrow> ustr \<Rightarrow> (engine, (selected_account \<times> ustr) option) action" where
  "start_task wv worker previous t e =
     (let attempt = seq (run_guarded wv t None previous (on_world (open_task wv t))) (\<lambda>r1. case r1 of
            None \<Rightarrow> give None
          | Some m \<Rightarrow> seq (run_guarded wv t None (Some (task_platform m)) (prepare_run wv worker t m)) (\<lambda>r2. case r2 of
              None \<Rightarrow> give None
            | Some account \<Rightarrow> seq (run_guarded wv t (Some account) (Some (task_platform m)) (admit_run wv worker t m account)) (\<lambda>r3.
                give (map_option (\<lambda>ac. (ac, task_platform m)) r3))))
      in case attempt e of
           (e1, Inr (Some x)) \<Rightarrow> (e1, Inr (Some x))
         | (e1, r) \<Rightarrow> ensure (\<lambda>e2. (e2, r)) (finish_task wv t worker) e1)"

end
