(* ===== verification/Worker_Watch.thy ===== *)
theory Worker_Watch
  imports Worker_Claims
begin

text \<open>
  What a manager watches (app/worker.py): the results of submitted tasks with their deadlines, the
  tasks that time out while they run, the retries that wait, the number of workers, and what it does
  when it starts. The query of a result (app/query.py) is not modelled: a watch is a step before it
  and a step after it, which is given the code and the seconds to wait that the query returned.
\<close>

section \<open>Deadlines\<close>

definition RUNNING_WATCH_GRACE_SECONDS :: int where "RUNNING_WATCH_GRACE_SECONDS = 90"
definition RESULT_LONG_WAIT_SECONDS :: int where "RESULT_LONG_WAIT_SECONDS = 8 * 60"
definition RESULT_LOW_RATE_SECONDS :: int where "RESULT_LOW_RATE_SECONDS = 15 * 60"
definition RESULT_MAX_TOTAL_WATCH_SECONDS :: int where "RESULT_MAX_TOTAL_WATCH_SECONDS = 30 * 60"
definition RESULT_LATE_POLL_INTERVAL_SECONDS :: int where "RESULT_LATE_POLL_INTERVAL_SECONDS = 60"
definition RESULT_POLL_BATCH_SIZE :: int where "RESULT_POLL_BATCH_SIZE = 256"

definition result_deadline_minutes :: "ustr \<Rightarrow> int" where
  "result_deadline_minutes platform = (if platform = u ''doubao'' then 30 else if platform = u ''qianwen'' then 20 else 20)"

definition late_result_watch_deadline :: "task_meta \<Rightarrow> int option" where
  "late_result_watch_deadline m = (case tm_late_result_watch_until m of
     Unset \<Rightarrow> None
   | At stored \<Rightarrow> (case tm_submitted_at m of
       Unset \<Rightarrow> Some stored | At submitted \<Rightarrow> Some (min stored (submitted + secs RESULT_MAX_TOTAL_WATCH_SECONDS))))"

definition late_result_watch_active :: "int \<Rightarrow> task_meta \<Rightarrow> bool" where
  "late_result_watch_active now m \<longleftrightarrow> tm_status m = Failed \<and>
     (case late_result_watch_deadline m of None \<Rightarrow> False | Some until \<Rightarrow> now < until)"

section \<open>A submitted task\<close>

definition stop_late_watch :: "task_meta \<Rightarrow> task_meta \<Rightarrow> task_meta" where
  "stop_late_watch old m = m\<lparr>tm_late_result_watch_until := Unset, tm_execution_phase := u ''failed'',
     tm_status_reason := str_or (tm_error old) (u ''generation timeout'')\<rparr>"

definition timeout_reason :: "ustr \<Rightarrow> ustr" where
  "timeout_reason platform = (if platform = u ''qianwen'' then msg_qianwen_timed_out
     else if platform = u ''doubao'' then msg_doubao_timed_out else msg_dola_timed_out)"

definition late_label :: "ustr \<Rightarrow> ustr" where
  "late_label platform = dict_get [(u ''doubao'', msg_doubao), (u ''qianwen'', msg_qianwen)] platform (u ''Dola'')"

definition retry_submitted :: "worker_env \<Rightarrow> ustr \<Rightarrow> ustr \<Rightarrow> int \<Rightarrow> (world, int) action" where
  "retry_submitted wv t reason delay =
     (let env = wv_env wv; b = en_backend env; limit = wv_retry_limit wv
      in if en_redis env
         then on_part_keeping (\<lambda>w. (wd_tasks w, wd_queue w)) (\<lambda>(s, q) w. w\<lparr>wd_tasks := s, wd_queue := q\<rparr>)
           (\<lambda>sq. retry_submitted_task (redis_requeue b) b (en_now env) limit sq t reason (Some limit) delay)
         else on_part_keeping (\<lambda>w. (wd_tasks w, ())) (\<lambda>(s, _) w. w\<lparr>wd_tasks := s\<rparr>)
           (\<lambda>sq. retry_submitted_task file_requeue b (en_now env) limit sq t reason (Some limit) delay))"

text \<open>The account of a task that produced nothing in time.\<close>

definition give_up_account :: "env \<Rightarrow> ustr \<Rightarrow> ustr \<Rightarrow> result_doc \<Rightarrow> (world, unit) action" where
  "give_up_account env t platform d =
     (let i = str_value d (u ''account_id''); charge = str_value d (u ''account_quota_charge_id'')
      in if i = [] then give ()
         else seq (if platform \<in> {u ''doubao'', u ''qianwen''} then refund_account_once env t i charge
                   else settle_account env i charge) (\<lambda>_.
              seq (clear_account env i t) (\<lambda>_.
              if platform = u ''qianwen'' then blame_account env t i else give ())))"

text \<open>The task fails, its price is paid back, and the result is looked for until half an hour after submission.\<close>

definition fail_timed_out :: "env \<Rightarrow> ustr \<Rightarrow> task_meta \<Rightarrow> int \<Rightarrow> (world, unit) action" where
  "fail_timed_out env t m submitted =
     (let now = en_now env; platform = task_platform m; until = submitted + secs RESULT_MAX_TOTAL_WATCH_SECONDS
      in seq (fail_run env t (timeout_reason platform)) (\<lambda>_.
         seq (refund_token_once env t (tm_owner m)) (\<lambda>_.
         if now < until
         then set_meta env t (\<lambda>m. m\<lparr>tm_late_result_watch_until := At until, tm_late_result_refunded_at := At now,
                tm_execution_phase := u ''late_result_watch'',
                tm_status_reason := msg_refunded_watching @ late_label platform @ msg_result_word,
                tm_next_result_poll_at := At (now + secs RESULT_LATE_POLL_INTERVAL_SECONDS)\<rparr>)
         else set_meta env t (\<lambda>m. m\<lparr>tm_late_result_watch_until := Unset, tm_late_result_refunded_at := At now,
                tm_execution_phase := u ''failed'', tm_status_reason := timeout_reason platform,
                tm_next_result_poll_at := Unset\<rparr>))))"

definition give_up_result :: "worker_env \<Rightarrow> ustr \<Rightarrow> task_meta \<Rightarrow> result_doc \<Rightarrow> int \<Rightarrow> (world, unit) action" where
  "give_up_result wv t m d submitted =
     (let env = wv_env wv; platform = task_platform m
      in seq (give_up_account env t platform d) (\<lambda>_.
         if platform \<noteq> u ''qianwen'' then fail_timed_out env t m submitted
         else seq (set_meta env t (\<lambda>m. m\<lparr>tm_preferred_account_id := [], tm_qianwen_timeout_retry := True\<rparr>)) (\<lambda>_.
              seq (retry_submitted wv t (timeout_reason platform) 5) (\<lambda>n.
              if n \<le> wv_retry_limit wv
              then on_tasks (\<lambda>store. clear_transient_result (en_backend env) (en_stamp env) store t)
              else fail_timed_out env t m submitted))))"

text \<open>What the watch of a task goes on with: its meta part, whether it is late, and its age.\<close>

record watch =
  wa_meta :: task_meta
  wa_late :: bool
  wa_age :: int

definition mark_waiting :: "env \<Rightarrow> ustr \<Rightarrow> task_meta \<Rightarrow> result_doc \<Rightarrow> int \<Rightarrow> (world, unit) action" where
  "mark_waiting env t m d age =
     (let now = en_now env; platform = task_platform m
      in seq (if secs RESULT_LONG_WAIT_SECONDS \<le> age \<and> tm_long_result_wait_marked_at m = Unset
              then set_meta env t (\<lambda>m. m\<lparr>tm_long_result_wait_marked_at := At now, tm_execution_phase := u ''waiting_result_long'',
                tm_status_reason := late_label platform @ msg_takes_long\<rparr>) else give ()) (\<lambda>_.
         if platform = u ''dola'' \<and> secs RESULT_LOW_RATE_SECONDS \<le> age \<and> tm_late_account_released_at m = Unset
         then seq (if str_value d (u ''account_id'') = [] then give () else clear_account env (str_value d (u ''account_id'')) t) (\<lambda>_.
              set_meta env t (\<lambda>m. m\<lparr>tm_late_account_released_at := At now,
                tm_execution_phase := u ''waiting_result_low_rate'', tm_status_reason := msg_dola_slow\<rparr>))
         else give ()))"

definition watch_before :: "worker_env \<Rightarrow> ustr \<Rightarrow> (world, watch option) action" where
  "watch_before wv t = (let env = wv_env wv; now = en_now env in
     seq (seq (reads (\<lambda>w. load_result (en_backend env) (wd_tasks w) t)) of_result) (\<lambda>d.
     seq (read_task env t) (\<lambda>m.
     let late = late_result_watch_active now m;
         expired = (case tm_submitted_at m of At s \<Rightarrow> Some s | Unset \<Rightarrow> (case tm_updated_at m of At s \<Rightarrow> Some s | Unset \<Rightarrow> None))
     in if has_value d (u ''decoded_main_url'')
        then seq (if late then seq (on_tasks (\<lambda>store. mark_late_result_success (en_backend env) now store t)) (\<lambda>_. give ())
                  else give ()) (\<lambda>_. give None)
        else if task_platform m \<notin> {u ''dola'', u ''doubao'', u ''qianwen''} then give None
        else if tm_status m \<noteq> Submitted \<and> \<not> late then give None
        else (case expired of
           Some s \<Rightarrow> if \<not> late \<and> secs (60 * result_deadline_minutes (task_platform m)) \<le> now - s
             then seq (give_up_result wv t m d s) (\<lambda>_. give None)
             else seq (mark_waiting env t m d (max 0 (now - s))) (\<lambda>_. give (Some \<lparr>wa_meta = m, wa_late = late, wa_age = max 0 (now - s)\<rparr>))
         | None \<Rightarrow> seq (mark_waiting env t m d 0) (\<lambda>_. give (Some \<lparr>wa_meta = m, wa_late = late, wa_age = 0\<rparr>))))))"

text \<open>The seconds to the next look, before the jitter.\<close>

definition poll_interval :: "int \<Rightarrow> ustr \<Rightarrow> bool \<Rightarrow> int \<Rightarrow> int \<Rightarrow> int \<Rightarrow> int" where
  "poll_interval base platform late age misses retry_after =
     max (if late then RESULT_LATE_POLL_INTERVAL_SECONDS
          else if platform \<in> {u ''doubao'', u ''qianwen''}
          then (if age < secs (5 * 60) then 15 else if age < secs (15 * 60) then 30 else 60)
          else if secs RESULT_LOW_RATE_SECONDS \<le> age then RESULT_LATE_POLL_INTERVAL_SECONDS
          else min 45 (base + max 0 (misses - 1) * 5))
       (max 0 retry_after)"

text \<open>\<open>wv_jitter\<close> is here the draw of milliseconds.\<close>

definition watch_after :: "worker_env \<Rightarrow> ustr \<Rightarrow> watch \<Rightarrow> ustr \<Rightarrow> int \<Rightarrow> (world, unit) action" where
  "watch_after wv t wa code retry_after = (let env = wv_env wv in
     if code = u ''2'' then give ()
     else seq (read_task env t) (\<lambda>current.
          if tm_status current \<noteq> Submitted \<and> \<not> wa_late wa then give ()
          else seq (change_task env t (record_result_watch_miss_mut (en_now env) msg_result_unfinished)) (\<lambda>misses.
               set_meta env t (\<lambda>m. m\<lparr>tm_next_result_poll_at := At (en_now env + 1000 * wv_jitter wv +
                 secs (poll_interval (wl_poll_base (wv_limits wv)) (task_platform (wa_meta wa)) (wa_late wa) (wa_age wa)
                   misses retry_after))\<rparr>))))"

text \<open>The \<open>except\<close> branches around both steps.\<close>

definition watch_guarded :: "worker_env \<Rightarrow> ustr \<Rightarrow> 'a \<Rightarrow> (world, 'a) action \<Rightarrow> (world, 'a) action" where
  "watch_guarded wv t x m = catch m (\<lambda>e. if e = FileNotFoundError then give x
     else (let env = wv_env wv in
       seq (catch (seq (read_task env t) (\<lambda>current.
           if tm_status current = Submitted \<or> late_result_watch_active (en_now env) current
           then set_meta env t (\<lambda>m. m\<lparr>tm_next_result_poll_at := At (en_now env + secs 30)\<rparr>) else give ()))
         (\<lambda>_. give ())) (\<lambda>_. give x)))"

section \<open>The round of the watchdog\<close>

definition due_query :: "int \<Rightarrow> task_status \<Rightarrow> ustr \<Rightarrow> ustr option \<Rightarrow> task_query" where
  "due_query now s platform phase = \<lparr>tq_statuses = [s], tq_platform = Some platform, tq_due_before = Some now,
     tq_phase = phase, tq_limit = Some RESULT_POLL_BATCH_SIZE\<rparr>"

fun gather_rows :: "env \<Rightarrow> task_query list \<Rightarrow> (world, (ustr \<times> task_meta) list) action" where
  "gather_rows env [] = give []"
| "gather_rows env (q # qs) = seq (list_task_metas_by_statuses env q) (\<lambda>rows. seq (gather_rows env qs) (\<lambda>more'. give (rows @ more')))"

text \<open>The tasks whose results are to be looked for; a late watch that is over is closed.\<close>

definition tasks_to_watch :: "env \<Rightarrow> (world, ustr list) action" where
  "tasks_to_watch env = (let now = en_now env; platforms = map u [''dola'', ''doubao'', ''qianwen''] in
     seq (gather_rows env (map (\<lambda>p. due_query now Submitted p None) platforms)) (\<lambda>submitted.
     seq (gather_rows env (map (\<lambda>p. due_query now Failed p (Some (u ''late_result_watch''))) platforms)) (\<lambda>late.
     seq (for_each (\<lambda>(t, m). set_meta env t (stop_late_watch m)) (filter (\<lambda>(_, m). \<not> late_result_watch_active now m) late)) (\<lambda>_.
     give (map fst submitted @ map fst (filter (\<lambda>(_, m). late_result_watch_active now m) late))))))"

definition requeue_task :: "env \<Rightarrow> ustr \<Rightarrow> stamp \<Rightarrow> (world, unit) action" where
  "requeue_task env t available_at =
     (if \<not> en_redis env then give ()
      else changes (\<lambda>w. w\<lparr>wd_queue := requeue (en_now env) (is_retry_task (en_backend env) (wd_tasks w) t) t available_at (wd_queue w)\<rparr>))"

definition reconcile_retry :: "worker_env \<Rightarrow> ustr \<times> task_meta \<Rightarrow> (world, unit) action" where
  "reconcile_retry wv = (\<lambda>(t, m). let env = wv_env wv; now = en_now env in
     if tm_retry_count m < 1 \<and> tm_infrastructure_retry_count m < 1 then give ()
     else seq (on_expiry (\<lambda>sw. expire_task_if_timeout (world_services env) (en_backend env) now (en_stamp env) sw t)) (\<lambda>expired.
          if expired \<or> \<not> due now m then give ()
          else catch (seq (requeue_task env t (tm_next_attempt_at m)) (\<lambda>_.
                 seq (change_task env t (mark_retry_queue_verified_mut now)) (\<lambda>_. give ()))) (\<lambda>_. give ())))"

definition reconcile_pending_retries :: "worker_env \<Rightarrow> (world, unit) action" where
  "reconcile_pending_retries wv =
     seq (list_task_metas_by_statuses (wv_env wv) ((query_of [Pending])\<lparr>tq_limit := Some RESULT_POLL_BATCH_SIZE\<rparr>)) (\<lambda>rows.
     for_each (reconcile_retry wv) rows)"

definition phase_timeout :: "worker_settings \<Rightarrow> task_meta \<Rightarrow> int" where
  "phase_timeout st m =
     (let base = max 240 (wt_task_timeout st)
      in if task_platform m = u ''doubao'' \<and> tm_execution_phase m = u ''submitting_request''
         then max base (120 * (max 0 (min 10 (wt_doubao_submit_retries st)) + 1) + 90) else base)"

text \<open>Times that are not set count as very long ago.\<close>

definition older_than :: "int \<Rightarrow> int \<Rightarrow> stamp \<Rightarrow> bool" where
  "older_than now seconds s = (case s of Unset \<Rightarrow> True | At t \<Rightarrow> secs seconds \<le> now - t)"

text \<open>One running task; the result is the worker to cancel.\<close>

definition watch_running :: "worker_env \<Rightarrow> ustr \<Rightarrow> (engine, ustr option) action" where
  "watch_running wv t = (let env = wv_env wv; now = en_now env in
     seq (on_world (read_task env t)) (\<lambda>m.
     seq (reads (\<lambda>e. tm_worker_id m \<noteq> [] \<and> tm_worker_id m \<in> set (mg_workers (eg_manager e)))) (\<lambda>alive.
     let started = stamp_or (tm_started_at m) (tm_updated_at m); phased = stamp_or (tm_phase_updated_at m) started;
         owner_refund = on_world (refund_token_once env t (tm_owner m))
     in if tm_status m \<noteq> Running \<or> \<not> older_than now RUNNING_WATCH_GRACE_SECONDS started then give None
        else if alive
        then (if \<not> older_than now (phase_timeout (wv_settings wv) m + RUNNING_WATCH_GRACE_SECONDS) phased then give None
              else seq (on_world (change_task env t (record_infrastructure_retry_mut now
                     (u ''execution phase timed out: '' @ str_or (tm_execution_phase m) (u ''unknown''))))) (\<lambda>n.
                   seq (if MAX_INFRASTRUCTURE_RETRIES < n then owner_refund else give ()) (\<lambda>_. give (Some (tm_worker_id m)))))
        else seq (on_world (change_task env t (record_infrastructure_retry_mut now (u ''worker execution heartbeat missing'')))) (\<lambda>n.
             seq (on_manager (\<lambda>g. g\<lparr>mg_claimed := discard t (mg_claimed g),
                    mg_worker_tasks := AList.delete (tm_worker_id m) (mg_worker_tasks g)\<rparr>)) (\<lambda>_.
             seq (if n \<le> MAX_INFRASTRUCTURE_RETRIES then on_world (requeue_task env t Unset) else owner_refund) (\<lambda>_.
             give None))))))"

definition watch_running_suppressed :: "worker_env \<Rightarrow> ustr \<Rightarrow> (engine, ustr option) action" where
  "watch_running_suppressed wv t = catch (watch_running wv t) (\<lambda>e. if e = FileNotFoundError then give None else raise e)"

fun watch_all_running :: "worker_env \<Rightarrow> ustr list \<Rightarrow> (engine, ustr list) action" where
  "watch_all_running wv [] = give []"
| "watch_all_running wv (t # ts) = seq (watch_running_suppressed wv t) (\<lambda>c.
     seq (watch_all_running wv ts) (\<lambda>cs. give (case c of None \<Rightarrow> cs | Some w \<Rightarrow> w # cs)))"

definition watch_running_round :: "worker_env \<Rightarrow> (engine, ustr list) action" where
  "watch_running_round wv =
     seq (reads eg_manager) (\<lambda>g.
     seq (if wv_clock wv - mg_reconciled_at g < 15 then give ()
          else seq (on_manager (\<lambda>g. g\<lparr>mg_reconciled_at := wv_clock wv\<rparr>)) (\<lambda>_. on_world (reconcile_pending_retries wv))) (\<lambda>_.
     seq (on_world (list_task_metas_by_statuses (wv_env wv) (query_of [Running]))) (\<lambda>rows.
     seq (watch_all_running wv (map fst rows)) (\<lambda>canceled.
     seq publish_active (\<lambda>_. give canceled)))))"

section \<open>Pacing\<close>

text \<open>
  \<open>_wait_for_dola_submit_slot\<close> and its like, under their lock: the time at which the caller goes on,
  which is the new time of the last submission. The sleep may take \<open>late\<close> seconds too long.
\<close>

definition pace :: "rat \<Rightarrow> rat \<Rightarrow> rat \<Rightarrow> rat \<Rightarrow> rat" where
  "pace interval previous clock late =
     (let delay = interval - (clock - previous) in if 0 < delay then clock + delay + max 0 late else clock)"

definition doubao_submit_interval :: "worker_settings \<Rightarrow> rat" where
  "doubao_submit_interval st = max 5 (wt_submit_interval st)"

definition poll_pace_interval :: "int \<Rightarrow> rat" where
  "poll_pace_interval per_second = 1 / of_int per_second"

section \<open>The workers\<close>

text \<open>The workers without a task that are too many; the first come first.\<close>

definition idle_workers_to_trim :: "int \<Rightarrow> manager \<Rightarrow> ustr list" where
  "idle_workers_to_trim desired g =
     (let excess = max 0 (int (length (mg_workers g)) - max 1 desired)
      in take (nat excess) (filter (\<lambda>w. map_of (mg_worker_tasks g) w = None) (mg_workers g)))"

definition desired_workers :: "int \<Rightarrow> int \<Rightarrow> manager \<Rightarrow> int" where
  "desired_workers effective pending g = min effective (max 1 (int (length (mg_claimed g)) + pending))"

text \<open>Trimming and starting workers; \<open>names\<close> are the identifiers of the new ones.\<close>

definition scale_workers :: "int \<Rightarrow> ustr list \<Rightarrow> manager \<Rightarrow> manager" where
  "scale_workers desired names g =
     (let kept = filter (\<lambda>w. w \<notin> set (idle_workers_to_trim desired g)) (mg_workers g)
      in g\<lparr>mg_workers := kept @ take (nat (desired - int (length kept))) names\<rparr>)"

definition cancel_task :: "ustr \<Rightarrow> manager \<Rightarrow> ustr option" where
  "cancel_task t g = map_option fst (find (\<lambda>(w, t'). t' = t \<and> w \<in> set (mg_workers g)) (mg_worker_tasks g))"

definition memory_claiming_paused :: "manager \<Rightarrow> bool" where
  "memory_claiming_paused g = mg_memory_critical g"

record worker_health =
  wh_ok :: bool
  wh_alive :: int
  wh_browser_active :: int
  wh_doubao_active :: int
  wh_reference_active :: int
  wh_claimed :: int
  wh_uploads :: int
  wh_preparations :: int
  wh_remote :: int

definition health_snapshot :: "bool \<Rightarrow> bool \<Rightarrow> int \<Rightarrow> manager \<Rightarrow> worker_health" where
  "health_snapshot supervisor watchdog remote g =
     \<lparr>wh_ok = (supervisor \<and> watchdog \<and> mg_workers g \<noteq> []), wh_alive = int (length (mg_workers g)),
      wh_browser_active = int (length (mg_browser g)), wh_doubao_active = int (length (mg_doubao g)),
      wh_reference_active = int (length (mg_qianwen_reference g)), wh_claimed = int (length (mg_claimed g)),
      wh_uploads = int (length (mg_uploads g)), wh_preparations = int (length (mg_preparations g)), wh_remote = remote\<rparr>"

text \<open>One round of the supervisor. \<open>new_day\<close> says that the accounts were not reset today.\<close>

definition supervise :: "worker_env \<Rightarrow> bool \<Rightarrow> rat \<Rightarrow> int \<Rightarrow> ustr list \<Rightarrow> (engine, unit) action" where
  "supervise wv new_day ratio configured names = (let env = wv_env wv in
     seq (if new_day then on_world (on_accounts (\<lambda>s. (fst (reset_daily_account_quotas_if_needed (en_backend env) (en_now env) s), ())))
          else give ()) (\<lambda>_.
     seq (on_manager (\<lambda>g. g\<lparr>mg_memory_critical := (memory_critical_ratio (en_policy env) \<le> ratio)\<rparr>)) (\<lambda>_.
     seq (if en_redis env then changes (\<lambda>e. e\<lparr>eg_world := (eg_world e)\<lparr>wd_queue :=
            heartbeat (en_now env) (wv_visibility wv) (map (\<lambda>(w, t). (t, w)) (mg_worker_tasks (eg_manager e))) (wd_queue (eg_world e))\<rparr>\<rparr>)
          else give ()) (\<lambda>_.
     seq (on_world (catch (seq (list_task_metas_by_statuses env (query_of [Pending])) (\<lambda>rows. give (int (length rows)))) (\<lambda>_. give 0))) (\<lambda>pending.
     seq (on_manager (\<lambda>g. scale_workers (desired_workers (adaptive_worker_limit (en_policy env) ratio configured configured) pending g) names g)) (\<lambda>_.
     publish_active))))))"

definition clear_manager :: "manager \<Rightarrow> manager" where
  "clear_manager g = g\<lparr>mg_claimed := [], mg_remote := [], mg_browser := [], mg_doubao := [], mg_qianwen_reference := [],
     mg_uploads := [], mg_preparations := [], mg_worker_tasks := [], mg_stopping := True\<rparr>"

section \<open>Starting\<close>

definition restore_claim :: "env \<Rightarrow> ustr \<times> task_meta \<Rightarrow> (world, unit) action" where
  "restore_claim env = (\<lambda>(t, m).
     seq (seq (reads (\<lambda>w. load_result (en_backend env) (wd_tasks w) t)) of_result) (\<lambda>d.
     if str_value d (u ''account_id'') = [] then give ()
     else on_accounts (\<lambda>s. (fst (restore_account_current_task (en_backend env) (en_now env) s (str_value d (u ''account_id'')) t
            (str_or (tm_worker_id m) (u ''result-watch'')) (str_value d (u ''account_quota_charge_id''))), ()))))"

definition restore_qianwen_submitted_account_claims :: "env \<Rightarrow> (world, unit) action" where
  "restore_qianwen_submitted_account_claims env =
     seq (list_task_metas_by_statuses env ((query_of [Submitted])\<lparr>tq_platform := Some (u ''qianwen''), tq_limit := Some 2000\<rparr>)) (\<lambda>rows.
     for_each (restore_claim env) rows)"

definition stale_dola_query :: task_query where
  "stale_dola_query = (query_of [Pending])\<lparr>tq_platform := Some (u ''dola''), tq_limit := Some 2000\<rparr>"

definition requeue_stale_dola_guard_tasks :: "env \<Rightarrow> (world, unit) action" where
  "requeue_stale_dola_guard_tasks env =
     seq (list_task_metas_by_statuses env stale_dola_query) (\<lambda>rows.
     for_each (\<lambda>(t, _). seq (set_meta env t (\<lambda>m. m\<lparr>tm_next_attempt_at := At (en_now env), tm_queue_reason := msg_wait_resubmit,
         tm_queue_category := [], tm_status_reason := msg_wait_resubmit\<rparr>)) (\<lambda>_. requeue_task env t Unset))
       (filter (\<lambda>(_, m). tm_queue_category m = u ''platform_guard'') rows))"

definition browser_allocation_timeout :: "task_meta \<Rightarrow> bool" where
  "browser_allocation_timeout m \<longleftrightarrow> split_once (u ''execution phase timed out: allocating_browser'') (tm_infrastructure_error m) \<noteq> None"

definition requeue_stale_resource_wait_tasks :: "env \<Rightarrow> (world, unit) action" where
  "requeue_stale_resource_wait_tasks env = (let now = en_now env in
     seq (list_task_metas_by_statuses env stale_dola_query) (\<lambda>rows.
     for_each (\<lambda>(t, old). seq (set_meta env t (\<lambda>m.
         let m' = m\<lparr>tm_next_attempt_at := At now, tm_queue_reason := msg_wait_resubmit, tm_queue_category := [],
               tm_status_reason := msg_resources_back, tm_execution_phase := u ''retry_queued'', tm_phase_updated_at := At now,
               tm_retry_queue_verified_at := Unset\<rparr>
         in if browser_allocation_timeout old then m'\<lparr>tm_infrastructure_retry_count := 0, tm_infrastructure_error := []\<rparr> else m'))
         (\<lambda>_. requeue_task env t Unset))
       (filter (\<lambda>(_, m). tm_queue_category m \<in> {u ''image_upload_limit'', u ''image_prepare_limit''} \<or> browser_allocation_timeout m) rows)))"

definition start_manager :: "worker_env \<Rightarrow> (engine, unit) action" where
  "start_manager wv = (let env = wv_env wv; b = en_backend env; now = en_now env in
     seq (on_world (if en_redis env
       then on_part (\<lambda>w. (wd_tasks w, wd_queue w)) (\<lambda>(s, q) w. w\<lparr>wd_tasks := s, wd_queue := q\<rparr>)
         (\<lambda>sq. case recover b now sq of Inl e \<Rightarrow> Inl e | Inr (sq', _) \<Rightarrow> Inr (sq', ())) else give ())) (\<lambda>_.
     seq (on_world (on_expiry (\<lambda>sw. case reset_running_tasks (world_services env) b now (en_stamp env) sw of
            Inl e \<Rightarrow> Inl e | Inr sw' \<Rightarrow> Inr (sw', ())))) (\<lambda>_.
     seq (on_world (restore_qianwen_submitted_account_claims env)) (\<lambda>_.
     seq (on_manager (\<lambda>g. g\<lparr>mg_guard := guard_success (u ''dola'') (mg_guard g)\<rparr>)) (\<lambda>_.
     seq (on_world (if en_redis env then seq (list_task_metas_by_statuses env (query_of [Pending])) (\<lambda>rows.
            changes (\<lambda>w. w\<lparr>wd_queue := fst (reconcile now rows (wd_queue w))\<rparr>)) else give ())) (\<lambda>_.
     seq (on_world (requeue_stale_dola_guard_tasks env)) (\<lambda>_.
     seq (on_world (requeue_stale_resource_wait_tasks env)) (\<lambda>_.
     on_manager (\<lambda>g. g\<lparr>mg_stopping := False\<rparr>)))))))))"

end
