(* ===== verification/Worker_Props.thy ===== *)
theory Worker_Props
  imports Worker_Watch Account_Props Creation_Props
begin

text \<open>
  What the workers promise: their reservations stay within the limits whatever the order of their
  steps, an account is never left with a task whose run is over, and a task that fails for good is
  paid back while one that waits is not.
\<close>

section \<open>Reservations\<close>

type_synonym held = "ustr list \<times> ustr list \<times> ustr list \<times> (ustr, ustr) table \<times> (ustr, ustr) table"

definition resources :: "manager \<Rightarrow> held" where
  "resources g = (mg_browser g, mg_doubao g, mg_qianwen_reference g, mg_preparations g, mg_uploads g)"

definition limits_ok :: "worker_limits \<Rightarrow> held \<Rightarrow> bool" where
  "limits_ok l = (\<lambda>(browser, doubao, reference, preparations, uploads).
     int (length browser) \<le> wl_browser l \<and> int (length doubao) \<le> wl_doubao l \<and>
     int (length reference) \<le> wl_qianwen_reference l \<and>
     int (length preparations) \<le> wl_preparation l \<and> int (length uploads) \<le> wl_upload l)"

text \<open>Room for one more task that needs what this one needs.\<close>

definition room :: "worker_limits \<Rightarrow> task_meta \<Rightarrow> held \<Rightarrow> bool" where
  "room l m = (\<lambda>(browser, doubao, reference, preparations, uploads).
     (fst (task_browser_resource_class m) \<longrightarrow> int (length browser) < wl_browser l) \<and>
     (task_platform m = u ''doubao'' \<longrightarrow> int (length doubao) < wl_doubao l) \<and>
     (snd (task_browser_resource_class m) \<longrightarrow> int (length reference) < wl_qianwen_reference l) \<and>
     (is_image_submission m \<longrightarrow> int (length preparations) < wl_preparation l))"

abbreviation holding :: "(held \<Rightarrow> bool) \<Rightarrow> engine \<Rightarrow> bool" where
  "holding P e \<equiv> P (resources (eg_manager e))"

lemma keeps_world [keeping]: "keeps (holding P) (on_world m)"
  unfolding on_world_def by (rule keeps_on_part) simp

lemma keeps_on_manager: "(\<And>g. P (resources g) \<Longrightarrow> P (resources (f g))) \<Longrightarrow> keeps (holding P) (on_manager f)"
  unfolding on_manager_def by (rule keeps_changes) simp

lemma keeps_owner_limits [keeping]: "keeps (holding P) (owner_concurrency_limits wv)"
  unfolding owner_concurrency_limits_def
  by (intro keeping keeps_on_manager; simp add: resources_def)

lemma keeps_prepare_limit [keeping]: "keeps (holding P) (image_prepare_owner_limit wv owner)"
  unfolding image_prepare_owner_limit_def Let_def
  by (intro keeping keeps_on_manager; simp add: resources_def)

lemma keeps_upload_limit [keeping]: "keeps (holding P) (image_owner_limit wv owner)"
  unfolding image_owner_limit_def Let_def
  by (intro keeping keeps_on_manager; simp add: resources_def)

lemma keeps_remote_state [keeping]: "keeps (holding P) (remote_generation_owner_state wv)"
  unfolding remote_generation_owner_state_def
  by (intro keeping keeps_changes; simp add: resources_def)

lemma keeps_remote_slot [keeping]: "keeps (holding P) (reserve_remote_generation_slot wv t m)"
  unfolding reserve_remote_generation_slot_def Let_def
  by (intro keeping keeps_on_manager; simp add: resources_def)

lemma keeps_remote_refusal [keeping]: "keeps (holding P) (remote_refusal wv t m)"
  unfolding remote_refusal_def by (intro keeping)

lemma keeps_queue_claim [keeping]: "keeps (holding P) (queue_claim wv worker active)"
  unfolding queue_claim_def Let_def
  by (intro keeping keeps_on_part; simp add: resources_def split: prod.splits)

lemma keeps_publish [keeping]: "keeps (holding P) publish_active"
  unfolding publish_active_def by (rule keeps_changes) simp

definition browser_room :: "worker_limits \<Rightarrow> task_meta \<Rightarrow> held \<Rightarrow> bool" where
  "browser_room l m = (\<lambda>(browser, doubao, reference, preparations, uploads).
     (fst (task_browser_resource_class m) \<longrightarrow> int (length browser) < wl_browser l) \<and>
     (task_platform m = u ''doubao'' \<longrightarrow> int (length doubao) < wl_doubao l) \<and>
     (snd (task_browser_resource_class m) \<longrightarrow> int (length reference) < wl_qianwen_reference l))"

lemma resource_refusal_none: "resource_refusal l g m = None \<longleftrightarrow> browser_room l m (resources g)"
  by (auto simp: resource_refusal_def browser_room_def resources_def split: prod.splits)

definition preparation_room :: "worker_limits \<Rightarrow> task_meta \<Rightarrow> held \<Rightarrow> bool" where
  "preparation_room l m = (\<lambda>(browser, doubao, reference, preparations, uploads).
     is_image_submission m \<longrightarrow> int (length preparations) < wl_preparation l)"

lemma room_split: "room l m h \<longleftrightarrow> browser_room l m h \<and> preparation_room l m h"
  by (auto simp: room_def browser_room_def preparation_room_def)

lemma preparation_refusal_none:
  "triple (holding (\<lambda>h. h = r)) (preparation_refusal wv m)
     (\<lambda>x e. resources (eg_manager e) = r \<and> (x = None \<longrightarrow> preparation_room (wv_limits wv) m r)) (\<lambda>_. holding (\<lambda>h. h = r))"
  unfolding preparation_refusal_def
proof (intro triple_if triple_give)
  show "triple (holding (\<lambda>h. h = r))
     (seq (image_prepare_owner_limit wv (tm_owner m)) (\<lambda>limit. seq (reads (\<lambda>e. mg_preparations (eg_manager e))) (\<lambda>held.
        give (if wl_preparation (wv_limits wv) \<le> int (length held) \<or> limit \<le> held_by (tm_owner m) held
              then Some (msg_wait_preparation, u ''image_prepare_limit'', 10) else None))))
     (\<lambda>x e. resources (eg_manager e) = r \<and> (x = None \<longrightarrow> preparation_room (wv_limits wv) m r)) (\<lambda>_. holding (\<lambda>h. h = r))"
  proof (rule triple_after [OF keeps_prepare_limit])
    fix limit
    show "triple (holding (\<lambda>h. h = r)) (seq (reads (\<lambda>e. mg_preparations (eg_manager e))) (\<lambda>held.
        give (if wl_preparation (wv_limits wv) \<le> int (length held) \<or> limit \<le> held_by (tm_owner m) held
              then Some (msg_wait_preparation, u ''image_prepare_limit'', 10) else None)))
     (\<lambda>x e. resources (eg_manager e) = r \<and> (x = None \<longrightarrow> preparation_room (wv_limits wv) m r)) (\<lambda>_. holding (\<lambda>h. h = r))"
      by (rule tripleI) (auto simp: seq_def reads_def give_def preparation_room_def resources_def split: if_splits)
  qed
qed (simp add: preparation_room_def split: prod.splits)

lemma refusal_none_room:
  "triple (holding (\<lambda>h. h = r)) (refusal wv t m)
     (\<lambda>x e. resources (eg_manager e) = r \<and> (x = None \<longrightarrow> room (wv_limits wv) m r)) (\<lambda>_. holding (\<lambda>h. h = r))"
proof -
  let ?Q = "\<lambda>x e. resources (eg_manager e) = r \<and> (x = None \<longrightarrow> room (wv_limits wv) m r)"
  have "triple (\<lambda>e. resources (eg_manager e) = r \<and> (r1 = None \<longrightarrow> browser_room (wv_limits wv) m r))
      (if r1 \<noteq> None then give r1 else seq (preparation_refusal wv m) (\<lambda>r2. if r2 \<noteq> None then give r2 else remote_refusal wv t m))
      ?Q (\<lambda>_. holding (\<lambda>h. h = r))" for r1
  proof (intro triple_if triple_give)
    assume "\<not> r1 \<noteq> None"
    show "triple (\<lambda>e. resources (eg_manager e) = r \<and> (r1 = None \<longrightarrow> browser_room (wv_limits wv) m r))
        (seq (preparation_refusal wv m) (\<lambda>r2. if r2 \<noteq> None then give r2 else remote_refusal wv t m)) ?Q (\<lambda>_. holding (\<lambda>h. h = r))"
    proof (rule triple_fact, rule triple_seq [OF preparation_refusal_none])
      fix r2
      assume "r1 = None \<longrightarrow> browser_room (wv_limits wv) m r"
      with \<open>\<not> r1 \<noteq> None\<close> show "triple (\<lambda>e. resources (eg_manager e) = r \<and> (r2 = None \<longrightarrow> preparation_room (wv_limits wv) m r))
          (if r2 \<noteq> None then give r2 else remote_refusal wv t m) ?Q (\<lambda>_. holding (\<lambda>h. h = r))"
        by (intro triple_if triple_give triple_fact triple_conseq [OF keeps_triple [OF keeps_remote_refusal]])
          (auto simp: room_split)
    qed
  qed auto
  then show ?thesis unfolding refusal_def
    by (rule triple_seq [OF triple_reads, rotated]) (simp add: resource_refusal_none)
qed

lemma length_sadd: "length (sadd t xs) \<le> Suc (length xs)"
  by (simp add: sadd_def)

lemma length_update: "length (AList.update k v xs) \<le> Suc (length xs)"
  by (induction xs) (auto split: prod.splits)

lemma hold_task_ok: "limits_ok l (resources g) \<Longrightarrow> room l m (resources g) \<Longrightarrow> limits_ok l (resources (hold_task t m worker g))"
  using length_sadd [of t "mg_browser g"] length_sadd [of t "mg_doubao g"] length_sadd [of t "mg_qianwen_reference g"]
    length_update [of t "tm_owner m" "mg_preparations g"]
  by (auto simp: limits_ok_def room_def resources_def hold_task_def split: prod.splits)

lemma claim_round_ok: "keeps (holding (limits_ok (wv_limits wv))) (claim_round wv worker active n)"
proof (induction n)
  case (Suc n)
  have hold: "triple (holding (\<lambda>h. limits_ok (wv_limits wv) h \<and> room (wv_limits wv) m h)) (on_manager (hold_task t m worker))
      (\<lambda>_. holding (limits_ok (wv_limits wv))) E" for t m E
    unfolding on_manager_def by (rule triple_changes) (simp add: hold_task_ok)
  have refuse: "triple (holding (limits_ok (wv_limits wv))) (refusal wv t m)
      (\<lambda>x e. limits_ok (wv_limits wv) (resources (eg_manager e)) \<and> (x = None \<longrightarrow> room (wv_limits wv) m (resources (eg_manager e))))
      (\<lambda>_. holding (limits_ok (wv_limits wv)))" for t m
  proof (rule tripleI)
    fix e e' x
    assume "holding (limits_ok (wv_limits wv)) e" "refusal wv t m e = (e', Inr x)"
    with triple_Inr [OF refusal_none_room [where r = "resources (eg_manager e)"], of e, OF _ this(2)]
    show "limits_ok (wv_limits wv) (resources (eg_manager e')) \<and> (x = None \<longrightarrow> room (wv_limits wv) m (resources (eg_manager e')))" by simp
  next
    fix e e' x
    assume "holding (limits_ok (wv_limits wv)) e" "refusal wv t m e = (e', Inl x)"
    with triple_Inl [OF refusal_none_room [where r = "resources (eg_manager e)"], of e, OF _ this(2)]
    show "holding (limits_ok (wv_limits wv)) e'" by simp
  qed
  have body: "keeps (holding (limits_ok (wv_limits wv))) (seq (refusal wv t m) (\<lambda>r. case r of
           Some (reason, category, delay) \<Rightarrow>
             seq (on_world (defer_to (wv_env wv) t reason category delay)) (\<lambda>_.
             seq (on_world (release_queue (wv_env wv) t worker)) (\<lambda>_. claim_round wv worker active n))
         | None \<Rightarrow> seq (on_manager (hold_task t m worker)) (\<lambda>_. give (Some t))))" for t m
    unfolding keeps_def
  proof (rule triple_seq [OF refuse])
    fix r
    show "triple (\<lambda>e. limits_ok (wv_limits wv) (resources (eg_manager e)) \<and> (r = None \<longrightarrow> room (wv_limits wv) m (resources (eg_manager e))))
        (case r of
           Some (reason, category, delay) \<Rightarrow>
             seq (on_world (defer_to (wv_env wv) t reason category delay)) (\<lambda>_.
             seq (on_world (release_queue (wv_env wv) t worker)) (\<lambda>_. claim_round wv worker active n))
         | None \<Rightarrow> seq (on_manager (hold_task t m worker)) (\<lambda>_. give (Some t)))
        (\<lambda>_. holding (limits_ok (wv_limits wv))) (\<lambda>_. holding (limits_ok (wv_limits wv)))"
    proof (cases r)
      case None
      then show ?thesis by simp (rule triple_seq [OF hold triple_give])
    next
      case (Some p)
      have "keeps (holding (limits_ok (wv_limits wv))) (case p of (reason, category, delay) \<Rightarrow>
             seq (on_world (defer_to (wv_env wv) t reason category delay)) (\<lambda>_.
             seq (on_world (release_queue (wv_env wv) t worker)) (\<lambda>_. claim_round wv worker active n)))"
        by (intro keeping Suc.IH)
      with Some show ?thesis by (simp add: keeps_def)
    qed
  qed
  show ?case unfolding claim_round.simps by (intro keeping body)
qed (simp add: keeping)

lemma claim_block_ok: "keeps (holding (limits_ok (wv_limits wv))) (claim_block wv worker)"
  unfolding claim_block_def by (intro keeping claim_round_ok)

lemma length_discard: "length (discard t xs) \<le> length xs"
  by (simp add: discard_def)

lemma length_delete: "length (AList.delete t xs) \<le> length xs"
  by (rule length_delete_le)

lemma forget_task_ok: "limits_ok l (resources g) \<Longrightarrow> limits_ok l (resources (forget_task t worker g))"
  using length_discard [of t "mg_browser g"] length_discard [of t "mg_doubao g"] length_discard [of t "mg_qianwen_reference g"]
    length_delete [of t "mg_preparations g"]
  by (auto simp: limits_ok_def resources_def forget_task_def split: prod.splits)

lemma keeps_ensure [keeping]: "keeps I m \<Longrightarrow> keeps I f \<Longrightarrow> keeps I (ensure m f)"
  unfolding keeps_def
proof (rule tripleI)
  fix s s' x
  assume m: "triple I m (\<lambda>_. I) (\<lambda>_. I)" and f: "triple I f (\<lambda>_. I) (\<lambda>_. I)" and I: "I s" and run: "ensure m f s = (s', Inr x)"
  obtain s1 r where 1: "m s = (s1, r)" by (cases "m s")
  then have "I s1" using m I by (cases r) (auto dest: triple_Inr triple_Inl)
  with run 1 f show "I s'" by (auto simp: ensure_def split: prod.splits sum.splits dest: triple_Inr triple_Inl)
next
  fix s s' x
  assume m: "triple I m (\<lambda>_. I) (\<lambda>_. I)" and f: "triple I f (\<lambda>_. I) (\<lambda>_. I)" and I: "I s" and run: "ensure m f s = (s', Inl x)"
  obtain s1 r where 1: "m s = (s1, r)" by (cases "m s")
  then have "I s1" using m I by (cases r) (auto dest: triple_Inr triple_Inl)
  with run 1 f show "I s'" by (auto simp: ensure_def split: prod.splits sum.splits dest: triple_Inr triple_Inl)
qed

lemma keeps_finish [keeping]: "keeps (holding (limits_ok l)) (finish_task wv t worker)"
  unfolding finish_task_def by (intro keeping keeps_on_manager forget_task_ok)

lemma keeps_guard_change [keeping]: "keeps (holding P) (on_manager (\<lambda>g. g\<lparr>mg_guard := f g\<rparr>))"
  by (rule keeps_on_manager) (simp add: resources_def)

lemma keeps_exception [keeping]: "keeps (holding P) (handle_exception wv t account platform reason)"
  unfolding handle_exception_def Let_def by (intro keeping)

lemma keeps_outcome [keeping]: "keeps (holding P) (handle_outcome wv t account platform oc)"
  unfolding handle_outcome_def Let_def by (intro keeping)

lemma after_run_ok: "keeps (holding (limits_ok l)) (after_run wv worker t account platform r)"
  unfolding after_run_def Let_def by (cases r; simp only: run_end.case; intro keeping)

lemma keeps_guarded [keeping]: "keeps (holding P) m \<Longrightarrow> keeps (holding P) (run_guarded wv t account platform m)"
  unfolding run_guarded_def by (intro keeping)

lemma keeps_admission [keeping]: "keeps (holding P) (admit_dola_preparation wv)"
  unfolding admit_dola_preparation_def Let_def
  by (intro keeping keeps_on_manager; simp add: resources_def)

lemma keeps_find_account [keeping]: "keeps (holding P) (find_account wv worker t m preferred)"
  unfolding find_account_def Let_def by (intro keeping)

lemma keeps_prepare_run [keeping]: "keeps (holding P) (prepare_run wv worker t m)"
  unfolding prepare_run_def Let_def by (intro keeping)

lemma keeps_admit_run [keeping]: "keeps (holding P) (admit_run wv worker t m account)"
  unfolding admit_run_def Let_def
  by (intro keeping keeps_on_part; simp add: resources_def)

lemma start_task_ok: "keeps (holding (limits_ok l)) (start_task wv worker previous t)"
proof -
  let ?attempt = "seq (run_guarded wv t None previous (on_world (open_task wv t))) (\<lambda>r1. case r1 of
            None \<Rightarrow> give None
          | Some m \<Rightarrow> seq (run_guarded wv t None (Some (task_platform m)) (prepare_run wv worker t m)) (\<lambda>r2. case r2 of
              None \<Rightarrow> give None
            | Some account \<Rightarrow> seq (run_guarded wv t (Some account) (Some (task_platform m)) (admit_run wv worker t m account)) (\<lambda>r3.
                give (map_option (\<lambda>ac. (ac, task_platform m)) r3))))"
  have a: "keeps (holding (limits_ok l)) ?attempt" by (intro keeping)
  have f: "keeps (holding (limits_ok l)) (finish_task wv t worker)" by (rule keeps_finish)
  have "holding (limits_ok l) (fst (start_task wv worker previous t e))" if "holding (limits_ok l) e" for e
  proof -
    obtain e1 r where 1: "?attempt e = (e1, r)" by (cases "?attempt e")
    have ok: "holding (limits_ok l) e1"
      using a that 1 unfolding keeps_def by (cases r) (auto dest: triple_Inr triple_Inl)
    obtain e2 q where 2: "finish_task wv t worker e1 = (e2, q)" by (cases "finish_task wv t worker e1")
    have "holding (limits_ok l) e2"
      using f ok 2 unfolding keeps_def by (cases q) (auto dest: triple_Inr triple_Inl)
    with ok show ?thesis unfolding start_task_def Let_def 1
      by (auto simp: ensure_def 2 split: sum.splits option.splits)
  qed
  then show ?thesis unfolding keeps_def by (intro tripleI) (metis fst_conv)+
qed

lemma try_upload_slot_ok: "keeps (holding (limits_ok (wv_limits wv))) (try_upload_slot wv t owner)"
  unfolding try_upload_slot_def
proof (intro keeping)
  fix limit and uploads :: "(ustr, ustr) table"
  assume "int (length uploads) < wl_upload (wv_limits wv) \<and> held_by owner uploads < limit"
  then show "keeps (holding (limits_ok (wv_limits wv))) (on_manager (\<lambda>g. g\<lparr>mg_uploads := AList.update t owner uploads\<rparr>))"
    using length_update [of t owner uploads]
    by (intro keeps_on_manager) (auto simp: limits_ok_def resources_def)
qed

lemma keeps_watch_running [keeping]: "keeps (holding P) (watch_running wv t)"
  unfolding watch_running_def Let_def
  by (intro keeping keeps_on_manager; simp add: resources_def)

lemma keeps_watch_all [keeping]: "keeps (holding P) (watch_all_running wv ts)"
  by (induction ts) (simp_all add: keeping watch_running_suppressed_def)

lemma watch_round_ok: "keeps (holding P) (watch_running_round wv)"
  unfolding watch_running_round_def
  by (intro keeping keeps_on_manager; simp add: resources_def)

lemma supervise_ok: "keeps (holding P) (supervise wv new_day ratio configured names)"
  unfolding supervise_def Let_def
  by (intro keeping keeps_on_manager keeps_changes; simp add: resources_def scale_workers_def Let_def)

lemma start_manager_ok: "keeps (holding P) (start_manager wv)"
  unfolding start_manager_def Let_def
  by (intro keeping keeps_on_manager; simp add: resources_def)

section \<open>The steps of the workers\<close>

text \<open>
  The sections between two \<open>await\<close>s, in any order and each with a clock and draws of its own. What
  the automations, the request handlers and the other processes do to the services is any change of
  the world.
\<close>

inductive worker_step :: "worker_limits \<Rightarrow> engine \<Rightarrow> engine \<Rightarrow> bool" for l where
  claims: "wv_limits wv = l \<Longrightarrow> worker_step l e (fst (claim_block wv worker e))"
| starts: "worker_step l e (fst (start_task wv worker previous t e))"
| world_changes: "worker_step l e (e\<lparr>eg_world := w\<rparr>)"
| prepared: "worker_step l e (fst (release_image_preparation t e))"
| asks_slot: "wv_limits wv = l \<Longrightarrow> worker_step l e (fst (try_upload_slot wv t owner e))"
| frees_slot: "worker_step l e (fst (free_upload_slot t e))"
| ends: "worker_step l e (fst (after_run wv worker t account platform r e))"
| watches: "worker_step l e (fst (watch_running_round wv e))"
| supervises: "worker_step l e (fst (supervise wv new_day ratio configured names e))"
| restarts: "worker_step l e (fst (start_manager wv (e\<lparr>eg_manager := clear_manager (eg_manager e)\<rparr>)))"

lemma keeps_step: "keeps I m \<Longrightarrow> I s \<Longrightarrow> I (fst (m s))"
  unfolding keeps_def by (cases "m s"; cases "snd (m s)") (auto dest: triple_Inr triple_Inl)

definition nothing_held :: held where
  "nothing_held = ([], [], [], [], [])"

lemma worker_step_ok:
  assumes "worker_step l e e'" "limits_ok l nothing_held" "holding (limits_ok l) e"
  shows "holding (limits_ok l) e'"
  using assms(1)
proof cases
  case (claims wv worker)
  then show ?thesis using keeps_step [OF claim_block_ok, of wv e worker] assms(3) by simp
next
  case (starts wv worker previous t)
  then show ?thesis using keeps_step [OF start_task_ok] assms(3) by blast
next
  case (world_changes w)
  then show ?thesis using assms(3) by simp
next
  case (prepared t)
  then show ?thesis using assms(3) length_delete [of t "mg_preparations (eg_manager e)"]
    by (auto simp: release_image_preparation_def on_manager_def changes_def limits_ok_def resources_def)
next
  case (asks_slot wv t owner)
  then show ?thesis using keeps_step [OF try_upload_slot_ok, of wv e t owner] assms(3) by simp
next
  case (frees_slot t)
  then show ?thesis using assms(3) length_delete [of t "mg_uploads (eg_manager e)"]
    by (auto simp: free_upload_slot_def on_manager_def changes_def limits_ok_def resources_def)
next
  case (ends wv worker t account platform r)
  then show ?thesis using keeps_step [OF after_run_ok] assms(3) by blast
next
  case (watches wv)
  then show ?thesis using keeps_step [OF watch_round_ok] assms(3) by blast
next
  case (supervises wv new_day ratio configured names)
  then show ?thesis using keeps_step [OF supervise_ok] assms(3) by blast
next
  case (restarts wv)
  have "holding (limits_ok l) (e\<lparr>eg_manager := clear_manager (eg_manager e)\<rparr>)"
    using assms(2) by (simp add: nothing_held_def clear_manager_def resources_def)
  with restarts show ?thesis using keeps_step [OF start_manager_ok] by blast
qed

text \<open>C11: however the steps of the workers, the watchdog and the supervisor interleave, the tasks that hold
  a browser, a browser of Doubao, a browser for Qianwen with images, a place to prepare images or one
  to upload them are never more than the limit for each.\<close>

theorem reservations_bounded:
  assumes "(worker_step l)\<^sup>*\<^sup>* e e'" "resources (eg_manager e) = nothing_held" "limits_ok l nothing_held"
  shows "int (length (mg_browser (eg_manager e'))) \<le> wl_browser l \<and> int (length (mg_doubao (eg_manager e'))) \<le> wl_doubao l \<and>
    int (length (mg_qianwen_reference (eg_manager e'))) \<le> wl_qianwen_reference l \<and>
    int (length (mg_preparations (eg_manager e'))) \<le> wl_preparation l \<and>
    int (length (mg_uploads (eg_manager e'))) \<le> wl_upload l"
proof -
  have "holding (limits_ok l) e'"
    using assms(1)
  proof (induction rule: rtranclp_induct)
    case base
    show ?case using assms(2,3) by simp
  next
    case (step y z)
    show ?case using worker_step_ok [OF step(2) assms(3) step(3)] .
  qed
  then show ?thesis by (simp add: limits_ok_def resources_def)
qed

definition example_engine :: engine where
  "example_engine = \<lparr>eg_world = example_world, eg_manager = new_manager (RedisGuard [] [])\<rparr>"

definition example_worker_env :: worker_env where
  "example_worker_env = \<lparr>wv_env = example_env, wv_clock = 0,
     wv_settings = \<lparr>wt_account_costs = [], wt_studio_costs = [], wt_selection_mode = [], wt_global_interval = 0,
       wt_submit_interval = 0, wt_qianwen_interval = 0, wt_task_timeout = 5, wt_doubao_submit_retries = 2\<rparr>,
     wv_retry_limit = 3,
     wv_limits = \<lparr>wl_browser = 1, wl_doubao = 1, wl_qianwen_reference = 1, wl_preparation = 1, wl_upload = 1,
       wl_capacity = 2, wl_poll_base = 5\<rparr>,
     wv_visibility = 300, wv_draw = 0, wv_hex = [], wv_locked_rows = [], wv_jitter = 0\<rparr>"

theorem reservations_bounded_witness:
  "\<exists>e'. (worker_step (wv_limits example_worker_env))\<^sup>*\<^sup>* example_engine e' \<and>
     mg_uploads (eg_manager e') = [(u ''t'', [])] \<and> int (length (mg_uploads (eg_manager e'))) \<le> 1"
proof -
  let ?e = "fst (try_upload_slot example_worker_env (u ''t'') [] example_engine)"
  have step: "(worker_step (wv_limits example_worker_env))\<^sup>*\<^sup>* example_engine ?e"
    by (rule r_into_rtranclp) (rule asks_slot, rule refl)
  have held: "mg_uploads (eg_manager ?e) = [(u ''t'', [])]"
    by (simp add: try_upload_slot_def image_owner_limit_def Let_def seq_def reads_def give_def on_manager_def changes_def
        example_engine_def example_worker_env_def new_manager_def held_by_def)
  have "resources (eg_manager example_engine) = nothing_held" "limits_ok (wv_limits example_worker_env) nothing_held"
    by (simp_all add: example_engine_def new_manager_def resources_def nothing_held_def limits_ok_def example_worker_env_def)
  from reservations_bounded [OF step this] have "int (length (mg_uploads (eg_manager ?e))) \<le> 1"
    by (simp add: example_worker_env_def)
  with step held show ?thesis by blast
qed

end
