(* ===== verification/Worker_Run_Props.thy ===== *)
theory Worker_Run_Props
  imports Worker_Props Task_Lists_Props Creation_Props
begin

text \<open>
  What the end of a run leaves behind: its account works on it no longer and its charge is closed,
  and its owner is paid back if and only if it has failed for good.
\<close>

section \<open>The account\<close>

definition ledger_of_charge :: "ustr \<Rightarrow> account \<Rightarrow> quota_ledger" where
  "ledger_of_charge charge ac = ledger_of (is_studio_charge charge) ac"

definition at_account :: "ustr \<Rightarrow> (account \<Rightarrow> bool) \<Rightarrow> world \<Rightarrow> bool" where
  "at_account i P w \<longleftrightarrow> (\<forall>ac. map_of (wd_accounts w) i = Some ac \<longrightarrow> P ac)"

text \<open>An account whose row is changed by a mutator.\<close>

lemma account_row_look:
  assumes "map_of (fst (account_row b store j f)) i = Some ac'"
  shows "map_of store i = Some ac' \<or> (i = j \<and> (\<exists>ac r v. map_of store i = Some ac \<and> f ac = Inr (ac', r, v)))"
proof (cases "map_of store j")
  case None
  then show ?thesis using assms any_rows.run_missing [OF None, where f = f] by (simp add: account_row_def)
next
  case (Some ac)
  show ?thesis
  proof (cases "f ac")
    case (Inl e)
    then show ?thesis using assms any_rows.run_error [where f = f, OF Some Inl] by (simp add: account_row_def)
  next
    case (Inr p)
    then obtain ac1 r v where p: "f ac = Inr (ac1, r, v)" by (cases p) auto
    from any_rows.run_ok [where f = f and b = b and e = KeyError, OF Some p] obtain rows' where
      "run_row b KeyError store j f = Inr (rows', r)" "map_of rows' = (map_of store)(j \<mapsto> ac1) \<or> rows' = store" by blast
    then show ?thesis using assms Some p by (auto simp: account_row_def split: if_splits)
  qed
qed

lemma keeps_at_account [keeping]:
  "keeps (at_account i P) (on_tasks f)" "keeps (at_account i P) (refund_task env owner t)"
  by (auto intro!: keeps_on_part simp: on_tasks_def refund_task_def at_account_def split: prod.splits)

lemma keeps_account_tasks [keeping]:
  "keeps (at_account i P) (change_task env t g)" "keeps (at_account i P) (blame_account env t j)"
  "keeps (at_account i P) (change_meta env t h)"
  unfolding change_task_def blame_account_def change_meta_def by (intro keeping)+

lemma keeps_account_meta [keeping]:
  "keeps (at_account i P) (set_meta env t h)" "keeps (at_account i P) (defer_to env t reason category delay)"
  "keeps (at_account i P) (fail_run env t reason)" "keeps (at_account i P) (read_task env t)"
  "keeps (at_account i P) (refund_token_once env t owner)"
  unfolding set_meta_def defer_to_def fail_run_def read_task_def refund_token_once_def by (intro keeping)+

lemma keeps_account_refund_owner [keeping]: "keeps (at_account i P) (refund_owner env t)"
  unfolding refund_owner_def by (intro keeping)

lemma keeps_account_retry [keeping]: "keeps (at_account i P) (retry_or_refund wv t infrastructure reason)"
  unfolding retry_or_refund_def count_retry_def Let_def by (intro keeping)

lemma row_keeps:
  assumes "\<forall>ac. map_of store i = Some ac \<longrightarrow> P ac" "\<And>ac ac' r v. P ac \<Longrightarrow> f ac = Inr (ac', r, v) \<Longrightarrow> P ac'"
  shows "\<forall>ac. map_of (fst (account_row b store j f)) i = Some ac \<longrightarrow> P ac"
proof (intro allI impI)
  fix ac'
  assume "map_of (fst (account_row b store j f)) i = Some ac'"
  from account_row_look [OF this] assms show "P ac'" by (elim disjE exE conjE) auto
qed

text \<open>The account itself after a mutator that never raises and says truly whether it changed anything.\<close>

lemma account_row_at:
  assumes "map_of (fst (account_row b store i f)) i = Some ac'"
    "\<And>ac ac1 r. f ac = Inr (ac1, r, False) \<Longrightarrow> ac1 = ac" "\<And>ac e. f ac \<noteq> Inl e"
  shows "\<exists>ac r v. map_of store i = Some ac \<and> f ac = Inr (ac', r, v)"
proof (cases "map_of store i")
  case None
  then show ?thesis using assms(1) any_rows.run_missing [OF None, where f = f] by (simp add: account_row_def)
next
  case (Some ac)
  obtain ac1 r v where p: "f ac = Inr (ac1, r, v)" using assms(3) by (metis obj_sumE prod_cases3)
  from any_rows.run_ok [where f = f and b = b and e = KeyError, OF Some p] obtain rows' where
    "run_row b KeyError store i f = Inr (rows', r)" "map_of rows' = (map_of store)(i \<mapsto> ac1) \<or> (\<not> v \<and> rows' = store)" by blast
  then have "ac' = ac1" using assms(1) assms(2) [of ac ac1 r] Some p by (cases v) (auto simp: account_row_def)
  with Some p show ?thesis by blast
qed

lemma triple_on_accounts:
  assumes "\<And>s. (\<forall>ac. map_of s i = Some ac \<longrightarrow> P ac) \<Longrightarrow> (\<forall>ac. map_of (fst (f s)) i = Some ac \<longrightarrow> P' ac)"
  shows "triple (at_account i P) (on_accounts f) (\<lambda>_. at_account i P') E"
  unfolding on_accounts_def
  by (rule triple_on_part_keeping) (use assms in \<open>auto simp: at_account_def apsnd_def map_prod_def split: prod.splits\<close>)

text \<open>A sound ledger of the charge, and a closed charge, each with something about the current task.\<close>

definition sound_at :: "ustr \<Rightarrow> (ustr \<Rightarrow> bool) \<Rightarrow> account \<Rightarrow> bool" where
  "sound_at c Q ac \<longleftrightarrow> ledger_ok (ledger_of_charge c ac) \<and> Q (ac_current_task ac)"

definition closed_charge :: "ustr \<Rightarrow> (ustr \<Rightarrow> bool) \<Rightarrow> account \<Rightarrow> bool" where
  "closed_charge c Q ac \<longleftrightarrow> \<not> charge_open (ledger_of_charge c ac) c \<and> Q (ac_current_task ac)"

text \<open>Changes of the account that leave its ledgers alone.\<close>

definition same_ledgers :: "account \<Rightarrow> account \<Rightarrow> bool" where
  "same_ledgers ac ac' \<longleftrightarrow> ac_main ac' = ac_main ac \<and> ac_studio ac' = ac_studio ac"

lemma same_charge_ledger: "same_ledgers ac ac' \<Longrightarrow> ledger_of_charge c ac' = ledger_of_charge c ac"
  by (simp add: same_ledgers_def ledger_of_charge_def ledger_of_def)

lemma clear_current_mut_cases:
  "clear_current_mut now t ac = Inr (ac', r, v) \<Longrightarrow> t \<noteq> [] \<Longrightarrow>
    same_ledgers ac ac' \<and> ac_current_task ac' \<noteq> t \<and> ac_current_task ac' \<in> {[], ac_current_task ac} \<and> (v = False \<longrightarrow> ac' = ac)"
  by (auto simp: clear_current_mut_def same_ledgers_def split: if_splits)

lemma clear_account_frees:
  assumes "t \<noteq> []" "i \<noteq> []" "\<And>ac ac'. P ac \<Longrightarrow> same_ledgers ac ac' \<Longrightarrow> ac_current_task ac' \<in> {[], ac_current_task ac} \<Longrightarrow>
      ac_current_task ac' \<noteq> t \<Longrightarrow> P' ac'"
  shows "triple (at_account i P) (clear_account env i t) (\<lambda>_. at_account i P') E"
  unfolding clear_account_def
proof (rule triple_on_accounts)
  fix s
  assume P: "\<forall>ac. map_of s i = Some ac \<longrightarrow> P ac"
  show "\<forall>ac. map_of (fst (clear_account_current_task (en_backend env) (en_now env) s i t, ())) i = Some ac \<longrightarrow> P' ac"
  proof (intro allI impI)
    fix ac'
    assume "map_of (fst (clear_account_current_task (en_backend env) (en_now env) s i t, ())) i = Some ac'"
    then have look: "map_of (fst (account_row (en_backend env) s i (clear_current_mut (en_now env) t))) i = Some ac'"
      using assms(2) by (simp add: clear_account_current_task_def)
    have "\<exists>ac r v. map_of s i = Some ac \<and> clear_current_mut (en_now env) t ac = Inr (ac', r, v)"
      by (rule account_row_at [OF look]) (auto simp: clear_current_mut_def split: if_splits)
    then show "P' ac'" using clear_current_mut_cases [OF _ assms(1)] assms(3) P by blast
  qed
qed

lemma find_open_ledger: "ledger_ok l \<Longrightarrow> find (is_open c) (ql_charges l) = None \<longleftrightarrow> \<not> charge_open l c"
  using find_open [of l c] by (cases "find (is_open c) (ql_charges l)") auto

lemma changed_first_closed:
  assumes ok: "ledger_ok l" and f: "\<And>x. ch_id (f x) = ch_id x" "\<And>x. ch_status (f x) \<noteq> Charged"
    and l': "ql_charges l' = update_first (is_open c) f (ql_charges l)"
  shows "\<not> charge_open l' c"
proof (cases "find (is_open c) (ql_charges l)")
  case None
  have "update_first (is_open c) f xs = xs" if "find (is_open c) xs = None" for xs
    using that by (induction xs) (auto split: if_splits)
  with None l' have "ql_charges l' = ql_charges l" by simp
  then show ?thesis using None find_open_ledger [OF ok] by (simp add: charge_open_def)
next
  case (Some x)
  note u = update_open [OF Some, of f, OF f(1)]
  obtain as bs where s: "ql_charges l = as @ x # bs" "update_first (is_open c) f (ql_charges l) = as @ f x # bs"
    using update_first_split [OF Some, of f] by blast
  have "distinct (map ch_id (ql_charges l))" using ok by (simp add: ledger_ok_def)
  then have "\<forall>y \<in> set as \<union> set bs. ch_id y \<noteq> c" using u(3) by (auto simp: s(1) image_iff)
  then show ?thesis using f(2) by (auto simp: charge_open_def l' s(2))
qed

lemma settle_closes: "ledger_ok l \<Longrightarrow> case settle_charge now c l of None \<Rightarrow> \<not> charge_open l c | Some l' \<Rightarrow> \<not> charge_open l' c"
  using changed_first_closed [of l "\<lambda>x. x\<lparr>ch_status := Settled, ch_settled_at := At now\<rparr>" _ c] find_open_ledger [of l c]
  by (auto simp: settle_charge_def Let_def split: option.splits)

lemma refund_closes: "ledger_ok l \<Longrightarrow> case refund_charge now c l of None \<Rightarrow> \<not> charge_open l c | Some l' \<Rightarrow> \<not> charge_open l' c"
  using changed_first_closed [of l "\<lambda>x. x\<lparr>ch_status := Refunded, ch_refunded_at := At now\<rparr>" _ c] find_open_ledger [of l c]
  by (auto simp: refund_charge_def Let_def split: option.splits)

lemma exhaust_closes: "ledger_ok l \<Longrightarrow> c \<noteq> [] \<Longrightarrow> \<not> charge_open (exhaust_ledger now c l) c"
  using changed_first_closed [of l "refund_insufficient now" "exhaust_ledger now c l" c]
  by (auto simp: exhaust_ledger_def refund_insufficient_def Let_def ledger_ok_def)

lemma exhaust_studio_closes:
  assumes ok: "ledger_ok l" and c: "c \<noteq> []"
  shows "\<not> charge_open (exhaust_studio_ledger now False c l) c"
proof -
  let ?p = "\<lambda>x. ch_id x = c" and ?g = "\<lambda>x. if ch_status x = Charged then refund_insufficient now x else x"
  let ?added = "(new_charge now c [] 0)\<lparr>ch_charged_at := Unset, ch_status := Refunded\<rparr>"
  let ?cs = "ql_charges l"
  have init: "initialize_ledger l = l" by (rule initialize_ok) (rule ok)
  have charges: "ql_charges (exhaust_studio_ledger now False c l) =
      update_first ?p ?g (if find ?p ?cs = None then ?cs @ [?added] else ?cs)"
    using c by (simp add: exhaust_studio_ledger_def init Let_def)
  show ?thesis
  proof (cases "find ?p ?cs")
    case None
    then have none: "\<forall>x \<in> set ?cs. ch_id x \<noteq> c" by (simp add: find_None_iff)
    have "\<forall>y \<in> set (update_first ?p ?g (xs @ [?added])). ch_id y = c \<longrightarrow> ch_status y \<noteq> Charged"
      if "\<forall>x \<in> set xs. ch_id x \<noteq> c" for xs
      using that by (induction xs) (auto simp: new_charge_def)
    with none None show ?thesis by (auto simp: charge_open_def charges)
  next
    case (Some x)
    obtain as bs where s: "?cs = as @ x # bs" "?p x" "update_first ?p ?g ?cs = as @ ?g x # bs"
      using update_first_split [OF Some, of ?g] by blast
    have "distinct (map ch_id ?cs)" using ok by (simp add: ledger_ok_def)
    then have "\<forall>y \<in> set as \<union> set bs. ch_id y \<noteq> c" using s(2) by (auto simp: s(1) image_iff)
    then show ?thesis using Some by (auto simp: charge_open_def charges s(3) refund_insufficient_def)
  qed
qed

section \<open>Closing the charge\<close>

lemma charge_mut_closes:
  assumes sound: "sound_at c Q ac" and run: "charge_mut now (is_studio_charge c) f ac = Inr (ac', r, v)"
    and f: "case f (ledger_of_charge c ac) of None \<Rightarrow> \<not> charge_open (ledger_of_charge c ac) c | Some l \<Rightarrow> \<not> charge_open l c"
  shows "closed_charge c Q ac'"
  using assms by (auto simp: charge_mut_def sound_at_def closed_charge_def ledger_of_charge_def ledger_of_def put_ledger_def
    split: option.splits if_splits)

lemma charge_mut_honest: "charge_mut now studio f ac = Inr (ac1, r, False) \<Longrightarrow> ac1 = ac" "charge_mut now studio f ac \<noteq> Inl e"
  by (auto simp: charge_mut_def split: option.splits)

lemma row_closes:
  assumes P: "\<forall>ac. map_of s i = Some ac \<longrightarrow> sound_at c Q ac"
    and f: "\<And>ac ac' r v. sound_at c Q ac \<Longrightarrow> f ac = Inr (ac', r, v) \<Longrightarrow> closed_charge c Q ac'"
    and honest: "\<And>ac ac1 r. f ac = Inr (ac1, r, False) \<Longrightarrow> ac1 = ac" "\<And>ac e. f ac \<noteq> Inl e"
  shows "\<forall>ac. map_of (fst (account_row b s i f)) i = Some ac \<longrightarrow> closed_charge c Q ac"
proof (intro allI impI)
  fix ac'
  assume look: "map_of (fst (account_row b s i f)) i = Some ac'"
  have "\<exists>ac r v. map_of s i = Some ac \<and> f ac = Inr (ac', r, v)"
    using look by (rule account_row_at) (erule honest(1), rule honest(2))
  with P f show "closed_charge c Q ac'" by blast
qed

lemma settle_account_closes:
  assumes "i \<noteq> []" "c \<noteq> []"
  shows "triple (at_account i (sound_at c Q)) (settle_account env i c) (\<lambda>_. at_account i (closed_charge c Q)) E"
  unfolding settle_account_def
proof (rule triple_seq [OF triple_on_accounts triple_give])
  fix s
  assume P: "\<forall>ac. map_of s i = Some ac \<longrightarrow> sound_at c Q ac"
  have "\<forall>ac. map_of (fst (account_row (en_backend env) s i (charge_mut (en_now env) (is_studio_charge c) (settle_charge (en_now env) c)))) i
      = Some ac \<longrightarrow> closed_charge c Q ac"
  proof (rule row_closes [OF P])
    fix ac ac' r v
    assume sound: "sound_at c Q ac"
      and "charge_mut (en_now env) (is_studio_charge c) (settle_charge (en_now env) c) ac = Inr (ac', r, v)"
    then show "closed_charge c Q ac'"
      by (rule charge_mut_closes) (rule settle_closes, use sound in \<open>simp add: sound_at_def\<close>)
  qed (erule charge_mut_honest(1), rule charge_mut_honest(2))
  then show "\<forall>ac. map_of (fst (settle_account_quota (en_backend env) (en_now env) s i c)) i = Some ac \<longrightarrow> closed_charge c Q ac"
    using assms by (simp add: settle_account_quota_def)
qed

lemma refund_mut_closes:
  assumes "sound_at c Q ac" "refund_mut now c ac = Inr (ac', r, v)"
  shows "closed_charge c Q ac'"
proof -
  let ?f = "\<lambda>l. if ql_initialized l then refund_charge now c l else None"
  have ok: "ledger_ok (ledger_of_charge c ac)" using assms(1) by (simp add: sound_at_def)
  then have init: "ql_initialized (ledger_of_charge c ac)" by (simp add: ledger_ok_def)
  then have "is_studio_charge c \<or> ql_initialized (ac_main ac)" by (simp add: ledger_of_charge_def ledger_of_def split: if_splits)
  then have "refund_mut now c ac = charge_mut now (is_studio_charge c) ?f ac" unfolding refund_mut_def by (simp only: if_True)
  with assms(2) have "charge_mut now (is_studio_charge c) ?f ac = Inr (ac', r, v)" by simp
  from charge_mut_closes [OF assms(1) this] show ?thesis using refund_closes [where now = now and c = c, OF ok] init by simp
qed

lemma refund_mut_honest: "refund_mut now c ac = Inr (ac1, r, False) \<Longrightarrow> ac1 = ac" "refund_mut now c ac \<noteq> Inl e"
  using charge_mut_honest by (auto simp: refund_mut_def Let_def split: if_splits)

lemma refund_account_closes:
  assumes "i \<noteq> []" "c \<noteq> []"
  shows "triple (at_account i (sound_at c Q)) (refund_account_once env t i c) (\<lambda>_. at_account i (closed_charge c Q)) (\<lambda>_. at_account i (closed_charge c Q))"
proof -
  have row: "\<forall>ac. map_of (fst (refund_account_quota (en_backend env) (en_now env) s i c)) i = Some ac \<longrightarrow> closed_charge c Q ac"
    if P: "\<forall>ac. map_of s i = Some ac \<longrightarrow> sound_at c Q ac" for s
    using assms(1) row_closes [OF P, of "refund_mut (en_now env) c"] refund_mut_closes refund_mut_honest
    by (simp add: refund_account_quota_def)
  have id: "str_or c t = c" "(i = []) = False" using assms by simp_all
  show ?thesis unfolding refund_account_once_def id if_False
    by (rule triple_seq [OF triple_on_accounts [OF row]], assumption, rule keeps_triple, intro keeping)
qed

lemma exhaust_account_closes:
  assumes "i \<noteq> []" "c \<noteq> []"
  shows "triple (at_account i (sound_at c Q)) (on_accounts (\<lambda>s. exhaust_account_quota (en_backend env) now s i c))
    (\<lambda>_. at_account i (closed_charge c Q)) E"
proof (rule triple_on_accounts)
  fix s
  assume P: "\<forall>ac. map_of s i = Some ac \<longrightarrow> sound_at c Q ac"
  let ?f = "if is_studio_charge c then (\<lambda>l. Some (exhaust_studio_ledger now False c l)) else (\<lambda>l. Some (exhaust_ledger now c l))"
  have "\<forall>ac. map_of (fst (account_row (en_backend env) s i (charge_mut now (is_studio_charge c) ?f))) i = Some ac \<longrightarrow> closed_charge c Q ac"
  proof (rule row_closes [OF P])
    fix ac ac' r v
    assume sound: "sound_at c Q ac" and "charge_mut now (is_studio_charge c) ?f ac = Inr (ac', r, v)"
    then show "closed_charge c Q ac'"
      by (rule charge_mut_closes) (use sound assms(2) exhaust_closes exhaust_studio_closes in \<open>simp add: sound_at_def\<close>)
  qed (erule charge_mut_honest(1), rule charge_mut_honest(2))
  then show "\<forall>ac. map_of (fst (exhaust_account_quota (en_backend env) now s i c)) i = Some ac \<longrightarrow> closed_charge c Q ac"
    using assms(1) by (simp add: exhaust_account_quota_def exhaust_studio_account_quota_def split: if_splits)
qed

lemma consume_closes:
  assumes "sa_id account \<noteq> []" "sa_charge_id account \<noteq> []"
  shows "triple (at_account (sa_id account) (sound_at (sa_charge_id account) Q)) (consume_failed_account_quota env t account platform)
    (\<lambda>_. at_account (sa_id account) (closed_charge (sa_charge_id account) Q)) (\<lambda>_. at_account (sa_id account) (closed_charge (sa_charge_id account) Q))"
  unfolding consume_failed_account_quota_def
  using assms by (simp add: settle_account_closes refund_account_closes)

section \<open>Releasing the account\<close>

lemma keeps_sound_row:
  assumes "\<And>ac ac' r v. f ac = Inr (ac', r, v) \<Longrightarrow> same_ledgers ac ac' \<and> ac_current_task ac' = ac_current_task ac"
  shows "\<forall>ac. map_of s i = Some ac \<longrightarrow> sound_at c Q ac \<Longrightarrow>
    \<forall>ac. map_of (fst (account_row b s j f)) i = Some ac \<longrightarrow> sound_at c Q ac"
  by (erule row_keeps) (use assms same_charge_ledger in \<open>fastforce simp: sound_at_def\<close>)

lemma cooldown_keeps [keeping]:
  "keeps (at_account i (sound_at c Q)) (on_accounts (\<lambda>s. (set_account_cooldown b now s j n reason, ())))"
  unfolding keeps_def
proof (rule triple_on_accounts)
  fix s
  assume "\<forall>ac. map_of s i = Some ac \<longrightarrow> sound_at c Q ac"
  then show "\<forall>ac. map_of (fst (set_account_cooldown b now s j n reason, ())) i = Some ac \<longrightarrow> sound_at c Q ac"
    unfolding set_account_cooldown_def fst_conv
    by (rule keeps_sound_row [rotated]) (auto simp: same_ledgers_def)
qed

lemma mark_keeps:
  assumes "\<And>s. f s = change_account s j (\<lambda>ac. Inr (g ac))"
    and "\<And>ac. same_ledgers ac (g ac) \<and> ac_current_task (g ac) = []" and "Q []"
  shows "keeps (at_account i (sound_at c Q)) (mark_world_account f)"
  unfolding mark_world_account_def keeps_def
proof (rule triple_seq [OF triple_on_part triple_give])
  fix w s x
  assume w: "at_account i (sound_at c Q) w" and "f (wd_accounts w) = Inr (s, x)"
  then obtain ac where "map_of (wd_accounts w) (lower (strip j)) = Some ac" "s = AList.update (lower (strip j)) (g ac) (wd_accounts w)"
    by (auto simp: assms(1) change_account_def Let_def split: option.splits)
  then show "at_account i (sound_at c Q) (w\<lparr>wd_accounts := s\<rparr>)"
    using w assms(2) [of ac] assms(3) same_charge_ledger [of ac "g ac"]
    by (auto simp: at_account_def sound_at_def update_conv')
qed simp_all

lemma marks_keep [keeping]:
  assumes "Q []"
  shows "keeps (at_account i (sound_at c Q)) (mark_world_account (\<lambda>s. disable_account_for_login now s j reason))"
    "keeps (at_account i (sound_at c Q)) (mark_world_account (\<lambda>s. mark_account_slider_verification now s j))"
    "keeps (at_account i (sound_at c Q)) (mark_world_account (\<lambda>s. mark_account_text_only now s j))"
    "keeps (at_account i (sound_at c Q)) (mark_world_account (\<lambda>s. mark_account_region_restricted now s j))"
proof -
  note defs = same_ledgers_def disable_account_def mark_account_def
  show "keeps (at_account i (sound_at c Q)) (mark_world_account (\<lambda>s. disable_account_for_login now s j reason))"
    by (rule mark_keeps [where g = "disable_account now (u ''abnormal'') (take 200 (str_or reason (u ''login invalid'')))"])
      (simp_all add: disable_account_for_login_def defs assms)
  show "keeps (at_account i (sound_at c Q)) (mark_world_account (\<lambda>s. mark_account_slider_verification now s j))"
    by (rule mark_keeps [where g = "\<lambda>ac. (mark_account now (u ''slider_verification'')
         (if account_platform ac = u ''doubao'' then msg_slider_restore else msg_slider_delete) ac)
       \<lparr>ac_slider_date := Some (local_today now), ac_slider_streak := 1, ac_disabled_reason := []\<rparr>"])
      (simp_all add: mark_account_slider_verification_def defs assms)
  show "keeps (at_account i (sound_at c Q)) (mark_world_account (\<lambda>s. mark_account_text_only now s j))"
    by (rule mark_keeps [where g = "disable_account now (u ''text_only'') msg_account_text_only"])
      (simp_all add: mark_account_text_only_def defs assms)
  show "keeps (at_account i (sound_at c Q)) (mark_world_account (\<lambda>s. mark_account_region_restricted now s j))"
    by (rule mark_keeps [where g = "disable_account now (u ''region_restricted'') msg_account_region"])
      (simp_all add: mark_account_region_restricted_def defs assms)
qed

lemma clear_sound:
  assumes "t \<noteq> []" "i \<noteq> []"
  shows "triple (at_account i (sound_at c (\<lambda>_. True))) (clear_account env i t) (\<lambda>_. at_account i (sound_at c (\<lambda>x. x \<noteq> t))) E"
  by (rule clear_account_frees [OF assms]) (auto simp: sound_at_def same_charge_ledger)

lemma clear_closed:
  assumes "t \<noteq> []" "i \<noteq> []"
  shows "triple (at_account i (closed_charge c Q)) (clear_account env i t) (\<lambda>_. at_account i (closed_charge c (\<lambda>x. x \<noteq> t))) E"
  by (rule clear_account_frees [OF assms]) (auto simp: closed_charge_def same_charge_ledger)

lemma release_closes:
  assumes "t \<noteq> []" "sa_id account \<noteq> []" "sa_charge_id account \<noteq> []" "oc_retryable oc"
  shows "triple (at_account (sa_id account) (sound_at (sa_charge_id account) (\<lambda>_. True)))
    (release_account_after_retryable_failure env t account platform oc)
    (\<lambda>_. at_account (sa_id account) (closed_charge (sa_charge_id account) (\<lambda>x. x \<noteq> t))) (\<lambda>_ _. True)"
proof -
  let ?i = "sa_id account" and ?c = "sa_charge_id account"
  let ?S = "at_account ?i (sound_at ?c (\<lambda>x. x \<noteq> t))" and ?D = "at_account ?i (closed_charge ?c (\<lambda>x. x \<noteq> t))"
  have Q: "(\<lambda>x. x \<noteq> t) []" using assms(1) by simp
  have refund: "triple ?S (refund_account_once env t ?i ?c) (\<lambda>_. ?D) (\<lambda>_ _. True)"
    by (rule triple_conseq [OF refund_account_closes [OF assms(2,3)]]) simp_all
  have consume: "triple ?S (consume_failed_account_quota env t account platform) (\<lambda>_. ?D) (\<lambda>_ _. True)"
    by (rule triple_conseq [OF consume_closes [OF assms(2,3)]]) simp_all
  have exhaust: "triple ?S (seq (on_accounts (\<lambda>s. exhaust_account_quota (en_backend env) (en_now env) s ?i ?c)) (\<lambda>_. give ())) (\<lambda>_. ?D) (\<lambda>_ _. True)"
    by (rule triple_seq [OF exhaust_account_closes [OF assms(2,3)] triple_give])
  have last: "triple ?S (seq (if oc_infrastructure_fault oc then refund_account_once env t ?i ?c
        else if oc_account_fault oc \<and> \<not> oc_qianwen_text_only oc then blame_account env t ?i else give ()) (\<lambda>_.
        if should_consume_retry_account_quota oc then consume_failed_account_quota env t account platform else give ()))
      (\<lambda>_. ?D) (\<lambda>_ _. True)"
  proof (cases "oc_infrastructure_fault oc")
    case True
    then have "\<not> should_consume_retry_account_quota oc" by (simp add: should_consume_retry_account_quota_def)
    with True show ?thesis by (simp only: if_True if_False) (rule triple_seq [OF refund triple_give])
  next
    case False
    then have "should_consume_retry_account_quota oc" using assms(4) by (simp add: should_consume_retry_account_quota_def)
    with False show ?thesis
      by (simp only: if_True if_False) (rule triple_after; (intro keeping)?; (rule consume)?; simp)
  qed
  note mark = triple_after [OF marks_keep(1) refund] triple_after [OF marks_keep(2) refund]
    triple_after [OF marks_keep(3) refund] triple_after [OF marks_keep(4) refund]
  show ?thesis
    unfolding release_account_after_retryable_failure_def Let_def
    using assms(2)
    apply (simp only: if_False)
    apply (rule triple_seq [OF clear_sound [OF assms(1,2)]])
    apply (rule triple_after)
      apply (intro keeping)
     apply (rule triple_after)
       apply (intro keeping)
      apply (intro triple_if mark exhaust last Q TrueI)
    apply simp_all
    done
qed

lemma triple_on_world:
  assumes "triple P m Q E"
  shows "triple (\<lambda>e. P (eg_world e)) (on_world m) (\<lambda>x e. Q x (eg_world e)) (\<lambda>x e. E x (eg_world e))"
  unfolding on_world_def
  by (rule triple_on_part_keeping) (use assms in \<open>auto dest: triple_Inr triple_Inl\<close>)

lemma keeps_manager_world [keeping]: "keeps (\<lambda>e. P (eg_world e)) (on_manager f)"
  unfolding on_manager_def by (rule keeps_changes) simp

lemma normalized_flags [simp]:
  "oc_success (normalize_qianwen_retry_outcome platform oc) = oc_success oc"
  "oc_submitted (normalize_qianwen_retry_outcome platform oc) = oc_submitted oc"
  "oc_retryable (normalize_qianwen_retry_outcome platform oc) = oc_retryable oc"
  "oc_confirmation_pending (normalize_qianwen_retry_outcome platform oc) = oc_confirmation_pending oc"
  "oc_keep_account (normalize_qianwen_retry_outcome platform oc) = oc_keep_account oc"
  by (simp_all add: normalize_qianwen_retry_outcome_def)

lemma failed_reason_keeps [keeping]: "keeps (at_account i P) (failed_reason env t platform oc)"
  unfolding failed_reason_def Let_def by (intro keeping)

lemma non_counting_keeps [keeping]: "keeps (at_account i P) (defer_non_counting_retry env t oc)"
  unfolding defer_non_counting_retry_def by (intro keeping)

lemma finish_failure_closes:
  assumes "t \<noteq> []" "sa_id account \<noteq> []" "sa_charge_id account \<noteq> []"
  shows "triple (at_account (sa_id account) (sound_at (sa_charge_id account) (\<lambda>_. True)))
    (finish_failure wv t account platform oc)
    (\<lambda>_. at_account (sa_id account) (closed_charge (sa_charge_id account) (\<lambda>x. x \<noteq> t))) (\<lambda>_ _. True)"
proof (cases "oc_retryable oc")
  case True
  let ?D = "at_account (sa_id account) (closed_charge (sa_charge_id account) (\<lambda>x. x \<noteq> t))"
  have rest: "keeps ?D (seq (failed_reason (wv_env wv) t platform oc) (\<lambda>reason.
              seq (defer_non_counting_retry (wv_env wv) t oc) (\<lambda>deferred.
              if deferred then give () else retry_or_refund wv t (oc_infrastructure_fault oc) reason)))"
    by (intro keeping)
  show ?thesis unfolding finish_failure_def Let_def using True
    by (simp only: if_True) (rule triple_seq [OF release_closes [OF assms True]],
      rule triple_conseq [OF keeps_triple [OF rest]], simp_all)
next
  case False
  let ?S = "at_account (sa_id account) (sound_at (sa_charge_id account) (\<lambda>x. x \<noteq> t))"
  have consume: "triple ?S (consume_failed_account_quota (wv_env wv) t account platform)
      (\<lambda>_. at_account (sa_id account) (closed_charge (sa_charge_id account) (\<lambda>x. x \<noteq> t))) (\<lambda>_ _. True)"
    by (rule triple_conseq [OF consume_closes [OF assms(2,3)]]) simp_all
  have mid: "triple ?S (seq (fail_run (wv_env wv) t (take 500 (oc_reason oc))) (\<lambda>_.
              seq (refund_owner (wv_env wv) t) (\<lambda>_. consume_failed_account_quota (wv_env wv) t account platform)))
      (\<lambda>_. at_account (sa_id account) (closed_charge (sa_charge_id account) (\<lambda>x. x \<noteq> t))) (\<lambda>_ _. True)"
    by (intro triple_after [OF keeps_account_meta(3)] triple_after [OF keeps_account_refund_owner] consume TrueI)
  show ?thesis unfolding finish_failure_def Let_def using False
    by (simp only: if_False) (rule triple_seq [OF clear_sound [OF assms(1,2)] mid])
qed


section \<open>The price\<close>

text \<open>The task belongs to \<open>o'\<close> and has a status of \<open>A\<close>; tokens and ledger are \<open>k\<close> and \<open>l\<close>.\<close>

definition task_in :: "ustr \<Rightarrow> ustr \<Rightarrow> task_status set \<Rightarrow> token_table \<times> transaction list \<Rightarrow> world \<Rightarrow> bool" where
  "task_in t owner A kl w \<longleftrightarrow> (\<exists>row. map_of (wd_tasks w) t = Some row \<and> tm_owner (tr_meta row) = owner \<and> tm_status (tr_meta row) \<in> A) \<and>
     (wd_tokens w, wd_ledger w) = kl"

lemma triple_change_task:
  assumes t: "is_task_id t"
    and f: "\<And>m m' r v. tm_status m \<in> A \<Longrightarrow> f m = Inr (m', r, v) \<Longrightarrow>
        tm_owner m' = tm_owner m \<and> tm_status m' \<in> B r \<and> (v = False \<longrightarrow> m' = m)"
  shows "triple (task_in t owner A kl) (change_task env t f) (\<lambda>r. task_in t owner (B r) kl) (\<lambda>_ _. True)"
  unfolding change_task_def on_tasks_def
proof (rule triple_on_part)
  fix w store r
  assume w: "task_in t owner A kl w" and run: "mutate_meta (en_backend env) (wd_tasks w) t f = Inr (store, r)"
  from run t obtain row m' v where row: "map_of (wd_tasks w) t = Some row" "f (tr_meta row) = Inr (m', r, v)"
    "map_of store = (map_of (wd_tasks w))(t \<mapsto> row\<lparr>tr_meta := m'\<rparr>) \<or> (\<not> v \<and> store = wd_tasks w)"
    by (auto elim: mutate_meta_cases)
  with w f [of "tr_meta row"] show "task_in t owner (B r) kl (w\<lparr>wd_tasks := store\<rparr>)" by (auto simp: task_in_def)
qed simp

lemma keeps_task_accounts [keeping]: "keeps (task_in t owner A kl) (on_accounts f)"
  unfolding on_accounts_def by (rule keeps_on_part) (simp add: task_in_def)

lemma keeps_task_marks [keeping]: "keeps (task_in t owner A kl) (mark_world_account f)"
  unfolding mark_world_account_def by (intro keeping keeps_on_part) (simp add: task_in_def)

text \<open>Changes of the result part, and of the meta part without its owner and status.\<close>

lemma keeps_task_row:
  assumes "\<And>store store' x. f store = Inr (store', x) \<Longrightarrow>
      (\<forall>row. map_of store t = Some row \<longrightarrow> (\<exists>row'. map_of store' t = Some row' \<and>
         tm_owner (tr_meta row') = tm_owner (tr_meta row) \<and> tm_status (tr_meta row') = tm_status (tr_meta row)))"
  shows "triple (task_in t owner A kl) (on_tasks f) (\<lambda>_. task_in t owner A kl) (\<lambda>_ _. True)"
  unfolding on_tasks_def
  by (rule triple_on_part) (use assms in \<open>fastforce simp: task_in_def\<close>)+

lemma result_row:
  assumes t: "is_task_id t" and run: "mutate_result b store t f = Inr (store', x)" and row: "map_of store t = Some row"
  shows "\<exists>row'. map_of store' t = Some row' \<and> tm_owner (tr_meta row') = tm_owner (tr_meta row) \<and>
    tm_status (tr_meta row') = tm_status (tr_meta row)"
proof -
  from t run have "run_row b FileNotFoundError store t (on_result f) = Inr (store', x)" by (simp add: mutate_result_def)
  then show ?thesis
  proof (rule any_rows.run_Inr)
    fix row0 row' v
    assume a: "map_of store t = Some row0" "on_result f row0 = Inr (row', x, v)"
      "map_of store' = (map_of store)(t \<mapsto> row') \<or> (\<not> v \<and> store' = store)"
    have "tr_meta row' = tr_meta row0" using a(2) by (cases "f (tr_result row0)") (auto simp: on_result_def)
    then show ?thesis using a row by auto
  qed
qed

lemma quiet_row:
  assumes "is_task_id t" "quietly store r (mutate_result b store t f) = Inr (store', x)" "map_of store t = Some row"
  shows "\<exists>row'. map_of store' t = Some row' \<and> tm_owner (tr_meta row') = tm_owner (tr_meta row) \<and>
    tm_status (tr_meta row') = tm_status (tr_meta row)"
proof (cases "mutate_result b store t f")
  case (Inl e)
  then have "store' = store" using assms(2) by (cases e) (auto simp: quietly_def)
  with assms(3) show ?thesis by blast
next
  case (Inr p)
  then have "mutate_result b store t f = Inr (store', x)" using assms(2) by (simp add: quietly_def)
  from result_row [OF assms(1) this assms(3)] show ?thesis .
qed

lemma refund_account_task:
  assumes "is_task_id t"
  shows "triple (task_in t owner A kl) (refund_account_once env t i c) (\<lambda>_. task_in t owner A kl) (\<lambda>_ _. True)"
proof -
  have mark: "triple (task_in t owner A kl) (on_tasks (\<lambda>store. mark_account_refund_once (en_backend env) (en_stamp env) store t i))
      (\<lambda>_. task_in t owner A kl) (\<lambda>_ _. True)"
  proof (rule keeps_task_row, intro allI impI)
    fix store store' x row
    assume "mark_account_refund_once (en_backend env) (en_stamp env) store t i = Inr (store', x)" "map_of store t = Some row"
    then show "\<exists>row'. map_of store' t = Some row' \<and> tm_owner (tr_meta row') = tm_owner (tr_meta row) \<and>
        tm_status (tr_meta row') = tm_status (tr_meta row)"
      unfolding mark_account_refund_once_def by (cases "i = []") (auto intro: quiet_row [OF assms])
  qed
  show ?thesis unfolding refund_account_once_def
    by (intro triple_if triple_give triple_after [OF keeps_task_accounts] triple_seq [OF mark] TrueI)
qed

lemma blame_account_task:
  assumes "is_task_id t"
  shows "triple (task_in t owner A kl) (blame_account env t i) (\<lambda>_. task_in t owner A kl) (\<lambda>_ _. True)"
  unfolding blame_account_def
proof (rule keeps_task_row, intro allI impI)
  fix store store' x row
  assume "record_failed_account (en_backend env) (en_now env) store t i = Inr (store', x)" "map_of store t = Some row"
  then show "\<exists>row'. map_of store' t = Some row' \<and> tm_owner (tr_meta row') = tm_owner (tr_meta row) \<and>
      tm_status (tr_meta row') = tm_status (tr_meta row)"
    using assms unfolding record_failed_account_def
    by (cases "i = []") (auto elim!: mutate_meta_cases simp: record_failed_account_mut_def Let_def)
qed

lemma set_meta_task:
  assumes "is_task_id t" "\<And>m. tm_owner (h m) = tm_owner m \<and> tm_status (h m) = tm_status m"
  shows "triple (task_in t owner A kl) (set_meta env t h) (\<lambda>_. task_in t owner A kl) (\<lambda>_ _. True)"
  unfolding set_meta_def change_meta_def
proof (rule triple_seq [OF keeps_task_row triple_give], intro allI impI)
  fix store store' x row
  assume "update_meta (en_backend env) store t (en_now env) h = Inr (store', x)" "map_of store t = Some row"
  then show "\<exists>row'. map_of store' t = Some row' \<and> tm_owner (tr_meta row') = tm_owner (tr_meta row) \<and>
      tm_status (tr_meta row') = tm_status (tr_meta row)"
    using assms by (auto elim!: mutate_meta_cases simp: update_meta_def update_meta_mut_def Let_def)
qed simp

lemma account_steps_task [keeping]:
  "keeps (task_in t owner A kl) (clear_account env i t')" "keeps (task_in t owner A kl) (settle_account env i c)"
  unfolding clear_account_def settle_account_def by (intro keeping)+

lemma triple_keeping: "keeps P m \<Longrightarrow> triple P m (\<lambda>_. P) (\<lambda>_ _. True)"
  unfolding keeps_def by (erule triple_conseq) simp_all

lemma consume_task:
  assumes "is_task_id t"
  shows "triple (task_in t owner A kl) (consume_failed_account_quota env t account platform) (\<lambda>_. task_in t owner A kl) (\<lambda>_ _. True)"
  unfolding consume_failed_account_quota_def
  by (intro triple_if triple_give refund_account_task [OF assms] triple_keeping account_steps_task)

lemma release_task:
  assumes "is_task_id t"
  shows "triple (task_in t owner A kl) (release_account_after_retryable_failure env t account platform oc)
    (\<lambda>_. task_in t owner A kl) (\<lambda>_ _. True)"
proof -
  note steps = refund_account_task [OF assms] blame_account_task [OF assms] consume_task [OF assms]
  have preferred: "triple (task_in t owner A kl) (set_meta env t (\<lambda>m. m\<lparr>tm_preferred_account_id := []\<rparr>))
      (\<lambda>_. task_in t owner A kl) (\<lambda>_ _. True)"
    by (rule set_meta_task [OF assms]) simp
  note acts = triple_keeping [OF keeps_task_accounts] triple_keeping [OF keeps_task_marks] triple_keeping [OF account_steps_task(1)]
  show ?thesis unfolding release_account_after_retryable_failure_def Let_def
    by (intro triple_if triple_give steps preferred acts triple_seq [where R = "\<lambda>_. task_in t owner A kl"] TrueI)
qed

text \<open>A retry goes on as pending until its limit, beyond it the task has failed.\<close>

lemma record_retry_status:
  "tm_status m = Running \<Longrightarrow> record_retry_mut now limit reason m = Inr (m', n, v) \<Longrightarrow>
    tm_owner m' = tm_owner m \<and> tm_status m' = (if limit < n then Failed else Pending) \<and> v"
  by (auto simp: record_retry_mut_def over_def set_retry_terminal_def append_attempt_history_def Let_def split: if_splits)

lemma record_infrastructure_status:
  "tm_status m = Running \<Longrightarrow> record_infrastructure_retry_mut now reason m = Inr (m', n, v) \<Longrightarrow>
    tm_owner m' = tm_owner m \<and> tm_status m' = (if MAX_INFRASTRUCTURE_RETRIES < n then Failed else Pending) \<and> v"
  by (auto simp: record_infrastructure_retry_mut_def over_def set_retry_terminal_def append_attempt_history_def Let_def split: if_splits)

lemma count_retry_task:
  assumes "is_task_id t"
  shows "triple (task_in t owner {Running} kl) (count_retry wv t infrastructure reason)
    (\<lambda>(n, limit). task_in t owner {if limit < n then Failed else Pending} kl) (\<lambda>_ _. True)"
proof -
  have infra: "triple (task_in t owner {Running} kl) (change_task (wv_env wv) t (record_infrastructure_retry_mut (en_now (wv_env wv)) reason))
      (\<lambda>n. task_in t owner {if MAX_INFRASTRUCTURE_RETRIES < n then Failed else Pending} kl) (\<lambda>_ _. True)"
    by (rule triple_change_task [OF assms]) (use record_infrastructure_status in blast)
  have plain: "triple (task_in t owner {Running} kl) (change_task (wv_env wv) t (record_retry_mut (en_now (wv_env wv)) (wv_retry_limit wv) reason))
      (\<lambda>n. task_in t owner {if wv_retry_limit wv < n then Failed else Pending} kl) (\<lambda>_ _. True)"
    by (rule triple_change_task [OF assms]) (use record_retry_status in blast)
  show ?thesis unfolding count_retry_def Let_def
    by (intro triple_if) (rule triple_seq [OF infra triple_give] triple_seq [OF plain triple_give], simp)+
qed

text \<open>The refund of the owner: what \<open>refund_temp_quota_hash\<close> does to the tokens and the ledger.\<close>

definition refunded :: "env \<Rightarrow> ustr \<Rightarrow> ustr \<Rightarrow> token_table \<times> transaction list \<Rightarrow> token_table \<times> transaction list" where
  "refunded env owner t = (\<lambda>(k, l). fst (refund_temp_quota_hash (en_backend env) (en_now env) (en_rand env) k l owner t))"

lemma refund_token_task:
  assumes t: "is_task_id t" and o': "owner \<noteq> []"
  shows "triple (task_in t owner A kl) (refund_token_once env t owner) (\<lambda>_. task_in t owner A (refunded env owner t kl)) (\<lambda>_ _. True)"
proof -
  have pay: "triple (task_in t owner A kl) (refund_task env owner t) (\<lambda>_. task_in t owner A (refunded env owner t kl)) (\<lambda>_ _. True)"
    unfolding refund_task_def by (rule triple_on_part_keeping) (auto simp: task_in_def refunded_def split: prod.splits)
  have mark: "triple (task_in t owner A kl') (on_tasks (\<lambda>store. mark_result_once (en_backend env) (en_stamp env) store t key v))
      (\<lambda>_. task_in t owner A kl') (\<lambda>_ _. True)" for kl' key v
  proof (rule keeps_task_row, intro allI impI)
    fix store store' x row
    assume "mark_result_once (en_backend env) (en_stamp env) store t key v = Inr (store', x)" and row: "map_of store t = Some row"
    then show "\<exists>row'. map_of store' t = Some row' \<and> tm_owner (tr_meta row') = tm_owner (tr_meta row) \<and>
        tm_status (tr_meta row') = tm_status (tr_meta row)"
      using result_row [OF t _ row] quiet_row [OF t _ row] by (cases "en_backend env") (auto simp: mark_result_once_def Let_def)
  qed
  show ?thesis unfolding refund_token_once_def using o'
    by (simp only: if_False) (rule triple_seq [OF pay], intro triple_if triple_give triple_seq [OF mark])
qed

lemma refund_owner_task:
  assumes "is_task_id t" "owner \<noteq> []"
  shows "triple (task_in t owner A kl) (refund_owner env t) (\<lambda>_. task_in t owner A (refunded env owner t kl)) (\<lambda>_ _. True)"
proof -
  have read: "triple (task_in t owner A kl) (read_task env t) (\<lambda>m w. task_in t owner A kl w \<and> tm_owner m = owner) (\<lambda>_ _. True)"
    by (rule tripleI) (use assms(1) in \<open>auto simp: read_task_def seq_def reads_def of_result_def task_in_def get_meta_ok\<close>)
  show ?thesis unfolding refund_owner_def
  proof (rule triple_seq [OF read])
    fix m
    show "triple (\<lambda>w. task_in t owner A kl w \<and> tm_owner m = owner) (refund_token_once env t (tm_owner m))
        (\<lambda>_. task_in t owner A (refunded env owner t kl)) (\<lambda>_ _. True)"
      by (rule triple_fact) (simp add: refund_token_task [OF assms])
  qed
qed

text \<open>Waiting and unpaid back, or failed and paid back.\<close>

definition paid_if_failed :: "env \<Rightarrow> ustr \<Rightarrow> ustr \<Rightarrow> token_table \<times> transaction list \<Rightarrow> world \<Rightarrow> bool" where
  "paid_if_failed env t owner kl w \<longleftrightarrow> task_in t owner {Pending} kl w \<or> task_in t owner {Failed} (refunded env owner t kl) w"

lemma retry_task:
  assumes "is_task_id t" "owner \<noteq> []"
  shows "triple (task_in t owner {Running} kl) (retry_or_refund wv t infrastructure reason)
    (\<lambda>_. paid_if_failed (wv_env wv) t owner kl) (\<lambda>_ _. True)"
  unfolding retry_or_refund_def
proof (rule triple_seq [OF count_retry_task [OF assms(1)]])
  fix p :: "int \<times> int"
  obtain n limit where p: "p = (n, limit)" by (cases p)
  have pay: "triple (task_in t owner {Failed} kl) (refund_owner (wv_env wv) t) (\<lambda>_. paid_if_failed (wv_env wv) t owner kl) (\<lambda>_ _. True)"
    by (rule triple_conseq [OF refund_owner_task [OF assms]]) (auto simp: paid_if_failed_def)
  show "triple (case p of (n, limit) \<Rightarrow> task_in t owner {if limit < n then Failed else Pending} kl)
      (case p of (n, limit) \<Rightarrow> if limit < n then refund_owner (wv_env wv) t else give ())
      (\<lambda>_. paid_if_failed (wv_env wv) t owner kl) (\<lambda>_ _. True)"
    using pay by (auto simp: p paid_if_failed_def intro: triple_give)
qed

lemma reason_task:
  "is_task_id t \<Longrightarrow> triple (task_in t owner A kl) (failed_reason env t platform oc) (\<lambda>_. task_in t owner A kl) (\<lambda>_ _. True)"
  unfolding failed_reason_def Let_def read_task_def by (intro triple_keeping keeping)

lemma defer_task_status:
  "triple (task_in t owner {Running} kl) (defer_non_counting_retry env t oc)
     (\<lambda>deferred. task_in t owner {if deferred then Pending else Running} kl) (\<lambda>_ _. True)" if "is_task_id t"
proof -
  have step: "triple (task_in t owner {Running} kl) (change_task env t (defer_task_mut now reason category delay))
      (\<lambda>_. task_in t owner {Pending} kl) (\<lambda>_ _. True)" for now reason category delay
    by (rule triple_change_task [OF that]) (auto simp: defer_task_mut_def update_meta_if_mut_def Let_def)
  show ?thesis unfolding defer_non_counting_retry_def defer_to_def
    by (intro triple_if triple_give triple_seq [OF triple_seq [OF step triple_give]]) simp_all
qed

lemma finish_failure_pays:
  assumes "is_task_id t" "owner \<noteq> []"
  shows "triple (task_in t owner {Running} kl) (finish_failure wv t account platform oc)
    (\<lambda>_. paid_if_failed (wv_env wv) t owner kl) (\<lambda>_ _. True)"
proof (cases "oc_retryable oc")
  case True
  have rest: "triple (task_in t owner {if deferred then Pending else Running} kl)
      (if deferred then give () else retry_or_refund wv t (oc_infrastructure_fault oc) reason)
      (\<lambda>_. paid_if_failed (wv_env wv) t owner kl) (\<lambda>_ _. True)" for deferred reason
    using retry_task [OF assms] by (auto simp: paid_if_failed_def intro: triple_give)
  show ?thesis unfolding finish_failure_def Let_def using True
    by (simp only: if_True)
      (rule triple_seq [OF release_task [OF assms(1)]], rule triple_seq [OF reason_task [OF assms(1)]],
        rule triple_seq [OF defer_task_status [OF assms(1)]], rule rest)
next
  case False
  have fail: "triple (task_in t owner {Running} kl) (fail_run (wv_env wv) t reason) (\<lambda>_. task_in t owner {Failed} kl) (\<lambda>_ _. True)" for reason
    unfolding fail_run_def
  proof (rule triple_seq [OF triple_change_task triple_give, OF assms(1)])
    fix m m' r v
    assume "tm_status m \<in> {Running}" "mark_failed_mut (en_now (wv_env wv)) reason m = Inr (m', r, v)"
    then show "tm_owner m' = tm_owner m \<and> tm_status m' \<in> {Failed} \<and> (v = False \<longrightarrow> m' = m)"
      by (auto simp: mark_failed_mut_def append_attempt_history_def Let_def split: if_splits)
  qed
  have consume: "triple (task_in t owner {Failed} (refunded (wv_env wv) owner t kl)) (consume_failed_account_quota (wv_env wv) t account platform)
      (\<lambda>_. paid_if_failed (wv_env wv) t owner kl) (\<lambda>_ _. True)"
    by (rule triple_conseq [OF consume_task [OF assms(1)]]) (auto simp: paid_if_failed_def)
  show ?thesis unfolding finish_failure_def Let_def using False
    by (simp only: if_False)
      (rule triple_seq [OF triple_keeping [OF account_steps_task(1)]], rule triple_seq [OF fail],
        rule triple_seq [OF refund_owner_task [OF assms]], rule consume)
qed

text \<open>C10: when a run fails without having reached the platform, its task either waits for another try and its
  owner's balance and the ledger are as before, or it has failed for good and they are what the
  refund of the task's reservation makes of them.\<close>

theorem failed_run_pays_back:
  assumes run: "handle_outcome wv t account platform oc e = (e', Inr ())"
    and failed: "\<not> oc_success oc" "\<not> oc_submitted oc"
    and task: "is_task_id t" "map_of (wd_tasks (eg_world e)) t = Some row" "tm_status (tr_meta row) = Running"
      "tm_owner (tr_meta row) \<noteq> []"
  shows "\<exists>row'. map_of (wd_tasks (eg_world e')) t = Some row' \<and>
    (tm_status (tr_meta row') = Pending \<and> wd_tokens (eg_world e') = wd_tokens (eg_world e) \<and> wd_ledger (eg_world e') = wd_ledger (eg_world e) \<or>
     tm_status (tr_meta row') = Failed \<and> (wd_tokens (eg_world e'), wd_ledger (eg_world e')) =
       fst (refund_temp_quota_hash (en_backend (wv_env wv)) (en_now (wv_env wv)) (en_rand (wv_env wv))
         (wd_tokens (eg_world e)) (wd_ledger (eg_world e)) (tm_owner (tr_meta row)) t))"
proof -
  let ?owner = "tm_owner (tr_meta row)" and ?kl = "(wd_tokens (eg_world e), wd_ledger (eg_world e))"
  let ?oc = "normalize_qianwen_retry_outcome platform oc"
  have world: "triple (task_in t ?owner {Running} ?kl) (if oc_success ?oc
      then seq (if oc_confirmation_pending ?oc then give () else settle_account (wv_env wv) (sa_id account) (sa_charge_id account)) (\<lambda>_.
           if oc_keep_account ?oc then give () else clear_account (wv_env wv) (sa_id account) t)
      else if oc_submitted ?oc
      then seq (if oc_keep_account ?oc then give () else clear_account (wv_env wv) (sa_id account) t) (\<lambda>_.
           seq (change_task (wv_env wv) t (mark_submitted_mut (en_now (wv_env wv)) 15)) (\<lambda>_. give ()))
      else finish_failure wv t account platform ?oc) (\<lambda>_. paid_if_failed (wv_env wv) t ?owner ?kl) (\<lambda>_ _. True)"
    using failed finish_failure_pays [OF task(1,4)] by simp
  have "triple (\<lambda>e. task_in t ?owner {Running} ?kl (eg_world e)) (handle_outcome wv t account platform oc)
      (\<lambda>_ e. paid_if_failed (wv_env wv) t ?owner ?kl (eg_world e)) (\<lambda>_ _. True)"
    unfolding handle_outcome_def Let_def
    by (rule triple_after [OF _ triple_conseq [OF triple_on_world [OF world]]]) (intro keeping | simp)+
  moreover have "task_in t ?owner {Running} ?kl (eg_world e)" using task by (simp add: task_in_def)
  ultimately have "paid_if_failed (wv_env wv) t ?owner ?kl (eg_world e')" using run by (rule triple_Inr)
  then show ?thesis by (auto simp: paid_if_failed_def task_in_def refunded_def split: prod.splits)
qed

text \<open>A running task of the user of the other examples, with an account charged for it.\<close>

definition running_id :: ustr where
  "running_id = replicate 32 98"

definition running_meta :: task_meta where
  "running_meta = new_meta 3 (task_request_of \<lparr>targ_prompt = u ''a dog'', targ_ratio = [], targ_platform = u ''dola'',
     targ_model = u ''Seedance 2.0'', targ_task_type = u ''video'', targ_duration = 15, targ_batch_id = [], targ_batch_index = 0,
     targ_batch_row = 0\<rparr> running_id (u ''dola'') [] [] []) (u ''tmp_x'') Running"

definition running_world :: world where
  "running_world = example_world
     \<lparr>wd_tasks := [(running_id, \<lparr>tr_meta = running_meta, tr_result = []\<rparr>)],
      wd_accounts := [(u ''x'', sample_account\<lparr>ac_current_task := running_id,
        ac_main := open_charge 5 (u ''c'') running_id 2 (fresh_ledger 3)\<rparr>)]\<rparr>"

definition running_engine :: engine where
  "running_engine = example_engine\<lparr>eg_world := running_world\<rparr>"

definition charged_account :: selected_account where
  "charged_account = \<lparr>sa_id = u ''x'', sa_platform = u ''dola'', sa_source = [], sa_name = [], sa_cookies = [], sa_pinned_node = [],
     sa_bucket = [], sa_sync_date = None, sa_synced_at = Unset, sa_actual_remaining = None, sa_charge_id = u ''c'', sa_cost = 2\<rparr>"

definition plain_outcome :: outcome where
  "plain_outcome = \<lparr>oc_success = False, oc_submitted = False, oc_retryable = False, oc_infrastructure_fault = False,
     oc_account_fault = False, oc_switch_account = False, oc_qianwen_text_only = False, oc_login_invalid = False,
     oc_slider = False, oc_text_only = False, oc_region_restricted = False, oc_quota_insufficient = False,
     oc_defer_only = False, oc_confirmation_pending = False, oc_keep_account = False, oc_reason = u ''broken'',
     oc_defer_reason = [], oc_defer_category = [], oc_retry_after = 0, oc_cooldown = 0\<rparr>"


theorem failed_run_pays_back_witness:
  "\<exists>e' row'. handle_outcome example_worker_env running_id charged_account (u ''dola'') plain_outcome running_engine = (e', Inr ()) \<and>
     map_of (wd_tasks (eg_world e')) running_id = Some row' \<and> tm_status (tr_meta row') = Failed \<and>
     (wd_tokens (eg_world e'), wd_ledger (eg_world e')) = fst (refund_temp_quota_hash Postgres 9 (u ''tx'')
        [(u ''tmp_x'', example_token)] [] (u ''tmp_x'') running_id)"
proof -
  let ?run = "handle_outcome example_worker_env running_id charged_account (u ''dola'') plain_outcome running_engine"
  obtain e' r where run: "?run = (e', r)" by (cases ?run)
  have "snd ?run = Inr () \<and> map_option (\<lambda>row. tm_status (tr_meta row)) (map_of (wd_tasks (eg_world (fst ?run))) running_id) = Some Failed"
    by code_simp
  then have r: "r = Inr ()" and status: "map_option (\<lambda>row. tm_status (tr_meta row)) (map_of (wd_tasks (eg_world e')) running_id) = Some Failed"
    using run by auto
  have row: "map_of (wd_tasks (eg_world running_engine)) running_id = Some \<lparr>tr_meta = running_meta, tr_result = []\<rparr>"
    by (simp add: running_engine_def running_world_def)
  have owner: "tm_owner running_meta = u ''tmp_x''" by (simp add: running_meta_def new_meta_def Let_def)
  have i: "is_task_id running_id" by (simp add: is_task_id_def running_id_def u_def is_hex_char_def)
  have "tm_owner running_meta \<noteq> []" "tm_status running_meta = Running"
    by (simp add: owner u_def, simp add: running_meta_def new_meta_def Let_def)
  with failed_run_pays_back [OF run [unfolded r], OF _ _ i row] status run r
  show ?thesis
    by (auto simp: plain_outcome_def owner running_engine_def running_world_def example_world_def example_worker_env_def example_env_def)
qed

end
