(* ===== verification/Browser_Pool.thy ===== *)
theory Browser_Pool
  imports Prelude Complex_Main
begin

text \<open>
  The pool of browser processes (app/browser_runtime.py). A slot is an object that the pool, the
  coroutines that open a context and the leases share, so the slots live in a store and the pool
  keeps their numbers. The sections under the condition's lock are functions of the pool; whether a
  browser is still connected is an argument of them. The steps of the coroutines, cancellation
  included, are a step relation. Playwright itself is not modelled.
\<close>

section \<open>Slots\<close>

definition BROWSER_RECYCLE_TASKS :: int where "BROWSER_RECYCLE_TASKS = 80"
definition BROWSER_RECYCLE_SECONDS :: rat where "BROWSER_RECYCLE_SECONDS = 30 * 60"

record browser_slot =
  bs_key :: ustr
  bs_browser :: bool
  bs_active :: int
  bs_completed :: int
  bs_created_at :: rat
  bs_launching :: bool
  bs_retiring :: bool
  bs_retire_requested :: bool
  bs_closing :: int

record browser_pool =
  bp_max_processes :: int
  bp_contexts :: int
  bp_playwright :: bool
  bp_slots :: "nat list"
  bp_stopping :: bool
  bp_store :: "nat \<Rightarrow> browser_slot"
  bp_next :: nat

definition launch_slot :: "ustr \<Rightarrow> rat \<Rightarrow> browser_slot" where
  "launch_slot key now = \<lparr>bs_key = key, bs_browser = False, bs_active = 1, bs_completed = 0, bs_created_at = now,
     bs_launching = True, bs_retiring = False, bs_retire_requested = False, bs_closing = 0\<rparr>"

definition new_browser_pool :: "int \<Rightarrow> int \<Rightarrow> browser_pool" where
  "new_browser_pool processes contexts = \<lparr>bp_max_processes = max 1 processes, bp_contexts = max 1 contexts,
     bp_playwright = False, bp_slots = [], bp_stopping = False, bp_store = (\<lambda>_. launch_slot [] 0), bp_next = 0\<rparr>"

definition browser_capacity :: "browser_pool \<Rightarrow> int" where
  "browser_capacity p = bp_max_processes p * bp_contexts p"

definition change_slot :: "nat \<Rightarrow> (browser_slot \<Rightarrow> browser_slot) \<Rightarrow> browser_pool \<Rightarrow> browser_pool" where
  "change_slot i f p = p\<lparr>bp_store := (bp_store p)(i := f (bp_store p i))\<rparr>"

definition remove_slot :: "nat \<Rightarrow> browser_pool \<Rightarrow> browser_pool" where
  "remove_slot i p = p\<lparr>bp_slots := remove1 i (bp_slots p)\<rparr>"

text \<open>\<open>alive\<close> says of which browsers \<open>is_connected\<close> is true.\<close>

definition browser_connected :: "(nat \<Rightarrow> bool) \<Rightarrow> browser_pool \<Rightarrow> nat \<Rightarrow> bool" where
  "browser_connected alive p i \<longleftrightarrow> bs_browser (bp_store p i) \<and> alive i"

definition idle_slot :: "browser_pool \<Rightarrow> nat \<Rightarrow> bool" where
  "idle_slot p i \<longleftrightarrow> \<not> bs_launching (bp_store p i) \<and> bs_active (bp_store p i) = 0"

section \<open>Acquiring a context\<close>

datatype acquired = AcqStopping | AcqWait | AcqSelected nat | AcqLaunch nat

definition usable_slot :: "(nat \<Rightarrow> bool) \<Rightarrow> ustr \<Rightarrow> browser_pool \<Rightarrow> nat \<Rightarrow> bool" where
  "usable_slot alive key p i \<longleftrightarrow> bs_key (bp_store p i) = key \<and> \<not> bs_launching (bp_store p i) \<and>
     \<not> bs_retiring (bp_store p i) \<and> browser_connected alive p i \<and> bs_active (bp_store p i) < bp_contexts p"

definition drop_first :: "(nat \<Rightarrow> bool) \<Rightarrow> browser_pool \<Rightarrow> browser_pool \<times> nat option" where
  "drop_first P p = (case find P (bp_slots p) of None \<Rightarrow> (p, None) | Some i \<Rightarrow> (remove_slot i p, Some i))"

definition launch_here :: "ustr \<Rightarrow> rat \<Rightarrow> browser_pool \<Rightarrow> browser_pool \<times> acquired" where
  "launch_here key now p =
     (if int (length (bp_slots p)) < bp_max_processes p
      then (p\<lparr>bp_slots := bp_slots p @ [bp_next p], bp_store := (bp_store p)(bp_next p := launch_slot key now),
              bp_next := Suc (bp_next p)\<rparr>, AcqLaunch (bp_next p))
      else (p, AcqWait))"

text \<open>One pass of the loop under the lock; the slot taken out of the pool is the one whose browser is closed next.\<close>

definition acquire_slot :: "(nat \<Rightarrow> bool) \<Rightarrow> rat \<Rightarrow> ustr \<Rightarrow> browser_pool \<Rightarrow> browser_pool \<times> acquired \<times> nat option" where
  "acquire_slot alive now key p =
     (if bp_stopping p then (p, AcqStopping, None)
      else case drop_first (\<lambda>i. idle_slot p i \<and> \<not> browser_connected alive p i) p of (p1, dead) \<Rightarrow>
        (case find (usable_slot alive key p1) (bp_slots p1) of
           Some i \<Rightarrow> (change_slot i (\<lambda>s. s\<lparr>bs_active := bs_active s + 1\<rparr>) p1, AcqSelected i, dead)
         | None \<Rightarrow>
             if \<exists>i \<in> set (bp_slots p1). bs_key (bp_store p1 i) = key \<and> bs_launching (bp_store p1 i) \<and> \<not> bs_retiring (bp_store p1 i)
             then (p1, AcqWait, None)
             else (case (if bp_max_processes p1 \<le> int (length (bp_slots p1)) then drop_first (idle_slot p1) p1 else (p1, None)) of
               (p2, idle) \<Rightarrow> (case launch_here key now p2 of
                 (p3, a) \<Rightarrow> (p3, a, if a = AcqWait then None else if idle = None then dead else idle)))))"

definition browser_launched :: "nat \<Rightarrow> browser_pool \<Rightarrow> browser_pool" where
  "browser_launched i = change_slot i (\<lambda>s. s\<lparr>bs_browser := True, bs_launching := False\<rparr>)"

section \<open>Giving it back\<close>

definition retire_now :: "nat \<Rightarrow> browser_pool \<Rightarrow> browser_pool \<times> nat option" where
  "retire_now i p = (let s = bp_store p i in
     if i \<in> set (bp_slots p) \<and> bs_active s = 0 \<and> bs_closing s = 0 \<and> bs_retire_requested s
     then (remove_slot i p, Some i) else (p, None))"

text \<open>\<open>_release_slot\<close> up to the closing of the context; without a context nothing is closed.\<close>

definition release_slot :: "(nat \<Rightarrow> bool) \<Rightarrow> rat \<Rightarrow> bool \<Rightarrow> bool \<Rightarrow> nat \<Rightarrow> browser_pool \<Rightarrow> browser_pool \<times> nat option" where
  "release_slot alive now has_context failed i p =
     (let worn = (\<lambda>s. failed \<or> \<not> browser_connected alive p i \<or> BROWSER_RECYCLE_TASKS \<le> bs_completed s \<or>
            BROWSER_RECYCLE_SECONDS \<le> now - bs_created_at s);
          p1 = change_slot i (\<lambda>s.
            let s1 = s\<lparr>bs_active := max 0 (bs_active s - 1), bs_completed := bs_completed s + (if has_context then 1 else 0)\<rparr>;
                s2 = s1\<lparr>bs_retire_requested := (bs_retire_requested s1 \<or> worn s1),
                        bs_closing := bs_closing s1 + (if has_context then 1 else 0)\<rparr>
            in s2\<lparr>bs_retiring := (bs_retire_requested s2 \<or> 0 < bs_closing s2)\<rparr>) p
      in retire_now i p1)"

definition finish_release :: "bool \<Rightarrow> nat \<Rightarrow> browser_pool \<Rightarrow> browser_pool \<times> nat option" where
  "finish_release close_failed i p = retire_now i (change_slot i (\<lambda>s.
     let s1 = s\<lparr>bs_closing := max 0 (bs_closing s - 1), bs_retire_requested := (bs_retire_requested s \<or> close_failed)\<rparr>
     in s1\<lparr>bs_retiring := (bs_retire_requested s1 \<or> 0 < bs_closing s1)\<rparr>) p)"

definition start_pool :: "browser_pool \<Rightarrow> browser_pool" where
  "start_pool p = (if bp_playwright p then p else p\<lparr>bp_stopping := False, bp_playwright := True\<rparr>)"

text \<open>\<open>stop\<close> has two sections: between them the browsers are closed.\<close>

definition stop_slots :: "browser_pool \<Rightarrow> browser_pool" where
  "stop_slots p = p\<lparr>bp_stopping := True, bp_slots := []\<rparr>"

definition stop_playwright :: "browser_pool \<Rightarrow> browser_pool" where
  "stop_playwright p = p\<lparr>bp_playwright := False\<rparr>"

record browser_snapshot =
  sn_processes :: int
  sn_active :: int
  sn_closing :: int
  sn_retiring :: int
  sn_available :: int

definition browser_snapshot :: "browser_pool \<Rightarrow> browser_snapshot" where
  "browser_snapshot p =
     (let total = (\<lambda>f. \<Sum>i \<leftarrow> bp_slots p. f (bp_store p i)); active = total bs_active
      in \<lparr>sn_processes = total (\<lambda>s. if bs_browser s then 1 else 0), sn_active = active, sn_closing = total bs_closing,
          sn_retiring = total (\<lambda>s. if bs_retire_requested s then 1 else 0),
          sn_available = max 0 (browser_capacity p - active)\<rparr>)"

section \<open>The coroutines\<close>

text \<open>
  A coroutine between two sections: it launches a browser, opens a context, holds a lease or closes
  its context. \<open>bo_lost\<close> are the slots of those that were cancelled while they launched or opened:
  the handler is for \<open>Exception\<close>, which a cancellation is not, so the slot stays as it was.
\<close>

datatype browser_phase = Launching nat | Opening nat | Leased nat | Closing nat

record browsers =
  bo_pool :: browser_pool
  bo_phases :: "browser_phase multiset"
  bo_lost :: "nat multiset"
  bo_stopped :: bool

definition joining :: "acquired \<Rightarrow> browser_phase multiset" where
  "joining a = (case a of AcqSelected i \<Rightarrow> {#Opening i#} | AcqLaunch i \<Rightarrow> {#Launching i#} | _ \<Rightarrow> {#})"

definition new_browsers :: "int \<Rightarrow> int \<Rightarrow> browsers" where
  "new_browsers processes contexts = \<lparr>bo_pool = new_browser_pool processes contexts, bo_phases = {#}, bo_lost = {#}, bo_stopped = False\<rparr>"

inductive browser_step :: "browsers \<Rightarrow> browsers \<Rightarrow> bool" where
  asks: "acquire_slot alive now key (bo_pool s) = (p, a, dead) \<Longrightarrow>
    browser_step s (s\<lparr>bo_pool := p, bo_phases := bo_phases s + joining a\<rparr>)"
| launched: "Launching i \<in># bo_phases s \<Longrightarrow>
    browser_step s (s\<lparr>bo_pool := browser_launched i (bo_pool s), bo_phases := bo_phases s - {#Launching i#} + {#Opening i#}\<rparr>)"
| launch_fails: "Launching i \<in># bo_phases s \<Longrightarrow>
    browser_step s (s\<lparr>bo_pool := fst (release_slot alive now False True i (bo_pool s)), bo_phases := bo_phases s - {#Launching i#}\<rparr>)"
| opened: "Opening i \<in># bo_phases s \<Longrightarrow>
    browser_step s (s\<lparr>bo_phases := bo_phases s - {#Opening i#} + {#Leased i#}\<rparr>)"
| open_fails: "Opening i \<in># bo_phases s \<Longrightarrow>
    browser_step s (s\<lparr>bo_pool := fst (release_slot alive now False True i (bo_pool s)), bo_phases := bo_phases s - {#Opening i#}\<rparr>)"
| launch_cancelled: "Launching i \<in># bo_phases s \<Longrightarrow>
    browser_step s (s\<lparr>bo_phases := bo_phases s - {#Launching i#}, bo_lost := bo_lost s + {#i#}\<rparr>)"
| open_cancelled: "Opening i \<in># bo_phases s \<Longrightarrow>
    browser_step s (s\<lparr>bo_phases := bo_phases s - {#Opening i#}, bo_lost := bo_lost s + {#i#}\<rparr>)"
| released: "Leased i \<in># bo_phases s \<Longrightarrow>
    browser_step s (s\<lparr>bo_pool := fst (release_slot alive now True False i (bo_pool s)), bo_phases := bo_phases s - {#Leased i#} + {#Closing i#}\<rparr>)"
| closed: "Closing i \<in># bo_phases s \<Longrightarrow>
    browser_step s (s\<lparr>bo_pool := fst (finish_release close_failed i (bo_pool s)), bo_phases := bo_phases s - {#Closing i#}\<rparr>)"
| starts: "browser_step s (s\<lparr>bo_pool := start_pool (bo_pool s)\<rparr>)"
| stops: "browser_step s (s\<lparr>bo_pool := stop_slots (bo_pool s), bo_stopped := True\<rparr>)"
| stops_playwright: "browser_step s (s\<lparr>bo_pool := stop_playwright (bo_pool s)\<rparr>)"

end
