(* ===== verification/Browser_Props.thy ===== *)
theory Browser_Props
  imports Browser_Pool
begin

text \<open>
  What holds of the browser pool however its coroutines interleave: it never starts more processes
  or contexts than it may, a slot counts exactly the coroutines that use it and those it lost, and a
  launch that is cancelled is never made up for.
\<close>

section \<open>The invariant\<close>

definition holders :: "browsers \<Rightarrow> nat \<Rightarrow> nat" where
  "holders s i = count (bo_phases s) (Launching i) + count (bo_phases s) (Opening i) + count (bo_phases s) (Leased i) + count (bo_lost s) i"

definition slot_ok :: "browsers \<Rightarrow> nat \<Rightarrow> bool" where
  "slot_ok s i \<longleftrightarrow> (let p = bo_pool s; b = bp_store p i; n = int (count (bo_phases s) (Closing i)) in
     (if i < bp_next p then bs_active b = int (holders s i) \<and> bs_closing b = n \<and> bs_active b \<le> bp_contexts p
      else holders s i = 0 \<and> n = 0) \<and>
     (\<not> bo_stopped s \<longrightarrow> 0 < holders s i \<longrightarrow> i \<in> set (bp_slots p)) \<and>
     (0 < count (bo_phases s) (Launching i) \<longrightarrow> bs_launching b \<and> \<not> bs_retiring b \<and> holders s i = 1 \<and> n = 0))"

definition pool_ok :: "browser_pool \<Rightarrow> bool" where
  "pool_ok p \<longleftrightarrow> distinct (bp_slots p) \<and> int (length (bp_slots p)) \<le> bp_max_processes p \<and> 1 \<le> bp_contexts p \<and>
     (\<forall>i \<in> set (bp_slots p). i < bp_next p)"

definition browsers_ok :: "browsers \<Rightarrow> bool" where
  "browsers_ok s \<longleftrightarrow> pool_ok (bo_pool s) \<and> (\<forall>i. slot_ok s i)"

lemma pool_ok_remove: "pool_ok p \<Longrightarrow> pool_ok (remove_slot i p)"
  by (auto simp: pool_ok_def remove_slot_def length_remove1 dest: notin_set_remove1)

lemma pool_ok_change [simp]: "pool_ok (change_slot i f p) = pool_ok p"
  by (simp add: pool_ok_def change_slot_def)

lemma pool_ok_retire: "pool_ok p \<Longrightarrow> pool_ok (fst (retire_now i p))"
  by (simp add: retire_now_def Let_def pool_ok_remove)

lemma pool_ok_release: "pool_ok p \<Longrightarrow> pool_ok (fst (release_slot alive now c f i p))"
  unfolding release_slot_def Let_def by (rule pool_ok_retire) simp

lemma pool_ok_finish: "pool_ok p \<Longrightarrow> pool_ok (fst (finish_release f i p))"
  unfolding finish_release_def Let_def by (rule pool_ok_retire) simp

text \<open>What a step of the pool leaves of a slot.\<close>

lemma retire_store [simp]:
  "bp_store (fst (retire_now i p)) = bp_store p" "bp_next (fst (retire_now i p)) = bp_next p"
  "bp_contexts (fst (retire_now i p)) = bp_contexts p" "bp_max_processes (fst (retire_now i p)) = bp_max_processes p"
  by (simp_all add: retire_now_def Let_def remove_slot_def)

lemma retire_slots:
  "pool_ok p \<Longrightarrow> j \<in> set (bp_slots p) \<Longrightarrow> j \<noteq> i \<or> bs_active (bp_store p i) \<noteq> 0 \<Longrightarrow> j \<in> set (bp_slots (fst (retire_now i p)))"
  by (auto simp: retire_now_def Let_def remove_slot_def pool_ok_def)

lemma change_slot_simps [simp]:
  "bp_store (change_slot i f p) j = (if j = i then f (bp_store p i) else bp_store p j)"
  "bp_next (change_slot i f p) = bp_next p" "bp_contexts (change_slot i f p) = bp_contexts p"
  "bp_slots (change_slot i f p) = bp_slots p" "bp_max_processes (change_slot i f p) = bp_max_processes p"
  by (simp_all add: change_slot_def)

section \<open>Acquiring\<close>

lemma drop_first_ok:
  assumes "drop_first P p = (p', d)" "pool_ok p"
  shows "pool_ok p'" "bp_store p' = bp_store p" "bp_next p' = bp_next p" "bp_contexts p' = bp_contexts p"
    "bp_max_processes p' = bp_max_processes p" "set (bp_slots p') \<subseteq> set (bp_slots p)"
    "j \<in> set (bp_slots p) \<Longrightarrow> j \<notin> set (bp_slots p') \<Longrightarrow> P j"
    "d \<noteq> None \<Longrightarrow> length (bp_slots p') < length (bp_slots p)"
  using assms pool_ok_remove
  by (auto simp: drop_first_def remove_slot_def pool_ok_def find_Some_iff length_remove1 split: option.splits
      dest: notin_set_remove1)

text \<open>What one pass changes, and that only idle slots are taken out.\<close>

definition pass_effect :: "browser_pool \<Rightarrow> browser_pool \<Rightarrow> acquired \<Rightarrow> ustr \<Rightarrow> rat \<Rightarrow> bool" where
  "pass_effect p p' a key now \<longleftrightarrow> pool_ok p' \<and> bp_contexts p' = bp_contexts p \<and> bp_max_processes p' = bp_max_processes p \<and>
     (\<forall>j \<in> set (bp_slots p). j \<in> set (bp_slots p') \<or> idle_slot p j) \<and>
     (case a of
        AcqSelected i \<Rightarrow> i \<in> set (bp_slots p) \<and> i \<in> set (bp_slots p') \<and> \<not> bs_launching (bp_store p i) \<and>
          bs_active (bp_store p i) < bp_contexts p \<and> bp_next p' = bp_next p \<and>
          bp_store p' = (bp_store p)(i := (bp_store p i)\<lparr>bs_active := bs_active (bp_store p i) + 1\<rparr>)
      | AcqLaunch i \<Rightarrow> i = bp_next p \<and> i \<in> set (bp_slots p') \<and> bp_next p' = Suc i \<and>
          bp_store p' = (bp_store p)(i := launch_slot key now)
      | _ \<Rightarrow> bp_store p' = bp_store p \<and> bp_next p' = bp_next p)"

lemma launch_here_effect:
  assumes "launch_here key now p2 = (p3, a)" "pool_ok p2" "bp_store p2 = bp_store p" "bp_next p2 = bp_next p"
    "bp_contexts p2 = bp_contexts p" "bp_max_processes p2 = bp_max_processes p"
    "\<forall>j \<in> set (bp_slots p). j \<in> set (bp_slots p2) \<or> idle_slot p j"
  shows "pass_effect p p3 a key now"
  using assms by (auto simp: launch_here_def pass_effect_def pool_ok_def less_Suc_eq split: if_splits)

lemma acquire_effect:
  assumes run: "acquire_slot alive now key p = (p', a, dead)" and ok: "pool_ok p"
  shows "pass_effect p p' a key now"
proof (cases "bp_stopping p")
  case True
  with run ok show ?thesis by (auto simp: acquire_slot_def pass_effect_def)
next
  case False
  let ?P = "\<lambda>i. idle_slot p i \<and> \<not> browser_connected alive p i"
  obtain p1 d where d: "drop_first ?P p = (p1, d)" by (cases "drop_first ?P p")
  note one = drop_first_ok(1-6) [OF d ok] and gone = drop_first_ok(7) [OF d ok]
  have idle: "idle_slot p1 = idle_slot p" by (rule ext) (simp add: idle_slot_def one)
  have kept: "\<forall>j \<in> set (bp_slots p). j \<in> set (bp_slots p1) \<or> idle_slot p j" using gone by blast
  show ?thesis
  proof (cases "find (usable_slot alive key p1) (bp_slots p1)")
    case (Some i)
    then have i: "i \<in> set (bp_slots p1)" "usable_slot alive key p1 i" by (auto simp: find_Some_iff)
    have "a = AcqSelected i" "p' = change_slot i (\<lambda>s. s\<lparr>bs_active := bs_active s + 1\<rparr>) p1"
      using run False d Some by (auto simp: acquire_slot_def)
    then show ?thesis using i one kept
      by (auto simp: pass_effect_def usable_slot_def change_slot_def pool_ok_def)
  next
    case None
    show ?thesis
    proof (cases "\<exists>i \<in> set (bp_slots p1). bs_key (bp_store p1 i) = key \<and> bs_launching (bp_store p1 i) \<and> \<not> bs_retiring (bp_store p1 i)")
      case True
      then have "a = AcqWait" "p' = p1" using run False d None by (auto simp: acquire_slot_def)
      then show ?thesis using one kept by (simp add: pass_effect_def)
    next
      case launch: False
      obtain p2 d2 where d2: "(if bp_max_processes p1 \<le> int (length (bp_slots p1)) then drop_first (idle_slot p1) p1 else (p1, None)) = (p2, d2)"
        by (cases "if bp_max_processes p1 \<le> int (length (bp_slots p1)) then drop_first (idle_slot p1) p1 else (p1, None)")
      obtain p3 a' where l: "launch_here key now p2 = (p3, a')" by (cases "launch_here key now p2")
      have two: "pool_ok p2" "bp_store p2 = bp_store p1" "bp_next p2 = bp_next p1" "bp_contexts p2 = bp_contexts p1"
        "bp_max_processes p2 = bp_max_processes p1" "\<forall>j \<in> set (bp_slots p1). j \<in> set (bp_slots p2) \<or> idle_slot p1 j"
      proof -
        have "p2 = p1 \<or> drop_first (idle_slot p1) p1 = (p2, d2)" using d2 by (simp split: if_splits)
        then show "pool_ok p2" "bp_store p2 = bp_store p1" "bp_next p2 = bp_next p1" "bp_contexts p2 = bp_contexts p1"
          "bp_max_processes p2 = bp_max_processes p1" "\<forall>j \<in> set (bp_slots p1). j \<in> set (bp_slots p2) \<or> idle_slot p1 j"
          using drop_first_ok [OF _ one(1), of "idle_slot p1" p2 d2] one(1) by blast+
      qed
      have "p' = p3 \<and> a = a'" using run False d None launch d2 l by (auto simp: acquire_slot_def)
      with launch_here_effect [OF l two(1), of p] two one kept idle show ?thesis by auto
    qed
  qed
qed

section \<open>Every step keeps the invariant\<close>

lemma slot_ok_away:
  assumes "slot_ok s i" "holders s' i = holders s i" "bp_store (bo_pool s') i = bp_store (bo_pool s) i"
    "count (bo_phases s') (Closing i) = count (bo_phases s) (Closing i)"
    "count (bo_phases s') (Launching i) = count (bo_phases s) (Launching i)"
    "bp_next (bo_pool s') = bp_next (bo_pool s)" "bp_contexts (bo_pool s') = bp_contexts (bo_pool s)"
    "\<not> bo_stopped s' \<Longrightarrow> \<not> bo_stopped s \<and> (i \<in> set (bp_slots (bo_pool s)) \<longrightarrow> 0 < holders s i \<longrightarrow> i \<in> set (bp_slots (bo_pool s')))"
  shows "slot_ok s' i"
  using assms by (auto simp: slot_ok_def Let_def)

lemma ok_slot: "browsers_ok s \<Longrightarrow> slot_ok s i"
  by (simp add: browsers_ok_def)

lemma slot_exists:
  "slot_ok s i \<Longrightarrow> 0 < holders s i \<or> Closing i \<in># bo_phases s \<Longrightarrow> i < bp_next (bo_pool s)"
  by (auto simp: slot_ok_def Let_def count_eq_zero_iff split: if_splits)

text \<open>The asking coroutine.\<close>

lemma asks_ok:
  assumes ok: "browsers_ok s" and run: "acquire_slot alive now key (bo_pool s) = (p, a, dead)"
  shows "browsers_ok (s\<lparr>bo_pool := p, bo_phases := bo_phases s + joining a\<rparr>)"
proof -
  let ?s' = "s\<lparr>bo_pool := p, bo_phases := bo_phases s + joining a\<rparr>" and ?p = "bo_pool s"
  have pool: "pool_ok ?p" and slots: "slot_ok s i" for i using ok by (simp_all add: browsers_ok_def)
  have eff: "pass_effect ?p p a key now" by (rule acquire_effect [OF run pool])
  have kept: "i \<in> set (bp_slots p)" if "i \<in> set (bp_slots ?p)" "0 < holders s i" for i
    using eff that slots [of i] pool by (auto simp: pass_effect_def idle_slot_def slot_ok_def Let_def pool_ok_def)
  have "slot_ok ?s' i" for i
  proof (cases a)
    case (AcqSelected j)
    show ?thesis
    proof (cases "i = j")
      case True
      then show ?thesis using eff slots [of j] pool AcqSelected
        by (auto simp: slot_ok_def Let_def pass_effect_def joining_def holders_def pool_ok_def)
    next
      case False
      then show ?thesis using eff kept [of i] AcqSelected
        by (intro slot_ok_away [OF slots [of i]]) (auto simp: pass_effect_def joining_def holders_def)
    qed
  next
    case (AcqLaunch j)
    show ?thesis
    proof (cases "i = j")
      case True
      then show ?thesis using eff slots [of j] pool AcqLaunch
        by (auto simp: slot_ok_def Let_def pass_effect_def joining_def holders_def pool_ok_def launch_slot_def)
    next
      case False
      then show ?thesis using eff kept [of i] slots [of i] AcqLaunch
        by (auto simp: slot_ok_def Let_def pass_effect_def joining_def holders_def)
    qed
  qed (use eff kept in \<open>auto simp: pass_effect_def joining_def holders_def intro!: slot_ok_away [OF slots [of i]]\<close>)
  then show ?thesis using eff by (simp add: browsers_ok_def pass_effect_def)
qed

text \<open>The steps that give a slot back touch no other, and take it out of the pool only when nobody uses it.\<close>

definition touches :: "nat \<Rightarrow> (browser_slot \<Rightarrow> browser_slot) \<Rightarrow> browser_pool \<Rightarrow> browser_pool \<Rightarrow> bool" where
  "touches i f p p' \<longleftrightarrow> bp_store p' = (bp_store p)(i := f (bp_store p i)) \<and> bp_next p' = bp_next p \<and>
     bp_contexts p' = bp_contexts p \<and> (\<forall>j \<in> set (bp_slots p). j \<noteq> i \<or> bs_active (f (bp_store p i)) \<noteq> 0 \<longrightarrow> j \<in> set (bp_slots p'))"

lemma touches_here: "touches i f p p' \<Longrightarrow> i \<in> set (bp_slots p) \<Longrightarrow> bs_active (f (bp_store p i)) \<noteq> 0 \<Longrightarrow> i \<in> set (bp_slots p')"
  by (simp add: touches_def)

lemma touches_retire: "pool_ok p \<Longrightarrow> touches i f p (fst (retire_now i (change_slot i f p)))"
  by (auto simp: touches_def fun_eq_iff intro: retire_slots)

lemma touches_change: "pool_ok p \<Longrightarrow> touches i f p (change_slot i f p)"
  by (auto simp: touches_def fun_eq_iff)

lemma release_touches:
  assumes "pool_ok p"
  shows "\<exists>f. touches i f p (fst (release_slot alive now c failed i p)) \<and>
    bs_active (f (bp_store p i)) = max 0 (bs_active (bp_store p i) - 1) \<and>
    bs_closing (f (bp_store p i)) = bs_closing (bp_store p i) + (if c then 1 else 0)"
  unfolding release_slot_def Let_def
  by (intro exI conjI, rule touches_retire [OF assms]) simp_all

lemma finish_touches:
  assumes "pool_ok p"
  shows "\<exists>f. touches i f p (fst (finish_release b i p)) \<and> bs_active (f (bp_store p i)) = bs_active (bp_store p i) \<and>
    bs_closing (f (bp_store p i)) = max 0 (bs_closing (bp_store p i) - 1)"
  unfolding finish_release_def Let_def
  by (intro exI conjI, rule touches_retire [OF assms]) simp_all

lemma touched_ok:
  assumes ok: "browsers_ok s" and t: "touches i f (bo_pool s) p" and p: "pool_ok p"
    and s': "bo_pool s' = p" "bo_stopped s' = bo_stopped s"
    and away: "\<And>j. j \<noteq> i \<Longrightarrow> holders s' j = holders s j \<and> count (bo_phases s') (Closing j) = count (bo_phases s) (Closing j) \<and>
        count (bo_phases s') (Launching j) = count (bo_phases s) (Launching j)"
    and here: "slot_ok s' i"
  shows "browsers_ok s'"
proof -
  have "slot_ok s' j" if "j \<noteq> i" for j
    using that away [OF that] t s' by (intro slot_ok_away [OF ok_slot [OF ok]]) (auto simp: touches_def)
  with here have "slot_ok s' j" for j by (cases "j = i") simp_all
  with p s' show ?thesis by (simp add: browsers_ok_def)
qed

lemma phase_counts [simp]:
  "x \<in># M \<Longrightarrow> count (M - {#x#}) y = (if x = y then count M y - 1 else count M y)"
  by simp

lemma in_count: "x \<in># M \<Longrightarrow> 0 < count M x"
  by simp

lemma in_Suc: "x \<in># M \<Longrightarrow> \<exists>n. count M x = Suc n"
  by (metis count_greater_zero_iff gr0_implies_Suc)

lemma launching_alone:
  assumes "slot_ok s i" "Launching i \<in># bo_phases s"
  shows "count (bo_phases s) (Launching i) = 1" "count (bo_phases s) (Opening i) = 0" "count (bo_phases s) (Leased i) = 0"
    "count (bo_lost s) i = 0" "count (bo_phases s) (Closing i) = 0"
proof -
  have "holders s i = 1" and closing: "count (bo_phases s) (Closing i) = 0" using assms by (simp_all add: slot_ok_def Let_def)
  then show "count (bo_phases s) (Launching i) = 1" "count (bo_phases s) (Opening i) = 0" "count (bo_phases s) (Leased i) = 0"
      "count (bo_lost s) i = 0"
    using in_count [OF assms(2)] unfolding holders_def by linarith+
  show "count (bo_phases s) (Closing i) = 0" by (rule closing)
qed

lemma nobody_launches:
  assumes "slot_ok s i" "x \<in># bo_phases s" "x \<in> {Opening i, Leased i, Closing i}"
  shows "count (bo_phases s) (Launching i) = 0"
proof (rule ccontr)
  assume "count (bo_phases s) (Launching i) \<noteq> 0"
  then have "Launching i \<in># bo_phases s" by simp
  from launching_alone [OF assms(1) this] in_Suc [OF assms(2)] assms(3) show False by auto
qed

text \<open>What the slot of a step must satisfy, when nobody launches it afterwards.\<close>

lemma here_ok:
  assumes ok: "slot_ok s i" and t: "touches i f (bo_pool s) p" and s': "bo_pool s' = p" "bo_stopped s' = bo_stopped s"
    and used: "i < bp_next (bo_pool s)"
    and active: "bs_active (f (bp_store (bo_pool s) i)) = int (holders s' i)" "holders s' i \<le> holders s i"
    and closing: "bs_closing (f (bp_store (bo_pool s) i)) = int (count (bo_phases s') (Closing i))"
    and none: "count (bo_phases s') (Launching i) = 0"
  shows "slot_ok s' i"
proof -
  have "i \<in> set (bp_slots p)" if "\<not> bo_stopped s" "0 < holders s' i"
    using that ok active by (intro touches_here [OF t]) (auto simp: slot_ok_def Let_def)
  then show ?thesis using assms by (simp add: slot_ok_def Let_def touches_def)
qed

lemma step_ok:
  assumes "browser_step s s'" "browsers_ok s"
  shows "browsers_ok s'"
  using assms
proof (induction rule: browser_step.induct)
  case (asks alive now key s p a dead)
  then show ?case by (rule asks_ok [rotated])
next
  case (launched i s)
  then have ok: "pool_ok (bo_pool s)" by (simp add: browsers_ok_def)
  note slot = ok_slot [OF launched(2), of i]
  then have used: "i < bp_next (bo_pool s)" using slot_exists launched(1) by (fastforce simp: holders_def)
  have b: "bs_active (bp_store (bo_pool s) i) = int (holders s i)" "bs_closing (bp_store (bo_pool s) i) = int (count (bo_phases s) (Closing i))"
    using slot used by (simp_all add: slot_ok_def Let_def)
  have t: "touches i (\<lambda>s. s\<lparr>bs_browser := True, bs_launching := False\<rparr>) (bo_pool s) (browser_launched i (bo_pool s))"
    unfolding browser_launched_def by (rule touches_change [OF ok])
  have pl: "pool_ok (browser_launched i (bo_pool s))" using ok by (simp add: browser_launched_def)
  show ?case
    by (rule touched_ok [OF launched(2) t(1) pl], simp_all add: holders_def, rule here_ok [OF slot t(1)])
      (use b used launching_alone [OF slot launched(1)] in \<open>auto simp: holders_def\<close>)
next
  case (launch_fails i s alive now)
  then have ok: "pool_ok (bo_pool s)" by (simp add: browsers_ok_def)
  note slot = ok_slot [OF launch_fails(2), of i]
  then have used: "i < bp_next (bo_pool s)" using slot_exists launch_fails(1) by (fastforce simp: holders_def)
  have b: "bs_active (bp_store (bo_pool s) i) = int (holders s i)" "bs_closing (bp_store (bo_pool s) i) = int (count (bo_phases s) (Closing i))"
    using slot used by (simp_all add: slot_ok_def Let_def)
  obtain f where t: "touches i f (bo_pool s) (fst (release_slot alive now False True i (bo_pool s)))"
    "bs_active (f (bp_store (bo_pool s) i)) = max 0 (bs_active (bp_store (bo_pool s) i) - 1)"
    "bs_closing (f (bp_store (bo_pool s) i)) = bs_closing (bp_store (bo_pool s) i)"
    using release_touches [OF ok, of i alive now False True] by auto
  show ?case
    by (rule touched_ok [OF launch_fails(2) t(1) pool_ok_release [OF ok]], simp_all add: holders_def, rule here_ok [OF slot t(1)])
      (use b used t(2-) launching_alone [OF slot launch_fails(1)] in \<open>auto simp: holders_def\<close>)
next
  case (opened i s)
  then have ok: "pool_ok (bo_pool s)" by (simp add: browsers_ok_def)
  note slot = ok_slot [OF opened(2), of i]
  then have used: "i < bp_next (bo_pool s)" using slot_exists opened(1) by (fastforce simp: holders_def)
  have b: "bs_active (bp_store (bo_pool s) i) = int (holders s i)" "bs_closing (bp_store (bo_pool s) i) = int (count (bo_phases s) (Closing i))"
    using slot used by (simp_all add: slot_ok_def Let_def)
  have t:  "touches i (\<lambda>b. b) (bo_pool s) (bo_pool s)" by (simp add: touches_def)
  show ?case
    by (rule touched_ok [OF opened(2) t(1) ok], simp_all add: holders_def, rule here_ok [OF slot t(1)])
      (use b used nobody_launches [OF slot opened(1)] in_Suc [OF opened(1)] in \<open>auto simp: holders_def\<close>)
next
  case (open_fails i s alive now)
  then have ok: "pool_ok (bo_pool s)" by (simp add: browsers_ok_def)
  note slot = ok_slot [OF open_fails(2), of i]
  then have used: "i < bp_next (bo_pool s)" using slot_exists open_fails(1) by (fastforce simp: holders_def)
  have b: "bs_active (bp_store (bo_pool s) i) = int (holders s i)" "bs_closing (bp_store (bo_pool s) i) = int (count (bo_phases s) (Closing i))"
    using slot used by (simp_all add: slot_ok_def Let_def)
  obtain f where t: "touches i f (bo_pool s) (fst (release_slot alive now False True i (bo_pool s)))"
    "bs_active (f (bp_store (bo_pool s) i)) = max 0 (bs_active (bp_store (bo_pool s) i) - 1)"
    "bs_closing (f (bp_store (bo_pool s) i)) = bs_closing (bp_store (bo_pool s) i)"
    using release_touches [OF ok, of i alive now False True] by auto
  show ?case
    by (rule touched_ok [OF open_fails(2) t(1) pool_ok_release [OF ok]], simp_all add: holders_def, rule here_ok [OF slot t(1)])
      (use b used t(2-) nobody_launches [OF slot open_fails(1)] in_Suc [OF open_fails(1)] in \<open>auto simp: holders_def\<close>)
next
  case (launch_cancelled i s)
  then have ok: "pool_ok (bo_pool s)" by (simp add: browsers_ok_def)
  note slot = ok_slot [OF launch_cancelled(2), of i]
  then have used: "i < bp_next (bo_pool s)" using slot_exists launch_cancelled(1) by (fastforce simp: holders_def)
  have b: "bs_active (bp_store (bo_pool s) i) = int (holders s i)" "bs_closing (bp_store (bo_pool s) i) = int (count (bo_phases s) (Closing i))"
    using slot used by (simp_all add: slot_ok_def Let_def)
  have t:  "touches i (\<lambda>b. b) (bo_pool s) (bo_pool s)" by (simp add: touches_def)
  show ?case
    by (rule touched_ok [OF launch_cancelled(2) t(1) ok], simp_all add: holders_def, rule here_ok [OF slot t(1)])
      (use b used launching_alone [OF slot launch_cancelled(1)] in \<open>auto simp: holders_def\<close>)
next
  case (open_cancelled i s)
  then have ok: "pool_ok (bo_pool s)" by (simp add: browsers_ok_def)
  note slot = ok_slot [OF open_cancelled(2), of i]
  then have used: "i < bp_next (bo_pool s)" using slot_exists open_cancelled(1) by (fastforce simp: holders_def)
  have b: "bs_active (bp_store (bo_pool s) i) = int (holders s i)" "bs_closing (bp_store (bo_pool s) i) = int (count (bo_phases s) (Closing i))"
    using slot used by (simp_all add: slot_ok_def Let_def)
  have t:  "touches i (\<lambda>b. b) (bo_pool s) (bo_pool s)" by (simp add: touches_def)
  show ?case
    by (rule touched_ok [OF open_cancelled(2) t(1) ok], simp_all add: holders_def, rule here_ok [OF slot t(1)])
      (use b used nobody_launches [OF slot open_cancelled(1)] in_Suc [OF open_cancelled(1)] in \<open>auto simp: holders_def\<close>)
next
  case (released i s alive now)
  then have ok: "pool_ok (bo_pool s)" by (simp add: browsers_ok_def)
  note slot = ok_slot [OF released(2), of i]
  then have used: "i < bp_next (bo_pool s)" using slot_exists released(1) by (fastforce simp: holders_def)
  have b: "bs_active (bp_store (bo_pool s) i) = int (holders s i)" "bs_closing (bp_store (bo_pool s) i) = int (count (bo_phases s) (Closing i))"
    using slot used by (simp_all add: slot_ok_def Let_def)
  obtain f where t: "touches i f (bo_pool s) (fst (release_slot alive now True False i (bo_pool s)))"
    "bs_active (f (bp_store (bo_pool s) i)) = max 0 (bs_active (bp_store (bo_pool s) i) - 1)"
    "bs_closing (f (bp_store (bo_pool s) i)) = bs_closing (bp_store (bo_pool s) i) + 1"
    using release_touches [OF ok, of i alive now True False] by auto
  show ?case
    by (rule touched_ok [OF released(2) t(1) pool_ok_release [OF ok]], simp_all add: holders_def, rule here_ok [OF slot t(1)])
      (use b used t(2-) nobody_launches [OF slot released(1)] in_Suc [OF released(1)] in \<open>auto simp: holders_def\<close>)
next
  case (closed i s b)
  then have ok: "pool_ok (bo_pool s)" by (simp add: browsers_ok_def)
  note slot = ok_slot [OF closed(2), of i]
  then have used: "i < bp_next (bo_pool s)" using slot_exists closed(1) by (fastforce simp: holders_def)
  have b: "bs_active (bp_store (bo_pool s) i) = int (holders s i)" "bs_closing (bp_store (bo_pool s) i) = int (count (bo_phases s) (Closing i))"
    using slot used by (simp_all add: slot_ok_def Let_def)
  obtain f where t: "touches i f (bo_pool s) (fst (finish_release b i (bo_pool s)))"
    "bs_active (f (bp_store (bo_pool s) i)) = bs_active (bp_store (bo_pool s) i)"
    "bs_closing (f (bp_store (bo_pool s) i)) = max 0 (bs_closing (bp_store (bo_pool s) i) - 1)"
    using finish_touches [OF ok, of i b] by auto
  show ?case
    by (rule touched_ok [OF closed(2) t(1) pool_ok_finish [OF ok]], simp_all add: holders_def, rule here_ok [OF slot t(1)])
      (use b used t(2-) nobody_launches [OF slot closed(1)] in_Suc [OF closed(1)] in \<open>auto simp: holders_def\<close>)
next
  case (starts s)
  then show ?case
    by (auto simp: browsers_ok_def start_pool_def pool_ok_def) (auto simp: holders_def intro: slot_ok_away [OF ok_slot [OF starts]])
next
  case (stops s)
  then show ?case
    by (auto simp: browsers_ok_def stop_slots_def pool_ok_def) (auto simp: holders_def intro: slot_ok_away [OF ok_slot [OF stops]])
next
  case (stops_playwright s)
  then show ?case
    by (auto simp: browsers_ok_def stop_playwright_def pool_ok_def) (auto simp: holders_def intro: slot_ok_away [OF ok_slot [OF stops_playwright]])
qed

lemma acquire_limits:
  "acquire_slot alive now key p = (p', a, d) \<Longrightarrow> bp_max_processes p' = bp_max_processes p \<and> bp_contexts p' = bp_contexts p"
  by (auto simp: acquire_slot_def drop_first_def remove_slot_def launch_here_def change_slot_def split: if_splits option.splits prod.splits)

lemma step_limits:
  "browser_step s s' \<Longrightarrow> bp_max_processes (bo_pool s') = bp_max_processes (bo_pool s) \<and> bp_contexts (bo_pool s') = bp_contexts (bo_pool s)"
  by (induction rule: browser_step.induct)
    (auto dest: acquire_limits simp: browser_launched_def release_slot_def finish_release_def Let_def start_pool_def stop_slots_def stop_playwright_def)

lemma browser_reachable_ok: "browser_step\<^sup>*\<^sup>* (new_browsers processes contexts) s \<Longrightarrow> browsers_ok s"
proof (induction rule: rtranclp_induct)
  case base
  show ?case by (auto simp: browsers_ok_def new_browsers_def new_browser_pool_def pool_ok_def slot_ok_def holders_def)
qed (rule step_ok)

text \<open>C12: however the coroutines of the pool interleave, be they cancelled or not, it has at most so many
  slots as it may have processes, and none is used by more coroutines than the contexts it may have;
  each slot counts exactly those that launch it, open or hold a context of it, and those that were
  cancelled while they did the former. As long as the pool was not stopped, all contexts belong to its slots.\<close>

theorem browser_pool_bounded:
  assumes "browser_step\<^sup>*\<^sup>* (new_browsers processes contexts) s"
  shows "int (length (bp_slots (bo_pool s))) \<le> max 1 processes \<and>
    (\<forall>i. int (holders s i) \<le> max 1 contexts \<and>
       (i \<in> set (bp_slots (bo_pool s)) \<longrightarrow> bs_active (bp_store (bo_pool s) i) = int (holders s i)) \<and>
       (\<not> bo_stopped s \<longrightarrow> 0 < holders s i \<longrightarrow> i \<in> set (bp_slots (bo_pool s))))"
proof -
  have "browsers_ok s" by (rule browser_reachable_ok [OF assms])
  moreover have "bp_max_processes (bo_pool s) = max 1 processes \<and> bp_contexts (bo_pool s) = max 1 contexts" using assms
  proof (induction rule: rtranclp_induct)
    case base
    show ?case by (simp add: new_browsers_def new_browser_pool_def)
  qed (auto dest!: step_limits)
  ultimately have pool: "pool_ok (bo_pool s)" and limits: "bp_max_processes (bo_pool s) = max 1 processes" "bp_contexts (bo_pool s) = max 1 contexts"
    and slots: "slot_ok s i" for i by (simp_all add: browsers_ok_def)
  have "int (holders s i) \<le> max 1 contexts" for i
    using slots [of i] limits(2) by (simp add: slot_ok_def Let_def split: if_splits)
  moreover have "bs_active (bp_store (bo_pool s) i) = int (holders s i)" if "i \<in> set (bp_slots (bo_pool s))" for i
    using slots [of i] that pool by (simp add: slot_ok_def Let_def pool_ok_def)
  moreover have "i \<in> set (bp_slots (bo_pool s))" if "\<not> bo_stopped s" "0 < holders s i" for i
    using slots [of i] that by (simp add: slot_ok_def Let_def)
  ultimately show ?thesis using pool limits(1) by (simp add: pool_ok_def)
qed

section \<open>A cancelled launch\<close>

definition stuck :: "nat \<Rightarrow> ustr \<Rightarrow> browsers \<Rightarrow> bool" where
  "stuck i key s \<longleftrightarrow> (let p = bo_pool s; b = bp_store p i in
     i \<in> set (bp_slots p) \<and> bs_key b = key \<and> bs_launching b \<and> \<not> bs_retiring b \<and> bs_active b \<noteq> 0 \<and>
     (\<forall>x \<in> {Launching i, Opening i, Leased i, Closing i}. x \<notin># bo_phases s))"

lemma touched_stuck:
  assumes "stuck i key s" "touches j f (bo_pool s) (bo_pool s')" "j \<noteq> i"
    "\<And>x. x \<in># bo_phases s' \<Longrightarrow> x \<in># bo_phases s \<or> x \<in> {Launching j, Opening j, Leased j, Closing j}"
  shows "stuck i key s'"
  using assms by (auto simp: stuck_def touches_def Let_def)

lemma asks_stuck:
  assumes ok: "pool_ok (bo_pool s)" and i: "stuck i key s" and run: "acquire_slot alive now key' (bo_pool s) = (p, a, d)"
  shows "stuck i key (s\<lparr>bo_pool := p, bo_phases := bo_phases s + joining a\<rparr>)"
  using acquire_effect [OF run ok] i ok
  by (auto simp: pass_effect_def stuck_def Let_def joining_def idle_slot_def pool_ok_def split: acquired.splits)

lemma step_stuck:
  assumes "browser_step s s'" "browsers_ok s" "stuck i key s" "\<not> bo_stopped s'"
  shows "stuck i key s'"
  using assms
proof (induction rule: browser_step.induct)
  case (asks alive now key' s p a dead)
  then show ?case using asks_stuck by (simp add: browsers_ok_def)
next
  case (launched j s)
  then have "pool_ok (bo_pool s)" by (simp add: browsers_ok_def)
  then obtain f where "touches j f (bo_pool s) (browser_launched j (bo_pool s))"
    using touches_change [of "bo_pool s" j] unfolding browser_launched_def by blast
  moreover have "j \<noteq> i" using launched by (auto simp: stuck_def Let_def)
  ultimately show ?case
    by (intro touched_stuck [OF launched(3), of j f]) (auto dest: in_diffD)
next
  case (launch_fails j s alive now)
  then have "pool_ok (bo_pool s)" by (simp add: browsers_ok_def)
  then obtain f where "touches j f (bo_pool s) (fst (release_slot alive now False True j (bo_pool s)))"
    using release_touches [of "bo_pool s" j alive now False True] by blast
  moreover have "j \<noteq> i" using launch_fails by (auto simp: stuck_def Let_def)
  ultimately show ?case
    by (intro touched_stuck [OF launch_fails(3), of j f]) (auto dest: in_diffD)
next
  case (open_fails j s alive now)
  then have "pool_ok (bo_pool s)" by (simp add: browsers_ok_def)
  then obtain f where "touches j f (bo_pool s) (fst (release_slot alive now False True j (bo_pool s)))"
    using release_touches [of "bo_pool s" j alive now False True] by blast
  moreover have "j \<noteq> i" using open_fails by (auto simp: stuck_def Let_def)
  ultimately show ?case
    by (intro touched_stuck [OF open_fails(3), of j f]) (auto dest: in_diffD)
next
  case (released j s alive now)
  then have "pool_ok (bo_pool s)" by (simp add: browsers_ok_def)
  then obtain f where "touches j f (bo_pool s) (fst (release_slot alive now True False j (bo_pool s)))"
    using release_touches [of "bo_pool s" j alive now True False] by blast
  moreover have "j \<noteq> i" using released by (auto simp: stuck_def Let_def)
  ultimately show ?case
    by (intro touched_stuck [OF released(3), of j f]) (auto dest: in_diffD)
next
  case (closed j s b)
  then have "pool_ok (bo_pool s)" by (simp add: browsers_ok_def)
  then obtain f where "touches j f (bo_pool s) (fst (finish_release b j (bo_pool s)))"
    using finish_touches [of "bo_pool s" j b] by blast
  moreover have "j \<noteq> i" using closed by (auto simp: stuck_def Let_def)
  ultimately show ?case
    by (intro touched_stuck [OF closed(3), of j f]) (auto dest: in_diffD)
qed (auto simp: stuck_def Let_def start_pool_def stop_playwright_def dest: in_diffD)

lemma stopped_stays: "browser_step s s' \<Longrightarrow> bo_stopped s \<Longrightarrow> bo_stopped s'"
  by (induction rule: browser_step.induct) simp_all

lemma steps_stuck:
  assumes "browser_step\<^sup>*\<^sup>* s s'" "browsers_ok s" "stuck i key s" "\<not> bo_stopped s'"
  shows "stuck i key s' \<and> browsers_ok s'"
  using assms
proof (induction rule: rtranclp_induct)
  case (step y z)
  then show ?case using step_stuck step_ok stopped_stays by blast
qed simp

lemma blocked_key:
  assumes run: "acquire_slot alive now key p = (p', a, d)" and ok: "pool_ok p"
    and i: "i \<in> set (bp_slots p)" "bs_key (bp_store p i) = key" "bs_launching (bp_store p i)" "\<not> bs_retiring (bp_store p i)"
  shows "a \<noteq> AcqLaunch j"
proof -
  let ?P = "\<lambda>i. idle_slot p i \<and> \<not> browser_connected alive p i"
  obtain p1 e where e: "drop_first ?P p = (p1, e)" by (cases "drop_first ?P p")
  from drop_first_ok(2,7) [OF e ok] i have "i \<in> set (bp_slots p1)" "bp_store p1 = bp_store p" by (auto simp: idle_slot_def)
  with i have "\<exists>i \<in> set (bp_slots p1). bs_key (bp_store p1 i) = key \<and> bs_launching (bp_store p1 i) \<and> \<not> bs_retiring (bp_store p1 i)"
    by auto
  with run e show ?thesis by (auto simp: acquire_slot_def split: if_splits option.splits)
qed

text \<open>C13: when the coroutine that launches a browser is cancelled, its slot stays in the pool as a launch in
  progress until the pool is stopped: it takes the place of a process, and for its kind of browser no
  other one is ever launched.\<close>

theorem cancelled_launch_blocks:
  assumes before: "browser_step\<^sup>*\<^sup>* (new_browsers processes contexts) s" "Launching i \<in># bo_phases s" "\<not> bo_stopped s"
    and after: "browser_step\<^sup>*\<^sup>* (s\<lparr>bo_phases := bo_phases s - {#Launching i#}, bo_lost := bo_lost s + {#i#}\<rparr>) s'" "\<not> bo_stopped s'"
    and ask: "acquire_slot alive now (bs_key (bp_store (bo_pool s) i)) (bo_pool s') = (p, a, d)"
  shows "i \<in> set (bp_slots (bo_pool s')) \<and> bs_launching (bp_store (bo_pool s') i) \<and> (\<forall>j. a \<noteq> AcqLaunch j)"
proof -
  let ?key = "bs_key (bp_store (bo_pool s) i)"
  let ?c = "s\<lparr>bo_phases := bo_phases s - {#Launching i#}, bo_lost := bo_lost s + {#i#}\<rparr>"
  have ok: "browsers_ok s" by (rule browser_reachable_ok [OF before(1)])
  have slot: "slot_ok s i" by (rule ok_slot [OF ok])
  have used: "i < bp_next (bo_pool s)" using slot_exists [OF slot] before(2) by (simp add: holders_def)
  have "stuck i ?key ?c"
    using slot used before(2,3) launching_alone [OF slot before(2)]
    by (auto simp: stuck_def slot_ok_def Let_def holders_def dest: in_diffD simp flip: count_greater_zero_iff)
  moreover have "browsers_ok ?c" by (rule step_ok [OF launch_cancelled [OF before(2)] ok])
  ultimately have "stuck i ?key s'" "pool_ok (bo_pool s')"
    using steps_stuck [OF after(1) _ _ after(2)] by (auto simp: browsers_ok_def)
  then have i: "i \<in> set (bp_slots (bo_pool s'))" "bs_launching (bp_store (bo_pool s') i)"
    and blocked: "a \<noteq> AcqLaunch j" for j
    using blocked_key [OF ask, of i j] by (auto simp: stuck_def Let_def)
  then show ?thesis by simp
qed

text \<open>A pool of one process, asked once.\<close>

definition asked_pool :: browser_pool where
  "asked_pool = (new_browser_pool 1 1)\<lparr>bp_slots := [0], bp_store := (\<lambda>_. launch_slot [] 0)(0 := launch_slot (u ''k'') 0), bp_next := 1\<rparr>"

definition asked :: browsers where
  "asked = (new_browsers 1 1)\<lparr>bo_pool := asked_pool, bo_phases := {#Launching 0#}\<rparr>"

lemma asked_reached: "browser_step\<^sup>*\<^sup>* (new_browsers 1 1) asked"
proof -
  have "acquire_slot (\<lambda>_. True) 0 (u ''k'') (bo_pool (new_browsers 1 1)) = (asked_pool, AcqLaunch 0, None)"
    by (simp add: acquire_slot_def new_browsers_def new_browser_pool_def drop_first_def launch_here_def asked_pool_def)
  from browser_step.asks [OF this] show ?thesis
    by (intro r_into_rtranclp) (simp add: asked_def joining_def new_browsers_def)
qed

theorem browser_pool_bounded_witness:
  "browser_step\<^sup>*\<^sup>* (new_browsers 1 1) asked \<and> bp_slots (bo_pool asked) = [0] \<and> int (holders asked 0) \<le> 1"
  using browser_pool_bounded [OF asked_reached] asked_reached by (simp add: asked_def asked_pool_def)

theorem cancelled_launch_blocks_witness:
  "\<exists>s' p a d. browser_step\<^sup>*\<^sup>* (asked\<lparr>bo_phases := bo_phases asked - {#Launching 0#}, bo_lost := bo_lost asked + {#0#}\<rparr>) s' \<and>
     acquire_slot (\<lambda>_. True) 5 (u ''k'') (bo_pool s') = (p, a, d) \<and> bo_phases s' = {#} \<and>
     0 \<in> set (bp_slots (bo_pool s')) \<and> (\<forall>j. a \<noteq> AcqLaunch j)"
proof -
  let ?s = "asked\<lparr>bo_phases := bo_phases asked - {#Launching 0#}, bo_lost := bo_lost asked + {#0#}\<rparr>"
  obtain p a d where ask: "acquire_slot (\<lambda>_. True) 5 (u ''k'') (bo_pool ?s) = (p, a, d)"
    by (cases "acquire_slot (\<lambda>_. True) 5 (u ''k'') (bo_pool ?s)") auto
  have key: "bs_key (bp_store (bo_pool asked) 0) = u ''k''" by (simp add: asked_def asked_pool_def launch_slot_def)
  have "0 \<in> set (bp_slots (bo_pool ?s)) \<and> bs_launching (bp_store (bo_pool ?s) 0) \<and> (\<forall>j. a \<noteq> AcqLaunch j)"
    by (rule cancelled_launch_blocks [OF asked_reached _ _ rtranclp.rtrancl_refl _ ask [folded key]])
      (simp_all add: asked_def new_browsers_def)
  moreover have "bo_phases ?s = {#}" by (simp add: asked_def)
  ultimately show ?thesis using ask by blast
qed

end
