(* ===== verification/Proxy_Pool.thy ===== *)
theory Proxy_Pool
  imports Prelude Complex_Main
begin

text \<open>
  The pool of proxy endpoints that an API hands out (app/api_proxy_pool.py): the passes of
  \<open>acquire\<close> under the condition's lock, the loop that fetches an endpoint that works, leases and
  their cooldowns, and the steps of the coroutines with cancellation as a step relation. The API and the probe
  are arguments: the outcome of each fetch. Slots are shared objects and live in a store.
\<close>

section \<open>Slots\<close>

definition API_FETCH_MIN_INTERVAL_SECONDS :: rat where "API_FETCH_MIN_INTERVAL_SECONDS = 3 / 4"
definition REFRESH_FAILURE_BACKOFF_MAX_SECONDS :: rat where "REFRESH_FAILURE_BACKOFF_MAX_SECONDS = 15"

record endpoint =
  ep_server :: ustr
  ep_host_port :: ustr
  ep_node :: ustr

record proxy_slot =
  ps_endpoint :: endpoint
  ps_active :: int
  ps_invalid :: bool
  ps_total :: int
  ps_last_leased :: rat
  ps_cooldown :: rat

abbreviation ps_node :: "proxy_slot \<Rightarrow> ustr" where
  "ps_node s \<equiv> ep_node (ps_endpoint s)"

record proxy_pool =
  pp_max :: int
  pp_contexts :: int
  pp_refreshes :: int
  pp_interval :: rat
  pp_slots :: "nat list"
  pp_store :: "nat \<Rightarrow> proxy_slot"
  pp_next :: nat
  pp_launching :: int
  pp_error :: ustr
  pp_last_fetch :: rat
  pp_failures :: int
  pp_not_before :: rat
  pp_stopping :: bool

definition new_endpoint :: "endpoint \<Rightarrow> proxy_slot" where
  "new_endpoint ep = \<lparr>ps_endpoint = ep, ps_active = 0, ps_invalid = False, ps_total = 0, ps_last_leased = 0, ps_cooldown = 0\<rparr>"

definition new_proxy_pool :: "int \<Rightarrow> int \<Rightarrow> int \<Rightarrow> rat \<Rightarrow> proxy_pool" where
  "new_proxy_pool endpoints contexts refreshes interval =
     \<lparr>pp_max = max 1 endpoints, pp_contexts = max 1 contexts, pp_refreshes = max 1 (min (max 1 endpoints) refreshes),
      pp_interval = max 0 interval, pp_slots = [], pp_store = (\<lambda>_. new_endpoint \<lparr>ep_server = [], ep_host_port = [], ep_node = []\<rparr>),
      pp_next = 0, pp_launching = 0, pp_error = [], pp_last_fetch = 0, pp_failures = 0, pp_not_before = 0, pp_stopping = False\<rparr>"

definition change_proxy :: "nat \<Rightarrow> (proxy_slot \<Rightarrow> proxy_slot) \<Rightarrow> proxy_pool \<Rightarrow> proxy_pool" where
  "change_proxy i f p = p\<lparr>pp_store := (pp_store p)(i := f (pp_store p i))\<rparr>"

text \<open>\<open>_lease_slot\<close>; the time is that of the wall clock.\<close>

definition lease_proxy :: "rat \<Rightarrow> proxy_slot \<Rightarrow> proxy_slot" where
  "lease_proxy wall s = s\<lparr>ps_active := ps_active s + 1, ps_total := ps_total s + 1, ps_last_leased := wall\<rparr>"

definition invalidate_proxy :: "nat \<Rightarrow> proxy_pool \<Rightarrow> proxy_pool" where
  "invalidate_proxy i = change_proxy i (\<lambda>s. s\<lparr>ps_invalid := True\<rparr>)"

definition cooldown_proxy :: "rat \<Rightarrow> rat \<Rightarrow> nat \<Rightarrow> proxy_pool \<Rightarrow> proxy_pool" where
  "cooldown_proxy now seconds i = change_proxy i (\<lambda>s. s\<lparr>ps_cooldown := max (ps_cooldown s) (now + max 1 seconds)\<rparr>)"

section \<open>Acquiring\<close>

text \<open>A pass raises, leases a slot, sleeps, starts a fetch (with the nodes that are known) or waits to be notified.\<close>

datatype proxy_pass = ProxyStopping | ProxyLease nat | ProxySleep rat | ProxyFetch "ustr list" | ProxyWait

definition prune_proxies :: "proxy_pool \<Rightarrow> proxy_pool" where
  "prune_proxies p = p\<lparr>pp_slots := filter (\<lambda>i. \<not> (ps_invalid (pp_store p i) \<and> ps_active (pp_store p i) = 0)) (pp_slots p)\<rparr>"

definition usable_proxy :: "ustr list \<Rightarrow> proxy_pool \<Rightarrow> nat \<Rightarrow> bool" where
  "usable_proxy excluded p i \<longleftrightarrow> \<not> ps_invalid (pp_store p i) \<and> ps_node (pp_store p i) \<notin> set excluded \<and>
     ps_active (pp_store p i) < pp_contexts p"

text \<open>One of the slots with the fewest leases: at random, or the first by its node.\<close>

definition choose_proxy :: "bool \<Rightarrow> nat \<Rightarrow> proxy_pool \<Rightarrow> nat list \<Rightarrow> nat" where
  "choose_proxy random draw p candidates =
     (let least = filter (\<lambda>i. \<forall>j \<in> set candidates. ps_active (pp_store p i) \<le> ps_active (pp_store p j)) candidates
      in if random then least ! (draw mod length least) else hd (sort_key (\<lambda>i. ps_node (pp_store p i)) least))"

definition acquire_proxy :: "rat \<Rightarrow> rat \<Rightarrow> ustr list \<Rightarrow> bool \<Rightarrow> nat \<Rightarrow> proxy_pool \<Rightarrow> proxy_pool \<times> proxy_pass" where
  "acquire_proxy now wall excluded random draw p =
     (if pp_stopping p then (p, ProxyStopping)
      else let p1 = prune_proxies p;
               usable = filter (usable_proxy excluded p1) (pp_slots p1);
               candidates = filter (\<lambda>i. ps_cooldown (pp_store p1 i) \<le> now) usable;
               cooling = map (\<lambda>i. ps_cooldown (pp_store p1 i) - now) (filter (\<lambda>i. now < ps_cooldown (pp_store p1 i)) usable);
               refresh_wait = max 0 (pp_not_before p1 - now)
      in if candidates \<noteq> []
         then let i = choose_proxy random draw p1 candidates in (change_proxy i (lease_proxy wall) p1, ProxyLease i)
         else if 0 < refresh_wait then (p1, ProxySleep (min refresh_wait 1))
         else if int (length (pp_slots p1)) + pp_launching p1 < pp_max p1 \<and> pp_launching p1 < pp_refreshes p1
         then (p1\<lparr>pp_launching := pp_launching p1 + 1\<rparr>, ProxyFetch (map (\<lambda>i. ps_node (pp_store p1 i)) (pp_slots p1)))
         else if cooling \<noteq> [] then (p1, ProxySleep (min (Min (set cooling)) 1))
         else (p1, ProxyWait))"

section \<open>Fetching an endpoint\<close>

text \<open>What the API and the probe did: an error, or an endpoint with the answer of the probe.\<close>

datatype fetched = FetchError ustr | FetchedProxy ustr ustr bool

definition fetch_wait :: "proxy_pool \<Rightarrow> rat \<Rightarrow> rat" where
  "fetch_wait p now = max 0 (pp_interval p - (now - pp_last_fetch p))"

definition refresh_error :: "ustr list \<Rightarrow> ustr" where
  "refresh_error errors = u ''api proxy pool could not refresh an endpoint ('' @
     str_or (join_texts (u ''; '') (drop (length errors - 6) errors)) (u ''no distinct API proxy endpoint was available'') @ u '')''"

text \<open>At most six fetches, three errors and three different endpoints; \<open>outcomes k\<close> is the \<open>k\<close>-th fetch.\<close>

function fetch_endpoint :: "ustr list \<Rightarrow> (nat \<Rightarrow> fetched) \<Rightarrow> nat \<Rightarrow> nat \<Rightarrow> ustr list \<Rightarrow> ustr list \<Rightarrow> ustr + endpoint" where
  "fetch_endpoint excluded outcomes k failed seen errors =
     (if 3 \<le> length seen \<or> 6 \<le> k then Inl (refresh_error errors)
      else case outcomes k of
        FetchError text \<Rightarrow>
          if 3 \<le> Suc failed then Inl (refresh_error (errors @ [take 160 text]))
          else fetch_endpoint excluded outcomes (Suc k) (Suc failed) seen (errors @ [take 160 text])
      | FetchedProxy host_port server available \<Rightarrow>
          (let node = u ''api:'' @ strip host_port
           in if strip host_port = [] \<or> strip server = []
              then fetch_endpoint excluded outcomes (Suc k) failed seen (errors @ [u ''proxy api returned an empty endpoint''])
              else if node \<in> set seen then fetch_endpoint excluded outcomes (Suc k) failed seen errors
              else if node \<in> set excluded then fetch_endpoint excluded outcomes (Suc k) failed (node # seen) errors
              else if \<not> available then fetch_endpoint excluded outcomes (Suc k) failed (node # seen)
                (errors @ [strip host_port @ u '': unavailable for Dola''])
              else Inr \<lparr>ep_server = strip server, ep_host_port = strip host_port, ep_node = node\<rparr>))"
  by pat_completeness auto

termination by (relation "measure (\<lambda>(e, os, k, f, s, es). 6 - k)") auto

declare fetch_endpoint.simps [simp del]

text \<open>The endpoint has arrived.\<close>

datatype arrival = ArrivedLease nat | ArrivedSaturated | ArrivedStopping

definition fetch_done :: "proxy_pool \<Rightarrow> proxy_pool" where
  "fetch_done p = p\<lparr>pp_error := [], pp_failures := 0, pp_not_before := 0\<rparr>"

definition fetch_failed :: "rat \<Rightarrow> ustr \<Rightarrow> proxy_pool \<Rightarrow> proxy_pool" where
  "fetch_failed now text p =
     (let failures = pp_failures p + 1;
          backoff = min REFRESH_FAILURE_BACKOFF_MAX_SECONDS (2 ^ nat (min 3 failures))
      in p\<lparr>pp_error := take 500 text, pp_launching := max 0 (pp_launching p - 1), pp_failures := failures,
           pp_not_before := max (pp_not_before p) (now + backoff)\<rparr>)"

definition proxy_arrived :: "rat \<Rightarrow> rat \<Rightarrow> ustr list \<Rightarrow> endpoint \<Rightarrow> proxy_pool \<Rightarrow> proxy_pool \<times> arrival" where
  "proxy_arrived now wall excluded ep p =
     (let p1 = p\<lparr>pp_launching := max 0 (pp_launching p - 1)\<rparr>
      in if pp_stopping p then (fetch_failed now (u ''RuntimeError: api proxy pool is stopping'') p1, ArrivedStopping)
         else case find (\<lambda>i. ps_node (pp_store p i) = ep_node ep \<and> \<not> ps_invalid (pp_store p i)) (pp_slots p) of
           Some i \<Rightarrow> if ps_node (pp_store p i) \<notin> set excluded \<and> ps_active (pp_store p i) < pp_contexts p
             then (fetch_done (change_proxy i (lease_proxy wall) p1), ArrivedLease i) else (p1, ArrivedSaturated)
         | None \<Rightarrow> (fetch_done (p1\<lparr>pp_slots := pp_slots p @ [pp_next p], pp_next := Suc (pp_next p),
                 pp_store := (pp_store p)(pp_next p := lease_proxy wall (new_endpoint ep))\<rparr>), ArrivedLease (pp_next p)))"

definition release_proxy :: "nat \<Rightarrow> proxy_pool \<Rightarrow> proxy_pool" where
  "release_proxy i p =
     (let p1 = change_proxy i (\<lambda>s. s\<lparr>ps_active := max 0 (ps_active s - 1)\<rparr>) p
      in if ps_invalid (pp_store p1 i) \<and> ps_active (pp_store p1 i) = 0 then p1\<lparr>pp_slots := remove1 i (pp_slots p1)\<rparr> else p1)"

definition stop_proxies :: "proxy_pool \<Rightarrow> proxy_pool" where
  "stop_proxies p = p\<lparr>pp_stopping := True, pp_slots := []\<rparr>"

definition proxy_state :: "rat \<Rightarrow> proxy_slot \<Rightarrow> ustr" where
  "proxy_state now s = (if ps_invalid s then u ''retiring'' else if now < ps_cooldown s then u ''cooling''
     else if ps_active s \<noteq> 0 then u ''active'' else u ''idle'')"

record proxy_snapshot =
  px_refreshing :: int
  px_endpoints :: int
  px_active :: int
  px_available :: int
  px_potential :: int
  px_states :: "(ustr \<times> ustr) list"

definition proxy_snapshot :: "rat \<Rightarrow> proxy_pool \<Rightarrow> proxy_snapshot" where
  "proxy_snapshot now p =
     (let slots = map (pp_store p) (pp_slots p); active = (\<Sum>s \<leftarrow> slots. ps_active s)
      in \<lparr>px_refreshing = pp_launching p, px_endpoints = int (length slots), px_active = active,
          px_available = (\<Sum>s \<leftarrow> filter (\<lambda>s. \<not> ps_invalid s \<and> ps_cooldown s \<le> now) slots. max 0 (pp_contexts p - ps_active s)),
          px_potential = max 0 (pp_max p * pp_contexts p - active),
          px_states = map (\<lambda>s. (ps_node s, proxy_state now s))
            (sort_key (\<lambda>s. (ep_host_port (ps_endpoint s), ps_node s)) slots)\<rparr>)"

section \<open>The coroutines\<close>

text \<open>
  The coroutines that fetch, the leases that are out, and the fetches that were cancelled: the
  handler is for \<open>Exception\<close>, which a cancellation is not, so a cancelled fetch is counted as running.
\<close>

record proxies =
  pr_pool :: proxy_pool
  pr_fetching :: nat
  pr_leases :: "nat multiset"
  pr_lost :: nat
  pr_stopped :: bool

definition new_proxies :: "int \<Rightarrow> int \<Rightarrow> int \<Rightarrow> rat \<Rightarrow> proxies" where
  "new_proxies endpoints contexts refreshes interval =
     \<lparr>pr_pool = new_proxy_pool endpoints contexts refreshes interval, pr_fetching = 0, pr_leases = {#}, pr_lost = 0, pr_stopped = False\<rparr>"

definition after_pass :: "proxy_pass \<Rightarrow> proxies \<Rightarrow> proxies" where
  "after_pass a s = (case a of
     ProxyLease i \<Rightarrow> s\<lparr>pr_leases := pr_leases s + {#i#}\<rparr>
   | ProxyFetch known \<Rightarrow> s\<lparr>pr_fetching := Suc (pr_fetching s)\<rparr>
   | _ \<Rightarrow> s)"

definition after_arrival :: "arrival \<Rightarrow> proxies \<Rightarrow> proxies" where
  "after_arrival a s = (case a of ArrivedLease i \<Rightarrow> s\<lparr>pr_leases := pr_leases s + {#i#}\<rparr> | _ \<Rightarrow> s)"

inductive proxy_step :: "proxies \<Rightarrow> proxies \<Rightarrow> bool" where
  asks: "acquire_proxy now wall excluded random draw (pr_pool s) = (p, a) \<Longrightarrow>
    proxy_step s (after_pass a (s\<lparr>pr_pool := p\<rparr>))"
| paced: "proxy_step s (s\<lparr>pr_pool := (pr_pool s)\<lparr>pp_last_fetch := now\<rparr>\<rparr>)"
| arrives: "0 < pr_fetching s \<Longrightarrow> fetch_endpoint (excluded @ known) outcomes 0 0 [] [] = Inr ep \<Longrightarrow>
    proxy_arrived now wall excluded ep (pr_pool s) = (p, a) \<Longrightarrow>
    proxy_step s (after_arrival a (s\<lparr>pr_pool := p, pr_fetching := pr_fetching s - 1\<rparr>))"
| fails: "0 < pr_fetching s \<Longrightarrow> fetch_endpoint (excluded @ known) outcomes 0 0 [] [] = Inl text \<Longrightarrow>
    proxy_step s (s\<lparr>pr_pool := fetch_failed now (u ''RuntimeError: '' @ text) (pr_pool s), pr_fetching := pr_fetching s - 1\<rparr>)"
| probe_raises: "0 < pr_fetching s \<Longrightarrow>
    proxy_step s (s\<lparr>pr_pool := fetch_failed now msg (pr_pool s), pr_fetching := pr_fetching s - 1\<rparr>)"
| cancelled: "0 < pr_fetching s \<Longrightarrow> proxy_step s (s\<lparr>pr_fetching := pr_fetching s - 1, pr_lost := Suc (pr_lost s)\<rparr>)"
| releases: "i \<in># pr_leases s \<Longrightarrow> proxy_step s (s\<lparr>pr_pool := release_proxy i (pr_pool s), pr_leases := pr_leases s - {#i#}\<rparr>)"
| invalidates: "proxy_step s (s\<lparr>pr_pool := invalidate_proxy i (pr_pool s)\<rparr>)"
| cools: "proxy_step s (s\<lparr>pr_pool := cooldown_proxy now seconds i (pr_pool s)\<rparr>)"
| stops: "proxy_step s (s\<lparr>pr_pool := stop_proxies (pr_pool s), pr_stopped := True\<rparr>)"

end
