(* ===== verification/Proxy_Props.thy ===== *)
theory Proxy_Props
  imports Proxy_Pool
begin

text \<open>
  What holds of the pool of proxy endpoints however its coroutines interleave: the number of
  endpoints, of leases of each and of running fetches stay within their limits, no two endpoints in use are the same
  node, and a fetch that is cancelled is counted as running for ever.
\<close>

section \<open>The invariant\<close>

definition proxy_slot_ok :: "proxies \<Rightarrow> nat \<Rightarrow> bool" where
  "proxy_slot_ok s i \<longleftrightarrow> (let p = pr_pool s; n = count (pr_leases s) i in
     (if i < pp_next p then ps_active (pp_store p i) = int n \<and> ps_active (pp_store p i) \<le> pp_contexts p else n = 0) \<and>
     (\<not> pr_stopped s \<longrightarrow> 0 < n \<longrightarrow> i \<in> set (pp_slots p)))"

definition nodes_differ :: "proxy_pool \<Rightarrow> bool" where
  "nodes_differ p \<longleftrightarrow> (\<forall>i \<in> set (pp_slots p). \<forall>j \<in> set (pp_slots p). i \<noteq> j \<longrightarrow>
     \<not> ps_invalid (pp_store p i) \<longrightarrow> \<not> ps_invalid (pp_store p j) \<longrightarrow> ps_node (pp_store p i) \<noteq> ps_node (pp_store p j))"

definition proxy_pool_ok :: "proxy_pool \<Rightarrow> bool" where
  "proxy_pool_ok p \<longleftrightarrow> distinct (pp_slots p) \<and> 1 \<le> pp_contexts p \<and> (\<forall>i \<in> set (pp_slots p). i < pp_next p) \<and>
     int (length (pp_slots p)) + pp_launching p \<le> pp_max p \<and> 0 \<le> pp_launching p \<and> pp_launching p \<le> pp_refreshes p \<and> nodes_differ p"

definition proxies_ok :: "proxies \<Rightarrow> bool" where
  "proxies_ok s \<longleftrightarrow> proxy_pool_ok (pr_pool s) \<and> (\<forall>i. proxy_slot_ok s i) \<and>
     (\<not> pr_stopped s \<longrightarrow> pp_launching (pr_pool s) = int (pr_fetching s + pr_lost s)) \<and>
     (pr_stopped s \<longleftrightarrow> pp_stopping (pr_pool s)) \<and> (pr_stopped s \<longrightarrow> pp_slots (pr_pool s) = [])"

lemma change_proxy_simps [simp]:
  "pp_store (change_proxy i f p) j = (if j = i then f (pp_store p i) else pp_store p j)"
  "pp_slots (change_proxy i f p) = pp_slots p" "pp_next (change_proxy i f p) = pp_next p"
  "pp_contexts (change_proxy i f p) = pp_contexts p" "pp_max (change_proxy i f p) = pp_max p"
  "pp_launching (change_proxy i f p) = pp_launching p" "pp_refreshes (change_proxy i f p) = pp_refreshes p"
  "pp_stopping (change_proxy i f p) = pp_stopping p"
  by (simp_all add: change_proxy_def)

lemma change_ok:
  assumes "proxy_pool_ok p" "\<And>x. ps_endpoint (f x) = ps_endpoint x \<and> (ps_invalid x \<longrightarrow> ps_invalid (f x))"
  shows "proxy_pool_ok (change_proxy i f p)"
  using assms by (auto simp: proxy_pool_ok_def nodes_differ_def)

lemma prune_ok: "proxy_pool_ok p \<Longrightarrow> proxy_pool_ok (prune_proxies p)"
proof -
  assume ok: "proxy_pool_ok p"
  have "length (pp_slots (prune_proxies p)) \<le> length (pp_slots p)" by (simp add: prune_proxies_def)
  moreover have "set (pp_slots (prune_proxies p)) \<subseteq> set (pp_slots p)" "distinct (pp_slots p) \<Longrightarrow> distinct (pp_slots (prune_proxies p))"
    by (auto simp: prune_proxies_def)
  moreover have "pp_store (prune_proxies p) = pp_store p" "pp_contexts (prune_proxies p) = pp_contexts p" "pp_max (prune_proxies p) = pp_max p"
    "pp_launching (prune_proxies p) = pp_launching p" "pp_refreshes (prune_proxies p) = pp_refreshes p" "pp_next (prune_proxies p) = pp_next p"
    by (simp_all add: prune_proxies_def)
  ultimately show ?thesis using ok unfolding proxy_pool_ok_def nodes_differ_def by auto
qed

lemma filter_in: "set (filter P xs) \<subseteq> set xs"
  by auto

lemma choose_in:
  assumes ne: "candidates \<noteq> []"
  shows "choose_proxy random draw p candidates \<in> set candidates"
proof -
  define active where "active = (\<lambda>i. ps_active (pp_store p i))"
  define least where "least = filter (\<lambda>i. \<forall>j \<in> set candidates. active i \<le> active j) candidates"
  have "Min (active ` set candidates) \<in> active ` set candidates" using ne by (intro Min_in) auto
  then obtain i where i: "i \<in> set candidates" "active i = Min (active ` set candidates)" by force
  have "\<forall>j \<in> set candidates. active i \<le> active j" unfolding i(2) by simp
  with i(1) have "i \<in> set least" by (simp add: least_def)
  then have ne': "least \<noteq> []" by auto
  have sub: "set least \<subseteq> set candidates" unfolding least_def by (rule filter_in)
  have "least ! (draw mod length least) \<in> set least" using ne' by (intro nth_mem mod_less_divisor) simp
  moreover have "set (sort_key (\<lambda>i. ps_node (pp_store p i)) least) = set least" by simp
  then have "hd (sort_key (\<lambda>i. ps_node (pp_store p i)) least) \<in> set least" using ne' by (metis hd_in_set set_empty)
  ultimately show ?thesis using sub
    unfolding choose_proxy_def Let_def least_def [unfolded active_def, symmetric] by (cases random) (simp_all add: subset_iff)
qed

text \<open>What a pass of \<open>acquire\<close> does.\<close>

lemma pass_cases:
  assumes "acquire_proxy now wall excluded random draw p = (p', a)"
  obtains (stop) "pp_stopping p" "p' = p" "a = ProxyStopping"
  | (lease) i where "\<not> pp_stopping p" "a = ProxyLease i" "i \<in> set (pp_slots (prune_proxies p))" "\<not> ps_invalid (pp_store p i)"
      "ps_active (pp_store p i) < pp_contexts p" "p' = change_proxy i (lease_proxy wall) (prune_proxies p)"
  | (fetch) known where "\<not> pp_stopping p" "a = ProxyFetch known" "p' = (prune_proxies p)\<lparr>pp_launching := pp_launching p + 1\<rparr>"
      "int (length (pp_slots (prune_proxies p))) + pp_launching p < pp_max p" "pp_launching p < pp_refreshes p"
  | (rest) "\<not> pp_stopping p" "p' = prune_proxies p" "a = ProxyWait \<or> (\<exists>t. a = ProxySleep t)"
proof -
  have same: "pp_store (prune_proxies p) = pp_store p" "pp_contexts (prune_proxies p) = pp_contexts p" "pp_max (prune_proxies p) = pp_max p"
    "pp_launching (prune_proxies p) = pp_launching p" "pp_refreshes (prune_proxies p) = pp_refreshes p"
    by (simp_all add: prune_proxies_def)
  let ?c = "filter (\<lambda>i. ps_cooldown (pp_store p i) \<le> now) (filter (usable_proxy excluded (prune_proxies p)) (pp_slots (prune_proxies p)))"
  show ?thesis
  proof (cases "pp_stopping p")
    case True
    then have "p' = p" "a = ProxyStopping" using assms by (simp_all add: acquire_proxy_def)
    with True stop show ?thesis by blast
  next
    case go: False
    show ?thesis
    proof (cases "?c = []")
      case True
      let ?wait = "max 0 (pp_not_before (prune_proxies p) - now)"
      let ?room = "int (length (pp_slots (prune_proxies p))) + pp_launching p < pp_max p \<and> pp_launching p < pp_refreshes p"
      consider "\<not> 0 < ?wait" "?room" | "0 < ?wait" | "\<not> 0 < ?wait" "\<not> ?room" by blast
      then show ?thesis
      proof cases
        case 1
        then have "\<exists>known. a = ProxyFetch known \<and> p' = (prune_proxies p)\<lparr>pp_launching := pp_launching p + 1\<rparr>"
          using assms go True by (auto simp: acquire_proxy_def Let_def same)
        with 1 go fetch show ?thesis by blast
      next
        case 2
        then have "p' = prune_proxies p \<and> (\<exists>t. a = ProxySleep t)" using assms go True by (auto simp: acquire_proxy_def Let_def same less_max_iff_disj)
        with go rest show ?thesis by blast
      next
        case 3
        then have "p' = prune_proxies p \<and> (a = ProxyWait \<or> (\<exists>t. a = ProxySleep t))"
          using assms go True by (auto simp: acquire_proxy_def Let_def same split: if_splits)
        with go rest show ?thesis by blast
      qed
    next
      case False
      let ?i = "choose_proxy random draw (prune_proxies p) ?c"
      have "a = ProxyLease ?i \<and> p' = change_proxy ?i (lease_proxy wall) (prune_proxies p)"
        using assms go False by (simp add: acquire_proxy_def Let_def same)
      moreover have "?i \<in> set (pp_slots (prune_proxies p)) \<and> usable_proxy excluded (prune_proxies p) ?i"
        using choose_in [OF False, of random draw "prune_proxies p"] by simp
      then have "?i \<in> set (pp_slots (prune_proxies p))" "\<not> ps_invalid (pp_store p ?i)" "ps_active (pp_store p ?i) < pp_contexts p"
        by (simp_all add: usable_proxy_def same)
      ultimately show ?thesis using go lease by blast
    qed
  qed
qed

section \<open>Every step keeps the invariant\<close>

lemma prune_same [simp]:
  "pp_store (prune_proxies p) = pp_store p" "pp_contexts (prune_proxies p) = pp_contexts p" "pp_max (prune_proxies p) = pp_max p"
  "pp_launching (prune_proxies p) = pp_launching p" "pp_refreshes (prune_proxies p) = pp_refreshes p"
  "pp_next (prune_proxies p) = pp_next p" "pp_stopping (prune_proxies p) = pp_stopping p"
  by (simp_all add: prune_proxies_def)

lemma prune_keeps: "i \<in> set (pp_slots p) \<Longrightarrow> ps_active (pp_store p i) \<noteq> 0 \<Longrightarrow> i \<in> set (pp_slots (prune_proxies p))"
  by (simp add: prune_proxies_def)

lemma prune_sub: "i \<in> set (pp_slots (prune_proxies p)) \<Longrightarrow> i \<in> set (pp_slots p)"
  by (simp add: prune_proxies_def)

lemma lease_simps [simp]:
  "ps_endpoint (lease_proxy w x) = ps_endpoint x" "ps_invalid (lease_proxy w x) = ps_invalid x" "ps_active (lease_proxy w x) = ps_active x + 1"
  by (simp_all add: lease_proxy_def)

text \<open>Slots that a step leaves alone, apart from taking unused ones out of the pool.\<close>

lemma proxy_slot_away:
  assumes "proxy_slot_ok s i" "count (pr_leases s') i = count (pr_leases s) i" "ps_active (pp_store (pr_pool s') i) = ps_active (pp_store (pr_pool s) i)"
    "pp_next (pr_pool s') = pp_next (pr_pool s)" "pp_contexts (pr_pool s') = pp_contexts (pr_pool s)"
    "\<not> pr_stopped s' \<Longrightarrow> \<not> pr_stopped s \<and> (i \<in> set (pp_slots (pr_pool s)) \<longrightarrow> ps_active (pp_store (pr_pool s) i) \<noteq> 0 \<longrightarrow> i \<in> set (pp_slots (pr_pool s')))"
  shows "proxy_slot_ok s' i"
  using assms by (auto simp: proxy_slot_ok_def Let_def count_eq_zero_iff split: if_splits)

lemma proxy_asks_ok:
  assumes ok: "proxies_ok s" and run: "acquire_proxy now wall excluded random draw (pr_pool s) = (p, a)"
  shows "proxies_ok (after_pass a (s\<lparr>pr_pool := p\<rparr>))"
proof -
  let ?p = "pr_pool s"
  have pool: "proxy_pool_ok ?p" and slots: "proxy_slot_ok s i" for i using ok by (simp_all add: proxies_ok_def)
  from run show ?thesis
  proof (cases rule: pass_cases)
    case stop
    then show ?thesis using ok by (simp add: after_pass_def)
  next
    case (lease i)
    have used: "i < pp_next ?p" using lease(3) pool prune_sub by (auto simp: proxy_pool_ok_def)
    have "proxy_slot_ok (after_pass a (s\<lparr>pr_pool := p\<rparr>)) j" for j
    proof (cases "j = i")
      case True
      then show ?thesis using slots [of i] lease used by (auto simp: proxy_slot_ok_def after_pass_def Let_def)
    next
      case False
      then show ?thesis using lease prune_keeps by (intro proxy_slot_away [OF slots [of j]]) (auto simp: after_pass_def)
    qed
    moreover have "proxy_pool_ok p" unfolding lease(6) by (rule change_ok [OF prune_ok [OF pool]]) simp
    ultimately show ?thesis using ok lease by (simp add: proxies_ok_def after_pass_def)
  next
    case (fetch known)
    have "proxy_slot_ok (after_pass a (s\<lparr>pr_pool := p\<rparr>)) j" for j
      using fetch prune_keeps by (intro proxy_slot_away [OF slots [of j]]) (auto simp: after_pass_def)
    moreover have "proxy_pool_ok p" using prune_ok [OF pool] fetch by (simp add: proxy_pool_ok_def nodes_differ_def)
    ultimately show ?thesis using ok fetch by (simp add: proxies_ok_def after_pass_def)
  next
    case rest
    then have same: "after_pass a (s\<lparr>pr_pool := p\<rparr>) = s\<lparr>pr_pool := p\<rparr>" by (auto simp: after_pass_def)
    have "proxy_slot_ok (s\<lparr>pr_pool := p\<rparr>) j" for j
      using rest prune_keeps by (intro proxy_slot_away [OF slots [of j]]) auto
    then show ?thesis using ok rest prune_ok [OF pool] unfolding same by (simp add: proxies_ok_def)
  qed
qed

lemma proxy_arrives_ok:
  assumes ok: "proxies_ok s" and fetching: "0 < pr_fetching s"
    and run: "proxy_arrived now wall excluded ep (pr_pool s) = (p, a)"
  shows "proxies_ok (after_arrival a (s\<lparr>pr_pool := p, pr_fetching := pr_fetching s - 1\<rparr>))"
proof -
  let ?p = "pr_pool s" and ?s' = "s\<lparr>pr_pool := p, pr_fetching := pr_fetching s - 1\<rparr>"
  have pool: "proxy_pool_ok ?p" and slots: "proxy_slot_ok s i" for i using ok by (simp_all add: proxies_ok_def)
  let ?P = "\<lambda>i. ps_node (pp_store ?p i) = ep_node ep \<and> \<not> ps_invalid (pp_store ?p i)"
  show ?thesis
  proof (cases "pp_stopping ?p")
    case True
    then have s': "a = ArrivedStopping" "pp_slots p = pp_slots ?p" "pp_store p = pp_store ?p" "pp_next p = pp_next ?p"
      "pp_contexts p = pp_contexts ?p" "pp_max p = pp_max ?p" "pp_refreshes p = pp_refreshes ?p" "pp_stopping p"
      "pp_launching p = max 0 (max 0 (pp_launching ?p - 1) - 1)"
      using run by (auto simp: proxy_arrived_def fetch_failed_def Let_def)
    then have "proxy_slot_ok ?s' j" for j by (intro proxy_slot_away [OF slots [of j]]) auto
    moreover have "proxy_pool_ok p" using pool s' by (auto simp: proxy_pool_ok_def nodes_differ_def)
    ultimately show ?thesis using ok s' True by (simp add: proxies_ok_def after_arrival_def)
  next
    case go: False
    then have count: "pp_launching ?p = int (pr_fetching s + pr_lost s)" "\<not> pr_stopped s" using ok by (auto simp: proxies_ok_def)
    show ?thesis
    proof (cases "find ?P (pp_slots ?p)")
      case None
      then have new: "\<not> ?P i" if "i \<in> set (pp_slots ?p)" for i using that by (simp add: find_None_iff)
      let ?n = "pp_next ?p"
      have s': "a = ArrivedLease ?n" "pp_slots p = pp_slots ?p @ [?n]" "pp_store p = (pp_store ?p)(?n := lease_proxy wall (new_endpoint ep))"
        "pp_next p = Suc ?n" "pp_contexts p = pp_contexts ?p" "pp_max p = pp_max ?p" "pp_refreshes p = pp_refreshes ?p"
        "pp_stopping p = pp_stopping ?p" "pp_launching p = max 0 (pp_launching ?p - 1)"
        using run go None by (auto simp: proxy_arrived_def fetch_done_def Let_def)
      have fresh: "?n \<notin> set (pp_slots ?p)" using pool by (auto simp: proxy_pool_ok_def)
      have "proxy_pool_ok p" using pool s' fresh new count fetching
        by (auto simp: proxy_pool_ok_def nodes_differ_def new_endpoint_def less_Suc_eq)
      moreover have "proxy_slot_ok (after_arrival a ?s') j" for j
        using slots [of j] s' pool by (cases "j = ?n") (auto simp: proxy_slot_ok_def Let_def after_arrival_def new_endpoint_def proxy_pool_ok_def)
      ultimately show ?thesis using ok s' count fetching go by (simp add: proxies_ok_def after_arrival_def)
    next
      case (Some i)
      then have i: "i \<in> set (pp_slots ?p)" "?P i" by (auto simp: find_Some_iff)
      then have used: "i < pp_next ?p" using pool by (auto simp: proxy_pool_ok_def)
      show ?thesis
      proof (cases "ps_node (pp_store ?p i) \<notin> set excluded \<and> ps_active (pp_store ?p i) < pp_contexts ?p")
        case True
        have s': "a = ArrivedLease i" "pp_slots p = pp_slots ?p" "pp_store p = (pp_store ?p)(i := lease_proxy wall (pp_store ?p i))"
          "pp_next p = pp_next ?p" "pp_contexts p = pp_contexts ?p" "pp_max p = pp_max ?p" "pp_refreshes p = pp_refreshes ?p"
          "pp_stopping p = pp_stopping ?p" "pp_launching p = max 0 (pp_launching ?p - 1)"
          using run go Some True by (auto simp: proxy_arrived_def fetch_done_def change_proxy_def Let_def)
        have "proxy_pool_ok p" using pool s' by (auto simp: proxy_pool_ok_def nodes_differ_def)
        moreover have "proxy_slot_ok (after_arrival a ?s') j" for j
          using slots [of j] s' True used i(1) by (cases "j = i") (auto simp: proxy_slot_ok_def Let_def after_arrival_def)
        ultimately show ?thesis using ok s' count fetching go by (simp add: proxies_ok_def after_arrival_def)
      next
        case False
        have s': "a = ArrivedSaturated" "p = ?p\<lparr>pp_launching := max 0 (pp_launching ?p - 1)\<rparr>"
          using run go Some False by (auto simp: proxy_arrived_def Let_def)
        then have "proxy_slot_ok ?s' j" for j by (intro proxy_slot_away [OF slots [of j]]) auto
        moreover have "proxy_pool_ok p" using pool s' by (auto simp: proxy_pool_ok_def nodes_differ_def)
        ultimately show ?thesis using ok s' count fetching go by (simp add: proxies_ok_def after_arrival_def)
      qed
    qed
  qed
qed

lemma release_store:
  "pp_store (release_proxy i p) = (pp_store p)(i := (pp_store p i)\<lparr>ps_active := max 0 (ps_active (pp_store p i) - 1)\<rparr>)"
  "pp_next (release_proxy i p) = pp_next p" "pp_contexts (release_proxy i p) = pp_contexts p"
  "pp_max (release_proxy i p) = pp_max p" "pp_refreshes (release_proxy i p) = pp_refreshes p"
  "pp_launching (release_proxy i p) = pp_launching p" "pp_stopping (release_proxy i p) = pp_stopping p"
  by (simp_all add: release_proxy_def Let_def change_proxy_def)

lemma release_slots:
  "set (pp_slots (release_proxy i p)) \<subseteq> set (pp_slots p)" "length (pp_slots (release_proxy i p)) \<le> length (pp_slots p)"
  "distinct (pp_slots p) \<Longrightarrow> distinct (pp_slots (release_proxy i p))"
  "j \<in> set (pp_slots p) \<Longrightarrow> j \<noteq> i \<or> 1 < ps_active (pp_store p i) \<Longrightarrow> j \<in> set (pp_slots (release_proxy i p))"
  by (auto simp: release_proxy_def Let_def length_remove1 dest: set_remove1_subset [THEN subsetD])

lemma proxy_releases_ok:
  assumes ok: "proxies_ok s" and i: "i \<in># pr_leases s"
  shows "proxies_ok (s\<lparr>pr_pool := release_proxy i (pr_pool s), pr_leases := pr_leases s - {#i#}\<rparr>)"
proof -
  let ?s' = "s\<lparr>pr_pool := release_proxy i (pr_pool s), pr_leases := pr_leases s - {#i#}\<rparr>"
  have pool: "proxy_pool_ok (pr_pool s)" and slots: "proxy_slot_ok s j" for j using ok by (simp_all add: proxies_ok_def)
  obtain n where n: "count (pr_leases s) i = Suc n" using i by (metis count_greater_zero_iff gr0_implies_Suc)
  have "proxy_slot_ok ?s' j" for j
  proof (cases "j = i")
    case True
    then show ?thesis using slots [of i] n release_slots(4) [of i "pr_pool s" i]
      by (auto simp: proxy_slot_ok_def Let_def release_store split: if_splits)
  next
    case False
    then show ?thesis using release_slots(4) [of j "pr_pool s" i]
      by (intro proxy_slot_away [OF slots [of j]]) (auto simp: release_store)
  qed
  moreover have "proxy_pool_ok (release_proxy i (pr_pool s))"
    using pool release_slots(1,2) [of i "pr_pool s"] release_slots(3) [of "pr_pool s" i] by (auto simp: proxy_pool_ok_def nodes_differ_def release_store)
  moreover have "pr_stopped s \<longrightarrow> pp_slots (release_proxy i (pr_pool s)) = []"
    using ok release_slots(1) [of i "pr_pool s"] by (auto simp: proxies_ok_def)
  ultimately show ?thesis using ok by (simp add: proxies_ok_def release_store)
qed

text \<open>Steps that change neither slots nor leases.\<close>

lemma proxy_same_ok:
  assumes "proxies_ok s" "proxy_pool_ok p" "pp_slots p = pp_slots (pr_pool s)" "\<And>i. ps_active (pp_store p i) = ps_active (pp_store (pr_pool s) i)"
    "pp_next p = pp_next (pr_pool s)" "pp_contexts p = pp_contexts (pr_pool s)" "pp_stopping p = pp_stopping (pr_pool s)"
    "\<not> pr_stopped s \<Longrightarrow> pp_launching p = int (f + l)"
  shows "proxies_ok (s\<lparr>pr_pool := p, pr_fetching := f, pr_lost := l\<rparr>)"
proof -
  have "proxy_slot_ok (s\<lparr>pr_pool := p, pr_fetching := f, pr_lost := l\<rparr>) j" for j
    by (rule proxy_slot_away [of s j]) (use assms in \<open>simp_all add: proxies_ok_def\<close>)
  with assms show ?thesis by (simp add: proxies_ok_def)
qed

lemma proxy_step_ok:
  assumes "proxy_step s s'" "proxies_ok s"
  shows "proxies_ok s'"
  using assms
proof (induction rule: proxy_step.induct)
  case (asks now wall excluded random draw s p a)
  then show ?case by (rule proxy_asks_ok [rotated])
next
  case (paced s now)
  then have "proxies_ok (s\<lparr>pr_pool := (pr_pool s)\<lparr>pp_last_fetch := now\<rparr>, pr_fetching := pr_fetching s, pr_lost := pr_lost s\<rparr>)"
    by (intro proxy_same_ok) (auto simp: proxies_ok_def proxy_pool_ok_def nodes_differ_def)
  then show ?case by simp
next
  case (arrives s excluded known outcomes ep now wall p a)
  then show ?case by (intro proxy_arrives_ok)
next
  case (fails s excluded known outcomes msg now)
  let ?p = "fetch_failed now (u ''RuntimeError: '' @ msg) (pr_pool s)"
  have "proxies_ok (s\<lparr>pr_pool := ?p, pr_fetching := pr_fetching s - 1, pr_lost := pr_lost s\<rparr>)"
    by (rule proxy_same_ok)
      (use fails in \<open>auto simp: proxies_ok_def proxy_pool_ok_def nodes_differ_def fetch_failed_def Let_def\<close>)
  then show ?case by simp
next
  case (probe_raises s now msg)
  let ?p = "fetch_failed now msg (pr_pool s)"
  have "proxies_ok (s\<lparr>pr_pool := ?p, pr_fetching := pr_fetching s - 1, pr_lost := pr_lost s\<rparr>)"
    by (rule proxy_same_ok)
      (use probe_raises in \<open>auto simp: proxies_ok_def proxy_pool_ok_def nodes_differ_def fetch_failed_def Let_def\<close>)
  then show ?case by simp
next
  case (cancelled s)
  have "proxies_ok (s\<lparr>pr_pool := pr_pool s, pr_fetching := pr_fetching s - 1, pr_lost := Suc (pr_lost s)\<rparr>)"
    by (rule proxy_same_ok) (use cancelled in \<open>auto simp: proxies_ok_def\<close>)
  then show ?case by simp
next
  case (releases i s)
  then show ?case by (rule proxy_releases_ok [rotated])
next
  case (invalidates s i)
  then have "proxy_pool_ok (invalidate_proxy i (pr_pool s))"
    unfolding invalidate_proxy_def by (intro change_ok) (simp_all add: proxies_ok_def)
  then have "proxies_ok (s\<lparr>pr_pool := invalidate_proxy i (pr_pool s), pr_fetching := pr_fetching s, pr_lost := pr_lost s\<rparr>)"
    using invalidates by (intro proxy_same_ok) (auto simp: proxies_ok_def invalidate_proxy_def)
  then show ?case by simp
next
  case (cools s now seconds i)
  then have "proxy_pool_ok (cooldown_proxy now seconds i (pr_pool s))"
    unfolding cooldown_proxy_def by (intro change_ok) (simp_all add: proxies_ok_def)
  then have "proxies_ok (s\<lparr>pr_pool := cooldown_proxy now seconds i (pr_pool s), pr_fetching := pr_fetching s, pr_lost := pr_lost s\<rparr>)"
    using cools by (intro proxy_same_ok) (auto simp: proxies_ok_def cooldown_proxy_def)
  then show ?case by simp
next
  case (stops s)
  then have slots: "proxy_slot_ok s i" for i by (simp add: proxies_ok_def)
  then have "proxy_slot_ok (s\<lparr>pr_pool := stop_proxies (pr_pool s), pr_stopped := True\<rparr>) i" for i
    by (intro proxy_slot_away [OF slots [of i]]) (simp_all add: stop_proxies_def)
  with stops show ?case by (auto simp: proxies_ok_def stop_proxies_def proxy_pool_ok_def nodes_differ_def)
qed

lemma proxies_reachable: "proxy_step\<^sup>*\<^sup>* (new_proxies e c r t) s \<Longrightarrow> proxies_ok s"
proof (induction rule: rtranclp_induct)
  case base
  show ?case by (auto simp: proxies_ok_def new_proxies_def new_proxy_pool_def proxy_pool_ok_def nodes_differ_def proxy_slot_ok_def)
qed (rule proxy_step_ok)

lemma acquire_proxy_limits:
  "acquire_proxy now wall excluded random draw p = (p', a) \<Longrightarrow>
    pp_max p' = pp_max p \<and> pp_contexts p' = pp_contexts p \<and> pp_refreshes p' = pp_refreshes p"
  by (erule pass_cases) simp_all

lemma arrived_limits:
  "proxy_arrived now wall excluded ep p = (p', a) \<Longrightarrow>
    pp_max p' = pp_max p \<and> pp_contexts p' = pp_contexts p \<and> pp_refreshes p' = pp_refreshes p"
  by (auto simp: proxy_arrived_def fetch_failed_def fetch_done_def Let_def split: if_splits option.splits)

lemma after_pool [simp]: "pr_pool (after_pass b s) = pr_pool s" "pr_pool (after_arrival c s) = pr_pool s"
  "pr_lost (after_pass b s) = pr_lost s" "pr_lost (after_arrival c s) = pr_lost s"
  "pr_stopped (after_pass b s) = pr_stopped s" "pr_stopped (after_arrival c s) = pr_stopped s"
  by (simp_all add: after_pass_def after_arrival_def split: proxy_pass.splits arrival.splits)

lemma proxy_step_limits:
  "proxy_step s s' \<Longrightarrow> pp_max (pr_pool s') = pp_max (pr_pool s) \<and> pp_contexts (pr_pool s') = pp_contexts (pr_pool s) \<and>
     pp_refreshes (pr_pool s') = pp_refreshes (pr_pool s) \<and> pr_lost s \<le> pr_lost s' \<and> (pr_stopped s \<longrightarrow> pr_stopped s')"
  by (induction rule: proxy_step.induct)
    (auto dest: acquire_proxy_limits arrived_limits
      simp: release_store invalidate_proxy_def cooldown_proxy_def stop_proxies_def fetch_failed_def Let_def)

lemma proxy_steps_limits:
  "proxy_step\<^sup>*\<^sup>* s s' \<Longrightarrow> pp_max (pr_pool s') = pp_max (pr_pool s) \<and> pp_contexts (pr_pool s') = pp_contexts (pr_pool s) \<and>
     pp_refreshes (pr_pool s') = pp_refreshes (pr_pool s) \<and> pr_lost s \<le> pr_lost s' \<and> (pr_stopped s \<longrightarrow> pr_stopped s')"
  by (induction rule: rtranclp_induct) (auto dest!: proxy_step_limits)


text \<open>C15: a fetch that is cancelled is counted as running for ever. When so many were cancelled as may run at a
  time, the pool never fetches an endpoint again: who asks gets one that is there, waits or sleeps.\<close>

theorem cancelled_fetches_block:
  assumes "proxy_step\<^sup>*\<^sup>* (new_proxies endpoints contexts refreshes interval) s"
    "max 1 (min (max 1 endpoints) refreshes) \<le> int (pr_lost s)"
    "proxy_step\<^sup>*\<^sup>* s s'" "\<not> pr_stopped s'"
    "acquire_proxy now wall excluded random draw (pr_pool s') = (p, a)"
  shows "a \<noteq> ProxyFetch known \<and> pr_fetching s' = 0"
proof -
  have reached: "proxy_step\<^sup>*\<^sup>* (new_proxies endpoints contexts refreshes interval) s'" using assms(1,3) by simp
  have ok: "proxies_ok s'" by (rule proxies_reachable [OF reached])
  have "pp_refreshes (pr_pool s') = max 1 (min (max 1 endpoints) refreshes)"
    using proxy_steps_limits [OF reached] by (simp add: new_proxies_def new_proxy_pool_def)
  moreover have "pr_lost s \<le> pr_lost s'" using proxy_steps_limits [OF assms(3)] by simp
  moreover have "pp_launching (pr_pool s') = int (pr_fetching s' + pr_lost s')" "pp_launching (pr_pool s') \<le> pp_refreshes (pr_pool s')"
    using ok assms(4) by (simp_all add: proxies_ok_def proxy_pool_ok_def)
  ultimately have full: "pp_refreshes (pr_pool s') \<le> pp_launching (pr_pool s')" and "pr_fetching s' = 0" using assms(2) by linarith+
  moreover have "a \<noteq> ProxyFetch known" using assms(5) full by (cases rule: pass_cases) auto
  ultimately show ?thesis by simp
qed

text \<open>A pool of one endpoint, asked once, whose fetch is then cancelled.\<close>

definition fetching_pool :: proxies where
  "fetching_pool = (new_proxies 1 1 1 0)\<lparr>pr_pool := (new_proxy_pool 1 1 1 0)\<lparr>pp_launching := 1\<rparr>, pr_fetching := 1\<rparr>"

lemma fetching_reached: "proxy_step\<^sup>*\<^sup>* (new_proxies 1 1 1 0) fetching_pool"
proof -
  have "acquire_proxy 0 0 [] False 0 (pr_pool (new_proxies 1 1 1 0)) = ((new_proxy_pool 1 1 1 0)\<lparr>pp_launching := 1\<rparr>, ProxyFetch [])"
    by (simp add: acquire_proxy_def new_proxies_def new_proxy_pool_def prune_proxies_def)
  from proxy_step.asks [OF this] show ?thesis
    by (intro r_into_rtranclp) (simp add: fetching_pool_def after_pass_def new_proxies_def)
qed


theorem cancelled_fetches_block_witness:
  "\<exists>s p a. proxy_step\<^sup>*\<^sup>* (new_proxies 1 1 1 0) s \<and> pr_lost s = 1 \<and> pr_leases s = {#} \<and>
     acquire_proxy 7 7 [] False 0 (pr_pool s) = (p, a) \<and> a \<noteq> ProxyFetch []"
proof -
  let ?s = "fetching_pool\<lparr>pr_fetching := pr_fetching fetching_pool - 1, pr_lost := Suc (pr_lost fetching_pool)\<rparr>"
  have "proxy_step fetching_pool ?s" by (rule proxy_step.cancelled) (simp add: fetching_pool_def)
  with fetching_reached have reached: "proxy_step\<^sup>*\<^sup>* (new_proxies 1 1 1 0) ?s" by simp
  obtain p a where ask: "acquire_proxy 7 7 [] False 0 (pr_pool ?s) = (p, a)"
    by (cases "acquire_proxy 7 7 [] False 0 (pr_pool ?s)")
  have "a \<noteq> ProxyFetch []"
    using cancelled_fetches_block [OF reached _ rtranclp.rtrancl_refl _ ask, of "[]"] by (simp add: fetching_pool_def new_proxies_def)
  moreover have "pr_lost ?s = 1" "pr_leases ?s = {#}" by (simp_all add: fetching_pool_def new_proxies_def)
  ultimately show ?thesis using reached ask by blast
qed

end
