(* ===== verification/Spec2Isabelle.thy ===== *)
theory Spec2Isabelle
  imports Temp_Props Resilience Task_Queue_Props Account_Props Batch_Props User_Props Retry_Task_Props Sched_Props Codes_Props Verification_Props
    Access_Props Account_Upkeep_Props Worker_Run_Props Browser_Props Proxy_Props
begin

text \<open>
  The task service: prices, token balances, load control, the task store and the task queue.
\<close>

end
